(* ===== verification/Codec.thy ===== *)
theory Codec
  imports Prelude
begin

text \<open>
  The interface between a wire format and the parsers that read it. A decoder takes the whole
  buffer and an offset, as the Rust readers do, and returns a value with the offset after it.
  The locale \<open>prefix_codec\<close> states the two laws such a reader has to keep with its writer, and
  proves once that a counted loop over the reader keeps them too.
\<close>

text \<open>The loop \<open>for _ in 0..n { ...; items.push(item) }\<close> over a reader of one item.\<close>

fun read_times :: "nat \<Rightarrow> (nat \<Rightarrow> 'e + ('a \<times> nat)) \<Rightarrow> nat \<Rightarrow> 'e + ('a list \<times> nat)" where
  "read_times 0 item offset = Inr ([], offset)"
| "read_times (Suc n) item offset =
     and_then (item offset) (\<lambda>(x, offset).
       and_then (read_times n item offset) (\<lambda>(xs, offset). Inr (x # xs, offset)))"

lemma drop_past: "drop offset bs = xs @ ys \<Longrightarrow> drop (offset + length xs) bs = ys"
  by (metis add.commute append_eq_conv_conj drop_drop)

lemma drop_past_one: "drop offset bs = x # ys \<Longrightarrow> drop (Suc offset) bs = ys"
  using drop_past [of offset bs "[x]" ys] by simp

lemma get_at_drop_Cons: "drop offset bs = x # ys \<Longrightarrow> get_at bs offset = Some x"
  by (auto simp: get_at_drop)

lemma drop_get_at: "get_at bs offset = Some x \<Longrightarrow> drop offset bs = x # drop (Suc offset) bs"
  by (simp add: get_at_eq_Some Cons_nth_drop_Suc)

lemma get_range_drop:
  assumes "drop offset bs = xs @ ys" and "xs \<noteq> [] \<or> offset \<le> length bs"
  shows "get_range bs offset (offset + length xs) = Some xs"
proof -
  have "length bs - offset = length xs + length ys"
    using arg_cong [OF assms(1), of length] by simp
  with assms show ?thesis by (cases xs) (auto simp: get_range_def)
qed

lemma drop_get_range:
  "get_range bs offset stop = Some xs \<Longrightarrow> drop offset bs = xs @ drop stop bs \<and> stop = offset + length xs"
  by (auto simp: get_range_def split: if_splits)
     (metis append_take_drop_id drop_drop le_add_diff_inverse2 add.commute)

locale prefix_codec =
  fixes enc :: "'a \<Rightarrow> bytes"
    and dec :: "bytes \<Rightarrow> nat \<Rightarrow> 'e + ('a \<times> nat)"
    and wf :: "'a \<Rightarrow> bool"
  assumes dec_enc: "wf x \<Longrightarrow> drop offset bs = enc x @ rest \<Longrightarrow> length bs < USIZE_LIMIT \<Longrightarrow>
      dec bs offset = Inr (x, offset + length (enc x))"
    and enc_dec: "dec bs offset = Inr (x, offset') \<Longrightarrow>
      wf x \<and> offset' = offset + length (enc x) \<and> drop offset bs = enc x @ drop offset' bs"
begin

lemma read_times_enc:
  assumes "list_all wf xs" and "drop offset bs = concat (map enc xs) @ rest" and "length bs < USIZE_LIMIT"
  shows "read_times (length xs) (dec bs) offset = Inr (xs, offset + length (concat (map enc xs)))"
  using assms(1,2)
proof (induction xs arbitrary: offset)
  case Nil
  then show ?case by simp
next
  case (Cons x xs)
  have d: "drop offset bs = enc x @ (concat (map enc xs) @ rest)"
    using Cons.prems(2) by simp
  have "dec bs offset = Inr (x, offset + length (enc x))"
    using Cons.prems(1) d assms(3) by (intro dec_enc) auto
  moreover have "read_times (length xs) (dec bs) (offset + length (enc x))
      = Inr (xs, offset + length (enc x) + length (concat (map enc xs)))"
    using Cons.prems(1) drop_past [OF d] by (intro Cons.IH) auto
  ultimately show ?case by simp
qed

lemma enc_read_times:
  "read_times n (dec bs) offset = Inr (xs, offset') \<Longrightarrow>
   length xs = n \<and> list_all wf xs \<and> offset' = offset + length (concat (map enc xs))
   \<and> drop offset bs = concat (map enc xs) @ drop offset' bs"
proof (induction n arbitrary: offset xs)
  case 0
  then show ?case by simp
next
  case (Suc n)
  from Suc.prems obtain x o1 ys where x: "dec bs offset = Inr (x, o1)"
    and ys: "read_times n (dec bs) o1 = Inr (ys, offset')" and xs: "xs = x # ys"
    by (auto simp: and_then_eq_Inr split: prod.splits)
  from enc_dec [OF x] Suc.IH [OF ys] show ?case
    by (simp add: xs)
qed

text \<open>Two accepted readings at the same place with the same text give the same value.\<close>

lemma enc_injective:
  assumes "wf x" and "wf y" and "enc x = enc y" and "length (enc x) < USIZE_LIMIT"
  shows "x = y"
proof -
  have "dec (enc x) 0 = Inr (x, 0 + length (enc x))"
    using assms(1,4) by (intro dec_enc [where rest = "[]"]) simp_all
  moreover have "dec (enc x) 0 = Inr (y, 0 + length (enc y))"
    using assms(2,3,4) by (intro dec_enc [where rest = "[]"]) simp_all
  ultimately show ?thesis by simp
qed

end

end
