(* ===== verification/ShortVec.thy ===== *)
theory ShortVec
  imports Codec
begin

text \<open>
  The strict short-vector length prefix of \<open>bloom-solana-verify/src/short_vec.rs\<close>: reading a
  canonical \<open>ShortU16\<close>, writing one, and reading a length-prefixed byte string. The lemmas show
  that reading is exactly the inverse of writing: every prefix the reader accepts is the one
  the writer produces, so a length has a single accepted spelling.
\<close>

section \<open>The codec\<close>

definition SHORT_VEC_MAX_LEN_BYTES :: nat where
  "SHORT_VEC_MAX_LEN_BYTES = 3"

datatype ShortVecError =
    SV_Alias
  | SV_Overflow
  | SV_TooLong
  | SV_ByteThreeContinues
  | SV_Truncated string

text \<open>\<open>u32::checked_shl\<close>: \<open>None\<close> when the shift is not below the width.\<close>

definition checked_shl :: "u32 \<Rightarrow> nat \<Rightarrow> u32 option" where
  "checked_shl x n = (if n < 32 then Some (push_bit n x) else None)"

text \<open>One iteration of the reading loop per call; \<open>k\<close> is the loop variable \<open>nth\<close>.\<close>

function read_short_vec_from :: "bytes \<Rightarrow> nat \<Rightarrow> u32 \<Rightarrow> nat \<Rightarrow> ShortVecError + (u16 \<times> nat)" where
  "read_short_vec_from bytes offset value k =
     (if k < SHORT_VEC_MAX_LEN_BYTES then
        and_then (ok_or (get_at bytes offset) (SV_Truncated ''length prefix'')) (\<lambda>elem.
          if elem = 0 \<and> k \<noteq> 0 then Inl SV_Alias
          else if k = SHORT_VEC_MAX_LEN_BYTES - 1 \<and> elem AND 0x80 \<noteq> 0 then Inl SV_ByteThreeContinues
          else
            and_then (ok_or (checked_shl (ucast (elem AND 0x7f)) (k * 7)) SV_Overflow) (\<lambda>shifted.
            and_then (ok_or (checked_add value shifted) SV_Overflow) (\<lambda>value'.
              if 2 ^ 16 \<le> unat value' then Inl SV_Overflow
              else if elem AND 0x80 = 0 then Inr (ucast value', offset + 1)
              else read_short_vec_from bytes (offset + 1) value' (k + 1))))
      else Inl SV_TooLong)"
  by pat_completeness auto
termination
  by (relation "measure (\<lambda>(bytes, offset, value, k). SHORT_VEC_MAX_LEN_BYTES - k)") auto

definition read_short_vec :: "bytes \<Rightarrow> nat \<Rightarrow> ShortVecError + (u16 \<times> nat)" where
  "read_short_vec bytes offset = read_short_vec_from bytes offset 0 0"

text \<open>The writing loop returns the bytes it pushes onto the output vector.\<close>

function write_short_vec :: "u16 \<Rightarrow> bytes" where
  "write_short_vec rem =
     (if drop_bit 7 rem = 0 then [ucast (rem AND 0x7f)]
      else (ucast (rem AND 0x7f) OR 0x80) # write_short_vec (drop_bit 7 rem))"
  by pat_completeness auto
termination
proof (relation "measure unat")
  fix rem :: u16
  assume a: "drop_bit 7 rem \<noteq> 0"
  have "unat (drop_bit 7 rem) = unat rem div 2 ^ 7"
    by (simp add: drop_bit_eq_div unat_div_distrib)
  moreover have "unat (drop_bit 7 rem) \<noteq> 0"
    using a by (simp add: unat_eq_zero)
  ultimately show "(drop_bit 7 rem, rem) \<in> measure unat"
    by simp
qed simp

declare read_short_vec_from.simps [simp del] write_short_vec.simps [simp del]

text \<open>
  \<open>offset.checked_add(len)\<close> is on \<open>usize\<close>, of 64 bits; the offset stays where it was when the
  bytes are missing.
\<close>

definition read_short_vec_bytes :: "bytes \<Rightarrow> nat \<Rightarrow> string \<Rightarrow> ShortVecError + (bytes \<times> nat)" where
  "read_short_vec_bytes bytes offset what =
     and_then (read_short_vec bytes offset) (\<lambda>(len, offset).
       let stop = offset + unat len in
       if USIZE_LIMIT \<le> stop then Inl SV_Overflow
       else and_then (ok_or (get_range bytes offset stop) (SV_Truncated what)) (\<lambda>slice. Inr (slice, stop)))"

section \<open>Bytes as numbers\<close>

text \<open>A property of bytes is checked by running over all of them.\<close>

lemma u8_all: "list_all (\<lambda>n. P (of_nat n :: u8)) [0..<256] \<Longrightarrow> P x"
proof -
  assume "list_all (\<lambda>n. P (of_nat n :: u8)) [0..<256]"
  moreover have "unat x \<in> set [0..<256]"
    using unsigned_less [of x, where 'a = nat] by simp
  ultimately have "P (of_nat (unat x))"
    by (simp only: list_all_iff)
  then show "P x" by simp
qed

lemma u8_high_bit: "elem AND 0x80 = 0 \<longleftrightarrow> unat elem < 128" for elem :: u8
  by (rule u8_all) code_simp

lemma u8_low_bits: "unat (elem AND 0x7f) = unat elem mod 128" for elem :: u8
  by (rule u8_all) code_simp

lemma u8_set_high_bit: "unat elem < 128 \<longrightarrow> unat (elem OR 0x80) = unat elem + 128" for elem :: u8
  by (rule u8_all) code_simp

lemma u16_low_bits: "unat (ucast (rem AND 0x7f) :: u8) = unat rem mod 128" for rem :: u16
proof -
  have "rem AND 0x7f = take_bit 7 rem"
    by (simp add: take_bit_eq_mask mask_eq_exp_minus_1)
  then have "unat (rem AND 0x7f) = unat rem mod 128"
    by (simp add: take_bit_eq_mod unat_mod_distrib)
  then show ?thesis
    by (simp add: unsigned_ucast_eq take_bit_eq_mod)
qed

lemma u16_rest: "unat (drop_bit 7 rem) = unat rem div 128" for rem :: u16
  by (simp add: drop_bit_eq_div unat_div_distrib)

section \<open>The loops on numbers\<close>

lemma read_step:
  assumes "unat acc < 2 ^ 16" and "k < 3"
  shows "read_short_vec_from bytes offset acc k =
    (case get_at bytes offset of None \<Rightarrow> Inl (SV_Truncated ''length prefix'')
     | Some e \<Rightarrow>
         if e = 0 \<and> k \<noteq> 0 then Inl SV_Alias
         else if k = 2 \<and> 128 \<le> unat e then Inl SV_ByteThreeContinues
         else let n = unat acc + unat e mod 128 * 128 ^ k in
           if 2 ^ 16 \<le> n then Inl SV_Overflow
           else if unat e < 128 then Inr (of_nat n, offset + 1)
           else read_short_vec_from bytes (offset + 1) (of_nat n) (k + 1))"
proof (cases "get_at bytes offset")
  case None
  then show ?thesis
    using assms by (simp add: read_short_vec_from.simps SHORT_VEC_MAX_LEN_BYTES_def)
next
  case (Some e)
  let ?shifted = "push_bit (k * 7) (ucast (e AND 0x7f) :: u32)"
  have low: "unat (ucast (e AND 0x7f) :: u32) = unat e mod 128"
    by (simp add: unsigned_ucast_eq take_bit_eq_mod u8_low_bits)
  have k: "k = 0 \<or> k = 1 \<or> k = 2" using assms(2) by auto
  have shifted: "unat ?shifted = unat e mod 128 * 128 ^ k"
    using k by (auto simp: push_bit_eq_mult unat_word_ariths low)
  have small: "unat e mod 128 * 128 ^ k < 2 ^ 21"
    using k by auto
  have add: "checked_add acc ?shifted = Some (acc + ?shifted)"
    using assms(1) small by (simp add: checked_add_def shifted)
  then have n: "unat (acc + ?shifted) = unat acc + unat e mod 128 * 128 ^ k"
    by (simp add: unat_checked_add shifted)
  have word: "acc + ?shifted = of_nat (unat acc + unat e mod 128 * 128 ^ k)"
    by (simp flip: n)
  have cast: "ucast (acc + ?shifted) = (of_nat (unat acc + unat e mod 128 * 128 ^ k) :: u16)"
    by (simp flip: n)
  have shl: "checked_shl (ucast (e AND 0x7f)) (k * 7) = Some ?shifted"
    using k by (auto simp: checked_shl_def)
  have high: "e AND 0x80 = 0 \<longleftrightarrow> unat e < 128" by (rule u8_high_bit)
  show ?thesis
    using assms(2)
    by (subst read_short_vec_from.simps)
       (simp add: SHORT_VEC_MAX_LEN_BYTES_def Some shl add n high cast Let_def
           del: of_nat_add of_nat_mult of_nat_power flip: word)
qed

lemma write_step:
  "write_short_vec v =
    (if unat v < 128 then [of_nat (unat v)]
     else of_nat (unat v mod 128 + 128) # write_short_vec (of_nat (unat v div 128)))"
proof -
  have rest: "drop_bit 7 v = of_nat (unat v div 128)"
    by (rule eq_of_natI) (rule u16_rest)
  have small: "drop_bit 7 v = 0 \<longleftrightarrow> unat v < 128"
    using u16_rest [of v] unat_eq_zero [of "drop_bit 7 v"] by auto
  have low: "ucast (v AND 0x7f) = (of_nat (unat v mod 128) :: u8)"
    by (rule eq_of_natI) (rule u16_low_bits)
  have "unat (ucast (v AND 0x7f) OR 0x80 :: u8) = unat v mod 128 + 128"
    by (simp add: u8_set_high_bit u16_low_bits)
  then have high: "ucast (v AND 0x7f) OR 0x80 = (of_nat (unat v mod 128 + 128) :: u8)"
    by (rule eq_of_natI)
  show ?thesis
  proof (cases "unat v < 128")
    case True
    then have "drop_bit 7 v = 0" by (simp only: small)
    then show ?thesis
      using low True by (subst write_short_vec.simps) (simp add: mod_less [OF True])
  next
    case False
    then have "drop_bit 7 v \<noteq> 0" by (simp only: small not_False_eq_True)
    then show ?thesis
      by (subst write_short_vec.simps) (simp only: False if_False high rest)
  qed
qed

lemma write_small: "n < 128 \<Longrightarrow> write_short_vec (of_nat n) = [of_nat n]"
  by (subst write_step) (simp add: unat_of_nat)

lemma write_large:
  "128 \<le> n \<Longrightarrow> n < 65536 \<Longrightarrow>
   write_short_vec (of_nat n) = of_nat (n mod 128 + 128) # write_short_vec (of_nat (n div 128))"
  by (subst write_step) (simp add: unat_of_nat)

section \<open>Reading inverts writing\<close>

text \<open>
  The reader accepts a prefix only when it is what the writer produces for the acc it
  returns.
\<close>

lemma high_byte:
  "\<not> unat e < 128 \<Longrightarrow> e = of_nat (unat e mod 128 + 128)" for e :: u8
  using unsigned_less [of e, where 'a = nat] by (auto intro!: eq_of_natI simp: mod_if)

lemma read_from_canonical:
  assumes "read_short_vec_from bytes offset acc k = Inr (v, offset')" and "k < 3"
    and "unat acc < 2 ^ 16"
  shows "\<exists>w. unat v = unat acc + unat w * 128 ^ k \<and> (k \<noteq> 0 \<longrightarrow> w \<noteq> 0)
    \<and> take offset' bytes = take offset bytes @ write_short_vec w
    \<and> offset' = offset + length (write_short_vec w) \<and> offset' \<le> length bytes"
  using assms
proof (induction n \<equiv> "3 - k" arbitrary: k offset acc)
  case 0
  then show ?case by simp
next
  case (Suc n)
  from Suc.prems obtain e where e: "get_at bytes offset = Some e"
    by (auto simp: read_step split: option.splits)
  let ?n = "unat acc + unat e mod 128 * 128 ^ k"
  from Suc.prems e have nz: "k \<noteq> 0 \<longrightarrow> e \<noteq> 0" and small: "?n < 2 ^ 16"
    by (auto simp: read_step Let_def split: if_splits)
  have tk: "take (Suc offset) bytes = take offset bytes @ [e]" "Suc offset \<le> length bytes"
    using e by (auto simp: take_get_at get_at_eq_Some)
  show ?case
  proof (cases "unat e < 128")
    case True
    with Suc.prems e nz small have v: "v = of_nat ?n" "offset' = Suc offset"
      by (auto simp: read_step Let_def split: if_splits)
    have u: "unat (of_nat (unat e) :: u16) = unat e" using True by (intro unat_of_nat_small) simp
    have "unat v = unat acc + unat (of_nat (unat e) :: u16) * 128 ^ k"
      using small True by (simp only: u v(1)) (subst unat_of_nat_small, simp_all)
    moreover have "k \<noteq> 0 \<longrightarrow> (of_nat (unat e) :: u16) \<noteq> 0"
      using nz u by (metis of_nat_0 unat_eq_zero unat_0)
    ultimately show ?thesis
      using tk write_small [OF True] v(2) by (intro exI [of _ "of_nat (unat e)"]) simp
  next
    case False
    with Suc.prems e nz small have r: "k + 1 < 3"
      "read_short_vec_from bytes (offset + 1) (of_nat ?n) (k + 1) = Inr (v, offset')"
      by (auto simp: read_step Let_def simp del: of_nat_add of_nat_mult split: if_splits)
    have un: "unat (of_nat ?n :: u32) = ?n" using small by (intro unat_of_nat_small) simp
    have n: "n = 3 - (k + 1)" using Suc.hyps(2) by simp
    obtain w where w: "unat v = ?n + unat w * 128 ^ (k + 1)" "w \<noteq> 0"
      "take offset' bytes = take (offset + 1) bytes @ write_short_vec w"
      "offset' = offset + 1 + length (write_short_vec w)" "offset' \<le> length bytes"
      using Suc.hyps(1) [OF n r(2) r(1), unfolded un, OF small] by auto
    let ?w = "unat e mod 128 + unat w * 128"
    have eq: "unat v = unat acc + ?w * 128 ^ k" using w(1) by (simp add: algebra_simps)
    have "?w \<le> ?w * 128 ^ k" by simp
    also have "\<dots> < 65536" using unsigned_less [of v, where 'a = nat] by (simp add: eq)
    finally have lt: "?w < 65536" .
    have ge: "128 \<le> ?w" using w(2) by (cases "unat w") (auto simp: unat_eq_zero)
    have "write_short_vec (of_nat ?w) = e # write_short_vec w"
      using write_large [OF ge lt] high_byte [OF False] by simp
    moreover have "unat (of_nat ?w :: u16) = ?w" using lt by (intro unat_of_nat_small) simp
    ultimately show ?thesis
      using eq w ge tk by (intro exI [of _ "of_nat ?w"]) (auto simp del: of_nat_add of_nat_mult)
  qed
qed

lemma read_short_vec_canonical:
  assumes "read_short_vec bytes offset = Inr (v, offset')"
  shows "take offset' bytes = take offset bytes @ write_short_vec v
    \<and> offset' = offset + length (write_short_vec v) \<and> offset' \<le> length bytes"
  using read_from_canonical [OF assms [unfolded read_short_vec_def]]
  by (auto dest: unat_inject)

text \<open>The reader takes back what the writer wrote, and stops right after it.\<close>

lemma read_from_write:
  assumes "k < 3" and "unat acc < 2 ^ 16" and "unat acc + unat w * 128 ^ k < 2 ^ 16" and "k \<noteq> 0 \<longrightarrow> w \<noteq> 0"
  shows "read_short_vec_from (pre @ write_short_vec w @ rest) (length pre) acc k
    = Inr (of_nat (unat acc + unat w * 128 ^ k), length pre + length (write_short_vec w))"
  using assms
proof (induction n \<equiv> "3 - k" arbitrary: k pre acc w)
  case 0
  then show ?case by simp
next
  case (Suc n)
  show ?case
  proof (cases "unat w < 128")
    case True
    then have u: "unat (of_nat (unat w) :: u8) = unat w"
      by (intro unat_of_nat_small) simp
    have "write_short_vec w = [of_nat (unat w)]"
      using True by (subst write_step) simp
    moreover have "k \<noteq> 0 \<longrightarrow> (of_nat (unat w) :: u8) \<noteq> 0"
      using Suc.prems(4) u by (metis of_nat_0 unat_eq_zero unat_0)
    moreover note u
    ultimately show ?thesis
      using Suc.prems True
      by (auto simp: read_step get_at_append Let_def simp del: of_nat_add of_nat_mult of_nat_unat)
  next
    case False
    define a where "a = unat w mod 128"
    define c where "c = unat w div 128"
    have w: "unat w = a + c * 128" and a: "a < 128" and c: "0 < c"
      using False by (auto simp: a_def c_def)
    have wr: "write_short_vec w = of_nat (a + 128) # write_short_vec (of_nat c)"
      using False by (subst write_step) (simp add: a_def c_def)
    have clt: "c < 65536" using unsigned_less [of w, where 'a = nat] by (simp add: w)
    have uc: "unat (of_nat c :: u16) = c" using clt by (intro unat_of_nat_small) simp
    have ue: "unat (of_nat (a + 128) :: u8) = a + 128" using a by (intro unat_of_nat_small) simp
    let ?n = "unat acc + a * 128 ^ k"
    have total: "?n + c * 128 ^ (k + 1) < 2 ^ 16" using Suc.prems(3) by (simp add: w algebra_simps)
    have k: "k + 1 < 3"
    proof (rule ccontr)
      assume "\<not> k + 1 < 3"
      then have "k = 2" using Suc.prems(1) by simp
      with total c show False by simp
    qed
    have un: "unat (of_nat ?n :: u32) = ?n" using total by (intro unat_of_nat_small) simp
    have n: "n = 3 - (k + 1)" using Suc.hyps(2) by simp
    have "read_short_vec_from (pre @ write_short_vec w @ rest) (length pre) acc k
      = read_short_vec_from ((pre @ [of_nat (a + 128)]) @ write_short_vec (of_nat c) @ rest)
          (length (pre @ [of_nat (a + 128) :: u8])) (of_nat ?n) (k + 1)"
      using Suc.prems(1,2) total k a ue
      by (subst read_step) (auto simp: wr get_at_append Let_def unat_eq_zero [symmetric]
          simp del: of_nat_add of_nat_mult unat_eq_zero)
    also have "\<dots> = Inr (of_nat (?n + c * 128 ^ (k + 1)), length (pre @ [of_nat (a + 128) :: u8]) + length (write_short_vec (of_nat c)))"
      using Suc.hyps(1) [OF n k, of "of_nat ?n" "of_nat c" "pre @ [of_nat (a + 128)]"] total c uc
      by (simp only: un) (simp add: unat_eq_zero [symmetric] del: unat_eq_zero)
    finally show ?thesis
      by (simp add: wr w algebra_simps)
  qed
qed

lemma read_write_short_vec:
  "read_short_vec (pre @ write_short_vec v @ rest) (length pre) = Inr (v, length pre + length (write_short_vec v))"
  using read_from_write [of 0 0 v pre rest] unsigned_less [of v, where 'a = nat]
  by (simp add: read_short_vec_def)

lemma read_write_short_vec_drop:
  assumes "drop offset bytes = write_short_vec v @ rest"
  shows "read_short_vec bytes offset = Inr (v, offset + length (write_short_vec v))"
proof -
  have "write_short_vec v \<noteq> []" by (subst write_short_vec.simps) simp
  then have "offset \<le> length bytes"
    using assms by (metis append_is_Nil_conv drop_all nle_le)
  moreover have "bytes = take offset bytes @ write_short_vec v @ rest"
    by (metis append_take_drop_id assms)
  ultimately show ?thesis
    using read_write_short_vec [of "take offset bytes" v rest] by simp
qed

lemma read_short_vec_drop:
  assumes "read_short_vec bytes offset = Inr (v, offset')"
  shows "offset' = offset + length (write_short_vec v) \<and> drop offset bytes = write_short_vec v @ drop offset' bytes"
proof -
  note c = read_short_vec_canonical [OF assms]
  have past: "drop offset (take offset bytes @ xs) = xs" for xs
    using c by simp
  have "drop offset bytes = drop offset (take offset' bytes @ drop offset' bytes)" by simp
  also have "\<dots> = write_short_vec v @ drop offset' bytes"
    by (simp only: c [THEN conjunct1] append_assoc past)
  finally show ?thesis using c by blast
qed

interpretation short_vec_codec: prefix_codec write_short_vec read_short_vec "\<lambda>_. True"
  by unfold_locales (auto simp: read_write_short_vec_drop dest: read_short_vec_drop)

section \<open>Length-prefixed byte strings\<close>

definition write_short_vec_bytes :: "bytes \<Rightarrow> bytes" where
  "write_short_vec_bytes data = write_short_vec (of_nat (length data)) @ data"

lemma read_short_vec_bytes_write:
  assumes "length data < 2 ^ 16" and "drop offset bytes = write_short_vec_bytes data @ rest"
    and "length bytes < USIZE_LIMIT"
  shows "read_short_vec_bytes bytes offset what = Inr (data, offset + length (write_short_vec_bytes data))"
proof -
  let ?p = "write_short_vec (of_nat (length data))"
  have d: "drop offset bytes = ?p @ (data @ rest)"
    using assms(2) by (simp add: write_short_vec_bytes_def)
  have u: "unat (of_nat (length data) :: u16) = length data"
    using assms(1) by (intro unat_of_nat_small) simp
  note d2 = drop_past [OF d]
  have "?p \<noteq> []" by (subst write_short_vec.simps) simp
  moreover have "length bytes - offset = length ?p + (length data + length rest)"
    using arg_cong [OF d, of length] by simp
  ultimately have le: "offset + length ?p + length data \<le> length bytes" by (cases ?p) auto
  then have "get_range bytes (offset + length ?p) (offset + length ?p + length data) = Some data"
    by (intro get_range_drop [OF d2]) simp
  then show ?thesis
    using le assms(3) read_write_short_vec_drop [OF d]
    by (simp add: read_short_vec_bytes_def write_short_vec_bytes_def Let_def u add.assoc)
qed

lemma read_short_vec_bytes_drop:
  assumes "read_short_vec_bytes bytes offset what = Inr (data, offset')"
  shows "length data < 2 ^ 16 \<and> offset' = offset + length (write_short_vec_bytes data)
    \<and> drop offset bytes = write_short_vec_bytes data @ drop offset' bytes"
proof -
  from assms obtain len o1 where r: "read_short_vec bytes offset = Inr (len, o1)"
    and g: "get_range bytes o1 (o1 + unat len) = Some data" and o: "offset' = o1 + unat len"
    by (auto simp: read_short_vec_bytes_def and_then_eq_Inr Let_def split: if_splits)
  have l: "length data = unat len" using length_get_range [OF g] by simp
  have ln: "len = of_nat (length data)" by (rule eq_of_natI) (simp add: l)
  have "length data < 2 ^ 16" using unsigned_less [of len, where 'a = nat] l by simp
  then show ?thesis
    using read_short_vec_drop [OF r] drop_get_range [OF g, THEN conjunct1] o
    unfolding write_short_vec_bytes_def ln [symmetric] by (simp add: l)
qed

text \<open>
  The length prefix has one spelling: the strict reader returns a value with the offset
  after it if and only if the bytes at the offset start with what the writer produces for
  that value. No alias, overlong or overflowing prefix is ever accepted.
\<close>

theorem read_short_vec_exact:
  "read_short_vec bytes offset = Inr (v, offset') \<longleftrightarrow>
     offset' = offset + length (write_short_vec v) \<and> drop offset bytes = write_short_vec v @ drop offset' bytes"
  using read_short_vec_drop [of bytes offset v offset'] read_write_short_vec_drop [of offset bytes v "drop offset' bytes"]
  by blast

end
