(* ===== verification/SolanaMessage.thy ===== *)
theory SolanaMessage
  imports ShortVec
begin

text \<open>
  The canonical legacy message codec of \<open>bloom-solana-verify/src/message.rs\<close>: the message
  record, its serialization, the strict parser and the structural checks after parsing. The
  lemmas show that the parser accepts exactly the serializations of well-formed messages.
\<close>

section \<open>Messages\<close>

text \<open>A public key is the array of its 32 bytes.\<close>

type_synonym Pubkey = bytes

definition PUBKEY_BYTES :: nat where
  "PUBKEY_BYTES = 32"

definition MESSAGE_VERSION_PREFIX :: u8 where
  "MESSAGE_VERSION_PREFIX = 0x80"

definition MAX_ACCOUNT_KEYS :: nat where
  "MAX_ACCOUNT_KEYS = 256"

record MessageHeader =
  num_required_signatures :: u8
  num_readonly_signed_accounts :: u8
  num_readonly_unsigned_accounts :: u8

record CompiledInstruction =
  program_id_index :: u8
  ix_accounts :: bytes
  ix_data :: bytes

record LegacyMessage =
  header :: MessageHeader
  account_keys :: "Pubkey list"
  recent_blockhash :: bytes
  instructions :: "CompiledInstruction list"

text \<open>Indexing \<open>account_keys[0]\<close>; the parser never returns a message without keys.\<close>

definition fee_payer :: "LegacyMessage \<Rightarrow> Pubkey" where
  "fee_payer m = account_keys m ! 0"

definition serialize_instruction :: "CompiledInstruction \<Rightarrow> bytes" where
  "serialize_instruction ix =
     [program_id_index ix]
     @ write_short_vec (of_nat (length (ix_accounts ix))) @ ix_accounts ix
     @ write_short_vec (of_nat (length (ix_data ix))) @ ix_data ix"

definition serialize :: "LegacyMessage \<Rightarrow> bytes" where
  "serialize m =
     [num_required_signatures (header m), num_readonly_signed_accounts (header m),
      num_readonly_unsigned_accounts (header m)]
     @ write_short_vec (of_nat (length (account_keys m))) @ concat (account_keys m)
     @ recent_blockhash m
     @ write_short_vec (of_nat (length (instructions m)))
     @ concat (map serialize_instruction (instructions m))"

section \<open>The parser\<close>

datatype ParseError =
    PE_ShortVec ShortVecError
  | PE_Truncated
  | PE_Empty
  | PE_Versioned
  | PE_TrailingBytes nat
  | PE_NoFeePayer
  | PE_ReadonlySignerOverlap
  | PE_SignerUnsignedOverlap
  | PE_ProgramIndexOutOfRange u8
  | PE_ProgramIsFeePayer
  | PE_AccountIndexOutOfRange u8
  | PE_TooManyAccounts nat

text \<open>The texts of the errors, as the \<open>#[error(...)]\<close> attributes print them.\<close>

fun short_vec_error_to_string :: "ShortVecError \<Rightarrow> string" where
  "short_vec_error_to_string SV_Alias = ''short-vec length alias encoding (non-canonical trailing zero)''"
| "short_vec_error_to_string SV_Overflow = ''short-vec length overflow (exceeds u16)''"
| "short_vec_error_to_string SV_TooLong = ''short-vec length exceeds three bytes''"
| "short_vec_error_to_string SV_ByteThreeContinues = ''short-vec continuation marker on third byte''"
| "short_vec_error_to_string (SV_Truncated what) = ''short-vec truncated: '' @ what"

fun parse_error_to_string :: "ParseError \<Rightarrow> string" where
  "parse_error_to_string (PE_ShortVec e) = ''short-vec: '' @ short_vec_error_to_string e"
| "parse_error_to_string PE_Truncated = ''message is truncated''"
| "parse_error_to_string PE_Empty = ''message is empty''"
| "parse_error_to_string PE_Versioned =
     ''versioned message (v0 / address-lookup-table) is not supported''"
| "parse_error_to_string (PE_TrailingBytes n) = ''trailing bytes after message ('' @ decimal n @ '' bytes)''"
| "parse_error_to_string PE_NoFeePayer = ''no fee payer: num_required_signatures is 0''"
| "parse_error_to_string PE_ReadonlySignerOverlap =
     ''read-only signed accounts overlap with writable signers''"
| "parse_error_to_string PE_SignerUnsignedOverlap =
     ''num_required_signatures + num_readonly_unsigned_accounts exceeds account count''"
| "parse_error_to_string (PE_ProgramIndexOutOfRange i) =
     ''instruction program_id_index '' @ decimal (unat i) @ '' is out of range''"
| "parse_error_to_string PE_ProgramIsFeePayer =
     ''instruction program_id_index 0: the program cannot be the fee payer''"
| "parse_error_to_string (PE_AccountIndexOutOfRange i) =
     ''instruction account index '' @ decimal (unat i) @ '' is out of range''"
| "parse_error_to_string (PE_TooManyAccounts n) =
     ''account count '' @ decimal n @ '' exceeds the legacy maximum''"

fun check_account_indices :: "nat \<Rightarrow> u8 list \<Rightarrow> ParseError + unit" where
  "check_account_indices n [] = Inr ()"
| "check_account_indices n (a # as) =
     (if n \<le> unat a then Inl (PE_AccountIndexOutOfRange a) else check_account_indices n as)"

fun check_instructions :: "nat \<Rightarrow> CompiledInstruction list \<Rightarrow> ParseError + unit" where
  "check_instructions n [] = Inr ()"
| "check_instructions n (ix # ixs) =
     (if n \<le> unat (program_id_index ix) then Inl (PE_ProgramIndexOutOfRange (program_id_index ix))
      else if program_id_index ix = 0 then Inl PE_ProgramIsFeePayer
      else and_then (check_account_indices n (ix_accounts ix)) (\<lambda>_. check_instructions n ixs))"

definition sanitize :: "LegacyMessage \<Rightarrow> ParseError + unit" where
  "sanitize m =
     (if num_required_signatures (header m) = 0 then Inl PE_NoFeePayer
      else if num_required_signatures (header m) \<le> num_readonly_signed_accounts (header m)
      then Inl PE_ReadonlySignerOverlap
      else if length (account_keys m)
          < unat (num_required_signatures (header m)) + unat (num_readonly_unsigned_accounts (header m))
      then Inl PE_SignerUnsignedOverlap
      else check_instructions (length (account_keys m)) (instructions m))"

definition read_array32 :: "bytes \<Rightarrow> nat \<Rightarrow> ParseError + (bytes \<times> nat)" where
  "read_array32 bytes offset =
     and_then (ok_or (get_range bytes offset (offset + PUBKEY_BYTES)) PE_Truncated)
       (\<lambda>raw. Inr (raw, offset + PUBKEY_BYTES))"

definition read_instruction :: "bytes \<Rightarrow> nat \<Rightarrow> ParseError + (CompiledInstruction \<times> nat)" where
  "read_instruction bytes offset =
     and_then (ok_or (get_at bytes offset) PE_Truncated) (\<lambda>program_index.
     and_then (map_err PE_ShortVec (read_short_vec_bytes bytes (offset + 1) ''instruction accounts''))
       (\<lambda>(accounts, offset).
     and_then (map_err PE_ShortVec (read_short_vec_bytes bytes offset ''instruction data''))
       (\<lambda>(data, offset).
     Inr (\<lparr>program_id_index = program_index, ix_accounts = accounts, ix_data = data\<rparr>, offset))))"

definition parse_message :: "bytes \<Rightarrow> ParseError + LegacyMessage" where
  "parse_message bytes =
     (if bytes = [] then Inl PE_Empty
      else if bytes ! 0 AND MESSAGE_VERSION_PREFIX \<noteq> 0 then Inl PE_Versioned
      else
        and_then (ok_or (get_at bytes 0) PE_Truncated) (\<lambda>required.
        and_then (ok_or (get_at bytes 1) PE_Truncated) (\<lambda>readonly_signed.
        and_then (ok_or (get_at bytes 2) PE_Truncated) (\<lambda>readonly_unsigned.
        and_then (map_err PE_ShortVec (read_short_vec bytes 3)) (\<lambda>(account_count, offset).
        if MAX_ACCOUNT_KEYS < unat account_count then Inl (PE_TooManyAccounts (unat account_count))
        else
          and_then (read_times (unat account_count) (read_array32 bytes) offset) (\<lambda>(keys, offset).
          and_then (read_array32 bytes offset) (\<lambda>(blockhash, offset).
          and_then (map_err PE_ShortVec (read_short_vec bytes offset)) (\<lambda>(instruction_count, offset).
          and_then (read_times (unat instruction_count) (read_instruction bytes) offset) (\<lambda>(ixs, offset).
          if offset \<noteq> length bytes then Inl (PE_TrailingBytes (length bytes - offset))
          else
            let message = \<lparr>header = \<lparr>num_required_signatures = required,
                  num_readonly_signed_accounts = readonly_signed,
                  num_readonly_unsigned_accounts = readonly_unsigned\<rparr>,
                account_keys = keys, recent_blockhash = blockhash, instructions = ixs\<rparr>
            in and_then (sanitize message) (\<lambda>_. Inr message))))))))))"

text \<open>
  The part of the parser between the version check and the trailing-bytes check, reading from
  any offset. The sibling crate \<open>bloom-solana-clear-signing\<close> has it as a function of its own
  (\<open>message.rs\<close>, \<open>parse_body\<close>); \<open>parse_message\<close> above is written out as in its own source.
\<close>

definition parse_body :: "bytes \<Rightarrow> nat \<Rightarrow> ParseError + (LegacyMessage \<times> nat)" where
  "parse_body bytes offset =
     and_then (ok_or (get_at bytes offset) PE_Truncated) (\<lambda>required.
     and_then (ok_or (get_at bytes (offset + 1)) PE_Truncated) (\<lambda>readonly_signed.
     and_then (ok_or (get_at bytes (offset + 2)) PE_Truncated) (\<lambda>readonly_unsigned.
     and_then (map_err PE_ShortVec (read_short_vec bytes (offset + 3))) (\<lambda>(account_count, offset).
     if MAX_ACCOUNT_KEYS < unat account_count then Inl (PE_TooManyAccounts (unat account_count))
     else
       and_then (read_times (unat account_count) (read_array32 bytes) offset) (\<lambda>(keys, offset).
       and_then (read_array32 bytes offset) (\<lambda>(blockhash, offset).
       and_then (map_err PE_ShortVec (read_short_vec bytes offset)) (\<lambda>(instruction_count, offset).
       and_then (read_times (unat instruction_count) (read_instruction bytes) offset) (\<lambda>(ixs, offset).
       Inr (\<lparr>header = \<lparr>num_required_signatures = required,
              num_readonly_signed_accounts = readonly_signed,
              num_readonly_unsigned_accounts = readonly_unsigned\<rparr>,
            account_keys = keys, recent_blockhash = blockhash, instructions = ixs\<rparr>, offset)))))))))"

lemma parse_message_body:
  "parse_message bytes =
     (if bytes = [] then Inl PE_Empty
      else if bytes ! 0 AND MESSAGE_VERSION_PREFIX \<noteq> 0 then Inl PE_Versioned
      else and_then (parse_body bytes 0) (\<lambda>(message, offset).
        if offset \<noteq> length bytes then Inl (PE_TrailingBytes (length bytes - offset))
        else and_then (sanitize message) (\<lambda>_. Inr message)))"
  by (simp add: parse_message_def parse_body_def and_then_assoc Let_def split_def numeral_2_eq_2
      if_distrib [of "\<lambda>r. and_then r f" for f] cong: and_then_cong if_cong)

section \<open>The readers of the parts keep the codec laws\<close>

lemma read_array32_enc:
  "length x = PUBKEY_BYTES \<Longrightarrow> drop offset bs = x @ rest \<Longrightarrow>
   read_array32 bs offset = Inr (x, offset + length x)"
  using get_range_drop [of offset bs x rest] by (cases x) (auto simp: read_array32_def PUBKEY_BYTES_def)

lemma read_array32_dec:
  "read_array32 bs offset = Inr (x, offset') \<Longrightarrow>
   length x = PUBKEY_BYTES \<and> offset' = offset + length x \<and> drop offset bs = x @ drop offset' bs"
  by (auto simp: read_array32_def and_then_eq_Inr length_get_range dest: drop_get_range)

interpretation key_codec: prefix_codec "\<lambda>x. x" read_array32 "\<lambda>x. length x = PUBKEY_BYTES"
  by unfold_locales (erule (1) read_array32_enc, erule read_array32_dec)

definition wf_instruction :: "CompiledInstruction \<Rightarrow> bool" where
  "wf_instruction ix \<longleftrightarrow> length (ix_accounts ix) < 2 ^ 16 \<and> length (ix_data ix) < 2 ^ 16"

lemma serialize_instruction_eq:
  "serialize_instruction ix = program_id_index ix #
     write_short_vec_bytes (ix_accounts ix) @ write_short_vec_bytes (ix_data ix)"
  by (simp add: serialize_instruction_def write_short_vec_bytes_def)

lemma read_instruction_enc:
  assumes "wf_instruction ix" and "drop offset bs = serialize_instruction ix @ rest"
    and "length bs < USIZE_LIMIT"
  shows "read_instruction bs offset = Inr (ix, offset + length (serialize_instruction ix))"
proof -
  have d: "drop offset bs = program_id_index ix #
      write_short_vec_bytes (ix_accounts ix) @ write_short_vec_bytes (ix_data ix) @ rest"
    using assms(2) by (simp add: serialize_instruction_eq)
  note d1 = drop_past_one [OF d]
  note d2 = drop_past [OF d1]
  show ?thesis
    using assms(1,3) get_at_drop_Cons [OF d]
      read_short_vec_bytes_write [OF _ d1 assms(3)] read_short_vec_bytes_write [OF _ d2 assms(3)]
    by (simp add: read_instruction_def wf_instruction_def serialize_instruction_eq)
qed

lemma read_instruction_dec:
  assumes "read_instruction bs offset = Inr (ix, offset')"
  shows "wf_instruction ix \<and> offset' = offset + length (serialize_instruction ix)
    \<and> drop offset bs = serialize_instruction ix @ drop offset' bs"
proof -
  from assms obtain p a o1 d where
    p: "get_at bs offset = Some p" and a: "read_short_vec_bytes bs (Suc offset) ''instruction accounts'' = Inr (a, o1)"
    and d: "read_short_vec_bytes bs o1 ''instruction data'' = Inr (d, offset')"
    and ix: "ix = \<lparr>program_id_index = p, ix_accounts = a, ix_data = d\<rparr>"
    by (auto simp: read_instruction_def and_then_eq_Inr split: prod.splits)
  show ?thesis
    using drop_get_at [OF p] read_short_vec_bytes_drop [OF a] read_short_vec_bytes_drop [OF d]
    by (simp add: ix wf_instruction_def serialize_instruction_eq)
qed

interpretation instruction_codec: prefix_codec serialize_instruction read_instruction wf_instruction
  by unfold_locales (erule (2) read_instruction_enc, erule read_instruction_dec)

section \<open>The body keeps the codec laws\<close>

definition wf_body :: "LegacyMessage \<Rightarrow> bool" where
  "wf_body m \<longleftrightarrow>
     length (account_keys m) \<le> MAX_ACCOUNT_KEYS \<and>
     list_all (\<lambda>k. length k = PUBKEY_BYTES) (account_keys m) \<and>
     length (recent_blockhash m) = PUBKEY_BYTES \<and>
     length (instructions m) < 2 ^ 16 \<and>
     list_all wf_instruction (instructions m)"

lemma message_eta:
  "\<lparr>header = \<lparr>num_required_signatures = num_required_signatures (header m),
     num_readonly_signed_accounts = num_readonly_signed_accounts (header m),
     num_readonly_unsigned_accounts = num_readonly_unsigned_accounts (header m)\<rparr>,
   account_keys = account_keys m, recent_blockhash = recent_blockhash m, instructions = instructions m\<rparr> = m"
  by simp

lemma parse_body_enc:
  assumes wf: "wf_body m" and d: "drop offset bs = serialize m @ rest" and len: "length bs < USIZE_LIMIT"
  shows "parse_body bs offset = Inr (m, offset + length (serialize m))"
proof -
  let ?h = "header m"
  let ?keys = "concat (account_keys m)"
  let ?ixs = "concat (map serialize_instruction (instructions m))"
  let ?wk = "write_short_vec (of_nat (length (account_keys m)))"
  let ?wi = "write_short_vec (of_nat (length (instructions m)))"
  let ?hdr = "[num_required_signatures ?h, num_readonly_signed_accounts ?h, num_readonly_unsigned_accounts ?h]"
  have d: "drop offset bs = ?hdr @ (?wk @ (?keys @ recent_blockhash m @ ?wi @ ?ixs @ rest))"
    using d by (simp add: serialize_def)
  have e: "drop (Suc offset) bs = tl ?hdr @ (?wk @ (?keys @ recent_blockhash m @ ?wi @ ?ixs @ rest))"
    using d drop_past_one [of offset bs] by simp
  have hd: "get_at bs offset = Some (num_required_signatures ?h)"
    "get_at bs (offset + 1) = Some (num_readonly_signed_accounts ?h)"
    "get_at bs (offset + 2) = Some (num_readonly_unsigned_accounts ?h)"
    using d e drop_past_one [of "Suc offset" bs] by (simp_all add: get_at_drop_Cons)
  have d0: "drop (offset + 3) bs = ?wk @ (?keys @ recent_blockhash m @ ?wi @ ?ixs @ rest)"
    using drop_past [OF d] by (simp add: numeral_3_eq_3)
  note d1 = drop_past [OF d0]
  note d2 = drop_past [OF d1]
  note d3 = drop_past [OF d2]
  note d4 = drop_past [OF d3]
  have uk: "unat (of_nat (length (account_keys m)) :: u16) = length (account_keys m)"
    and ui: "unat (of_nat (length (instructions m)) :: u16) = length (instructions m)"
    and cnt: "\<not> MAX_ACCOUNT_KEYS < length (account_keys m)"
    using wf by (auto intro!: unat_of_nat_small simp: wf_body_def MAX_ACCOUNT_KEYS_def)
  let ?o1 = "offset + 3 + length ?wk"
  let ?o2 = "?o1 + length ?keys"
  let ?o3 = "?o2 + length (recent_blockhash m)"
  let ?o4 = "?o3 + length ?wi"
  have keys: "read_times (length (account_keys m)) (read_array32 bs) ?o1 = Inr (account_keys m, ?o2)"
    using key_codec.read_times_enc [of "account_keys m" ?o1 bs] wf d1 len by (simp add: wf_body_def)
  have hash: "read_array32 bs ?o2 = Inr (recent_blockhash m, ?o3)"
    using wf by (intro read_array32_enc [OF _ d2]) (simp add: wf_body_def)
  have ixs: "read_times (length (instructions m)) (read_instruction bs) ?o4 = Inr (instructions m, ?o4 + length ?ixs)"
    using instruction_codec.read_times_enc [of "instructions m" ?o4 bs rest] wf d4 len
    by (simp add: wf_body_def)
  note r = read_write_short_vec_drop [OF d0] read_write_short_vec_drop [OF d3]
  show ?thesis
    unfolding parse_body_def
    by (simp only: hd r uk ui keys hash ixs cnt if_False and_then_Inr map_err_simps ok_or_simps prod.case
        message_eta) (simp add: serialize_def)
qed

lemma parse_body_dec:
  assumes "parse_body bs offset = Inr (m, offset')"
  shows "wf_body m \<and> offset' = offset + length (serialize m)
    \<and> drop offset bs = serialize m @ drop offset' bs"
proof -
  from assms obtain a b c n o1 keys o2 hash o3 k o4 ixs where
    hd: "get_at bs offset = Some a" "get_at bs (Suc offset) = Some b" "get_at bs (Suc (Suc offset)) = Some c"
    and n: "read_short_vec bs (offset + 3) = Inr (n, o1)" "unat n \<le> MAX_ACCOUNT_KEYS"
    and keys: "read_times (unat n) (read_array32 bs) o1 = Inr (keys, o2)"
    and hash: "read_array32 bs o2 = Inr (hash, o3)"
    and k: "read_short_vec bs o3 = Inr (k, o4)"
    and ixs: "read_times (unat k) (read_instruction bs) o4 = Inr (ixs, offset')"
    and m: "m = \<lparr>header = \<lparr>num_required_signatures = a, num_readonly_signed_accounts = b,
          num_readonly_unsigned_accounts = c\<rparr>, account_keys = keys, recent_blockhash = hash, instructions = ixs\<rparr>"
    by (auto simp: parse_body_def and_then_eq_Inr not_less split: prod.splits if_splits)
  have h: "drop offset bs = [a, b, c] @ drop (offset + 3) bs"
    using drop_get_at [OF hd(1)] drop_get_at [OF hd(2)] drop_get_at [OF hd(3)] by (simp add: numeral_3_eq_3)
  note K = key_codec.enc_read_times [OF keys]
  note I = instruction_codec.enc_read_times [OF ixs]
  have nk: "n = of_nat (length keys)" "k = of_nat (length ixs)"
    using K I by simp_all
  show ?thesis
    using h K I read_short_vec_drop [OF n(1)] read_short_vec_drop [OF k] read_array32_dec [OF hash] n(2)
      unsigned_less [of k, where 'a = nat]
    unfolding m wf_body_def serialize_def nk by simp
qed

interpretation body_codec: prefix_codec serialize parse_body wf_body
  by unfold_locales (erule (2) parse_body_enc, erule parse_body_dec)

section \<open>The parser accepts exactly the serializations of well-formed messages\<close>

definition wf_message :: "LegacyMessage \<Rightarrow> bool" where
  "wf_message m \<longleftrightarrow> wf_body m \<and> unat (num_required_signatures (header m)) < 128 \<and> sanitize m = Inr ()"

lemma legacy_first_byte: "b AND MESSAGE_VERSION_PREFIX = 0 \<longleftrightarrow> unat b < 128"
  by (simp add: MESSAGE_VERSION_PREFIX_def u8_high_bit)

lemma serialize_first: "serialize m \<noteq> [] \<and> serialize m ! 0 = num_required_signatures (header m)"
  by (simp add: serialize_def)

lemma parse_message_iff:
  assumes "length bytes < USIZE_LIMIT"
  shows "parse_message bytes = Inr m \<longleftrightarrow> wf_message m \<and> bytes = serialize m"
proof
  assume "parse_message bytes = Inr m"
  then have f: "bytes ! 0 AND MESSAGE_VERSION_PREFIX = 0" and b: "parse_body bytes 0 = Inr (m, length bytes)"
    and s: "sanitize m = Inr ()"
    by (auto simp: parse_message_body and_then_eq_Inr split: if_splits prod.splits)
  from parse_body_dec [OF b] have "wf_body m" and "bytes = serialize m" by simp_all
  with f s show "wf_message m \<and> bytes = serialize m"
    by (simp add: wf_message_def legacy_first_byte serialize_first)
next
  assume m: "wf_message m \<and> bytes = serialize m"
  then have "parse_body bytes 0 = Inr (m, length bytes)"
    using parse_body_enc [of m 0 bytes "[]"] assms by (simp add: wf_message_def)
  with m show "parse_message bytes = Inr m"
    by (simp add: parse_message_body wf_message_def legacy_first_byte serialize_first)
qed

text \<open>
  Strict parsing is the inverse of serialization: a buffer parses to a message if and
  only if the message is well-formed and the buffer is its serialization. So every accepted
  buffer is canonical, two different buffers never parse to the same message, and every
  well-formed message survives the round trip. The hypothesis says that the buffer is in
  memory.
\<close>

theorem parse_message_exact:
  assumes "length bytes < USIZE_LIMIT"
  shows "parse_message bytes = Inr m \<longleftrightarrow> wf_message m \<and> bytes = serialize m"
  by (rule parse_message_iff [OF assms])

theorem parse_message_exact_witness:
  "parse_message ([1, 0, 0, 1] @ replicate 32 1 @ replicate 32 0 @ [0])
    = Inr \<lparr>header = \<lparr>num_required_signatures = 1, num_readonly_signed_accounts = 0,
        num_readonly_unsigned_accounts = 0\<rparr>, account_keys = [replicate 32 1],
        recent_blockhash = replicate 32 0, instructions = []\<rparr>"
proof -
  have w: "write_short_vec 1 = [1]" "write_short_vec 0 = [0]"
    using write_small [of 1] write_small [of 0] by simp_all
  show ?thesis
    by (subst parse_message_exact)
       (simp_all add: USIZE_LIMIT_def wf_message_def wf_body_def sanitize_def MAX_ACCOUNT_KEYS_def
         PUBKEY_BYTES_def serialize_def w)
qed

end
