(* ===== verification/NativeTransfer.thy ===== *)
theory NativeTransfer
  imports SolanaMessage
begin

text \<open>
  The native transfer of \<open>bloom-solana-verify/src/system_transfer.rs\<close> and the semantic verifier
  of \<open>verifier.rs\<close>. SHA-256 (crate \<open>sha2\<close>) and base58 (crate \<open>bs58\<close>) are the arguments \<open>sha256\<close>
  and \<open>b58\<close> of the definitions that call them; nothing is assumed of them.
\<close>

section \<open>The transfer instruction and its message\<close>

definition SYSTEM_PROGRAM_ID :: Pubkey where
  "SYSTEM_PROGRAM_ID = replicate 32 0"

definition TRANSFER_OPCODE :: u32 where
  "TRANSFER_OPCODE = 2"

definition TRANSFER_DATA_LEN :: nat where
  "TRANSFER_DATA_LEN = 12"

datatype SystemTransferError =
    ST_DestinationIsSource
  | ST_ZeroLamports
  | ST_BadAccountCount nat

definition transfer_data :: "u64 \<Rightarrow> bytes" where
  "transfer_data lamports = le_bytes 4 (unat TRANSFER_OPCODE) @ le_bytes 8 (unat lamports)"

definition decode_transfer_data :: "bytes \<Rightarrow> u64 option" where
  "decode_transfer_data data =
     (if length data \<noteq> TRANSFER_DATA_LEN then None
      else let opcode = (of_nat (from_le (take 4 data)) :: u32) in
        if opcode \<noteq> TRANSFER_OPCODE then None
        else Some (of_nat (from_le (take 8 (drop 4 data)))))"

definition transfer_message ::
  "Pubkey \<Rightarrow> Pubkey \<Rightarrow> u64 \<Rightarrow> bytes \<Rightarrow> SystemTransferError + LegacyMessage" where
  "transfer_message payer destination lamports blockhash =
     (if destination = payer then Inl ST_DestinationIsSource
      else if lamports = 0 then Inl ST_ZeroLamports
      else Inr \<lparr>header = \<lparr>num_required_signatures = 1, num_readonly_signed_accounts = 0,
                  num_readonly_unsigned_accounts = 1\<rparr>,
                account_keys = [payer, destination, SYSTEM_PROGRAM_ID],
                recent_blockhash = blockhash,
                instructions = [\<lparr>program_id_index = 2, ix_accounts = [0, 1],
                  ix_data = transfer_data lamports\<rparr>]\<rparr>)"

section \<open>The verifier\<close>

definition PACKET_DATA_SIZE :: nat where
  "PACKET_DATA_SIZE = 1232"

definition MAX_MESSAGE_SIZE :: nat where
  "MAX_MESSAGE_SIZE = PACKET_DATA_SIZE - (1 + 64)"

definition LAMPORTS_PER_SIGNATURE :: u64 where
  "LAMPORTS_PER_SIGNATURE = 5000"

datatype RejectionReason =
    Malformed string
  | Oversized nat
  | MultipleSigners u8
  | UnexpectedAccountLayout nat
  | FeePayerMismatch string string
  | AmbiguousAccountRole
  | MissingSystemProgram
  | UnexpectedInstructionCount nat
  | NotSystemProgram u8
  | UnexpectedInstructionAccounts
  | NotNativeTransfer
  | DestinationMismatch string string
  | ZeroLamports
  | LamportsMismatch u64 u64
  | DigestMismatch
  | FeeMismatch u64 u64

record VerifiedTransfer =
  vt_fee_payer :: string
  vt_destination :: string
  vt_lamports :: u64
  vt_program :: string
  vt_signer_count :: u8
  vt_message_digest :: bytes
  vt_recent_blockhash :: string

text \<open>
  The product cannot wrap: \<open>signer_count\<close> is a \<open>u8\<close>. The multiplication is the one on \<open>u64\<close>.
\<close>

definition verify_fee :: "VerifiedTransfer \<Rightarrow> u64 \<Rightarrow> RejectionReason + unit" where
  "verify_fee verified declared_lamports =
     (let expected = ucast (vt_signer_count verified) * LAMPORTS_PER_SIGNATURE in
      if declared_lamports \<noteq> expected then Inl (FeeMismatch expected declared_lamports) else Inr ())"

definition verify_native_transfer ::
  "(bytes \<Rightarrow> bytes) \<Rightarrow> (bytes \<Rightarrow> string) \<Rightarrow> bytes \<Rightarrow> Pubkey \<Rightarrow> Pubkey \<Rightarrow> u64 \<Rightarrow> bytes option
    \<Rightarrow> RejectionReason + VerifiedTransfer" where
  "verify_native_transfer sha256 b58 message_bytes payer destination lamports claimed_digest =
     (if MAX_MESSAGE_SIZE < length message_bytes then Inl (Oversized (length message_bytes))
      else case parse_message message_bytes of
        Inl e \<Rightarrow> Inl (Malformed (parse_error_to_string e))
      | Inr message \<Rightarrow>
          if num_required_signatures (header message) \<noteq> 1
          then Inl (MultipleSigners (num_required_signatures (header message)))
          else if length (account_keys message) \<noteq> 3
          then Inl (UnexpectedAccountLayout (length (account_keys message)))
          else if num_readonly_unsigned_accounts (header message) \<noteq> 1
          then Inl (UnexpectedAccountLayout (length (account_keys message)))
          else let actual_payer = fee_payer message in
            if actual_payer \<noteq> payer then Inl (FeePayerMismatch (b58 payer) (b58 actual_payer))
            else if account_keys message ! 2 \<noteq> SYSTEM_PROGRAM_ID then Inl MissingSystemProgram
            else let actual_destination = account_keys message ! 1 in
              if actual_destination = actual_payer \<or> actual_destination = SYSTEM_PROGRAM_ID
                 \<or> actual_payer = SYSTEM_PROGRAM_ID
              then Inl AmbiguousAccountRole
              else if length (instructions message) \<noteq> 1
              then Inl (UnexpectedInstructionCount (length (instructions message)))
              else let ix = instructions message ! 0 in
                if program_id_index ix \<noteq> 2 then Inl (NotSystemProgram (program_id_index ix))
                else if ix_accounts ix \<noteq> [0, 1] then Inl UnexpectedInstructionAccounts
                else and_then (ok_or (decode_transfer_data (ix_data ix)) NotNativeTransfer)
                  (\<lambda>actual_lamports.
                    if actual_lamports = 0 then Inl ZeroLamports
                    else if actual_lamports \<noteq> lamports then Inl (LamportsMismatch lamports actual_lamports)
                    else if actual_destination \<noteq> destination
                    then Inl (DestinationMismatch (b58 destination) (b58 actual_destination))
                    else let digest = sha256 message_bytes in
                      if (case claimed_digest of None \<Rightarrow> False | Some claimed \<Rightarrow> claimed \<noteq> digest)
                      then Inl DigestMismatch
                      else Inr \<lparr>vt_fee_payer = b58 actual_payer, vt_destination = b58 actual_destination,
                          vt_lamports = actual_lamports, vt_program = b58 SYSTEM_PROGRAM_ID,
                          vt_signer_count = 1, vt_message_digest = digest,
                          vt_recent_blockhash = b58 (recent_blockhash message)\<rparr>))"

section \<open>Instruction data\<close>

lemma decode_transfer_data_iff:
  "decode_transfer_data data = Some lamports \<longleftrightarrow> data = transfer_data lamports"
proof
  assume "decode_transfer_data data = Some lamports"
  then have len: "length data = 12" and op: "(of_nat (from_le (take 4 data)) :: u32) = 2"
    and lam: "(of_nat (from_le (take 8 (drop 4 data))) :: u64) = lamports"
    by (auto simp: decode_transfer_data_def TRANSFER_DATA_LEN_def TRANSFER_OPCODE_def Let_def
        split: if_splits)
  have "from_le (take 4 data) < 256 ^ 4"
    using from_le_less [of "take 4 data"] len by simp
  then have "from_le (take 4 data) = 2"
    using arg_cong [OF op, of unat] by (simp add: unat_of_nat)
  then have a: "take 4 data = le_bytes 4 2"
    using le_bytes_from_le [of "take 4 data"] len by (simp del: le_bytes_from_le)
  have "from_le (take 8 (drop 4 data)) < 256 ^ 8"
    using from_le_less [of "take 8 (drop 4 data)"] len by simp
  then have "unat lamports = from_le (take 8 (drop 4 data))"
    using arg_cong [OF lam, of unat] by (simp add: unat_of_nat)
  then have b: "take 8 (drop 4 data) = le_bytes 8 (unat lamports)"
    using le_bytes_from_le [of "take 8 (drop 4 data)"] len by (simp del: le_bytes_from_le)
  have "data = take 4 data @ take 8 (drop 4 data)"
    using len by simp
  then show "data = transfer_data lamports"
    unfolding a b transfer_data_def TRANSFER_OPCODE_def by simp
next
  assume "data = transfer_data lamports"
  moreover have "unat lamports < 256 ^ 8"
    using unsigned_less [of lamports, where 'a = nat] by simp
  ultimately show "decode_transfer_data data = Some lamports"
    by (simp add: decode_transfer_data_def transfer_data_def TRANSFER_DATA_LEN_def TRANSFER_OPCODE_def
        Let_def from_le_le_bytes)
qed

lemma length_transfer_data: "length (transfer_data lamports) = 12"
  by (simp add: transfer_data_def)

section \<open>The verifier accepts exactly the canonical transfers\<close>

lemma length_serialize_bound:
  assumes "transfer_message payer destination lamports blockhash = Inr m"
    and "length payer = 32" and "length destination = 32" and "length blockhash = 32"
  shows "length (serialize m) = 150"
proof -
  have w: "write_short_vec 1 = [1]" "write_short_vec 2 = [2]" "write_short_vec 3 = [3]" "write_short_vec 12 = [12]"
    using write_small [of 1] write_small [of 2] write_small [of 3] write_small [of 12] by simp_all
  show ?thesis
    using assms by (auto simp: transfer_message_def serialize_def serialize_instruction_def w
        length_transfer_data SYSTEM_PROGRAM_ID_def split: if_splits)
qed

lemma transfer_message_wf:
  assumes "transfer_message payer destination lamports blockhash = Inr m"
    and "length payer = 32" and "length destination = 32" and "length blockhash = 32"
  shows "wf_message m"
  using assms
  by (auto simp: transfer_message_def wf_message_def wf_body_def wf_instruction_def MAX_ACCOUNT_KEYS_def
      PUBKEY_BYTES_def SYSTEM_PROGRAM_ID_def length_transfer_data sanitize_def split: if_splits)

text \<open>The checks of the verifier on a parsed message leave the canonical transfer message only.\<close>

lemma canonical_layout:
  assumes wf: "wf_message m"
    and "num_required_signatures (header m) = 1" and "num_readonly_unsigned_accounts (header m) = 1"
    and "account_keys m = [payer, destination, SYSTEM_PROGRAM_ID]" and "destination \<noteq> payer"
    and "instructions m = [ix]" and "program_id_index ix = 2" and "ix_accounts ix = [0, 1]"
    and "ix_data ix = transfer_data lamports" and "lamports \<noteq> 0"
  shows "transfer_message payer destination lamports (recent_blockhash m) = Inr m"
proof -
  have "sanitize m = Inr ()" using wf by (simp add: wf_message_def)
  then have "num_readonly_signed_accounts (header m) < 1"
    using assms(2) by (auto simp: sanitize_def not_le split: if_splits)
  then have "num_readonly_signed_accounts (header m) = 0" by simp
  then have "header m = \<lparr>num_required_signatures = 1, num_readonly_signed_accounts = 0,
      num_readonly_unsigned_accounts = 1\<rparr>"
    using assms(2,3) by (cases "header m") simp
  moreover have "ix = \<lparr>program_id_index = 2, ix_accounts = [0, 1], ix_data = transfer_data lamports\<rparr>"
    using assms(7-9) by (cases ix) simp
  ultimately show ?thesis
    using assms by (cases m) (simp add: transfer_message_def)
qed

definition transfer_facts :: "(bytes \<Rightarrow> bytes) \<Rightarrow> (bytes \<Rightarrow> string) \<Rightarrow> bytes \<Rightarrow> Pubkey \<Rightarrow> Pubkey \<Rightarrow> u64 \<Rightarrow> bytes \<Rightarrow> VerifiedTransfer" where
  "transfer_facts sha256 b58 message_bytes payer destination lamports blockhash =
     \<lparr>vt_fee_payer = b58 payer, vt_destination = b58 destination, vt_lamports = lamports,
      vt_program = b58 SYSTEM_PROGRAM_ID, vt_signer_count = 1, vt_message_digest = sha256 message_bytes,
      vt_recent_blockhash = b58 blockhash\<rparr>"

lemma verify_native_transfer_sound:
  assumes "verify_native_transfer sha256 b58 message_bytes payer destination lamports claimed = Inr v"
  shows "\<exists>blockhash m. length blockhash = 32 \<and> transfer_message payer destination lamports blockhash = Inr m
    \<and> message_bytes = serialize m \<and> payer \<noteq> SYSTEM_PROGRAM_ID \<and> destination \<noteq> SYSTEM_PROGRAM_ID
    \<and> (claimed = None \<or> claimed = Some (sha256 message_bytes))
    \<and> v = transfer_facts sha256 b58 message_bytes payer destination lamports blockhash
    \<and> wf_message m \<and> length message_bytes \<le> 1167"
proof -
  from assms have size: "length message_bytes \<le> 1167"
    by (auto simp: verify_native_transfer_def MAX_MESSAGE_SIZE_def PACKET_DATA_SIZE_def split: if_splits)
  from assms obtain m where m: "parse_message message_bytes = Inr m"
    by (auto simp: verify_native_transfer_def split: if_splits sum.splits)
  have checks: "num_required_signatures (header m) = 1" "length (account_keys m) = 3"
    "num_readonly_unsigned_accounts (header m) = 1" "fee_payer m = payer"
    "account_keys m ! 2 = SYSTEM_PROGRAM_ID" "account_keys m ! 1 = destination"
    "destination \<noteq> payer" "destination \<noteq> SYSTEM_PROGRAM_ID" "payer \<noteq> SYSTEM_PROGRAM_ID"
    "length (instructions m) = 1" "program_id_index (instructions m ! 0) = 2"
    "ix_accounts (instructions m ! 0) = [0, 1]"
    "decode_transfer_data (ix_data (instructions m ! 0)) = Some lamports" "lamports \<noteq> 0"
    and claim: "claimed = None \<or> claimed = Some (sha256 message_bytes)"
    and v: "v = transfer_facts sha256 b58 message_bytes payer destination lamports (recent_blockhash m)"
    using assms
    by (auto simp: verify_native_transfer_def m Let_def and_then_eq_Inr transfer_facts_def
        split: if_splits option.splits)
  have keys: "account_keys m = [payer, destination, SYSTEM_PROGRAM_ID]"
    using checks(2,4,5,6) by (auto simp: fee_payer_def numeral_3_eq_3 length_Suc_conv numeral_2_eq_2)
  obtain ix where ix: "instructions m = [ix]"
    using checks(10) by (auto simp: length_Suc_conv)
  have wf: "wf_message m" and bytes: "message_bytes = serialize m"
    using m size parse_message_iff [of message_bytes m] by (simp_all add: USIZE_LIMIT_def)
  have "transfer_message payer destination lamports (recent_blockhash m) = Inr m"
    using checks ix decode_transfer_data_iff [of "ix_data ix" lamports]
    by (intro canonical_layout [OF wf _ _ keys]) auto
  moreover have "length (recent_blockhash m) = 32"
    using wf by (simp add: wf_message_def wf_body_def PUBKEY_BYTES_def)
  ultimately show ?thesis
    using bytes checks claim v wf size by blast
qed

lemma verify_native_transfer_complete:
  assumes "length payer = 32" and "length destination = 32" and "length blockhash = 32"
    and t: "transfer_message payer destination lamports blockhash = Inr m"
    and "payer \<noteq> SYSTEM_PROGRAM_ID" and "destination \<noteq> SYSTEM_PROGRAM_ID"
    and "claimed = None \<or> claimed = Some (sha256 (serialize m))"
  shows "verify_native_transfer sha256 b58 (serialize m) payer destination lamports claimed
    = Inr (transfer_facts sha256 b58 (serialize m) payer destination lamports blockhash)"
proof -
  have len: "length (serialize m) = 150"
    using assms by (intro length_serialize_bound)
  then have parse: "parse_message (serialize m) = Inr m"
    using transfer_message_wf [OF t assms(1-3)] by (subst parse_message_iff) (simp_all add: USIZE_LIMIT_def)
  have d: "decode_transfer_data (transfer_data lamports) = Some lamports"
    by (simp add: decode_transfer_data_iff)
  from t have m: "m = \<lparr>header = \<lparr>num_required_signatures = 1, num_readonly_signed_accounts = 0,
        num_readonly_unsigned_accounts = 1\<rparr>,
      account_keys = [payer, destination, SYSTEM_PROGRAM_ID], recent_blockhash = blockhash,
      instructions = [\<lparr>program_id_index = 2, ix_accounts = [0, 1], ix_data = transfer_data lamports\<rparr>]\<rparr>"
    and nz: "lamports \<noteq> 0" "destination \<noteq> payer"
    by (auto simp: transfer_message_def split: if_splits)
  have fields: "header m = \<lparr>num_required_signatures = 1, num_readonly_signed_accounts = 0,
      num_readonly_unsigned_accounts = 1\<rparr>"
    "account_keys m = [payer, destination, SYSTEM_PROGRAM_ID]" "recent_blockhash m = blockhash"
    "instructions m = [\<lparr>program_id_index = 2, ix_accounts = [0, 1], ix_data = transfer_data lamports\<rparr>]"
    by (simp_all add: m)
  show ?thesis
    using assms(5-7) nz
    by (auto simp: verify_native_transfer_def parse len MAX_MESSAGE_SIZE_def PACKET_DATA_SIZE_def fields
        fee_payer_def d transfer_facts_def Let_def split: option.splits)
qed

text \<open>
  C6. The verifier of native transfers accepts exactly the canonical transfers: it returns
  facts for some bytes if and only if the bytes are the serialization of the message that the
  constructor builds for the claimed payer, destination and amount with some 32-byte
  blockhash, neither account is the System Program, and the claimed digest, when there is one, is the
  SHA-256 of the bytes; the facts it returns are the ones of that message.
\<close>

theorem verify_native_transfer_exact:
  assumes "length payer = 32" and "length destination = 32"
  shows "verify_native_transfer sha256 b58 message_bytes payer destination lamports claimed = Inr v \<longleftrightarrow>
    (\<exists>blockhash m. length blockhash = 32 \<and> transfer_message payer destination lamports blockhash = Inr m
      \<and> message_bytes = serialize m \<and> payer \<noteq> SYSTEM_PROGRAM_ID \<and> destination \<noteq> SYSTEM_PROGRAM_ID
      \<and> (claimed = None \<or> claimed = Some (sha256 message_bytes))
      \<and> v = transfer_facts sha256 b58 message_bytes payer destination lamports blockhash)"
  (is "_ = ?canonical")
proof
  show "?canonical" if "verify_native_transfer sha256 b58 message_bytes payer destination lamports claimed = Inr v"
    using verify_native_transfer_sound [OF that] by blast
  show "verify_native_transfer sha256 b58 message_bytes payer destination lamports claimed = Inr v" if "?canonical"
    using that by (elim exE conjE) (simp only:, rule verify_native_transfer_complete [OF assms], assumption+)
qed

theorem verify_native_transfer_exact_witness:
  "\<exists>m. transfer_message (replicate 32 1) (replicate 32 2) 1000000000 (replicate 32 7) = Inr m \<and>
    verify_native_transfer id (\<lambda>_. ''key'') (serialize m) (replicate 32 1) (replicate 32 2) 1000000000 None
      = Inr (transfer_facts id (\<lambda>_. ''key'') (serialize m) (replicate 32 1) (replicate 32 2) 1000000000 (replicate 32 7))"
proof -
  obtain m where m: "transfer_message (replicate 32 1) (replicate 32 2) 1000000000 (replicate 32 7) = Inr m"
    by (simp add: transfer_message_def)
  have "verify_native_transfer id (\<lambda>_. ''key'') (serialize m) (replicate 32 1) (replicate 32 2) 1000000000 None
      = Inr (transfer_facts id (\<lambda>_. ''key'') (serialize m) (replicate 32 1) (replicate 32 2) 1000000000 (replicate 32 7))"
    using m
    by (intro verify_native_transfer_exact [THEN iffD2] exI [of _ "replicate 32 7"] exI [of _ m])
       (simp_all add: SYSTEM_PROGRAM_ID_def)
  with m show ?thesis by blast
qed

text \<open>
  The fee check accepts a verified transfer with exactly one declared fee, 5000 lamports:
  any other amount is reported with the expected and the declared fee.
\<close>

theorem verify_fee_exact:
  assumes "verify_native_transfer sha256 b58 message_bytes payer destination lamports claimed = Inr v"
  shows "verify_fee v declared = (if declared = 5000 then Inr () else Inl (FeeMismatch 5000 declared))"
proof -
  have "vt_signer_count v = 1"
    using verify_native_transfer_sound [OF assms] by (auto simp: transfer_facts_def)
  then show ?thesis
    by (simp add: verify_fee_def LAMPORTS_PER_SIGNATURE_def)
qed

theorem verify_fee_exact_witness:
  "\<exists>m v. transfer_message (replicate 32 1) (replicate 32 2) 1 (replicate 32 7) = Inr m \<and>
    verify_native_transfer id (\<lambda>_. ''key'') (serialize m) (replicate 32 1) (replicate 32 2) 1 None = Inr v \<and>
    verify_fee v 5000 = Inr () \<and> verify_fee v 4999 = Inl (FeeMismatch 5000 4999)"
proof -
  obtain m where m: "transfer_message (replicate 32 1) (replicate 32 2) 1 (replicate 32 7) = Inr m"
    by (simp add: transfer_message_def)
  have v: "verify_native_transfer id (\<lambda>_. ''key'') (serialize m) (replicate 32 1) (replicate 32 2) 1 None
      = Inr (transfer_facts id (\<lambda>_. ''key'') (serialize m) (replicate 32 1) (replicate 32 2) 1 (replicate 32 7))"
    using m by (intro verify_native_transfer_complete) (simp_all add: SYSTEM_PROGRAM_ID_def)
  from m v verify_fee_exact [OF v, of 5000] verify_fee_exact [OF v, of 4999] show ?thesis
    by auto
qed

end
