(* ===== verification/JournalTypes.thy ===== *)
theory JournalTypes
  imports Prelude "HOL-Library.Finite_Map" "HOL-Library.Countable"
begin

text \<open>
  The data the Broker journal works on (crates/bloom-broker/src/journal.rs and the wire types of
  crates/bloom-broker-api/src): error codes and journal errors, the life-cycle states with the
  texts they have in storage, JSON values, signing results, and the environment of the journal:
  the functions of packages that are not part of the repository (SHA-256, the JCS printer and the
  JSON parser, the validating constructors of bloom-rpc-wire, the receipts of bloom-signer-api, the
  clock evaluation of bloom-trusted-time, the message texts of SQLite). A text is the list of
  its UTF-8 bytes as characters.
\<close>

section \<open>Texts and numbers\<close>

definition str_bytes :: "string \<Rightarrow> bytes" where
  "str_bytes s = map of_char s"

lemma of_char_word: "unat (of_char c :: 8 word) = of_char c"
proof -
  have "(of_char c :: nat) mod 256 = of_char c" by simp
  moreover have "unat (of_nat (of_char c) :: 8 word) = of_char c mod 256"
    by (simp only: unat_of_nat) simp
  ultimately show ?thesis by (simp add: of_nat_of_char)
qed

lemma str_bytes_append: "str_bytes (a @ b) = str_bytes a @ str_bytes b"
  by (simp add: str_bytes_def)

lemma str_bytes_inject [simp]: "str_bytes a = str_bytes b \<longleftrightarrow> a = b"
proof -
  have "inj (of_char :: char \<Rightarrow> 8 word)"
    by (rule injI) (metis of_char_word of_char_eq_iff)
  then show ?thesis by (simp add: str_bytes_def inj_map_eq_map)
qed

text \<open>Decimal parsing of an unsigned 64-bit number: an optional plus sign, at least one digit.\<close>

fun digits_value :: "string \<Rightarrow> nat \<Rightarrow> nat option" where
  "digits_value [] acc = Some acc"
| "digits_value (c # cs) acc =
     (let d = of_char c :: nat in
      if 48 \<le> d \<and> d \<le> 57 then digits_value cs (10 * acc + (d - 48)) else None)"

definition u64_from_str :: "string \<Rightarrow> u64 option" where
  "u64_from_str s =
     (let body = (if s \<noteq> [] \<and> hd s = CHR ''+'' then tl s else s) in
      if body = [] then None
      else case digits_value body 0 of
        None \<Rightarrow> None
      | Some n \<Rightarrow> if n < USIZE_LIMIT then Some (of_nat n) else None)"

definition u64_to_string :: "u64 \<Rightarrow> string" where
  "u64_to_string n = decimal (unat n)"

section \<open>Error codes and journal errors\<close>

datatype ProtocolErrorCode =
    UnauthenticatedPeer
  | UnsupportedVersion
  | MalformedFrame
  | LimitExceededFrame
  | UnknownField
  | UnknownMethod
  | OperationIdConflict
  | ApprovalNotFound
  | ApprovalExpired
  | ApprovalRevoked
  | ApprovalRearmRequired
  | RevocationEpochUnreconciled
  | SelectorMismatch
  | SuiteNotAllowed
  | KeyrefMismatch
  | LimitExceededOperations
  | LimitExceededSignatures
  | LimitExceededValue
  | LimitExceededRate
  | SignerRateBackstopDenied
  | ClaimInvalid
  | AssuranceUnavailable
  | ProvenanceMismatch
  | PolicyBaselineStale
  | CeremonyRateLimited
  | CeremonyReplay
  | CeremonyKindMismatch
  | QuotaExceeded
  | ClockUntrusted
  | ClockRollback
  | BackendUnsupported
  | BackendInvalidRequest
  | AmbiguousProviderEffect
  | ServiceUnavailable

datatype DurablePoint =
    ApprovalTransition
  | OperationReceived
  | OperationTransition
  | ReservationCreated
  | ReservationFinalized
  | BatchPublished

text \<open>
  The errors of the journal. A recursive SQL query over a cyclic lineage does not return: the
  model gives it the value \<open>QueryDiverges\<close>, which the code has no name for.
\<close>

datatype JournalError =
    Protocol ProtocolErrorCode string
  | InjectedCrash DurablePoint string
  | Storage string
  | QueryDiverges

section \<open>Life-cycle states\<close>

datatype ApprovalLifecycleState =
    AS_Prepared | AS_AwaitingCeremony | AS_Orphaned | AS_Active | AS_Exhausted | AS_Expired
  | AS_Revoked | AS_Cancelled | AS_Failed

datatype OperationState =
    OS_Received | OS_Validated | OS_Reserved | OS_Dispatched | OS_DownstreamAccepted | OS_Committed
  | OS_Succeeded | OS_Denied | OS_Cancelled | OS_Failed | OS_Quarantined

datatype ReservationState = RS_Reserved | RS_Committed | RS_Released | RS_Quarantined

fun approval_state_text :: "ApprovalLifecycleState \<Rightarrow> string" where
  "approval_state_text AS_Prepared = ''PREPARED''"
| "approval_state_text AS_AwaitingCeremony = ''AWAITING_CEREMONY''"
| "approval_state_text AS_Orphaned = ''ORPHANED''"
| "approval_state_text AS_Active = ''ACTIVE''"
| "approval_state_text AS_Exhausted = ''EXHAUSTED''"
| "approval_state_text AS_Expired = ''EXPIRED''"
| "approval_state_text AS_Revoked = ''REVOKED''"
| "approval_state_text AS_Cancelled = ''CANCELLED''"
| "approval_state_text AS_Failed = ''FAILED''"

fun operation_state_text :: "OperationState \<Rightarrow> string" where
  "operation_state_text OS_Received = ''RECEIVED''"
| "operation_state_text OS_Validated = ''VALIDATED''"
| "operation_state_text OS_Reserved = ''RESERVED''"
| "operation_state_text OS_Dispatched = ''DISPATCHED''"
| "operation_state_text OS_DownstreamAccepted = ''DOWNSTREAM_ACCEPTED''"
| "operation_state_text OS_Committed = ''COMMITTED''"
| "operation_state_text OS_Succeeded = ''SUCCEEDED''"
| "operation_state_text OS_Denied = ''DENIED''"
| "operation_state_text OS_Cancelled = ''CANCELLED''"
| "operation_state_text OS_Failed = ''FAILED''"
| "operation_state_text OS_Quarantined = ''QUARANTINED''"

fun reservation_state_text :: "ReservationState \<Rightarrow> string" where
  "reservation_state_text RS_Reserved = ''RESERVED''"
| "reservation_state_text RS_Committed = ''COMMITTED''"
| "reservation_state_text RS_Released = ''RELEASED''"
| "reservation_state_text RS_Quarantined = ''QUARANTINED''"

definition all_approval_states :: "ApprovalLifecycleState list" where
  "all_approval_states = [AS_Prepared, AS_AwaitingCeremony, AS_Orphaned, AS_Active, AS_Exhausted,
     AS_Expired, AS_Revoked, AS_Cancelled, AS_Failed]"

definition all_operation_states :: "OperationState list" where
  "all_operation_states = [OS_Received, OS_Validated, OS_Reserved, OS_Dispatched,
     OS_DownstreamAccepted, OS_Committed, OS_Succeeded, OS_Denied, OS_Cancelled, OS_Failed,
     OS_Quarantined]"

definition all_reservation_states :: "ReservationState list" where
  "all_reservation_states = [RS_Reserved, RS_Committed, RS_Released, RS_Quarantined]"

section \<open>JSON values\<close>

text \<open>
  The values of serde_json: an object is a finite map, so equality does not depend on the
  order of the fields; the numbers the journal prints are natural.
\<close>

datatype json =
    JNull
  | JBool bool
  | JNumber nat
  | JString string
  | JArray "json list"
  | JObject "(string, json) fmap"

fun json_get :: "json \<Rightarrow> string \<Rightarrow> json option" where
  "json_get (JObject fields) key = fmlookup fields key"
| "json_get _ _ = None"

fun json_as_str :: "json \<Rightarrow> string option" where
  "json_as_str (JString s) = Some s"
| "json_as_str _ = None"

definition json_object :: "(string \<times> json) list \<Rightarrow> json" where
  "json_object fields = JObject (fmap_of_list fields)"

text \<open>A serialized \<open>Option\<close>: null when it is absent.\<close>

fun json_option :: "json option \<Rightarrow> json" where
  "json_option None = JNull"
| "json_option (Some v) = v"

lemma json_get_object [simp]: "json_get (json_object fields) key = map_of fields key"
  by (simp add: json_object_def fmlookup_of_list)

instance char :: countable
  by (rule countable_classI [of of_char]) simp

instance json :: countable
  by countable_datatype

section \<open>Identifiers, results, receipts and requests\<close>

type_synonym Digest32 = string
type_synonym OperationId = string
type_synonym Token = string
type_synonym BootEpoch = string
type_synonym Base64UrlBytes = string
type_synonym DecimalU256 = string

record NormalizedSignature =
  crypto_suite :: string
  signature_bytes :: Base64UrlBytes

record SigningResult =
  sr_operation_id :: OperationId
  sr_operation_digest :: Digest32
  sr_signatures :: "NormalizedSignature list"
  sr_signer_receipt_digest :: Digest32
  sr_broker_receipt_digest :: Digest32

definition signing_result_json :: "SigningResult \<Rightarrow> json" where
  "signing_result_json r = json_object
     [(''operation_id'', JString (sr_operation_id r)),
      (''operation_digest'', JString (sr_operation_digest r)),
      (''signatures'', JArray (map (\<lambda>s. json_object
         [(''crypto_suite'', JString (crypto_suite s)), (''bytes'', JString (signature_bytes s))])
         (sr_signatures r))),
      (''signer_receipt_digest'', JString (sr_signer_receipt_digest r)),
      (''broker_receipt_digest'', JString (sr_broker_receipt_digest r))]"

text \<open>
  The receipt and the request of bloom-signer-api, with the fields the journal reads; \<open>vr_rest\<close>
  and \<open>rq_rest\<close> stand for the others.
\<close>

record BrokerValidationReceipt =
  vr_approval_id :: Digest32
  vr_operation_digest :: Digest32
  vr_policy_version :: u64
  vr_policy_digest :: Digest32
  vr_claim_digest :: "Digest32 option"
  vr_assurance_digest :: "Digest32 option"
  vr_broker_key_id :: Token
  vr_broker_signature :: bytes
  vr_rest :: json

record UnsignedSignRequest =
  rq_operation_id :: OperationId
  rq_operation_digest :: Digest32
  rq_attempt_id :: OperationId
  rq_attempt_digest :: Digest32
  rq_approval_id :: Digest32
  rq_policy_version :: u64
  rq_policy_digest :: Digest32
  rq_petal_use_claim_digest :: "Digest32 option"
  rq_claim_assurance_digest :: "Digest32 option"
  rq_broker_signing_key_id :: Token
  rq_validation_receipt_digest :: Digest32
  rq_rest :: json

section \<open>The durable clock of bloom-trusted-time\<close>

datatype DurableClockCondition = DC_Healthy | DC_Untrusted | DC_RollbackFrozen | DC_ForwardJumpRejected

record PersistedClockState =
  pc_last_effective_ms :: u64
  pc_monotonic_anchor_ns :: u64
  pc_boot_epoch :: "bytes option"

record PlatformTimeReading =
  pr_utc_ms :: "u64 option"
  pr_monotonic_anchor_ns :: u64
  pr_monotonic_elapsed_ms :: u64

section \<open>The environment\<close>

datatype SqlError =
    UniqueConstraint string
  | ForeignKeyConstraint
  | QueryReturnedNoRows
  | InvalidColumnType nat string

record env =
  e_sha256 :: "bytes \<Rightarrow> string"
  e_digest32_new :: "string \<Rightarrow> JournalError + Digest32"
  e_operation_id_new :: "string \<Rightarrow> JournalError + OperationId"
  e_token_new :: "string \<Rightarrow> JournalError + Token"
  e_boot_epoch_new :: "string \<Rightarrow> JournalError + BootEpoch"
  e_boot_epoch_to_bytes :: "BootEpoch \<Rightarrow> bytes"
  e_base64url_parse :: "string \<Rightarrow> JournalError + Base64UrlBytes"
  e_jcs :: "json \<Rightarrow> JournalError + string"
  e_json_from_str :: "string \<Rightarrow> string + json"
  e_signing_result_from_str :: "string \<Rightarrow> string + SigningResult"
  e_receipt_jcs :: "BrokerValidationReceipt \<Rightarrow> JournalError + string"
  e_receipt_from_str :: "string \<Rightarrow> string + BrokerValidationReceipt"
  e_receipt_digest :: "BrokerValidationReceipt \<Rightarrow> JournalError + Digest32"
  e_operation_identity_digest :: "UnsignedSignRequest \<Rightarrow> JournalError + Digest32"
  e_computed_attempt_digest :: "UnsignedSignRequest \<Rightarrow> JournalError + Digest32"
  e_request_value :: "UnsignedSignRequest \<Rightarrow> JournalError + json"
  e_biguint_from_str :: "string \<Rightarrow> string + nat"
  e_terms_expires_at_ms :: "string \<Rightarrow> string + u64"
  e_evaluate_durable_clock ::
    "PersistedClockState option \<Rightarrow> PlatformTimeReading \<Rightarrow> bytes option \<Rightarrow> u64
      \<Rightarrow> string + (u64 \<times> DurableClockCondition)"
  e_sqlite_text :: "SqlError \<Rightarrow> string"
  e_parse_int_text :: "string \<Rightarrow> string"
  e_state_parse_text :: "string \<Rightarrow> string"
  e_wire_error_text :: "string \<Rightarrow> string"
  e_fault_hook :: "DurablePoint \<Rightarrow> string option"

definition parse_u64 :: "env \<Rightarrow> string \<Rightarrow> JournalError + u64" where
  "parse_u64 env s = ok_or (u64_from_str s) (Storage (e_parse_int_text env s))"

definition parse_biguint :: "env \<Rightarrow> string \<Rightarrow> JournalError + nat" where
  "parse_biguint env s = map_err Storage (e_biguint_from_str env s)"

definition sqlite_error :: "env \<Rightarrow> SqlError \<Rightarrow> JournalError" where
  "sqlite_error env e = Storage (e_sqlite_text env e)"

definition parse_approval_state :: "env \<Rightarrow> string \<Rightarrow> JournalError + ApprovalLifecycleState" where
  "parse_approval_state env s =
     ok_or (find (\<lambda>state. approval_state_text state = s) all_approval_states) (Storage (e_state_parse_text env s))"

definition parse_operation_state :: "env \<Rightarrow> string \<Rightarrow> JournalError + OperationState" where
  "parse_operation_state env s =
     ok_or (find (\<lambda>state. operation_state_text state = s) all_operation_states) (Storage (e_state_parse_text env s))"

definition parse_reservation_state :: "string \<Rightarrow> JournalError + ReservationState" where
  "parse_reservation_state s =
     ok_or (find (\<lambda>state. reservation_state_text state = s) all_reservation_states)
       (Storage ''invalid reservation state'')"

section \<open>Round trips\<close>

lemma digits_value_append: "digits_value (xs @ ys) acc = (case digits_value xs acc of None \<Rightarrow> None | Some n \<Rightarrow> digits_value ys n)"
  by (induction xs acc rule: digits_value.induct) (simp_all add: Let_def)

lemma digit_char: "d < 10 \<Longrightarrow> (of_char (char_of (48 + d) :: char) :: nat) = 48 + d"
  by simp

lemma digits_value_decimal: "digits_value (decimal n) 0 = Some n"
proof (induction n rule: decimal.induct)
  case (1 n)
  show ?case
  proof (cases "n < 10")
    case True
    then show ?thesis by (subst decimal.simps) (simp add: Let_def)
  next
    case False
    have "n mod 10 < 10" by simp
    with 1 False show ?thesis
      by (subst decimal.simps) (simp add: digits_value_append Let_def digit_char del: of_char_of)
  qed
qed

lemma decimal_Nil [simp]: "decimal n \<noteq> []"
  by (subst decimal.simps) simp

lemma hd_decimal: "hd (decimal n) \<noteq> CHR ''+''"
proof (induction n rule: decimal.induct)
  case (1 n)
  have "char_of (48 + n) \<noteq> CHR ''+''" if "n < 10"
  proof
    assume "char_of (48 + n) = CHR ''+''"
    then have "(of_char (char_of (48 + n) :: char) :: nat) = of_char CHR ''+''" by simp
    with digit_char [OF that] show False by simp
  qed
  with 1 show ?case by (subst decimal.simps) (auto simp: hd_append)
qed

lemma u64_from_to_string [simp]: "u64_from_str (u64_to_string n) = Some n"
proof -
  have "unat n < USIZE_LIMIT"
    using unsigned_less [of n, where 'a = nat] by (simp add: USIZE_LIMIT_def)
  then show ?thesis
    by (simp add: u64_from_str_def u64_to_string_def hd_decimal digits_value_decimal Let_def)
qed

lemma u64_to_string_inject [simp]: "u64_to_string m = u64_to_string n \<longleftrightarrow> m = n"
  using u64_from_to_string [of m] u64_from_to_string [of n] by (metis option.inject)

lemma parse_u64_to_string [simp]: "parse_u64 env (u64_to_string n) = Inr n"
  by (simp add: parse_u64_def)

text \<open>
  The texts of an enumeration: a list of all its values with pairwise different texts. A stored
  text is read back by searching the list, as the derived deserializers do.
\<close>

locale enum_text =
  fixes text_of :: "'s \<Rightarrow> string" and all_values :: "'s list"
  assumes text_inject: "text_of a = text_of b \<Longrightarrow> a = b"
    and all_values: "a \<in> set all_values"
begin

lemma find_text: "find (\<lambda>v. text_of v = s) all_values = Some a \<longleftrightarrow> s = text_of a"
proof
  show "s = text_of a" if "find (\<lambda>v. text_of v = s) all_values = Some a"
    using that by (auto simp: find_Some_iff)
  show "find (\<lambda>v. text_of v = s) all_values = Some a" if "s = text_of a"
  proof (cases "find (\<lambda>v. text_of v = s) all_values")
    case None
    then show ?thesis using all_values [of a] that by (auto simp: find_None_iff)
  next
    case (Some b)
    then have "text_of b = s" by (auto simp: find_Some_iff)
    with that Some show ?thesis using text_inject [of b a] by simp
  qed
qed

lemma text_eq: "text_of a = text_of b \<longleftrightarrow> a = b"
  using text_inject by blast

end

interpretation approval_text: enum_text approval_state_text all_approval_states
proof
  show "a = b" if "approval_state_text a = approval_state_text b" for a b
    using that by (cases a; cases b) simp_all
  show "a \<in> set all_approval_states" for a
    by (cases a) (simp_all add: all_approval_states_def)
qed

interpretation operation_text: enum_text operation_state_text all_operation_states
proof
  show "a = b" if "operation_state_text a = operation_state_text b" for a b
    using that by (cases a; cases b) simp_all
  show "a \<in> set all_operation_states" for a
    by (cases a) (simp_all add: all_operation_states_def)
qed

interpretation reservation_text: enum_text reservation_state_text all_reservation_states
proof
  show "a = b" if "reservation_state_text a = reservation_state_text b" for a b
    using that by (cases a; cases b) simp_all
  show "a \<in> set all_reservation_states" for a
    by (cases a) (simp_all add: all_reservation_states_def)
qed

lemmas state_text_eq [simp] = approval_text.text_eq operation_text.text_eq reservation_text.text_eq

lemma parse_approval_state_Inr: "parse_approval_state env s = Inr a \<longleftrightarrow> s = approval_state_text a"
  by (simp add: parse_approval_state_def approval_text.find_text)

lemma parse_operation_state_Inr: "parse_operation_state env s = Inr a \<longleftrightarrow> s = operation_state_text a"
  by (simp add: parse_operation_state_def operation_text.find_text)

lemma parse_reservation_state_Inr: "parse_reservation_state s = Inr a \<longleftrightarrow> s = reservation_state_text a"
  by (simp add: parse_reservation_state_def reservation_text.find_text)

lemma parse_state_text [simp]:
  "parse_approval_state env (approval_state_text a) = Inr a"
  "parse_operation_state env (operation_state_text b) = Inr b"
  "parse_reservation_state (reservation_state_text c) = Inr c"
  by (simp_all add: parse_approval_state_Inr parse_operation_state_Inr parse_reservation_state_Inr)

end
