(* ===== verification/JournalStore.thy ===== *)
theory JournalStore
  imports JournalTypes
begin

text \<open>
  The tables of the journal (the CREATE TABLE statements of \<open>BrokerJournal::from_connection\<close>) as
  lists of rows in insertion order, the SQL statements the journal runs on them with the
  constraints of the schema, and transactions: a statement sequence either commits or leaves the
  tables as they were. SQLite counts the changed rows of a connection and does not take the
  count back on a rollback; the cache of the audit head relies on that counter.
\<close>

section \<open>Rows and tables\<close>

record approval_row =
  ap_approval_id :: string
  ap_state :: string

record metadata_row =
  md_approval_id :: string
  md_terms_jcs :: string
  md_review_manifest_digest :: string
  md_approved_claim_digest :: "string option"
  md_provenance_jcs :: "string option"
  md_renewal_of :: "string option"
  md_activation_operation_id :: "string option"
  md_ceremony_grant_jcs :: "string option"

record operation_row =
  op_operation_id :: string
  op_operation_digest :: string
  op_retry_binding_digest :: string
  op_state :: string
  op_is_batch :: bool
  op_result_jcs :: "string option"
  op_validation_receipt_jcs :: "string option"
  op_kind :: string

record attempt_row =
  at_operation_id :: string
  at_attempt_id :: string
  at_attempt_digest :: string

record child_row =
  ch_parent_operation_id :: string
  ch_child_operation_id :: string
  ch_ordinal :: nat
  ch_result_jcs :: string

record reservation_row =
  rs_approval_id :: string
  rs_operation_id :: string
  rs_operation_digest :: string
  rs_signature_count :: string
  rs_reserved_at_ms :: string
  rs_observed_utc_ms :: "string option"
  rs_monotonic_anchor_ns :: string
  rs_clock_boot_epoch :: string
  rs_state :: string

record value_row =
  rv_approval_id :: string
  rv_operation_id :: string
  rv_asset_id :: string
  rv_amount :: string

record audit_row =
  au_sequence :: int
  au_event_type :: string
  au_payload_jcs :: string
  au_previous_hash :: string
  au_entry_hash :: string
  au_signing_key_id :: string
  au_signature :: string

record clock_row =
  ck_last_effective_ms :: string
  ck_condition :: string
  ck_observed_utc_ms :: "string option"
  ck_monotonic_anchor_ns :: string
  ck_boot_epoch :: string

record db =
  approvals :: "approval_row list"
  approval_metadata :: "metadata_row list"
  operations :: "operation_row list"
  operation_attempts :: "attempt_row list"
  batch_children :: "child_row list"
  reservations :: "reservation_row list"
  reservation_values :: "value_row list"
  audit_chain :: "audit_row list"
  clock_state :: "clock_row option"
  total_changes :: nat

definition empty_db :: db where
  "empty_db = \<lparr>approvals = [], approval_metadata = [], operations = [], operation_attempts = [],
     batch_children = [], reservations = [], reservation_values = [], audit_chain = [],
     clock_state = None, total_changes = 0\<rparr>"

section \<open>Statements and transactions\<close>

type_synonym 'a tx = "db \<Rightarrow> db \<times> (JournalError + 'a)"

definition tx_return :: "'a \<Rightarrow> 'a tx" where
  "tx_return a db = (db, Inr a)"

definition tx_fail :: "JournalError \<Rightarrow> 'a tx" where
  "tx_fail e db = (db, Inl e)"

definition tx_bind :: "'a tx \<Rightarrow> ('a \<Rightarrow> 'b tx) \<Rightarrow> 'b tx" where
  "tx_bind m f db = (case m db of (db', Inl e) \<Rightarrow> (db', Inl e) | (db', Inr a) \<Rightarrow> f a db')"

definition tx_lift :: "JournalError + 'a \<Rightarrow> 'a tx" where
  "tx_lift r db = (db, r)"

definition tx_query :: "(db \<Rightarrow> 'a) \<Rightarrow> 'a tx" where
  "tx_query q db = (db, Inr (q db))"

definition tx_check :: "(db \<Rightarrow> JournalError + 'a) \<Rightarrow> 'a tx" where
  "tx_check q db = (db, q db)"

fun tx_iter :: "('a \<Rightarrow> unit tx) \<Rightarrow> 'a list \<Rightarrow> unit tx" where
  "tx_iter f [] = tx_return ()"
| "tx_iter f (x # xs) = tx_bind (f x) (\<lambda>_. tx_iter f xs)"

text \<open>A transaction that is dropped without a commit is rolled back.\<close>

definition run_transaction :: "'a tx \<Rightarrow> 'a tx" where
  "run_transaction m db = (case m db of
     (db', Inr a) \<Rightarrow> (db', Inr a)
   | (db', Inl e) \<Rightarrow> (db\<lparr>total_changes := total_changes db'\<rparr>, Inl e))"

lemma tx_return_iff [simp]: "tx_return a db = (db', r) \<longleftrightarrow> db' = db \<and> r = Inr a"
  by (auto simp: tx_return_def)

lemma tx_fail_iff [simp]: "tx_fail e db = (db', r) \<longleftrightarrow> db' = db \<and> r = Inl e"
  by (auto simp: tx_fail_def)

lemma tx_query_iff [simp]: "tx_query q db = (db', r) \<longleftrightarrow> db' = db \<and> r = Inr (q db)"
  by (auto simp: tx_query_def)

lemma tx_lift_iff [simp]: "tx_lift q db = (db', r) \<longleftrightarrow> db' = db \<and> q = r"
  by (auto simp: tx_lift_def)

lemma tx_check_iff [simp]: "tx_check q db = (db', r) \<longleftrightarrow> db' = db \<and> q db = r"
  by (auto simp: tx_check_def)

lemma tx_bind_Inr:
  "tx_bind m f db = (db', Inr b) \<longleftrightarrow> (\<exists>db1 a. m db = (db1, Inr a) \<and> f a db1 = (db', Inr b))"
  by (auto simp: tx_bind_def split: prod.splits sum.splits)

lemma tx_bind_Inl:
  "tx_bind m f db = (db', Inl e) \<longleftrightarrow>
     m db = (db', Inl e) \<or> (\<exists>db1 a. m db = (db1, Inr a) \<and> f a db1 = (db', Inl e))"
  by (auto simp: tx_bind_def split: prod.splits sum.splits)

lemma tx_bind_query [simp]: "tx_bind (tx_query q) f db = f (q db) db"
  by (simp add: tx_bind_def tx_query_def)

lemma tx_bind_return [simp]: "tx_bind (tx_return a) f = f a"
  by (rule ext) (simp add: tx_bind_def tx_return_def)

lemma tx_bind_fail [simp]: "tx_bind (tx_fail e) f = tx_fail e"
  by (rule ext) (simp add: tx_bind_def tx_fail_def)

section \<open>The counter of changed rows\<close>

definition changed :: "nat \<Rightarrow> db \<Rightarrow> db" where
  "changed n db = db\<lparr>total_changes := total_changes db + n\<rparr>"

lemma changed_sel [simp]:
  "approvals (changed n db) = approvals db" "approval_metadata (changed n db) = approval_metadata db"
  "operations (changed n db) = operations db" "operation_attempts (changed n db) = operation_attempts db"
  "batch_children (changed n db) = batch_children db" "reservations (changed n db) = reservations db"
  "reservation_values (changed n db) = reservation_values db" "audit_chain (changed n db) = audit_chain db"
  "clock_state (changed n db) = clock_state db" "total_changes (changed n db) = total_changes db + n"
  by (simp_all add: changed_def)

definition update_where :: "('r \<Rightarrow> bool) \<Rightarrow> ('r \<Rightarrow> 'r) \<Rightarrow> 'r list \<Rightarrow> 'r list" where
  "update_where P f rows = map (\<lambda>r. if P r then f r else r) rows"

definition count_where :: "('r \<Rightarrow> bool) \<Rightarrow> 'r list \<Rightarrow> nat" where
  "count_where P rows = length (filter P rows)"

section \<open>Statements on the approval tables\<close>

definition select_approval :: "string \<Rightarrow> db \<Rightarrow> approval_row option" where
  "select_approval approval_id db = find (\<lambda>r. ap_approval_id r = approval_id) (approvals db)"

definition select_metadata :: "string \<Rightarrow> db \<Rightarrow> metadata_row option" where
  "select_metadata approval_id db = find (\<lambda>r. md_approval_id r = approval_id) (approval_metadata db)"

definition insert_approval :: "env \<Rightarrow> string \<Rightarrow> string \<Rightarrow> unit tx" where
  "insert_approval env approval_id state db =
     (if select_approval approval_id db \<noteq> None
      then (db, Inl (sqlite_error env (UniqueConstraint ''approvals.approval_id'')))
      else (changed 1 (db\<lparr>approvals := approvals db @ [\<lparr>ap_approval_id = approval_id, ap_state = state\<rparr>]\<rparr>), Inr ()))"

definition update_approval_state :: "string \<Rightarrow> string \<Rightarrow> unit tx" where
  "update_approval_state approval_id state db =
     (changed (count_where (\<lambda>r. ap_approval_id r = approval_id) (approvals db))
        (db\<lparr>approvals := update_where (\<lambda>r. ap_approval_id r = approval_id) (\<lambda>r. r\<lparr>ap_state := state\<rparr>) (approvals db)\<rparr>),
      Inr ())"

text \<open>
  The activation columns of a new row are NULL; the approval and the renewed approval must be
  rows of \<open>approvals\<close>.
\<close>

definition insert_metadata :: "env \<Rightarrow> metadata_row \<Rightarrow> unit tx" where
  "insert_metadata env row db =
     (if select_metadata (md_approval_id row) db \<noteq> None
      then (db, Inl (sqlite_error env (UniqueConstraint ''approval_metadata.approval_id'')))
      else if select_approval (md_approval_id row) db = None
         \<or> (\<exists>renewed \<in> set_option (md_renewal_of row). select_approval renewed db = None)
      then (db, Inl (sqlite_error env ForeignKeyConstraint))
      else (changed 1 (db\<lparr>approval_metadata := approval_metadata db @ [row]\<rparr>), Inr ()))"

definition update_metadata_activation :: "env \<Rightarrow> string \<Rightarrow> string \<Rightarrow> string \<Rightarrow> unit tx" where
  "update_metadata_activation env approval_id activation_operation_id ceremony_grant_jcs db =
     (if \<exists>r \<in> set (approval_metadata db). md_approval_id r \<noteq> approval_id
           \<and> md_activation_operation_id r = Some activation_operation_id
         \<and> select_metadata approval_id db \<noteq> None
      then (db, Inl (sqlite_error env (UniqueConstraint ''approval_metadata.activation_operation_id'')))
      else (changed (count_where (\<lambda>r. md_approval_id r = approval_id) (approval_metadata db))
        (db\<lparr>approval_metadata := update_where (\<lambda>r. md_approval_id r = approval_id)
            (\<lambda>r. r\<lparr>md_activation_operation_id := Some activation_operation_id,
                   md_ceremony_grant_jcs := Some ceremony_grant_jcs\<rparr>) (approval_metadata db)\<rparr>),
        Inr ()))"

section \<open>Statements on the operation tables\<close>

definition select_operation :: "string \<Rightarrow> db \<Rightarrow> operation_row option" where
  "select_operation operation_id db = find (\<lambda>r. op_operation_id r = operation_id) (operations db)"

definition insert_operation :: "env \<Rightarrow> operation_row \<Rightarrow> unit tx" where
  "insert_operation env row db =
     (if select_operation (op_operation_id row) db \<noteq> None
      then (db, Inl (sqlite_error env (UniqueConstraint ''operations.operation_id'')))
      else (changed 1 (db\<lparr>operations := operations db @ [row]\<rparr>), Inr ()))"

text \<open>An update of the operations that satisfy a condition; the result is the number of rows changed.\<close>

definition update_operations :: "(operation_row \<Rightarrow> bool) \<Rightarrow> (operation_row \<Rightarrow> operation_row) \<Rightarrow> nat tx" where
  "update_operations P f db =
     (changed (count_where P (operations db)) (db\<lparr>operations := update_where P f (operations db)\<rparr>),
      Inr (count_where P (operations db)))"

definition select_attempt :: "string \<Rightarrow> string \<Rightarrow> db \<Rightarrow> attempt_row option" where
  "select_attempt operation_id attempt_id db =
     find (\<lambda>r. at_operation_id r = operation_id \<and> at_attempt_id r = attempt_id) (operation_attempts db)"

definition attempt_conflict :: "attempt_row \<Rightarrow> db \<Rightarrow> string option" where
  "attempt_conflict row db =
     (if select_attempt (at_operation_id row) (at_attempt_id row) db \<noteq> None
      then Some ''operation_attempts.operation_id, operation_attempts.attempt_id''
      else if \<exists>r \<in> set (operation_attempts db). at_operation_id r = at_operation_id row
          \<and> at_attempt_digest r = at_attempt_digest row
      then Some ''operation_attempts.operation_id, operation_attempts.attempt_digest''
      else None)"

definition insert_attempt :: "env \<Rightarrow> attempt_row \<Rightarrow> unit tx" where
  "insert_attempt env row db = (case attempt_conflict row db of
     Some columns \<Rightarrow> (db, Inl (sqlite_error env (UniqueConstraint columns)))
   | None \<Rightarrow>
       if select_operation (at_operation_id row) db = None
       then (db, Inl (sqlite_error env ForeignKeyConstraint))
       else (changed 1 (db\<lparr>operation_attempts := operation_attempts db @ [row]\<rparr>), Inr ()))"

text \<open>INSERT OR IGNORE skips a row that violates a uniqueness constraint, not a foreign key.\<close>

definition insert_or_ignore_attempt :: "env \<Rightarrow> attempt_row \<Rightarrow> unit tx" where
  "insert_or_ignore_attempt env row db = (case attempt_conflict row db of
     Some _ \<Rightarrow> (db, Inr ())
   | None \<Rightarrow> insert_attempt env row db)"

definition select_children :: "string \<Rightarrow> db \<Rightarrow> child_row list" where
  "select_children parent_operation_id db =
     sort_key ch_ordinal (filter (\<lambda>r. ch_parent_operation_id r = parent_operation_id) (batch_children db))"

definition insert_child :: "env \<Rightarrow> child_row \<Rightarrow> unit tx" where
  "insert_child env row db =
     (if \<exists>r \<in> set (batch_children db). ch_child_operation_id r = ch_child_operation_id row
      then (db, Inl (sqlite_error env (UniqueConstraint ''batch_children.child_operation_id'')))
      else if \<exists>r \<in> set (batch_children db). ch_parent_operation_id r = ch_parent_operation_id row
          \<and> ch_ordinal r = ch_ordinal row
      then (db, Inl (sqlite_error env (UniqueConstraint ''batch_children.parent_operation_id, batch_children.ordinal'')))
      else if select_operation (ch_parent_operation_id row) db = None
      then (db, Inl (sqlite_error env ForeignKeyConstraint))
      else (changed 1 (db\<lparr>batch_children := batch_children db @ [row]\<rparr>), Inr ()))"

section \<open>Statements on the reservation tables\<close>

definition select_reservation :: "string \<Rightarrow> string \<Rightarrow> db \<Rightarrow> reservation_row option" where
  "select_reservation approval_id operation_id db =
     find (\<lambda>r. rs_approval_id r = approval_id \<and> rs_operation_id r = operation_id) (reservations db)"

definition insert_reservation :: "env \<Rightarrow> reservation_row \<Rightarrow> unit tx" where
  "insert_reservation env row db =
     (if select_reservation (rs_approval_id row) (rs_operation_id row) db \<noteq> None
      then (db, Inl (sqlite_error env (UniqueConstraint ''reservations.approval_id, reservations.operation_id'')))
      else (changed 1 (db\<lparr>reservations := reservations db @ [row]\<rparr>), Inr ()))"

definition update_reservation_state :: "string \<Rightarrow> string \<Rightarrow> string \<Rightarrow> unit tx" where
  "update_reservation_state approval_id operation_id state db =
     (changed (count_where (\<lambda>r. rs_approval_id r = approval_id \<and> rs_operation_id r = operation_id) (reservations db))
       (db\<lparr>reservations := update_where (\<lambda>r. rs_approval_id r = approval_id \<and> rs_operation_id r = operation_id)
            (\<lambda>r. r\<lparr>rs_state := state\<rparr>) (reservations db)\<rparr>),
      Inr ())"

definition insert_value :: "env \<Rightarrow> value_row \<Rightarrow> unit tx" where
  "insert_value env row db =
     (if \<exists>r \<in> set (reservation_values db). rv_approval_id r = rv_approval_id row
          \<and> rv_operation_id r = rv_operation_id row \<and> rv_asset_id r = rv_asset_id row
      then (db, Inl (sqlite_error env (UniqueConstraint
        ''reservation_values.approval_id, reservation_values.operation_id, reservation_values.asset_id'')))
      else if select_reservation (rv_approval_id row) (rv_operation_id row) db = None
      then (db, Inl (sqlite_error env ForeignKeyConstraint))
      else (changed 1 (db\<lparr>reservation_values := reservation_values db @ [row]\<rparr>), Inr ()))"

section \<open>Statements on the audit chain and the clock\<close>

text \<open>The row with the greatest sequence: ORDER BY sequence DESC LIMIT 1.\<close>

definition last_audit_row :: "db \<Rightarrow> audit_row option" where
  "last_audit_row db = (case rev (sort_key au_sequence (audit_chain db)) of [] \<Rightarrow> None | r # _ \<Rightarrow> Some r)"

definition insert_audit :: "env \<Rightarrow> audit_row \<Rightarrow> unit tx" where
  "insert_audit env row db =
     (if \<exists>r \<in> set (audit_chain db). au_sequence r = au_sequence row
      then (db, Inl (sqlite_error env (UniqueConstraint ''audit_chain.sequence'')))
      else (changed 1 (db\<lparr>audit_chain := audit_chain db @ [row]\<rparr>), Inr ()))"

definition upsert_clock :: "clock_row \<Rightarrow> unit tx" where
  "upsert_clock row db = (changed 1 (db\<lparr>clock_state := Some row\<rparr>), Inr ())"

section \<open>Every change is counted\<close>

text \<open>
  A store whose counter did not move is unchanged. The cache of the audit head is sound because
  all statements have this property, and with them all transactions, rolled back or not.
\<close>

definition counted :: "db \<Rightarrow> db \<Rightarrow> bool" where
  "counted db db' \<longleftrightarrow> total_changes db \<le> total_changes db' \<and> (total_changes db' = total_changes db \<longrightarrow> db' = db)"

definition counted_tx :: "'a tx \<Rightarrow> bool" where
  "counted_tx m \<longleftrightarrow> (\<forall>db db' r. m db = (db', r) \<longrightarrow> counted db db')"

named_theorems counted_intros

lemma counted_refl [simp]: "counted db db"
  by (simp add: counted_def)

lemma counted_trans: "counted a b \<Longrightarrow> counted b c \<Longrightarrow> counted a c"
  by (auto simp: counted_def)

lemma counted_changed: "0 < n \<Longrightarrow> total_changes db' = total_changes db \<Longrightarrow> counted db (changed n db')"
  by (simp add: counted_def)

lemma count_where_0: "count_where P rows = 0 \<Longrightarrow> update_where P f rows = rows"
  by (auto simp: count_where_def update_where_def filter_empty_conv intro!: map_idI)

lemma counted_bind [counted_intros]: "counted_tx m \<Longrightarrow> (\<And>a. counted_tx (f a)) \<Longrightarrow> counted_tx (tx_bind m f)"
  unfolding counted_tx_def tx_bind_def
  by (auto split: prod.splits sum.splits) (blast intro: counted_trans)

lemma counted_read [counted_intros]:
  "counted_tx (tx_return a)" "counted_tx (tx_fail e)" "counted_tx (tx_query q)"
  "counted_tx (tx_lift r)" "counted_tx (tx_check c)"
  by (auto simp: counted_tx_def tx_return_def tx_fail_def tx_query_def tx_lift_def tx_check_def)

lemma counted_iter [counted_intros]: "(\<And>x. counted_tx (f x)) \<Longrightarrow> counted_tx (tx_iter f xs)"
  by (induction xs) (auto intro: counted_intros)

lemma counted_inserts [counted_intros]:
  "counted_tx (insert_approval env a st)" "counted_tx (insert_metadata env md)"
  "counted_tx (insert_operation env opr)" "counted_tx (insert_attempt env at)"
  "counted_tx (insert_or_ignore_attempt env at)" "counted_tx (insert_child env ch)"
  "counted_tx (insert_reservation env rs)" "counted_tx (insert_value env rv)"
  "counted_tx (insert_audit env au)" "counted_tx (upsert_clock ck)"
  by (auto simp: counted_tx_def insert_approval_def insert_metadata_def insert_operation_def insert_attempt_def
      insert_or_ignore_attempt_def insert_child_def insert_reservation_def insert_value_def insert_audit_def
      upsert_clock_def counted_def split: if_splits option.splits)

lemma counted_updates [counted_intros]:
  "counted_tx (update_approval_state a st)" "counted_tx (update_metadata_activation env a oid g)"
  "counted_tx (update_operations P f)" "counted_tx (update_reservation_state a oid st)"
  by (auto simp: counted_tx_def update_approval_state_def update_metadata_activation_def update_operations_def
      update_reservation_state_def counted_def changed_def count_where_0 split: if_splits)

lemma counted_if [counted_intros]: "(b \<Longrightarrow> counted_tx m) \<Longrightarrow> (\<not> b \<Longrightarrow> counted_tx n) \<Longrightarrow> counted_tx (if b then m else n)"
  by simp

lemma counted_option [counted_intros]:
  "(x = None \<Longrightarrow> counted_tx m) \<Longrightarrow> (\<And>a. x = Some a \<Longrightarrow> counted_tx (f a)) \<Longrightarrow> counted_tx (case x of None \<Rightarrow> m | Some a \<Rightarrow> f a)"
  by (cases x) simp_all

lemma counted_prod [counted_intros]:
  "(\<And>a b. counted_tx (f a b)) \<Longrightarrow> counted_tx (case p of (a, b) \<Rightarrow> f a b)"
  by (cases p) simp

lemma run_transaction_counted:
  assumes "counted_tx m" and "run_transaction m db = (db', r)"
  shows "counted db db'"
proof -
  obtain db1 r1 where m: "m db = (db1, r1)" by (cases "m db") simp
  with assms(1) have "counted db db1" by (simp add: counted_tx_def)
  with assms(2) m show ?thesis
    by (cases r1) (auto simp: run_transaction_def counted_def)
qed

lemma run_transaction_Inr: "run_transaction m db = (db', Inr a) \<longleftrightarrow> m db = (db', Inr a)"
  by (auto simp: run_transaction_def split: prod.splits sum.splits)

lemma run_transaction_Inl:
  "run_transaction m db = (db', Inl e) \<Longrightarrow> \<exists>n. db' = db\<lparr>total_changes := n\<rparr>"
  by (auto simp: run_transaction_def split: prod.splits sum.splits)

end
