(* ===== verification/AuditChain.thy ===== *)
theory AuditChain
  imports JournalStore
begin

text \<open>
  The signed audit chain of the journal (journal.rs): audit keys and their rotation, appending an
  entry, and the verification that runs before a mutation when the cached head is stale. An
  entry carries a sequence number, the hash of its predecessor, the hash of its own content and a
  signature; verification also checks the retained rows that an entry names (correlation).
\<close>

section \<open>Domains and messages\<close>

definition AUDIT_DOMAIN :: bytes where
  "AUDIT_DOMAIN = str_bytes ''bloom-broker-audit/v1''"

definition AUDIT_SIGNATURE_DOMAIN :: bytes where
  "AUDIT_SIGNATURE_DOMAIN = str_bytes ''bloom-broker-audit-signature/v1''"

definition AUDIT_ROTATION_DOMAIN :: bytes where
  "AUDIT_ROTATION_DOMAIN = str_bytes ''bloom-broker-audit-key-rotation/v1''"

definition zero_digest :: Digest32 where
  "zero_digest = concat (replicate 32 ''00'')"

definition audit_signature_message :: "Digest32 \<Rightarrow> bytes" where
  "audit_signature_message entry_hash = AUDIT_SIGNATURE_DOMAIN @ str_bytes entry_hash"

definition audit_rotation_message :: "Token \<Rightarrow> Token \<Rightarrow> Digest32 \<Rightarrow> bytes" where
  "audit_rotation_message old_key_id new_key_id prior_head =
     AUDIT_ROTATION_DOMAIN @ str_bytes old_key_id @ str_bytes new_key_id @ str_bytes prior_head"

definition compute_audit_hash :: "env \<Rightarrow> nat \<Rightarrow> string \<Rightarrow> string \<Rightarrow> Digest32 \<Rightarrow> Digest32" where
  "compute_audit_hash env sequence event_type payload_jcs previous_hash =
     e_sha256 env (AUDIT_DOMAIN @ be_bytes 8 sequence @ str_bytes previous_hash @ str_bytes event_type
       @ str_bytes payload_jcs)"

definition text_digest :: "env \<Rightarrow> string \<Rightarrow> Digest32" where
  "text_digest env s = e_sha256 env (str_bytes s)"

section \<open>Audit signers\<close>

text \<open>A signature is represented by its base64url text.\<close>

record AuditSigner =
  as_key_id :: Token
  as_sign :: "bytes \<Rightarrow> string + Base64UrlBytes"
  as_verify :: "Token \<Rightarrow> bytes \<Rightarrow> Base64UrlBytes \<Rightarrow> bool"

text \<open>The signer registry: the current signer signs, any trusted signer may verify.\<close>

record ActiveAuditSigner =
  sg_current :: AuditSigner
  sg_trusted :: "AuditSigner list"

definition new_active_signer :: "AuditSigner \<Rightarrow> ActiveAuditSigner" where
  "new_active_signer current = \<lparr>sg_current = current, sg_trusted = [current]\<rparr>"

definition install_signer :: "AuditSigner \<Rightarrow> ActiveAuditSigner \<Rightarrow> ActiveAuditSigner" where
  "install_signer signer registry = \<lparr>sg_current = signer, sg_trusted = sg_trusted registry @ [signer]\<rparr>"

definition active_signer :: "ActiveAuditSigner \<Rightarrow> AuditSigner" where
  "active_signer registry = \<lparr>as_key_id = as_key_id (sg_current registry), as_sign = as_sign (sg_current registry),
     as_verify = (\<lambda>key_id message sig. list_ex (\<lambda>s. as_verify s key_id message sig) (sg_trusted registry))\<rparr>"

section \<open>Errors\<close>

definition audit_degraded_error :: JournalError where
  "audit_degraded_error = Protocol MalformedFrame
     ''Broker audit chain verification failed; security mutations are disabled''"

text \<open>Every failed check logs its sequence and invariant and returns the same error.\<close>

definition audit_verification_failure :: "nat \<Rightarrow> string \<Rightarrow> JournalError" where
  "audit_verification_failure sequence invariant = audit_degraded_error"

section \<open>The head of the chain\<close>

definition I64_MAX :: int where
  "I64_MAX = 2 ^ 63 - 1"

definition u64_try_from :: "int \<Rightarrow> JournalError + nat" where
  "u64_try_from i = (if i < 0 then Inl (Storage ''out of range integral type conversion attempted'') else Inr (nat i))"

text \<open>The head the journal reports: the number of entries and the hash of the last.\<close>

definition audit_head :: "env \<Rightarrow> db \<Rightarrow> JournalError + nat \<times> Digest32" where
  "audit_head env db = (case last_audit_row db of
     None \<Rightarrow> Inr (0, zero_digest)
   | Some row \<Rightarrow>
       and_then (u64_try_from (au_sequence row)) (\<lambda>sequence.
       if USIZE_LIMIT \<le> sequence + 1 then Inl (Storage ''audit head overflow'')
       else and_then (e_digest32_new env (au_entry_hash row)) (\<lambda>hash. Inr (sequence + 1, hash))))"

section \<open>Appending an entry\<close>

text \<open>The increment of the last sequence wraps, as it does in a release build.\<close>

definition i64_succ :: "int \<Rightarrow> int" where
  "i64_succ i = (if I64_MAX \<le> i then - I64_MAX - 1 else i + 1)"

definition append_audit :: "env \<Rightarrow> string \<Rightarrow> json \<Rightarrow> AuditSigner \<Rightarrow> (nat \<times> Digest32) tx" where
  "append_audit env event_type payload audit_signer =
     tx_bind (tx_query (\<lambda>db. case last_audit_row db of
         None \<Rightarrow> (0, zero_digest)
       | Some row \<Rightarrow> (i64_succ (au_sequence row), au_entry_hash row))) (\<lambda>(sequence, previous_hash).
     tx_bind (tx_lift (u64_try_from sequence)) (\<lambda>sequence.
     tx_bind (tx_lift (e_digest32_new env previous_hash)) (\<lambda>previous_hash.
     tx_bind (tx_lift (e_jcs env payload)) (\<lambda>payload_jcs.
     let entry_hash = compute_audit_hash env sequence event_type payload_jcs previous_hash;
         signing_key_id = as_key_id audit_signer in
     tx_bind (tx_lift (map_err Storage (as_sign audit_signer (audit_signature_message entry_hash)))) (\<lambda>signature.
     tx_bind (insert_audit env \<lparr>au_sequence = int sequence, au_event_type = event_type,
         au_payload_jcs = payload_jcs, au_previous_hash = previous_hash, au_entry_hash = entry_hash,
         au_signing_key_id = signing_key_id, au_signature = signature\<rparr>) (\<lambda>_.
     tx_return (sequence + 1, entry_hash)))))))"

section \<open>Correlation of an entry with the retained rows\<close>

text \<open>A NULL or a missing receipt fails the query; so does a text that is not a receipt.\<close>

definition retained_validation_receipt :: "env \<Rightarrow> db \<Rightarrow> OperationId \<Rightarrow> JournalError + BrokerValidationReceipt" where
  "retained_validation_receipt env db operation_id =
     (case Option.bind (select_operation operation_id db) op_validation_receipt_jcs of
        None \<Rightarrow> Inl audit_degraded_error
      | Some canonical \<Rightarrow> map_err (\<lambda>_. audit_degraded_error) (e_receipt_from_str env canonical))"

definition payload_str :: "json \<Rightarrow> string \<Rightarrow> JournalError + string" where
  "payload_str payload key = ok_or (Option.bind (json_get payload key) json_as_str) audit_degraded_error"

definition retained_result :: "env \<Rightarrow> db \<Rightarrow> string \<Rightarrow> JournalError + string \<times> SigningResult" where
  "retained_result env db operation_id =
     (case Option.bind (select_operation operation_id db) op_result_jcs of
        None \<Rightarrow> Inl audit_degraded_error
      | Some result_jcs \<Rightarrow>
          and_then (map_err (\<lambda>_. audit_degraded_error) (e_signing_result_from_str env result_jcs)) (\<lambda>result.
          Inr (result_jcs, result)))"

definition correlate_received :: "env \<Rightarrow> db \<Rightarrow> json \<Rightarrow> JournalError + bool" where
  "correlate_received env db payload =
     and_then (payload_str payload ''operation_id'') (\<lambda>operation_id.
     and_then (map_err (\<lambda>_. audit_degraded_error) (e_operation_id_new env operation_id)) (\<lambda>operation_id.
     and_then (retained_validation_receipt env db operation_id) (\<lambda>validation_receipt.
     if json_get payload ''operation_digest'' = Some (JString (vr_operation_digest validation_receipt))
     then and_then (e_receipt_digest env validation_receipt) (\<lambda>digest.
       Inr (json_get payload ''validation_receipt_digest'' = Some (JString digest)))
     else Inr False)))"

definition correlate_published :: "env \<Rightarrow> db \<Rightarrow> json \<Rightarrow> JournalError + bool" where
  "correlate_published env db payload =
     and_then (payload_str payload ''operation_id'') (\<lambda>operation_id.
     and_then (retained_result env db operation_id) (\<lambda>(result_jcs, result).
     and_then (map_err (\<lambda>_. audit_degraded_error) (e_operation_id_new env operation_id)) (\<lambda>operation_id.
     and_then (retained_validation_receipt env db operation_id) (\<lambda>validation_receipt.
     if json_get payload ''operation_digest'' = Some (JString (sr_operation_digest result))
       \<and> json_get payload ''result_digest'' = Some (JString (text_digest env result_jcs))
       \<and> json_get payload ''signer_receipt_digest'' = Some (JString (sr_signer_receipt_digest result))
       \<and> json_get payload ''broker_receipt_digest'' = Some (JString (sr_broker_receipt_digest result))
     then and_then (e_receipt_digest env validation_receipt) (\<lambda>digest.
       Inr (json_get payload ''validation_receipt_digest'' = Some (JString digest)))
     else Inr False))))"

definition child_json :: "env \<Rightarrow> nat \<Rightarrow> string \<Rightarrow> SigningResult \<Rightarrow> json" where
  "child_json env ordinal canonical child = json_object
     [(''ordinal'', JNumber ordinal),
      (''operation_id'', JString (sr_operation_id child)),
      (''operation_digest'', JString (sr_operation_digest child)),
      (''result_digest'', JString (text_digest env canonical)),
      (''signer_receipt_digest'', JString (sr_signer_receipt_digest child)),
      (''broker_receipt_digest'', JString (sr_broker_receipt_digest child))]"

fun retained_children :: "env \<Rightarrow> child_row list \<Rightarrow> JournalError + json list" where
  "retained_children env [] = Inr []"
| "retained_children env (row # rows) =
     and_then (map_err (\<lambda>_. audit_degraded_error) (e_signing_result_from_str env (ch_result_jcs row))) (\<lambda>child.
     and_then (retained_children env rows) (\<lambda>children.
     Inr (child_json env (ch_ordinal row) (ch_result_jcs row) child # children)))"

definition correlate_batch :: "env \<Rightarrow> db \<Rightarrow> json \<Rightarrow> JournalError + bool" where
  "correlate_batch env db payload =
     and_then (payload_str payload ''parent_operation_id'') (\<lambda>parent_id.
     and_then (retained_result env db parent_id) (\<lambda>(parent_jcs, parent).
     and_then (map_err (\<lambda>_. audit_degraded_error) (e_operation_id_new env parent_id)) (\<lambda>operation_id.
     and_then (retained_validation_receipt env db operation_id) (\<lambda>validation_receipt.
     and_then (retained_children env (select_children parent_id db)) (\<lambda>children.
     if json_get payload ''parent_operation_digest'' = Some (JString (sr_operation_digest parent))
       \<and> json_get payload ''parent_result_digest'' = Some (JString (text_digest env parent_jcs))
       \<and> json_get payload ''parent_signer_receipt_digest'' = Some (JString (sr_signer_receipt_digest parent))
       \<and> json_get payload ''parent_broker_receipt_digest'' = Some (JString (sr_broker_receipt_digest parent))
     then and_then (e_receipt_digest env validation_receipt) (\<lambda>digest.
       Inr (json_get payload ''validation_receipt_digest'' = Some (JString digest)
         \<and> json_get payload ''children'' = Some (JArray children)))
     else Inr False)))))"

definition correlate_activation :: "env \<Rightarrow> db \<Rightarrow> json \<Rightarrow> JournalError + bool" where
  "correlate_activation env db payload =
     and_then (payload_str payload ''approval_id'') (\<lambda>approval_id.
     case Option.bind (select_metadata approval_id db) md_ceremony_grant_jcs of
       None \<Rightarrow> Inl audit_degraded_error
     | Some receipt_jcs \<Rightarrow>
         Inr (json_get payload ''signer_activation_receipt_digest'' = Some (JString (text_digest env receipt_jcs))))"

definition verify_audit_correlation :: "env \<Rightarrow> db \<Rightarrow> string \<Rightarrow> string \<Rightarrow> JournalError + unit" where
  "verify_audit_correlation env db event_type payload_jcs =
     and_then (map_err (\<lambda>_. audit_degraded_error) (e_json_from_str env payload_jcs)) (\<lambda>payload.
     if Option.bind (json_get payload ''correlation_schema'') json_as_str \<noteq> Some ''v1'' then Inr ()
     else and_then
       (if event_type = ''operation.received'' then correlate_received env db payload
        else if event_type = ''operation.published'' then correlate_published env db payload
        else if event_type = ''batch.published'' then correlate_batch env db payload
        else if event_type = ''approval.transition''
          \<and> Option.bind (json_get payload ''to'') json_as_str = Some ''ACTIVE''
        then correlate_activation env db payload
        else Inr True)
       (\<lambda>correlated. if correlated then Inr () else Inl audit_degraded_error))"

section \<open>Verification of the chain\<close>

record Rotation =
  rot_old_key_id :: Token
  rot_new_key_id :: Token
  rot_prior_head :: Digest32
  rot_new_key_confirmation :: Base64UrlBytes

record Completion =
  cmp_old_key_id :: Token
  cmp_new_key_id :: Token
  cmp_final_old_head :: Digest32

definition payload_field :: "(string \<Rightarrow> JournalError + 'a) \<Rightarrow> json \<Rightarrow> string \<Rightarrow> JournalError + 'a" where
  "payload_field check payload key = and_then (payload_str payload key) check"

definition rotation_from_str :: "env \<Rightarrow> string \<Rightarrow> JournalError + Rotation" where
  "rotation_from_str env payload_jcs =
     and_then (map_err Storage (e_json_from_str env payload_jcs)) (\<lambda>payload.
     and_then (payload_field (e_token_new env) payload ''old_key_id'') (\<lambda>old_key_id.
     and_then (payload_field (e_token_new env) payload ''new_key_id'') (\<lambda>new_key_id.
     and_then (payload_field (e_digest32_new env) payload ''prior_head'') (\<lambda>prior_head.
     and_then (payload_field (e_base64url_parse env) payload ''new_key_confirmation'') (\<lambda>confirmation.
     Inr \<lparr>rot_old_key_id = old_key_id, rot_new_key_id = new_key_id, rot_prior_head = prior_head,
       rot_new_key_confirmation = confirmation\<rparr>)))))"

definition completion_from_str :: "env \<Rightarrow> string \<Rightarrow> JournalError + Completion" where
  "completion_from_str env payload_jcs =
     and_then (map_err Storage (e_json_from_str env payload_jcs)) (\<lambda>payload.
     and_then (payload_field (e_token_new env) payload ''old_key_id'') (\<lambda>old_key_id.
     and_then (payload_field (e_token_new env) payload ''new_key_id'') (\<lambda>new_key_id.
     and_then (payload_field (e_digest32_new env) payload ''final_old_head'') (\<lambda>final_old_head.
     Inr \<lparr>cmp_old_key_id = old_key_id, cmp_new_key_id = new_key_id, cmp_final_old_head = final_old_head\<rparr>))))"

text \<open>What the loop over the rows carries from one row to the next.\<close>

record verify_state =
  vs_expected_sequence :: nat
  vs_expected_previous :: Digest32
  vs_expected_key_id :: "Token option"
  vs_pending_rotation :: "(Token \<times> Token \<times> Digest32) option"

definition initial_verify_state :: verify_state where
  "initial_verify_state = \<lparr>vs_expected_sequence = 0, vs_expected_previous = zero_digest,
     vs_expected_key_id = None, vs_pending_rotation = None\<rparr>"

text \<open>
  The rotation part of one iteration: a rotation entry names the key that signs it and the head
  before it and carries a signature of the new key over both; the next entry must complete it.
\<close>

definition verify_rotation :: "env \<Rightarrow> AuditSigner \<Rightarrow> nat \<Rightarrow> string \<Rightarrow> string \<Rightarrow> Digest32 \<Rightarrow> Digest32 \<Rightarrow> Token
    \<Rightarrow> Token option \<Rightarrow> (Token \<times> Token \<times> Digest32) option
    \<Rightarrow> JournalError + Token option \<times> (Token \<times> Token \<times> Digest32) option" where
  "verify_rotation env audit_signer sequence event_type payload_jcs previous_hash entry_hash key_id expected_key_id pending =
     (if pending \<noteq> None \<and> event_type \<noteq> ''audit.key_rotation_completed''
      then Inl (audit_verification_failure sequence ''key_rotation'')
      else if event_type = ''audit.key_rotated'' then
        and_then (map_err (\<lambda>_. audit_verification_failure sequence ''key_rotation'') (rotation_from_str env payload_jcs)) (\<lambda>rotation.
        if rot_old_key_id rotation \<noteq> key_id
          \<or> rot_prior_head rotation \<noteq> previous_hash
          \<or> rot_new_key_id rotation = rot_old_key_id rotation
          \<or> \<not> as_verify audit_signer (rot_new_key_id rotation)
               (audit_rotation_message (rot_old_key_id rotation) (rot_new_key_id rotation) (rot_prior_head rotation))
               (rot_new_key_confirmation rotation)
        then Inl (audit_verification_failure sequence ''key_rotation'')
        else Inr (Some (rot_new_key_id rotation),
               Some (rot_old_key_id rotation, rot_new_key_id rotation, entry_hash)))
      else if event_type = ''audit.key_rotation_completed'' then
        and_then (map_err (\<lambda>_. audit_verification_failure sequence ''key_rotation'') (completion_from_str env payload_jcs)) (\<lambda>completion.
        case pending of
          None \<Rightarrow> Inl (audit_verification_failure sequence ''key_rotation'')
        | Some (old_key_id, new_key_id, final_old_head) \<Rightarrow>
            if cmp_old_key_id completion \<noteq> old_key_id
              \<or> cmp_new_key_id completion \<noteq> new_key_id
              \<or> cmp_new_key_id completion \<noteq> key_id
              \<or> cmp_old_key_id completion = cmp_new_key_id completion
              \<or> cmp_final_old_head completion \<noteq> final_old_head
              \<or> cmp_final_old_head completion \<noteq> previous_hash
            then Inl (audit_verification_failure sequence ''key_rotation'')
            else Inr (expected_key_id, None))
      else Inr (expected_key_id, pending))"

definition verify_row :: "env \<Rightarrow> db \<Rightarrow> AuditSigner \<Rightarrow> audit_row \<Rightarrow> verify_state \<Rightarrow> JournalError + verify_state" where
  "verify_row env db audit_signer row st =
     and_then (map_err (\<lambda>_. audit_verification_failure (vs_expected_sequence st) ''sequence'') (u64_try_from (au_sequence row))) (\<lambda>sequence.
     and_then (map_err (\<lambda>_. audit_verification_failure sequence ''predecessor_link'') (e_digest32_new env (au_previous_hash row))) (\<lambda>previous_hash.
     and_then (map_err (\<lambda>_. audit_verification_failure sequence ''content_hash'') (e_digest32_new env (au_entry_hash row))) (\<lambda>entry_hash.
     and_then (map_err (\<lambda>_. audit_verification_failure sequence ''signing_key'') (e_token_new env (au_signing_key_id row))) (\<lambda>key_id.
     and_then (map_err (\<lambda>_. audit_verification_failure sequence ''signature'') (e_base64url_parse env (au_signature row))) (\<lambda>signature.
     let expected_key_id = (if vs_expected_key_id st = None then Some key_id else vs_expected_key_id st) in
     if sequence \<noteq> vs_expected_sequence st then Inl (audit_verification_failure sequence ''sequence'')
     else if previous_hash \<noteq> vs_expected_previous st then Inl (audit_verification_failure sequence ''predecessor_link'')
     else if compute_audit_hash env sequence (au_event_type row) (au_payload_jcs row) previous_hash \<noteq> entry_hash
     then Inl (audit_verification_failure sequence ''content_hash'')
     else if expected_key_id \<noteq> Some key_id then Inl (audit_verification_failure sequence ''signing_key'')
     else if \<not> as_verify audit_signer key_id (audit_signature_message entry_hash) signature
     then Inl (audit_verification_failure sequence ''signature'')
     else if \<not> is_ok (verify_audit_correlation env db (au_event_type row) (au_payload_jcs row))
     then Inl (audit_verification_failure sequence ''durable_state_correlation'')
     else and_then (verify_rotation env audit_signer sequence (au_event_type row) (au_payload_jcs row) previous_hash
            entry_hash key_id expected_key_id (vs_pending_rotation st)) (\<lambda>(expected_key_id, pending).
       if USIZE_LIMIT \<le> vs_expected_sequence st + 1 then Inl (Storage ''audit sequence overflow'')
       else Inr \<lparr>vs_expected_sequence = vs_expected_sequence st + 1, vs_expected_previous = entry_hash,
              vs_expected_key_id = expected_key_id, vs_pending_rotation = pending\<rparr>))))))"

fun verify_rows :: "env \<Rightarrow> db \<Rightarrow> AuditSigner \<Rightarrow> audit_row list \<Rightarrow> verify_state \<Rightarrow> JournalError + verify_state" where
  "verify_rows env db audit_signer [] st = Inr st"
| "verify_rows env db audit_signer (row # rows) st =
     and_then (verify_row env db audit_signer row st) (verify_rows env db audit_signer rows)"

definition verify_audit_chain_connection :: "env \<Rightarrow> AuditSigner \<Rightarrow> db \<Rightarrow> JournalError + unit" where
  "verify_audit_chain_connection env audit_signer db =
     and_then (verify_rows env db audit_signer (sort_key au_sequence (audit_chain db)) initial_verify_state) (\<lambda>st.
     if vs_pending_rotation st \<noteq> None
       \<or> (vs_expected_key_id st \<noteq> None \<and> vs_expected_key_id st \<noteq> Some (as_key_id audit_signer))
     then Inl (audit_verification_failure (vs_expected_sequence st) ''key_rotation'')
     else Inr ())"

section \<open>Reading the chain\<close>

record AuditEntry =
  ae_sequence :: nat
  ae_event_type :: string
  ae_payload_jcs :: string
  ae_previous_hash :: Digest32
  ae_entry_hash :: Digest32
  ae_signing_key_id :: Token
  ae_signature :: Base64UrlBytes

fun read_entries :: "env \<Rightarrow> audit_row list \<Rightarrow> JournalError + AuditEntry list" where
  "read_entries env [] = Inr []"
| "read_entries env (row # rows) =
     and_then (u64_try_from (au_sequence row)) (\<lambda>sequence.
     and_then (e_digest32_new env (au_previous_hash row)) (\<lambda>previous_hash.
     and_then (e_digest32_new env (au_entry_hash row)) (\<lambda>entry_hash.
     and_then (e_token_new env (au_signing_key_id row)) (\<lambda>signing_key_id.
     and_then (e_base64url_parse env (au_signature row)) (\<lambda>signature.
     and_then (read_entries env rows) (\<lambda>entries.
     Inr (\<lparr>ae_sequence = sequence, ae_event_type = au_event_type row, ae_payload_jcs = au_payload_jcs row,
       ae_previous_hash = previous_hash, ae_entry_hash = entry_hash, ae_signing_key_id = signing_key_id,
       ae_signature = signature\<rparr> # entries)))))))"

definition audit_entries :: "env \<Rightarrow> db \<Rightarrow> JournalError + AuditEntry list" where
  "audit_entries env db = read_entries env (sort_key au_sequence (audit_chain db))"

section \<open>What the chain relies on\<close>

text \<open>
  The laws of the packages the journal calls: a validating constructor returns its argument or
  an error and accepts the digests of SHA-256 and the digest of an empty chain, and a value that
  was printed canonically is read back.
\<close>

definition env_laws :: "env \<Rightarrow> bool" where
  "env_laws env \<longleftrightarrow>
     (\<forall>b. e_digest32_new env (e_sha256 env b) = Inr (e_sha256 env b))
   \<and> e_digest32_new env zero_digest = Inr zero_digest
   \<and> (\<forall>s d. e_digest32_new env s = Inr d \<longrightarrow> d = s)
   \<and> (\<forall>s d. e_operation_id_new env s = Inr d \<longrightarrow> d = s)
   \<and> (\<forall>s d. e_token_new env s = Inr d \<longrightarrow> d = s)
   \<and> (\<forall>s d. e_boot_epoch_new env s = Inr d \<longrightarrow> d = s)
   \<and> (\<forall>s d. e_base64url_parse env s = Inr d \<longrightarrow> d = s)
   \<and> (\<forall>v s. e_jcs env v = Inr s \<longrightarrow> e_json_from_str env s = Inr v)
   \<and> (\<forall>r s. e_jcs env (signing_result_json r) = Inr s \<longrightarrow> e_signing_result_from_str env s = Inr r)
   \<and> (\<forall>r s. e_receipt_jcs env r = Inr s \<longrightarrow> e_receipt_from_str env s = Inr r)"

text \<open>A signer has a valid key identifier and verifies what it signs.\<close>

definition signer_laws :: "env \<Rightarrow> AuditSigner \<Rightarrow> bool" where
  "signer_laws env signer \<longleftrightarrow>
     e_token_new env (as_key_id signer) = Inr (as_key_id signer)
   \<and> (\<forall>message sig. as_sign signer message = Inr sig \<longrightarrow>
        as_verify signer (as_key_id signer) message sig \<and> e_base64url_parse env sig = Inr sig)"

lemma env_lawsD:
  assumes "env_laws env"
  shows "e_digest32_new env (e_sha256 env b) = Inr (e_sha256 env b)"
    and "e_digest32_new env zero_digest = Inr zero_digest"
    and "e_digest32_new env s = Inr d \<Longrightarrow> d = s"
    and "e_operation_id_new env s = Inr d \<Longrightarrow> d = s"
    and "e_token_new env s = Inr d \<Longrightarrow> d = s"
    and "e_boot_epoch_new env s = Inr d \<Longrightarrow> d = s"
    and "e_base64url_parse env s = Inr d \<Longrightarrow> d = s"
    and "e_jcs env v = Inr s \<Longrightarrow> e_json_from_str env s = Inr v"
    and "e_jcs env (signing_result_json r) = Inr s \<Longrightarrow> e_signing_result_from_str env s = Inr r"
    and "e_receipt_jcs env rc = Inr s \<Longrightarrow> e_receipt_from_str env s = Inr rc"
  using assms unfolding env_laws_def by blast+

lemma signer_lawsD:
  assumes "signer_laws env signer"
  shows "e_token_new env (as_key_id signer) = Inr (as_key_id signer)"
    and "as_sign signer message = Inr sig \<Longrightarrow> as_verify signer (as_key_id signer) message sig"
    and "as_sign signer message = Inr sig \<Longrightarrow> e_base64url_parse env sig = Inr sig"
  using assms unfolding signer_laws_def by blast+

section \<open>Rows that are retained\<close>

text \<open>
  A later store retains an earlier one when the columns that audit entries refer to, once they
  are set, are unchanged: the validation receipt and the result of an operation, the children of
  a published batch, the grant of an activated approval.
\<close>

definition receipt_of :: "db \<Rightarrow> string \<Rightarrow> string option" where
  "receipt_of db operation_id = Option.bind (select_operation operation_id db) op_validation_receipt_jcs"

definition result_of :: "db \<Rightarrow> string \<Rightarrow> string option" where
  "result_of db operation_id = Option.bind (select_operation operation_id db) op_result_jcs"

definition grant_of :: "db \<Rightarrow> string \<Rightarrow> string option" where
  "grant_of db approval_id = Option.bind (select_metadata approval_id db) md_ceremony_grant_jcs"

definition retains :: "db \<Rightarrow> db \<Rightarrow> bool" where
  "retains db db' \<longleftrightarrow>
     (\<forall>i c. receipt_of db i = Some c \<longrightarrow> receipt_of db' i = Some c)
   \<and> (\<forall>i r. result_of db i = Some r \<longrightarrow> result_of db' i = Some r \<and> select_children i db' = select_children i db)
   \<and> (\<forall>i g. grant_of db i = Some g \<longrightarrow> grant_of db' i = Some g)"

lemma retains_refl [simp]: "retains db db"
  by (simp add: retains_def)

lemma retains_trans: "retains a b \<Longrightarrow> retains b c \<Longrightarrow> retains a c"
  unfolding retains_def by metis

lemma retainsI_tables:
  assumes "operations db' = operations db" and "batch_children db' = batch_children db"
    and "approval_metadata db' = approval_metadata db"
  shows "retains db db'"
  using assms
  by (simp add: retains_def receipt_of_def result_of_def grant_of_def select_operation_def
      select_children_def select_metadata_def)

lemma retained_validation_receipt_retains:
  assumes "retained_validation_receipt env db i = Inr r" and "retains db db'"
  shows "retained_validation_receipt env db' i = Inr r"
  using assms
  by (auto simp: retained_validation_receipt_def receipt_of_def [symmetric] retains_def split: option.splits)

lemma retained_result_retains:
  assumes "retained_result env db i = Inr r" and "retains db db'"
  shows "retained_result env db' i = Inr r" "select_children i db' = select_children i db"
  using assms
  by (auto simp: retained_result_def result_of_def [symmetric] retains_def split: option.splits)

lemma correlate_received_retains:
  "correlate_received env db p = Inr b \<Longrightarrow> retains db db' \<Longrightarrow> correlate_received env db' p = Inr b"
  unfolding correlate_received_def
  by (elim and_then_mono) (auto dest: retained_validation_receipt_retains)

lemma correlate_published_retains:
  "correlate_published env db p = Inr b \<Longrightarrow> retains db db' \<Longrightarrow> correlate_published env db' p = Inr b"
  unfolding correlate_published_def split_beta
  by (elim and_then_mono) (auto dest: retained_validation_receipt_retains retained_result_retains(1))

lemma correlate_batch_retains:
  "correlate_batch env db p = Inr b \<Longrightarrow> retains db db' \<Longrightarrow> correlate_batch env db' p = Inr b"
  unfolding correlate_batch_def split_beta
  by (elim and_then_mono) (auto dest: retained_validation_receipt_retains retained_result_retains)

lemma correlate_activation_retains:
  "correlate_activation env db p = Inr b \<Longrightarrow> retains db db' \<Longrightarrow> correlate_activation env db' p = Inr b"
  unfolding correlate_activation_def grant_of_def [symmetric]
  by (elim and_then_mono) (auto simp: retains_def split: option.splits)

lemma correlation_retains:
  assumes "verify_audit_correlation env db et p = Inr u" and "retains db db'"
  shows "verify_audit_correlation env db' et p = Inr u"
  using assms unfolding verify_audit_correlation_def
  by (elim and_then_mono)
     (auto split: if_splits elim!: and_then_mono
      dest: correlate_received_retains correlate_published_retains correlate_batch_retains
        correlate_activation_retains)

section \<open>Verified prefixes\<close>

lemma verify_rows_append:
  "verify_rows env db s (xs @ ys) st = and_then (verify_rows env db s xs st) (verify_rows env db s ys)"
proof (induction xs arbitrary: st)
  case (Cons x xs)
  then have "verify_rows env db s (xs @ ys) = (\<lambda>st. and_then (verify_rows env db s xs st) (verify_rows env db s ys))"
    by (rule ext)
  then show ?case by (simp add: and_then_assoc)
qed simp

text \<open>The conditions under which one row is accepted.\<close>

lemma verify_row_Inr:
  assumes "env_laws env"
  shows "verify_row env db s row st = Inr st' \<longleftrightarrow>
    au_sequence row = int (vs_expected_sequence st)
    \<and> au_previous_hash row = vs_expected_previous st
    \<and> e_digest32_new env (au_previous_hash row) = Inr (au_previous_hash row)
    \<and> e_digest32_new env (au_entry_hash row) = Inr (au_entry_hash row)
    \<and> e_token_new env (au_signing_key_id row) = Inr (au_signing_key_id row)
    \<and> e_base64url_parse env (au_signature row) = Inr (au_signature row)
    \<and> au_entry_hash row = compute_audit_hash env (vs_expected_sequence st) (au_event_type row)
        (au_payload_jcs row) (au_previous_hash row)
    \<and> (vs_expected_key_id st = None \<or> vs_expected_key_id st = Some (au_signing_key_id row))
    \<and> as_verify s (au_signing_key_id row) (audit_signature_message (au_entry_hash row)) (au_signature row)
    \<and> is_ok (verify_audit_correlation env db (au_event_type row) (au_payload_jcs row))
    \<and> vs_expected_sequence st + 1 < USIZE_LIMIT
    \<and> (\<exists>key pending. verify_rotation env s (vs_expected_sequence st) (au_event_type row) (au_payload_jcs row)
          (au_previous_hash row) (au_entry_hash row) (au_signing_key_id row) (Some (au_signing_key_id row))
          (vs_pending_rotation st) = Inr (key, pending)
        \<and> st' = \<lparr>vs_expected_sequence = vs_expected_sequence st + 1, vs_expected_previous = au_entry_hash row,
            vs_expected_key_id = key, vs_pending_rotation = pending\<rparr>)"
proof -
  have seq: "and_then (map_err g (u64_try_from i)) f = Inr y \<longleftrightarrow> (\<exists>n. i = int n \<and> f n = Inr y)" for g i f y
    by (cases i) (auto simp: u64_try_from_def)
  have digest: "and_then (map_err g (e_digest32_new env t)) f = Inr y \<longleftrightarrow> e_digest32_new env t = Inr t \<and> f t = Inr y" for g t f y
    by (rule checked_and_then) (rule env_lawsD(3) [OF assms])
  have token: "and_then (map_err g (e_token_new env t)) f = Inr y \<longleftrightarrow> e_token_new env t = Inr t \<and> f t = Inr y" for g t f y
    by (rule checked_and_then) (rule env_lawsD(5) [OF assms])
  have base64: "and_then (map_err g (e_base64url_parse env t)) f = Inr y \<longleftrightarrow> e_base64url_parse env t = Inr t \<and> f t = Inr y" for g t f y
    by (rule checked_and_then) (rule env_lawsD(7) [OF assms])
  show ?thesis
    unfolding verify_row_def seq digest token base64 Let_def
    by (auto simp: and_then_eq_Inr not_le split: if_splits)
qed

text \<open>Verification reads the tables and not the counter.\<close>

lemma verify_rows_changes:
  "verify_rows env (db\<lparr>total_changes := n\<rparr>) s rows st = verify_rows env db s rows st"
proof -
  have sel: "select_operation i (db\<lparr>total_changes := n\<rparr>) = select_operation i db"
    "select_children i (db\<lparr>total_changes := n\<rparr>) = select_children i db"
    "select_metadata i (db\<lparr>total_changes := n\<rparr>) = select_metadata i db" for i
    by (simp_all add: select_operation_def select_children_def select_metadata_def)
  have "verify_audit_correlation env (db\<lparr>total_changes := n\<rparr>) = verify_audit_correlation env db"
    unfolding fun_eq_iff verify_audit_correlation_def correlate_received_def correlate_published_def
      correlate_batch_def correlate_activation_def retained_validation_receipt_def retained_result_def sel by blast
  then have "verify_row env (db\<lparr>total_changes := n\<rparr>) s row st = verify_row env db s row st" for row st
    unfolding verify_row_def by metis
  then have "verify_rows env (db\<lparr>total_changes := n\<rparr>) s rows = verify_rows env db s rows"
    by (induction rows) (rule ext, simp)+
  then show ?thesis by simp
qed

lemma verify_row_retains:
  assumes "verify_row env db s row st = Inr st'" and "retains db db'" and "env_laws env"
  shows "verify_row env db' s row st = Inr st'"
proof -
  have "is_ok (verify_audit_correlation env db et p) \<Longrightarrow> is_ok (verify_audit_correlation env db' et p)" for et p
    using correlation_retains [OF _ assms(2)] by (auto simp: is_ok_iff)
  then show ?thesis
    using assms(1) unfolding verify_row_Inr [OF assms(3)] by blast
qed

lemma verify_rows_retains:
  assumes "retains db db'" and "env_laws env"
  shows "verify_rows env db s rows st = Inr st' \<Longrightarrow> verify_rows env db' s rows st = Inr st'"
  by (induction rows arbitrary: st) (auto simp: and_then_eq_Inr dest: verify_row_retains [OF _ assms])

lemma verify_rotation_key:
  "verify_rotation env s n et p prev h key (Some key) pending = Inr (key', pending') \<Longrightarrow> \<exists>k. key' = Some k"
  by (cases pending) (auto simp: verify_rotation_def and_then_eq_Inr split: if_splits)

lemma verify_row_facts:
  assumes "verify_row env db s row st = Inr st'" and "env_laws env"
  shows "au_sequence row = int (vs_expected_sequence st)"
    and "vs_expected_sequence st' = vs_expected_sequence st + 1"
    and "au_previous_hash row = vs_expected_previous st"
    and "vs_expected_previous st' = au_entry_hash row"
    and "e_digest32_new env (au_entry_hash row) = Inr (au_entry_hash row)"
    and "\<exists>k. vs_expected_key_id st' = Some k"
  using assms(1) unfolding verify_row_Inr [OF assms(2)] by (auto dest: verify_rotation_key)

lemma verify_rows_facts:
  assumes "env_laws env"
  shows "verify_rows env db s rows st = Inr st' \<Longrightarrow>
    map au_sequence rows = map int [vs_expected_sequence st ..< vs_expected_sequence st + length rows] \<and>
    vs_expected_sequence st' = vs_expected_sequence st + length rows \<and>
    vs_expected_previous st' = (if rows = [] then vs_expected_previous st else au_entry_hash (last rows)) \<and>
    (rows \<noteq> [] \<longrightarrow> e_digest32_new env (au_entry_hash (last rows)) = Inr (au_entry_hash (last rows)))"
proof (induction rows arbitrary: st)
  case (Cons row rows)
  then obtain st1 where st1: "verify_row env db s row st = Inr st1" "verify_rows env db s rows st1 = Inr st'"
    by (auto simp: and_then_eq_Inr)
  note f = verify_row_facts [OF st1(1) assms]
  have "[vs_expected_sequence st ..< vs_expected_sequence st + length (row # rows)]
      = vs_expected_sequence st # [vs_expected_sequence st1 ..< vs_expected_sequence st1 + length rows]"
    by (subst upt_conv_Cons) (simp_all add: f(2))
  with Cons.IH [OF st1(2)] f show ?case by (auto simp: last_ConsL)
qed simp

lemma verify_rows_key:
  assumes "env_laws env"
  shows "verify_rows env db s rows st = Inr st' \<Longrightarrow> rows \<noteq> [] \<Longrightarrow> \<exists>k. vs_expected_key_id st' = Some k"
proof (induction rows arbitrary: st)
  case (Cons row rows)
  then show ?case
    using verify_row_facts(6) [OF _ assms] by (cases rows) (fastforce simp: and_then_eq_Inr)+
qed simp

section \<open>Appending keeps the chain verified\<close>

definition chain_ok :: "env \<Rightarrow> AuditSigner \<Rightarrow> db \<Rightarrow> bool" where
  "chain_ok env signer db \<longleftrightarrow> verify_audit_chain_connection env signer db = Inr ()"

lemma insort_key_snoc: "f a \<le> f y \<Longrightarrow> insort_key f a (xs @ [y]) = insort_key f a xs @ [y]"
  by (induction xs) simp_all

lemma sort_key_snoc: "(\<And>x. x \<in> set xs \<Longrightarrow> f x \<le> f y) \<Longrightarrow> sort_key f (xs @ [y]) = sort_key f xs @ [y]"
  by (induction xs) (simp_all add: insort_key_snoc)

lemma chain_ok_rows:
  assumes "chain_ok env s db"
  obtains st where "verify_rows env db s (sort_key au_sequence (audit_chain db)) initial_verify_state = Inr st"
    and "vs_pending_rotation st = None"
    and "vs_expected_key_id st = None \<or> vs_expected_key_id st = Some (as_key_id s)"
proof -
  obtain st where st: "verify_rows env db s (sort_key au_sequence (audit_chain db)) initial_verify_state = Inr st"
    and fin: "\<not> (vs_pending_rotation st \<noteq> None
       \<or> (vs_expected_key_id st \<noteq> None \<and> vs_expected_key_id st \<noteq> Some (as_key_id s)))"
    using assms unfolding chain_ok_def verify_audit_chain_connection_def and_then_eq_Inr
    by (auto simp del: not_None_eq not_Some_eq split: if_splits)
  show thesis using fin by (intro that [OF st]) blast+
qed

lemma verified_sequence:
  assumes "verify_rows env db s (sort_key au_sequence (audit_chain db)) initial_verify_state = Inr st"
    and "env_laws env" and "r \<in> set (audit_chain db)"
  shows "au_sequence r < int (length (audit_chain db))"
proof -
  have "au_sequence r \<in> set (map au_sequence (sort_key au_sequence (audit_chain db)))"
    using assms(3) by simp
  also have "\<dots> = set (map int [0 ..< length (audit_chain db)])"
    using verify_rows_facts [OF assms(2,1)] by (simp add: initial_verify_state_def del: set_map)
  finally show ?thesis by auto
qed

text \<open>An append counts its change and touches no other table.\<close>

lemma append_audit_counted [counted_intros]: "counted_tx (append_audit env et p sg)"
  unfolding append_audit_def Let_def by (intro counted_intros)

lemma append_audit_frame:
  assumes "append_audit env et p sg db = (db', r)"
  shows "\<exists>rows n. db' = db\<lparr>audit_chain := audit_chain db @ rows, total_changes := n\<rparr>"
proof -
  have "db' = db \<or> (\<exists>row. db' = changed 1 (db\<lparr>audit_chain := audit_chain db @ [row]\<rparr>))"
    using assms unfolding append_audit_def Let_def
    by (auto simp: tx_bind_def insert_audit_def tx_query_def tx_lift_def tx_return_def
        split: prod.splits sum.splits if_splits)
  then show ?thesis
  proof
    assume "db' = db"
    then show ?thesis by (intro exI [of _ "[]"] exI [of _ "total_changes db"]) simp
  next
    assume "\<exists>row. db' = changed 1 (db\<lparr>audit_chain := audit_chain db @ [row]\<rparr>)"
    then obtain row where "db' = changed 1 (db\<lparr>audit_chain := audit_chain db @ [row]\<rparr>)" by blast
    then show ?thesis by (intro exI [of _ "[row]"] exI [of _ "total_changes db + 1"]) (simp add: changed_def)
  qed
qed

text \<open>The row that an append writes, given the rows that are there.\<close>

definition new_audit_row :: "env \<Rightarrow> db \<Rightarrow> string \<Rightarrow> string \<Rightarrow> AuditSigner \<Rightarrow> Base64UrlBytes \<Rightarrow> audit_row" where
  "new_audit_row env db event_type payload_jcs signer sig =
     (let sequence = length (audit_chain db);
          previous_hash = (case last_audit_row db of None \<Rightarrow> zero_digest | Some r \<Rightarrow> au_entry_hash r);
          entry_hash = compute_audit_hash env sequence event_type payload_jcs previous_hash in
      \<lparr>au_sequence = int sequence, au_event_type = event_type, au_payload_jcs = payload_jcs,
       au_previous_hash = previous_hash, au_entry_hash = entry_hash, au_signing_key_id = as_key_id signer,
       au_signature = sig\<rparr>)"

lemma append_audit_row:
  assumes "append_audit env et p sg db = (db', Inr out)"
  obtains row where "audit_chain db' = audit_chain db @ [row]" and "au_event_type row = et" and "au_signing_key_id row = as_key_id sg"
proof -
  have "\<exists>row. audit_chain db' = audit_chain db @ [row] \<and> au_event_type row = et \<and> au_signing_key_id row = as_key_id sg"
    using assms unfolding append_audit_def Let_def
    by (auto simp: tx_bind_def insert_audit_def tx_query_def tx_lift_def tx_return_def changed_def
        split: prod.splits sum.splits if_splits)
  then show thesis using that by blast
qed

lemma last_audit_row_verified:
  assumes "verify_rows env db s (sort_key au_sequence (audit_chain db)) initial_verify_state = Inr st" and "env_laws env"
  shows "vs_expected_sequence st = length (audit_chain db)"
    and "vs_expected_previous st = (case last_audit_row db of None \<Rightarrow> zero_digest | Some r \<Rightarrow> au_entry_hash r)"
    and "case last_audit_row db of None \<Rightarrow> audit_chain db = [] | Some r \<Rightarrow> au_sequence r + 1 = int (length (audit_chain db))"
    and "vs_expected_key_id st = None \<Longrightarrow> audit_chain db = []"
proof -
  let ?rows = "sort_key au_sequence (audit_chain db)"
  note f = verify_rows_facts [OF assms(2,1)]
  have last: "last_audit_row db = (if ?rows = [] then None else Some (last ?rows))"
    by (cases ?rows rule: rev_cases) (simp_all add: last_audit_row_def)
  have len: "length ?rows = length (audit_chain db)" by simp
  show "vs_expected_sequence st = length (audit_chain db)"
    using f by (simp add: initial_verify_state_def)
  show "vs_expected_previous st = (case last_audit_row db of None \<Rightarrow> zero_digest | Some r \<Rightarrow> au_entry_hash r)"
    using f last by (simp add: initial_verify_state_def)
  show "case last_audit_row db of None \<Rightarrow> audit_chain db = [] | Some r \<Rightarrow> au_sequence r + 1 = int (length (audit_chain db))"
  proof (cases "?rows = []")
    case True
    then show ?thesis using last len by simp
  next
    case False
    then have pos: "0 < length (audit_chain db)" using len by (metis length_greater_0_conv)
    have "au_sequence (last ?rows) = last (map au_sequence ?rows)"
      using False by (simp add: last_map)
    also have "\<dots> = last (map int [0 ..< length (audit_chain db)])"
      using f by (simp add: initial_verify_state_def)
    also have "\<dots> = int (length (audit_chain db)) - 1"
      using pos by (cases "length (audit_chain db)") simp_all
    finally show ?thesis using last False by simp
  qed
  show "audit_chain db = []" if "vs_expected_key_id st = None"
    using that verify_rows_key [OF assms(2,1)] len by fastforce
qed

lemma append_audit_effect:
  assumes "append_audit env event_type payload signer db = (db', Inr out)"
    and "case last_audit_row db of None \<Rightarrow> audit_chain db = [] | Some r \<Rightarrow> au_sequence r + 1 = int (length (audit_chain db))"
    and "env_laws env"
  obtains payload_jcs sig row where "e_jcs env payload = Inr payload_jcs"
    and "row = new_audit_row env db event_type payload_jcs signer sig"
    and "as_sign signer (audit_signature_message (au_entry_hash row)) = Inr sig"
    and "db' = changed 1 (db\<lparr>audit_chain := audit_chain db @ [row]\<rparr>)"
    and "e_digest32_new env (au_previous_hash row) = Inr (au_previous_hash row)"
    and "length (audit_chain db) + 1 < USIZE_LIMIT"
    and "out = (length (audit_chain db) + 1, au_entry_hash row)"
proof -
  define i where "i = (case last_audit_row db of None \<Rightarrow> 0 | Some row \<Rightarrow> i64_succ (au_sequence row))"
  define prev where "prev = (case last_audit_row db of None \<Rightarrow> zero_digest | Some r \<Rightarrow> au_entry_hash r)"
  have q: "(case last_audit_row db of None \<Rightarrow> (0, zero_digest) | Some row \<Rightarrow> (i64_succ (au_sequence row), au_entry_hash row)) = (i, prev)"
    by (simp add: i_def prev_def split: option.splits)
  from assms(1) obtain n d payload_jcs sig where e: "u64_try_from i = Inr n" "e_digest32_new env prev = Inr d"
      "e_jcs env payload = Inr payload_jcs"
      "as_sign signer (audit_signature_message (compute_audit_hash env n event_type payload_jcs d)) = Inr sig"
    and ins: "insert_audit env \<lparr>au_sequence = int n, au_event_type = event_type, au_payload_jcs = payload_jcs,
        au_previous_hash = d, au_entry_hash = compute_audit_hash env n event_type payload_jcs d,
        au_signing_key_id = as_key_id signer, au_signature = sig\<rparr> db = (db', Inr ())"
    and out: "out = (n + 1, compute_audit_hash env n event_type payload_jcs d)"
    unfolding append_audit_def tx_bind_query q by (auto simp: tx_bind_Inr Let_def)
  have d: "d = prev" using e(2) env_lawsD(3) [OF assms(3)] by simp
  have n: "n = length (audit_chain db) \<and> n + 1 < USIZE_LIMIT"
    using e(1) assms(2)
    by (auto simp: i_def u64_try_from_def i64_succ_def I64_MAX_def USIZE_LIMIT_def split: option.splits if_splits)
  let ?row = "new_audit_row env db event_type payload_jcs signer sig"
  have row: "?row = \<lparr>au_sequence = int n, au_event_type = event_type, au_payload_jcs = payload_jcs,
        au_previous_hash = d, au_entry_hash = compute_audit_hash env n event_type payload_jcs d,
        au_signing_key_id = as_key_id signer, au_signature = sig\<rparr>"
    unfolding new_audit_row_def Let_def using n d by (simp add: prev_def)
  show thesis
  proof (rule that)
    show "e_jcs env payload = Inr payload_jcs" by fact
    show "?row = ?row" ..
    show "as_sign signer (audit_signature_message (au_entry_hash ?row)) = Inr sig" using e(4) row by simp
    show "db' = changed 1 (db\<lparr>audit_chain := audit_chain db @ [?row]\<rparr>)"
      using ins unfolding row insert_audit_def by (simp split: if_splits)
    show "e_digest32_new env (au_previous_hash ?row) = Inr (au_previous_hash ?row)" using e(2) d row by simp
    show "length (audit_chain db) + 1 < USIZE_LIMIT" using n by simp
    show "out = (length (audit_chain db) + 1, au_entry_hash ?row)" using out n row by simp
  qed
qed

text \<open>
  One append to verified rows: the new row is accepted when the key that signs it is the expected
  one, the rows it refers to agree with it and the rotation rules allow it.
\<close>

lemma append_verified:
  assumes st: "verify_rows env db s (sort_key au_sequence (audit_chain db)) initial_verify_state = Inr st"
    and laws: "env_laws env" "signer_laws env sg"
    and app: "append_audit env event_type payload sg db = (db', Inr out)"
    and trusted: "\<And>k m sig. as_verify sg k m sig \<Longrightarrow> as_verify s k m sig"
    and key: "vs_expected_key_id st = None \<or> vs_expected_key_id st = Some (as_key_id sg)"
    and corr: "\<And>payload_jcs. e_jcs env payload = Inr payload_jcs \<Longrightarrow>
      is_ok (verify_audit_correlation env db event_type payload_jcs)"
    and rot: "\<And>payload_jcs sig row. e_jcs env payload = Inr payload_jcs \<Longrightarrow>
      row = new_audit_row env db event_type payload_jcs sg sig \<Longrightarrow>
      verify_rotation env s (length (audit_chain db)) event_type payload_jcs (au_previous_hash row)
        (au_entry_hash row) (as_key_id sg) (Some (as_key_id sg)) (vs_pending_rotation st)
        = Inr (key' (au_entry_hash row), pending' (au_entry_hash row))"
  obtains row where "verify_rows env db' s (sort_key au_sequence (audit_chain db')) initial_verify_state
      = Inr \<lparr>vs_expected_sequence = length (audit_chain db) + 1, vs_expected_previous = au_entry_hash row,
          vs_expected_key_id = key' (au_entry_hash row), vs_pending_rotation = pending' (au_entry_hash row)\<rparr>"
    and "db' = changed 1 (db\<lparr>audit_chain := audit_chain db @ [row]\<rparr>)"
    and "last_audit_row db' = Some row"
    and "e_digest32_new env (au_entry_hash row) = Inr (au_entry_hash row)"
proof -
  note f = last_audit_row_verified [OF st laws(1)]
  obtain payload_jcs sig row where p: "e_jcs env payload = Inr payload_jcs"
    and row: "row = new_audit_row env db event_type payload_jcs sg sig"
    and sig: "as_sign sg (audit_signature_message (au_entry_hash row)) = Inr sig"
    and db': "db' = changed 1 (db\<lparr>audit_chain := audit_chain db @ [row]\<rparr>)"
    and prev: "e_digest32_new env (au_previous_hash row) = Inr (au_previous_hash row)"
    and len: "length (audit_chain db) + 1 < USIZE_LIMIT"
    using append_audit_effect [OF app f(3) laws(1)] .
  have ret: "retains db db'" using db' by (intro retainsI_tables) simp_all
  have sorted: "sort_key au_sequence (audit_chain db') = sort_key au_sequence (audit_chain db) @ [row]"
    using verified_sequence [OF st laws(1)] db'
    by (auto simp: row new_audit_row_def Let_def intro!: sort_key_snoc order.strict_implies_order)
  have "is_ok (verify_audit_correlation env db' event_type payload_jcs)"
    using corr [OF p] correlation_retains [OF _ ret] by (auto simp: is_ok_iff)
  moreover have digest: "e_digest32_new env (au_entry_hash row) = Inr (au_entry_hash row)"
    by (simp add: row new_audit_row_def Let_def compute_audit_hash_def env_lawsD(1) [OF laws(1)])
  ultimately have accept: "verify_row env db' s row st = Inr \<lparr>vs_expected_sequence = length (audit_chain db) + 1,
      vs_expected_previous = au_entry_hash row, vs_expected_key_id = key' (au_entry_hash row),
      vs_pending_rotation = pending' (au_entry_hash row)\<rparr>"
    unfolding verify_row_Inr [OF laws(1)]
    using f(1,2) prev len signer_lawsD(1) [OF laws(2)] trusted [OF signer_lawsD(2) [OF laws(2) sig]]
      signer_lawsD(3) [OF laws(2) sig] key rot [OF p row]
    by (simp add: row new_audit_row_def Let_def)
  have "verify_rows env db' s (sort_key au_sequence (audit_chain db)) initial_verify_state = Inr st"
    using verify_rows_retains [OF ret laws(1) st] .
  then have "verify_rows env db' s (sort_key au_sequence (audit_chain db')) initial_verify_state
      = Inr \<lparr>vs_expected_sequence = length (audit_chain db) + 1, vs_expected_previous = au_entry_hash row,
          vs_expected_key_id = key' (au_entry_hash row), vs_pending_rotation = pending' (au_entry_hash row)\<rparr>"
    using accept by (simp add: sorted verify_rows_append)
  then show thesis
    using db' sorted digest by (intro that) (simp_all add: last_audit_row_def)
qed

text \<open>
  The core of the chain: an entry appended by the active key to a verified chain gives a verified
  chain, when the rows the old entries refer to are retained and the new entry agrees
  with the rows it refers to.
\<close>

lemma chain_ok_append:
  assumes ok: "chain_ok env s db" and laws: "env_laws env" "signer_laws env s"
    and ret: "retains db db1" and same: "audit_chain db1 = audit_chain db"
    and app: "append_audit env event_type payload s db1 = (db2, Inr out)"
    and plain: "event_type \<noteq> ''audit.key_rotated''" "event_type \<noteq> ''audit.key_rotation_completed''"
    and corr: "\<And>payload_jcs. e_jcs env payload = Inr payload_jcs \<Longrightarrow>
      is_ok (verify_audit_correlation env db1 event_type payload_jcs)"
  shows "chain_ok env s db2"
proof -
  obtain st where st: "verify_rows env db s (sort_key au_sequence (audit_chain db)) initial_verify_state = Inr st"
    and pend: "vs_pending_rotation st = None"
    and key: "vs_expected_key_id st = None \<or> vs_expected_key_id st = Some (as_key_id s)"
    using chain_ok_rows [OF ok] .
  have st1: "verify_rows env db1 s (sort_key au_sequence (audit_chain db1)) initial_verify_state = Inr st"
    using verify_rows_retains [OF ret laws(1) st] same by simp
  have rot: "verify_rotation env s (length (audit_chain db1)) event_type payload_jcs prev h (as_key_id s)
      (Some (as_key_id s)) (vs_pending_rotation st) = Inr (Some (as_key_id s), None)" for payload_jcs prev h
    using pend plain by (simp add: verify_rotation_def)
  obtain h where "verify_rows env db2 s (sort_key au_sequence (audit_chain db2)) initial_verify_state
      = Inr \<lparr>vs_expected_sequence = length (audit_chain db1) + 1, vs_expected_previous = h,
          vs_expected_key_id = Some (as_key_id s), vs_pending_rotation = None\<rparr>"
    using append_verified [OF st1 laws app _ key corr rot] by blast
  then show ?thesis
    by (simp add: chain_ok_def verify_audit_chain_connection_def)
qed

section \<open>Key rotation\<close>

lemma verify_row_signer_mono:
  assumes "env_laws env" and "verify_row env db s row st = Inr st'"
    and le: "\<And>k m sig. as_verify s k m sig \<Longrightarrow> as_verify s' k m sig"
  shows "verify_row env db s' row st = Inr st'"
proof -
  have "verify_rotation env s n et p prev h key key' pending = Inr r \<Longrightarrow>
      verify_rotation env s' n et p prev h key key' pending = Inr r" for n et p prev h key key' pending r
    by (auto simp: verify_rotation_def elim!: and_then_mono split: if_splits dest: le)
  then show ?thesis
    using assms(2) le unfolding verify_row_Inr [OF assms(1)] by blast
qed

lemma verify_rows_signer_mono:
  assumes "env_laws env" and "\<And>k m sig. as_verify s k m sig \<Longrightarrow> as_verify s' k m sig"
  shows "verify_rows env db s rows st = Inr st' \<Longrightarrow> verify_rows env db s' rows st = Inr st'"
  by (induction rows arbitrary: st)
     (auto simp: and_then_eq_Inr intro: verify_row_signer_mono [OF assms(1) _ assms(2)])

definition rotation_payload :: "Token \<Rightarrow> Token \<Rightarrow> Digest32 \<Rightarrow> Base64UrlBytes \<Rightarrow> json" where
  "rotation_payload old_key_id new_key_id prior_head confirmation = json_object
     [(''old_key_id'', JString old_key_id), (''new_key_id'', JString new_key_id),
      (''prior_head'', JString prior_head), (''new_key_confirmation'', JString confirmation)]"

definition completion_payload :: "Token \<Rightarrow> Token \<Rightarrow> Digest32 \<Rightarrow> json" where
  "completion_payload old_key_id new_key_id final_old_head = json_object
     [(''old_key_id'', JString old_key_id), (''new_key_id'', JString new_key_id),
      (''final_old_head'', JString final_old_head)]"

text \<open>The transaction of \<open>rotate_audit_key\<close>: a proof of possession, then a completion by the new key.\<close>

definition rotate_audit_key_tx :: "env \<Rightarrow> AuditSigner \<Rightarrow> AuditSigner \<Rightarrow> unit tx" where
  "rotate_audit_key_tx env audit_signer replacement =
     (let old_key_id = as_key_id audit_signer; new_key_id = as_key_id replacement in
      tx_bind (tx_query (\<lambda>db. case last_audit_row db of None \<Rightarrow> zero_digest | Some row \<Rightarrow> au_entry_hash row)) (\<lambda>previous_hash.
      tx_bind (tx_lift (e_digest32_new env previous_hash)) (\<lambda>previous_hash.
      tx_bind (tx_lift (map_err Storage (as_sign replacement (audit_rotation_message old_key_id new_key_id previous_hash)))) (\<lambda>new_key_confirmation.
      tx_bind (append_audit env ''audit.key_rotated''
        (rotation_payload old_key_id new_key_id previous_hash new_key_confirmation) audit_signer) (\<lambda>_.
      tx_bind (tx_check (\<lambda>db. ok_or (map_option au_entry_hash (last_audit_row db)) (sqlite_error env QueryReturnedNoRows))) (\<lambda>final_old_head.
      tx_bind (tx_lift (e_digest32_new env final_old_head)) (\<lambda>final_old_head.
      tx_bind (append_audit env ''audit.key_rotation_completed''
        (completion_payload old_key_id new_key_id final_old_head) replacement) (\<lambda>_.
      tx_return ()))))))))"

lemma uncorrelated:
  assumes "env_laws env" and "e_jcs env payload = Inr payload_jcs" and "json_get payload ''correlation_schema'' = None"
  shows "is_ok (verify_audit_correlation env db event_type payload_jcs)"
  using env_lawsD(8) [OF assms(1,2)] assms(3) by (simp add: verify_audit_correlation_def)

lemma rotation_from_payload:
  assumes "env_laws env" and "e_jcs env (rotation_payload old new_key head conf) = Inr p"
    and "e_token_new env old = Inr old" and "e_token_new env new_key = Inr new_key"
    and "e_digest32_new env head = Inr head" and "e_base64url_parse env conf = Inr conf"
  shows "rotation_from_str env p = Inr \<lparr>rot_old_key_id = old, rot_new_key_id = new_key, rot_prior_head = head,
    rot_new_key_confirmation = conf\<rparr>"
  using env_lawsD(8) [OF assms(1,2)] assms(3-)
  by (simp add: rotation_from_str_def rotation_payload_def payload_field_def payload_str_def)

lemma completion_from_payload:
  assumes "env_laws env" and "e_jcs env (completion_payload old new_key head) = Inr p"
    and "e_token_new env old = Inr old" and "e_token_new env new_key = Inr new_key"
    and "e_digest32_new env head = Inr head"
  shows "completion_from_str env p = Inr \<lparr>cmp_old_key_id = old, cmp_new_key_id = new_key, cmp_final_old_head = head\<rparr>"
  using env_lawsD(8) [OF assms(1,2)] assms(3-)
  by (simp add: completion_from_str_def completion_payload_def payload_field_def payload_str_def)

text \<open>
  A completed rotation verifies under any signer that has the new key identifier and trusts both
  keys, as the registry does once the replacement is installed.
\<close>

lemma rotate_chain_ok:
  assumes ok: "chain_ok env s db" and laws: "env_laws env" "signer_laws env s" "signer_laws env replacement"
    and differ: "as_key_id s \<noteq> as_key_id replacement"
    and run: "rotate_audit_key_tx env s replacement db = (db2, Inr ())"
    and s': "as_key_id s' = as_key_id replacement" "\<And>k m sig. as_verify s k m sig \<Longrightarrow> as_verify s' k m sig"
      "\<And>k m sig. as_verify replacement k m sig \<Longrightarrow> as_verify s' k m sig"
  shows "chain_ok env s' db2"
proof -
  let ?old = "as_key_id s" and ?new = "as_key_id replacement"
  let ?prev = "case last_audit_row db of None \<Rightarrow> zero_digest | Some row \<Rightarrow> au_entry_hash row"
  obtain st where st: "verify_rows env db s (sort_key au_sequence (audit_chain db)) initial_verify_state = Inr st"
    and pend: "vs_pending_rotation st = None"
    and key: "vs_expected_key_id st = None \<or> vs_expected_key_id st = Some ?old"
    using chain_ok_rows [OF ok] .
  have st': "verify_rows env db s' (sort_key au_sequence (audit_chain db)) initial_verify_state = Inr st"
    using verify_rows_signer_mono [OF laws(1) s'(2) st] .
  have digest: "d = t" if "e_digest32_new env t = Inr d" for t d
    using that env_lawsD(3) [OF laws(1)] by blast
  obtain t conf out1 db1 u d out2 where t: "e_digest32_new env ?prev = Inr t"
    and conf': "as_sign replacement (audit_rotation_message ?old ?new t) = Inr conf"
    and app1': "append_audit env ''audit.key_rotated'' (rotation_payload ?old ?new t conf) s db = (db1, Inr out1)"
    and u: "map_option au_entry_hash (last_audit_row db1) = Some u" "e_digest32_new env u = Inr d"
    and app2: "append_audit env ''audit.key_rotation_completed'' (completion_payload ?old ?new d) replacement db1 = (db2, Inr out2)"
    using run unfolding rotate_audit_key_tx_def Let_def tx_bind_query tx_bind_Inr
    by (simp add: tx_bind_Inr del: map_option_eq_Some split_paired_Ex) blast
  note prev = t [unfolded digest [OF t]] and conf = conf' [unfolded digest [OF t]] and app1 = app1' [unfolded digest [OF t]]
  have d: "map_option au_entry_hash (last_audit_row db1) = Some d" using u(1) unfolding digest [OF u(2)] .
  note tokens = signer_lawsD(1) [OF laws(2)] signer_lawsD(1) [OF laws(3)]
  have previous: "au_previous_hash (new_audit_row env db et p sg sig) = ?prev" for et p sg sig
    by (simp add: new_audit_row_def Let_def)
  have rot1: "verify_rotation env s' n ''audit.key_rotated'' p ?prev h ?old (Some ?old) (vs_pending_rotation st)
      = Inr (Some ?new, Some (?old, ?new, h))"
    if "e_jcs env (rotation_payload ?old ?new ?prev conf) = Inr p" for n p h
    using rotation_from_payload [OF laws(1) that tokens prev signer_lawsD(3) [OF laws(3) conf]] pend differ
      s'(3) [OF signer_lawsD(2) [OF laws(3) conf]]
    by (simp add: verify_rotation_def)
  obtain row where st1: "verify_rows env db1 s' (sort_key au_sequence (audit_chain db1)) initial_verify_state
      = Inr \<lparr>vs_expected_sequence = length (audit_chain db) + 1, vs_expected_previous = au_entry_hash row,
          vs_expected_key_id = Some ?new, vs_pending_rotation = Some (?old, ?new, au_entry_hash row)\<rparr>"
    and last1: "last_audit_row db1 = Some row" and digest1: "e_digest32_new env (au_entry_hash row) = Inr (au_entry_hash row)"
    by (rule append_verified [OF st' laws(1,2) app1 s'(2) key, where key' = "\<lambda>_. Some ?new" and pending' = "\<lambda>h. Some (?old, ?new, h)"])
       (simp_all add: uncorrelated [OF laws(1)] rotation_payload_def previous rot1 [unfolded rotation_payload_def])
  have d1: "d = au_entry_hash row" using d last1 by simp
  have previous1: "au_previous_hash (new_audit_row env db1 et p sg sig) = au_entry_hash row" for et p sg sig
    by (simp add: new_audit_row_def Let_def last1)
  have rot2: "verify_rotation env s' n ''audit.key_rotation_completed'' p (au_entry_hash row) h ?new (Some ?new)
      (Some (?old, ?new, au_entry_hash row)) = Inr (Some ?new, None)"
    if "e_jcs env (completion_payload ?old ?new d) = Inr p" for n p h
    using completion_from_payload [OF laws(1) that [unfolded d1] tokens digest1] differ
    by (simp add: verify_rotation_def)
  have corr2: "is_ok (verify_audit_correlation env db1 ''audit.key_rotation_completed'' p)"
    if "e_jcs env (completion_payload ?old ?new d) = Inr p" for p
    using that by (rule uncorrelated [OF laws(1)]) (simp add: completion_payload_def)
  have "\<exists>row2 :: audit_row. verify_rows env db2 s' (sort_key au_sequence (audit_chain db2)) initial_verify_state
      = Inr \<lparr>vs_expected_sequence = length (audit_chain db1) + 1, vs_expected_previous = au_entry_hash row2,
          vs_expected_key_id = Some ?new, vs_pending_rotation = None\<rparr>"
    by (rule append_verified [OF st1 laws(1,3) app2 s'(3) _ corr2, where key' = "\<lambda>_. Some ?new" and pending' = "\<lambda>_. None"])
       ((simp only: previous1 rot2 verify_state.simps simp_thms; fail) | (rule exI, assumption))+
  then show ?thesis
    using s'(1) by (auto simp: chain_ok_def verify_audit_chain_connection_def)
qed

section \<open>Tamper evidence\<close>

definition audit_preimage :: "audit_row \<Rightarrow> bytes" where
  "audit_preimage row = AUDIT_DOMAIN @ be_bytes 8 (nat (au_sequence row)) @ str_bytes (au_previous_hash row)
     @ str_bytes (au_event_type row) @ str_bytes (au_payload_jcs row)"

text \<open>What the hash of an entry commits to. Nothing separates the event type from the payload in the text that is hashed; the signature and the
name of its key are not part of it.\<close>

definition same_entry :: "audit_row \<Rightarrow> audit_row \<Rightarrow> bool" where
  "same_entry a b \<longleftrightarrow> au_sequence a = au_sequence b \<and> au_previous_hash a = au_previous_hash b
     \<and> au_entry_hash a = au_entry_hash b \<and> au_event_type a = au_event_type b \<and> au_payload_jcs a = au_payload_jcs b"

text \<open>
  The grammar of JSON: when a text and a part at its end are both JSON texts and one of them opens an object at once, then what precedes the part is
  white space. An entry that the code writes has an event type without white space and the text of an object as payload.
\<close>

definition blank :: "string \<Rightarrow> bool" where
  "blank x \<longleftrightarrow> set x \<subseteq> {CHR '' '', CHR 0x09, CHR 0x0A, CHR 0x0D}"

definition json_texts_law :: "env \<Rightarrow> bool" where
  "json_texts_law env \<longleftrightarrow> (\<forall>x q v w. e_json_from_str env (x @ q) = Inr v \<longrightarrow> e_json_from_str env q = Inr w \<longrightarrow>
     take 1 (x @ q) = ''{'' \<or> take 1 q = ''{'' \<longrightarrow> blank x)"

definition object_entry :: "audit_row \<Rightarrow> bool" where
  "object_entry row \<longleftrightarrow> take 1 (au_payload_jcs row) = ''{'' \<and> list_all (\<lambda>c. \<not> blank [c]) (au_event_type row)"

lemma blank_simps [simp]: "blank []" "blank (x @ y) \<longleftrightarrow> blank x \<and> blank y" "\<not> blank (CHR ''{'' # x)"
  by (auto simp: blank_def)

lemma blank_part: "blank x \<Longrightarrow> list_all (\<lambda>c. \<not> blank [c]) (y @ x) \<Longrightarrow> x = []"
  by (cases x) (auto simp: blank_def)

text \<open>The boundary between event type and payload is fixed by the payload being JSON.\<close>

lemma same_boundary:
  assumes "json_texts_law env" and "object_entry a" and "e_json_from_str env (au_payload_jcs a) = Inr v" and "e_json_from_str env (au_payload_jcs b) = Inr w"
    and "au_event_type a @ au_payload_jcs a = au_event_type b @ au_payload_jcs b"
  shows "au_event_type a = au_event_type b \<and> au_payload_jcs a = au_payload_jcs b"
proof -
  have brace: "take 1 (au_payload_jcs a) = ''{''" using assms(2) by (simp add: object_entry_def)
  obtain x where "au_event_type a = au_event_type b @ x \<and> x @ au_payload_jcs a = au_payload_jcs b
      \<or> au_event_type a @ x = au_event_type b \<and> au_payload_jcs a = x @ au_payload_jcs b"
    using assms(5) by (auto simp: append_eq_append_conv2)
  then show ?thesis
  proof
    assume x: "au_event_type a = au_event_type b @ x \<and> x @ au_payload_jcs a = au_payload_jcs b"
    then have "blank x" using assms(1,3,4) brace unfolding json_texts_law_def by metis
    then have "x = []" using x assms(2) blank_part unfolding object_entry_def by metis
    with x show ?thesis by simp
  next
    assume x: "au_event_type a @ x = au_event_type b \<and> au_payload_jcs a = x @ au_payload_jcs b"
    then have "blank x" using assms(1,3,4) brace unfolding json_texts_law_def by metis
    then have "x = []" using x brace by (cases x) auto
    with x show ?thesis by simp
  qed
qed

lemma verified_row_hash:
  assumes "verify_row env db s row st = Inr st'" and "env_laws env"
  shows "au_entry_hash row = e_sha256 env (audit_preimage row)"
    and "au_sequence row = int (vs_expected_sequence st)" and "vs_expected_sequence st + 1 < USIZE_LIMIT"
    and "e_digest32_new env (au_previous_hash row) = Inr (au_previous_hash row)"
    and "\<exists>v. e_json_from_str env (au_payload_jcs row) = Inr v"
proof -
  have "is_ok (verify_audit_correlation env db (au_event_type row) (au_payload_jcs row))"
    using assms(1) unfolding verify_row_Inr [OF assms(2)] by auto
  then show "\<exists>v. e_json_from_str env (au_payload_jcs row) = Inr v"
    by (cases "e_json_from_str env (au_payload_jcs row)") (simp_all add: verify_audit_correlation_def is_ok_def)
qed (use assms(1) in \<open>auto simp: verify_row_Inr [OF assms(2)] audit_preimage_def compute_audit_hash_def\<close>)

lemma same_preimage:
  assumes "audit_preimage a = audit_preimage b" and "length (au_previous_hash a) = length (au_previous_hash b)"
    and "au_sequence a = au_sequence b"
  shows "au_previous_hash a = au_previous_hash b \<and> au_event_type a @ au_payload_jcs a = au_event_type b @ au_payload_jcs b"
proof -
  have "str_bytes (au_previous_hash a @ au_event_type a @ au_payload_jcs a)
      = str_bytes (au_previous_hash b @ au_event_type b @ au_payload_jcs b)"
    using assms(1,3) by (simp add: audit_preimage_def str_bytes_append)
  with assms show ?thesis by simp
qed

text \<open>
  Two verified row sequences with the same final hash agree entry by entry, unless two different
  texts with the same hash are found at some position.
\<close>

lemma verified_rows_agree:
  assumes laws: "env_laws env" "json_texts_law env" and len: "\<And>t d. e_digest32_new env t = Inr d \<Longrightarrow> length t = 64"
  shows "length xs = length ys \<Longrightarrow> list_all object_entry xs \<Longrightarrow>
    verify_rows env db s xs initial_verify_state = Inr st \<Longrightarrow>
    verify_rows env db' s' ys initial_verify_state = Inr st' \<Longrightarrow>
    vs_expected_previous st = vs_expected_previous st' \<Longrightarrow>
    (\<forall>i < length xs. same_entry (xs ! i) (ys ! i)) \<or>
    (\<exists>i < length xs. audit_preimage (xs ! i) \<noteq> audit_preimage (ys ! i)
       \<and> e_sha256 env (audit_preimage (xs ! i)) = e_sha256 env (audit_preimage (ys ! i)))"
proof (induction xs arbitrary: ys st st' rule: rev_induct)
  case (snoc x xs)
  obtain y ys' where ys: "ys = ys' @ [y]" "length ys' = length xs"
    using snoc.prems(1) by (cases ys rule: rev_cases) auto
  obtain st1 st1' where r: "verify_rows env db s xs initial_verify_state = Inr st1" "verify_row env db s x st1 = Inr st"
      "verify_rows env db' s' ys' initial_verify_state = Inr st1'" "verify_row env db' s' y st1' = Inr st'"
    using snoc.prems(3,4) by (auto simp: ys verify_rows_append and_then_eq_Inr)
  note fx = verify_row_facts [OF r(2) laws(1)] verified_row_hash [OF r(2) laws(1)]
  note fy = verify_row_facts [OF r(4) laws(1)] verified_row_hash [OF r(4) laws(1)]
  have seq: "au_sequence x = au_sequence y"
    using fx(1) fy(1) verify_rows_facts [OF laws(1) r(1)] verify_rows_facts [OF laws(1) r(3)] ys(2) by simp
  have hash: "au_entry_hash x = au_entry_hash y"
    using fx(4) fy(4) snoc.prems(5) by simp
  show ?case
  proof (cases "audit_preimage x = audit_preimage y")
    case False
    then show ?thesis using hash fx(7) fy(7) ys by (intro disjI2 exI [of _ "length xs"]) (simp add: nth_append)
  next
    case True
    have pre: "au_previous_hash x = au_previous_hash y \<and> au_event_type x @ au_payload_jcs x = au_event_type y @ au_payload_jcs y"
      using True len [OF fx(10)] len [OF fy(10)] seq by (intro same_preimage) simp_all
    have "object_entry x" using snoc.prems(2) by simp
    then have same: "same_entry x y"
      using same_boundary [OF laws(2)] fx(11) fy(11) pre seq hash unfolding same_entry_def by blast
    then have "vs_expected_previous st1 = vs_expected_previous st1'"
      using fx(3) fy(3) by (simp add: same_entry_def)
    from snoc.IH [OF ys(2) [symmetric] _ r(1,3) this] snoc.prems(2) same show ?thesis
      by (auto simp: ys nth_append less_Suc_eq)
  qed
qed simp

lemma rotate_tx_rows:
  assumes "rotate_audit_key_tx env s replacement db = (db', Inr ())"
  shows "\<exists>a b. audit_chain db' = audit_chain db @ [a, b]
    \<and> au_event_type a = ''audit.key_rotated'' \<and> au_signing_key_id a = as_key_id s
    \<and> au_event_type b = ''audit.key_rotation_completed'' \<and> au_signing_key_id b = as_key_id replacement"
proof -
  from assms obtain p1 o1 db1 p2 o2 where r: "append_audit env ''audit.key_rotated'' p1 s db = (db1, Inr o1)"
    "append_audit env ''audit.key_rotation_completed'' p2 replacement db1 = (db', Inr o2)"
    by (auto simp: rotate_audit_key_tx_def Let_def tx_bind_Inr tx_query_def tx_lift_def tx_check_def tx_return_def)
  from r(1) obtain a where a: "audit_chain db1 = audit_chain db @ [a]" "au_event_type a = ''audit.key_rotated''"
    "au_signing_key_id a = as_key_id s" by (rule append_audit_row)
  from r(2) obtain b where b: "audit_chain db' = audit_chain db1 @ [b]" "au_event_type b = ''audit.key_rotation_completed''"
    "au_signing_key_id b = as_key_id replacement" by (rule append_audit_row)
  from a b show ?thesis by (intro exI [of _ a] exI [of _ b]) simp
qed

end
