(* ===== verification/JournalGuard.thy ===== *)
theory JournalGuard
  imports AuditChain
begin

text \<open>
  The journal object around the store (journal.rs): the registry of audit keys, the cached audit
  head, the one-way degradation latch, the self-checkpoint sink and the frame that every security
  mutation runs in: verify the head, run one transaction, checkpoint the committed head, call the
  fault hook. The mutex of the connection makes the transaction and the checkpoint two
  atomic steps; \<open>commit\<close> and \<open>finish\<close> are these steps and \<open>mutate\<close> is one after the other.
\<close>

section \<open>State\<close>

record DegradationCause =
  dc_code :: string
  dc_attempted_sequence :: "nat option"
  dc_attempted_head :: "Digest32 option"
  dc_retained_sequence :: "nat option"
  dc_retained_head :: "Digest32 option"

definition journal_cause :: "string \<Rightarrow> DegradationCause" where
  "journal_cause code = \<lparr>dc_code = code, dc_attempted_sequence = None, dc_attempted_head = None,
     dc_retained_sequence = None, dc_retained_head = None\<rparr>"

record VerifiedAuditTail =
  tl_sequence :: nat
  tl_head_hash :: Digest32
  tl_data_version :: int
  tl_total_changes :: nat

text \<open>
  What the checkpoint sink of bloom-audit-checkpoint reports when it refuses a head. A sink is a
  function of the heads it was offered before and the head it is offered now.
\<close>

record CheckpointFailure =
  cf_attempted_sequence :: nat
  cf_attempted_head :: string
  cf_retained :: "(nat \<times> string) option"
  cf_source :: string

type_synonym CheckpointSink = "(nat \<times> Digest32) list \<Rightarrow> nat \<times> Digest32 \<Rightarrow> CheckpointFailure option"

record journal =
  j_db :: db
  j_data_version :: int
  j_signers :: ActiveAuditSigner
  j_tail :: "VerifiedAuditTail option"
  j_degradation :: "DegradationCause option"
  j_self_checkpoint :: "CheckpointSink option"
  j_checkpointed :: "(nat \<times> Digest32) list"

type_synonym 'a jm = "journal \<Rightarrow> journal \<times> (JournalError + 'a)"

definition j_signer :: "journal \<Rightarrow> AuditSigner" where
  "j_signer j = active_signer (j_signers j)"

section \<open>Degradation\<close>

definition audit_degraded :: "journal \<Rightarrow> bool" where
  "audit_degraded j \<longleftrightarrow> j_degradation j \<noteq> None"

text \<open>The latch keeps its first cause.\<close>

definition latch_degradation :: "DegradationCause \<Rightarrow> journal \<Rightarrow> journal" where
  "latch_degradation cause j =
     (if j_degradation j = None then j\<lparr>j_degradation := Some cause\<rparr> else j)"

definition latch_audit_degradation :: "journal \<Rightarrow> journal" where
  "latch_audit_degradation = latch_degradation (journal_cause ''required_checkpoint_unavailable'')"

definition latch_checkpoint_degradation ::
    "string \<Rightarrow> nat \<Rightarrow> Digest32 \<Rightarrow> (nat \<times> Digest32) option \<Rightarrow> journal \<Rightarrow> journal" where
  "latch_checkpoint_degradation code attempted_sequence attempted_head retained = latch_degradation
     \<lparr>dc_code = code, dc_attempted_sequence = Some attempted_sequence, dc_attempted_head = Some attempted_head,
      dc_retained_sequence = map_option fst retained, dc_retained_head = map_option snd retained\<rparr>"

section \<open>The cached head\<close>

definition refresh_verified_audit_tail :: "env \<Rightarrow> (nat \<times> Digest32) jm" where
  "refresh_verified_audit_tail env j = (case audit_head env (j_db j) of
     Inl e \<Rightarrow> (j, Inl e)
   | Inr (sequence, head_hash) \<Rightarrow>
       (j\<lparr>j_tail := Some \<lparr>tl_sequence = sequence, tl_head_hash = head_hash,
            tl_data_version = j_data_version j, tl_total_changes = total_changes (j_db j)\<rparr>\<rparr>,
        Inr (sequence, head_hash)))"

definition tail_matches :: "journal \<Rightarrow> VerifiedAuditTail \<Rightarrow> bool" where
  "tail_matches j t \<longleftrightarrow> tl_data_version t = j_data_version j \<and> tl_total_changes t = total_changes (j_db j)"

definition cached_audit_head :: "env \<Rightarrow> (nat \<times> Digest32) jm" where
  "cached_audit_head env j = (case j_tail j of
     Some t \<Rightarrow>
       if tail_matches j t then (j, Inr (tl_sequence t, tl_head_hash t))
       else (case verify_audit_chain_connection env (j_signer j) (j_db j) of
          Inl e \<Rightarrow> (j, Inl e)
        | Inr _ \<Rightarrow> refresh_verified_audit_tail env j)
   | None \<Rightarrow> (case verify_audit_chain_connection env (j_signer j) (j_db j) of
       Inl e \<Rightarrow> (j, Inl e)
     | Inr _ \<Rightarrow> refresh_verified_audit_tail env j))"

definition verified_audit_head :: "env \<Rightarrow> (nat \<times> Digest32) jm" where
  "verified_audit_head env j = (case cached_audit_head env j of
     (j', Inr head) \<Rightarrow> (j', Inr head)
   | (j', Inl e) \<Rightarrow> (latch_degradation (journal_cause ''journal_head_verification_failed'') j', Inl e))"

definition verify_audit_chain :: "env \<Rightarrow> unit jm" where
  "verify_audit_chain env j = (case verify_audit_chain_connection env (j_signer j) (j_db j) of
     Inl e \<Rightarrow> (latch_degradation (journal_cause ''journal_verification_failed'') j, Inl e)
   | Inr u \<Rightarrow> (case refresh_verified_audit_tail env j of
       (j', Inl e) \<Rightarrow> (j', Inl e)
     | (j', Inr _) \<Rightarrow> (j', Inr u)))"

text \<open>Opening a store verifies it and latches the journal when that fails.\<close>

definition from_connection :: "env \<Rightarrow> db \<Rightarrow> int \<Rightarrow> AuditSigner \<Rightarrow> journal" where
  "from_connection env db data_version audit_signer =
     (let j = \<lparr>j_db = db, j_data_version = data_version, j_signers = new_active_signer audit_signer,
            j_tail = None, j_degradation = None, j_self_checkpoint = None, j_checkpointed = []\<rparr> in
      case verify_audit_chain env j of
        (j', Inr _) \<Rightarrow> j'
      | (j', Inl _) \<Rightarrow> latch_degradation (journal_cause ''journal_verification_failed'') j')"

definition install_self_checkpoint :: "CheckpointSink \<Rightarrow> journal \<Rightarrow> journal" where
  "install_self_checkpoint sink j = j\<lparr>j_self_checkpoint := Some sink\<rparr>"

section \<open>The frame of a mutation\<close>

definition lock_for_mutation :: "env \<Rightarrow> unit jm" where
  "lock_for_mutation env j =
     (if audit_degraded j then (j, Inl audit_degraded_error)
      else case cached_audit_head env j of
        (j', Inl e) \<Rightarrow> (latch_degradation (journal_cause ''journal_head_verification_failed'') j', Inl e)
      | (j', Inr _) \<Rightarrow> (j', Inr ()))"

definition verify_migration_target :: "env \<Rightarrow> unit jm" where
  "verify_migration_target env j =
     (if audit_degraded j then (j, Inl audit_degraded_error)
      else case verify_audit_chain_connection env (j_signer j) (j_db j) of
        Inl e \<Rightarrow> (latch_degradation (journal_cause ''journal_verification_failed'') j, Inl e)
      | Inr _ \<Rightarrow> (j, Inr ()))"

text \<open>
  A refused checkpoint latches the journal. The digests of the refusal are validated while the
  cause is built, so a malformed one leaves the function before the latch.
\<close>

definition digest_or_storage :: "env \<Rightarrow> string \<Rightarrow> JournalError + Digest32" where
  "digest_or_storage env t = map_err (\<lambda>_. Storage (e_wire_error_text env t)) (e_digest32_new env t)"

definition checkpoint_failed :: "env \<Rightarrow> CheckpointFailure \<Rightarrow> unit jm" where
  "checkpoint_failed env failure j =
     (case and_then (digest_or_storage env (cf_attempted_head failure)) (\<lambda>attempted.
           case cf_retained failure of
             None \<Rightarrow> Inr (attempted, None)
           | Some (sequence, head) \<Rightarrow>
               and_then (digest_or_storage env head) (\<lambda>retained. Inr (attempted, Some (sequence, retained)))) of
        Inl e \<Rightarrow> (j, Inl e)
      | Inr (attempted, retained) \<Rightarrow>
          (latch_degradation \<lparr>dc_code = ''self_checkpoint_rejected'',
             dc_attempted_sequence = Some (cf_attempted_sequence failure), dc_attempted_head = Some attempted,
             dc_retained_sequence = map_option fst retained, dc_retained_head = map_option snd retained\<rparr> j,
           Inl (Storage (''persist Broker self-checkpoint before publishing mutation success: '' @ cf_source failure))))"

definition checkpoint_committed_head :: "env \<Rightarrow> unit jm" where
  "checkpoint_committed_head env j =
     (let owner = (case j_tail j of None \<Rightarrow> False | Some t \<Rightarrow> tl_data_version t = j_data_version j) in
      case (if owner then refresh_verified_audit_tail env j else cached_audit_head env j) of
        (j', Inl e) \<Rightarrow> (j', Inl e)
      | (j', Inr head) \<Rightarrow>
          (case j_self_checkpoint j' of
             None \<Rightarrow> (j', Inr ())
           | Some sink \<Rightarrow>
               let j'' = j'\<lparr>j_checkpointed := j_checkpointed j' @ [head]\<rparr> in
               case sink (j_checkpointed j') head of
                 None \<Rightarrow> (j'', Inr ())
               | Some failure \<Rightarrow> checkpoint_failed env failure j''))"

definition after_durable :: "env \<Rightarrow> DurablePoint \<Rightarrow> JournalError + unit" where
  "after_durable env point = (case e_fault_hook env point of
     None \<Rightarrow> Inr ()
   | Some message \<Rightarrow> Inl (InjectedCrash point message))"

text \<open>
  How a transaction body ends: with a durable change that is checkpointed and reported to the
  fault hook, with a commit that is checkpointed only, or at once.
\<close>

datatype 'a outcome = Durable DurablePoint 'a | Checkpointed 'a | Unchanged 'a

definition commit :: "env \<Rightarrow> (AuditSigner \<Rightarrow> 'a outcome tx) \<Rightarrow> 'a outcome jm" where
  "commit env body j = (case lock_for_mutation env j of
     (j', Inl e) \<Rightarrow> (j', Inl e)
   | (j', Inr _) \<Rightarrow>
       (case run_transaction (body (j_signer j')) (j_db j') of
          (db, r) \<Rightarrow> (j'\<lparr>j_db := db\<rparr>, r)))"

fun finish :: "env \<Rightarrow> 'a outcome \<Rightarrow> 'a jm" where
  "finish env (Unchanged a) j = (j, Inr a)"
| "finish env (Checkpointed a) j = (case checkpoint_committed_head env j of
     (j', Inl e) \<Rightarrow> (j', Inl e)
   | (j', Inr _) \<Rightarrow> (j', Inr a))"
| "finish env (Durable point a) j = (case checkpoint_committed_head env j of
     (j', Inl e) \<Rightarrow> (j', Inl e)
   | (j', Inr _) \<Rightarrow> (j', and_then (after_durable env point) (\<lambda>_. Inr a)))"

definition mutate :: "env \<Rightarrow> (AuditSigner \<Rightarrow> 'a outcome tx) \<Rightarrow> 'a jm" where
  "mutate env body j = (case commit env body j of
     (j', Inl e) \<Rightarrow> (j', Inl e)
   | (j', Inr out) \<Rightarrow> finish env out j')"

text \<open>
  Key rotation has the same frame, but the replacement is installed between the commit and the
  checkpoint.
\<close>

definition rotate_audit_key :: "env \<Rightarrow> AuditSigner \<Rightarrow> unit jm" where
  "rotate_audit_key env replacement j =
     (if as_key_id (j_signer j) = as_key_id replacement
      then (j, Inl (Storage ''replacement audit key ID must differ''))
      else case lock_for_mutation env j of
        (j', Inl e) \<Rightarrow> (j', Inl e)
      | (j', Inr _) \<Rightarrow>
          (case run_transaction (rotate_audit_key_tx env (j_signer j') replacement) (j_db j') of
             (db, Inl e) \<Rightarrow> (j'\<lparr>j_db := db\<rparr>, Inl e)
           | (db, Inr _) \<Rightarrow>
               checkpoint_committed_head env
                 (j'\<lparr>j_db := db, j_signers := install_signer replacement (j_signers j')\<rparr>)))"

section \<open>The registry of keys\<close>

definition registry_ok :: "env \<Rightarrow> ActiveAuditSigner \<Rightarrow> bool" where
  "registry_ok env registry \<longleftrightarrow>
     sg_current registry \<in> set (sg_trusted registry) \<and> (\<forall>s \<in> set (sg_trusted registry). signer_laws env s)"

lemma active_signer_sel [simp]:
  "as_key_id (active_signer r) = as_key_id (sg_current r)"
  "as_sign (active_signer r) = as_sign (sg_current r)"
  "as_verify (active_signer r) k m sig \<longleftrightarrow> (\<exists>s \<in> set (sg_trusted r). as_verify s k m sig)"
  by (auto simp: active_signer_def list_ex_iff)

lemma registry_signer_laws: "registry_ok env r \<Longrightarrow> signer_laws env (active_signer r)"
  by (fastforce simp: registry_ok_def signer_laws_def)

lemma new_registry_ok: "signer_laws env s \<Longrightarrow> registry_ok env (new_active_signer s)"
  by (simp add: registry_ok_def new_active_signer_def)

lemma install_registry_ok: "registry_ok env r \<Longrightarrow> signer_laws env s \<Longrightarrow> registry_ok env (install_signer s r)"
  by (auto simp: registry_ok_def install_signer_def)

section \<open>Coherence of the cached head\<close>

text \<open>
  The cached tail is trusted in two ways: with the same data version and counter its head is
  used as it is, with the same data version alone the head is read again without a new
  verification. Both are right when the chain of a store that no other connection wrote
  to since the tail was taken verifies.
\<close>

definition tail_coherent :: "env \<Rightarrow> journal \<Rightarrow> VerifiedAuditTail \<Rightarrow> bool" where
  "tail_coherent env j t \<longleftrightarrow>
     chain_ok env (j_signer j) (j_db j)
   \<and> tl_total_changes t \<le> total_changes (j_db j)
   \<and> (tl_total_changes t = total_changes (j_db j) \<longrightarrow>
        audit_head env (j_db j) = Inr (tl_sequence t, tl_head_hash t))"

definition coherent :: "env \<Rightarrow> journal \<Rightarrow> bool" where
  "coherent env j \<longleftrightarrow> registry_ok env (j_signers j)
   \<and> (\<forall>t. j_tail j = Some t \<longrightarrow> tl_data_version t = j_data_version j \<longrightarrow> tail_coherent env j t)"

lemma audit_head_changes: "audit_head env (db\<lparr>total_changes := n\<rparr>) = audit_head env db"
  by (simp add: audit_head_def last_audit_row_def)

lemma chain_ok_cong:
  assumes "operations db' = operations db" and "batch_children db' = batch_children db"
    and "approval_metadata db' = approval_metadata db" and "audit_chain db' = audit_chain db"
    and "env_laws env"
  shows "chain_ok env s db' \<longleftrightarrow> chain_ok env s db"
proof -
  have "retains db db'" "retains db' db" using assms by (auto intro: retainsI_tables)
  then have "verify_rows env db' s rows st = Inr st' \<longleftrightarrow> verify_rows env db s rows st = Inr st'" for rows st st'
    using verify_rows_retains [OF _ assms(5)] by blast
  then have "is_ok (verify_audit_chain_connection env s db') \<longleftrightarrow> is_ok (verify_audit_chain_connection env s db)"
    unfolding is_ok_iff verify_audit_chain_connection_def and_then_eq_Inr assms(4) by auto
  then show ?thesis by (auto simp: chain_ok_def is_ok_iff)
qed

lemma refresh_effect:
  assumes "refresh_verified_audit_tail env j = (j', Inr head)"
  obtains t where "j' = j\<lparr>j_tail := Some t\<rparr>" and "tl_data_version t = j_data_version j"
    and "tl_total_changes t = total_changes (j_db j)" and "head = (tl_sequence t, tl_head_hash t)"
    and "audit_head env (j_db j) = Inr head"
proof (cases "audit_head env (j_db j)")
  case (Inr h)
  with assms show thesis
    by (intro that [of "\<lparr>tl_sequence = fst h, tl_head_hash = snd h, tl_data_version = j_data_version j,
          tl_total_changes = total_changes (j_db j)\<rparr>"])
       (auto simp: refresh_verified_audit_tail_def split: prod.splits)
qed (use assms in \<open>simp add: refresh_verified_audit_tail_def\<close>)

lemma refresh_Inl: "refresh_verified_audit_tail env j = (j', Inl e) \<Longrightarrow> j' = j"
  by (auto simp: refresh_verified_audit_tail_def split: sum.splits prod.splits)

text \<open>The fields that taking a new tail does not touch.\<close>

lemma coherent_tail:
  assumes "registry_ok env (j_signers j)" and "chain_ok env (j_signer j) (j_db j)"
    and "refresh_verified_audit_tail env j = (j', Inr head)"
  shows "coherent env j'"
  by (rule refresh_effect [OF assms(3)]) (use assms(1,2) in \<open>auto simp: coherent_def tail_coherent_def j_signer_def\<close>)

lemma cached_audit_head_sound:
  assumes "coherent env j" and "cached_audit_head env j = (j', Inr head)"
  shows "coherent env j'" and "chain_ok env (j_signer j) (j_db j)" and "audit_head env (j_db j) = Inr head"
    and "\<exists>t. j' = j\<lparr>j_tail := Some t\<rparr> \<and> tail_matches j t"
proof -
  have cases: "(\<exists>t. j_tail j = Some t \<and> tail_matches j t \<and> j' = j \<and> head = (tl_sequence t, tl_head_hash t))
      \<or> (chain_ok env (j_signer j) (j_db j) \<and> refresh_verified_audit_tail env j = (j', Inr head))"
    using assms(2) by (auto simp: cached_audit_head_def chain_ok_def split: option.splits if_splits sum.splits)
  then show "coherent env j'" "chain_ok env (j_signer j) (j_db j)" "audit_head env (j_db j) = Inr head"
    using assms(1) coherent_tail [of env j j' head]
    by (auto simp: coherent_def tail_coherent_def tail_matches_def elim: refresh_effect)
  show "\<exists>t. j' = j\<lparr>j_tail := Some t\<rparr> \<and> tail_matches j t"
    using cases
  proof
    assume "\<exists>t. j_tail j = Some t \<and> tail_matches j t \<and> j' = j \<and> head = (tl_sequence t, tl_head_hash t)"
    then obtain t where "j_tail j = Some t" "tail_matches j t" "j' = j" by blast
    then show ?thesis by (intro exI [of _ t]) simp
  qed (auto simp: tail_matches_def elim: refresh_effect)
qed

lemma cached_audit_head_error: "cached_audit_head env j = (j', Inl e) \<Longrightarrow> j' = j"
  by (auto simp: cached_audit_head_def dest: refresh_Inl split: option.splits if_splits sum.splits)

section \<open>The invariant of the journal\<close>

text \<open>
  The children of a batch are written together with the result of their parent, and the grant of
  an approval together with its activation.
\<close>

definition links_ok :: "db \<Rightarrow> bool" where
  "links_ok db \<longleftrightarrow> (\<forall>i. result_of db i = None \<longrightarrow> select_children i db = [])
   \<and> (\<forall>m \<in> set (approval_metadata db). md_activation_operation_id m = None \<longrightarrow> md_ceremony_grant_jcs m = None)"

definition journal_ok :: "env \<Rightarrow> journal \<Rightarrow> bool" where
  "journal_ok env j \<longleftrightarrow> coherent env j \<and> links_ok (j_db j)"

lemma links_ok_cong:
  "operations db' = operations db \<Longrightarrow> batch_children db' = batch_children db \<Longrightarrow>
   approval_metadata db' = approval_metadata db \<Longrightarrow> links_ok db' = links_ok db"
  by (simp add: links_ok_def result_of_def select_operation_def select_children_def)

lemma latch_sel [simp]:
  "j_db (latch_degradation c j) = j_db j" "j_data_version (latch_degradation c j) = j_data_version j"
  "j_signers (latch_degradation c j) = j_signers j" "j_tail (latch_degradation c j) = j_tail j"
  "j_self_checkpoint (latch_degradation c j) = j_self_checkpoint j"
  "j_checkpointed (latch_degradation c j) = j_checkpointed j" "audit_degraded (latch_degradation c j)"
  by (auto simp: latch_degradation_def audit_degraded_def)

text \<open>Coherence is about the store, the keys and the tail only.\<close>

lemma journal_ok_cong:
  assumes "j_db j' = j_db j" and "j_data_version j' = j_data_version j" and "j_signers j' = j_signers j"
    and "j_tail j' = j_tail j"
  shows "journal_ok env j' \<longleftrightarrow> journal_ok env j"
  using assms by (simp add: journal_ok_def coherent_def tail_coherent_def j_signer_def)

lemma journal_ok_latch [simp]: "journal_ok env (latch_degradation c j) \<longleftrightarrow> journal_ok env j"
  by (rule journal_ok_cong) simp_all

lemma lock_for_mutation_cases:
  assumes "lock_for_mutation env j = (j', r)"
  obtains (degraded) "audit_degraded j" "j' = j" "r = Inl audit_degraded_error"
    | (bad) e where "\<not> audit_degraded j" "cached_audit_head env j = (j, Inl e)" "r = Inl e"
        "j' = latch_degradation (journal_cause ''journal_head_verification_failed'') j"
    | (good) head where "\<not> audit_degraded j" "cached_audit_head env j = (j', Inr head)" "r = Inr ()"
proof (cases "audit_degraded j")
  case True
  with assms show thesis by (intro degraded) (simp_all add: lock_for_mutation_def)
next
  case False
  obtain j1 h where j1: "cached_audit_head env j = (j1, h)" by (meson surj_pair)
  show thesis
  proof (cases h)
    case (Inl e)
    with j1 cached_audit_head_error have "j1 = j" by blast
    with False assms j1 Inl show thesis by (intro bad [of e]) (simp_all add: lock_for_mutation_def)
  next
    case (Inr head)
    with False assms j1 show thesis by (intro good [of head]) (simp_all add: lock_for_mutation_def)
  qed
qed

lemma lock_for_mutation_ok:
  assumes "journal_ok env j" and "lock_for_mutation env j = (j', r)"
  shows "journal_ok env j'" and "j_db j' = j_db j" and "j_signers j' = j_signers j"
    and "j_data_version j' = j_data_version j" and "j_checkpointed j' = j_checkpointed j"
    and "r = Inr () \<Longrightarrow> chain_ok env (j_signer j) (j_db j) \<and> \<not> audit_degraded j
      \<and> (\<exists>t. j_tail j' = Some t \<and> tail_matches j' t)"
proof -
  from assms(1) have coh: "coherent env j" and ch: "links_ok (j_db j)" by (simp_all add: journal_ok_def)
  have "journal_ok env j' \<and> j_db j' = j_db j \<and> j_signers j' = j_signers j \<and> j_data_version j' = j_data_version j
      \<and> j_checkpointed j' = j_checkpointed j
      \<and> (r = Inr () \<longrightarrow> chain_ok env (j_signer j) (j_db j) \<and> \<not> audit_degraded j
          \<and> (\<exists>t. j_tail j' = Some t \<and> tail_matches j' t))"
    using assms(2)
  proof (cases rule: lock_for_mutation_cases)
    case (good head)
    obtain t where t: "j' = j\<lparr>j_tail := Some t\<rparr>" "tail_matches j t"
      using cached_audit_head_sound(4) [OF coh good(2)] by blast
    have "journal_ok env j'"
      using cached_audit_head_sound(1) [OF coh good(2)] ch t(1) by (simp add: journal_ok_def)
    moreover have "tail_matches j' t" using t by (simp add: tail_matches_def)
    ultimately show ?thesis
      using t(1) good(1) cached_audit_head_sound(2) [OF coh good(2)] by simp
  qed (use assms(1) in simp_all)
  then show "journal_ok env j'" "j_db j' = j_db j" "j_signers j' = j_signers j"
    "j_data_version j' = j_data_version j" "j_checkpointed j' = j_checkpointed j"
    "r = Inr () \<Longrightarrow> chain_ok env (j_signer j) (j_db j) \<and> \<not> audit_degraded j
      \<and> (\<exists>t. j_tail j' = Some t \<and> tail_matches j' t)"
    by blast+
qed

lemma checkpoint_failed_fields:
  assumes "checkpoint_failed env f j = (j', r)"
  shows "j_db j' = j_db j" "j_data_version j' = j_data_version j" "j_signers j' = j_signers j" "j_tail j' = j_tail j"
    "j_checkpointed j' = j_checkpointed j" "\<exists>e. r = Inl e"
  using assms by (auto simp: checkpoint_failed_def split: sum.splits prod.splits)

text \<open>A checkpoint reads a head that verifies and offers it to the sink.\<close>

lemma checkpoint_ok:
  assumes "journal_ok env j" and "checkpoint_committed_head env j = (j', r)"
  shows "journal_ok env j'" and "j_db j' = j_db j" and "j_signers j' = j_signers j"
    and "j_data_version j' = j_data_version j"
    and "j_checkpointed j' = j_checkpointed j \<or> (\<exists>head. j_checkpointed j' = j_checkpointed j @ [head]
      \<and> audit_head env (j_db j) = Inr head \<and> chain_ok env (j_signer j) (j_db j))"
proof -
  from assms(1) have coh: "coherent env j" and ch: "links_ok (j_db j)" by (simp_all add: journal_ok_def)
  define owner where "owner = (case j_tail j of None \<Rightarrow> False | Some t \<Rightarrow> tl_data_version t = j_data_version j)"
  obtain j1 h where j1: "(if owner then refresh_verified_audit_tail env j else cached_audit_head env j) = (j1, h)"
    by (meson surj_pair)
  have ok: "owner \<Longrightarrow> chain_ok env (j_signer j) (j_db j)"
    using coh by (auto simp: owner_def coherent_def tail_coherent_def split: option.splits)
  have err: "j1 = j" if "h = Inl e" for e
    using j1 that by (cases owner) (auto dest: refresh_Inl cached_audit_head_error)
  have good: "journal_ok env j1 \<and> (\<exists>t. j1 = j\<lparr>j_tail := t\<rparr>) \<and> audit_head env (j_db j) = Inr head
      \<and> chain_ok env (j_signer j) (j_db j)" if "h = Inr head" for head
  proof (cases owner)
    case True
    with j1 that have r: "refresh_verified_audit_tail env j = (j1, Inr head)" by simp
    have reg: "registry_ok env (j_signers j)" using coh by (simp add: coherent_def)
    from r obtain t where "j1 = j\<lparr>j_tail := Some t\<rparr>" "audit_head env (j_db j) = Inr head" by (rule refresh_effect)
    with coherent_tail [OF reg ok [OF True] r] ch ok [OF True] show ?thesis
      by (auto simp: journal_ok_def)
  next
    case False
    with j1 that have "cached_audit_head env j = (j1, Inr head)" by simp
    from cached_audit_head_sound [OF coh this] ch show ?thesis by (auto simp: journal_ok_def)
  qed
  have run: "checkpoint_committed_head env j = (case (j1, h) of
        (j', Inl e) \<Rightarrow> (j', Inl e)
      | (j', Inr head) \<Rightarrow>
          (case j_self_checkpoint j' of
             None \<Rightarrow> (j', Inr ())
           | Some sink \<Rightarrow>
               let j'' = j'\<lparr>j_checkpointed := j_checkpointed j' @ [head]\<rparr> in
               case sink (j_checkpointed j') head of
                 None \<Rightarrow> (j'', Inr ())
               | Some failure \<Rightarrow> checkpoint_failed env failure j''))"
    unfolding checkpoint_committed_head_def Let_def owner_def [symmetric] j1 ..
  have fields: "j_db j' = j_db j1 \<and> j_data_version j' = j_data_version j1 \<and> j_signers j' = j_signers j1 \<and> j_tail j' = j_tail j1
      \<and> (j_checkpointed j' = j_checkpointed j1 \<or> (\<exists>head. h = Inr head \<and> j_checkpointed j' = j_checkpointed j1 @ [head]))"
  proof (cases h)
    case (Inl e)
    with assms(2) run show ?thesis by simp
  next
    case (Inr head)
    show ?thesis
    proof (cases "j_self_checkpoint j1")
      case None
      with Inr assms(2) run show ?thesis by simp
    next
      case (Some sink)
      show ?thesis
      proof (cases "sink (j_checkpointed j1) head")
        case None
        with Some Inr assms(2) run show ?thesis by (auto simp: Let_def)
      next
        case (Some failure)
        with \<open>j_self_checkpoint j1 = Some sink\<close> Inr assms(2) run
        have "checkpoint_failed env failure (j1\<lparr>j_checkpointed := j_checkpointed j1 @ [head]\<rparr>) = (j', r)"
          by (simp add: Let_def)
        from checkpoint_failed_fields [OF this] Inr show ?thesis by simp
      qed
    qed
  qed
  have j1_ok: "journal_ok env j1" and j1_fields: "\<exists>t. j1 = j\<lparr>j_tail := t\<rparr>"
  proof -
    have "journal_ok env j1 \<and> (\<exists>t. j1 = j\<lparr>j_tail := t\<rparr>)"
    proof (cases h)
      case (Inl e)
      then have "j1 = j" by (rule err)
      with assms(1) show ?thesis by (auto intro: exI [of _ "j_tail j"])
    qed (use good in blast)
    then show "journal_ok env j1" "\<exists>t. j1 = j\<lparr>j_tail := t\<rparr>" by simp_all
  qed
  show "journal_ok env j'" using journal_ok_cong [of j' j1] j1_ok fields by simp
  show "j_db j' = j_db j" "j_signers j' = j_signers j" "j_data_version j' = j_data_version j"
    using fields j1_fields by auto
  show "j_checkpointed j' = j_checkpointed j \<or> (\<exists>head. j_checkpointed j' = j_checkpointed j @ [head]
      \<and> audit_head env (j_db j) = Inr head \<and> chain_ok env (j_signer j) (j_db j))"
    using fields j1_fields good by auto
qed

section \<open>Statements that keep the store verified\<close>

text \<open>
  Transactions are judged by three properties that compose along their statements: they count
  their changes, they only append to the audit chain, and they keep a verified store verified.
\<close>

definition append_only_tx :: "'a tx \<Rightarrow> bool" where
  "append_only_tx m \<longleftrightarrow> (\<forall>db db' a. m db = (db', Inr a) \<longrightarrow> (\<exists>rows. audit_chain db' = audit_chain db @ rows))"

definition audited_tx :: "env \<Rightarrow> AuditSigner \<Rightarrow> 'a tx \<Rightarrow> bool" where
  "audited_tx env s m \<longleftrightarrow> (\<forall>db db' a. m db = (db', Inr a) \<longrightarrow> chain_ok env s db \<longrightarrow> links_ok db \<longrightarrow>
     chain_ok env s db' \<and> links_ok db')"

named_theorems append_only_intros
named_theorems audited_intros

lemma append_only_bind [append_only_intros]:
  assumes "append_only_tx m" and "\<And>a. append_only_tx (f a)"
  shows "append_only_tx (tx_bind m f)"
  unfolding append_only_tx_def
proof (intro allI impI)
  fix db db' b
  assume "tx_bind m f db = (db', Inr b)"
  then obtain db1 a where "m db = (db1, Inr a)" "f a db1 = (db', Inr b)" by (auto simp: tx_bind_Inr)
  then obtain r1 r2 where "audit_chain db1 = audit_chain db @ r1" "audit_chain db' = audit_chain db1 @ r2"
    using assms unfolding append_only_tx_def by meson
  then show "\<exists>rows. audit_chain db' = audit_chain db @ rows" by simp
qed

lemma audited_bind [audited_intros]:
  assumes "audited_tx env s m" and "\<And>a. audited_tx env s (f a)"
  shows "audited_tx env s (tx_bind m f)"
  using assms unfolding audited_tx_def tx_bind_Inr by metis

lemma append_only_read [append_only_intros]:
  "append_only_tx (tx_return a)" "append_only_tx (tx_fail e)" "append_only_tx (tx_query q)"
  "append_only_tx (tx_lift r)" "append_only_tx (tx_check c)"
  by (auto simp: append_only_tx_def)

lemma audited_read [audited_intros]:
  "audited_tx env s (tx_return a)" "audited_tx env s (tx_fail e)" "audited_tx env s (tx_query q)"
  "audited_tx env s (tx_lift r)" "audited_tx env s (tx_check c)"
  by (auto simp: audited_tx_def)

lemma append_only_iter [append_only_intros]: "(\<And>x. append_only_tx (f x)) \<Longrightarrow> append_only_tx (tx_iter f xs)"
  by (induction xs) (auto intro: append_only_intros)

lemma audited_iter [audited_intros]: "(\<And>x. audited_tx env s (f x)) \<Longrightarrow> audited_tx env s (tx_iter f xs)"
  by (induction xs) (auto intro: audited_intros)

lemma append_only_if [append_only_intros]:
  "(b \<Longrightarrow> append_only_tx m) \<Longrightarrow> (\<not> b \<Longrightarrow> append_only_tx n) \<Longrightarrow> append_only_tx (if b then m else n)"
  by simp

lemma audited_if [audited_intros]:
  "(b \<Longrightarrow> audited_tx env s m) \<Longrightarrow> (\<not> b \<Longrightarrow> audited_tx env s n) \<Longrightarrow> audited_tx env s (if b then m else n)"
  by simp

lemma append_only_option [append_only_intros]:
  "(x = None \<Longrightarrow> append_only_tx m) \<Longrightarrow> (\<And>a. x = Some a \<Longrightarrow> append_only_tx (f a)) \<Longrightarrow>
   append_only_tx (case x of None \<Rightarrow> m | Some a \<Rightarrow> f a)"
  by (cases x) simp_all

lemma audited_option [audited_intros]:
  "(x = None \<Longrightarrow> audited_tx env s m) \<Longrightarrow> (\<And>a. x = Some a \<Longrightarrow> audited_tx env s (f a)) \<Longrightarrow>
   audited_tx env s (case x of None \<Rightarrow> m | Some a \<Rightarrow> f a)"
  by (cases x) simp_all

lemma append_only_prod [append_only_intros]:
  "(\<And>a b. append_only_tx (f a b)) \<Longrightarrow> append_only_tx (case p of (a, b) \<Rightarrow> f a b)"
  by (cases p) simp

lemma audited_prod [audited_intros]:
  "(\<And>a b. audited_tx env s (f a b)) \<Longrightarrow> audited_tx env s (case p of (a, b) \<Rightarrow> f a b)"
  by (cases p) simp

lemma append_only_statements [append_only_intros]:
  "append_only_tx (insert_approval env a st)" "append_only_tx (insert_metadata env md)"
  "append_only_tx (insert_operation env opr)" "append_only_tx (insert_attempt env at)"
  "append_only_tx (insert_or_ignore_attempt env at)" "append_only_tx (insert_child env ch)"
  "append_only_tx (insert_reservation env rs)" "append_only_tx (insert_value env rv)"
  "append_only_tx (upsert_clock ck)"
  "append_only_tx (update_approval_state a st)" "append_only_tx (update_metadata_activation env a oid g)"
  "append_only_tx (update_operations P f)" "append_only_tx (update_reservation_state a oid st)"
  by (auto simp: append_only_tx_def insert_approval_def insert_metadata_def insert_operation_def insert_attempt_def
      insert_or_ignore_attempt_def insert_child_def insert_reservation_def insert_value_def
      upsert_clock_def update_approval_state_def update_metadata_activation_def update_operations_def
      update_reservation_state_def split: if_splits option.splits)

lemma append_only_append [append_only_intros]: "append_only_tx (append_audit env et p sg)"
  unfolding append_only_tx_def using append_audit_frame by fastforce

lemma find_append: "find P (xs @ ys) = (case find P xs of None \<Rightarrow> find P ys | Some x \<Rightarrow> Some x)"
  by (induction xs) simp_all

lemma find_update_where:
  assumes "\<And>r. P (f r) = P r"
  shows "find P (update_where Q f rows) = map_option (\<lambda>r. if Q r then f r else r) (find P rows)"
  using assms by (induction rows) (auto simp: update_where_def)

lemma chain_ok_retains:
  assumes "chain_ok env s db" and "retains db db'" and "audit_chain db' = audit_chain db" and "env_laws env"
  shows "chain_ok env s db'"
  using assms(1) unfolding chain_ok_def verify_audit_chain_connection_def assms(3)
  by (elim and_then_mono) (simp_all add: verify_rows_retains [OF assms(2,4)])

text \<open>Statements on tables that no audit entry refers to.\<close>

lemma audited_quiet [audited_intros]:
  assumes "env_laws env"
  shows "audited_tx env s (insert_approval env' a st)" "audited_tx env s (insert_attempt env' at)"
    "audited_tx env s (insert_or_ignore_attempt env' at)" "audited_tx env s (insert_reservation env' rs)"
    "audited_tx env s (insert_value env' rv)" "audited_tx env s (upsert_clock ck)"
    "audited_tx env s (update_approval_state a st)" "audited_tx env s (update_reservation_state a oid st)"
proof -
  have quiet: "audited_tx env s m"
    if "\<And>db db' a. m db = (db', Inr a) \<Longrightarrow> operations db' = operations db \<and> batch_children db' = batch_children db
      \<and> approval_metadata db' = approval_metadata db \<and> audit_chain db' = audit_chain db" for m :: "'b tx"
    using that chain_ok_cong [OF _ _ _ _ assms] links_ok_cong unfolding audited_tx_def by metis
  show "audited_tx env s (insert_approval env' a st)" "audited_tx env s (insert_attempt env' at)"
    "audited_tx env s (insert_or_ignore_attempt env' at)" "audited_tx env s (insert_reservation env' rs)"
    "audited_tx env s (insert_value env' rv)" "audited_tx env s (upsert_clock ck)"
    "audited_tx env s (update_approval_state a st)" "audited_tx env s (update_reservation_state a oid st)"
    by (rule quiet; auto simp: insert_approval_def insert_attempt_def insert_or_ignore_attempt_def
        insert_reservation_def insert_value_def upsert_clock_def update_approval_state_def
        update_reservation_state_def split: if_splits option.splits)+
qed

lemma audited_insert_metadata [audited_intros]:
  assumes "env_laws env" and "md_activation_operation_id row = None" and "md_ceremony_grant_jcs row = None"
  shows "audited_tx env s (insert_metadata env' row)"
  unfolding audited_tx_def
proof (intro allI impI)
  fix db db' a
  assume ins: "insert_metadata env' row db = (db', Inr a)" and ok: "chain_ok env s db" "links_ok db"
  have db': "db' = changed 1 (db\<lparr>approval_metadata := approval_metadata db @ [row]\<rparr>)"
    using ins by (auto simp: insert_metadata_def split: if_splits)
  have "retains db db'"
    by (auto simp: db' retains_def receipt_of_def result_of_def grant_of_def select_operation_def select_children_def
        select_metadata_def find_append split: option.splits)
  then show "chain_ok env s db' \<and> links_ok db'"
    using chain_ok_retains [OF ok(1) _ _ assms(1)] ok(2) assms(2,3)
    by (auto simp: db' links_ok_def result_of_def select_operation_def select_children_def)
qed

text \<open>A new operation has no result and no children yet.\<close>

lemma audited_insert_operation [audited_intros]:
  assumes "env_laws env" and "op_result_jcs row = None"
  shows "audited_tx env s (insert_operation env' row)"
  unfolding audited_tx_def
proof (intro allI impI)
  fix db db' a
  assume ins: "insert_operation env' row db = (db', Inr a)" and ok: "chain_ok env s db" "links_ok db"
  have db': "db' = changed 1 (db\<lparr>operations := operations db @ [row]\<rparr>)"
    using ins by (auto simp: insert_operation_def split: if_splits)
  have sel: "select_operation i db' = (case select_operation i db of
      None \<Rightarrow> if op_operation_id row = i then Some row else None | Some r \<Rightarrow> Some r)" for i
    by (simp add: db' select_operation_def find_append split: option.splits)
  have res: "result_of db' i = result_of db i" for i
    using assms(2) by (simp add: result_of_def sel split: option.splits)
  have ch: "select_children i db' = select_children i db" for i by (simp add: db' select_children_def)
  have md: "approval_metadata db' = approval_metadata db" by (simp add: db')
  have "retains db db'"
    unfolding retains_def res ch
    by (auto simp: receipt_of_def sel grant_of_def md select_metadata_def split: option.splits)
  then show "chain_ok env s db' \<and> links_ok db'"
    using chain_ok_retains [OF ok(1) _ _ assms(1)] ok(2)
    by (simp add: links_ok_def res ch) (simp add: db')
qed

text \<open>An update of operations that leaves identifiers, receipts and results alone.\<close>

lemma audited_update_operations [audited_intros]:
  assumes "env_laws env" and "\<And>r. op_operation_id (f r) = op_operation_id r"
    and "\<And>r. op_validation_receipt_jcs (f r) = op_validation_receipt_jcs r" and "\<And>r. op_result_jcs (f r) = op_result_jcs r"
  shows "audited_tx env s (update_operations P f)"
  unfolding audited_tx_def
proof (intro allI impI)
  fix db db' a
  assume upd: "update_operations P f db = (db', Inr a)" and ok: "chain_ok env s db" "links_ok db"
  have sel: "select_operation i db' = map_option (\<lambda>r. if P r then f r else r) (select_operation i db)" for i
    using upd assms(2) by (auto simp: update_operations_def select_operation_def find_update_where)
  have res: "result_of db' i = result_of db i" and rec: "receipt_of db' i = receipt_of db i" for i
    using assms(3,4) by (cases "select_operation i db"; simp add: result_of_def receipt_of_def sel)+
  have same: "batch_children db' = batch_children db" "approval_metadata db' = approval_metadata db"
    "audit_chain db' = audit_chain db"
    using upd by (auto simp: update_operations_def)
  have ch: "select_children i db' = select_children i db" for i by (simp add: same select_children_def)
  have "retains db db'" unfolding retains_def res rec ch by (simp add: grant_of_def select_metadata_def same)
  then show "chain_ok env s db' \<and> links_ok db'"
    using chain_ok_retains [OF ok(1) _ same(3) assms(1)] ok(2) by (simp add: links_ok_def res ch same)
qed

text \<open>An entry without correlation data.\<close>

lemma audited_append [audited_intros]:
  assumes "env_laws env" and "signer_laws env s"
    and "event_type \<noteq> ''audit.key_rotated''" and "event_type \<noteq> ''audit.key_rotation_completed''"
    and "json_get payload ''correlation_schema'' = None"
  shows "audited_tx env s (append_audit env event_type payload s)"
  unfolding audited_tx_def
proof (intro allI impI conjI)
  fix db db' a
  assume app: "append_audit env event_type payload s db = (db', Inr a)" and ok: "chain_ok env s db" "links_ok db"
  show "chain_ok env s db'"
    using assms(5) by (intro chain_ok_append [OF ok(1) assms(1,2) retains_refl refl app assms(3,4)] uncorrelated [OF assms(1)])
  show "links_ok db'"
    using append_audit_frame [OF app] links_ok_cong [of db' db] ok(2) by auto
qed

section \<open>Audited transactions\<close>

text \<open>
  The contract between the mutations and the frame: a body counts its changes, appends to the
  audit chain only, and, for admissible arguments, turns a verified store into a verified store.
\<close>

locale audited_body =
  fixes env :: env and body :: "AuditSigner \<Rightarrow> 'a outcome tx" and admissible :: bool
  assumes body_counted: "counted_tx (body s)"
    and body_append_only: "append_only_tx (body s)"
    and body_audited: "admissible \<Longrightarrow> env_laws env \<Longrightarrow> signer_laws env s \<Longrightarrow> audited_tx env s (body s)"
begin

lemma commit_cases:
  assumes "journal_ok env j" and "commit env body j = (j', r)"
  obtains (refused) e where "r = Inl e" and "j_db j' = j_db j" and "journal_ok env j'"
      and "j_checkpointed j' = j_checkpointed j"
    | (ran) j1 db where "lock_for_mutation env j = (j1, Inr ())"
      and "run_transaction (body (j_signer j)) (j_db j) = (db, r)" and "j' = j1\<lparr>j_db := db\<rparr>"
proof -
  obtain j1 l where l: "lock_for_mutation env j = (j1, l)" by (meson surj_pair)
  note f = lock_for_mutation_ok [OF assms(1) l]
  show thesis
  proof (cases l)
    case (Inl e)
    with assms(2) l f show thesis by (intro refused [of e]) (simp_all add: commit_def)
  next
    case (Inr u)
    obtain db r' where "run_transaction (body (j_signer j)) (j_db j) = (db, r')" by (meson surj_pair)
    with Inr assms(2) l f(2,3) show thesis by (intro ran [of j1 db]) (simp_all add: commit_def j_signer_def)
  qed
qed

text \<open>The store after a commit verifies, and an error leaves the tables alone.\<close>

lemma commit_audited:
  assumes "journal_ok env j" and "env_laws env" and "commit env body j = (j', Inr out)" and admissible
  shows "chain_ok env (j_signer j) (j_db j)" and "\<not> audit_degraded j"
    and "chain_ok env (j_signer j') (j_db j')" and "links_ok (j_db j')"
    and "\<exists>rows. audit_chain (j_db j') = audit_chain (j_db j) @ rows"
proof -
  have "chain_ok env (j_signer j) (j_db j) \<and> \<not> audit_degraded j \<and> chain_ok env (j_signer j') (j_db j')
      \<and> links_ok (j_db j') \<and> (\<exists>rows. audit_chain (j_db j') = audit_chain (j_db j) @ rows)"
    using assms(1,3)
  proof (cases rule: commit_cases)
    case (ran j1 db)
    note f = lock_for_mutation_ok [OF assms(1) ran(1)]
    have sg: "signer_laws env (j_signer j)"
      using assms(1) by (auto simp: journal_ok_def coherent_def j_signer_def intro: registry_signer_laws)
    have run: "body (j_signer j) (j_db j) = (db, Inr out)" using ran(2) by (simp add: run_transaction_Inr)
    have "chain_ok env (j_signer j) db \<and> links_ok db"
      using f(6) assms(1) body_audited [OF assms(4,2) sg] run unfolding audited_tx_def journal_ok_def by blast
    moreover have "j_signer j' = j_signer j" using ran(3) f(3) by (simp add: j_signer_def)
    moreover have "\<exists>rows. audit_chain db = audit_chain (j_db j) @ rows"
      using body_append_only run unfolding append_only_tx_def by blast
    ultimately show ?thesis using f(6) ran(3) by simp
  qed simp
  then show "chain_ok env (j_signer j) (j_db j)" "\<not> audit_degraded j" "chain_ok env (j_signer j') (j_db j')"
    "links_ok (j_db j')" "\<exists>rows. audit_chain (j_db j') = audit_chain (j_db j) @ rows"
    by blast+
qed

lemma commit_error:
  assumes "journal_ok env j" and "commit env body j = (j', Inl e)"
  shows "\<exists>n. j_db j' = (j_db j)\<lparr>total_changes := n\<rparr>"
  using assms
proof (cases rule: commit_cases)
  case (refused e')
  then show ?thesis by (intro exI [of _ "total_changes (j_db j)"]) simp
next
  case (ran j1 db)
  then show ?thesis by (auto dest: run_transaction_Inl)
qed

lemma commit_ok:
  assumes "journal_ok env j" and "env_laws env" and "commit env body j = (j', r)" and admissible
  shows "journal_ok env j'" and "j_checkpointed j' = j_checkpointed j"
proof -
  have "journal_ok env j' \<and> j_checkpointed j' = j_checkpointed j"
    using assms(1,3)
  proof (cases rule: commit_cases)
    case (ran j1 db)
    note f = lock_for_mutation_ok [OF assms(1) ran(1)]
    from f(6) have ok: "chain_ok env (j_signer j) (j_db j)" by simp
    have cnt: "counted (j_db j) db" using run_transaction_counted [OF body_counted ran(2)] .
    have after: "chain_ok env (j_signer j) db \<and> links_ok db"
    proof (cases r)
      case (Inl e)
      then obtain n where "db = (j_db j)\<lparr>total_changes := n\<rparr>" using run_transaction_Inl ran(2) by blast
      with ok assms(1) chain_ok_cong [of db "j_db j" env] links_ok_cong [of db "j_db j"] assms(2) show ?thesis
        by (simp add: journal_ok_def)
    next
      case (Inr out)
      with commit_audited(3,4) [OF assms(1,2) _ assms(4), of j' out] assms(3) ran(3) f(3) show ?thesis
        by (simp add: j_signer_def)
    qed
    have coh: "coherent env j1" using f(1) by (simp add: journal_ok_def)
    have "tail_coherent env j' t" if t: "j_tail j1 = Some t" "tl_data_version t = j_data_version j1" for t
    proof -
      have tc: "tail_coherent env j1 t" using coh t by (simp add: coherent_def)
      have "audit_head env db = Inr (tl_sequence t, tl_head_hash t)" if "tl_total_changes t = total_changes db"
      proof -
        have "total_changes db = total_changes (j_db j)"
          using tc that cnt f(2) by (auto simp: tail_coherent_def counted_def)
        then have "db = j_db j" using cnt by (simp add: counted_def)
        with tc that f(2) show ?thesis by (simp add: tail_coherent_def)
      qed
      then show ?thesis
        using tc after cnt f(2,3) ran(3) by (auto simp: tail_coherent_def counted_def j_signer_def)
    qed
    then have "coherent env j'" using coh ran(3) by (simp add: coherent_def)
    then show ?thesis using after ran(3) f(5) by (simp add: journal_ok_def)
  qed simp
  then show "journal_ok env j'" "j_checkpointed j' = j_checkpointed j" by blast+
qed

end

lemma finish_ok:
  assumes "journal_ok env j" and "finish env out j = (j', r)"
  shows "journal_ok env j'" and "j_db j' = j_db j"
proof -
  obtain j1 r1 where c: "checkpoint_committed_head env j = (j1, r1)" by (meson surj_pair)
  have "j' = j \<or> j' = j1"
    using assms(2) c by (cases out; cases r1) auto
  then have "journal_ok env j' \<and> j_db j' = j_db j"
    using assms(1) checkpoint_ok(1,2) [OF assms(1) c] by blast
  then show "journal_ok env j'" "j_db j' = j_db j" by blast+
qed

text \<open>A latched journal refuses every mutation and stays as it is.\<close>

lemma commit_degraded: "audit_degraded j \<Longrightarrow> commit env body j = (j, Inl audit_degraded_error)"
  by (simp add: commit_def lock_for_mutation_def)

lemma mutate_degraded: "audit_degraded j \<Longrightarrow> mutate env body j = (j, Inl audit_degraded_error)"
  by (simp add: mutate_def commit_degraded)

context audited_body
begin

lemma mutate_ok:
  assumes "journal_ok env j" and "env_laws env" and "mutate env body j = (j', r)" and admissible
  shows "journal_ok env j'"
proof -
  obtain j1 r1 where c: "commit env body j = (j1, r1)" by (meson surj_pair)
  have "journal_ok env j1" using commit_ok [OF assms(1,2) c assms(4)] by simp
  with assms(3) c show ?thesis
    by (cases r1) (auto simp: mutate_def intro: finish_ok(1))
qed

lemma mutate_committed:
  assumes "mutate env body j = (j', Inr a)"
  obtains j1 out where "commit env body j = (j1, Inr out)" and "finish env out j1 = (j', Inr a)"
  using assms by (auto simp: mutate_def split: prod.splits sum.splits)

end

section \<open>Opening, rotating, and other writers\<close>

lemma from_connection_ok:
  assumes "signer_laws env s" and "links_ok db"
  shows "journal_ok env (from_connection env db v s)"
    and "\<not> audit_degraded (from_connection env db v s) \<Longrightarrow> chain_ok env (j_signer (from_connection env db v s)) db"
    and "j_db (from_connection env db v s) = db"
proof -
  define j where "j = \<lparr>j_db = db, j_data_version = v, j_signers = new_active_signer s,
            j_tail = None, j_degradation = None, j_self_checkpoint = None, j_checkpointed = []\<rparr>"
  have reg: "registry_ok env (j_signers j)" using new_registry_ok [OF assms(1)] by (simp add: j_def)
  have j: "journal_ok env j" using reg assms(2) by (simp add: journal_ok_def coherent_def j_def)
  obtain j1 r where r: "verify_audit_chain env j = (j1, r)" by (meson surj_pair)
  have fc: "from_connection env db v s = (case r of Inr _ \<Rightarrow> j1
      | Inl _ \<Rightarrow> latch_degradation (journal_cause ''journal_verification_failed'') j1)"
    unfolding from_connection_def Let_def j_def [symmetric] r by simp
  obtain j2 h where h: "refresh_verified_audit_tail env j = (j2, h)" by (meson surj_pair)
  have db: "j_db j = db" by (simp add: j_def)
  have live: "journal_ok env (from_connection env db v s) \<and> j_db (from_connection env db v s) = db
    \<and> chain_ok env (j_signer (from_connection env db v s)) db" if nd: "\<not> audit_degraded (from_connection env db v s)"
  proof -
    have "\<exists>head. r = Inr () \<and> h = Inr head \<and> j1 = j2 \<and> chain_ok env (j_signer j) db"
      using nd fc r h by (auto simp: verify_audit_chain_def chain_ok_def db split: sum.splits prod.splits)
    then obtain head where e: "r = Inr ()" "h = Inr head" "j1 = j2" "chain_ok env (j_signer j) db" by blast
    have refresh: "refresh_verified_audit_tail env j = (j2, Inr head)" using h e by simp
    obtain t where t: "j2 = j\<lparr>j_tail := Some t\<rparr>" using refresh by (rule refresh_effect)
    have "coherent env j2" using coherent_tail [OF reg _ refresh] e db by simp
    then show ?thesis
      using e t fc assms(2) db by (simp add: journal_ok_def j_signer_def)
  qed
  have bad: "from_connection env db v s = latch_degradation (journal_cause ''journal_verification_failed'') j"
    if "audit_degraded (from_connection env db v s)"
  proof (cases r)
    case (Inl e)
    then have "j1 = j \<or> j1 = latch_degradation (journal_cause ''journal_verification_failed'') j"
      using r h refresh_Inl [of env j j2]
      by (auto simp: verify_audit_chain_def split: sum.splits prod.splits)
    with Inl fc show ?thesis by (auto simp: latch_degradation_def)
  next
    case (Inr u)
    then have "\<exists>head. h = Inr head \<and> j1 = j2"
      using r h by (auto simp: verify_audit_chain_def split: sum.splits prod.splits)
    then obtain head where "refresh_verified_audit_tail env j = (j1, Inr head)" using h by auto
    then obtain t where "j1 = j\<lparr>j_tail := Some t\<rparr>" by (rule refresh_effect)
    with that fc Inr show ?thesis by (simp add: audit_degraded_def j_def)
  qed
  have latched: "journal_ok env (from_connection env db v s) \<and> j_db (from_connection env db v s) = db"
    if "audit_degraded (from_connection env db v s)"
    using bad [OF that] j db by simp
  show "journal_ok env (from_connection env db v s)" "j_db (from_connection env db v s) = db"
    "\<not> audit_degraded (from_connection env db v s) \<Longrightarrow> chain_ok env (j_signer (from_connection env db v s)) db"
    using live latched by blast+
qed

text \<open>
  Another connection that writes to the database moves the data version away from the one in the
  cached tail; the counter of this connection does not see the write.
\<close>

definition external_write :: "db \<Rightarrow> int \<Rightarrow> journal \<Rightarrow> journal" where
  "external_write db v j = j\<lparr>j_db := db\<lparr>total_changes := total_changes (j_db j)\<rparr>, j_data_version := v\<rparr>"

lemma external_write_ok:
  assumes "journal_ok env j" and "links_ok db" and "\<And>t. j_tail j = Some t \<Longrightarrow> tl_data_version t \<noteq> v"
  shows "journal_ok env (external_write db v j)"
  using assms links_ok_cong [of "db\<lparr>total_changes := total_changes (j_db j)\<rparr>" db]
  by (auto simp: journal_ok_def coherent_def external_write_def)

lemma rotate_tx_counted: "counted_tx (rotate_audit_key_tx env s replacement)"
  unfolding rotate_audit_key_tx_def Let_def by (intro counted_intros)

lemma rotate_tx_frame:
  assumes "rotate_audit_key_tx env s replacement db = (db', Inr ())"
  shows "\<exists>rows n. db' = db\<lparr>audit_chain := audit_chain db @ rows, total_changes := n\<rparr>"
proof -
  obtain p q a b db1 where "append_audit env ''audit.key_rotated'' p s db = (db1, Inr a)"
    and "append_audit env ''audit.key_rotation_completed'' q replacement db1 = (db', Inr b)"
    using assms unfolding rotate_audit_key_tx_def Let_def tx_bind_query
    by (simp add: tx_bind_Inr del: map_option_eq_Some split_paired_Ex) blast
  from append_audit_frame [OF this(1)] append_audit_frame [OF this(2)] obtain rows n rows' n' where
    "db1 = db\<lparr>audit_chain := audit_chain db @ rows, total_changes := n\<rparr>"
    "db' = db1\<lparr>audit_chain := audit_chain db1 @ rows', total_changes := n'\<rparr>" by blast
  then show ?thesis by (intro exI [of _ "rows @ rows'"] exI [of _ n']) simp
qed

lemma rotate_cases:
  assumes ok: "journal_ok env j" and laws: "env_laws env" "signer_laws env replacement"
    and run: "rotate_audit_key env replacement j = (j', r)"
  obtains (refused) n where "journal_ok env j'" and "j_db j' = (j_db j)\<lparr>total_changes := n\<rparr>"
      and "j_checkpointed j' = j_checkpointed j" and "\<exists>e. r = Inl e"
    | (ran) j2 rows where "journal_ok env j2" and "chain_ok env (j_signer j) (j_db j)"
      and "chain_ok env (j_signer j2) (j_db j2)" and "audit_chain (j_db j2) = audit_chain (j_db j) @ rows"
      and "j_checkpointed j2 = j_checkpointed j" and "j_signers j2 = install_signer replacement (j_signers j)"
      and "checkpoint_committed_head env j2 = (j', r)"
      and "rotate_audit_key_tx env (j_signer j) replacement (j_db j) = (j_db j2, Inr ())"
proof (cases "as_key_id (j_signer j) = as_key_id replacement")
  case True
  with run ok show thesis by (intro refused [of "total_changes (j_db j)"]) (auto simp: rotate_audit_key_def)
next
  case False
  obtain j1 l where l: "lock_for_mutation env j = (j1, l)" by (meson surj_pair)
  note f = lock_for_mutation_ok [OF ok l]
  show thesis
  proof (cases l)
    case (Inl e)
    with run l False f show thesis
      by (intro refused [of "total_changes (j_db j)"]) (auto simp: rotate_audit_key_def)
  next
    case (Inr u)
    have chain: "chain_ok env (j_signer j1) (j_db j1)" using f(2,3,6) Inr by (simp add: j_signer_def)
    obtain db q where q: "run_transaction (rotate_audit_key_tx env (j_signer j1) replacement) (j_db j1) = (db, q)"
      by (meson surj_pair)
    have cnt: "counted (j_db j1) db" using run_transaction_counted [OF rotate_tx_counted q] .
    have coh: "coherent env j1" and reg: "registry_ok env (j_signers j1)" and ch: "links_ok (j_db j1)"
      using f(1) by (simp_all add: journal_ok_def coherent_def)
    have head: "audit_head env db = Inr (tl_sequence t, tl_head_hash t)"
      if "tail_coherent env j1 t" "tl_total_changes t = total_changes db" for t
    proof -
      have "db = j_db j1" using that cnt by (auto simp: tail_coherent_def counted_def)
      with that show ?thesis by (simp add: tail_coherent_def)
    qed
    define signers where "signers = (case q of Inl _ \<Rightarrow> j_signers j1 | Inr _ \<Rightarrow> install_signer replacement (j_signers j1))"
    have after: "chain_ok env (active_signer signers) db \<and> links_ok db \<and> registry_ok env signers"
    proof (cases q)
      case (Inl e)
      then obtain n where "db = (j_db j1)\<lparr>total_changes := n\<rparr>" using run_transaction_Inl q by blast
      with Inl chain ch reg chain_ok_cong [of db "j_db j1" env] links_ok_cong [of db "j_db j1"] laws(1)
      show ?thesis by (simp add: signers_def j_signer_def)
    next
      case (Inr v)
      then have tx: "rotate_audit_key_tx env (j_signer j1) replacement (j_db j1) = (db, Inr ())"
        using q by (simp add: run_transaction_Inr)
      have "chain_ok env (active_signer signers) db"
        using rotate_chain_ok [OF chain laws(1) _ laws(2) _ tx] False f(3) registry_signer_laws [OF reg] Inr
        by (simp add: signers_def j_signer_def install_signer_def)
      moreover have "links_ok db"
        using rotate_tx_frame [OF tx] ch links_ok_cong [of db "j_db j1"] by auto
      ultimately show ?thesis
        using Inr install_registry_ok [OF reg laws(2)] by (simp add: signers_def)
    qed
    have j2: "journal_ok env (j1\<lparr>j_db := db, j_signers := signers\<rparr>)"
      using after cnt coh head
      by (auto simp: journal_ok_def coherent_def tail_coherent_def [of _ "j1\<lparr>j_db := _, j_signers := _\<rparr>"] j_signer_def
          tail_coherent_def counted_def)
    show thesis
    proof (cases q)
      case (Inl e)
      then obtain n where "db = (j_db j1)\<lparr>total_changes := n\<rparr>" using run_transaction_Inl q by blast
      moreover have "j' = j1\<lparr>j_db := db\<rparr>" "r = Inl e" using Inl run l Inr False q by (simp_all add: rotate_audit_key_def)
      ultimately show thesis
        using Inl j2 journal_ok_cong [of j' "j1\<lparr>j_db := db, j_signers := signers\<rparr>"] f(2,5)
        by (intro refused [of n]) (simp_all add: signers_def)
    next
      case (Inr v)
      then have tx: "rotate_audit_key_tx env (j_signer j1) replacement (j_db j1) = (db, Inr ())"
        using q by (simp add: run_transaction_Inr)
      obtain rows n where rows: "db = (j_db j1)\<lparr>audit_chain := audit_chain (j_db j1) @ rows, total_changes := n\<rparr>"
        using rotate_tx_frame [OF tx] by blast
      have "checkpoint_committed_head env (j1\<lparr>j_db := db, j_signers := signers\<rparr>) = (j', r)"
        using run l \<open>l = Inr u\<close> False q Inr by (simp add: rotate_audit_key_def signers_def)
      moreover have "rotate_audit_key_tx env (j_signer j) replacement (j_db j) = (db, Inr ())"
        using tx f(2,3) by (simp add: j_signer_def)
      ultimately show thesis
        using j2 chain after f(2,3,5) rows Inr
        by (intro ran [of "j1\<lparr>j_db := db, j_signers := signers\<rparr>" rows]) (simp_all add: j_signer_def signers_def)
    qed
  qed
qed

lemma rotate_audit_key_ok:
  assumes "journal_ok env j" and "env_laws env" and "signer_laws env replacement"
    and "rotate_audit_key env replacement j = (j', r)"
  shows "journal_ok env j'"
  using assms
proof (cases rule: rotate_cases)
  case (ran j2 rows)
  then show ?thesis using checkpoint_ok(1) by blast
qed

end
