(* ===== verification/Approvals.thy ===== *)
theory Approvals
  imports JournalGuard "HOL-Library.List_Lexorder" "HOL-Library.Char_ord"
begin

text \<open>
  Approvals of the journal (journal.rs): their creation, activation by a ceremony grant, renewal
  and life-cycle transitions, and the read operations on them. Every mutation is a transaction
  body for the frame of JournalGuard.
\<close>

section \<open>Life cycles\<close>

text \<open>
  A life cycle is a transition relation that climbs in rank: no state is ever entered twice, and
  a state without successors is never left.
\<close>

locale lifecycle =
  fixes valid :: "'s \<Rightarrow> 's \<Rightarrow> bool" and rank :: "'s \<Rightarrow> nat"
  assumes valid_rank: "valid a b \<Longrightarrow> rank a < rank b"
begin

lemma star_rank: "valid\<^sup>*\<^sup>* a b \<Longrightarrow> a = b \<or> rank a < rank b"
  by (induction rule: rtranclp_induct) (auto dest: valid_rank)

lemma never_again: "valid\<^sup>*\<^sup>* a b \<Longrightarrow> valid\<^sup>*\<^sup>* b a \<Longrightarrow> a = b"
  by (metis star_rank less_asym)

lemma terminal_stays: "(\<And>b. \<not> valid a b) \<Longrightarrow> valid\<^sup>*\<^sup>* a b \<Longrightarrow> b = a"
  by (metis converse_rtranclpE)

end

fun valid_approval_transition :: "ApprovalLifecycleState \<Rightarrow> ApprovalLifecycleState \<Rightarrow> bool" where
  "valid_approval_transition AS_Prepared next =
     (next \<in> {AS_AwaitingCeremony, AS_Cancelled, AS_Failed, AS_Expired})"
| "valid_approval_transition AS_AwaitingCeremony next =
     (next \<in> {AS_Active, AS_Orphaned, AS_Cancelled, AS_Failed, AS_Expired})"
| "valid_approval_transition AS_Orphaned next = (next \<in> {AS_Active, AS_Revoked, AS_Failed})"
| "valid_approval_transition AS_Active next = (next \<in> {AS_Exhausted, AS_Expired, AS_Revoked})"
| "valid_approval_transition _ next = False"

fun approval_rank :: "ApprovalLifecycleState \<Rightarrow> nat" where
  "approval_rank AS_Prepared = 0"
| "approval_rank AS_AwaitingCeremony = 1"
| "approval_rank AS_Orphaned = 2"
| "approval_rank AS_Active = 3"
| "approval_rank _ = 4"

section \<open>Creating approvals\<close>

definition create_approval_tx :: "env \<Rightarrow> Digest32 \<Rightarrow> ApprovalLifecycleState \<Rightarrow> AuditSigner \<Rightarrow> unit outcome tx" where
  "create_approval_tx env approval_id state audit_signer =
     tx_bind (insert_approval env approval_id (approval_state_text state)) (\<lambda>_.
     tx_bind (append_audit env ''approval.created''
       (json_object [(''approval_id'', JString approval_id), (''state'', JString (approval_state_text state))]) audit_signer) (\<lambda>_.
     tx_return (Durable ApprovalTransition ())))"

definition create_approval :: "env \<Rightarrow> Digest32 \<Rightarrow> ApprovalLifecycleState \<Rightarrow> unit jm" where
  "create_approval env approval_id state = mutate env (create_approval_tx env approval_id state)"

record NewApprovalRecord =
  na_terms_jcs :: string
  na_review_manifest_digest :: Digest32
  na_approved_claim_digest :: "Digest32 option"
  na_provenance_jcs :: "string option"
  na_renewal_of :: "Digest32 option"

definition create_approval_record_tx :: "env \<Rightarrow> Digest32 \<Rightarrow> NewApprovalRecord \<Rightarrow> AuditSigner \<Rightarrow> unit outcome tx" where
  "create_approval_record_tx env approval_id new audit_signer =
     tx_bind (insert_approval env approval_id ''AWAITING_CEREMONY'') (\<lambda>_.
     tx_bind (insert_metadata env \<lparr>md_approval_id = approval_id, md_terms_jcs = na_terms_jcs new,
         md_review_manifest_digest = na_review_manifest_digest new,
         md_approved_claim_digest = na_approved_claim_digest new, md_provenance_jcs = na_provenance_jcs new,
         md_renewal_of = na_renewal_of new, md_activation_operation_id = None, md_ceremony_grant_jcs = None\<rparr>) (\<lambda>_.
     tx_bind (append_audit env ''approval.prepared''
       (json_object [(''approval_id'', JString approval_id),
          (''state'', JString (approval_state_text AS_AwaitingCeremony)),
          (''review_manifest_digest'', JString (na_review_manifest_digest new))]) audit_signer) (\<lambda>_.
     tx_return (Durable ApprovalTransition ()))))"

definition create_approval_record :: "env \<Rightarrow> Digest32 \<Rightarrow> NewApprovalRecord \<Rightarrow> unit jm" where
  "create_approval_record env approval_id new = mutate env (create_approval_record_tx env approval_id new)"

section \<open>Activation\<close>

text \<open>The row that \<open>approvals JOIN approval_metadata\<close> has for an approval.\<close>

definition select_approval_record :: "string \<Rightarrow> db \<Rightarrow> (approval_row \<times> metadata_row) option" where
  "select_approval_record approval_id db =
     (case (select_approval approval_id db, select_metadata approval_id db) of
        (Some a, Some m) \<Rightarrow> Some (a, m)
      | _ \<Rightarrow> None)"

definition activation_payload :: "env \<Rightarrow> Digest32 \<Rightarrow> OperationId \<Rightarrow> string option \<Rightarrow> string \<Rightarrow> json \<Rightarrow> json" where
  "activation_payload env approval_id activation_operation_id renewal_of ceremony_grant_jcs signer_receipt = json_object
     [(''approval_id'', JString approval_id),
      (''from'', JString (approval_state_text AS_AwaitingCeremony)),
      (''to'', JString (approval_state_text AS_Active)),
      (''activation_operation_id'', JString activation_operation_id),
      (''renewal_of'', json_option (map_option JString renewal_of)),
      (''correlation_schema'', JString ''v1''),
      (''signer_activation_receipt_digest'', JString (text_digest env ceremony_grant_jcs)),
      (''ceremony_id'', json_option (json_get signer_receipt ''ceremony_id'')),
      (''review_manifest_digest'', json_option (json_get signer_receipt ''review_manifest_digest'')),
      (''signer_key_id'', json_option (json_get signer_receipt ''signer_key_id''))]"

text \<open>A renewal revokes the approval it replaces, which must still be active.\<close>

definition revoke_predecessor :: "env \<Rightarrow> string option \<Rightarrow> unit tx" where
  "revoke_predecessor env renewal_of = (case renewal_of of
     None \<Rightarrow> tx_return ()
   | Some replacement \<Rightarrow>
       tx_bind (tx_check (\<lambda>db. ok_or (map_option ap_state (select_approval replacement db))
         (Protocol ApprovalNotFound ''renewal predecessor is missing''))) (\<lambda>replacement_state.
       tx_bind (tx_lift (parse_approval_state env replacement_state)) (\<lambda>replacement_state.
       if replacement_state \<noteq> AS_Active
       then tx_fail (Protocol OperationIdConflict ''renewal predecessor is no longer active'')
       else update_approval_state replacement ''REVOKED'')))"

definition activate_approval_record_tx :: "env \<Rightarrow> Digest32 \<Rightarrow> OperationId \<Rightarrow> string \<Rightarrow> AuditSigner \<Rightarrow> unit outcome tx" where
  "activate_approval_record_tx env approval_id activation_operation_id ceremony_grant_jcs audit_signer =
     tx_bind (tx_check (\<lambda>db. ok_or (select_approval_record approval_id db)
       (Protocol ApprovalNotFound ''approval not found''))) (\<lambda>(approval, metadata).
     case md_activation_operation_id metadata of
       Some existing_operation \<Rightarrow>
         if existing_operation = activation_operation_id
         then tx_bind (tx_lift (parse_approval_state env (ap_state approval))) (\<lambda>state.
           if state = AS_Active then tx_return (Checkpointed ())
           else tx_fail (Protocol OperationIdConflict
             ''approval ceremony activation was replayed with conflicting authority''))
         else tx_fail (Protocol OperationIdConflict
           ''approval ceremony activation was replayed with conflicting authority'')
     | None \<Rightarrow>
         tx_bind (tx_lift (parse_approval_state env (ap_state approval))) (\<lambda>state.
         if state \<noteq> AS_AwaitingCeremony
         then tx_fail (Protocol OperationIdConflict ''approval is not awaiting ceremony activation'')
         else
           tx_bind (revoke_predecessor env (md_renewal_of metadata)) (\<lambda>_.
           tx_bind (update_metadata_activation env approval_id activation_operation_id ceremony_grant_jcs) (\<lambda>_.
           tx_bind (update_approval_state approval_id ''ACTIVE'') (\<lambda>_.
           tx_bind (tx_lift (map_err Storage (e_json_from_str env ceremony_grant_jcs))) (\<lambda>signer_receipt.
           tx_bind (append_audit env ''approval.transition''
             (activation_payload env approval_id activation_operation_id (md_renewal_of metadata)
                ceremony_grant_jcs signer_receipt) audit_signer) (\<lambda>_.
           tx_return (Durable ApprovalTransition ()))))))))"

definition activate_approval_record :: "env \<Rightarrow> Digest32 \<Rightarrow> OperationId \<Rightarrow> string \<Rightarrow> unit jm" where
  "activate_approval_record env approval_id activation_operation_id ceremony_grant_jcs =
     mutate env (activate_approval_record_tx env approval_id activation_operation_id ceremony_grant_jcs)"

section \<open>Transitions\<close>

definition transition_approval_tx :: "env \<Rightarrow> Digest32 \<Rightarrow> ApprovalLifecycleState \<Rightarrow> AuditSigner \<Rightarrow> unit outcome tx" where
  "transition_approval_tx env approval_id next audit_signer =
     tx_bind (tx_check (\<lambda>db. ok_or (map_option ap_state (select_approval approval_id db))
       (Protocol ApprovalNotFound ''approval not found''))) (\<lambda>current_text.
     tx_bind (tx_lift (parse_approval_state env current_text)) (\<lambda>current.
     if \<not> valid_approval_transition current next
     then tx_fail (Protocol OperationIdConflict
       (''invalid approval transition '' @ current_text @ '' -> '' @ approval_state_text next))
     else
       tx_bind (update_approval_state approval_id (approval_state_text next)) (\<lambda>_.
       tx_bind (append_audit env ''approval.transition''
         (json_object [(''approval_id'', JString approval_id), (''from'', JString (approval_state_text current)),
            (''to'', JString (approval_state_text next))]) audit_signer) (\<lambda>_.
       tx_return (Durable ApprovalTransition ())))))"

definition transition_approval :: "env \<Rightarrow> Digest32 \<Rightarrow> ApprovalLifecycleState \<Rightarrow> unit jm" where
  "transition_approval env approval_id next = mutate env (transition_approval_tx env approval_id next)"

section \<open>Reading\<close>

record ApprovalRecord =
  ar_terms_jcs :: string
  ar_review_manifest_digest :: string
  ar_approved_claim_digest :: "string option"
  ar_provenance_jcs :: "string option"
  ar_renewal_of :: "string option"
  ar_activation_operation_id :: "string option"
  ar_ceremony_grant_jcs :: "string option"

definition record_of_row :: "metadata_row \<Rightarrow> ApprovalRecord" where
  "record_of_row m = \<lparr>ar_terms_jcs = md_terms_jcs m, ar_review_manifest_digest = md_review_manifest_digest m,
     ar_approved_claim_digest = md_approved_claim_digest m, ar_provenance_jcs = md_provenance_jcs m,
     ar_renewal_of = md_renewal_of m, ar_activation_operation_id = md_activation_operation_id m,
     ar_ceremony_grant_jcs = md_ceremony_grant_jcs m\<rparr>"

definition approval_record :: "db \<Rightarrow> Digest32 \<Rightarrow> ApprovalRecord option" where
  "approval_record db approval_id = map_option record_of_row (select_metadata approval_id db)"

definition approval_state :: "env \<Rightarrow> db \<Rightarrow> Digest32 \<Rightarrow> JournalError + ApprovalLifecycleState option" where
  "approval_state env db approval_id = (case select_approval approval_id db of
     None \<Rightarrow> Inr None
   | Some row \<Rightarrow> and_then (parse_approval_state env (ap_state row)) (\<lambda>state. Inr (Some state)))"

record ApprovalLimitState =
  al_committed_operations :: u64
  al_reserved_operations :: u64
  al_quarantined_operations :: u64
  al_committed_signatures :: u64
  al_reserved_signatures :: u64
  al_quarantined_signatures :: u64

definition empty_limit_state :: ApprovalLimitState where
  "empty_limit_state = \<lparr>al_committed_operations = 0, al_reserved_operations = 0, al_quarantined_operations = 0,
     al_committed_signatures = 0, al_reserved_signatures = 0, al_quarantined_signatures = 0\<rparr>"

definition count_reservation :: "env \<Rightarrow> reservation_row \<Rightarrow> ApprovalLimitState \<Rightarrow> JournalError + ApprovalLimitState" where
  "count_reservation env row acc =
     and_then (parse_u64 env (rs_signature_count row)) (\<lambda>signatures.
     if rs_state row = ''COMMITTED'' then
       Inr (acc\<lparr>al_committed_operations := al_committed_operations acc + 1,
                al_committed_signatures := saturating_add (al_committed_signatures acc) signatures\<rparr>)
     else if rs_state row = ''RESERVED'' then
       Inr (acc\<lparr>al_reserved_operations := al_reserved_operations acc + 1,
                al_reserved_signatures := saturating_add (al_reserved_signatures acc) signatures\<rparr>)
     else if rs_state row = ''QUARANTINED'' then
       Inr (acc\<lparr>al_quarantined_operations := al_quarantined_operations acc + 1,
                al_quarantined_signatures := saturating_add (al_quarantined_signatures acc) signatures\<rparr>)
     else if rs_state row = ''RELEASED'' then Inr acc
     else Inl (Storage ''reservation contains an unknown state''))"

fun count_reservations :: "env \<Rightarrow> reservation_row list \<Rightarrow> ApprovalLimitState \<Rightarrow> JournalError + ApprovalLimitState" where
  "count_reservations env [] acc = Inr acc"
| "count_reservations env (row # rows) acc = and_then (count_reservation env row acc) (count_reservations env rows)"

definition approval_limit_state :: "env \<Rightarrow> db \<Rightarrow> Digest32 \<Rightarrow> JournalError + ApprovalLimitState" where
  "approval_limit_state env db approval_id =
     count_reservations env (filter (\<lambda>r. rs_approval_id r = approval_id) (reservations db)) empty_limit_state"

text \<open>The active approvals with terms that expire by a time, in the order of their identifiers.\<close>

fun expiring_rows :: "env \<Rightarrow> u64 \<Rightarrow> (string \<times> string) list \<Rightarrow> JournalError + Digest32 list" where
  "expiring_rows env accepted_utc_ms [] = Inr []"
| "expiring_rows env accepted_utc_ms ((approval_id, terms_jcs) # rows) =
     and_then (map_err Storage (e_terms_expires_at_ms env terms_jcs)) (\<lambda>expires_at_ms.
     if expires_at_ms \<le> accepted_utc_ms
     then and_then (e_digest32_new env approval_id) (\<lambda>approval_id.
       and_then (expiring_rows env accepted_utc_ms rows) (\<lambda>expiring. Inr (approval_id # expiring)))
     else expiring_rows env accepted_utc_ms rows)"

definition active_approvals_expiring_by :: "env \<Rightarrow> db \<Rightarrow> u64 \<Rightarrow> JournalError + Digest32 list" where
  "active_approvals_expiring_by env db accepted_utc_ms =
     expiring_rows env accepted_utc_ms
       (sort_key fst (List.map_filter (\<lambda>a. if ap_state a = ''ACTIVE''
          then map_option (\<lambda>m. (ap_approval_id a, md_terms_jcs m)) (select_metadata (ap_approval_id a) db)
          else None) (approvals db)))"

fun record_rows :: "env \<Rightarrow> metadata_row list \<Rightarrow> JournalError + (Digest32 \<times> ApprovalRecord) list" where
  "record_rows env [] = Inr []"
| "record_rows env (m # ms) =
     and_then (e_digest32_new env (md_approval_id m)) (\<lambda>approval_id.
     and_then (record_rows env ms) (\<lambda>records. Inr ((approval_id, record_of_row m) # records)))"

definition approval_records :: "env \<Rightarrow> db \<Rightarrow> JournalError + (Digest32 \<times> ApprovalRecord) list" where
  "approval_records env db = record_rows env (sort_key md_approval_id (approval_metadata db))"

section \<open>The bodies are audited\<close>

interpretation create_approval: audited_body env "create_approval_tx env approval_id state" True
  for env approval_id state
  by unfold_locales
     (auto simp: create_approval_tx_def intro!: counted_intros append_only_intros audited_intros)

interpretation create_approval_record: audited_body env "create_approval_record_tx env approval_id new" True
  for env approval_id new
  by unfold_locales
     (auto simp: create_approval_record_tx_def intro!: counted_intros append_only_intros audited_intros)

interpretation transition_approval: audited_body env "transition_approval_tx env approval_id next" True
  for env approval_id "next"
  by unfold_locales
     (auto simp: transition_approval_tx_def intro!: counted_intros append_only_intros audited_intros)

text \<open>Activation writes the grant that its own entry refers to.\<close>

lemma revoke_predecessor_frame:
  assumes "revoke_predecessor env renewal_of db = (db', Inr u)"
  shows "operations db' = operations db" "batch_children db' = batch_children db"
    "approval_metadata db' = approval_metadata db" "audit_chain db' = audit_chain db"
  using assms
  by (auto simp: revoke_predecessor_def tx_bind_Inr update_approval_state_def split: option.splits if_splits)

lemma activation_retains:
  assumes "links_ok db" and "select_metadata approval_id db = Some m" and "md_activation_operation_id m = None"
    and upd: "update_metadata_activation env approval_id oid grant db = (db', Inr u)"
  shows "retains db db'" and "links_ok db'" and "grant_of db' approval_id = Some grant"
    and "audit_chain db' = audit_chain db"
proof -
  have db': "operations db' = operations db" "batch_children db' = batch_children db" "audit_chain db' = audit_chain db"
    "approval_metadata db' = update_where (\<lambda>r. md_approval_id r = approval_id)
            (\<lambda>r. r\<lparr>md_activation_operation_id := Some oid, md_ceremony_grant_jcs := Some grant\<rparr>) (approval_metadata db)"
    using upd by (auto simp: update_metadata_activation_def split: if_splits)
  have sel: "select_metadata i db' = map_option (\<lambda>r. if md_approval_id r = approval_id
      then r\<lparr>md_activation_operation_id := Some oid, md_ceremony_grant_jcs := Some grant\<rparr> else r) (select_metadata i db)" for i
    unfolding select_metadata_def db'(4) by (rule find_update_where) simp
  have m: "m \<in> set (approval_metadata db)" "md_approval_id m = approval_id"
    using assms(2) by (auto simp: select_metadata_def find_Some_iff)
  then have none: "grant_of db approval_id = None"
    using assms(1-3) by (simp add: grant_of_def links_ok_def)
  have other: "grant_of db' i = grant_of db i" if "i \<noteq> approval_id" for i
  proof (cases "select_metadata i db")
    case (Some r)
    then have "md_approval_id r = i" by (auto simp: select_metadata_def dest: find_SomeD)
    with Some that show ?thesis by (simp add: grant_of_def sel)
  qed (simp add: grant_of_def sel)
  show "retains db db'"
    unfolding retains_def
    using none other
    by (auto simp: receipt_of_def result_of_def select_operation_def select_children_def db'(1,2)) (metis option.distinct(1))
  show "links_ok db'"
    using assms(1) by (auto simp: links_ok_def result_of_def select_operation_def select_children_def db' update_where_def)
  show "grant_of db' approval_id = Some grant"
    using assms(2) m(2) by (simp add: grant_of_def sel)
  show "audit_chain db' = audit_chain db" by fact
qed

lemma activation_correlated:
  assumes "env_laws env" and "grant_of db approval_id = Some grant"
    and "e_jcs env (activation_payload env approval_id oid renewal grant receipt) = Inr p"
  shows "is_ok (verify_audit_correlation env db ''approval.transition'' p)"
proof -
  have "e_json_from_str env p = Inr (activation_payload env approval_id oid renewal grant receipt)"
    using env_lawsD(8) [OF assms(1,3)] .
  then show ?thesis
    using assms(2)
    by (simp add: verify_audit_correlation_def activation_payload_def correlate_activation_def payload_str_def
        grant_of_def [symmetric])
qed

lemma activate_audited:
  assumes "env_laws env" and "signer_laws env s"
  shows "audited_tx env s (activate_approval_record_tx env approval_id oid grant s)"
  unfolding audited_tx_def
proof (intro allI impI)
  fix db db' out
  assume run: "activate_approval_record_tx env approval_id oid grant s db = (db', Inr out)"
    and ok: "chain_ok env s db" "links_ok db"
  obtain a m where am: "select_approval_record approval_id db = Some (a, m)"
    using run by (auto simp: activate_approval_record_tx_def tx_bind_Inr)
  show "chain_ok env s db' \<and> links_ok db'"
  proof (cases "md_activation_operation_id m")
    case (Some e)
    then have "db' = db"
      using run am by (auto simp: activate_approval_record_tx_def tx_bind_Inr split: if_splits)
    with ok show ?thesis by simp
  next
    case none: None
    obtain db1 db2 db3 u1 u2 u3 receipt h where
          r: "revoke_predecessor env (md_renewal_of m) db = (db1, Inr u1)"
      and um: "update_metadata_activation env approval_id oid grant db1 = (db2, Inr u2)"
      and ua: "update_approval_state approval_id ''ACTIVE'' db2 = (db3, Inr u3)"
      and app: "append_audit env ''approval.transition''
        (activation_payload env approval_id oid (md_renewal_of m) grant receipt) s db3 = (db', Inr h)"
      using run am none by (auto simp: activate_approval_record_tx_def tx_bind_Inr split: if_splits)
    note f1 = revoke_predecessor_frame [OF r]
    have f3: "operations db3 = operations db2" "batch_children db3 = batch_children db2"
      "approval_metadata db3 = approval_metadata db2" "audit_chain db3 = audit_chain db2"
      using ua by (auto simp: update_approval_state_def)
    have m: "select_metadata approval_id db1 = Some m"
      using am f1(3) by (auto simp: select_approval_record_def select_metadata_def split: option.splits)
    have l1: "links_ok db1" using ok(2) links_ok_cong [of db1 db] f1 by simp
    note f2 = activation_retains [OF l1 m none um]
    have "retains db db3"
      using retains_trans [OF retainsI_tables [OF f1(1-3)] retains_trans [OF f2(1) retainsI_tables [OF f3(1-3)]]] .
    moreover have "audit_chain db3 = audit_chain db" using f1(4) f2(4) f3(4) by simp
    moreover have grant: "grant_of db3 approval_id = Some grant"
      using f2(3) f3(3) by (simp add: grant_of_def select_metadata_def)
    ultimately have "chain_ok env s db'"
      by (intro chain_ok_append [OF ok(1) assms _ _ app]) (auto intro: activation_correlated [OF assms(1) grant])
    moreover have "links_ok db'"
      using f2(2) f3 append_audit_frame [OF app] links_ok_cong [of db3 db2] links_ok_cong [of db' db3] by auto
    ultimately show ?thesis by simp
  qed
qed

interpretation activate_approval_record: audited_body env "activate_approval_record_tx env approval_id oid grant" True
  for env approval_id oid grant
proof unfold_locales
  have pred: "counted_tx (revoke_predecessor env r)" "append_only_tx (revoke_predecessor env r)" for r
    unfolding revoke_predecessor_def by (auto intro!: counted_intros append_only_intros split: option.splits)
  show "counted_tx (activate_approval_record_tx env approval_id oid grant s)" for s
    unfolding activate_approval_record_tx_def by (intro counted_intros pred)
  show "append_only_tx (activate_approval_record_tx env approval_id oid grant s)" for s
    unfolding activate_approval_record_tx_def by (intro append_only_intros pred)
qed (rule activate_audited)

section \<open>The life cycle of an approval\<close>

interpretation approval_cycle: lifecycle valid_approval_transition approval_rank
proof
  show "approval_rank a < approval_rank b" if "valid_approval_transition a b" for a b
    using that by (cases a; cases b) simp_all
qed

definition stored_approval_state :: "db \<Rightarrow> Digest32 \<Rightarrow> string option" where
  "stored_approval_state db approval_id = map_option ap_state (select_approval approval_id db)"

text \<open>Every approval with a known state is still there and moved along valid transitions.\<close>

definition approvals_follow :: "db \<Rightarrow> db \<Rightarrow> bool" where
  "approvals_follow db db' \<longleftrightarrow> (\<forall>i a. stored_approval_state db i = Some (approval_state_text a) \<longrightarrow>
     (\<exists>b. stored_approval_state db' i = Some (approval_state_text b) \<and> valid_approval_transition\<^sup>*\<^sup>* a b))"

lemma approvals_follow_same: "approvals db' = approvals db \<Longrightarrow> approvals_follow db db'"
  by (auto simp: approvals_follow_def stored_approval_state_def select_approval_def)

lemma approvals_follow_trans:
  assumes "approvals_follow a b" and "approvals_follow b c"
  shows "approvals_follow a c"
  unfolding approvals_follow_def
proof (intro allI impI)
  fix i x
  assume "stored_approval_state a i = Some (approval_state_text x)"
  then obtain y where y: "stored_approval_state b i = Some (approval_state_text y)" "valid_approval_transition\<^sup>*\<^sup>* x y"
    using assms(1) unfolding approvals_follow_def by blast
  then obtain z where "stored_approval_state c i = Some (approval_state_text z)" "valid_approval_transition\<^sup>*\<^sup>* y z"
    using assms(2) unfolding approvals_follow_def by blast
  with y show "\<exists>b. stored_approval_state c i = Some (approval_state_text b) \<and> valid_approval_transition\<^sup>*\<^sup>* x b"
    by (blast intro: rtranclp_trans)
qed

lemma stored_after_update:
  assumes "update_approval_state i t db = (db', r)"
  shows "stored_approval_state db' k = (if k = i then map_option (\<lambda>_. t) (stored_approval_state db i) else stored_approval_state db k)"
proof -
  have "select_approval k db' = map_option (\<lambda>r. if ap_approval_id r = i then r\<lparr>ap_state := t\<rparr> else r) (select_approval k db)"
    using assms by (auto simp: update_approval_state_def select_approval_def find_update_where)
  moreover have "select_approval k db = Some r \<Longrightarrow> ap_approval_id r = k" for r
    by (auto simp: select_approval_def dest: find_SomeD)
  ultimately show ?thesis
    by (cases "select_approval k db") (auto simp: stored_approval_state_def)
qed

lemma update_follows:
  assumes "update_approval_state i (approval_state_text b) db = (db', r)"
    and "stored_approval_state db i = Some (approval_state_text a)" and "valid_approval_transition\<^sup>*\<^sup>* a b"
  shows "approvals_follow db db'"
  using assms by (auto simp: approvals_follow_def stored_after_update [OF assms(1)])

lemma insert_follows:
  assumes "insert_approval env i t db = (db', Inr u)"
  shows "approvals_follow db db'"
  using assms
  by (auto simp: insert_approval_def approvals_follow_def stored_approval_state_def select_approval_def find_append
      split: if_splits option.splits)

lemma append_audit_approvals: "append_audit env et p s db = (db', r) \<Longrightarrow> approvals db' = approvals db"
  using append_audit_frame by fastforce

lemma create_approval_follows:
  assumes "create_approval_tx env i st s db = (db', Inr out)"
  shows "approvals_follow db db'"
  using assms
  by (auto simp: create_approval_tx_def tx_bind_Inr
      dest!: append_audit_approvals insert_follows intro: approvals_follow_trans approvals_follow_same)

lemma create_approval_record_follows:
  assumes "create_approval_record_tx env i new s db = (db', Inr out)"
  shows "approvals_follow db db'"
proof -
  obtain db1 db2 md p h where ins: "insert_approval env i ''AWAITING_CEREMONY'' db = (db1, Inr ())"
    and md: "insert_metadata env md db1 = (db2, Inr ())" and app: "append_audit env ''approval.prepared'' p s db2 = (db', Inr h)"
    using assms by (auto simp: create_approval_record_tx_def tx_bind_Inr)
  have "approvals db2 = approvals db1" using md by (auto simp: insert_metadata_def split: if_splits)
  then have "approvals_follow db1 db'" using append_audit_approvals [OF app] by (simp add: approvals_follow_same)
  with insert_follows [OF ins] show ?thesis by (rule approvals_follow_trans)
qed

lemma transition_approval_follows:
  assumes "transition_approval_tx env i next s db = (db', Inr out)"
  shows "approvals_follow db db'"
proof -
  obtain cur db1 p h where st: "stored_approval_state db i = Some (approval_state_text cur)"
    and v: "valid_approval_transition cur next" and up: "update_approval_state i (approval_state_text next) db = (db1, Inr ())"
    and app: "append_audit env ''approval.transition'' p s db1 = (db', Inr h)"
    using assms
    by (auto simp: transition_approval_tx_def tx_bind_Inr stored_approval_state_def parse_approval_state_Inr split: if_splits)
  have "approvals_follow db db1" using v by (intro update_follows [OF up st]) (rule r_into_rtranclp)
  moreover have "approvals_follow db1 db'" using append_audit_approvals [OF app] by (rule approvals_follow_same)
  ultimately show ?thesis by (rule approvals_follow_trans)
qed

text \<open>
  Activation moves the approval from waiting to active and its predecessor, if it renews one,
  from active to revoked; replayed with the same operation it changes nothing.
\<close>

lemma activate_cases:
  assumes "activate_approval_record_tx env i oid grant s db = (db', Inr out)"
  obtains (replay) m where "select_metadata i db = Some m" and "md_activation_operation_id m = Some oid"
      and "stored_approval_state db i = Some ''ACTIVE''" and "db' = db" and "out = Checkpointed ()"
    | (activate) m db1 db2 db3 p h where "select_metadata i db = Some m" and "md_activation_operation_id m = None"
      and "stored_approval_state db i = Some ''AWAITING_CEREMONY''"
      and "revoke_predecessor env (md_renewal_of m) db = (db1, Inr ())"
      and "update_metadata_activation env i oid grant db1 = (db2, Inr ())"
      and "update_approval_state i ''ACTIVE'' db2 = (db3, Inr ())"
      and "append_audit env ''approval.transition'' p s db3 = (db', Inr h)"
      and "out = Durable ApprovalTransition ()"
proof -
  obtain a m where am: "select_approval_record i db = Some (a, m)"
    using assms by (auto simp: activate_approval_record_tx_def tx_bind_Inr)
  then have sel: "select_metadata i db = Some m" "stored_approval_state db i = Some (ap_state a)"
    by (auto simp: select_approval_record_def stored_approval_state_def split: option.splits)
  show thesis
  proof (cases "md_activation_operation_id m")
    case (Some e)
    then show thesis
      using assms am sel replay
      by (auto simp: activate_approval_record_tx_def tx_bind_Inr parse_approval_state_Inr split: if_splits)
  next
    case None
    then show thesis
      using assms am sel activate
      by (auto simp: activate_approval_record_tx_def tx_bind_Inr parse_approval_state_Inr split: if_splits)
  qed
qed

lemma revoke_predecessor_follows:
  assumes "revoke_predecessor env renewal db = (db', Inr u)"
  shows "approvals_follow db db'" and "stored_approval_state db i \<noteq> Some ''ACTIVE'' \<Longrightarrow> stored_approval_state db' i = stored_approval_state db i"
proof -
  have "approvals_follow db db' \<and> (stored_approval_state db i \<noteq> Some ''ACTIVE'' \<longrightarrow> stored_approval_state db' i = stored_approval_state db i)"
  proof (cases renewal)
    case None
    with assms show ?thesis by (simp add: revoke_predecessor_def approvals_follow_same)
  next
    case (Some k)
    with assms have st: "stored_approval_state db k = Some (approval_state_text AS_Active)"
      and up: "update_approval_state k (approval_state_text AS_Revoked) db = (db', Inr u)"
      by (auto simp: revoke_predecessor_def tx_bind_Inr parse_approval_state_Inr stored_approval_state_def split: if_splits)
    have "valid_approval_transition\<^sup>*\<^sup>* AS_Active AS_Revoked" by (rule r_into_rtranclp) simp
    from update_follows [OF up st this] st show ?thesis
      by (simp add: stored_after_update [OF up])
  qed
  then show "approvals_follow db db'" "stored_approval_state db i \<noteq> Some ''ACTIVE'' \<Longrightarrow> stored_approval_state db' i = stored_approval_state db i"
    by blast+
qed

lemma activate_follows:
  assumes "activate_approval_record_tx env i oid grant s db = (db', Inr out)"
  shows "approvals_follow db db'"
  using assms
proof (cases rule: activate_cases)
  case (replay m)
  then show ?thesis by (simp add: approvals_follow_same)
next
  case (activate m db1 db2 db3 p h)
  have same: "approvals db2 = approvals db1"
    using activate(5) by (auto simp: update_metadata_activation_def split: if_splits)
  have "stored_approval_state db2 i = stored_approval_state db1 i"
    using same by (simp add: stored_approval_state_def select_approval_def)
  then have "stored_approval_state db2 i = Some (approval_state_text AS_AwaitingCeremony)"
    using revoke_predecessor_follows(2) [OF activate(4), of i] activate(3) by simp
  moreover have "valid_approval_transition\<^sup>*\<^sup>* AS_AwaitingCeremony AS_Active" by (rule r_into_rtranclp) simp
  ultimately have "approvals_follow db2 db3"
    using activate(6) by (intro update_follows [of i AS_Active db2 db3 "Inr ()" AS_AwaitingCeremony]) simp_all
  moreover have "approvals_follow db3 db'" using append_audit_approvals [OF activate(7)] by (rule approvals_follow_same)
  moreover have "approvals_follow db db2"
    using revoke_predecessor_follows(1) [OF activate(4)] approvals_follow_same [OF same] by (rule approvals_follow_trans)
  ultimately show ?thesis by (blast intro: approvals_follow_trans)
qed

end
