(* ===== verification/Operations.thy ===== *)
theory Operations
  imports Approvals
begin

text \<open>
  Operations of the journal (journal.rs): admitting a signing attempt and its retries, life-cycle
  transitions, by-key revocations, and the publication of single and batch results together with
  the commitment of their reservation.
\<close>

section \<open>Snapshots\<close>

definition OPERATION_KIND :: string where
  "OPERATION_KIND = ''operation''"

definition KEY_REVOCATION_KIND :: string where
  "KEY_REVOCATION_KIND = ''key_revocation''"

record OperationSnapshot =
  os_operation_id :: OperationId
  os_operation_digest :: Digest32
  os_state :: OperationState
  os_is_batch :: bool
  os_retry_binding_digest :: Digest32
  os_result :: "SigningResult option"
  os_kind :: string

definition read_operation :: "env \<Rightarrow> db \<Rightarrow> OperationId \<Rightarrow> JournalError + OperationSnapshot option" where
  "read_operation env db operation_id = (case select_operation operation_id db of
     None \<Rightarrow> Inr None
   | Some row \<Rightarrow>
       and_then (e_digest32_new env (op_operation_digest row)) (\<lambda>digest.
       and_then (parse_operation_state env (op_state row)) (\<lambda>state.
       and_then (e_digest32_new env (op_retry_binding_digest row)) (\<lambda>retry_binding_digest.
       and_then (case op_result_jcs row of
           None \<Rightarrow> Inr None
         | Some result_jcs \<Rightarrow>
             and_then (map_err Storage (e_signing_result_from_str env result_jcs)) (\<lambda>result. Inr (Some result))) (\<lambda>result.
       Inr (Some \<lparr>os_operation_id = operation_id, os_operation_digest = digest, os_state = state,
         os_is_batch = op_is_batch row, os_retry_binding_digest = retry_binding_digest, os_result = result,
         os_kind = op_kind row\<rparr>))))))"

definition operation :: "env \<Rightarrow> db \<Rightarrow> OperationId \<Rightarrow> JournalError + OperationSnapshot option" where
  "operation env db operation_id = read_operation env db operation_id"

definition validation_receipt :: "env \<Rightarrow> db \<Rightarrow> OperationId \<Rightarrow> JournalError + BrokerValidationReceipt option" where
  "validation_receipt env db operation_id =
     (case Option.bind (select_operation operation_id db) op_validation_receipt_jcs of
        None \<Rightarrow> Inr None
      | Some canonical \<Rightarrow> and_then (map_err Storage (e_receipt_from_str env canonical)) (\<lambda>r. Inr (Some r)))"

section \<open>Transitions\<close>

fun valid_operation_transition :: "OperationState \<Rightarrow> OperationState \<Rightarrow> bool" where
  "valid_operation_transition OS_Received next = (next \<in> {OS_Validated, OS_Denied, OS_Cancelled, OS_Failed})"
| "valid_operation_transition OS_Validated next = (next \<in> {OS_Reserved, OS_Denied, OS_Cancelled, OS_Failed})"
| "valid_operation_transition OS_Reserved next = (next \<in> {OS_Dispatched, OS_Denied, OS_Cancelled, OS_Failed})"
| "valid_operation_transition OS_Dispatched next = (next \<in> {OS_DownstreamAccepted, OS_Failed, OS_Quarantined})"
| "valid_operation_transition OS_DownstreamAccepted next = (next \<in> {OS_Committed, OS_Failed, OS_Quarantined})"
| "valid_operation_transition OS_Committed next = (next \<in> {OS_Succeeded, OS_Failed, OS_Quarantined})"
| "valid_operation_transition _ next = False"

fun operation_rank :: "OperationState \<Rightarrow> nat" where
  "operation_rank OS_Received = 0"
| "operation_rank OS_Validated = 1"
| "operation_rank OS_Reserved = 2"
| "operation_rank OS_Dispatched = 3"
| "operation_rank OS_DownstreamAccepted = 4"
| "operation_rank OS_Committed = 5"
| "operation_rank _ = 6"

definition transition_operation_tx :: "env \<Rightarrow> OperationId \<Rightarrow> OperationState \<Rightarrow> AuditSigner \<Rightarrow> unit outcome tx" where
  "transition_operation_tx env operation_id next audit_signer =
     tx_bind (tx_check (\<lambda>db. and_then (read_operation env db operation_id) (\<lambda>found.
       ok_or found (Protocol ApprovalNotFound ''operation not found'')))) (\<lambda>current.
     if os_kind current = KEY_REVOCATION_KIND
     then tx_fail (Protocol OperationIdConflict ''a by-key revocation is irreversible and cannot be cancelled'')
     else if os_result current \<noteq> None \<or> \<not> valid_operation_transition (os_state current) next
     then tx_fail (Protocol OperationIdConflict ''invalid or post-publication operation transition'')
     else
       tx_bind (update_operations (\<lambda>r. op_operation_id r = operation_id)
         (\<lambda>r. r\<lparr>op_state := operation_state_text next\<rparr>)) (\<lambda>_.
       tx_bind (append_audit env ''operation.transition''
         (json_object [(''operation_id'', JString operation_id),
            (''from'', JString (operation_state_text (os_state current))),
            (''to'', JString (operation_state_text next))]) audit_signer) (\<lambda>_.
       tx_return (Durable OperationTransition ()))))"

definition transition_operation :: "env \<Rightarrow> OperationId \<Rightarrow> OperationState \<Rightarrow> unit jm" where
  "transition_operation env operation_id next = mutate env (transition_operation_tx env operation_id next)"

section \<open>Signing attempts\<close>

definition ATTEMPT_BINDING_DOMAIN :: bytes where
  "ATTEMPT_BINDING_DOMAIN = str_bytes ''bloom-broker-attempt-binding/v1''"

definition permitted_retry_fields :: "string list" where
  "permitted_retry_fields = [''attempt_id'', ''attempt_digest'', ''issuer_boot_epoch'', ''issued_at_ms'',
     ''not_before_ms'', ''expires_at_ms'']"

fun strip_retry_fields :: "json \<Rightarrow> JournalError + json" where
  "strip_retry_fields (JObject obj) = Inr (JObject (fmfilter (\<lambda>k. k \<notin> set permitted_retry_fields) obj))"
| "strip_retry_fields _ = Inl (Storage ''sign attempt must serialize as an object'')"

definition attempt_retry_binding_digest :: "env \<Rightarrow> UnsignedSignRequest \<Rightarrow> JournalError + Digest32" where
  "attempt_retry_binding_digest env request =
     and_then (e_request_value env request) (\<lambda>v.
     and_then (strip_retry_fields v) (\<lambda>stripped.
     and_then (e_jcs env stripped) (\<lambda>canonical.
     Inr (e_sha256 env (ATTEMPT_BINDING_DOMAIN @ str_bytes canonical)))))"

text \<open>The request, its attempt and the receipt describe the same operation.\<close>

definition sign_request_matches ::
    "env \<Rightarrow> UnsignedSignRequest \<Rightarrow> BrokerValidationReceipt \<Rightarrow> JournalError + bool" where
  "sign_request_matches env request receipt =
     and_then (e_operation_identity_digest env request) (\<lambda>operation_digest.
     if rq_operation_digest request \<noteq> operation_digest then Inr False
     else and_then (e_computed_attempt_digest env request) (\<lambda>attempt_digest.
       if rq_attempt_digest request \<noteq> attempt_digest then Inr False
       else and_then (e_receipt_digest env receipt) (\<lambda>receipt_digest.
         Inr (rq_validation_receipt_digest request = receipt_digest
           \<and> vr_approval_id receipt = rq_approval_id request
           \<and> vr_operation_digest receipt = rq_operation_digest request
           \<and> vr_policy_version receipt = rq_policy_version request
           \<and> vr_policy_digest receipt = rq_policy_digest request
           \<and> vr_claim_digest receipt = rq_petal_use_claim_digest request
           \<and> vr_assurance_digest receipt = rq_claim_assurance_digest request
           \<and> vr_broker_key_id receipt = rq_broker_signing_key_id request
           \<and> length (vr_broker_signature receipt) = 64))))"

text \<open>A retry must agree with the stored operation in everything but the attempt envelope.\<close>

definition check_retry :: "env \<Rightarrow> UnsignedSignRequest \<Rightarrow> bool \<Rightarrow> Digest32 \<Rightarrow> string \<Rightarrow> OperationSnapshot
    \<Rightarrow> OperationSnapshot tx" where
  "check_retry env request is_batch retry_binding_digest validation_receipt_jcs existing =
     (if os_operation_digest existing \<noteq> rq_operation_digest request
      then tx_fail (Protocol OperationIdConflict ''operation ID was reused with a different stable digest'')
      else if os_is_batch existing \<noteq> is_batch
      then tx_fail (Protocol OperationIdConflict ''operation ID changed between single and batch semantics'')
      else if os_retry_binding_digest existing \<noteq> retry_binding_digest
      then tx_fail (Protocol OperationIdConflict ''retry changed a field outside the permitted attempt envelope'')
      else tx_bind (tx_check (\<lambda>db. case select_operation (rq_operation_id request) db of
            None \<Rightarrow> Inl (sqlite_error env QueryReturnedNoRows)
          | Some row \<Rightarrow> ok_or (op_validation_receipt_jcs row)
              (sqlite_error env (InvalidColumnType 0 ''validation_receipt_jcs'')))) (\<lambda>retained.
        if retained \<noteq> validation_receipt_jcs
        then tx_fail (Protocol OperationIdConflict ''retry changed the signed Broker validation receipt'')
        else tx_return existing))"

definition received_payload :: "UnsignedSignRequest \<Rightarrow> bool \<Rightarrow> json" where
  "received_payload request is_batch = json_object
     [(''correlation_schema'', JString ''v1''),
      (''operation_id'', JString (rq_operation_id request)),
      (''operation_digest'', JString (rq_operation_digest request)),
      (''validation_receipt_digest'', JString (rq_validation_receipt_digest request)),
      (''is_batch'', JBool is_batch)]"

definition admit_operation :: "env \<Rightarrow> UnsignedSignRequest \<Rightarrow> bool \<Rightarrow> Digest32 \<Rightarrow> string \<Rightarrow> AuditSigner
    \<Rightarrow> OperationSnapshot tx" where
  "admit_operation env request is_batch retry_binding_digest validation_receipt_jcs audit_signer =
     tx_bind (insert_operation env \<lparr>op_operation_id = rq_operation_id request,
         op_operation_digest = rq_operation_digest request, op_retry_binding_digest = retry_binding_digest,
         op_state = ''RECEIVED'', op_is_batch = is_batch, op_result_jcs = None,
         op_validation_receipt_jcs = Some validation_receipt_jcs, op_kind = ''operation''\<rparr>) (\<lambda>_.
     tx_bind (append_audit env ''operation.received'' (received_payload request is_batch) audit_signer) (\<lambda>_.
     tx_return \<lparr>os_operation_id = rq_operation_id request, os_operation_digest = rq_operation_digest request,
       os_state = OS_Received, os_is_batch = is_batch, os_retry_binding_digest = retry_binding_digest,
       os_result = None, os_kind = OPERATION_KIND\<rparr>))"

definition begin_sign_attempt_tx :: "env \<Rightarrow> UnsignedSignRequest \<Rightarrow> bool \<Rightarrow> Digest32 \<Rightarrow> string \<Rightarrow> AuditSigner
    \<Rightarrow> OperationSnapshot outcome tx" where
  "begin_sign_attempt_tx env request is_batch retry_binding_digest validation_receipt_jcs audit_signer =
     tx_bind (tx_check (\<lambda>db. read_operation env db (rq_operation_id request))) (\<lambda>existing.
     tx_bind (case existing of
         Some existing \<Rightarrow> check_retry env request is_batch retry_binding_digest validation_receipt_jcs existing
       | None \<Rightarrow> admit_operation env request is_batch retry_binding_digest validation_receipt_jcs audit_signer) (\<lambda>snapshot.
     tx_bind (tx_query (\<lambda>db. map_option at_attempt_digest
       (select_attempt (rq_operation_id request) (rq_attempt_id request) db))) (\<lambda>prior_attempt.
     if prior_attempt \<noteq> None \<and> prior_attempt \<noteq> Some (rq_attempt_digest request)
     then tx_fail (Protocol OperationIdConflict ''attempt ID was reused with a different attempt digest'')
     else tx_bind (insert_or_ignore_attempt env \<lparr>at_operation_id = rq_operation_id request,
         at_attempt_id = rq_attempt_id request, at_attempt_digest = rq_attempt_digest request\<rparr>) (\<lambda>_.
       tx_return (Durable OperationReceived snapshot)))))"

definition begin_sign_attempt :: "env \<Rightarrow> UnsignedSignRequest \<Rightarrow> bool \<Rightarrow> BrokerValidationReceipt \<Rightarrow> OperationSnapshot jm" where
  "begin_sign_attempt env request is_batch receipt j =
     (case and_then (sign_request_matches env request receipt) (\<lambda>matches.
           if \<not> matches then Inl (Protocol OperationIdConflict
             ''operation or attempt digest does not match its canonical preimage'')
           else and_then (attempt_retry_binding_digest env request) (\<lambda>retry_binding_digest.
             and_then (e_receipt_jcs env receipt) (\<lambda>validation_receipt_jcs.
             Inr (retry_binding_digest, validation_receipt_jcs)))) of
        Inl e \<Rightarrow> (j, Inl e)
      | Inr (retry_binding_digest, validation_receipt_jcs) \<Rightarrow>
          mutate env (begin_sign_attempt_tx env request is_batch retry_binding_digest validation_receipt_jcs) j)"

section \<open>By-key revocation\<close>

definition REVOCATION_REUSED :: JournalError where
  "REVOCATION_REUSED = Protocol OperationIdConflict
     ''by-key revocation operation ID was reused with a different wallet, key, or reason''"

fun revocation_targets :: "env \<Rightarrow> attempt_row list \<Rightarrow> JournalError + (Digest32 \<times> OperationId) list" where
  "revocation_targets env [] = Inr []"
| "revocation_targets env (row # rows) =
     and_then (e_digest32_new env (at_attempt_id row)) (\<lambda>approval_id.
     and_then (e_operation_id_new env (at_attempt_digest row)) (\<lambda>revocation_id.
     and_then (revocation_targets env rows) (\<lambda>targets. Inr ((approval_id, revocation_id) # targets))))"

definition key_revocation_targets ::
    "env \<Rightarrow> db \<Rightarrow> OperationId \<Rightarrow> Digest32 \<Rightarrow> JournalError + (Digest32 \<times> OperationId) list option" where
  "key_revocation_targets env db operation_id parameters_digest = (case select_operation operation_id db of
     None \<Rightarrow> Inr None
   | Some row \<Rightarrow>
       if op_kind row \<noteq> KEY_REVOCATION_KIND \<or> op_operation_digest row \<noteq> parameters_digest
       then Inl REVOCATION_REUSED
       else and_then (revocation_targets env (sort_key at_attempt_id
           (filter (\<lambda>r. at_operation_id r = operation_id) (operation_attempts db)))) (\<lambda>targets.
         Inr (Some targets)))"

definition revocation_payload :: "OperationId \<Rightarrow> Digest32 \<Rightarrow> (Digest32 \<times> OperationId) list \<Rightarrow> json" where
  "revocation_payload operation_id parameters_digest targets = json_object
     [(''operation_id'', JString operation_id),
      (''parameters_digest'', JString parameters_digest),
      (''targets'', JArray (map (\<lambda>(approval_id, revocation_id). json_object
         [(''approval_id'', JString approval_id), (''revocation_id'', JString revocation_id)]) targets))]"

definition begin_key_revocation_tx ::
    "env \<Rightarrow> OperationId \<Rightarrow> Digest32 \<Rightarrow> (Digest32 \<times> OperationId) list \<Rightarrow> unit tx \<Rightarrow> AuditSigner \<Rightarrow> bool outcome tx" where
  "begin_key_revocation_tx env operation_id parameters_digest targets effects audit_signer =
     tx_bind (tx_query (select_operation operation_id)) (\<lambda>existing.
     case existing of
       Some row \<Rightarrow>
         if op_kind row \<noteq> KEY_REVOCATION_KIND \<or> op_operation_digest row \<noteq> parameters_digest
         then tx_fail REVOCATION_REUSED
         else tx_return (Unchanged False)
     | None \<Rightarrow>
         tx_bind (insert_operation env \<lparr>op_operation_id = operation_id, op_operation_digest = parameters_digest,
             op_retry_binding_digest = parameters_digest, op_state = ''RECEIVED'', op_is_batch = False,
             op_result_jcs = None, op_validation_receipt_jcs = None, op_kind = KEY_REVOCATION_KIND\<rparr>) (\<lambda>_.
         tx_bind (tx_iter (\<lambda>(approval_id, revocation_id). insert_attempt env
             \<lparr>at_operation_id = operation_id, at_attempt_id = approval_id, at_attempt_digest = revocation_id\<rparr>) targets) (\<lambda>_.
         tx_bind (append_audit env ''key.revocation.received''
             (revocation_payload operation_id parameters_digest targets) audit_signer) (\<lambda>_.
         tx_bind effects (\<lambda>_.
         tx_return (Durable OperationReceived True))))))"

definition begin_key_revocation_with_effects ::
    "env \<Rightarrow> OperationId \<Rightarrow> Digest32 \<Rightarrow> (Digest32 \<times> OperationId) list \<Rightarrow> (AuditSigner \<Rightarrow> unit tx) \<Rightarrow> bool jm" where
  "begin_key_revocation_with_effects env operation_id parameters_digest targets effects =
     mutate env (\<lambda>audit_signer. begin_key_revocation_tx env operation_id parameters_digest targets (effects audit_signer) audit_signer)"

definition begin_key_revocation :: "env \<Rightarrow> OperationId \<Rightarrow> Digest32 \<Rightarrow> (Digest32 \<times> OperationId) list \<Rightarrow> unit jm" where
  "begin_key_revocation env operation_id parameters_digest targets j =
     (case begin_key_revocation_with_effects env operation_id parameters_digest targets (\<lambda>_. tx_return ()) j of
        (j', Inl e) \<Rightarrow> (j', Inl e)
      | (j', Inr _) \<Rightarrow> (j', Inr ()))"

definition complete_key_revocation_tx :: "env \<Rightarrow> OperationId \<Rightarrow> AuditSigner \<Rightarrow> unit outcome tx" where
  "complete_key_revocation_tx env operation_id audit_signer =
     tx_bind (update_operations (\<lambda>r. op_operation_id r = operation_id \<and> op_state r = ''RECEIVED'')
       (\<lambda>r. r\<lparr>op_state := ''SUCCEEDED''\<rparr>)) (\<lambda>changed.
     if changed > 0
     then tx_bind (append_audit env ''key.revocation.succeeded''
         (json_object [(''operation_id'', JString operation_id)]) audit_signer) (\<lambda>_.
       tx_return (Durable OperationTransition ()))
     else tx_return (Unchanged ()))"

definition complete_key_revocation :: "env \<Rightarrow> OperationId \<Rightarrow> unit jm" where
  "complete_key_revocation env operation_id = mutate env (complete_key_revocation_tx env operation_id)"

section \<open>Reservation states as publication reads them\<close>

definition reservation_state_by_id :: "db \<Rightarrow> Digest32 \<Rightarrow> OperationId \<Rightarrow> JournalError + ReservationState option" where
  "reservation_state_by_id db approval_id operation_id = (case select_reservation approval_id operation_id db of
     None \<Rightarrow> Inr None
   | Some row \<Rightarrow> and_then (parse_reservation_state (rs_state row)) (\<lambda>state. Inr (Some state)))"

definition require_reserved :: "db \<Rightarrow> Digest32 \<Rightarrow> OperationId \<Rightarrow> JournalError + unit" where
  "require_reserved db approval_id operation_id =
     and_then (reservation_state_by_id db approval_id operation_id) (\<lambda>state.
     if state \<noteq> Some RS_Reserved
     then Inl (Protocol OperationIdConflict ''result publication requires an active accounting reservation'')
     else Inr ())"

section \<open>Publication\<close>

definition published_payload :: "env \<Rightarrow> Digest32 \<Rightarrow> SigningResult \<Rightarrow> string \<Rightarrow> Digest32 \<Rightarrow> json" where
  "published_payload env approval_id result result_jcs receipt_digest = json_object
     [(''approval_id'', JString approval_id),
      (''operation_id'', JString (sr_operation_id result)),
      (''operation_digest'', JString (sr_operation_digest result)),
      (''result_digest'', JString (text_digest env result_jcs)),
      (''signer_receipt_digest'', JString (sr_signer_receipt_digest result)),
      (''broker_receipt_digest'', JString (sr_broker_receipt_digest result)),
      (''validation_receipt_digest'', JString receipt_digest),
      (''reservation_state'', JString ''COMMITTED''),
      (''correlation_schema'', JString ''v1'')]"

definition mark_succeeded :: "OperationId \<Rightarrow> string \<Rightarrow> nat tx" where
  "mark_succeeded operation_id result_jcs = update_operations (\<lambda>r. op_operation_id r = operation_id)
     (\<lambda>r. r\<lparr>op_state := ''SUCCEEDED'', op_result_jcs := Some result_jcs\<rparr>)"

definition publish_result_tx :: "env \<Rightarrow> Digest32 \<Rightarrow> SigningResult \<Rightarrow> AuditSigner \<Rightarrow> unit outcome tx" where
  "publish_result_tx env approval_id result audit_signer =
     tx_bind (tx_check (\<lambda>db. and_then (read_operation env db (sr_operation_id result)) (\<lambda>found.
       ok_or found (Protocol ApprovalNotFound ''operation not found'')))) (\<lambda>operation.
     if os_operation_digest operation \<noteq> sr_operation_digest result
     then tx_fail (Protocol OperationIdConflict ''result changed the stable operation digest'')
     else tx_bind (tx_lift (e_jcs env (signing_result_json result))) (\<lambda>result_jcs.
     case os_result operation of
       Some prior \<Rightarrow>
         tx_bind (tx_lift (e_jcs env (signing_result_json prior))) (\<lambda>prior_jcs.
         if prior_jcs = result_jcs
         then tx_bind (tx_check (\<lambda>db. reservation_state_by_id db approval_id (sr_operation_id result))) (\<lambda>state.
           if state = Some RS_Committed then tx_return (Checkpointed ())
           else tx_fail (Protocol OperationIdConflict ''a different result is already published''))
         else tx_fail (Protocol OperationIdConflict ''a different result is already published''))
     | None \<Rightarrow>
         if os_state operation \<noteq> OS_Committed
         then tx_fail (Protocol OperationIdConflict ''result publication requires COMMITTED state'')
         else tx_bind (tx_check (\<lambda>db. require_reserved db approval_id (sr_operation_id result))) (\<lambda>_.
           tx_bind (tx_check (\<lambda>db. retained_validation_receipt env db (sr_operation_id result))) (\<lambda>receipt.
           if vr_approval_id receipt \<noteq> approval_id \<or> vr_operation_digest receipt \<noteq> sr_operation_digest result
           then tx_fail (Protocol OperationIdConflict
             ''published result differs from its retained Broker validation receipt'')
           else
             tx_bind (mark_succeeded (sr_operation_id result) result_jcs) (\<lambda>_.
             tx_bind (update_reservation_state approval_id (sr_operation_id result) ''COMMITTED'') (\<lambda>_.
             tx_bind (tx_lift (e_receipt_digest env receipt)) (\<lambda>receipt_digest.
             tx_bind (append_audit env ''operation.published''
               (published_payload env approval_id result result_jcs receipt_digest) audit_signer) (\<lambda>_.
             tx_return (Durable OperationTransition ())))))))))"

definition publish_result :: "env \<Rightarrow> Digest32 \<Rightarrow> SigningResult \<Rightarrow> unit jm" where
  "publish_result env approval_id result = mutate env (publish_result_tx env approval_id result)"

definition BATCH_CHILD_DOMAIN :: bytes where
  "BATCH_CHILD_DOMAIN = str_bytes ''bloom-batch-child/v1''"

definition derive_batch_child_operation_id :: "env \<Rightarrow> OperationId \<Rightarrow> nat \<Rightarrow> JournalError + OperationId" where
  "derive_batch_child_operation_id env parent_operation_id ordinal =
     (if 2 ^ 32 \<le> ordinal then Inl (Storage ''out of range integral type conversion attempted'')
      else e_operation_id_new env
        (e_sha256 env (BATCH_CHILD_DOMAIN @ str_bytes parent_operation_id @ be_bytes 4 ordinal)))"

fun check_child_ids :: "env \<Rightarrow> OperationId \<Rightarrow> nat \<Rightarrow> SigningResult list \<Rightarrow> JournalError + unit" where
  "check_child_ids env parent_operation_id ordinal [] = Inr ()"
| "check_child_ids env parent_operation_id ordinal (child # children) =
     and_then (derive_batch_child_operation_id env parent_operation_id ordinal) (\<lambda>expected.
     if sr_operation_id child \<noteq> expected
     then Inl (Protocol OperationIdConflict
       ''batch child operation ID is not the deterministic parent/index derivation'')
     else check_child_ids env parent_operation_id (Suc ordinal) children)"

fun results_jcs :: "env \<Rightarrow> SigningResult list \<Rightarrow> JournalError + string list" where
  "results_jcs env [] = Inr []"
| "results_jcs env (result # results) =
     and_then (e_jcs env (signing_result_json result)) (\<lambda>canonical.
     and_then (results_jcs env results) (\<lambda>rest. Inr (canonical # rest)))"

fun insert_children :: "env \<Rightarrow> OperationId \<Rightarrow> nat \<Rightarrow> SigningResult list \<Rightarrow> unit tx" where
  "insert_children env parent_operation_id ordinal [] = tx_return ()"
| "insert_children env parent_operation_id ordinal (child # children) =
     tx_bind (tx_lift (e_jcs env (signing_result_json child))) (\<lambda>canonical.
     tx_bind (insert_child env \<lparr>ch_parent_operation_id = parent_operation_id,
         ch_child_operation_id = sr_operation_id child, ch_ordinal = ordinal, ch_result_jcs = canonical\<rparr>) (\<lambda>_.
     insert_children env parent_operation_id (Suc ordinal) children))"

text \<open>The children of the payload; each result serializes, as the inserts before have shown.\<close>

fun children_json :: "env \<Rightarrow> nat \<Rightarrow> (SigningResult \<times> string) list \<Rightarrow> json list" where
  "children_json env ordinal [] = []"
| "children_json env ordinal ((child, canonical) # children) =
     child_json env ordinal canonical child # children_json env (Suc ordinal) children"

definition batch_payload :: "env \<Rightarrow> Digest32 \<Rightarrow> SigningResult \<Rightarrow> string \<Rightarrow> Digest32 \<Rightarrow> SigningResult list \<Rightarrow> string list \<Rightarrow> json" where
  "batch_payload env approval_id parent parent_jcs receipt_digest child_results children_jcs = json_object
     [(''approval_id'', JString approval_id),
      (''parent_operation_id'', JString (sr_operation_id parent)),
      (''parent_operation_digest'', JString (sr_operation_digest parent)),
      (''parent_result_digest'', JString (text_digest env parent_jcs)),
      (''parent_signer_receipt_digest'', JString (sr_signer_receipt_digest parent)),
      (''parent_broker_receipt_digest'', JString (sr_broker_receipt_digest parent)),
      (''validation_receipt_digest'', JString receipt_digest),
      (''children'', JArray (children_json env 0 (zip child_results children_jcs))),
      (''child_count'', JNumber (length child_results)),
      (''reservation_state'', JString ''COMMITTED''),
      (''correlation_schema'', JString ''v1'')]"

definition publish_batch_tx :: "env \<Rightarrow> Digest32 \<Rightarrow> SigningResult \<Rightarrow> SigningResult list \<Rightarrow> AuditSigner \<Rightarrow> unit outcome tx" where
  "publish_batch_tx env approval_id parent_result child_results audit_signer =
     tx_bind (tx_check (\<lambda>db. and_then (read_operation env db (sr_operation_id parent_result)) (\<lambda>found.
       ok_or found (Protocol ApprovalNotFound ''batch parent operation not found'')))) (\<lambda>parent.
     if os_operation_digest parent \<noteq> sr_operation_digest parent_result
     then tx_fail (Protocol OperationIdConflict ''batch result changed the stable operation digest'')
     else tx_bind (tx_query (\<lambda>db. result_of db (sr_operation_id parent_result))) (\<lambda>prior.
     tx_bind (tx_lift (e_jcs env (signing_result_json parent_result))) (\<lambda>parent_jcs.
     case prior of
       Some prior \<Rightarrow>
         tx_bind (tx_query (\<lambda>db. map ch_result_jcs (select_children (sr_operation_id parent_result) db))) (\<lambda>existing_children.
         tx_bind (tx_lift (results_jcs env child_results)) (\<lambda>requested_children.
         if prior = parent_jcs \<and> existing_children = requested_children
         then tx_bind (tx_check (\<lambda>db. reservation_state_by_id db approval_id (sr_operation_id parent_result))) (\<lambda>state.
           if state = Some RS_Committed then tx_return (Checkpointed ())
           else tx_fail (Protocol OperationIdConflict ''a different batch result is already published''))
         else tx_fail (Protocol OperationIdConflict ''a different batch result is already published'')))
     | None \<Rightarrow>
         if \<not> os_is_batch parent \<or> os_state parent \<noteq> OS_Committed
         then tx_fail (Protocol OperationIdConflict ''batch publication requires a committed batch parent'')
         else tx_bind (tx_check (\<lambda>db. require_reserved db approval_id (sr_operation_id parent_result))) (\<lambda>_.
           tx_bind (tx_check (\<lambda>db. retained_validation_receipt env db (sr_operation_id parent_result))) (\<lambda>receipt.
           if vr_approval_id receipt \<noteq> approval_id \<or> vr_operation_digest receipt \<noteq> sr_operation_digest parent_result
           then tx_fail (Protocol OperationIdConflict
             ''batch result differs from its retained Broker validation receipt'')
           else
             tx_bind (insert_children env (sr_operation_id parent_result) 0 child_results) (\<lambda>_.
             tx_bind (mark_succeeded (sr_operation_id parent_result) parent_jcs) (\<lambda>_.
             tx_bind (update_reservation_state approval_id (sr_operation_id parent_result) ''COMMITTED'') (\<lambda>_.
             tx_bind (tx_lift (e_receipt_digest env receipt)) (\<lambda>receipt_digest.
             tx_bind (tx_lift (results_jcs env child_results)) (\<lambda>children_jcs.
             tx_bind (append_audit env ''batch.published''
               (batch_payload env approval_id parent_result parent_jcs receipt_digest child_results children_jcs) audit_signer) (\<lambda>_.
             tx_return (Durable BatchPublished ()))))))))))))"

definition publish_batch :: "env \<Rightarrow> Digest32 \<Rightarrow> SigningResult \<Rightarrow> SigningResult list \<Rightarrow> unit jm" where
  "publish_batch env approval_id parent_result child_results j =
     (if child_results = [] \<or> 32 < length child_results
      then (j, Inl (Protocol BackendInvalidRequest ''batch publication requires 1-32 children''))
      else case check_child_ids env (sr_operation_id parent_result) 0 child_results of
        Inl e \<Rightarrow> (j, Inl e)
      | Inr _ \<Rightarrow> mutate env (publish_batch_tx env approval_id parent_result child_results) j)"

text \<open>Reading the published children.\<close>

fun parse_results :: "env \<Rightarrow> child_row list \<Rightarrow> JournalError + SigningResult list" where
  "parse_results env [] = Inr []"
| "parse_results env (row # rows) =
     and_then (map_err Storage (e_signing_result_from_str env (ch_result_jcs row))) (\<lambda>result.
     and_then (parse_results env rows) (\<lambda>results. Inr (result # results)))"

definition read_batch_children :: "env \<Rightarrow> db \<Rightarrow> OperationId \<Rightarrow> JournalError + SigningResult list" where
  "read_batch_children env db parent_operation_id = parse_results env (select_children parent_operation_id db)"

definition batch_child :: "env \<Rightarrow> db \<Rightarrow> OperationId \<Rightarrow> JournalError + SigningResult option" where
  "batch_child env db child_operation_id =
     (case find (\<lambda>r. ch_child_operation_id r = child_operation_id) (batch_children db) of
        None \<Rightarrow> Inr None
      | Some row \<Rightarrow> and_then (map_err Storage (e_signing_result_from_str env (ch_result_jcs row))) (\<lambda>r. Inr (Some r)))"

section \<open>The bodies without correlation data are audited\<close>

interpretation transition_operation: audited_body env "transition_operation_tx env operation_id next" True
  for env operation_id "next"
  by unfold_locales
     (auto simp: transition_operation_tx_def intro!: counted_intros append_only_intros audited_intros)

interpretation complete_key_revocation: audited_body env "complete_key_revocation_tx env operation_id" True
  for env operation_id
  by unfold_locales
     (auto simp: complete_key_revocation_tx_def intro!: counted_intros append_only_intros audited_intros)

text \<open>The effects of a by-key revocation run in the transaction of its admission.\<close>

lemma begin_key_revocation_audited:
  assumes "\<And>s. counted_tx (effects s)" and "\<And>s. append_only_tx (effects s)"
  shows "audited_body env (\<lambda>s. begin_key_revocation_tx env operation_id parameters_digest targets (effects s) s)
    (\<forall>s. env_laws env \<longrightarrow> signer_laws env s \<longrightarrow> audited_tx env s (effects s))"
proof
  show "counted_tx (begin_key_revocation_tx env operation_id parameters_digest targets (effects s) s)" for s
    unfolding begin_key_revocation_tx_def by (intro counted_intros assms)
  show "append_only_tx (begin_key_revocation_tx env operation_id parameters_digest targets (effects s) s)" for s
    unfolding begin_key_revocation_tx_def by (intro append_only_intros assms)
  show "audited_tx env s (begin_key_revocation_tx env operation_id parameters_digest targets (effects s) s)"
    if "\<forall>s. env_laws env \<longrightarrow> signer_laws env s \<longrightarrow> audited_tx env s (effects s)" "env_laws env" "signer_laws env s" for s
    unfolding begin_key_revocation_tx_def using that
    by (intro audited_intros) (auto simp: revocation_payload_def)
qed

interpretation begin_key_revocation: audited_body env
    "begin_key_revocation_tx env operation_id parameters_digest targets (tx_return ())" True
  for env operation_id parameters_digest targets
proof -
  have "audited_body env (begin_key_revocation_tx env operation_id parameters_digest targets (tx_return ()))
    (\<forall>s. env_laws env \<longrightarrow> signer_laws env s \<longrightarrow> audited_tx env s (tx_return ()))"
    by (rule begin_key_revocation_audited [where effects = "\<lambda>_. tx_return ()"]) (intro counted_intros append_only_intros)+
  then show "audited_body env (begin_key_revocation_tx env operation_id parameters_digest targets (tx_return ())) True"
    by (simp add: audited_intros)
qed

section \<open>The bodies with correlation data are audited\<close>

lemma receipt_correlated:
  assumes "env_laws env" and "receipt_of db i = Some canonical" and "e_receipt_jcs env receipt = Inr canonical"
  shows "retained_validation_receipt env db i = Inr receipt"
  using assms env_lawsD(10) [OF assms(1,3)]
  by (simp add: retained_validation_receipt_def receipt_of_def)

definition attempt_admissible ::
    "env \<Rightarrow> UnsignedSignRequest \<Rightarrow> BrokerValidationReceipt \<Rightarrow> string \<Rightarrow> bool" where
  "attempt_admissible env request receipt validation_receipt_jcs \<longleftrightarrow>
     e_operation_id_new env (rq_operation_id request) = Inr (rq_operation_id request)
   \<and> e_receipt_jcs env receipt = Inr validation_receipt_jcs
   \<and> sign_request_matches env request receipt = Inr True"

lemma sign_request_matchesD:
  assumes "sign_request_matches env request receipt = Inr True"
  shows "e_receipt_digest env receipt = Inr (rq_validation_receipt_digest request)"
    and "vr_operation_digest receipt = rq_operation_digest request"
    and "vr_approval_id receipt = rq_approval_id request"
  using assms by (auto simp: sign_request_matches_def and_then_eq_Inr split: if_splits)

lemma admit_operation_audited:
  assumes laws: "env_laws env" "signer_laws env s" and adm: "attempt_admissible env request receipt rjcs"
  shows "audited_tx env s (admit_operation env request is_batch retry rjcs s)"
  unfolding audited_tx_def
proof (intro allI impI)
  fix db db' out
  assume run: "admit_operation env request is_batch retry rjcs s db = (db', Inr out)"
    and ok: "chain_ok env s db" "links_ok db"
  let ?row = "\<lparr>op_operation_id = rq_operation_id request,
         op_operation_digest = rq_operation_digest request, op_retry_binding_digest = retry,
         op_state = ''RECEIVED'', op_is_batch = is_batch, op_result_jcs = None,
         op_validation_receipt_jcs = Some rjcs, op_kind = ''operation''\<rparr>"
  obtain db1 h where ins: "insert_operation env ?row db = (db1, Inr ())"
    and app: "append_audit env ''operation.received'' (received_payload request is_batch) s db1 = (db', Inr h)"
    using run by (auto simp: admit_operation_def tx_bind_Inr)
  have ok1: "chain_ok env s db1" "links_ok db1"
    using audited_insert_operation [OF laws(1), of ?row s env] ins ok unfolding audited_tx_def by auto
  have "receipt_of db1 (rq_operation_id request) = Some rjcs"
    using ins by (auto simp: insert_operation_def receipt_of_def select_operation_def find_append split: if_splits)
  then have receipt: "retained_validation_receipt env db1 (rq_operation_id request) = Inr receipt"
    using receipt_correlated [OF laws(1)] adm by (simp add: attempt_admissible_def)
  have "is_ok (verify_audit_correlation env db1 ''operation.received'' p)"
    if "e_jcs env (received_payload request is_batch) = Inr p" for p
    using env_lawsD(8) [OF laws(1) that] receipt adm sign_request_matchesD [of env request receipt]
    by (simp add: verify_audit_correlation_def received_payload_def correlate_received_def payload_str_def
        attempt_admissible_def)
  then have "chain_ok env s db'"
    by (intro chain_ok_append [OF ok1(1) laws retains_refl refl app]) simp_all
  moreover have "links_ok db'"
    using append_audit_frame [OF app] links_ok_cong [of db' db1] ok1(2) by auto
  ultimately show "chain_ok env s db' \<and> links_ok db'" ..
qed

interpretation begin_sign_attempt: audited_body env "begin_sign_attempt_tx env request is_batch retry rjcs"
    "attempt_admissible env request receipt rjcs"
  for env request is_batch retry rjcs receipt
proof
  show "counted_tx (begin_sign_attempt_tx env request is_batch retry rjcs s)" for s
    unfolding begin_sign_attempt_tx_def check_retry_def admit_operation_def by (intro counted_intros)
  show "append_only_tx (begin_sign_attempt_tx env request is_batch retry rjcs s)" for s
    unfolding begin_sign_attempt_tx_def check_retry_def admit_operation_def by (intro append_only_intros)
  show "audited_tx env s (begin_sign_attempt_tx env request is_batch retry rjcs s)"
    if "attempt_admissible env request receipt rjcs" "env_laws env" "signer_laws env s" for s
    unfolding begin_sign_attempt_tx_def check_retry_def
    by (intro audited_intros that admit_operation_audited [OF that(2,3,1)])
qed

text \<open>Marking an operation that has no result yet.\<close>

lemma mark_succeeded_effect:
  assumes "mark_succeeded i rj db = (db', Inr n)" and "select_operation i db \<noteq> None"
  shows "receipt_of db' k = receipt_of db k"
    and "result_of db' k = (if k = i then Some rj else result_of db k)"
    and "batch_children db' = batch_children db" and "approval_metadata db' = approval_metadata db"
    and "audit_chain db' = audit_chain db" and "reservations db' = reservations db"
    and "operations db' = update_where (\<lambda>r. op_operation_id r = i)
           (\<lambda>r. r\<lparr>op_state := ''SUCCEEDED'', op_result_jcs := Some rj\<rparr>) (operations db)"
proof -
  have sel: "select_operation k db' = map_option (\<lambda>r. if op_operation_id r = i
      then r\<lparr>op_state := ''SUCCEEDED'', op_result_jcs := Some rj\<rparr> else r) (select_operation k db)"
    using assms(1) by (auto simp: mark_succeeded_def update_operations_def select_operation_def find_update_where)
  have id: "select_operation k db = Some r \<Longrightarrow> op_operation_id r = k" for r
    by (auto simp: select_operation_def dest: find_SomeD)
  show "receipt_of db' k = receipt_of db k"
    by (cases "select_operation k db") (auto simp: receipt_of_def sel)
  show "result_of db' k = (if k = i then Some rj else result_of db k)"
    using assms(2) id by (cases "select_operation k db") (auto simp: result_of_def sel)
  show "batch_children db' = batch_children db" "approval_metadata db' = approval_metadata db"
    "audit_chain db' = audit_chain db" "reservations db' = reservations db"
    "operations db' = update_where (\<lambda>r. op_operation_id r = i)
           (\<lambda>r. r\<lparr>op_state := ''SUCCEEDED'', op_result_jcs := Some rj\<rparr>) (operations db)"
    using assms(1) by (auto simp: mark_succeeded_def update_operations_def)
qed

lemma read_operation_result:
  assumes "read_operation env db i = Inr (Some snap)"
  shows "select_operation i db \<noteq> None" and "os_result snap = None \<Longrightarrow> result_of db i = None"
    and "\<And>prior. os_result snap = Some prior \<Longrightarrow> \<exists>rj. result_of db i = Some rj \<and> e_signing_result_from_str env rj = Inr prior"
  using assms
  by (auto simp: read_operation_def result_of_def and_then_eq_Inr split: option.splits)

definition result_admissible :: "env \<Rightarrow> SigningResult \<Rightarrow> bool" where
  "result_admissible env result \<longleftrightarrow> e_operation_id_new env (sr_operation_id result) = Inr (sr_operation_id result)"

text \<open>The statements of a first publication, in order.\<close>

lemma publish_result_cases:
  assumes "publish_result_tx env a result s db = (db', Inr out)"
  obtains (replay) "db' = db" and "out = Checkpointed ()" and "result_of db (sr_operation_id result) \<noteq> None"
    | (publish) rj receipt rd db1 db2 n h snap where "read_operation env db (sr_operation_id result) = Inr (Some snap)"
      and "os_result snap = None" and "os_state snap = OS_Committed"
      and "os_operation_digest snap = sr_operation_digest result"
      and "e_jcs env (signing_result_json result) = Inr rj"
      and "require_reserved db a (sr_operation_id result) = Inr ()"
      and "retained_validation_receipt env db (sr_operation_id result) = Inr receipt"
      and "vr_approval_id receipt = a" and "vr_operation_digest receipt = sr_operation_digest result"
      and "mark_succeeded (sr_operation_id result) rj db = (db1, Inr n)"
      and "update_reservation_state a (sr_operation_id result) ''COMMITTED'' db1 = (db2, Inr ())"
      and "e_receipt_digest env receipt = Inr rd"
      and "append_audit env ''operation.published'' (published_payload env a result rj rd) s db2 = (db', Inr h)"
      and "out = Durable OperationTransition ()"
proof -
  obtain snap where snap: "read_operation env db (sr_operation_id result) = Inr (Some snap)"
    using assms by (auto simp: publish_result_tx_def tx_bind_Inr and_then_eq_Inr)
  show thesis
  proof (cases "os_result snap")
    case (Some prior)
    then show thesis
      using assms snap replay read_operation_result(3) [OF snap Some]
      by (auto simp: publish_result_tx_def tx_bind_Inr and_then_eq_Inr split: if_splits)
  next
    case None
    then show thesis
      using assms snap publish [OF snap None]
      by (auto simp: publish_result_tx_def tx_bind_Inr and_then_eq_Inr split: if_splits)
  qed
qed

lemma update_reservation_frame:
  assumes "update_reservation_state a i t db = (db', r)"
  shows "operations db' = operations db" "batch_children db' = batch_children db"
    "approval_metadata db' = approval_metadata db" "audit_chain db' = audit_chain db"
    "approvals db' = approvals db" "clock_state db' = clock_state db" "reservation_values db' = reservation_values db"
    "operation_attempts db' = operation_attempts db"
  using assms by (auto simp: update_reservation_state_def)

text \<open>The common end of a publication: the operation that had no result gets one.\<close>

lemma publish_retains:
  assumes "result_of db i = None" and "select_operation i db \<noteq> None"
    and same: "operations db0 = operations db" "approval_metadata db0 = approval_metadata db" "audit_chain db0 = audit_chain db"
      "\<And>k. k \<noteq> i \<Longrightarrow> select_children k db0 = select_children k db"
    and mark: "mark_succeeded i rj db0 = (db1, Inr n)" and upd: "update_reservation_state a i t db1 = (db2, Inr u)"
    and links: "links_ok db"
  shows "retains db db2" and "links_ok db2" and "audit_chain db2 = audit_chain db"
    and "receipt_of db2 k = receipt_of db k" and "result_of db2 i = Some rj"
    and "select_children k db2 = select_children k db0"
proof -
  have sel0: "select_operation k db0 = select_operation k db" for k using same(1) by (simp add: select_operation_def)
  have r0: "receipt_of db0 k = receipt_of db k" "result_of db0 k = result_of db k" for k
    by (simp_all add: receipt_of_def result_of_def sel0)
  have mk: "select_operation i db0 \<noteq> None" using assms(2) sel0 by simp
  note m = mark_succeeded_effect [OF mark mk] and f = update_reservation_frame [OF upd]
  have r2: "receipt_of db2 k = receipt_of db k" "result_of db2 k = (if k = i then Some rj else result_of db k)" for k
    using m(1,2) r0 f(1) by (simp_all add: receipt_of_def result_of_def select_operation_def)
  have c2: "select_children k db2 = select_children k db0" for k
    using m(3) f(2) by (simp add: select_children_def)
  have g2: "approval_metadata db2 = approval_metadata db" using m(4) f(3) same(2) by simp
  show "retains db db2"
    using assms(1) same(4) by (auto simp: retains_def r2 c2 grant_of_def select_metadata_def g2)
  show "links_ok db2"
    using links same(4) by (auto simp: links_ok_def r2 c2 g2)
  show "audit_chain db2 = audit_chain db" using m(5) f(4) same(3) by simp
  show "receipt_of db2 k = receipt_of db k" "result_of db2 i = Some rj" "select_children k db2 = select_children k db0"
    using r2 c2 by simp_all
qed

lemma publish_result_audited:
  assumes laws: "env_laws env" "signer_laws env s" and adm: "result_admissible env result"
  shows "audited_tx env s (publish_result_tx env a result s)"
  unfolding audited_tx_def
proof (intro allI impI)
  fix db db' out
  assume run: "publish_result_tx env a result s db = (db', Inr out)" and ok: "chain_ok env s db" "links_ok db"
  let ?i = "sr_operation_id result"
  show "chain_ok env s db' \<and> links_ok db'"
    using run
  proof (cases rule: publish_result_cases)
    case replay
    with ok show ?thesis by simp
  next
    case (publish rj receipt rd db1 db2 n h snap)
    have p: "retains db db2" "links_ok db2" "audit_chain db2 = audit_chain db" "receipt_of db2 ?i = receipt_of db ?i"
      "result_of db2 ?i = Some rj"
      using publish_retains [OF read_operation_result(2) [OF publish(1,2)] read_operation_result(1) [OF publish(1)]
          refl refl refl refl publish(10,11) ok(2)] by simp_all
    have "retained_validation_receipt env db2 ?i = Inr receipt"
      using publish(7) p(1) by (rule retained_validation_receipt_retains)
    moreover have "retained_result env db2 ?i = Inr (rj, result)"
      using p(5) env_lawsD(9) [OF laws(1) publish(5)] by (simp add: retained_result_def result_of_def)
    ultimately have "is_ok (verify_audit_correlation env db2 ''operation.published'' q)"
      if "e_jcs env (published_payload env a result rj rd) = Inr q" for q
      using env_lawsD(8) [OF laws(1) that] publish(12) adm
      by (simp add: verify_audit_correlation_def published_payload_def correlate_published_def payload_str_def
          result_admissible_def)
    then have "chain_ok env s db'"
      by (intro chain_ok_append [OF ok(1) laws p(1,3) publish(13)]) simp_all
    moreover have "links_ok db'"
      using append_audit_frame [OF publish(13)] links_ok_cong [of db' db2] p(2) by auto
    ultimately show ?thesis ..
  qed
qed

interpretation publish_result: audited_body env "publish_result_tx env approval_id result" "result_admissible env result"
  for env approval_id result
proof
  show "counted_tx (publish_result_tx env approval_id result s)" for s
    unfolding publish_result_tx_def mark_succeeded_def by (intro counted_intros)
  show "append_only_tx (publish_result_tx env approval_id result s)" for s
    unfolding publish_result_tx_def mark_succeeded_def by (intro append_only_intros)
qed (rule publish_result_audited)

text \<open>The children of a batch are read back in the order in which they were written.\<close>

fun child_rows :: "OperationId \<Rightarrow> nat \<Rightarrow> SigningResult list \<Rightarrow> string list \<Rightarrow> child_row list" where
  "child_rows parent n (child # children) (canonical # jcs) =
     \<lparr>ch_parent_operation_id = parent, ch_child_operation_id = sr_operation_id child, ch_ordinal = n,
      ch_result_jcs = canonical\<rparr> # child_rows parent (Suc n) children jcs"
| "child_rows parent n _ _ = []"

lemma insert_children_effect:
  assumes "insert_children env parent n children db = (db', Inr u)"
  shows "\<exists>jcs. results_jcs env children = Inr jcs \<and> batch_children db' = batch_children db @ child_rows parent n children jcs"
    and "operations db' = operations db" "approval_metadata db' = approval_metadata db" "audit_chain db' = audit_chain db"
    and "reservations db' = reservations db" "approvals db' = approvals db" "reservation_values db' = reservation_values db"
    and "clock_state db' = clock_state db" "operation_attempts db' = operation_attempts db"
proof -
  have "(\<exists>jcs. results_jcs env children = Inr jcs \<and> batch_children db' = batch_children db @ child_rows parent n children jcs)
      \<and> operations db' = operations db \<and> approval_metadata db' = approval_metadata db \<and> audit_chain db' = audit_chain db
      \<and> reservations db' = reservations db \<and> approvals db' = approvals db \<and> reservation_values db' = reservation_values db
      \<and> clock_state db' = clock_state db \<and> operation_attempts db' = operation_attempts db"
    using assms
  proof (induction children arbitrary: n db)
    case (Cons child children)
    then obtain c db1 where c: "e_jcs env (signing_result_json child) = Inr c"
      and ins: "insert_child env \<lparr>ch_parent_operation_id = parent, ch_child_operation_id = sr_operation_id child,
          ch_ordinal = n, ch_result_jcs = c\<rparr> db = (db1, Inr ())"
      and rest: "insert_children env parent (Suc n) children db1 = (db', Inr u)"
      by (auto simp: tx_bind_Inr)
    have db1: "db1 = changed 1 (db\<lparr>batch_children := batch_children db @ [\<lparr>ch_parent_operation_id = parent,
        ch_child_operation_id = sr_operation_id child, ch_ordinal = n, ch_result_jcs = c\<rparr>]\<rparr>)"
      using ins by (auto simp: insert_child_def split: if_splits)
    from Cons.IH [OF rest] c show ?case by (auto simp: db1)
  qed simp
  then show "\<exists>jcs. results_jcs env children = Inr jcs \<and> batch_children db' = batch_children db @ child_rows parent n children jcs"
    "operations db' = operations db" "approval_metadata db' = approval_metadata db" "audit_chain db' = audit_chain db"
    "reservations db' = reservations db" "approvals db' = approvals db" "reservation_values db' = reservation_values db"
    "clock_state db' = clock_state db" "operation_attempts db' = operation_attempts db"
    by blast+
qed

lemma child_rows_parent: "r \<in> set (child_rows parent n children jcs) \<Longrightarrow> ch_parent_operation_id r = parent"
  by (induction parent n children jcs rule: child_rows.induct) auto

lemma child_rows_ordinals: "r \<in> set (child_rows parent n children jcs) \<Longrightarrow> n \<le> ch_ordinal r"
  by (induction parent n children jcs rule: child_rows.induct) auto

lemma child_rows_sorted: "sorted (map ch_ordinal (child_rows parent n children jcs))"
  by (induction parent n children jcs rule: child_rows.induct) (fastforce dest: child_rows_ordinals)+

lemma select_children_new:
  assumes "batch_children db' = batch_children db @ child_rows parent n children jcs"
  shows "select_children parent db = [] \<Longrightarrow> select_children parent db' = child_rows parent n children jcs"
    and "k \<noteq> parent \<Longrightarrow> select_children k db' = select_children k db"
proof -
  have own: "filter (\<lambda>r. ch_parent_operation_id r = parent) (child_rows parent n children jcs) = child_rows parent n children jcs"
    by (auto simp: filter_id_conv dest: child_rows_parent)
  have other: "filter (\<lambda>r. ch_parent_operation_id r = k) (child_rows parent n children jcs) = []" if "k \<noteq> parent"
    using that by (auto simp: filter_empty_conv dest: child_rows_parent)
  have nil: "filter (\<lambda>r. ch_parent_operation_id r = parent) (batch_children db) = []" if "select_children parent db = []"
    using that unfolding select_children_def by (metis length_0_conv length_sort)
  show "select_children parent db' = child_rows parent n children jcs" if "select_children parent db = []"
    using nil [OF that] own child_rows_sorted
    by (simp add: select_children_def assms sorted_sort_id sort_key_id_if_sorted)
  show "select_children k db' = select_children k db" if "k \<noteq> parent"
    using other [OF that] by (simp add: select_children_def assms)
qed

lemma retained_children_new:
  assumes "env_laws env" and "results_jcs env children = Inr jcs"
  shows "retained_children env (child_rows parent n children jcs) = Inr (children_json env n (zip children jcs))"
  using assms(2)
proof (induction children arbitrary: n jcs)
  case (Cons child children)
  then show ?case
    using env_lawsD(9) [OF assms(1)] by (auto simp: and_then_eq_Inr)
qed simp

lemma publish_batch_cases:
  assumes "publish_batch_tx env a result children s db = (db', Inr out)"
  obtains (replay) "db' = db" and "out = Checkpointed ()" and "result_of db (sr_operation_id result) \<noteq> None"
    | (publish) rj receipt rd jcs db0 db1 db2 n h snap where "read_operation env db (sr_operation_id result) = Inr (Some snap)"
      and "result_of db (sr_operation_id result) = None" and "os_state snap = OS_Committed" and "os_is_batch snap"
      and "os_operation_digest snap = sr_operation_digest result"
      and "e_jcs env (signing_result_json result) = Inr rj"
      and "require_reserved db a (sr_operation_id result) = Inr ()"
      and "retained_validation_receipt env db (sr_operation_id result) = Inr receipt"
      and "vr_approval_id receipt = a" and "vr_operation_digest receipt = sr_operation_digest result"
      and "insert_children env (sr_operation_id result) 0 children db = (db0, Inr ())"
      and "mark_succeeded (sr_operation_id result) rj db0 = (db1, Inr n)"
      and "update_reservation_state a (sr_operation_id result) ''COMMITTED'' db1 = (db2, Inr ())"
      and "e_receipt_digest env receipt = Inr rd" and "results_jcs env children = Inr jcs"
      and "append_audit env ''batch.published'' (batch_payload env a result rj rd children jcs) s db2 = (db', Inr h)"
      and "out = Durable BatchPublished ()"
proof -
  obtain snap where snap: "read_operation env db (sr_operation_id result) = Inr (Some snap)"
    using assms by (auto simp: publish_batch_tx_def tx_bind_Inr and_then_eq_Inr)
  show thesis
  proof (cases "result_of db (sr_operation_id result)")
    case (Some prior)
    then show thesis
      using assms snap replay
      by (auto simp: publish_batch_tx_def tx_bind_Inr and_then_eq_Inr split: if_splits)
  next
    case None
    then show thesis
      using assms snap publish [OF snap None]
      by (auto simp: publish_batch_tx_def tx_bind_Inr and_then_eq_Inr split: if_splits)
  qed
qed

lemma publish_batch_audited:
  assumes laws: "env_laws env" "signer_laws env s" and adm: "result_admissible env result"
  shows "audited_tx env s (publish_batch_tx env a result children s)"
  unfolding audited_tx_def
proof (intro allI impI)
  fix db db' out
  assume run: "publish_batch_tx env a result children s db = (db', Inr out)" and ok: "chain_ok env s db" "links_ok db"
  let ?i = "sr_operation_id result"
  show "chain_ok env s db' \<and> links_ok db'"
    using run
  proof (cases rule: publish_batch_cases)
    case replay
    with ok show ?thesis by simp
  next
    case (publish rj receipt rd jcs db0 db1 db2 n h snap)
    note ins = insert_children_effect [OF publish(11)]
    have rows: "batch_children db0 = batch_children db @ child_rows ?i 0 children jcs"
      using ins(1) publish(15) by auto
    have p: "retains db db2" "links_ok db2" "audit_chain db2 = audit_chain db" "result_of db2 ?i = Some rj"
      "select_children ?i db2 = select_children ?i db0"
      using publish_retains [OF publish(2) read_operation_result(1) [OF publish(1)] ins(2,3,4)
          select_children_new(2) [OF rows] publish(12,13) ok(2)] by simp_all
    have kids: "select_children ?i db2 = child_rows ?i 0 children jcs"
      using p(5) select_children_new(1) [OF rows] ok(2) publish(2) by (simp add: links_ok_def)
    have "retained_validation_receipt env db2 ?i = Inr receipt"
      using publish(8) p(1) by (rule retained_validation_receipt_retains)
    moreover have "retained_result env db2 ?i = Inr (rj, result)"
      using p(4) env_lawsD(9) [OF laws(1) publish(6)] by (simp add: retained_result_def result_of_def)
    ultimately have "is_ok (verify_audit_correlation env db2 ''batch.published'' q)"
      if "e_jcs env (batch_payload env a result rj rd children jcs) = Inr q" for q
      using env_lawsD(8) [OF laws(1) that] publish(14) adm kids retained_children_new [OF laws(1) publish(15), of ?i 0]
      by (simp add: verify_audit_correlation_def batch_payload_def correlate_batch_def payload_str_def
          result_admissible_def)
    then have "chain_ok env s db'"
      by (intro chain_ok_append [OF ok(1) laws p(1,3) publish(16)]) simp_all
    moreover have "links_ok db'"
      using append_audit_frame [OF publish(16)] links_ok_cong [of db' db2] p(2) by auto
    ultimately show ?thesis ..
  qed
qed

lemma insert_children_counted: "counted_tx (insert_children env parent n children)"
  by (induction children arbitrary: n) (auto intro: counted_intros)

lemma insert_children_append_only: "append_only_tx (insert_children env parent n children)"
  by (induction children arbitrary: n) (auto intro: append_only_intros)

interpretation publish_batch: audited_body env "publish_batch_tx env approval_id result children" "result_admissible env result"
  for env approval_id result children
proof
  show "counted_tx (publish_batch_tx env approval_id result children s)" for s
    unfolding publish_batch_tx_def mark_succeeded_def by (intro counted_intros insert_children_counted)
  show "append_only_tx (publish_batch_tx env approval_id result children s)" for s
    unfolding publish_batch_tx_def mark_succeeded_def by (intro append_only_intros insert_children_append_only)
qed (rule publish_batch_audited)

section \<open>The life cycle of an operation\<close>

interpretation operation_cycle: lifecycle valid_operation_transition operation_rank
proof
  show "operation_rank a < operation_rank b" if "valid_operation_transition a b" for a b
    using that by (cases a; cases b) simp_all
qed

end
