(* ===== verification/Reservations.thy ===== *)
theory Reservations
  imports Operations
begin

text \<open>
  The accounting ledger of the journal (journal.rs): reserving budget for an operation under the
  lifetime, sliding-window and value limits of its approval, and finalizing a reservation. The
  windows of an approval include the reservations of the approvals it renews.
\<close>

section \<open>Requests and limits\<close>

record ReservationRequest =
  rr_approval_id :: Digest32
  rr_operation_id :: OperationId
  rr_operation_digest :: Digest32
  rr_signature_count :: u64
  rr_reserved_at_ms :: u64
  rr_observed_utc_ms :: "u64 option"
  rr_monotonic_anchor_ns :: u64
  rr_clock_boot_epoch :: BootEpoch
  rr_values :: "(string \<times> DecimalU256) list"

record SlidingBudgetLimit =
  sb_max_operations :: u64
  sb_max_signatures :: u64
  sb_duration_ms :: u64

record SlidingValueLimit =
  sv_asset_id :: string
  sv_maximum :: DecimalU256
  sv_duration_ms :: u64

record BudgetLimits =
  bl_max_operations :: u64
  bl_max_signatures :: u64
  bl_rate_limits :: "SlidingBudgetLimit list"
  bl_value_limits :: "(string \<times> DecimalU256) list"
  bl_rolling_value_limits :: "SlidingValueLimit list"

section \<open>Queries\<close>

definition is_live :: "reservation_row \<Rightarrow> bool" where
  "is_live row \<longleftrightarrow> rs_state row \<noteq> ''RELEASED''"

definition live_reservations :: "db \<Rightarrow> Digest32 \<Rightarrow> reservation_row list" where
  "live_reservations db approval_id = filter (\<lambda>r. rs_approval_id r = approval_id \<and> is_live r) (reservations db)"

text \<open>
  The recursive query over \<open>renewal_of\<close>. With the fuel of one step more than there are rows it
  ends exactly when the walk ends.
\<close>

fun lineage_from :: "nat \<Rightarrow> db \<Rightarrow> Digest32 \<Rightarrow> Digest32 list option" where
  "lineage_from 0 db approval_id = None"
| "lineage_from (Suc n) db approval_id =
     (case Option.bind (select_metadata approval_id db) md_renewal_of of
        None \<Rightarrow> Some [approval_id]
      | Some renewed \<Rightarrow> map_option ((#) approval_id) (lineage_from n db renewed))"

definition lineage :: "db \<Rightarrow> Digest32 \<Rightarrow> JournalError + Digest32 list" where
  "lineage db approval_id = ok_or (lineage_from (Suc (length (approval_metadata db))) db approval_id) QueryDiverges"

definition lineage_reservations :: "db \<Rightarrow> Digest32 list \<Rightarrow> reservation_row list" where
  "lineage_reservations db ids = filter (\<lambda>r. rs_approval_id r \<in> set ids \<and> is_live r) (reservations db)"

text \<open>\<open>reservation_values JOIN reservations\<close>, live reservations only.\<close>

definition live_values :: "db \<Rightarrow> Digest32 list \<Rightarrow> string \<Rightarrow> (string \<times> string) list" where
  "live_values db ids asset_id = List.map_filter (\<lambda>v.
     if rv_approval_id v \<in> set ids \<and> rv_asset_id v = asset_id
     then (case select_reservation (rv_approval_id v) (rv_operation_id v) db of
        Some r \<Rightarrow> if is_live r then Some (rv_amount v, rs_reserved_at_ms r) else None
      | None \<Rightarrow> None)
     else None) (reservation_values db)"

section \<open>Limits\<close>

fun sum_signatures :: "env \<Rightarrow> reservation_row list \<Rightarrow> u64 \<Rightarrow> JournalError + u64" where
  "sum_signatures env [] acc = Inr acc"
| "sum_signatures env (row # rows) acc =
     and_then (parse_u64 env (rs_signature_count row)) (\<lambda>n.
     and_then (ok_or (checked_add acc n) (Protocol LimitExceededSignatures ''signature counter overflow'')) (\<lambda>acc.
     sum_signatures env rows acc))"

definition exceeds :: "u64 \<Rightarrow> u64 \<Rightarrow> u64 \<Rightarrow> bool" where
  "exceeds used added maximum = (case checked_add used added of None \<Rightarrow> True | Some after \<Rightarrow> maximum < after)"

text \<open>A row count, read as an unsigned number.\<close>

definition count_u64 :: "nat \<Rightarrow> JournalError + u64" where
  "count_u64 n = (if USIZE_LIMIT \<le> n then Inl (Storage ''out of range integral type conversion attempted'') else Inr (of_nat n))"

definition validate_lifetime_limits :: "env \<Rightarrow> db \<Rightarrow> ReservationRequest \<Rightarrow> BudgetLimits \<Rightarrow> JournalError + unit" where
  "validate_lifetime_limits env db request limits =
     and_then (count_u64 (length (live_reservations db (rr_approval_id request)))) (\<lambda>ops.
     and_then (sum_signatures env (live_reservations db (rr_approval_id request)) 0) (\<lambda>sigs.
     if exceeds ops 1 (bl_max_operations limits)
     then Inl (Protocol LimitExceededOperations ''operation lifetime limit exceeded'')
     else if exceeds sigs (rr_signature_count request) (bl_max_signatures limits)
     then Inl (Protocol LimitExceededSignatures ''signature lifetime limit exceeded'')
     else Inr ()))"

fun parse_usage :: "env \<Rightarrow> reservation_row list \<Rightarrow> JournalError + (u64 \<times> u64) list" where
  "parse_usage env [] = Inr []"
| "parse_usage env (row # rows) =
     and_then (parse_u64 env (rs_signature_count row)) (\<lambda>signatures.
     and_then (parse_u64 env (rs_reserved_at_ms row)) (\<lambda>reserved_at.
     and_then (parse_usage env rows) (\<lambda>usage. Inr ((signatures, reserved_at) # usage))))"

fun window_usage :: "u64 \<Rightarrow> u64 \<Rightarrow> (u64 \<times> u64) list \<Rightarrow> u64 \<Rightarrow> u64 \<Rightarrow> JournalError + u64 \<times> u64" where
  "window_usage window_start now [] ops sigs = Inr (ops, sigs)"
| "window_usage window_start now ((entry_signatures, reserved_at) # usage) ops sigs =
     (if window_start < reserved_at \<and> reserved_at \<le> now
      then and_then (ok_or (checked_add ops 1) (Protocol LimitExceededRate ''rolling operation counter overflow'')) (\<lambda>ops.
        and_then (ok_or (checked_add sigs entry_signatures)
          (Protocol LimitExceededRate ''rolling signature counter overflow'')) (\<lambda>sigs.
        window_usage window_start now usage ops sigs))
      else window_usage window_start now usage ops sigs)"

definition check_rate_limit :: "ReservationRequest \<Rightarrow> (u64 \<times> u64) list \<Rightarrow> SlidingBudgetLimit \<Rightarrow> JournalError + unit" where
  "check_rate_limit request usage limit =
     (if sb_duration_ms limit = 0 \<or> sb_max_operations limit = 0 \<or> sb_max_signatures limit = 0
      then Inl (Protocol BackendInvalidRequest ''sliding-window limits must be positive'')
      else and_then (window_usage (saturating_sub (rr_reserved_at_ms request) (sb_duration_ms limit))
          (rr_reserved_at_ms request) usage 0 0) (\<lambda>(operations, signatures).
        if exceeds operations 1 (sb_max_operations limit)
          \<or> exceeds signatures (rr_signature_count request) (sb_max_signatures limit)
        then Inl (Protocol LimitExceededRate ''exact continuous sliding-window limit exceeded'')
        else Inr ()))"

fun check_all :: "('a \<Rightarrow> JournalError + unit) \<Rightarrow> 'a list \<Rightarrow> JournalError + unit" where
  "check_all f [] = Inr ()"
| "check_all f (x # xs) = and_then (f x) (\<lambda>_. check_all f xs)"

definition validate_rate_limits :: "env \<Rightarrow> db \<Rightarrow> ReservationRequest \<Rightarrow> BudgetLimits \<Rightarrow> JournalError + unit" where
  "validate_rate_limits env db request limits =
     (if bl_rate_limits limits = [] then Inr ()
      else and_then (lineage db (rr_approval_id request)) (\<lambda>ids.
        and_then (parse_usage env (lineage_reservations db ids)) (\<lambda>usage.
        check_all (check_rate_limit request usage) (bl_rate_limits limits))))"

fun sum_amounts :: "env \<Rightarrow> string list \<Rightarrow> nat \<Rightarrow> JournalError + nat" where
  "sum_amounts env [] acc = Inr acc"
| "sum_amounts env (amount # amounts) acc =
     and_then (parse_biguint env amount) (\<lambda>n. sum_amounts env amounts (acc + n))"

definition check_value_limit :: "env \<Rightarrow> db \<Rightarrow> ReservationRequest \<Rightarrow> BudgetLimits \<Rightarrow> string \<times> DecimalU256 \<Rightarrow> JournalError + unit" where
  "check_value_limit env db request limits asset_amount = (case asset_amount of (asset_id, requested) \<Rightarrow>
     and_then (ok_or (map_of (bl_value_limits limits) asset_id)
       (Protocol LimitExceededValue (''asset '' @ asset_id @ '' is not approved''))) (\<lambda>limit.
     and_then (sum_amounts env (map fst (live_values db [rr_approval_id request] asset_id)) 0) (\<lambda>used.
     and_then (parse_biguint env requested) (\<lambda>requested.
     and_then (parse_biguint env limit) (\<lambda>limit.
     if limit < used + requested
     then Inl (Protocol LimitExceededValue (''value limit exceeded for asset '' @ asset_id))
     else Inr ())))))"

definition validate_value_limits :: "env \<Rightarrow> db \<Rightarrow> ReservationRequest \<Rightarrow> BudgetLimits \<Rightarrow> JournalError + unit" where
  "validate_value_limits env db request limits = check_all (check_value_limit env db request limits) (rr_values request)"

fun sum_window_amounts :: "env \<Rightarrow> u64 \<Rightarrow> u64 \<Rightarrow> (string \<times> string) list \<Rightarrow> nat \<Rightarrow> JournalError + nat" where
  "sum_window_amounts env window_start now [] acc = Inr acc"
| "sum_window_amounts env window_start now ((amount, reserved_at) # rows) acc =
     and_then (parse_u64 env reserved_at) (\<lambda>reserved_at.
     if window_start < reserved_at \<and> reserved_at \<le> now
     then and_then (parse_biguint env amount) (\<lambda>n. sum_window_amounts env window_start now rows (acc + n))
     else sum_window_amounts env window_start now rows acc)"

definition check_rolling_value_limit :: "env \<Rightarrow> db \<Rightarrow> ReservationRequest \<Rightarrow> SlidingValueLimit \<Rightarrow> JournalError + unit" where
  "check_rolling_value_limit env db request limit =
     (if sv_duration_ms limit = 0
      then Inl (Protocol BackendInvalidRequest ''rolling value-window duration must be positive'')
      else case map_of (rr_values request) (sv_asset_id limit) of
        None \<Rightarrow> Inr ()
      | Some requested \<Rightarrow>
          and_then (parse_biguint env requested) (\<lambda>requested.
          and_then (lineage db (rr_approval_id request)) (\<lambda>ids.
          and_then (sum_window_amounts env (saturating_sub (rr_reserved_at_ms request) (sv_duration_ms limit))
            (rr_reserved_at_ms request) (live_values db ids (sv_asset_id limit)) requested) (\<lambda>used.
          and_then (parse_biguint env (sv_maximum limit)) (\<lambda>maximum.
          if maximum < used
          then Inl (Protocol LimitExceededValue (''rolling value limit exceeded for asset '' @ sv_asset_id limit))
          else Inr ())))))"

definition validate_rolling_value_limits :: "env \<Rightarrow> db \<Rightarrow> ReservationRequest \<Rightarrow> BudgetLimits \<Rightarrow> JournalError + unit" where
  "validate_rolling_value_limits env db request limits =
     check_all (check_rolling_value_limit env db request) (bl_rolling_value_limits limits)"

section \<open>The clock of a reservation\<close>

definition validate_reservation_clock :: "db \<Rightarrow> u64 \<Rightarrow> bool \<Rightarrow> JournalError + unit" where
  "validate_reservation_clock db reserved_at_ms trusted_time_required = (case clock_state db of
     None \<Rightarrow>
       if trusted_time_required
       then Inl (Protocol ClockUntrusted ''rate-limited reservation requires initialized trusted time'')
       else Inr ()
   | Some clock \<Rightarrow>
       if trusted_time_required \<and> ck_condition clock \<notin> {''HEALTHY'', ''FORWARD_JUMP_REJECTED'', ''REPAIRED''}
       then Inl (Protocol ClockUntrusted (''rate-limited reservation denied while clock is '' @ ck_condition clock))
       else if ck_last_effective_ms clock \<noteq> u64_to_string reserved_at_ms
       then Inl (Protocol ClockUntrusted ''reservation timestamp is not the journal's durable effective time'')
       else Inr ())"

section \<open>Reserving\<close>

definition reservation_state :: "db \<Rightarrow> ReservationRequest \<Rightarrow> JournalError + ReservationState option" where
  "reservation_state db request = reservation_state_by_id db (rr_approval_id request) (rr_operation_id request)"

definition reservation_matches :: "env \<Rightarrow> db \<Rightarrow> ReservationRequest \<Rightarrow> JournalError + bool" where
  "reservation_matches env db request =
     (case select_reservation (rr_approval_id request) (rr_operation_id request) db of
        None \<Rightarrow> Inl (sqlite_error env QueryReturnedNoRows)
      | Some row \<Rightarrow>
          if rs_operation_digest row \<noteq> rr_operation_digest request
            \<or> rs_signature_count row \<noteq> u64_to_string (rr_signature_count request)
          then Inr False
          else Inr (sort_key fst (map (\<lambda>v. (rv_asset_id v, rv_amount v))
              (filter (\<lambda>v. rv_approval_id v = rr_approval_id request \<and> rv_operation_id v = rr_operation_id request)
                (reservation_values db))) = rr_values request))"

definition reservation_row_of :: "ReservationRequest \<Rightarrow> reservation_row" where
  "reservation_row_of request =
     \<lparr>rs_approval_id = rr_approval_id request, rs_operation_id = rr_operation_id request,
      rs_operation_digest = rr_operation_digest request,
      rs_signature_count = u64_to_string (rr_signature_count request),
      rs_reserved_at_ms = u64_to_string (rr_reserved_at_ms request),
      rs_observed_utc_ms = map_option u64_to_string (rr_observed_utc_ms request),
      rs_monotonic_anchor_ns = u64_to_string (rr_monotonic_anchor_ns request),
      rs_clock_boot_epoch = rr_clock_boot_epoch request, rs_state = ''RESERVED''\<rparr>"

definition reserved_payload :: "ReservationRequest \<Rightarrow> json" where
  "reserved_payload request = json_object
     [(''approval_id'', JString (rr_approval_id request)),
      (''operation_id'', JString (rr_operation_id request)),
      (''operation_digest'', JString (rr_operation_digest request)),
      (''signature_count'', JNumber (unat (rr_signature_count request))),
      (''values'', json_object (map (\<lambda>(asset, amount). (asset, JString amount)) (rr_values request)))]"

definition reserve_tx :: "env \<Rightarrow> ReservationRequest \<Rightarrow> BudgetLimits \<Rightarrow> bool \<Rightarrow> AuditSigner \<Rightarrow> unit outcome tx" where
  "reserve_tx env request limits durable_clock_guard audit_signer =
     tx_bind (tx_query (\<lambda>db. map_option (\<lambda>(a, m). ap_state a) (select_approval_record (rr_approval_id request) db))) (\<lambda>approval_state.
     if approval_state \<noteq> Some ''ACTIVE''
     then tx_fail (Protocol ApprovalRevoked ''reservation requires an active canonical approval'')
     else tx_bind (if durable_clock_guard
         then tx_check (\<lambda>db. validate_reservation_clock db (rr_reserved_at_ms request)
           (bl_rate_limits limits \<noteq> [] \<or> bl_rolling_value_limits limits \<noteq> []))
         else tx_return ()) (\<lambda>_.
     tx_bind (tx_check (\<lambda>db. reservation_state db request)) (\<lambda>existing.
     case existing of
       Some existing \<Rightarrow>
         if existing = RS_Reserved
         then tx_bind (tx_check (\<lambda>db. reservation_matches env db request)) (\<lambda>matches.
           if matches then tx_return (Checkpointed ())
           else tx_fail (Protocol OperationIdConflict ''same reservation operation changed immutable accounting''))
         else tx_fail (Protocol OperationIdConflict ''reservation operation is already finalized'')
     | None \<Rightarrow>
         tx_bind (tx_check (\<lambda>db. validate_lifetime_limits env db request limits)) (\<lambda>_.
         tx_bind (tx_check (\<lambda>db. validate_rate_limits env db request limits)) (\<lambda>_.
         tx_bind (tx_check (\<lambda>db. validate_value_limits env db request limits)) (\<lambda>_.
         tx_bind (tx_check (\<lambda>db. validate_rolling_value_limits env db request limits)) (\<lambda>_.
         tx_bind (insert_reservation env (reservation_row_of request)) (\<lambda>_.
         tx_bind (tx_iter (\<lambda>(asset_id, amount). insert_value env
             \<lparr>rv_approval_id = rr_approval_id request, rv_operation_id = rr_operation_id request,
              rv_asset_id = asset_id, rv_amount = amount\<rparr>) (rr_values request)) (\<lambda>_.
         tx_bind (append_audit env ''reservation.created'' (reserved_payload request) audit_signer) (\<lambda>_.
         tx_return (Durable ReservationCreated ())))))))))))"

definition reserve_for_clock_profile :: "env \<Rightarrow> ReservationRequest \<Rightarrow> BudgetLimits \<Rightarrow> bool \<Rightarrow> unit jm" where
  "reserve_for_clock_profile env request limits durable_clock_guard j =
     (if rr_signature_count request = 0
      then (j, Inl (Protocol BackendInvalidRequest ''reservation signature count must be positive''))
      else mutate env (reserve_tx env request limits durable_clock_guard) j)"

definition reserve :: "env \<Rightarrow> ReservationRequest \<Rightarrow> BudgetLimits \<Rightarrow> unit jm" where
  "reserve env request limits = reserve_for_clock_profile env request limits True"

section \<open>Finalizing\<close>

definition finalize_reservation_tx :: "env \<Rightarrow> Digest32 \<Rightarrow> OperationId \<Rightarrow> ReservationState \<Rightarrow> AuditSigner \<Rightarrow> unit outcome tx" where
  "finalize_reservation_tx env approval_id operation_id next audit_signer =
     tx_bind (tx_query (\<lambda>db. map_option rs_state (select_reservation approval_id operation_id db))) (\<lambda>current.
     if current = Some ''RESERVED'' then
       tx_bind (update_reservation_state approval_id operation_id (reservation_state_text next)) (\<lambda>_.
       tx_bind (append_audit env ''reservation.finalized''
         (json_object [(''approval_id'', JString approval_id), (''operation_id'', JString operation_id),
            (''state'', JString (reservation_state_text next))]) audit_signer) (\<lambda>_.
       tx_return (Durable ReservationFinalized ())))
     else if current = Some (reservation_state_text next) then tx_return (Checkpointed ())
     else tx_fail (Protocol OperationIdConflict ''reservation is missing or already finalized differently''))"

definition finalize_reservation :: "env \<Rightarrow> Digest32 \<Rightarrow> OperationId \<Rightarrow> ReservationState \<Rightarrow> unit jm" where
  "finalize_reservation env approval_id operation_id next j =
     (if next = RS_Reserved
      then (j, Inl (Protocol BackendInvalidRequest ''reservation finalization requires a terminal ledger state''))
      else mutate env (finalize_reservation_tx env approval_id operation_id next) j)"

definition reservation_status :: "db \<Rightarrow> Digest32 \<Rightarrow> OperationId \<Rightarrow> JournalError + ReservationState option" where
  "reservation_status db approval_id operation_id = reservation_state_by_id db approval_id operation_id"

definition reservation_signature_count :: "env \<Rightarrow> db \<Rightarrow> Digest32 \<Rightarrow> OperationId \<Rightarrow> JournalError + u64 option" where
  "reservation_signature_count env db approval_id operation_id = (case select_reservation approval_id operation_id db of
     None \<Rightarrow> Inr None
   | Some row \<Rightarrow> and_then (parse_u64 env (rs_signature_count row)) (\<lambda>n. Inr (Some n)))"

section \<open>The bodies are audited\<close>

interpretation reserve: audited_body env "reserve_tx env request limits guard" True
  for env request limits guard
proof
  show "counted_tx (reserve_tx env request limits guard s)" for s
    unfolding reserve_tx_def by (intro counted_intros)
  show "append_only_tx (reserve_tx env request limits guard s)" for s
    unfolding reserve_tx_def by (intro append_only_intros)
  show "audited_tx env s (reserve_tx env request limits guard s)" if "env_laws env" "signer_laws env s" for s
    unfolding reserve_tx_def by (intro audited_intros that) (simp_all add: reserved_payload_def)
qed

interpretation finalize_reservation: audited_body env "finalize_reservation_tx env approval_id operation_id next" True
  for env approval_id operation_id "next"
  by unfold_locales
     (auto simp: finalize_reservation_tx_def intro!: counted_intros append_only_intros audited_intros)

end
