(* ===== verification/Texts.thy ===== *)
theory Texts
  imports JournalTypes
begin

text \<open>
  Functions of the standard library on texts that several components use: \<open>str::split\<close> at a character,
  \<open>parse\<close> of an unsigned integer, with the lemmas that say which texts they accept.
\<close>

section \<open>Splitting and joining\<close>

fun split_on :: "char \<Rightarrow> string \<Rightarrow> string list" where
  "split_on d [] = [[]]"
| "split_on d (c # cs) = (if c = d then [] # split_on d cs else (c # hd (split_on d cs)) # tl (split_on d cs))"

fun join_with :: "char \<Rightarrow> string list \<Rightarrow> string" where
  "join_with d [] = []"
| "join_with d [s] = s"
| "join_with d (s # t # ss) = s @ d # join_with d (t # ss)"

lemma split_on_Cons: "\<exists>s ss. split_on d cs = s # ss"
  by (cases cs) auto

lemma join_split: "join_with d (split_on d cs) = cs"
proof (induction cs)
  case (Cons c cs)
  obtain s ss where "split_on d cs = s # ss" using split_on_Cons by blast
  with Cons show ?case by (cases ss) auto
qed simp

lemma split_join: "ss \<noteq> [] \<Longrightarrow> \<forall>s \<in> set ss. d \<notin> set s \<Longrightarrow> split_on d (join_with d ss) = ss"
proof (induction d ss rule: join_with.induct)
  case (2 d s)
  then show ?case by (induction s) auto
next
  case (3 d s t ss)
  then have "split_on d (join_with d (t # ss)) = t # ss" by simp
  moreover have "d \<notin> set s" using 3 by simp
  ultimately show ?case by (induction s) auto
qed simp

lemma strip_join: "\<forall>s \<in> set ss. d \<notin> set s \<Longrightarrow> filter (\<lambda>c. c \<noteq> d) (join_with d ss) = concat ss"
proof (induction d ss rule: join_with.induct)
  case (2 d s)
  then have "filter (\<lambda>c. c \<noteq> d) s = s" by (intro filter_True) auto
  then show ?case by simp
next
  case (3 d s t ss)
  then have "filter (\<lambda>c. c \<noteq> d) s = s" by (intro filter_True) auto
  with 3 show ?case by simp
qed simp

lemma split_on_parts: "split_on c s = q # qs \<Longrightarrow> s = q @ concat (map (Cons c) qs) \<and> c \<notin> set q \<and> list_all (\<lambda>x. c \<notin> set x) qs"
proof (induction s arbitrary: q qs)
  case (Cons x xs)
  obtain r rs where r: "split_on c xs = r # rs" using split_on_Cons by blast
  from Cons.IH [OF r] Cons.prems r show ?case by (cases "x = c") auto
qed auto

lemma split_on_join: "c \<notin> set q \<Longrightarrow> list_all (\<lambda>x. c \<notin> set x) qs \<Longrightarrow> split_on c (q @ concat (map (Cons c) qs)) = q # qs"
proof (induction q)
  case Nil
  then show ?case
  proof (induction qs)
    case (Cons r rs)
    have "split_on c (r @ concat (map (Cons c) rs)) = r # rs"
    proof -
      have "c \<notin> set r" "split_on c (concat (map (Cons c) rs)) = [] # rs" using Cons by simp_all
      then show ?thesis by (induction r) auto
    qed
    then show ?case by simp
  qed simp
qed auto

lemma split_on_iff:
  "split_on c s = q # qs \<longleftrightarrow> s = q @ concat (map (Cons c) qs) \<and> c \<notin> set q \<and> list_all (\<lambda>x. c \<notin> set x) qs"
  using split_on_parts split_on_join by metis

section \<open>Decimal texts\<close>

text \<open>\<open>parse\<close> of an unsigned integer with the given number of bits.\<close>

definition unsigned_from_str :: "nat \<Rightarrow> string \<Rightarrow> nat option" where
  "unsigned_from_str bits s =
     (let body = (if s \<noteq> [] \<and> hd s = CHR ''+'' then tl s else s) in
      if body = [] then None
      else case digits_value body 0 of None \<Rightarrow> None | Some n \<Rightarrow> if n < 2 ^ bits then Some n else None)"

definition is_digit :: "char \<Rightarrow> bool" where
  "is_digit c \<longleftrightarrow> 48 \<le> (of_char c :: nat) \<and> (of_char c :: nat) \<le> 57"

lemma digits_value_Some: "(\<exists>n. digits_value s acc = Some n) \<longleftrightarrow> list_all is_digit s"
  by (induction s arbitrary: acc) (auto simp: is_digit_def Let_def)

lemma digits_value_snoc:
  "digits_value (s @ [c]) 0 = Some n \<longleftrightarrow> is_digit c \<and> (\<exists>m. digits_value s 0 = Some m \<and> n = 10 * m + (of_char c - 48))"
  by (auto simp: digits_value_append is_digit_def Let_def split: option.splits)

lemma digit_char_of: "is_digit c \<Longrightarrow> char_of (48 + (of_char c - 48 :: nat)) = c"
  by (simp add: is_digit_def)

text \<open>Digits without a leading zero are the decimal text of their value.\<close>

lemma canonical_digits:
  "s \<noteq> [] \<Longrightarrow> digits_value s 0 = Some n \<Longrightarrow> hd s \<noteq> CHR ''0'' \<or> length s = 1 \<Longrightarrow> s = decimal n \<and> (hd s \<noteq> CHR ''0'' \<longrightarrow> 0 < n)"
proof (induction s arbitrary: n rule: rev_induct)
  case (snoc c s)
  from snoc.prems(2) obtain m where c: "is_digit c" and m: "digits_value s 0 = Some m" and n: "n = 10 * m + (of_char c - 48)"
    by (auto simp: digits_value_snoc)
  have d: "of_char c - 48 < (10::nat)" using c unfolding is_digit_def by linarith
  show ?case
  proof (cases "s = []")
    case True
    then have "n = of_char c - 48" using m n by simp
    moreover have "(of_char c :: nat) = 48 \<longrightarrow> c = CHR ''0''" using of_char_eq_iff [of c "CHR ''0''", where 'a = nat] by simp
    ultimately show ?thesis using True c d digit_char_of [OF c] by (subst decimal.simps) (auto simp: is_digit_def)
  next
    case False
    then have h: "hd s \<noteq> CHR ''0''" using snoc.prems(3) by simp
    from snoc.IH [OF False m] h have "s = decimal m" "0 < m" by simp_all
    then have "decimal n = s @ [c]" using n d digit_char_of [OF c] by (subst decimal.simps) simp
    then show ?thesis using False h \<open>0 < m\<close> n by simp
  qed
qed simp

lemma decimal_digits: "list_all is_digit (decimal n)"
  using digits_value_Some [of "decimal n" 0] digits_value_decimal by blast

lemma decimal_no_zero: "1 < length (decimal n) \<Longrightarrow> hd (decimal n) \<noteq> CHR ''0''"
proof (induction n rule: decimal.induct)
  case (1 n)
  show ?case
  proof (cases "n < 10")
    case True
    then show ?thesis using 1(2) by (simp add: decimal.simps)
  next
    case False
    have "hd (decimal k) \<noteq> CHR ''0''" if "0 < k" "k < 10" for k
    proof
      assume "hd (decimal k) = CHR ''0''"
      then have "char_of (48 + k) = CHR ''0''" using that by (simp add: decimal.simps)
      then have "(of_char (char_of (48 + k) :: char) :: nat) = of_char CHR ''0''" by simp
      then show False using that by simp
    qed
    moreover have "1 < length (decimal (n div 10))" if "\<not> n div 10 < 10"
      using that by (subst decimal.simps) (simp add: Suc_lessI)
    ultimately have "hd (decimal (n div 10)) \<noteq> CHR ''0''" using 1(1) False by (cases "n div 10 < 10") auto
    then show ?thesis using False by (subst decimal.simps) simp
  qed
qed

end
