(* ===== verification/Clock.thy ===== *)
theory Clock
  imports JournalGuard Texts
begin

text \<open>
  The durable clock of the Broker: observing and repairing it in the journal (journal.rs) and the
  clock service on top of it (clock.rs). The evaluation of a reading against the persisted
  state is the function of bloom-trusted-time, a parameter of the environment.
\<close>

section \<open>Readings and decisions\<close>

record TimeReading =
  tr_utc_ms :: "u64 option"
  tr_monotonic_elapsed_ms :: u64
  tr_monotonic_anchor_ns :: u64
  tr_boot_epoch :: BootEpoch

datatype ClockCondition = CC_Healthy | CC_ForwardJumpRejected | CC_Untrusted | CC_RollbackFrozen | CC_Repaired

record ClockDecision =
  cd_effective_now_ms :: u64
  cd_condition :: ClockCondition
  cd_observed_utc_ms :: "u64 option"
  cd_monotonic_anchor_ns :: u64
  cd_boot_epoch :: BootEpoch

fun broker_clock_condition :: "DurableClockCondition \<Rightarrow> ClockCondition" where
  "broker_clock_condition DC_Healthy = CC_Healthy"
| "broker_clock_condition DC_Untrusted = CC_Untrusted"
| "broker_clock_condition DC_RollbackFrozen = CC_RollbackFrozen"
| "broker_clock_condition DC_ForwardJumpRejected = CC_ForwardJumpRejected"

fun clock_condition_text :: "ClockCondition \<Rightarrow> string" where
  "clock_condition_text CC_Healthy = ''HEALTHY''"
| "clock_condition_text CC_ForwardJumpRejected = ''FORWARD_JUMP_REJECTED''"
| "clock_condition_text CC_Untrusted = ''UNTRUSTED''"
| "clock_condition_text CC_RollbackFrozen = ''ROLLBACK_FROZEN''"
| "clock_condition_text CC_Repaired = ''REPAIRED''"

definition comparable_boot_epoch :: "env \<Rightarrow> BootEpoch \<Rightarrow> bytes option" where
  "comparable_boot_epoch env epoch =
     (let b = e_boot_epoch_to_bytes env epoch in if b \<noteq> replicate 16 0 then Some b else None)"

definition write_clock_state :: "u64 \<Rightarrow> ClockCondition \<Rightarrow> TimeReading \<Rightarrow> unit tx" where
  "write_clock_state effective_now_ms condition reading = upsert_clock
     \<lparr>ck_last_effective_ms = u64_to_string effective_now_ms, ck_condition = clock_condition_text condition,
      ck_observed_utc_ms = map_option u64_to_string (tr_utc_ms reading),
      ck_monotonic_anchor_ns = u64_to_string (tr_monotonic_anchor_ns reading), ck_boot_epoch = tr_boot_epoch reading\<rparr>"

section \<open>Observing\<close>

definition persisted_clock :: "env \<Rightarrow> clock_row option \<Rightarrow> JournalError + PersistedClockState option" where
  "persisted_clock env stored = (case stored of
     None \<Rightarrow> Inr None
   | Some row \<Rightarrow>
       and_then (parse_u64 env (ck_last_effective_ms row)) (\<lambda>last_effective_ms.
       and_then (parse_u64 env (ck_monotonic_anchor_ns row)) (\<lambda>anchor.
       and_then (map_err (\<lambda>_. Protocol ClockUntrusted ''persisted clock state has a malformed boot epoch'')
         (e_boot_epoch_new env (ck_boot_epoch row))) (\<lambda>epoch.
       Inr (Some \<lparr>pc_last_effective_ms = last_effective_ms, pc_monotonic_anchor_ns = anchor,
         pc_boot_epoch = comparable_boot_epoch env epoch\<rparr>)))))"

definition clock_decision :: "TimeReading \<Rightarrow> u64 \<Rightarrow> ClockCondition \<Rightarrow> ClockDecision" where
  "clock_decision reading effective_now_ms condition =
     \<lparr>cd_effective_now_ms = effective_now_ms, cd_condition = condition, cd_observed_utc_ms = tr_utc_ms reading,
      cd_monotonic_anchor_ns = tr_monotonic_anchor_ns reading, cd_boot_epoch = tr_boot_epoch reading\<rparr>"

definition clock_payload :: "u64 \<Rightarrow> json \<Rightarrow> TimeReading \<Rightarrow> json" where
  "clock_payload effective_now_ms observed reading = json_object
     [(''effective_now_ms'', JString (u64_to_string effective_now_ms)),
      (''observed_utc_ms'', observed),
      (''monotonic_anchor_ns'', JString (u64_to_string (tr_monotonic_anchor_ns reading))),
      (''boot_epoch'', JString (tr_boot_epoch reading))]"

definition append_when :: "env \<Rightarrow> bool \<Rightarrow> string \<Rightarrow> json \<Rightarrow> AuditSigner \<Rightarrow> unit tx" where
  "append_when env needed event_type payload audit_signer =
     (if needed then tx_bind (append_audit env event_type payload audit_signer) (\<lambda>_. tx_return ()) else tx_return ())"

text \<open>
  The result of an observation: the decision, or the error that a rate-limited caller gets after
  the state was committed.
\<close>

definition observe_time_tx :: "env \<Rightarrow> TimeReading \<Rightarrow> u64 \<Rightarrow> bool \<Rightarrow> AuditSigner \<Rightarrow> (JournalError + ClockDecision) outcome tx" where
  "observe_time_tx env reading max_forward_step_ms rate_limited_mutation audit_signer =
     tx_bind (tx_query clock_state) (\<lambda>stored.
     tx_bind (tx_lift (persisted_clock env stored)) (\<lambda>previous.
     tx_bind (tx_lift (map_err (Protocol ClockUntrusted) (e_evaluate_durable_clock env previous
         \<lparr>pr_utc_ms = tr_utc_ms reading, pr_monotonic_anchor_ns = tr_monotonic_anchor_ns reading,
          pr_monotonic_elapsed_ms = tr_monotonic_elapsed_ms reading\<rparr>
         (comparable_boot_epoch env (tr_boot_epoch reading)) max_forward_step_ms))) (\<lambda>(effective_now_ms, shared).
     let stored_condition = map_option ck_condition stored; condition = broker_clock_condition shared in
     if shared = DC_Untrusted then
       tx_bind (write_clock_state effective_now_ms condition reading) (\<lambda>_.
       tx_bind (append_when env (stored_condition \<noteq> Some ''UNTRUSTED'') ''clock.untrusted''
         (clock_payload effective_now_ms JNull reading) audit_signer) (\<lambda>_.
       tx_return (Checkpointed (if rate_limited_mutation
         then Inl (Protocol ClockUntrusted ''trusted platform time source is unavailable'')
         else Inr (clock_decision reading effective_now_ms condition)))))
     else
       tx_bind (tx_lift (ok_or (tr_utc_ms reading)
         (Protocol ClockUntrusted ''durable clock returned a trusted decision without UTC''))) (\<lambda>utc_ms.
       let payload = clock_payload effective_now_ms (JString (u64_to_string utc_ms)) reading in
       tx_bind (write_clock_state effective_now_ms condition reading) (\<lambda>_.
       if shared = DC_Healthy then
         tx_bind (append_when env (stored = None) ''clock.initialized'' payload audit_signer) (\<lambda>_.
         tx_return (Checkpointed (Inr (clock_decision reading effective_now_ms condition))))
       else if shared = DC_RollbackFrozen then
         tx_bind (append_when env (stored_condition \<noteq> Some ''ROLLBACK_FROZEN'') ''clock.rollback'' payload audit_signer) (\<lambda>_.
         tx_return (Checkpointed (if rate_limited_mutation
           then Inl (Protocol ClockRollback ''UTC rollback detected; effective time is frozen'')
           else Inr (clock_decision reading effective_now_ms condition))))
       else
         tx_bind (append_when env (stored_condition \<noteq> Some ''FORWARD_JUMP_REJECTED'') ''clock.forward_jump'' payload audit_signer) (\<lambda>_.
         tx_return (Checkpointed (Inr (clock_decision reading effective_now_ms condition)))))))))"

definition observe_time :: "env \<Rightarrow> TimeReading \<Rightarrow> u64 \<Rightarrow> bool \<Rightarrow> ClockDecision jm" where
  "observe_time env reading max_forward_step_ms rate_limited_mutation j =
     (case mutate env (observe_time_tx env reading max_forward_step_ms rate_limited_mutation) j of
        (j', Inl e) \<Rightarrow> (j', Inl e)
      | (j', Inr r) \<Rightarrow> (j', r))"

section \<open>Repairing\<close>

definition repair_clock_tx :: "env \<Rightarrow> u64 \<Rightarrow> AuditSigner \<Rightarrow> ClockDecision outcome tx" where
  "repair_clock_tx env accepted_utc_ms audit_signer =
     tx_bind (tx_check (\<lambda>db. ok_or (clock_state db)
       (Protocol ClockUntrusted ''clock repair requires an initialized durable clock''))) (\<lambda>row.
     tx_bind (tx_lift (parse_u64 env (ck_last_effective_ms row))) (\<lambda>prior.
     tx_bind (tx_lift (parse_u64 env (ck_monotonic_anchor_ns row))) (\<lambda>anchor.
     tx_bind (tx_lift (e_boot_epoch_new env (ck_boot_epoch row))) (\<lambda>epoch.
     let reading = \<lparr>tr_utc_ms = Some accepted_utc_ms, tr_monotonic_elapsed_ms = 0, tr_monotonic_anchor_ns = anchor,
           tr_boot_epoch = epoch\<rparr> in
     if accepted_utc_ms < prior
     then tx_fail (Protocol ClockRollback ''clock repair cannot move effective time backwards'')
     else
       tx_bind (write_clock_state accepted_utc_ms CC_Repaired reading) (\<lambda>_.
       tx_bind (append_audit env ''clock.repaired'' (json_object
         [(''prior_effective_ms'', JString (u64_to_string prior)),
          (''accepted_utc_ms'', JString (u64_to_string accepted_utc_ms)),
          (''monotonic_anchor_ns'', JString (u64_to_string anchor)),
          (''boot_epoch'', JString epoch)]) audit_signer) (\<lambda>_.
       tx_return (Checkpointed (clock_decision reading accepted_utc_ms CC_Repaired))))))))"

definition repair_clock :: "env \<Rightarrow> u64 \<Rightarrow> ClockDecision jm" where
  "repair_clock env accepted_utc_ms = mutate env (repair_clock_tx env accepted_utc_ms)"

section \<open>The clock service\<close>

datatype ReadinessState = RD_Ready | RD_DegradedReadOnly | RD_Unavailable

record BrokerClock =
  bc_boot_epoch :: BootEpoch
  bc_durable_clock_guard :: bool

definition clock_error :: "JournalError \<Rightarrow> ProtocolErrorCode \<times> string" where
  "clock_error e = (case e of
     Protocol code message \<Rightarrow> (code, message)
   | InjectedCrash _ message \<Rightarrow> (ServiceUnavailable, message)
   | Storage message \<Rightarrow> (ServiceUnavailable, message)
   | QueryDiverges \<Rightarrow> (ServiceUnavailable, []))"

definition host_wall_clock_decision :: "PlatformTimeReading \<Rightarrow> BootEpoch \<Rightarrow> (ProtocolErrorCode \<times> string) + ClockDecision" where
  "host_wall_clock_decision reading boot_epoch = (case pr_utc_ms reading of
     None \<Rightarrow> Inl (ClockUntrusted, ''platform wall clock is unavailable'')
   | Some utc_ms \<Rightarrow> Inr \<lparr>cd_effective_now_ms = utc_ms, cd_condition = CC_Healthy, cd_observed_utc_ms = Some utc_ms,
       cd_monotonic_anchor_ns = pr_monotonic_anchor_ns reading, cd_boot_epoch = boot_epoch\<rparr>)"

text \<open>An observation of a sample, or of the error of the sampler, with the step bound of bloom-trusted-time.\<close>

definition observe :: "env \<Rightarrow> u64 \<Rightarrow> BrokerClock \<Rightarrow> string + PlatformTimeReading \<Rightarrow> bool \<Rightarrow> journal
    \<Rightarrow> journal \<times> ((ProtocolErrorCode \<times> string) + ClockDecision)" where
  "observe env max_forward_step_ms clock sample rate_limited_mutation j = (case sample of
     Inl message \<Rightarrow> (j, Inl (ClockUntrusted, message))
   | Inr reading \<Rightarrow>
       if \<not> bc_durable_clock_guard clock then (j, host_wall_clock_decision reading (bc_boot_epoch clock))
       else (case observe_time env \<lparr>tr_utc_ms = pr_utc_ms reading,
             tr_monotonic_elapsed_ms = pr_monotonic_elapsed_ms reading,
             tr_monotonic_anchor_ns = pr_monotonic_anchor_ns reading, tr_boot_epoch = bc_boot_epoch clock\<rparr>
             max_forward_step_ms rate_limited_mutation j of
          (j', r) \<Rightarrow> (j', map_err clock_error r)))"

fun readiness_token :: "ClockCondition \<Rightarrow> string option" where
  "readiness_token CC_Healthy = None"
| "readiness_token CC_Repaired = None"
| "readiness_token CC_ForwardJumpRejected = Some ''clock_forward_jump''"
| "readiness_token CC_Untrusted = Some ''clock_untrusted''"
| "readiness_token CC_RollbackFrozen = Some ''clock_rollback''"

definition readiness :: "env \<Rightarrow> u64 \<Rightarrow> BrokerClock \<Rightarrow> string + PlatformTimeReading \<Rightarrow> journal
    \<Rightarrow> journal \<times> (ReadinessState \<times> string list)" where
  "readiness env max_forward_step_ms clock sample j =
     (if audit_degraded j then (j, (RD_DegradedReadOnly, [''audit_journal_degraded'']))
      else case observe env max_forward_step_ms clock sample False j of
        (j', Inl _) \<Rightarrow> (j', (RD_DegradedReadOnly, [''clock_untrusted'']))
      | (j', Inr decision) \<Rightarrow>
          (case readiness_token (cd_condition decision) of
             None \<Rightarrow> (j', (RD_Ready, []))
           | Some condition \<Rightarrow> (j', (RD_DegradedReadOnly, [condition]))))"

section \<open>The boot identifier\<close>

definition is_ascii_hexdigit :: "char \<Rightarrow> bool" where
  "is_ascii_hexdigit c = (let n = of_char c :: nat in (48 \<le> n \<and> n \<le> 57) \<or> (65 \<le> n \<and> n \<le> 70) \<or> (97 \<le> n \<and> n \<le> 102))"

definition ascii_lowercase :: "char \<Rightarrow> char" where
  "ascii_lowercase c = (let n = of_char c :: nat in if 65 \<le> n \<and> n \<le> 90 then char_of (n + 32) else c)"

definition is_whitespace :: "char \<Rightarrow> bool" where
  "is_whitespace c = (of_char c \<in> {9, 10, 11, 12, 13, 32 :: nat})"

definition trim :: "string \<Rightarrow> string" where
  "trim s = rev (dropWhile is_whitespace (rev (dropWhile is_whitespace s)))"

definition malformed_linux_boot_epoch :: "ProtocolErrorCode \<times> string" where
  "malformed_linux_boot_epoch = (ClockUntrusted, ''Linux kernel boot ID is malformed'')"

definition parse_linux_boot_epoch :: "env \<Rightarrow> string \<Rightarrow> (ProtocolErrorCode \<times> string) + BootEpoch" where
  "parse_linux_boot_epoch env raw =
     (let segments = split_on CHR ''-'' (trim raw) in
      if map length segments = [8, 4, 4, 4, 12] \<and> list_all (list_all is_ascii_hexdigit) segments
      then map_err (\<lambda>_. malformed_linux_boot_epoch) (e_boot_epoch_new env (map ascii_lowercase (concat segments)))
      else Inl malformed_linux_boot_epoch)"

section \<open>The bodies are audited\<close>

lemma append_when_intros:
  "counted_tx (append_when env b et p s)" "append_only_tx (append_when env b et p s)"
  by (auto simp: append_when_def intro: counted_intros append_only_intros)

interpretation observe_time: audited_body env "observe_time_tx env reading step rate_limited" True
  for env reading step rate_limited
proof
  show "counted_tx (observe_time_tx env reading step rate_limited s)" for s
    unfolding observe_time_tx_def write_clock_state_def Let_def by (intro counted_intros append_when_intros)
  show "append_only_tx (observe_time_tx env reading step rate_limited s)" for s
    unfolding observe_time_tx_def write_clock_state_def Let_def by (intro append_only_intros append_when_intros)
  show "audited_tx env s (observe_time_tx env reading step rate_limited s)" if "env_laws env" "signer_laws env s" for s
    unfolding observe_time_tx_def write_clock_state_def Let_def append_when_def
    by (intro audited_intros that) (simp_all add: clock_payload_def)
qed

interpretation repair_clock: audited_body env "repair_clock_tx env accepted" True
  for env accepted
proof
  show "counted_tx (repair_clock_tx env accepted s)" for s
    unfolding repair_clock_tx_def write_clock_state_def Let_def by (intro counted_intros)
  show "append_only_tx (repair_clock_tx env accepted s)" for s
    unfolding repair_clock_tx_def write_clock_state_def Let_def by (intro append_only_intros)
  show "audited_tx env s (repair_clock_tx env accepted s)" if "env_laws env" "signer_laws env s" for s
    unfolding repair_clock_tx_def write_clock_state_def Let_def
    by (intro audited_intros that) simp_all
qed

end
