(* ===== verification/StoreOrder.thy ===== *)
theory StoreOrder
  imports Reservations Clock
begin

text \<open>
  How the tables may move. An order on stores is kept by a transaction when it is kept by
  its statements; the orders here say that approvals, operations and reservations only move
  along their life cycles, that what is published stays, and that the ledger only grows.
\<close>

section \<open>Transactions that respect an order\<close>

definition tx_rel :: "(db \<Rightarrow> db \<Rightarrow> bool) \<Rightarrow> 'a tx \<Rightarrow> bool" where
  "tx_rel R m \<longleftrightarrow> (\<forall>db db' a. m db = (db', Inr a) \<longrightarrow> R db db')"

named_theorems follow_intros

locale store_order =
  fixes R :: "db \<Rightarrow> db \<Rightarrow> bool"
  assumes refl: "R db db"
    and trans: "R a b \<Longrightarrow> R b c \<Longrightarrow> R a c"
begin

lemma rel_bind [follow_intros]: "tx_rel R m \<Longrightarrow> (\<And>a. tx_rel R (f a)) \<Longrightarrow> tx_rel R (tx_bind m f)"
  unfolding tx_rel_def tx_bind_Inr by (metis trans)

lemma rel_read [follow_intros]:
  "tx_rel R (tx_return a)" "tx_rel R (tx_fail e)" "tx_rel R (tx_query q)" "tx_rel R (tx_lift r)" "tx_rel R (tx_check c)"
  by (auto simp: tx_rel_def refl)

lemma rel_iter [follow_intros]: "(\<And>x. tx_rel R (f x)) \<Longrightarrow> tx_rel R (tx_iter f xs)"
  by (induction xs) (auto intro: rel_bind rel_read)

lemma rel_when [follow_intros]: "tx_rel R (append_audit env et p s) \<Longrightarrow> tx_rel R (append_when env b et p s)"
  by (simp add: append_when_def rel_bind rel_read)

end

lemma rel_cases [follow_intros]:
  "(b \<Longrightarrow> tx_rel R m) \<Longrightarrow> (\<not> b \<Longrightarrow> tx_rel R n) \<Longrightarrow> tx_rel R (if b then m else n)"
  "(x = None \<Longrightarrow> tx_rel R m) \<Longrightarrow> (\<And>a. x = Some a \<Longrightarrow> tx_rel R (f a)) \<Longrightarrow> tx_rel R (case x of None \<Rightarrow> m | Some a \<Rightarrow> f a)"
  "(\<And>a b. tx_rel R (g a b)) \<Longrightarrow> tx_rel R (case p of (a, b) \<Rightarrow> g a b)"
  by (auto split: option.splits prod.splits)

lemma tx_relD: "tx_rel R m \<Longrightarrow> m db = (db', Inr a) \<Longrightarrow> R db db'"
  by (simp add: tx_rel_def)

section \<open>Approvals\<close>

interpretation approvals_order: store_order approvals_follow
  by unfold_locales (auto intro: approvals_follow_same approvals_follow_trans)

lemma approvals_statements [follow_intros]:
  "tx_rel approvals_follow (insert_metadata env md)" "tx_rel approvals_follow (update_metadata_activation env a oid g)"
  "tx_rel approvals_follow (insert_operation env opr)" "tx_rel approvals_follow (update_operations P f)"
  "tx_rel approvals_follow (insert_attempt env at)" "tx_rel approvals_follow (insert_or_ignore_attempt env at)"
  "tx_rel approvals_follow (insert_child env ch)" "tx_rel approvals_follow (insert_reservation env rs)"
  "tx_rel approvals_follow (update_reservation_state a i st)" "tx_rel approvals_follow (insert_value env rv)"
  "tx_rel approvals_follow (upsert_clock ck)" "tx_rel approvals_follow (append_audit env et p s)"
  by (auto simp: tx_rel_def insert_metadata_def update_metadata_activation_def insert_operation_def update_operations_def
      insert_attempt_def insert_or_ignore_attempt_def insert_child_def insert_reservation_def update_reservation_state_def
      insert_value_def upsert_clock_def split: if_splits option.splits
      intro!: approvals_follow_same dest: append_audit_approvals)

lemma approvals_children [follow_intros]: "tx_rel approvals_follow (insert_children env parent n children)"
  by (induction children arbitrary: n) (auto intro: follow_intros)

lemma approvals_bodies:
  "tx_rel approvals_follow (create_approval_tx env i st s)"
  "tx_rel approvals_follow (create_approval_record_tx env i new s)"
  "tx_rel approvals_follow (activate_approval_record_tx env i oid g s)"
  "tx_rel approvals_follow (transition_approval_tx env i nxt s)"
  by (auto simp: tx_rel_def intro: create_approval_follows create_approval_record_follows activate_follows
      transition_approval_follows)

section \<open>Operations\<close>

text \<open>
  The moves of an operation. A by-key revocation only ever succeeds. The completion of by-key
  revocations moves every operation that is still RECEIVED.
\<close>

definition operation_moves :: "string \<Rightarrow> OperationState \<Rightarrow> OperationState \<Rightarrow> bool" where
  "operation_moves kind a b \<longleftrightarrow>
     (if kind = KEY_REVOCATION_KIND then b = OS_Succeeded \<and> (a = OS_Received \<or> a = OS_Committed)
      else valid_operation_transition a b \<or> (a = OS_Received \<and> b = OS_Succeeded))"

interpretation operation_moves: lifecycle "operation_moves kind" operation_rank
  for kind
proof
  show "operation_rank a < operation_rank b" if "operation_moves kind a b" for a b
    using that by (cases a; cases b) (simp_all add: operation_moves_def split: if_splits)
qed

definition operation_follows :: "operation_row \<Rightarrow> operation_row \<Rightarrow> bool" where
  "operation_follows r r' \<longleftrightarrow>
     op_operation_id r' = op_operation_id r \<and> op_operation_digest r' = op_operation_digest r
   \<and> op_retry_binding_digest r' = op_retry_binding_digest r \<and> op_is_batch r' = op_is_batch r
   \<and> op_validation_receipt_jcs r' = op_validation_receipt_jcs r \<and> op_kind r' = op_kind r
   \<and> (\<forall>rj. op_result_jcs r = Some rj \<longrightarrow> op_result_jcs r' = Some rj)
   \<and> (\<forall>a. op_state r = operation_state_text a \<longrightarrow>
        (\<exists>b. op_state r' = operation_state_text b \<and> (operation_moves (op_kind r))\<^sup>*\<^sup>* a b))"

lemma operation_follows_refl [simp]: "operation_follows r r"
  by (auto simp: operation_follows_def)

lemma operation_follows_trans: "operation_follows a b \<Longrightarrow> operation_follows b c \<Longrightarrow> operation_follows a c"
  by (auto simp: operation_follows_def) (metis rtranclp_trans)+

lemma operation_followsI:
  assumes "op_state r = operation_state_text a" and "operation_moves (op_kind r) a b"
    and "\<And>rj. op_result_jcs r = Some rj \<Longrightarrow> op_result_jcs (f r) = Some rj"
    and "op_state (f r) = operation_state_text b" and "op_operation_id (f r) = op_operation_id r"
    and "op_operation_digest (f r) = op_operation_digest r" and "op_retry_binding_digest (f r) = op_retry_binding_digest r"
    and "op_is_batch (f r) = op_is_batch r" and "op_validation_receipt_jcs (f r) = op_validation_receipt_jcs r"
    and "op_kind (f r) = op_kind r"
  shows "operation_follows r (f r)"
  using assms by (auto simp: operation_follows_def)

definition operations_follow :: "db \<Rightarrow> db \<Rightarrow> bool" where
  "operations_follow db db' \<longleftrightarrow> (\<forall>i r. select_operation i db = Some r \<longrightarrow>
     (\<exists>r'. select_operation i db' = Some r' \<and> operation_follows r r'))"

lemma operations_follow_same: "operations db' = operations db \<Longrightarrow> operations_follow db db'"
  by (auto simp: operations_follow_def select_operation_def)

interpretation operations_order: store_order operations_follow
proof
  show "operations_follow db db" for db by (rule operations_follow_same) simp
  show "operations_follow a c" if "operations_follow a b" "operations_follow b c" for a b c
    using that unfolding operations_follow_def by (metis operation_follows_trans)
qed

lemma append_audit_operations: "append_audit env et p s db = (db', r) \<Longrightarrow> operations db' = operations db"
  using append_audit_frame by fastforce

lemma operations_statements [follow_intros]:
  "tx_rel operations_follow (insert_approval env i st)" "tx_rel operations_follow (update_approval_state i st)"
  "tx_rel operations_follow (insert_metadata env md)" "tx_rel operations_follow (update_metadata_activation env a oid g)"
  "tx_rel operations_follow (insert_attempt env at)" "tx_rel operations_follow (insert_or_ignore_attempt env at)"
  "tx_rel operations_follow (insert_child env ch)" "tx_rel operations_follow (insert_reservation env rs)"
  "tx_rel operations_follow (update_reservation_state a i st)" "tx_rel operations_follow (insert_value env rv)"
  "tx_rel operations_follow (upsert_clock ck)" "tx_rel operations_follow (append_audit env et p s)"
  by (auto simp: tx_rel_def insert_approval_def update_approval_state_def insert_metadata_def update_metadata_activation_def
      insert_attempt_def insert_or_ignore_attempt_def insert_child_def insert_reservation_def update_reservation_state_def
      insert_value_def upsert_clock_def split: if_splits option.splits
      intro!: operations_follow_same dest: append_audit_operations)

lemma operations_insert [follow_intros]: "tx_rel operations_follow (insert_operation env row)"
  by (auto simp: tx_rel_def insert_operation_def operations_follow_def select_operation_def find_append
      split: if_splits option.splits)

lemma select_operation_update:
  assumes "update_operations P f db = (db', r)" and "\<And>x. op_operation_id (f x) = op_operation_id x"
  shows "select_operation i db' = map_option (\<lambda>x. if P x then f x else x) (select_operation i db)"
  using assms by (auto simp: update_operations_def select_operation_def find_update_where)

lemma operations_update:
  assumes "update_operations P f db = (db', r)" and "\<And>x. op_operation_id (f x) = op_operation_id x"
    and "\<And>i x. select_operation i db = Some x \<Longrightarrow> P x \<Longrightarrow> operation_follows x (f x)"
  shows "operations_follow db db'"
  using assms(3) by (auto simp: operations_follow_def select_operation_update [OF assms(1,2)])

lemma operations_update_one:
  assumes "update_operations (\<lambda>r. op_operation_id r = i) f db = (db', r)" and "\<And>x. op_operation_id (f x) = op_operation_id x"
    and "select_operation i db = Some row" and "operation_follows row (f row)"
  shows "operations_follow db db'"
proof (rule operations_update [OF assms(1,2)])
  fix k x
  assume x: "select_operation k db = Some x" "op_operation_id x = i"
  then have "k = i" by (auto simp: select_operation_def dest: find_SomeD)
  with x assms(3,4) show "operation_follows x (f x)" by simp
qed

lemma complete_key_revocation_follows: "tx_rel operations_follow (complete_key_revocation_tx env i s)"
proof -
  have "tx_rel operations_follow (update_operations (\<lambda>r. op_operation_id r = i \<and> op_state r = ''RECEIVED'')
       (\<lambda>r. r\<lparr>op_state := ''SUCCEEDED''\<rparr>))"
    unfolding tx_rel_def
    by (auto elim!: operations_update intro!: operation_followsI [of _ OS_Received OS_Succeeded] simp: operation_moves_def)
  then show ?thesis unfolding complete_key_revocation_tx_def by (intro follow_intros)
qed

lemma read_operation_row:
  assumes "read_operation env db i = Inr (Some snap)"
  obtains r where "select_operation i db = Some r" and "op_state r = operation_state_text (os_state snap)"
    and "op_kind r = os_kind snap" and "op_is_batch r = os_is_batch snap" and "(os_result snap = None) = (op_result_jcs r = None)"
  using assms that
  by (auto simp: read_operation_def and_then_eq_Inr parse_operation_state_Inr split: option.splits)

lemma transition_operation_follows: "tx_rel operations_follow (transition_operation_tx env i nxt s)"
  unfolding tx_rel_def
proof (intro allI impI)
  fix db db' out
  assume "transition_operation_tx env i nxt s db = (db', Inr out)"
  then obtain snap db1 n p h where snap: "read_operation env db i = Inr (Some snap)" "os_kind snap \<noteq> KEY_REVOCATION_KIND"
      "valid_operation_transition (os_state snap) nxt"
    and upd: "update_operations (\<lambda>r. op_operation_id r = i) (\<lambda>r. r\<lparr>op_state := operation_state_text nxt\<rparr>) db = (db1, Inr n)"
    and app: "append_audit env ''operation.transition'' p s db1 = (db', Inr h)"
    by (auto simp: transition_operation_tx_def tx_bind_Inr and_then_eq_Inr split: if_splits)
  obtain r where r: "select_operation i db = Some r" "op_state r = operation_state_text (os_state snap)" "op_kind r = os_kind snap"
    using snap(1) by (rule read_operation_row)
  have "operations_follow db db1"
    using r(2,3) snap
    by (intro operations_update_one [OF upd _ r(1)])
       (auto intro!: operation_followsI [of _ "os_state snap" nxt] simp: operation_moves_def)
  then show "operations_follow db db'"
    using operations_follow_same [OF append_audit_operations [OF app]] by (rule operations_order.trans)
qed

lemma mark_succeeded_follows:
  assumes "mark_succeeded i rj db = (db', Inr n)" and "read_operation env db i = Inr (Some snap)"
    and "result_of db i = None" and "os_state snap = OS_Committed"
  shows "operations_follow db db'"
proof -
  obtain r where r: "select_operation i db = Some r" "op_state r = operation_state_text (os_state snap)"
    using assms(2) by (rule read_operation_row)
  show ?thesis
    using r assms(3,4)
    by (intro operations_update_one [OF assms(1) [unfolded mark_succeeded_def] _ r(1)])
       (auto intro!: operation_followsI [of _ OS_Committed OS_Succeeded] simp: operation_moves_def result_of_def)
qed

lemma publish_result_follows: "tx_rel operations_follow (publish_result_tx env a result s)"
  unfolding tx_rel_def
proof (intro allI impI)
  fix db db' out
  assume "publish_result_tx env a result s db = (db', Inr out)"
  then show "operations_follow db db'"
  proof (cases rule: publish_result_cases)
    case replay
    then show ?thesis by (simp add: operations_order.refl)
  next
    case (publish rj receipt rd db1 db2 n h snap)
    have "operations_follow db db1"
      using publish by (intro mark_succeeded_follows [OF publish(10,1)] read_operation_result(2) [OF publish(1)]) simp_all
    moreover have "operations db' = operations db1"
      using update_reservation_frame(1) [OF publish(11)] append_audit_operations [OF publish(13)] by simp
    ultimately show ?thesis using operations_follow_same operations_order.trans by blast
  qed
qed

lemma publish_batch_follows: "tx_rel operations_follow (publish_batch_tx env a result children s)"
  unfolding tx_rel_def
proof (intro allI impI)
  fix db db' out
  assume "publish_batch_tx env a result children s db = (db', Inr out)"
  then show "operations_follow db db'"
  proof (cases rule: publish_batch_cases)
    case replay
    then show ?thesis by (simp add: operations_order.refl)
  next
    case (publish rj receipt rd jcs db0 db1 db2 n h snap)
    have same: "operations db0 = operations db" by (rule insert_children_effect(2) [OF publish(11)])
    have "read_operation env db0 (sr_operation_id result) = Inr (Some snap)" "result_of db0 (sr_operation_id result) = None"
      using publish(1,2) same by (simp_all add: read_operation_def result_of_def select_operation_def)
    then have "operations_follow db0 db1"
      using publish(3) by (intro mark_succeeded_follows [OF publish(12)])
    moreover have "operations db' = operations db1"
      using update_reservation_frame(1) [OF publish(13)] append_audit_operations [OF publish(16)] by simp
    ultimately show ?thesis
      using operations_follow_same [OF same] operations_follow_same [of db' db1] operations_order.trans by blast
  qed
qed

section \<open>Reservations\<close>

text \<open>
  The primary and foreign keys of the ledger, and its order: rows are only added at the end, a
  row keeps everything but its state, and only a row that is RESERVED changes its state.
\<close>

definition reservation_key :: "reservation_row \<Rightarrow> string \<times> string" where
  "reservation_key r = (rs_approval_id r, rs_operation_id r)"

definition value_key :: "value_row \<Rightarrow> string \<times> string" where
  "value_key v = (rv_approval_id v, rv_operation_id v)"

definition ledger_wf :: "db \<Rightarrow> bool" where
  "ledger_wf db \<longleftrightarrow> distinct (map reservation_key (reservations db))
   \<and> value_key ` set (reservation_values db) \<subseteq> reservation_key ` set (reservations db)"

definition reservation_follows :: "reservation_row \<Rightarrow> reservation_row \<Rightarrow> bool" where
  "reservation_follows r r' \<longleftrightarrow> r' = r \<or> (rs_state r = ''RESERVED'' \<and> (\<exists>st. r' = r\<lparr>rs_state := reservation_state_text st\<rparr>))"

lemma reservation_follows_refl [simp]: "reservation_follows r r"
  by (simp add: reservation_follows_def)

lemma reservation_follows_trans: "reservation_follows a b \<Longrightarrow> reservation_follows b c \<Longrightarrow> reservation_follows a c"
  by (auto simp: reservation_follows_def)

lemma reservation_follows_key: "reservation_follows r r' \<Longrightarrow> reservation_key r' = reservation_key r"
  by (auto simp: reservation_follows_def reservation_key_def)

definition rows_follow :: "reservation_row list \<Rightarrow> reservation_row list \<Rightarrow> bool" where
  "rows_follow rows rows' \<longleftrightarrow> (\<exists>old new. rows' = old @ new \<and> list_all2 reservation_follows rows old)"

lemma rows_followI: "rows' = old @ new \<Longrightarrow> list_all2 reservation_follows rows old \<Longrightarrow> rows_follow rows rows'"
  by (auto simp: rows_follow_def)

lemma rows_follow_append [simp]: "rows_follow rows (rows @ new)"
  by (rule rows_followI [of _ rows new]) (simp_all add: list_all2_refl)

lemma rows_follow_refl [simp]: "rows_follow rows rows"
  using rows_follow_append [of rows "[]"] by simp

lemma rows_follow_map: "(\<And>r. r \<in> set rows \<Longrightarrow> reservation_follows r (f r)) \<Longrightarrow> rows_follow rows (map f rows)"
  by (rule rows_followI [of _ "map f rows" "[]"]) (auto simp: list_all2_conv_all_nth)

lemma rows_follow_trans:
  assumes "rows_follow a b" and "rows_follow b c"
  shows "rows_follow a c"
proof -
  obtain old new where 1: "b = old @ new" "list_all2 reservation_follows a old"
    using assms(1) by (auto simp: rows_follow_def)
  obtain o1 n1 new' where 2: "c = (o1 @ n1) @ new'" "list_all2 reservation_follows old o1"
    using assms(2) 1(1) by (auto simp: rows_follow_def list_all2_append1)
  show ?thesis
    by (rule rows_followI [of _ o1 "n1 @ new'"])
       (use 2 list_all2_trans [OF reservation_follows_trans 1(2) 2(2)] in simp_all)
qed

definition ledger_follow :: "db \<Rightarrow> db \<Rightarrow> bool" where
  "ledger_follow db db' \<longleftrightarrow> (ledger_wf db \<longrightarrow> ledger_wf db'
   \<and> rows_follow (reservations db) (reservations db')
   \<and> (\<exists>new. reservation_values db' = reservation_values db @ new))"

lemma ledger_follow_same:
  "reservations db' = reservations db \<Longrightarrow> reservation_values db' = reservation_values db \<Longrightarrow> ledger_follow db db'"
  by (auto simp: ledger_follow_def ledger_wf_def)

interpretation ledger_order: store_order ledger_follow
proof
  show "ledger_follow db db" for db by (rule ledger_follow_same) simp_all
  show "ledger_follow a c" if "ledger_follow a b" "ledger_follow b c" for a b c
    using that by (auto simp: ledger_follow_def intro: rows_follow_trans)
qed

lemma append_audit_ledger:
  "append_audit env et p s db = (db', r) \<Longrightarrow> reservations db' = reservations db \<and> reservation_values db' = reservation_values db"
  using append_audit_frame by fastforce

lemma ledger_statements [follow_intros]:
  "tx_rel ledger_follow (insert_approval env i st)" "tx_rel ledger_follow (update_approval_state i st)"
  "tx_rel ledger_follow (insert_metadata env md)" "tx_rel ledger_follow (update_metadata_activation env a oid g)"
  "tx_rel ledger_follow (insert_operation env opr)" "tx_rel ledger_follow (update_operations P f)"
  "tx_rel ledger_follow (insert_attempt env at)" "tx_rel ledger_follow (insert_or_ignore_attempt env at)"
  "tx_rel ledger_follow (insert_child env ch)" "tx_rel ledger_follow (upsert_clock ck)"
  "tx_rel ledger_follow (append_audit env et p s)"
  by (auto simp: tx_rel_def insert_approval_def update_approval_state_def insert_metadata_def update_metadata_activation_def
      insert_operation_def update_operations_def insert_attempt_def insert_or_ignore_attempt_def insert_child_def
      upsert_clock_def split: if_splits option.splits
      intro!: ledger_follow_same dest: append_audit_ledger)

lemma select_reservation_None:
  "select_reservation a i db = None \<longleftrightarrow> (a, i) \<notin> reservation_key ` set (reservations db)"
  by (auto simp: select_reservation_def find_None_iff reservation_key_def)

lemma ledger_inserts [follow_intros]:
  "tx_rel ledger_follow (insert_reservation env row)" "tx_rel ledger_follow (insert_value env v)"
proof -
  have "ledger_follow db db'" if run: "insert_reservation env row db = (db', Inr u)" for db db' u
  proof -
    have "reservations db' = reservations db @ [row]" "reservation_values db' = reservation_values db"
      "reservation_key row \<notin> reservation_key ` set (reservations db)"
      using run by (auto simp: insert_reservation_def select_reservation_None [symmetric] reservation_key_def [of row] split: if_splits)
    then show ?thesis
      by (auto simp: ledger_follow_def ledger_wf_def)
  qed
  then show "tx_rel ledger_follow (insert_reservation env row)" by (simp add: tx_rel_def)
  have "ledger_follow db db'" if run: "insert_value env v db = (db', Inr u)" for db db' u
  proof -
    have "reservations db' = reservations db" "reservation_values db' = reservation_values db @ [v]"
      "value_key v \<in> reservation_key ` set (reservations db)"
      using run select_reservation_None [of "rv_approval_id v" "rv_operation_id v" db]
      by (auto simp: insert_value_def value_key_def [of v] split: if_splits)
    then show ?thesis
      by (auto simp: ledger_follow_def ledger_wf_def)
  qed
  then show "tx_rel ledger_follow (insert_value env v)" by (simp add: tx_rel_def)
qed

lemma ledger_children [follow_intros]: "tx_rel ledger_follow (insert_children env parent n children)"
  by (induction children arbitrary: n) (auto intro: follow_intros)

text \<open>A reservation that is read as RESERVED is the only row with its key.\<close>

lemma select_reservation_unique:
  assumes "ledger_wf db" and "select_reservation a i db = Some row" and "r \<in> set (reservations db)"
    and "rs_approval_id r = a" and "rs_operation_id r = i"
  shows "r = row"
proof -
  have "row \<in> set (reservations db)" "reservation_key row = (a, i)"
    using assms(2) by (auto simp: select_reservation_def reservation_key_def find_Some_iff)
  with assms show ?thesis by (auto simp: ledger_wf_def reservation_key_def distinct_map inj_on_def)
qed

lemma update_reservation_follows:
  assumes "update_reservation_state a i (reservation_state_text st) db = (db', Inr u)"
    and "select_reservation a i db = Some row" and "rs_state row = ''RESERVED''"
  shows "ledger_follow db db'"
  unfolding ledger_follow_def
proof
  assume wf: "ledger_wf db"
  let ?f = "\<lambda>r. if rs_approval_id r = a \<and> rs_operation_id r = i then r\<lparr>rs_state := reservation_state_text st\<rparr> else r"
  have rows: "reservations db' = map ?f (reservations db)" "reservation_values db' = reservation_values db"
    using assms(1) by (auto simp: update_reservation_state_def update_where_def)
  have follows: "reservation_follows r (?f r)" if "r \<in> set (reservations db)" for r
    using select_reservation_unique [OF wf assms(2) that] assms(3) by (auto simp: reservation_follows_def)
  have "reservation_key (?f r) = reservation_key r" for r by (simp add: reservation_key_def)
  then have "map reservation_key (reservations db') = map reservation_key (reservations db)"
    by (simp add: rows(1) del: if_split)
  then have "ledger_wf db'" using wf unfolding ledger_wf_def rows(2) by (metis list.set_map)
  moreover have "rows_follow (reservations db) (reservations db')"
    unfolding rows(1) by (rule rows_follow_map) (rule follows)
  ultimately show "ledger_wf db' \<and> rows_follow (reservations db) (reservations db')
     \<and> (\<exists>new. reservation_values db' = reservation_values db @ new)"
    using rows(2) by simp
qed

lemma require_reserved_row:
  assumes "require_reserved db a i = Inr ()"
  obtains row where "select_reservation a i db = Some row" and "rs_state row = ''RESERVED''"
  using assms that
  by (auto simp: require_reserved_def reservation_state_by_id_def and_then_eq_Inr parse_reservation_state_Inr
      split: if_splits option.splits)

lemma finalize_reservation_follows: "tx_rel ledger_follow (finalize_reservation_tx env a i nxt s)"
  unfolding tx_rel_def
proof (intro allI impI)
  fix db db' out
  assume run: "finalize_reservation_tx env a i nxt s db = (db', Inr out)"
  show "ledger_follow db db'"
  proof (cases "map_option rs_state (select_reservation a i db) = Some ''RESERVED''")
    case True
    with run obtain row db1 p h where "select_reservation a i db = Some row" "rs_state row = ''RESERVED''"
      and upd: "update_reservation_state a i (reservation_state_text nxt) db = (db1, Inr ())"
      and app: "append_audit env ''reservation.finalized'' p s db1 = (db', Inr h)"
      by (auto simp: finalize_reservation_tx_def tx_bind_Inr)
    then have "ledger_follow db db1" by (intro update_reservation_follows [OF upd])
    with append_audit_ledger [OF app] show ?thesis
      using ledger_follow_same ledger_order.trans by blast
  next
    case False
    with run have "db' = db" by (auto simp: finalize_reservation_tx_def split: if_splits)
    then show ?thesis by (simp add: ledger_order.refl)
  qed
qed

lemma publish_result_ledger: "tx_rel ledger_follow (publish_result_tx env a result s)"
  unfolding tx_rel_def
proof (intro allI impI)
  fix db db' out
  assume "publish_result_tx env a result s db = (db', Inr out)"
  then show "ledger_follow db db'"
  proof (cases rule: publish_result_cases)
    case replay
    then show ?thesis by (simp add: ledger_order.refl)
  next
    case (publish rj receipt rd db1 db2 n h snap)
    have same: "reservations db1 = reservations db" "reservation_values db1 = reservation_values db"
      using publish(10) by (auto simp: mark_succeeded_def update_operations_def)
    obtain row where "select_reservation a (sr_operation_id result) db1 = Some row" "rs_state row = ''RESERVED''"
      using publish(6) same by (auto simp: select_reservation_def elim: require_reserved_row)
    then have "ledger_follow db1 db2"
      using publish(11) by (intro update_reservation_follows [of a _ RS_Committed db1 db2]) simp_all
    then show ?thesis
      using ledger_follow_same [OF same] append_audit_ledger [OF publish(13)] ledger_follow_same ledger_order.trans by blast
  qed
qed

lemma publish_batch_ledger: "tx_rel ledger_follow (publish_batch_tx env a result children s)"
  unfolding tx_rel_def
proof (intro allI impI)
  fix db db' out
  assume "publish_batch_tx env a result children s db = (db', Inr out)"
  then show "ledger_follow db db'"
  proof (cases rule: publish_batch_cases)
    case replay
    then show ?thesis by (simp add: ledger_order.refl)
  next
    case (publish rj receipt rd jcs db0 db1 db2 n h snap)
    have same: "reservations db1 = reservations db" "reservation_values db1 = reservation_values db"
      using publish(12) insert_children_effect(5,7) [OF publish(11)] by (auto simp: mark_succeeded_def update_operations_def)
    obtain row where "select_reservation a (sr_operation_id result) db1 = Some row" "rs_state row = ''RESERVED''"
      using publish(7) same by (auto simp: select_reservation_def elim: require_reserved_row)
    then have "ledger_follow db1 db2"
      using publish(13) by (intro update_reservation_follows [of a _ RS_Committed db1 db2]) simp_all
    then show ?thesis
      using ledger_follow_same [OF same] append_audit_ledger [OF publish(16)] ledger_follow_same ledger_order.trans by blast
  qed
qed

section \<open>The clock\<close>

text \<open>
  The effective time never moves backwards. The evaluation of a reading by bloom-trusted-time is
  assumed not to fall behind the state it is given.
\<close>

definition clock_law :: "env \<Rightarrow> bool" where
  "clock_law env \<longleftrightarrow> (\<forall>previous reading epoch step now condition.
     e_evaluate_durable_clock env (Some previous) reading epoch step = Inr (now, condition) \<longrightarrow>
     pc_last_effective_ms previous \<le> now)"

definition effective_time :: "db \<Rightarrow> u64 option" where
  "effective_time db = Option.bind (clock_state db) (\<lambda>row. u64_from_str (ck_last_effective_ms row))"

definition clock_follow :: "db \<Rightarrow> db \<Rightarrow> bool" where
  "clock_follow db db' \<longleftrightarrow> (\<forall>t. effective_time db = Some t \<longrightarrow> (\<exists>t'. effective_time db' = Some t' \<and> t \<le> t'))"

lemma clock_follow_same: "clock_state db' = clock_state db \<Longrightarrow> clock_follow db db'"
  by (simp add: clock_follow_def effective_time_def)

interpretation clock_order: store_order clock_follow
proof
  show "clock_follow db db" for db by (rule clock_follow_same) simp
  show "clock_follow a c" if "clock_follow a b" "clock_follow b c" for a b c
    using that by (fastforce simp: clock_follow_def)
qed

lemma append_audit_clock: "append_audit env et p s db = (db', r) \<Longrightarrow> clock_state db' = clock_state db"
  using append_audit_frame by fastforce

lemma clock_statements [follow_intros]:
  "tx_rel clock_follow (insert_approval env i st)" "tx_rel clock_follow (update_approval_state i st)"
  "tx_rel clock_follow (insert_metadata env md)" "tx_rel clock_follow (update_metadata_activation env a oid g)"
  "tx_rel clock_follow (insert_operation env opr)" "tx_rel clock_follow (update_operations P f)"
  "tx_rel clock_follow (insert_attempt env at)" "tx_rel clock_follow (insert_or_ignore_attempt env at)"
  "tx_rel clock_follow (insert_child env ch)" "tx_rel clock_follow (insert_reservation env rs)"
  "tx_rel clock_follow (update_reservation_state a i st)" "tx_rel clock_follow (insert_value env rv)"
  "tx_rel clock_follow (append_audit env et p s)"
  by (auto simp: tx_rel_def insert_approval_def update_approval_state_def insert_metadata_def update_metadata_activation_def
      insert_operation_def update_operations_def insert_attempt_def insert_or_ignore_attempt_def insert_child_def
      insert_reservation_def update_reservation_state_def insert_value_def split: if_splits option.splits
      intro!: clock_follow_same dest: append_audit_clock)

lemma clock_children [follow_intros]: "tx_rel clock_follow (insert_children env parent n children)"
  by (induction children arbitrary: n) (auto intro: follow_intros)

lemma append_when_clock: "append_when env b et p s db = (db', r) \<Longrightarrow> clock_state db' = clock_state db"
  by (cases r) (auto simp: append_when_def tx_bind_Inr tx_bind_Inl dest: append_audit_clock split: if_splits)

lemma observe_time_effective:
  assumes "observe_time_tx env reading step limited s db = (db', Inr out)"
  obtains previous now condition where "persisted_clock env (clock_state db) = Inr previous"
    and "e_evaluate_durable_clock env previous
         \<lparr>pr_utc_ms = tr_utc_ms reading, pr_monotonic_anchor_ns = tr_monotonic_anchor_ns reading,
          pr_monotonic_elapsed_ms = tr_monotonic_elapsed_ms reading\<rparr>
         (comparable_boot_epoch env (tr_boot_epoch reading)) step = Inr (now, condition)"
    and "effective_time db' = Some now"
    and "map_option ck_condition (clock_state db') = Some (clock_condition_text (broker_clock_condition condition))"
  using assms
  by (auto simp: observe_time_tx_def tx_bind_Inr Let_def write_clock_state_def upsert_clock_def effective_time_def
      split: if_splits dest!: append_when_clock)

lemma observe_time_clock:
  assumes "clock_law env"
  shows "tx_rel clock_follow (observe_time_tx env reading step limited s)"
  unfolding tx_rel_def
proof (intro allI impI)
  fix db db' out
  assume "observe_time_tx env reading step limited s db = (db', Inr out)"
  then show "clock_follow db db'"
  proof (rule observe_time_effective)
    fix previous now condition
    assume a: "persisted_clock env (clock_state db) = Inr previous"
      "e_evaluate_durable_clock env previous
         \<lparr>pr_utc_ms = tr_utc_ms reading, pr_monotonic_anchor_ns = tr_monotonic_anchor_ns reading,
          pr_monotonic_elapsed_ms = tr_monotonic_elapsed_ms reading\<rparr>
         (comparable_boot_epoch env (tr_boot_epoch reading)) step = Inr (now, condition)"
      "effective_time db' = Some now"
    have "t \<le> now" if eff: "effective_time db = Some t" for t
    proof -
      obtain p where "previous = Some p" "pc_last_effective_ms p = t"
        using a(1) eff
        by (auto simp: persisted_clock_def effective_time_def and_then_eq_Inr parse_u64_def split: option.splits)
      then show ?thesis using assms a(2) unfolding clock_law_def by blast
    qed
    with a(3) show ?thesis by (simp add: clock_follow_def)
  qed
qed

lemma repair_clock_clock: "tx_rel clock_follow (repair_clock_tx env accepted s)"
  unfolding tx_rel_def
proof (intro allI impI)
  fix db db' out
  assume "repair_clock_tx env accepted s db = (db', Inr out)"
  then show "clock_follow db db'"
    by (auto simp: repair_clock_tx_def tx_bind_Inr Let_def write_clock_state_def upsert_clock_def effective_time_def
        clock_follow_def parse_u64_def not_less split: if_splits dest!: append_audit_clock)
qed

end
