(* ===== verification/JournalSystem.thy ===== *)
theory JournalSystem
  imports StoreOrder
begin

text \<open>
  The journal as a state machine: every mutation the Broker calls, split where the code releases
  the connection (the commit, then the checkpoint and the fault hook), interleaved with each
  other, with the reads that verify the chain, with the latch and with writes of other
  connections. What the journal promises is proved along every trace.
\<close>

section \<open>Requests\<close>

datatype request =
    CreateApproval Digest32 ApprovalLifecycleState
  | CreateApprovalRecord Digest32 NewApprovalRecord
  | ActivateApprovalRecord Digest32 OperationId string
  | TransitionApproval Digest32 ApprovalLifecycleState
  | BeginSignAttempt UnsignedSignRequest bool BrokerValidationReceipt
  | TransitionOperation OperationId OperationState
  | BeginKeyRevocation OperationId Digest32 "(Digest32 \<times> OperationId) list"
  | CompleteKeyRevocation OperationId
  | Reserve ReservationRequest BudgetLimits bool
  | FinalizeReservation Digest32 OperationId ReservationState
  | PublishResult Digest32 SigningResult
  | PublishBatch Digest32 SigningResult "SigningResult list"
  | ObserveTime TimeReading u64 bool
  | RepairClock u64

text \<open>Requests differ in what they return; the state machine keeps the way a transaction ended.\<close>

fun discard :: "'a outcome \<Rightarrow> unit outcome" where
  "discard (Durable point _) = Durable point ()"
| "discard (Checkpointed _) = Checkpointed ()"
| "discard (Unchanged _) = Unchanged ()"

definition discarding :: "(AuditSigner \<Rightarrow> 'a outcome tx) \<Rightarrow> AuditSigner \<Rightarrow> unit outcome tx" where
  "discarding body s = tx_bind (body s) (\<lambda>out. tx_return (discard out))"

text \<open>The transaction of a request, or the error that it ends with before it takes the lock.\<close>

fun request_body :: "env \<Rightarrow> request \<Rightarrow> JournalError + (AuditSigner \<Rightarrow> unit outcome tx)" where
  "request_body env (CreateApproval i st) = Inr (discarding (create_approval_tx env i st))"
| "request_body env (CreateApprovalRecord i new) = Inr (discarding (create_approval_record_tx env i new))"
| "request_body env (ActivateApprovalRecord i oid grant) = Inr (discarding (activate_approval_record_tx env i oid grant))"
| "request_body env (TransitionApproval i nxt) = Inr (discarding (transition_approval_tx env i nxt))"
| "request_body env (BeginSignAttempt req is_batch receipt) =
     and_then (sign_request_matches env req receipt) (\<lambda>matches.
     if \<not> matches then Inl (Protocol OperationIdConflict
       ''operation or attempt digest does not match its canonical preimage'')
     else and_then (attempt_retry_binding_digest env req) (\<lambda>retry.
       and_then (e_receipt_jcs env receipt) (\<lambda>rjcs.
       Inr (discarding (begin_sign_attempt_tx env req is_batch retry rjcs)))))"
| "request_body env (TransitionOperation i nxt) = Inr (discarding (transition_operation_tx env i nxt))"
| "request_body env (BeginKeyRevocation i d targets) = Inr (discarding (begin_key_revocation_tx env i d targets (tx_return ())))"
| "request_body env (CompleteKeyRevocation i) = Inr (discarding (complete_key_revocation_tx env i))"
| "request_body env (Reserve req limits guard) =
     (if rr_signature_count req = 0
      then Inl (Protocol BackendInvalidRequest ''reservation signature count must be positive'')
      else Inr (discarding (reserve_tx env req limits guard)))"
| "request_body env (FinalizeReservation a i nxt) =
     (if nxt = RS_Reserved
      then Inl (Protocol BackendInvalidRequest ''reservation finalization requires a terminal ledger state'')
      else Inr (discarding (finalize_reservation_tx env a i nxt)))"
| "request_body env (PublishResult a result) = Inr (discarding (publish_result_tx env a result))"
| "request_body env (PublishBatch a result children) =
     (if children = [] \<or> 32 < length children
      then Inl (Protocol BackendInvalidRequest ''batch publication requires 1-32 children'')
      else and_then (check_child_ids env (sr_operation_id result) 0 children) (\<lambda>_.
        Inr (discarding (publish_batch_tx env a result children))))"
| "request_body env (ObserveTime reading step limited) = Inr (discarding (observe_time_tx env reading step limited))"
| "request_body env (RepairClock accepted) = Inr (discarding (repair_clock_tx env accepted))"

definition commit_request :: "env \<Rightarrow> request \<Rightarrow> unit outcome jm" where
  "commit_request env r j = (case request_body env r of
     Inl e \<Rightarrow> (j, Inl e)
   | Inr body \<Rightarrow> commit env body j)"

definition handle :: "env \<Rightarrow> request \<Rightarrow> unit jm" where
  "handle env r j = (case commit_request env r j of
     (j', Inl e) \<Rightarrow> (j', Inl e)
   | (j', Inr out) \<Rightarrow> finish env out j')"

section \<open>The state machine\<close>

type_synonym system = "journal \<times> unit outcome list"

datatype event =
    Request request
  | Finish nat
  | Verify
  | ReadHead
  | Latch DegradationCause
  | Install CheckpointSink
  | Rotate AuditSigner
  | OtherWriter db int

inductive step :: "env \<Rightarrow> event \<Rightarrow> system \<Rightarrow> system \<Rightarrow> bool" for env where
  committed: "commit_request env r j = (j', Inr out) \<Longrightarrow> step env (Request r) (j, P) (j', P @ [out])"
| refused: "commit_request env r j = (j', Inl e) \<Longrightarrow> step env (Request r) (j, P) (j', P)"
| finished: "n < length P \<Longrightarrow> finish env (P ! n) j = (j', res) \<Longrightarrow>
    step env (Finish n) (j, P) (j', take n P @ drop (Suc n) P)"
| verified: "verify_audit_chain env j = (j', res) \<Longrightarrow> step env Verify (j, P) (j', P)"
| head_read: "verified_audit_head env j = (j', res) \<Longrightarrow> step env ReadHead (j, P) (j', P)"
| installed: "step env (Install sink) (j, P) (install_self_checkpoint sink j, P)"
| latched: "step env (Latch cause) (j, P) (latch_degradation cause j, P)"
| rotated: "rotate_audit_key env replacement j = (j', res) \<Longrightarrow> step env (Rotate replacement) (j, []) (j', [])"
| written: "(\<And>t. j_tail j = Some t \<Longrightarrow> tl_data_version t \<noteq> v) \<Longrightarrow>
    step env (OtherWriter db v) (j, P) (external_write db v j, P)"

inductive trace :: "env \<Rightarrow> event list \<Rightarrow> system \<Rightarrow> system \<Rightarrow> bool" for env where
  none: "trace env [] s s"
| more: "step env e s s1 \<Longrightarrow> trace env es s1 s2 \<Longrightarrow> trace env (e # es) s s2"

inductive_cases step_requestE: "step env (Request r) s s'"
inductive_cases step_finishE: "step env (Finish n) s s'"
inductive_cases step_rotateE: "step env (Rotate replacement) s s'"
inductive_simps step_latch: "step env (Latch cause) (j, P) s'"
inductive_simps step_other_writer: "step env (OtherWriter db v) (j, P) s'"
inductive_cases trace_ConsE: "trace env (e # es) s s'"
inductive_simps trace_Nil [simp]: "trace env [] s s'"

text \<open>A relation that every allowed step respects is respected by every trace of such steps.\<close>

lemma trace_order:
  assumes "trace env es s s'" and "\<forall>e \<in> set es. allowed e"
    and "\<And>a. R a a" and "\<And>a b c. R a b \<Longrightarrow> R b c \<Longrightarrow> R a c"
    and "\<And>e a b. step env e a b \<Longrightarrow> allowed e \<Longrightarrow> I a \<Longrightarrow> R a b \<and> I b" and "I s"
  shows "R s s' \<and> I s'"
  using assms(1,2,6)
proof (induction rule: trace.induct)
  case (more e s s1 es s2)
  with assms(5) [of e s s1] have "R s s1" "I s1" by auto
  with more assms(4) [of s s1 s2] show ?case by auto
qed (use assms(3) in simp)

section \<open>The transactions of requests\<close>

text \<open>What the types of the identifiers in a request guarantee.\<close>

fun request_admissible :: "env \<Rightarrow> request \<Rightarrow> bool" where
  "request_admissible env (BeginSignAttempt req _ _) \<longleftrightarrow> e_operation_id_new env (rq_operation_id req) = Inr (rq_operation_id req)"
| "request_admissible env (PublishResult _ result) \<longleftrightarrow> result_admissible env result"
| "request_admissible env (PublishBatch _ result _) \<longleftrightarrow> result_admissible env result"
| "request_admissible env _ \<longleftrightarrow> True"

lemma discarding_Inr:
  "discarding body s db = (db', Inr out) \<longleftrightarrow> (\<exists>res. body s db = (db', Inr res) \<and> out = discard res)"
  by (auto simp: discarding_def tx_bind_Inr)

lemma discarding_audited:
  assumes "audited_body env body P" and P
  shows "audited_body env (discarding body) True"
proof
  show "counted_tx (discarding body s)" for s
    unfolding discarding_def using assms by (intro counted_intros audited_body.body_counted)
  show "append_only_tx (discarding body s)" for s
    unfolding discarding_def using assms by (intro append_only_intros audited_body.body_append_only)
  show "audited_tx env s (discarding body s)" if "env_laws env" "signer_laws env s" for s
    unfolding discarding_def using assms that by (intro audited_intros audited_body.body_audited)
qed

lemma request_audited:
  assumes "request_body env r = Inr body" and "request_admissible env r"
  shows "audited_body env body True"
  using assms
proof (cases r)
  case (BeginSignAttempt req is_batch receipt)
  with assms show ?thesis
    by (auto simp: and_then_eq_Inr attempt_admissible_def split: if_splits
        intro!: discarding_audited [OF begin_sign_attempt.audited_body_axioms])
qed (auto simp: and_then_eq_Inr split: if_splits intro!: discarding_audited
      create_approval.audited_body_axioms create_approval_record.audited_body_axioms
      activate_approval_record.audited_body_axioms transition_approval.audited_body_axioms
      transition_operation.audited_body_axioms begin_key_revocation.audited_body_axioms
      complete_key_revocation.audited_body_axioms reserve.audited_body_axioms
      finalize_reservation.audited_body_axioms publish_result.audited_body_axioms
      publish_batch.audited_body_axioms observe_time.audited_body_axioms repair_clock.audited_body_axioms)

section \<open>What a step does to the store\<close>

lemma lock_for_mutation_store:
  assumes "lock_for_mutation env j = (j', r)"
  shows "j_db j' = j_db j" and "j_signers j' = j_signers j"
  using assms
  by (auto simp: lock_for_mutation_def cached_audit_head_def refresh_verified_audit_tail_def
      split: if_splits option.splits sum.splits prod.splits)

lemma commit_store:
  assumes "commit env body j = (j', r)"
  obtains (kept) "j_db j' = j_db j" and "\<exists>e. r = Inl e"
    | (rolled_back) n e where "j_db j' = (j_db j)\<lparr>total_changes := n\<rparr>" and "r = Inl e"
    | (ran) out where "body (j_signer j) (j_db j) = (j_db j', Inr out)" and "r = Inr out"
proof -
  obtain j1 l where l: "lock_for_mutation env j = (j1, l)" by (meson surj_pair)
  note f = lock_for_mutation_store [OF l]
  show thesis
  proof (cases l)
    case (Inl e)
    with assms l have "j' = j1" "r = Inl e" by (simp_all add: commit_def)
    with f show thesis by (intro kept) auto
  next
    case (Inr u)
    obtain db q where q: "run_transaction (body (j_signer j)) (j_db j) = (db, q)" by (meson surj_pair)
    with assms l Inr f have r: "j_db j' = db" "r = q" by (auto simp: commit_def j_signer_def)
    show thesis
    proof (cases q)
      case (Inl e)
      with q run_transaction_Inl obtain n where "db = (j_db j)\<lparr>total_changes := n\<rparr>" by blast
      with r Inl show thesis by (intro rolled_back) simp_all
    next
      case (Inr out)
      with q r show thesis by (intro ran) (simp_all add: run_transaction_Inr)
    qed
  qed
qed

lemma install_sel [simp]:
  "j_db (install_self_checkpoint sink j) = j_db j" "j_degradation (install_self_checkpoint sink j) = j_degradation j"
  "j_checkpointed (install_self_checkpoint sink j) = j_checkpointed j"
  "journal_ok env (install_self_checkpoint sink j) = journal_ok env j"
  by (simp_all add: install_self_checkpoint_def journal_ok_cong [of "j\<lparr>j_self_checkpoint := Some sink\<rparr>" j])

lemma checkpoint_store:
  assumes "checkpoint_committed_head env j = (j', r)"
  shows "j_db j' = j_db j" and "j_signers j' = j_signers j"
  using assms
  by (auto simp: checkpoint_committed_head_def Let_def cached_audit_head_def refresh_verified_audit_tail_def
      checkpoint_failed_def split: if_splits option.splits sum.splits prod.splits)

lemma finish_store: "finish env out j = (j', r) \<Longrightarrow> j_db j' = j_db j"
  by (cases out) (auto split: prod.splits sum.splits dest: checkpoint_store)

lemma verify_store:
  "verify_audit_chain env j = (j', r) \<Longrightarrow> j_db j' = j_db j \<and> j_signers j' = j_signers j \<and> j_checkpointed j' = j_checkpointed j"
  "verified_audit_head env j = (j', h) \<Longrightarrow> j_db j' = j_db j \<and> j_signers j' = j_signers j \<and> j_checkpointed j' = j_checkpointed j"
  by (auto simp: verify_audit_chain_def verified_audit_head_def cached_audit_head_def refresh_verified_audit_tail_def
      split: if_splits option.splits sum.splits prod.splits)

lemma rotate_store:
  assumes "rotate_audit_key env replacement j = (j', r)"
  shows "\<exists>rows n. j_db j' = (j_db j)\<lparr>audit_chain := audit_chain (j_db j) @ rows, total_changes := n\<rparr>"
proof (cases "as_key_id (j_signer j) = as_key_id replacement")
  case True
  with assms show ?thesis
    by (intro exI [of _ "[]"] exI [of _ "total_changes (j_db j)"]) (simp add: rotate_audit_key_def)
next
  case False
  obtain j1 l where l: "lock_for_mutation env j = (j1, l)" by (meson surj_pair)
  note f = lock_for_mutation_store [OF l]
  obtain db q where q: "run_transaction (rotate_audit_key_tx env (j_signer j1) replacement) (j_db j1) = (db, q)"
    by (meson surj_pair)
  have "j_db j' = j_db j \<or> (\<exists>e. q = Inl e \<and> j_db j' = db) \<or> (q = Inr () \<and> j_db j' = db)"
    using assms l f q False
    by (auto simp: rotate_audit_key_def split: sum.splits dest!: checkpoint_store(1))
  then consider "j_db j' = j_db j" | e where "q = Inl e" "j_db j' = db" | "q = Inr ()" "j_db j' = db" by blast
  then show ?thesis
  proof cases
    case 1
    then show ?thesis by (intro exI [of _ "[]"] exI [of _ "total_changes (j_db j)"]) simp
  next
    case (2 e)
    then obtain n where "db = (j_db j)\<lparr>total_changes := n\<rparr>" using run_transaction_Inl [of _ _ db] q f(1) by metis
    with 2 show ?thesis by (intro exI [of _ "[]"] exI [of _ n]) simp
  next
    case 3
    with q f(1) rotate_tx_frame [of env "j_signer j1" replacement "j_db j"] show ?thesis
      by (auto simp: run_transaction_Inr)
  qed
qed

section \<open>Orders along traces\<close>

fun own_event :: "event \<Rightarrow> bool" where
  "own_event (OtherWriter _ _) \<longleftrightarrow> False"
| "own_event _ \<longleftrightarrow> True"

text \<open>
  An order that the transaction of every permitted request respects, and that does not depend on
  the audit chain and the counter, is respected by every trace in which only this
  connection writes.
\<close>

locale journal_order = store_order R
  for R :: "db \<Rightarrow> db \<Rightarrow> bool" +
  fixes env :: env and permitted :: "request \<Rightarrow> bool"
  assumes request_rel: "permitted r \<Longrightarrow> request_body env r = Inr body \<Longrightarrow> tx_rel R (body s)"
    and chain_free: "R db (db\<lparr>audit_chain := rows, total_changes := n\<rparr>)"
begin

lemma commit_rel:
  assumes "permitted r" and "commit_request env r j = (j', res)"
  shows "R (j_db j) (j_db j')"
proof (cases "request_body env r")
  case (Inl e)
  with assms refl show ?thesis by (simp add: commit_request_def)
next
  case (Inr body)
  with assms have "commit env body j = (j', res)" by (simp add: commit_request_def)
  then show ?thesis
  proof (cases rule: commit_store)
    case kept
    then show ?thesis using refl by simp
  next
    case (rolled_back n e)
    then show ?thesis using chain_free [where db = "j_db j" and rows = "audit_chain (j_db j)" and n = n] by simp
  next
    case (ran out)
    then show ?thesis using request_rel [OF assms(1) Inr] by (auto dest: tx_relD)
  qed
qed

lemma step_rel:
  assumes "step env e s s'" and "own_event e" and "\<And>r. e = Request r \<Longrightarrow> permitted r"
  shows "R (j_db (fst s)) (j_db (fst s'))"
  using assms
proof (cases rule: step.cases)
  case (rotated replacement j j' res)
  with rotate_store chain_free show ?thesis by fastforce
qed (auto intro: commit_rel simp: refl dest: finish_store verify_store)

lemma trace_rel:
  assumes "trace env es s s'" and "\<forall>e \<in> set es. own_event e" and "\<And>r. Request r \<in> set es \<Longrightarrow> permitted r"
  shows "R (j_db (fst s)) (j_db (fst s'))"
  using assms
proof (induction rule: trace.induct)
  case (more e s s1 es s2)
  then have "R (j_db (fst s)) (j_db (fst s1))" by (intro step_rel) auto
  moreover have "R (j_db (fst s1)) (j_db (fst s2))" using more by auto
  ultimately show ?case by (rule trans)
qed (simp add: refl)

end

lemma discarding_rel: "tx_rel R (body s) \<Longrightarrow> tx_rel R (discarding body s)"
  by (auto simp: tx_rel_def discarding_Inr)

text \<open>Requests whose transaction respects an order statement by statement.\<close>

lemmas request_bodies = create_approval_tx_def create_approval_record_tx_def activate_approval_record_tx_def
  transition_approval_tx_def begin_sign_attempt_tx_def check_retry_def admit_operation_def transition_operation_tx_def
  begin_key_revocation_tx_def complete_key_revocation_tx_def reserve_tx_def finalize_reservation_tx_def
  publish_result_tx_def publish_batch_tx_def mark_succeeded_def observe_time_tx_def repair_clock_tx_def
  write_clock_state_def revoke_predecessor_def Let_def

lemma approvals_other_bodies:
  "tx_rel approvals_follow (begin_sign_attempt_tx env req b retry rjcs s)"
  "tx_rel approvals_follow (transition_operation_tx env i nxt s)"
  "tx_rel approvals_follow (begin_key_revocation_tx env i d targets (tx_return ()) s)"
  "tx_rel approvals_follow (complete_key_revocation_tx env i s)"
  "tx_rel approvals_follow (reserve_tx env rreq limits guard s)"
  "tx_rel approvals_follow (finalize_reservation_tx env a i rnxt s)"
  "tx_rel approvals_follow (publish_result_tx env a result s)"
  "tx_rel approvals_follow (publish_batch_tx env a result children s)"
  "tx_rel approvals_follow (observe_time_tx env reading stp limited s)"
  "tx_rel approvals_follow (repair_clock_tx env accepted s)"
  unfolding request_bodies by (intro follow_intros)+

lemma approvals_requests: "request_body env r = Inr body \<Longrightarrow> tx_rel approvals_follow (body s)"
  by (cases r) (auto simp: and_then_eq_Inr split: if_splits intro!: discarding_rel approvals_bodies approvals_other_bodies)

lemma operations_bodies:
  "tx_rel operations_follow (create_approval_tx env i st s)"
  "tx_rel operations_follow (create_approval_record_tx env i new s)"
  "tx_rel operations_follow (activate_approval_record_tx env i oid g s)"
  "tx_rel operations_follow (transition_approval_tx env i anxt s)"
  "tx_rel operations_follow (begin_sign_attempt_tx env req b retry rjcs s)"
  "tx_rel operations_follow (begin_key_revocation_tx env i d targets (tx_return ()) s)"
  "tx_rel operations_follow (reserve_tx env rreq limits guard s)"
  "tx_rel operations_follow (finalize_reservation_tx env a i rnxt s)"
  "tx_rel operations_follow (observe_time_tx env reading stp limited s)"
  "tx_rel operations_follow (repair_clock_tx env accepted s)"
  unfolding request_bodies by (intro follow_intros)+

lemma operations_requests: "request_body env r = Inr body \<Longrightarrow> tx_rel operations_follow (body s)"
  by (cases r) (auto simp: and_then_eq_Inr split: if_splits intro!: discarding_rel operations_bodies
      transition_operation_follows complete_key_revocation_follows publish_result_follows publish_batch_follows)

lemma ledger_bodies:
  "tx_rel ledger_follow (create_approval_tx env i st s)"
  "tx_rel ledger_follow (create_approval_record_tx env i new s)"
  "tx_rel ledger_follow (activate_approval_record_tx env i oid g s)"
  "tx_rel ledger_follow (transition_approval_tx env i anxt s)"
  "tx_rel ledger_follow (begin_sign_attempt_tx env req b retry rjcs s)"
  "tx_rel ledger_follow (transition_operation_tx env i nxt s)"
  "tx_rel ledger_follow (begin_key_revocation_tx env i d targets (tx_return ()) s)"
  "tx_rel ledger_follow (complete_key_revocation_tx env i s)"
  "tx_rel ledger_follow (reserve_tx env rreq limits guard s)"
  "tx_rel ledger_follow (observe_time_tx env reading stp limited s)"
  "tx_rel ledger_follow (repair_clock_tx env accepted s)"
  unfolding request_bodies by (intro follow_intros)+

lemma ledger_requests: "request_body env r = Inr body \<Longrightarrow> tx_rel ledger_follow (body s)"
  by (cases r) (auto simp: and_then_eq_Inr split: if_splits intro!: discarding_rel ledger_bodies
      finalize_reservation_follows publish_result_ledger publish_batch_ledger)

lemma clock_bodies:
  "tx_rel clock_follow (create_approval_tx env i st s)"
  "tx_rel clock_follow (create_approval_record_tx env i new s)"
  "tx_rel clock_follow (activate_approval_record_tx env i oid g s)"
  "tx_rel clock_follow (transition_approval_tx env i anxt s)"
  "tx_rel clock_follow (begin_sign_attempt_tx env req b retry rjcs s)"
  "tx_rel clock_follow (transition_operation_tx env i nxt s)"
  "tx_rel clock_follow (begin_key_revocation_tx env i d targets (tx_return ()) s)"
  "tx_rel clock_follow (complete_key_revocation_tx env i s)"
  "tx_rel clock_follow (reserve_tx env rreq limits guard s)"
  "tx_rel clock_follow (finalize_reservation_tx env a i rnxt s)"
  "tx_rel clock_follow (publish_result_tx env a result s)"
  "tx_rel clock_follow (publish_batch_tx env a result children s)"
  unfolding request_bodies by (intro follow_intros)+

lemma clock_requests: "clock_law env \<Longrightarrow> request_body env r = Inr body \<Longrightarrow> tx_rel clock_follow (body s)"
  by (cases r) (auto simp: and_then_eq_Inr split: if_splits intro!: discarding_rel clock_bodies
      observe_time_clock repair_clock_clock)

interpretation approvals_order: journal_order approvals_follow env "\<lambda>_. True"
  for env
  by unfold_locales (auto intro: approvals_requests approvals_follow_same)

interpretation operations_order: journal_order operations_follow env "\<lambda>_. True"
  for env
  by unfold_locales (auto intro: operations_requests operations_follow_same)

interpretation ledger_order: journal_order ledger_follow env "\<lambda>_. True"
  for env
  by unfold_locales (auto intro: ledger_requests ledger_follow_same)

interpretation clock_order: journal_order clock_follow env "\<lambda>_. clock_law env"
  for env
  by unfold_locales (auto intro: clock_requests clock_follow_same)

section \<open>The invariant of the state machine\<close>

text \<open>Other connections that write keep the references between tables; new keys are lawful signers.\<close>

fun event_ok :: "env \<Rightarrow> event \<Rightarrow> bool" where
  "event_ok env (Request r) \<longleftrightarrow> request_admissible env r"
| "event_ok env (Rotate replacement) \<longleftrightarrow> signer_laws env replacement"
| "event_ok env (OtherWriter db _) \<longleftrightarrow> links_ok db"
| "event_ok env _ \<longleftrightarrow> True"

lemma commit_request_ok:
  assumes "journal_ok env j" and "env_laws env" and "request_admissible env r" and "commit_request env r j = (j', res)"
  shows "journal_ok env j'" and "j_checkpointed j' = j_checkpointed j"
    and "\<And>out. res = Inr out \<Longrightarrow> chain_ok env (j_signer j) (j_db j) \<and> \<not> audit_degraded j
      \<and> chain_ok env (j_signer j') (j_db j') \<and> (\<exists>rows. audit_chain (j_db j') = audit_chain (j_db j) @ rows)"
proof -
  have "journal_ok env j' \<and> j_checkpointed j' = j_checkpointed j \<and> (\<forall>out. res = Inr out \<longrightarrow>
      chain_ok env (j_signer j) (j_db j) \<and> \<not> audit_degraded j
      \<and> chain_ok env (j_signer j') (j_db j') \<and> (\<exists>rows. audit_chain (j_db j') = audit_chain (j_db j) @ rows))"
  proof (cases "request_body env r")
    case (Inl e)
    with assms(1,4) show ?thesis by (auto simp: commit_request_def)
  next
    case (Inr body)
    with assms(4) have c: "commit env body j = (j', res)" by (simp add: commit_request_def)
    note b = request_audited [OF Inr assms(3)]
    show ?thesis
      using audited_body.commit_ok [OF b assms(1,2) c] audited_body.commit_audited [OF b assms(1,2)] c by blast
  qed
  then show "journal_ok env j'" "j_checkpointed j' = j_checkpointed j"
    "\<And>out. res = Inr out \<Longrightarrow> chain_ok env (j_signer j) (j_db j) \<and> \<not> audit_degraded j
      \<and> chain_ok env (j_signer j') (j_db j') \<and> (\<exists>rows. audit_chain (j_db j') = audit_chain (j_db j) @ rows)"
    by blast+
qed

lemma verified_audit_head_ok:
  assumes "journal_ok env j" and "verified_audit_head env j = (j', r)"
  shows "journal_ok env j'"
proof -
  obtain j1 h where h: "cached_audit_head env j = (j1, h)" by (meson surj_pair)
  show ?thesis
  proof (cases h)
    case (Inl e)
    with h cached_audit_head_error have "j1 = j" by blast
    with Inl h assms show ?thesis by (auto simp: verified_audit_head_def)
  next
    case (Inr head)
    have coh: "coherent env j" and links: "links_ok (j_db j)" using assms(1) by (simp_all add: journal_ok_def)
    have "cached_audit_head env j = (j1, Inr head)" using h Inr by simp
    from cached_audit_head_sound [OF coh this] links Inr h assms(2) show ?thesis
      by (auto simp: verified_audit_head_def journal_ok_def)
  qed
qed

lemma verify_audit_chain_ok:
  assumes "journal_ok env j" and "verify_audit_chain env j = (j', r)"
  shows "journal_ok env j'"
proof (cases "verify_audit_chain_connection env (j_signer j) (j_db j)")
  case (Inl e)
  with assms show ?thesis by (auto simp: verify_audit_chain_def)
next
  case (Inr u)
  obtain j1 h where h: "refresh_verified_audit_tail env j = (j1, h)" by (meson surj_pair)
  with Inr assms(2) have j': "j' = j1" by (auto simp: verify_audit_chain_def split: sum.splits)
  show ?thesis
  proof (cases h)
    case (Inl e)
    with h j' assms(1) refresh_Inl show ?thesis by blast
  next
    case head: (Inr head)
    have reg: "registry_ok env (j_signers j)" and links: "links_ok (j_db j)"
      using assms(1) by (simp_all add: journal_ok_def coherent_def)
    have run: "refresh_verified_audit_tail env j = (j1, Inr head)" using h head by simp
    have "coherent env j1" using Inr by (intro coherent_tail [OF reg _ run]) (simp add: chain_ok_def)
    moreover have "j_db j1 = j_db j" using run by (rule refresh_effect) simp
    ultimately show ?thesis using j' links by (simp add: journal_ok_def)
  qed
qed

lemma step_ok:
  assumes "step env e s s'" and "env_laws env" and "event_ok env e" and "journal_ok env (fst s)"
  shows "journal_ok env (fst s')"
  using assms
proof (cases rule: step.cases)
  case (written j v db P)
  with assms show ?thesis by (auto intro: external_write_ok)
qed (auto intro: commit_request_ok(1) finish_ok(1) verify_audit_chain_ok verified_audit_head_ok rotate_audit_key_ok)

lemma trace_ok:
  assumes "trace env es s s'" and "env_laws env" and "\<forall>e \<in> set es. event_ok env e" and "journal_ok env (fst s)"
  shows "journal_ok env (fst s')"
  using assms by (induction rule: trace.induct) (auto dest: step_ok)

section \<open>Degradation is final\<close>

lemma rotate_degraded:
  "audit_degraded j \<Longrightarrow> rotate_audit_key env replacement j = (j', r) \<Longrightarrow> j' = j \<and> (\<exists>e. r = Inl e)"
  by (auto simp: rotate_audit_key_def lock_for_mutation_def split: if_splits)

lemma checkpoint_degradation:
  assumes "checkpoint_committed_head env j = (j', r)" and "j_degradation j = Some cause"
  shows "j_degradation j' = Some cause"
  using assms
  by (auto simp: checkpoint_committed_head_def Let_def cached_audit_head_def refresh_verified_audit_tail_def
      checkpoint_failed_def latch_degradation_def split: if_splits option.splits sum.splits prod.splits)

lemma verify_degradation:
  "verify_audit_chain env j = (j', r) \<Longrightarrow> j_degradation j = Some cause \<Longrightarrow> j_degradation j' = Some cause"
  "verified_audit_head env j = (j', h) \<Longrightarrow> j_degradation j = Some cause \<Longrightarrow> j_degradation j' = Some cause"
  by (auto simp: verify_audit_chain_def verified_audit_head_def cached_audit_head_def refresh_verified_audit_tail_def
      latch_degradation_def split: if_splits option.splits sum.splits prod.splits)

lemma finish_degradation:
  "finish env out j = (j', r) \<Longrightarrow> j_degradation j = Some cause \<Longrightarrow> j_degradation j' = Some cause"
  by (cases out) (auto split: prod.splits sum.splits dest: checkpoint_degradation)

lemma degraded_step:
  assumes "step env e s s'" and "j_degradation (fst s) = Some cause"
  shows "j_degradation (fst s') = Some cause" and "own_event e \<Longrightarrow> j_db (fst s') = j_db (fst s)"
proof -
  have c: "audit_degraded (fst s)" using assms(2) by (simp add: audit_degraded_def)
  have refuse: "j' = j \<and> (\<exists>e. res = Inl e)" if "commit_request env r j = (j', res)" "audit_degraded j" for r j j' res
    using that by (auto simp: commit_request_def commit_degraded split: sum.splits)
  have "j_degradation (fst s') = Some cause \<and> (own_event e \<longrightarrow> j_db (fst s') = j_db (fst s))"
    using assms(1)
  proof (cases rule: step.cases)
    case (committed r j j' out P)
    with refuse [of r j j'] c show ?thesis by auto
  next
    case (refused r j j' er P)
    with refuse [of r j j'] c assms(2) show ?thesis by auto
  next
    case (rotated replacement j j' res)
    with rotate_degraded [of j env replacement j' res] c assms(2) show ?thesis by auto
  next
    case (latched c j P)
    with assms(2) show ?thesis by (simp add: latch_degradation_def)
  qed (use assms(2) in \<open>auto dest: finish_degradation finish_store verify_degradation verify_store simp: external_write_def\<close>)
  then show "j_degradation (fst s') = Some cause" "own_event e \<Longrightarrow> j_db (fst s') = j_db (fst s)" by blast+
qed

lemma degraded_trace:
  assumes "trace env es s s'" and "j_degradation (fst s) = Some cause"
  shows "j_degradation (fst s') = Some cause" and "\<forall>e \<in> set es. own_event e \<Longrightarrow> j_db (fst s') = j_db (fst s)"
proof -
  have "j_degradation (fst s') = Some cause \<and> ((\<forall>e \<in> set es. own_event e) \<longrightarrow> j_db (fst s') = j_db (fst s))"
    using assms
  proof (induction rule: trace.induct)
    case (more e s s1 es s2)
    note st = degraded_step [OF more(1,4)]
    from more.IH [OF st(1)] st(2) show ?case by simp
  qed simp
  then show "j_degradation (fst s') = Some cause" "\<forall>e \<in> set es. own_event e \<Longrightarrow> j_db (fst s') = j_db (fst s)" by blast+
qed

section \<open>Checkpointed heads\<close>

text \<open>
  The heads that were offered to the sink are heads of prefixes of the chain as it is now, in
  the order of their length: a checkpointed history is never rewritten.
\<close>

definition ordered_chain :: "db \<Rightarrow> audit_row list" where
  "ordered_chain db = sort_key au_sequence (audit_chain db)"

definition head_of :: "audit_row list \<Rightarrow> nat \<times> Digest32" where
  "head_of rows = (length rows, if rows = [] then zero_digest else au_entry_hash (last rows))"

definition checkpoints_ok :: "journal \<Rightarrow> bool" where
  "checkpoints_ok j \<longleftrightarrow> sorted (map fst (j_checkpointed j))
   \<and> (\<forall>h \<in> set (j_checkpointed j). fst h \<le> length (ordered_chain (j_db j)) \<and> head_of (take (fst h) (ordered_chain (j_db j))) = h)"

lemma insort_key_append: "(\<And>y. y \<in> set ys \<Longrightarrow> f a \<le> f y) \<Longrightarrow> insort_key f a (xs @ ys) = insort_key f a xs @ ys"
proof (induction xs)
  case Nil
  then show ?case by (cases ys) simp_all
qed simp

lemma sort_key_append:
  "(\<And>x y. x \<in> set xs \<Longrightarrow> y \<in> set ys \<Longrightarrow> f x \<le> f y) \<Longrightarrow> sort_key f (xs @ ys) = sort_key f xs @ sort_key f ys"
proof (induction xs)
  case (Cons a xs)
  have "f a \<le> f y" if "y \<in> set (sort_key f ys)" for y using Cons.prems that by simp
  from insort_key_append [of "sort_key f ys" f a, OF this] Cons show ?case by simp
qed simp

lemma ordered_chain_sequences:
  assumes "chain_ok env s db" and "env_laws env"
  shows "map au_sequence (ordered_chain db) = map int [0 ..< length (audit_chain db)]"
    and "audit_head env db = Inr h \<Longrightarrow> h = head_of (ordered_chain db)"
proof -
  obtain st where st: "verify_rows env db s (ordered_chain db) initial_verify_state = Inr st"
    using chain_ok_rows [OF assms(1)] unfolding ordered_chain_def by blast
  show seq: "map au_sequence (ordered_chain db) = map int [0 ..< length (audit_chain db)]"
    using verify_rows_facts [OF assms(2) st] by (simp add: initial_verify_state_def ordered_chain_def)
  have last: "last_audit_row db = (if ordered_chain db = [] then None else Some (last (ordered_chain db)))"
    by (cases "ordered_chain db" rule: rev_cases) (simp_all add: last_audit_row_def ordered_chain_def)
  have len: "length (ordered_chain db) = length (audit_chain db)" by (simp add: ordered_chain_def)
  note tail = last_audit_row_verified(3) [OF st [unfolded ordered_chain_def] assms(2)]
  show "h = head_of (ordered_chain db)" if "audit_head env db = Inr h"
    using that last tail len env_lawsD(3) [OF assms(2)]
    by (auto simp: audit_head_def head_of_def and_then_eq_Inr u64_try_from_def split: if_splits)
qed

lemma ordered_chain_extends:
  assumes "chain_ok env s db" and "chain_ok env s' db'" and "env_laws env" and "audit_chain db' = audit_chain db @ rows"
  shows "\<exists>new. ordered_chain db' = ordered_chain db @ new"
proof -
  have old: "set (map au_sequence (audit_chain db)) = int ` {0 ..< length (audit_chain db)}"
    using arg_cong [OF ordered_chain_sequences(1) [OF assms(1,3)], of set] by (simp add: ordered_chain_def)
  have all: "distinct (map au_sequence (audit_chain db'))"
  proof -
    have "distinct (map au_sequence (ordered_chain db'))"
      unfolding ordered_chain_sequences(1) [OF assms(2,3)] by (simp add: distinct_map)
    then show ?thesis by (simp add: ordered_chain_def distinct_map)
  qed
  have range: "set (map au_sequence (audit_chain db')) = int ` {0 ..< length (audit_chain db')}"
    using arg_cong [OF ordered_chain_sequences(1) [OF assms(2,3)], of set] by (simp add: ordered_chain_def)
  have "au_sequence x \<le> au_sequence y" if x: "x \<in> set (audit_chain db)" and y: "y \<in> set rows" for x y
  proof -
    have "au_sequence y \<in> set (map au_sequence (audit_chain db'))" using y assms(4) by simp
    then have "0 \<le> au_sequence y" unfolding range by auto
    moreover have "au_sequence y \<notin> set (map au_sequence (audit_chain db))" using all y assms(4) by auto
    ultimately have "int (length (audit_chain db)) \<le> au_sequence y" unfolding old
      by (metis atLeastLessThan_iff imageI le0 linorder_not_less nonneg_int_cases of_nat_less_iff)
    moreover have "au_sequence x \<in> int ` {0 ..< length (audit_chain db)}" using x unfolding old [symmetric] by simp
    ultimately show ?thesis by auto
  qed
  then show ?thesis unfolding ordered_chain_def assms(4) by (subst sort_key_append) auto
qed

lemma checkpoints_extend:
  assumes "checkpoints_ok j" and "ordered_chain (j_db j') = ordered_chain (j_db j) @ new"
    and "j_checkpointed j' = j_checkpointed j"
  shows "checkpoints_ok j'"
  using assms by (auto simp: checkpoints_ok_def)

lemma checkpoints_offer:
  assumes "checkpoints_ok j" and "env_laws env" and "j_db j' = j_db j"
    and "j_checkpointed j' = j_checkpointed j \<or> (\<exists>head. j_checkpointed j' = j_checkpointed j @ [head]
      \<and> audit_head env (j_db j) = Inr head \<and> chain_ok env s (j_db j))"
  shows "checkpoints_ok j'"
  using assms(4)
proof (elim disjE exE conjE)
  fix head
  assume a: "j_checkpointed j' = j_checkpointed j @ [head]" "audit_head env (j_db j) = Inr head" "chain_ok env s (j_db j)"
  then have "head = head_of (ordered_chain (j_db j))" using ordered_chain_sequences(2) assms(2) by blast
  with a(1) assms(1,3) show ?thesis by (auto simp: checkpoints_ok_def sorted_append head_of_def)
qed (use assms in \<open>simp add: checkpoints_ok_def\<close>)

lemma finish_checkpoints:
  assumes "journal_ok env j" and "finish env out j = (j', r)"
  shows "j_checkpointed j' = j_checkpointed j \<or> (\<exists>head. j_checkpointed j' = j_checkpointed j @ [head]
      \<and> audit_head env (j_db j) = Inr head \<and> chain_ok env (j_signer j) (j_db j))"
proof -
  obtain j1 r1 where c: "checkpoint_committed_head env j = (j1, r1)" by (meson surj_pair)
  have "j' = j \<or> j' = j1" using assms(2) c by (cases out; cases r1) auto
  with checkpoint_ok(5) [OF assms(1) c] show ?thesis by blast
qed

lemma checkpoints_step:
  assumes "step env e s s'" and "env_laws env" and "event_ok env e" and "own_event e"
    and "journal_ok env (fst s)" and "checkpoints_ok (fst s)"
  shows "checkpoints_ok (fst s')"
  using assms(1)
proof (cases rule: step.cases)
  case (committed r j j' out P)
  with assms have ok: "journal_ok env j" "request_admissible env r" "checkpoints_ok j" by simp_all
  obtain rows where c: "chain_ok env (j_signer j) (j_db j)" "chain_ok env (j_signer j') (j_db j')"
    "audit_chain (j_db j') = audit_chain (j_db j) @ rows"
    using commit_request_ok(3) [OF ok(1) assms(2) ok(2) committed(4)] by blast
  from ordered_chain_extends [OF c(1,2) assms(2) c(3)] show ?thesis
    using committed ok(3) commit_request_ok(2) [OF ok(1) assms(2) ok(2) committed(4)] checkpoints_extend [of j j'] by auto
next
  case (refused r j j' er P)
  with assms have ok: "journal_ok env j" "request_admissible env r" "checkpoints_ok j" by simp_all
  have "audit_chain (j_db j') = audit_chain (j_db j)"
  proof (cases "request_body env r")
    case (Inl x)
    with refused show ?thesis by (simp add: commit_request_def)
  next
    case (Inr body)
    with refused have "commit env body j = (j', Inl er)" by (simp add: commit_request_def)
    then show ?thesis by (cases rule: commit_store) simp_all
  qed
  then show ?thesis
    using refused ok(3) commit_request_ok(2) [OF ok(1) assms(2) ok(2) refused(4)] checkpoints_extend [of j j' "[]"]
    by (simp add: ordered_chain_def)
next
  case (finished n P j j' res)
  with assms have ok: "journal_ok env j" "checkpoints_ok j" by simp_all
  show ?thesis
    using checkpoints_offer [OF ok(2) assms(2) finish_store [OF finished(5)] finish_checkpoints [OF ok(1) finished(5)]]
      finished by simp
next
  case (rotated replacement j j' res)
  with assms have ok: "journal_ok env j" "signer_laws env replacement" "checkpoints_ok j" by simp_all
  from ok(1) assms(2) ok(2) rotated(4) show ?thesis
  proof (cases rule: rotate_cases)
    case (refused n)
    with rotated ok(3) checkpoints_extend [of j j' "[]"] show ?thesis by (simp add: ordered_chain_def)
  next
    case (ran j2 rows)
    have "checkpoints_ok j2"
      using ordered_chain_extends [OF ran(2,3) assms(2) ran(4)] checkpoints_extend [OF ok(3)] ran(5) by blast
    from checkpoints_offer [OF this assms(2) checkpoint_ok(2,5) [OF ran(1,7)]] show ?thesis using rotated by simp
  qed
next
  case (verified j j' res P)
  with verify_store(1) [OF verified(4)] assms show ?thesis by (simp add: checkpoints_ok_def)
next
  case (head_read j j' res P)
  with verify_store(2) [OF head_read(4)] assms show ?thesis by (simp add: checkpoints_ok_def)
qed (use assms in \<open>auto simp: checkpoints_ok_def\<close>)

lemma from_connection_checkpointed: "j_checkpointed (from_connection env db v s) = []"
proof -
  let ?j = "\<lparr>j_db = db, j_data_version = v, j_signers = new_active_signer s, j_tail = None, j_degradation = None,
      j_self_checkpoint = None, j_checkpointed = []\<rparr>"
  obtain j1 r where "verify_audit_chain env ?j = (j1, r)" by (meson surj_pair)
  with verify_store(1) [OF this] show ?thesis by (cases r) (simp_all add: from_connection_def Let_def)
qed

lemma checkpoints_trace:
  assumes "trace env es s s'" and "env_laws env" and "\<forall>e \<in> set es. event_ok env e \<and> own_event e"
    and "journal_ok env (fst s)" and "checkpoints_ok (fst s)"
  shows "checkpoints_ok (fst s')"
  using assms
proof (induction rule: trace.induct)
  case (more e s s1 es s2)
  then have "journal_ok env (fst s1)" "checkpoints_ok (fst s1)"
    using step_ok [OF more(1)] checkpoints_step [OF more(1)] by simp_all
  with more show ?case by simp
qed simp

section \<open>The functions of the journal are these steps\<close>

definition forget :: "journal \<times> (JournalError + 'a) \<Rightarrow> journal \<times> (JournalError + unit)" where
  "forget p = (fst p, and_then (snd p) (\<lambda>_. Inr ()))"

fun call :: "env \<Rightarrow> request \<Rightarrow> unit jm" where
  "call env (CreateApproval i st) j = create_approval env i st j"
| "call env (CreateApprovalRecord i new) j = create_approval_record env i new j"
| "call env (ActivateApprovalRecord i oid grant) j = activate_approval_record env i oid grant j"
| "call env (TransitionApproval i nxt) j = transition_approval env i nxt j"
| "call env (BeginSignAttempt req is_batch receipt) j = forget (begin_sign_attempt env req is_batch receipt j)"
| "call env (TransitionOperation i nxt) j = transition_operation env i nxt j"
| "call env (BeginKeyRevocation i d targets) j = begin_key_revocation env i d targets j"
| "call env (CompleteKeyRevocation i) j = complete_key_revocation env i j"
| "call env (Reserve req limits guard) j = reserve_for_clock_profile env req limits guard j"
| "call env (FinalizeReservation a i nxt) j = finalize_reservation env a i nxt j"
| "call env (PublishResult a result) j = publish_result env a result j"
| "call env (PublishBatch a result children) j = publish_batch env a result children j"
| "call env (ObserveTime reading stp limited) j = forget (observe_time env reading stp limited j)"
| "call env (RepairClock accepted) j = forget (repair_clock env accepted j)"

lemma commit_discarding:
  "commit env (discarding body) j = (case commit env body j of
     (j', Inl e) \<Rightarrow> (j', Inl e) | (j', Inr out) \<Rightarrow> (j', Inr (discard out)))"
  by (auto simp: commit_def run_transaction_def discarding_def tx_bind_def tx_return_def split: prod.splits sum.splits)

lemma finish_discard: "finish env (discard out) j = forget (finish env out j)"
proof (cases out)
  case (Durable point a)
  then show ?thesis
    by (cases "after_durable env point") (auto simp: forget_def split: prod.splits sum.splits)
qed (auto simp: forget_def split: prod.splits sum.splits)

lemma mutate_discarding:
  "(case commit env (discarding body) j of (j', Inl e) \<Rightarrow> (j', Inl e) | (j', Inr out) \<Rightarrow> finish env out j')
   = forget (mutate env body j)"
  by (simp add: commit_discarding mutate_def finish_discard forget_def split: prod.splits sum.splits)

lemma forget_unit [simp]: "forget p = (p :: journal \<times> (JournalError + unit))"
  by (cases p; cases "snd p") (auto simp: forget_def)

lemma fst_forget [simp]: "fst (forget p) = fst p"
  by (simp add: forget_def)

lemmas journal_functions = create_approval_def create_approval_record_def activate_approval_record_def
  transition_approval_def begin_sign_attempt_def transition_operation_def begin_key_revocation_def
  begin_key_revocation_with_effects_def complete_key_revocation_def reserve_for_clock_profile_def
  finalize_reservation_def publish_result_def publish_batch_def observe_time_def repair_clock_def

lemma call_handle: "fst (call env r j) = fst (handle env r j)"
proof (cases r)
  case (BeginSignAttempt req is_batch receipt)
  then show ?thesis
    by (cases "sign_request_matches env req receipt"; cases "attempt_retry_binding_digest env req"; cases "e_receipt_jcs env receipt")
       (simp_all add: handle_def commit_request_def mutate_discarding journal_functions)
next
  case (PublishBatch a result children)
  then show ?thesis
    by (cases "check_child_ids env (sr_operation_id result) 0 children")
       (simp_all add: handle_def commit_request_def mutate_discarding journal_functions)
qed (simp_all add: handle_def commit_request_def mutate_discarding journal_functions split: prod.splits sum.splits)

lemma call_ok:
  assumes "journal_ok env j" and "env_laws env" and "request_admissible env r"
  shows "journal_ok env (fst (call env r j))"
    and "\<exists>rows. audit_chain (j_db (fst (call env r j))) = audit_chain (j_db j) @ rows"
proof -
  obtain j1 res where c: "commit_request env r j = (j1, res)" by (meson surj_pair)
  note ok = commit_request_ok [OF assms c]
  have "journal_ok env (fst (handle env r j)) \<and> (\<exists>rows. audit_chain (j_db (fst (handle env r j))) = audit_chain (j_db j) @ rows)"
  proof (cases res)
    case (Inl e)
    have "audit_chain (j_db j1) = audit_chain (j_db j)"
    proof (cases "request_body env r")
      case (Inr body)
      with c have "commit env body j = (j1, res)" by (simp add: commit_request_def)
      then show ?thesis using Inl by (cases rule: commit_store) simp_all
    qed (use c in \<open>simp add: commit_request_def\<close>)
    with Inl ok(1) c show ?thesis by (simp add: handle_def)
  next
    case (Inr out)
    obtain j2 r2 where f: "finish env out j1 = (j2, r2)" by (meson surj_pair)
    show ?thesis using Inr c f ok finish_ok [OF ok(1) f] by (simp add: handle_def)
  qed
  then show "journal_ok env (fst (call env r j))"
    "\<exists>rows. audit_chain (j_db (fst (call env r j))) = audit_chain (j_db j) @ rows"
    by (simp_all add: call_handle)
qed

end
