(* ===== verification/Sample.thy ===== *)
theory Sample
  imports JournalSystem
begin

text \<open>
  A concrete environment that satisfies the laws the development assumes of the libraries the
  journal calls, and a concrete signer. The canonical form of a value is a brace and the unary numeral of its
  code, which is injective as the canonical form of JCS is; digests have 64 characters.
\<close>

definition unary :: "nat \<Rightarrow> string" where
  "unary n = replicate n CHR ''1''"

lemma length_unary [simp]: "length (unary n) = n"
  by (simp add: unary_def)

definition sample_text :: "json \<Rightarrow> string" where
  "sample_text v = CHR ''{'' # unary (to_nat v)"

definition sample_parse :: "string \<Rightarrow> string + json" where
  "sample_parse s = (if s = CHR ''{'' # unary (length s - 1) then Inr (from_nat (length s - 1)) else Inl ''json'')"

lemma sample_parse_text [simp]: "sample_parse (sample_text v) = Inr v" "length (sample_text v) - Suc 0 = to_nat v"
  by (simp_all add: sample_parse_def sample_text_def)

definition sample_sha256 :: "bytes \<Rightarrow> string" where
  "sample_sha256 b = take 64 (map (\<lambda>x. char_of (unat x)) (rev b) @ replicate 64 CHR ''0'')"

lemma length_sample_sha256 [simp]: "length (sample_sha256 b) = 64"
  by (simp add: sample_sha256_def)

definition sample_digest32_new :: "string \<Rightarrow> JournalError + Digest32" where
  "sample_digest32_new s = (if length s = 64 then Inr s else Inl (Storage ''digest''))"

definition signature_of_json :: "json \<Rightarrow> NormalizedSignature option" where
  "signature_of_json v = (case (Option.bind (json_get v ''crypto_suite'') json_as_str, Option.bind (json_get v ''bytes'') json_as_str) of
     (Some suite, Some b) \<Rightarrow> Some \<lparr>crypto_suite = suite, signature_bytes = b\<rparr>
   | _ \<Rightarrow> None)"

fun signatures_of_json :: "json list \<Rightarrow> NormalizedSignature list option" where
  "signatures_of_json [] = Some []"
| "signatures_of_json (v # vs) = (case (signature_of_json v, signatures_of_json vs) of
     (Some x, Some xs) \<Rightarrow> Some (x # xs)
   | _ \<Rightarrow> None)"

fun json_as_array :: "json \<Rightarrow> json list option" where
  "json_as_array (JArray vs) = Some vs"
| "json_as_array _ = None"

definition result_of_json :: "json \<Rightarrow> string + SigningResult" where
  "result_of_json v = (case (Option.bind (json_get v ''operation_id'') json_as_str,
       Option.bind (json_get v ''operation_digest'') json_as_str,
       Option.bind (Option.bind (json_get v ''signatures'') json_as_array) signatures_of_json,
       Option.bind (json_get v ''signer_receipt_digest'') json_as_str,
       Option.bind (json_get v ''broker_receipt_digest'') json_as_str) of
     (Some i, Some d, Some s, Some sr, Some br) \<Rightarrow> Inr \<lparr>sr_operation_id = i, sr_operation_digest = d, sr_signatures = s,
       sr_signer_receipt_digest = sr, sr_broker_receipt_digest = br\<rparr>
   | _ \<Rightarrow> Inl ''signing result'')"

lemma signature_of_json [simp]:
  "signature_of_json (json_object [(''crypto_suite'', JString (crypto_suite x)), (''bytes'', JString (signature_bytes x))])
    = Some (x :: NormalizedSignature)"
  by (simp add: signature_of_json_def)

lemma signatures_of_json:
  "signatures_of_json (map (\<lambda>s. json_object
     [(''crypto_suite'', JString (crypto_suite s)), (''bytes'', JString (signature_bytes s))]) xs)
   = Some (xs :: NormalizedSignature list)"
  by (induction xs) simp_all

lemma result_of_json [simp]: "result_of_json (signing_result_json r) = Inr (r :: SigningResult)"
  by (simp add: result_of_json_def signing_result_json_def signatures_of_json)

type_synonym receipt_code = "string \<times> string \<times> nat \<times> string \<times> string option \<times> string option \<times> string \<times> nat list \<times> json"

definition receipt_encode :: "BrokerValidationReceipt \<Rightarrow> receipt_code" where
  "receipt_encode r = (vr_approval_id r, vr_operation_digest r, unat (vr_policy_version r), vr_policy_digest r,
     vr_claim_digest r, vr_assurance_digest r, vr_broker_key_id r, map unat (vr_broker_signature r), vr_rest r)"

fun receipt_decode :: "receipt_code \<Rightarrow> BrokerValidationReceipt" where
  "receipt_decode (a, d, v, p, c, s, k, sig, rest) = \<lparr>vr_approval_id = a, vr_operation_digest = d,
     vr_policy_version = of_nat v, vr_policy_digest = p, vr_claim_digest = c, vr_assurance_digest = s,
     vr_broker_key_id = k, vr_broker_signature = map of_nat sig, vr_rest = rest\<rparr>"

lemma receipt_decode_encode [simp]: "receipt_decode (receipt_encode r) = (r :: BrokerValidationReceipt)"
  by (simp add: receipt_encode_def comp_def)

definition sample_evaluate_durable_clock ::
    "PersistedClockState option \<Rightarrow> PlatformTimeReading \<Rightarrow> bytes option \<Rightarrow> u64 \<Rightarrow> string + (u64 \<times> DurableClockCondition)" where
  "sample_evaluate_durable_clock previous reading epoch max_step = (case (previous, pr_utc_ms reading) of
     (None, None) \<Rightarrow> Inr (0, DC_Untrusted)
   | (None, Some t) \<Rightarrow> Inr (t, DC_Healthy)
   | (Some p, None) \<Rightarrow> Inr (pc_last_effective_ms p, DC_Untrusted)
   | (Some p, Some t) \<Rightarrow> if t < pc_last_effective_ms p then Inr (pc_last_effective_ms p, DC_RollbackFrozen)
       else Inr (t, DC_Healthy))"

definition sample_env :: env where
  "sample_env = \<lparr>e_sha256 = sample_sha256, e_digest32_new = sample_digest32_new, e_operation_id_new = Inr,
     e_token_new = Inr, e_boot_epoch_new = Inr, e_boot_epoch_to_bytes = (\<lambda>_. replicate 16 1),
     e_base64url_parse = Inr, e_jcs = (\<lambda>v. Inr (sample_text v)), e_json_from_str = sample_parse,
     e_signing_result_from_str = (\<lambda>s. result_of_json (from_nat (length s - 1))),
     e_receipt_jcs = (\<lambda>r. Inr (unary (to_nat (receipt_encode r)))),
     e_receipt_from_str = (\<lambda>s. Inr (receipt_decode (from_nat (length s)))),
     e_receipt_digest = (\<lambda>r. Inr (sample_sha256 [])),
     e_operation_identity_digest = (\<lambda>r. Inr (rq_operation_digest r)),
     e_computed_attempt_digest = (\<lambda>r. Inr (rq_attempt_digest r)),
     e_request_value = (\<lambda>r. Inr (json_object [(''operation_digest'', JString (rq_operation_digest r))])),
     e_biguint_from_str = (\<lambda>s. case digits_value s 0 of None \<Rightarrow> Inl ''digits'' | Some n \<Rightarrow> Inr n),
     e_terms_expires_at_ms = (\<lambda>_. Inr 0), e_evaluate_durable_clock = sample_evaluate_durable_clock,
     e_sqlite_text = (\<lambda>_. ''sqlite''), e_parse_int_text = (\<lambda>_. ''int''), e_state_parse_text = (\<lambda>_. ''state''),
     e_wire_error_text = (\<lambda>_. ''wire''), e_fault_hook = (\<lambda>_. None)\<rparr>"

lemma sample_env_sel [simp]:
  "e_sha256 sample_env = sample_sha256" "e_digest32_new sample_env = sample_digest32_new" "e_operation_id_new sample_env i = Inr i"
  "e_jcs sample_env v = Inr (sample_text v)" "e_fault_hook sample_env p = None"
  "e_json_from_str sample_env = sample_parse"
  "e_evaluate_durable_clock sample_env = sample_evaluate_durable_clock"
  by (simp_all add: sample_env_def)

lemma sample_env_laws: "env_laws sample_env"
  unfolding env_laws_def
  by (auto simp: sample_env_def sample_digest32_new_def zero_digest_def length_concat sum_list_replicate split: if_splits)

lemma sample_json_texts_law: "json_texts_law sample_env"
  unfolding json_texts_law_def
proof (intro allI impI)
  fix x q v w
  assume "e_json_from_str sample_env (x @ q) = Inr v" and "e_json_from_str sample_env q = Inr w"
  then have xq: "x @ q = CHR ''{'' # unary (length (x @ q) - 1)" and q: "q = CHR ''{'' # unary (length q - 1)"
    by (simp_all add: sample_parse_def split: if_splits)
  have "x = []"
  proof (cases x)
    case (Cons c y)
    with xq have "y @ q = unary (length (x @ q) - 1)" by (metis append_Cons list.inject)
    then have "set (y @ q) \<subseteq> {CHR ''1''}" by (auto simp: unary_def set_replicate_conv_if split: if_splits)
    moreover have "CHR ''{'' \<in> set q" using q by (metis list.set_intros(1))
    ultimately show ?thesis by auto
  qed simp
  then show "blank x" by (simp add: blank_def)
qed

lemma sample_clock_law: "clock_law sample_env"
  by (auto simp: clock_law_def sample_env_def sample_evaluate_durable_clock_def split: option.splits if_splits)

definition sample_signer :: AuditSigner where
  "sample_signer = \<lparr>as_key_id = ''key-1'', as_sign = (\<lambda>m. Inr ''sig''), as_verify = (\<lambda>k m s. k = ''key-1'' \<and> s = ''sig'')\<rparr>"

lemma sample_signer_laws: "signer_laws sample_env sample_signer"
  by (simp add: signer_laws_def sample_signer_def) (simp add: sample_env_def)

text \<open>A journal over a store whose audit chain is still empty.\<close>

definition sample_journal :: "db \<Rightarrow> journal" where
  "sample_journal db = from_connection sample_env db 1 sample_signer"

lemma sample_journal_eval:
  assumes "audit_chain db = []"
  shows "sample_journal db = \<lparr>j_db = db, j_data_version = 1, j_signers = new_active_signer sample_signer,
    j_tail = Some \<lparr>tl_sequence = 0, tl_head_hash = zero_digest, tl_data_version = 1, tl_total_changes = total_changes db\<rparr>,
    j_degradation = None, j_self_checkpoint = None, j_checkpointed = []\<rparr>"
  using assms
  by (simp add: sample_journal_def from_connection_def verify_audit_chain_def verify_audit_chain_connection_def
      initial_verify_state_def refresh_verified_audit_tail_def audit_head_def last_audit_row_def)

lemma sample_journal_ok: "links_ok db \<Longrightarrow> journal_ok sample_env (sample_journal db)"
  unfolding sample_journal_def by (rule from_connection_ok(1) [OF sample_signer_laws])

lemma links_ok_empty: "operations db = [] \<Longrightarrow> batch_children db = [] \<Longrightarrow>
    (\<And>m. m \<in> set (approval_metadata db) \<Longrightarrow> md_ceremony_grant_jcs m = None) \<Longrightarrow> links_ok db"
  by (simp add: links_ok_def select_children_def)

text \<open>A commit on a journal whose tail matches runs the transaction at once.\<close>

lemma sample_commit_with:
  assumes "audit_chain db = []" and "body (active_signer (new_active_signer sample_signer)) db = (db', Inr out)"
  shows "commit sample_env body ((sample_journal db)\<lparr>j_self_checkpoint := sink\<rparr>)
    = ((sample_journal db)\<lparr>j_db := db', j_self_checkpoint := sink\<rparr>, Inr out)"
  using assms
  by (simp add: commit_def lock_for_mutation_def audit_degraded_def cached_audit_head_def tail_matches_def
      sample_journal_eval j_signer_def run_transaction_def)

lemma sample_commit:
  assumes "audit_chain db = []" and "body (active_signer (new_active_signer sample_signer)) db = (db', Inr out)"
  shows "commit sample_env body (sample_journal db) = ((sample_journal db)\<lparr>j_db := db'\<rparr>, Inr out)"
  using sample_commit_with [where body = body and sink = None, OF assms] assms(1) by (simp add: sample_journal_eval)

text \<open>The first entry of a chain.\<close>

definition sample_entry :: "string \<Rightarrow> json \<Rightarrow> audit_row" where
  "sample_entry event_type payload =
     (let entry_hash = compute_audit_hash sample_env 0 event_type (sample_text payload) zero_digest in
      \<lparr>au_sequence = 0, au_event_type = event_type, au_payload_jcs = sample_text payload,
       au_previous_hash = zero_digest, au_entry_hash = entry_hash, au_signing_key_id = ''key-1'', au_signature = ''sig''\<rparr>)"

lemma sample_append:
  assumes "audit_chain db = []"
  shows "append_audit sample_env et p (active_signer (new_active_signer sample_signer)) db
    = (changed 1 (db\<lparr>audit_chain := [sample_entry et p]\<rparr>), Inr (1, au_entry_hash (sample_entry et p)))"
proof -
  have "sample_digest32_new zero_digest = Inr zero_digest"
    using env_lawsD(2) [OF sample_env_laws] by simp
  then show ?thesis
    using assms
    by (simp add: append_audit_def tx_bind_def tx_query_def tx_lift_def tx_return_def last_audit_row_def u64_try_from_def
        insert_audit_def sample_entry_def new_active_signer_def Let_def)
       (simp add: sample_signer_def)
qed

lemmas run_simps = tx_bind_def tx_return_def tx_check_def tx_query_def tx_lift_def tx_fail_def discarding_def changed_def

lemma sample_create_with:
  assumes "audit_chain db = []" and "select_approval i db = None"
  shows "commit_request sample_env (CreateApproval i st) ((sample_journal db)\<lparr>j_self_checkpoint := sink\<rparr>) =
    ((sample_journal db)\<lparr>j_db := db\<lparr>approvals := approvals db @ [\<lparr>ap_approval_id = i, ap_state = approval_state_text st\<rparr>],
        audit_chain := [sample_entry ''approval.created'' (json_object
          [(''approval_id'', JString i), (''state'', JString (approval_state_text st))])],
        total_changes := total_changes db + 2\<rparr>, j_self_checkpoint := sink\<rparr>,
     Inr (Durable ApprovalTransition ()))"
  unfolding commit_request_def
  by (simp, rule sample_commit_with)
     (use assms in \<open>simp_all add: run_simps create_approval_tx_def insert_approval_def sample_append\<close>)

lemma sample_create:
  assumes "audit_chain db = []" and "select_approval i db = None"
  shows "commit_request sample_env (CreateApproval i st) (sample_journal db) =
    ((sample_journal db)\<lparr>j_db := db\<lparr>approvals := approvals db @ [\<lparr>ap_approval_id = i, ap_state = approval_state_text st\<rparr>],
        audit_chain := [sample_entry ''approval.created'' (json_object
          [(''approval_id'', JString i), (''state'', JString (approval_state_text st))])],
        total_changes := total_changes db + 2\<rparr>\<rparr>,
     Inr (Durable ApprovalTransition ()))"
  using sample_create_with [OF assms, where st = st and sink = None] assms(1) by (simp add: sample_journal_eval)

lemma sample_finish:
  assumes "audit_chain db = []" and "audit_chain db' = [sample_entry et p]"
  shows "\<exists>t. finish sample_env (Durable point ()) ((sample_journal db)\<lparr>j_db := db', j_self_checkpoint := Some (\<lambda>_ _. None)\<rparr>)
    = ((sample_journal db)\<lparr>j_db := db', j_tail := t, j_self_checkpoint := Some (\<lambda>_ _. None),
         j_checkpointed := [(1, au_entry_hash (sample_entry et p))]\<rparr>, Inr ())"
proof -
  have d: "sample_digest32_new (au_entry_hash (sample_entry et p)) = Inr (au_entry_hash (sample_entry et p))"
    by (simp add: sample_entry_def compute_audit_hash_def sample_digest32_new_def Let_def)
  have "au_sequence (sample_entry et p) = 0" by (simp add: sample_entry_def Let_def)
  then show ?thesis
    using assms d
    by (simp add: sample_journal_eval checkpoint_committed_head_def Let_def refresh_verified_audit_tail_def audit_head_def
        last_audit_row_def u64_try_from_def USIZE_LIMIT_def after_durable_def)
qed

text \<open>A store with one active approval and a trusted clock, and a reservation on it.\<close>

definition active_db :: db where
  "active_db = empty_db\<lparr>approvals := [\<lparr>ap_approval_id = ''a'', ap_state = ''ACTIVE''\<rparr>],
     approval_metadata := [\<lparr>md_approval_id = ''a'', md_terms_jcs = ''{}'', md_review_manifest_digest = ''d'',
       md_approved_claim_digest = None, md_provenance_jcs = None, md_renewal_of = None,
       md_activation_operation_id = None, md_ceremony_grant_jcs = None\<rparr>],
     clock_state := Some \<lparr>ck_last_effective_ms = u64_to_string 7, ck_condition = ''HEALTHY'', ck_observed_utc_ms = None,
       ck_monotonic_anchor_ns = ''0'', ck_boot_epoch = ''b''\<rparr>\<rparr>"

definition sample_reservation :: ReservationRequest where
  "sample_reservation = \<lparr>rr_approval_id = ''a'', rr_operation_id = ''o'', rr_operation_digest = ''d'', rr_signature_count = 2,
     rr_reserved_at_ms = 7, rr_observed_utc_ms = None, rr_monotonic_anchor_ns = 0, rr_clock_boot_epoch = ''b'',
     rr_values = [(''usd'', ''5'')]\<rparr>"

lemma sample_reservation_sel [simp]:
  "rr_approval_id sample_reservation = ''a''" "rr_operation_id sample_reservation = ''o''"
  "rr_signature_count sample_reservation = 2" "rr_reserved_at_ms sample_reservation = 7"
  "rr_values sample_reservation = [(''usd'', ''5'')]"
  by (simp_all add: sample_reservation_def)

definition sample_limits :: BudgetLimits where
  "sample_limits = \<lparr>bl_max_operations = 1, bl_max_signatures = 2,
     bl_rate_limits = [\<lparr>sb_max_operations = 1, sb_max_signatures = 2, sb_duration_ms = 4\<rparr>],
     bl_value_limits = [(''usd'', ''9'')], bl_rolling_value_limits = []\<rparr>"

lemma active_db_sel [simp]:
  "audit_chain active_db = []" "links_ok active_db" "reservations active_db = []" "reservation_values active_db = []"
  "operations active_db = []" "effective_time active_db = Some 7" "ledger_wf active_db" "live_reservations active_db a = []"
  by (simp_all add: live_reservations_def active_db_def empty_db_def links_ok_def select_children_def effective_time_def ledger_wf_def)

lemma active_journal [simp]: "j_db (sample_journal active_db) = active_db"
  by (simp add: sample_journal_eval)

lemma sample_trace:
  assumes "audit_chain db = []" and "request_body sample_env r = Inr body"
    and "body (active_signer (new_active_signer sample_signer)) db = (db', Inr out)"
  shows "trace sample_env [Request r] (sample_journal db, []) ((sample_journal db)\<lparr>j_db := db'\<rparr>, [out])"
proof -
  have "commit_request sample_env r (sample_journal db) = ((sample_journal db)\<lparr>j_db := db'\<rparr>, Inr out)"
    using assms(2) sample_commit [where body = body, OF assms(1,3)] by (simp add: commit_request_def)
  from trace.more [OF step.committed [OF this, of "[]"] trace.none] show ?thesis by simp
qed

definition reserved_db :: db where
  "reserved_db = active_db\<lparr>reservations := [reservation_row_of sample_reservation],
     reservation_values := [\<lparr>rv_approval_id = ''a'', rv_operation_id = ''o'', rv_asset_id = ''usd'', rv_amount = ''5''\<rparr>],
     audit_chain := [sample_entry ''reservation.created'' (reserved_payload sample_reservation)], total_changes := 3\<rparr>"

lemma sample_reserve_checks:
  "map_option (\<lambda>(a, m). ap_state a) (select_approval_record ''a'' active_db) = Some ''ACTIVE''"
  "validate_reservation_clock active_db 7 True = Inr ()" "reservation_state active_db sample_reservation = Inr None"
  "validate_lifetime_limits sample_env active_db sample_reservation sample_limits = Inr ()"
  "validate_rate_limits sample_env active_db sample_reservation sample_limits = Inr ()"
  "validate_value_limits sample_env active_db sample_reservation sample_limits = Inr ()"
  "validate_rolling_value_limits sample_env active_db sample_reservation sample_limits = Inr ()"
  by (simp_all add: active_db_def empty_db_def sample_reservation_def sample_limits_def select_approval_record_def
      select_approval_def select_metadata_def validate_reservation_clock_def reservation_state_def reservation_state_by_id_def
      select_reservation_def validate_lifetime_limits_def live_reservations_def count_u64_def USIZE_LIMIT_def exceeds_def
      checked_add_def validate_rate_limits_def lineage_def lineage_reservations_def check_rate_limit_def
      validate_value_limits_def check_value_limit_def live_values_def parse_biguint_def Let_def List.map_filter_def
      validate_rolling_value_limits_def sample_env_def)

lemma sample_reserve:
  "reserve_tx sample_env sample_reservation sample_limits True (active_signer (new_active_signer sample_signer)) active_db
    = (reserved_db, Inr (Durable ReservationCreated ()))"
proof -
  have f: "bl_rate_limits sample_limits \<noteq> []"
    by (simp add: sample_limits_def)
  show ?thesis
    unfolding reserve_tx_def
    by (simp add: run_simps f sample_reserve_checks insert_reservation_def insert_value_def reserved_db_def
        select_reservation_def sample_append reservation_row_of_def)
       (simp add: active_db_def empty_db_def)
qed

end
