(* ===== verification/Ledger.thy ===== *)
theory Ledger
  imports Sample
begin

text \<open>
  What the reservation ledger guarantees: the lifetime budget of an approval, the exact sliding
  windows over its reservations, and the value budget per asset. The numbers that the tables
  hold as texts are read as natural numbers here.
\<close>

section \<open>Reading the ledger\<close>

definition number_of :: "string \<Rightarrow> nat" where
  "number_of t = (case u64_from_str t of None \<Rightarrow> 0 | Some n \<Rightarrow> unat n)"

definition signatures_of :: "reservation_row \<Rightarrow> nat" where
  "signatures_of row = number_of (rs_signature_count row)"

definition time_of :: "reservation_row \<Rightarrow> nat" where
  "time_of row = number_of (rs_reserved_at_ms row)"

definition amount_of :: "env \<Rightarrow> string \<Rightarrow> nat" where
  "amount_of env t = (case e_biguint_from_str env t of Inl _ \<Rightarrow> 0 | Inr n \<Rightarrow> n)"

lemma number_of_text [simp]: "number_of (u64_to_string n) = unat n"
  by (simp add: number_of_def)

lemma parse_u64_Inr: "parse_u64 env t = Inr n \<Longrightarrow> number_of t = unat n"
  by (simp add: parse_u64_def number_of_def)

lemma parse_biguint_Inr: "parse_biguint env t = Inr n \<Longrightarrow> amount_of env t = n"
  by (simp add: parse_biguint_def amount_of_def)

lemma not_exceeds: "\<not> exceeds used added maximum \<longleftrightarrow> unat used + unat added \<le> unat maximum"
proof (cases "checked_add used added")
  case None
  moreover have "unat maximum < 2 ^ LENGTH(64)" by (rule unsigned_less)
  ultimately show ?thesis using checked_add_None [of used added] by (simp add: exceeds_def)
next
  case (Some after)
  then show ?thesis using unat_checked_add [OF Some]
    by (simp add: exceeds_def not_less word_le_nat_alt)
qed

lemma count_u64_Inr: "count_u64 n = Inr c \<Longrightarrow> unat c = n"
  by (auto simp: count_u64_def USIZE_LIMIT_def not_le unat_of_nat_small split: if_splits)

lemma sum_signatures_Inr:
  "sum_signatures env rows acc = Inr r \<Longrightarrow> unat r = unat acc + sum_list (map signatures_of rows)"
proof (induction rows arbitrary: acc)
  case (Cons row rows)
  then obtain n acc' where "parse_u64 env (rs_signature_count row) = Inr n" "checked_add acc n = Some acc'"
    "sum_signatures env rows acc' = Inr r" by (auto simp: and_then_eq_Inr)
  with Cons.IH [of acc'] show ?case by (simp add: unat_checked_add signatures_of_def parse_u64_Inr)
qed simp

definition in_window :: "nat \<Rightarrow> nat \<Rightarrow> reservation_row \<Rightarrow> bool" where
  "in_window start now row \<longleftrightarrow> start < time_of row \<and> time_of row \<le> now"

lemma parse_usage_Inr:
  "parse_usage env rows = Inr usage \<Longrightarrow>
   map (\<lambda>(s, t). (unat s, unat t)) usage = map (\<lambda>r. (signatures_of r, time_of r)) rows"
proof (induction rows arbitrary: usage)
  case (Cons row rows)
  then obtain s t rest where "parse_u64 env (rs_signature_count row) = Inr s" "parse_u64 env (rs_reserved_at_ms row) = Inr t"
    "parse_usage env rows = Inr rest" "usage = (s, t) # rest" by (auto simp: and_then_eq_Inr)
  with Cons.IH [of rest] show ?case by (simp add: signatures_of_def time_of_def parse_u64_Inr)
qed simp

lemma window_usage_Inr:
  "window_usage start now usage ops sigs = Inr (ops', sigs') \<Longrightarrow>
   unat ops' = unat ops + length (filter (\<lambda>(s, t). start < t \<and> t \<le> now) usage) \<and>
   unat sigs' = unat sigs + sum_list (map (\<lambda>(s, t). unat s) (filter (\<lambda>(s, t). start < t \<and> t \<le> now) usage))"
proof (induction start now usage ops sigs rule: window_usage.induct)
  case (2 start now s t usage ops sigs)
  show ?case
  proof (cases "start < t \<and> t \<le> now")
    case True
    with "2.prems" obtain ops1 sigs1 where "checked_add ops 1 = Some ops1" "checked_add sigs s = Some sigs1"
      "window_usage start now usage ops1 sigs1 = Inr (ops', sigs')" by (auto simp: and_then_eq_Inr)
    with "2.IH"(1) [OF True] True show ?thesis by (auto simp: unat_checked_add)
  next
    case False
    with 2 show ?thesis by auto
  qed
qed simp

lemma usage_of_rows:
  assumes "parse_usage env rows = Inr usage"
  shows "length (filter (\<lambda>(s, t). start < t \<and> t \<le> now) usage) = length (filter (in_window (unat start) (unat now)) rows)"
    and "sum_list (map (\<lambda>(s, t). unat s) (filter (\<lambda>(s, t). start < t \<and> t \<le> now) usage))
      = sum_list (map signatures_of (filter (in_window (unat start) (unat now)) rows))"
proof -
  have "length (filter (\<lambda>(s, t). start < t \<and> t \<le> now) usage) = length (filter (in_window (unat start) (unat now)) rows)
      \<and> sum_list (map (\<lambda>(s, t). unat s) (filter (\<lambda>(s, t). start < t \<and> t \<le> now) usage))
      = sum_list (map signatures_of (filter (in_window (unat start) (unat now)) rows))"
    using parse_usage_Inr [OF assms]
  proof (induction usage arbitrary: rows)
    case (Cons u usage)
    then obtain r rest where rows: "rows = r # rest" by (cases rows) auto
    with Cons.prems Cons.IH [of rest] show ?case
      by (auto simp: in_window_def word_less_nat_alt word_le_nat_alt split: prod.splits)
  qed auto
  then show "length (filter (\<lambda>(s, t). start < t \<and> t \<le> now) usage) = length (filter (in_window (unat start) (unat now)) rows)"
    "sum_list (map (\<lambda>(s, t). unat s) (filter (\<lambda>(s, t). start < t \<and> t \<le> now) usage))
      = sum_list (map signatures_of (filter (in_window (unat start) (unat now)) rows))" by simp_all
qed

lemma check_all_Inr: "check_all f xs = Inr () \<longleftrightarrow> (\<forall>x \<in> set xs. f x = Inr ())"
  by (induction xs) (auto simp: and_then_eq_Inr)

lemma sum_amounts_Inr:
  "sum_amounts env amounts acc = Inr r \<Longrightarrow> r = acc + sum_list (map (amount_of env) amounts)"
  by (induction amounts arbitrary: acc) (fastforce simp: and_then_eq_Inr parse_biguint_Inr)+

text \<open>What a passed lifetime check and a passed rate check say about the rows.\<close>

lemma validate_lifetime_Inr:
  assumes "validate_lifetime_limits env db request limits = Inr ()"
  shows "length (live_reservations db (rr_approval_id request)) + 1 \<le> unat (bl_max_operations limits)"
    and "sum_list (map signatures_of (live_reservations db (rr_approval_id request)))
      + unat (rr_signature_count request) \<le> unat (bl_max_signatures limits)"
  using assms unfolding validate_lifetime_limits_def
  by (auto simp: and_then_eq_Inr not_exceeds dest!: count_u64_Inr sum_signatures_Inr split: if_splits)

lemma validate_rate_Inr:
  assumes "validate_rate_limits env db request limits = Inr ()" and "limit \<in> set (bl_rate_limits limits)"
  obtains ids where "lineage db (rr_approval_id request) = Inr ids"
    and "length (filter (in_window (unat (rr_reserved_at_ms request) - unat (sb_duration_ms limit)) (unat (rr_reserved_at_ms request)))
          (lineage_reservations db ids)) + 1 \<le> unat (sb_max_operations limit)"
    and "sum_list (map signatures_of (filter (in_window (unat (rr_reserved_at_ms request) - unat (sb_duration_ms limit))
          (unat (rr_reserved_at_ms request))) (lineage_reservations db ids))) + unat (rr_signature_count request)
          \<le> unat (sb_max_signatures limit)"
proof -
  have "bl_rate_limits limits \<noteq> []" using assms(2) by auto
  then obtain ids usage where ids: "lineage db (rr_approval_id request) = Inr ids"
    and usage: "parse_usage env (lineage_reservations db ids) = Inr usage"
    and check: "check_rate_limit request usage limit = Inr ()"
    using assms by (auto simp: validate_rate_limits_def and_then_eq_Inr check_all_Inr)
  obtain ops sigs where w: "window_usage (saturating_sub (rr_reserved_at_ms request) (sb_duration_ms limit))
        (rr_reserved_at_ms request) usage 0 0 = Inr (ops, sigs)"
    and "unat ops + 1 \<le> unat (sb_max_operations limit)"
    and "unat sigs + unat (rr_signature_count request) \<le> unat (sb_max_signatures limit)"
    using check by (auto simp: check_rate_limit_def and_then_eq_Inr not_exceeds split: if_splits)
  with window_usage_Inr [OF w] usage_of_rows [OF usage] ids show thesis
    by (intro that [OF ids]) (simp_all add: unat_saturating_sub)
qed

section \<open>What a reservation writes\<close>

definition value_row_of :: "ReservationRequest \<Rightarrow> string \<times> DecimalU256 \<Rightarrow> value_row" where
  "value_row_of request = (\<lambda>(asset_id, amount). \<lparr>rv_approval_id = rr_approval_id request,
     rv_operation_id = rr_operation_id request, rv_asset_id = asset_id, rv_amount = amount\<rparr>)"

lemma insert_values_effect:
  assumes "tx_iter (\<lambda>(asset_id, amount). insert_value env \<lparr>rv_approval_id = rr_approval_id request,
      rv_operation_id = rr_operation_id request, rv_asset_id = asset_id, rv_amount = amount\<rparr>) values db = (db', Inr u)"
  shows "reservation_values db' = reservation_values db @ map (value_row_of request) values
    \<and> reservations db' = reservations db \<and> clock_state db' = clock_state db
    \<and> approval_metadata db' = approval_metadata db \<and> approvals db' = approvals db \<and> distinct (map fst values)
    \<and> (\<forall>v \<in> set (reservation_values db). value_key v = (rr_approval_id request, rr_operation_id request) \<longrightarrow>
         rv_asset_id v \<notin> set (map fst values))"
  using assms
proof (induction "values" arbitrary: db)
  case (Cons v vs)
  obtain asset amount where v: "v = (asset, amount)" by (cases v)
  with Cons.prems obtain db1 where ins: "insert_value env (value_row_of request v) db = (db1, Inr ())"
    and rest: "tx_iter (\<lambda>(asset_id, amount). insert_value env \<lparr>rv_approval_id = rr_approval_id request,
      rv_operation_id = rr_operation_id request, rv_asset_id = asset_id, rv_amount = amount\<rparr>) vs db1 = (db', Inr u)"
    by (auto simp: tx_bind_Inr value_row_of_def)
  have db1: "db1 = changed 1 (db\<lparr>reservation_values := reservation_values db @ [value_row_of request v]\<rparr>)"
    and fresh: "\<forall>r \<in> set (reservation_values db). value_key r = (rr_approval_id request, rr_operation_id request)
        \<longrightarrow> rv_asset_id r \<noteq> asset"
    using ins by (auto simp: insert_value_def v value_row_of_def value_key_def split: if_splits)
  show ?case
    using Cons.IH [OF rest] fresh v by (auto simp: db1 value_row_of_def value_key_def)
qed auto

lemma reserve_cases:
  assumes "reserve_tx env request limits guard s db = (db', Inr out)"
  obtains (replay) row where "db' = db" and "out = Checkpointed ()"
      and "select_reservation (rr_approval_id request) (rr_operation_id request) db = Some row" and "rs_state row = ''RESERVED''"
      and "reservation_matches env db request = Inr True"
    | (fresh) a m where "out = Durable ReservationCreated ()"
      and "select_approval_record (rr_approval_id request) db = Some (a, m)" and "ap_state a = ''ACTIVE''"
      and "select_reservation (rr_approval_id request) (rr_operation_id request) db = None"
      and "guard \<Longrightarrow> validate_reservation_clock db (rr_reserved_at_ms request)
            (bl_rate_limits limits \<noteq> [] \<or> bl_rolling_value_limits limits \<noteq> []) = Inr ()"
      and "validate_lifetime_limits env db request limits = Inr ()"
      and "validate_rate_limits env db request limits = Inr ()"
      and "validate_value_limits env db request limits = Inr ()"
      and "validate_rolling_value_limits env db request limits = Inr ()"
      and "reservations db' = reservations db @ [reservation_row_of request]"
      and "reservation_values db' = reservation_values db @ map (value_row_of request) (rr_values request)"
      and "clock_state db' = clock_state db" and "approval_metadata db' = approval_metadata db"
      and "approvals db' = approvals db" and "distinct (map fst (rr_values request))"
proof -
  obtain a m where am: "select_approval_record (rr_approval_id request) db = Some (a, m)" "ap_state a = ''ACTIVE''"
    using assms by (auto simp: reserve_tx_def split: if_splits)
  have clock: "guard \<Longrightarrow> validate_reservation_clock db (rr_reserved_at_ms request)
            (bl_rate_limits limits \<noteq> [] \<or> bl_rolling_value_limits limits \<noteq> []) = Inr ()"
    using assms am by (auto simp: reserve_tx_def tx_bind_Inr)
  obtain ex where ex: "reservation_state db request = Inr ex"
    using assms am by (auto simp: reserve_tx_def tx_bind_Inr split: if_splits)
  show thesis
  proof (cases ex)
    case (Some st)
    obtain row where row: "select_reservation (rr_approval_id request) (rr_operation_id request) db = Some row"
      "rs_state row = reservation_state_text st"
      using ex Some
      by (auto simp: reservation_state_def reservation_state_by_id_def and_then_eq_Inr parse_reservation_state_Inr split: option.splits)
    show thesis
      using assms am ex Some row by (intro replay [of row]) (auto simp: reserve_tx_def tx_bind_Inr split: if_splits)
  next
    case None
    have none: "select_reservation (rr_approval_id request) (rr_operation_id request) db = None"
      using ex None by (auto simp: reservation_state_def reservation_state_by_id_def and_then_eq_Inr split: option.splits)
    obtain db1 db2 p h where limits: "validate_lifetime_limits env db request limits = Inr ()"
        "validate_rate_limits env db request limits = Inr ()" "validate_value_limits env db request limits = Inr ()"
        "validate_rolling_value_limits env db request limits = Inr ()"
      and ins: "insert_reservation env (reservation_row_of request) db = (db1, Inr ())"
      and vals: "tx_iter (\<lambda>(asset_id, amount). insert_value env \<lparr>rv_approval_id = rr_approval_id request,
        rv_operation_id = rr_operation_id request, rv_asset_id = asset_id, rv_amount = amount\<rparr>) (rr_values request) db1 = (db2, Inr ())"
      and app: "append_audit env ''reservation.created'' p s db2 = (db', Inr h)" and out: "out = Durable ReservationCreated ()"
      using assms am ex None by (auto simp: reserve_tx_def tx_bind_Inr split: if_splits)
    have db1: "db1 = changed 1 (db\<lparr>reservations := reservations db @ [reservation_row_of request]\<rparr>)"
      using ins by (auto simp: insert_reservation_def split: if_splits)
    obtain rows n where app: "db' = db2\<lparr>audit_chain := audit_chain db2 @ rows, total_changes := n\<rparr>"
      using append_audit_frame [OF app] by blast
    show thesis
      using insert_values_effect [OF vals] out am none clock limits app by (intro fresh [of a m]) (simp_all add: db1)
  qed
qed

text \<open>No transaction but that of a reservation adds rows to the ledger.\<close>

definition ledger_still :: "db \<Rightarrow> db \<Rightarrow> bool" where
  "ledger_still db db' \<longleftrightarrow> length (reservations db') = length (reservations db) \<and> reservation_values db' = reservation_values db"

interpretation still_order: store_order ledger_still
  by unfold_locales (auto simp: ledger_still_def)

lemma still_statements [follow_intros]:
  "tx_rel ledger_still (insert_approval env i st)" "tx_rel ledger_still (update_approval_state i st)"
  "tx_rel ledger_still (insert_metadata env md)" "tx_rel ledger_still (update_metadata_activation env a oid g)"
  "tx_rel ledger_still (insert_operation env opr)" "tx_rel ledger_still (update_operations P f)"
  "tx_rel ledger_still (insert_attempt env at)" "tx_rel ledger_still (insert_or_ignore_attempt env at)"
  "tx_rel ledger_still (insert_child env ch)" "tx_rel ledger_still (upsert_clock ck)"
  "tx_rel ledger_still (append_audit env et p s)" "tx_rel ledger_still (update_reservation_state a i rst)"
  by (auto simp: tx_rel_def insert_approval_def update_approval_state_def insert_metadata_def update_metadata_activation_def
      insert_operation_def update_operations_def insert_attempt_def insert_or_ignore_attempt_def insert_child_def
      upsert_clock_def update_reservation_state_def update_where_def ledger_still_def split: if_splits option.splits
      dest: append_audit_ledger)

lemma still_children [follow_intros]: "tx_rel ledger_still (insert_children env parent n children)"
  by (induction children arbitrary: n) (auto intro: follow_intros)

lemma still_bodies:
  "tx_rel ledger_still (create_approval_tx env i st s)"
  "tx_rel ledger_still (create_approval_record_tx env i new s)"
  "tx_rel ledger_still (activate_approval_record_tx env i oid g s)"
  "tx_rel ledger_still (transition_approval_tx env i anxt s)"
  "tx_rel ledger_still (begin_sign_attempt_tx env req b retry rjcs s)"
  "tx_rel ledger_still (transition_operation_tx env i nxt s)"
  "tx_rel ledger_still (begin_key_revocation_tx env i d targets (tx_return ()) s)"
  "tx_rel ledger_still (complete_key_revocation_tx env i s)"
  "tx_rel ledger_still (finalize_reservation_tx env a i rnxt s)"
  "tx_rel ledger_still (publish_result_tx env a result s)"
  "tx_rel ledger_still (publish_batch_tx env a result children s)"
  "tx_rel ledger_still (observe_time_tx env reading stp limited s)"
  "tx_rel ledger_still (repair_clock_tx env accepted s)"
  unfolding request_bodies by (intro follow_intros)+

fun is_reserve :: "request \<Rightarrow> bool" where
  "is_reserve (Reserve _ _ _) \<longleftrightarrow> True"
| "is_reserve _ \<longleftrightarrow> False"

lemma still_requests: "\<not> is_reserve r \<Longrightarrow> request_body env r = Inr body \<Longrightarrow> tx_rel ledger_still (body s)"
  by (cases r) (auto simp: and_then_eq_Inr split: if_splits intro!: discarding_rel still_bodies)

lemma still_rows:
  assumes "\<not> is_reserve r" and "request_body env r = Inr body" and "body s db = (db', Inr out)" and "ledger_wf db"
  shows "list_all2 reservation_follows (reservations db) (reservations db')" and "reservation_values db' = reservation_values db"
    and "ledger_wf db'"
proof -
  have f: "ledger_follow db db'" "ledger_still db db'"
    using tx_relD [OF ledger_requests [OF assms(2)] assms(3)] tx_relD [OF still_requests [OF assms(1,2)] assms(3)] .
  then obtain old new where rows: "reservations db' = old @ new" "list_all2 reservation_follows (reservations db) old"
    using assms(4) by (auto simp: ledger_follow_def rows_follow_def)
  then have "new = []" using f(2) by (auto simp: ledger_still_def dest: list_all2_lengthD)
  with rows f assms(4) show "list_all2 reservation_follows (reservations db) (reservations db')"
    "reservation_values db' = reservation_values db" "ledger_wf db'"
    by (simp_all add: ledger_still_def ledger_follow_def)
qed

section \<open>Invariants of the ledger\<close>

text \<open>
  An invariant of the tables gives an order: a store that satisfies it is followed by stores that
  satisfy it. A ledger invariant is kept by every transaction when it is kept by state changes of
  reservations and by a new reservation.
\<close>

fun permits :: "(ReservationRequest \<Rightarrow> BudgetLimits \<Rightarrow> bool \<Rightarrow> bool) \<Rightarrow> request \<Rightarrow> bool" where
  "permits permitted (Reserve request limits guard) \<longleftrightarrow> permitted request limits guard"
| "permits permitted _ \<longleftrightarrow> True"

locale ledger_invariant =
  fixes I :: "db \<Rightarrow> bool" and env :: env and permitted :: "ReservationRequest \<Rightarrow> BudgetLimits \<Rightarrow> bool \<Rightarrow> bool"
  assumes wf: "I db \<Longrightarrow> ledger_wf db"
    and chain_indep: "I db \<Longrightarrow> I (db\<lparr>audit_chain := rows, total_changes := n\<rparr>)"
    and state_changes: "I db \<Longrightarrow> list_all2 reservation_follows (reservations db) (reservations db') \<Longrightarrow>
      reservation_values db' = reservation_values db \<Longrightarrow> ledger_wf db' \<Longrightarrow>
      (clock_law env \<Longrightarrow> clock_follow db db') \<Longrightarrow> I db'"
    and reserving: "I db \<Longrightarrow> permitted request limits guard \<Longrightarrow>
      reserve_tx env request limits guard s db = (db', Inr out) \<Longrightarrow> I db'"
begin

lemma request_invariant:
  assumes "permits permitted r" and "request_body env r = Inr body"
  shows "tx_rel (\<lambda>db db'. I db \<longrightarrow> I db') (body s)"
  unfolding tx_rel_def
proof (intro allI impI)
  fix db db' out
  assume run: "body s db = (db', Inr out)" and inv: "I db"
  show "I db'"
  proof (cases "is_reserve r")
    case True
    then obtain request limits guard where r: "r = Reserve request limits guard" by (cases r) auto
    with assms have "permitted request limits guard" "body = discarding (reserve_tx env request limits guard)"
      by (auto split: if_splits)
    with run obtain res where "reserve_tx env request limits guard s db = (db', Inr res)" by (auto simp: discarding_Inr)
    with reserving [OF inv \<open>permitted request limits guard\<close>] show ?thesis by blast
  next
    case False
    have "clock_law env \<Longrightarrow> clock_follow db db'" using tx_relD [OF clock_requests [OF _ assms(2)] run] .
    with still_rows [OF False assms(2) run wf [OF inv]] show ?thesis using state_changes [OF inv] by blast
  qed
qed

sublocale journal_order "\<lambda>db db'. I db \<longrightarrow> I db'" env "permits permitted"
  by unfold_locales (use request_invariant chain_indep in auto)

lemma trace_invariant:
  assumes "trace env es s s'" and "\<forall>e \<in> set es. own_event e"
    and "\<And>request limits guard. Request (Reserve request limits guard) \<in> set es \<Longrightarrow> permitted request limits guard"
    and "I (j_db (fst s))"
  shows "I (j_db (fst s'))"
proof -
  have "permits permitted r" if "Request r \<in> set es" for r
    using that assms(3) by (cases r) auto
  from trace_rel [OF assms(1,2) this] assms(4) show ?thesis by blast
qed

end

section \<open>The lifetime budget\<close>

definition within_lifetime :: "Digest32 \<Rightarrow> nat \<Rightarrow> nat \<Rightarrow> db \<Rightarrow> bool" where
  "within_lifetime a max_operations max_signatures db \<longleftrightarrow> ledger_wf db
   \<and> length (live_reservations db a) \<le> max_operations
   \<and> sum_list (map signatures_of (live_reservations db a)) \<le> max_signatures"

lemma follows_row:
  assumes "reservation_follows r r'"
  shows "rs_approval_id r' = rs_approval_id r" "rs_operation_id r' = rs_operation_id r" "signatures_of r' = signatures_of r"
    "time_of r' = time_of r" "is_live r' \<Longrightarrow> is_live r" "rs_reserved_at_ms r' = rs_reserved_at_ms r"
  using assms by (auto simp: reservation_follows_def signatures_of_def time_of_def is_live_def)

text \<open>State changes never bring a reservation back to life, so no count over live rows grows.\<close>

lemma follows_filter:
  assumes "list_all2 reservation_follows rows rows'" and "\<And>r r'. reservation_follows r r' \<Longrightarrow> P r' \<Longrightarrow> P r"
    and "\<And>r r'. reservation_follows r r' \<Longrightarrow> f r' = f r"
  shows "length (filter P rows') \<le> length (filter P rows)"
    and "sum_list (map f (filter P rows')) \<le> (sum_list (map f (filter P rows)) :: nat)"
  using assms(1) by (induction rule: list_all2_induct) (use assms(2,3) in \<open>auto simp: le_SucI trans_le_add2\<close>)

lemma live_reservations_shrink:
  assumes "list_all2 reservation_follows (reservations db) (reservations db')"
  shows "length (live_reservations db' a) \<le> length (live_reservations db a)"
    and "sum_list (map signatures_of (live_reservations db' a)) \<le> sum_list (map signatures_of (live_reservations db a))"
  unfolding live_reservations_def
  by (rule follows_filter [OF assms]; simp add: follows_row)+

lemma new_row [simp]:
  "rs_approval_id (reservation_row_of request) = rr_approval_id request" "rs_operation_id (reservation_row_of request) = rr_operation_id request"
  "is_live (reservation_row_of request)" "signatures_of (reservation_row_of request) = unat (rr_signature_count request)"
  "time_of (reservation_row_of request) = unat (rr_reserved_at_ms request)"
  "rs_reserved_at_ms (reservation_row_of request) = u64_to_string (rr_reserved_at_ms request)"
  by (simp_all add: reservation_row_of_def is_live_def signatures_of_def time_of_def)

lemma reserve_ledger_wf:
  "reserve_tx env request limits guard s db = (db', Inr out) \<Longrightarrow> ledger_wf db \<Longrightarrow> ledger_wf db'"
  using tx_relD [OF ledger_bodies(9)] unfolding ledger_follow_def by blast

lemma reserve_lifetime:
  assumes "reserve_tx env request limits guard s db = (db', Inr out)" and "within_lifetime a n m db"
    and "rr_approval_id request = a \<Longrightarrow> unat (bl_max_operations limits) \<le> n \<and> unat (bl_max_signatures limits) \<le> m"
  shows "within_lifetime a n m db'"
  using assms(1)
proof (cases rule: reserve_cases)
  case (replay row)
  with assms(2) show ?thesis by simp
next
  case (fresh ap md)
  show ?thesis
    using validate_lifetime_Inr [OF fresh(6)] assms(2,3) reserve_ledger_wf [OF assms(1)]
    by (auto simp: within_lifetime_def live_reservations_def fresh(10))
qed

interpretation lifetime_budget: ledger_invariant "within_lifetime a n m" env
    "\<lambda>request limits guard. rr_approval_id request = a \<longrightarrow>
       unat (bl_max_operations limits) \<le> n \<and> unat (bl_max_signatures limits) \<le> m"
  for a n m env
proof
  show "within_lifetime a n m db'" if "within_lifetime a n m db" "ledger_wf db'"
      "list_all2 reservation_follows (reservations db) (reservations db')" for db db'
    using that live_reservations_shrink [OF that(3), of a] by (auto simp: within_lifetime_def)
  show "within_lifetime a n m db'" if "within_lifetime a n m db" "reserve_tx env request limits guard s db = (db', Inr out)"
      "rr_approval_id request = a \<longrightarrow> unat (bl_max_operations limits) \<le> n \<and> unat (bl_max_signatures limits) \<le> m"
    for db db' request limits guard s out
    using reserve_lifetime [OF that(2,1)] that(3) by blast
qed (auto simp: within_lifetime_def live_reservations_def ledger_wf_def)

section \<open>Sliding windows\<close>

definition window_rows :: "Digest32 \<Rightarrow> nat \<Rightarrow> nat \<Rightarrow> db \<Rightarrow> reservation_row list" where
  "window_rows a start duration db =
     filter (\<lambda>r. rs_approval_id r = a \<and> is_live r \<and> in_window start (start + duration) r) (reservations db)"

text \<open>
  No window of the given duration, wherever it starts, holds more than the maximum. The
  reservations of the approval are not later than the effective time.
\<close>

definition within_windows :: "Digest32 \<Rightarrow> nat \<Rightarrow> nat \<Rightarrow> nat \<Rightarrow> db \<Rightarrow> bool" where
  "within_windows a max_operations max_signatures duration db \<longleftrightarrow> ledger_wf db
   \<and> (\<forall>r \<in> set (reservations db). rs_approval_id r = a \<longrightarrow> (\<exists>t. effective_time db = Some t \<and> time_of r \<le> unat t))
   \<and> (\<forall>start. length (window_rows a start duration db) \<le> max_operations
        \<and> sum_list (map signatures_of (window_rows a start duration db)) \<le> max_signatures)"

lemma filter_mono:
  assumes "\<And>r. r \<in> set rows \<Longrightarrow> P r \<Longrightarrow> Q r"
  shows "length (filter P rows) \<le> length (filter Q rows)"
    and "sum_list (map f (filter P rows)) \<le> (sum_list (map f (filter Q rows)) :: nat)"
  using assms by (induction rows) (auto simp: le_SucI trans_le_add2)

lemma lineage_self: "lineage db a = Inr ids \<Longrightarrow> a \<in> set ids"
  by (auto simp: lineage_def split: option.splits)

lemma guarded_time:
  assumes "validate_reservation_clock db now True = Inr ()"
  shows "effective_time db = Some now"
  using assms by (auto simp: validate_reservation_clock_def effective_time_def split: option.splits if_splits)

lemma window_shrink:
  assumes "list_all2 reservation_follows (reservations db) (reservations db')"
  shows "length (window_rows a w d db') \<le> length (window_rows a w d db)"
    and "sum_list (map signatures_of (window_rows a w d db')) \<le> sum_list (map signatures_of (window_rows a w d db))"
  unfolding window_rows_def
  by (rule follows_filter [OF assms]; auto simp: follows_row in_window_def)+

lemma reserve_window:
  assumes run: "reserve_tx env request limits True s db = (db', Inr out)" and old: "within_windows (rr_approval_id request) n m d db"
    and limit: "limit \<in> set (bl_rate_limits limits)" "unat (sb_duration_ms limit) = d"
      "unat (sb_max_operations limit) \<le> n" "unat (sb_max_signatures limit) \<le> m"
  shows "within_windows (rr_approval_id request) n m d db'"
  using run
proof (cases rule: reserve_cases)
  case (replay row)
  with old show ?thesis by simp
next
  case (fresh ap md)
  let ?a = "rr_approval_id request" and ?now = "unat (rr_reserved_at_ms request)"
  have now: "effective_time db = Some (rr_reserved_at_ms request)"
  proof (rule guarded_time)
    have "bl_rate_limits limits \<noteq> []" using limit(1) by auto
    with fresh(5) show "validate_reservation_clock db (rr_reserved_at_ms request) True = Inr ()" by simp
  qed
  then have now': "effective_time db' = Some (rr_reserved_at_ms request)" using fresh(12) by (simp add: effective_time_def)
  have past: "time_of r \<le> ?now" if "r \<in> set (reservations db)" "rs_approval_id r = ?a" for r
    using old that now by (auto simp: within_windows_def)
  obtain ids where ids: "lineage db ?a = Inr ids"
    and ops: "length (filter (in_window (?now - d) ?now) (lineage_reservations db ids)) + 1 \<le> n"
    and sigs: "sum_list (map signatures_of (filter (in_window (?now - d) ?now) (lineage_reservations db ids)))
        + unat (rr_signature_count request) \<le> m"
    using validate_rate_Inr [OF fresh(7) limit(1)] limit(2-4) by (metis order_trans)
  have bound: "length (window_rows ?a w d db') \<le> n \<and> sum_list (map signatures_of (window_rows ?a w d db')) \<le> m" for w
  proof (cases "w < ?now \<and> ?now \<le> w + d")
    case False
    then have "window_rows ?a w d db' = window_rows ?a w d db"
      by (auto simp: window_rows_def fresh(10) in_window_def)
    with old show ?thesis by (simp add: within_windows_def)
  next
    case True
    have sub: "is_live r \<and> rs_approval_id r \<in> set ids \<and> in_window (?now - d) ?now r"
      if "r \<in> set (reservations db)" "rs_approval_id r = ?a \<and> is_live r \<and> in_window w (w + d) r" for r
      using that past [OF that(1)] True lineage_self [OF ids] by (auto simp: in_window_def)
    have "length (window_rows ?a w d db) \<le> length (filter (in_window (?now - d) ?now) (lineage_reservations db ids))"
      "sum_list (map signatures_of (window_rows ?a w d db))
        \<le> sum_list (map signatures_of (filter (in_window (?now - d) ?now) (lineage_reservations db ids)))"
      unfolding window_rows_def lineage_reservations_def filter_filter
      by (rule filter_mono; use sub in blast)+
    moreover have "window_rows ?a w d db' = window_rows ?a w d db @ [reservation_row_of request]"
      using True by (simp add: window_rows_def fresh(10) in_window_def)
    ultimately show ?thesis using ops sigs by simp
  qed
  have "ledger_wf db'" using reserve_ledger_wf [OF run] old by (simp add: within_windows_def)
  with bound past now' show ?thesis by (auto simp: within_windows_def fresh(10))
qed

text \<open>A reservation of another approval leaves the windows alone.\<close>

lemma reserve_window_other:
  assumes run: "reserve_tx env request limits guard s db = (db', Inr out)" and old: "within_windows a n m d db"
    and other: "rr_approval_id request \<noteq> a"
  shows "within_windows a n m d db'"
  using run
proof (cases rule: reserve_cases)
  case (fresh ap md)
  have "window_rows a w d db' = window_rows a w d db" for w using other by (simp add: window_rows_def fresh(10))
  moreover have "effective_time db' = effective_time db" using fresh(12) by (simp add: effective_time_def)
  moreover have "ledger_wf db'" using reserve_ledger_wf [OF run] old by (simp add: within_windows_def)
  ultimately show ?thesis using old other by (auto simp: within_windows_def fresh(10))
qed (use old in simp)

interpretation window_budget: ledger_invariant "\<lambda>db. clock_law env \<and> within_windows a n m d db" env
    "\<lambda>request limits guard. rr_approval_id request = a \<longrightarrow> guard
       \<and> (\<exists>limit \<in> set (bl_rate_limits limits). unat (sb_duration_ms limit) = d
            \<and> unat (sb_max_operations limit) \<le> n \<and> unat (sb_max_signatures limit) \<le> m)"
  for env a n m d
proof
  show "clock_law env \<and> within_windows a n m d db'"
    if inv: "clock_law env \<and> within_windows a n m d db" and rows: "list_all2 reservation_follows (reservations db) (reservations db')"
      and wf: "ledger_wf db'" and clock: "clock_law env \<Longrightarrow> clock_follow db db'" for db db'
  proof -
    have "\<exists>t. effective_time db' = Some t \<and> time_of r' \<le> unat t" if r': "r' \<in> set (reservations db')" "rs_approval_id r' = a" for r'
    proof -
      obtain r where "r \<in> set (reservations db)" "reservation_follows r r'"
        using rows r'(1) by (metis in_set_conv_nth list_all2_conv_all_nth)
      then obtain t where "effective_time db = Some t" "time_of r' \<le> unat t"
        using inv r'(2) follows_row [of r r'] by (auto simp: within_windows_def)
      moreover from this obtain t' where "effective_time db' = Some t'" "t \<le> t'"
        using clock inv by (auto simp: clock_follow_def)
      ultimately show ?thesis by (auto simp: word_le_nat_alt)
    qed
    moreover have "length (window_rows a w d db') \<le> n \<and> sum_list (map signatures_of (window_rows a w d db')) \<le> m" for w
      using inv window_shrink [OF rows, of a w d] unfolding within_windows_def by (meson order_trans)
    ultimately show ?thesis using inv wf by (simp add: within_windows_def)
  qed
  show "clock_law env \<and> within_windows a n m d db'"
    if inv: "clock_law env \<and> within_windows a n m d db" and run: "reserve_tx env request limits guard s db = (db', Inr out)"
      and ok: "rr_approval_id request = a \<longrightarrow> guard \<and> (\<exists>limit \<in> set (bl_rate_limits limits). unat (sb_duration_ms limit) = d
            \<and> unat (sb_max_operations limit) \<le> n \<and> unat (sb_max_signatures limit) \<le> m)"
    for db db' request limits guard s out
  proof (cases "rr_approval_id request = a")
    case True
    with ok obtain limit where "guard" "limit \<in> set (bl_rate_limits limits)" "unat (sb_duration_ms limit) = d"
      "unat (sb_max_operations limit) \<le> n" "unat (sb_max_signatures limit) \<le> m" by auto
    with True inv run reserve_window [of env request limits s db db' out n m d limit] show ?thesis by simp
  next
    case False
    with inv run reserve_window_other show ?thesis by blast
  qed
qed (auto simp: within_windows_def window_rows_def ledger_wf_def effective_time_def)

section \<open>The value budget\<close>

text \<open>The value of an asset that live reservations of an approval hold.\<close>

definition reserved_value :: "env \<Rightarrow> Digest32 \<Rightarrow> string \<Rightarrow> db \<Rightarrow> nat" where
  "reserved_value env a asset db = sum_list (map (amount_of env \<circ> fst) (live_values db [a] asset))"

definition live_amount :: "env \<Rightarrow> db \<Rightarrow> Digest32 \<Rightarrow> string \<Rightarrow> value_row \<Rightarrow> nat" where
  "live_amount env db a asset v =
     (if rv_approval_id v = a \<and> rv_asset_id v = asset
         \<and> (\<exists>r. select_reservation (rv_approval_id v) (rv_operation_id v) db = Some r \<and> is_live r)
      then amount_of env (rv_amount v) else 0)"

lemma reserved_value_sum: "reserved_value env a asset db = sum_list (map (live_amount env db a asset) (reservation_values db))"
proof -
  have "sum_list (map (amount_of env \<circ> fst) (List.map_filter (\<lambda>v.
     if rv_approval_id v \<in> set [a] \<and> rv_asset_id v = asset
     then (case select_reservation (rv_approval_id v) (rv_operation_id v) db of
        Some r \<Rightarrow> if is_live r then Some (rv_amount v, rs_reserved_at_ms r) else None
      | None \<Rightarrow> None)
     else None) vs)) = sum_list (map (live_amount env db a asset) vs)" for vs
    by (induction vs) (auto simp: map_filter_simps live_amount_def split: option.splits)
  then show ?thesis by (simp add: reserved_value_def live_values_def)
qed

definition within_value :: "env \<Rightarrow> Digest32 \<Rightarrow> string \<Rightarrow> nat \<Rightarrow> db \<Rightarrow> bool" where
  "within_value env a asset maximum db \<longleftrightarrow> ledger_wf db \<and> reserved_value env a asset db \<le> maximum"

lemma check_value_Inr:
  assumes "check_value_limit env db request limits (asset, requested) = Inr ()"
  obtains limit where "map_of (bl_value_limits limits) asset = Some limit"
    and "reserved_value env (rr_approval_id request) asset db + amount_of env requested \<le> amount_of env limit"
  using assms
  by (auto simp: check_value_limit_def and_then_eq_Inr reserved_value_def not_less parse_biguint_Inr
      dest!: sum_amounts_Inr split: if_splits)

lemma live_amount_follows:
  assumes "list_all2 reservation_follows (reservations db) (reservations db')" and "ledger_wf db" and "ledger_wf db'"
  shows "live_amount env db' a asset v \<le> live_amount env db a asset v"
proof (cases "\<exists>r'. select_reservation (rv_approval_id v) (rv_operation_id v) db' = Some r' \<and> is_live r'")
  case True
  then obtain r' where sel: "select_reservation (rv_approval_id v) (rv_operation_id v) db' = Some r'" "is_live r'" by blast
  have r': "r' \<in> set (reservations db')" "reservation_key r' = value_key v" "is_live r'"
    using sel by (auto simp: select_reservation_def reservation_key_def value_key_def dest: find_SomeD)
  then obtain r where r: "r \<in> set (reservations db)" "reservation_follows r r'"
    using assms(1) by (metis in_set_conv_nth list_all2_conv_all_nth)
  then have "reservation_key r = value_key v" "is_live r"
    using r' follows_row(5) [OF r(2)] reservation_follows_key by fastforce+
  moreover obtain r2 where r2: "select_reservation (rv_approval_id v) (rv_operation_id v) db = Some r2"
    using select_reservation_None [of "rv_approval_id v" "rv_operation_id v" db] r(1) \<open>reservation_key r = value_key v\<close>
    by (metis image_eqI option.exhaust value_key_def)
  ultimately have "r2 = r"
    using select_reservation_unique [OF assms(2) r2 r(1)] by (auto simp: reservation_key_def value_key_def)
  with r2 \<open>is_live r\<close> show ?thesis by (simp add: live_amount_def)
next
  case False
  then have "live_amount env db' a asset v = 0" unfolding live_amount_def by (subst if_not_P) blast+
  then show ?thesis by simp
qed

lemma live_amount_append:
  assumes "reservations db' = reservations db @ [row]" and "value_key v \<in> reservation_key ` set (reservations db)"
  shows "live_amount env db' a asset v = live_amount env db a asset v"
proof -
  obtain r where "select_reservation (rv_approval_id v) (rv_operation_id v) db = Some r"
    using assms(2) select_reservation_None [of "rv_approval_id v" "rv_operation_id v" db]
    by (metis option.exhaust value_key_def)
  then show ?thesis by (simp add: live_amount_def select_reservation_def assms(1) find_append)
qed

lemma distinct_sum_list:
  assumes "distinct (map fst kvs)"
  shows "sum_list (map (\<lambda>(k, v). if k = key then f v else 0) kvs) = (case map_of kvs key of None \<Rightarrow> 0 | Some v \<Rightarrow> (f v :: nat))"
  using assms
proof (induction kvs)
  case (Cons kv kvs)
  obtain k v where kv: "kv = (k, v)" by (cases kv)
  have "map_of kvs key = None" if "k = key" using Cons.prems that kv by (auto simp: map_of_eq_None_iff)
  with Cons kv show ?case by auto
qed simp

text \<open>A new reservation adds exactly the amount it asks for.\<close>

lemma reserve_value:
  assumes run: "reserve_tx env request limits guard s db = (db', Inr (Durable point ()))" and wf: "ledger_wf db"
  shows "reserved_value env a asset db' = reserved_value env a asset db
    + (if rr_approval_id request = a then (case map_of (rr_values request) asset of None \<Rightarrow> 0 | Some v \<Rightarrow> amount_of env v) else 0)"
  using run
proof (cases rule: reserve_cases)
  case (fresh ap md)
  have old: "live_amount env db' a asset v = live_amount env db a asset v" if "v \<in> set (reservation_values db)" for v
    using that wf by (intro live_amount_append [OF fresh(10)]) (auto simp: ledger_wf_def)
  have sel: "select_reservation (rr_approval_id request) (rr_operation_id request) db' = Some (reservation_row_of request)"
    using fresh(4) by (auto simp: select_reservation_def fresh(10) find_append)
  have new: "live_amount env db' a asset (value_row_of request kv)
      = (if rr_approval_id request = a then (\<lambda>(k, v). if k = asset then amount_of env v else 0) kv else 0)" for kv
    using sel by (cases kv) (simp add: live_amount_def value_row_of_def)
  have "map (live_amount env db' a asset) (reservation_values db') = map (live_amount env db a asset) (reservation_values db)
      @ map (\<lambda>kv. if rr_approval_id request = a then (\<lambda>(k, v). if k = asset then amount_of env v else 0) kv else 0) (rr_values request)"
    using old by (simp add: fresh(11) new comp_def)
  then show ?thesis
    unfolding reserved_value_sum using distinct_sum_list [OF fresh(15), of asset "amount_of env"] by simp
qed simp

lemma reserve_value_bound:
  assumes run: "reserve_tx env request limits guard s db = (db', Inr out)" and old: "within_value env a asset maximum db"
    and limit: "rr_approval_id request = a \<longrightarrow> (\<forall>limit. map_of (bl_value_limits limits) asset = Some limit \<longrightarrow> amount_of env limit \<le> maximum)"
  shows "within_value env a asset maximum db'"
  using run
proof (cases rule: reserve_cases)
  case (replay row)
  with old show ?thesis by simp
next
  case (fresh ap md)
  have wf: "ledger_wf db" "ledger_wf db'" using old reserve_ledger_wf [OF run] by (simp_all add: within_value_def)
  have v: "reserved_value env a asset db' = reserved_value env a asset db
    + (if rr_approval_id request = a then (case map_of (rr_values request) asset of None \<Rightarrow> 0 | Some v \<Rightarrow> amount_of env v) else 0)"
    using reserve_value [OF _ wf(1)] run fresh(1) by simp
  show ?thesis
  proof (cases "rr_approval_id request = a \<and> map_of (rr_values request) asset \<noteq> None")
    case True
    then obtain requested where r: "map_of (rr_values request) asset = Some requested" by auto
    then have "(asset, requested) \<in> set (rr_values request)" by (rule map_of_SomeD)
    then have "check_value_limit env db request limits (asset, requested) = Inr ()"
      using fresh(8) by (auto simp: validate_value_limits_def check_all_Inr)
    then show ?thesis by (rule check_value_Inr) (use True r v limit wf(2) in \<open>auto simp: within_value_def\<close>)
  next
    case False
    then have "reserved_value env a asset db' = reserved_value env a asset db" using v by auto
    with old wf(2) show ?thesis by (simp add: within_value_def)
  qed
qed

interpretation value_budget: ledger_invariant "within_value env a asset maximum" env
    "\<lambda>request limits guard. rr_approval_id request = a \<longrightarrow>
       (\<forall>limit. map_of (bl_value_limits limits) asset = Some limit \<longrightarrow> amount_of env limit \<le> maximum)"
  for env a asset maximum
proof
  show "within_value env a asset maximum db'" if "within_value env a asset maximum db" "ledger_wf db'"
      "list_all2 reservation_follows (reservations db) (reservations db')" "reservation_values db' = reservation_values db" for db db'
  proof -
    have "sum_list (map (live_amount env db' a asset) (reservation_values db))
        \<le> sum_list (map (live_amount env db a asset) (reservation_values db))"
      using that by (intro sum_list_mono live_amount_follows) (simp_all add: within_value_def)
    with that show ?thesis by (simp add: within_value_def reserved_value_sum)
  qed
  show "within_value env a asset maximum db'" if "within_value env a asset maximum db"
      "rr_approval_id request = a \<longrightarrow> (\<forall>limit. map_of (bl_value_limits limits) asset = Some limit \<longrightarrow> amount_of env limit \<le> maximum)"
      "reserve_tx env request limits guard s db = (db', Inr out)" for db db' request limits guard s out
    using reserve_value_bound [OF that(3,1,2)] .
  show "within_value env a asset maximum (db\<lparr>audit_chain := rows, total_changes := n\<rparr>)"
    if "within_value env a asset maximum db" for db rows n
  proof -
    have "live_amount env (db\<lparr>audit_chain := rows, total_changes := n\<rparr>) a asset = live_amount env db a asset"
      by (simp add: fun_eq_iff live_amount_def select_reservation_def)
    with that show ?thesis by (simp add: within_value_def ledger_wf_def reserved_value_sum)
  qed
qed (simp add: within_value_def)

end
