(* ===== verification/Publication.thy ===== *)
theory Publication
  imports Ledger
begin

text \<open>
  What publication leaves behind: a published result is read back as it was published, its
  reservation is committed, the children of a batch are read back in order, and publishing the same
  again changes nothing.
\<close>

definition published :: "env \<Rightarrow> db \<Rightarrow> Digest32 \<Rightarrow> SigningResult \<Rightarrow> bool" where
  "published env db a result \<longleftrightarrow> (\<exists>snap. operation env db (sr_operation_id result) = Inr (Some snap)
     \<and> os_result snap = Some result \<and> os_operation_digest snap = sr_operation_digest result)
   \<and> reservation_status db a (sr_operation_id result) = Inr (Some RS_Committed)"

section \<open>Single results\<close>

lemma publish_result_replays:
  assumes "published env db a result" and "e_jcs env (signing_result_json result) = Inr rj"
  shows "publish_result_tx env a result s db = (db, Inr (Checkpointed ()))"
  using assms
  by (auto simp: published_def operation_def reservation_status_def publish_result_tx_def tx_bind_def tx_check_def tx_lift_def tx_return_def)

text \<open>Equal canonical forms are the forms of equal results.\<close>

lemma result_jcs_inject:
  assumes "env_laws env" and "e_jcs env (signing_result_json a) = Inr rj" and "e_jcs env (signing_result_json b) = Inr rj"
  shows "a = b"
  using env_lawsD(9) [OF assms(1,2)] env_lawsD(9) [OF assms(1,3)] by simp

lemma select_reservation_update:
  assumes "update_reservation_state a i t db = (db', r)"
  shows "select_reservation a i db' = map_option (\<lambda>x. x\<lparr>rs_state := t\<rparr>) (select_reservation a i db)"
proof -
  have "select_reservation a i db' = map_option (\<lambda>x. if rs_approval_id x = a \<and> rs_operation_id x = i then x\<lparr>rs_state := t\<rparr> else x)
      (select_reservation a i db)"
    using assms by (auto simp: update_reservation_state_def select_reservation_def find_update_where)
  then show ?thesis
    by (cases "select_reservation a i db") (auto simp: select_reservation_def dest: find_SomeD)
qed

lemma committed_text: "parse_reservation_state ''COMMITTED'' = Inr RS_Committed"
  by (simp add: parse_reservation_state_def all_reservation_states_def)

text \<open>The last steps that both publications share.\<close>

lemma publication_effect:
  assumes laws: "env_laws env" and snap: "read_operation env db (sr_operation_id result) = Inr (Some snap)"
    and digest: "os_operation_digest snap = sr_operation_digest result"
    and jcs: "e_jcs env (signing_result_json result) = Inr rj" and res: "require_reserved db a (sr_operation_id result) = Inr ()"
    and same: "operations db0 = operations db" "reservations db0 = reservations db"
    and mark: "mark_succeeded (sr_operation_id result) rj db0 = (db1, Inr n)"
    and upd: "update_reservation_state a (sr_operation_id result) ''COMMITTED'' db1 = (db2, Inr u)"
    and app: "append_audit env et p s db2 = (db', Inr h)"
  shows "published env db' a result"
proof -
  let ?i = "sr_operation_id result"
  have sel: "select_operation k d = select_operation k d'" if "operations d = operations d'" for k d d'
    using that by (simp add: select_operation_def)
  from snap obtain row where row: "select_operation ?i db0 = Some row" "e_digest32_new env (op_operation_digest row) = Inr (os_operation_digest snap)"
      "\<exists>d. e_digest32_new env (op_retry_binding_digest row) = Inr d"
    using sel [OF same(1)] by (auto simp: read_operation_def and_then_eq_Inr split: option.splits)
  then have "op_operation_id row = ?i" by (auto simp: select_operation_def dest: find_SomeD)
  with row(1) have "select_operation ?i db1 = Some (row\<lparr>op_state := ''SUCCEEDED'', op_result_jcs := Some rj\<rparr>)"
    using select_operation_update [OF mark [unfolded mark_succeeded_def], of ?i] by simp
  moreover have "operations db' = operations db1"
    using append_audit_operations [OF app] update_reservation_frame(1) [OF upd] by simp
  ultimately have "select_operation ?i db' = Some (row\<lparr>op_state := ''SUCCEEDED'', op_result_jcs := Some rj\<rparr>)"
    using sel by metis
  moreover have "parse_operation_state env ''SUCCEEDED'' = Inr OS_Succeeded"
    by (simp add: parse_operation_state_def all_operation_states_def)
  ultimately have "\<exists>snap'. operation env db' ?i = Inr (Some snap') \<and> os_result snap' = Some result
      \<and> os_operation_digest snap' = sr_operation_digest result"
    using row(2,3) digest env_lawsD(9) [OF laws jcs] by (auto simp: operation_def read_operation_def)
  moreover have "reservation_status db' a ?i = Inr (Some RS_Committed)"
  proof -
    obtain r where r: "select_reservation a ?i db = Some r" using res by (rule require_reserved_row)
    have "reservations db1 = reservations db0" using mark by (auto simp: mark_succeeded_def update_operations_def)
    then have "select_reservation a ?i db1 = Some r" using r same(2) by (simp add: select_reservation_def)
    moreover have "select_reservation a ?i db' = select_reservation a ?i db2"
      using append_audit_ledger [OF app] by (simp add: select_reservation_def)
    ultimately show ?thesis
      using select_reservation_update [OF upd] committed_text by (simp add: reservation_status_def reservation_state_by_id_def)
  qed
  ultimately show ?thesis by (simp add: published_def)
qed

lemma publish_result_publishes:
  assumes laws: "env_laws env" and run: "publish_result_tx env a result s db = (db', Inr out)"
  shows "published env db' a result \<and> (\<exists>rj. e_jcs env (signing_result_json result) = Inr rj)"
  using run
proof (cases rule: publish_result_cases)
  case replay
  from run replay(1,3) obtain snap prior rj where snap: "read_operation env db (sr_operation_id result) = Inr (Some snap)"
      "os_operation_digest snap = sr_operation_digest result" "os_result snap = Some prior"
      "e_jcs env (signing_result_json result) = Inr rj" "e_jcs env (signing_result_json prior) = Inr rj"
      "reservation_state_by_id db a (sr_operation_id result) = Inr (Some RS_Committed)"
    by (auto simp: publish_result_tx_def tx_bind_Inr tx_check_def tx_lift_def and_then_eq_Inr read_operation_result(2)
        split: if_splits option.splits)
  with result_jcs_inject [OF laws snap(4,5)] replay(1) show ?thesis
    by (auto simp: published_def operation_def reservation_status_def)
next
  case (publish rj receipt rd db1 db2 n h snap)
  from publication_effect [OF laws publish(1,4,5,6) refl refl publish(10,11,13)] publish(5) show ?thesis by blast
qed

section \<open>Batches\<close>

lemma parse_results_jcs:
  assumes "env_laws env"
  shows "results_jcs env children = Inr jcs \<Longrightarrow> map ch_result_jcs rows = jcs \<Longrightarrow> parse_results env rows = Inr children"
proof (induction children arbitrary: jcs rows)
  case (Cons child children)
  then obtain canonical rest row rows' where "e_jcs env (signing_result_json child) = Inr canonical"
    "results_jcs env children = Inr rest" "rows = row # rows'" "ch_result_jcs row = canonical" "map ch_result_jcs rows' = rest"
    by (auto simp: and_then_eq_Inr)
  with Cons.IH env_lawsD(9) [OF assms] show ?case by simp
qed simp

lemma child_rows_jcs: "length children = length jcs \<Longrightarrow> map ch_result_jcs (child_rows parent n children jcs) = jcs"
  by (induction parent n children jcs rule: child_rows.induct) auto

lemma results_jcs_length: "results_jcs env children = Inr jcs \<Longrightarrow> length children = length jcs"
  by (induction children arbitrary: jcs) (auto simp: and_then_eq_Inr)

definition published_batch :: "env \<Rightarrow> db \<Rightarrow> Digest32 \<Rightarrow> SigningResult \<Rightarrow> SigningResult list \<Rightarrow> bool" where
  "published_batch env db a result children \<longleftrightarrow> published env db a result
   \<and> (\<exists>rj. e_jcs env (signing_result_json result) = Inr rj \<and> result_of db (sr_operation_id result) = Some rj)
   \<and> results_jcs env children = Inr (map ch_result_jcs (select_children (sr_operation_id result) db))"

lemma published_batch_read:
  "env_laws env \<Longrightarrow> published_batch env db a result children \<Longrightarrow>
   read_batch_children env db (sr_operation_id result) = Inr children"
  by (auto simp: published_batch_def read_batch_children_def intro: parse_results_jcs)

lemma publish_batch_replays:
  assumes "published_batch env db a result children"
  shows "publish_batch_tx env a result children s db = (db, Inr (Checkpointed ()))"
  using assms
  by (auto simp: published_batch_def published_def operation_def reservation_status_def publish_batch_tx_def tx_bind_def
      tx_check_def tx_lift_def tx_query_def tx_return_def)

lemma publish_batch_publishes:
  assumes laws: "env_laws env" and links: "links_ok db" and run: "publish_batch_tx env a result children s db = (db', Inr out)"
  shows "published_batch env db' a result children"
  using run
proof (cases rule: publish_batch_cases)
  case replay
  from run replay(1,3) obtain snap rj where snap: "read_operation env db (sr_operation_id result) = Inr (Some snap)"
      "os_operation_digest snap = sr_operation_digest result"
      "result_of db (sr_operation_id result) = Some rj" "e_jcs env (signing_result_json result) = Inr rj"
      "results_jcs env children = Inr (map ch_result_jcs (select_children (sr_operation_id result) db))"
      "reservation_state_by_id db a (sr_operation_id result) = Inr (Some RS_Committed)"
    by (auto simp: publish_batch_tx_def tx_bind_Inr tx_check_def tx_lift_def tx_query_def and_then_eq_Inr
        split: if_splits option.splits)
  have "os_result snap = Some result"
  proof (cases "os_result snap")
    case None
    with read_operation_result(2) [OF snap(1)] snap(3) show ?thesis by simp
  next
    case (Some prior)
    with read_operation_result(3) [OF snap(1)] snap(3) have "e_signing_result_from_str env rj = Inr prior" by auto
    with Some env_lawsD(9) [OF laws snap(4)] show ?thesis by simp
  qed
  with snap replay(1) show ?thesis
    by (auto simp: published_batch_def published_def operation_def reservation_status_def)
next
  case (publish rj receipt rd jcs db0 db1 db2 n h snap)
  let ?i = "sr_operation_id result"
  note ins = insert_children_effect [OF publish(11)]
  obtain kids where kids: "results_jcs env children = Inr kids" "batch_children db0 = batch_children db @ child_rows ?i 0 children kids"
    using ins(1) by blast
  have "published env db' a result"
    using publication_effect [OF laws publish(1,5,6,7) ins(2,5) publish(12,13,16)] .
  moreover have "select_children ?i db = []"
    using publish(2) links by (auto simp: links_ok_def)
  then have "select_children ?i db0 = child_rows ?i 0 children kids" using select_children_new(1) [OF kids(2)] by simp
  moreover have "batch_children db' = batch_children db0" "operations db' = operations db1"
    using append_audit_frame [OF publish(16)] update_reservation_frame(1,2) [OF publish(13)] publish(12)
    by (auto simp: mark_succeeded_def update_operations_def)
  moreover have "result_of db1 ?i = Some rj"
  proof -
    have "select_operation ?i db0 \<noteq> None"
      using read_operation_result(1) [OF publish(1)] ins(2) by (simp add: select_operation_def)
    from mark_succeeded_effect(2) [OF publish(12) this, of ?i] show ?thesis by simp
  qed
  ultimately show ?thesis
    using publish(6) kids(1) child_rows_jcs [OF results_jcs_length [OF kids(1)], of ?i 0]
    by (simp add: published_batch_def select_children_def result_of_def select_operation_def)
qed

section \<open>The properties\<close>

lemma commit_request_ran:
  assumes "commit_request env r j = (j', Inr out)"
  obtains body where "request_body env r = Inr body" and "body (j_signer j) (j_db j) = (j_db j', Inr out)"
proof (cases "request_body env r")
  case (Inr body)
  with assms have "commit env body j = (j', Inr out)" by (simp add: commit_request_def)
  then show thesis by (cases rule: commit_store) (use Inr that in auto)
qed (use assms in \<open>simp add: commit_request_def\<close>)

text \<open>C19. A result whose publication succeeds is read back as it was published, with its reservation
committed, whether this call published it or found it published; and publishing it again under any key
changes nothing.\<close>

theorem published_results_are_read_back:
  assumes "env_laws env" and "commit_request env (PublishResult a result) j = (j', Inr out)"
  shows "(\<exists>snap. operation env (j_db j') (sr_operation_id result) = Inr (Some snap) \<and> os_result snap = Some result)
    \<and> reservation_status (j_db j') a (sr_operation_id result) = Inr (Some RS_Committed)
    \<and> publish_result_tx env a result s (j_db j') = (j_db j', Inr (Checkpointed ()))"
proof -
  from assms(2) obtain res where "publish_result_tx env a result (j_signer j) (j_db j) = (j_db j', Inr res)"
    by (auto elim!: commit_request_ran simp: discarding_Inr)
  from publish_result_publishes [OF assms(1) this] publish_result_replays [of env "j_db j'"] show ?thesis
    by (auto simp: published_def)
qed

text \<open>A batch whose publication succeeds is read back as it was published: the result of the parent, the
children in their order, the reservation committed; and publishing it again changes nothing.\<close>

theorem published_batches_are_read_back:
  assumes "env_laws env" and "journal_ok env j" and "commit_request env (PublishBatch a result children) j = (j', Inr out)"
  shows "(\<exists>snap. operation env (j_db j') (sr_operation_id result) = Inr (Some snap) \<and> os_result snap = Some result)
    \<and> read_batch_children env (j_db j') (sr_operation_id result) = Inr children
    \<and> reservation_status (j_db j') a (sr_operation_id result) = Inr (Some RS_Committed)
    \<and> publish_batch_tx env a result children s (j_db j') = (j_db j', Inr (Checkpointed ()))"
proof -
  from assms(3) obtain res where run: "publish_batch_tx env a result children (j_signer j) (j_db j) = (j_db j', Inr res)"
    by (auto elim!: commit_request_ran simp: discarding_Inr and_then_eq_Inr split: if_splits)
  have "links_ok (j_db j)" using assms(2) by (simp add: journal_ok_def)
  from publish_batch_publishes [OF assms(1) this run] publish_batch_replays [of env "j_db j'"] published_batch_read [OF assms(1)]
  show ?thesis by (auto simp: published_batch_def published_def)
qed

text \<open>A committed batch operation with its receipt and reservation.\<close>

definition sample_receipt :: BrokerValidationReceipt where
  "sample_receipt = \<lparr>vr_approval_id = ''a'', vr_operation_digest = zero_digest, vr_policy_version = 1, vr_policy_digest = zero_digest,
     vr_claim_digest = None, vr_assurance_digest = None, vr_broker_key_id = ''k'', vr_broker_signature = [], vr_rest = JNull\<rparr>"

definition committed_db :: "bool \<Rightarrow> db" where
  "committed_db is_batch = active_db\<lparr>operations := [\<lparr>op_operation_id = ''o'', op_operation_digest = zero_digest,
      op_retry_binding_digest = zero_digest, op_state = ''COMMITTED'', op_is_batch = is_batch, op_result_jcs = None,
      op_validation_receipt_jcs = Some (unary (to_nat (receipt_encode sample_receipt))), op_kind = OPERATION_KIND\<rparr>],
     reservations := [reservation_row_of sample_reservation]\<rparr>"

definition sample_result :: "OperationId \<Rightarrow> SigningResult" where
  "sample_result i = \<lparr>sr_operation_id = i, sr_operation_digest = zero_digest, sr_signatures = [],
     sr_signer_receipt_digest = zero_digest, sr_broker_receipt_digest = zero_digest\<rparr>"

definition sample_child :: SigningResult where
  "sample_child = sample_result (sample_sha256 (BATCH_CHILD_DOMAIN @ str_bytes ''o'' @ be_bytes 4 0))"

lemma committed_db_sel [simp]:
  "audit_chain (committed_db b) = []" "batch_children (committed_db b) = []"
  "select_operation ''o'' (committed_db b) = Some \<lparr>op_operation_id = ''o'', op_operation_digest = zero_digest,
      op_retry_binding_digest = zero_digest, op_state = ''COMMITTED'', op_is_batch = b, op_result_jcs = None,
      op_validation_receipt_jcs = Some (unary (to_nat (receipt_encode sample_receipt))), op_kind = OPERATION_KIND\<rparr>"
  "select_reservation ''a'' ''o'' (committed_db b) = Some (reservation_row_of sample_reservation)"
  "links_ok (committed_db b)"
  by (auto simp: committed_db_def active_db_def empty_db_def select_operation_def select_reservation_def links_ok_def select_children_def)

lemma sample_publication:
  "read_operation sample_env (committed_db b) ''o'' = Inr (Some \<lparr>os_operation_id = ''o'', os_operation_digest = zero_digest,
     os_state = OS_Committed, os_is_batch = b, os_retry_binding_digest = zero_digest, os_result = None, os_kind = OPERATION_KIND\<rparr>)"
  "require_reserved (committed_db b) ''a'' ''o'' = Inr ()"
  "retained_validation_receipt sample_env (committed_db b) ''o'' = Inr sample_receipt"
proof -
  have "sample_digest32_new zero_digest = Inr zero_digest" using env_lawsD(2) [OF sample_env_laws] by simp
  then show "read_operation sample_env (committed_db b) ''o'' = Inr (Some \<lparr>os_operation_id = ''o'', os_operation_digest = zero_digest,
     os_state = OS_Committed, os_is_batch = b, os_retry_binding_digest = zero_digest, os_result = None, os_kind = OPERATION_KIND\<rparr>)"
    by (simp add: read_operation_def parse_operation_state_def all_operation_states_def)
  show "require_reserved (committed_db b) ''a'' ''o'' = Inr ()"
    by (simp add: require_reserved_def reservation_state_by_id_def reservation_row_of_def parse_reservation_state_def all_reservation_states_def)
  show "retained_validation_receipt sample_env (committed_db b) ''o'' = Inr sample_receipt"
    by (simp add: retained_validation_receipt_def) (simp add: sample_env_def)
qed

lemma sample_publish:
  "\<exists>db'. publish_result_tx sample_env ''a'' (sample_result ''o'') (active_signer (new_active_signer sample_signer)) (committed_db False)
    = (db', Inr (Durable OperationTransition ()))"
  by (simp add: publish_result_tx_def sample_result_def tx_bind_def tx_check_def tx_lift_def tx_return_def sample_publication
      mark_succeeded_def update_operations_def update_reservation_state_def changed_def sample_append)
     (simp add: sample_receipt_def sample_env_def)

theorem published_results_are_read_back_witness:
  "\<exists>j' snap. commit_request sample_env (PublishResult ''a'' (sample_result ''o'')) (sample_journal (committed_db False))
       = (j', Inr (Durable OperationTransition ()))
    \<and> operation sample_env (j_db j') ''o'' = Inr (Some snap) \<and> os_result snap = Some (sample_result ''o'')"
proof -
  obtain db' where run: "publish_result_tx sample_env ''a'' (sample_result ''o'') (active_signer (new_active_signer sample_signer))
      (committed_db False) = (db', Inr (Durable OperationTransition ()))" using sample_publish by blast
  have c: "commit_request sample_env (PublishResult ''a'' (sample_result ''o'')) (sample_journal (committed_db False))
      = ((sample_journal (committed_db False))\<lparr>j_db := db'\<rparr>, Inr (Durable OperationTransition ()))"
    unfolding commit_request_def by (simp, rule sample_commit) (simp_all add: discarding_Inr run)
  from published_results_are_read_back [OF sample_env_laws c] c show ?thesis by (auto simp: sample_result_def)
qed

lemma sample_publish_batch:
  "\<exists>db'. publish_batch_tx sample_env ''a'' (sample_result ''o'') [sample_child] (active_signer (new_active_signer sample_signer))
    (committed_db True) = (db', Inr (Durable BatchPublished ()))"
proof -
  have "e_receipt_digest sample_env sample_receipt = Inr (sample_sha256 [])" by (simp add: sample_env_def)
  moreover have "select_operation ''o'' (committed_db b\<lparr>batch_children := c, total_changes := n\<rparr>) = select_operation ''o'' (committed_db b)"
    for b c n by (simp add: select_operation_def)
  ultimately show ?thesis
    by (simp add: publish_batch_tx_def sample_result_def sample_child_def tx_bind_def tx_check_def tx_lift_def tx_query_def tx_return_def
        sample_publication result_of_def insert_child_def mark_succeeded_def update_operations_def update_reservation_state_def
        changed_def sample_append)
       (simp add: sample_receipt_def)
qed

theorem published_batches_are_read_back_witness:
  "\<exists>j'. commit_request sample_env (PublishBatch ''a'' (sample_result ''o'') [sample_child]) (sample_journal (committed_db True))
       = (j', Inr (Durable BatchPublished ()))
    \<and> read_batch_children sample_env (j_db j') ''o'' = Inr [sample_child]"
proof -
  obtain db' where run: "publish_batch_tx sample_env ''a'' (sample_result ''o'') [sample_child] (active_signer (new_active_signer sample_signer))
      (committed_db True) = (db', Inr (Durable BatchPublished ()))" using sample_publish_batch by blast
  have "check_child_ids sample_env (sr_operation_id (sample_result ''o'')) 0 [sample_child] = Inr ()"
    by (simp add: derive_batch_child_operation_id_def sample_child_def sample_result_def)
  then have c: "commit_request sample_env (PublishBatch ''a'' (sample_result ''o'') [sample_child]) (sample_journal (committed_db True))
      = ((sample_journal (committed_db True))\<lparr>j_db := db'\<rparr>, Inr (Durable BatchPublished ()))"
    unfolding commit_request_def by (simp, intro sample_commit) (simp_all add: discarding_Inr run)
  from published_batches_are_read_back [OF sample_env_laws sample_journal_ok c] c show ?thesis by (auto simp: sample_result_def)
qed

end
