(* ===== verification/Admission.thy ===== *)
theory Admission
  imports Publication
begin

text \<open>
  What admission promises: an approval is activated once and replaces its predecessor, a signing attempt
  can be retried and never changed, and the lineage of an approval is the chain of the approvals it
  renews.
\<close>

section \<open>Activation happens once\<close>

lemma stored_select: "stored_approval_state db i = Some t \<Longrightarrow> \<exists>a. select_approval i db = Some a \<and> ap_state a = t"
  by (auto simp: stored_approval_state_def)

lemma activated_metadata:
  assumes "update_metadata_activation env i oid grant db = (db', Inr u)" and "select_metadata i db = Some m"
  shows "select_metadata i db' = Some (m\<lparr>md_activation_operation_id := Some oid, md_ceremony_grant_jcs := Some grant\<rparr>)"
proof -
  have "md_approval_id m = i" using assms(2) by (auto simp: select_metadata_def dest: find_SomeD)
  moreover have "approval_metadata db' = update_where (\<lambda>r. md_approval_id r = i)
      (\<lambda>r. r\<lparr>md_activation_operation_id := Some oid, md_ceremony_grant_jcs := Some grant\<rparr>) (approval_metadata db)"
    using assms(1) by (auto simp: update_metadata_activation_def split: if_splits)
  ultimately show ?thesis using assms(2) by (simp add: select_metadata_def find_update_where)
qed

lemma revoke_predecessor_state:
  assumes "revoke_predecessor env (Some p) db = (db', Inr u)"
  shows "stored_approval_state db p = Some ''ACTIVE''" and "stored_approval_state db' p = Some ''REVOKED''"
proof -
  from assms show a: "stored_approval_state db p = Some ''ACTIVE''"
    by (auto simp: revoke_predecessor_def tx_bind_Inr tx_check_def tx_lift_def parse_approval_state_Inr stored_approval_state_def
        split: if_splits)
  from assms have "update_approval_state p ''REVOKED'' db = (db', Inr u)"
    by (auto simp: revoke_predecessor_def tx_bind_Inr tx_check_def tx_lift_def split: if_splits)
  from stored_after_update [OF this, of p] a show "stored_approval_state db' p = Some ''REVOKED''" by simp
qed

definition activated :: "db \<Rightarrow> Digest32 \<Rightarrow> OperationId \<Rightarrow> bool" where
  "activated db i oid \<longleftrightarrow> stored_approval_state db i = Some ''ACTIVE''
   \<and> (\<exists>m. select_metadata i db = Some m \<and> md_activation_operation_id m = Some oid)"

lemma activated_replays:
  assumes "activated db i oid"
  shows "activate_approval_record_tx env i oid' grant s db = (if oid' = oid then (db, Inr (Checkpointed ()))
    else (db, Inl (Protocol OperationIdConflict ''approval ceremony activation was replayed with conflicting authority'')))"
proof -
  obtain a m where r: "select_approval_record i db = Some (a, m)" "ap_state a = ''ACTIVE''" "md_activation_operation_id m = Some oid"
    using assms by (auto simp: activated_def stored_approval_state_def select_approval_record_def)
  have "parse_approval_state env ''ACTIVE'' = Inr AS_Active" by (simp add: parse_approval_state_Inr)
  with r show ?thesis
    by (simp add: activate_approval_record_tx_def tx_bind_def tx_check_def tx_lift_def tx_return_def tx_fail_def)
qed

lemma activation_effect:
  assumes "activate_approval_record_tx env i oid grant s db = (db', Inr out)"
  shows "activated db' i oid" and "\<And>m p. out = Durable ApprovalTransition () \<Longrightarrow> select_metadata i db = Some m \<Longrightarrow>
    md_renewal_of m = Some p \<Longrightarrow> stored_approval_state db p = Some ''ACTIVE'' \<and> stored_approval_state db' p = Some ''REVOKED''"
proof -
  have "activated db' i oid \<and> (\<forall>m p. out = Durable ApprovalTransition () \<longrightarrow> select_metadata i db = Some m \<longrightarrow>
    md_renewal_of m = Some p \<longrightarrow> stored_approval_state db p = Some ''ACTIVE'' \<and> stored_approval_state db' p = Some ''REVOKED'')"
    using assms
  proof (cases rule: activate_cases)
    case (replay m)
    then show ?thesis by (auto simp: activated_def)
  next
    case (activate m db1 db2 db3 p h)
    have m1: "select_metadata i db1 = Some m"
      using activate(1) revoke_predecessor_frame(3) [OF activate(4)] by (simp add: select_metadata_def)
    note m2 = activated_metadata [OF activate(5) m1]
    have s2: "stored_approval_state db2 k = stored_approval_state db1 k" for k
      using activate(5) by (auto simp: update_metadata_activation_def stored_approval_state_def select_approval_def split: if_splits)
    have s1: "stored_approval_state db1 i = Some ''AWAITING_CEREMONY''"
      using revoke_predecessor_follows(2) [OF activate(4), of i] activate(3) by simp
    have s': "stored_approval_state db' k = stored_approval_state db3 k" for k
      using append_audit_approvals [OF activate(7)] by (simp add: stored_approval_state_def select_approval_def)
    have s3: "stored_approval_state db3 k = (if k = i then Some ''ACTIVE'' else stored_approval_state db1 k)" for k
      using stored_after_update [OF activate(6), of k] s1 s2 by simp
    have "select_metadata i db' = select_metadata i db2"
      using append_audit_frame [OF activate(7)] activate(6) by (auto simp: update_approval_state_def select_metadata_def)
    with m2 s3 s' have "activated db' i oid" by (simp add: activated_def)
    moreover have "stored_approval_state db p = Some ''ACTIVE'' \<and> stored_approval_state db' p = Some ''REVOKED''"
      if "md_renewal_of m = Some p" for p
    proof -
      have "revoke_predecessor env (Some p) db = (db1, Inr ())" using activate(4) that by simp
      from revoke_predecessor_state [OF this] s3 s' activate(3) show ?thesis by auto
    qed
    ultimately show ?thesis using activate(1) by auto
  qed
  then show "activated db' i oid" "\<And>m p. out = Durable ApprovalTransition () \<Longrightarrow> select_metadata i db = Some m \<Longrightarrow>
    md_renewal_of m = Some p \<Longrightarrow> stored_approval_state db p = Some ''ACTIVE'' \<and> stored_approval_state db' p = Some ''REVOKED''"
    by blast+
qed

text \<open>An approval is activated once: after an activation succeeds the approval is active, the one it
renews was active and is revoked, the same activation can be replayed without a change, and any other
activation of it is refused as a conflict.\<close>

theorem activation_happens_once:
  assumes "commit_request env (ActivateApprovalRecord i oid grant) j = (j', Inr out)"
  shows "approval_state env (j_db j') i = Inr (Some AS_Active)
    \<and> (\<forall>m p. out = Durable ApprovalTransition () \<longrightarrow> select_metadata i (j_db j) = Some m \<longrightarrow> md_renewal_of m = Some p \<longrightarrow>
         approval_state env (j_db j) p = Inr (Some AS_Active) \<and> approval_state env (j_db j') p = Inr (Some AS_Revoked))
    \<and> activate_approval_record_tx env i oid grant' s (j_db j') = (j_db j', Inr (Checkpointed ()))
    \<and> (oid' \<noteq> oid \<longrightarrow> activate_approval_record_tx env i oid' grant' s (j_db j') = (j_db j',
         Inl (Protocol OperationIdConflict ''approval ceremony activation was replayed with conflicting authority'')))"
proof -
  from assms obtain res where run: "activate_approval_record_tx env i oid grant (j_signer j) (j_db j) = (j_db j', Inr res)" "out = discard res"
    by (auto elim!: commit_request_ran simp: discarding_Inr)
  have st: "approval_state env db k = Inr (Some a)" if "stored_approval_state db k = Some (approval_state_text a)" for db k a
    using that by (auto simp: approval_state_def stored_approval_state_def parse_approval_state_Inr)
  have "res = Durable ApprovalTransition ()" if "out = Durable ApprovalTransition ()"
    using run(2) that by (cases res) auto
  with activation_effect [OF run(1)] activated_replays [of "j_db j'" i oid] show ?thesis
    by (auto simp: activated_def intro!: st)
qed

text \<open>An approval that waits for the ceremony that renews the active one.\<close>

definition renewal_db :: db where
  "renewal_db = active_db\<lparr>approvals := approvals active_db @ [\<lparr>ap_approval_id = ''b'', ap_state = ''AWAITING_CEREMONY''\<rparr>],
     approval_metadata := approval_metadata active_db @ [\<lparr>md_approval_id = ''b'', md_terms_jcs = ''{}'', md_review_manifest_digest = ''d'',
       md_approved_claim_digest = None, md_provenance_jcs = None, md_renewal_of = Some ''a'',
       md_activation_operation_id = None, md_ceremony_grant_jcs = None\<rparr>]\<rparr>"

lemma sample_activation:
  "\<exists>db'. activate_approval_record_tx sample_env ''b'' ''act'' ''{'' (active_signer (new_active_signer sample_signer)) renewal_db
    = (db', Inr (Durable ApprovalTransition ()))"
proof -
  have parse: "parse_approval_state env ''ACTIVE'' = Inr AS_Active" "parse_approval_state env ''AWAITING_CEREMONY'' = Inr AS_AwaitingCeremony"
    for env by (simp_all add: parse_approval_state_Inr)
  have sel: "select_approval_record ''b'' renewal_db = Some (\<lparr>ap_approval_id = ''b'', ap_state = ''AWAITING_CEREMONY''\<rparr>,
      \<lparr>md_approval_id = ''b'', md_terms_jcs = ''{}'', md_review_manifest_digest = ''d'', md_approved_claim_digest = None,
       md_provenance_jcs = None, md_renewal_of = Some ''a'', md_activation_operation_id = None, md_ceremony_grant_jcs = None\<rparr>)"
    "select_approval ''a'' renewal_db = Some \<lparr>ap_approval_id = ''a'', ap_state = ''ACTIVE''\<rparr>"
    by (simp_all add: select_approval_record_def select_approval_def select_metadata_def renewal_db_def active_db_def)
  have rows: "approval_metadata (renewal_db\<lparr>approvals := x, total_changes := n\<rparr>) = approval_metadata renewal_db"
    "audit_chain renewal_db = []" for x n
    by (simp_all add: renewal_db_def)
  have fresh: "\<forall>r \<in> set (approval_metadata renewal_db). md_activation_operation_id r = None"
    by (simp add: renewal_db_def active_db_def)
  show ?thesis
    using fresh
    by (simp add: activate_approval_record_tx_def tx_bind_def tx_check_def tx_lift_def tx_return_def sel parse revoke_predecessor_def
        update_approval_state_def update_metadata_activation_def changed_def rows sample_append sample_parse_def unary_def)
qed

theorem activation_happens_once_witness:
  "\<exists>j'. commit_request sample_env (ActivateApprovalRecord ''b'' ''act'' ''{'') (sample_journal renewal_db)
       = (j', Inr (Durable ApprovalTransition ()))
    \<and> approval_state sample_env (j_db j') ''b'' = Inr (Some AS_Active) \<and> approval_state sample_env (j_db j') ''a'' = Inr (Some AS_Revoked)"
proof -
  obtain db' where run: "activate_approval_record_tx sample_env ''b'' ''act'' ''{'' (active_signer (new_active_signer sample_signer))
      renewal_db = (db', Inr (Durable ApprovalTransition ()))" using sample_activation by blast
  have e: "audit_chain renewal_db = []" by (simp add: renewal_db_def)
  have c: "commit_request sample_env (ActivateApprovalRecord ''b'' ''act'' ''{'') (sample_journal renewal_db)
      = ((sample_journal renewal_db)\<lparr>j_db := db'\<rparr>, Inr (Durable ApprovalTransition ()))"
    unfolding commit_request_def by (simp, rule sample_commit) (simp_all add: discarding_Inr run e)
  have "j_db (sample_journal renewal_db) = renewal_db" by (simp add: sample_journal_eval [OF e])
  then have "\<exists>m. select_metadata ''b'' (j_db (sample_journal renewal_db)) = Some m \<and> md_renewal_of m = Some ''a''"
    by simp (simp add: select_metadata_def renewal_db_def active_db_def)
  with activation_happens_once [OF c] c show ?thesis by auto
qed

section \<open>The lineage of an approval\<close>

text \<open>The chain of renewals, as a relation without a bound.\<close>

inductive renewal_chain :: "db \<Rightarrow> Digest32 \<Rightarrow> Digest32 list \<Rightarrow> bool" for db where
  first: "Option.bind (select_metadata a db) md_renewal_of = None \<Longrightarrow> renewal_chain db a [a]"
| renews: "Option.bind (select_metadata a db) md_renewal_of = Some b \<Longrightarrow> renewal_chain db b ids \<Longrightarrow> renewal_chain db a (a # ids)"

lemma renewal_chain_unique: "renewal_chain db a ids \<Longrightarrow> renewal_chain db a ids' \<Longrightarrow> ids' = ids"
proof (induction arbitrary: ids' rule: renewal_chain.induct)
  case (first a)
  from first(2,1) show ?case by (cases rule: renewal_chain.cases) simp_all
next
  case (renews a b ids)
  from renews(4,1,3) show ?case by (cases rule: renewal_chain.cases) simp_all
qed

text \<open>A chain that ends never comes back to an approval.\<close>

lemma renewal_chain_suffix:
  "renewal_chain db a ids \<Longrightarrow> c \<in> set ids \<Longrightarrow> \<exists>ids'. renewal_chain db c ids' \<and> length ids' \<le> length ids \<and> (c \<in> set (tl ids) \<longrightarrow> length ids' < length ids)"
proof (induction rule: renewal_chain.induct)
  case (first a)
  then show ?case by (auto intro: renewal_chain.first)
next
  case (renews a b ids)
  show ?case
  proof (cases "c \<in> set ids")
    case True
    with renews(3) show ?thesis by (metis length_Cons lessI less_SucI list.sel(3) nat_less_le order_trans less_imp_le le_imp_less_Suc)
  next
    case False
    with renews(4) have "c = a" by simp
    with False renews(1,2) show ?thesis by (intro exI [of _ "a # ids"]) (auto intro: renewal_chain.renews)
  qed
qed

lemma renewal_chain_distinct: "renewal_chain db a ids \<Longrightarrow> distinct ids"
proof (induction rule: renewal_chain.induct)
  case (renews a b ids)
  have "a \<notin> set ids"
  proof
    assume "a \<in> set ids"
    with renewal_chain_suffix [OF renews(2)] obtain ids' where "renewal_chain db a ids'" "length ids' \<le> length ids" by blast
    with renewal_chain_unique [OF _ renewal_chain.renews [OF renews(1,2)]] show False by fastforce
  qed
  with renews show ?case by simp
qed simp

lemma renewal_chain_rows: "renewal_chain db a ids \<Longrightarrow> set (butlast ids) \<subseteq> set (map md_approval_id (approval_metadata db))"
proof (induction rule: renewal_chain.induct)
  case (renews a b ids)
  then obtain m where "select_metadata a db = Some m" by (cases "select_metadata a db") auto
  then have "m \<in> set (approval_metadata db)" "md_approval_id m = a" by (auto simp: select_metadata_def dest: find_SomeD)
  with renews show ?case by auto
qed simp

lemma renewal_chain_length: "renewal_chain db a ids \<Longrightarrow> length ids \<le> Suc (length (approval_metadata db))"
proof -
  assume c: "renewal_chain db a ids"
  have "distinct (butlast ids)" using renewal_chain_distinct [OF c] by (rule distinct_butlast)
  then have "length (butlast ids) = card (set (butlast ids))" by (simp add: distinct_card)
  also have "\<dots> \<le> card (set (map md_approval_id (approval_metadata db)))"
    by (rule card_mono [OF _ renewal_chain_rows [OF c]]) simp
  also have "\<dots> \<le> length (approval_metadata db)" using card_length [of "map md_approval_id (approval_metadata db)"] by simp
  finally show ?thesis by simp
qed

inductive_simps renewal_chain_unfold: "renewal_chain db a ids"

lemma renewal_chain_nonempty [simp]: "\<not> renewal_chain db a []"
  by (subst renewal_chain_unfold) simp

lemma lineage_from_chain: "lineage_from n db a = Some ids \<longleftrightarrow> renewal_chain db a ids \<and> length ids \<le> n"
proof (induction n arbitrary: a ids)
  case (Suc n)
  show ?case
  proof (cases "Option.bind (select_metadata a db) md_renewal_of")
    case None
    then show ?thesis by (subst renewal_chain_unfold) auto
  next
    case (Some b)
    then show ?thesis by (subst renewal_chain_unfold) (auto simp: Suc.IH)
  qed
qed auto

text \<open>C20. The lineage of an approval is exact: the recursive query returns the chain of renewals when that
chain ends, whatever its length, and runs forever exactly when the chain does not end; it ends for
every approval when renewals go back to approvals of a lower rank, such as earlier ones.\<close>

theorem lineage_is_exact:
  "(lineage db a = Inr ids \<longleftrightarrow> renewal_chain db a ids) \<and> (lineage db a = Inl QueryDiverges \<longleftrightarrow> (\<nexists>ids. renewal_chain db a ids))
   \<and> ((\<forall>m \<in> set (approval_metadata db). \<forall>b. md_renewal_of m = Some b \<longrightarrow> rank b < (rank (md_approval_id m) :: nat)) \<longrightarrow>
        (\<exists>ids. lineage db a = Inr ids))"
proof -
  have exact: "lineage db a = Inr ids \<longleftrightarrow> renewal_chain db a ids" for a ids
    using lineage_from_chain [of "Suc (length (approval_metadata db))" db a ids] renewal_chain_length [of db a ids]
    by (cases "lineage_from (Suc (length (approval_metadata db))) db a") (auto simp: lineage_def simp del: lineage_from.simps)
  have total: "lineage db a = Inl QueryDiverges \<or> (\<exists>ids. lineage db a = Inr ids)" for a
    by (cases "lineage_from (Suc (length (approval_metadata db))) db a") (auto simp: lineage_def simp del: lineage_from.simps)
  have ends: "\<exists>ids. renewal_chain db a ids"
    if "\<forall>m \<in> set (approval_metadata db). \<forall>b. md_renewal_of m = Some b \<longrightarrow> rank b < rank (md_approval_id m)" for a
  proof (induction "rank a" arbitrary: a rule: less_induct)
    case less
    show ?case
    proof (cases "Option.bind (select_metadata a db) md_renewal_of")
      case (Some b)
      then obtain m where "select_metadata a db = Some m" "md_renewal_of m = Some b" by (cases "select_metadata a db") auto
      then have "rank b < rank a" using that by (auto simp: select_metadata_def dest!: find_SomeD)
      from less [OF this] Some show ?thesis by (auto intro: renewal_chain.renews)
    qed (auto intro: renewal_chain.first)
  qed
  show ?thesis using exact total ends by (metis Inl_Inr_False)
qed

theorem lineage_is_exact_witness:
  "renewal_chain renewal_db ''b'' [''b'', ''a''] \<and> lineage renewal_db ''b'' = Inr [''b'', ''a''] \<and> (\<exists>ids. lineage renewal_db ''b'' = Inr ids)"
proof -
  let ?rank = "\<lambda>i. if i = ''b'' then 1 else 0 :: nat"
  have "\<forall>m \<in> set (approval_metadata renewal_db). \<forall>b. md_renewal_of m = Some b \<longrightarrow> ?rank b < ?rank (md_approval_id m)"
    by (simp add: renewal_db_def active_db_def)
  moreover have "renewal_chain renewal_db ''b'' [''b'', ''a'']"
  proof (rule renewal_chain.renews)
    show "renewal_chain renewal_db ''a'' [''a'']"
      by (rule renewal_chain.first) (simp add: select_metadata_def renewal_db_def active_db_def)
  qed (simp add: select_metadata_def renewal_db_def active_db_def)
  ultimately show ?thesis using lineage_is_exact [of renewal_db "''b''" "[''b'', ''a'']" ?rank] by blast
qed

section \<open>Signing attempts\<close>

text \<open>What a store knows of an admitted attempt.\<close>

definition admitted :: "env \<Rightarrow> db \<Rightarrow> UnsignedSignRequest \<Rightarrow> bool \<Rightarrow> Digest32 \<Rightarrow> string \<Rightarrow> OperationSnapshot \<Rightarrow> bool" where
  "admitted env db request is_batch retry rjcs snap \<longleftrightarrow>
     read_operation env db (rq_operation_id request) = Inr (Some snap) \<and> os_operation_digest snap = rq_operation_digest request
   \<and> os_is_batch snap = is_batch \<and> os_retry_binding_digest snap = retry
   \<and> receipt_of db (rq_operation_id request) = Some rjcs"

lemma check_retry_Inr:
  "check_retry env request is_batch retry rjcs existing db = (db', Inr snap) \<longleftrightarrow>
     db' = db \<and> snap = existing \<and> os_operation_digest existing = rq_operation_digest request \<and> os_is_batch existing = is_batch
     \<and> os_retry_binding_digest existing = retry \<and> receipt_of db (rq_operation_id request) = Some rjcs"
  by (auto simp: check_retry_def tx_bind_Inr tx_check_def tx_return_def receipt_of_def split: if_splits option.splits)

lemma check_retry_Inl:
  assumes "os_operation_digest existing \<noteq> rq_operation_digest request \<or> os_is_batch existing \<noteq> is_batch
      \<or> os_retry_binding_digest existing \<noteq> retry \<or> r \<noteq> rjcs"
    and "receipt_of db (rq_operation_id request) = Some r"
  shows "\<exists>m. check_retry env request is_batch retry rjcs existing db = (db, Inl (Protocol OperationIdConflict m))"
  using assms
  by (cases "select_operation (rq_operation_id request) db")
     (auto simp: check_retry_def tx_bind_def tx_check_def tx_fail_def receipt_of_def)

lemma admit_operation_admits:
  assumes laws: "env_laws env" and none: "read_operation env db (rq_operation_id request) = Inr None"
    and run: "admit_operation env request is_batch retry rjcs s db = (db', Inr snap)"
    and digests: "e_digest32_new env (rq_operation_digest request) = Inr (rq_operation_digest request)"
      "e_digest32_new env retry = Inr retry"
  shows "admitted env db' request is_batch retry rjcs snap"
proof -
  let ?row = "\<lparr>op_operation_id = rq_operation_id request,
         op_operation_digest = rq_operation_digest request, op_retry_binding_digest = retry,
         op_state = ''RECEIVED'', op_is_batch = is_batch, op_result_jcs = None,
         op_validation_receipt_jcs = Some rjcs, op_kind = ''operation''\<rparr>"
  from run obtain db1 h where ins: "insert_operation env ?row db = (db1, Inr ())"
    and app: "append_audit env ''operation.received'' (received_payload request is_batch) s db1 = (db', Inr h)"
    and snap: "snap = \<lparr>os_operation_id = rq_operation_id request, os_operation_digest = rq_operation_digest request,
       os_state = OS_Received, os_is_batch = is_batch, os_retry_binding_digest = retry, os_result = None, os_kind = OPERATION_KIND\<rparr>"
    by (auto simp: admit_operation_def tx_bind_Inr tx_return_def)
  have "select_operation (rq_operation_id request) db1 = Some ?row"
    using ins by (auto simp: insert_operation_def select_operation_def find_append split: if_splits option.splits)
  then have "select_operation (rq_operation_id request) db' = Some ?row"
    using append_audit_operations [OF app] by (simp add: select_operation_def)
  moreover have "parse_operation_state env ''RECEIVED'' = Inr OS_Received" by (simp add: parse_operation_state_Inr)
  ultimately show ?thesis
    using digests snap by (simp add: admitted_def read_operation_def receipt_of_def OPERATION_KIND_def)
qed

lemma begin_sign_attempt_cases:
  assumes "begin_sign_attempt_tx env request is_batch retry rjcs s db = (db', Inr out)"
  obtains db1 snap where "read_operation env db (rq_operation_id request) = Inr None \<and> admit_operation env request is_batch retry rjcs s db = (db1, Inr snap)
      \<or> read_operation env db (rq_operation_id request) = Inr (Some snap) \<and> check_retry env request is_batch retry rjcs snap db = (db1, Inr snap)"
    and "select_attempt (rq_operation_id request) (rq_attempt_id request) db1 = None
      \<or> map_option at_attempt_digest (select_attempt (rq_operation_id request) (rq_attempt_id request) db1) = Some (rq_attempt_digest request)"
    and "insert_or_ignore_attempt env \<lparr>at_operation_id = rq_operation_id request, at_attempt_id = rq_attempt_id request,
      at_attempt_digest = rq_attempt_digest request\<rparr> db1 = (db', Inr ())"
    and "out = Durable OperationReceived snap"
proof -
  let ?i = "rq_operation_id request"
  from assms obtain existing db1 snap where r: "read_operation env db ?i = Inr existing"
    "(case existing of Some e \<Rightarrow> check_retry env request is_batch retry rjcs e
       | None \<Rightarrow> admit_operation env request is_batch retry rjcs s) db = (db1, Inr snap)"
    "\<not> (select_attempt ?i (rq_attempt_id request) db1 \<noteq> None
       \<and> map_option at_attempt_digest (select_attempt ?i (rq_attempt_id request) db1) \<noteq> Some (rq_attempt_digest request))"
    "insert_or_ignore_attempt env \<lparr>at_operation_id = ?i, at_attempt_id = rq_attempt_id request,
      at_attempt_digest = rq_attempt_digest request\<rparr> db1 = (db', Inr ())"
    "out = Durable OperationReceived snap"
    unfolding begin_sign_attempt_tx_def tx_bind_Inr tx_check_def tx_query_def by (auto simp: tx_bind_Inr tx_return_def split: if_splits)
  from r(1,2) have "read_operation env db ?i = Inr None \<and> admit_operation env request is_batch retry rjcs s db = (db1, Inr snap)
      \<or> read_operation env db ?i = Inr (Some snap) \<and> check_retry env request is_batch retry rjcs snap db = (db1, Inr snap)"
    by (cases existing) (auto simp: check_retry_Inr)
  from that [OF this _ r(4,5)] r(3) show thesis by blast
qed

lemma attempt_recorded:
  assumes "insert_or_ignore_attempt env row db = (db', Inr u)"
    and "\<And>r. select_attempt (at_operation_id row) (at_attempt_id row) db = Some r \<Longrightarrow> at_attempt_digest r = at_attempt_digest row"
  shows "operations db' = operations db" and "attempt_conflict row db' \<noteq> None"
    and "\<And>r. select_attempt (at_operation_id row) (at_attempt_id row) db' = Some r \<Longrightarrow> at_attempt_digest r = at_attempt_digest row"
  using assms
  by (auto simp: insert_or_ignore_attempt_def insert_attempt_def attempt_conflict_def select_attempt_def find_append
      split: option.splits if_splits dest: find_SomeD)

lemma begin_sign_attempt_admits:
  assumes laws: "env_laws env" and run: "begin_sign_attempt_tx env request is_batch retry rjcs s db = (db', Inr out)"
    and digests: "e_digest32_new env (rq_operation_digest request) = Inr (rq_operation_digest request)"
      "e_digest32_new env retry = Inr retry"
  obtains snap where "admitted env db' request is_batch retry rjcs snap" and "out = Durable OperationReceived snap"
    and "begin_sign_attempt_tx env request is_batch retry rjcs s' db' = (db', Inr (Durable OperationReceived snap))"
  using run
proof (cases rule: begin_sign_attempt_cases)
  case (1 db1 snap)
  let ?at = "\<lparr>at_operation_id = rq_operation_id request, at_attempt_id = rq_attempt_id request, at_attempt_digest = rq_attempt_digest request\<rparr>"
  have "admitted env db1 request is_batch retry rjcs snap"
    using 1(1) admit_operation_admits [OF laws _ _ digests] by (auto simp: admitted_def check_retry_Inr)
  moreover note at = attempt_recorded [OF 1(3)]
  have "operations db' = operations db1" using 1(2) at(1) by auto
  ultimately have adm: "admitted env db' request is_batch retry rjcs snap"
    by (simp add: admitted_def read_operation_def receipt_of_def select_operation_def)
  have seen: "attempt_conflict ?at db' \<noteq> None"
    "\<And>r. select_attempt (rq_operation_id request) (rq_attempt_id request) db' = Some r \<Longrightarrow> at_attempt_digest r = rq_attempt_digest request"
    using 1(2) at(2,3) by auto
  have "check_retry env request is_batch retry rjcs snap db' = (db', Inr snap)"
    using adm by (simp add: admitted_def check_retry_Inr)
  then have "begin_sign_attempt_tx env request is_batch retry rjcs s' db' = (db', Inr (Durable OperationReceived snap))"
    using adm seen
    by (cases "select_attempt (rq_operation_id request) (rq_attempt_id request) db'")
       (auto simp: begin_sign_attempt_tx_def admitted_def tx_bind_def tx_check_def tx_query_def tx_return_def insert_or_ignore_attempt_def)
  from that [OF adm 1(4) this] show thesis .
qed

lemma admitted_conflicts:
  assumes "admitted env db request is_batch retry rjcs snap" and "rq_operation_id request' = rq_operation_id request"
    and "rq_operation_digest request' \<noteq> rq_operation_digest request \<or> is_batch' \<noteq> is_batch \<or> retry' \<noteq> retry \<or> rjcs' \<noteq> rjcs"
  shows "\<exists>m. begin_sign_attempt_tx env request' is_batch' retry' rjcs' s db = (db, Inl (Protocol OperationIdConflict m))"
proof -
  have "\<exists>m. check_retry env request' is_batch' retry' rjcs' snap db = (db, Inl (Protocol OperationIdConflict m))"
    using assms by (intro check_retry_Inl [where r = rjcs]) (auto simp: admitted_def)
  then show ?thesis using assms(1,2) by (auto simp: begin_sign_attempt_tx_def admitted_def tx_bind_def tx_check_def)
qed

text \<open>C21. A signing attempt that was admitted can be retried and not changed: its operation is stored with the
digest and the receipt of the request, the same request is admitted again without a change of the
store, and a request that reuses the operation identifier with another digest, another receipt, another
retry binding or as a batch instead of a single operation is refused as a conflict and changes nothing.\<close>

theorem attempts_are_bound:
  assumes laws: "env_laws env" and "commit_request env (BeginSignAttempt request is_batch receipt) j = (j', Inr out)"
    and digest: "e_digest32_new env (rq_operation_digest request) = Inr (rq_operation_digest request)"
  shows "\<exists>snap body. operation env (j_db j') (rq_operation_id request) = Inr (Some snap)
    \<and> os_operation_digest snap = rq_operation_digest request \<and> os_is_batch snap = is_batch
    \<and> validation_receipt env (j_db j') (rq_operation_id request) = Inr (Some receipt)
    \<and> request_body env (BeginSignAttempt request is_batch receipt) = Inr body
    \<and> body s (j_db j') = (j_db j', Inr (Durable OperationReceived ()))
    \<and> (\<forall>request' is_batch' receipt' body'. rq_operation_id request' = rq_operation_id request \<longrightarrow>
         rq_operation_digest request' \<noteq> rq_operation_digest request \<or> is_batch' \<noteq> is_batch
         \<or> e_receipt_jcs env receipt' \<noteq> e_receipt_jcs env receipt
         \<or> attempt_retry_binding_digest env request' \<noteq> attempt_retry_binding_digest env request \<longrightarrow>
         request_body env (BeginSignAttempt request' is_batch' receipt') = Inr body' \<longrightarrow>
         (\<exists>m. body' s (j_db j') = (j_db j', Inl (Protocol OperationIdConflict m))))"
proof -
  from assms(2) obtain body where body: "request_body env (BeginSignAttempt request is_batch receipt) = Inr body"
    and run: "body (j_signer j) (j_db j) = (j_db j', Inr out)" by (rule commit_request_ran)
  then obtain retry rjcs res where r: "attempt_retry_binding_digest env request = Inr retry" "e_receipt_jcs env receipt = Inr rjcs"
      "body = discarding (begin_sign_attempt_tx env request is_batch retry rjcs)"
      "begin_sign_attempt_tx env request is_batch retry rjcs (j_signer j) (j_db j) = (j_db j', Inr res)"
    by (auto simp: and_then_eq_Inr discarding_Inr split: if_splits)
  have retry: "e_digest32_new env retry = Inr retry"
    using r(1) env_lawsD(1) [OF laws] by (auto simp: attempt_retry_binding_digest_def and_then_eq_Inr)
  from begin_sign_attempt_admits [OF laws r(4) digest retry] obtain snap where adm: "admitted env (j_db j') request is_batch retry rjcs snap"
    and again: "begin_sign_attempt_tx env request is_batch retry rjcs s (j_db j') = (j_db j', Inr (Durable OperationReceived snap))" by metis
  have conflict: "\<exists>m. body' s (j_db j') = (j_db j', Inl (Protocol OperationIdConflict m))"
    if same: "rq_operation_id request' = rq_operation_id request"
      and other: "rq_operation_digest request' \<noteq> rq_operation_digest request \<or> is_batch' \<noteq> is_batch
         \<or> e_receipt_jcs env receipt' \<noteq> e_receipt_jcs env receipt
         \<or> attempt_retry_binding_digest env request' \<noteq> attempt_retry_binding_digest env request"
      and b: "request_body env (BeginSignAttempt request' is_batch' receipt') = Inr body'" for request' is_batch' receipt' body'
  proof -
    from b obtain retry' rjcs' where r': "attempt_retry_binding_digest env request' = Inr retry'" "e_receipt_jcs env receipt' = Inr rjcs'"
      "body' = discarding (begin_sign_attempt_tx env request' is_batch' retry' rjcs')"
      by (auto simp: and_then_eq_Inr split: if_splits)
    from admitted_conflicts [OF adm same, of is_batch' retry' rjcs' s] other r r' show ?thesis
      by (auto simp: discarding_def tx_bind_def)
  qed
  have "validation_receipt env (j_db j') (rq_operation_id request) = Inr (Some receipt)"
    using adm env_lawsD(10) [OF laws r(2)] by (simp add: admitted_def validation_receipt_def receipt_of_def)
  moreover have "body s (j_db j') = (j_db j', Inr (Durable OperationReceived ()))"
    using again r(3) by (simp add: discarding_def tx_bind_def tx_return_def)
  ultimately show ?thesis
    using adm body conflict by (intro exI [of _ snap] exI [of _ body]) (auto simp: admitted_def operation_def simp del: request_body.simps)
qed

definition sample_request :: UnsignedSignRequest where
  "sample_request = \<lparr>rq_operation_id = ''n'', rq_operation_digest = zero_digest, rq_attempt_id = ''t'', rq_attempt_digest = zero_digest,
     rq_approval_id = ''a'', rq_policy_version = 1, rq_policy_digest = zero_digest, rq_petal_use_claim_digest = None,
     rq_claim_assurance_digest = None, rq_broker_signing_key_id = ''k'', rq_validation_receipt_digest = sample_sha256 [], rq_rest = JNull\<rparr>"

definition sample_signed_receipt :: BrokerValidationReceipt where
  "sample_signed_receipt = sample_receipt\<lparr>vr_broker_signature := replicate 64 0\<rparr>"

theorem attempts_are_bound_witness:
  "\<exists>j' out. commit_request sample_env (BeginSignAttempt sample_request False sample_signed_receipt) (sample_journal active_db) = (j', Inr out)
    \<and> validation_receipt sample_env (j_db j') ''n'' = Inr (Some sample_signed_receipt)"
proof -
  have z: "e_digest32_new sample_env (rq_operation_digest sample_request) = Inr (rq_operation_digest sample_request)"
    using env_lawsD(2) [OF sample_env_laws] by (simp add: sample_request_def)
  obtain retry rjcs where b: "request_body sample_env (BeginSignAttempt sample_request False sample_signed_receipt)
      = Inr (discarding (begin_sign_attempt_tx sample_env sample_request False retry rjcs))"
    by (simp add: sign_request_matches_def attempt_retry_binding_digest_def sample_env_def sample_request_def sample_signed_receipt_def
        sample_receipt_def json_object_def)
  have none: "select_operation ''n'' active_db = None" by (simp add: select_operation_def)
  obtain db' snap where run: "begin_sign_attempt_tx sample_env sample_request False retry rjcs (active_signer (new_active_signer sample_signer)) active_db
      = (db', Inr (Durable OperationReceived snap))"
    using none
    by (simp add: begin_sign_attempt_tx_def tx_bind_def tx_check_def tx_query_def tx_return_def read_operation_def sample_request_def
        admit_operation_def insert_operation_def changed_def sample_append insert_or_ignore_attempt_def insert_attempt_def
        attempt_conflict_def select_attempt_def)
       (simp add: active_db_def empty_db_def select_operation_def tx_bind_def tx_return_def insert_or_ignore_attempt_def
        insert_attempt_def attempt_conflict_def select_attempt_def)
  have "commit_request sample_env (BeginSignAttempt sample_request False sample_signed_receipt) (sample_journal active_db)
      = ((sample_journal active_db)\<lparr>j_db := db'\<rparr>, Inr (Durable OperationReceived ()))"
    unfolding commit_request_def b by (simp, rule sample_commit) (simp_all add: discarding_Inr run)
  from attempts_are_bound [OF sample_env_laws this z] this show ?thesis by (auto simp: sample_request_def)
qed

end
