(* ===== verification/Limits.thy ===== *)
theory Limits
  imports Ledger
begin

text \<open>
  The limit checks of the ledger are exact: they refuse a reservation that would exceed a limit, by
  the traces of the ledger, and accept every one that would not, up to the last unit, with no
  false refusal from an overflow of a counter.
\<close>

definition readable :: "reservation_row \<Rightarrow> bool" where
  "readable r \<longleftrightarrow> u64_from_str (rs_signature_count r) \<noteq> None \<and> u64_from_str (rs_reserved_at_ms r) \<noteq> None"

lemma readable_parse:
  assumes "readable r"
  obtains s t where "parse_u64 env (rs_signature_count r) = Inr s" and "unat s = signatures_of r"
    and "parse_u64 env (rs_reserved_at_ms r) = Inr t" and "unat t = time_of r"
  using assms by (auto simp: readable_def parse_u64_def signatures_of_def time_of_def number_of_def)

lemma row_of_readable: "readable (reservation_row_of request)"
  by (simp add: readable_def reservation_row_of_def)

lemma sum_signatures_total:
  assumes "\<forall>r \<in> set rows. readable r" and "unat acc + sum_list (map signatures_of rows) < 2 ^ 64"
  shows "\<exists>r. sum_signatures env rows acc = Inr r"
  using assms
proof (induction rows arbitrary: acc)
  case (Cons row rows)
  obtain s where s: "parse_u64 env (rs_signature_count row) = Inr s" "unat s = signatures_of row"
    using Cons.prems(1) readable_parse [of row env] by (metis list.set_intros(1))
  with Cons.prems(2) have add: "checked_add acc s = Some (acc + s)" by (simp add: checked_add_def)
  with Cons.IH [of "acc + s"] Cons.prems s unat_checked_add [OF add] show ?case by simp
qed simp

text \<open>The bound of a counter is below its width, so a sum within the bound does not overflow.\<close>

lemma below_width: "a + b \<le> unat (m :: u64) \<Longrightarrow> a < 2 ^ 64"
  using unsigned_less [of m, where 'a = nat] by simp

lemma lifetime_exact:
  assumes "\<forall>r \<in> set (live_reservations db (rr_approval_id request)). readable r"
  shows "validate_lifetime_limits env db request limits = Inr () \<longleftrightarrow>
    length (live_reservations db (rr_approval_id request)) + 1 \<le> unat (bl_max_operations limits)
    \<and> sum_list (map signatures_of (live_reservations db (rr_approval_id request))) + unat (rr_signature_count request)
      \<le> unat (bl_max_signatures limits)" (is "_ \<longleftrightarrow> ?ops \<and> ?sigs")
proof
  assume r: "?ops \<and> ?sigs"
  have "length (live_reservations db (rr_approval_id request)) < USIZE_LIMIT"
    using below_width [OF conjunct1 [OF r]] by (simp add: USIZE_LIMIT_def)
  then have c: "count_u64 (length (live_reservations db (rr_approval_id request))) = Inr (of_nat (length (live_reservations db (rr_approval_id request))))"
    by (simp add: count_u64_def)
  obtain n where n: "sum_signatures env (live_reservations db (rr_approval_id request)) 0 = Inr n"
    using sum_signatures_total [OF assms, of 0 env] below_width [OF conjunct2 [OF r]] by auto
  from r count_u64_Inr [OF c] sum_signatures_Inr [OF n] show "validate_lifetime_limits env db request limits = Inr ()"
    by (simp add: validate_lifetime_limits_def c n not_exceeds [symmetric] exceeds_def)
       (simp add: exceeds_def [symmetric] not_exceeds)
qed (use validate_lifetime_Inr in blast)

lemma parse_usage_total:
  assumes "\<forall>r \<in> set rows. readable r"
  shows "\<exists>usage. parse_usage env rows = Inr usage"
  using assms
proof (induction rows)
  case (Cons row rows)
  then obtain usage where "parse_usage env rows = Inr usage" by auto
  moreover have "readable row" using Cons.prems by simp
  then obtain s t where "parse_u64 env (rs_signature_count row) = Inr s" "parse_u64 env (rs_reserved_at_ms row) = Inr t"
    by (rule readable_parse)
  ultimately show ?case by simp
qed simp

lemma window_usage_total:
  assumes "unat ops + length (filter (\<lambda>(s, t). start < t \<and> t \<le> now) usage) < 2 ^ 64"
    and "unat sigs + sum_list (map (\<lambda>(s, t). unat s) (filter (\<lambda>(s, t). start < t \<and> t \<le> now) usage)) < 2 ^ 64"
  shows "\<exists>r. window_usage start now usage ops sigs = Inr r"
  using assms
proof (induction start now usage ops sigs rule: window_usage.induct)
  case (2 start now s t usage ops sigs)
  show ?case
  proof (cases "start < t \<and> t \<le> now")
    case True
    with "2.prems" have a: "checked_add ops 1 = Some (ops + 1)" "checked_add sigs s = Some (sigs + s)"
      by (auto simp: checked_add_def)
    with "2.IH"(1) [OF True] "2.prems" True unat_checked_add [OF a(1)] unat_checked_add [OF a(2)] show ?thesis by simp
  next
    case False
    with 2 show ?thesis by auto
  qed
qed simp

lemma rate_exact:
  assumes "lineage db (rr_approval_id request) = Inr ids" and "\<forall>r \<in> set (lineage_reservations db ids). readable r"
  shows "validate_rate_limits env db request limits = Inr () \<longleftrightarrow> (\<forall>limit \<in> set (bl_rate_limits limits).
    let rows = filter (in_window (unat (rr_reserved_at_ms request) - unat (sb_duration_ms limit)) (unat (rr_reserved_at_ms request)))
          (lineage_reservations db ids) in
    sb_duration_ms limit \<noteq> 0 \<and> sb_max_operations limit \<noteq> 0 \<and> sb_max_signatures limit \<noteq> 0
    \<and> length rows + 1 \<le> unat (sb_max_operations limit)
    \<and> sum_list (map signatures_of rows) + unat (rr_signature_count request) \<le> unat (sb_max_signatures limit))"
proof -
  obtain usage where usage: "parse_usage env (lineage_reservations db ids) = Inr usage" using parse_usage_total [OF assms(2)] by blast
  have "check_rate_limit request usage limit = Inr () \<longleftrightarrow>
    sb_duration_ms limit \<noteq> 0 \<and> sb_max_operations limit \<noteq> 0 \<and> sb_max_signatures limit \<noteq> 0
    \<and> length (filter (in_window (unat (rr_reserved_at_ms request) - unat (sb_duration_ms limit)) (unat (rr_reserved_at_ms request)))
          (lineage_reservations db ids)) + 1 \<le> unat (sb_max_operations limit)
    \<and> sum_list (map signatures_of (filter (in_window (unat (rr_reserved_at_ms request) - unat (sb_duration_ms limit))
          (unat (rr_reserved_at_ms request))) (lineage_reservations db ids))) + unat (rr_signature_count request)
        \<le> unat (sb_max_signatures limit)" (is "_ \<longleftrightarrow> ?d \<and> ?o \<and> ?s \<and> ?ops \<and> ?sigs") for limit
  proof -
    let ?w = "window_usage (saturating_sub (rr_reserved_at_ms request) (sb_duration_ms limit)) (rr_reserved_at_ms request) usage 0 0"
    note rows = usage_of_rows [OF usage, of "saturating_sub (rr_reserved_at_ms request) (sb_duration_ms limit)" "rr_reserved_at_ms request",
        unfolded unat_saturating_sub]
    have total: "\<exists>r. ?w = Inr r" if "?ops" "?sigs"
      using below_width [OF that(1)] below_width [OF that(2)] rows by (intro window_usage_total) simp_all
    have eq: "check_rate_limit request usage limit = Inr () \<longleftrightarrow> ?d \<and> ?o \<and> ?s \<and> (\<exists>ops sigs. ?w = Inr (ops, sigs)
        \<and> unat ops + 1 \<le> unat (sb_max_operations limit) \<and> unat sigs + unat (rr_signature_count request) \<le> unat (sb_max_signatures limit))"
      by (auto simp: check_rate_limit_def and_then_eq_Inr not_exceeds split: if_splits)
    have w: "?w = Inr (ops, sigs) \<Longrightarrow> unat ops = length (filter (in_window (unat (rr_reserved_at_ms request) - unat (sb_duration_ms limit))
          (unat (rr_reserved_at_ms request))) (lineage_reservations db ids))
        \<and> unat sigs = sum_list (map signatures_of (filter (in_window (unat (rr_reserved_at_ms request) - unat (sb_duration_ms limit))
          (unat (rr_reserved_at_ms request))) (lineage_reservations db ids)))" for ops sigs
      using window_usage_Inr [of _ _ usage 0 0 ops sigs] rows by auto
    show ?thesis unfolding eq using total w by (auto; metis)
  qed
  then show ?thesis
    using assms(1) usage by (auto simp: validate_rate_limits_def check_all_Inr Let_def)
qed

text \<open>Values are exact as well: an unbounded sum, compared with the limit of the asset.\<close>

lemma sum_amounts_total:
  assumes "\<forall>t \<in> set amounts. is_ok (e_biguint_from_str env t)"
  shows "\<exists>n. sum_amounts env amounts acc = Inr n"
  using assms by (induction amounts arbitrary: acc) (auto simp: parse_biguint_def is_ok_def split: sum.splits)

lemma value_exact:
  assumes "\<forall>(t, _) \<in> set (live_values db [rr_approval_id request] asset). is_ok (e_biguint_from_str env t)"
    and "is_ok (e_biguint_from_str env requested)" and "\<forall>(_, t) \<in> set (bl_value_limits limits). is_ok (e_biguint_from_str env t)"
  shows "check_value_limit env db request limits (asset, requested) = Inr () \<longleftrightarrow>
    (\<exists>limit. map_of (bl_value_limits limits) asset = Some limit
      \<and> reserved_value env (rr_approval_id request) asset db + amount_of env requested \<le> amount_of env limit)"
proof (cases "map_of (bl_value_limits limits) asset")
  case (Some limit)
  then have "is_ok (e_biguint_from_str env limit)" using assms(3) by (auto dest!: map_of_SomeD)
  then obtain l r where p: "parse_biguint env limit = Inr l" "parse_biguint env requested = Inr r"
    using assms(2) by (auto simp: is_ok_def parse_biguint_def split: sum.splits)
  obtain used where u: "sum_amounts env (map fst (live_values db [rr_approval_id request] asset)) 0 = Inr used"
    using sum_amounts_total [of "map fst (live_values db [rr_approval_id request] asset)" env 0] assms(1) by (auto simp: case_prod_unfold)
  with sum_amounts_Inr [OF u] Some p parse_biguint_Inr show ?thesis
    by (simp add: check_value_limit_def reserved_value_def comp_def not_less)
qed (simp add: check_value_limit_def)

text \<open>C22. Limits are exact: with readable rows, the lifetime check passes exactly when one more operation
and its signatures stay within the maxima, each sliding window exactly when its window ending at the time
of the request does, over the whole lineage, and each value check exactly when the asset is approved and
the reserved amount plus the requested one stays within its limit. No counter overflow refuses more.\<close>

theorem limits_are_exact:
  assumes "lineage db (rr_approval_id request) = Inr ids"
    and "\<forall>r \<in> set (live_reservations db (rr_approval_id request)) \<union> set (lineage_reservations db ids). readable r"
    and "\<forall>(t, _) \<in> set (live_values db [rr_approval_id request] asset). is_ok (e_biguint_from_str env t)"
    and "is_ok (e_biguint_from_str env requested)" and "\<forall>(_, t) \<in> set (bl_value_limits limits). is_ok (e_biguint_from_str env t)"
  shows "(validate_lifetime_limits env db request limits = Inr () \<longleftrightarrow>
      length (live_reservations db (rr_approval_id request)) + 1 \<le> unat (bl_max_operations limits)
      \<and> sum_list (map signatures_of (live_reservations db (rr_approval_id request))) + unat (rr_signature_count request)
        \<le> unat (bl_max_signatures limits))
    \<and> (validate_rate_limits env db request limits = Inr () \<longleftrightarrow> (\<forall>limit \<in> set (bl_rate_limits limits).
        let rows = filter (in_window (unat (rr_reserved_at_ms request) - unat (sb_duration_ms limit)) (unat (rr_reserved_at_ms request)))
              (lineage_reservations db ids) in
        sb_duration_ms limit \<noteq> 0 \<and> sb_max_operations limit \<noteq> 0 \<and> sb_max_signatures limit \<noteq> 0
        \<and> length rows + 1 \<le> unat (sb_max_operations limit)
        \<and> sum_list (map signatures_of rows) + unat (rr_signature_count request) \<le> unat (sb_max_signatures limit)))
    \<and> (check_value_limit env db request limits (asset, requested) = Inr () \<longleftrightarrow>
        (\<exists>limit. map_of (bl_value_limits limits) asset = Some limit
          \<and> reserved_value env (rr_approval_id request) asset db + amount_of env requested \<le> amount_of env limit))"
  using lifetime_exact [of db request env limits] rate_exact [OF assms(1), of env limits] value_exact [OF assms(3-5)] assms(2)
  by simp

theorem limits_are_exact_witness:
  "validate_lifetime_limits sample_env active_db sample_reservation sample_limits = Inr ()
   \<and> check_value_limit sample_env active_db sample_reservation sample_limits (''usd'', ''9'') = Inr ()
   \<and> check_value_limit sample_env active_db sample_reservation sample_limits (''usd'', ''10'') \<noteq> Inr ()"
proof -
  have ids: "lineage active_db (rr_approval_id sample_reservation) = Inr [''a'']"
    by (simp add: lineage_def active_db_def select_metadata_def)
  have rows: "lineage_reservations active_db [''a''] = []" "live_values active_db [''a''] ''usd'' = []"
    by (simp_all add: lineage_reservations_def live_values_def List.map_filter_def)
  have amounts: "e_biguint_from_str sample_env ''9'' = Inr 9" "e_biguint_from_str sample_env ''10'' = Inr 10"
    by (simp_all add: sample_env_def Let_def)
  then have ok: "\<forall>(_, t) \<in> set (bl_value_limits sample_limits). is_ok (e_biguint_from_str sample_env t)"
    by (simp add: sample_limits_def is_ok_def)
  have none: "reserved_value sample_env ''a'' ''usd'' active_db = 0" by (simp add: reserved_value_def rows)
  show ?thesis
    using limits_are_exact [OF ids, of "''usd''" sample_env "''9''" sample_limits]
      limits_are_exact [OF ids, of "''usd''" sample_env "''10''" sample_limits] ok rows amounts none
    by (simp add: is_ok_def amount_of_def) (simp add: sample_limits_def amounts)
qed

end
