(* ===== verification/ClockService.thy ===== *)
theory ClockService
  imports Publication
begin

text \<open>
  What the clock service and the completion of a key revocation promise: the Broker reports itself
  ready only over a journal that is not degraded and a clock that was found healthy, the boot
  identifier of Linux is accepted exactly in its canonical shape, and completion is idempotent.
\<close>

section \<open>Readiness\<close>

lemma observe_time_durable:
  assumes "observe_time env reading max_step limited j = (j', Inr decision)"
  shows "map_option ck_condition (clock_state (j_db j')) = Some (clock_condition_text (cd_condition decision))"
    and "effective_time (j_db j') = Some (cd_effective_now_ms decision)"
proof -
  let ?body = "observe_time_tx env reading max_step limited"
  from assms obtain r where m: "mutate env ?body j = (j', Inr r)" "r = Inr decision"
    by (auto simp: observe_time_def split: prod.splits sum.splits)
  from m(1) obtain j1 out where c: "commit env ?body j = (j1, Inr out)" "finish env out j1 = (j', Inr r)" by (rule observe_time.mutate_committed)
  from c(1) have run: "?body (j_signer j) (j_db j) = (j_db j1, Inr out)" by (cases rule: commit_store) simp_all
  have out: "out = Checkpointed r"
    using c(2) run by (cases out) (auto simp: observe_time_tx_def Let_def tx_bind_Inr tx_return_def split: prod.splits sum.splits if_splits)
  from run obtain previous now condition where o: "e_evaluate_durable_clock env previous
         \<lparr>pr_utc_ms = tr_utc_ms reading, pr_monotonic_anchor_ns = tr_monotonic_anchor_ns reading,
          pr_monotonic_elapsed_ms = tr_monotonic_elapsed_ms reading\<rparr>
         (comparable_boot_epoch env (tr_boot_epoch reading)) max_step = Inr (now, condition)"
      "persisted_clock env (clock_state (j_db j)) = Inr previous"
      "effective_time (j_db j1) = Some now"
      "map_option ck_condition (clock_state (j_db j1)) = Some (clock_condition_text (broker_clock_condition condition))"
    by (rule observe_time_effective)
  have "decision = clock_decision reading now (broker_clock_condition condition)"
    using run out m(2) o(1,2)
    by (auto simp: observe_time_tx_def Let_def tx_bind_Inr tx_return_def tx_query_def tx_lift_def split: if_splits)
  with o(3,4) finish_store [OF c(2)] show
    "map_option ck_condition (clock_state (j_db j')) = Some (clock_condition_text (cd_condition decision))"
    "effective_time (j_db j') = Some (cd_effective_now_ms decision)"
    by (simp_all add: clock_decision_def)
qed

text \<open>Ready means trusted: with the durable guard, the Broker reports ready only when the journal is not
degraded, the platform clock could be sampled, and the journal has just stored a healthy or repaired
condition with an effective time.\<close>

theorem ready_means_trusted:
  assumes "readiness env max_step clock sample j = (j', (RD_Ready, conditions))" and "bc_durable_clock_guard clock"
  shows "\<not> audit_degraded j \<and> conditions = [] \<and> (\<exists>reading. sample = Inr reading)
    \<and> (\<exists>row t. clock_state (j_db j') = Some row \<and> ck_condition row \<in> {''HEALTHY'', ''REPAIRED''} \<and> effective_time (j_db j') = Some t)"
proof -
  from assms obtain reading decision where r: "\<not> audit_degraded j" "conditions = []" "sample = Inr reading"
      "readiness_token (cd_condition decision) = None"
      "observe_time env \<lparr>tr_utc_ms = pr_utc_ms reading, tr_monotonic_elapsed_ms = pr_monotonic_elapsed_ms reading,
             tr_monotonic_anchor_ns = pr_monotonic_anchor_ns reading, tr_boot_epoch = bc_boot_epoch clock\<rparr> max_step False j = (j', Inr decision)"
    by (auto simp: readiness_def observe_def split: if_splits sum.splits prod.splits option.splits)
  have "cd_condition decision \<in> {CC_Healthy, CC_Repaired}" using r(4) by (cases "cd_condition decision") auto
  with observe_time_durable [OF r(5)] r(1-3) show ?thesis by auto
qed

definition sample_clock :: BrokerClock where
  "sample_clock = \<lparr>bc_boot_epoch = ''b'', bc_durable_clock_guard = True\<rparr>"

definition sample_time :: PlatformTimeReading where
  "sample_time = \<lparr>pr_utc_ms = Some 9, pr_monotonic_anchor_ns = 0, pr_monotonic_elapsed_ms = 0\<rparr>"

theorem ready_means_trusted_witness:
  "\<exists>j' row t. readiness sample_env 5 sample_clock (Inr sample_time) (sample_journal active_db) = (j', (RD_Ready, []))
    \<and> clock_state (j_db j') = Some row \<and> ck_condition row \<in> {''HEALTHY'', ''REPAIRED''} \<and> effective_time (j_db j') = Some t"
proof -
  have p: "\<exists>anchor epoch. persisted_clock sample_env (clock_state active_db)
      = Inr (Some \<lparr>pc_last_effective_ms = 7, pc_monotonic_anchor_ns = anchor, pc_boot_epoch = epoch\<rparr>)"
    by (simp add: persisted_clock_def active_db_def parse_u64_def)
       (simp add: u64_from_str_def Let_def USIZE_LIMIT_def sample_env_def)
  let ?r = "\<lparr>tr_utc_ms = Some 9, tr_monotonic_elapsed_ms = 0, tr_monotonic_anchor_ns = 0, tr_boot_epoch = ''b''\<rparr>"
  obtain db' where run: "observe_time_tx sample_env ?r 5 False (active_signer (new_active_signer sample_signer)) active_db
      = (db', Inr (Checkpointed (Inr (clock_decision ?r 9 CC_Healthy))))" and chain: "audit_chain db' = []"
    using p by (auto simp: observe_time_tx_def run_simps write_clock_state_def upsert_clock_def append_when_def
        Let_def sample_evaluate_durable_clock_def) (auto simp: active_db_def run_simps empty_db_def)
  have "commit sample_env (observe_time_tx sample_env ?r 5 False) (sample_journal active_db)
      = ((sample_journal active_db)\<lparr>j_db := db'\<rparr>, Inr (Checkpointed (Inr (clock_decision ?r 9 CC_Healthy))))"
    by (rule sample_commit) (simp_all add: run)
  then have "\<exists>j'. observe_time sample_env ?r 5 False (sample_journal active_db) = (j', Inr (clock_decision ?r 9 CC_Healthy))"
    using chain
    by (simp add: observe_time_def mutate_def checkpoint_committed_head_def Let_def sample_journal_eval refresh_verified_audit_tail_def
        audit_head_def last_audit_row_def)
  then obtain j' where "readiness sample_env 5 sample_clock (Inr sample_time) (sample_journal active_db) = (j', (RD_Ready, []))"
    by (auto simp: readiness_def observe_def sample_clock_def sample_time_def audit_degraded_def sample_journal_eval clock_decision_def)
  from ready_means_trusted [OF this] this show ?thesis by (auto simp: sample_clock_def)
qed

section \<open>The boot identifier\<close>

lemma hexdigit_not_dash: "list_all is_ascii_hexdigit s \<Longrightarrow> CHR ''-'' \<notin> set s"
  by (induction s) (auto simp: is_ascii_hexdigit_def Let_def)

definition boot_groups :: "string list \<Rightarrow> bool" where
  "boot_groups groups \<longleftrightarrow> map length groups = [8, 4, 4, 4, 12] \<and> list_all (list_all is_ascii_hexdigit) groups"

lemma boot_groups_dashes: "boot_groups groups \<Longrightarrow> \<forall>s \<in> set groups. CHR ''-'' \<notin> set s"
  using hexdigit_not_dash by (auto simp: boot_groups_def list_all_iff)

lemma boot_groups_nonempty: "boot_groups groups \<Longrightarrow> groups \<noteq> []"
  by (auto simp: boot_groups_def)

text \<open>A Linux boot identifier is accepted exactly in its canonical shape: around any white space, five groups of 8,
4, 4, 4 and 12 hexadecimal digits joined by dashes, whose digits in lower case without the dashes are the
boot epoch; every other text is refused as malformed.\<close>

theorem boot_epoch_is_exact:
  "parse_linux_boot_epoch env raw = (if \<exists>groups. boot_groups groups \<and> trim raw = join_with CHR ''-'' groups
     then map_err (\<lambda>_. malformed_linux_boot_epoch)
       (e_boot_epoch_new env (map ascii_lowercase (filter (\<lambda>c. c \<noteq> CHR ''-'') (trim raw))))
     else Inl malformed_linux_boot_epoch)"
proof -
  have eq: "(\<exists>groups. boot_groups groups \<and> trim raw = join_with CHR ''-'' groups) \<longleftrightarrow> boot_groups (split_on CHR ''-'' (trim raw))"
    using split_join boot_groups_dashes boot_groups_nonempty by (metis join_split)
  have parse: "parse_linux_boot_epoch env raw = (if boot_groups (split_on CHR ''-'' (trim raw))
      then map_err (\<lambda>_. malformed_linux_boot_epoch)
        (e_boot_epoch_new env (map ascii_lowercase (concat (split_on CHR ''-'' (trim raw)))))
      else Inl malformed_linux_boot_epoch)"
    by (simp only: parse_linux_boot_epoch_def Let_def boot_groups_def)
  have "filter (\<lambda>c. c \<noteq> CHR ''-'') (trim raw) = concat (split_on CHR ''-'' (trim raw))"
    if "boot_groups (split_on CHR ''-'' (trim raw))"
    using strip_join [OF boot_groups_dashes [OF that]] by (simp only: join_split)
  then show ?thesis unfolding parse eq by simp
qed

section \<open>Completing a key revocation\<close>

text \<open>Completion is idempotent and looks at the state of the row only: an operation in RECEIVED becomes
SUCCEEDED, whatever its kind, with one audit entry, and every other row, every result and every receipt
stays; when no such operation exists, a missing identifier included, completion succeeds and changes nothing.\<close>

theorem completion_of_revocations:
  assumes "commit_request env (CompleteKeyRevocation i) j = (j', Inr out)"
  shows "(\<exists>r \<in> set (operations (j_db j)). op_operation_id r = i \<and> op_state r = ''RECEIVED'') \<and> out = Durable OperationTransition ()
      \<and> (\<exists>row. audit_chain (j_db j') = audit_chain (j_db j) @ [row] \<and> au_event_type row = ''key.revocation.succeeded'')
      \<and> operations (j_db j') = map (\<lambda>r. if op_operation_id r = i \<and> op_state r = ''RECEIVED'' then r\<lparr>op_state := ''SUCCEEDED''\<rparr> else r)
          (operations (j_db j))
    \<or> (\<forall>r \<in> set (operations (j_db j)). op_operation_id r = i \<longrightarrow> op_state r \<noteq> ''RECEIVED'') \<and> out = Unchanged () \<and> j_db j' = j_db j"
proof -
  let ?P = "\<lambda>r. op_operation_id r = i \<and> op_state r = ''RECEIVED''"
  from assms obtain res where run: "complete_key_revocation_tx env i (j_signer j) (j_db j) = (j_db j', Inr res)" "out = discard res"
    by (auto elim!: commit_request_ran simp: discarding_Inr)
  show ?thesis
  proof (cases "count_where ?P (operations (j_db j)) > 0")
    case True
    with run obtain db1 h where db1: "db1 = changed (count_where ?P (operations (j_db j)))
          ((j_db j)\<lparr>operations := update_where ?P (\<lambda>r. r\<lparr>op_state := ''SUCCEEDED''\<rparr>) (operations (j_db j))\<rparr>)"
      and app: "append_audit env ''key.revocation.succeeded'' (json_object [(''operation_id'', JString i)]) (j_signer j) db1 = (j_db j', Inr h)"
      and res: "res = Durable OperationTransition ()"
      by (auto simp: complete_key_revocation_tx_def update_operations_def tx_bind_Inr tx_return_def)
    from app obtain row where "audit_chain (j_db j') = audit_chain db1 @ [row]" "au_event_type row = ''key.revocation.succeeded''"
      by (rule append_audit_row)
    moreover have "\<exists>r \<in> set (operations (j_db j)). ?P r" using True by (auto simp: count_where_def filter_empty_conv)
    ultimately show ?thesis
      using run(2) res db1 append_audit_operations [OF app] by (simp add: changed_def update_where_def)
  next
    case False
    then have none: "\<forall>r \<in> set (operations (j_db j)). \<not> ?P r" by (auto simp: count_where_def filter_empty_conv)
    have "update_where ?P f (operations (j_db j)) = operations (j_db j)" for f
      unfolding update_where_def by (rule map_idI) (use none in auto)
    with False run none show ?thesis
      by (auto simp: complete_key_revocation_tx_def update_operations_def tx_bind_Inr tx_return_def changed_def)
  qed
qed

theorem completion_of_revocations_witness:
  "\<exists>j' out. commit_request sample_env (CompleteKeyRevocation ''o'') (sample_journal ((committed_db False)\<lparr>operations :=
      map (\<lambda>r. r\<lparr>op_state := ''RECEIVED''\<rparr>) (operations (committed_db False))\<rparr>)) = (j', Inr out)
    \<and> map op_kind (operations (j_db j')) = [OPERATION_KIND] \<and> map op_state (operations (j_db j')) = [''SUCCEEDED'']"
proof -
  let ?db = "(committed_db False)\<lparr>operations := map (\<lambda>r. r\<lparr>op_state := ''RECEIVED''\<rparr>) (operations (committed_db False))\<rparr>"
  have chain: "audit_chain ?db = []" by simp
  have j: "j_db (sample_journal ?db) = ?db" by (simp add: sample_journal_eval [OF chain])
  have ops: "operations ?db = [r\<lparr>op_state := ''RECEIVED''\<rparr>]" if "operations (committed_db False) = [r]" for r using that by simp
  obtain r where r: "operations (committed_db False) = [r]" "op_kind r = OPERATION_KIND" "op_operation_id r = ''o''"
    by (simp add: committed_db_def)
  obtain db' where run: "complete_key_revocation_tx sample_env ''o'' (active_signer (new_active_signer sample_signer)) ?db
      = (db', Inr (Durable OperationTransition ()))"
    using r by (simp add: complete_key_revocation_tx_def run_simps update_operations_def count_where_def sample_append)
  have "commit_request sample_env (CompleteKeyRevocation ''o'') (sample_journal ?db)
      = ((sample_journal ?db)\<lparr>j_db := db'\<rparr>, Inr (Durable OperationTransition ()))"
    unfolding commit_request_def by (simp, rule sample_commit) (simp_all add: discarding_Inr run)
  from completion_of_revocations [OF this] this r j show ?thesis by auto
qed

end
