(* ===== verification/ClearMessage.thy ===== *)
theory ClearMessage
  imports NativeTransfer
begin

text \<open>
  The message codec of \<open>bloom-solana-clear-signing/src/message.rs\<close>: legacy and version 0 messages with
  their unresolved address table lookups, the packet size bound, and the digest that leaves out
  the recent blockhash. The parser accepts exactly the serializations of well-formed messages.
\<close>

section \<open>Errors\<close>

text \<open>The enum of this crate has the variants of the verifier's and two more.\<close>

datatype ClearParseError =
    CE_ShortVec ShortVecError
  | CE_Truncated
  | CE_Empty
  | CE_Versioned
  | CE_TrailingBytes nat
  | CE_NoFeePayer
  | CE_ReadonlySignerOverlap
  | CE_SignerUnsignedOverlap
  | CE_ProgramIndexOutOfRange u8
  | CE_ProgramIsFeePayer
  | CE_AccountIndexOutOfRange u8
  | CE_TooManyAccounts nat
  | CE_UnsupportedVersion u8
  | CE_Oversized

fun clear_error :: "ParseError \<Rightarrow> ClearParseError" where
  "clear_error (PE_ShortVec e) = CE_ShortVec e"
| "clear_error PE_Truncated = CE_Truncated"
| "clear_error PE_Empty = CE_Empty"
| "clear_error PE_Versioned = CE_Versioned"
| "clear_error (PE_TrailingBytes n) = CE_TrailingBytes n"
| "clear_error PE_NoFeePayer = CE_NoFeePayer"
| "clear_error PE_ReadonlySignerOverlap = CE_ReadonlySignerOverlap"
| "clear_error PE_SignerUnsignedOverlap = CE_SignerUnsignedOverlap"
| "clear_error (PE_ProgramIndexOutOfRange i) = CE_ProgramIndexOutOfRange i"
| "clear_error PE_ProgramIsFeePayer = CE_ProgramIsFeePayer"
| "clear_error (PE_AccountIndexOutOfRange i) = CE_AccountIndexOutOfRange i"
| "clear_error (PE_TooManyAccounts n) = CE_TooManyAccounts n"

section \<open>Messages\<close>

record AddressTableLookup =
  lk_table :: Pubkey
  lk_writable_indices :: bytes
  lk_readonly_indices :: bytes

record ParsedMessage =
  pm_version :: "u8 option"
  pm_message :: LegacyMessage
  pm_lookups :: "AddressTableLookup list"

definition serialize_lookup :: "AddressTableLookup \<Rightarrow> bytes" where
  "serialize_lookup l = lk_table l
     @ write_short_vec (of_nat (length (lk_writable_indices l))) @ lk_writable_indices l
     @ write_short_vec (of_nat (length (lk_readonly_indices l))) @ lk_readonly_indices l"

definition serialize_parsed :: "ParsedMessage \<Rightarrow> bytes" where
  "serialize_parsed p = (case pm_version p of
     None \<Rightarrow> serialize (pm_message p)
   | Some version \<Rightarrow> (MESSAGE_VERSION_PREFIX OR version) # serialize (pm_message p)
       @ write_short_vec (of_nat (length (pm_lookups p))) @ concat (map serialize_lookup (pm_lookups p)))"

definition BLOCKHASH_DOMAIN :: bytes where
  "BLOCKHASH_DOMAIN = map (\<lambda>c. of_nat (of_char c)) ''bloom.solana.blockhash-independent.v1'' @ [0]"

definition normalized :: "ParsedMessage \<Rightarrow> ParsedMessage" where
  "normalized p = p\<lparr>pm_message := (pm_message p)\<lparr>recent_blockhash := replicate 32 0\<rparr>\<rparr>"

text \<open>SHA-256 is a parameter, the function \<open>sha256\<close> from bytes to bytes.\<close>

definition blockhash_independent_digest :: "(bytes \<Rightarrow> bytes) \<Rightarrow> ParsedMessage \<Rightarrow> bytes" where
  "blockhash_independent_digest sha256 p = sha256 (BLOCKHASH_DOMAIN @ serialize_parsed (normalized p))"

section \<open>The parser\<close>

fun check_loaded_indices :: "nat \<Rightarrow> u8 list \<Rightarrow> ClearParseError + unit" where
  "check_loaded_indices n [] = Inr ()"
| "check_loaded_indices n (a # as) =
     (if n \<le> unat a then Inl (CE_AccountIndexOutOfRange a) else check_loaded_indices n as)"

fun check_loaded_instructions :: "nat \<Rightarrow> nat \<Rightarrow> CompiledInstruction list \<Rightarrow> ClearParseError + unit" where
  "check_loaded_instructions n loaded [] = Inr ()"
| "check_loaded_instructions n loaded (ix # ixs) =
     (if n \<le> unat (program_id_index ix) then Inl (CE_ProgramIndexOutOfRange (program_id_index ix))
      else if program_id_index ix = 0 then Inl CE_ProgramIsFeePayer
      else and_then (check_loaded_indices (n + loaded) (ix_accounts ix)) (\<lambda>_. check_loaded_instructions n loaded ixs))"

definition sanitize_loaded :: "LegacyMessage \<Rightarrow> nat \<Rightarrow> ClearParseError + unit" where
  "sanitize_loaded m loaded_accounts =
     (if num_required_signatures (header m) = 0 then Inl CE_NoFeePayer
      else if num_required_signatures (header m) \<le> num_readonly_signed_accounts (header m)
      then Inl CE_ReadonlySignerOverlap
      else if length (account_keys m)
          < unat (num_required_signatures (header m)) + unat (num_readonly_unsigned_accounts (header m))
      then Inl CE_SignerUnsignedOverlap
      else check_loaded_instructions (length (account_keys m)) loaded_accounts (instructions m))"

definition parse_legacy :: "bytes \<Rightarrow> ClearParseError + LegacyMessage" where
  "parse_legacy bytes =
     (if bytes = [] then Inl CE_Empty
      else if bytes ! 0 AND MESSAGE_VERSION_PREFIX \<noteq> 0 then Inl CE_Versioned
      else and_then (map_err clear_error (parse_body bytes 0)) (\<lambda>(message, offset).
        if offset \<noteq> length bytes then Inl (CE_TrailingBytes (length bytes - offset))
        else and_then (sanitize_loaded message 0) (\<lambda>_. Inr message)))"

definition check_packet_size :: "nat \<Rightarrow> u8 \<Rightarrow> ClearParseError + unit" where
  "check_packet_size message_len signatures =
     (if PACKET_DATA_SIZE < message_len + 1 + unat signatures * 64 then Inl CE_Oversized else Inr ())"

definition read_lookup :: "bytes \<Rightarrow> nat \<Rightarrow> ClearParseError + (AddressTableLookup \<times> nat)" where
  "read_lookup bytes offset =
     and_then (map_err clear_error (read_array32 bytes offset)) (\<lambda>(table, offset).
     and_then (map_err CE_ShortVec (read_short_vec_bytes bytes offset ''lookup writable indices'')) (\<lambda>(writable, offset).
     and_then (map_err CE_ShortVec (read_short_vec_bytes bytes offset ''lookup readonly indices'')) (\<lambda>(readonly, offset).
     Inr (\<lparr>lk_table = table, lk_writable_indices = writable, lk_readonly_indices = readonly\<rparr>, offset))))"

text \<open>The number of accounts the lookups load; the loop adds them up as it reads.\<close>

definition loaded_accounts :: "AddressTableLookup list \<Rightarrow> nat" where
  "loaded_accounts ls = sum_list (map (\<lambda>l. length (lk_writable_indices l) + length (lk_readonly_indices l)) ls)"

definition parse_versioned_message :: "bytes \<Rightarrow> ClearParseError + ParsedMessage" where
  "parse_versioned_message bytes =
     (if PACKET_DATA_SIZE < length bytes then Inl CE_Oversized
      else and_then (ok_or (get_at bytes 0) CE_Empty) (\<lambda>first.
      if first AND MESSAGE_VERSION_PREFIX = 0 then
        and_then (parse_legacy bytes) (\<lambda>message.
        and_then (check_packet_size (length bytes) (num_required_signatures (header message))) (\<lambda>_.
        Inr \<lparr>pm_version = None, pm_message = message, pm_lookups = []\<rparr>))
      else
        let version = first AND NOT MESSAGE_VERSION_PREFIX in
        if version \<noteq> 0 then Inl (CE_UnsupportedVersion version)
        else and_then (map_err clear_error (parse_body bytes 1)) (\<lambda>(message, offset).
          and_then (map_err CE_ShortVec (read_short_vec bytes offset)) (\<lambda>(count, offset).
          if (length bytes - offset) div 34 < unat count then Inl CE_Truncated
          else and_then (read_times (unat count) (read_lookup bytes) offset) (\<lambda>(lookups, offset).
            if offset \<noteq> length bytes then Inl (CE_TrailingBytes (length bytes - offset))
            else if MAX_ACCOUNT_KEYS < length (account_keys message) + loaded_accounts lookups
            then Inl (CE_TooManyAccounts (length (account_keys message) + loaded_accounts lookups))
            else and_then (sanitize_loaded message (loaded_accounts lookups)) (\<lambda>_.
              and_then (check_packet_size (length bytes) (num_required_signatures (header message))) (\<lambda>_.
              Inr \<lparr>pm_version = Some 0, pm_message = message, pm_lookups = lookups\<rparr>)))))))"

section \<open>Lookups keep the codec laws\<close>

definition wf_lookup :: "AddressTableLookup \<Rightarrow> bool" where
  "wf_lookup l \<longleftrightarrow> length (lk_table l) = PUBKEY_BYTES \<and> length (lk_writable_indices l) < 2 ^ 16
     \<and> length (lk_readonly_indices l) < 2 ^ 16"

lemma serialize_lookup_eq:
  "serialize_lookup l = lk_table l @ write_short_vec_bytes (lk_writable_indices l) @ write_short_vec_bytes (lk_readonly_indices l)"
  by (simp add: serialize_lookup_def write_short_vec_bytes_def)

lemma read_lookup_enc:
  assumes "wf_lookup l" and "drop offset bs = serialize_lookup l @ rest" and "length bs < USIZE_LIMIT"
  shows "read_lookup bs offset = Inr (l, offset + length (serialize_lookup l))"
proof -
  have d: "drop offset bs = lk_table l @ (write_short_vec_bytes (lk_writable_indices l) @ write_short_vec_bytes (lk_readonly_indices l) @ rest)"
    using assms(2) by (simp add: serialize_lookup_eq)
  note d1 = drop_past [OF d]
  note d2 = drop_past [OF d1]
  show ?thesis
    using assms(1,3) read_array32_enc [OF _ d] read_short_vec_bytes_write [OF _ d1 assms(3)] read_short_vec_bytes_write [OF _ d2 assms(3)]
    by (simp add: read_lookup_def wf_lookup_def serialize_lookup_eq)
qed

lemma read_lookup_dec:
  assumes "read_lookup bs offset = Inr (l, offset')"
  shows "wf_lookup l \<and> offset' = offset + length (serialize_lookup l) \<and> drop offset bs = serialize_lookup l @ drop offset' bs"
proof -
  from assms obtain t o1 w o2 r where t: "read_array32 bs offset = Inr (t, o1)"
    and w: "read_short_vec_bytes bs o1 ''lookup writable indices'' = Inr (w, o2)"
    and r: "read_short_vec_bytes bs o2 ''lookup readonly indices'' = Inr (r, offset')"
    and l: "l = \<lparr>lk_table = t, lk_writable_indices = w, lk_readonly_indices = r\<rparr>"
    by (auto simp: read_lookup_def and_then_eq_Inr split: prod.splits)
  show ?thesis
    using read_array32_dec [OF t] read_short_vec_bytes_drop [OF w] read_short_vec_bytes_drop [OF r]
    by (simp add: l wf_lookup_def serialize_lookup_eq)
qed

interpretation lookup_codec: prefix_codec serialize_lookup read_lookup wf_lookup
  by unfold_locales (erule (2) read_lookup_enc, erule read_lookup_dec)

section \<open>The parser accepts exactly the serializations of well-formed messages\<close>

text \<open>
  What the parser guarantees of a message: its parts have their sizes, its first byte says its version, the
  structural checks pass with the loaded accounts, and it fits a packet with its signatures.
\<close>

definition wf_parsed :: "ParsedMessage \<Rightarrow> bool" where
  "wf_parsed p \<longleftrightarrow> wf_body (pm_message p)
   \<and> (case pm_version p of
        None \<Rightarrow> pm_lookups p = [] \<and> unat (num_required_signatures (header (pm_message p))) < 128
      | Some v \<Rightarrow> v = 0 \<and> list_all wf_lookup (pm_lookups p) \<and> length (pm_lookups p) < 2 ^ 16
          \<and> length (account_keys (pm_message p)) + loaded_accounts (pm_lookups p) \<le> MAX_ACCOUNT_KEYS)
   \<and> sanitize_loaded (pm_message p) (loaded_accounts (pm_lookups p)) = Inr ()
   \<and> length (serialize_parsed p) + 1 + unat (num_required_signatures (header (pm_message p))) * 64 \<le> PACKET_DATA_SIZE"

lemma loaded_accounts_Nil [simp]: "loaded_accounts [] = 0"
  by (simp add: loaded_accounts_def)

lemma check_packet_size_Inr:
  "check_packet_size n s = Inr () \<longleftrightarrow> n + 1 + unat s * 64 \<le> PACKET_DATA_SIZE"
  by (simp add: check_packet_size_def not_less)

lemma serialize_lookup_length: "wf_lookup l \<Longrightarrow> 34 \<le> length (serialize_lookup l)"
proof -
  have "write_short_vec v \<noteq> []" for v by (subst write_short_vec.simps) simp
  then have "1 \<le> length (write_short_vec v)" for v by (simp add: Suc_le_eq)
  from this [of "of_nat (length (lk_writable_indices l))"] this [of "of_nat (length (lk_readonly_indices l))"]
  show "wf_lookup l \<Longrightarrow> 34 \<le> length (serialize_lookup l)" by (simp add: serialize_lookup_def wf_lookup_def PUBKEY_BYTES_def)
qed

lemma lookups_length: "list_all wf_lookup ls \<Longrightarrow> 34 * length ls \<le> length (concat (map serialize_lookup ls))"
  by (induction ls) (auto dest: serialize_lookup_length)

lemma version_zero: "first AND NOT MESSAGE_VERSION_PREFIX = 0 \<and> first AND MESSAGE_VERSION_PREFIX \<noteq> 0 \<longleftrightarrow> first = MESSAGE_VERSION_PREFIX"
  for first :: u8
  unfolding MESSAGE_VERSION_PREFIX_def by (rule u8_all) code_simp

lemma parse_legacy_iff:
  assumes "length bytes < USIZE_LIMIT"
  shows "parse_legacy bytes = Inr m \<longleftrightarrow> wf_body m \<and> unat (num_required_signatures (header m)) < 128
    \<and> sanitize_loaded m 0 = Inr () \<and> bytes = serialize m"
proof
  assume "parse_legacy bytes = Inr m"
  then have f: "bytes ! 0 AND MESSAGE_VERSION_PREFIX = 0" and b: "parse_body bytes 0 = Inr (m, length bytes)"
    and s: "sanitize_loaded m 0 = Inr ()"
    by (auto simp: parse_legacy_def and_then_eq_Inr split: if_splits prod.splits)
  from parse_body_dec [OF b] f s show "wf_body m \<and> unat (num_required_signatures (header m)) < 128
    \<and> sanitize_loaded m 0 = Inr () \<and> bytes = serialize m"
    by (simp add: legacy_first_byte serialize_first)
next
  assume m: "wf_body m \<and> unat (num_required_signatures (header m)) < 128 \<and> sanitize_loaded m 0 = Inr () \<and> bytes = serialize m"
  then have "parse_body bytes 0 = Inr (m, length bytes)"
    using parse_body_enc [of m 0 bytes "[]"] assms by simp
  with m show "parse_legacy bytes = Inr m"
    by (simp add: parse_legacy_def legacy_first_byte serialize_first)
qed

lemma parse_versioned_dec:
  assumes "parse_versioned_message bytes = Inr p"
  shows "wf_parsed p \<and> bytes = serialize_parsed p"
proof -
  have len: "length bytes \<le> PACKET_DATA_SIZE"
    using assms by (rule contrapos_pp) (simp add: parse_versioned_message_def)
  obtain first where first: "get_at bytes 0 = Some first"
    using assms len by (cases "get_at bytes 0") (simp_all add: parse_versioned_message_def)
  have usize: "length bytes < USIZE_LIMIT" using len by (simp add: PACKET_DATA_SIZE_def USIZE_LIMIT_def)
  show ?thesis
  proof (cases "first AND MESSAGE_VERSION_PREFIX = 0")
    case True
    have "and_then (parse_legacy bytes) (\<lambda>message. and_then (check_packet_size (length bytes) (num_required_signatures (header message))) (\<lambda>_.
        Inr \<lparr>pm_version = None, pm_message = message, pm_lookups = []\<rparr>)) = Inr p"
      using assms len first True by (simp add: parse_versioned_message_def)
    then obtain m where m: "parse_legacy bytes = Inr m" "check_packet_size (length bytes) (num_required_signatures (header m)) = Inr ()"
      "p = \<lparr>pm_version = None, pm_message = m, pm_lookups = []\<rparr>"
      by (auto simp: and_then_eq_Inr)
    from m(1) [unfolded parse_legacy_iff [OF usize]] m(2,3) show ?thesis
      by (simp add: wf_parsed_def serialize_parsed_def check_packet_size_Inr)
  next
    case False
    have z: "first AND NOT MESSAGE_VERSION_PREFIX = 0"
      using assms len first False by (rule_tac ccontr) (simp add: parse_versioned_message_def Let_def)
    have v0: "and_then (map_err clear_error (parse_body bytes 1)) (\<lambda>(message, offset).
          and_then (map_err CE_ShortVec (read_short_vec bytes offset)) (\<lambda>(count, offset).
          if (length bytes - offset) div 34 < unat count then Inl CE_Truncated
          else and_then (read_times (unat count) (read_lookup bytes) offset) (\<lambda>(lookups, offset).
            if offset \<noteq> length bytes then Inl (CE_TrailingBytes (length bytes - offset))
            else if MAX_ACCOUNT_KEYS < length (account_keys message) + loaded_accounts lookups
            then Inl (CE_TooManyAccounts (length (account_keys message) + loaded_accounts lookups))
            else and_then (sanitize_loaded message (loaded_accounts lookups)) (\<lambda>_.
              and_then (check_packet_size (length bytes) (num_required_signatures (header message))) (\<lambda>_.
              Inr \<lparr>pm_version = Some 0, pm_message = message, pm_lookups = lookups\<rparr>))))) = Inr p"
      using assms len first False z by (simp add: parse_versioned_message_def)
    then obtain m o1 count o2 ls where b: "parse_body bytes 1 = Inr (m, o1)" and c: "read_short_vec bytes o1 = Inr (count, o2)"
      and l: "read_times (unat count) (read_lookup bytes) o2 = Inr (ls, length bytes)"
      and n: "length (account_keys m) + loaded_accounts ls \<le> MAX_ACCOUNT_KEYS" and s: "sanitize_loaded m (loaded_accounts ls) = Inr ()"
      and k: "check_packet_size (length bytes) (num_required_signatures (header m)) = Inr ()"
      and p: "p = \<lparr>pm_version = Some 0, pm_message = m, pm_lookups = ls\<rparr>"
      by (auto simp: and_then_eq_Inr not_less split: if_splits)
    have f: "first = MESSAGE_VERSION_PREFIX" using False z version_zero by blast
    note B = parse_body_dec [OF b] and C = read_short_vec_drop [OF c] and L = lookup_codec.enc_read_times [OF l]
    have x: "drop 0 bytes = MESSAGE_VERSION_PREFIX # drop (Suc 0) bytes" using drop_get_at [OF first] unfolding f .
    have y: "serialize_parsed p = MESSAGE_VERSION_PREFIX # drop (Suc 0) bytes" using B C L by (simp add: p serialize_parsed_def)
    from trans [OF x y [symmetric]] have "bytes = serialize_parsed p" by simp
    moreover have "length ls < 2 ^ 16" using L unsigned_less [of count, where 'a = nat] by simp
    ultimately show ?thesis using B L n s k by (simp add: wf_parsed_def p check_packet_size_Inr)
  qed
qed

lemma parse_versioned_enc:
  assumes wf: "wf_parsed p"
  shows "parse_versioned_message (serialize_parsed p) = Inr p"
proof -
  let ?bs = "serialize_parsed p" and ?m = "pm_message p" and ?ls = "pm_lookups p"
  have len: "length ?bs \<le> PACKET_DATA_SIZE" and body: "wf_body ?m"
    and k: "check_packet_size (length ?bs) (num_required_signatures (header ?m)) = Inr ()"
    using wf by (simp_all add: wf_parsed_def check_packet_size_Inr)
  have usize: "length ?bs < USIZE_LIMIT" using len by (simp add: PACKET_DATA_SIZE_def USIZE_LIMIT_def)
  show ?thesis
  proof (cases "pm_version p")
    case None
    then have bs: "?bs = serialize ?m" and ls: "?ls = []" and f: "unat (num_required_signatures (header ?m)) < 128"
      and s: "sanitize_loaded ?m 0 = Inr ()"
      using wf by (auto simp: serialize_parsed_def wf_parsed_def)
    have "parse_legacy ?bs = Inr ?m" using parse_legacy_iff [OF usize] body f s bs by simp
    moreover have "get_at ?bs 0 = Some (num_required_signatures (header ?m))"
      using serialize_first [of ?m] bs by (simp add: get_at_def)
    ultimately show ?thesis
      using len k f None ls by (simp add: parse_versioned_message_def legacy_first_byte not_less)
  next
    case (Some v)
    then have v: "v = 0" and ls: "list_all wf_lookup ?ls" "length ?ls < 2 ^ 16"
      and n: "length (account_keys ?m) + loaded_accounts ?ls \<le> MAX_ACCOUNT_KEYS"
      and s: "sanitize_loaded ?m (loaded_accounts ?ls) = Inr ()"
      using wf by (simp_all add: wf_parsed_def)
    let ?w = "write_short_vec (of_nat (length ?ls))" and ?l = "concat (map serialize_lookup ?ls)"
    have d: "drop 1 ?bs = serialize ?m @ (?w @ ?l)" using Some v by (simp add: serialize_parsed_def)
    note b = parse_body_enc [OF body d usize]
    note d1 = drop_past [OF d]
    note c = read_write_short_vec_drop [OF d1]
    note d2 = drop_past [OF d1]
    have cnt: "unat (of_nat (length ?ls) :: u16) = length ?ls" using ls(2) by (intro unat_of_nat_small) simp
    have total: "length ?bs = 1 + length (serialize ?m) + length ?w + length ?l"
      using Some v by (simp add: serialize_parsed_def)
    have l: "read_times (length ?ls) (read_lookup ?bs) (1 + length (serialize ?m) + length ?w)
        = Inr (?ls, 1 + length (serialize ?m) + length ?w + length ?l)"
      using lookup_codec.read_times_enc [OF ls(1) _ usize, of _ "[]"] d2 by simp
    have room: "\<not> (length ?bs - (1 + length (serialize ?m) + length ?w)) div 34 < length ?ls"
      using lookups_length [OF ls(1)] total by simp
    have first: "get_at ?bs 0 = Some MESSAGE_VERSION_PREFIX" using Some v by (simp add: serialize_parsed_def get_at_def)
    have z: "MESSAGE_VERSION_PREFIX AND MESSAGE_VERSION_PREFIX \<noteq> 0" "MESSAGE_VERSION_PREFIX AND NOT MESSAGE_VERSION_PREFIX = 0"
      using version_zero [of MESSAGE_VERSION_PREFIX] by simp_all
    have "parse_versioned_message ?bs = Inr \<lparr>pm_version = Some 0, pm_message = ?m, pm_lookups = ?ls\<rparr>"
      unfolding parse_versioned_message_def first
      using len z b c cnt l room n s k total by (simp add: not_less)
    then show ?thesis using Some v by simp
  qed
qed

text \<open>C23. Strict versioned parsing is the inverse of serialization: bytes parse to a legacy or version 0 message
exactly when the message is well-formed and the bytes are its serialization. So every accepted buffer is
canonical, and no well-formed message is refused, by the bounds on lookups and packets included.\<close>

theorem parse_versioned_exact: "parse_versioned_message bytes = Inr p \<longleftrightarrow> wf_parsed p \<and> bytes = serialize_parsed p"
  using parse_versioned_dec parse_versioned_enc by blast

section \<open>The binding without the blockhash\<close>

lemma serialize_injective:
  assumes "wf_parsed p" and "wf_parsed q" and "serialize_parsed p = serialize_parsed q"
  shows "p = q"
  using parse_versioned_enc [OF assms(1)] parse_versioned_enc [OF assms(2)] unfolding assms(3) by simp

lemma normalized_sel [simp]:
  "pm_version (normalized p) = pm_version p" "pm_lookups (normalized p) = pm_lookups p"
  "header (pm_message (normalized p)) = header (pm_message p)" "account_keys (pm_message (normalized p)) = account_keys (pm_message p)"
  "instructions (pm_message (normalized p)) = instructions (pm_message p)"
  "recent_blockhash (pm_message (normalized p)) = replicate 32 0"
  by (simp_all add: normalized_def)

lemma serialize_normalized_length:
  assumes "length (recent_blockhash (pm_message p)) = PUBKEY_BYTES"
  shows "length (serialize_parsed (normalized p)) = length (serialize_parsed p)"
proof -
  have "length (serialize (pm_message (normalized p))) = length (serialize (pm_message p))"
    using assms by (simp add: serialize_def PUBKEY_BYTES_def)
  then show ?thesis by (cases "pm_version p") (simp_all add: serialize_parsed_def)
qed

lemma wf_normalized:
  assumes "wf_parsed p"
  shows "wf_parsed (normalized p)"
proof -
  have body: "wf_body (pm_message p)" using assms by (simp add: wf_parsed_def)
  then have "wf_body (pm_message (normalized p))" "length (recent_blockhash (pm_message p)) = PUBKEY_BYTES"
    by (simp_all add: wf_body_def PUBKEY_BYTES_def)
  moreover have "sanitize_loaded (pm_message (normalized p)) n = sanitize_loaded (pm_message p) n" for n
    by (simp add: sanitize_loaded_def)
  ultimately show ?thesis using assms serialize_normalized_length [of p] unfolding wf_parsed_def normalized_sel by simp
qed

lemma digest_binds:
  assumes "wf_parsed p" and "wf_parsed q" and "blockhash_independent_digest sha256 p = blockhash_independent_digest sha256 q"
  shows "normalized p = normalized q \<or> (\<exists>a b. a \<noteq> b \<and> sha256 (BLOCKHASH_DOMAIN @ a) = sha256 (BLOCKHASH_DOMAIN @ b)
    \<and> a = serialize_parsed (normalized p) \<and> b = serialize_parsed (normalized q))"
  using serialize_injective [OF wf_normalized [OF assms(1)] wf_normalized [OF assms(2)]] assms(3)
  by (auto simp: blockhash_independent_digest_def)

lemma normalized_same:
  "normalized p = normalized q \<Longrightarrow> q = p\<lparr>pm_message := (pm_message p)\<lparr>recent_blockhash := recent_blockhash (pm_message q)\<rparr>\<rparr>"
  by (cases p; cases q; cases "pm_message p"; cases "pm_message q") (auto simp: normalized_def)

end
