(* ===== verification/ProtocolErrors.thy ===== *)
theory ProtocolErrors
  imports JournalTypes
begin

text \<open>
  The protocol errors of the Broker (\<open>bloom-broker-api/src/error.rs\<close>): the closed registry of
  codes with their wire names, the retry and durable-effect contract of each code, rate-limit details, and
  the wire form of an error. The theorem of the theory says which JSON values decode to which errors.
\<close>

section \<open>Codes and contracts\<close>

datatype RetryClass =
    RC_Never
  | RC_SameOperation
  | RC_AfterReconciliation
  | RC_AfterBackoff
  | RC_AfterReread
  | RC_AfterRepair
  | RC_UserAction

datatype DurableEffect =
    DE_None
  | DE_PriorOperationStands
  | DE_ReservationReleased
  | DE_PossibleProviderEffect
  | DE_UnknownResolveByStatus

text \<open>The wire names of the derived serializers, with \<open>rename_all = "snake_case"\<close>.\<close>

fun retry_text :: "RetryClass \<Rightarrow> string" where
  "retry_text RC_Never = ''never''"
| "retry_text RC_SameOperation = ''same_operation''"
| "retry_text RC_AfterReconciliation = ''after_reconciliation''"
| "retry_text RC_AfterBackoff = ''after_backoff''"
| "retry_text RC_AfterReread = ''after_reread''"
| "retry_text RC_AfterRepair = ''after_repair''"
| "retry_text RC_UserAction = ''user_action''"

fun effect_text :: "DurableEffect \<Rightarrow> string" where
  "effect_text DE_None = ''none''"
| "effect_text DE_PriorOperationStands = ''prior_operation_stands''"
| "effect_text DE_ReservationReleased = ''reservation_released''"
| "effect_text DE_PossibleProviderEffect = ''possible_provider_effect''"
| "effect_text DE_UnknownResolveByStatus = ''unknown_resolve_by_status''"

definition all_retry_classes :: "RetryClass list" where
  "all_retry_classes = [RC_Never, RC_SameOperation, RC_AfterReconciliation, RC_AfterBackoff, RC_AfterReread, RC_AfterRepair, RC_UserAction]"

definition all_durable_effects :: "DurableEffect list" where
  "all_durable_effects = [DE_None, DE_PriorOperationStands, DE_ReservationReleased, DE_PossibleProviderEffect, DE_UnknownResolveByStatus]"

definition ALL_codes :: "ProtocolErrorCode list" where
  "ALL_codes =
    [UnauthenticatedPeer, UnsupportedVersion, MalformedFrame, LimitExceededFrame, UnknownField,
    UnknownMethod, OperationIdConflict, ApprovalNotFound, ApprovalExpired, ApprovalRevoked,
    ApprovalRearmRequired, RevocationEpochUnreconciled, SelectorMismatch, SuiteNotAllowed,
    KeyrefMismatch, LimitExceededOperations, LimitExceededSignatures, LimitExceededValue,
    LimitExceededRate, SignerRateBackstopDenied, ClaimInvalid, AssuranceUnavailable,
    ProvenanceMismatch, PolicyBaselineStale, CeremonyRateLimited, CeremonyReplay,
    CeremonyKindMismatch, QuotaExceeded, ClockUntrusted, ClockRollback, BackendUnsupported,
    BackendInvalidRequest, AmbiguousProviderEffect, ServiceUnavailable]"

record ErrorContract =
  ec_retry :: RetryClass
  ec_durable_effect :: DurableEffect

definition contract_new :: "RetryClass \<Rightarrow> DurableEffect \<Rightarrow> ErrorContract" where
  "contract_new retry durable_effect = \<lparr>ec_retry = retry, ec_durable_effect = durable_effect\<rparr>"

fun contract :: "ProtocolErrorCode \<Rightarrow> ErrorContract" where
  "contract OperationIdConflict = contract_new RC_Never DE_PriorOperationStands"
| "contract RevocationEpochUnreconciled = contract_new RC_AfterReconciliation DE_None"
| "contract ApprovalRearmRequired = contract_new RC_UserAction DE_None"
| "contract PolicyBaselineStale = contract_new RC_AfterReread DE_None"
| "contract CeremonyRateLimited = contract_new RC_AfterBackoff DE_None"
| "contract QuotaExceeded = contract_new RC_AfterBackoff DE_None"
| "contract ClockUntrusted = contract_new RC_AfterRepair DE_None"
| "contract ClockRollback = contract_new RC_AfterRepair DE_None"
| "contract LimitExceededOperations = contract_new RC_Never DE_ReservationReleased"
| "contract LimitExceededSignatures = contract_new RC_Never DE_ReservationReleased"
| "contract LimitExceededValue = contract_new RC_Never DE_ReservationReleased"
| "contract LimitExceededRate = contract_new RC_Never DE_ReservationReleased"
| "contract SignerRateBackstopDenied = contract_new RC_Never DE_ReservationReleased"
| "contract AmbiguousProviderEffect = contract_new RC_Never DE_PossibleProviderEffect"
| "contract ServiceUnavailable = contract_new RC_SameOperation DE_UnknownResolveByStatus"
| "contract _ = contract_new RC_Never DE_None"

fun code_as_str :: "ProtocolErrorCode \<Rightarrow> string" where
  "code_as_str UnauthenticatedPeer = ''UNAUTHENTICATED_PEER''"
| "code_as_str UnsupportedVersion = ''UNSUPPORTED_VERSION''"
| "code_as_str MalformedFrame = ''MALFORMED_FRAME''"
| "code_as_str LimitExceededFrame = ''LIMIT_EXCEEDED_FRAME''"
| "code_as_str UnknownField = ''UNKNOWN_FIELD''"
| "code_as_str UnknownMethod = ''UNKNOWN_METHOD''"
| "code_as_str OperationIdConflict = ''OPERATION_ID_CONFLICT''"
| "code_as_str ApprovalNotFound = ''APPROVAL_NOT_FOUND''"
| "code_as_str ApprovalExpired = ''APPROVAL_EXPIRED''"
| "code_as_str ApprovalRevoked = ''APPROVAL_REVOKED''"
| "code_as_str ApprovalRearmRequired = ''APPROVAL_REARM_REQUIRED''"
| "code_as_str RevocationEpochUnreconciled = ''REVOCATION_EPOCH_UNRECONCILED''"
| "code_as_str SelectorMismatch = ''SELECTOR_MISMATCH''"
| "code_as_str SuiteNotAllowed = ''SUITE_NOT_ALLOWED''"
| "code_as_str KeyrefMismatch = ''KEYREF_MISMATCH''"
| "code_as_str LimitExceededOperations = ''LIMIT_EXCEEDED_OPERATIONS''"
| "code_as_str LimitExceededSignatures = ''LIMIT_EXCEEDED_SIGNATURES''"
| "code_as_str LimitExceededValue = ''LIMIT_EXCEEDED_VALUE''"
| "code_as_str LimitExceededRate = ''LIMIT_EXCEEDED_RATE''"
| "code_as_str SignerRateBackstopDenied = ''SIGNER_RATE_BACKSTOP_DENIED''"
| "code_as_str ClaimInvalid = ''CLAIM_INVALID''"
| "code_as_str AssuranceUnavailable = ''ASSURANCE_UNAVAILABLE''"
| "code_as_str ProvenanceMismatch = ''PROVENANCE_MISMATCH''"
| "code_as_str PolicyBaselineStale = ''POLICY_BASELINE_STALE''"
| "code_as_str CeremonyRateLimited = ''CEREMONY_RATE_LIMITED''"
| "code_as_str CeremonyReplay = ''CEREMONY_REPLAY''"
| "code_as_str CeremonyKindMismatch = ''CEREMONY_KIND_MISMATCH''"
| "code_as_str QuotaExceeded = ''QUOTA_EXCEEDED''"
| "code_as_str ClockUntrusted = ''CLOCK_UNTRUSTED''"
| "code_as_str ClockRollback = ''CLOCK_ROLLBACK''"
| "code_as_str BackendUnsupported = ''BACKEND_UNSUPPORTED''"
| "code_as_str BackendInvalidRequest = ''BACKEND_INVALID_REQUEST''"
| "code_as_str AmbiguousProviderEffect = ''AMBIGUOUS_PROVIDER_EFFECT''"
| "code_as_str ServiceUnavailable = ''SERVICE_UNAVAILABLE''"

text \<open>\<open>FromStr\<close>: the first code of the registry with the name; an unknown name is returned in the error.\<close>

definition code_from_str :: "string \<Rightarrow> string + ProtocolErrorCode" where
  "code_from_str text = ok_or (find (\<lambda>code. code_as_str code = text) ALL_codes) text"

section \<open>Errors\<close>

record RateLimitDetails =
  rl_retry_after_ms :: u64
  rl_limit :: u64
  rl_window_ms :: u64

definition is_well_formed :: "RateLimitDetails \<Rightarrow> bool" where
  "is_well_formed details \<longleftrightarrow> 0 < rl_limit details \<and> 0 < rl_window_ms details
     \<and> 0 < rl_retry_after_ms details \<and> rl_retry_after_ms details \<le> rl_window_ms details"

definition rate_limit_new :: "u64 \<Rightarrow> u64 \<Rightarrow> u64 \<Rightarrow> RateLimitDetails option" where
  "rate_limit_new retry_after_ms limit window_ms =
     (let details = \<lparr>rl_retry_after_ms = retry_after_ms, rl_limit = limit, rl_window_ms = window_ms\<rparr>
      in if is_well_formed details then Some details else None)"

record ProtocolError =
  pe_code :: ProtocolErrorCode
  pe_retry :: RetryClass
  pe_durable_effect :: DurableEffect
  pe_message :: string
  pe_rate_limit :: "RateLimitDetails option"

definition error_new :: "ProtocolErrorCode \<Rightarrow> string \<Rightarrow> ProtocolError" where
  "error_new code message = \<lparr>pe_code = code, pe_retry = ec_retry (contract code),
     pe_durable_effect = ec_durable_effect (contract code), pe_message = message, pe_rate_limit = None\<rparr>"

definition rate_limited :: "string \<Rightarrow> RateLimitDetails \<Rightarrow> ProtocolError" where
  "rate_limited message details =
     (let error = error_new CeremonyRateLimited message in
      if is_well_formed details then error\<lparr>pe_rate_limit := Some details\<rparr> else error)"

definition has_valid_contract :: "ProtocolError \<Rightarrow> bool" where
  "has_valid_contract e \<longleftrightarrow>
     contract (pe_code e) = \<lparr>ec_retry = pe_retry e, ec_durable_effect = pe_durable_effect e\<rparr>
     \<and> (case pe_rate_limit e of None \<Rightarrow> True
        | Some details \<Rightarrow> pe_code e = CeremonyRateLimited \<and> is_well_formed details)"

definition error_display :: "ProtocolError \<Rightarrow> string" where
  "error_display e = code_as_str (pe_code e) @ '': '' @ pe_message e"

text \<open>The errors of the frame layer (package bloom-rpc-wire), as the conversion lists them.\<close>

datatype WireErrorCode =
    W_MalformedFrame | W_UnknownField | W_LimitExceededFrame | W_UnauthenticatedPeer | W_UnsupportedVersion
  | W_OperationIdConflict | W_QuotaExceeded | W_ServiceUnavailable | W_ClockRollback | W_ClockUntrusted

fun wire_code :: "WireErrorCode \<Rightarrow> ProtocolErrorCode" where
  "wire_code W_MalformedFrame = MalformedFrame"
| "wire_code W_UnknownField = UnknownField"
| "wire_code W_LimitExceededFrame = LimitExceededFrame"
| "wire_code W_UnauthenticatedPeer = UnauthenticatedPeer"
| "wire_code W_UnsupportedVersion = UnsupportedVersion"
| "wire_code W_OperationIdConflict = OperationIdConflict"
| "wire_code W_QuotaExceeded = QuotaExceeded"
| "wire_code W_ServiceUnavailable = ServiceUnavailable"
| "wire_code W_ClockRollback = ClockRollback"
| "wire_code W_ClockUntrusted = ClockUntrusted"

definition from_wire_error :: "WireErrorCode \<Rightarrow> string \<Rightarrow> ProtocolError" where
  "from_wire_error code message = error_new (wire_code code) message"

section \<open>The wire form\<close>

text \<open>
  The derived \<open>Serialize\<close>: an object of the fields, the rate limit left out when absent. The derived \<open>Deserialize\<close> of a struct reads
  an object whose fields are all known (\<open>deny_unknown_fields\<close>), or an array of the values in the order of the fields; a missing rate limit
  is none (\<open>serde(default)\<close>), and so is a null one. A unit variant is read from its name, or from an object that maps only its name to null. The
  contract is compared afterwards. A value that the derived reader refuses is \<open>WF_Malformed\<close>: the text is serde's.
\<close>

definition details_json :: "RateLimitDetails \<Rightarrow> json" where
  "details_json d = json_object [(''retry_after_ms'', JNumber (unat (rl_retry_after_ms d))),
     (''limit'', JNumber (unat (rl_limit d))), (''window_ms'', JNumber (unat (rl_window_ms d)))]"

definition error_json :: "ProtocolError \<Rightarrow> json" where
  "error_json e = json_object ([(''code'', JString (code_as_str (pe_code e))), (''retry'', JString (retry_text (pe_retry e))),
      (''durable_effect'', JString (effect_text (pe_durable_effect e))), (''message'', JString (pe_message e))]
     @ (case pe_rate_limit e of None \<Rightarrow> [] | Some d \<Rightarrow> [(''rate_limit'', details_json d)]))"

datatype WireFault = WF_Malformed | WF_Refused string

fun json_u64 :: "json \<Rightarrow> u64 option" where
  "json_u64 (JNumber n) = (if n < USIZE_LIMIT then Some (of_nat n) else None)"
| "json_u64 _ = None"

text \<open>The values of the named fields of a struct, in order; those that are missing are none.\<close>

fun struct_values :: "string list \<Rightarrow> json \<Rightarrow> json option list option" where
  "struct_values names (JObject m) = (if fmdom' m \<subseteq> set names then Some (map (fmlookup m) names) else None)"
| "struct_values names (JArray xs) =
     (if length xs \<le> length names then Some (map Some xs @ replicate (length names - length xs) None) else None)"
| "struct_values names _ = None"

definition unit_from_json :: "('a \<Rightarrow> string) \<Rightarrow> 'a list \<Rightarrow> json \<Rightarrow> 'a option" where
  "unit_from_json name variants v = find (\<lambda>x. v = JString (name x) \<or> v = json_object [(name x, JNull)]) variants"

definition DETAILS_FIELDS :: "string list" where
  "DETAILS_FIELDS = [''retry_after_ms'', ''limit'', ''window_ms'']"

definition details_from_json :: "json \<Rightarrow> RateLimitDetails option" where
  "details_from_json v = (case struct_values DETAILS_FIELDS v of
     Some [retry, limit, window] \<Rightarrow>
       Option.bind (Option.bind retry json_u64) (\<lambda>retry.
       Option.bind (Option.bind limit json_u64) (\<lambda>limit.
       Option.bind (Option.bind window json_u64) (\<lambda>window.
       Some \<lparr>rl_retry_after_ms = retry, rl_limit = limit, rl_window_ms = window\<rparr>)))
   | _ \<Rightarrow> None)"

text \<open>The struct \<open>WireError\<close> of the reader: the fields before the contract is compared.\<close>

definition optional_details :: "json option \<Rightarrow> RateLimitDetails option option" where
  "optional_details v = (case v of
     None \<Rightarrow> Some None
   | Some JNull \<Rightarrow> Some None
   | Some d \<Rightarrow> map_option Some (details_from_json d))"

definition code_parse :: "string \<Rightarrow> ProtocolErrorCode option" where
  "code_parse t = (case code_from_str t of Inl _ \<Rightarrow> None | Inr code \<Rightarrow> Some code)"

definition ERROR_FIELDS :: "string list" where
  "ERROR_FIELDS = [''code'', ''retry'', ''durable_effect'', ''message'', ''rate_limit'']"

definition wire_error_from_json :: "json \<Rightarrow> ProtocolError option" where
  "wire_error_from_json v = (case struct_values ERROR_FIELDS v of
     Some [code, retry, effect, message, details] \<Rightarrow>
       Option.bind (Option.bind (Option.bind code json_as_str) code_parse) (\<lambda>code.
       Option.bind (Option.bind retry (unit_from_json retry_text all_retry_classes)) (\<lambda>retry.
       Option.bind (Option.bind effect (unit_from_json effect_text all_durable_effects)) (\<lambda>effect.
       Option.bind (Option.bind message json_as_str) (\<lambda>message.
       Option.bind (optional_details details) (\<lambda>details.
       Some \<lparr>pe_code = code, pe_retry = retry, pe_durable_effect = effect, pe_message = message, pe_rate_limit = details\<rparr>)))))
   | _ \<Rightarrow> None)"

definition error_from_json :: "json \<Rightarrow> WireFault + ProtocolError" where
  "error_from_json v = (case wire_error_from_json v of
     None \<Rightarrow> Inl WF_Malformed
   | Some wire \<Rightarrow>
       if pe_retry wire \<noteq> ec_retry (contract (pe_code wire))
         \<or> pe_durable_effect wire \<noteq> ec_durable_effect (contract (pe_code wire))
       then Inl (WF_Refused (code_as_str (pe_code wire) @ '' carries a forged retry or durable-effect contract''))
       else if (case pe_rate_limit wire of None \<Rightarrow> False
          | Some details \<Rightarrow> pe_code wire \<noteq> CeremonyRateLimited \<or> \<not> is_well_formed details)
       then Inl (WF_Refused (code_as_str (pe_code wire) @ '' carries unusable rate-limit details''))
       else Inr wire)"

section \<open>Names and fields are read back\<close>

lemma code_from_str_iff: "code_from_str t = Inr c \<longleftrightarrow> t = code_as_str c"
proof
  show "code_from_str t = Inr c \<Longrightarrow> t = code_as_str c"
    by (auto simp: code_from_str_def dest: find_SomeD)
next
  show "t = code_as_str c \<Longrightarrow> code_from_str t = Inr c"
    by (cases c) (simp_all add: code_from_str_def ALL_codes_def)
qed

lemma code_parse_iff: "code_parse t = Some c \<longleftrightarrow> t = code_as_str c"
  by (auto simp: code_parse_def code_from_str_iff [symmetric] split: sum.splits)

lemma json_as_str_iff: "json_as_str v = Some s \<longleftrightarrow> v = JString s"
  by (cases v) auto

lemma json_u64_iff: "json_u64 v = Some n \<longleftrightarrow> v = JNumber (unat n)"
  using unsigned_less [of n, where 'a = nat]
  by (cases v) (auto simp: USIZE_LIMIT_def unat_of_nat)

section \<open>Which values decode to which errors\<close>

text \<open>The JSON forms of a unit variant and of a struct whose first fields have these values.\<close>

definition unit_forms :: "string \<Rightarrow> json set" where
  "unit_forms name = {JString name, json_object [(name, JNull)]}"

definition struct_forms :: "string list \<Rightarrow> json list \<Rightarrow> json set" where
  "struct_forms names xs = {json_object (zip names xs), JArray xs}"

definition details_forms :: "RateLimitDetails \<Rightarrow> json set" where
  "details_forms d = struct_forms DETAILS_FIELDS [JNumber (unat (rl_retry_after_ms d)), JNumber (unat (rl_limit d)), JNumber (unat (rl_window_ms d))]"

text \<open>What follows the first four fields of an error: nothing or null for no rate limit, else the details.\<close>

definition limit_forms :: "RateLimitDetails option \<Rightarrow> json list set" where
  "limit_forms limit = (case limit of None \<Rightarrow> {[], [JNull]} | Some d \<Rightarrow> {[x] | x. x \<in> details_forms d})"

definition error_forms :: "ProtocolError \<Rightarrow> json set" where
  "error_forms e = (\<Union>r \<in> unit_forms (retry_text (pe_retry e)). \<Union>d \<in> unit_forms (effect_text (pe_durable_effect e)).
     \<Union>limit \<in> limit_forms (pe_rate_limit e).
       struct_forms ERROR_FIELDS ([JString (code_as_str (pe_code e)), r, d, JString (pe_message e)] @ limit))"

lemma find_unique:
  assumes "x \<in> set xs" and "P x" and "\<And>y. P y \<Longrightarrow> y = x"
  shows "find P xs = Some x"
proof (cases "find P xs")
  case None
  with assms(1,2) show ?thesis by (metis find_None_iff)
next
  case (Some y)
  with assms(3) find_SomeD show ?thesis by metis
qed

lemma unit_forms_inject: "v \<in> unit_forms a \<Longrightarrow> v \<in> unit_forms b \<Longrightarrow> a = b"
proof -
  have "json_object [(a, JNull)] = json_object [(b, JNull)] \<Longrightarrow> a = b"
    using json_get_object [of "[(a, JNull)]" a] json_get_object [of "[(b, JNull)]" a] by (auto split: if_splits)
  then show "v \<in> unit_forms a \<Longrightarrow> v \<in> unit_forms b \<Longrightarrow> a = b" by (auto simp: unit_forms_def) (simp_all add: json_object_def)
qed

lemma unit_from_json_iff:
  assumes "inj name" and "set variants = UNIV"
  shows "unit_from_json name variants v = Some x \<longleftrightarrow> v \<in> unit_forms (name x)"
proof -
  have find: "unit_from_json name variants v = find (\<lambda>x. v \<in> unit_forms (name x)) variants"
    by (simp add: unit_from_json_def unit_forms_def)
  show ?thesis
  proof
    show "unit_from_json name variants v = Some x \<Longrightarrow> v \<in> unit_forms (name x)" unfolding find by (auto dest: find_SomeD)
    show "v \<in> unit_forms (name x) \<Longrightarrow> unit_from_json name variants v = Some x"
      unfolding find using assms by (intro find_unique) (auto dest: unit_forms_inject injD)
  qed
qed

lemma retry_forms: "unit_from_json retry_text all_retry_classes v = Some x \<longleftrightarrow> v \<in> unit_forms (retry_text x)"
proof (rule unit_from_json_iff)
  show "inj retry_text" by (rule injI) (case_tac x; case_tac y; simp)
  show "set all_retry_classes = UNIV" by (auto simp: all_retry_classes_def) (case_tac x; simp)
qed

lemma effect_forms: "unit_from_json effect_text all_durable_effects v = Some x \<longleftrightarrow> v \<in> unit_forms (effect_text x)"
proof (rule unit_from_json_iff)
  show "inj effect_text" by (rule injI) (case_tac x; case_tac y; simp)
  show "set all_durable_effects = UNIV" by (auto simp: all_durable_effects_def) (case_tac x; simp)
qed

text \<open>The values of a struct whose last fields may be missing.\<close>

definition prefix_values :: "string list \<Rightarrow> json list \<Rightarrow> json option list" where
  "prefix_values names xs = map Some xs @ replicate (length names - length xs) None"

lemma prefix_values_inject: "prefix_values names xs = prefix_values names ys \<Longrightarrow> xs = ys"
proof -
  have "map the (filter (\<lambda>x. x \<noteq> None) (prefix_values names xs)) = xs" for xs
    by (simp add: prefix_values_def filter_map comp_def)
  then show "prefix_values names xs = prefix_values names ys \<Longrightarrow> xs = ys" by metis
qed

lemma map_of_prefix:
  assumes "distinct names" and "length xs \<le> length names"
  shows "map (map_of (zip names xs)) names = prefix_values names xs"
proof (rule nth_equalityI)
  show "length (map (map_of (zip names xs)) names) = length (prefix_values names xs)" using assms(2) by (simp add: prefix_values_def)
  fix i assume "i < length (map (map_of (zip names xs)) names)"
  then have i: "i < length names" by simp
  have "map_of (zip names xs) (names ! i) = (if i < length xs then Some (xs ! i) else None)"
  proof (cases "i < length xs")
    case True
    have "zip names xs = zip (take (length xs) names) xs" by (metis length_zip min.cobounded2 order_refl take_all take_zip)
    moreover have "names ! i = take (length xs) names ! i" using True by simp
    ultimately show ?thesis using True assms map_of_zip_nth [of "take (length xs) names" xs i] by simp
  next
    case False
    have "(names ! i, x) \<notin> set (zip names xs)" for x
      using False assms(1) i by (auto simp: set_zip nth_eq_iff_index_eq)
    with False show ?thesis by (auto simp: map_of_eq_None_iff)
  qed
  with i show "map (map_of (zip names xs)) names ! i = prefix_values names xs ! i" by (simp add: prefix_values_def nth_append)
qed

lemma struct_values_forms:
  assumes "distinct names" and "length xs \<le> length names"
  shows "struct_values names v = Some (prefix_values names xs) \<longleftrightarrow> v \<in> struct_forms names xs"
proof
  assume *: "struct_values names v = Some (prefix_values names xs)"
  show "v \<in> struct_forms names xs"
  proof (cases v)
    case (JArray ys)
    with * show ?thesis by (auto simp: struct_forms_def prefix_values_def [symmetric] dest: prefix_values_inject split: if_splits)
  next
    case (JObject m)
    with * have dom: "fmdom' m \<subseteq> set names" and "map (fmlookup m) names = prefix_values names xs" by (auto split: if_splits)
    then have "map (fmlookup m) names = map (map_of (zip names xs)) names" using map_of_prefix [OF assms] by simp
    then have "fmlookup m k = map_of (zip names xs) k" for k
    proof (cases "k \<in> set names")
      case False
      then have "fmlookup m k = None" "map_of (zip names xs) k = None"
        using dom by (auto simp: fmdom'_notD map_of_eq_None_iff dest: set_zip_leftD)
      then show ?thesis by simp
    qed simp
    then show ?thesis by (auto simp: JObject struct_forms_def json_object_def fmlookup_of_list intro!: fmap_ext)
  qed (use * in simp_all)
next
  assume "v \<in> struct_forms names xs"
  moreover have "map (fmlookup (fmap_of_list (zip names xs))) names = prefix_values names xs"
    using map_of_prefix [OF assms] by (simp add: fmlookup_of_list [abs_def])
  moreover have "fmdom' (fmap_of_list (zip names xs)) \<subseteq> set names" by (auto simp: fmdom'_alt_def fset_of_list.rep_eq dest: set_zip_leftD)
  ultimately show "struct_values names v = Some (prefix_values names xs)"
    using assms(2) by (auto simp: struct_forms_def json_object_def prefix_values_def)
qed

lemma details_from_json_iff: "details_from_json v = Some d \<longleftrightarrow> v \<in> details_forms d"
proof -
  have "details_from_json v = Some d \<longleftrightarrow> struct_values DETAILS_FIELDS v = Some (prefix_values DETAILS_FIELDS
      [JNumber (unat (rl_retry_after_ms d)), JNumber (unat (rl_limit d)), JNumber (unat (rl_window_ms d))])"
    by (cases d) (auto simp: details_from_json_def DETAILS_FIELDS_def prefix_values_def Option.bind_eq_Some_conv json_u64_iff split: option.splits list.splits)
  then show ?thesis unfolding details_forms_def by (simp add: struct_values_forms DETAILS_FIELDS_def)
qed

definition first_value :: "json list \<Rightarrow> json option" where
  "first_value xs = (case xs of [] \<Rightarrow> None | x # _ \<Rightarrow> Some x)"

lemma optional_details_iff: "optional_details v = Some d \<longleftrightarrow> (\<exists>xs \<in> limit_forms d. v = first_value xs)"
proof -
  have "JNull \<notin> details_forms x" for x by (simp add: details_forms_def struct_forms_def json_object_def)
  then show ?thesis
    by (cases v; cases d) (auto simp: optional_details_def limit_forms_def first_value_def details_from_json_iff split: json.splits)
qed

lemma wire_error_exact: "wire_error_from_json v = Some e \<longleftrightarrow> v \<in> error_forms e"
proof -
  have "wire_error_from_json v = Some e \<longleftrightarrow> (\<exists>r \<in> unit_forms (retry_text (pe_retry e)). \<exists>d \<in> unit_forms (effect_text (pe_durable_effect e)).
      \<exists>limit \<in> limit_forms (pe_rate_limit e). struct_values ERROR_FIELDS v = Some [Some (JString (code_as_str (pe_code e))), Some r, Some d,
        Some (JString (pe_message e)), first_value limit])"
    by (cases e) (auto simp: wire_error_from_json_def Option.bind_eq_Some_conv json_as_str_iff code_parse_iff retry_forms effect_forms
        optional_details_iff split: option.splits list.splits)
  moreover have "struct_values ERROR_FIELDS v = Some [Some c, Some r, Some d, Some m, first_value limit]
      \<longleftrightarrow> v \<in> struct_forms ERROR_FIELDS ([c, r, d, m] @ limit)" if "limit \<in> limit_forms l" for c r d m limit l
    using that struct_values_forms [of ERROR_FIELDS "[c, r, d, m] @ limit" v]
    by (auto simp: limit_forms_def first_value_def ERROR_FIELDS_def prefix_values_def split: option.splits)
  ultimately show ?thesis unfolding error_forms_def UN_iff by (simp cong: bex_cong)
qed

lemma error_json_form: "error_json e \<in> error_forms e"
proof -
  have "error_json e = json_object (zip ERROR_FIELDS ([JString (code_as_str (pe_code e)), JString (retry_text (pe_retry e)),
      JString (effect_text (pe_durable_effect e)), JString (pe_message e)] @ (case pe_rate_limit e of None \<Rightarrow> [] | Some d \<Rightarrow> [details_json d])))"
    by (simp add: error_json_def ERROR_FIELDS_def split: option.split)
  moreover have "(case pe_rate_limit e of None \<Rightarrow> [] | Some d \<Rightarrow> [details_json d]) \<in> limit_forms (pe_rate_limit e)"
    by (simp add: limit_forms_def details_forms_def struct_forms_def details_json_def DETAILS_FIELDS_def split: option.split)
  ultimately show ?thesis unfolding error_forms_def struct_forms_def by (force simp: unit_forms_def)
qed

text \<open>C24. A JSON value decodes to a protocol error exactly when the error keeps its contract (retry class and durable effect are those of its
code, and rate limit details come only with a rate limit and describe a window that can be waited for) and the value is one of the forms
that the derived readers accept for it: an object of the fields or an array of their values in order, without a rate limit, with null or
with the details in either form, and the retry class and the durable effect as a name or as an object that maps only the name to
null. The value that is written for an error is one of them, and every constructor keeps the contract, so what one side sends the
other reads back.\<close>

theorem wire_errors_are_exact:
  "(error_from_json v = Inr e \<longleftrightarrow> has_valid_contract e \<and> v \<in> error_forms e) \<and> error_json e \<in> error_forms e
   \<and> has_valid_contract (error_new code message) \<and> has_valid_contract (rate_limited message details)
   \<and> has_valid_contract (from_wire_error wire message)"
proof -
  have "error_from_json v = Inr e \<longleftrightarrow> wire_error_from_json v = Some e \<and> has_valid_contract e"
    by (cases "wire_error_from_json v"; cases "contract (pe_code e)")
      (auto simp: error_from_json_def has_valid_contract_def split: option.splits if_splits)
  moreover have n: "has_valid_contract (error_new c m)" for c m
    by (cases "contract c") (simp add: has_valid_contract_def error_new_def)
  moreover have "has_valid_contract (rate_limited message details)"
    by (cases "contract CeremonyRateLimited") (simp add: rate_limited_def Let_def has_valid_contract_def error_new_def)
  ultimately show ?thesis by (auto simp: wire_error_exact from_wire_error_def error_json_form)
qed

end
