(* ===== verification/SolanaBinding.thy ===== *)
theory SolanaBinding
  imports ClearMessage ProtocolErrors
begin

text \<open>
  The blockhash-independent retry identity of \<open>bloom-broker-api/src/solana_review.rs\<close>: the Machine computes
  it from the raw bytes with a short scan, the Broker from a complete parse. The theorem of the theory says that
  the two agree on every message the Broker accepts.
\<close>

text \<open>
  The packages the Solana review calls: SHA-256 (\<open>sha2\<close>), the lower-case hexadecimal text of bytes (\<open>hex\<close>),
  base58 (\<open>bs58\<close>), and from \<open>bloom-rpc-wire\<close> the constructors of \<open>Digest32\<close> and the bytes of a base64url text.
\<close>

record crypto_env =
  ce_sha256 :: "bytes \<Rightarrow> bytes"
  ce_hex :: "bytes \<Rightarrow> string"
  ce_base58 :: "bytes \<Rightarrow> string"
  ce_digest32_new :: "string \<Rightarrow> string + Digest32"
  ce_digest32_from_bytes :: "bytes \<Rightarrow> Digest32"
  ce_base64_decode :: "Base64UrlBytes \<Rightarrow> bytes"

definition PUMPFUN_REVIEW_OPERATION_CLASSES :: "string list" where
  "PUMPFUN_REVIEW_OPERATION_CLASSES =
     [''pumpfun.buy'', ''pumpfun.sell'', ''pumpfun.close_token_account'', ''pumpfun.launch'']"

definition pumpfun_review_required :: "string \<Rightarrow> bool" where
  "pumpfun_review_required cls \<longleftrightarrow> cls \<in> set PUMPFUN_REVIEW_OPERATION_CLASSES"

definition binding_invalid :: ProtocolError where
  "binding_invalid = error_new ClaimInvalid ''Solana review requires a bounded legacy or v0 transaction message''"

text \<open>The account count at the cursor, of one or two bytes, with the cursor after it.\<close>

definition account_count :: "bytes \<Rightarrow> nat \<Rightarrow> ProtocolError + (nat \<times> nat)" where
  "account_count bytes cursor =
     and_then (ok_or (get_at bytes cursor) binding_invalid) (\<lambda>first.
     if first AND 0x80 = 0 then Inr (unat first, cursor + 1)
     else and_then (ok_or (get_at bytes (cursor + 1)) binding_invalid) (\<lambda>second.
       if second = 0 \<or> second AND 0x80 \<noteq> 0 then Inl binding_invalid
       else Inr (unat (first AND 0x7f) OR push_bit 7 (unat second), cursor + 2)))"

definition fill_zero :: "bytes \<Rightarrow> nat \<Rightarrow> nat \<Rightarrow> bytes option" where
  "fill_zero bytes i j = (if i \<le> j \<and> j \<le> length bytes
     then Some (take i bytes @ replicate (j - i) 0 @ drop j bytes) else None)"

definition solana_message_binding :: "crypto_env \<Rightarrow> bytes \<Rightarrow> ProtocolError + Digest32" where
  "solana_message_binding env bytes =
     (if bytes = [] \<or> 1232 < length bytes then Inl binding_invalid
      else if bytes ! 0 AND 0x80 \<noteq> 0 \<and> bytes ! 0 \<noteq> 0x80 then Inl binding_invalid
      else
        let prefix = (if bytes ! 0 AND 0x80 \<noteq> 0 then 1 else 0) in
        and_then (account_count bytes (prefix + 3)) (\<lambda>(accounts, cursor).
        if accounts = 0 \<or> 256 < accounts then Inl binding_invalid
        else
          let start = cursor + accounts * 32 in
          and_then (ok_or (fill_zero bytes start (start + 32)) binding_invalid) (\<lambda>normalized.
          Inr (ce_digest32_from_bytes env (ce_sha256 env (BLOCKHASH_DOMAIN @ normalized))))))"

text \<open>A version 0 message with one lookup, for the examples: a signer pays and a program gets a loaded account.\<close>

definition sample_parsed :: ParsedMessage where
  "sample_parsed = \<lparr>pm_version = Some 0,
     pm_message = \<lparr>header = \<lparr>num_required_signatures = 1, num_readonly_signed_accounts = 0, num_readonly_unsigned_accounts = 1\<rparr>,
       account_keys = [replicate 32 1, replicate 32 2], recent_blockhash = replicate 32 3,
       instructions = [\<lparr>program_id_index = 1, ix_accounts = [0, 2], ix_data = [7]\<rparr>]\<rparr>,
     pm_lookups = [\<lparr>lk_table = replicate 32 4, lk_writable_indices = [5], lk_readonly_indices = []\<rparr>]\<rparr>"

definition sample_crypto :: crypto_env where
  "sample_crypto = \<lparr>ce_sha256 = \<lambda>bytes. take 32 (bytes @ replicate 32 0), ce_hex = map (\<lambda>b. char_of (unat b)),
     ce_base58 = map (\<lambda>b. char_of (unat b)), ce_digest32_new = Inr, ce_digest32_from_bytes = map (\<lambda>b. char_of (unat b)),
     ce_base64_decode = str_bytes\<rparr>"

lemma wf_sample_parsed: "wf_parsed sample_parsed"
proof -
  have w: "write_short_vec 1 = [1]" "write_short_vec 0 = [0]" "write_short_vec 2 = [2]"
    using write_small [of 1] write_small [of 0] write_small [of 2] by simp_all
  show ?thesis
    by (simp add: wf_parsed_def sample_parsed_def wf_body_def wf_instruction_def wf_lookup_def sanitize_loaded_def
        loaded_accounts_def serialize_parsed_def serialize_def serialize_instruction_def serialize_lookup_def w
        MAX_ACCOUNT_KEYS_def PUBKEY_BYTES_def PACKET_DATA_SIZE_def)
qed

section \<open>The scan finds the blockhash\<close>

lemma account_count_small:
  assumes "n < 128" and "drop cursor bs = write_short_vec (of_nat n) @ rest"
  shows "account_count bs cursor = Inr (n, cursor + length (write_short_vec (of_nat n)))"
proof -
  have "get_at bs cursor = Some (of_nat n)" using assms by (simp add: write_small get_at_drop)
  then show ?thesis using assms(1) by (simp add: account_count_def u8_high_bit unat_of_nat write_small)
qed

lemma two_byte_count: "a < 128 \<Longrightarrow> a OR push_bit 7 b = a + 128 * b" for a b :: nat
proof -
  assume a: "a < 128"
  have "bit a n \<Longrightarrow> \<not> bit (push_bit 7 b) n" for n
  proof -
    assume "bit a n"
    moreover have "a = take_bit 7 a" using a by (simp add: take_bit_eq_mod)
    ultimately have "n < 7" by (metis bit_take_bit_iff)
    then show ?thesis by (simp add: bit_push_bit_iff)
  qed
  then have "a AND push_bit 7 b = 0" by (intro bit_eqI) (auto simp: bit_and_iff)
  then have "a + push_bit 7 b = a OR push_bit 7 b" by (rule disjunctive_add_eq_or)
  then show ?thesis by (simp add: push_bit_eq_mult)
qed

lemma account_count_large:
  assumes "128 \<le> n" and "n \<le> 256" and d: "drop cursor bs = write_short_vec (of_nat n) @ rest"
  shows "account_count bs cursor = Inr (n, cursor + length (write_short_vec (of_nat n)))"
proof -
  let ?a = "of_nat (n mod 128 + 128) :: u8" and ?b = "of_nat (n div 128) :: u8"
  have w: "write_short_vec (of_nat n) = [?a, ?b]"
    using assms by (simp add: write_large write_small)
  have d: "drop cursor bs = ?a # ?b # rest" using d w by simp
  note g = get_at_drop_Cons [OF d] get_at_drop_Cons [OF drop_past_one [OF d]]
  have q: "1 \<le> n div 128" "n div 128 < 128" using assms by simp_all
  have ub: "unat ?b = n div 128" using q by (simp add: unat_of_nat)
  have ua: "unat ?a = n mod 128 + 128" using mod_less_divisor [of 128 n] by (intro unat_of_nat_small) simp
  have "?b \<noteq> 0" using q ub by (metis not_one_le_zero unsigned_0)
  moreover have "unat (?a AND 0x7f) OR push_bit 7 (unat ?b) = n"
    using two_byte_count [of "n mod 128" "n div 128"] unfolding u8_low_bits ua ub by simp
  ultimately show ?thesis
    using g q(2) ua ub by (simp add: account_count_def u8_high_bit w)
qed

lemma account_count_write:
  "n \<le> 256 \<Longrightarrow> drop cursor bs = write_short_vec (of_nat n) @ rest
   \<Longrightarrow> account_count bs cursor = Inr (n, cursor + length (write_short_vec (of_nat n)))"
  by (cases "n < 128") (auto intro: account_count_small account_count_large)

lemma fill_zero_middle: "length ys = n \<Longrightarrow> fill_zero (xs @ ys @ zs) (length xs) (length xs + n) = Some (xs @ replicate n 0 @ zs)"
  by (simp add: fill_zero_def)

lemma length_keys: "list_all (\<lambda>k. length k = PUBKEY_BYTES) ks \<Longrightarrow> length (concat ks) = 32 * length ks"
  by (induction ks) (simp_all add: PUBKEY_BYTES_def)

text \<open>A serialized message around its blockhash: the version byte, the header, the account keys, and what follows.\<close>

definition version_bytes :: "ParsedMessage \<Rightarrow> bytes" where
  "version_bytes p = (case pm_version p of None \<Rightarrow> [] | Some v \<Rightarrow> [MESSAGE_VERSION_PREFIX OR v])"

definition header_bytes :: "ParsedMessage \<Rightarrow> bytes" where
  "header_bytes p = version_bytes p @ [num_required_signatures (header (pm_message p)),
     num_readonly_signed_accounts (header (pm_message p)), num_readonly_unsigned_accounts (header (pm_message p))]"

definition keys_bytes :: "ParsedMessage \<Rightarrow> bytes" where
  "keys_bytes p = write_short_vec (of_nat (length (account_keys (pm_message p)))) @ concat (account_keys (pm_message p))"

definition tail_bytes :: "ParsedMessage \<Rightarrow> bytes" where
  "tail_bytes p = write_short_vec (of_nat (length (instructions (pm_message p))))
     @ concat (map serialize_instruction (instructions (pm_message p)))
     @ (case pm_version p of None \<Rightarrow> []
        | Some _ \<Rightarrow> write_short_vec (of_nat (length (pm_lookups p))) @ concat (map serialize_lookup (pm_lookups p)))"

lemma serialize_around_blockhash:
  "serialize_parsed p = header_bytes p @ keys_bytes p @ recent_blockhash (pm_message p) @ tail_bytes p"
  "serialize_parsed (normalized p) = header_bytes p @ keys_bytes p @ replicate 32 0 @ tail_bytes p"
  by (simp_all add: serialize_parsed_def serialize_def header_bytes_def version_bytes_def keys_bytes_def tail_bytes_def normalized_def
      split: option.splits)

lemma wf_parsed_accounts:
  assumes "wf_parsed p"
  shows "0 < length (account_keys (pm_message p))" "length (account_keys (pm_message p)) \<le> 256"
    "list_all (\<lambda>k. length k = PUBKEY_BYTES) (account_keys (pm_message p))" "length (recent_blockhash (pm_message p)) = 32"
    "length (serialize_parsed p) \<le> 1232" "unat (num_required_signatures (header (pm_message p))) \<le> length (account_keys (pm_message p))"
proof -
  let ?h = "header (pm_message p)"
  have s: "sanitize_loaded (pm_message p) (loaded_accounts (pm_lookups p)) = Inr ()" and b: "wf_body (pm_message p)"
    using assms by (simp_all add: wf_parsed_def)
  from s have "num_required_signatures ?h \<noteq> 0"
    and "\<not> length (account_keys (pm_message p)) < unat (num_required_signatures ?h) + unat (num_readonly_unsigned_accounts ?h)"
    by (auto simp: sanitize_loaded_def split: if_splits)
  moreover from this(1) have "0 < unat (num_required_signatures ?h)" by (simp add: unat_gt_0)
  ultimately show "0 < length (account_keys (pm_message p))"
    "unat (num_required_signatures ?h) \<le> length (account_keys (pm_message p))" by linarith+
  show "length (account_keys (pm_message p)) \<le> 256" "length (recent_blockhash (pm_message p)) = 32"
    "list_all (\<lambda>k. length k = PUBKEY_BYTES) (account_keys (pm_message p))"
    using b by (simp_all add: wf_body_def MAX_ACCOUNT_KEYS_def PUBKEY_BYTES_def)
  show "length (serialize_parsed p) \<le> 1232" using assms by (simp add: wf_parsed_def PACKET_DATA_SIZE_def)
qed

lemma version_first:
  assumes "wf_parsed p"
  shows "serialize_parsed p \<noteq> []" "pm_version p = None \<Longrightarrow> serialize_parsed p ! 0 AND 0x80 = 0"
    "pm_version p \<noteq> None \<Longrightarrow> serialize_parsed p ! 0 = 0x80" "length (version_bytes p) = (if pm_version p = None then 0 else 1)"
  using assms legacy_first_byte [of "num_required_signatures (header (pm_message p))"]
  by (auto simp: serialize_around_blockhash header_bytes_def version_bytes_def wf_parsed_def MESSAGE_VERSION_PREFIX_def split: option.splits)

lemma binding_of_serialized:
  assumes wf: "wf_parsed p"
  shows "solana_message_binding env (serialize_parsed p)
    = Inr (ce_digest32_from_bytes env (blockhash_independent_digest (ce_sha256 env) p))"
proof -
  let ?bs = "serialize_parsed p" and ?n = "length (account_keys (pm_message p))"
  note v = version_first [OF wf] and a = wf_parsed_accounts [OF wf]
  have pre: "(if ?bs ! 0 AND 0x80 \<noteq> 0 then 1 else 0) + 3 = length (header_bytes p)"
    using v by (auto simp: header_bytes_def)
  have d: "drop (length (header_bytes p)) ?bs = write_short_vec (of_nat ?n) @ concat (account_keys (pm_message p)) @ recent_blockhash (pm_message p) @ tail_bytes p"
    by (simp add: serialize_around_blockhash keys_bytes_def)
  note c = account_count_write [OF a(2) d]
  have start: "length (header_bytes p) + length (write_short_vec (of_nat ?n)) + ?n * 32 = length (header_bytes p @ keys_bytes p)"
    using length_keys [OF a(3)] by (simp add: keys_bytes_def)
  have f: "fill_zero ?bs (length (header_bytes p @ keys_bytes p)) (length (header_bytes p @ keys_bytes p) + 32) = Some (serialize_parsed (normalized p))"
    using fill_zero_middle [OF a(4), of "header_bytes p @ keys_bytes p" "tail_bytes p"]
    unfolding serialize_around_blockhash(2) by (simp add: serialize_around_blockhash(1))
  have version: "\<not> (?bs ! 0 AND 0x80 \<noteq> 0 \<and> ?bs ! 0 \<noteq> 0x80)" using v by (cases "pm_version p") simp_all
  have "0 < ?n" "\<not> 256 < ?n" "\<not> 1232 < length ?bs" using a by simp_all
  then show ?thesis
    unfolding solana_message_binding_def Let_def pre c start blockhash_independent_digest_def
    using v(1) version by (simp add: c start f [unfolded length_append])
qed

text \<open>C25. The Machine's retry identity is the Broker's: on every message the complete parser accepts, legacy or version
0, the byte scan succeeds and returns the digest of the message with its recent blockhash zeroed.\<close>

theorem binding_agrees_with_parser:
  assumes "parse_versioned_message bytes = Inr p"
  shows "solana_message_binding env bytes = Inr (ce_digest32_from_bytes env (blockhash_independent_digest (ce_sha256 env) p))"
  using parse_versioned_dec [OF assms] binding_of_serialized by simp

theorem binding_agrees_with_parser_witness:
  "parse_versioned_message (serialize_parsed sample_parsed) = Inr sample_parsed
   \<and> solana_message_binding sample_crypto (serialize_parsed sample_parsed)
     = Inr (ce_digest32_from_bytes sample_crypto (blockhash_independent_digest (ce_sha256 sample_crypto) sample_parsed))"
proof -
  note p = parse_versioned_enc [OF wf_sample_parsed]
  with binding_agrees_with_parser [OF p] show ?thesis by simp
qed

end
