(* ===== verification/PumpCatalog.thy ===== *)
theory PumpCatalog
  imports JournalTypes
begin

text \<open>
  The reading catalog compiled into \<open>bloom-solana-clear-signing\<close> (\<open>catalogs/pump.json\<close>, read by \<open>catalog\<close> of
  \<open>inspection.rs\<close>): the programs with their instructions, discriminators, account roles and argument types.
  A program address is the 32 bytes of its base58 text. The type of an argument is the JSON value of the file.
\<close>

record CatalogInstruction =
  ci_name :: string
  ci_discriminator :: bytes
  ci_accounts :: "string list"
  ci_args :: "(string \<times> json) list"

record CatalogProgram =
  cp_address :: bytes
  cp_name :: string
  cp_instructions :: "CatalogInstruction list"

text \<open>The type \<open>{"defined": {"name": ...}}\<close>.\<close>

definition defined_kind :: "string \<Rightarrow> json" where
  "defined_kind name = json_object [(''defined'', json_object [(''name'', JString name)])]"

section \<open>Pump and PumpSwap\<close>

definition Pump_buy :: CatalogInstruction where
  "Pump_buy = \<lparr>ci_name = ''buy'', ci_discriminator = [102, 6, 61, 18, 1, 218, 235, 234],
     ci_accounts = [''global'', ''fee_recipient'', ''mint'', ''bonding_curve'', ''associated_bonding_curve'', ''associated_user'',
       ''user'', ''system_program'', ''token_program'', ''creator_vault'', ''event_authority'', ''program'',
       ''global_volume_accumulator'', ''user_volume_accumulator'', ''fee_config'', ''fee_program''],
     ci_args = [(''amount'', JString ''u64''), (''max_sol_cost'', JString ''u64''),
       (''track_volume'', defined_kind ''OptionBool''), (''partial_fill'', defined_kind ''OptionBool'')]\<rparr>"

definition Pump_buy_exact_quote_in_v2 :: CatalogInstruction where
  "Pump_buy_exact_quote_in_v2 = \<lparr>ci_name = ''buy_exact_quote_in_v2'', ci_discriminator = [194, 171, 28, 70, 104, 77, 91, 47],
     ci_accounts = [''global'', ''base_mint'', ''quote_mint'', ''base_token_program'', ''quote_token_program'',
       ''associated_token_program'', ''fee_recipient'', ''associated_quote_fee_recipient'', ''buyback_fee_recipient'',
       ''associated_quote_buyback_fee_recipient'', ''bonding_curve'', ''associated_base_bonding_curve'',
       ''associated_quote_bonding_curve'', ''user'', ''associated_base_user'', ''associated_quote_user'',
       ''creator_vault'', ''associated_creator_vault'', ''sharing_config'', ''global_volume_accumulator'',
       ''user_volume_accumulator'', ''associated_user_volume_accumulator'', ''fee_config'', ''fee_program'',
       ''system_program'', ''event_authority'', ''program''],
     ci_args = [(''spendable_quote_in'', JString ''u64''), (''min_tokens_out'', JString ''u64''),
       (''partial_fill'', defined_kind ''OptionBool'')]\<rparr>"

definition Pump_buy_exact_quote_in_v3 :: CatalogInstruction where
  "Pump_buy_exact_quote_in_v3 = \<lparr>ci_name = ''buy_exact_quote_in_v3'', ci_discriminator = [225, 247, 80, 30, 213, 179, 132, 136],
     ci_accounts = [''global'', ''base_mint'', ''quote_mint'', ''base_token_program'', ''quote_token_program'', ''bonding_curve'',
       ''associated_base_bonding_curve'', ''associated_quote_bonding_curve'', ''user'', ''associated_base_user'',
       ''associated_quote_user'', ''user_volume_accumulator'', ''fee_config'', ''buyback_fee_recipient'',
       ''system_program'', ''event_authority'', ''program''],
     ci_args = [(''spendable_quote_in'', JString ''u64''), (''min_tokens_out'', JString ''u64''),
       (''partial_fill'', defined_kind ''OptionBool'')]\<rparr>"

definition Pump_buy_exact_sol_in :: CatalogInstruction where
  "Pump_buy_exact_sol_in = \<lparr>ci_name = ''buy_exact_sol_in'', ci_discriminator = [56, 252, 116, 8, 158, 223, 205, 95],
     ci_accounts = [''global'', ''fee_recipient'', ''mint'', ''bonding_curve'', ''associated_bonding_curve'', ''associated_user'',
       ''user'', ''system_program'', ''token_program'', ''creator_vault'', ''event_authority'', ''program'',
       ''global_volume_accumulator'', ''user_volume_accumulator'', ''fee_config'', ''fee_program''],
     ci_args = [(''spendable_sol_in'', JString ''u64''), (''min_tokens_out'', JString ''u64''),
       (''track_volume'', defined_kind ''OptionBool''), (''partial_fill'', defined_kind ''OptionBool'')]\<rparr>"

definition Pump_buy_v2 :: CatalogInstruction where
  "Pump_buy_v2 = \<lparr>ci_name = ''buy_v2'', ci_discriminator = [184, 23, 238, 97, 103, 197, 211, 61],
     ci_accounts = [''global'', ''base_mint'', ''quote_mint'', ''base_token_program'', ''quote_token_program'',
       ''associated_token_program'', ''fee_recipient'', ''associated_quote_fee_recipient'', ''buyback_fee_recipient'',
       ''associated_quote_buyback_fee_recipient'', ''bonding_curve'', ''associated_base_bonding_curve'',
       ''associated_quote_bonding_curve'', ''user'', ''associated_base_user'', ''associated_quote_user'',
       ''creator_vault'', ''associated_creator_vault'', ''sharing_config'', ''global_volume_accumulator'',
       ''user_volume_accumulator'', ''associated_user_volume_accumulator'', ''fee_config'', ''fee_program'',
       ''system_program'', ''event_authority'', ''program''],
     ci_args = [(''amount'', JString ''u64''), (''max_sol_cost'', JString ''u64''),
       (''partial_fill'', defined_kind ''OptionBool'')]\<rparr>"

definition Pump_buy_v3 :: CatalogInstruction where
  "Pump_buy_v3 = \<lparr>ci_name = ''buy_v3'', ci_discriminator = [7, 5, 29, 196, 245, 23, 101, 80],
     ci_accounts = [''global'', ''base_mint'', ''quote_mint'', ''base_token_program'', ''quote_token_program'', ''bonding_curve'',
       ''associated_base_bonding_curve'', ''associated_quote_bonding_curve'', ''user'', ''associated_base_user'',
       ''associated_quote_user'', ''user_volume_accumulator'', ''fee_config'', ''buyback_fee_recipient'',
       ''system_program'', ''event_authority'', ''program''],
     ci_args = [(''amount'', JString ''u64''), (''max_sol_cost'', JString ''u64''),
       (''partial_fill'', defined_kind ''OptionBool'')]\<rparr>"

definition Pump_create_v2 :: CatalogInstruction where
  "Pump_create_v2 = \<lparr>ci_name = ''create_v2'', ci_discriminator = [214, 144, 76, 236, 95, 139, 49, 180],
     ci_accounts = [''mint'', ''mint_authority'', ''bonding_curve'', ''associated_bonding_curve'', ''global'', ''user'',
       ''system_program'', ''token_program'', ''associated_token_program'', ''mayhem_program_id'', ''global_params'',
       ''sol_vault'', ''mayhem_state'', ''mayhem_token_vault'', ''event_authority'', ''program''],
     ci_args = [(''name'', JString ''string''), (''symbol'', JString ''string''), (''uri'', JString ''string''),
       (''creator'', JString ''pubkey''), (''is_mayhem_mode'', JString ''bool''),
       (''is_cashback_enabled'', defined_kind ''OptionBool''), (''creator_fee_bps'', defined_kind ''OptionU64''),
       (''is_holder_reward'', defined_kind ''OptionBool'')]\<rparr>"

definition Pump_sell :: CatalogInstruction where
  "Pump_sell = \<lparr>ci_name = ''sell'', ci_discriminator = [51, 230, 133, 164, 1, 127, 131, 173],
     ci_accounts = [''global'', ''fee_recipient'', ''mint'', ''bonding_curve'', ''associated_bonding_curve'', ''associated_user'',
       ''user'', ''system_program'', ''creator_vault'', ''token_program'', ''event_authority'', ''program'',
       ''fee_config'', ''fee_program''],
     ci_args = [(''amount'', JString ''u64''), (''min_sol_output'', JString ''u64'')]\<rparr>"

definition Pump_sell_v2 :: CatalogInstruction where
  "Pump_sell_v2 = \<lparr>ci_name = ''sell_v2'', ci_discriminator = [93, 246, 130, 60, 231, 233, 64, 178],
     ci_accounts = [''global'', ''base_mint'', ''quote_mint'', ''base_token_program'', ''quote_token_program'',
       ''associated_token_program'', ''fee_recipient'', ''associated_quote_fee_recipient'', ''buyback_fee_recipient'',
       ''associated_quote_buyback_fee_recipient'', ''bonding_curve'', ''associated_base_bonding_curve'',
       ''associated_quote_bonding_curve'', ''user'', ''associated_base_user'', ''associated_quote_user'',
       ''creator_vault'', ''associated_creator_vault'', ''sharing_config'', ''user_volume_accumulator'',
       ''associated_user_volume_accumulator'', ''fee_config'', ''fee_program'', ''system_program'',
       ''event_authority'', ''program''],
     ci_args = [(''amount'', JString ''u64''), (''min_sol_output'', JString ''u64'')]\<rparr>"

definition Pump_sell_v3 :: CatalogInstruction where
  "Pump_sell_v3 = \<lparr>ci_name = ''sell_v3'', ci_discriminator = [28, 146, 222, 119, 38, 196, 105, 213],
     ci_accounts = [''global'', ''base_mint'', ''quote_mint'', ''base_token_program'', ''quote_token_program'', ''bonding_curve'',
       ''associated_base_bonding_curve'', ''associated_quote_bonding_curve'', ''user'', ''associated_base_user'',
       ''associated_quote_user'', ''user_volume_accumulator'', ''fee_config'', ''buyback_fee_recipient'',
       ''system_program'', ''event_authority'', ''program''],
     ci_args = [(''amount'', JString ''u64''), (''min_sol_output'', JString ''u64'')]\<rparr>"

definition PumpSwap_buy :: CatalogInstruction where
  "PumpSwap_buy = \<lparr>ci_name = ''buy'', ci_discriminator = [102, 6, 61, 18, 1, 218, 235, 234],
     ci_accounts = [''pool'', ''user'', ''global_config'', ''base_mint'', ''quote_mint'', ''user_base_token_account'',
       ''user_quote_token_account'', ''pool_base_token_account'', ''pool_quote_token_account'',
       ''protocol_fee_recipient'', ''protocol_fee_recipient_token_account'', ''base_token_program'',
       ''quote_token_program'', ''system_program'', ''associated_token_program'', ''event_authority'', ''program'',
       ''coin_creator_vault_ata'', ''coin_creator_vault_authority'', ''global_volume_accumulator'',
       ''user_volume_accumulator'', ''fee_config'', ''fee_program''],
     ci_args = [(''base_amount_out'', JString ''u64''), (''max_quote_amount_in'', JString ''u64''),
       (''track_volume'', defined_kind ''OptionBool'')]\<rparr>"

definition PumpSwap_buy_exact_quote_in :: CatalogInstruction where
  "PumpSwap_buy_exact_quote_in = \<lparr>ci_name = ''buy_exact_quote_in'', ci_discriminator = [198, 46, 21, 82, 180, 217, 232, 112],
     ci_accounts = [''pool'', ''user'', ''global_config'', ''base_mint'', ''quote_mint'', ''user_base_token_account'',
       ''user_quote_token_account'', ''pool_base_token_account'', ''pool_quote_token_account'',
       ''protocol_fee_recipient'', ''protocol_fee_recipient_token_account'', ''base_token_program'',
       ''quote_token_program'', ''system_program'', ''associated_token_program'', ''event_authority'', ''program'',
       ''coin_creator_vault_ata'', ''coin_creator_vault_authority'', ''global_volume_accumulator'',
       ''user_volume_accumulator'', ''fee_config'', ''fee_program''],
     ci_args = [(''spendable_quote_in'', JString ''u64''), (''min_base_amount_out'', JString ''u64''),
       (''track_volume'', defined_kind ''OptionBool'')]\<rparr>"

definition PumpSwap_buy_exact_quote_in_v2 :: CatalogInstruction where
  "PumpSwap_buy_exact_quote_in_v2 = \<lparr>ci_name = ''buy_exact_quote_in_v2'', ci_discriminator = [194, 171, 28, 70, 104, 77, 91, 47],
     ci_accounts = [''pool'', ''user'', ''global_config'', ''base_mint'', ''quote_mint'', ''user_base_token_account'',
       ''user_quote_token_account'', ''pool_base_token_account'', ''pool_quote_token_account'',
       ''base_token_program'', ''quote_token_program'', ''system_program'', ''user_volume_accumulator'',
       ''fee_config'', ''buyback_fee_recipient'', ''event_authority'', ''program''],
     ci_args = [(''spendable_quote_in'', JString ''u64''), (''min_base_amount_out'', JString ''u64'')]\<rparr>"

definition PumpSwap_buy_v2 :: CatalogInstruction where
  "PumpSwap_buy_v2 = \<lparr>ci_name = ''buy_v2'', ci_discriminator = [184, 23, 238, 97, 103, 197, 211, 61],
     ci_accounts = [''pool'', ''user'', ''global_config'', ''base_mint'', ''quote_mint'', ''user_base_token_account'',
       ''user_quote_token_account'', ''pool_base_token_account'', ''pool_quote_token_account'',
       ''base_token_program'', ''quote_token_program'', ''system_program'', ''user_volume_accumulator'',
       ''fee_config'', ''buyback_fee_recipient'', ''event_authority'', ''program''],
     ci_args = [(''base_amount_out'', JString ''u64''), (''max_quote_amount_in'', JString ''u64'')]\<rparr>"

definition PumpSwap_sell :: CatalogInstruction where
  "PumpSwap_sell = \<lparr>ci_name = ''sell'', ci_discriminator = [51, 230, 133, 164, 1, 127, 131, 173],
     ci_accounts = [''pool'', ''user'', ''global_config'', ''base_mint'', ''quote_mint'', ''user_base_token_account'',
       ''user_quote_token_account'', ''pool_base_token_account'', ''pool_quote_token_account'',
       ''protocol_fee_recipient'', ''protocol_fee_recipient_token_account'', ''base_token_program'',
       ''quote_token_program'', ''system_program'', ''associated_token_program'', ''event_authority'', ''program'',
       ''coin_creator_vault_ata'', ''coin_creator_vault_authority'', ''fee_config'', ''fee_program''],
     ci_args = [(''base_amount_in'', JString ''u64''), (''min_quote_amount_out'', JString ''u64'')]\<rparr>"

definition PumpSwap_sell_v2 :: CatalogInstruction where
  "PumpSwap_sell_v2 = \<lparr>ci_name = ''sell_v2'', ci_discriminator = [93, 246, 130, 60, 231, 233, 64, 178],
     ci_accounts = [''pool'', ''user'', ''global_config'', ''base_mint'', ''quote_mint'', ''user_base_token_account'',
       ''user_quote_token_account'', ''pool_base_token_account'', ''pool_quote_token_account'',
       ''base_token_program'', ''quote_token_program'', ''system_program'', ''user_volume_accumulator'',
       ''fee_config'', ''buyback_fee_recipient'', ''event_authority'', ''program''],
     ci_args = [(''base_amount_in'', JString ''u64''), (''min_quote_amount_out'', JString ''u64'')]\<rparr>"

definition Pump_program :: CatalogProgram where
  "Pump_program = \<lparr>cp_address = [1, 86, 224, 246, 147, 102, 90, 207, 68, 219, 21, 104, 191, 23, 91, 170, 81, 137, 203, 151, 245, 210, 255, 59,
       101, 93, 43, 182, 253, 109, 24, 176],
     cp_name = ''Pump'',
     cp_instructions = [Pump_buy, Pump_buy_exact_quote_in_v2, Pump_buy_exact_quote_in_v3, Pump_buy_exact_sol_in, Pump_buy_v2,
       Pump_buy_v3, Pump_create_v2, Pump_sell, Pump_sell_v2, Pump_sell_v3]\<rparr>"

definition PumpSwap_program :: CatalogProgram where
  "PumpSwap_program = \<lparr>cp_address = [12, 20, 222, 252, 130, 94, 198, 118, 148, 37, 8, 24, 187, 101, 64, 101, 244, 41, 141, 49, 86, 213, 113, 180,
       212, 248, 9, 12, 24, 233, 168, 99],
     cp_name = ''PumpSwap'',
     cp_instructions = [PumpSwap_buy, PumpSwap_buy_exact_quote_in, PumpSwap_buy_exact_quote_in_v2, PumpSwap_buy_v2, PumpSwap_sell,
       PumpSwap_sell_v2]\<rparr>"

definition catalog :: "CatalogProgram list" where
  "catalog = [Pump_program, PumpSwap_program]"

text \<open>What the reader relies on: discriminators are eight bytes, addresses 32 bytes.\<close>

lemmas catalog_defs = catalog_def Pump_buy_def Pump_buy_exact_quote_in_v2_def Pump_buy_exact_quote_in_v3_def Pump_buy_exact_sol_in_def Pump_buy_v2_def Pump_buy_v3_def Pump_create_v2_def Pump_sell_def Pump_sell_v2_def Pump_sell_v3_def PumpSwap_buy_def PumpSwap_buy_exact_quote_in_def PumpSwap_buy_exact_quote_in_v2_def PumpSwap_buy_v2_def PumpSwap_sell_def PumpSwap_sell_v2_def Pump_program_def PumpSwap_program_def

lemma catalog_shape:
  "list_all (\<lambda>p. length (cp_address p) = 32 \<and> list_all (\<lambda>i. length (ci_discriminator i) = 8) (cp_instructions p)) catalog"
  by (simp add: catalog_defs)

end
