(* ===== verification/Utf8.thy ===== *)
theory Utf8
  imports JournalTypes
begin

text \<open>
  UTF-8 as the standard library of Rust validates and prints it (\<open>std::str::from_utf8\<close>, \<open>str::chars\<close>,
  \<open>String::push\<close>, \<open>char::escape_unicode\<close>). A character is the number of its Unicode scalar value. Decoding is
  strict: it accepts exactly the encodings of scalar values.
\<close>

definition scalar_value :: "nat \<Rightarrow> bool" where
  "scalar_value c \<longleftrightarrow> c < 0xD800 \<or> (0xE000 \<le> c \<and> c < 0x110000)"

definition utf8_encode :: "nat \<Rightarrow> bytes" where
  "utf8_encode c =
     (if c < 0x80 then [of_nat c]
      else if c < 0x800 then [of_nat (0xC0 + c div 64), of_nat (0x80 + c mod 64)]
      else if c < 0x10000 then [of_nat (0xE0 + c div 4096), of_nat (0x80 + c div 64 mod 64), of_nat (0x80 + c mod 64)]
      else [of_nat (0xF0 + c div 262144), of_nat (0x80 + c div 4096 mod 64), of_nat (0x80 + c div 64 mod 64), of_nat (0x80 + c mod 64)])"

definition continuation :: "nat \<Rightarrow> bool" where
  "continuation b \<longleftrightarrow> 0x80 \<le> b \<and> b < 0xC0"

text \<open>The next character and the rest of the bytes; \<open>None\<close> when they do not start with a well-formed character.\<close>

fun utf8_next2 :: "nat \<Rightarrow> bytes \<Rightarrow> (nat \<times> bytes) option" where
  "utf8_next2 b0 (b1 # rest) =
     (let c = (b0 - 0xC0) * 64 + (unat b1 - 0x80) in
      if continuation (unat b1) \<and> 0x80 \<le> c then Some (c, rest) else None)"
| "utf8_next2 _ _ = None"

fun utf8_next3 :: "nat \<Rightarrow> bytes \<Rightarrow> (nat \<times> bytes) option" where
  "utf8_next3 b0 (b1 # b2 # rest) =
     (let c = (b0 - 0xE0) * 4096 + (unat b1 - 0x80) * 64 + (unat b2 - 0x80) in
      if continuation (unat b1) \<and> continuation (unat b2) \<and> 0x800 \<le> c \<and> scalar_value c then Some (c, rest) else None)"
| "utf8_next3 _ _ = None"

fun utf8_next4 :: "nat \<Rightarrow> bytes \<Rightarrow> (nat \<times> bytes) option" where
  "utf8_next4 b0 (b1 # b2 # b3 # rest) =
     (let c = (b0 - 0xF0) * 262144 + (unat b1 - 0x80) * 4096 + (unat b2 - 0x80) * 64 + (unat b3 - 0x80) in
      if continuation (unat b1) \<and> continuation (unat b2) \<and> continuation (unat b3) \<and> 0x10000 \<le> c \<and> scalar_value c
      then Some (c, rest) else None)"
| "utf8_next4 _ _ = None"

fun utf8_next :: "bytes \<Rightarrow> (nat \<times> bytes) option" where
  "utf8_next [] = None"
| "utf8_next (b # rest) =
     (if unat b < 0x80 then Some (unat b, rest)
      else if 0xC0 \<le> unat b \<and> unat b < 0xE0 then utf8_next2 (unat b) rest
      else if 0xE0 \<le> unat b \<and> unat b < 0xF0 then utf8_next3 (unat b) rest
      else if 0xF0 \<le> unat b \<and> unat b < 0xF8 then utf8_next4 (unat b) rest
      else None)"

lemma utf8_next_shrinks: "utf8_next bs = Some (c, rest) \<Longrightarrow> length rest < length bs"
  by (cases bs) (auto split: if_splits elim!: utf8_next2.elims utf8_next3.elims utf8_next4.elims simp: Let_def)

function utf8_decode :: "bytes \<Rightarrow> nat list option" where
  "utf8_decode bs = (if bs = [] then Some []
     else case utf8_next bs of None \<Rightarrow> None | Some (c, rest) \<Rightarrow> map_option (Cons c) (utf8_decode rest))"
  by pat_completeness auto
termination
  by (relation "measure length") (auto dest: utf8_next_shrinks)

declare utf8_decode.simps [simp del]

section \<open>Decoding inverts encoding\<close>

lemma byte_value: "n < 256 \<Longrightarrow> unat (of_nat n :: u8) = n"
  by (intro unat_of_nat_small) simp

lemma base64_digits: "c div 4096 * 4096 + c div 64 mod 64 * 64 + c mod 64 = c" for c :: nat
proof -
  have "c div 4096 = c div 64 div 64" using div_mult2_eq [of c 64 64] by simp
  then show ?thesis using div_mult_mod_eq [of c 64] div_mult_mod_eq [of "c div 64" 64] by linarith
qed

lemma base64_digits4: "c div 262144 * 262144 + c div 4096 mod 64 * 4096 + c div 64 mod 64 * 64 + c mod 64 = c" for c :: nat
proof -
  have "c div 262144 = c div 4096 div 64" using div_mult2_eq [of c 4096 64] by simp
  then show ?thesis using base64_digits [of c] div_mult_mod_eq [of "c div 4096" 64] by linarith
qed

lemma utf8_next_encode:
  assumes "scalar_value c"
  shows "utf8_next (utf8_encode c @ rest) = Some (c, rest)"
proof -
  have c: "c < 0x110000" using assms by (auto simp: scalar_value_def)
  consider "c < 0x80" | "0x80 \<le> c" "c < 0x800" | "0x800 \<le> c" "c < 0x10000" | "0x10000 \<le> c" by linarith
  then show ?thesis
  proof cases
    case 1
    then show ?thesis by (simp add: utf8_encode_def byte_value)
  next
    case 2
    have u: "unat (of_nat (0xC0 + c div 64) :: u8) = 0xC0 + c div 64" "unat (of_nat (0x80 + c mod 64) :: u8) = 0x80 + c mod 64"
      by (rule byte_value, use 2 in simp)+
    show ?thesis using 2 u by (simp add: utf8_encode_def continuation_def Let_def del: of_nat_add)
  next
    case 3
    have u: "unat (of_nat (0xE0 + c div 4096) :: u8) = 0xE0 + c div 4096" "unat (of_nat (0x80 + c div 64 mod 64) :: u8) = 0x80 + c div 64 mod 64"
      "unat (of_nat (0x80 + c mod 64) :: u8) = 0x80 + c mod 64"
      by (rule byte_value, use 3 in simp)+
    note d = base64_digits [of c]
    show ?thesis using 3 u d assms by (simp add: utf8_encode_def continuation_def Let_def del: of_nat_add)
  next
    case 4
    have u: "unat (of_nat (0xF0 + c div 262144) :: u8) = 0xF0 + c div 262144" "unat (of_nat (0x80 + c div 4096 mod 64) :: u8) = 0x80 + c div 4096 mod 64"
      "unat (of_nat (0x80 + c div 64 mod 64) :: u8) = 0x80 + c div 64 mod 64" "unat (of_nat (0x80 + c mod 64) :: u8) = 0x80 + c mod 64"
      by (rule byte_value, use c in simp)+
    note d = base64_digits4 [of c]
    have "c div 262144 < 8" using c by simp
    then show ?thesis using 4 u d assms by (simp add: utf8_encode_def continuation_def Let_def del: of_nat_add)
  qed
qed

lemma utf8_encode_nonempty [simp]: "utf8_encode c \<noteq> []"
  by (simp add: utf8_encode_def)

lemma utf8_decode_encode: "list_all scalar_value cs \<Longrightarrow> utf8_decode (concat (map utf8_encode cs)) = Some cs"
proof (induction cs)
  case Nil
  then show ?case by (simp add: utf8_decode.simps)
next
  case (Cons c cs)
  then show ?case by (subst utf8_decode.simps) (simp add: utf8_next_encode)
qed

lemma utf8_next_scalar: "utf8_next bs = Some (c, rest) \<Longrightarrow> scalar_value c"
  by (cases bs) (auto split: if_splits elim!: utf8_next2.elims utf8_next3.elims utf8_next4.elims simp: Let_def continuation_def scalar_value_def)

lemma utf8_decode_scalar: "utf8_decode bs = Some cs \<Longrightarrow> list_all scalar_value cs"
proof (induction bs arbitrary: cs rule: utf8_decode.induct)
  case (1 bs)
  from 1(2) show ?case
    by (subst (asm) utf8_decode.simps) (auto split: if_splits option.splits dest: utf8_next_scalar 1(1))
qed

end
