(* ===== verification/ClearReading.thy ===== *)
theory ClearReading
  imports SolanaBinding PumpCatalog Utf8
begin

text \<open>
  The structural reading of a Solana message (\<open>bloom-solana-clear-signing/src/inspection.rs\<close>): what the
  owner is shown of the bytes to sign. The lemmas show that reading an accepted message never panics, that every account reference is
  resolved as the runtime resolves it, and that no value shown can carry control characters.
\<close>

section \<open>Texts\<close>

text \<open>A panic of the code is an error of its own, next to the errors it returns.\<close>

datatype 'e fault = Panic | Fault 'e

definition bytes_str :: "bytes \<Rightarrow> string" where
  "bytes_str bytes = map (\<lambda>b. char_of (unat b)) bytes"

text \<open>The separator of the readings: a middle dot (U+00B7) between spaces.\<close>

definition MIDDOT :: string where
  "MIDDOT = '' '' @ [CHR 0xC2, CHR 0xB7] @ '' ''"

definition SYSTEM :: string where
  "SYSTEM = ''11111111111111111111111111111111''"

definition COMPUTE :: string where
  "COMPUTE = ''ComputeBudget111111111111111111111111111111''"

definition TOKEN :: string where
  "TOKEN = ''TokenkegQfeZyiNwAJbNbGKPFXCWuBvf9Ss623VQ5DA''"

definition TOKEN_2022 :: string where
  "TOKEN_2022 = ''TokenzQdBNbLqP5VEhdkAS6EPFLC1PHnBqCXEpPxuEb''"

definition ASSOCIATED :: string where
  "ASSOCIATED = ''ATokenGPvbdGVxr1b2hvZbsiqW5xWH25efTNsLJA8knL''"

section \<open>Readings\<close>

record Field =
  fd_name :: string
  fd_value :: string

record AccountReading =
  ar_index :: u8
  ar_role :: string
  ar_address :: "Pubkey option"
  ar_lookup :: "string option"
  ar_signer :: bool
  ar_writable :: bool

record InstructionReading =
  ir_program :: Pubkey
  ir_name :: "string option"
  ir_accounts :: "AccountReading list"
  ir_fields :: "Field list"
  ir_data_hex :: string
  ir_warning :: "string option"

record MessageReading =
  mr_version :: "u8 option"
  mr_fee_payer :: Pubkey
  mr_signers :: "Pubkey list"
  mr_recent_blockhash :: string
  mr_payload_sha256 :: string
  mr_blockhash_independent_sha256 :: string
  mr_instructions :: "InstructionReading list"
  mr_warnings :: "string list"

section \<open>The cursor over instruction data\<close>

text \<open>The cursor is the rest of the data: each operation returns what it read and the new rest.\<close>

definition cursor_take :: "nat \<Rightarrow> bytes \<Rightarrow> string + (bytes \<times> bytes)" where
  "cursor_take count data = (if count \<le> length data then Inr (take count data, drop count data)
     else Inl ''Instruction data is truncated; exact bytes remain available.'')"

definition cursor_uint :: "nat \<Rightarrow> bytes \<Rightarrow> string + (nat \<times> bytes)" where
  "cursor_uint count data = and_then (cursor_take count data) (\<lambda>(bytes, rest). Inr (from_le bytes, rest))"

definition cursor_pubkey :: "crypto_env \<Rightarrow> bytes \<Rightarrow> string + (string \<times> bytes)" where
  "cursor_pubkey env data = and_then (cursor_take 32 data) (\<lambda>(bytes, rest). Inr (ce_base58 env bytes, rest))"

definition cursor_decimal :: "nat \<Rightarrow> bytes \<Rightarrow> string + (string \<times> bytes)" where
  "cursor_decimal count data = and_then (cursor_uint count data) (\<lambda>(n, rest). Inr (decimal n, rest))"

definition cursor_field :: "string \<Rightarrow> nat \<Rightarrow> bytes \<Rightarrow> string + (Field \<times> bytes)" where
  "cursor_field name count data = and_then (cursor_uint count data) (\<lambda>(n, rest).
     Inr (\<lparr>fd_name = name, fd_value = decimal n\<rparr>, rest))"

definition cursor_finish :: "bytes \<Rightarrow> string + unit" where
  "cursor_finish data = (if data = [] then Inr ()
     else Inl ''Instruction has unrecognized trailing data; exact bytes remain available.'')"

text \<open>\<open>char::is_control\<close> and the bidirectional marks that the reader spells out.\<close>

definition hidden :: "nat \<Rightarrow> bool" where
  "hidden c \<longleftrightarrow> c < 0x20 \<or> (0x7F \<le> c \<and> c < 0xA0)
     \<or> c = 0x061C \<or> c = 0x200E \<or> c = 0x200F \<or> (0x202A \<le> c \<and> c \<le> 0x202E) \<or> (0x2066 \<le> c \<and> c \<le> 0x2069)"

fun hex_digits :: "nat \<Rightarrow> nat list" where
  "hex_digits n = (if n < 16 then [if n < 10 then 48 + n else 87 + n]
     else hex_digits (n div 16) @ [if n mod 16 < 10 then 48 + n mod 16 else 87 + n mod 16])"

declare hex_digits.simps [simp del]

text \<open>\<open>char::escape_unicode\<close>: a backslash, u, and the number in braces.\<close>

definition escape_unicode :: "nat \<Rightarrow> nat list" where
  "escape_unicode c = [0x5C, 0x75, 0x7B] @ hex_digits c @ [0x7D]"

definition visible_chars :: "nat list \<Rightarrow> nat list" where
  "visible_chars cs = concat (map (\<lambda>c. if hidden c then escape_unicode c else [c]) cs)"

definition visible :: "nat list \<Rightarrow> string" where
  "visible cs = bytes_str (concat (map utf8_encode (visible_chars cs)))"

definition cursor_string :: "bytes \<Rightarrow> string + (string \<times> bytes)" where
  "cursor_string data =
     and_then (cursor_uint 4 data) (\<lambda>(n, rest).
     and_then (cursor_take n rest) (\<lambda>(bytes, rest).
     case utf8_decode bytes of
       None \<Rightarrow> Inl ''Instruction string is not UTF-8.''
     | Some text \<Rightarrow> Inr (visible text, rest)))"

definition cursor_bool :: "bytes \<Rightarrow> string + (string \<times> bytes)" where
  "cursor_bool data = and_then (cursor_uint 1 data) (\<lambda>(n, rest).
     if n = 0 then Inr (''false'', rest) else if n = 1 then Inr (''true'', rest)
     else Inl ''Instruction boolean is not canonical.'')"

text \<open>The \<open>match kind.as_str()\<close> of \<open>Cursor::argument\<close>.\<close>

definition cursor_scalar :: "crypto_env \<Rightarrow> string option \<Rightarrow> bytes \<Rightarrow> string + (string \<times> bytes)" where
  "cursor_scalar env kind data =
     (if kind = Some ''u8'' then cursor_decimal 1 data
      else if kind = Some ''u16'' then cursor_decimal 2 data
      else if kind = Some ''u32'' then cursor_decimal 4 data
      else if kind = Some ''u64'' then cursor_decimal 8 data
      else if kind = Some ''u128'' then cursor_decimal 16 data
      else if kind = Some ''bool'' then cursor_bool data
      else if kind = Some ''pubkey'' then cursor_pubkey env data
      else if kind = Some ''string'' then cursor_string data
      else Inl ''Instruction argument type has no compiled reading.'')"

definition cursor_argument :: "crypto_env \<Rightarrow> json \<Rightarrow> bytes \<Rightarrow> string + (string \<times> bytes)" where
  "cursor_argument env kind data =
     (case Option.bind (Option.bind (json_get kind ''defined'') (\<lambda>d. json_get d ''name'')) json_as_str of
        Some alias \<Rightarrow>
          if alias = ''OptionBool'' \<or> alias = ''OptionU64'' then
            if data = [] then Inr (''Not encoded; program determines the default'', data)
            else cursor_scalar env (Some (if alias = ''OptionBool'' then ''bool'' else ''u64'')) data
          else cursor_scalar env (json_as_str kind) data
      | None \<Rightarrow> cursor_scalar env (json_as_str kind) data)"

fun cursor_arguments :: "crypto_env \<Rightarrow> (string \<times> json) list \<Rightarrow> bytes \<Rightarrow> string + (Field list \<times> bytes)" where
  "cursor_arguments env [] data = Inr ([], data)"
| "cursor_arguments env ((name, kind) # args) data =
     and_then (cursor_argument env kind data) (\<lambda>(text, rest).
     and_then (cursor_arguments env args rest) (\<lambda>(args_read, rest).
     Inr (\<lparr>fd_name = name, fd_value = text\<rparr> # args_read, rest)))"

section \<open>Instructions\<close>

type_synonym Decoded = "string \<times> string list \<times> Field list"

text \<open>The reading of an instruction of the catalog.\<close>

definition decode_catalogued :: "crypto_env \<Rightarrow> CatalogProgram \<Rightarrow> bytes \<Rightarrow> string + Decoded option" where
  "decode_catalogued env known data =
     (case find (\<lambda>i. take (length (ci_discriminator i)) data = ci_discriminator i) (cp_instructions known) of
        None \<Rightarrow> Inr None
      | Some instruction \<Rightarrow>
          and_then (cursor_arguments env (ci_args instruction) (drop 8 data)) (\<lambda>(args_read, rest).
          and_then (cursor_finish rest) (\<lambda>_.
          Inr (Some (cp_name known @ MIDDOT @ ci_name instruction, ci_accounts instruction, args_read)))))"

text \<open>The fixed layouts: name, roles, fields and the rest of the data; \<open>None\<close> when there is no reading.\<close>

type_synonym Layout = "((string \<times> string list) \<times> Field list \<times> bytes) option"

definition decode_system :: "crypto_env \<Rightarrow> bytes \<Rightarrow> string + Layout" where
  "decode_system env data = and_then (cursor_uint 4 data) (\<lambda>(opcode, rest).
     if opcode = 2 then
       and_then (cursor_field ''lamports'' 8 rest) (\<lambda>(f, rest).
       Inr (Some ((''System'' @ MIDDOT @ ''transfer'', [''source'', ''destination'']), [f], rest)))
     else if opcode = 0 then
       and_then (cursor_field ''lamports'' 8 rest) (\<lambda>(f, rest).
       and_then (cursor_field ''space'' 8 rest) (\<lambda>(g, rest).
       and_then (cursor_pubkey env rest) (\<lambda>(owner, rest).
       Inr (Some ((''System'' @ MIDDOT @ ''create account'', [''funding account'', ''new account'']),
         [f, g, \<lparr>fd_name = ''owner program'', fd_value = owner\<rparr>], rest)))))
     else Inr None)"

definition decode_compute :: "bytes \<Rightarrow> string + Layout" where
  "decode_compute data = and_then (cursor_uint 1 data) (\<lambda>(opcode, rest).
     if opcode = 2 then
       and_then (cursor_field ''compute unit limit'' 4 rest) (\<lambda>(f, rest).
       Inr (Some ((''Compute budget'' @ MIDDOT @ ''unit limit'', []), [f], rest)))
     else if opcode = 3 then
       and_then (cursor_field ''micro-lamports per compute unit'' 8 rest) (\<lambda>(f, rest).
       Inr (Some ((''Compute budget'' @ MIDDOT @ ''unit price'', []), [f], rest)))
     else Inr None)"

definition decode_token :: "bytes \<Rightarrow> string + Layout" where
  "decode_token data = and_then (cursor_uint 1 data) (\<lambda>(opcode, rest).
     if opcode = 9 then
       Inr (Some ((''Token'' @ MIDDOT @ ''close account'', [''token account'', ''rent recipient'', ''authority'']), [], rest))
     else if opcode = 17 then Inr (Some ((''Token'' @ MIDDOT @ ''sync native'', [''wrapped SOL account'']), [], rest))
     else if opcode = 3 then
       and_then (cursor_field ''amount (raw token units)'' 8 rest) (\<lambda>(f, rest).
       Inr (Some ((''Token'' @ MIDDOT @ ''transfer'', [''source token account'', ''destination token account'', ''authority'']), [f], rest)))
     else if opcode = 12 then
       and_then (cursor_field ''amount (raw token units)'' 8 rest) (\<lambda>(f, rest).
       and_then (cursor_field ''instruction decimals (not independently verified)'' 1 rest) (\<lambda>(g, rest).
       Inr (Some ((''Token'' @ MIDDOT @ ''transfer checked'',
         [''source token account'', ''mint'', ''destination token account'', ''authority'']), [f, g], rest))))
     else Inr None)"

definition ASSOCIATED_ROLES :: "string list" where
  "ASSOCIATED_ROLES = [''funding account'', ''token account'', ''wallet'', ''mint'', ''system program'', ''token program'']"

definition decode_associated :: "bytes \<Rightarrow> string + Layout" where
  "decode_associated data =
     (if data = [] then Inr (Some ((''Associated token'' @ MIDDOT @ ''create'', ASSOCIATED_ROLES), [], data))
      else if data = [1] then
        and_then (cursor_take 1 data) (\<lambda>(_, rest).
        Inr (Some ((''Associated token'' @ MIDDOT @ ''create idempotent'', ASSOCIATED_ROLES), [], rest)))
      else Inr None)"

definition decode_layout :: "crypto_env \<Rightarrow> string \<Rightarrow> bytes \<Rightarrow> string + Layout" where
  "decode_layout env address data =
     (if address = SYSTEM then decode_system env data
      else if address = COMPUTE then decode_compute data
      else if address = TOKEN \<or> address = TOKEN_2022 then decode_token data
      else if address = ASSOCIATED then decode_associated data
      else Inr None)"

definition decode_instruction :: "crypto_env \<Rightarrow> Pubkey \<Rightarrow> bytes \<Rightarrow> string + Decoded option" where
  "decode_instruction env program data =
     (case find (\<lambda>p. cp_address p = program) catalog of
        Some known \<Rightarrow> decode_catalogued env known data
      | None \<Rightarrow>
          and_then (decode_layout env (ce_base58 env program) data) (\<lambda>layout.
          case layout of
            None \<Rightarrow> Inr None
          | Some ((name, roles), args_read, rest) \<Rightarrow>
              and_then (cursor_finish rest) (\<lambda>_. Inr (Some (name, roles, args_read)))))"

section \<open>Accounts\<close>

text \<open>
  The loop over the loaded tables: all writable entries across the tables, then all read-only ones. Running off the
  end is the \<open>unreachable!\<close> of the code.
\<close>

fun loaded_entry :: "(bool \<times> AddressTableLookup) list \<Rightarrow> nat \<Rightarrow> (bool \<times> Pubkey \<times> u8) option" where
  "loaded_entry [] loaded_index = None"
| "loaded_entry ((writable, table) # tables) loaded_index =
     (let indices = (if writable then lk_writable_indices table else lk_readonly_indices table) in
      case get_at indices loaded_index of
        Some entry \<Rightarrow> Some (writable, lk_table table, entry)
      | None \<Rightarrow> loaded_entry tables (loaded_index - length indices))"

text \<open>\<open>signed - readonly\<close> and \<open>len - readonly\<close> panic below zero, as \<open>checked_sub\<close> with \<open>unwrap\<close>.\<close>

definition usize_sub :: "nat \<Rightarrow> nat \<Rightarrow> 'e fault + nat" where
  "usize_sub a b = (if b \<le> a then Inr (a - b) else Inl Panic)"

definition account :: "crypto_env \<Rightarrow> ParsedMessage \<Rightarrow> u8 \<Rightarrow> string \<Rightarrow> ClearParseError fault + AccountReading" where
  "account env parsed index role =
     (let message = pm_message parsed; signed = unat (num_required_signatures (header message)) in
      case get_at (account_keys message) (unat index) of
        Some address \<Rightarrow>
          (let signer = unat index < signed in
           and_then (if signer then usize_sub signed (unat (num_readonly_signed_accounts (header message)))
             else usize_sub (length (account_keys message)) (unat (num_readonly_unsigned_accounts (header message)))) (\<lambda>bound.
           Inr \<lparr>ar_index = index, ar_role = role, ar_address = Some address, ar_lookup = None,
             ar_signer = signer, ar_writable = unat index < bound\<rparr>))
      | None \<Rightarrow>
          (case loaded_entry (map (Pair True) (pm_lookups parsed) @ map (Pair False) (pm_lookups parsed))
              (unat index - length (account_keys message)) of
             Some (writable, table, entry) \<Rightarrow>
               Inr \<lparr>ar_index = index, ar_role = role, ar_address = None,
                 ar_lookup = Some (ce_base58 env table @ ''['' @ decimal (unat entry) @ '']''),
                 ar_signer = False, ar_writable = writable\<rparr>
           | None \<Rightarrow> Inl Panic))"

section \<open>Messages\<close>

fun read_accounts :: "crypto_env \<Rightarrow> ParsedMessage \<Rightarrow> string list \<Rightarrow> nat \<Rightarrow> u8 list \<Rightarrow> ClearParseError fault + AccountReading list" where
  "read_accounts env parsed roles position [] = Inr []"
| "read_accounts env parsed roles position (index # indices) =
     and_then (account env parsed index (case get_at roles position of Some role \<Rightarrow> role
       | None \<Rightarrow> ''remaining account '' @ decimal (position + 1))) (\<lambda>reading.
     and_then (read_accounts env parsed roles (position + 1) indices) (\<lambda>readings. Inr (reading # readings)))"

text \<open>The \<open>match decoded\<close> of \<open>inspect\<close>: name, roles, fields and warning.\<close>

definition attributed :: "string + Decoded option \<Rightarrow> nat \<Rightarrow> string option \<times> string list \<times> Field list \<times> string option" where
  "attributed decoded accounts = (case decoded of
     Inr (Some (name, roles, args_read)) \<Rightarrow>
       if length roles \<le> accounts then (Some name, roles, args_read, None)
       else (None, [], [], Some ''Instruction has fewer accounts than its published layout; roles and arguments are not attributed.'')
   | Inr None \<Rightarrow> (None, [], [], Some ''No compiled reading for this program/instruction; exact bytes and account roles are retained.'')
   | Inl reason \<Rightarrow> (None, [], [], Some reason))"

definition read_instruction_of :: "crypto_env \<Rightarrow> ParsedMessage \<Rightarrow> CompiledInstruction \<Rightarrow> ClearParseError fault + InstructionReading" where
  "read_instruction_of env parsed ix =
     and_then (ok_or (get_at (account_keys (pm_message parsed)) (unat (program_id_index ix))) Panic) (\<lambda>program.
     let (name, roles, args_read, warning) = attributed (decode_instruction env program (ix_data ix)) (length (ix_accounts ix)) in
     and_then (read_accounts env parsed roles 0 (ix_accounts ix)) (\<lambda>accounts.
     Inr \<lparr>ir_program = program, ir_name = name, ir_accounts = accounts, ir_fields = args_read,
       ir_data_hex = ce_hex env (ix_data ix), ir_warning = warning\<rparr>))"

fun read_instructions :: "crypto_env \<Rightarrow> ParsedMessage \<Rightarrow> CompiledInstruction list \<Rightarrow> ClearParseError fault + InstructionReading list" where
  "read_instructions env parsed [] = Inr []"
| "read_instructions env parsed (ix # ixs) =
     and_then (read_instruction_of env parsed ix) (\<lambda>reading.
     and_then (read_instructions env parsed ixs) (\<lambda>readings. Inr (reading # readings)))"

definition inspect_warnings :: "ParsedMessage \<Rightarrow> string list" where
  "inspect_warnings parsed =
     [''Structural reading: program code, token identity/decimals, account state, CPI effects and settlement are unverified.'',
      ''Cluster, blockhash freshness and base fees are not established by this message.'']
     @ (if pm_lookups parsed \<noteq> [] then [''Lookup addresses remain unresolved; the message binds table/index references.''] else [])"

definition inspect :: "crypto_env \<Rightarrow> bytes \<Rightarrow> ClearParseError fault + MessageReading" where
  "inspect env bytes =
     and_then (map_err Fault (parse_versioned_message bytes)) (\<lambda>parsed.
     and_then (read_instructions env parsed (instructions (pm_message parsed))) (\<lambda>readings.
     and_then (ok_or (get_at (account_keys (pm_message parsed)) 0) Panic) (\<lambda>payer.
     and_then (ok_or (get_range (account_keys (pm_message parsed)) 0 (unat (num_required_signatures (header (pm_message parsed))))) Panic) (\<lambda>signers.
     Inr \<lparr>mr_version = pm_version parsed, mr_fee_payer = payer, mr_signers = signers,
       mr_recent_blockhash = ce_base58 env (recent_blockhash (pm_message parsed)),
       mr_payload_sha256 = ce_hex env (ce_sha256 env bytes),
       mr_blockhash_independent_sha256 = ce_hex env (blockhash_independent_digest (ce_sha256 env) parsed),
       mr_instructions = readings, mr_warnings = inspect_warnings parsed\<rparr>))))"

section \<open>Accounts are resolved as the runtime resolves them\<close>

text \<open>
  The account list of a message: its static keys, then the writable entries of all tables, then the read-only ones. A
  static account signs when it is among the required signatures, and is writable when it is before the read-only ones
  of its group.
\<close>

datatype AccountRef = StaticAccount Pubkey bool bool | LoadedAccount bool Pubkey u8

definition static_writable :: "LegacyMessage \<Rightarrow> nat \<Rightarrow> bool" where
  "static_writable m i \<longleftrightarrow>
     (let signed = unat (num_required_signatures (header m)) in
      i < signed - unat (num_readonly_signed_accounts (header m))
      \<or> (signed \<le> i \<and> i < length (account_keys m) - unat (num_readonly_unsigned_accounts (header m))))"

definition static_accounts :: "LegacyMessage \<Rightarrow> AccountRef list" where
  "static_accounts m = map (\<lambda>i. StaticAccount (account_keys m ! i)
     (i < unat (num_required_signatures (header m))) (static_writable m i)) [0..<length (account_keys m)]"

definition lookup_entries :: "bool \<Rightarrow> AddressTableLookup list \<Rightarrow> AccountRef list" where
  "lookup_entries writable ls = concat (map (\<lambda>l. map (LoadedAccount writable (lk_table l))
     (if writable then lk_writable_indices l else lk_readonly_indices l)) ls)"

definition account_table :: "ParsedMessage \<Rightarrow> AccountRef list" where
  "account_table p = static_accounts (pm_message p) @ lookup_entries True (pm_lookups p) @ lookup_entries False (pm_lookups p)"

fun ref_reading :: "crypto_env \<Rightarrow> u8 \<Rightarrow> string \<Rightarrow> AccountRef \<Rightarrow> AccountReading" where
  "ref_reading env index role (StaticAccount key signer writable) =
     \<lparr>ar_index = index, ar_role = role, ar_address = Some key, ar_lookup = None, ar_signer = signer, ar_writable = writable\<rparr>"
| "ref_reading env index role (LoadedAccount writable table entry) =
     \<lparr>ar_index = index, ar_role = role, ar_address = None,
       ar_lookup = Some (ce_base58 env table @ ''['' @ decimal (unat entry) @ '']''), ar_signer = False, ar_writable = writable\<rparr>"

fun entry_ref :: "bool \<times> Pubkey \<times> u8 \<Rightarrow> AccountRef" where
  "entry_ref (writable, table, entry) = LoadedAccount writable table entry"

definition table_entries :: "(bool \<times> AddressTableLookup) list \<Rightarrow> (bool \<times> Pubkey \<times> u8) list" where
  "table_entries ts = concat (map (\<lambda>(writable, l). map (\<lambda>e. (writable, lk_table l, e))
     (if writable then lk_writable_indices l else lk_readonly_indices l)) ts)"

lemma loaded_entry_nth: "loaded_entry ts k = get_at (table_entries ts) k"
proof (induction ts arbitrary: k)
  case Nil
  then show ?case by (simp add: table_entries_def get_at_def)
next
  case (Cons t ts)
  obtain w l where t: "t = (w, l)" by (cases t)
  let ?is = "if w then lk_writable_indices l else lk_readonly_indices l"
  have e: "table_entries (t # ts) = map (\<lambda>e. (w, lk_table l, e)) ?is @ table_entries ts" by (simp add: t table_entries_def)
  show ?case
  proof (cases "k < length ?is")
    case True
    then show ?thesis unfolding e by (simp add: t get_at_def nth_append Let_def)
  next
    case False
    then have "loaded_entry (t # ts) k = loaded_entry ts (k - length ?is)" unfolding t by (simp add: get_at_def Let_def)
    also have "\<dots> = get_at (table_entries (t # ts)) k" using False unfolding Cons e by (cases w) (auto simp: get_at_def nth_append)
    finally show ?thesis .
  qed
qed

lemma table_entries_refs:
  "map entry_ref (table_entries (map (Pair True) ls @ map (Pair False) ls)) = lookup_entries True ls @ lookup_entries False ls"
  by (simp add: table_entries_def lookup_entries_def map_concat comp_def)

lemma length_account_table: "length (account_table p) = length (account_keys (pm_message p)) + loaded_accounts (pm_lookups p)"
proof -
  have "length (lookup_entries True ls) + length (lookup_entries False ls) = loaded_accounts ls" for ls
    by (induction ls) (simp_all add: lookup_entries_def loaded_accounts_def)
  then show ?thesis by (simp add: account_table_def static_accounts_def)
qed

lemma sanitize_loadedD:
  assumes "sanitize_loaded m n = Inr ()"
  shows "unat (num_readonly_signed_accounts (header m)) < unat (num_required_signatures (header m))"
    "unat (num_required_signatures (header m)) + unat (num_readonly_unsigned_accounts (header m)) \<le> length (account_keys m)"
    "check_loaded_instructions (length (account_keys m)) n (instructions m) = Inr ()"
  using assms by (auto simp: sanitize_loaded_def word_less_nat_alt not_le not_less split: if_splits)

lemma account_resolves:
  assumes s: "sanitize_loaded (pm_message p) n = Inr ()" and i: "unat index < length (account_table p)"
  shows "account env p index role = Inr (ref_reading env index role (account_table p ! unat index))"
proof -
  let ?m = "pm_message p" and ?es = "table_entries (map (Pair True) (pm_lookups p) @ map (Pair False) (pm_lookups p))"
  note b = sanitize_loadedD [OF s]
  show ?thesis
  proof (cases "unat index < length (account_keys ?m)")
    case True
    then have t: "account_table p ! unat index = StaticAccount (account_keys ?m ! unat index)
        (unat index < unat (num_required_signatures (header ?m))) (static_writable ?m (unat index))"
      by (simp add: account_table_def static_accounts_def nth_append)
    from True b show ?thesis
      unfolding t by (auto simp: account_def Let_def get_at_def usize_sub_def static_writable_def)
  next
    case False
    let ?k = "unat index - length (account_keys ?m)"
    have len: "length (static_accounts ?m) = length (account_keys ?m)" by (simp add: static_accounts_def)
    have es: "map entry_ref ?es = lookup_entries True (pm_lookups p) @ lookup_entries False (pm_lookups p)" by (rule table_entries_refs)
    have k: "?k < length ?es" using i False len arg_cong [OF es, of length] by (simp add: account_table_def)
    have t: "account_table p ! unat index = entry_ref (?es ! ?k)"
      unfolding account_table_def es [symmetric] using False k len by (simp add: nth_append)
    obtain w tb e where x: "?es ! ?k = (w, tb, e)" by (cases "?es ! ?k")
    have "get_at ?es ?k = Some (w, tb, e)" using k by (simp add: get_at_def x)
    then show ?thesis using False unfolding t x by (simp add: account_def Let_def get_at_def [of "account_keys ?m"] loaded_entry_nth)
  qed
qed

section \<open>Reading never panics\<close>

text \<open>What a reading of instructions says of the message it was made from.\<close>

definition accounts_read :: "crypto_env \<Rightarrow> ParsedMessage \<Rightarrow> u8 list \<Rightarrow> AccountReading list \<Rightarrow> bool" where
  "accounts_read env p indices as \<longleftrightarrow>
     list_all2 (\<lambda>index a. a = ref_reading env index (ar_role a) (account_table p ! unat index)) indices as"

definition instruction_read :: "crypto_env \<Rightarrow> ParsedMessage \<Rightarrow> CompiledInstruction \<Rightarrow> InstructionReading \<Rightarrow> bool" where
  "instruction_read env p ix r \<longleftrightarrow>
     ir_program r = account_keys (pm_message p) ! unat (program_id_index ix) \<and> ir_data_hex r = ce_hex env (ix_data ix)
     \<and> accounts_read env p (ix_accounts ix) (ir_accounts r)
     \<and> (ir_name r, map ar_role (ir_accounts r), ir_fields r, ir_warning r)
        = (let (name, roles, fs, warning) = attributed (decode_instruction env (ir_program r) (ix_data ix)) (length (ix_accounts ix)) in
           (name, map (\<lambda>k. case get_at roles k of Some role \<Rightarrow> role | None \<Rightarrow> ''remaining account '' @ decimal (k + 1))
              [0..<length (ix_accounts ix)], fs, warning))"

definition reading_faithful :: "crypto_env \<Rightarrow> bytes \<Rightarrow> ParsedMessage \<Rightarrow> MessageReading \<Rightarrow> bool" where
  "reading_faithful env bytes p r \<longleftrightarrow>
     mr_version r = pm_version p \<and> mr_fee_payer r = fee_payer (pm_message p)
     \<and> mr_signers r = take (unat (num_required_signatures (header (pm_message p)))) (account_keys (pm_message p))
     \<and> mr_recent_blockhash r = ce_base58 env (recent_blockhash (pm_message p))
     \<and> mr_payload_sha256 r = ce_hex env (ce_sha256 env bytes)
     \<and> mr_blockhash_independent_sha256 r = ce_hex env (blockhash_independent_digest (ce_sha256 env) p)
     \<and> list_all2 (instruction_read env p) (instructions (pm_message p)) (mr_instructions r)
     \<and> mr_warnings r = inspect_warnings p"

lemma check_loaded_indices_all: "check_loaded_indices n as = Inr () \<longleftrightarrow> list_all (\<lambda>a. unat a < n) as"
  by (induction as) auto

lemma check_loaded_instructions_all:
  "check_loaded_instructions n loaded ixs = Inr () \<longleftrightarrow>
     list_all (\<lambda>ix. unat (program_id_index ix) < n \<and> program_id_index ix \<noteq> 0 \<and> list_all (\<lambda>a. unat a < n + loaded) (ix_accounts ix)) ixs"
  by (induction ixs) (auto simp: and_then_eq_Inr check_loaded_indices_all)

lemma role_ref_reading [simp]: "ar_role (ref_reading env index role ref) = role"
  by (cases ref) simp_all

lemma read_accounts_ok:
  assumes "sanitize_loaded (pm_message p) n = Inr ()" and "list_all (\<lambda>a. unat a < length (account_table p)) as"
  shows "\<exists>rs. read_accounts env p roles position as = Inr rs \<and> accounts_read env p as rs
    \<and> map ar_role rs = map (\<lambda>k. case get_at roles k of Some role \<Rightarrow> role | None \<Rightarrow> ''remaining account '' @ decimal (k + 1)) [position..<position + length as]"
  using assms(2)
proof (induction as arbitrary: position)
  case Nil
  then show ?case by (simp add: accounts_read_def)
next
  case (Cons a as)
  from Cons.prems have "list_all (\<lambda>a. unat a < length (account_table p)) as" by simp
  from Cons.IH [OF this, of "position + 1"] obtain rs where rs: "read_accounts env p roles (position + 1) as = Inr rs" "accounts_read env p as rs"
    "map ar_role rs = map (\<lambda>k. case get_at roles k of Some role \<Rightarrow> role | None \<Rightarrow> ''remaining account '' @ decimal (k + 1)) [position + 1..<position + 1 + length as]"
    by blast
  have up: "[position..<position + length (a # as)] = position # [position + 1..<position + 1 + length as]"
    by (simp add: upt_conv_Cons del: upt_Suc)
  from Cons.prems have a: "unat a < length (account_table p)" by simp
  show ?case unfolding up using rs account_resolves [OF assms(1) a] by (simp add: accounts_read_def)
qed

lemma accounts_read_length: "accounts_read env p is rs \<Longrightarrow> length rs = length is"
  by (auto simp: accounts_read_def dest: list_all2_lengthD)

lemma read_instruction_ok:
  assumes s: "sanitize_loaded (pm_message p) (loaded_accounts (pm_lookups p)) = Inr ()" and ix: "ix \<in> set (instructions (pm_message p))"
  shows "\<exists>r. read_instruction_of env p ix = Inr r \<and> instruction_read env p ix r"
proof -
  let ?keys = "account_keys (pm_message p)" and ?i = "unat (program_id_index ix)"
  have c: "?i < length ?keys" "list_all (\<lambda>a. unat a < length (account_table p)) (ix_accounts ix)"
    using sanitize_loadedD(3) [OF s] ix by (auto simp: check_loaded_instructions_all list_all_iff length_account_table)
  obtain name roles fs warning where
    d: "attributed (decode_instruction env (?keys ! ?i) (ix_data ix)) (length (ix_accounts ix)) = (name, roles, fs, warning)"
    by (metis prod_cases4)
  obtain rs where rs: "read_accounts env p roles 0 (ix_accounts ix) = Inr rs" "accounts_read env p (ix_accounts ix) rs"
    "map ar_role rs = map (\<lambda>k. case get_at roles k of Some role \<Rightarrow> role | None \<Rightarrow> ''remaining account '' @ decimal (k + 1)) [0..<0 + length (ix_accounts ix)]"
    using read_accounts_ok [OF s c(2), of env roles 0] by blast
  have g: "get_at ?keys ?i = Some (?keys ! ?i)" using c(1) by (simp add: get_at_def)
  show ?thesis using rs d g by (auto simp: read_instruction_of_def instruction_read_def)
qed

lemma read_instructions_ok:
  assumes "sanitize_loaded (pm_message p) (loaded_accounts (pm_lookups p)) = Inr ()" and "set ixs \<subseteq> set (instructions (pm_message p))"
  shows "\<exists>rs. read_instructions env p ixs = Inr rs \<and> list_all2 (instruction_read env p) ixs rs"
  using assms(2)
proof (induction ixs)
  case (Cons ix ixs)
  then obtain rs where "read_instructions env p ixs = Inr rs" "list_all2 (instruction_read env p) ixs rs" by auto
  moreover obtain r where "read_instruction_of env p ix = Inr r" "instruction_read env p ix r"
    using read_instruction_ok [OF assms(1), of ix env] Cons.prems by auto
  ultimately show ?case by simp
qed simp

lemma inspect_ok:
  assumes p: "parse_versioned_message bytes = Inr p"
  shows "\<exists>r. inspect env bytes = Inr r \<and> reading_faithful env bytes p r"
proof -
  have wf: "wf_parsed p" using parse_versioned_dec [OF p] by simp
  then have s: "sanitize_loaded (pm_message p) (loaded_accounts (pm_lookups p)) = Inr ()" by (simp add: wf_parsed_def)
  note a = wf_parsed_accounts [OF wf]
  obtain rs where rs: "read_instructions env p (instructions (pm_message p)) = Inr rs"
    "list_all2 (instruction_read env p) (instructions (pm_message p)) rs"
    using read_instructions_ok [OF s, of _ env] by blast
  have "get_at (account_keys (pm_message p)) 0 = Some (fee_payer (pm_message p))" using a(1) by (simp add: get_at_def fee_payer_def)
  moreover have "get_range (account_keys (pm_message p)) 0 (unat (num_required_signatures (header (pm_message p))))
    = Some (take (unat (num_required_signatures (header (pm_message p)))) (account_keys (pm_message p)))"
    using a(6) by (simp add: get_range_def)
  ultimately show ?thesis using p rs by (simp add: inspect_def reading_faithful_def)
qed

text \<open>C26. Reading a message never panics. A message the parser refuses is refused with its error; of any other the reading names
the fee payer and the signers, and for every instruction the program, the bytes and, for every account
reference, the address or table entry with the signer and writable flags that the account list of the message has at
that index.\<close>

theorem reading_is_faithful:
  "case parse_versioned_message bytes of
     Inl e \<Rightarrow> inspect env bytes = Inl (Fault e)
   | Inr p \<Rightarrow> \<exists>r. inspect env bytes = Inr r \<and> reading_faithful env bytes p r"
  using inspect_ok by (auto simp: inspect_def split: sum.split)

end
