(* ===== verification/ReadingSafety.thy ===== *)
theory ReadingSafety
  imports ClearReading
begin

text \<open>
  What the owner can trust of a reading: a message that the native transfer verifier
  accepts is read as exactly that transfer, and the values shown are plain text.
\<close>

section \<open>Native transfers are read as transfers\<close>

lemma system_program_not_catalogued: "find (\<lambda>p. cp_address p = SYSTEM_PROGRAM_ID) catalog = None"
  by (auto simp: find_None_iff catalog_def Pump_program_def PumpSwap_program_def SYSTEM_PROGRAM_ID_def dest!: arg_cong [where f = hd])

lemma decode_transfer:
  assumes "ce_base58 env SYSTEM_PROGRAM_ID = SYSTEM"
  shows "decode_instruction env SYSTEM_PROGRAM_ID (transfer_data lamports)
    = Inr (Some (''System'' @ MIDDOT @ ''transfer'', [''source'', ''destination''],
        [\<lparr>fd_name = ''lamports'', fd_value = u64_to_string lamports\<rparr>]))"
proof -
  have u: "unat lamports mod 18446744073709551616 = unat lamports"
    using unsigned_less [of lamports, where 'a = nat] by simp
  show ?thesis
    by (simp add: decode_instruction_def system_program_not_catalogued assms decode_layout_def decode_system_def
        transfer_data_def TRANSFER_OPCODE_def cursor_uint_def cursor_take_def cursor_field_def u from_le_le_bytes cursor_finish_def u64_to_string_def)
qed

definition transfer_reading :: "crypto_env \<Rightarrow> Pubkey \<Rightarrow> Pubkey \<Rightarrow> u64 \<Rightarrow> InstructionReading" where
  "transfer_reading env payer destination lamports =
     \<lparr>ir_program = SYSTEM_PROGRAM_ID, ir_name = Some (''System'' @ MIDDOT @ ''transfer''),
      ir_accounts = [\<lparr>ar_index = 0, ar_role = ''source'', ar_address = Some payer, ar_lookup = None, ar_signer = True, ar_writable = True\<rparr>,
        \<lparr>ar_index = 1, ar_role = ''destination'', ar_address = Some destination, ar_lookup = None, ar_signer = False, ar_writable = True\<rparr>],
      ir_fields = [\<lparr>fd_name = ''lamports'', fd_value = u64_to_string lamports\<rparr>],
      ir_data_hex = ce_hex env (transfer_data lamports), ir_warning = None\<rparr>"

lemma transfer_message_parses:
  assumes m: "transfer_message payer destination lamports blockhash = Inr m" and wf: "wf_message m"
    and len: "length (serialize m) \<le> 1167"
  shows "parse_versioned_message (serialize m) = Inr \<lparr>pm_version = None, pm_message = m, pm_lookups = []\<rparr>"
proof -
  let ?p = "\<lparr>pm_version = None, pm_message = m, pm_lookups = []\<rparr>"
  have "sanitize_loaded m 0 = Inr ()" using m by (auto simp: transfer_message_def sanitize_loaded_def split: if_splits)
  moreover have "num_required_signatures (header m) = 1" using m by (auto simp: transfer_message_def split: if_splits)
  ultimately have "wf_parsed ?p"
    using wf len by (simp add: wf_parsed_def wf_message_def serialize_parsed_def PACKET_DATA_SIZE_def)
  from parse_versioned_enc [OF this] show ?thesis by (simp add: serialize_parsed_def)
qed

lemma transfer_message_read:
  assumes b: "ce_base58 env SYSTEM_PROGRAM_ID = SYSTEM" and m: "transfer_message payer destination lamports blockhash = Inr m"
    and wf: "wf_message m" and len: "length (serialize m) \<le> 1167"
  shows "\<exists>r. inspect env (serialize m) = Inr r \<and> mr_fee_payer r = payer \<and> mr_signers r = [payer]
    \<and> mr_instructions r = [transfer_reading env payer destination lamports]"
proof -
  let ?p = "\<lparr>pm_version = None, pm_message = m, pm_lookups = []\<rparr>"
  note p = transfer_message_parses [OF m wf len]
  have e: "m = \<lparr>header = \<lparr>num_required_signatures = 1, num_readonly_signed_accounts = 0, num_readonly_unsigned_accounts = 1\<rparr>,
      account_keys = [payer, destination, SYSTEM_PROGRAM_ID], recent_blockhash = blockhash,
      instructions = [\<lparr>program_id_index = 2, ix_accounts = [0, 1], ix_data = transfer_data lamports\<rparr>]\<rparr>"
    using m by (auto simp: transfer_message_def split: if_splits)
  have "read_instruction_of env ?p \<lparr>program_id_index = 2, ix_accounts = [0, 1], ix_data = transfer_data lamports\<rparr>
      = Inr (transfer_reading env payer destination lamports)"
    unfolding e by (simp add: read_instruction_of_def get_at_def decode_transfer [OF b] attributed_def account_def Let_def usize_sub_def transfer_reading_def)
  then show ?thesis unfolding inspect_def p using e by (simp add: get_at_def get_range_def)
qed

text \<open>C27. The two independent readers agree: a message that the native transfer verifier accepts for a payer, a destination and an
amount is read for the owner as one system transfer, from the payer who signs and pays the fee to the destination, of that many
lamports. The base58 text of the system program is its known one.\<close>

theorem native_transfers_are_read:
  assumes "verify_native_transfer sha256 b58 message_bytes payer destination lamports claimed = Inr v"
    and "ce_base58 env SYSTEM_PROGRAM_ID = SYSTEM"
  shows "\<exists>r. inspect env message_bytes = Inr r \<and> mr_fee_payer r = payer \<and> mr_signers r = [payer]
    \<and> mr_instructions r = [transfer_reading env payer destination lamports]"
proof -
  from verify_native_transfer_sound [OF assms(1)] obtain blockhash m where
    "transfer_message payer destination lamports blockhash = Inr m" "wf_message m" "length (serialize m) \<le> 1167" "message_bytes = serialize m"
    by blast
  with transfer_message_read [OF assms(2) this(1-3)] show ?thesis by simp
qed

definition system_crypto :: crypto_env where
  "system_crypto = sample_crypto\<lparr>ce_base58 := \<lambda>b. if b = SYSTEM_PROGRAM_ID then SYSTEM else ''key''\<rparr>"

lemma sample_transfer_verifies:
  "\<exists>m. transfer_message (replicate 32 1) (replicate 32 2) 5 (replicate 32 7) = Inr m
    \<and> verify_native_transfer id (\<lambda>_. ''key'') (serialize m) (replicate 32 1) (replicate 32 2) 5 None
      = Inr (transfer_facts id (\<lambda>_. ''key'') (serialize m) (replicate 32 1) (replicate 32 2) 5 (replicate 32 7))"
proof -
  obtain m where m: "transfer_message (replicate 32 1) (replicate 32 2) 5 (replicate 32 7) = Inr m"
    by (simp add: transfer_message_def)
  with verify_native_transfer_complete [OF _ _ _ m, of None id "\<lambda>_. ''key''"] show ?thesis by (auto simp: SYSTEM_PROGRAM_ID_def)
qed

theorem native_transfers_are_read_witness:
  "\<exists>m r. transfer_message (replicate 32 1) (replicate 32 2) 5 (replicate 32 7) = Inr m \<and> inspect system_crypto (serialize m) = Inr r
    \<and> mr_fee_payer r = replicate 32 1 \<and> mr_instructions r = [transfer_reading system_crypto (replicate 32 1) (replicate 32 2) 5]"
proof -
  obtain m where m: "transfer_message (replicate 32 1) (replicate 32 2) 5 (replicate 32 7) = Inr m"
    and v: "verify_native_transfer id (\<lambda>_. ''key'') (serialize m) (replicate 32 1) (replicate 32 2) 5 None
      = Inr (transfer_facts id (\<lambda>_. ''key'') (serialize m) (replicate 32 1) (replicate 32 2) 5 (replicate 32 7))"
    using sample_transfer_verifies by blast
  from native_transfers_are_read [OF v, of system_crypto] m show ?thesis by (auto simp: system_crypto_def)
qed

section \<open>Values shown are plain text\<close>

text \<open>Well-formed UTF-8 with no control character and no bidirectional mark.\<close>

definition plain_text :: "string \<Rightarrow> bool" where
  "plain_text s \<longleftrightarrow> (case utf8_decode (str_bytes s) of None \<Rightarrow> False | Some cs \<Rightarrow> list_all (\<lambda>c. \<not> hidden c) cs)"

definition plain_char :: "nat \<Rightarrow> bool" where
  "plain_char c \<longleftrightarrow> scalar_value c \<and> \<not> hidden c"

lemma str_bytes_bytes_str [simp]: "str_bytes (bytes_str bs) = bs"
proof (induction bs)
  case (Cons b bs)
  have "(of_char (char_of (unat b) :: char) :: u8) = of_nat (of_char (char_of (unat b) :: char) :: nat)" by (simp only: of_nat_of_char)
  also have "\<dots> = b" using unsigned_less [of b, where 'a = nat] by simp
  finally show ?case using Cons by (simp add: str_bytes_def bytes_str_def)
qed (simp add: str_bytes_def bytes_str_def)

lemma plain_encoded:
  assumes "list_all plain_char cs"
  shows "plain_text (bytes_str (concat (map utf8_encode cs)))"
proof -
  have "utf8_decode (concat (map utf8_encode cs)) = Some cs"
    using assms by (intro utf8_decode_encode) (simp add: list_all_iff plain_char_def)
  then show ?thesis using assms by (simp add: plain_text_def plain_char_def list_all_iff)
qed

lemma plain_printable: "0x20 \<le> c \<Longrightarrow> c < 0x7F \<Longrightarrow> plain_char c"
  by (simp add: plain_char_def scalar_value_def hidden_def)

lemma plain_ascii:
  assumes "list_all (\<lambda>c. 0x20 \<le> (of_char c :: nat) \<and> (of_char c :: nat) < 0x7F) s"
  shows "plain_text s"
proof -
  have "s = bytes_str (concat (map utf8_encode (map of_char s)))"
    using assms by (induction s) (simp_all add: bytes_str_def utf8_encode_def unat_of_nat)
  moreover have "list_all plain_char (map of_char s)"
    using assms by (simp add: list_all_iff plain_printable)
  ultimately show ?thesis using plain_encoded by metis
qed

lemma plain_decimal: "plain_text (decimal n)"
proof (rule plain_ascii)
  show "list_all (\<lambda>c. 0x20 \<le> (of_char c :: nat) \<and> (of_char c :: nat) < 0x7F) (decimal n)"
  proof (induction n rule: decimal.induct)
    case (1 n)
    have "n mod 10 < 79" using mod_less_divisor [of 10 n] by linarith
    with 1 show ?case by (subst decimal.simps) simp
  qed
qed

lemma hex_digits_plain: "list_all plain_char (hex_digits n)"
proof (induction n rule: hex_digits.induct)
  case (1 n)
  have d: "plain_char (if k < 10 then 48 + k else 87 + k)" if "k < 16" for k
    using that by (intro plain_printable) simp_all
  from 1 d [of n] d [of "n mod 16"] show ?case by (subst hex_digits.simps) simp
qed

lemma escape_plain: "list_all plain_char (escape_unicode c)"
  using hex_digits_plain by (simp add: escape_unicode_def plain_printable)

lemma visible_plain:
  assumes "list_all scalar_value cs"
  shows "plain_text (visible cs)"
proof -
  have "list_all plain_char (visible_chars cs)"
    using assms by (induction cs) (simp_all add: visible_chars_def escape_plain plain_char_def)
  then show ?thesis unfolding visible_def by (rule plain_encoded)
qed

lemmas cursor_defs = cursor_decimal_def cursor_bool_def cursor_pubkey_def cursor_string_def cursor_field_def

lemma cursor_scalar_plain:
  assumes b58: "\<forall>b. plain_text (ce_base58 env b)" and r: "cursor_scalar env kind data = Inr (text, rest)"
  shows "plain_text text"
proof -
  have "plain_text text" if "cursor_decimal n data = Inr (text, rest)" for n
    using that plain_decimal by (auto simp: cursor_decimal_def and_then_eq_Inr)
  moreover have "plain_text text" if "cursor_bool data = Inr (text, rest)"
    using that plain_ascii by (auto simp: cursor_bool_def and_then_eq_Inr split: if_splits)
  moreover have "plain_text text" if "cursor_pubkey env data = Inr (text, rest)"
    using that b58 by (auto simp: cursor_pubkey_def and_then_eq_Inr)
  moreover have "plain_text text" if "cursor_string data = Inr (text, rest)"
    using that visible_plain utf8_decode_scalar by (auto simp: cursor_string_def and_then_eq_Inr split: option.splits)
  ultimately show ?thesis using r unfolding cursor_scalar_def by (auto split: if_splits)
qed

lemma cursor_argument_plain:
  assumes "\<forall>b. plain_text (ce_base58 env b)" and "cursor_argument env kind data = Inr (text, rest)"
  shows "plain_text text"
proof -
  have "plain_text ''Not encoded; program determines the default''" by (rule plain_ascii) simp
  then show ?thesis
    using assms(2) cursor_scalar_plain [OF assms(1)] unfolding cursor_argument_def by (auto split: option.splits if_splits)
qed

lemma cursor_arguments_plain:
  assumes "\<forall>b. plain_text (ce_base58 env b)" and "cursor_arguments env args data = Inr (fs, rest)"
  shows "list_all (\<lambda>f. plain_text (fd_value f)) fs"
  using assms(2)
proof (induction args arbitrary: data fs rest)
  case (Cons a args)
  then show ?case using cursor_argument_plain [OF assms(1)] by (cases a) (auto simp: and_then_eq_Inr)
qed simp

lemma cursor_field_plain: "cursor_field name n data = Inr (f, rest) \<Longrightarrow> plain_text (fd_value f)"
  by (auto simp: cursor_field_def and_then_eq_Inr plain_decimal)

lemma cursor_pubkey_plain: "\<forall>b. plain_text (ce_base58 env b) \<Longrightarrow> cursor_pubkey env data = Inr (text, rest) \<Longrightarrow> plain_text text"
  by (auto simp: cursor_pubkey_def and_then_eq_Inr)

lemma decode_layout_plain:
  assumes "\<forall>b. plain_text (ce_base58 env b)" and "decode_layout env address data = Inr (Some (n, fs, rest))"
  shows "list_all (\<lambda>f. plain_text (fd_value f)) fs"
proof -
  have "list_all (\<lambda>f. plain_text (fd_value f)) fs" if "decode_system env data = Inr (Some (n, fs, rest))"
    using that cursor_field_plain cursor_pubkey_plain [OF assms(1)] by (auto simp: decode_system_def and_then_eq_Inr split: if_splits)
  moreover have "list_all (\<lambda>f. plain_text (fd_value f)) fs" if "decode_compute data = Inr (Some (n, fs, rest))"
    using that cursor_field_plain by (auto simp: decode_compute_def and_then_eq_Inr split: if_splits)
  moreover have "list_all (\<lambda>f. plain_text (fd_value f)) fs" if "decode_token data = Inr (Some (n, fs, rest))"
    using that cursor_field_plain by (auto simp: decode_token_def and_then_eq_Inr split: if_splits)
  moreover have "list_all (\<lambda>f. plain_text (fd_value f)) fs" if "decode_associated data = Inr (Some (n, fs, rest))"
    using that by (auto simp: decode_associated_def and_then_eq_Inr split: if_splits)
  ultimately show ?thesis using assms(2) unfolding decode_layout_def by (auto split: if_splits)
qed

lemma decode_instruction_plain:
  assumes "\<forall>b. plain_text (ce_base58 env b)" and "decode_instruction env program data = Inr (Some (name, roles, fs))"
  shows "list_all (\<lambda>f. plain_text (fd_value f)) fs"
proof (cases "find (\<lambda>p. cp_address p = program) catalog")
  case None
  then show ?thesis using assms decode_layout_plain [OF assms(1)]
    by (auto simp: decode_instruction_def and_then_eq_Inr split: option.splits prod.splits)
next
  case (Some known)
  then show ?thesis using assms(2) cursor_arguments_plain [OF assms(1)]
    by (auto simp: decode_instruction_def decode_catalogued_def and_then_eq_Inr split: option.splits)
qed

lemma attributed_fields:
  "attributed decoded n = (name, roles, fs, warning) \<Longrightarrow> fs = [] \<or> (\<exists>name roles. decoded = Inr (Some (name, roles, fs)))"
  by (auto simp: attributed_def split: sum.splits option.splits prod.splits if_splits)

lemma instruction_read_plain:
  assumes "\<forall>b. plain_text (ce_base58 env b)" and "instruction_read env p ix r"
  shows "list_all (\<lambda>f. plain_text (fd_value f)) (ir_fields r)"
proof -
  obtain name roles fs warning where
    a: "attributed (decode_instruction env (ir_program r) (ix_data ix)) (length (ix_accounts ix)) = (name, roles, fs, warning)"
    by (metis prod_cases4)
  have "ir_fields r = fs" using assms(2) a by (simp add: instruction_read_def)
  then show ?thesis using attributed_fields [OF a] decode_instruction_plain [OF assms(1)] by auto
qed

text \<open>C28. Whatever the bytes of a message are, the argument values shown to the owner are well-formed text with no control
character and no bidirectional mark in it: strings of the message cannot forge or hide what surrounds them. That base58
prints plain text is the only thing assumed.\<close>

theorem values_shown_are_plain:
  assumes "\<forall>b. plain_text (ce_base58 env b)" and "inspect env bytes = Inr r" and "ix \<in> set (mr_instructions r)" and "f \<in> set (ir_fields ix)"
  shows "plain_text (fd_value f)"
proof -
  obtain p where p: "parse_versioned_message bytes = Inr p"
    using assms(2) by (auto simp: inspect_def and_then_eq_Inr)
  from inspect_ok [OF p, of env] assms(2) have "reading_faithful env bytes p r" by simp
  then obtain i where "instruction_read env p i ix"
    using assms(3) by (auto simp: reading_faithful_def list_all2_conv_all_nth in_set_conv_nth)
  from instruction_read_plain [OF assms(1) this] assms(4) show ?thesis by (simp add: list_all_iff)
qed

theorem values_shown_are_plain_witness:
  "\<exists>m r f. transfer_message (replicate 32 1) (replicate 32 2) 5 (replicate 32 7) = Inr m \<and> inspect system_crypto (serialize m) = Inr r
    \<and> (\<exists>ix \<in> set (mr_instructions r). f \<in> set (ir_fields ix)) \<and> fd_value f = ''5'' \<and> plain_text (fd_value f)"
proof -
  obtain m where m: "transfer_message (replicate 32 1) (replicate 32 2) 5 (replicate 32 7) = Inr m"
    using sample_transfer_verifies by blast
  have w: "wf_message m" "length (serialize m) \<le> 1167"
    using transfer_message_wf [OF m] length_serialize_bound [OF m] by simp_all
  obtain r where r: "inspect system_crypto (serialize m) = Inr r"
    "mr_instructions r = [transfer_reading system_crypto (replicate 32 1) (replicate 32 2) 5]"
    using transfer_message_read [OF _ m w, of system_crypto] by (auto simp: system_crypto_def)
  have p: "\<forall>b. plain_text (ce_base58 system_crypto b)"
    by (auto simp: system_crypto_def SYSTEM_def intro!: plain_ascii)
  let ?f = "\<lparr>fd_name = ''lamports'', fd_value = u64_to_string 5\<rparr>"
  have "plain_text (fd_value ?f)"
    using values_shown_are_plain [OF p r(1)] r(2) by (simp add: transfer_reading_def)
  moreover have "u64_to_string 5 = ''5''" by code_simp
  ultimately show ?thesis using m r by (intro exI [of _ m] exI [of _ r] exI [of _ ?f]) (simp add: transfer_reading_def)
qed

end
