(* ===== verification/ApprovalTerms.thy ===== *)
theory ApprovalTerms
  imports SolanaBinding Texts
begin

text \<open>
  The terms an owner seals (\<open>bloom-broker-api/src/approval.rs\<close>), with the key references (\<open>crypto.rs\<close>), the use
  claims (\<open>claims.rs\<close>) and the signing payloads (\<open>codec.rs\<close>) they are checked against. The lemmas show which
  derivation paths are accepted, what the validation of terms guarantees, and that an approval identifier stands
  for one set of terms.
\<close>

section \<open>Keys and suites (crypto.rs)\<close>

datatype KeySpec = Secp256k1 | Ed25519

datatype CryptoSuite = Secp256k1Keccak256Recoverable | Secp256k1Sha256Recoverable | Ed25519Message

fun suite_key_spec :: "CryptoSuite \<Rightarrow> KeySpec" where
  "suite_key_spec Secp256k1Keccak256Recoverable = Secp256k1"
| "suite_key_spec Secp256k1Sha256Recoverable = Secp256k1"
| "suite_key_spec Ed25519Message = Ed25519"

datatype CryptoInputKind = CI_Digest32 | CI_Message

fun input_kind :: "CryptoSuite \<Rightarrow> CryptoInputKind" where
  "input_kind Secp256k1Keccak256Recoverable = CI_Digest32"
| "input_kind Secp256k1Sha256Recoverable = CI_Digest32"
| "input_kind Ed25519Message = CI_Message"

datatype SignatureEncoding = Secp256k1Recoverable65 | Ed25519Raw64

fun signature_encoding :: "CryptoSuite \<Rightarrow> SignatureEncoding" where
  "signature_encoding Secp256k1Keccak256Recoverable = Secp256k1Recoverable65"
| "signature_encoding Secp256k1Sha256Recoverable = Secp256k1Recoverable65"
| "signature_encoding Ed25519Message = Ed25519Raw64"

datatype DerivationProfile = Bip44EvmSecp256k1V1 | Bip44SolanaSlip10Ed25519V1

fun profile_key_spec :: "DerivationProfile \<Rightarrow> KeySpec" where
  "profile_key_spec Bip44EvmSecp256k1V1 = Secp256k1"
| "profile_key_spec Bip44SolanaSlip10Ed25519V1 = Ed25519"

datatype DerivationRef =
    Bip32Secp256k1 Token string
  | Bip39Multicurve Token DerivationProfile string

record KeyRef =
  kr_backend :: Token
  kr_backend_instance :: Token
  kr_locator :: string
  kr_key_spec :: KeySpec
  kr_public_key_fingerprint :: Digest32
  kr_derivation :: "DerivationRef option"

text \<open>\<open>strip_suffix\<close> of the hardening mark.\<close>

definition strip_prime :: "string \<Rightarrow> string" where
  "strip_prime s = (if s \<noteq> [] \<and> last s = CHR 0x27 then butlast s else s)"

definition invalid_path :: ProtocolError where
  "invalid_path = error_new KeyrefMismatch ''noncanonical or unsupported BIP32 path''"

definition bad_child :: "string \<Rightarrow> bool" where
  "bad_child child \<longleftrightarrow> (let index = strip_prime child in
     index = [] \<or> (1 < length index \<and> hd index = CHR ''0'')
     \<or> (case unsigned_from_str 32 index of None \<Rightarrow> True | Some n \<Rightarrow> \<not> n < 2 ^ 31))"

definition validate_bip32_path :: "string \<Rightarrow> ProtocolError + unit" where
  "validate_bip32_path path =
     (case split_on CHR ''/'' path of
        [] \<Rightarrow> Inl invalid_path
      | first # children \<Rightarrow>
          if first \<noteq> ''m'' then Inl invalid_path
          else if children = [] \<or> 10 < length children then Inl invalid_path
          else if list_ex bad_child children then Inl invalid_path
          else Inr ())"

definition KEYREF_LOCATOR_MAX_BYTES :: nat where
  "KEYREF_LOCATOR_MAX_BYTES = 2 * 1024"

definition incompatible_derivation :: ProtocolError where
  "incompatible_derivation = error_new KeyrefMismatch ''derivation scheme is incompatible with key specification''"

definition validate_key_ref :: "KeyRef \<Rightarrow> ProtocolError + unit" where
  "validate_key_ref k =
     (if kr_locator k = [] \<or> KEYREF_LOCATOR_MAX_BYTES < length (kr_locator k)
      then Inl (error_new KeyrefMismatch ''KeyRef locator must contain 1-2048 UTF-8 bytes'')
      else case kr_derivation k of
        Some (Bip32Secp256k1 _ path) \<Rightarrow>
          if kr_key_spec k = Secp256k1 then validate_bip32_path path else Inl incompatible_derivation
      | Some (Bip39Multicurve _ profile path) \<Rightarrow>
          if profile_key_spec profile = kr_key_spec k then validate_bip32_path path else Inl incompatible_derivation
      | None \<Rightarrow> Inr ())"

section \<open>Terms (approval.rs)\<close>

datatype ApprovalSubject =
    SubjectPetal Digest32 string "string option"
  | SubjectCli Token Token
  | SubjectSystem Token Token

datatype ClaimAssuranceLevel = CL_MachineAsserted | CL_ProofVerified | CL_InvariantAttested

record PetalRouteGrant =
  rg_route :: string
  rg_allowed_operation_classes :: "Token list"
  rg_provenance_digest :: Digest32

datatype ApprovalSelector =
    SelectorExact (ordered_payload_digests: "Digest32 list") (ordered_hashes: "Digest32 list")
  | SelectorPetal (selector_hash: Digest32) (selector_route: string) (allowed_operation_classes: "Token list")
      (route_grants: "PetalRouteGrant list") (required_claim_assurance: ClaimAssuranceLevel)

record SlidingWindow =
  sw_maximum :: u64
  sw_duration_ms :: u64

record AssetId =
  as_chain :: Token
  as_asset :: string

record ValueWindow =
  vw_maximum :: DecimalU256
  vw_duration_ms :: u64

record ValueLimit =
  vl_asset :: AssetId
  vl_lifetime :: DecimalU256
  vl_rolling_windows :: "ValueWindow list"

record ApprovalLimits =
  al_max_operations :: u64
  al_max_signatures :: u64
  al_operation_rate_limits :: "SlidingWindow list"
  al_signature_rate_limits :: "SlidingWindow list"
  al_value_limits :: "ValueLimit list"

datatype ActivationMode = BootBound | DurableLocal Token u64 | BackendManaged

record SealedApprovalTerms =
  st_subject :: ApprovalSubject
  st_wallet_id :: Token
  st_key_ref :: KeyRef
  st_allowed_crypto_suites :: "CryptoSuite list"
  st_selector :: ApprovalSelector
  st_limits :: ApprovalLimits
  st_activation_mode :: ActivationMode
  st_wallet_revocation_epoch :: u64
  st_policy_version :: u64
  st_policy_digest :: Digest32
  st_provenance_digest :: Digest32
  st_request_nonce :: string
  st_issued_at_ms :: u64
  st_not_before_ms :: u64
  st_expires_at_ms :: u64
  st_renewal_of :: "Digest32 option"

text \<open>\<open>all_unique\<close> of \<open>validation.rs\<close>: each value is inserted into the set of those seen.\<close>

fun all_unique_from :: "'a set \<Rightarrow> 'a list \<Rightarrow> bool" where
  "all_unique_from seen [] \<longleftrightarrow> True"
| "all_unique_from seen (x # xs) \<longleftrightarrow> x \<notin> seen \<and> all_unique_from (insert x seen) xs"

definition all_unique :: "'a list \<Rightarrow> bool" where
  "all_unique xs \<longleftrightarrow> all_unique_from {} xs"

text \<open>The lexicographic order of the bytes of two texts.\<close>

fun bytes_less :: "string \<Rightarrow> string \<Rightarrow> bool" where
  "bytes_less [] [] \<longleftrightarrow> False"
| "bytes_less [] (_ # _) \<longleftrightarrow> True"
| "bytes_less (_ # _) [] \<longleftrightarrow> False"
| "bytes_less (x # xs) (y # ys) \<longleftrightarrow> (of_char x :: nat) < of_char y \<or> (x = y \<and> bytes_less xs ys)"

text \<open>\<open>windows(2).all(...)\<close>: the relation holds between neighbours.\<close>

fun neighbours :: "('a \<Rightarrow> 'a \<Rightarrow> bool) \<Rightarrow> 'a list \<Rightarrow> bool" where
  "neighbours r (x # y # zs) \<longleftrightarrow> r x y \<and> neighbours r (y # zs)"
| "neighbours r _ \<longleftrightarrow> True"

definition classes_are_canonical :: "Token list \<Rightarrow> bool" where
  "classes_are_canonical classes \<longleftrightarrow> classes \<noteq> [] \<and> neighbours bytes_less classes"

definition valid_route_grants :: "PetalRouteGrant list \<Rightarrow> string \<Rightarrow> Token list \<Rightarrow> Digest32 \<Rightarrow> bool" where
  "valid_route_grants grants primary_route primary_classes primary_provenance \<longleftrightarrow>
     grants = []
     \<or> (list_all (\<lambda>grant. rg_route grant \<noteq> [] \<and> classes_are_canonical (rg_allowed_operation_classes grant)) grants
        \<and> neighbours (\<lambda>a b. bytes_less (rg_route a) (rg_route b)) grants
        \<and> list_ex (\<lambda>grant. rg_route grant = primary_route \<and> rg_allowed_operation_classes grant = primary_classes
            \<and> rg_provenance_digest grant = primary_provenance) grants)"

definition validate_suites :: "CryptoSuite list \<Rightarrow> KeySpec \<Rightarrow> ProtocolError + unit" where
  "validate_suites suites key_spec =
     (if suites = [] \<or> 4 < length suites \<or> \<not> all_unique suites \<or> list_ex (\<lambda>suite. suite_key_spec suite \<noteq> key_spec) suites
      then Inl (error_new SuiteNotAllowed ''allowed CryptoSuites must contain 1-4 unique suites compatible with the KeyRef'')
      else Inr ())"

definition validate_limits :: "ApprovalLimits \<Rightarrow> ProtocolError + unit" where
  "validate_limits limits =
     (if al_max_operations limits = 0 \<or> al_max_signatures limits = 0
      then Inl (error_new LimitExceededOperations ''operation and signature limits must be greater than zero'')
      else if list_ex (\<lambda>window. sw_maximum window = 0 \<or> sw_duration_ms window = 0)
            (al_operation_rate_limits limits @ al_signature_rate_limits limits)
          \<or> list_ex (\<lambda>limit. as_asset (vl_asset limit) = [] \<or> list_ex (\<lambda>window. vw_duration_ms window = 0) (vl_rolling_windows limit))
            (al_value_limits limits)
      then Inl (error_new LimitExceededRate ''rate limits require positive maxima and durations'')
      else Inr ())"

definition selector_consistent :: "SealedApprovalTerms \<Rightarrow> bool" where
  "selector_consistent t \<longleftrightarrow> (case st_selector t of
     SelectorPetal hash route classes grants _ \<Rightarrow>
       (case st_subject t of
          SubjectPetal package_hash subject_route _ \<Rightarrow>
            package_hash = hash \<and> subject_route = route \<and> classes_are_canonical classes
            \<and> valid_route_grants grants route classes (st_provenance_digest t)
        | _ \<Rightarrow> False)
   | SelectorExact digests hashes \<Rightarrow>
       digests \<noteq> [] \<and> hashes \<noteq> [] \<and> al_max_operations (st_limits t) = 1
       \<and> al_max_signatures (st_limits t) = of_nat (length hashes))"

definition validate_terms :: "SealedApprovalTerms \<Rightarrow> ProtocolError + unit" where
  "validate_terms t =
     and_then (validate_key_ref (st_key_ref t)) (\<lambda>_.
     and_then (validate_suites (st_allowed_crypto_suites t) (kr_key_spec (st_key_ref t))) (\<lambda>_.
     and_then (validate_limits (st_limits t)) (\<lambda>_.
     if st_expires_at_ms t \<le> st_not_before_ms t \<or> st_expires_at_ms t < st_issued_at_ms t
     then Inl (error_new MalformedFrame ''approval validity interval is invalid'')
     else if \<not> selector_consistent t
     then Inl (error_new SelectorMismatch ''subject, selector, and count constraints are inconsistent'')
     else Inr ())))"

definition APPROVAL_DOMAIN :: bytes where
  "APPROVAL_DOMAIN = str_bytes ''bloom-sealed-approval-terms/v1''"

text \<open>The canonical JSON of terms (package \<open>serde_jcs\<close>) is the parameter \<open>jcs\<close>; its error is a text.\<close>

definition canonical_bytes :: "(SealedApprovalTerms \<Rightarrow> string + bytes) \<Rightarrow> SealedApprovalTerms \<Rightarrow> ProtocolError + bytes" where
  "canonical_bytes jcs t =
     and_then (validate_terms t) (\<lambda>_.
     map_err (\<lambda>e. error_new MalformedFrame (''approval JCS encoding failed: '' @ e)) (jcs t))"

definition approval_digest :: "crypto_env \<Rightarrow> (SealedApprovalTerms \<Rightarrow> string + bytes) \<Rightarrow> SealedApprovalTerms \<Rightarrow> ProtocolError + Digest32" where
  "approval_digest env jcs t = and_then (canonical_bytes jcs t) (\<lambda>bytes.
     Inr (ce_digest32_from_bytes env (ce_sha256 env (APPROVAL_DOMAIN @ bytes))))"

definition approval_id :: "crypto_env \<Rightarrow> (SealedApprovalTerms \<Rightarrow> string + bytes) \<Rightarrow> SealedApprovalTerms \<Rightarrow> ProtocolError + Digest32" where
  "approval_id env jcs t = approval_digest env jcs t"

definition MESSAGE_REVIEW_OPERATION_CLASSES :: "string list" where
  "MESSAGE_REVIEW_OPERATION_CLASSES =
     [''gasless.relay'', ''venice-x402.topup'', ''venice-x402.chat'', ''venice-x402.balance'', ''hyperliquid.approve_agent'',
      ''hyperliquid.usd_send'', ''hyperliquid.usd_class_transfer'', ''hyperliquid.withdraw'', ''hyperliquid.order'',
      ''hyperliquid.cancel'', ''hyperliquid.cancel_by_cloid'', ''hyperliquid.schedule_cancel'', ''hyperliquid.update_leverage'']"

definition message_review_requires_exact :: "string \<Rightarrow> bool" where
  "message_review_requires_exact cls \<longleftrightarrow> cls \<in> set MESSAGE_REVIEW_OPERATION_CLASSES
     \<or> cls = ''polymarket.order.poly1271'' \<or> cls = ''polymarket.relayer_batch'' \<or> cls = ''polymarket.onboard''"

section \<open>Use claims (claims.rs) and payloads (codec.rs)\<close>

record DeclaredDebit =
  dd_asset :: AssetId
  dd_amount :: DecimalU256

record DeclaredDestination =
  de_chain :: Token
  de_destination :: string

datatype DeclaredFee = FeeNone | Fee Token string DecimalU256

datatype ClaimAssurance =
    CA_MachineAsserted
  | CA_ProofVerified Token Digest32 Digest32
  | CA_InvariantAttested Token Digest32

fun assurance_level :: "ClaimAssurance \<Rightarrow> ClaimAssuranceLevel" where
  "assurance_level CA_MachineAsserted = CL_MachineAsserted"
| "assurance_level (CA_ProofVerified _ _ _) = CL_ProofVerified"
| "assurance_level (CA_InvariantAttested _ _) = CL_InvariantAttested"

record PetalUseClaim =
  pc_package_hash :: Digest32
  pc_route :: string
  pc_operation_class :: Token
  pc_crypto_suite :: CryptoSuite
  pc_payload_digest :: Digest32
  pc_ordered_hashes :: "Digest32 list"
  pc_declared_debits :: "DeclaredDebit list"
  pc_declared_destinations :: "DeclaredDestination list"
  pc_declared_fee :: DeclaredFee
  pc_nonce :: string
  pc_claim_assurance :: ClaimAssurance

datatype SigningPayloads = SinglePayload Base64UrlBytes | BatchPayloads "Base64UrlBytes list"

definition payload_limit :: "string \<Rightarrow> ProtocolError" where
  "payload_limit message = error_new LimitExceededFrame message"

fun check_children :: "(Base64UrlBytes \<Rightarrow> bytes) \<Rightarrow> Base64UrlBytes list \<Rightarrow> nat \<Rightarrow> ProtocolError + nat" where
  "check_children decode [] aggregate = Inr aggregate"
| "check_children decode (child # children) aggregate =
     (let len = length (decode child) in
      if 64 * 1024 < len then Inl (payload_limit ''decoded batch child exceeds 64 KiB'')
      else if USIZE_LIMIT \<le> aggregate + len then Inl (payload_limit ''decoded batch aggregate overflow'')
      else check_children decode children (aggregate + len))"

fun validate_payloads :: "(Base64UrlBytes \<Rightarrow> bytes) \<Rightarrow> SigningPayloads \<Rightarrow> ProtocolError + unit" where
  "validate_payloads decode (SinglePayload payload) =
     (if 256 * 1024 < length (decode payload) then Inl (payload_limit ''single decoded payload exceeds 256 KiB'') else Inr ())"
| "validate_payloads decode (BatchPayloads children) =
     (if children = [] \<or> 32 < length children then Inl (payload_limit ''batch must contain 1-32 children'')
      else and_then (check_children decode children 0) (\<lambda>aggregate.
        if 512 * 1024 < aggregate then Inl (payload_limit ''decoded batch aggregate exceeds 512 KiB'') else Inr ()))"

section \<open>Derivation paths\<close>

text \<open>
  The text of a child index: the canonical decimal, or (because the integer parser takes a sign) a plus
  sign and any digits.
\<close>

definition index_text :: "nat \<Rightarrow> string \<Rightarrow> bool" where
  "index_text n s \<longleftrightarrow> s = decimal n \<or> (\<exists>ds. ds \<noteq> [] \<and> s = CHR ''+'' # ds \<and> digits_value ds 0 = Some n)"

lemma index_text_chars: "index_text n s \<Longrightarrow> s \<noteq> [] \<and> CHR 0x27 \<notin> set s \<and> CHR ''/'' \<notin> set s"
proof -
  have q: "\<not> is_digit CHR 0x27" "\<not> is_digit CHR ''/''" by (simp_all add: is_digit_def)
  have d: "CHR 0x27 \<notin> set ds \<and> CHR ''/'' \<notin> set ds" if "list_all is_digit ds" for ds using that q by (auto simp: list_all_iff)
  have "CHR 0x27 \<notin> set ds \<and> CHR ''/'' \<notin> set ds" if "digits_value ds 0 = Some n" for ds
    using d digits_value_Some [THEN iffD1, OF exI, OF that] by blast
  then show "index_text n s \<Longrightarrow> s \<noteq> [] \<and> CHR 0x27 \<notin> set s \<and> CHR ''/'' \<notin> set s"
    using d [OF decimal_digits] by (auto simp: index_text_def)
qed

lemma index_parses:
  "(\<exists>n < 2 ^ 31. index_text n s) \<longleftrightarrow>
     s \<noteq> [] \<and> \<not> (1 < length s \<and> hd s = CHR ''0'') \<and> (\<exists>n < 2 ^ 31. unsigned_from_str 32 s = Some n)" (is "?l = ?r")
proof
  assume ?l
  then obtain n where n: "n < 2 ^ 31" "index_text n s" by blast
  from n(2) have "unsigned_from_str 32 s = Some n"
    unfolding index_text_def using n(1) by (auto simp: unsigned_from_str_def hd_decimal digits_value_decimal)
  moreover have "\<not> (1 < length s \<and> hd s = CHR ''0'')" using n(2) decimal_no_zero by (auto simp: index_text_def)
  ultimately show ?r using n index_text_chars by blast
next
  assume r: ?r
  then obtain n where n: "n < 2 ^ 31" and u: "unsigned_from_str 32 s = Some n" by blast
  show ?l
  proof (cases "hd s = CHR ''+''")
    case True
    then obtain ds where ds: "s = CHR ''+'' # ds" using r by (cases s) auto
    then have "ds \<noteq> []" "digits_value ds 0 = Some n" using u by (auto simp: unsigned_from_str_def split: if_splits option.splits)
    then show ?thesis using n ds by (auto simp: index_text_def)
  next
    case False
    then have "digits_value s 0 = Some n" using u r by (auto simp: unsigned_from_str_def split: if_splits option.splits)
    moreover have "hd s \<noteq> CHR ''0'' \<or> length s = 1" using r by (cases s) auto
    ultimately have "s = decimal n" using canonical_digits r by blast
    then show ?thesis using n by (auto simp: index_text_def)
  qed
qed

lemma bad_child_index:
  "\<not> bad_child c \<longleftrightarrow> (\<exists>n < 2 ^ 31. index_text n (strip_prime c))"
  unfolding index_parses by (auto simp: bad_child_def Let_def split: option.splits)

lemma good_child: "\<not> bad_child c \<longleftrightarrow> (\<exists>n s. n < 2 ^ 31 \<and> index_text n s \<and> (c = s \<or> c = s @ [CHR 0x27]))"
proof
  assume "\<not> bad_child c"
  then obtain n where n: "n < 2 ^ 31" "index_text n (strip_prime c)" unfolding bad_child_index by blast
  moreover have "c = strip_prime c \<or> c = strip_prime c @ [CHR 0x27]" by (auto simp: strip_prime_def) (metis append_butlast_last_id)
  ultimately show "\<exists>n s. n < 2 ^ 31 \<and> index_text n s \<and> (c = s \<or> c = s @ [CHR 0x27])" by blast
next
  assume "\<exists>n s. n < 2 ^ 31 \<and> index_text n s \<and> (c = s \<or> c = s @ [CHR 0x27])"
  then obtain n s where n: "n < 2 ^ 31" "index_text n s" and c: "c = s \<or> c = s @ [CHR 0x27]" by blast
  have "strip_prime c = s" using c index_text_chars [OF n(2)] by (auto simp: strip_prime_def dest: last_in_set)
  then show "\<not> bad_child c" unfolding bad_child_index using n by blast
qed

text \<open>The text of a path from its indices and their hardening marks.\<close>

definition path_text :: "(string \<times> bool) list \<Rightarrow> string" where
  "path_text children = ''m'' @ concat (map (\<lambda>c. CHR ''/'' # fst c @ (if snd c then [CHR 0x27] else [])) children)"

definition path_child :: "string \<times> bool \<Rightarrow> string" where
  "path_child c = fst c @ (if snd c then [CHR 0x27] else [])"

definition good_index :: "string \<times> bool \<Rightarrow> bool" where
  "good_index c \<longleftrightarrow> (\<exists>n < 2 ^ 31. index_text n (fst c))"

lemma good_children: "list_all (\<lambda>c. \<not> bad_child c) cs \<longleftrightarrow> (\<exists>ps. cs = map path_child ps \<and> list_all good_index ps)"
proof (induction cs)
  case (Cons c cs)
  have g: "\<not> bad_child c \<longleftrightarrow> (\<exists>q. c = path_child q \<and> good_index q)"
    unfolding good_child by (fastforce simp: path_child_def good_index_def)
  show ?case
  proof
    assume "list_all (\<lambda>c. \<not> bad_child c) (c # cs)"
    then obtain q where q: "c = path_child q" "good_index q" and "list_all (\<lambda>c. \<not> bad_child c) cs" using g by auto
    with Cons.IH obtain ps where "cs = map path_child ps" "list_all good_index ps" by blast
    with q show "\<exists>ps. c # cs = map path_child ps \<and> list_all good_index ps" by (intro exI [of _ "q # ps"]) simp
  next
    assume "\<exists>ps. c # cs = map path_child ps \<and> list_all good_index ps"
    then obtain q ps where "c = path_child q" "good_index q" "cs = map path_child ps" "list_all good_index ps" by auto
    then have "\<not> bad_child c" "list_all (\<lambda>c. \<not> bad_child c) cs" unfolding g Cons.IH by blast+
    then show "list_all (\<lambda>c. \<not> bad_child c) (c # cs)" by simp
  qed
qed simp

lemma path_text_children: "path_text ps = ''m'' @ concat (map (Cons CHR ''/'') (map path_child ps))"
  by (simp add: path_text_def path_child_def comp_def)

lemma path_child_no_slash: "good_index c \<Longrightarrow> CHR ''/'' \<notin> set (path_child c)"
  using index_text_chars by (auto simp: path_child_def good_index_def)

text \<open>A derivation path is accepted exactly when it is m followed by one to ten children, each an index below two to the
thirty-one, hardened or not. The text of an index is its canonical decimal or a plus sign with any digits: the
check excludes leading zeros but not the sign that the integer parser takes.\<close>

theorem derivation_paths_are_exact:
  "validate_bip32_path path = Inr () \<longleftrightarrow>
     (\<exists>children. path = path_text children \<and> 1 \<le> length children \<and> length children \<le> 10
       \<and> list_all good_index children)"
  (is "_ \<longleftrightarrow> ?r")
proof -
  obtain q qs where s: "split_on CHR ''/'' path = q # qs" using split_on_Cons by blast
  have v: "validate_bip32_path path = Inr () \<longleftrightarrow> q = ''m'' \<and> qs \<noteq> [] \<and> length qs \<le> 10 \<and> list_all (\<lambda>c. \<not> bad_child c) qs"
    by (auto simp: validate_bip32_path_def s not_less list_ex_iff list_all_iff)
  note parts = s [unfolded split_on_iff]
  show ?thesis
  proof
    assume "validate_bip32_path path = Inr ()"
    then obtain ps where "q = ''m''" "qs = map path_child ps" "qs \<noteq> []" "length qs \<le> 10"
      "list_all good_index ps" unfolding v good_children by blast
    then show ?r using parts by (intro exI [of _ ps]) (auto simp: path_text_children Suc_le_eq)
  next
    assume ?r
    then obtain ps where ps: "path = path_text ps" "1 \<le> length ps" "length ps \<le> 10"
      "list_all good_index ps" by blast
    have "list_all (\<lambda>x. CHR ''/'' \<notin> set x) (map path_child ps)"
      using ps(4) path_child_no_slash by (simp add: list_all_iff)
    then have "split_on CHR ''/'' path = ''m'' # map path_child ps"
      unfolding ps(1) path_text_children by (intro split_on_join) simp_all
    then have "q = ''m''" "qs = map path_child ps" using s by simp_all
    moreover have "list_all (\<lambda>c. \<not> bad_child c) (map path_child ps)" unfolding good_children using ps(4) by blast
    ultimately show "validate_bip32_path path = Inr ()" unfolding v using ps(2,3) by auto
  qed
qed

section \<open>What validated terms guarantee\<close>

lemma all_unique_distinct: "all_unique_from seen xs \<longleftrightarrow> distinct xs \<and> set xs \<inter> seen = {}"
  by (induction xs arbitrary: seen) auto

lemma bytes_less_irrefl: "\<not> bytes_less s s"
  by (induction s) auto

lemma bytes_less_trans: "bytes_less a b \<Longrightarrow> bytes_less b c \<Longrightarrow> bytes_less a c"
proof (induction a b arbitrary: c rule: bytes_less.induct)
  case (4 x xs y ys)
  then show ?case by (cases c) auto
qed (auto elim: bytes_less.elims)

lemma neighbours_sorted:
  assumes "\<And>a b c. r a b \<Longrightarrow> r b c \<Longrightarrow> r a c"
  shows "neighbours r xs \<longleftrightarrow> sorted_wrt r xs"
proof (induction xs)
  case (Cons x xs)
  then show ?case using assms by (cases xs) auto
qed simp

lemma grants_are_distinct:
  assumes "neighbours (\<lambda>a b. bytes_less (rg_route a) (rg_route b)) grants"
  shows "distinct (map rg_route grants)"
proof -
  have "sorted_wrt (\<lambda>a b. bytes_less (rg_route a) (rg_route b)) grants"
    using assms by (subst (asm) neighbours_sorted) (auto intro: bytes_less_trans)
  then show ?thesis
  proof (induction grants)
    case (Cons g gs)
    have "rg_route g \<noteq> rg_route h" if "h \<in> set gs" for h
      using Cons.prems that bytes_less_irrefl [of "rg_route g"] by auto
    then show ?case using Cons by auto
  qed simp
qed

lemma canonical_classes_distinct: "classes_are_canonical cs \<Longrightarrow> distinct cs"
proof -
  assume "classes_are_canonical cs"
  then have "sorted_wrt bytes_less cs"
    using neighbours_sorted [of bytes_less cs] bytes_less_trans by (simp add: classes_are_canonical_def)
  then show "distinct cs" using bytes_less_irrefl by (induction cs) auto
qed

definition terms_bounds :: "SealedApprovalTerms \<Rightarrow> bool" where
  "terms_bounds t \<longleftrightarrow> st_not_before_ms t < st_expires_at_ms t \<and> st_issued_at_ms t \<le> st_expires_at_ms t
     \<and> 0 < al_max_operations (st_limits t) \<and> 0 < al_max_signatures (st_limits t)
     \<and> st_allowed_crypto_suites t \<noteq> [] \<and> distinct (st_allowed_crypto_suites t)
     \<and> list_all (\<lambda>suite. suite_key_spec suite = kr_key_spec (st_key_ref t)) (st_allowed_crypto_suites t)"

text \<open>The classes the terms grant on a route: those of its grant, or those of the selector when there are no grants.\<close>

definition granted :: "SealedApprovalTerms \<Rightarrow> string \<Rightarrow> Token \<Rightarrow> bool" where
  "granted t route cls \<longleftrightarrow> (case st_selector t of
     SelectorExact _ _ \<Rightarrow> False
   | SelectorPetal _ primary classes grants _ \<Rightarrow>
       if grants = [] then route = primary \<and> cls \<in> set classes
       else \<exists>g \<in> set grants. rg_route g = route \<and> cls \<in> set (rg_allowed_operation_classes g))"

lemma validate_terms_Inr:
  "validate_terms t = Inr () \<longleftrightarrow> validate_key_ref (st_key_ref t) = Inr ()
     \<and> validate_suites (st_allowed_crypto_suites t) (kr_key_spec (st_key_ref t)) = Inr () \<and> validate_limits (st_limits t) = Inr ()
     \<and> st_not_before_ms t < st_expires_at_ms t \<and> st_issued_at_ms t \<le> st_expires_at_ms t \<and> selector_consistent t"
  by (auto simp: validate_terms_def and_then_eq_Inr not_le not_less)

lemma validated_bounds:
  assumes "validate_terms t = Inr ()"
  shows "terms_bounds t"
proof -
  note v = assms [unfolded validate_terms_Inr]
  have "st_allowed_crypto_suites t \<noteq> []" "all_unique (st_allowed_crypto_suites t)"
    "list_all (\<lambda>suite. suite_key_spec suite = kr_key_spec (st_key_ref t)) (st_allowed_crypto_suites t)"
    using v by (auto simp: validate_suites_def list_ex_iff list_all_iff split: if_splits)
  moreover have "al_max_operations (st_limits t) \<noteq> 0" "al_max_signatures (st_limits t) \<noteq> 0"
    using v by (auto simp: validate_limits_def split: if_splits)
  ultimately show ?thesis
    using v by (simp add: terms_bounds_def all_unique_def all_unique_distinct word_neq_0_conv)
qed

text \<open>C29. What validated terms guarantee. The validity interval is not empty, the counts are positive and the suites are distinct suites
of the key. An exact selector allows one operation with one signature per hash. A selector for a Petal package is the
package and route of the subject; with route grants every route has exactly one grant or none, and the primary route
grants exactly the classes of the selector.\<close>

theorem validated_terms_are_consistent:
  assumes "validate_terms t = Inr ()"
  shows "terms_bounds t
    \<and> (case st_selector t of
        SelectorExact digests hashes \<Rightarrow> digests \<noteq> [] \<and> hashes \<noteq> [] \<and> al_max_operations (st_limits t) = 1
          \<and> al_max_signatures (st_limits t) = of_nat (length hashes)
      | SelectorPetal package route classes grants _ \<Rightarrow>
          (\<exists>agent. st_subject t = SubjectPetal package route agent) \<and> classes \<noteq> [] \<and> distinct classes
          \<and> distinct (map rg_route grants) \<and> (\<forall>cls. granted t route cls \<longleftrightarrow> cls \<in> set classes))"
proof -
  have c: "selector_consistent t" using assms by (simp add: validate_terms_Inr)
  show ?thesis
  proof (cases "st_selector t")
    case (SelectorExact digests hashes)
    then show ?thesis using c validated_bounds [OF assms] by (simp add: selector_consistent_def)
  next
    case (SelectorPetal package route classes grants level)
    have s: "\<exists>agent. st_subject t = SubjectPetal package route agent" and k: "classes_are_canonical classes"
      and g: "valid_route_grants grants route classes (st_provenance_digest t)"
      using c SelectorPetal by (auto simp: selector_consistent_def split: ApprovalSubject.splits)
    have d: "distinct (map rg_route grants)" using g grants_are_distinct by (auto simp: valid_route_grants_def)
    have "granted t route cls \<longleftrightarrow> cls \<in> set classes" for cls
    proof (cases "grants = []")
      case True
      then show ?thesis by (simp add: granted_def SelectorPetal)
    next
      case False
      then obtain p where p: "p \<in> set grants" "rg_route p = route" "rg_allowed_operation_classes p = classes"
        using g by (auto simp: valid_route_grants_def list_ex_iff)
      have u: "q = p" if "q \<in> set grants" "rg_route q = route" for q
        using d p(1,2) that inj_onD [of rg_route "set grants" q p] by (simp add: distinct_map)
      have "granted t route cls \<longleftrightarrow> (\<exists>g \<in> set grants. rg_route g = route \<and> cls \<in> set (rg_allowed_operation_classes g))"
        using False by (simp add: granted_def SelectorPetal)
      then show ?thesis using p u by blast
    qed
    moreover have "classes \<noteq> []" using k by (simp add: classes_are_canonical_def)
    ultimately show ?thesis
      unfolding SelectorPetal ApprovalSelector.case using s d validated_bounds [OF assms] canonical_classes_distinct [OF k] by blast
  qed
qed

definition sample_terms :: SealedApprovalTerms where
  "sample_terms = \<lparr>st_subject = SubjectPetal ''package'' ''r1'' None, st_wallet_id = ''wallet'',
     st_key_ref = \<lparr>kr_backend = ''local'', kr_backend_instance = ''default'', kr_locator = ''key'', kr_key_spec = Ed25519,
       kr_public_key_fingerprint = ''fp'', kr_derivation = None\<rparr>,
     st_allowed_crypto_suites = [Ed25519Message],
     st_selector = SelectorPetal ''package'' ''r1'' [''pumpfun.buy''] [] CL_MachineAsserted,
     st_limits = \<lparr>al_max_operations = 1, al_max_signatures = 1, al_operation_rate_limits = [], al_signature_rate_limits = [],
       al_value_limits = []\<rparr>,
     st_activation_mode = BootBound, st_wallet_revocation_epoch = 0, st_policy_version = 1, st_policy_digest = ''policy'',
     st_provenance_digest = ''provenance'', st_request_nonce = ''nonce'', st_issued_at_ms = 1, st_not_before_ms = 1,
     st_expires_at_ms = 2, st_renewal_of = None\<rparr>"

lemma sample_terms_valid: "validate_terms sample_terms = Inr ()"
  by (simp add: validate_terms_Inr sample_terms_def validate_key_ref_def KEYREF_LOCATOR_MAX_BYTES_def validate_suites_def
      all_unique_def validate_limits_def selector_consistent_def classes_are_canonical_def valid_route_grants_def)

theorem validated_terms_are_consistent_witness:
  "terms_bounds sample_terms \<and> granted sample_terms ''r1'' ''pumpfun.buy'' \<and> \<not> granted sample_terms ''r1'' ''pumpfun.sell''"
  using validated_terms_are_consistent [OF sample_terms_valid] by (simp add: sample_terms_def)

section \<open>An identifier stands for one set of terms\<close>

text \<open>The identifier of an approval binds its terms: two sets of terms with the same identifier are equal, or their canonical
texts are a SHA-256 collision under the domain of approvals. Canonical JSON tells different terms apart, and
a digest text tells different digests apart.\<close>

theorem approval_id_binds_terms:
  assumes "\<forall>t u b. jcs t = Inr b \<longrightarrow> jcs u = Inr b \<longrightarrow> t = u"
    and "\<forall>x y. ce_digest32_from_bytes env (ce_sha256 env x) = ce_digest32_from_bytes env (ce_sha256 env y) \<longrightarrow> ce_sha256 env x = ce_sha256 env y"
    and "approval_id env jcs t = Inr d" and "approval_id env jcs u = Inr d"
  shows "t = u \<or> (\<exists>a b. jcs t = Inr a \<and> jcs u = Inr b \<and> a \<noteq> b
    \<and> ce_sha256 env (APPROVAL_DOMAIN @ a) = ce_sha256 env (APPROVAL_DOMAIN @ b))"
proof -
  obtain a b where a: "jcs t = Inr a" "d = ce_digest32_from_bytes env (ce_sha256 env (APPROVAL_DOMAIN @ a))"
    and b: "jcs u = Inr b" "d = ce_digest32_from_bytes env (ce_sha256 env (APPROVAL_DOMAIN @ b))"
    using assms(3,4) by (auto simp: approval_id_def approval_digest_def canonical_bytes_def and_then_eq_Inr)
  have "ce_sha256 env (APPROVAL_DOMAIN @ a) = ce_sha256 env (APPROVAL_DOMAIN @ b)" using assms(2) a(2) b(2) by simp
  then show ?thesis using assms(1) a(1) b(1) by (cases "a = b") blast+
qed

text \<open>A hash that is constant: the identifiers of two different terms agree, and the theorem finds the collision.\<close>

definition other_terms :: SealedApprovalTerms where
  "other_terms = sample_terms\<lparr>st_request_nonce := ''other''\<rparr>"

definition sample_jcs :: "SealedApprovalTerms \<Rightarrow> string + bytes" where
  "sample_jcs t = (if t = sample_terms then Inr [1] else if t = other_terms then Inr [2] else Inl ''not encoded'')"

lemma other_terms_valid: "validate_terms other_terms = Inr ()"
  by (simp add: validate_terms_Inr other_terms_def sample_terms_def validate_key_ref_def KEYREF_LOCATOR_MAX_BYTES_def validate_suites_def
      all_unique_def validate_limits_def selector_consistent_def classes_are_canonical_def valid_route_grants_def)

lemma other_terms_differ: "other_terms \<noteq> sample_terms"
proof
  assume "other_terms = sample_terms"
  then have "st_request_nonce other_terms = st_request_nonce sample_terms" by simp
  then show False by (simp add: other_terms_def sample_terms_def)
qed

theorem approval_id_binds_terms_witness:
  "let env = sample_crypto\<lparr>ce_sha256 := \<lambda>_. replicate 32 0\<rparr> in
   approval_id env sample_jcs sample_terms = approval_id env sample_jcs other_terms
   \<and> (\<exists>a b. sample_jcs sample_terms = Inr a \<and> sample_jcs other_terms = Inr b \<and> a \<noteq> b
     \<and> ce_sha256 env (APPROVAL_DOMAIN @ a) = ce_sha256 env (APPROVAL_DOMAIN @ b))"
proof -
  let ?env = "sample_crypto\<lparr>ce_sha256 := \<lambda>_. replicate 32 0\<rparr>"
  let ?d = "ce_digest32_from_bytes sample_crypto (replicate 32 0)"
  have "approval_id ?env sample_jcs sample_terms = Inr ?d" "approval_id ?env sample_jcs other_terms = Inr ?d"
    using other_terms_differ
    by (simp_all add: approval_id_def approval_digest_def canonical_bytes_def sample_terms_valid other_terms_valid sample_jcs_def)
  moreover from approval_id_binds_terms [OF _ _ this] have
    "\<exists>a b. sample_jcs sample_terms = Inr a \<and> sample_jcs other_terms = Inr b \<and> a \<noteq> b
     \<and> ce_sha256 ?env (APPROVAL_DOMAIN @ a) = ce_sha256 ?env (APPROVAL_DOMAIN @ b)"
    using other_terms_differ by (auto simp: sample_jcs_def split: if_splits)
  ultimately show ?thesis unfolding Let_def by simp
qed

end
