(* ===== verification/AuthorityTypes.thy ===== *)
theory AuthorityTypes
  imports ApprovalTerms Utf8
begin

text \<open>
  The data that the authority of the Broker decides on: provenance records and catalogs (\<open>bloom-broker-api/src/provenance.rs\<close>),
  wallet policies (\<open>policy.rs\<close>), scopes of derived Petal keys (\<open>petal_key.rs\<close>), the claims of native system operations
  (\<open>claims.rs\<close>) and the requests that carry them (\<open>signing.rs\<close>, \<open>service.rs\<close>). The theorem of the theory says
  which provenance catalogs are accepted.
\<close>

section \<open>Display texts (validation.rs)\<close>

text \<open>\<open>char::is_control\<close>: the characters of the category Cc.\<close>

definition is_control :: "nat \<Rightarrow> bool" where
  "is_control c \<longleftrightarrow> c < 0x20 \<or> (0x7F \<le> c \<and> c < 0xA0)"

text \<open>The characters of a text; a text of the model is the list of its UTF-8 bytes.\<close>

definition text_chars :: "string \<Rightarrow> nat list" where
  "text_chars s = (case utf8_decode (str_bytes s) of Some cs \<Rightarrow> cs | None \<Rightarrow> [])"

definition validate_display_identity :: "string \<Rightarrow> string \<Rightarrow> nat \<Rightarrow> ProtocolError + unit" where
  "validate_display_identity field s maximum_bytes =
     (if s = [] \<or> maximum_bytes < length s \<or> list_ex is_control (text_chars s)
      then Inl (error_new MalformedFrame
        (field @ '' must contain 1-'' @ decimal maximum_bytes @ '' UTF-8 bytes without control characters''))
      else Inr ())"

section \<open>Derived Petal keys (petal_key.rs)\<close>

definition LINEAGE_PREFIX :: string where
  "LINEAGE_PREFIX = ''pln1_''"

definition ROUTE_MAX_BYTES :: nat where
  "ROUTE_MAX_BYTES = 2 * 1024"

definition AGENT_ID_MAX_BYTES :: nat where
  "AGENT_ID_MAX_BYTES = 256"

definition strip_prefix :: "string \<Rightarrow> string \<Rightarrow> string option" where
  "strip_prefix p s = (if take (length p) s = p then Some (drop (length p) s) else None)"

definition base32_char :: "char \<Rightarrow> bool" where
  "base32_char c \<longleftrightarrow> (let n = of_char c :: nat in (97 \<le> n \<and> n \<le> 122) \<or> (50 \<le> n \<and> n \<le> 55))"

definition validate_lineage_id :: "string \<Rightarrow> ProtocolError + unit" where
  "validate_lineage_id s =
     and_then (ok_or (strip_prefix LINEAGE_PREFIX s) (error_new MalformedFrame ''Petal lineage ID must use the pln1_ prefix'')) (\<lambda>encoded.
     if length encoded \<noteq> 52 \<or> \<not> list_all base32_char encoded
     then Inl (error_new MalformedFrame ''Petal lineage ID must contain 256-bit lowercase base32 entropy'')
     else Inr ())"

record PetalKeyScope =
  ps_wallet_id :: Token
  ps_parent_key_ref :: KeyRef
  ps_package_hash :: Digest32
  ps_route :: string
  ps_lineage_id :: string
  ps_key_slot :: Token
  ps_allowed_routes :: "string list"
  ps_allowed_operation_classes :: "Token list"
  ps_allowed_crypto_suites :: "CryptoSuite list"
  ps_maximum_lifetime_ms :: u64
  ps_custody_operation_id :: OperationId

fun check_routes :: "string list \<Rightarrow> ProtocolError + unit" where
  "check_routes [] = Inr ()"
| "check_routes (route # routes) =
     and_then (validate_display_identity ''Petal route'' route ROUTE_MAX_BYTES) (\<lambda>_. check_routes routes)"

definition validate_key_scope :: "PetalKeyScope \<Rightarrow> ProtocolError + unit" where
  "validate_key_scope s =
     and_then (validate_key_ref (ps_parent_key_ref s)) (\<lambda>_.
     and_then (validate_display_identity ''Petal requesting route'' (ps_route s) ROUTE_MAX_BYTES) (\<lambda>_.
     and_then (validate_lineage_id (ps_lineage_id s)) (\<lambda>_.
     and_then (validate_display_identity ''Petal key slot'' (ps_key_slot s) AGENT_ID_MAX_BYTES) (\<lambda>_.
     if ps_allowed_routes s = [] \<or> \<not> all_unique (ps_allowed_routes s)
       \<or> ps_allowed_operation_classes s = [] \<or> \<not> all_unique (ps_allowed_operation_classes s)
     then Inl (error_new MalformedFrame ''Petal key scope requires unique non-empty route and operation-class sets'')
     else and_then (check_routes (ps_allowed_routes s)) (\<lambda>_.
       if ps_allowed_crypto_suites s = [] \<or> 3 < length (ps_allowed_crypto_suites s) \<or> \<not> all_unique (ps_allowed_crypto_suites s)
         \<or> list_ex (\<lambda>suite. suite_key_spec suite \<noteq> kr_key_spec (ps_parent_key_ref s)) (ps_allowed_crypto_suites s)
       then Inl (error_new SuiteNotAllowed ''Petal key scope must contain 1-3 unique suites compatible with its parent KeyRef'')
       else if ps_maximum_lifetime_ms s = 0
       then Inl (error_new MalformedFrame ''Petal key scope maximum_lifetime_ms must be greater than zero'')
       else Inr ())))))"

section \<open>Provenance (provenance.rs)\<close>

datatype ProvenanceSubject =
    ProvenancePetal Digest32 string
  | ProvenanceCli Token Token
  | ProvenanceSystem Token Token

record PetalLineageMembership =
  pl_lineage_id :: string
  pl_release_sequence :: u64
  pl_predecessor_package_hashes :: "Digest32 list"
  pl_controller_key_id :: Token
  pl_controller_signature :: Base64UrlBytes
  pl_active :: bool

record ProvenanceFeeAsset =
  pf_chain :: Token
  pf_asset :: string

record ProvenanceOperationClass =
  po_operation_class :: Token
  po_fee_asset :: "ProvenanceFeeAsset option"

record ProvenanceRecord =
  pr_subject :: ProvenanceSubject
  pr_publisher :: Token
  pr_petal_lineage :: "PetalLineageMembership option"
  pr_operation_classes :: "ProvenanceOperationClass list"
  pr_installer_key_id :: Token
  pr_installer_signature :: Base64UrlBytes

record ProvenanceCatalog =
  cat_schema :: string
  cat_records :: "ProvenanceRecord list"

definition PROVENANCE_CATALOG_SCHEMA :: string where
  "PROVENANCE_CATALOG_SCHEMA = ''bloom.provenance-catalog.1''"

definition PROVENANCE_RECORD_SIGNATURE_DOMAIN :: bytes where
  "PROVENANCE_RECORD_SIGNATURE_DOMAIN = str_bytes ''bloom-provenance-record/v1''"

fun is_petal :: "ProvenanceSubject \<Rightarrow> bool" where
  "is_petal (ProvenancePetal _ _) = True"
| "is_petal _ = False"

definition lineage_only :: "ProvenanceRecord \<Rightarrow> bool" where
  "lineage_only r \<longleftrightarrow> is_petal (pr_subject r) \<and> pr_petal_lineage r \<noteq> None"

text \<open>The checks of one record after its subject was entered into the set of subjects.\<close>

definition validate_membership :: "(Base64UrlBytes \<Rightarrow> bytes) \<Rightarrow> ProvenanceRecord \<Rightarrow> ProtocolError + unit" where
  "validate_membership decode r = (case pr_petal_lineage r of
     None \<Rightarrow> Inr ()
   | Some membership \<Rightarrow>
       if is_petal (pr_subject r)
       then and_then (validate_lineage_id (pl_lineage_id membership)) (\<lambda>_.
         if pl_release_sequence membership = 0 \<or> decode (pl_controller_signature membership) = []
         then Inl (error_new ProvenanceMismatch
           ''Petal lineage membership requires a positive release sequence and controller signature'')
         else Inr ())
       else Inl (error_new ProvenanceMismatch ''only Petal provenance may carry lineage membership''))"

fun validate_records :: "(ProvenanceSubject \<Rightarrow> string + string) \<Rightarrow> (Base64UrlBytes \<Rightarrow> bytes) \<Rightarrow> string list
    \<Rightarrow> ProvenanceRecord list \<Rightarrow> ProtocolError + unit" where
  "validate_records jcs decode subjects [] = Inr ()"
| "validate_records jcs decode subjects (r # rs) =
     and_then (map_err (error_new MalformedFrame) (jcs (pr_subject r))) (\<lambda>subject.
     if subject \<in> set subjects \<or> (pr_operation_classes r = [] \<and> \<not> lineage_only r)
       \<or> list_ex (\<lambda>entry. po_operation_class entry = []) (pr_operation_classes r)
     then Inl (error_new ProvenanceMismatch ''provenance catalog contains a duplicate subject or empty operation class'')
     else and_then (validate_membership decode r) (\<lambda>_. validate_records jcs decode (subject # subjects) rs))"

text \<open>The package and lineage of an active membership.\<close>

fun active_package :: "ProvenanceRecord \<Rightarrow> (string \<times> Digest32) option" where
  "active_package r = (case (pr_subject r, pr_petal_lineage r) of
     (ProvenancePetal package_hash _, Some membership) \<Rightarrow>
       if pl_active membership then Some (pl_lineage_id membership, package_hash) else None
   | _ \<Rightarrow> None)"

declare active_package.simps [simp del]

fun validate_active :: "(string \<rightharpoonup> Digest32) \<Rightarrow> ProvenanceRecord list \<Rightarrow> ProtocolError + unit" where
  "validate_active active [] = Inr ()"
| "validate_active active (r # rs) = (case active_package r of
     None \<Rightarrow> validate_active active rs
   | Some (lineage, package_hash) \<Rightarrow>
       if active lineage \<noteq> None \<and> active lineage \<noteq> Some package_hash
       then Inl (error_new ProvenanceMismatch ''a Petal lineage has multiple active packages'')
       else validate_active (active(lineage \<mapsto> package_hash)) rs)"

definition validate_shape :: "(ProvenanceSubject \<Rightarrow> string + string) \<Rightarrow> (Base64UrlBytes \<Rightarrow> bytes) \<Rightarrow> ProvenanceCatalog
    \<Rightarrow> ProtocolError + unit" where
  "validate_shape jcs decode catalog =
     (if cat_schema catalog \<noteq> PROVENANCE_CATALOG_SCHEMA \<or> cat_records catalog = []
      then Inl (error_new UnsupportedVersion ''provenance catalog schema is unsupported or empty'')
      else and_then (validate_records jcs decode [] (cat_records catalog)) (\<lambda>_.
        validate_active Map.empty (cat_records catalog)))"

definition catalog_record :: "ProvenanceCatalog \<Rightarrow> ProvenanceSubject \<Rightarrow> ProvenanceRecord option" where
  "catalog_record catalog subject = find (\<lambda>r. pr_subject r = subject) (cat_records catalog)"

section \<open>Wallet policies (policy.rs)\<close>

record PolicyDestination =
  pd_chain :: Token
  pd_destination :: string

record RequiredVerifier =
  rq_verifier_id :: Token
  rq_verifier_digest :: Digest32

record LegacyCatalogTrustedKey =
  lk_key_id :: Token
  lk_verifying_key :: Base64UrlBytes

record LegacyClearSigningPolicy =
  lc_catalog_id :: Token
  lc_trusted_keys :: "LegacyCatalogTrustedKey list"
  lc_signature_threshold :: u8
  lc_maximum_observation_age_ms :: u64
  lc_opaque_exact_allowed :: bool
  lc_unlimited_allowance_allowed :: bool
  lc_verifier :: RequiredVerifier

record CanonicalWalletPolicy =
  wp_wallet_id :: Token
  wp_maximum_approval_lifetime_ms :: u64
  wp_allowed_petal_packages :: "Digest32 list"
  wp_allowed_destinations :: "PolicyDestination list"
  wp_required_verifiers :: "RequiredVerifier list"
  wp_clear_signing :: "LegacyClearSigningPolicy option"

record SignedPolicySnapshot =
  sp_wallet_id :: Token
  sp_version :: u64
  sp_canonical_policy :: Base64UrlBytes
  sp_policy_digest :: Digest32
  sp_policy_signing_key_id :: Token
  sp_policy_verifying_key :: Base64UrlBytes
  sp_signer_signature :: Base64UrlBytes

record PolicyUpdateRequest =
  pu_operation_id :: OperationId
  pu_wallet_id :: Token
  pu_baseline_version :: u64
  pu_baseline_digest :: Digest32
  pu_proposed_canonical_policy :: Base64UrlBytes
  pu_proposed_policy_digest :: Digest32
  pu_authority_diff_digest :: Digest32
  pu_assurance_level :: Token

section \<open>Claims of native operations (claims.rs)\<close>

record SystemChainContext =
  sc_chain_family :: Token
  sc_genesis_hash :: string
  sc_recent_blockhash :: string
  sc_last_valid_block_height :: u64

record SystemUseClaim =
  su_component_id :: Token
  su_action_class :: Token
  su_operation_class :: Token
  su_crypto_suite :: CryptoSuite
  su_payload_digest :: Digest32
  su_ordered_hashes :: "Digest32 list"
  su_declared_debits :: "DeclaredDebit list"
  su_declared_destinations :: "DeclaredDestination list"
  su_declared_fee :: DeclaredFee
  su_nonce :: string
  su_chain_context :: SystemChainContext
  su_claim_assurance :: ClaimAssurance

section \<open>Requests (signing.rs, service.rs)\<close>

record MachineSignRequest =
  ms_operation_id :: OperationId
  ms_operation_digest :: Digest32
  ms_approval_id :: Digest32
  ms_key_ref :: KeyRef
  ms_crypto_suite :: CryptoSuite
  ms_payloads :: SigningPayloads
  ms_petal_use_claim :: "PetalUseClaim option"
  ms_system_use_claim :: "SystemUseClaim option"
  ms_claim_assurance_evidence :: "Base64UrlBytes option"
  ms_provenance :: ProvenanceSubject

datatype CeremonySurfaceSelection = SurfaceDefault | SurfaceLocal | SurfaceRemote

record EvmReportedToken =
  er_address :: string
  er_symbol :: string
  er_decimals :: u8

record ApprovalPrepareRequest =
  ap_operation_id :: OperationId
  ap_surface_selection :: CeremonySurfaceSelection
  ap_terms :: SealedApprovalTerms
  ap_canonical_plan_facts_digest :: Digest32
  ap_evm_review_payloads :: "Base64UrlBytes list"
  ap_safe_review_payloads :: "Base64UrlBytes list"
  ap_message_review_payloads :: "Base64UrlBytes list"
  ap_evm_reported_token :: "EvmReportedToken option"
  ap_petal_use_claim :: "PetalUseClaim option"
  ap_system_use_claim :: "SystemUseClaim option"

section \<open>Which catalogs are accepted\<close>

text \<open>A membership names a well-formed lineage, a positive release and a controller signature, and only a Petal has one.\<close>

definition membership_ok :: "(Base64UrlBytes \<Rightarrow> bytes) \<Rightarrow> ProvenanceRecord \<Rightarrow> bool" where
  "membership_ok decode r \<longleftrightarrow> (\<forall>m. pr_petal_lineage r = Some m \<longrightarrow> is_petal (pr_subject r)
     \<and> (\<exists>body. pl_lineage_id m = LINEAGE_PREFIX @ body \<and> length body = 52 \<and> list_all base32_char body)
     \<and> pl_release_sequence m \<noteq> 0 \<and> decode (pl_controller_signature m) \<noteq> [])"

text \<open>A record grants named classes, or is a Petal record that only carries a lineage.\<close>

definition record_ok :: "(Base64UrlBytes \<Rightarrow> bytes) \<Rightarrow> ProvenanceRecord \<Rightarrow> bool" where
  "record_ok decode r \<longleftrightarrow> membership_ok decode r \<and> (pr_operation_classes r = [] \<longrightarrow> lineage_only r)
     \<and> (\<forall>entry \<in> set (pr_operation_classes r). po_operation_class entry \<noteq> [])"

lemma strip_prefix_Some: "strip_prefix p s = Some rest \<longleftrightarrow> s = p @ rest"
  by (auto simp: strip_prefix_def append_eq_conv_conj) (metis append_take_drop_id)

lemma validate_lineage_id_Inr:
  "validate_lineage_id s = Inr () \<longleftrightarrow> (\<exists>body. s = LINEAGE_PREFIX @ body \<and> length body = 52 \<and> list_all base32_char body)"
  by (auto simp: validate_lineage_id_def and_then_eq_Inr strip_prefix_Some split: if_splits)

lemma validate_membership_Inr: "validate_membership decode r = Inr () \<longleftrightarrow> membership_ok decode r"
  by (auto simp: validate_membership_def membership_ok_def and_then_eq_Inr validate_lineage_id_Inr split: option.splits if_splits)

lemma validate_records_Inr:
  assumes "\<And>subject. \<exists>t. jcs subject = Inr t"
  shows "validate_records jcs decode subjects rs = Inr () \<longleftrightarrow>
    (\<forall>r \<in> set rs. record_ok decode r \<and> jcs (pr_subject r) \<notin> Inr ` set subjects) \<and> distinct (map (\<lambda>r. jcs (pr_subject r)) rs)"
proof (induction rs arbitrary: subjects)
  case (Cons r rs)
  obtain t where t: "jcs (pr_subject r) = Inr t" using assms by blast
  have "validate_records jcs decode subjects (r # rs) = Inr () \<longleftrightarrow>
      t \<notin> set subjects \<and> record_ok decode r \<and> validate_records jcs decode (t # subjects) rs = Inr ()"
    by (auto simp: t and_then_eq_Inr validate_membership_Inr record_ok_def list_ex_iff)
  also have "\<dots> \<longleftrightarrow> t \<notin> set subjects \<and> record_ok decode r
      \<and> (\<forall>r' \<in> set rs. record_ok decode r' \<and> jcs (pr_subject r') \<notin> Inr ` set (t # subjects)) \<and> distinct (map (\<lambda>r. jcs (pr_subject r)) rs)"
    by (simp add: Cons.IH)
  finally show ?case using t by (auto simp: image_iff)
qed simp

text \<open>All active members of one lineage are the same package.\<close>

definition agree :: "ProvenanceRecord list \<Rightarrow> bool" where
  "agree rs \<longleftrightarrow> (\<forall>r \<in> set rs. \<forall>r' \<in> set rs. \<forall>l p p'.
     active_package r = Some (l, p) \<longrightarrow> active_package r' = Some (l, p') \<longrightarrow> p = p')"

lemma validate_active_Inr:
  "validate_active active rs = Inr () \<longleftrightarrow>
    (\<forall>r \<in> set rs. \<forall>l p. active_package r = Some (l, p) \<longrightarrow> active l \<in> {None, Some p}) \<and> agree rs"
proof (induction rs arbitrary: active)
  case (Cons r rs)
  show ?case
  proof (cases "active_package r")
    case None
    then show ?thesis by (simp add: Cons.IH agree_def)
  next
    case (Some lp)
    then obtain l p where lp: "active_package r = Some (l, p)" by (cases lp) simp
    have "validate_active active (r # rs) = Inr () \<longleftrightarrow> active l \<in> {None, Some p} \<and> validate_active (active(l \<mapsto> p)) rs = Inr ()"
      using lp by auto
    also have "\<dots> \<longleftrightarrow> (\<forall>r \<in> set (r # rs). \<forall>l p. active_package r = Some (l, p) \<longrightarrow> active l \<in> {None, Some p})
        \<and> agree (r # rs)"
    proof
      assume a: "active l \<in> {None, Some p} \<and> validate_active (active(l \<mapsto> p)) rs = Inr ()"
      then have new: "active_package r' = Some (l', p') \<Longrightarrow> (active(l \<mapsto> p)) l' \<in> {None, Some p'}" if "r' \<in> set rs" for r' l' p'
        using that Cons.IH by blast
      have "active l' \<in> {None, Some p'}" if "r' \<in> set (r # rs)" "active_package r' = Some (l', p')" for r' l' p'
      proof (cases "r' = r")
        case True
        then show ?thesis using lp that a by simp
      next
        case False
        then show ?thesis using new [of r' l' p'] that a by (cases "l' = l") auto
      qed
      moreover have same: "p' = p" if "r' \<in> set rs" "active_package r' = Some (l, p')" for r' p'
        using new [OF that] unfolding fun_upd_same by blast
      have rest: "agree rs" using a Cons.IH by blast
      have "agree (r # rs)"
        unfolding agree_def
      proof (intro ballI allI impI)
        fix r1 r2 l' p1 p2
        assume "r1 \<in> set (r # rs)" "r2 \<in> set (r # rs)" "active_package r1 = Some (l', p1)" "active_package r2 = Some (l', p2)"
        then show "p1 = p2" using lp same rest [unfolded agree_def] by (metis Pair_inject option.inject set_ConsD)
      qed
      ultimately show "(\<forall>r \<in> set (r # rs). \<forall>l p. active_package r = Some (l, p) \<longrightarrow> active l \<in> {None, Some p}) \<and> agree (r # rs)" by blast
    next
      assume a: "(\<forall>r \<in> set (r # rs). \<forall>l p. active_package r = Some (l, p) \<longrightarrow> active l \<in> {None, Some p}) \<and> agree (r # rs)"
      have "(active(l \<mapsto> p)) l' \<in> {None, Some p'}" if "r' \<in> set rs" "active_package r' = Some (l', p')" for r' l' p'
      proof (cases "l' = l")
        case True
        then have "p' = p" using a lp that unfolding agree_def by (metis list.set_intros(1,2))
        then show ?thesis using True by simp
      next
        case False
        then show ?thesis using a that by auto
      qed
      moreover have "agree rs" using a unfolding agree_def by (meson list.set_intros(2))
      ultimately have "validate_active (active(l \<mapsto> p)) rs = Inr ()" unfolding Cons.IH by blast
      then show "active l \<in> {None, Some p} \<and> validate_active (active(l \<mapsto> p)) rs = Inr ()" using a lp by auto
    qed
    finally show ?thesis .
  qed
qed (simp add: agree_def)

text \<open>A provenance catalog is accepted exactly when it has the schema and at least one record, no two records have the same
subject, every record grants named classes or only carries the lineage of a Petal, every lineage membership is
well formed, and no lineage has two active packages. Canonical JSON is total on subjects and tells them apart.\<close>

theorem catalogs_are_unambiguous:
  assumes "\<forall>subject. \<exists>t. jcs subject = Inr t" and "inj jcs"
  shows "validate_shape jcs decode catalog = Inr () \<longleftrightarrow>
    cat_schema catalog = PROVENANCE_CATALOG_SCHEMA \<and> cat_records catalog \<noteq> []
    \<and> distinct (map pr_subject (cat_records catalog)) \<and> (\<forall>r \<in> set (cat_records catalog). record_ok decode r)
    \<and> agree (cat_records catalog)"
proof -
  have "distinct (map (\<lambda>r. jcs (pr_subject r)) rs) \<longleftrightarrow> distinct (map pr_subject rs)" for rs
    using assms(2) distinct_map [of jcs "map pr_subject rs"] by (auto simp: o_def intro: inj_on_subset)
  then show ?thesis using assms(1) by (auto simp: validate_shape_def and_then_eq_Inr validate_records_Inr validate_active_Inr)
qed

definition sample_subject_jcs :: "ProvenanceSubject \<Rightarrow> string + string" where
  "sample_subject_jcs subject = Inr (case subject of
     ProvenancePetal p r \<Rightarrow> CHR ''P'' # replicate (length p) CHR ''0'' @ CHR ''1'' # p @ r
   | ProvenanceCli c k \<Rightarrow> CHR ''C'' # replicate (length c) CHR ''0'' @ CHR ''1'' # c @ k
   | ProvenanceSystem c k \<Rightarrow> CHR ''S'' # replicate (length c) CHR ''0'' @ CHR ''1'' # c @ k)"

lemma unary_prefix: "replicate m CHR ''0'' @ CHR ''1'' # x = replicate n CHR ''0'' @ CHR ''1'' # y \<Longrightarrow> m = n \<and> x = y"
proof (induction m arbitrary: n)
  case 0
  then show ?case by (cases n) auto
next
  case (Suc m)
  then show ?case by (cases n) auto
qed

lemma sample_subject_jcs_inj: "inj sample_subject_jcs"
proof (rule injI)
  fix s t assume "sample_subject_jcs s = sample_subject_jcs t"
  then show "s = t" by (cases s; cases t) (auto simp: sample_subject_jcs_def dest!: unary_prefix)
qed

definition sample_record :: ProvenanceRecord where
  "sample_record = \<lparr>pr_subject = ProvenanceSystem ''bloom-machine'' ''solana.transfer.confirm'', pr_publisher = ''bloom-installer'',
     pr_petal_lineage = None,
     pr_operation_classes = [\<lparr>po_operation_class = ''solana.native-transfer'', po_fee_asset = Some \<lparr>pf_chain = ''solana'', pf_asset = ''native''\<rparr>\<rparr>],
     pr_installer_key_id = ''installer'', pr_installer_signature = []\<rparr>"

theorem catalogs_are_unambiguous_witness:
  "validate_shape sample_subject_jcs str_bytes \<lparr>cat_schema = PROVENANCE_CATALOG_SCHEMA, cat_records = [sample_record]\<rparr> = Inr ()
   \<and> validate_shape sample_subject_jcs str_bytes \<lparr>cat_schema = PROVENANCE_CATALOG_SCHEMA, cat_records = [sample_record, sample_record]\<rparr> \<noteq> Inr ()"
proof -
  have t: "\<forall>subject. \<exists>t. sample_subject_jcs subject = Inr t" by (simp add: sample_subject_jcs_def)
  have ok: "record_ok str_bytes sample_record" by (simp add: record_ok_def membership_ok_def sample_record_def)
  show ?thesis unfolding catalogs_are_unambiguous [OF t sample_subject_jcs_inj] using ok by (auto simp: agree_def)
qed

end
