(* ===== verification/SolanaReview.thy ===== *)
theory SolanaReview
  imports ReadingSafety AuthorityTypes
begin

text \<open>
  The owner review of a Pump transaction (\<open>bloom-broker/src/solana_review.rs\<close>): preparing the review from the message,
  and checking a signing use against the reviewed one. The theorems show that preparing never panics, and that a use is
  accepted exactly for the reviewed message with a refreshed blockhash.
\<close>

section \<open>The review\<close>

text \<open>
  The review shown to the owner (\<open>message_review.rs\<close>); the parts that only other kinds of review have are
  the JSON values of their structs.
\<close>

record MessageField =
  mf_path :: string
  mf_value :: string

record MessageReview =
  rv_kind :: string
  rv_title :: string
  rv_signer :: string
  rv_payload_keccak :: string
  rv_domain :: "MessageField list"
  rv_fields :: "MessageField list"
  rv_payment :: "json option"
  rv_venue_asset :: "json option"
  rv_collateral_asset :: "json option"
  rv_warnings :: "string list"

section \<open>Scope\<close>

definition BINDING_FIELD :: string where
  "BINDING_FIELD = ''Transaction binding (recent blockhash excluded)''"

definition review_invalid :: "string \<Rightarrow> ProtocolError fault" where
  "review_invalid message = Fault (error_new SelectorMismatch message)"

definition is_scope :: "SealedApprovalTerms \<Rightarrow> bool" where
  "is_scope terms \<longleftrightarrow> (case st_selector terms of
     SelectorPetal _ _ classes grants _ \<Rightarrow>
       list_ex pumpfun_review_required (classes @ concat (map rg_allowed_operation_classes grants))
   | SelectorExact _ _ \<Rightarrow> False)"

definition validate_scope :: "SealedApprovalTerms \<Rightarrow> string \<Rightarrow> ProtocolError fault + unit" where
  "validate_scope terms cls = (case st_selector terms of
     SelectorExact _ _ \<Rightarrow> Inl (review_invalid ''Pump transaction review requires its blockhash-refresh scope'')
   | SelectorPetal _ _ classes grants _ \<Rightarrow>
       if \<not> pumpfun_review_required cls \<or> classes \<noteq> [cls] \<or> grants \<noteq> []
         \<or> st_allowed_crypto_suites terms \<noteq> [Ed25519Message]
         \<or> al_max_operations (st_limits terms) \<noteq> 1 \<or> al_max_signatures (st_limits terms) \<noteq> 1
       then Inl (review_invalid ''Pump transaction scope must bind one class, account, operation and Ed25519 signature'')
       else Inr ())"

text \<open>The text of a parse error (\<open>Display\<close> of \<open>ParseError\<close>).\<close>

fun clear_error_to_string :: "ClearParseError \<Rightarrow> string" where
  "clear_error_to_string (CE_ShortVec e) = ''short-vec: '' @ short_vec_error_to_string e"
| "clear_error_to_string CE_Truncated = ''message is truncated''"
| "clear_error_to_string CE_Empty = ''message is empty''"
| "clear_error_to_string CE_Versioned = ''versioned message (v0 / address-lookup-table) is not supported''"
| "clear_error_to_string (CE_TrailingBytes n) = ''trailing bytes after message ('' @ decimal n @ '' bytes)''"
| "clear_error_to_string CE_NoFeePayer = ''no fee payer: num_required_signatures is 0''"
| "clear_error_to_string CE_ReadonlySignerOverlap = ''read-only signed accounts overlap with writable signers''"
| "clear_error_to_string CE_SignerUnsignedOverlap = ''num_required_signatures + num_readonly_unsigned_accounts exceeds account count''"
| "clear_error_to_string (CE_ProgramIndexOutOfRange i) = ''instruction program_id_index '' @ decimal (unat i) @ '' is out of range''"
| "clear_error_to_string CE_ProgramIsFeePayer = ''instruction program_id_index 0: the program cannot be the fee payer''"
| "clear_error_to_string (CE_AccountIndexOutOfRange i) = ''instruction account index '' @ decimal (unat i) @ '' is out of range''"
| "clear_error_to_string (CE_TooManyAccounts n) = ''account count '' @ decimal n @ '' exceeds the legacy maximum''"
| "clear_error_to_string (CE_UnsupportedVersion v) = ''unsupported message version '' @ decimal (unat v)"
| "clear_error_to_string CE_Oversized = ''message exceeds the Solana packet size''"

fun reading_error :: "ClearParseError fault \<Rightarrow> ProtocolError fault" where
  "reading_error Panic = Panic"
| "reading_error (Fault e) = review_invalid (''Invalid Solana review: '' @ clear_error_to_string e)"

definition reading :: "crypto_env \<Rightarrow> bytes \<Rightarrow> Pubkey \<Rightarrow> ProtocolError fault + MessageReading" where
  "reading env bytes signer =
     and_then (map_err reading_error (inspect env bytes)) (\<lambda>r.
     if mr_fee_payer r \<noteq> signer then Inl (review_invalid ''Solana fee payer differs from the selected signing account'')
     else Inr r)"

section \<open>Amounts\<close>

definition trim_zeros :: "string \<Rightarrow> string" where
  "trim_zeros s = rev (dropWhile (\<lambda>c. c = CHR ''0'') (rev s))"

definition pad9 :: "nat \<Rightarrow> string" where
  "pad9 n = replicate (9 - length (decimal n)) CHR ''0'' @ decimal n"

text \<open>The \<open>expect\<close> of \<open>sol_display\<close> panics when the text is not a number of 128 bits.\<close>

definition sol_display :: "string \<Rightarrow> ProtocolError fault + string" where
  "sol_display lamports =
     and_then (ok_or (unsigned_from_str 128 lamports) Panic) (\<lambda>amount.
     let whole = amount div 1000000000; fraction = amount mod 1000000000 in
     if fraction = 0 then Inr (decimal whole)
     else Inr (decimal whole @ ''.'' @ trim_zeros (pad9 fraction)))"

text \<open>
  The loop of \<open>priority_fee_budget\<close> over the instructions: the limits and prices found, or \<open>None\<close> for its early return.
\<close>

definition unit_limit_name :: string where
  "unit_limit_name = ''Compute budget'' @ MIDDOT @ ''unit limit''"

definition unit_price_name :: string where
  "unit_price_name = ''Compute budget'' @ MIDDOT @ ''unit price''"

definition first_amount :: "InstructionReading \<Rightarrow> nat option" where
  "first_amount ix = (case ir_fields ix of [] \<Rightarrow> None | f # _ \<Rightarrow> unsigned_from_str 128 (fd_value f))"

fun collect_budget :: "InstructionReading list \<Rightarrow> nat list \<Rightarrow> nat list \<Rightarrow> (nat list \<times> nat list) option" where
  "collect_budget [] limits prices = Some (limits, prices)"
| "collect_budget (ix # ixs) limits prices =
     Option.bind (if ir_name ix = Some unit_limit_name then map_option (\<lambda>n. limits @ [n]) (first_amount ix) else Some limits) (\<lambda>limits.
     Option.bind (if ir_name ix = Some unit_price_name then map_option (\<lambda>n. prices @ [n]) (first_amount ix) else Some prices) (\<lambda>prices.
     collect_budget ixs limits prices))"

text \<open>The product is one on \<open>u128\<close>: it panics on overflow.\<close>

definition priority_fee_budget :: "MessageReading \<Rightarrow> ProtocolError fault + nat option" where
  "priority_fee_budget r = (case collect_budget (mr_instructions r) [] [] of
     Some ([limit], [price]) \<Rightarrow>
       if limit * price < 2 ^ 128 then Inr (Some ((limit * price + 999999) div 1000000)) else Inl Panic
   | _ \<Rightarrow> Inr None)"

section \<open>The fields shown\<close>

definition field_of :: "string \<Rightarrow> string \<Rightarrow> MessageField" where
  "field_of path text = \<lparr>mf_path = path, mf_value = text\<rparr>"

definition spaced :: "string \<Rightarrow> string" where
  "spaced name = map (\<lambda>c. if c = CHR ''_'' then CHR '' '' else c) name"

definition native_argument :: "crypto_env \<Rightarrow> InstructionReading \<Rightarrow> Field \<Rightarrow> bool" where
  "native_argument env ix argument \<longleftrightarrow>
     (ce_base58 env (ir_program ix) = SYSTEM \<and> fd_name argument = ''lamports'')
     \<or> (ir_name ix \<in> {Some (''Pump'' @ MIDDOT @ ''buy''), Some (''Pump'' @ MIDDOT @ ''sell''), Some (''Pump'' @ MIDDOT @ ''buy_exact_sol_in'')}
        \<and> fd_name argument \<in> {''max_sol_cost'', ''min_sol_output'', ''spendable_sol_in''})"

definition RAW_AMOUNTS :: "string list" where
  "RAW_AMOUNTS = [''amount'', ''base_amount_out'', ''base_amount_in'', ''min_tokens_out'', ''min_base_amount_out'',
     ''max_quote_amount_in'', ''min_quote_amount_out'', ''spendable_quote_in'']"

definition argument_field :: "crypto_env \<Rightarrow> string \<Rightarrow> InstructionReading \<Rightarrow> Field \<Rightarrow> ProtocolError fault + MessageField" where
  "argument_field env prefix ix argument =
     and_then
       (if native_argument env ix argument then
          and_then (sol_display (fd_value argument)) (\<lambda>sol.
          Inr (spaced (fd_name argument), fd_value argument @ '' lamports ('' @ sol @ '' SOL)''))
        else if fd_name argument \<in> set RAW_AMOUNTS
        then Inr (spaced (fd_name argument) @ '' (raw units)'', fd_value argument)
        else Inr (spaced (fd_name argument), fd_value argument)) (\<lambda>(label, text).
     Inr (field_of (prefix @ MIDDOT @ label) text))"

fun map_result :: "('a \<Rightarrow> 'e + 'b) \<Rightarrow> 'a list \<Rightarrow> 'e + 'b list" where
  "map_result f [] = Inr []"
| "map_result f (x # xs) = and_then (f x) (\<lambda>y. and_then (map_result f xs) (\<lambda>ys. Inr (y # ys)))"

definition account_field :: "crypto_env \<Rightarrow> string \<Rightarrow> AccountReading \<Rightarrow> MessageField" where
  "account_field env prefix a =
     (let address = (case ar_address a of Some key \<Rightarrow> ce_base58 env key
        | None \<Rightarrow> ''Unresolved lookup '' @ (case ar_lookup a of Some l \<Rightarrow> l | None \<Rightarrow> ''unknown'')) in
      field_of (prefix @ MIDDOT @ ar_role a @ '' (index '' @ decimal (unat (ar_index a)) @ '')'')
        (address @ MIDDOT @ (if ar_signer a then ''signer'' else ''not signer'') @ MIDDOT
          @ (if ar_writable a then ''writable'' else ''read-only'')))"

definition instruction_prefix :: "nat \<Rightarrow> string" where
  "instruction_prefix index = ''Instruction '' @ decimal (index + 1)"

definition instruction_fields :: "crypto_env \<Rightarrow> nat \<Rightarrow> InstructionReading \<Rightarrow> ProtocolError fault + MessageField list" where
  "instruction_fields env index ix =
     (let prefix = instruction_prefix index in
      and_then (map_result (argument_field env prefix ix) (ir_fields ix)) (\<lambda>arguments.
      Inr ([field_of prefix (case ir_name ix of Some name \<Rightarrow> name | None \<Rightarrow> ''Undecoded instruction''),
            field_of (prefix @ MIDDOT @ ''Program'') (ce_base58 env (ir_program ix))]
          @ map (account_field env prefix) (ir_accounts ix) @ arguments
          @ [field_of (prefix @ MIDDOT @ ''Exact instruction bytes'') (ir_data_hex ix)]
          @ (case ir_warning ix of None \<Rightarrow> [] | Some warning \<Rightarrow> [field_of (prefix @ MIDDOT @ ''Reading limit'') warning]))))"

definition fee_fields :: "nat option \<Rightarrow> ProtocolError fault + MessageField list" where
  "fee_fields fee = (case fee of
     None \<Rightarrow> Inr []
   | Some lamports \<Rightarrow>
       and_then (sol_display (decimal lamports)) (\<lambda>sol.
       Inr [field_of ''Requested priority fee ceiling''
         (decimal lamports @ '' lamports ('' @ sol @ '' SOL); base and program fees are additional'')]))"

definition signer_fields :: "crypto_env \<Rightarrow> Pubkey list \<Rightarrow> MessageField list" where
  "signer_fields env signers =
     map (\<lambda>(index, signer). field_of (''Required signer '' @ decimal (index + 1)) (ce_base58 env signer)) (enumerate 0 signers)"

definition review_fields :: "crypto_env \<Rightarrow> MessageReading \<Rightarrow> ProtocolError fault + MessageField list" where
  "review_fields env r =
     and_then (priority_fee_budget r) (\<lambda>requested_priority_fee.
     and_then (fee_fields requested_priority_fee) (\<lambda>fee.
     and_then (map_result (\<lambda>(index, ix). instruction_fields env index ix) (enumerate 0 (mr_instructions r))) (\<lambda>ixs.
     Inr ([field_of BINDING_FIELD (mr_blockhash_independent_sha256 r),
           field_of ''Recent blockhash (refreshable)'' (mr_recent_blockhash r),
           field_of ''Message SHA-256'' (mr_payload_sha256 r)]
         @ fee @ signer_fields env (mr_signers r) @ concat ixs))))"

definition BATCH_DOMAIN :: bytes where
  "BATCH_DOMAIN = str_bytes ''bloom.petal.payload-batch.v1'' @ [0]"

definition batch_digest :: "crypto_env \<Rightarrow> bytes \<Rightarrow> Digest32" where
  "batch_digest env bytes = ce_digest32_from_bytes env
     (ce_sha256 env (BATCH_DOMAIN @ be_bytes 8 1 @ be_bytes 8 (length bytes) @ bytes))"

definition prepare :: "crypto_env \<Rightarrow> ApprovalPrepareRequest \<Rightarrow> Pubkey \<Rightarrow> ProtocolError fault + MessageReview" where
  "prepare env request signer =
     and_then (ok_or (ap_petal_use_claim request) (review_invalid ''Pump review requires its Petal claim'')) (\<lambda>claim.
     and_then (validate_scope (ap_terms request) (pc_operation_class claim)) (\<lambda>_.
     if pc_crypto_suite claim \<noteq> Ed25519Message \<or> length (ap_message_review_payloads request) \<noteq> 1
       \<or> ap_evm_review_payloads request \<noteq> [] \<or> ap_safe_review_payloads request \<noteq> []
     then Inl (review_invalid ''Pump review requires one complete Solana message; upgrade Bloom Machine'')
     else
       let bytes = ce_base64_decode env (ap_message_review_payloads request ! 0) in
       and_then (reading env bytes signer) (\<lambda>r.
       and_then (map_err review_invalid (ce_digest32_new env (mr_payload_sha256 r))) (\<lambda>expected_hash.
       if pc_ordered_hashes claim \<noteq> [expected_hash] \<or> pc_payload_digest claim \<noteq> batch_digest env bytes
       then Inl (review_invalid ''Pump review message differs from the prepared claim hash'')
       else and_then (review_fields env r) (\<lambda>shown.
         if 256 < length shown then Inl (review_invalid ''Solana transaction exceeds its owner review field bound'')
         else Inr \<lparr>rv_kind = ''solana_message'', rv_title = ''Approve a Solana transaction'', rv_signer = ce_base58 env signer,
           rv_payload_keccak = [], rv_domain = [], rv_fields = shown, rv_payment = None, rv_venue_asset = None,
           rv_collateral_asset = None,
           rv_warnings = mr_warnings r @ [''Petal value limits and quotes remain MachineAsserted. Unknown token amounts retain raw units.'']\<rparr>)))))"

section \<open>Using the reviewed message\<close>

definition single_payload :: "SigningPayloads \<Rightarrow> ProtocolError fault + Base64UrlBytes" where
  "single_payload payloads = (case payloads of
     SinglePayload payload \<Rightarrow> Inr payload
   | BatchPayloads children \<Rightarrow>
       if length children = 1 then Inr (children ! 0) else Inl (review_invalid ''Pump signing use requires exactly one message''))"

definition verify_use :: "crypto_env \<Rightarrow> SealedApprovalTerms \<Rightarrow> MachineSignRequest \<Rightarrow> Pubkey \<Rightarrow> MessageReview \<Rightarrow> ProtocolError fault + unit" where
  "verify_use env terms request signer approved =
     and_then (ok_or (ms_petal_use_claim request) (review_invalid ''Pump signing use requires its claim'')) (\<lambda>claim.
     and_then (validate_scope terms (pc_operation_class claim)) (\<lambda>_.
     if ms_crypto_suite request \<noteq> Ed25519Message \<or> pc_crypto_suite claim \<noteq> ms_crypto_suite request
     then Inl (review_invalid ''Pump signing use requires Ed25519 over the raw message'')
     else
       and_then (single_payload (ms_payloads request)) (\<lambda>payload.
       and_then (reading env (ce_base64_decode env payload) signer) (\<lambda>actual.
       let bindings = filter (\<lambda>f. mf_path f = BINDING_FIELD) (rv_fields approved) in
       if rv_kind approved \<noteq> ''solana_message'' \<or> rv_signer approved \<noteq> ce_base58 env signer \<or> length bindings \<noteq> 1
         \<or> mf_value (bindings ! 0) \<noteq> mr_blockhash_independent_sha256 actual
       then Inl (review_invalid ''Solana transaction differs from its owner review; prepare a new approval'')
       else Inr ()))))"

section \<open>Preparing never panics\<close>

definition u64_text :: "string \<Rightarrow> bool" where
  "u64_text s \<longleftrightarrow> (\<exists>n < 2 ^ 64. s = decimal n)"

definition NATIVE_NAMES :: "string list" where
  "NATIVE_NAMES = [''lamports'', ''max_sol_cost'', ''min_sol_output'', ''spendable_sol_in'']"

lemma unsigned_from_str_decimal: "n < 2 ^ bits \<Longrightarrow> unsigned_from_str bits (decimal n) = Some n"
  by (simp add: unsigned_from_str_def hd_decimal digits_value_decimal Let_def)

lemma u64_text_parses: "u64_text s \<Longrightarrow> \<exists>n < 2 ^ 64. unsigned_from_str 128 s = Some n"
proof -
  assume "u64_text s"
  then obtain n :: nat where n: "n < 2 ^ 64" "s = decimal n" by (auto simp: u64_text_def)
  then have "n < 2 ^ 128" by simp
  with n show ?thesis using unsigned_from_str_decimal by blast
qed

lemma cursor_uint_bound: "cursor_uint n data = Inr (v, rest) \<Longrightarrow> v < 256 ^ n"
  using from_le_less [of "take n data"] by (auto simp: cursor_uint_def cursor_take_def split: if_splits)

lemma power_256: "(256 :: nat) ^ n = 2 ^ (8 * n)"
  by (simp add: power_mult)

lemma cursor_decimal_u64: "cursor_decimal 8 data = Inr (text, rest) \<Longrightarrow> u64_text text"
  using cursor_uint_bound [of 8] by (auto simp: cursor_decimal_def and_then_eq_Inr u64_text_def)

lemma cursor_field_u64: "cursor_field name n data = Inr (f, rest) \<Longrightarrow> n \<le> 8 \<Longrightarrow> u64_text (fd_value f)"
proof -
  assume f: "cursor_field name n data = Inr (f, rest)" and n: "n \<le> 8"
  then obtain v where v: "cursor_uint n data = Inr (v, rest)" "f = \<lparr>fd_name = name, fd_value = decimal v\<rparr>"
    by (auto simp: cursor_field_def and_then_eq_Inr)
  have "v < 256 ^ n" using v(1) by (rule cursor_uint_bound)
  also have "(256 :: nat) ^ n \<le> 256 ^ 8" using n by (intro power_increasing) simp_all
  finally show ?thesis using v(2) by (auto simp: u64_text_def)
qed

lemma cursor_field_name: "cursor_field name n data = Inr (f, rest) \<Longrightarrow> fd_name f = name"
  by (auto simp: cursor_field_def and_then_eq_Inr)

text \<open>In the catalog the native amounts are numbers of 64 bits, and no program name starts like a fixed layout.\<close>

lemma catalog_native:
  "list_all (\<lambda>p. hd (cp_name p) = CHR ''P'' \<and> cp_name p \<noteq> []
     \<and> list_all (\<lambda>i. list_all (\<lambda>(name, kind). name \<in> set NATIVE_NAMES \<longrightarrow> kind = JString ''u64'') (ci_args i)) (cp_instructions p)) catalog"
  by (simp add: catalog_defs NATIVE_NAMES_def)

lemma cursor_argument_u64: "cursor_argument env (JString ''u64'') data = Inr (text, rest) \<Longrightarrow> u64_text text"
  by (rule cursor_decimal_u64) (simp add: cursor_argument_def cursor_scalar_def)

lemma cursor_arguments_native:
  assumes "cursor_arguments env args data = Inr (fs, rest)"
    and "list_all (\<lambda>(name, kind). name \<in> set NATIVE_NAMES \<longrightarrow> kind = JString ''u64'') args"
  shows "\<forall>f \<in> set fs. fd_name f \<in> set NATIVE_NAMES \<longrightarrow> u64_text (fd_value f)"
  using assms
proof (induction args arbitrary: data fs rest)
  case (Cons a args)
  obtain name kind where a: "a = (name, kind)" by (cases a)
  from Cons.prems(1) obtain shown rest' fs' where t: "cursor_argument env kind data = Inr (shown, rest')"
    and fs': "cursor_arguments env args rest' = Inr (fs', rest)" "fs = \<lparr>fd_name = name, fd_value = shown\<rparr> # fs'"
    by (auto simp: a and_then_eq_Inr)
  have "\<forall>f \<in> set fs'. fd_name f \<in> set NATIVE_NAMES \<longrightarrow> u64_text (fd_value f)"
    using Cons.IH [OF fs'(1)] Cons.prems(2) by simp
  moreover have "name \<in> set NATIVE_NAMES \<Longrightarrow> u64_text shown"
    using Cons.prems(2) t cursor_argument_u64 by (simp add: a)
  ultimately show ?case using fs'(2) by simp
qed simp

definition amounts_readable :: "string \<Rightarrow> Field list \<Rightarrow> bool" where
  "amounts_readable name fs \<longleftrightarrow> (\<forall>f \<in> set fs. fd_name f \<in> set NATIVE_NAMES \<longrightarrow> u64_text (fd_value f))
     \<and> (name = unit_limit_name \<or> name = unit_price_name \<longrightarrow> (\<exists>f. fs = [f] \<and> u64_text (fd_value f)))"

lemma layout_amounts:
  assumes "decode_layout env address data = Inr (Some ((name, roles), fs, rest))"
  shows "amounts_readable name fs"
proof -
  note u = cursor_field_u64 [of _ 8, simplified] cursor_field_u64 [of _ 4, simplified] cursor_field_u64 [of _ "Suc 0", simplified]
  have "amounts_readable name fs" if "decode_system env data = Inr (Some ((name, roles), fs, rest))"
    using that by (auto simp: decode_system_def and_then_eq_Inr amounts_readable_def unit_limit_name_def unit_price_name_def NATIVE_NAMES_def
        split: if_splits dest: u cursor_field_name)
  moreover have "amounts_readable name fs" if "decode_compute data = Inr (Some ((name, roles), fs, rest))"
    using that by (auto simp: decode_compute_def and_then_eq_Inr amounts_readable_def split: if_splits dest: u)
  moreover have "amounts_readable name fs" if "decode_token data = Inr (Some ((name, roles), fs, rest))"
    using that by (auto simp: decode_token_def and_then_eq_Inr amounts_readable_def unit_limit_name_def unit_price_name_def
        split: if_splits dest: u)
  moreover have "amounts_readable name fs" if "decode_associated data = Inr (Some ((name, roles), fs, rest))"
    using that by (auto simp: decode_associated_def and_then_eq_Inr amounts_readable_def unit_limit_name_def unit_price_name_def split: if_splits)
  ultimately show ?thesis using assms unfolding decode_layout_def by (auto split: if_splits)
qed

lemma decoded_amounts:
  assumes "decode_instruction env program data = Inr (Some (name, roles, fs))"
  shows "amounts_readable name fs"
proof (cases "find (\<lambda>p. cp_address p = program) catalog")
  case None
  then show ?thesis using assms layout_amounts
    by (auto simp: decode_instruction_def and_then_eq_Inr split: option.splits prod.splits)
next
  case (Some known)
  then have "known \<in> set catalog" by (auto dest: find_SomeD)
  then have k: "hd (cp_name known) = CHR ''P''" "cp_name known \<noteq> []"
    "list_all (\<lambda>i. list_all (\<lambda>(name, kind). name \<in> set NATIVE_NAMES \<longrightarrow> kind = JString ''u64'') (ci_args i)) (cp_instructions known)"
    using catalog_native by (auto simp: list_all_iff)
  from assms Some obtain i rest where i: "i \<in> set (cp_instructions known)" "cursor_arguments env (ci_args i) (drop 8 data) = Inr (fs, rest)"
    and n: "name = cp_name known @ MIDDOT @ ci_name i"
    by (auto simp: decode_instruction_def decode_catalogued_def and_then_eq_Inr split: option.splits dest: find_SomeD)
  have "\<forall>f \<in> set fs. fd_name f \<in> set NATIVE_NAMES \<longrightarrow> u64_text (fd_value f)"
    using cursor_arguments_native [OF i(2)] k(3) i(1) by (simp add: list_all_iff)
  moreover have "hd name = CHR ''P''" using n k by simp
  then have "name \<noteq> unit_limit_name \<and> name \<noteq> unit_price_name" by (auto simp: unit_limit_name_def unit_price_name_def)
  ultimately show ?thesis by (simp add: amounts_readable_def)
qed

definition reading_amounts :: "MessageReading \<Rightarrow> bool" where
  "reading_amounts r \<longleftrightarrow> (\<forall>ix \<in> set (mr_instructions r). case ir_name ix of
     None \<Rightarrow> ir_fields ix = [] | Some name \<Rightarrow> amounts_readable name (ir_fields ix))"

lemma attributed_cases:
  "attributed decoded n = (name, roles, fs, warning) \<Longrightarrow>
     (name = None \<and> fs = []) \<or> (\<exists>nm. name = Some nm \<and> decoded = Inr (Some (nm, roles, fs)))"
  by (auto simp: attributed_def split: sum.splits option.splits prod.splits if_splits)

lemma inspect_amounts:
  assumes "inspect env bytes = Inr r"
  shows "reading_amounts r"
  unfolding reading_amounts_def
proof
  fix ix
  assume ix: "ix \<in> set (mr_instructions r)"
  obtain p where p: "parse_versioned_message bytes = Inr p" using assms by (auto simp: inspect_def and_then_eq_Inr)
  from inspect_ok [OF p, of env] assms have "reading_faithful env bytes p r" by simp
  then obtain i where i: "instruction_read env p i ix"
    using ix by (auto simp: reading_faithful_def list_all2_conv_all_nth in_set_conv_nth)
  obtain name roles fs warning where
    a: "attributed (decode_instruction env (ir_program ix) (ix_data i)) (length (ix_accounts i)) = (name, roles, fs, warning)"
    by (metis prod_cases4)
  have "ir_name ix = name" "ir_fields ix = fs" using i a by (simp_all add: instruction_read_def)
  then show "case ir_name ix of None \<Rightarrow> ir_fields ix = [] | Some name \<Rightarrow> amounts_readable name (ir_fields ix)"
    using attributed_cases [OF a] decoded_amounts by auto
qed

lemma sol_display_u64: "u64_text s \<Longrightarrow> is_ok (sol_display s)"
  using u64_text_parses [of s] by (auto simp: sol_display_def Let_def)

lemma sol_display_decimal: "n < 2 ^ 128 \<Longrightarrow> is_ok (sol_display (decimal n))"
  by (simp add: sol_display_def Let_def unsigned_from_str_decimal)

lemma map_result_ok: "\<forall>x \<in> set xs. is_ok (f x) \<Longrightarrow> is_ok (map_result f xs)"
  by (induction xs) (auto simp: is_ok_iff)

lemma native_is_u64:
  assumes "reading_amounts r" and "ix \<in> set (mr_instructions r)" and "f \<in> set (ir_fields ix)" and "native_argument env ix f"
  shows "u64_text (fd_value f)"
proof -
  have "fd_name f \<in> set NATIVE_NAMES" using assms(4) by (auto simp: native_argument_def NATIVE_NAMES_def)
  then show ?thesis using assms(1-3) by (auto simp: reading_amounts_def amounts_readable_def split: option.splits)
qed

lemma instruction_fields_ok:
  assumes "reading_amounts r" and "ix \<in> set (mr_instructions r)"
  shows "is_ok (instruction_fields env index ix)"
proof -
  have "is_ok (argument_field env prefix ix f)" if f: "f \<in> set (ir_fields ix)" for f prefix
  proof (cases "native_argument env ix f")
    case True
    then obtain x where "sol_display (fd_value f) = Inr x" using sol_display_u64 [OF native_is_u64 [OF assms f]] by (auto simp: is_ok_iff)
    then show ?thesis by (simp add: argument_field_def True)
  qed (simp add: argument_field_def)
  then have "is_ok (map_result (argument_field env prefix ix) (ir_fields ix))" for prefix by (intro map_result_ok) blast
  then obtain arguments where "map_result (argument_field env (instruction_prefix index) ix) (ir_fields ix) = Inr arguments"
    unfolding is_ok_iff by blast
  then show ?thesis by (simp add: instruction_fields_def Let_def)
qed

lemma collect_budget_bound:
  assumes "\<forall>ix \<in> set ixs. case ir_name ix of None \<Rightarrow> ir_fields ix = [] | Some name \<Rightarrow> amounts_readable name (ir_fields ix)"
    and "collect_budget ixs limits prices = Some (ls, ps)" and "\<forall>n \<in> set limits \<union> set prices. n < 2 ^ 64"
  shows "\<forall>n \<in> set ls \<union> set ps. n < 2 ^ 64"
  using assms
proof (induction ixs arbitrary: limits prices)
  case (Cons ix ixs)
  have b: "n < 2 ^ 64" if "first_amount ix = Some n" "ir_name ix = Some unit_limit_name \<or> ir_name ix = Some unit_price_name" for n
  proof -
    from that(2) Cons.prems(1) obtain f where f: "ir_fields ix = [f]" "u64_text (fd_value f)" by (auto simp: amounts_readable_def)
    then show ?thesis using that(1) u64_text_parses [OF f(2)] by (auto simp: first_amount_def)
  qed
  from Cons.prems(2) obtain limits' prices' where c: "collect_budget ixs limits' prices' = Some (ls, ps)"
    and l: "limits' = limits \<or> (\<exists>n. ir_name ix = Some unit_limit_name \<and> first_amount ix = Some n \<and> limits' = limits @ [n])"
    and q: "prices' = prices \<or> (\<exists>n. ir_name ix = Some unit_price_name \<and> first_amount ix = Some n \<and> prices' = prices @ [n])"
    by (auto simp: Option.bind_eq_Some_conv split: if_splits)
  have "\<forall>n \<in> set limits' \<union> set prices'. n < 2 ^ 64" using l q b Cons.prems(3) by fastforce
  then show ?case using Cons.IH [OF _ c] Cons.prems(1) by simp
qed simp

lemma priority_fee_budget_ok:
  assumes "reading_amounts r"
  shows "\<exists>fee. priority_fee_budget r = Inr fee \<and> (\<forall>n. fee = Some n \<longrightarrow> n < 2 ^ 128)"
proof (cases "\<exists>limit price. collect_budget (mr_instructions r) [] [] = Some ([limit], [price])")
  case True
  then obtain limit price where c: "collect_budget (mr_instructions r) [] [] = Some ([limit], [price])" by blast
  have "limit < 2 ^ 64 \<and> price < 2 ^ 64"
    using collect_budget_bound [OF _ c] assms by (simp add: reading_amounts_def)
  then have "limit * price < 2 ^ 64 * 2 ^ 64" by (intro mult_strict_mono) simp_all
  then have lp: "limit * price < 2 ^ 128" by simp
  then have "(limit * price + 999999) div 1000000 < 2 ^ 128" by simp
  then show ?thesis using lp by (simp add: priority_fee_budget_def c)
next
  case False
  then have "priority_fee_budget r = Inr None" by (auto simp: priority_fee_budget_def split: option.split prod.split list.split)
  then show ?thesis by simp
qed

lemma review_fields_ok:
  assumes "reading_amounts r"
  shows "is_ok (review_fields env r)"
proof -
  obtain fee where fee: "priority_fee_budget r = Inr fee" "\<forall>n. fee = Some n \<longrightarrow> n < 2 ^ 128" using priority_fee_budget_ok [OF assms] by blast
  have "is_ok (fee_fields fee)"
  proof (cases fee)
    case (Some n)
    then obtain x where "sol_display (decimal n) = Inr x" using sol_display_decimal fee(2) by (auto simp: is_ok_iff)
    then show ?thesis by (simp add: fee_fields_def Some)
  qed (simp add: fee_fields_def)
  moreover have "is_ok (map_result (\<lambda>(index, ix). instruction_fields env index ix) (enumerate 0 (mr_instructions r)))"
    using instruction_fields_ok [OF assms] by (intro map_result_ok) (auto simp: in_set_enumerate_eq)
  ultimately show ?thesis using fee(1) by (auto simp: review_fields_def is_ok_iff)
qed

lemma inspect_never_panics: "inspect env bytes \<noteq> Inl Panic"
  using inspect_ok [of bytes _ env] by (cases "parse_versioned_message bytes") (auto simp: inspect_def)

lemma reading_never_panics: "reading env bytes signer \<noteq> Inl Panic"
proof (cases "inspect env bytes")
  case (Inl e)
  then show ?thesis using inspect_never_panics [of env bytes] by (cases e) (simp_all add: reading_def review_invalid_def)
qed (simp add: reading_def review_invalid_def)

lemma validate_scope_cases: "validate_scope terms cls = Inr () \<or> (\<exists>m. validate_scope terms cls = Inl (review_invalid m))"
  by (auto simp: validate_scope_def split: ApprovalSelector.split)

lemma review_invalid_not_panic [simp]: "review_invalid m \<noteq> Panic" "Panic \<noteq> review_invalid m"
  by (simp_all add: review_invalid_def)

lemma reading_inspect: "reading env bytes signer = Inr r \<longleftrightarrow> inspect env bytes = Inr r \<and> mr_fee_payer r = signer"
  by (auto simp: reading_def and_then_eq_Inr)

lemma reading_amounts_of: "reading env bytes signer = Inr r \<Longrightarrow> reading_amounts r"
  by (auto simp: reading_inspect intro: inspect_amounts)

lemma prepare_never_panics: "prepare env request signer \<noteq> Inl Panic"
proof
  assume panic: "prepare env request signer = Inl Panic"
  then obtain claim where claim: "ap_petal_use_claim request = Some claim"
    by (cases "ap_petal_use_claim request") (simp_all add: prepare_def)
  have scope: "validate_scope (ap_terms request) (pc_operation_class claim) = Inr ()"
    using validate_scope_cases [of "ap_terms request" "pc_operation_class claim"] panic claim by (auto simp: prepare_def)
  let ?bytes = "ce_base64_decode env (ap_message_review_payloads request ! 0)"
  obtain r where r: "reading env ?bytes signer = Inr r"
    using panic claim scope reading_never_panics [of env ?bytes signer]
    by (cases "reading env ?bytes signer") (auto simp: prepare_def Let_def split: if_splits)
  obtain shown where "review_fields env r = Inr shown" using review_fields_ok [OF reading_amounts_of [OF r], of env] by (auto simp: is_ok_iff)
  then show False
    using panic claim scope r by (cases "ce_digest32_new env (mr_payload_sha256 r)") (auto simp: prepare_def Let_def split: if_splits)
qed

lemma verify_use_never_panics: "verify_use env terms request signer approved \<noteq> Inl Panic"
proof
  assume panic: "verify_use env terms request signer approved = Inl Panic"
  then obtain claim where claim: "ms_petal_use_claim request = Some claim"
    by (cases "ms_petal_use_claim request") (simp_all add: verify_use_def)
  have scope: "validate_scope terms (pc_operation_class claim) = Inr ()"
    using validate_scope_cases [of terms "pc_operation_class claim"] panic claim by (auto simp: verify_use_def)
  have "single_payload ps \<noteq> Inl Panic" for ps by (auto simp: single_payload_def split: SigningPayloads.split)
  then show False using panic claim scope reading_never_panics
    by (auto simp: verify_use_def and_then_eq_Inl Let_def split: if_splits)
qed

section \<open>A use is accepted exactly for the reviewed message\<close>

text \<open>The one message a prepare request carries, and the one a signing request carries.\<close>

definition reviewed_bytes :: "crypto_env \<Rightarrow> ApprovalPrepareRequest \<Rightarrow> bytes" where
  "reviewed_bytes env request = ce_base64_decode env (ap_message_review_payloads request ! 0)"

lemma prepare_Inr:
  assumes "prepare env request signer = Inr review"
  shows "\<exists>claim r shown. ap_petal_use_claim request = Some claim \<and> validate_scope (ap_terms request) (pc_operation_class claim) = Inr ()
    \<and> reading env (reviewed_bytes env request) signer = Inr r \<and> review_fields env r = Inr shown
    \<and> rv_kind review = ''solana_message'' \<and> rv_signer review = ce_base58 env signer \<and> rv_fields review = shown"
  using assms by (auto simp: prepare_def and_then_eq_Inr Let_def reviewed_bytes_def split: if_splits)

lemma reading_message:
  assumes "reading env bytes signer = Inr r"
  obtains p where "parse_versioned_message bytes = Inr p" "fee_payer (pm_message p) = signer"
    "mr_blockhash_independent_sha256 r = ce_hex env (blockhash_independent_digest (ce_sha256 env) p)"
proof -
  have i: "inspect env bytes = Inr r" "mr_fee_payer r = signer" using assms by (simp_all add: reading_inspect)
  then obtain p where p: "parse_versioned_message bytes = Inr p" by (auto simp: inspect_def and_then_eq_Inr)
  from inspect_ok [OF p, of env] i have "reading_faithful env bytes p r" by simp
  with p i show thesis by (intro that [of p]) (auto simp: reading_faithful_def)
qed

text \<open>The binding is the first field, and no other field has its name.\<close>

lemma prefix_hd [simp]: "instruction_prefix i \<noteq> []" "hd (instruction_prefix i @ rest) = CHR ''I''"
  by (simp_all add: instruction_prefix_def)

lemma binding_hd: "hd (mf_path f) \<noteq> CHR ''T'' \<Longrightarrow> mf_path f \<noteq> BINDING_FIELD"
  by (auto simp: BINDING_FIELD_def)

lemma argument_paths:
  "map_result (argument_field env (instruction_prefix i) ix) xs = Inr ys \<Longrightarrow> f \<in> set ys \<Longrightarrow> hd (mf_path f) = CHR ''I''"
  by (induction xs arbitrary: ys) (auto simp: and_then_eq_Inr argument_field_def field_of_def)

lemma instruction_paths:
  assumes "instruction_fields env index ix = Inr fs" and "f \<in> set fs"
  shows "hd (mf_path f) = CHR ''I''"
proof -
  obtain arguments where a: "map_result (argument_field env (instruction_prefix index) ix) (ir_fields ix) = Inr arguments"
    using assms(1) by (auto simp: instruction_fields_def and_then_eq_Inr Let_def)
  have h: "hd (mf_path (field_of (instruction_prefix index @ rest) v)) = CHR ''I''" for rest v by (simp add: field_of_def)
  have acc: "hd (mf_path (account_field env (instruction_prefix index) x)) = CHR ''I''" for x by (simp add: account_field_def Let_def h)
  from assms a show ?thesis
    using argument_paths [OF a] acc h h [of "[]"] by (auto simp: instruction_fields_def Let_def split: option.splits)
qed

lemma map_result_set: "map_result f xs = Inr ys \<Longrightarrow> y \<in> set ys \<Longrightarrow> \<exists>x \<in> set xs. f x = Inr y"
  by (induction xs arbitrary: ys) (auto simp: and_then_eq_Inr)

lemma review_bindings:
  assumes "review_fields env r = Inr shown"
  shows "filter (\<lambda>f. mf_path f = BINDING_FIELD) shown = [field_of BINDING_FIELD (mr_blockhash_independent_sha256 r)]"
proof -
  obtain fee fs ixs where fee: "fee_fields fee = Inr fs"
    and ixs: "map_result (\<lambda>(index, ix). instruction_fields env index ix) (enumerate 0 (mr_instructions r)) = Inr ixs"
    and shown: "shown = [field_of BINDING_FIELD (mr_blockhash_independent_sha256 r), field_of ''Recent blockhash (refreshable)'' (mr_recent_blockhash r),
        field_of ''Message SHA-256'' (mr_payload_sha256 r)] @ fs @ signer_fields env (mr_signers r) @ concat ixs"
    using assms by (auto simp: review_fields_def and_then_eq_Inr)
  have "\<forall>f \<in> set fs. mf_path f \<noteq> BINDING_FIELD"
    using fee by (auto simp: fee_fields_def and_then_eq_Inr field_of_def BINDING_FIELD_def split: option.splits)
  moreover have "\<forall>f \<in> set (signer_fields env ks). mf_path f \<noteq> BINDING_FIELD" for ks
    by (auto simp: signer_fields_def field_of_def BINDING_FIELD_def)
  moreover have "\<forall>f \<in> set (concat ixs). mf_path f \<noteq> BINDING_FIELD"
    using instruction_paths map_result_set [OF ixs] by (fastforce intro!: binding_hd)
  ultimately have "filter (\<lambda>f. mf_path f = BINDING_FIELD) (fs @ signer_fields env (mr_signers r) @ concat ixs) = []"
    by (simp add: filter_empty_conv)
  then show ?thesis by (simp add: shown field_of_def) (simp add: BINDING_FIELD_def)
qed

text \<open>What a signing request has to be for the scope: one message, signed with Ed25519, of the reviewed class.\<close>

definition use_in_scope :: "crypto_env \<Rightarrow> SealedApprovalTerms \<Rightarrow> MachineSignRequest \<Rightarrow> bytes \<Rightarrow> bool" where
  "use_in_scope env terms request bytes \<longleftrightarrow> (\<exists>claim payload. ms_petal_use_claim request = Some claim
     \<and> validate_scope terms (pc_operation_class claim) = Inr () \<and> ms_crypto_suite request = Ed25519Message
     \<and> pc_crypto_suite claim = Ed25519Message \<and> single_payload (ms_payloads request) = Inr payload \<and> ce_base64_decode env payload = bytes)"

lemma verify_use_iff:
  assumes "review_fields env r = Inr shown" and "rv_fields review = shown" and "rv_kind review = ''solana_message''" and "rv_signer review = ce_base58 env signer"
  shows "verify_use env terms request signer review = Inr () \<longleftrightarrow>
    (\<exists>bytes actual. use_in_scope env terms request bytes \<and> reading env bytes signer = Inr actual
      \<and> mr_blockhash_independent_sha256 actual = mr_blockhash_independent_sha256 r)"
proof -
  let ?checks = "\<lambda>claim payload actual. ms_petal_use_claim request = Some claim \<and> validate_scope terms (pc_operation_class claim) = Inr ()
    \<and> ms_crypto_suite request = Ed25519Message \<and> pc_crypto_suite claim = Ed25519Message \<and> single_payload (ms_payloads request) = Inr payload
    \<and> reading env (ce_base64_decode env payload) signer = Inr actual \<and> mr_blockhash_independent_sha256 actual = mr_blockhash_independent_sha256 r"
  have "verify_use env terms request signer review = Inr () \<longleftrightarrow> (\<exists>claim payload actual. ?checks claim payload actual)"
  proof
    show "verify_use env terms request signer review = Inr () \<Longrightarrow> \<exists>claim payload actual. ?checks claim payload actual"
      using review_bindings [OF assms(1)] assms(2-4)
      by (auto simp: verify_use_def and_then_eq_Inr Let_def field_of_def split: if_splits)
    assume "\<exists>claim payload actual. ?checks claim payload actual"
    then obtain claim payload actual where "?checks claim payload actual" by blast
    then show "verify_use env terms request signer review = Inr ()"
      using review_bindings [OF assms(1)] assms(2-4) by (simp add: verify_use_def Let_def field_of_def)
  qed
  then show ?thesis unfolding use_in_scope_def by blast
qed

definition same_but_blockhash :: "ParsedMessage \<Rightarrow> ParsedMessage \<Rightarrow> bool" where
  "same_but_blockhash p q \<longleftrightarrow> q = p\<lparr>pm_message := (pm_message p)\<lparr>recent_blockhash := recent_blockhash (pm_message q)\<rparr>\<rparr>"

lemma same_but_blockhash_digest: "same_but_blockhash p q \<Longrightarrow> blockhash_independent_digest sha p = blockhash_independent_digest sha q"
proof -
  assume "same_but_blockhash p q"
  then have "normalized q = normalized p" unfolding same_but_blockhash_def normalized_def
    by (metis LegacyMessage.surjective LegacyMessage.update_convs(3) ParsedMessage.surjective ParsedMessage.update_convs(2) ParsedMessage.select_convs(2))
  then show "blockhash_independent_digest sha p = blockhash_independent_digest sha q" by (simp add: blockhash_independent_digest_def)
qed

lemma digest_match:
  assumes "\<forall>x y. ce_hex env (ce_sha256 env x) = ce_hex env (ce_sha256 env y) \<longrightarrow> ce_sha256 env x = ce_sha256 env y"
    and "wf_parsed p" and "wf_parsed q"
  shows "ce_hex env (blockhash_independent_digest (ce_sha256 env) q) = ce_hex env (blockhash_independent_digest (ce_sha256 env) p)
      \<longleftrightarrow> same_but_blockhash p q \<or> (serialize_parsed (normalized p) \<noteq> serialize_parsed (normalized q)
        \<and> blockhash_independent_digest (ce_sha256 env) p = blockhash_independent_digest (ce_sha256 env) q)"
proof -
  have "ce_hex env (blockhash_independent_digest (ce_sha256 env) q) = ce_hex env (blockhash_independent_digest (ce_sha256 env) p)
      \<longleftrightarrow> blockhash_independent_digest (ce_sha256 env) p = blockhash_independent_digest (ce_sha256 env) q"
    using assms(1) unfolding blockhash_independent_digest_def by metis
  moreover have "same_but_blockhash p q" if "serialize_parsed (normalized p) = serialize_parsed (normalized q)"
    using serialize_injective [OF wf_normalized [OF assms(2)] wf_normalized [OF assms(3)] that] normalized_same
    by (simp add: same_but_blockhash_def)
  ultimately show ?thesis using same_but_blockhash_digest [of p q "ce_sha256 env"] by blast
qed

lemma reading_exists:
  assumes "parse_versioned_message bytes = Inr q" and "fee_payer (pm_message q) = signer"
  shows "\<exists>r. reading env bytes signer = Inr r \<and> mr_blockhash_independent_sha256 r = ce_hex env (blockhash_independent_digest (ce_sha256 env) q)"
  using inspect_ok [OF assms(1), of env] assms(2) by (auto simp: reading_inspect reading_faithful_def)

text \<open>C33. The owner's review binds the use. Preparing a review and checking a use never panic. When a review was prepared for a
message, a signing request in the scope is accepted exactly when its message has the reviewed account as fee payer
and has the same blockhash-independent digest; so it is the reviewed message with a new blockhash, in every other
byte the same, or a SHA-256 collision.\<close>

theorem review_binds_use:
  assumes "\<forall>x y. ce_hex env (ce_sha256 env x) = ce_hex env (ce_sha256 env y) \<longrightarrow> ce_sha256 env x = ce_sha256 env y"
    and "prepare env request signer = Inr review"
  shows "\<exists>p. parse_versioned_message (reviewed_bytes env request) = Inr p \<and> fee_payer (pm_message p) = signer
    \<and> (verify_use env terms use signer review = Inr () \<longleftrightarrow>
        (\<exists>bytes q. use_in_scope env terms use bytes \<and> parse_versioned_message bytes = Inr q \<and> fee_payer (pm_message q) = signer
          \<and> (same_but_blockhash p q \<or> (serialize_parsed (normalized p) \<noteq> serialize_parsed (normalized q)
              \<and> blockhash_independent_digest (ce_sha256 env) p = blockhash_independent_digest (ce_sha256 env) q))))
    \<and> verify_use env terms use signer review \<noteq> Inl Panic \<and> prepare env request' signer \<noteq> Inl Panic"
proof -
  obtain r shown where r: "reading env (reviewed_bytes env request) signer = Inr r" and f: "review_fields env r = Inr shown"
    "rv_fields review = shown" "rv_kind review = ''solana_message''" "rv_signer review = ce_base58 env signer"
    using prepare_Inr [OF assms(2)] by blast
  obtain p where p: "parse_versioned_message (reviewed_bytes env request) = Inr p" "fee_payer (pm_message p) = signer"
    "mr_blockhash_independent_sha256 r = ce_hex env (blockhash_independent_digest (ce_sha256 env) p)"
    using reading_message [OF r] by blast
  have same: "ce_hex env (blockhash_independent_digest (ce_sha256 env) q) = ce_hex env (blockhash_independent_digest (ce_sha256 env) p)
      \<longleftrightarrow> same_but_blockhash p q \<or> (serialize_parsed (normalized p) \<noteq> serialize_parsed (normalized q)
        \<and> blockhash_independent_digest (ce_sha256 env) p = blockhash_independent_digest (ce_sha256 env) q)"
    if "parse_versioned_message bytes = Inr q" for bytes q
    using digest_match [OF assms(1)] parse_versioned_dec [OF p(1)] parse_versioned_dec [OF that] by blast
  have "(\<exists>actual. reading env bytes signer = Inr actual \<and> mr_blockhash_independent_sha256 actual = mr_blockhash_independent_sha256 r)
      \<longleftrightarrow> (\<exists>q. parse_versioned_message bytes = Inr q \<and> fee_payer (pm_message q) = signer
        \<and> (same_but_blockhash p q \<or> (serialize_parsed (normalized p) \<noteq> serialize_parsed (normalized q)
            \<and> blockhash_independent_digest (ce_sha256 env) p = blockhash_independent_digest (ce_sha256 env) q)))" (is "?l bytes = ?r bytes") for bytes
  proof
    assume "?l bytes"
    then obtain actual where a: "reading env bytes signer = Inr actual" "mr_blockhash_independent_sha256 actual = mr_blockhash_independent_sha256 r" by blast
    from reading_message [OF a(1)] obtain q where q: "parse_versioned_message bytes = Inr q" "fee_payer (pm_message q) = signer"
      "mr_blockhash_independent_sha256 actual = ce_hex env (blockhash_independent_digest (ce_sha256 env) q)" by blast
    then show "?r bytes" using a(2) p(3) same [OF q(1)] by auto
  next
    assume "?r bytes"
    then obtain q where q: "parse_versioned_message bytes = Inr q" "fee_payer (pm_message q) = signer"
      "ce_hex env (blockhash_independent_digest (ce_sha256 env) q) = ce_hex env (blockhash_independent_digest (ce_sha256 env) p)"
      using same by blast
    from reading_exists [OF q(1,2), of env] show "?l bytes" using q(3) p(3) by auto
  qed
  then have "verify_use env terms use signer review = Inr () \<longleftrightarrow> (\<exists>bytes. use_in_scope env terms use bytes \<and> ?r bytes)"
    unfolding verify_use_iff [OF f] by blast
  then show ?thesis using p(1,2) verify_use_never_panics prepare_never_panics by (intro exI [of _ p]) simp
qed

text \<open>A message without instructions, and the requests that review it and use it with another blockhash.\<close>

definition plain_message :: "u8 \<Rightarrow> ParsedMessage" where
  "plain_message b = \<lparr>pm_version = None,
     pm_message = \<lparr>header = \<lparr>num_required_signatures = 1, num_readonly_signed_accounts = 0, num_readonly_unsigned_accounts = 0\<rparr>,
       account_keys = [replicate 32 1], recent_blockhash = replicate 32 b, instructions = []\<rparr>, pm_lookups = []\<rparr>"

definition sample_claim :: "bytes \<Rightarrow> PetalUseClaim" where
  "sample_claim bytes = \<lparr>pc_package_hash = ''package'', pc_route = ''r1'', pc_operation_class = ''pumpfun.buy'', pc_crypto_suite = Ed25519Message,
     pc_payload_digest = batch_digest sample_crypto bytes, pc_ordered_hashes = [ce_hex sample_crypto (ce_sha256 sample_crypto bytes)],
     pc_declared_debits = [], pc_declared_destinations = [], pc_declared_fee = FeeNone, pc_nonce = ''nonce'', pc_claim_assurance = CA_MachineAsserted\<rparr>"

definition sample_prepare :: ApprovalPrepareRequest where
  "sample_prepare = \<lparr>ap_operation_id = ''operation'', ap_surface_selection = SurfaceDefault, ap_terms = sample_terms,
     ap_canonical_plan_facts_digest = ''facts'', ap_evm_review_payloads = [], ap_safe_review_payloads = [],
     ap_message_review_payloads = [bytes_str (serialize_parsed (plain_message 3))], ap_evm_reported_token = None,
     ap_petal_use_claim = Some (sample_claim (serialize_parsed (plain_message 3))), ap_system_use_claim = None\<rparr>"

definition sample_use :: MachineSignRequest where
  "sample_use = \<lparr>ms_operation_id = ''operation'', ms_operation_digest = ''digest'', ms_approval_id = ''approval'',
     ms_key_ref = st_key_ref sample_terms, ms_crypto_suite = Ed25519Message,
     ms_payloads = SinglePayload (bytes_str (serialize_parsed (plain_message 4))),
     ms_petal_use_claim = Some (sample_claim (serialize_parsed (plain_message 4))), ms_system_use_claim = None,
     ms_claim_assurance_evidence = None, ms_provenance = ProvenancePetal ''package'' ''r1''\<rparr>"

lemma wf_plain_message: "wf_parsed (plain_message b)"
proof -
  have w: "write_short_vec 1 = [1]" "write_short_vec 0 = [0]" using write_small [of 1] write_small [of 0] by simp_all
  show ?thesis
    by (simp add: wf_parsed_def plain_message_def wf_body_def sanitize_loaded_def serialize_parsed_def serialize_def w
        MAX_ACCOUNT_KEYS_def PUBKEY_BYTES_def PACKET_DATA_SIZE_def)
qed

lemma sample_scope: "validate_scope sample_terms ''pumpfun.buy'' = Inr ()"
  by (simp add: validate_scope_def sample_terms_def pumpfun_review_required_def PUMPFUN_REVIEW_OPERATION_CLASSES_def)

lemma sample_prepare_ok: "\<exists>review. prepare sample_crypto sample_prepare (replicate 32 1) = Inr review"
proof -
  let ?bs = "serialize_parsed (plain_message 3)"
  have bytes: "ce_base64_decode sample_crypto (bytes_str ?bs) = ?bs" "ce_digest32_new sample_crypto = Inr" by (simp_all add: sample_crypto_def)
  note p = parse_versioned_enc [OF wf_plain_message [of 3]]
  obtain r where r: "reading sample_crypto ?bs (replicate 32 1) = Inr r" "mr_instructions r = []" "mr_signers r = [replicate 32 1]"
    "mr_payload_sha256 r = ce_hex sample_crypto (ce_sha256 sample_crypto ?bs)"
    unfolding reading_def inspect_def p by (simp add: plain_message_def get_at_def get_range_def)
  have "\<exists>shown. review_fields sample_crypto r = Inr shown \<and> length shown = 4"
    using r(2,3) by (simp add: review_fields_def priority_fee_budget_def fee_fields_def signer_fields_def)
  then obtain shown where "review_fields sample_crypto r = Inr shown" "length shown = 4" by blast
  then show ?thesis using r(1,4) bytes sample_scope
    by (simp add: prepare_def sample_prepare_def sample_claim_def Let_def)
qed

theorem review_binds_use_witness:
  "\<exists>review. prepare sample_crypto sample_prepare (replicate 32 1) = Inr review
    \<and> verify_use sample_crypto sample_terms sample_use (replicate 32 1) review = Inr ()"
proof -
  let ?q = "plain_message 4"
  obtain review where review: "prepare sample_crypto sample_prepare (replicate 32 1) = Inr review" using sample_prepare_ok by blast
  have hex: "\<forall>x y. ce_hex sample_crypto (ce_sha256 sample_crypto x) = ce_hex sample_crypto (ce_sha256 sample_crypto y)
      \<longrightarrow> ce_sha256 sample_crypto x = ce_sha256 sample_crypto y"
    by (metis crypto_env.select_convs(2) sample_crypto_def bytes_str_def str_bytes_bytes_str)
  have reviewed: "parse_versioned_message (reviewed_bytes sample_crypto sample_prepare) = Inr (plain_message 3)"
    using parse_versioned_enc [OF wf_plain_message [of 3]] by (simp add: reviewed_bytes_def sample_prepare_def sample_crypto_def)
  have scope: "use_in_scope sample_crypto sample_terms sample_use (serialize_parsed ?q)"
    using sample_scope by (auto simp: use_in_scope_def sample_use_def sample_claim_def single_payload_def sample_crypto_def)
  have "parse_versioned_message (serialize_parsed ?q) = Inr ?q" "fee_payer (pm_message ?q) = replicate 32 1" "same_but_blockhash (plain_message 3) ?q"
    using parse_versioned_enc [OF wf_plain_message] by (simp_all add: plain_message_def fee_payer_def same_but_blockhash_def)
  with review_binds_use [OF hex review, of sample_terms sample_use] reviewed scope review show ?thesis by auto
qed

end
