(* ===== verification/OrderedMaps.thy ===== *)
theory OrderedMaps
  imports Prelude "HOL-Library.List_Lexorder" "HOL-Library.Char_ord"
begin

text \<open>
  The ordered collections of the standard library: a \<open>BTreeMap\<close> is the list of its entries with increasing keys, a
  \<open>BTreeSet\<close> the increasing list of its elements. Texts are ordered by their bytes. The lemmas say that the entry
  operation of a map is a map update and keeps the keys increasing.
\<close>

definition btree_set :: "'a :: linorder list \<Rightarrow> 'a list" where
  "btree_set xs = sort (remdups xs)"

lemma set_btree_set [simp]: "set (btree_set xs) = set xs"
  by (simp add: btree_set_def)

lemma btree_set_Nil_iff [simp]: "btree_set xs = [] \<longleftrightarrow> xs = []"
  by (metis set_btree_set set_empty)

lemma btree_set_sorted: "sorted_wrt (<) (btree_set xs)"
  by (simp add: btree_set_def strict_sorted_iff)

text \<open>\<open>entry(key)\<close> with its update: the function gives the new value from the one that is there, if any.\<close>

fun bt_entry :: "('v option \<Rightarrow> 'v) \<Rightarrow> 'k :: linorder \<Rightarrow> ('k \<times> 'v) list \<Rightarrow> ('k \<times> 'v) list" where
  "bt_entry f k [] = [(k, f None)]"
| "bt_entry f k ((k', v) # rest) =
     (if k < k' then (k, f None) # (k', v) # rest
      else if k = k' then (k', f (Some v)) # rest
      else (k', v) # bt_entry f k rest)"

abbreviation bt_insert :: "'k :: linorder \<Rightarrow> 'v \<Rightarrow> ('k \<times> 'v) list \<Rightarrow> ('k \<times> 'v) list" where
  "bt_insert k v \<equiv> bt_entry (\<lambda>_. v) k"

definition bt_keys :: "('k :: linorder \<times> 'v) list \<Rightarrow> bool" where
  "bt_keys m \<longleftrightarrow> sorted_wrt (<) (map fst m)"

lemma bt_keys_Nil [simp]: "bt_keys []"
  by (simp add: bt_keys_def)

lemma bt_keys_distinct: "bt_keys m \<Longrightarrow> distinct (map fst m)"
  by (simp add: bt_keys_def strict_sorted_iff)

lemma bt_entry_fst: "fst ` set (bt_entry f k m) = insert k (fst ` set m)"
  by (induction m rule: bt_entry.induct) (auto split: if_splits)

lemma bt_entry_keys: "bt_keys m \<Longrightarrow> bt_keys (bt_entry f k m)"
proof (induction f k m rule: bt_entry.induct)
  case (2 f k k' v rest)
  then have rest: "bt_keys rest" "\<forall>x \<in> fst ` set rest. k' < x" by (auto simp: bt_keys_def)
  consider "k < k'" | "k = k'" | "k' < k" by (rule linorder_cases)
  then show ?case
  proof cases
    case 1
    then show ?thesis using rest by (auto simp: bt_keys_def)
  next
    case 3
    then have step: "bt_entry f k ((k', v) # rest) = (k', v) # bt_entry f k rest" by auto
    have "\<forall>x \<in> fst ` set (bt_entry f k rest). k' < x" using 3 rest(2) by (simp add: bt_entry_fst)
    with 2(1) [OF _ _ rest(1)] 3 show ?thesis unfolding step by (auto simp: bt_keys_def)
  qed (use 2(2) in \<open>auto simp: bt_keys_def\<close>)
qed (simp add: bt_keys_def)

lemma bt_entry_lookup:
  assumes "bt_keys m"
  shows "map_of (bt_entry f k m) = (map_of m)(k \<mapsto> f (map_of m k))"
  using assms
proof (induction f k m rule: bt_entry.induct)
  case (2 f k k' v rest)
  then have rest: "bt_keys rest" "\<forall>x \<in> fst ` set rest. k' < x" by (auto simp: bt_keys_def)
  consider "k < k'" | "k = k'" | "k' < k" by (rule linorder_cases)
  then show ?case
  proof cases
    case 1
    then have "k \<notin> fst ` set ((k', v) # rest)" using rest(2) by force
    then have "map_of ((k', v) # rest) k = None" by (simp add: map_of_eq_None_iff)
    then show ?thesis using 1 by auto
  next
    case 3
    then show ?thesis using 2(1) [OF _ _ rest(1)] by (auto simp: fun_upd_twist)
  qed auto
qed auto

lemma bt_entry_map_of: "bt_keys m \<Longrightarrow> map_of (bt_entry f k m) x = (if x = k then Some (f (map_of m k)) else map_of m x)"
  by (simp add: bt_entry_lookup)

text \<open>Collecting entries: later entries replace earlier ones.\<close>

definition bt_collect :: "('k :: linorder \<times> 'v) list \<Rightarrow> ('k \<times> 'v) list" where
  "bt_collect kvs = fold (\<lambda>(k, v). bt_insert k v) kvs []"

lemma bt_fold_keys: "bt_keys m \<Longrightarrow> bt_keys (fold (\<lambda>(k, v). bt_insert k v) kvs m)"
  by (induction kvs arbitrary: m) (auto simp: bt_entry_keys)

lemma bt_fold_lookup:
  "bt_keys m \<Longrightarrow> map_of (fold (\<lambda>(k, v). bt_insert k v) kvs m) = map_of m ++ map_of (rev kvs)"
proof (induction kvs arbitrary: m)
  case (Cons kv kvs)
  obtain k v where kv: "kv = (k, v)" by (cases kv)
  have "map_of (fold (\<lambda>(k, v). bt_insert k v) (kv # kvs) m) = (map_of m)(k \<mapsto> v) ++ map_of (rev kvs)"
    using Cons kv by (simp add: bt_entry_keys bt_entry_lookup del: fun_upd_apply)
  moreover have "map_of m ++ [k \<mapsto> v] = (map_of m)(k \<mapsto> v)" by simp
  ultimately show ?case by (simp add: kv map_add_assoc)
qed simp

lemma bt_collect_keys [simp]: "bt_keys (bt_collect kvs)"
  by (simp add: bt_collect_def bt_fold_keys)

lemma bt_collect_lookup: "map_of (bt_collect kvs) = map_of (rev kvs)"
  by (simp add: bt_collect_def bt_fold_lookup)

lemma bt_collect_distinct: "distinct (map fst kvs) \<Longrightarrow> map_of (bt_collect kvs) = map_of kvs"
proof -
  assume d: "distinct (map fst kvs)"
  then have "distinct (map fst (rev kvs))" by (simp add: rev_map flip: rev_map)
  then show ?thesis using d unfolding bt_collect_lookup by (intro map_of_inject_set [THEN iffD2]) auto
qed

text \<open>An ordered map is determined by its lookups.\<close>

lemma bt_map_of: "bt_keys m \<Longrightarrow> m = map (\<lambda>k. (k, the (map_of m k))) (map fst m)"
proof -
  assume "bt_keys m"
  then have "(k, the (map_of m k)) = (k, v)" if "(k, v) \<in> set m" for k v
    using that bt_keys_distinct by fastforce
  then show ?thesis by (force simp: o_def intro!: map_idI [symmetric])
qed

lemma bt_ext:
  assumes "bt_keys m" and "bt_keys m'" and "map_of m = map_of m'"
  shows "m = m'"
proof -
  have "set (map fst m) = set (map fst m')" using assms(3) by (metis dom_map_of_conv_image_fst set_map)
  then have "map fst m = map fst m'"
    using assms(1,2) by (intro strict_sorted_equal) (auto simp: bt_keys_def)
  then show ?thesis using bt_map_of [OF assms(1)] bt_map_of [OF assms(2)] assms(3) by metis
qed

lemma map_of_graph: "map_of (map (\<lambda>a. (a, f a)) as) x = (if x \<in> set as then Some (f x) else None)"
  by (induction as) auto

lemma bt_graph:
  assumes "bt_keys m" and "\<And>x. map_of m x = (if x \<in> set as then Some (f x) else None)"
  shows "m = map (\<lambda>a. (a, f a)) (btree_set as)"
proof (rule bt_ext [OF assms(1)])
  show "bt_keys (map (\<lambda>a. (a, f a)) (btree_set as))" using btree_set_sorted by (simp add: bt_keys_def o_def)
  show "map_of m = map_of (map (\<lambda>a. (a, f a)) (btree_set as))" by (rule ext) (simp add: assms(2) map_of_graph)
qed

end
