(* ===== verification/Assurance.thy ===== *)
theory Assurance
  imports AuthorityTypes OrderedMaps NativeTransfer "HOL-Library.Product_Lexorder"
begin

text \<open>
  The assurance of claims: the registry of compiled verifiers of \<open>bloom-broker/src/authority.rs\<close> and the verifier of native
  Solana transfers of \<open>assurance_verifiers.rs\<close>, which runs the verifier of \<open>bloom-solana-verify\<close> on the evidence. The
  theorem says which system claims count as proven: those whose evidence is the transfer that the claim declares.
\<close>

section \<open>Errors (authority.rs)\<close>

datatype UnsupportedStoreVersion = CeremonyStorage int int | StateFloor int int

datatype AuthorityError =
    Denied string string
  | AuthorityStorage string
  | AuthorityJournal JournalError
  | AuthorityUnsupported UnsupportedStoreVersion

definition denied :: "string \<Rightarrow> string \<Rightarrow> AuthorityError" where
  "denied code message = Denied code message"

section \<open>Verifiers\<close>

record VerifierCapability =
  vc_verifier_id :: Token
  vc_artifact_digest :: Digest32
  vc_assurance :: ClaimAssuranceLevel
  vc_established_fields :: "Token list"

text \<open>An implementation of the trait; \<open>verify_system\<close> gets the evidence and the public key of the approved account.\<close>

record AssuranceVerifier =
  av_capability :: VerifierCapability
  av_verify :: "PetalUseClaim \<Rightarrow> bytes option \<Rightarrow> string + unit"
  av_verify_system :: "SystemUseClaim \<Rightarrow> bytes option \<Rightarrow> bytes option \<Rightarrow> string + unit"

type_synonym AssuranceRegistry = "((string \<times> string) \<times> AssuranceVerifier) list"

fun compiled_from :: "AssuranceVerifier list \<Rightarrow> AssuranceRegistry \<Rightarrow> AuthorityError + AssuranceRegistry" where
  "compiled_from [] registry = Inr registry"
| "compiled_from (v # vs) registry =
     (let key = (vc_verifier_id (av_capability v), vc_artifact_digest (av_capability v)) in
      if map_of registry key \<noteq> None then Inl (denied ''ASSURANCE_REGISTRY_INVALID'' ''duplicate verifier identity'')
      else compiled_from vs (bt_insert key v registry))"

definition compiled :: "AssuranceVerifier list \<Rightarrow> AuthorityError + AssuranceRegistry" where
  "compiled verifiers = compiled_from verifiers []"

definition capabilities :: "AssuranceRegistry \<Rightarrow> VerifierCapability list" where
  "capabilities registry = map (av_capability \<circ> snd) registry"

text \<open>The common part of the two arms of \<open>AssuranceRegistry::verify\<close> that look up a verifier.\<close>

definition verify_with :: "AssuranceRegistry \<Rightarrow> string \<times> string \<Rightarrow> ClaimAssuranceLevel \<Rightarrow> string \<Rightarrow> string
    \<Rightarrow> (AssuranceVerifier \<Rightarrow> string + unit) \<Rightarrow> AuthorityError + VerifierCapability option" where
  "verify_with registry key level unavailable mismatch run =
     and_then (ok_or (map_of registry key) (denied ''ASSURANCE_UNAVAILABLE'' unavailable)) (\<lambda>verifier.
     if vc_assurance (av_capability verifier) \<noteq> level then Inl (denied ''ASSURANCE_MISMATCH'' mismatch)
     else and_then (map_err (denied ''ASSURANCE_VERIFICATION_FAILED'') (run verifier)) (\<lambda>_.
       Inr (Some (av_capability verifier))))"

fun registry_verify :: "AssuranceRegistry \<Rightarrow> PetalUseClaim \<Rightarrow> bytes option \<Rightarrow> AuthorityError + VerifierCapability option" where
  "registry_verify registry claim evidence = (case pc_claim_assurance claim of
     CA_MachineAsserted \<Rightarrow> Inr None
   | CA_ProofVerified verifier_id verifier_digest _ \<Rightarrow>
       verify_with registry (verifier_id, verifier_digest) CL_ProofVerified
         ''claim names no compiled digest-pinned verifier''
         ''compiled verifier does not establish proof_verified assurance'' (\<lambda>v. av_verify v claim evidence)
   | CA_InvariantAttested attestor_id attestation_digest \<Rightarrow>
       verify_with registry (attestor_id, attestation_digest) CL_InvariantAttested
         ''claim names no compiled digest-pinned attestor''
         ''compiled verifier does not establish invariant_attested assurance'' (\<lambda>v. av_verify v claim evidence))"

declare registry_verify.simps [simp del]

text \<open>
  The functions of packages that the verifiers call: SHA-256 and the digest texts, base58, and the text that the derived
  formatter gives a rejection.
\<close>

record verifier_env =
  ve_crypto :: crypto_env
  ve_digest32_to_bytes :: "Digest32 \<Rightarrow> bytes"
  ve_base58_decode :: "string \<Rightarrow> string + bytes"
  ve_rejection_debug :: "RejectionReason \<Rightarrow> string"

definition registry_verify_system :: "verifier_env \<Rightarrow> AssuranceRegistry \<Rightarrow> SystemUseClaim \<Rightarrow> bytes option \<Rightarrow> bytes option
    \<Rightarrow> AuthorityError + VerifierCapability option" where
  "registry_verify_system env registry claim evidence expected_signer = (case su_claim_assurance claim of
     CA_MachineAsserted \<Rightarrow> Inr None
   | CA_ProofVerified verifier_id verifier_digest proof_digest \<Rightarrow>
       and_then (ok_or evidence (denied ''ASSURANCE_EVIDENCE_REQUIRED'' ''proof-verified system claim requires exact evidence bytes'')) (\<lambda>evidence.
       if ve_digest32_to_bytes env proof_digest \<noteq> ce_sha256 (ve_crypto env) evidence
       then Inl (denied ''ASSURANCE_EVIDENCE_MISMATCH'' ''system claim proof digest does not match its evidence'')
       else verify_with registry (verifier_id, verifier_digest) CL_ProofVerified
         ''system claim names no compiled digest-pinned verifier''
         ''compiled verifier does not establish proof_verified assurance''
         (\<lambda>v. av_verify_system v claim (Some evidence) expected_signer))
   | CA_InvariantAttested _ _ \<Rightarrow> Inl (denied ''ASSURANCE_MISMATCH'' ''native system claims require a compiled proof verifier''))"

section \<open>The verifier of native transfers (assurance_verifiers.rs)\<close>

definition SOLANA_SYSTEM_TRANSFER_VERIFIER_ID :: string where
  "SOLANA_SYSTEM_TRANSFER_VERIFIER_ID = ''solana-system-transfer-v1''"

definition SOLANA_SYSTEM_TRANSFER_VERIFIER_DIGEST_BYTES :: bytes where
  "SOLANA_SYSTEM_TRANSFER_VERIFIER_DIGEST_BYTES =
     [0x6c, 0x58, 0xf2, 0xe9, 0x6e, 0xff, 0xd3, 0x0b, 0x5c, 0xbe, 0xa0, 0x60, 0xca, 0x16, 0xa3, 0xd4,
      0xdd, 0xf6, 0xb0, 0x5b, 0x48, 0x32, 0xbd, 0xdb, 0x10, 0xd0, 0xfa, 0x53, 0xf1, 0xa9, 0x3c, 0x17]"

definition transfer_capability :: "verifier_env \<Rightarrow> VerifierCapability" where
  "transfer_capability env = \<lparr>vc_verifier_id = SOLANA_SYSTEM_TRANSFER_VERIFIER_ID,
     vc_artifact_digest = ce_digest32_from_bytes (ve_crypto env) SOLANA_SYSTEM_TRANSFER_VERIFIER_DIGEST_BYTES,
     vc_assurance = CL_ProofVerified,
     vc_established_fields = [''declared_destinations'', ''declared_debits'', ''declared_fee'', ''payload_digest'', ''recent_blockhash'']\<rparr>"

text \<open>\<open>Pubkey::from_str\<close> with the text of its errors.\<close>

definition pubkey_from_str :: "verifier_env \<Rightarrow> string \<Rightarrow> string + Pubkey" where
  "pubkey_from_str env s =
     and_then (map_err (\<lambda>e. ''invalid base58 public key: '' @ e) (ve_base58_decode env s)) (\<lambda>bytes.
     if length bytes = 32 then Inr bytes
     else Inl (''public key must be exactly 32 bytes, got '' @ decimal (length bytes)))"

definition fee_required :: string where
  "fee_required = ''native Solana transfer requires a solana:native fee''"

definition declared_fee_lamports :: "DeclaredFee \<Rightarrow> string + u64" where
  "declared_fee_lamports fee = (case fee of
     FeeNone \<Rightarrow> Inl fee_required
   | Fee chain asset amount \<Rightarrow>
       and_then (ok_or (u64_from_str amount) fee_required) (\<lambda>lamports.
       if chain = ''solana'' \<and> asset = ''native'' then Inr lamports else Inl fee_required))"

text \<open>The last test, of the fee payer, compares the text of the verified payer with the one that was expected.\<close>

definition check_transfer :: "verifier_env \<Rightarrow> SystemUseClaim \<Rightarrow> bytes \<Rightarrow> Pubkey \<Rightarrow> Pubkey \<Rightarrow> u64 \<Rightarrow> string + unit" where
  "check_transfer env claim message expected_signer destination_key lamports =
     and_then (map_err (ve_rejection_debug env)
       (verify_native_transfer (ce_sha256 (ve_crypto env)) (ce_base58 (ve_crypto env)) message expected_signer destination_key
          lamports (Some (ve_digest32_to_bytes env (su_payload_digest claim))))) (\<lambda>verified.
     if vt_recent_blockhash verified \<noteq> sc_recent_blockhash (su_chain_context claim)
     then Inl ''signed message blockhash differs from system claim''
     else and_then (declared_fee_lamports (su_declared_fee claim)) (\<lambda>declared_lamports.
       and_then (map_err (ve_rejection_debug env) (verify_fee verified declared_lamports)) (\<lambda>_.
       if vt_fee_payer verified \<noteq> ce_base58 (ve_crypto env) expected_signer
       then Inl ''verified fee payer differs from the approved account''
       else Inr ())))"

definition transfer_verify_system :: "verifier_env \<Rightarrow> SystemUseClaim \<Rightarrow> bytes option \<Rightarrow> bytes option \<Rightarrow> string + unit" where
  "transfer_verify_system env claim evidence expected_signer =
     and_then (ok_or evidence ''solana transfer requires message evidence'') (\<lambda>message.
     if su_component_id claim \<noteq> ''bloom-machine'' \<or> su_action_class claim \<noteq> ''solana.transfer.confirm''
       \<or> su_operation_class claim \<noteq> ''solana.native-transfer'' \<or> su_crypto_suite claim \<noteq> Ed25519Message
       \<or> sc_chain_family (su_chain_context claim) \<noteq> ''solana''
     then Inl ''system claim identity, class, suite, or chain is invalid''
     else case su_declared_destinations claim of
       [destination] \<Rightarrow>
         (case su_declared_debits claim of
            [debit] \<Rightarrow>
              if de_chain destination \<noteq> ''solana'' \<or> as_chain (dd_asset debit) \<noteq> ''solana'' \<or> as_asset (dd_asset debit) \<noteq> ''native''
              then Inl ''native Solana transfer requires solana destination and solana:native debit labels''
              else
                and_then (map_err (\<lambda>e. ''declared destination is not base58: '' @ e) (pubkey_from_str env (de_destination destination))) (\<lambda>destination_key.
                and_then (ok_or (u64_from_str (dd_amount debit)) ''declared lamports do not fit u64'') (\<lambda>lamports.
                and_then (ok_or expected_signer ''native Solana verification requires the approved account's public key'') (\<lambda>expected_signer.
                check_transfer env claim message expected_signer destination_key lamports)))
          | _ \<Rightarrow> Inl ''expected exactly one declared debit'')
     | _ \<Rightarrow> Inl ''expected exactly one declared destination'')"

definition transfer_verify :: "PetalUseClaim \<Rightarrow> bytes option \<Rightarrow> string + unit" where
  "transfer_verify claim evidence = Inl ''solana-system-transfer-v1 verifies native system claims, not Petal claims''"

definition SolanaSystemTransferVerifier :: "verifier_env \<Rightarrow> AssuranceVerifier" where
  "SolanaSystemTransferVerifier env = \<lparr>av_capability = transfer_capability env, av_verify = transfer_verify,
     av_verify_system = transfer_verify_system env\<rparr>"

section \<open>Which claims are proven\<close>

text \<open>The claim declares the transfer that the message is: its payer, destination, amount, fee, digest and blockhash.\<close>

definition declares_transfer :: "verifier_env \<Rightarrow> SystemUseClaim \<Rightarrow> bytes \<Rightarrow> Pubkey \<Rightarrow> Pubkey \<Rightarrow> u64 \<Rightarrow> bytes \<Rightarrow> bool" where
  "declares_transfer env claim message payer key lamports blockhash \<longleftrightarrow>
     (\<exists>destination amount. su_declared_destinations claim = [\<lparr>de_chain = ''solana'', de_destination = destination\<rparr>]
       \<and> ve_base58_decode env destination = Inr key \<and> length key = 32
       \<and> su_declared_debits claim = [\<lparr>dd_asset = \<lparr>as_chain = ''solana'', as_asset = ''native''\<rparr>, dd_amount = amount\<rparr>]
       \<and> u64_from_str amount = Some lamports)
   \<and> (\<exists>fee. su_declared_fee claim = Fee ''solana'' ''native'' fee \<and> u64_from_str fee = Some 5000)
   \<and> ve_digest32_to_bytes env (su_payload_digest claim) = ce_sha256 (ve_crypto env) message
   \<and> sc_recent_blockhash (su_chain_context claim) = ce_base58 (ve_crypto env) blockhash"

definition claims_native_transfer :: "SystemUseClaim \<Rightarrow> bool" where
  "claims_native_transfer claim \<longleftrightarrow> su_component_id claim = ''bloom-machine'' \<and> su_action_class claim = ''solana.transfer.confirm''
     \<and> su_operation_class claim = ''solana.native-transfer'' \<and> su_crypto_suite claim = Ed25519Message
     \<and> sc_chain_family (su_chain_context claim) = ''solana''"

definition proven_transfer :: "verifier_env \<Rightarrow> SystemUseClaim \<Rightarrow> bytes \<Rightarrow> Pubkey \<Rightarrow> bool" where
  "proven_transfer env claim message payer \<longleftrightarrow> claims_native_transfer claim
     \<and> (\<exists>key lamports blockhash m. declares_transfer env claim message payer key lamports blockhash
         \<and> length blockhash = 32 \<and> transfer_message payer key lamports blockhash = Inr m \<and> message = serialize m
         \<and> payer \<noteq> SYSTEM_PROGRAM_ID \<and> key \<noteq> SYSTEM_PROGRAM_ID)"

lemma declared_fee_lamports_Inr:
  "declared_fee_lamports fee = Inr n \<longleftrightarrow> (\<exists>amount. fee = Fee ''solana'' ''native'' amount \<and> u64_from_str amount = Some n)"
  by (cases fee) (auto simp: declared_fee_lamports_def and_then_eq_Inr)

lemma check_transfer_Inr:
  assumes "length payer = 32" and "length key = 32"
  shows "check_transfer env claim message payer key lamports = Inr () \<longleftrightarrow>
    (\<exists>blockhash m. length blockhash = 32 \<and> transfer_message payer key lamports blockhash = Inr m \<and> message = serialize m
      \<and> payer \<noteq> SYSTEM_PROGRAM_ID \<and> key \<noteq> SYSTEM_PROGRAM_ID
      \<and> ve_digest32_to_bytes env (su_payload_digest claim) = ce_sha256 (ve_crypto env) message
      \<and> sc_recent_blockhash (su_chain_context claim) = ce_base58 (ve_crypto env) blockhash
      \<and> declared_fee_lamports (su_declared_fee claim) = Inr 5000)" (is "?l \<longleftrightarrow> ?r")
proof
  assume ?l
  then obtain v n where v: "verify_native_transfer (ce_sha256 (ve_crypto env)) (ce_base58 (ve_crypto env)) message payer key lamports
        (Some (ve_digest32_to_bytes env (su_payload_digest claim))) = Inr v"
      and b: "vt_recent_blockhash v = sc_recent_blockhash (su_chain_context claim)"
      and n: "declared_fee_lamports (su_declared_fee claim) = Inr n" "verify_fee v n = Inr ()"
    by (auto simp: check_transfer_def and_then_eq_Inr split: if_splits)
  obtain blockhash m where m: "length blockhash = 32" "transfer_message payer key lamports blockhash = Inr m" "message = serialize m"
      "payer \<noteq> SYSTEM_PROGRAM_ID" "key \<noteq> SYSTEM_PROGRAM_ID"
      "ve_digest32_to_bytes env (su_payload_digest claim) = ce_sha256 (ve_crypto env) message"
      "v = transfer_facts (ce_sha256 (ve_crypto env)) (ce_base58 (ve_crypto env)) message payer key lamports blockhash"
    using verify_native_transfer_sound [OF v] by blast
  have "n = 5000" using n(2) by (simp add: verify_fee_def m(7) transfer_facts_def LAMPORTS_PER_SIGNATURE_def split: if_splits)
  moreover have "sc_recent_blockhash (su_chain_context claim) = ce_base58 (ve_crypto env) blockhash"
    using b m(7) by (simp add: transfer_facts_def)
  ultimately show ?r using m n(1) by blast
next
  assume ?r
  then obtain blockhash m where m: "length blockhash = 32" "transfer_message payer key lamports blockhash = Inr m" "message = serialize m"
      "payer \<noteq> SYSTEM_PROGRAM_ID" "key \<noteq> SYSTEM_PROGRAM_ID"
      "ve_digest32_to_bytes env (su_payload_digest claim) = ce_sha256 (ve_crypto env) message"
      "sc_recent_blockhash (su_chain_context claim) = ce_base58 (ve_crypto env) blockhash"
      "declared_fee_lamports (su_declared_fee claim) = Inr 5000"
    by blast
  have "verify_native_transfer (ce_sha256 (ve_crypto env)) (ce_base58 (ve_crypto env)) message payer key lamports
        (Some (ve_digest32_to_bytes env (su_payload_digest claim)))
      = Inr (transfer_facts (ce_sha256 (ve_crypto env)) (ce_base58 (ve_crypto env)) message payer key lamports blockhash)"
    unfolding m(3) by (rule verify_native_transfer_complete [OF assms m(1,2,4,5)]) (use m(3,6) in simp)
  then show ?l by (simp add: check_transfer_def m(7,8) transfer_facts_def verify_fee_def LAMPORTS_PER_SIGNATURE_def)
qed

lemma pubkey_from_str_Inr: "pubkey_from_str env s = Inr key \<longleftrightarrow> ve_base58_decode env s = Inr key \<and> length key = 32"
  by (auto simp: pubkey_from_str_def and_then_eq_Inr)

lemma transfer_verify_system_Inr:
  assumes "length payer = 32"
  shows "transfer_verify_system env claim (Some message) (Some payer) = Inr () \<longleftrightarrow> proven_transfer env claim message payer" (is "?l \<longleftrightarrow> ?r")
proof
  assume ?l
  then obtain d b key lamports where c: "claims_native_transfer claim" "su_declared_destinations claim = [d]" "su_declared_debits claim = [b]"
      "de_chain d = ''solana''" "as_chain (dd_asset b) = ''solana''" "as_asset (dd_asset b) = ''native''"
      "ve_base58_decode env (de_destination d) = Inr key" "length key = 32" "u64_from_str (dd_amount b) = Some lamports"
      and t: "check_transfer env claim message payer key lamports = Inr ()"
    by (auto simp: transfer_verify_system_def claims_native_transfer_def and_then_eq_Inr pubkey_from_str_Inr split: if_splits list.splits)
  have "d = \<lparr>de_chain = ''solana'', de_destination = de_destination d\<rparr>"
      "b = \<lparr>dd_asset = \<lparr>as_chain = ''solana'', as_asset = ''native''\<rparr>, dd_amount = dd_amount b\<rparr>"
    using c(4-6) by simp_all
  with t [unfolded check_transfer_Inr [OF assms c(8)]] c show ?r
    unfolding proven_transfer_def declares_transfer_def declared_fee_lamports_Inr by metis
next
  assume r: ?r
  then obtain key lamports blockhash m where m: "declares_transfer env claim message payer key lamports blockhash"
      "length blockhash = 32" "transfer_message payer key lamports blockhash = Inr m" "message = serialize m"
      "payer \<noteq> SYSTEM_PROGRAM_ID" "key \<noteq> SYSTEM_PROGRAM_ID" and c: "claims_native_transfer claim"
    unfolding proven_transfer_def by blast
  then have "check_transfer env claim message payer key lamports = Inr ()"
    by (subst check_transfer_Inr [OF assms]) (auto simp: declares_transfer_def declared_fee_lamports_Inr)
  then show ?l using m(1) c
    by (auto simp: transfer_verify_system_def claims_native_transfer_def declares_transfer_def pubkey_from_str_def)
qed

lemma verify_with_Inr:
  "verify_with registry key level u mm run = Inr r \<longleftrightarrow>
    (\<exists>v. map_of registry key = Some v \<and> vc_assurance (av_capability v) = level \<and> run v = Inr () \<and> r = Some (av_capability v))"
  by (auto simp: verify_with_def and_then_eq_Inr)

text \<open>C32. In the registry that the Broker compiles, a system claim counts as proven exactly when it names the verifier of native
transfers, the evidence hashes to its proof digest, and the evidence is byte for byte the transfer that the claim
declares: from the approved account to the one declared destination, of the declared lamports, with the payload digest and
blockhash of the claim and the network fee of one signature. A Petal claim is never proven by it.\<close>

theorem proven_claims_are_transfers:
  assumes "compiled [SolanaSystemTransferVerifier env] = Inr registry" and "\<forall>payer. signer = Some payer \<longrightarrow> length payer = 32"
  shows "(registry_verify_system env registry claim evidence signer = Inr (Some capability) \<longleftrightarrow>
      (\<exists>message payer proof. evidence = Some message \<and> signer = Some payer
        \<and> su_claim_assurance claim = CA_ProofVerified SOLANA_SYSTEM_TRANSFER_VERIFIER_ID
            (ce_digest32_from_bytes (ve_crypto env) SOLANA_SYSTEM_TRANSFER_VERIFIER_DIGEST_BYTES) proof
        \<and> ve_digest32_to_bytes env proof = ce_sha256 (ve_crypto env) message
        \<and> proven_transfer env claim message payer \<and> capability = transfer_capability env))
    \<and> registry_verify registry petal_claim evidence \<noteq> Inr (Some capability)"
proof -
  let ?k = "(SOLANA_SYSTEM_TRANSFER_VERIFIER_ID, ce_digest32_from_bytes (ve_crypto env) SOLANA_SYSTEM_TRANSFER_VERIFIER_DIGEST_BYTES)"
  have registry: "registry = [(?k, SolanaSystemTransferVerifier env)]"
    using assms(1) by (auto simp: compiled_def SolanaSystemTransferVerifier_def transfer_capability_def)
  have run: "transfer_verify_system env claim (Some message) signer = Inr () \<longleftrightarrow> (\<exists>payer. signer = Some payer \<and> proven_transfer env claim message payer)" for message
  proof (cases signer)
    case None
    then show ?thesis by (auto simp: transfer_verify_system_def and_then_eq_Inr split: list.splits)
  qed (use assms(2) transfer_verify_system_Inr in auto)
  have "registry_verify_system env registry claim evidence signer = Inr (Some capability) \<longleftrightarrow>
      (\<exists>message payer proof. evidence = Some message \<and> signer = Some payer
        \<and> su_claim_assurance claim = CA_ProofVerified SOLANA_SYSTEM_TRANSFER_VERIFIER_ID
            (ce_digest32_from_bytes (ve_crypto env) SOLANA_SYSTEM_TRANSFER_VERIFIER_DIGEST_BYTES) proof
        \<and> ve_digest32_to_bytes env proof = ce_sha256 (ve_crypto env) message
        \<and> proven_transfer env claim message payer \<and> capability = transfer_capability env)"
    by (cases "su_claim_assurance claim")
       (auto simp: registry_verify_system_def and_then_eq_Inr verify_with_Inr registry run SolanaSystemTransferVerifier_def
          transfer_capability_def split: if_splits)
  moreover have "registry_verify registry petal_claim evidence \<noteq> Inr (Some capability)"
    by (cases "pc_claim_assurance petal_claim")
       (auto simp: registry_verify.simps verify_with_Inr registry SolanaSystemTransferVerifier_def transfer_verify_def split: if_splits)
  ultimately show ?thesis by blast
qed

definition sample_verifier :: verifier_env where
  "sample_verifier = \<lparr>ve_crypto = sample_crypto\<lparr>ce_sha256 := \<lambda>_. []\<rparr>, ve_digest32_to_bytes = \<lambda>_. [],
     ve_base58_decode = \<lambda>s. Inr (str_bytes s), ve_rejection_debug = \<lambda>_. ''rejected''\<rparr>"

definition sample_system_claim :: SystemUseClaim where
  "sample_system_claim = \<lparr>su_component_id = ''bloom-machine'', su_action_class = ''solana.transfer.confirm'',
     su_operation_class = ''solana.native-transfer'', su_crypto_suite = Ed25519Message, su_payload_digest = ''digest'', su_ordered_hashes = [],
     su_declared_debits = [\<lparr>dd_asset = \<lparr>as_chain = ''solana'', as_asset = ''native''\<rparr>, dd_amount = u64_to_string 42\<rparr>],
     su_declared_destinations = [\<lparr>de_chain = ''solana'', de_destination = replicate 32 CHR ''B''\<rparr>],
     su_declared_fee = Fee ''solana'' ''native'' (u64_to_string 5000), su_nonce = ''nonce'',
     su_chain_context = \<lparr>sc_chain_family = ''solana'', sc_genesis_hash = ''genesis'',
       sc_recent_blockhash = ce_base58 sample_crypto (replicate 32 7), sc_last_valid_block_height = 1\<rparr>,
     su_claim_assurance = CA_ProofVerified SOLANA_SYSTEM_TRANSFER_VERIFIER_ID
       (ce_digest32_from_bytes sample_crypto SOLANA_SYSTEM_TRANSFER_VERIFIER_DIGEST_BYTES) ''proof''\<rparr>"

theorem proven_claims_are_transfers_witness:
  "\<exists>registry m. compiled [SolanaSystemTransferVerifier sample_verifier] = Inr registry
    \<and> transfer_message (replicate 32 1) (str_bytes (replicate 32 CHR ''B'')) 42 (replicate 32 7) = Inr m
    \<and> registry_verify_system sample_verifier registry sample_system_claim (Some (serialize m)) (Some (replicate 32 1))
        = Inr (Some (transfer_capability sample_verifier))"
proof -
  obtain registry where r: "compiled [SolanaSystemTransferVerifier sample_verifier] = Inr registry" by (simp add: compiled_def)
  have B: "str_bytes (replicate 32 CHR ''B'') = replicate 32 (of_char CHR ''B'')" by (simp add: str_bytes_def map_replicate_const)
  have differ: "unat (of_char CHR ''B'' :: u8) = 66" by (simp add: of_char_word)
  then have ne: "(of_char CHR ''B'' :: u8) \<noteq> 1" "(of_char CHR ''B'' :: u8) \<noteq> 0" by auto
  obtain m where m: "transfer_message (replicate 32 1) (str_bytes (replicate 32 CHR ''B'')) 42 (replicate 32 7) = Inr m"
    using ne(1) unfolding B transfer_message_def by (simp add: replicate_eq_replicate)
  have "declares_transfer sample_verifier sample_system_claim (serialize m) (replicate 32 1) (str_bytes (replicate 32 CHR ''B'')) 42 (replicate 32 7)"
    by (simp add: declares_transfer_def sample_verifier_def sample_system_claim_def sample_crypto_def B)
  then have proven: "proven_transfer sample_verifier sample_system_claim (serialize m) (replicate 32 1)"
    unfolding proven_transfer_def using m ne
    by (intro conjI exI [of _ "str_bytes (replicate 32 CHR ''B'')"] exI [of _ 42] exI [of _ "replicate 32 7"] exI [of _ m])
       (simp_all add: claims_native_transfer_def sample_system_claim_def SYSTEM_PROGRAM_ID_def B replicate_eq_replicate)
  have sample: "su_claim_assurance sample_system_claim = CA_ProofVerified SOLANA_SYSTEM_TRANSFER_VERIFIER_ID
      (ce_digest32_from_bytes (ve_crypto sample_verifier) SOLANA_SYSTEM_TRANSFER_VERIFIER_DIGEST_BYTES) ''proof''"
    "ve_digest32_to_bytes sample_verifier ''proof'' = ce_sha256 (ve_crypto sample_verifier) (serialize m)"
    by (simp_all add: sample_system_claim_def sample_verifier_def sample_crypto_def)
  have "\<forall>payer. Some (replicate 32 (1 :: u8)) = Some payer \<longrightarrow> length payer = 32" by auto
  from proven_claims_are_transfers [OF r this, of sample_system_claim "Some (serialize m)"] proven sample
  have "registry_verify_system sample_verifier registry sample_system_claim (Some (serialize m)) (Some (replicate 32 1))
      = Inr (Some (transfer_capability sample_verifier))" by blast
  with r m show ?thesis by blast
qed

end
