(* ===== verification/AuthorityValues.thy ===== *)
theory AuthorityValues
  imports Assurance Reservations
begin

text \<open>
  The accounting of the authority (\<open>bloom-broker/src/authority.rs\<close>): the values that a claim debits, summed per asset with the
  network fee, and the budget that the limits of an approval give to the journal. The theorems say what is
  charged and which budget is enforced.
\<close>

section \<open>Declared values\<close>

definition asset_id :: "string \<Rightarrow> string \<Rightarrow> string" where
  "asset_id chain asset = chain @ '':'' @ asset"

text \<open>
  \<open>BigUint\<close> numbers are natural; their parser and the validating constructor of \<open>DecimalU256\<close> are functions of packages.
\<close>

record value_env =
  ne_biguint_from_str :: "string \<Rightarrow> string + nat"
  ne_decimal_u256_parse :: "string \<Rightarrow> string + DecimalU256"

definition amount_or_zero :: "nat option \<Rightarrow> nat" where
  "amount_or_zero v = (case v of None \<Rightarrow> 0 | Some n \<Rightarrow> n)"

definition add_value :: "value_env \<Rightarrow> string \<Rightarrow> string \<Rightarrow> (string \<times> nat) list \<Rightarrow> AuthorityError + (string \<times> nat) list" where
  "add_value env asset amount charged =
     and_then (map_err AuthorityStorage (ne_biguint_from_str env amount)) (\<lambda>amount.
     if 2 ^ 256 \<le> amount_or_zero (map_of charged asset) + amount
     then Inl (denied ''VALUE_OVERFLOW'' ''aggregated debit and fee exceed unsigned 256-bit range'')
     else Inr (bt_entry (\<lambda>v. amount_or_zero v + amount) asset charged))"

fun add_debits :: "value_env \<Rightarrow> DeclaredDebit list \<Rightarrow> (string \<times> nat) list \<Rightarrow> AuthorityError + (string \<times> nat) list" where
  "add_debits env [] charged = Inr charged"
| "add_debits env (debit # debits) charged =
     and_then (add_value env (asset_id (as_chain (dd_asset debit)) (as_asset (dd_asset debit))) (dd_amount debit) charged) (\<lambda>charged.
     add_debits env debits charged)"

definition add_fee :: "value_env \<Rightarrow> ProvenanceFeeAsset option \<Rightarrow> DeclaredFee \<Rightarrow> (string \<times> nat) list \<Rightarrow> AuthorityError + (string \<times> nat) list" where
  "add_fee env fee_asset declared_fee charged = (case (fee_asset, declared_fee) of
     (None, FeeNone) \<Rightarrow> Inr charged
   | (Some expected, Fee chain asset amount) \<Rightarrow>
       if pf_chain expected = chain \<and> pf_asset expected = asset then add_value env (asset_id chain asset) amount charged
       else Inl (denied ''FEE_ASSET_MISMATCH'' ''declared fee does not match provenance fee asset'')
   | (Some _, FeeNone) \<Rightarrow> Inl (denied ''FEE_REQUIRED'' ''fee-bearing operation class must declare its native fee'')
   | (None, Fee _ _ _) \<Rightarrow> Inl (denied ''FEE_NOT_ALLOWED'' ''non-fee operation class must declare fee none''))"

definition limit_asset :: "ValueLimit \<Rightarrow> string" where
  "limit_asset limit = asset_id (as_chain (vl_asset limit)) (as_asset (vl_asset limit))"

fun decimal_values :: "value_env \<Rightarrow> (string \<times> nat) list \<Rightarrow> AuthorityError + (string \<times> DecimalU256) list" where
  "decimal_values env [] = Inr []"
| "decimal_values env ((asset, n) # rest) =
     and_then (map_err (denied ''VALUE_OVERFLOW'') (ne_decimal_u256_parse env (decimal n))) (\<lambda>d.
     and_then (decimal_values env rest) (\<lambda>ds. Inr ((asset, d) # ds)))"

definition account_declared_values :: "value_env \<Rightarrow> SealedApprovalTerms \<Rightarrow> Token \<Rightarrow> DeclaredDebit list \<Rightarrow> DeclaredFee \<Rightarrow> ProvenanceRecord
    \<Rightarrow> AuthorityError + (string \<times> DecimalU256) list" where
  "account_declared_values env terms operation_class declared_debits declared_fee provenance =
     and_then (ok_or (find (\<lambda>entry. po_operation_class entry = operation_class) (pr_operation_classes provenance))
       (denied ''PROVENANCE_CLASS_MISMATCH'' ''claim class is not catalogued'')) (\<lambda>entry.
     and_then (add_debits env declared_debits []) (\<lambda>charged.
     and_then (add_fee env (po_fee_asset entry) declared_fee charged) (\<lambda>charged.
     let allowed = map limit_asset (al_value_limits (st_limits terms)) in
     if list_ex (\<lambda>asset. asset \<notin> set allowed) (map fst charged)
     then Inl (denied ''VALUE_ASSET_NOT_ALLOWED'' ''declared debit or fee asset is absent from approval limits'')
     else decimal_values env charged)))"

definition account_claim_values :: "value_env \<Rightarrow> SealedApprovalTerms \<Rightarrow> PetalUseClaim \<Rightarrow> ProvenanceRecord
    \<Rightarrow> AuthorityError + (string \<times> DecimalU256) list" where
  "account_claim_values env terms claim = account_declared_values env terms (pc_operation_class claim) (pc_declared_debits claim) (pc_declared_fee claim)"

definition account_system_claim_values :: "value_env \<Rightarrow> SealedApprovalTerms \<Rightarrow> SystemUseClaim \<Rightarrow> ProvenanceRecord
    \<Rightarrow> AuthorityError + (string \<times> DecimalU256) list" where
  "account_system_claim_values env terms claim = account_declared_values env terms (su_operation_class claim) (su_declared_debits claim) (su_declared_fee claim)"

fun fee_asset_of :: "DeclaredFee \<Rightarrow> string option" where
  "fee_asset_of (Fee chain asset _) = Some (asset_id chain asset)"
| "fee_asset_of FeeNone = None"

definition declared_fee_asset :: "PetalUseClaim \<Rightarrow> string option" where
  "declared_fee_asset claim = fee_asset_of (pc_declared_fee claim)"

definition declared_system_fee_asset :: "SystemUseClaim \<Rightarrow> string option" where
  "declared_system_fee_asset claim = fee_asset_of (su_declared_fee claim)"

section \<open>The budget of an approval\<close>

definition U64_MAX :: u64 where
  "U64_MAX = - 1"

text \<open>One step of the loop over the windows: the entry of the duration is lowered to both maxima.\<close>

definition lower_window :: "u64 \<times> u64 \<times> u64 \<Rightarrow> (u64 \<times> u64 \<times> u64) list \<Rightarrow> (u64 \<times> u64 \<times> u64) list" where
  "lower_window window windows = (case window of (duration, max_operations, max_signatures) \<Rightarrow>
     bt_entry (\<lambda>v. case v of
         None \<Rightarrow> (min U64_MAX max_operations, min U64_MAX max_signatures)
       | Some (o', s') \<Rightarrow> (min o' max_operations, min s' max_signatures)) duration windows)"

definition limit_windows :: "ApprovalLimits \<Rightarrow> (u64 \<times> u64 \<times> u64) list" where
  "limit_windows limits =
     map (\<lambda>w. (sw_duration_ms w, sw_maximum w, U64_MAX)) (al_operation_rate_limits limits)
     @ map (\<lambda>w. (sw_duration_ms w, U64_MAX, sw_maximum w)) (al_signature_rate_limits limits)"

definition budget_limits :: "SealedApprovalTerms \<Rightarrow> BudgetLimits" where
  "budget_limits terms =
     (let limits = st_limits terms in
      \<lparr>bl_max_operations = al_max_operations limits, bl_max_signatures = al_max_signatures limits,
       bl_rate_limits = map (\<lambda>(duration, max_operations, max_signatures).
         \<lparr>sb_max_operations = max_operations, sb_max_signatures = max_signatures, sb_duration_ms = duration\<rparr>)
         (fold lower_window (limit_windows limits) []),
       bl_value_limits = bt_collect (map (\<lambda>limit. (limit_asset limit, vl_lifetime limit)) (al_value_limits limits)),
       bl_rolling_value_limits = concat (map (\<lambda>limit. map (\<lambda>window.
         \<lparr>sv_asset_id = limit_asset limit, sv_maximum = vw_maximum window, sv_duration_ms = vw_duration_ms window\<rparr>)
         (vl_rolling_windows limit)) (al_value_limits limits))\<rparr>)"

section \<open>What is charged\<close>

text \<open>The amounts that a claim charges, in order: its debits and, when the class has a fee asset, the fee in that asset.\<close>

definition debit_asset :: "DeclaredDebit \<Rightarrow> string" where
  "debit_asset debit = asset_id (as_chain (dd_asset debit)) (as_asset (dd_asset debit))"

definition debit_charges :: "value_env \<Rightarrow> DeclaredDebit list \<Rightarrow> (string \<times> nat) list \<Rightarrow> bool" where
  "debit_charges env debits cs \<longleftrightarrow>
     list_all2 (\<lambda>d (asset, n). asset = debit_asset d \<and> ne_biguint_from_str env (dd_amount d) = Inr n) debits cs"

fun fee_charges :: "value_env \<Rightarrow> ProvenanceFeeAsset option \<Rightarrow> DeclaredFee \<Rightarrow> (string \<times> nat) list \<Rightarrow> bool" where
  "fee_charges env None FeeNone cs \<longleftrightarrow> cs = []"
| "fee_charges env (Some expected) (Fee chain asset amount) cs \<longleftrightarrow>
     pf_chain expected = chain \<and> pf_asset expected = asset
     \<and> (\<exists>n. ne_biguint_from_str env amount = Inr n \<and> cs = [(asset_id chain asset, n)])"
| "fee_charges env _ _ cs \<longleftrightarrow> False"

definition charges :: "value_env \<Rightarrow> DeclaredDebit list \<Rightarrow> ProvenanceFeeAsset option \<Rightarrow> DeclaredFee \<Rightarrow> (string \<times> nat) list \<Rightarrow> bool" where
  "charges env debits fee_asset fee cs \<longleftrightarrow> (\<exists>ds fs. cs = ds @ fs \<and> debit_charges env debits ds \<and> fee_charges env fee_asset fee fs)"

definition total_of :: "(string \<times> nat) list \<Rightarrow> string \<Rightarrow> nat" where
  "total_of cs asset = sum_list (map snd (filter (\<lambda>c. fst c = asset) cs))"

definition add_all :: "(string \<times> nat) list \<Rightarrow> (string \<times> nat) list \<Rightarrow> (string \<times> nat) list" where
  "add_all cs m = fold (\<lambda>(asset, n). bt_entry (\<lambda>v. amount_or_zero v + n) asset) cs m"

text \<open>No asset of the charges exceeds 256 bits on top of what is there.\<close>

definition fits :: "(string \<times> nat) list \<Rightarrow> (string \<times> nat) list \<Rightarrow> bool" where
  "fits cs m \<longleftrightarrow> (\<forall>asset \<in> fst ` set cs. amount_or_zero (map_of m asset) + total_of cs asset < 2 ^ 256)"

lemma add_all_keys: "bt_keys m \<Longrightarrow> bt_keys (add_all cs m)"
  by (induction cs arbitrary: m) (auto simp: add_all_def bt_entry_keys)

lemma total_of_none: "a \<notin> fst ` set cs \<Longrightarrow> total_of cs a = 0"
proof -
  assume "a \<notin> fst ` set cs"
  then have "filter (\<lambda>c. fst c = a) cs = []" by (auto simp: filter_empty_conv)
  then show ?thesis by (simp add: total_of_def)
qed

lemma total_of_Cons: "total_of ((asset, n) # cs) a = (if a = asset then n else 0) + total_of cs a"
  by (simp add: total_of_def)

lemma add_all_lookup:
  "bt_keys m \<Longrightarrow> map_of (add_all cs m) a = (if a \<in> fst ` set cs then Some (amount_or_zero (map_of m a) + total_of cs a) else map_of m a)"
proof (induction cs arbitrary: m)
  case (Cons c cs)
  obtain asset n where c: "c = (asset, n)" by (cases c)
  let ?m = "bt_entry (\<lambda>v. amount_or_zero v + n) asset m"

  have "map_of (add_all (c # cs) m) a = (if a \<in> fst ` set cs then Some (amount_or_zero (map_of ?m a) + total_of cs a) else map_of ?m a)"
    using Cons.IH [of ?m] Cons.prems by (simp add: add_all_def c bt_entry_keys)
  then show ?case using Cons.prems total_of_none [of a cs] by (auto simp: c bt_entry_map_of amount_or_zero_def total_of_Cons)
qed (simp add: add_all_def)

lemma fits_Cons:
  assumes "bt_keys m"
  shows "fits ((asset, n) # cs) m \<longleftrightarrow>
    amount_or_zero (map_of m asset) + n < 2 ^ 256 \<and> fits cs (bt_entry (\<lambda>v. amount_or_zero v + n) asset m)"
proof -
  let ?m = "bt_entry (\<lambda>v. amount_or_zero v + n) asset m"
  have m: "amount_or_zero (map_of ?m a) = amount_or_zero (map_of m a) + (if a = asset then n else 0)" for a
    using assms by (simp add: bt_entry_map_of amount_or_zero_def)
  have "fits ((asset, n) # cs) m \<longleftrightarrow> amount_or_zero (map_of m asset) + n + total_of cs asset < 2 ^ 256 \<and> fits cs ?m"
    by (auto simp: fits_def m total_of_Cons)
  also have "\<dots> \<longleftrightarrow> amount_or_zero (map_of m asset) + n < 2 ^ 256 \<and> fits cs ?m"
  proof (cases "asset \<in> fst ` set cs")
    case True
    then have "fits cs ?m \<Longrightarrow> amount_or_zero (map_of m asset) + n + total_of cs asset < 2 ^ 256" unfolding fits_def m by auto
    then show ?thesis by linarith
  qed (simp add: total_of_none)
  finally show ?thesis .
qed

lemma add_value_Inr:
  "add_value env asset amount m = Inr m' \<longleftrightarrow>
    (\<exists>n. ne_biguint_from_str env amount = Inr n \<and> amount_or_zero (map_of m asset) + n < 2 ^ 256
      \<and> m' = bt_entry (\<lambda>v. amount_or_zero v + n) asset m)"
  by (cases "ne_biguint_from_str env amount") (auto simp: add_value_def and_then_eq_Inr)

lemma add_debits_Inr:
  "bt_keys m \<Longrightarrow> add_debits env debits m = Inr m' \<longleftrightarrow> (\<exists>cs. debit_charges env debits cs \<and> fits cs m \<and> m' = add_all cs m)"
proof (induction debits arbitrary: m)
  case Nil
  then show ?case by (auto simp: debit_charges_def fits_def add_all_def)
next
  case (Cons d debits)
  have "add_debits env (d # debits) m = Inr m' \<longleftrightarrow>
      (\<exists>n. ne_biguint_from_str env (dd_amount d) = Inr n \<and> amount_or_zero (map_of m (debit_asset d)) + n < 2 ^ 256
        \<and> add_debits env debits (bt_entry (\<lambda>v. amount_or_zero v + n) (debit_asset d) m) = Inr m')"
    by (auto simp: and_then_eq_Inr add_value_Inr debit_asset_def)
  also have "\<dots> \<longleftrightarrow> (\<exists>n cs. ne_biguint_from_str env (dd_amount d) = Inr n \<and> debit_charges env debits cs
      \<and> fits ((debit_asset d, n) # cs) m \<and> m' = add_all ((debit_asset d, n) # cs) m)"
    by (auto simp: Cons.IH [OF bt_entry_keys [OF Cons.prems]] fits_Cons [OF Cons.prems] add_all_def)
  also have "\<dots> \<longleftrightarrow> (\<exists>cs. debit_charges env (d # debits) cs \<and> fits cs m \<and> m' = add_all cs m)"
    by (auto simp: debit_charges_def list_all2_Cons1)
  finally show ?case .
qed

lemma add_fee_Inr:
  "bt_keys m \<Longrightarrow> add_fee env fee_asset fee m = Inr m' \<longleftrightarrow> (\<exists>cs. fee_charges env fee_asset fee cs \<and> fits cs m \<and> m' = add_all cs m)"
  by (cases fee_asset; cases fee)
     (auto simp: add_fee_def add_value_Inr fits_def add_all_def total_of_def)

lemma add_all_append: "add_all (ds @ fs) m = add_all fs (add_all ds m)"
  by (simp add: add_all_def)

lemma fits_append:
  "bt_keys m \<Longrightarrow> fits (ds @ fs) m \<longleftrightarrow> fits ds m \<and> fits fs (add_all ds m)"
proof (induction ds arbitrary: m)
  case (Cons d ds)
  then show ?case by (cases d) (simp add: fits_Cons bt_entry_keys add_all_def)
qed (simp add: fits_def add_all_def)

lemma decimal_values_Inr:
  assumes "\<forall>n < 2 ^ 256. ne_decimal_u256_parse env (decimal n) = Inr (decimal n)" and "\<forall>(a, n) \<in> set m. n < 2 ^ 256"
  shows "decimal_values env m = Inr (map (\<lambda>(a, n). (a, decimal n)) m)"
  using assms(2) by (induction m) (auto simp: assms(1))

text \<open>C35. The values reserved for a claim are exact. Accounting succeeds exactly when the class is catalogued, every amount is a
number, the declared fee is in the fee asset of the class or absent when the class has none, every asset has a value
limit and no asset sums up to more than 256 bits; the result lists the assets in order, each with the sum of
its debits and the fee. A decimal of at most 256 bits is accepted by its type as it is.\<close>

theorem declared_values_are_exact:
  assumes "\<forall>n < 2 ^ 256. ne_decimal_u256_parse env (decimal n) = Inr (decimal n)"
  shows "account_declared_values env terms operation_class debits fee provenance = Inr reserved \<longleftrightarrow>
    (\<exists>entry cs. find (\<lambda>e. po_operation_class e = operation_class) (pr_operation_classes provenance) = Some entry
      \<and> charges env debits (po_fee_asset entry) fee cs
      \<and> (\<forall>asset \<in> fst ` set cs. asset \<in> limit_asset ` set (al_value_limits (st_limits terms)) \<and> total_of cs asset < 2 ^ 256)
      \<and> reserved = map (\<lambda>asset. (asset, decimal (total_of cs asset))) (btree_set (map fst cs)))"
proof -
  have sum: "(\<exists>m1 m2. add_debits env debits [] = Inr m1 \<and> add_fee env fa fee m1 = Inr m2 \<and> P m2) \<longleftrightarrow>
      (\<exists>cs. charges env debits fa fee cs \<and> fits cs [] \<and> P (add_all cs []))" for fa P
  proof -
    have "(\<exists>m1 m2. add_debits env debits [] = Inr m1 \<and> add_fee env fa fee m1 = Inr m2 \<and> P m2) \<longleftrightarrow>
        (\<exists>ds m2. debit_charges env debits ds \<and> fits ds [] \<and> add_fee env fa fee (add_all ds []) = Inr m2 \<and> P m2)"
      by (auto simp: add_debits_Inr)
    also have "\<dots> \<longleftrightarrow> (\<exists>ds fs. debit_charges env debits ds \<and> fee_charges env fa fee fs \<and> fits (ds @ fs) [] \<and> P (add_all (ds @ fs) []))"
      by (auto simp: add_fee_Inr add_all_keys fits_append add_all_append)
    finally show ?thesis unfolding charges_def by blast
  qed
  have listed: "add_all cs [] = map (\<lambda>a. (a, total_of cs a)) (btree_set (map fst cs))" for cs
    by (rule bt_graph) (simp_all add: add_all_keys add_all_lookup amount_or_zero_def)
  have fits: "fits cs [] \<longleftrightarrow> (\<forall>a \<in> fst ` set cs. total_of cs a < 2 ^ 256)" for cs by (simp add: fits_def amount_or_zero_def)
  have "decimal_values env (add_all cs []) = Inr (map (\<lambda>a. (a, decimal (total_of cs a))) (btree_set (map fst cs)))" if "fits cs []" for cs
    using decimal_values_Inr [OF assms, of "add_all cs []"] that by (auto simp: listed fits)
  then have end_ok: "fits cs [] \<and> \<not> list_ex (\<lambda>a. a \<notin> S) (map fst (add_all cs [])) \<and> decimal_values env (add_all cs []) = Inr reserved \<longleftrightarrow>
      (\<forall>a \<in> fst ` set cs. a \<in> S \<and> total_of cs a < 2 ^ 256) \<and> reserved = map (\<lambda>a. (a, decimal (total_of cs a))) (btree_set (map fst cs))" for cs S
    unfolding fits [symmetric] ball_conj_distrib by (auto simp: listed list_ex_iff)
  have "account_declared_values env terms operation_class debits fee provenance = Inr reserved \<longleftrightarrow>
      (\<exists>entry. find (\<lambda>e. po_operation_class e = operation_class) (pr_operation_classes provenance) = Some entry
        \<and> (\<exists>m1 m2. add_debits env debits [] = Inr m1 \<and> add_fee env (po_fee_asset entry) fee m1 = Inr m2
          \<and> (\<not> list_ex (\<lambda>a. a \<notin> set (map limit_asset (al_value_limits (st_limits terms)))) (map fst m2) \<and> decimal_values env m2 = Inr reserved)))"
    unfolding account_declared_values_def Let_def and_then_eq_Inr ok_or_eq_Inr by auto
  then show ?thesis unfolding sum set_map end_ok by blast
qed

definition sample_values :: value_env where
  "sample_values = \<lparr>ne_biguint_from_str = \<lambda>s. ok_or (map_option unat (u64_from_str s)) ''not a number'', ne_decimal_u256_parse = Inr\<rparr>"

definition native_asset :: AssetId where
  "native_asset = \<lparr>as_chain = ''solana'', as_asset = ''native''\<rparr>"

definition native_terms :: SealedApprovalTerms where
  "native_terms = sample_terms\<lparr>st_limits := \<lparr>al_max_operations = 1, al_max_signatures = 1, al_operation_rate_limits = [],
     al_signature_rate_limits = [],
     al_value_limits = [\<lparr>vl_asset = native_asset, vl_lifetime = decimal 6000, vl_rolling_windows = []\<rparr>]\<rparr>\<rparr>"

theorem declared_values_are_exact_witness:
  "account_declared_values sample_values native_terms ''solana.native-transfer'' (su_declared_debits sample_system_claim)
     (su_declared_fee sample_system_claim) sample_record = Inr [(''solana:native'', decimal 5042)]"
proof -
  let ?cs = "[(''solana:native'', 42), (''solana:native'', 5000)]"
  have native: "asset_id ''solana'' ''native'' = ''solana:native''" by (simp add: asset_id_def)
  have "charges sample_values (su_declared_debits sample_system_claim) (Some \<lparr>pf_chain = ''solana'', pf_asset = ''native''\<rparr>)
      (su_declared_fee sample_system_claim) ?cs"
    unfolding charges_def
    by (intro exI [of _ "[(''solana:native'', 42)]"] exI [of _ "[(''solana:native'', 5000)]"])
       (simp add: debit_charges_def debit_asset_def sample_system_claim_def sample_values_def native unat_numeral)
  moreover have "find (\<lambda>e. po_operation_class e = ''solana.native-transfer'') (pr_operation_classes sample_record)
      = Some \<lparr>po_operation_class = ''solana.native-transfer'', po_fee_asset = Some \<lparr>pf_chain = ''solana'', pf_asset = ''native''\<rparr>\<rparr>"
    by (simp add: sample_record_def)
  moreover have "\<forall>asset \<in> fst ` set ?cs. asset \<in> limit_asset ` set (al_value_limits (st_limits native_terms)) \<and> total_of ?cs asset < 2 ^ 256"
    by (simp add: native_terms_def limit_asset_def native_asset_def native total_of_def)
  moreover have "[(''solana:native'', decimal 5042)] = map (\<lambda>asset. (asset, decimal (total_of ?cs asset))) (btree_set (map fst ?cs))"
    by (simp add: btree_set_def total_of_def)
  ultimately show ?thesis
    by (intro declared_values_are_exact [THEN iffD2]) (simp add: sample_values_def, force)
qed

section \<open>The budget is the tightest one\<close>

text \<open>Whether a count is within all the windows of one duration.\<close>

definition within_term_windows :: "SlidingWindow list \<Rightarrow> u64 \<Rightarrow> u64 \<Rightarrow> bool" where
  "within_term_windows windows duration n \<longleftrightarrow> (\<forall>w \<in> set windows. sw_duration_ms w = duration \<longrightarrow> n \<le> sw_maximum w)"

lemma le_U64_MAX [simp]: "n \<le> U64_MAX"
  by (simp add: U64_MAX_def)

lemma min_U64_MAX [simp]: "min U64_MAX n = n" "min n U64_MAX = n"
  by (simp_all add: min_def antisym)

lemma lower_window_keys: "bt_keys m \<Longrightarrow> bt_keys (lower_window w m)"
  by (cases w) (simp add: lower_window_def bt_entry_keys)

lemma lower_window_lookup:
  "bt_keys m \<Longrightarrow> map_of (lower_window (e, p, q) m) d =
    (if d = e then Some (case map_of m d of None \<Rightarrow> (p, q) | Some (p', q') \<Rightarrow> (min p' p, min q' q)) else map_of m d)"
  by (auto simp: lower_window_def bt_entry_map_of split: option.splits)

lemma lower_fold_keys: "bt_keys m \<Longrightarrow> bt_keys (fold lower_window ws m)"
  by (induction ws arbitrary: m) (simp_all add: lower_window_keys)

lemma lower_fold_dom:
  "bt_keys m \<Longrightarrow> map_of (fold lower_window ws m) d = None \<longleftrightarrow> map_of m d = None \<and> d \<notin> fst ` set ws"
proof (induction ws arbitrary: m)
  case (Cons w ws)
  then show ?case by (cases w) (auto simp: lower_window_keys lower_window_lookup)
qed simp

text \<open>What is below the maximum of a window after the loop: what is below all the windows that went in.\<close>

lemma lower_fold_bound:
  "bt_keys m \<Longrightarrow> map_of (fold lower_window ws m) d = Some (a, b) \<Longrightarrow>
    (x \<le> a \<longleftrightarrow> (\<forall>p q. map_of m d = Some (p, q) \<longrightarrow> x \<le> p) \<and> (\<forall>p q. (d, p, q) \<in> set ws \<longrightarrow> x \<le> p))
    \<and> (x \<le> b \<longleftrightarrow> (\<forall>p q. map_of m d = Some (p, q) \<longrightarrow> x \<le> q) \<and> (\<forall>p q. (d, p, q) \<in> set ws \<longrightarrow> x \<le> q))"
proof (induction ws arbitrary: m)
  case (Cons w ws)
  obtain e p q where w: "w = (e, p, q)" by (cases w)
  have step: "map_of (fold lower_window ws (lower_window (e, p, q) m)) d = Some (a, b)" using Cons.prems(2) w by simp
  note bound = Cons.IH [OF lower_window_keys [OF Cons.prems(1)] step]
  show ?case
  proof (cases "d = e")
    case False
    then show ?thesis using bound unfolding lower_window_lookup [OF Cons.prems(1)] w by auto
  next
    case True
    then show ?thesis using bound unfolding lower_window_lookup [OF Cons.prems(1)] w
      by (cases "map_of m d") auto
  qed
qed simp

lemma rate_limits_bound:
  assumes "l \<in> set (bl_rate_limits (budget_limits terms))"
  shows "n \<le> sb_max_operations l \<longleftrightarrow> within_term_windows (al_operation_rate_limits (st_limits terms)) (sb_duration_ms l) n"
    and "n \<le> sb_max_signatures l \<longleftrightarrow> within_term_windows (al_signature_rate_limits (st_limits terms)) (sb_duration_ms l) n"
proof -
  let ?m = "fold lower_window (limit_windows (st_limits terms)) []"
  obtain d a b where l: "l = \<lparr>sb_max_operations = a, sb_max_signatures = b, sb_duration_ms = d\<rparr>" and m: "(d, a, b) \<in> set ?m"
    using assms by (auto simp: budget_limits_def Let_def)
  then have "map_of ?m d = Some (a, b)" by (simp add: bt_keys_distinct lower_fold_keys)
  note bound = lower_fold_bound [OF bt_keys_Nil this, of n]
  have "(\<forall>p q. (d, p, q) \<in> set (limit_windows (st_limits terms)) \<longrightarrow> n \<le> p) \<longleftrightarrow> within_term_windows (al_operation_rate_limits (st_limits terms)) d n"
    "(\<forall>p q. (d, p, q) \<in> set (limit_windows (st_limits terms)) \<longrightarrow> n \<le> q) \<longleftrightarrow> within_term_windows (al_signature_rate_limits (st_limits terms)) d n"
    by (auto simp: limit_windows_def within_term_windows_def)
  with bound show "n \<le> sb_max_operations l \<longleftrightarrow> within_term_windows (al_operation_rate_limits (st_limits terms)) (sb_duration_ms l) n"
    "n \<le> sb_max_signatures l \<longleftrightarrow> within_term_windows (al_signature_rate_limits (st_limits terms)) (sb_duration_ms l) n"
    by (simp_all add: l)
qed

lemma rate_limits_durations:
  "sorted_wrt (<) (map sb_duration_ms (bl_rate_limits (budget_limits terms)))"
  "set (map sb_duration_ms (bl_rate_limits (budget_limits terms))) =
    sw_duration_ms ` (set (al_operation_rate_limits (st_limits terms)) \<union> set (al_signature_rate_limits (st_limits terms)))"
proof -
  let ?m = "fold lower_window (limit_windows (st_limits terms)) []"
  have m: "map sb_duration_ms (bl_rate_limits (budget_limits terms)) = map fst ?m"
    by (auto simp: budget_limits_def Let_def)
  show "sorted_wrt (<) (map sb_duration_ms (bl_rate_limits (budget_limits terms)))"
    unfolding m using lower_fold_keys [OF bt_keys_Nil] unfolding bt_keys_def .
  have "d \<in> set (map fst ?m) \<longleftrightarrow> d \<in> fst ` set (limit_windows (st_limits terms))" for d
    using lower_fold_dom [OF bt_keys_Nil, of "limit_windows (st_limits terms)" d] by (auto simp: map_of_eq_None_iff)
  then have "set (map fst ?m) = fst ` set (limit_windows (st_limits terms))" by blast
  also have "\<dots> = sw_duration_ms ` (set (al_operation_rate_limits (st_limits terms)) \<union> set (al_signature_rate_limits (st_limits terms)))"
    by (auto simp: limit_windows_def image_Un image_image)
  finally show "set (map sb_duration_ms (bl_rate_limits (budget_limits terms))) =
    sw_duration_ms ` (set (al_operation_rate_limits (st_limits terms)) \<union> set (al_signature_rate_limits (st_limits terms)))"
    unfolding m .
qed

lemma map_of_find: "map_of (map (\<lambda>x. (f x, g x)) xs) k = map_option g (find (\<lambda>x. f x = k) xs)"
  by (induction xs) auto

lemma value_limits_last:
  "map_of (bl_value_limits (budget_limits terms)) asset =
    map_option vl_lifetime (find (\<lambda>limit. limit_asset limit = asset) (rev (al_value_limits (st_limits terms))))"
  by (simp add: budget_limits_def Let_def bt_collect_lookup rev_map map_of_find)

text \<open>C36. The budget that an approval gives to the journal is the tightest one its terms describe: it has one window for every
duration that the terms name, in increasing order, and a number of operations or signatures is within that window
exactly when it is within every window of the terms with the duration; the lifetime maxima are the ones of the terms, and
every rolling value window of every asset is carried over. The lifetime maximum of an asset is the one of its last value
limit: terms with several value limits for an asset are accepted and the earlier lifetimes are not enforced.\<close>

theorem budget_is_tightest:
  "let limits = st_limits terms; budget = budget_limits terms in
    bl_max_operations budget = al_max_operations limits \<and> bl_max_signatures budget = al_max_signatures limits
    \<and> sorted_wrt (<) (map sb_duration_ms (bl_rate_limits budget))
    \<and> set (map sb_duration_ms (bl_rate_limits budget)) = sw_duration_ms ` (set (al_operation_rate_limits limits) \<union> set (al_signature_rate_limits limits))
    \<and> (\<forall>l \<in> set (bl_rate_limits budget). \<forall>n.
        (n \<le> sb_max_operations l \<longleftrightarrow> within_term_windows (al_operation_rate_limits limits) (sb_duration_ms l) n)
        \<and> (n \<le> sb_max_signatures l \<longleftrightarrow> within_term_windows (al_signature_rate_limits limits) (sb_duration_ms l) n))
    \<and> (\<forall>asset. map_of (bl_value_limits budget) asset =
        map_option vl_lifetime (find (\<lambda>limit. limit_asset limit = asset) (rev (al_value_limits limits))))
    \<and> (\<forall>r. r \<in> set (bl_rolling_value_limits budget) \<longleftrightarrow> (\<exists>limit \<in> set (al_value_limits limits). \<exists>w \<in> set (vl_rolling_windows limit).
        r = \<lparr>sv_asset_id = limit_asset limit, sv_maximum = vw_maximum w, sv_duration_ms = vw_duration_ms w\<rparr>))"
proof -
  have "bl_max_operations (budget_limits terms) = al_max_operations (st_limits terms)"
    "bl_max_signatures (budget_limits terms) = al_max_signatures (st_limits terms)"
    "r \<in> set (bl_rolling_value_limits (budget_limits terms)) \<longleftrightarrow>
      (\<exists>limit \<in> set (al_value_limits (st_limits terms)). \<exists>w \<in> set (vl_rolling_windows limit).
        r = \<lparr>sv_asset_id = limit_asset limit, sv_maximum = vw_maximum w, sv_duration_ms = vw_duration_ms w\<rparr>)" for r
    by (auto simp: budget_limits_def Let_def)
  then show ?thesis unfolding Let_def
    by (intro conjI ballI allI rate_limits_durations rate_limits_bound value_limits_last)
qed

definition busy_terms :: SealedApprovalTerms where
  "busy_terms = sample_terms\<lparr>st_limits := \<lparr>al_max_operations = 9, al_max_signatures = 9,
     al_operation_rate_limits = [\<lparr>sw_maximum = 5, sw_duration_ms = 60\<rparr>, \<lparr>sw_maximum = 3, sw_duration_ms = 60\<rparr>],
     al_signature_rate_limits = [\<lparr>sw_maximum = 7, sw_duration_ms = 10\<rparr>],
     al_value_limits = [\<lparr>vl_asset = native_asset, vl_lifetime = ''10'', vl_rolling_windows = []\<rparr>,
       \<lparr>vl_asset = native_asset, vl_lifetime = ''1000'', vl_rolling_windows = []\<rparr>]\<rparr>\<rparr>"

theorem budget_is_tightest_witness:
  "validate_limits (st_limits busy_terms) = Inr ()
   \<and> map sb_duration_ms (bl_rate_limits (budget_limits busy_terms)) = [10, 60]
   \<and> (\<exists>l. l \<in> set (bl_rate_limits (budget_limits busy_terms)) \<and> sb_duration_ms l = 60 \<and> 3 \<le> sb_max_operations l \<and> \<not> 4 \<le> sb_max_operations l)
   \<and> map_of (bl_value_limits (budget_limits busy_terms)) ''solana:native'' = Some ''1000''"
proof -
  have ok: "validate_limits (st_limits busy_terms) = Inr ()" by (simp add: validate_limits_def busy_terms_def native_asset_def)
  note t = budget_is_tightest [of busy_terms, unfolded Let_def]
  have "sorted_wrt (<) (map sb_duration_ms (bl_rate_limits (budget_limits busy_terms)))"
    "set (map sb_duration_ms (bl_rate_limits (budget_limits busy_terms))) = {10, 60}"
    using t by (auto simp: busy_terms_def)
  then have d: "map sb_duration_ms (bl_rate_limits (budget_limits busy_terms)) = [10, 60]"
    by (intro strict_sorted_equal) auto
  have "60 \<in> set (map sb_duration_ms (bl_rate_limits (budget_limits busy_terms)))" unfolding d by simp
  then obtain l where l: "l \<in> set (bl_rate_limits (budget_limits busy_terms))" "sb_duration_ms l = 60" by auto
  have "(n \<le> sb_max_operations l) = within_term_windows (al_operation_rate_limits (st_limits busy_terms)) 60 n" for n
    using t l by metis
  then have "3 \<le> sb_max_operations l \<and> \<not> 4 \<le> sb_max_operations l" by (simp add: within_term_windows_def busy_terms_def)
  with l have "\<exists>l. l \<in> set (bl_rate_limits (budget_limits busy_terms)) \<and> sb_duration_ms l = 60 \<and> 3 \<le> sb_max_operations l \<and> \<not> 4 \<le> sb_max_operations l"
    by blast
  moreover have "map_of (bl_value_limits (budget_limits busy_terms)) ''solana:native'' = Some ''1000''"
    using t by (simp add: busy_terms_def limit_asset_def native_asset_def asset_id_def)
  ultimately show ?thesis using ok d by blast
qed

end
