(* ===== verification/Destinations.thy ===== *)
theory Destinations
  imports AuthorityTypes OrderedMaps
begin

text \<open>
  The destinations of wallet policies (\<open>bloom-broker-api/src/address.rs\<close>) and the check of declared destinations against
  a policy (\<open>destination_outside_policy\<close> of \<open>bloom-broker/src/authority.rs\<close>). The decoders of the packages
  hex, bs58 and bech32 are an environment with the laws that the code relies on. The theorem says when two
  spellings name the same destination, and that a claim passes exactly when each of its destinations is allowed.
\<close>

section \<open>The decoders of the packages\<close>

text \<open>
  \<open>ad_bech32_decode\<close> is \<open>CheckedHrpstring::new\<close> for the original checksum with the bytes of \<open>byte_iter\<close>, \<open>ad_segwit_decode\<close>
  is \<open>segwit::decode\<close>; both return the prefix as it was spelled.
\<close>

record address_env =
  ad_hex_decode :: "string \<Rightarrow> string + bytes"
  ad_base58_decode :: "string \<Rightarrow> string + bytes"
  ad_base58check_decode :: "string \<Rightarrow> string + bytes"
  ad_bech32_decode :: "string \<Rightarrow> string + (string \<times> bytes)"
  ad_bech32_encode :: "string \<Rightarrow> bytes \<Rightarrow> string + string"
  ad_segwit_decode :: "string \<Rightarrow> string + (string \<times> u8 \<times> bytes)"

definition ascii_lower :: "string \<Rightarrow> string" where
  "ascii_lower = map (\<lambda>c. let n = of_char c :: nat in if 65 \<le> n \<and> n \<le> 90 then char_of (n + 32) else c)"

definition map_ok :: "('a \<Rightarrow> 'b) \<Rightarrow> 'e + 'a \<Rightarrow> 'e + 'b" where
  "map_ok f r = and_then r (\<lambda>x. Inr (f x))"

lemma map_ok_eq_Inr: "map_ok f r = Inr y \<longleftrightarrow> (\<exists>x. r = Inr x \<and> y = f x)"
  by (auto simp: map_ok_def and_then_eq_Inr)

section \<open>Addresses (address.rs)\<close>

datatype AddressFamily = FamilyEvm | FamilySolana | FamilyCosmos | FamilyBitcoin

datatype ChainAddress =
    AddressEvm bytes
  | AddressSolana bytes
  | AddressCosmos string bytes
  | AddressBitcoin bytes

datatype PolicyTarget = TargetAddress ChainAddress | TargetPetalClass string

datatype Comparable = Decoded PolicyTarget | Literal string

datatype DestinationError = UnknownChain string | Malformed AddressFamily string

definition PETAL_DESTINATION_PREFIX :: string where
  "PETAL_DESTINATION_PREFIX = ''petal:''"

definition COSMOS_MAX_PAYLOAD_BYTES :: nat where
  "COSMOS_MAX_PAYLOAD_BYTES = 64"

definition SOLANA_MAX_BASE58_CHARS :: nat where
  "SOLANA_MAX_BASE58_CHARS = 44"

definition BITCOIN_MAX_BASE58CHECK_CHARS :: nat where
  "BITCOIN_MAX_BASE58CHECK_CHARS = 35"

definition BITCOIN_MAINNET_HRP :: string where
  "BITCOIN_MAINNET_HRP = ''bc''"

definition COSMOS_CHAINS :: "string list" where
  "COSMOS_CHAINS = [''celestia'', ''cosmos'', ''dydx'', ''injective'', ''neutron'', ''noble'', ''osmosis'']"

definition EVM_CHAINS :: "string list" where
  "EVM_CHAINS = [''anvil'', ''arbitrum'', ''arc'', ''avalanche'', ''base'', ''bsc'', ''ethereum'', ''gnosis'', ''hyperliquid'',
     ''linea'', ''optimism'', ''polygon'', ''robinhood'', ''tempo'']"

definition address_family :: "Token \<Rightarrow> AddressFamily option" where
  "address_family chain =
     (if chain = ''bitcoin'' then Some FamilyBitcoin
      else if chain = ''solana'' then Some FamilySolana
      else if chain \<in> set COSMOS_CHAINS then Some FamilyCosmos
      else if chain \<in> set EVM_CHAINS then Some FamilyEvm
      else None)"

definition evm_address :: "address_env \<Rightarrow> string \<Rightarrow> DestinationError + bytes" where
  "evm_address env s =
     and_then (ok_or (case strip_prefix ''0x'' s of Some body \<Rightarrow> Some body | None \<Rightarrow> strip_prefix ''0X'' s)
       (Malformed FamilyEvm ''expected a 0x-prefixed address'')) (\<lambda>body.
     and_then (map_err (Malformed FamilyEvm) (ad_hex_decode env body)) (\<lambda>bytes.
     if length bytes = 20 then Inr bytes
     else Inl (Malformed FamilyEvm (''expected 20 bytes, got '' @ decimal (length bytes)))))"

definition solana_address :: "address_env \<Rightarrow> string \<Rightarrow> DestinationError + bytes" where
  "solana_address env s =
     (if SOLANA_MAX_BASE58_CHARS < length s
      then Inl (Malformed FamilySolana (''expected at most '' @ decimal SOLANA_MAX_BASE58_CHARS @ '' characters, got '' @ decimal (length s)))
      else and_then (map_err (Malformed FamilySolana) (ad_base58_decode env s)) (\<lambda>bytes.
        if length bytes = 32 then Inr bytes
        else Inl (Malformed FamilySolana (''expected 32 bytes, got '' @ decimal (length bytes)))))"

definition cosmos_address :: "address_env \<Rightarrow> string \<Rightarrow> DestinationError + (string \<times> bytes)" where
  "cosmos_address env s =
     and_then (map_err (Malformed FamilyCosmos) (ad_bech32_decode env s)) (\<lambda>(hrp, payload).
     if payload = [] \<or> COSMOS_MAX_PAYLOAD_BYTES < length payload
     then Inl (Malformed FamilyCosmos (''expected 1-'' @ decimal COSMOS_MAX_PAYLOAD_BYTES @ '' bytes, got '' @ decimal (length payload)))
     else and_then (map_err (Malformed FamilyCosmos) (ad_bech32_encode env hrp payload)) (\<lambda>canonical.
       if canonical \<noteq> ascii_lower s
       then Inl (Malformed FamilyCosmos ''address is not the canonical spelling of its payload'')
       else Inr (ascii_lower hrp, payload)))"

text \<open>The opcode \<open>0x50 + v\<close> is one on bytes.\<close>

definition segwit_script :: "u8 \<Rightarrow> bytes \<Rightarrow> bytes" where
  "segwit_script version program = (if version = 0 then 0 else 0x50 + version) # of_nat (length program) # program"

definition hex_digit :: "nat \<Rightarrow> char" where
  "hex_digit n = (if n < 10 then char_of (48 + n) else char_of (87 + n))"

definition hex_byte :: "u8 \<Rightarrow> string" where
  "hex_byte b = [CHR ''0'', CHR ''x'', hex_digit (unat b div 16), hex_digit (unat b mod 16)]"

definition ELLIPSIS :: string where
  "ELLIPSIS = map char_of [0xE2 :: nat, 0x80, 0xA6]"

definition legacy_script :: "u8 \<Rightarrow> bytes \<Rightarrow> DestinationError + bytes" where
  "legacy_script version hash =
     (if length hash \<noteq> 20
      then Inl (Malformed FamilyBitcoin (''expected a 20-byte hash, got '' @ decimal (length hash)))
      else if version = 0x00 then Inr ([0x76, 0xa9, 0x14] @ hash @ [0x88, 0xac])
      else if version = 0x05 then Inr ([0xa9, 0x14] @ hash @ [0x87])
      else Inl (Malformed FamilyBitcoin (''unknown mainnet address version byte '' @ hex_byte version)))"

definition bitcoin_script_pubkey :: "address_env \<Rightarrow> string \<Rightarrow> DestinationError + bytes" where
  "bitcoin_script_pubkey env s = (case ad_segwit_decode env s of
     Inr (hrp, version, program) \<Rightarrow>
       if ascii_lower hrp \<noteq> BITCOIN_MAINNET_HRP
       then Inl (Malformed FamilyBitcoin (''expected a mainnet address (hrp \"bc\"), got \"'' @ ascii_lower hrp @ ''\"''))
       else Inr (segwit_script version program)
   | Inl _ \<Rightarrow>
       if BITCOIN_MAX_BASE58CHECK_CHARS < length s
       then Inl (Malformed FamilyBitcoin (''expected at most '' @ decimal BITCOIN_MAX_BASE58CHECK_CHARS @ '' characters, got '' @ decimal (length s)))
       else and_then (map_err (\<lambda>_. Malformed FamilyBitcoin (''expected a mainnet bech32 (bc1'' @ ELLIPSIS @ '') or base58check address''))
           (ad_base58check_decode env s)) (\<lambda>decoded.
         case decoded of
           [] \<Rightarrow> Inl (Malformed FamilyBitcoin ''address payload is empty'')
         | version # hash \<Rightarrow> legacy_script version hash))"

definition parse_destination :: "address_env \<Rightarrow> Token \<Rightarrow> string \<Rightarrow> DestinationError + PolicyTarget" where
  "parse_destination env chain destination = (case strip_prefix PETAL_DESTINATION_PREFIX destination of
     Some name \<Rightarrow> Inr (TargetPetalClass name)
   | None \<Rightarrow>
       and_then (ok_or (address_family chain) (UnknownChain chain)) (\<lambda>family.
       map_ok TargetAddress (case family of
         FamilyEvm \<Rightarrow> map_ok AddressEvm (evm_address env destination)
       | FamilySolana \<Rightarrow> map_ok AddressSolana (solana_address env destination)
       | FamilyCosmos \<Rightarrow> map_ok (\<lambda>(hrp, payload). AddressCosmos hrp payload) (cosmos_address env destination)
       | FamilyBitcoin \<Rightarrow> map_ok AddressBitcoin (bitcoin_script_pubkey env destination))))"

definition comparable :: "address_env \<Rightarrow> Token \<Rightarrow> string \<Rightarrow> Comparable" where
  "comparable env chain destination = (case parse_destination env chain destination of
     Inr target \<Rightarrow> Decoded target
   | Inl _ \<Rightarrow> Literal destination)"

section \<open>Declared destinations (authority.rs)\<close>

definition destination_outside_policy :: "address_env \<Rightarrow> CanonicalWalletPolicy \<Rightarrow> DeclaredDestination list \<Rightarrow> DeclaredDestination option" where
  "destination_outside_policy env policy declared =
     (let allowed = map (\<lambda>entry. (pd_chain entry, comparable env (pd_chain entry) (pd_destination entry))) (wp_allowed_destinations policy) in
      find (\<lambda>d. (de_chain d, comparable env (de_chain d) (de_destination d)) \<notin> set allowed) declared)"

fun join_comma :: "string list \<Rightarrow> string" where
  "join_comma [] = []"
| "join_comma [s] = s"
| "join_comma (s # t # ss) = s @ '', '' @ join_comma (t # ss)"

definition conflicting_chains :: "address_env \<Rightarrow> DeclaredDestination \<Rightarrow> PolicyDestination list \<Rightarrow> string list" where
  "conflicting_chains env declared allowed =
     (let declared_target = comparable env (de_chain declared) (de_destination declared) in
      btree_set (map pd_chain (filter (\<lambda>entry. pd_chain entry \<noteq> de_chain declared
        \<and> (pd_destination entry = de_destination declared
           \<or> comparable env (pd_chain entry) (pd_destination entry) = declared_target)) allowed)))"

definition destination_policy_violation :: "address_env \<Rightarrow> string \<Rightarrow> DeclaredDestination \<Rightarrow> PolicyDestination list \<Rightarrow> string" where
  "destination_policy_violation env subject declared allowed =
     (let conflicting = conflicting_chains env declared allowed in
      subject @ '' names destination '' @ de_destination declared @ '' for chain \"'' @ de_chain declared @ ''\" outside wallet policy''
      @ (if conflicting = [] then []
         else ''; policy carries this destination under chain '' @ join_comma (map (\<lambda>chain. ''\"'' @ chain @ ''\"'') conflicting)
           @ '', but a destination entry only matches the declared chain \"'' @ de_chain declared @ ''\"''))"

section \<open>When two spellings name one destination\<close>

text \<open>
  What the packages promise: hex, bech32 and segwit addresses are read without regard to case and a base58 text
  is determined by its bytes, so decoding tells two accepted texts apart exactly up to case, or exactly; a segwit
  program has at most 40 bytes and a version of at most 16; encoding a prefix lowers its case.
\<close>

definition address_laws :: "address_env \<Rightarrow> bool" where
  "address_laws env \<longleftrightarrow>
     (\<forall>s t b c. ad_hex_decode env s = Inr b \<longrightarrow> ad_hex_decode env t = Inr c \<longrightarrow> (b = c \<longleftrightarrow> ascii_lower s = ascii_lower t))
   \<and> (\<forall>s t b. ad_base58_decode env s = Inr b \<longrightarrow> ad_base58_decode env t = Inr b \<longrightarrow> s = t)
   \<and> (\<forall>s t b. ad_base58check_decode env s = Inr b \<longrightarrow> ad_base58check_decode env t = Inr b \<longrightarrow> s = t)
   \<and> (\<forall>s t h p h' p'. ad_bech32_decode env s = Inr (h, p) \<longrightarrow> ad_bech32_decode env t = Inr (h', p') \<longrightarrow>
        ascii_lower s = ascii_lower t \<longrightarrow> ascii_lower h = ascii_lower h' \<and> p = p')
   \<and> (\<forall>h h' p. ascii_lower h = ascii_lower h' \<longrightarrow> ad_bech32_encode env h p = ad_bech32_encode env h' p)
   \<and> (\<forall>s t h v p h' v' p'. ad_segwit_decode env s = Inr (h, v, p) \<longrightarrow> ad_segwit_decode env t = Inr (h', v', p') \<longrightarrow>
        (ascii_lower s = ascii_lower t \<longleftrightarrow> ascii_lower h = ascii_lower h' \<and> v = v' \<and> p = p'))
   \<and> (\<forall>s h v p. ad_segwit_decode env s = Inr (h, v, p) \<longrightarrow> unat v \<le> 16 \<and> length p \<le> 40)"

lemma law_hex: "address_laws env \<Longrightarrow> ad_hex_decode env s = Inr b \<Longrightarrow> ad_hex_decode env t = Inr c \<Longrightarrow> (b = c) = (ascii_lower s = ascii_lower t)"
  by (rule address_laws_def [THEN iffD1, THEN conjunct1, rule_format])

lemma law_base58: "address_laws env \<Longrightarrow> ad_base58_decode env s = Inr b \<Longrightarrow> ad_base58_decode env t = Inr b \<Longrightarrow> s = t"
  by (rule address_laws_def [THEN iffD1, THEN conjunct2, THEN conjunct1, rule_format])

lemma law_base58check: "address_laws env \<Longrightarrow> ad_base58check_decode env s = Inr b \<Longrightarrow> ad_base58check_decode env t = Inr b \<Longrightarrow> s = t"
  by (rule address_laws_def [THEN iffD1, THEN conjunct2, THEN conjunct2, THEN conjunct1, rule_format])

lemma law_bech32: "address_laws env \<Longrightarrow> ad_bech32_decode env s = Inr (h, p) \<Longrightarrow> ad_bech32_decode env t = Inr (h', p') \<Longrightarrow>
    ascii_lower s = ascii_lower t \<Longrightarrow> ascii_lower h = ascii_lower h' \<and> p = p'"
  by (rule address_laws_def [THEN iffD1, THEN conjunct2, THEN conjunct2, THEN conjunct2, THEN conjunct1, rule_format])

lemma law_encode: "address_laws env \<Longrightarrow> ascii_lower h = ascii_lower h' \<Longrightarrow> ad_bech32_encode env h p = ad_bech32_encode env h' p"
  by (rule address_laws_def [THEN iffD1, THEN conjunct2, THEN conjunct2, THEN conjunct2, THEN conjunct2, THEN conjunct1, rule_format])

lemma law_segwit: "address_laws env \<Longrightarrow> ad_segwit_decode env s = Inr (h, v, p) \<Longrightarrow> ad_segwit_decode env t = Inr (h', v', p') \<Longrightarrow>
    (ascii_lower s = ascii_lower t) = (ascii_lower h = ascii_lower h' \<and> v = v' \<and> p = p')"
  by (rule address_laws_def [THEN iffD1, THEN conjunct2, THEN conjunct2, THEN conjunct2, THEN conjunct2, THEN conjunct2, THEN conjunct1, rule_format])

lemma law_segwit_bounds: "address_laws env \<Longrightarrow> ad_segwit_decode env s = Inr (h, v, p) \<Longrightarrow> unat v \<le> 16 \<and> length p \<le> 40"
  by (rule address_laws_def [THEN iffD1, THEN conjunct2, THEN conjunct2, THEN conjunct2, THEN conjunct2, THEN conjunct2, THEN conjunct2, rule_format])

text \<open>Whether a text is read without regard to its case on a chain.\<close>

definition caseless :: "address_env \<Rightarrow> Token \<Rightarrow> string \<Rightarrow> bool" where
  "caseless env chain d \<longleftrightarrow> strip_prefix PETAL_DESTINATION_PREFIX d = None \<and> (case address_family chain of
     Some FamilyEvm \<Rightarrow> is_ok (evm_address env d)
   | Some FamilyCosmos \<Rightarrow> is_ok (cosmos_address env d)
   | Some FamilyBitcoin \<Rightarrow> is_ok (ad_segwit_decode env d) \<and> is_ok (bitcoin_script_pubkey env d)
   | _ \<Rightarrow> False)"

definition same_destination :: "address_env \<Rightarrow> Token \<Rightarrow> string \<Rightarrow> string \<Rightarrow> bool" where
  "same_destination env chain d e \<longleftrightarrow> d = e \<or> (caseless env chain d \<and> caseless env chain e \<and> ascii_lower d = ascii_lower e)"

lemma ascii_lower_append [simp]: "ascii_lower (s @ t) = ascii_lower s @ ascii_lower t"
  by (simp add: ascii_lower_def)

lemma ascii_lower_0x [simp]: "ascii_lower ''0x'' = ''0x''" "ascii_lower ''0X'' = ''0x''"
  by code_simp+

lemma length_ascii_lower [simp]: "length (ascii_lower s) = length s"
  by (simp add: ascii_lower_def)

lemma strip_prefix_None: "strip_prefix p s = None \<longleftrightarrow> (\<forall>rest. s \<noteq> p @ rest)"
  using strip_prefix_Some by (metis not_None_eq)

lemma evm_body:
  "(case strip_prefix ''0x'' s of Some body \<Rightarrow> Some body | None \<Rightarrow> strip_prefix ''0X'' s) = Some body \<longleftrightarrow>
    s = ''0x'' @ body \<or> s = ''0X'' @ body"
proof (cases "strip_prefix ''0x'' s")
  case None
  then show ?thesis using strip_prefix_None [of "''0x''" s] strip_prefix_Some [of "''0X''" s body] by auto
next
  case (Some x)
  then have "s = ''0x'' @ x" by (simp only: strip_prefix_Some)
  with Some show ?thesis by auto
qed

lemma evm_address_Inr:
  "evm_address env s = Inr b \<longleftrightarrow>
    (\<exists>body. (s = ''0x'' @ body \<or> s = ''0X'' @ body) \<and> ad_hex_decode env body = Inr b \<and> length b = 20)"
  by (simp only: evm_address_def and_then_eq_Inr ok_or_eq_Inr evm_body map_err_eq_Inr) auto

lemma cosmos_address_Inr:
  "cosmos_address env s = Inr (h, p) \<longleftrightarrow>
    (\<exists>hrp. ad_bech32_decode env s = Inr (hrp, p) \<and> p \<noteq> [] \<and> length p \<le> COSMOS_MAX_PAYLOAD_BYTES
       \<and> ad_bech32_encode env hrp p = Inr (ascii_lower s) \<and> h = ascii_lower hrp)"
  by (cases "ad_bech32_decode env s") (auto simp: cosmos_address_def and_then_eq_Inr split: if_splits)

lemma solana_address_Inr:
  "solana_address env s = Inr b \<longleftrightarrow> length s \<le> SOLANA_MAX_BASE58_CHARS \<and> ad_base58_decode env s = Inr b \<and> length b = 32"
  by (auto simp: solana_address_def and_then_eq_Inr)

lemma legacy_script_Inr:
  "legacy_script v h = Inr sc \<longleftrightarrow> length h = 20 \<and>
    (v = 0 \<and> sc = [0x76, 0xa9, 0x14] @ h @ [0x88, 0xac] \<or> v = 5 \<and> sc = [0xa9, 0x14] @ h @ [0x87])"
  by (auto simp: legacy_script_def)

lemma bitcoin_segwit:
  "ad_segwit_decode env s = Inr (h, v, p) \<Longrightarrow>
    bitcoin_script_pubkey env s = Inr sc \<longleftrightarrow> ascii_lower h = BITCOIN_MAINNET_HRP \<and> sc = segwit_script v p"
  by (auto simp: bitcoin_script_pubkey_def)

lemma bitcoin_legacy:
  "ad_segwit_decode env s = Inl e \<Longrightarrow> bitcoin_script_pubkey env s = Inr sc \<longleftrightarrow>
    length s \<le> BITCOIN_MAX_BASE58CHECK_CHARS \<and> (\<exists>v h. ad_base58check_decode env s = Inr (v # h) \<and> legacy_script v h = Inr sc)"
  by (cases "ad_base58check_decode env s") (auto simp: bitcoin_script_pubkey_def split: list.splits)

text \<open>The opcodes keep the kinds of scripts apart.\<close>

lemma segwit_script_head: "unat v \<le> 16 \<Longrightarrow> hd (segwit_script v p) \<notin> {0x76, 0xa9}"
proof -
  assume "unat v \<le> 16"
  then have "unat (0x50 + v) = 0x50 + unat v" by (simp add: unat_word_ariths)
  with \<open>unat v \<le> 16\<close> have "unat (0x50 + v) \<noteq> 0x76" "unat (0x50 + v) \<noteq> 0xa9" by simp_all
  then have "0x50 + v \<noteq> 0x76" "0x50 + v \<noteq> 0xa9" by auto
  then show ?thesis by (simp add: segwit_script_def)
qed

lemma segwit_script_inject:
  assumes "unat v \<le> 16" "unat v' \<le> 16" "length p \<le> 40" "length p' \<le> 40"
  shows "segwit_script v p = segwit_script v' p' \<longleftrightarrow> v = v' \<and> p = p'"
proof -
  have "0x50 + w \<noteq> 0" if "unat w \<le> 16" for w :: u8
  proof -
    have "unat (0x50 + w) = 0x50 + unat w" using that by (simp add: unat_word_ariths)
    then show ?thesis by auto
  qed
  then show ?thesis using assms by (auto simp: segwit_script_def)
qed

text \<open>One lemma for each family: two accepted texts decode alike exactly when they name the same destination.\<close>

lemma evm_same:
  assumes "address_laws env" and "evm_address env s = Inr b" and "evm_address env t = Inr c"
  shows "b = c \<longleftrightarrow> ascii_lower s = ascii_lower t"
proof -
  obtain x y where x: "s = ''0x'' @ x \<or> s = ''0X'' @ x" "ad_hex_decode env x = Inr b"
    and y: "t = ''0x'' @ y \<or> t = ''0X'' @ y" "ad_hex_decode env y = Inr c"
    using assms(2,3) unfolding evm_address_Inr by blast
  have "b = c \<longleftrightarrow> ascii_lower x = ascii_lower y" by (rule law_hex [OF assms(1) x(2) y(2)])
  moreover have "ascii_lower s = ''0x'' @ ascii_lower x" "ascii_lower t = ''0x'' @ ascii_lower y"
    using x(1) y(1) by (metis ascii_lower_append ascii_lower_0x)+
  ultimately show ?thesis by simp
qed

lemma cosmos_same:
  assumes "address_laws env" and "cosmos_address env s = Inr (h, p)" and "cosmos_address env t = Inr (h', p')"
  shows "h = h' \<and> p = p' \<longleftrightarrow> ascii_lower s = ascii_lower t"
proof -
  obtain g g' where g: "ad_bech32_decode env s = Inr (g, p)" "ad_bech32_encode env g p = Inr (ascii_lower s)" "h = ascii_lower g"
    and g': "ad_bech32_decode env t = Inr (g', p')" "ad_bech32_encode env g' p' = Inr (ascii_lower t)" "h' = ascii_lower g'"
    using assms(2,3) unfolding cosmos_address_Inr by blast
  show ?thesis
  proof
    assume "h = h' \<and> p = p'"
    then have "ad_bech32_encode env g p = ad_bech32_encode env g' p'"
      using law_encode [OF assms(1), of g g'] g(3) g'(3) by simp
    then show "ascii_lower s = ascii_lower t" using g(2) g'(2) by simp
  next
    assume "ascii_lower s = ascii_lower t"
    then show "h = h' \<and> p = p'" using law_bech32 [OF assms(1) g(1) g'(1)] g(3) g'(3) by simp
  qed
qed

lemma solana_same:
  assumes "address_laws env" and "solana_address env s = Inr b" and "solana_address env t = Inr c"
  shows "b = c \<longleftrightarrow> s = t"
  using assms(2,3) law_base58 [OF assms(1)] unfolding solana_address_Inr by auto

lemma bitcoin_same:
  assumes laws: "address_laws env" and "bitcoin_script_pubkey env s = Inr b" and "bitcoin_script_pubkey env t = Inr c"
  shows "b = c \<longleftrightarrow> s = t \<or> (is_ok (ad_segwit_decode env s) \<and> is_ok (ad_segwit_decode env t) \<and> ascii_lower s = ascii_lower t)"
proof -
  note bounds = law_segwit_bounds [OF laws]
  have kinds: "segwit_script v p \<noteq> sc" if "ad_segwit_decode env u = Inr (h, v, p)" "legacy_script w k = Inr sc" for u h v p w k sc
    using segwit_script_head [of v p] bounds [OF that(1)] that(2) by (auto simp: legacy_script_Inr)
  show ?thesis
  proof (cases "ad_segwit_decode env s")
    case sl: (Inl e)
    then obtain w k where w: "ad_base58check_decode env s = Inr (w # k)" "legacy_script w k = Inr b"
      using assms(2) by (auto simp: bitcoin_legacy)
    show ?thesis
    proof (cases "ad_segwit_decode env t")
      case (Inl e')
      then obtain w' k' where w': "ad_base58check_decode env t = Inr (w' # k')" "legacy_script w' k' = Inr c"
        using assms(3) by (auto simp: bitcoin_legacy)
      have "b = c \<longleftrightarrow> w = w' \<and> k = k'" using w(2) w'(2) by (auto simp: legacy_script_Inr)
      also have "\<dots> \<longleftrightarrow> s = t" using law_base58check [OF laws, of s _ t] w(1) w'(1) by auto
      finally show ?thesis using sl by simp
    next
      case (Inr x)
      then obtain h v p where h: "ad_segwit_decode env t = Inr (h, v, p)" by (cases x) auto
      then have "b \<noteq> c" using kinds [OF h w(2)] assms(3) by (auto simp: bitcoin_segwit)
      then show ?thesis using sl h by auto
    qed
  next
    case (Inr x)
    then obtain h v p where h: "ad_segwit_decode env s = Inr (h, v, p)" by (cases x) auto
    then have b: "ascii_lower h = BITCOIN_MAINNET_HRP" "b = segwit_script v p" using assms(2) by (auto simp: bitcoin_segwit)
    show ?thesis
    proof (cases "ad_segwit_decode env t")
      case (Inl e)
      then obtain w k where "legacy_script w k = Inr c" using assms(3) by (auto simp: bitcoin_legacy)
      then have "b \<noteq> c" using kinds [OF h] b(2) by auto
      then show ?thesis using Inl h by auto
    next
      case (Inr y)
      then obtain h' v' p' where h': "ad_segwit_decode env t = Inr (h', v', p')" by (cases y) auto
      then have c: "ascii_lower h' = BITCOIN_MAINNET_HRP" "c = segwit_script v' p'" using assms(3) by (auto simp: bitcoin_segwit)
      have "b = c \<longleftrightarrow> v = v' \<and> p = p'" using segwit_script_inject bounds [OF h] bounds [OF h'] b(2) c(2) by simp
      also have "\<dots> \<longleftrightarrow> ascii_lower s = ascii_lower t" using law_segwit [OF laws h h'] b(1) c(1) by simp
      finally show ?thesis using h h' by auto
    qed
  qed
qed

lemma comparable_petal: "strip_prefix PETAL_DESTINATION_PREFIX d = Some n \<Longrightarrow> comparable env chain d = Decoded (TargetPetalClass n)"
  by (simp add: comparable_def parse_destination_def)

lemma comparable_family:
  assumes "strip_prefix PETAL_DESTINATION_PREFIX d = None"
  shows "comparable env chain d = (case address_family chain of
      None \<Rightarrow> Literal d
    | Some FamilyEvm \<Rightarrow> (case evm_address env d of Inr b \<Rightarrow> Decoded (TargetAddress (AddressEvm b)) | Inl _ \<Rightarrow> Literal d)
    | Some FamilySolana \<Rightarrow> (case solana_address env d of Inr b \<Rightarrow> Decoded (TargetAddress (AddressSolana b)) | Inl _ \<Rightarrow> Literal d)
    | Some FamilyCosmos \<Rightarrow> (case cosmos_address env d of Inr (h, p) \<Rightarrow> Decoded (TargetAddress (AddressCosmos h p)) | Inl _ \<Rightarrow> Literal d)
    | Some FamilyBitcoin \<Rightarrow> (case bitcoin_script_pubkey env d of Inr b \<Rightarrow> Decoded (TargetAddress (AddressBitcoin b)) | Inl _ \<Rightarrow> Literal d))"
  using assms by (auto simp: comparable_def parse_destination_def map_ok_def and_then_def split: option.splits AddressFamily.splits sum.splits)

lemma comparable_eq:
  assumes laws: "address_laws env"
  shows "comparable env chain d = comparable env chain e \<longleftrightarrow> same_destination env chain d e"
proof (cases "strip_prefix PETAL_DESTINATION_PREFIX d")
  case (Some n)
  then have d: "d = PETAL_DESTINATION_PREFIX @ n" "\<not> caseless env chain d" by (simp_all add: strip_prefix_Some caseless_def)
  have "comparable env chain e = Decoded (TargetPetalClass n) \<longleftrightarrow> e = d"
  proof (cases "strip_prefix PETAL_DESTINATION_PREFIX e")
    case None
    then have "e \<noteq> d" using Some by auto
    moreover have "comparable env chain e \<noteq> Decoded (TargetPetalClass n)"
      by (auto simp: comparable_family [OF None] split: option.splits AddressFamily.splits sum.splits)
    ultimately show ?thesis by simp
  next
    case (Some m)
    then show ?thesis using d(1) by (auto simp: comparable_petal strip_prefix_Some)
  qed
  then show ?thesis using d(2) by (auto simp: comparable_petal [OF Some] same_destination_def)
next
  case None
  note nd = this
  show ?thesis
  proof (cases "strip_prefix PETAL_DESTINATION_PREFIX e")
    case (Some m)
    then have "e \<noteq> d" using nd by auto
    moreover have "comparable env chain d \<noteq> Decoded (TargetPetalClass m)"
      by (auto simp: comparable_family [OF nd] split: option.splits AddressFamily.splits sum.splits)
    ultimately show ?thesis using Some by (auto simp: comparable_petal same_destination_def caseless_def)
  next
    case None
    consider "address_family chain = None" | "address_family chain = Some FamilyEvm" | "address_family chain = Some FamilySolana"
      | "address_family chain = Some FamilyCosmos" | "address_family chain = Some FamilyBitcoin"
      by (metis AddressFamily.exhaust not_Some_eq)
    then show ?thesis
    proof cases
      case 1
      then show ?thesis by (simp add: comparable_family nd None same_destination_def caseless_def)
    next
      case 2
      then show ?thesis using evm_same [OF laws, of d _ e]
        by (cases "evm_address env d"; cases "evm_address env e") (auto simp: comparable_family nd None same_destination_def caseless_def)
    next
      case 3
      then show ?thesis using solana_same [OF laws, of d _ e]
        by (cases "solana_address env d"; cases "solana_address env e") (auto simp: comparable_family nd None same_destination_def caseless_def)
    next
      case 4
      then show ?thesis using cosmos_same [OF laws, of d _ _ e]
        by (cases "cosmos_address env d"; cases "cosmos_address env e") (auto simp: comparable_family nd None same_destination_def caseless_def)
    next
      case 5
      then show ?thesis using bitcoin_same [OF laws, of d _ e]
        by (cases "bitcoin_script_pubkey env d"; cases "bitcoin_script_pubkey env e") (auto simp: comparable_family nd None same_destination_def caseless_def)
    qed
  qed
qed

section \<open>Which claims pass a policy\<close>

definition allowed_by :: "address_env \<Rightarrow> CanonicalWalletPolicy \<Rightarrow> DeclaredDestination \<Rightarrow> bool" where
  "allowed_by env policy d \<longleftrightarrow> (\<exists>e \<in> set (wp_allowed_destinations policy).
     pd_chain e = de_chain d \<and> same_destination env (de_chain d) (pd_destination e) (de_destination d))"

lemma outside_iff:
  assumes "address_laws env"
  shows "(de_chain d, comparable env (de_chain d) (de_destination d))
      \<in> set (map (\<lambda>entry. (pd_chain entry, comparable env (pd_chain entry) (pd_destination entry))) (wp_allowed_destinations policy))
    \<longleftrightarrow> allowed_by env policy d"
  using comparable_eq [OF assms] by (force simp: allowed_by_def)

lemma outside_None:
  assumes "address_laws env"
  shows "destination_outside_policy env policy declared = None \<longleftrightarrow> (\<forall>d \<in> set declared. allowed_by env policy d)"
  unfolding destination_outside_policy_def Let_def find_None_iff outside_iff [OF assms] by blast

text \<open>C34. A claim passes the destinations of a wallet policy exactly when each of its destinations is allowed, and otherwise the
first one that is not is reported. An entry allows a destination of its own chain that is spelled the same, or that
differs only in the case of letters where the chain reads its addresses without regard to case: EVM, Cosmos and segwit
addresses, and neither Solana addresses, base58 addresses nor the classes of a Petal.\<close>

theorem destinations_are_allowed_by_account:
  assumes "address_laws env"
  shows "case destination_outside_policy env policy declared of
      None \<Rightarrow> \<forall>d \<in> set declared. allowed_by env policy d
    | Some d \<Rightarrow> (\<exists>pre post. declared = pre @ d # post \<and> (\<forall>x \<in> set pre. allowed_by env policy x)) \<and> \<not> allowed_by env policy d"
proof (cases "destination_outside_policy env policy declared")
  case None
  then have "\<forall>d \<in> set declared. allowed_by env policy d" using outside_None [OF assms] by blast
  then show ?thesis unfolding None by simp
next
  case (Some d)
  then obtain i where i: "i < length declared" "\<not> allowed_by env policy (declared ! i)" "d = declared ! i"
      "\<forall>j < i. allowed_by env policy (declared ! j)"
    unfolding destination_outside_policy_def Let_def find_Some_iff outside_iff [OF assms] by blast
  then have "declared = take i declared @ d # drop (Suc i) declared" by (simp add: id_take_nth_drop)
  moreover have "\<forall>x \<in> set (take i declared). allowed_by env policy x" using i(4) by (auto simp: in_set_conv_nth)
  ultimately show ?thesis using Some i(2,3) by auto
qed

definition sample_address :: address_env where
  "sample_address = \<lparr>ad_hex_decode = \<lambda>s. Inr (str_bytes (ascii_lower s)), ad_base58_decode = \<lambda>s. Inr (str_bytes s),
     ad_base58check_decode = \<lambda>s. Inr (str_bytes s), ad_bech32_decode = \<lambda>_. Inl ''unsupported'',
     ad_bech32_encode = \<lambda>_ _. Inl ''unsupported'', ad_segwit_decode = \<lambda>_. Inl ''unsupported''\<rparr>"

lemma sample_address_laws: "address_laws sample_address"
  by (auto simp: address_laws_def sample_address_def)

definition sample_policy :: CanonicalWalletPolicy where
  "sample_policy = \<lparr>wp_wallet_id = ''wallet'', wp_maximum_approval_lifetime_ms = 1000, wp_allowed_petal_packages = [''package''],
     wp_allowed_destinations = [\<lparr>pd_chain = ''base'', pd_destination = ''0x'' @ replicate 20 CHR ''A''\<rparr>],
     wp_required_verifiers = [], wp_clear_signing = None\<rparr>"

theorem destinations_are_allowed_by_account_witness:
  "destination_outside_policy sample_address sample_policy
      [\<lparr>de_chain = ''base'', de_destination = ''0x'' @ replicate 20 CHR ''a''\<rparr>, \<lparr>de_chain = ''solana'', de_destination = ''0x''\<rparr>]
    = Some \<lparr>de_chain = ''solana'', de_destination = ''0x''\<rparr>"
proof -
  let ?a = "\<lparr>de_chain = ''base'', de_destination = ''0x'' @ replicate 20 CHR ''a''\<rparr>"
  let ?s = "\<lparr>de_chain = ''solana'', de_destination = ''0x''\<rparr>"
  have low: "ascii_lower (replicate 20 CHR ''A'') = ascii_lower (replicate 20 CHR ''a'')" by code_simp
  have "caseless sample_address ''base'' (''0x'' @ replicate 20 c)" for c
    by (simp add: caseless_def address_family_def COSMOS_CHAINS_def EVM_CHAINS_def strip_prefix_def PETAL_DESTINATION_PREFIX_def
        evm_address_def sample_address_def str_bytes_def)
  then have a: "allowed_by sample_address sample_policy ?a"
    using low by (simp add: allowed_by_def sample_policy_def same_destination_def del: append.simps)
  have s: "\<not> allowed_by sample_address sample_policy ?s" by (simp add: allowed_by_def sample_policy_def)
  show ?thesis
    using destinations_are_allowed_by_account [OF sample_address_laws, where policy = sample_policy and declared = "[?a, ?s]"] a s
    by (auto split: option.splits simp: Cons_eq_append_conv)
qed

end
