(* ===== verification/CustodyTypes.thy ===== *)
theory CustodyTypes
  imports AuthorityTypes
begin

text \<open>
  Custody of keys on the wire: the public accounts of a wallet (\<open>bloom-broker-api/src/wallet_account.rs\<close>), the requests, terms and
  receipts of custody ceremonies (\<open>ceremony.rs\<close>) and the digests of key scopes (\<open>petal_key.rs\<close>). The theorem of the theory says that
  the digest of an account request stands for the terms that the owner reviewed.
\<close>

section \<open>Accounts of a wallet (wallet_account.rs)\<close>

datatype WalletSeedProfile = Bip39MulticurveV1 | ImportedSecp256k1Scalar

record DerivedAccountRequest =
  dr_derivation_profile :: DerivationProfile
  dr_requested_role :: Token
  dr_account :: "u32 option"

fun path_template :: "DerivationProfile \<Rightarrow> string" where
  "path_template Bip44EvmSecp256k1V1 = ''m/44'' @ [CHR 0x27] @ ''/60'' @ [CHR 0x27] @ ''/<account>'' @ [CHR 0x27] @ ''/0/<index>''"
| "path_template Bip44SolanaSlip10Ed25519V1 = ''m/44'' @ [CHR 0x27] @ ''/501'' @ [CHR 0x27] @ ''/<account>'' @ [CHR 0x27] @ ''/0'' @ [CHR 0x27]"

fun frozen_crypto_suites :: "DerivationProfile \<Rightarrow> CryptoSuite list" where
  "frozen_crypto_suites Bip44EvmSecp256k1V1 = [Secp256k1Keccak256Recoverable, Secp256k1Sha256Recoverable]"
| "frozen_crypto_suites Bip44SolanaSlip10Ed25519V1 = [Ed25519Message]"

datatype PublicKeyEncoding = Secp256k1SpkiDer | Ed25519SpkiDer

fun encoding_key_spec :: "PublicKeyEncoding \<Rightarrow> KeySpec" where
  "encoding_key_spec Secp256k1SpkiDer = Secp256k1"
| "encoding_key_spec Ed25519SpkiDer = Ed25519"

datatype AddressEncoding = Hex0x | Base58

datatype AccountLifecycleState = AccountActive | AccountRetired

definition CAIP2_MAX_BYTES :: nat where
  "CAIP2_MAX_BYTES = 64"

definition CAIP10_MAX_BYTES :: nat where
  "CAIP10_MAX_BYTES = 128"

definition ADDRESS_MAX_BYTES :: nat where
  "ADDRESS_MAX_BYTES = 128"

definition CHAIN_PROJECTION_MAX_COUNT :: nat where
  "CHAIN_PROJECTION_MAX_COUNT = 16"

definition ACCOUNT_MAX_COUNT :: nat where
  "ACCOUNT_MAX_COUNT = 256"

record ChainAccountProjection =
  cj_chain_family :: Token
  cj_caip2 :: string
  cj_caip10 :: string
  cj_address :: string
  cj_address_encoding :: AddressEncoding

definition account_invalid :: "string \<Rightarrow> ProtocolError" where
  "account_invalid message = error_new KeyrefMismatch message"

text \<open>\<open>split_once\<close>: the texts before and after the first occurrence.\<close>

fun split_once :: "char \<Rightarrow> string \<Rightarrow> (string \<times> string) option" where
  "split_once d [] = None"
| "split_once d (c # cs) = (if c = d then Some ([], cs) else map_option (\<lambda>(a, b). (c # a, b)) (split_once d cs))"

definition is_lowercase :: "char \<Rightarrow> bool" where
  "is_lowercase c \<longleftrightarrow> 97 \<le> (of_char c :: nat) \<and> (of_char c :: nat) \<le> 122"

definition validate_caip2 :: "string \<Rightarrow> ProtocolError + unit" where
  "validate_caip2 s =
     and_then (validate_display_identity ''caip2'' s CAIP2_MAX_BYTES) (\<lambda>_.
     and_then (ok_or (split_once CHR '':'' s) (account_invalid ''caip2 must be namespace:reference'')) (\<lambda>(namespace, reference).
     if namespace = [] \<or> reference = [] \<or> \<not> list_all (\<lambda>c. is_lowercase c \<or> is_digit c) namespace
     then Inl (account_invalid ''caip2 namespace must be lowercase ascii'')
     else Inr ()))"

definition validate_projection :: "ChainAccountProjection \<Rightarrow> ProtocolError + unit" where
  "validate_projection p =
     and_then (validate_caip2 (cj_caip2 p)) (\<lambda>_.
     and_then (validate_display_identity ''caip10'' (cj_caip10 p) CAIP10_MAX_BYTES) (\<lambda>_.
     validate_display_identity ''address'' (cj_address p) ADDRESS_MAX_BYTES))"

record DerivedAccountPublic =
  da_key_ref :: KeyRef
  da_wallet_seed_profile :: WalletSeedProfile
  da_derivation_profile :: DerivationProfile
  da_path :: string
  da_canonical_public_key :: Base64UrlBytes
  da_public_key_encoding :: PublicKeyEncoding
  da_public_key_fingerprint :: Digest32
  da_supported_crypto_suites :: "CryptoSuite list"
  da_chain_projections :: "ChainAccountProjection list"
  da_lifecycle :: AccountLifecycleState

fun check_projections :: "(Token \<times> string) set \<Rightarrow> ChainAccountProjection list \<Rightarrow> ProtocolError + unit" where
  "check_projections seen [] = Inr ()"
| "check_projections seen (p # ps) =
     and_then (validate_projection p) (\<lambda>_.
     if (cj_chain_family p, cj_caip2 p) \<in> seen
     then Inl (account_invalid ''chain projections must be unique per chain'')
     else check_projections (insert (cj_chain_family p, cj_caip2 p) seen) ps)"

definition validate_account :: "(Base64UrlBytes \<Rightarrow> bytes) \<Rightarrow> DerivedAccountPublic \<Rightarrow> ProtocolError + unit" where
  "validate_account decode a =
     and_then (validate_key_ref (da_key_ref a)) (\<lambda>_.
     if kr_key_spec (da_key_ref a) \<noteq> profile_key_spec (da_derivation_profile a)
     then Inl (account_invalid ''derivation profile curve does not match the KeyRef'')
     else if encoding_key_spec (da_public_key_encoding a) \<noteq> kr_key_spec (da_key_ref a)
     then Inl (account_invalid ''public-key encoding does not match the KeyRef'')
     else if decode (da_canonical_public_key a) = []
     then Inl (account_invalid ''canonical public key must not be empty'')
     else if da_supported_crypto_suites a = [] \<or> 3 < length (da_supported_crypto_suites a) \<or> \<not> all_unique (da_supported_crypto_suites a)
       \<or> list_ex (\<lambda>suite. suite_key_spec suite \<noteq> kr_key_spec (da_key_ref a)) (da_supported_crypto_suites a)
     then Inl (account_invalid ''supported crypto suites must be unique and match the KeyRef'')
     else if CHAIN_PROJECTION_MAX_COUNT < length (da_chain_projections a)
     then Inl (account_invalid ''too many chain projections'')
     else check_projections {} (da_chain_projections a))"

record WalletAccountsPublic =
  wa_wallet_id :: Token
  wa_seed_profile :: WalletSeedProfile
  wa_accounts :: "DerivedAccountPublic list"

fun check_accounts :: "(Base64UrlBytes \<Rightarrow> bytes) \<Rightarrow> WalletSeedProfile \<Rightarrow> string set \<Rightarrow> DerivedAccountPublic list \<Rightarrow> ProtocolError + unit" where
  "check_accounts decode profile locators [] = Inr ()"
| "check_accounts decode profile locators (a # rest) =
     and_then (validate_account decode a) (\<lambda>_.
     if da_wallet_seed_profile a \<noteq> profile
     then Inl (account_invalid ''account seed profile does not match the wallet'')
     else if kr_locator (da_key_ref a) \<in> locators
     then Inl (account_invalid ''account KeyRef locators must be unique'')
     else check_accounts decode profile (insert (kr_locator (da_key_ref a)) locators) rest)"

definition validate_accounts :: "(Base64UrlBytes \<Rightarrow> bytes) \<Rightarrow> WalletAccountsPublic \<Rightarrow> ProtocolError + unit" where
  "validate_accounts decode w =
     (if ACCOUNT_MAX_COUNT < length (wa_accounts w) then Inl (account_invalid ''too many accounts'')
      else check_accounts decode (wa_seed_profile w) {} (wa_accounts w))"

section \<open>Ceremonies (ceremony.rs)\<close>

datatype CeremonyKind =
    CK_SealedApproval | CK_WalletRegistration | CK_WalletImport | CK_WalletExport | CK_WalletDelete | CK_WalletRecovery
  | CK_CredentialAdd | CK_CredentialReplace | CK_CredentialRemove | CK_BackendEnrollment | CK_KeyDerive | CK_AccountAllocate
  | CK_AccountRetire | CK_PolicyUpdate

datatype CeremonyState =
    CS_Prepared | CS_AwaitingUser | CS_Verifying | CS_WalletCommitted | CS_AwaitingRecoveryAck | CS_Completed
  | CS_ApprovingRootChange | CS_CreatingCredential | CS_Committing | CS_Succeeded | CS_Cancelled | CS_Expired | CS_Failed
  | CS_AlreadyRegistered

definition successful_terminal_state :: "CeremonyKind \<Rightarrow> CeremonyState option" where
  "successful_terminal_state kind = (case kind of
     CK_SealedApproval \<Rightarrow> None
   | CK_WalletRegistration \<Rightarrow> Some CS_Completed
   | _ \<Rightarrow> Some CS_Succeeded)"

record EncryptedBrowserResult =
  eb_kem_output :: Base64UrlBytes
  eb_ciphertext :: Base64UrlBytes

definition ENCRYPTED_BROWSER_RESULT_MAX_BYTES :: nat where
  "ENCRYPTED_BROWSER_RESULT_MAX_BYTES = 4 * 1024"

definition validate_browser_result :: "(Base64UrlBytes \<Rightarrow> bytes) \<Rightarrow> EncryptedBrowserResult \<Rightarrow> ProtocolError + unit" where
  "validate_browser_result decode r =
     (let len = length (decode (eb_kem_output r)) + length (decode (eb_ciphertext r)) in
      if USIZE_LIMIT \<le> len then Inl (error_new LimitExceededFrame ''HPKE envelope length overflow'')
      else if ENCRYPTED_BROWSER_RESULT_MAX_BYTES < len
      then Inl (error_new LimitExceededFrame ''decoded HPKE envelope exceeds 4 KiB'')
      else Inr ())"

record CeremonySurfaceRef =
  sf_surface_id :: Token
  sf_identity_digest :: Digest32

text \<open>A label of a DNS name; \<open>RpId\<close> is the text it wraps.\<close>

definition is_alphanumeric :: "char \<Rightarrow> bool" where
  "is_alphanumeric c \<longleftrightarrow> is_lowercase c \<or> is_digit c \<or> (65 \<le> (of_char c :: nat) \<and> (of_char c :: nat) \<le> 90)"

definition bad_label :: "string \<Rightarrow> bool" where
  "bad_label label \<longleftrightarrow> label = [] \<or> 63 < length label \<or> \<not> list_all (\<lambda>c. is_lowercase c \<or> is_digit c \<or> c = CHR ''-'') label
     \<or> \<not> is_alphanumeric (hd label) \<or> \<not> is_alphanumeric (last label)"

definition rp_id_new :: "string \<Rightarrow> ProtocolError + string" where
  "rp_id_new s =
     (if s = [] \<or> 253 < length s \<or> list_ex bad_label (split_on CHR ''.'' s)
      then Inl (error_new MalformedFrame ''WebAuthn RP ID must be a lowercase DNS name'')
      else Inr s)"

record CredentialSummary =
  cs_credential_id :: Base64UrlBytes
  cs_surface :: "CeremonySurfaceRef option"
  cs_rp_id :: string
  cs_active :: bool

text \<open>The fields of a receipt that are signed, and the signature.\<close>

record UnsignedCustodyResult =
  cr_surface :: "CeremonySurfaceRef option"
  cr_credential_authority_generation :: "u64 option"
  cr_ceremony_kind :: CeremonyKind
  cr_custody_operation_id :: OperationId
  cr_public_status :: CeremonyState
  cr_wallet_id :: "Token option"
  cr_public_key_refs :: "KeyRef list"
  cr_credential_summaries :: "CredentialSummary list"
  cr_initial_policy :: "SignedPolicySnapshot option"
  cr_receipt_digest :: Digest32
  cr_encrypted_browser_result :: "EncryptedBrowserResult option"
  cr_signer_key_id :: Token

record CustodyResult = UnsignedCustodyResult +
  cr_signer_signature :: Base64UrlBytes

record LegacyPasskeyMigrationPublic =
  lm_schema :: Token
  lm_wallet_name :: Token
  lm_address :: string
  lm_public_key_fingerprint :: Digest32
  lm_credential_id_fingerprint :: Digest32
  lm_legacy_format_version :: u8
  lm_bundle_digest :: Digest32
  lm_policy_mode :: Token

record AccountTerms =
  tt_schema :: Token
  tt_wallet_id :: Token
  tt_seed_profile :: WalletSeedProfile
  tt_derivations :: "DerivedAccountRequest list"
  tt_retire_key_fingerprint :: "Digest32 option"
  tt_path_template :: string
  tt_key_spec :: KeySpec
  tt_allowed_crypto_suites :: "CryptoSuite list"
  tt_policy_version :: u64
  tt_revocation_epoch :: u64
  tt_replay_id :: OperationId
  tt_expires_at_ms :: u64
  tt_audit_purpose :: Token

record CustodyPrepareRequest =
  cq_ceremony_kind :: CeremonyKind
  cq_surface_selection :: CeremonySurfaceSelection
  cq_custody_operation_id :: OperationId
  cq_wallet_id :: "Token option"
  cq_key_ref :: "KeyRef option"
  cq_exact_terms_digest :: Digest32
  cq_expected_input_class :: Token
  cq_browser_output_recipient_key :: "Base64UrlBytes option"
  cq_petal_key_scope :: "PetalKeyScope option"
  cq_legacy_passkey_migration :: "LegacyPasskeyMigrationPublic option"
  cq_wallet_seed_profile :: "WalletSeedProfile option"
  cq_derivation_requests :: "DerivedAccountRequest list"
  cq_account_terms :: "AccountTerms option"

text \<open>The fields that \<open>PetalKeyScope::canonical_bytes\<close> and \<open>LegacyPasskeyMigrationPublic::terms_digest\<close> print.\<close>

record StableScope =
  ss_wallet_id :: Token
  ss_parent_key_ref :: KeyRef
  ss_lineage_id :: string
  ss_key_slot :: Token
  ss_allowed_routes :: "string list"
  ss_allowed_operation_classes :: "Token list"
  ss_allowed_crypto_suites :: "CryptoSuite list"
  ss_maximum_lifetime_ms :: u64
  ss_custody_operation_id :: OperationId

definition stable_scope :: "PetalKeyScope \<Rightarrow> StableScope" where
  "stable_scope s = \<lparr>ss_wallet_id = ps_wallet_id s, ss_parent_key_ref = ps_parent_key_ref s, ss_lineage_id = ps_lineage_id s,
     ss_key_slot = ps_key_slot s, ss_allowed_routes = ps_allowed_routes s, ss_allowed_operation_classes = ps_allowed_operation_classes s,
     ss_allowed_crypto_suites = ps_allowed_crypto_suites s, ss_maximum_lifetime_ms = ps_maximum_lifetime_ms s,
     ss_custody_operation_id = ps_custody_operation_id s\<rparr>"

text \<open>The canonical JSON of these values (package \<open>serde_jcs\<close>) as bytes, with the text of its error.\<close>

record custody_env =
  cu_crypto :: crypto_env
  cu_jcs_account_terms :: "AccountTerms \<Rightarrow> string + bytes"
  cu_jcs_scope :: "PetalKeyScope \<Rightarrow> string + bytes"
  cu_jcs_stable_scope :: "StableScope \<Rightarrow> string + bytes"
  cu_jcs_migration :: "OperationId \<Rightarrow> LegacyPasskeyMigrationPublic \<Rightarrow> string + bytes"

definition hash_digest :: "crypto_env \<Rightarrow> bytes \<Rightarrow> Digest32" where
  "hash_digest env bytes = ce_digest32_from_bytes env (ce_sha256 env bytes)"

definition canonical_error :: "string \<Rightarrow> ProtocolError" where
  "canonical_error e = error_new MalformedFrame e"

definition migration_terms_digest :: "custody_env \<Rightarrow> LegacyPasskeyMigrationPublic \<Rightarrow> OperationId \<Rightarrow> ProtocolError + Digest32" where
  "migration_terms_digest env m operation_id =
     and_then (map_err canonical_error (cu_jcs_migration env operation_id m)) (\<lambda>bytes. Inr (hash_digest (cu_crypto env) bytes))"

definition PETAL_KEY_SCOPE_DOMAIN :: bytes where
  "PETAL_KEY_SCOPE_DOMAIN = str_bytes ''bloom-petal-key-scope/v2''"

definition PETAL_KEY_REQUEST_DOMAIN :: bytes where
  "PETAL_KEY_REQUEST_DOMAIN = str_bytes ''bloom-petal-key-request/v2''"

definition scope_canonical_bytes :: "custody_env \<Rightarrow> PetalKeyScope \<Rightarrow> ProtocolError + bytes" where
  "scope_canonical_bytes env s =
     and_then (validate_key_scope s) (\<lambda>_.
     map_err (\<lambda>e. error_new MalformedFrame (''Petal key scope JCS encoding failed: '' @ e)) (cu_jcs_stable_scope env (stable_scope s)))"

definition scope_digest :: "custody_env \<Rightarrow> PetalKeyScope \<Rightarrow> ProtocolError + Digest32" where
  "scope_digest env s =
     and_then (scope_canonical_bytes env s) (\<lambda>bytes. Inr (hash_digest (cu_crypto env) (PETAL_KEY_SCOPE_DOMAIN @ bytes)))"

definition scope_request_digest :: "custody_env \<Rightarrow> PetalKeyScope \<Rightarrow> ProtocolError + Digest32" where
  "scope_request_digest env s =
     and_then (validate_key_scope s) (\<lambda>_.
     and_then (map_err (error_new MalformedFrame) (cu_jcs_scope env s)) (\<lambda>bytes.
     Inr (hash_digest (cu_crypto env) (PETAL_KEY_REQUEST_DOMAIN @ bytes))))"

section \<open>Account terms\<close>

definition ACCOUNT_TERMS_SCHEMA :: string where
  "ACCOUNT_TERMS_SCHEMA = ''bloom.account_terms.v1''"

definition ACCOUNT_TERMS_REQUEST_DOMAIN :: bytes where
  "ACCOUNT_TERMS_REQUEST_DOMAIN = str_bytes ''bloom-account-terms-request/v1''"

fun check_requests :: "DerivationProfile set \<Rightarrow> DerivedAccountRequest list \<Rightarrow> ProtocolError + unit" where
  "check_requests profiles [] = Inr ()"
| "check_requests profiles (r # rs) =
     (if dr_derivation_profile r \<in> profiles
      then Inl (error_new MalformedFrame ''multi-family allocation repeats a derivation profile'')
      else if dr_account r \<noteq> None
      then Inl (error_new MalformedFrame ''multi-family allocation never pins an account; Signer chooses the number'')
      else check_requests (insert (dr_derivation_profile r) profiles) rs)"

definition validate_derivation_requests :: "DerivedAccountRequest list \<Rightarrow> ProtocolError + unit" where
  "validate_derivation_requests requests =
     (if requests = [] \<or> 2 < length requests
      then Inl (error_new MalformedFrame ''account allocation requires one or two derivation requests'')
      else check_requests {} requests)"

definition is_evm_request :: "DerivedAccountRequest \<Rightarrow> bool" where
  "is_evm_request r \<longleftrightarrow> dr_derivation_profile r = Bip44EvmSecp256k1V1"

definition anchor_request :: "DerivedAccountRequest list \<Rightarrow> DerivedAccountRequest" where
  "anchor_request requests = (case find is_evm_request requests of Some r \<Rightarrow> r | None \<Rightarrow> requests ! 0)"

definition frozen_shape :: "DerivationProfile \<Rightarrow> AccountTerms \<Rightarrow> bool" where
  "frozen_shape profile terms \<longleftrightarrow> tt_path_template terms = path_template profile \<and> tt_key_spec terms = profile_key_spec profile
     \<and> tt_allowed_crypto_suites terms = frozen_crypto_suites profile"

definition validate_account_terms :: "AccountTerms \<Rightarrow> ProtocolError + unit" where
  "validate_account_terms terms =
     (if tt_schema terms \<noteq> ACCOUNT_TERMS_SCHEMA
      then Inl (error_new MalformedFrame ''account terms schema is unrecognized'')
      else if tt_seed_profile terms \<noteq> Bip39MulticurveV1
      then Inl (error_new BackendUnsupported ''account terms require the bip39-multicurve-v1 seed profile'')
      else if (tt_derivations terms = []) = (tt_retire_key_fingerprint terms = None)
      then Inl (error_new MalformedFrame ''account terms carry either derivations or a retirement fingerprint'')
      else and_then
        (if tt_derivations terms \<noteq> []
         then and_then (validate_derivation_requests (tt_derivations terms)) (\<lambda>_.
           if \<not> frozen_shape (dr_derivation_profile (anchor_request (tt_derivations terms))) terms
           then Inl (error_new OperationIdConflict ''account terms do not match the derivation profile's frozen shape'')
           else Inr ())
         else Inr ()) (\<lambda>_.
      if tt_allowed_crypto_suites terms = []
      then Inl (error_new MalformedFrame ''account terms must allow at least one crypto suite'')
      else if tt_policy_version terms = 0
      then Inl (error_new MalformedFrame ''account terms policy version must be nonzero'')
      else if tt_expires_at_ms terms = 0
      then Inl (error_new MalformedFrame ''account terms expiry must be nonzero'')
      else Inr ()))"

definition account_request_digest :: "custody_env \<Rightarrow> AccountTerms \<Rightarrow> ProtocolError + Digest32" where
  "account_request_digest env terms =
     and_then (map_err canonical_error (cu_jcs_account_terms env terms)) (\<lambda>bytes.
     Inr (hash_digest (cu_crypto env) (ACCOUNT_TERMS_REQUEST_DOMAIN @ bytes)))"

section \<open>Custody requests\<close>

definition is_creation :: "CeremonyKind \<Rightarrow> bool" where
  "is_creation kind \<longleftrightarrow> kind = CK_WalletRegistration \<or> kind = CK_WalletImport"

definition validate_wallet_creation_binding :: "CustodyPrepareRequest \<Rightarrow> ProtocolError + unit" where
  "validate_wallet_creation_binding r =
     (if \<not> is_creation (cq_ceremony_kind r)
      then if cq_wallet_seed_profile r \<noteq> None
        then Inl (error_new CeremonyKindMismatch ''wallet_seed_profile is valid only for registration and import'')
        else if cq_derivation_requests r \<noteq> []
        then Inl (error_new CeremonyKindMismatch ''derivation_requests are valid only for AccountAllocate'')
        else Inr ()
      else if cq_key_ref r \<noteq> None
      then Inl (error_new KeyrefMismatch ''wallet creation derives its root KeyRef inside Signer'')
      else
        let legacy_import = cq_ceremony_kind r = CK_WalletImport \<and> cq_legacy_passkey_migration r \<noteq> None in
        if cq_wallet_id r = None \<and> \<not> legacy_import
        then Inl (error_new MalformedFrame ''wallet registration and ordinary import require an authoritative wallet ID'')
        else if cq_wallet_id r \<noteq> None \<and> legacy_import
        then Inl (error_new OperationIdConflict ''legacy migration wallet ID must come from its authenticated receipt'')
        else Inr ())"

text \<open>The digest of the migration is computed only when all other tests pass.\<close>

definition migration_mismatch :: ProtocolError where
  "migration_mismatch = error_new OperationIdConflict ''legacy passkey migration terms do not match the custody request''"

definition validate_legacy_passkey_migration_binding :: "custody_env \<Rightarrow> CustodyPrepareRequest \<Rightarrow> ProtocolError + unit" where
  "validate_legacy_passkey_migration_binding env r = (case cq_legacy_passkey_migration r of
     None \<Rightarrow>
       if cq_expected_input_class r = ''legacy_passkey_v1_prf''
       then Inl (error_new MalformedFrame ''legacy passkey input class requires public migration terms'')
       else Inr ()
   | Some migration \<Rightarrow>
       if cq_ceremony_kind r \<noteq> CK_WalletImport \<or> cq_expected_input_class r \<noteq> ''legacy_passkey_v1_prf'' \<or> cq_wallet_id r \<noteq> None
         \<or> cq_key_ref r \<noteq> None \<or> cq_petal_key_scope r \<noteq> None \<or> lm_schema migration \<noteq> ''bloom.legacy_passkey_migration_receipt.v1''
         \<or> lm_policy_mode migration \<noteq> ''restrictive_current_policy'' \<or> lm_legacy_format_version migration \<noteq> 1
       then Inl migration_mismatch
       else and_then (migration_terms_digest env migration (cq_custody_operation_id r)) (\<lambda>digest.
         if cq_exact_terms_digest r \<noteq> digest then Inl migration_mismatch else Inr ()))"

definition validate_petal_key_scope_binding :: "custody_env \<Rightarrow> CustodyPrepareRequest \<Rightarrow> ProtocolError + unit" where
  "validate_petal_key_scope_binding env r = (case cq_petal_key_scope r of
     None \<Rightarrow> Inr ()
   | Some scope \<Rightarrow>
       if cq_ceremony_kind r \<noteq> CK_KeyDerive
       then Inl (error_new CeremonyKindMismatch ''Petal key scope is valid only for key-derive custody'')
       else if cq_derivation_requests r \<noteq> []
       then Inl (error_new CeremonyKindMismatch ''derivation_requests are valid only for AccountAllocate'')
       else and_then (validate_key_scope scope) (\<lambda>_.
         if ps_custody_operation_id scope \<noteq> cq_custody_operation_id r
         then Inl (error_new OperationIdConflict ''Petal key scope custody operation does not match the request'')
         else if cq_wallet_id r \<noteq> Some (ps_wallet_id scope)
         then Inl (error_new KeyrefMismatch ''Petal key scope wallet does not match the custody request'')
         else if cq_key_ref r \<noteq> Some (ps_parent_key_ref scope)
         then Inl (error_new KeyrefMismatch ''Petal key scope parent KeyRef does not match the custody request'')
         else and_then (scope_request_digest env scope) (\<lambda>digest.
           if cq_exact_terms_digest r \<noteq> digest
           then Inl (error_new OperationIdConflict ''key-derive exact terms digest does not match the Petal key scope'')
           else if cq_browser_output_recipient_key r \<noteq> None
           then Inl (error_new MalformedFrame ''Petal key derivation cannot return Browser-provided key material'')
           else Inr ())))"

definition validate_account_terms_common :: "custody_env \<Rightarrow> CustodyPrepareRequest \<Rightarrow> ProtocolError + AccountTerms" where
  "validate_account_terms_common env r = (case cq_account_terms r of
     None \<Rightarrow> Inl (error_new MalformedFrame ''account custody requires structured exact terms'')
   | Some terms \<Rightarrow>
       and_then (validate_account_terms terms) (\<lambda>_.
       if Some (tt_wallet_id terms) \<noteq> cq_wallet_id r
       then Inl (error_new KeyrefMismatch ''account terms wallet does not match the custody request'')
       else if tt_replay_id terms \<noteq> cq_custody_operation_id r
       then Inl (error_new OperationIdConflict ''account terms replay identity does not match the custody operation'')
       else and_then (account_request_digest env terms) (\<lambda>digest.
         if cq_exact_terms_digest r \<noteq> digest
         then Inl (error_new OperationIdConflict ''exact terms digest does not match the structured account terms'')
         else if cq_wallet_seed_profile r \<noteq> None
         then Inl (error_new CeremonyKindMismatch ''account custody never selects a wallet seed profile'')
         else if cq_petal_key_scope r \<noteq> None \<or> cq_legacy_passkey_migration r \<noteq> None
         then Inl (error_new CeremonyKindMismatch ''account custody cannot carry petal or legacy migration terms'')
         else Inr terms)))"

definition validate_account_allocation_binding :: "custody_env \<Rightarrow> CustodyPrepareRequest \<Rightarrow> ProtocolError + unit" where
  "validate_account_allocation_binding env r =
     (if cq_ceremony_kind r \<noteq> CK_AccountAllocate
      then Inl (error_new CeremonyKindMismatch ''account allocation binding is valid only for AccountAllocate'')
      else and_then (validate_derivation_requests (cq_derivation_requests r)) (\<lambda>_.
        if cq_wallet_id r = None
        then Inl (error_new MalformedFrame ''AccountAllocate requires an authoritative wallet ID'')
        else if cq_key_ref r \<noteq> None
        then Inl (error_new KeyrefMismatch ''account allocation derives its child KeyRef inside Signer'')
        else and_then (validate_account_terms_common env r) (\<lambda>terms.
          if tt_retire_key_fingerprint terms \<noteq> None
          then Inl (error_new OperationIdConflict ''allocation terms cannot carry a retirement fingerprint'')
          else if tt_derivations terms \<noteq> cq_derivation_requests r
          then Inl (error_new OperationIdConflict ''account terms derivations do not match the custody request'')
          else Inr ())))"

definition validate_account_retire_binding :: "custody_env \<Rightarrow> CustodyPrepareRequest \<Rightarrow> ProtocolError + unit" where
  "validate_account_retire_binding env r =
     (if cq_ceremony_kind r \<noteq> CK_AccountRetire
      then Inl (error_new CeremonyKindMismatch ''account retire binding is valid only for AccountRetire'')
      else case cq_key_ref r of
        None \<Rightarrow> Inl (error_new MalformedFrame ''AccountRetire requires the derived-account KeyRef'')
      | Some key_ref \<Rightarrow>
          if cq_wallet_id r = None
          then Inl (error_new MalformedFrame ''AccountRetire requires an authoritative wallet ID'')
          else if cq_derivation_requests r \<noteq> []
          then Inl (error_new MalformedFrame ''AccountRetire cannot carry a derivation request'')
          else (case kr_derivation key_ref of
            Some (Bip39Multicurve wallet_seed_ref profile path) \<Rightarrow>
              if Some wallet_seed_ref \<noteq> cq_wallet_id r
              then Inl (error_new KeyrefMismatch ''retired child KeyRef belongs to a different wallet'')
              else and_then (validate_account_terms_common env r) (\<lambda>terms.
                if tt_derivations terms \<noteq> []
                then Inl (error_new OperationIdConflict ''retirement terms cannot carry a derivation request'')
                else if tt_retire_key_fingerprint terms \<noteq> Some (kr_public_key_fingerprint key_ref)
                then Inl (error_new OperationIdConflict ''retirement terms fingerprint does not match the custody request'')
                else if \<not> frozen_shape profile terms \<or> tt_key_spec terms \<noteq> kr_key_spec key_ref
                then Inl (error_new OperationIdConflict ''retirement terms do not match the child's derivation profile'')
                else Inr ())
          | _ \<Rightarrow> Inl (error_new KeyrefMismatch ''AccountRetire requires a derived bip39 child KeyRef'')))"

section \<open>A digest stands for the reviewed terms\<close>

lemma validate_account_terms_common_Inr:
  "validate_account_terms_common env r = Inr terms \<longleftrightarrow>
     cq_account_terms r = Some terms \<and> validate_account_terms terms = Inr () \<and> cq_wallet_id r = Some (tt_wallet_id terms)
     \<and> cq_custody_operation_id r = tt_replay_id terms \<and> account_request_digest env terms = Inr (cq_exact_terms_digest r)
     \<and> cq_wallet_seed_profile r = None \<and> cq_petal_key_scope r = None \<and> cq_legacy_passkey_migration r = None"
  by (auto simp: validate_account_terms_common_def and_then_eq_Inr split: option.splits if_splits)

lemma check_requests_Inr:
  "check_requests profiles rs = Inr () \<longleftrightarrow> distinct (map dr_derivation_profile rs) \<and> list_all (\<lambda>r. dr_account r = None) rs
     \<and> profiles \<inter> dr_derivation_profile ` set rs = {}"
  by (induction rs arbitrary: profiles) auto

lemma validate_derivation_requests_Inr:
  "validate_derivation_requests rs = Inr () \<longleftrightarrow> rs \<noteq> [] \<and> length rs \<le> 2 \<and> distinct (map dr_derivation_profile rs)
     \<and> list_all (\<lambda>r. dr_account r = None) rs"
  by (auto simp: validate_derivation_requests_def check_requests_Inr)

text \<open>A request of account custody that passed the checks of its kind.\<close>

definition account_request :: "custody_env \<Rightarrow> CustodyPrepareRequest \<Rightarrow> bool" where
  "account_request env r \<longleftrightarrow> validate_account_allocation_binding env r = Inr () \<or> validate_account_retire_binding env r = Inr ()"

text \<open>What the owner sees of such a request: the wallet, the operation, and the accounts to derive or the key to retire.\<close>

definition reviewed_account :: "CustodyPrepareRequest \<Rightarrow> CeremonyKind \<times> Token option \<times> OperationId \<times> DerivedAccountRequest list \<times> Digest32 option" where
  "reviewed_account r = (cq_ceremony_kind r, cq_wallet_id r, cq_custody_operation_id r, cq_derivation_requests r,
     map_option kr_public_key_fingerprint (cq_key_ref r))"

lemma account_request_terms:
  assumes "account_request env r"
  obtains terms where "cq_account_terms r = Some terms" and "account_request_digest env terms = Inr (cq_exact_terms_digest r)"
    and "reviewed_account r = (if tt_retire_key_fingerprint terms = None then CK_AccountAllocate else CK_AccountRetire, Some (tt_wallet_id terms),
      tt_replay_id terms, tt_derivations terms, tt_retire_key_fingerprint terms)"
  using assms unfolding account_request_def
proof
  assume "validate_account_allocation_binding env r = Inr ()"
  then obtain terms where "validate_account_terms_common env r = Inr terms" "cq_ceremony_kind r = CK_AccountAllocate" "cq_key_ref r = None"
    "tt_retire_key_fingerprint terms = None" "tt_derivations terms = cq_derivation_requests r"
    by (auto simp: validate_account_allocation_binding_def and_then_eq_Inr split: if_splits)
  then show thesis by (intro that [of terms]) (auto simp: validate_account_terms_common_Inr reviewed_account_def)
next
  assume "validate_account_retire_binding env r = Inr ()"
  then obtain terms key_ref where "validate_account_terms_common env r = Inr terms" "cq_ceremony_kind r = CK_AccountRetire" "cq_key_ref r = Some key_ref"
    "tt_retire_key_fingerprint terms = Some (kr_public_key_fingerprint key_ref)" "tt_derivations terms = []" "cq_derivation_requests r = []"
    by (auto simp: validate_account_retire_binding_def and_then_eq_Inr split: if_splits option.splits DerivationRef.splits)
  then show thesis by (intro that [of terms]) (auto simp: validate_account_terms_common_Inr reviewed_account_def)
qed

text \<open>C38. The digest that an account ceremony binds stands for what the owner reviews: two accepted requests with the same digest have the same terms,
and the same kind, wallet, operation, derived accounts and retired key; or the canonical texts of the terms of these two requests differ and are,
under the domain of account terms, a SHA-256 collision. Canonical JSON tells different terms apart, and a digest text tells different digests apart.\<close>

theorem account_digests_bind_requests:
  assumes "\<forall>t u b. cu_jcs_account_terms env t = Inr b \<longrightarrow> cu_jcs_account_terms env u = Inr b \<longrightarrow> t = u"
    and "\<forall>x y. hash_digest (cu_crypto env) x = hash_digest (cu_crypto env) y \<longrightarrow> ce_sha256 (cu_crypto env) x = ce_sha256 (cu_crypto env) y"
    and "account_request env r" and "account_request env r'" and "cq_exact_terms_digest r = cq_exact_terms_digest r'"
  shows "(cq_account_terms r = cq_account_terms r' \<and> reviewed_account r = reviewed_account r')
    \<or> (\<exists>t u a b. cq_account_terms r = Some t \<and> cq_account_terms r' = Some u \<and> cu_jcs_account_terms env t = Inr a \<and> cu_jcs_account_terms env u = Inr b
        \<and> a \<noteq> b \<and> ce_sha256 (cu_crypto env) (ACCOUNT_TERMS_REQUEST_DOMAIN @ a) = ce_sha256 (cu_crypto env) (ACCOUNT_TERMS_REQUEST_DOMAIN @ b))"
proof -
  obtain t where t: "cq_account_terms r = Some t" "account_request_digest env t = Inr (cq_exact_terms_digest r)"
    "reviewed_account r = (if tt_retire_key_fingerprint t = None then CK_AccountAllocate else CK_AccountRetire, Some (tt_wallet_id t),
      tt_replay_id t, tt_derivations t, tt_retire_key_fingerprint t)"
    by (rule account_request_terms [OF assms(3)])
  obtain u where u: "cq_account_terms r' = Some u" "account_request_digest env u = Inr (cq_exact_terms_digest r')"
    "reviewed_account r' = (if tt_retire_key_fingerprint u = None then CK_AccountAllocate else CK_AccountRetire, Some (tt_wallet_id u),
      tt_replay_id u, tt_derivations u, tt_retire_key_fingerprint u)"
    by (rule account_request_terms [OF assms(4)])
  obtain a b where a: "cu_jcs_account_terms env t = Inr a" and b: "cu_jcs_account_terms env u = Inr b"
    and d: "hash_digest (cu_crypto env) (ACCOUNT_TERMS_REQUEST_DOMAIN @ a) = hash_digest (cu_crypto env) (ACCOUNT_TERMS_REQUEST_DOMAIN @ b)"
    using t(2) u(2) assms(5) by (auto simp: account_request_digest_def and_then_eq_Inr map_err_eq_Inr)
  show ?thesis
  proof (cases "a = b")
    case True
    with assms(1) a b have "t = u" by blast
    with t u show ?thesis by simp
  qed (use assms(2) d a b t(1) u(1) in blast)
qed

definition sample_account_terms :: AccountTerms where
  "sample_account_terms = \<lparr>tt_schema = ACCOUNT_TERMS_SCHEMA, tt_wallet_id = ''wallet'', tt_seed_profile = Bip39MulticurveV1,
     tt_derivations = [\<lparr>dr_derivation_profile = Bip44SolanaSlip10Ed25519V1, dr_requested_role = ''spend'', dr_account = None\<rparr>],
     tt_retire_key_fingerprint = None, tt_path_template = path_template Bip44SolanaSlip10Ed25519V1, tt_key_spec = Ed25519,
     tt_allowed_crypto_suites = [Ed25519Message], tt_policy_version = 1, tt_revocation_epoch = 0, tt_replay_id = ''op'',
     tt_expires_at_ms = 9, tt_audit_purpose = ''allocate''\<rparr>"

definition sample_custody :: custody_env where
  "sample_custody = \<lparr>cu_crypto = sample_crypto, cu_jcs_account_terms = \<lambda>t. if t = sample_account_terms then Inr [1] else Inl ''not encoded'',
     cu_jcs_scope = \<lambda>_. Inl ''not encoded'', cu_jcs_stable_scope = \<lambda>_. Inl ''not encoded'', cu_jcs_migration = \<lambda>_ _. Inl ''not encoded''\<rparr>"

definition sample_allocation :: "Token \<Rightarrow> CustodyPrepareRequest" where
  "sample_allocation input_class = \<lparr>cq_ceremony_kind = CK_AccountAllocate, cq_surface_selection = SurfaceDefault, cq_custody_operation_id = ''op'',
     cq_wallet_id = Some ''wallet'', cq_key_ref = None,
     cq_exact_terms_digest = hash_digest sample_crypto (ACCOUNT_TERMS_REQUEST_DOMAIN @ [1]), cq_expected_input_class = input_class,
     cq_browser_output_recipient_key = None, cq_petal_key_scope = None, cq_legacy_passkey_migration = None, cq_wallet_seed_profile = None,
     cq_derivation_requests = tt_derivations sample_account_terms, cq_account_terms = Some sample_account_terms\<rparr>"

lemma sample_allocation_ok: "account_request sample_custody (sample_allocation c)"
  by (simp add: account_request_def validate_account_allocation_binding_def validate_account_terms_common_def sample_allocation_def
      validate_derivation_requests_def account_request_digest_def sample_custody_def)
     (simp add: sample_account_terms_def validate_account_terms_def validate_derivation_requests_def anchor_request_def is_evm_request_def
      frozen_shape_def)

lemma sample_custody_jcs:
  "\<forall>t u b. cu_jcs_account_terms sample_custody t = Inr b \<longrightarrow> cu_jcs_account_terms sample_custody u = Inr b \<longrightarrow> t = u"
  by (simp add: sample_custody_def)

lemma sample_digest_inject: "hash_digest sample_crypto x = hash_digest sample_crypto y \<Longrightarrow> ce_sha256 sample_crypto x = ce_sha256 sample_crypto y"
proof -
  have "inj (\<lambda>b :: u8. char_of (unat b) :: char)"
  proof (rule injI)
    fix x y :: u8
    assume "(char_of (unat x) :: char) = char_of (unat y)"
    then have "(of_char (char_of (unat x) :: char) :: nat) = of_char (char_of (unat y) :: char)" by simp
    moreover have "unat x < 256" "unat y < 256" using unsigned_less [of x] unsigned_less [of y] by simp_all
    ultimately show "x = y" by (simp add: unat_inject)
  qed
  then show "hash_digest sample_crypto x = hash_digest sample_crypto y \<Longrightarrow> ce_sha256 sample_crypto x = ce_sha256 sample_crypto y"
    unfolding hash_digest_def sample_crypto_def crypto_env.simps by (simp only: inj_map_eq_map)
qed

theorem account_digests_bind_requests_witness:
  "account_request sample_custody (sample_allocation ''none'') \<and> account_request sample_custody (sample_allocation ''prf'')
    \<and> sample_allocation ''none'' \<noteq> sample_allocation ''prf''
    \<and> reviewed_account (sample_allocation ''none'') = reviewed_account (sample_allocation ''prf'')"
proof -
  have c: "cu_crypto sample_custody = sample_crypto" by (simp add: sample_custody_def)
  have "cq_exact_terms_digest (sample_allocation ''none'') = cq_exact_terms_digest (sample_allocation ''prf'')" by (simp add: sample_allocation_def)
  moreover have "\<forall>x y. hash_digest (cu_crypto sample_custody) x = hash_digest (cu_crypto sample_custody) y \<longrightarrow>
      ce_sha256 (cu_crypto sample_custody) x = ce_sha256 (cu_crypto sample_custody) y"
    unfolding c using sample_digest_inject by blast
  moreover have terms: "cq_account_terms (sample_allocation i) = Some sample_account_terms" for i by (simp add: sample_allocation_def)
  ultimately have "reviewed_account (sample_allocation ''none'') = reviewed_account (sample_allocation ''prf'')"
    using account_digests_bind_requests [OF sample_custody_jcs _ sample_allocation_ok sample_allocation_ok]
    by (metis option.inject sum.inject(2))
  moreover have "cq_expected_input_class (sample_allocation ''none'') \<noteq> cq_expected_input_class (sample_allocation ''prf'')"
    by (simp add: sample_allocation_def)
  then have "sample_allocation ''none'' \<noteq> sample_allocation ''prf''" by metis
  ultimately show ?thesis using sample_allocation_ok by blast
qed

end
