(* ===== verification/SignerTerms.thy ===== *)
theory SignerTerms
  imports ApprovalTerms
begin

text \<open>
  The projection of approved terms into the types of the Signer (\<open>bloom-broker/src/translation/key.rs\<close> and \<open>approval.rs\<close>). The Signer's types
  (\<open>south\<close>) are those that the functions build and take apart: the constructors and fields here are the ones that the
  literals and patterns of the translation name. The theorem of the theory says that nothing is lost.
\<close>

section \<open>Types of the Signer\<close>

datatype SouthKeySpec = South_Secp256k1 | South_Ed25519

datatype SouthCryptoSuite = South_Secp256k1Keccak256Recoverable | South_Secp256k1Sha256Recoverable | South_Ed25519Message

datatype SouthDerivationProfile = South_Bip44EvmSecp256k1V1 | South_Bip44SolanaSlip10Ed25519V1

datatype SouthDerivationRef =
    South_Bip32Secp256k1 Token string
  | South_Bip39Multicurve Token SouthDerivationProfile string

record SouthKeyRef =
  sk_backend :: Token
  sk_backend_instance :: Token
  sk_locator :: string
  sk_key_spec :: SouthKeySpec
  sk_public_key_fingerprint :: Digest32
  sk_derivation :: "SouthDerivationRef option"

datatype SouthApprovalSubject =
    South_SubjectPetal Digest32 string "string option"
  | South_SubjectCli Token Token
  | South_SubjectSystem Token Token

datatype SouthClaimAssuranceLevel = South_MachineAsserted | South_ProofVerified | South_InvariantAttested

record SouthPetalRouteGrant =
  sg_route :: string
  sg_allowed_operation_classes :: "Token list"
  sg_provenance_digest :: Digest32

datatype SouthApprovalSelector =
    South_SelectorExact "Digest32 list" "Digest32 list"
  | South_SelectorPetal Digest32 string "Token list" "SouthPetalRouteGrant list" SouthClaimAssuranceLevel

datatype SouthActivationMode = South_BootBound | South_DurableLocal Token u64 | South_BackendManaged

record SouthSlidingWindow =
  sx_maximum :: u64
  sx_duration_ms :: u64

record SouthAssetId =
  sz_chain :: Token
  sz_asset :: string

record SouthValueWindow =
  sy_maximum :: DecimalU256
  sy_duration_ms :: u64

record SouthValueLimit =
  sl_asset :: SouthAssetId
  sl_lifetime :: DecimalU256
  sl_rolling_windows :: "SouthValueWindow list"

record SouthApprovalLimits =
  sm_max_operations :: u64
  sm_max_signatures :: u64
  sm_operation_rate_limits :: "SouthSlidingWindow list"
  sm_signature_rate_limits :: "SouthSlidingWindow list"
  sm_value_limits :: "SouthValueLimit list"

record SouthSealedApprovalTerms =
  so_subject :: SouthApprovalSubject
  so_wallet_id :: Token
  so_key_ref :: SouthKeyRef
  so_allowed_crypto_suites :: "SouthCryptoSuite list"
  so_selector :: SouthApprovalSelector
  so_limits :: SouthApprovalLimits
  so_activation_mode :: SouthActivationMode
  so_wallet_revocation_epoch :: u64
  so_policy_version :: u64
  so_policy_digest :: Digest32
  so_provenance_digest :: Digest32
  so_request_nonce :: string
  so_issued_at_ms :: u64
  so_not_before_ms :: u64
  so_expires_at_ms :: u64
  so_renewal_of :: "Digest32 option"

section \<open>Keys (translation/key.rs)\<close>

fun key_spec_to_signer :: "KeySpec \<Rightarrow> SouthKeySpec" where
  "key_spec_to_signer Secp256k1 = South_Secp256k1"
| "key_spec_to_signer Ed25519 = South_Ed25519"

fun key_spec_to_machine :: "SouthKeySpec \<Rightarrow> KeySpec" where
  "key_spec_to_machine South_Secp256k1 = Secp256k1"
| "key_spec_to_machine South_Ed25519 = Ed25519"

fun crypto_suite_to_signer :: "CryptoSuite \<Rightarrow> SouthCryptoSuite" where
  "crypto_suite_to_signer Secp256k1Keccak256Recoverable = South_Secp256k1Keccak256Recoverable"
| "crypto_suite_to_signer Secp256k1Sha256Recoverable = South_Secp256k1Sha256Recoverable"
| "crypto_suite_to_signer Ed25519Message = South_Ed25519Message"

fun crypto_suite_to_machine :: "SouthCryptoSuite \<Rightarrow> CryptoSuite" where
  "crypto_suite_to_machine South_Secp256k1Keccak256Recoverable = Secp256k1Keccak256Recoverable"
| "crypto_suite_to_machine South_Secp256k1Sha256Recoverable = Secp256k1Sha256Recoverable"
| "crypto_suite_to_machine South_Ed25519Message = Ed25519Message"

fun derivation_profile_to_signer :: "DerivationProfile \<Rightarrow> SouthDerivationProfile" where
  "derivation_profile_to_signer Bip44EvmSecp256k1V1 = South_Bip44EvmSecp256k1V1"
| "derivation_profile_to_signer Bip44SolanaSlip10Ed25519V1 = South_Bip44SolanaSlip10Ed25519V1"

fun derivation_profile_to_machine :: "SouthDerivationProfile \<Rightarrow> DerivationProfile" where
  "derivation_profile_to_machine South_Bip44EvmSecp256k1V1 = Bip44EvmSecp256k1V1"
| "derivation_profile_to_machine South_Bip44SolanaSlip10Ed25519V1 = Bip44SolanaSlip10Ed25519V1"

fun derivation_to_signer :: "DerivationRef \<Rightarrow> SouthDerivationRef" where
  "derivation_to_signer (Bip32Secp256k1 root_key_id path) = South_Bip32Secp256k1 root_key_id path"
| "derivation_to_signer (Bip39Multicurve wallet_seed_ref profile path) =
     South_Bip39Multicurve wallet_seed_ref (derivation_profile_to_signer profile) path"

fun derivation_to_machine :: "SouthDerivationRef \<Rightarrow> DerivationRef" where
  "derivation_to_machine (South_Bip32Secp256k1 root_key_id path) = Bip32Secp256k1 root_key_id path"
| "derivation_to_machine (South_Bip39Multicurve wallet_seed_ref profile path) =
     Bip39Multicurve wallet_seed_ref (derivation_profile_to_machine profile) path"

definition key_ref_to_signer :: "KeyRef \<Rightarrow> SouthKeyRef" where
  "key_ref_to_signer k = \<lparr>sk_backend = kr_backend k, sk_backend_instance = kr_backend_instance k, sk_locator = kr_locator k,
     sk_key_spec = key_spec_to_signer (kr_key_spec k), sk_public_key_fingerprint = kr_public_key_fingerprint k,
     sk_derivation = map_option derivation_to_signer (kr_derivation k)\<rparr>"

definition key_ref_to_machine :: "SouthKeyRef \<Rightarrow> KeyRef" where
  "key_ref_to_machine k = \<lparr>kr_backend = sk_backend k, kr_backend_instance = sk_backend_instance k, kr_locator = sk_locator k,
     kr_key_spec = key_spec_to_machine (sk_key_spec k), kr_public_key_fingerprint = sk_public_key_fingerprint k,
     kr_derivation = map_option derivation_to_machine (sk_derivation k)\<rparr>"

section \<open>Terms (translation/approval.rs)\<close>

fun subject_to_signer :: "ApprovalSubject \<Rightarrow> SouthApprovalSubject" where
  "subject_to_signer (SubjectPetal package_hash route agent_id) = South_SubjectPetal package_hash route agent_id"
| "subject_to_signer (SubjectCli client_id command_class) = South_SubjectCli client_id command_class"
| "subject_to_signer (SubjectSystem component_id operation_class) = South_SubjectSystem component_id operation_class"

fun assurance_to_signer :: "ClaimAssuranceLevel \<Rightarrow> SouthClaimAssuranceLevel" where
  "assurance_to_signer CL_MachineAsserted = South_MachineAsserted"
| "assurance_to_signer CL_ProofVerified = South_ProofVerified"
| "assurance_to_signer CL_InvariantAttested = South_InvariantAttested"

definition grant_to_signer :: "PetalRouteGrant \<Rightarrow> SouthPetalRouteGrant" where
  "grant_to_signer g = \<lparr>sg_route = rg_route g, sg_allowed_operation_classes = rg_allowed_operation_classes g,
     sg_provenance_digest = rg_provenance_digest g\<rparr>"

fun selector_to_signer :: "ApprovalSelector \<Rightarrow> SouthApprovalSelector" where
  "selector_to_signer (SelectorExact digests hashes) = South_SelectorExact digests hashes"
| "selector_to_signer (SelectorPetal package_hash route classes grants required) =
     South_SelectorPetal package_hash route classes (map grant_to_signer grants) (assurance_to_signer required)"

fun activation_to_signer :: "ActivationMode \<Rightarrow> SouthActivationMode" where
  "activation_to_signer BootBound = South_BootBound"
| "activation_to_signer (DurableLocal provider_tier maximum_rearm_until_ms) = South_DurableLocal provider_tier maximum_rearm_until_ms"
| "activation_to_signer BackendManaged = South_BackendManaged"

definition window_to_signer :: "SlidingWindow \<Rightarrow> SouthSlidingWindow" where
  "window_to_signer w = \<lparr>sx_maximum = sw_maximum w, sx_duration_ms = sw_duration_ms w\<rparr>"

definition value_window_to_signer :: "ValueWindow \<Rightarrow> SouthValueWindow" where
  "value_window_to_signer w = \<lparr>sy_maximum = vw_maximum w, sy_duration_ms = vw_duration_ms w\<rparr>"

definition value_limit_to_signer :: "ValueLimit \<Rightarrow> SouthValueLimit" where
  "value_limit_to_signer l = \<lparr>sl_asset = \<lparr>sz_chain = as_chain (vl_asset l), sz_asset = as_asset (vl_asset l)\<rparr>, sl_lifetime = vl_lifetime l,
     sl_rolling_windows = map value_window_to_signer (vl_rolling_windows l)\<rparr>"

definition limits_to_signer :: "ApprovalLimits \<Rightarrow> SouthApprovalLimits" where
  "limits_to_signer l = \<lparr>sm_max_operations = al_max_operations l, sm_max_signatures = al_max_signatures l,
     sm_operation_rate_limits = map window_to_signer (al_operation_rate_limits l),
     sm_signature_rate_limits = map window_to_signer (al_signature_rate_limits l),
     sm_value_limits = map value_limit_to_signer (al_value_limits l)\<rparr>"

definition validated_terms_to_signer :: "SealedApprovalTerms \<Rightarrow> SouthSealedApprovalTerms" where
  "validated_terms_to_signer t = \<lparr>so_subject = subject_to_signer (st_subject t), so_wallet_id = st_wallet_id t,
     so_key_ref = key_ref_to_signer (st_key_ref t), so_allowed_crypto_suites = map crypto_suite_to_signer (st_allowed_crypto_suites t),
     so_selector = selector_to_signer (st_selector t), so_limits = limits_to_signer (st_limits t),
     so_activation_mode = activation_to_signer (st_activation_mode t), so_wallet_revocation_epoch = st_wallet_revocation_epoch t,
     so_policy_version = st_policy_version t, so_policy_digest = st_policy_digest t, so_provenance_digest = st_provenance_digest t,
     so_request_nonce = st_request_nonce t, so_issued_at_ms = st_issued_at_ms t, so_not_before_ms = st_not_before_ms t,
     so_expires_at_ms = st_expires_at_ms t, so_renewal_of = st_renewal_of t\<rparr>"

section \<open>Nothing is lost\<close>

lemma key_ref_to_machine_signer [simp]: "key_ref_to_machine (key_ref_to_signer k) = k"
proof -
  have spec: "key_spec_to_machine (key_spec_to_signer s) = s" for s by (cases s) simp_all
  have "derivation_profile_to_machine (derivation_profile_to_signer p) = p" for p by (cases p) simp_all
  then have "derivation_to_machine (derivation_to_signer d) = d" for d by (cases d) simp_all
  with spec show ?thesis by (simp add: key_ref_to_machine_def key_ref_to_signer_def option.map_comp o_def option.map_ident)
qed

lemma key_ref_to_signer_machine [simp]: "key_ref_to_signer (key_ref_to_machine k) = k"
proof -
  have spec: "key_spec_to_signer (key_spec_to_machine s) = s" for s by (cases s) simp_all
  have "derivation_profile_to_signer (derivation_profile_to_machine p) = p" for p by (cases p) simp_all
  then have "derivation_to_signer (derivation_to_machine d) = d" for d by (cases d) simp_all
  with spec show ?thesis by (simp add: key_ref_to_machine_def key_ref_to_signer_def option.map_comp o_def option.map_ident)
qed

lemma enums_inject [simp]:
  "crypto_suite_to_signer s = crypto_suite_to_signer s' \<longleftrightarrow> s = s'" "assurance_to_signer c = assurance_to_signer c' \<longleftrightarrow> c = c'"
  by (cases s; cases s'; simp) (cases c; cases c'; simp)

lemma sums_inject [simp]:
  "subject_to_signer u = subject_to_signer u' \<longleftrightarrow> u = u'" "activation_to_signer m = activation_to_signer m' \<longleftrightarrow> m = m'"
  by (cases u; cases u'; simp) (cases m; cases m'; simp)

lemma records_inject [simp]:
  "grant_to_signer g = grant_to_signer g' \<longleftrightarrow> g = g'" "window_to_signer w = window_to_signer w' \<longleftrightarrow> w = w'"
  "value_window_to_signer v = value_window_to_signer v' \<longleftrightarrow> v = v'"
  by (auto simp: grant_to_signer_def window_to_signer_def value_window_to_signer_def)

lemma key_ref_inject [simp]: "key_ref_to_signer k = key_ref_to_signer k' \<longleftrightarrow> k = k'"
  using key_ref_to_machine_signer by metis

lemma maps_inject:
  "map crypto_suite_to_signer ss = map crypto_suite_to_signer ss' \<longleftrightarrow> ss = ss'" "map grant_to_signer gs = map grant_to_signer gs' \<longleftrightarrow> gs = gs'"
  "map window_to_signer ws = map window_to_signer ws' \<longleftrightarrow> ws = ws'" "map value_window_to_signer vs = map value_window_to_signer vs' \<longleftrightarrow> vs = vs'"
  by (rule inj_map_eq_map, rule injI, simp)+

lemma value_limit_inject: "value_limit_to_signer l = value_limit_to_signer l' \<longleftrightarrow> l = l'"
  by (auto simp: value_limit_to_signer_def maps_inject)

lemma limits_inject: "limits_to_signer l = limits_to_signer l' \<longleftrightarrow> l = l'"
proof -
  have "map value_limit_to_signer vs = map value_limit_to_signer vs' \<longleftrightarrow> vs = vs'" for vs vs'
    by (rule inj_map_eq_map) (simp add: inj_def value_limit_inject)
  then show ?thesis by (auto simp: limits_to_signer_def maps_inject)
qed

lemma selector_inject: "selector_to_signer s = selector_to_signer s' \<longleftrightarrow> s = s'"
  by (cases s; cases s') (auto simp: maps_inject)

text \<open>The Signer enforces the terms that were approved: the projection tells different terms apart, and the references of keys that it contains
translate back to the ones of the terms.\<close>

theorem signer_terms_are_faithful:
  "(validated_terms_to_signer t = validated_terms_to_signer u \<longleftrightarrow> t = u)
    \<and> key_ref_to_machine (so_key_ref (validated_terms_to_signer t)) = st_key_ref t
    \<and> map crypto_suite_to_machine (so_allowed_crypto_suites (validated_terms_to_signer t)) = st_allowed_crypto_suites t"
proof -
  have "crypto_suite_to_machine (crypto_suite_to_signer s) = s" for s by (cases s) simp_all
  then show ?thesis
    by (auto simp: validated_terms_to_signer_def maps_inject limits_inject selector_inject o_def)
qed

end
