(* ===== verification/AuthorityStore.thy ===== *)
theory AuthorityStore
  imports AuthorityValues Destinations JournalSystem CustodyTypes SignerTerms
begin

text \<open>
  The state of the authority (\<open>BrokerAuthority\<close> of \<open>bloom-broker/src/authority.rs\<close>): its tables, which share the connection and the
  audit chain of the journal, the frame of its mutations, and the mutations that keep policies, revocation epochs,
  tombstones, key stops and quotas.
\<close>

section \<open>Revocation data (revocation.rs)\<close>

record ApprovalTombstone =
  tm_approval_id :: Digest32
  tm_wallet_id :: Token
  tm_wallet_revocation_epoch :: u64
  tm_reason :: string
  tm_operation_id :: OperationId
  tm_revoked_at_ms :: u64
  tm_issuer_service_id :: Token
  tm_key_id :: Token
  tm_signature :: Base64UrlBytes

record WalletTombstone =
  wt_wallet_id :: Token
  wt_wallet_revocation_epoch :: u64
  wt_operation_id :: OperationId
  wt_revoked_at_ms :: u64
  wt_issuer_service_id :: Token
  wt_key_id :: Token
  wt_signature :: Base64UrlBytes

record RevocationState =
  rv_wallet_id :: Token
  rv_wallet_revocation_epoch :: u64
  rv_wallet_tombstone :: "WalletTombstone option"
  rv_approval_tombstone_digest :: Digest32
  rv_approval_tombstone_count :: u64
  rv_observed_at_ms :: u64
  rv_issuer_service_id :: Token
  rv_key_id :: Token
  rv_signature :: Base64UrlBytes

record MachineSignOperationIdentity =
  si_operation_id :: OperationId
  si_approval_id :: Digest32
  si_key_ref :: KeyRef
  si_crypto_suite :: CryptoSuite
  si_ordered_payload_digests :: "Digest32 list"
  si_ordered_hashes :: "Digest32 list"
  si_petal_use_claim_digest :: "Digest32 option"
  si_claim_assurance_digest :: "Digest32 option"
  si_policy_version :: u64
  si_policy_digest :: Digest32

record CeremonyApprovalGrant =
  cg_activation_operation_id :: OperationId
  cg_approval_id :: Digest32
  cg_approval_digest :: Digest32
  cg_review_manifest_digest :: Digest32
  cg_replacement_approval_id :: "Digest32 option"
  cg_wallet_revocation_epoch :: u64
  cg_issued_at_ms :: u64
  cg_expires_at_ms :: u64
  cg_ceremony_key_id :: Token
  cg_ceremony_signature :: Base64UrlBytes

text \<open>The receipt of an activated approval, a type of the Signer: the fields that the Broker reads.\<close>

record SignerActivationReceipt =
  sa_activation_operation_id :: OperationId
  sa_ceremony_id :: Digest32
  sa_approval_id :: Digest32
  sa_approval_digest :: Digest32
  sa_review_manifest_digest :: Digest32
  sa_replaced_approval_id :: "Digest32 option"
  sa_wallet_revocation_epoch :: u64
  sa_key_ref :: SouthKeyRef
  sa_allowed_crypto_suites :: "SouthCryptoSuite list"
  sa_activation_mode :: SouthActivationMode
  sa_activated_at_ms :: u64
  sa_expires_at_ms :: u64
  sa_signer_key_id :: Token
  sa_signer_signature :: Base64UrlBytes

section \<open>The functions of packages\<close>

text \<open>
  The values that are printed as canonical JSON; the printer is one function on them. The parsers of stored
  texts are one function for each type.
\<close>

datatype Serializable =
    SerTerms SealedApprovalTerms
  | SerSubject ProvenanceSubject
  | SerRecord ProvenanceRecord
  | SerSnapshot SignedPolicySnapshot
  | SerPolicy CanonicalWalletPolicy
  | SerKeyRef KeyRef
  | SerPetalClaim PetalUseClaim
  | SerSystemClaim SystemUseClaim
  | SerAssurance ClaimAssurance
  | SerIdentity MachineSignOperationIdentity
  | SerTombstone ApprovalTombstone
  | SerTombstones "ApprovalTombstone list"
  | SerWalletTombstone WalletTombstone
  | SerRevocationState RevocationState
  | SerGrant CeremonyApprovalGrant
  | SerCatalog ProvenanceCatalog
  | SerScope PetalKeyScope
  | SerStableScope StableScope
  | SerAccountTerms AccountTerms
  | SerMigration OperationId LegacyPasskeyMigrationPublic
  | SerCustody UnsignedCustodyResult
  | SerReceipt SignerActivationReceipt
  | SerJson json

record auth_env =
  ae_journal :: env
  ae_verifier :: verifier_env
  ae_values :: value_env
  ae_address :: address_env
  ae_keccak256 :: "bytes \<Rightarrow> bytes"
  ae_ed25519_verify :: "bytes \<Rightarrow> bytes \<Rightarrow> bytes \<Rightarrow> bool"
  ae_ed25519_key :: "bytes \<Rightarrow> bool"
  ae_jcs :: "Serializable \<Rightarrow> string + string"
  ae_terms_from_str :: "string \<Rightarrow> string + SealedApprovalTerms"
  ae_record_from_str :: "string \<Rightarrow> string + ProvenanceRecord"
  ae_snapshot_from_str :: "string \<Rightarrow> string + SignedPolicySnapshot"
  ae_policy_from_slice :: "bytes \<Rightarrow> string + CanonicalWalletPolicy"
  ae_scope_from_str :: "string \<Rightarrow> string + PetalKeyScope"
  ae_account_terms_from_str :: "string \<Rightarrow> string + AccountTerms"
  ae_receipt_canonical_bytes :: "SignerActivationReceipt \<Rightarrow> string + bytes"
  ae_key_ref_json :: "KeyRef \<Rightarrow> json"
  ae_operation_id_to_bytes :: "OperationId \<Rightarrow> bytes"
  ae_operation_id_from_bytes :: "bytes \<Rightarrow> OperationId"
  ae_token_new :: "string \<Rightarrow> string + Token"

abbreviation ae_crypto :: "auth_env \<Rightarrow> crypto_env" where
  "ae_crypto env \<equiv> ve_crypto (ae_verifier env)"

definition sha256_digest :: "auth_env \<Rightarrow> bytes \<Rightarrow> Digest32" where
  "sha256_digest env bytes = ce_digest32_from_bytes (ae_crypto env) (ce_sha256 (ae_crypto env) bytes)"

definition jcs :: "auth_env \<Rightarrow> Serializable \<Rightarrow> AuthorityError + string" where
  "jcs env v = map_err AuthorityStorage (ae_jcs env v)"

definition jcs_digest :: "auth_env \<Rightarrow> Serializable \<Rightarrow> AuthorityError + Digest32" where
  "jcs_digest env v = and_then (jcs env v) (\<lambda>s. Inr (sha256_digest env (str_bytes s)))"

definition terms_approval_id :: "auth_env \<Rightarrow> SealedApprovalTerms \<Rightarrow> ProtocolError + Digest32" where
  "terms_approval_id env terms = approval_id (ae_crypto env) (\<lambda>t. map_ok str_bytes (ae_jcs env (SerTerms t))) terms"

definition custody_env_of :: "auth_env \<Rightarrow> custody_env" where
  "custody_env_of env = \<lparr>cu_crypto = ae_crypto env,
     cu_jcs_account_terms = \<lambda>t. map_ok str_bytes (ae_jcs env (SerAccountTerms t)), cu_jcs_scope = \<lambda>s. map_ok str_bytes (ae_jcs env (SerScope s)),
     cu_jcs_stable_scope = \<lambda>s. map_ok str_bytes (ae_jcs env (SerStableScope s)),
     cu_jcs_migration = \<lambda>i m. map_ok str_bytes (ae_jcs env (SerMigration i m))\<rparr>"

section \<open>Tables\<close>

record policy_row =
  pol_wallet_id :: string
  pol_version :: string
  pol_digest :: string
  pol_snapshot_jcs :: string
  pol_policy_jcs :: string

record epoch_row =
  ep_wallet_id :: string
  ep_epoch :: string
  ep_reconciled :: bool

record key_stop_row =
  ks_wallet_id :: string
  ks_key_ref :: string
  ks_operation_id :: string
  ks_stopped_at_ms :: int

record provenance_row =
  pv_subject_jcs :: string
  pv_record_digest :: string
  pv_record_jcs :: string

record quota_row =
  mq_principal :: string
  mq_window_started_ms :: string
  mq_mutations :: string

record tombstone_row =
  tb_approval_id :: string
  tb_wallet_id :: string
  tb_tombstone_jcs :: string

record pending_scope_row =
  pq_custody_operation_id :: string
  pq_scope_digest :: string
  pq_scope_jcs :: string

record committed_terms_row =
  ct_custody_operation_id :: string
  ct_terms_digest :: string
  ct_terms_jcs :: string
  ct_state :: string

record adopted_terms_row =
  ax_custody_operation_id :: string
  ax_terms_digest :: string
  ax_receipt_digest :: string
  ax_adopted_at_ms :: string

record scope_row =
  pk_key_ref_jcs :: string
  pk_scope_digest :: string
  pk_scope_jcs :: string
  pk_activated_at_ms :: string
  pk_expires_at_ms :: string
  pk_custody_receipt_digest :: string

record tables =
  policies :: "policy_row list"
  wallet_epochs :: "epoch_row list"
  key_stops :: "key_stop_row list"
  provenance_catalog :: "provenance_row list"
  mutation_quota :: "quota_row list"
  signer_approval_tombstones :: "tombstone_row list"
  pending_petal_key_scopes :: "pending_scope_row list"
  committed_account_terms :: "committed_terms_row list"
  adopted_account_terms :: "adopted_terms_row list"
  petal_key_scopes :: "scope_row list"

definition no_tables :: tables where
  "no_tables = \<lparr>policies = [], wallet_epochs = [], key_stops = [], provenance_catalog = [], mutation_quota = [],
     signer_approval_tombstones = [], pending_petal_key_scopes = [], committed_account_terms = [], adopted_account_terms = [],
     petal_key_scopes = []\<rparr>"

text \<open>\<open>INSERT ... ON CONFLICT(key) DO UPDATE\<close> replaces the row with the key or appends one.\<close>

definition upsert :: "('r \<Rightarrow> 'k) \<Rightarrow> 'r \<Rightarrow> 'r list \<Rightarrow> 'r list" where
  "upsert key row rows =
     (if list_ex (\<lambda>r. key r = key row) rows then map (\<lambda>r. if key r = key row then row else r) rows else rows @ [row])"

definition select :: "('r \<Rightarrow> 'k) \<Rightarrow> 'k \<Rightarrow> 'r list \<Rightarrow> 'r option" where
  "select key k rows = find (\<lambda>r. key r = k) rows"

section \<open>The authority\<close>

record authority =
  ba_journal :: journal
  ba_tables :: tables
  ba_policy_keys :: "string \<rightharpoonup> Token \<times> bytes"
  ba_installer_key_id :: Token
  ba_installer_key :: bytes
  ba_ceremony_key_id :: Token
  ba_ceremony_key :: bytes
  ba_revocation_key_id :: Token
  ba_revocation_key :: bytes
  ba_assurance :: AssuranceRegistry

type_synonym 'a am = "authority \<Rightarrow> authority \<times> (AuthorityError + 'a)"

abbreviation ba_db :: "authority \<Rightarrow> db" where
  "ba_db a \<equiv> j_db (ba_journal a)"

definition am_return :: "'a \<Rightarrow> 'a am" where
  "am_return x a = (a, Inr x)"

definition am_lift :: "AuthorityError + 'a \<Rightarrow> 'a am" where
  "am_lift r a = (a, r)"

definition am_read :: "(authority \<Rightarrow> AuthorityError + 'a) \<Rightarrow> 'a am" where
  "am_read f a = (a, f a)"

definition am_bind :: "'a am \<Rightarrow> ('a \<Rightarrow> 'b am) \<Rightarrow> 'b am" where
  "am_bind m f a = (case m a of (a', Inl e) \<Rightarrow> (a', Inl e) | (a', Inr x) \<Rightarrow> f x a')"

fun am_iter :: "('a \<Rightarrow> unit am) \<Rightarrow> 'a list \<Rightarrow> unit am" where
  "am_iter f [] = am_return ()"
| "am_iter f (x # xs) = am_bind (f x) (\<lambda>_. am_iter f xs)"

text \<open>A call of the journal: its errors become errors of the authority.\<close>

definition am_journal :: "'a jm \<Rightarrow> 'a am" where
  "am_journal m a = (case m (ba_journal a) of (j, r) \<Rightarrow> (a\<lparr>ba_journal := j\<rparr>, map_err AuthorityJournal r))"

text \<open>
  A mutation of the authority: the journal is locked and its head verified, the statements run in one
  transaction over the tables and the audit chain, and a commit is followed by the checkpoint. Every transaction either is refused
  after it changed some rows, is dropped unchanged, or changes the tables and appends one audit entry before it
  commits. A transaction that is dropped leaves the tables as they were, except for the counter of changed rows.
\<close>

datatype 'a plan = Refuse nat AuthorityError | Drop 'a | Apply tables nat string json 'a

definition tx_changed :: "nat \<Rightarrow> unit tx" where
  "tx_changed n db = (changed n db, Inr ())"

definition external_tx :: "env \<Rightarrow> nat \<Rightarrow> string \<Rightarrow> json \<Rightarrow> AuditSigner \<Rightarrow> unit outcome tx" where
  "external_tx env n event_type payload audit_signer =
     tx_bind (tx_changed n) (\<lambda>_.
     tx_bind (append_audit env event_type payload audit_signer) (\<lambda>_.
     tx_return (Checkpointed ())))"

definition authority_mutate :: "auth_env \<Rightarrow> (tables \<Rightarrow> 'a plan) \<Rightarrow> 'a am" where
  "authority_mutate env plan a = (case lock_for_mutation (ae_journal env) (ba_journal a) of
     (j, Inl e) \<Rightarrow> (a\<lparr>ba_journal := j\<rparr>, Inl (AuthorityJournal e))
   | (j, Inr _) \<Rightarrow>
       (case plan (ba_tables a) of
          Refuse n e \<Rightarrow> (a\<lparr>ba_journal := j\<lparr>j_db := changed n (j_db j)\<rparr>\<rparr>, Inl e)
        | Drop x \<Rightarrow> (a\<lparr>ba_journal := j\<rparr>, Inr x)
        | Apply t n event_type payload x \<Rightarrow>
            (case run_transaction (external_tx (ae_journal env) n event_type payload (j_signer j)) (j_db j) of
               (db, Inl e) \<Rightarrow> (a\<lparr>ba_journal := j\<lparr>j_db := db\<rparr>\<rparr>, Inl (AuthorityJournal e))
             | (db, Inr _) \<Rightarrow>
                 (case checkpoint_committed_head (ae_journal env) (j\<lparr>j_db := db\<rparr>) of
                    (j', Inl e) \<Rightarrow> (a\<lparr>ba_journal := j', ba_tables := t\<rparr>, Inl (AuthorityJournal e))
                  | (j', Inr _) \<Rightarrow> (a\<lparr>ba_journal := j', ba_tables := t\<rparr>, Inr x)))))"

definition parse_number :: "auth_env \<Rightarrow> string \<Rightarrow> AuthorityError + u64" where
  "parse_number env s = ok_or (u64_from_str s) (AuthorityStorage (e_parse_int_text (ae_journal env) s))"

fun plan_of :: "AuthorityError + 'a plan \<Rightarrow> 'a plan" where
  "plan_of (Inl e) = Refuse 0 e"
| "plan_of (Inr p) = p"

section \<open>Quotas\<close>

definition quota_row_of :: "auth_env \<Rightarrow> tables \<Rightarrow> string \<Rightarrow> AuthorityError + (u64 \<times> u64) option" where
  "quota_row_of env t caller = (case select mq_principal caller (mutation_quota t) of
     None \<Rightarrow> Inr None
   | Some row \<Rightarrow>
       and_then (parse_number env (mq_window_started_ms row)) (\<lambda>start.
       and_then (parse_number env (mq_mutations row)) (\<lambda>count. Inr (Some (start, count)))))"

definition next_window :: "u64 \<Rightarrow> u64 \<Rightarrow> (u64 \<times> u64) option \<Rightarrow> AuthorityError + (u64 \<times> u64)" where
  "next_window now_ms window_ms current = (case current of
     Some (start, count) \<Rightarrow>
       if saturating_sub now_ms start < window_ms
       then (if count = - 1 then Inl (denied ''MUTATION_QUOTA_EXCEEDED'' ''mutation quota overflow'') else Inr (start, count + 1))
       else Inr (now_ms, 1)
   | None \<Rightarrow> Inr (now_ms, 1))"

definition quota_plan :: "auth_env \<Rightarrow> string \<Rightarrow> u64 \<Rightarrow> u64 \<Rightarrow> u64 \<Rightarrow> tables \<Rightarrow> unit plan" where
  "quota_plan env caller now_ms window_ms maximum t = plan_of
     (and_then (quota_row_of env t caller) (\<lambda>current.
      and_then (next_window now_ms window_ms current) (\<lambda>(start, next).
      if maximum < next
      then Inl (denied ''MUTATION_QUOTA_EXCEEDED'' ''mutation quota is exhausted; read methods remain available'')
      else Inr (Apply
        (t\<lparr>mutation_quota := upsert mq_principal
            \<lparr>mq_principal = caller, mq_window_started_ms = u64_to_string start, mq_mutations = u64_to_string next\<rparr> (mutation_quota t)\<rparr>)
        1 ''mutation_quota.consumed''
        (json_object [(''principal'', JString caller), (''window_started_ms'', JNumber (unat start)), (''mutations'', JNumber (unat next))])
        ()))))"

definition consume_mutation_quota :: "auth_env \<Rightarrow> string \<Rightarrow> u64 \<Rightarrow> u64 \<Rightarrow> u64 \<Rightarrow> unit am" where
  "consume_mutation_quota env caller now_ms window_ms maximum =
     (if window_ms = 0 \<or> maximum = 0 then am_lift (Inl (denied ''QUOTA_INVALID'' ''quota bounds must be positive''))
      else authority_mutate env (quota_plan env caller now_ms window_ms maximum))"

section \<open>Revocation epochs\<close>

definition epoch_state :: "auth_env \<Rightarrow> tables \<Rightarrow> Token \<Rightarrow> AuthorityError + (u64 \<times> bool)" where
  "epoch_state env t wallet_id = (case select ep_wallet_id wallet_id (wallet_epochs t) of
     None \<Rightarrow> Inr (0, False)
   | Some row \<Rightarrow> and_then (parse_number env (ep_epoch row)) (\<lambda>epoch. Inr (epoch, ep_reconciled row)))"

definition local_epoch :: "auth_env \<Rightarrow> tables \<Rightarrow> Token \<Rightarrow> AuthorityError + u64" where
  "local_epoch env t wallet_id = map_ok fst (epoch_state env t wallet_id)"

definition epoch_plan :: "Token \<Rightarrow> u64 \<Rightarrow> bool \<Rightarrow> string \<Rightarrow> tables \<Rightarrow> unit plan" where
  "epoch_plan wallet_id epoch reconciled outcome t = Apply
     (t\<lparr>wallet_epochs := upsert ep_wallet_id
        \<lparr>ep_wallet_id = wallet_id, ep_epoch = u64_to_string epoch, ep_reconciled = reconciled\<rparr> (wallet_epochs t)\<rparr>)
     1 ''revocation.epoch_reconciled''
     (json_object [(''wallet_id'', JString wallet_id), (''epoch'', JNumber (unat epoch)), (''reconciled'', JBool reconciled),
        (''outcome'', JString outcome)]) ()"

definition store_epoch_reconciliation :: "auth_env \<Rightarrow> Token \<Rightarrow> u64 \<Rightarrow> bool \<Rightarrow> string \<Rightarrow> unit am" where
  "store_epoch_reconciliation env wallet_id epoch reconciled outcome = authority_mutate env (epoch_plan wallet_id epoch reconciled outcome)"

definition advance_plan :: "auth_env \<Rightarrow> Token \<Rightarrow> u64 \<Rightarrow> u64 \<Rightarrow> tables \<Rightarrow> unit plan" where
  "advance_plan env wallet_id expected_epoch next_epoch t = plan_of
     (and_then (ok_or (select ep_wallet_id wallet_id (wallet_epochs t)) (denied ''POLICY_NOT_FOUND'' ''wallet epoch is not initialized'')) (\<lambda>row.
      and_then (parse_number env (ep_epoch row)) (\<lambda>current.
      if current \<noteq> expected_epoch
      then Inl (denied ''REVOCATION_EPOCH_STALE'' ''wallet revocation epoch changed concurrently'')
      else Inr (Apply
        (t\<lparr>wallet_epochs := upsert ep_wallet_id
            \<lparr>ep_wallet_id = wallet_id, ep_epoch = u64_to_string next_epoch, ep_reconciled = False\<rparr> (wallet_epochs t)\<rparr>)
        1 ''revocation.epoch_advanced''
        (json_object [(''wallet_id'', JString wallet_id), (''from'', JNumber (unat expected_epoch)), (''to'', JNumber (unat next_epoch))])
        ()))))"

section \<open>Stopping approvals\<close>

definition stop_approval :: "auth_env \<Rightarrow> Digest32 \<Rightarrow> unit am" where
  "stop_approval env approval =
     am_bind (am_read (\<lambda>a. map_err AuthorityJournal (approval_state (ae_journal env) (ba_db a) approval))) (\<lambda>state.
     case state of
       Some AS_Prepared \<Rightarrow> am_journal (transition_approval (ae_journal env) approval AS_Failed)
     | Some AS_AwaitingCeremony \<Rightarrow> am_journal (transition_approval (ae_journal env) approval AS_Failed)
     | Some AS_Orphaned \<Rightarrow> am_journal (transition_approval (ae_journal env) approval AS_Revoked)
     | Some AS_Active \<Rightarrow> am_journal (transition_approval (ae_journal env) approval AS_Revoked)
     | _ \<Rightarrow> am_return ())"

fun older_approvals :: "auth_env \<Rightarrow> Token \<Rightarrow> u64 \<Rightarrow> (Digest32 \<times> ApprovalRecord) list \<Rightarrow> AuthorityError + Digest32 list" where
  "older_approvals env wallet_id epoch [] = Inr []"
| "older_approvals env wallet_id epoch ((approval, record) # records) =
     and_then (map_err AuthorityStorage (ae_terms_from_str env (ar_terms_jcs record))) (\<lambda>terms.
     and_then (older_approvals env wallet_id epoch records) (\<lambda>ids.
     Inr (if st_wallet_id terms = wallet_id \<and> st_wallet_revocation_epoch terms < epoch then approval # ids else ids)))"

definition revoke_older_approvals :: "auth_env \<Rightarrow> Token \<Rightarrow> u64 \<Rightarrow> unit am" where
  "revoke_older_approvals env wallet_id epoch =
     am_bind (am_read (\<lambda>a. map_err AuthorityJournal (approval_records (ae_journal env) (ba_db a)))) (\<lambda>records.
     am_bind (am_lift (older_approvals env wallet_id epoch records)) (\<lambda>ids.
     am_iter (stop_approval env) ids))"

definition advance_local_epoch :: "auth_env \<Rightarrow> Token \<Rightarrow> u64 \<Rightarrow> u64 \<Rightarrow> unit am" where
  "advance_local_epoch env wallet_id expected_epoch next_epoch =
     (if next_epoch \<le> expected_epoch
      then am_lift (Inl (denied ''REVOCATION_EPOCH_ROLLBACK'' ''wallet revocation epoch must increase''))
      else am_bind (authority_mutate env (advance_plan env wallet_id expected_epoch next_epoch)) (\<lambda>_.
        revoke_older_approvals env wallet_id next_epoch))"

definition revoke_local_approval :: "auth_env \<Rightarrow> Digest32 \<Rightarrow> unit am" where
  "revoke_local_approval env approval = stop_approval env approval"

section \<open>Tombstones\<close>

definition is_tombstoned :: "tables \<Rightarrow> Digest32 \<Rightarrow> bool" where
  "is_tombstoned t approval \<longleftrightarrow> select tb_approval_id approval (signer_approval_tombstones t) \<noteq> None"

fun incoming_tombstones :: "auth_env \<Rightarrow> ApprovalTombstone list \<Rightarrow> AuthorityError + (string \<times> string) list" where
  "incoming_tombstones env [] = Inr []"
| "incoming_tombstones env (tombstone # rest) =
     and_then (jcs env (SerTombstone tombstone)) (\<lambda>canonical.
     and_then (incoming_tombstones env rest) (\<lambda>entries. Inr ((tm_approval_id tombstone, canonical) # entries)))"

text \<open>The insertions: the rows so far and their number. The lookup in the map of incoming tombstones cannot fail.\<close>

fun insert_tombstones :: "Token \<Rightarrow> (string \<times> string) list \<Rightarrow> ApprovalTombstone list \<Rightarrow> tombstone_row list \<Rightarrow> nat
    \<Rightarrow> (nat \<times> AuthorityError) + (tombstone_row list \<times> nat)" where
  "insert_tombstones wallet_id incoming [] rows n = Inr (rows, n)"
| "insert_tombstones wallet_id incoming (tombstone # rest) rows n =
     (let approval = tm_approval_id tombstone; canonical = the (map_of incoming approval) in
      case select tb_approval_id approval rows of
        Some row \<Rightarrow>
          if tb_tombstone_jcs row \<noteq> canonical
          then Inl (n, denied ''REVOCATION_STATE_INVALID'' ''approval tombstone conflicts with durable Broker union'')
          else insert_tombstones wallet_id incoming rest rows n
      | None \<Rightarrow> insert_tombstones wallet_id incoming rest
          (rows @ [\<lparr>tb_approval_id = approval, tb_wallet_id = wallet_id, tb_tombstone_jcs = canonical\<rparr>]) (n + 1))"

definition tombstones_plan :: "auth_env \<Rightarrow> Token \<Rightarrow> ApprovalTombstone list \<Rightarrow> tables \<Rightarrow> unit plan" where
  "tombstones_plan env wallet_id tombstones t = plan_of
     (and_then (incoming_tombstones env tombstones) (\<lambda>entries.
      let incoming = bt_collect entries in
      if list_ex (\<lambda>row. tb_wallet_id row = wallet_id \<and> map_of incoming (tb_approval_id row) \<noteq> Some (tb_tombstone_jcs row))
        (signer_approval_tombstones t)
      then Inl (denied ''REVOCATION_STATE_INVALID'' ''signed tombstone union attempted to delete durable history'')
      else Inr (case insert_tombstones wallet_id incoming tombstones (signer_approval_tombstones t) 0 of
        Inl (n, e) \<Rightarrow> Refuse n e
      | Inr (rows, n) \<Rightarrow> Apply (t\<lparr>signer_approval_tombstones := rows\<rparr>) n ''revocation.tombstones_reconciled''
          (json_object [(''wallet_id'', JString wallet_id),
             (''tombstones'', JArray (map (\<lambda>tombstone. json_object
                [(''approval_id'', JString (tm_approval_id tombstone)), (''operation_id'', JString (tm_operation_id tombstone))]) tombstones))]) ())))"

definition store_signer_tombstones :: "auth_env \<Rightarrow> Token \<Rightarrow> ApprovalTombstone list \<Rightarrow> unit am" where
  "store_signer_tombstones env wallet_id tombstones = authority_mutate env (tombstones_plan env wallet_id tombstones)"

section \<open>Signed records\<close>

definition bad_signature :: "string \<Rightarrow> AuthorityError" where
  "bad_signature message = denied ''SIGNATURE_INVALID'' message"

text \<open>The signed value with its signature field emptied, the signature, the domain and the key.\<close>

definition verify_zeroed_signature :: "auth_env \<Rightarrow> Serializable \<Rightarrow> Base64UrlBytes \<Rightarrow> bytes \<Rightarrow> bytes \<Rightarrow> AuthorityError + unit" where
  "verify_zeroed_signature env emptied signature domain key =
     (let signature_bytes = ce_base64_decode (ae_crypto env) signature in
      if length signature_bytes \<noteq> 64 then Inl (bad_signature ''signature must contain exactly 64 bytes'')
      else and_then (jcs env emptied) (\<lambda>text.
        if ae_ed25519_verify env key (domain @ str_bytes text) signature_bytes then Inr ()
        else Inl (bad_signature ''signature verification failed'')))"

definition REVOCATION_STATE_DOMAIN :: bytes where
  "REVOCATION_STATE_DOMAIN = str_bytes ''bloom-revocation-state/v1''"

definition APPROVAL_TOMBSTONE_DOMAIN :: bytes where
  "APPROVAL_TOMBSTONE_DOMAIN = str_bytes ''bloom-approval-tombstone/v1''"

definition WALLET_TOMBSTONE_DOMAIN :: bytes where
  "WALLET_TOMBSTONE_DOMAIN = str_bytes ''bloom-wallet-tombstone/v1''"

definition state_invalid :: "string \<Rightarrow> AuthorityError" where
  "state_invalid message = denied ''REVOCATION_STATE_INVALID'' message"

datatype EpochReconciliation = Converged | AdoptedSignerEpoch | PushLocalEpoch

definition check_wallet_tombstone :: "auth_env \<Rightarrow> authority \<Rightarrow> RevocationState \<Rightarrow> AuthorityError + unit" where
  "check_wallet_tombstone env a state = (case rv_wallet_tombstone state of
     None \<Rightarrow> Inr ()
   | Some w \<Rightarrow>
       if wt_wallet_id w \<noteq> rv_wallet_id state \<or> wt_wallet_revocation_epoch w \<noteq> rv_wallet_revocation_epoch state
         \<or> wt_key_id w \<noteq> ba_revocation_key_id a \<or> wt_issuer_service_id w \<noteq> ''bloom-signer''
       then Inl (state_invalid ''wallet tombstone binding differs from revocation state'')
       else verify_zeroed_signature env (SerWalletTombstone (w\<lparr>wt_signature := []\<rparr>)) (wt_signature w) WALLET_TOMBSTONE_DOMAIN (ba_revocation_key a))"

fun check_tombstones :: "auth_env \<Rightarrow> authority \<Rightarrow> RevocationState \<Rightarrow> ApprovalTombstone list \<Rightarrow> AuthorityError + unit" where
  "check_tombstones env a state [] = Inr ()"
| "check_tombstones env a state (tombstone # rest) =
     (if tm_wallet_id tombstone \<noteq> rv_wallet_id state
        \<or> rv_wallet_revocation_epoch state < tm_wallet_revocation_epoch tombstone
        \<or> tm_key_id tombstone \<noteq> ba_revocation_key_id a \<or> tm_issuer_service_id tombstone \<noteq> ''bloom-signer''
      then Inl (state_invalid ''approval tombstone binding differs from revocation state'')
      else and_then (verify_zeroed_signature env (SerTombstone (tombstone\<lparr>tm_signature := []\<rparr>)) (tm_signature tombstone)
          APPROVAL_TOMBSTONE_DOMAIN (ba_revocation_key a)) (\<lambda>_. check_tombstones env a state rest))"

definition check_revocation_state :: "auth_env \<Rightarrow> authority \<Rightarrow> RevocationState \<Rightarrow> ApprovalTombstone list \<Rightarrow> AuthorityError + ApprovalTombstone list" where
  "check_revocation_state env a state tombstones =
     (if rv_key_id state \<noteq> ba_revocation_key_id a \<or> rv_issuer_service_id state \<noteq> ''bloom-signer''
      then Inl (state_invalid ''revocation state uses an untrusted key'')
      else and_then (verify_zeroed_signature env (SerRevocationState (state\<lparr>rv_signature := []\<rparr>)) (rv_signature state)
          REVOCATION_STATE_DOMAIN (ba_revocation_key a)) (\<lambda>_.
        and_then (check_wallet_tombstone env a state) (\<lambda>_.
        let sorted = sort_key tm_approval_id tombstones in
        if \<not> neighbours (\<lambda>x y. tm_approval_id x \<noteq> tm_approval_id y) sorted
          \<or> of_nat (length sorted) \<noteq> rv_approval_tombstone_count state
        then Inl (state_invalid ''approval tombstone union does not match signed summary'')
        else and_then (jcs_digest env (SerTombstones sorted)) (\<lambda>digest.
          if digest \<noteq> rv_approval_tombstone_digest state
          then Inl (state_invalid ''approval tombstone union does not match signed summary'')
          else and_then (check_tombstones env a state sorted) (\<lambda>_. Inr sorted)))))"

definition reconcile_revocation :: "auth_env \<Rightarrow> RevocationState \<Rightarrow> ApprovalTombstone list \<Rightarrow> EpochReconciliation am" where
  "reconcile_revocation env state tombstones =
     am_bind (am_read (\<lambda>a. check_revocation_state env a state tombstones)) (\<lambda>sorted.
     am_bind (store_signer_tombstones env (rv_wallet_id state) sorted) (\<lambda>_.
     am_bind (am_iter (stop_approval env) (map tm_approval_id sorted)) (\<lambda>_.
     am_bind (am_read (\<lambda>a. local_epoch env (ba_tables a) (rv_wallet_id state))) (\<lambda>local.
     let signer = rv_wallet_revocation_epoch state in
     if signer < local then
       am_bind (store_epoch_reconciliation env (rv_wallet_id state) local False ''push_local'') (\<lambda>_. am_return PushLocalEpoch)
     else if signer = local then
       am_bind (store_epoch_reconciliation env (rv_wallet_id state) local True ''converged'') (\<lambda>_. am_return Converged)
     else
       am_bind (store_epoch_reconciliation env (rv_wallet_id state) signer True ''adopt_signer'') (\<lambda>_.
       am_bind (revoke_older_approvals env (rv_wallet_id state) signer) (\<lambda>_. am_return AdoptedSignerEpoch))))))"

end
