(* ===== verification/AuthorityRecords.thy ===== *)
theory AuthorityRecords
  imports AuthorityStore
begin

text \<open>
  The signed records of the authority (\<open>bloom-broker/src/authority.rs\<close>): verifying and installing wallet policies and provenance
  records, the difference between two policies that an owner reviews, and stopping keys.
\<close>

section \<open>Wallet policies\<close>

definition POLICY_SIGNATURE_DOMAIN :: bytes where
  "POLICY_SIGNATURE_DOMAIN = str_bytes ''bloom-policy-snapshot/v1''"

definition LEGACY_VERIFIER :: string where
  "LEGACY_VERIFIER = ''evm-clear-signing-v1''"

definition ensure_policy_signing_enabled :: "CanonicalWalletPolicy \<Rightarrow> AuthorityError + unit" where
  "ensure_policy_signing_enabled policy =
     (if wp_clear_signing policy \<noteq> None \<or> list_ex (\<lambda>required. rq_verifier_id required = LEGACY_VERIFIER) (wp_required_verifiers policy)
      then Inl (denied ''POLICY_MIGRATION_REQUIRED''
        ''legacy catalog trust, freshness, verifier and refusal rules require an owner-approved policy replacement before signing'')
      else Inr ())"

definition key_mismatch :: "string \<Rightarrow> AuthorityError" where
  "key_mismatch message = denied ''POLICY_KEY_MISMATCH'' message"

definition verify_policy_snapshot :: "auth_env \<Rightarrow> SignedPolicySnapshot \<Rightarrow> (string \<rightharpoonup> Token \<times> bytes) \<Rightarrow> AuthorityError + CanonicalWalletPolicy" where
  "verify_policy_snapshot env snapshot keys =
     and_then (ok_or (keys (sp_wallet_id snapshot)) (denied ''POLICY_KEY_UNKNOWN'' ''wallet policy key is not pinned'')) (\<lambda>(key_id, key).
     if sp_policy_signing_key_id snapshot \<noteq> key_id
     then Inl (key_mismatch ''policy snapshot key ID differs from pinned wallet key'')
     else if ce_base64_decode (ae_crypto env) (sp_policy_verifying_key snapshot) \<noteq> key
     then Inl (key_mismatch ''policy snapshot public key differs from the pinned wallet key'')
     else and_then (verify_zeroed_signature env (SerSnapshot (snapshot\<lparr>sp_signer_signature := []\<rparr>)) (sp_signer_signature snapshot)
         POLICY_SIGNATURE_DOMAIN key) (\<lambda>_.
       let bytes = ce_base64_decode (ae_crypto env) (sp_canonical_policy snapshot) in
       and_then (map_err (denied ''POLICY_INVALID'') (ae_policy_from_slice env bytes)) (\<lambda>policy.
       and_then (jcs env (SerPolicy policy)) (\<lambda>canonical.
       if str_bytes canonical \<noteq> bytes \<or> sha256_digest env bytes \<noteq> sp_policy_digest snapshot
         \<or> wp_wallet_id policy \<noteq> sp_wallet_id snapshot \<or> wp_maximum_approval_lifetime_ms policy = 0
       then Inl (denied ''POLICY_INVALID'' ''policy bytes, digest, wallet, or lifetime are invalid'')
       else Inr policy))))"

definition enroll_policy_key_from_snapshot :: "auth_env \<Rightarrow> SignedPolicySnapshot \<Rightarrow> (string \<rightharpoonup> Token \<times> bytes)
    \<Rightarrow> AuthorityError + (string \<rightharpoonup> Token \<times> bytes)" where
  "enroll_policy_key_from_snapshot env snapshot keys =
     (let bytes = ce_base64_decode (ae_crypto env) (sp_policy_verifying_key snapshot) in
      if length bytes \<noteq> 32 then Inl (key_mismatch ''policy verification key must contain 32 bytes'')
      else if \<not> ae_ed25519_key env bytes then Inl (key_mismatch ''policy verification key is invalid'')
      else and_then (case keys (sp_wallet_id snapshot) of
          Some (key_id, pinned) \<Rightarrow>
            if key_id \<noteq> sp_policy_signing_key_id snapshot \<or> pinned \<noteq> bytes
            then Inl (key_mismatch ''registration policy key differs from the pinned wallet key'')
            else Inr keys
        | None \<Rightarrow> Inr (keys(sp_wallet_id snapshot \<mapsto> (sp_policy_signing_key_id snapshot, bytes)))) (\<lambda>keys.
        and_then (verify_policy_snapshot env snapshot keys) (\<lambda>_. Inr keys)))"

record PolicyInstallCorrelation =
  ic_operation_id :: "OperationId option"
  ic_ceremony_receipt_digest :: "Digest32 option"
  ic_validation_receipt_digest :: "Digest32 option"
  ic_commit_receipt_digest :: "Digest32 option"

definition no_correlation :: PolicyInstallCorrelation where
  "no_correlation = \<lparr>ic_operation_id = None, ic_ceremony_receipt_digest = None, ic_validation_receipt_digest = None, ic_commit_receipt_digest = None\<rparr>"

definition has_verifier :: "AssuranceRegistry \<Rightarrow> RequiredVerifier \<Rightarrow> bool" where
  "has_verifier registry required \<longleftrightarrow> map_of registry (rq_verifier_id required, rq_verifier_digest required) \<noteq> None"

definition stored_policy :: "auth_env \<Rightarrow> tables \<Rightarrow> Token \<Rightarrow> AuthorityError + (u64 \<times> string) option" where
  "stored_policy env t wallet_id = (case select pol_wallet_id wallet_id (policies t) of
     None \<Rightarrow> Inr None
   | Some row \<Rightarrow> and_then (parse_number env (pol_version row)) (\<lambda>version. Inr (Some (version, pol_snapshot_jcs row))))"

definition json_text :: "string option \<Rightarrow> json" where
  "json_text s = json_option (map_option JString s)"

definition policy_payload :: "SignedPolicySnapshot \<Rightarrow> PolicyInstallCorrelation \<Rightarrow> json" where
  "policy_payload snapshot correlation = json_object
     [(''wallet_id'', JString (sp_wallet_id snapshot)), (''version'', JString (u64_to_string (sp_version snapshot))),
      (''policy_digest'', JString (sp_policy_digest snapshot)), (''policy_signing_key_id'', JString (sp_policy_signing_key_id snapshot)),
      (''operation_id'', json_text (ic_operation_id correlation)),
      (''ceremony_receipt_digest'', json_text (ic_ceremony_receipt_digest correlation)),
      (''validation_receipt_digest'', json_text (ic_validation_receipt_digest correlation)),
      (''commit_receipt_digest'', json_text (ic_commit_receipt_digest correlation))]"

definition policy_plan :: "auth_env \<Rightarrow> SignedPolicySnapshot \<Rightarrow> string \<Rightarrow> string \<Rightarrow> PolicyInstallCorrelation \<Rightarrow> tables \<Rightarrow> unit plan" where
  "policy_plan env snapshot snapshot_jcs policy_jcs correlation t = plan_of
     (and_then (stored_policy env t (sp_wallet_id snapshot)) (\<lambda>existing.
      if existing = Some (sp_version snapshot, snapshot_jcs) then Inr (Drop ())
      else if (case existing of Some (version, _) \<Rightarrow> sp_version snapshot \<le> version | None \<Rightarrow> False)
      then Inl (denied ''POLICY_ROLLBACK'' ''policy version must advance monotonically'')
      else
        let fresh = select ep_wallet_id (sp_wallet_id snapshot) (wallet_epochs t) = None in
        Inr (Apply
          (t\<lparr>policies := upsert pol_wallet_id
               \<lparr>pol_wallet_id = sp_wallet_id snapshot, pol_version = u64_to_string (sp_version snapshot),
                pol_digest = sp_policy_digest snapshot, pol_snapshot_jcs = snapshot_jcs, pol_policy_jcs = policy_jcs\<rparr> (policies t),
             wallet_epochs := wallet_epochs t @ (if fresh then
               [\<lparr>ep_wallet_id = sp_wallet_id snapshot, ep_epoch = ''0'', ep_reconciled = True\<rparr>] else [])\<rparr>)
          (if fresh then 2 else 1) ''policy.installed'' (policy_payload snapshot correlation) ())))"

definition persist_verified_policy :: "auth_env \<Rightarrow> SignedPolicySnapshot \<Rightarrow> CanonicalWalletPolicy \<Rightarrow> PolicyInstallCorrelation \<Rightarrow> unit am" where
  "persist_verified_policy env snapshot policy correlation =
     am_bind (am_read (\<lambda>a.
       if list_ex (\<lambda>required. rq_verifier_id required \<noteq> LEGACY_VERIFIER \<and> \<not> has_verifier (ba_assurance a) required) (wp_required_verifiers policy)
       then Inl (denied ''POLICY_VERIFIER_UNAVAILABLE'' ''wallet policy requires a verifier absent from this build'')
       else Inr ())) (\<lambda>_.
     am_bind (am_lift (jcs env (SerSnapshot snapshot))) (\<lambda>snapshot_jcs.
     am_bind (am_lift (jcs env (SerPolicy policy))) (\<lambda>policy_jcs.
     am_bind (am_read (\<lambda>a. stored_policy env (ba_tables a) (sp_wallet_id snapshot))) (\<lambda>exact.
     if exact = Some (sp_version snapshot, snapshot_jcs) then am_return ()
     else authority_mutate env (policy_plan env snapshot snapshot_jcs policy_jcs correlation)))))"

definition install_policy_locked :: "auth_env \<Rightarrow> SignedPolicySnapshot \<Rightarrow> PolicyInstallCorrelation \<Rightarrow> unit am" where
  "install_policy_locked env snapshot correlation =
     am_bind (am_read (\<lambda>a. verify_policy_snapshot env snapshot (ba_policy_keys a))) (\<lambda>policy.
     persist_verified_policy env snapshot policy correlation)"

definition install_policy_with_correlation :: "auth_env \<Rightarrow> SignedPolicySnapshot \<Rightarrow> PolicyInstallCorrelation \<Rightarrow> unit am" where
  "install_policy_with_correlation env snapshot correlation = install_policy_locked env snapshot correlation"

definition install_policy :: "auth_env \<Rightarrow> SignedPolicySnapshot \<Rightarrow> unit am" where
  "install_policy env snapshot = install_policy_locked env snapshot no_correlation"

definition set_policy_keys :: "(string \<rightharpoonup> Token \<times> bytes) \<Rightarrow> unit am" where
  "set_policy_keys keys a = (a\<lparr>ba_policy_keys := keys\<rparr>, Inr ())"

definition install_initial_policy_correlated :: "auth_env \<Rightarrow> SignedPolicySnapshot \<Rightarrow> PolicyInstallCorrelation \<Rightarrow> unit am" where
  "install_initial_policy_correlated env snapshot correlation =
     (if sp_version snapshot \<noteq> 1
      then am_lift (Inl (denied ''POLICY_INVALID'' ''initial wallet custody must install policy version 1''))
      else
        am_bind (am_read (\<lambda>a. enroll_policy_key_from_snapshot env snapshot (ba_policy_keys a))) (\<lambda>candidate_keys.
        am_bind (am_lift (verify_policy_snapshot env snapshot candidate_keys)) (\<lambda>policy.
        am_bind (persist_verified_policy env snapshot policy correlation) (\<lambda>_.
        set_policy_keys candidate_keys))))"

definition current_policy :: "auth_env \<Rightarrow> tables \<Rightarrow> Token \<Rightarrow> AuthorityError + (SignedPolicySnapshot \<times> CanonicalWalletPolicy)" where
  "current_policy env t wallet_id =
     and_then (ok_or (select pol_wallet_id wallet_id (policies t)) (denied ''POLICY_NOT_FOUND'' ''wallet has no verified policy'')) (\<lambda>row.
     and_then (map_err AuthorityStorage (ae_snapshot_from_str env (pol_snapshot_jcs row))) (\<lambda>snapshot.
     and_then (map_err AuthorityStorage (ae_policy_from_slice env (str_bytes (pol_policy_jcs row)))) (\<lambda>policy.
     Inr (snapshot, policy))))"

definition policy_snapshot :: "auth_env \<Rightarrow> tables \<Rightarrow> Token \<Rightarrow> AuthorityError + SignedPolicySnapshot" where
  "policy_snapshot env t wallet_id = map_ok fst (current_policy env t wallet_id)"

section \<open>What an owner reviews in a policy update\<close>

record PolicyAuthorityDiff =
  df_maximum_approval_lifetime_ms_before :: u64
  df_maximum_approval_lifetime_ms_after :: u64
  df_added_petal_packages :: "Digest32 list"
  df_removed_petal_packages :: "Digest32 list"
  df_added_destinations :: "(Token \<times> string) list"
  df_removed_destinations :: "(Token \<times> string) list"
  df_added_required_verifiers :: "(Token \<times> Digest32) list"
  df_removed_required_verifiers :: "(Token \<times> Digest32) list"
  df_removed_legacy_clear_signing :: "LegacyClearSigningPolicy option"

text \<open>The added and the removed elements, in order.\<close>

definition set_diff :: "'a :: linorder list \<Rightarrow> 'a list \<Rightarrow> 'a list \<times> 'a list" where
  "set_diff before after =
     (filter (\<lambda>x. x \<notin> set before) (btree_set after), filter (\<lambda>x. x \<notin> set after) (btree_set before))"

definition destination_pairs :: "CanonicalWalletPolicy \<Rightarrow> (Token \<times> string) list" where
  "destination_pairs policy = map (\<lambda>d. (pd_chain d, pd_destination d)) (wp_allowed_destinations policy)"

definition verifier_pairs :: "CanonicalWalletPolicy \<Rightarrow> (Token \<times> Digest32) list" where
  "verifier_pairs policy = map (\<lambda>v. (rq_verifier_id v, rq_verifier_digest v)) (wp_required_verifiers policy)"

definition canonical_policy_authority_diff :: "CanonicalWalletPolicy \<Rightarrow> CanonicalWalletPolicy \<Rightarrow> PolicyAuthorityDiff" where
  "canonical_policy_authority_diff current proposed =
     (let (added_packages, removed_packages) = set_diff (wp_allowed_petal_packages current) (wp_allowed_petal_packages proposed);
          (added_destinations, removed_destinations) = set_diff (destination_pairs current) (destination_pairs proposed);
          (added_verifiers, removed_verifiers) = set_diff (verifier_pairs current) (verifier_pairs proposed) in
      \<lparr>df_maximum_approval_lifetime_ms_before = wp_maximum_approval_lifetime_ms current,
       df_maximum_approval_lifetime_ms_after = wp_maximum_approval_lifetime_ms proposed,
       df_added_petal_packages = added_packages, df_removed_petal_packages = removed_packages,
       df_added_destinations = added_destinations, df_removed_destinations = removed_destinations,
       df_added_required_verifiers = added_verifiers, df_removed_required_verifiers = removed_verifiers,
       df_removed_legacy_clear_signing = (if wp_clear_signing current \<noteq> wp_clear_signing proposed then wp_clear_signing current else None)\<rparr>)"

definition POLICY_AUTHORITY_DIFF_DOMAIN :: bytes where
  "POLICY_AUTHORITY_DIFF_DOMAIN = str_bytes ''bloom-policy-authority-diff/v1''"

text \<open>The canonical JSON of a difference is a function of a package.\<close>

definition diff_digest :: "auth_env \<Rightarrow> (PolicyAuthorityDiff \<Rightarrow> string + string) \<Rightarrow> PolicyAuthorityDiff \<Rightarrow> ProtocolError + Digest32" where
  "diff_digest env diff_jcs diff =
     and_then (map_err (\<lambda>e. error_new MalformedFrame (''policy canonicalization failed: '' @ e)) (diff_jcs diff)) (\<lambda>s.
     Inr (sha256_digest env (POLICY_AUTHORITY_DIFF_DOMAIN @ str_bytes s)))"

definition policy_invalid :: "string \<Rightarrow> AuthorityError" where
  "policy_invalid message = denied ''POLICY_INVALID'' message"

definition validate_policy_update :: "auth_env \<Rightarrow> (PolicyAuthorityDiff \<Rightarrow> string + string) \<Rightarrow> authority \<Rightarrow> PolicyUpdateRequest
    \<Rightarrow> AuthorityError + PolicyAuthorityDiff" where
  "validate_policy_update env diff_jcs a request =
     and_then (current_policy env (ba_tables a) (pu_wallet_id request)) (\<lambda>(baseline, current).
     if sp_version baseline \<noteq> pu_baseline_version request \<or> sp_policy_digest baseline \<noteq> pu_baseline_digest request
     then Inl (denied ''POLICY_BASELINE_STALE'' ''policy update baseline differs from Broker's verified snapshot'')
     else
       let proposed_bytes = ce_base64_decode (ae_crypto env) (pu_proposed_canonical_policy request) in
       if sha256_digest env proposed_bytes \<noteq> pu_proposed_policy_digest request
       then Inl (policy_invalid ''proposed policy digest does not match its canonical bytes'')
       else and_then (map_err policy_invalid (ae_policy_from_slice env proposed_bytes)) (\<lambda>proposed.
         and_then (jcs env (SerPolicy proposed)) (\<lambda>canonical.
         if str_bytes canonical \<noteq> proposed_bytes \<or> wp_wallet_id proposed \<noteq> pu_wallet_id request
           \<or> wp_maximum_approval_lifetime_ms proposed = 0
         then Inl (policy_invalid ''proposed policy is noncanonical, names another wallet, or has invalid limits'')
         else if list_ex (\<lambda>required. \<not> has_verifier (ba_assurance a) required) (wp_required_verifiers proposed)
         then Inl (denied ''POLICY_VERIFIER_UNAVAILABLE'' ''proposed policy requires a verifier absent from this build'')
         else and_then (ensure_policy_signing_enabled proposed) (\<lambda>_.
           let authority_diff = canonical_policy_authority_diff current proposed in
           and_then (map_err (\<lambda>e. AuthorityStorage (error_display e)) (diff_digest env diff_jcs authority_diff)) (\<lambda>digest.
           if digest \<noteq> pu_authority_diff_digest request
           then Inl (policy_invalid ''authority diff digest does not match Broker-derived policy changes'')
           else Inr authority_diff)))))"

section \<open>Provenance\<close>

definition verify_catalog_provenance :: "auth_env \<Rightarrow> ProvenanceRecord \<Rightarrow> Token \<Rightarrow> bytes \<Rightarrow> Digest32 \<Rightarrow> AuthorityError + unit" where
  "verify_catalog_provenance env r expected_key_id key expected_digest =
     (if pr_installer_key_id r \<noteq> expected_key_id
      then Inl (denied ''PROVENANCE_KEY_MISMATCH'' ''provenance uses an untrusted installer key'')
      else and_then (verify_zeroed_signature env (SerRecord (r\<lparr>pr_installer_signature := []\<rparr>)) (pr_installer_signature r)
          PROVENANCE_RECORD_SIGNATURE_DOMAIN key) (\<lambda>_.
        and_then (jcs_digest env (SerRecord r)) (\<lambda>digest.
        if digest \<noteq> expected_digest
        then Inl (denied ''PROVENANCE_MISMATCH'' ''approval provenance digest does not match verified record'')
        else if (case pr_subject r of ProvenancePetal _ route \<Rightarrow> route = [] | _ \<Rightarrow> False)
          \<or> (pr_operation_classes r = [] \<and> \<not> lineage_only r) \<or> \<not> all_unique (map po_operation_class (pr_operation_classes r))
        then Inl (denied ''PROVENANCE_INVALID'' ''provenance route/classes are empty or duplicated'')
        else Inr ())))"

definition verify_provenance :: "auth_env \<Rightarrow> ProvenanceRecord \<Rightarrow> Token \<Rightarrow> bytes \<Rightarrow> Digest32 \<Rightarrow> AuthorityError + unit" where
  "verify_provenance env r expected_key_id key expected_digest =
     and_then (verify_catalog_provenance env r expected_key_id key expected_digest) (\<lambda>_.
     if pr_operation_classes r = [] then Inl (denied ''PROVENANCE_INVALID'' ''lineage-only provenance cannot authorize an operation'')
     else Inr ())"

definition catalog_provenance :: "auth_env \<Rightarrow> tables \<Rightarrow> ProvenanceSubject \<Rightarrow> AuthorityError + ProvenanceRecord" where
  "catalog_provenance env t subject =
     and_then (jcs env (SerSubject subject)) (\<lambda>subject_jcs.
     and_then (ok_or (select pv_subject_jcs subject_jcs (provenance_catalog t))
       (denied ''PROVENANCE_REQUIRED'' ''subject is absent from Broker's installer-owned current catalog'')) (\<lambda>row.
     map_err AuthorityStorage (ae_record_from_str env (pv_record_jcs row))))"

definition storage_of :: "ProtocolError \<Rightarrow> AuthorityError" where
  "storage_of e = AuthorityStorage (error_display e)"

definition validate_catalog :: "auth_env \<Rightarrow> ProvenanceCatalog \<Rightarrow> AuthorityError + unit" where
  "validate_catalog env catalog = map_err storage_of
     (validate_shape (\<lambda>s. ae_jcs env (SerSubject s)) (ce_base64_decode (ae_crypto env)) catalog)"

definition verified_row :: "auth_env \<Rightarrow> authority \<Rightarrow> ProvenanceRecord \<Rightarrow> Digest32 \<Rightarrow> AuthorityError + provenance_row" where
  "verified_row env a r digest =
     and_then (verify_catalog_provenance env r (ba_installer_key_id a) (ba_installer_key a) digest) (\<lambda>_.
     and_then (jcs env (SerSubject (pr_subject r))) (\<lambda>subject_jcs.
     and_then (jcs env (SerRecord r)) (\<lambda>record_jcs.
     Inr \<lparr>pv_subject_jcs = subject_jcs, pv_record_digest = digest, pv_record_jcs = record_jcs\<rparr>)))"

definition install_provenance :: "auth_env \<Rightarrow> ProvenanceRecord \<Rightarrow> Digest32 am" where
  "install_provenance env r =
     am_bind (am_lift (validate_catalog env \<lparr>cat_schema = PROVENANCE_CATALOG_SCHEMA, cat_records = [r]\<rparr>)) (\<lambda>_.
     am_bind (am_lift (jcs_digest env (SerRecord r))) (\<lambda>digest.
     am_bind (am_read (\<lambda>a. verified_row env a r digest)) (\<lambda>row.
     authority_mutate env (\<lambda>t. Apply (t\<lparr>provenance_catalog := upsert pv_subject_jcs row (provenance_catalog t)\<rparr>) 1
       ''provenance.installed'' (json_object [(''record_digest'', JString digest)]) digest))))"

text \<open>\<open>ProvenanceRecord::digest\<close>.\<close>

definition record_digest :: "auth_env \<Rightarrow> ProvenanceRecord \<Rightarrow> ProtocolError + Digest32" where
  "record_digest env r =
     and_then (map_err (\<lambda>e. error_new MalformedFrame (''provenance record JCS encoding failed: '' @ e)) (ae_jcs env (SerRecord r))) (\<lambda>s.
     Inr (sha256_digest env (str_bytes s)))"

fun verified_rows :: "auth_env \<Rightarrow> authority \<Rightarrow> ProvenanceRecord list \<Rightarrow> AuthorityError + provenance_row list" where
  "verified_rows env a [] = Inr []"
| "verified_rows env a (r # rs) =
     and_then (map_err storage_of (record_digest env r)) (\<lambda>digest.
     and_then (verified_row env a r digest) (\<lambda>row.
     and_then (verified_rows env a rs) (\<lambda>rows. Inr (row # rows))))"

text \<open>The rows are inserted one after the other; a second row with a subject violates the primary key.\<close>

fun insert_rows :: "auth_env \<Rightarrow> provenance_row list \<Rightarrow> provenance_row list \<Rightarrow> (nat \<times> AuthorityError) + provenance_row list" where
  "insert_rows env rows [] = Inr rows"
| "insert_rows env rows (row # rest) =
     (if select pv_subject_jcs (pv_subject_jcs row) rows \<noteq> None
      then Inl (length rows, AuthorityStorage (e_sqlite_text (ae_journal env) (UniqueConstraint ''provenance_catalog.subject_jcs'')))
      else insert_rows env (rows @ [row]) rest)"

definition catalog_plan :: "auth_env \<Rightarrow> ProvenanceCatalog \<Rightarrow> provenance_row list \<Rightarrow> tables \<Rightarrow> unit plan" where
  "catalog_plan env catalog rows t =
     (let deleted = length (provenance_catalog t) in
      case insert_rows env [] rows of
        Inl (n, e) \<Rightarrow> Refuse (deleted + n) e
      | Inr rows \<Rightarrow>
          (case jcs_digest env (SerCatalog catalog) of
             Inl e \<Rightarrow> Refuse (deleted + length rows) e
           | Inr digest \<Rightarrow> Apply (t\<lparr>provenance_catalog := rows\<rparr>) (deleted + length rows) ''provenance.synchronized''
               (json_object [(''catalog_digest'', JString digest)]) ()))"

definition synchronize_provenance_catalog :: "auth_env \<Rightarrow> ProvenanceCatalog \<Rightarrow> unit am" where
  "synchronize_provenance_catalog env catalog =
     am_bind (am_lift (validate_catalog env catalog)) (\<lambda>_.
     am_bind (am_read (\<lambda>a. verified_rows env a (cat_records catalog))) (\<lambda>rows.
     authority_mutate env (catalog_plan env catalog rows)))"

section \<open>Stopping keys\<close>

fun bound_approvals :: "auth_env \<Rightarrow> db \<Rightarrow> Token \<Rightarrow> KeyRef \<Rightarrow> (Digest32 \<times> ApprovalRecord) list
    \<Rightarrow> AuthorityError + (Digest32 \<times> ApprovalLifecycleState) list" where
  "bound_approvals env db wallet_id key_ref [] = Inr []"
| "bound_approvals env db wallet_id key_ref ((approval, r) # rest) =
     and_then (map_err AuthorityStorage (ae_terms_from_str env (ar_terms_jcs r))) (\<lambda>terms.
     if st_wallet_id terms \<noteq> wallet_id \<or> st_key_ref terms \<noteq> key_ref then bound_approvals env db wallet_id key_ref rest
     else and_then (map_err AuthorityJournal (approval_state (ae_journal env) db approval)) (\<lambda>state.
       case state of
         None \<Rightarrow> bound_approvals env db wallet_id key_ref rest
       | Some state \<Rightarrow> and_then (bound_approvals env db wallet_id key_ref rest) (\<lambda>bound. Inr ((approval, state) # bound))))"

definition approvals_for_key :: "auth_env \<Rightarrow> authority \<Rightarrow> Token \<Rightarrow> KeyRef \<Rightarrow> AuthorityError + (Digest32 \<times> ApprovalLifecycleState) list" where
  "approvals_for_key env a wallet_id key_ref =
     and_then (map_err AuthorityJournal (approval_records (ae_journal env) (ba_db a))) (\<lambda>records.
     bound_approvals env (ba_db a) wallet_id key_ref records)"

definition stop_plan :: "Token \<Rightarrow> string \<Rightarrow> string \<Rightarrow> u64 \<Rightarrow> tables \<Rightarrow> unit plan" where
  "stop_plan wallet_id key_ref_jcs operation_id stopped_at_ms t = Apply
     (t\<lparr>key_stops := upsert (\<lambda>r. (ks_wallet_id r, ks_key_ref r))
        \<lparr>ks_wallet_id = wallet_id, ks_key_ref = key_ref_jcs, ks_operation_id = operation_id, ks_stopped_at_ms = int (unat stopped_at_ms)\<rparr>
        (key_stops t)\<rparr>)
     1 ''approval.key_stopped''
     (json_object [(''wallet_id'', JString wallet_id), (''key_ref_jcs'', JString key_ref_jcs), (''operation_id'', JString operation_id),
        (''stopped_at_ms'', JNumber (unat stopped_at_ms))]) ()"

definition stop_key :: "auth_env \<Rightarrow> Token \<Rightarrow> KeyRef \<Rightarrow> string \<Rightarrow> u64 \<Rightarrow> (Digest32 \<times> ApprovalLifecycleState) list am" where
  "stop_key env wallet_id key_ref operation_id stopped_at_ms =
     am_bind (am_lift (jcs env (SerKeyRef key_ref))) (\<lambda>key_ref_jcs.
     if 2 ^ 63 \<le> unat stopped_at_ms then am_lift (Inl (AuthorityStorage ''key stop timestamp is out of range''))
     else
       am_bind (authority_mutate env (stop_plan wallet_id key_ref_jcs operation_id stopped_at_ms)) (\<lambda>_.
       am_bind (am_read (\<lambda>a. approvals_for_key env a wallet_id key_ref)) (\<lambda>bound.
       am_bind (am_iter (\<lambda>(approval, state).
           if state = AS_Prepared \<or> state = AS_AwaitingCeremony
           then am_journal (transition_approval (ae_journal env) approval AS_Failed)
           else am_return ()) bound) (\<lambda>_.
       am_return bound))))"

definition is_reusable :: "SealedApprovalTerms \<Rightarrow> bool" where
  "is_reusable terms \<longleftrightarrow> (case st_selector terms of SelectorExact _ _ \<Rightarrow> False | SelectorPetal _ _ _ _ _ \<Rightarrow> True)"

definition ensure_key_not_stopped :: "auth_env \<Rightarrow> tables \<Rightarrow> SealedApprovalTerms \<Rightarrow> AuthorityError + unit" where
  "ensure_key_not_stopped env t terms =
     (if \<not> is_reusable terms then Inr ()
      else and_then (jcs env (SerKeyRef (st_key_ref terms))) (\<lambda>key_ref_jcs.
        if select (\<lambda>r. (ks_wallet_id r, ks_key_ref r)) (st_wallet_id terms, key_ref_jcs) (key_stops t) \<noteq> None
        then Inl (denied ''KEY_STOPPED'' ''key was durably stopped and admits no approval preparation or activation'')
        else Inr ()))"

end
