(* ===== verification/Authorize.thy ===== *)
theory Authorize
  imports AuthorityRecords
begin

text \<open>
  The decisions of the authority (\<open>bloom-broker/src/authority.rs\<close>): preparing and activating an approval, and authorizing a
  signing request, which checks the request against its approval, the policy, the provenance, the revocation state and
  the claim, and reserves the budget in the journal.
\<close>

section \<open>Payloads\<close>

definition payload_bytes :: "auth_env \<Rightarrow> SigningPayloads \<Rightarrow> bytes list" where
  "payload_bytes env payloads = (case payloads of
     SinglePayload payload \<Rightarrow> [ce_base64_decode (ae_crypto env) payload]
   | BatchPayloads children \<Rightarrow> map (ce_base64_decode (ae_crypto env)) children)"

fun suite_hash :: "auth_env \<Rightarrow> CryptoSuite \<Rightarrow> bytes \<Rightarrow> Digest32" where
  "suite_hash env Secp256k1Keccak256Recoverable payload = ce_digest32_from_bytes (ae_crypto env) (ae_keccak256 env payload)"
| "suite_hash env Secp256k1Sha256Recoverable payload = sha256_digest env payload"
| "suite_hash env Ed25519Message payload = sha256_digest env payload"

definition PETAL_BATCH_DOMAIN :: bytes where
  "PETAL_BATCH_DOMAIN = str_bytes ''bloom.petal.payload-batch.v1'' @ [0]"

definition petal_payload_batch_digest :: "auth_env \<Rightarrow> bytes list \<Rightarrow> Digest32" where
  "petal_payload_batch_digest env payloads = sha256_digest env
     (PETAL_BATCH_DOMAIN @ be_bytes 8 (length payloads) @ concat (map (\<lambda>p. be_bytes 8 (length p) @ p) payloads))"

section \<open>Subjects and assurance\<close>

fun provenance_subject_matches :: "ApprovalSubject \<Rightarrow> ProvenanceSubject \<Rightarrow> bool" where
  "provenance_subject_matches (SubjectPetal package_hash route _) (ProvenancePetal installed_hash installed_route) \<longleftrightarrow>
     package_hash = installed_hash \<and> route = installed_route"
| "provenance_subject_matches (SubjectCli client_id command_class) (ProvenanceCli installed_id installed_class) \<longleftrightarrow>
     client_id = installed_id \<and> command_class = installed_class"
| "provenance_subject_matches (SubjectSystem component_id operation_class) (ProvenanceSystem installed_id installed_class) \<longleftrightarrow>
     component_id = installed_id \<and> operation_class = installed_class"
| "provenance_subject_matches _ _ \<longleftrightarrow> False"

fun subject_for :: "ApprovalSubject \<Rightarrow> ProvenanceSubject" where
  "subject_for (SubjectPetal package_hash route _) = ProvenancePetal package_hash route"
| "subject_for (SubjectCli client_id command_class) = ProvenanceCli client_id command_class"
| "subject_for (SubjectSystem component_id operation_class) = ProvenanceSystem component_id operation_class"

fun assurance_rank :: "ClaimAssuranceLevel \<Rightarrow> nat" where
  "assurance_rank CL_MachineAsserted = 0"
| "assurance_rank CL_ProofVerified = 1"
| "assurance_rank CL_InvariantAttested = 2"

fun assurance_matches :: "ClaimAssurance \<Rightarrow> RequiredVerifier \<Rightarrow> bool" where
  "assurance_matches (CA_ProofVerified verifier_id verifier_digest _) required \<longleftrightarrow>
     verifier_id = rq_verifier_id required \<and> verifier_digest = rq_verifier_digest required"
| "assurance_matches (CA_InvariantAttested attestor_id attestation_digest) required \<longleftrightarrow>
     attestor_id = rq_verifier_id required \<and> attestation_digest = rq_verifier_digest required"
| "assurance_matches CA_MachineAsserted required \<longleftrightarrow> False"

definition establishes_authority_fields :: "VerifierCapability \<Rightarrow> bool" where
  "establishes_authority_fields capability \<longleftrightarrow> list_all (\<lambda>field. field \<in> set (vc_established_fields capability))
     [''package_hash'', ''route'', ''operation_class'', ''crypto_suite'', ''payload_digest'', ''ordered_hashes'', ''declared_debits'',
      ''declared_destinations'', ''declared_fee'', ''nonce'']"

definition establishes_system_authority_fields :: "VerifierCapability \<Rightarrow> bool" where
  "establishes_system_authority_fields capability \<longleftrightarrow> list_all (\<lambda>field. field \<in> set (vc_established_fields capability))
     [''payload_digest'', ''declared_debits'', ''declared_destinations'', ''recent_blockhash'']"

section \<open>Scopes of derived keys\<close>

definition scoped_key_record :: "auth_env \<Rightarrow> tables \<Rightarrow> KeyRef \<Rightarrow> AuthorityError + (PetalKeyScope \<times> u64) option" where
  "scoped_key_record env t key_ref =
     and_then (jcs env (SerKeyRef key_ref)) (\<lambda>key_ref_jcs.
     case select pk_key_ref_jcs key_ref_jcs (petal_key_scopes t) of
       None \<Rightarrow> Inr None
     | Some row \<Rightarrow>
         and_then (map_err AuthorityStorage (ae_scope_from_str env (pk_scope_jcs row))) (\<lambda>scope.
         and_then (parse_number env (pk_expires_at_ms row)) (\<lambda>expires. Inr (Some (scope, expires)))))"

definition validate_scoped_route_lineage :: "auth_env \<Rightarrow> tables \<Rightarrow> PetalKeyScope \<Rightarrow> Digest32 \<Rightarrow> string \<Rightarrow> Token list \<Rightarrow> AuthorityError + unit" where
  "validate_scoped_route_lineage env t scope package_hash route classes =
     and_then (catalog_provenance env t (ProvenancePetal package_hash route)) (\<lambda>provenance.
     let active_lineage = (case pr_petal_lineage provenance of
           None \<Rightarrow> False | Some m \<Rightarrow> pl_active m \<and> pl_lineage_id m = ps_lineage_id scope);
         declared_classes = map po_operation_class (pr_operation_classes provenance) in
     if \<not> active_lineage \<or> list_ex (\<lambda>c. c \<notin> set declared_classes) classes
     then Inl (denied ''PROVENANCE_LINEAGE_MISMATCH'' ''every granted route must remain an active member of the derived-key lineage'')
     else Inr ())"

fun validate_grant_lineages :: "auth_env \<Rightarrow> tables \<Rightarrow> PetalKeyScope \<Rightarrow> Digest32 \<Rightarrow> PetalRouteGrant list \<Rightarrow> AuthorityError + unit" where
  "validate_grant_lineages env t scope package_hash [] = Inr ()"
| "validate_grant_lineages env t scope package_hash (grant # grants) =
     and_then (validate_scoped_route_lineage env t scope package_hash (rg_route grant) (rg_allowed_operation_classes grant)) (\<lambda>_.
     validate_grant_lineages env t scope package_hash grants)"

definition selector_outside_scope :: "PetalKeyScope \<Rightarrow> ApprovalSelector \<Rightarrow> bool" where
  "selector_outside_scope scope selector \<longleftrightarrow> (case selector of
     SelectorExact _ _ \<Rightarrow> False
   | SelectorPetal _ _ classes grants _ \<Rightarrow>
       list_ex (\<lambda>c. c \<notin> set (ps_allowed_operation_classes scope)) classes
       \<or> list_ex (\<lambda>grant. rg_route grant \<notin> set (ps_allowed_routes scope)
           \<or> list_ex (\<lambda>c. c \<notin> set (ps_allowed_operation_classes scope)) (rg_allowed_operation_classes grant)) grants)"

definition scope_mismatch :: AuthorityError where
  "scope_mismatch = denied ''PETAL_KEY_SCOPE_MISMATCH'' ''approval exceeds or changes the derived Petal key scope''"

text \<open>A subject that is not a Petal does not have the identity of the scope, so the branch after the check is never reached with one.\<close>

definition validate_scoped_key_terms :: "auth_env \<Rightarrow> tables \<Rightarrow> SealedApprovalTerms \<Rightarrow> AuthorityError + unit" where
  "validate_scoped_key_terms env t terms =
     and_then (scoped_key_record env t (st_key_ref terms)) (\<lambda>r.
     case r of
       None \<Rightarrow> Inr ()
     | Some (scope, expires_at_ms) \<Rightarrow>
         (case st_subject terms of
            SubjectPetal package_hash route agent_id \<Rightarrow>
              let identity_matches = (route \<in> set (ps_allowed_routes scope)
                    \<and> (case agent_id of None \<Rightarrow> True | Some agent \<Rightarrow> agent = ps_key_slot scope));
                  outlives_scope = (is_reusable terms \<and> expires_at_ms < st_expires_at_ms terms) in
              if \<not> identity_matches \<or> st_wallet_id terms \<noteq> ps_wallet_id scope \<or> outlives_scope
                \<or> list_ex (\<lambda>suite. suite \<notin> set (ps_allowed_crypto_suites scope)) (st_allowed_crypto_suites terms)
                \<or> selector_outside_scope scope (st_selector terms)
              then Inl scope_mismatch
              else (case st_selector terms of
                  SelectorExact _ _ \<Rightarrow> validate_scoped_route_lineage env t scope package_hash route []
                | SelectorPetal _ _ classes grants _ \<Rightarrow>
                    and_then (validate_scoped_route_lineage env t scope package_hash route classes) (\<lambda>_.
                    validate_grant_lineages env t scope package_hash grants))
          | _ \<Rightarrow> Inl scope_mismatch))"

section \<open>Preparing an approval\<close>

definition approval_invalid :: "ProtocolError \<Rightarrow> AuthorityError" where
  "approval_invalid e = denied ''APPROVAL_INVALID'' (error_display e)"

definition approval_terms :: "auth_env \<Rightarrow> authority \<Rightarrow> Digest32 \<Rightarrow> AuthorityError + SealedApprovalTerms option" where
  "approval_terms env a approval = (case approval_record (ba_db a) approval of
     None \<Rightarrow> Inr None
   | Some r \<Rightarrow> map_ok Some (map_err AuthorityStorage (ae_terms_from_str env (ar_terms_jcs r))))"

fun check_granted_routes :: "auth_env \<Rightarrow> authority \<Rightarrow> Digest32 \<Rightarrow> PetalRouteGrant list \<Rightarrow> AuthorityError + unit" where
  "check_granted_routes env a package_hash [] = Inr ()"
| "check_granted_routes env a package_hash (grant # grants) =
     and_then (catalog_provenance env (ba_tables a) (ProvenancePetal package_hash (rg_route grant))) (\<lambda>granted.
     and_then (verify_provenance env granted (ba_installer_key_id a) (ba_installer_key a) (rg_provenance_digest grant)) (\<lambda>_.
     if list_ex (\<lambda>c. c \<notin> set (map po_operation_class (pr_operation_classes granted))) (rg_allowed_operation_classes grant)
     then Inl (denied ''PROVENANCE_CLASS_MISMATCH'' ''route grant class is absent from installer-signed provenance'')
     else check_granted_routes env a package_hash grants))"

definition check_petal_grants :: "auth_env \<Rightarrow> authority \<Rightarrow> SealedApprovalTerms \<Rightarrow> CanonicalWalletPolicy \<Rightarrow> ProvenanceRecord \<Rightarrow> AuthorityError + unit" where
  "check_petal_grants env a terms policy r = (case st_subject terms of
     SubjectPetal package_hash _ _ \<Rightarrow>
       if package_hash \<notin> set (wp_allowed_petal_packages policy)
       then Inl (denied ''PROVENANCE_MISMATCH'' ''wallet policy does not permit this Petal package'')
       else (case st_selector terms of
           SelectorPetal _ _ classes grants _ \<Rightarrow>
             if list_ex (\<lambda>c. c \<notin> set (map po_operation_class (pr_operation_classes r))) classes
             then Inl (denied ''PROVENANCE_CLASS_MISMATCH'' ''approval class is absent from installer-signed provenance'')
             else check_granted_routes env a package_hash grants
         | SelectorExact _ _ \<Rightarrow> Inr ())
   | _ \<Rightarrow> Inr ())"

definition check_renewal :: "auth_env \<Rightarrow> authority \<Rightarrow> SealedApprovalTerms \<Rightarrow> AuthorityError + unit" where
  "check_renewal env a terms = (case st_renewal_of terms of
     None \<Rightarrow> Inr ()
   | Some predecessor \<Rightarrow>
       and_then (approval_terms env a predecessor) (\<lambda>found.
       and_then (ok_or found (denied ''APPROVAL_NOT_FOUND'' ''renewal predecessor is missing'')) (\<lambda>predecessor_terms.
       if st_wallet_id predecessor_terms \<noteq> st_wallet_id terms
       then Inl (denied ''RENEWAL_PREDECESSOR_INVALID'' ''renewal predecessor must be an active approval for the same wallet'')
       else and_then (map_err AuthorityJournal (approval_state (ae_journal env) (ba_db a) predecessor)) (\<lambda>state.
         if state \<noteq> Some AS_Active
         then Inl (denied ''RENEWAL_PREDECESSOR_INVALID'' ''renewal predecessor must be an active approval for the same wallet'')
         else Inr ()))))"

text \<open>The checks of terms that no approval has yet, up to the provenance record that is frozen with them.\<close>

definition check_new_approval :: "auth_env \<Rightarrow> authority \<Rightarrow> SealedApprovalTerms \<Rightarrow> SignedPolicySnapshot \<Rightarrow> CanonicalWalletPolicy \<Rightarrow> Digest32
    \<Rightarrow> AuthorityError + ProvenanceRecord" where
  "check_new_approval env a terms snapshot policy approval =
     (if is_tombstoned (ba_tables a) approval then Inl (denied ''APPROVAL_REVOKED'' ''approval ID is durably tombstoned'')
      else if st_policy_version terms \<noteq> sp_version snapshot \<or> st_policy_digest terms \<noteq> sp_policy_digest snapshot
      then Inl (denied ''POLICY_SNAPSHOT_MISMATCH'' ''approval is not bound to Broker's verified current policy'')
      else if wp_maximum_approval_lifetime_ms policy < saturating_sub (st_expires_at_ms terms) (st_not_before_ms terms)
      then Inl (denied ''POLICY_LIFETIME_EXCEEDED'' ''approval exceeds wallet policy lifetime'')
      else and_then (epoch_state env (ba_tables a) (st_wallet_id terms)) (\<lambda>(local_epoch, reconciled).
        if \<not> reconciled \<or> st_wallet_revocation_epoch terms \<noteq> local_epoch
        then Inl (denied ''REVOCATION_EPOCH_UNRECONCILED'' ''approval epoch differs from Broker's reconciled wallet epoch'')
        else and_then (catalog_provenance env (ba_tables a) (subject_for (st_subject terms))) (\<lambda>r.
          and_then (verify_provenance env r (ba_installer_key_id a) (ba_installer_key a) (st_provenance_digest terms)) (\<lambda>_.
          if \<not> provenance_subject_matches (st_subject terms) (pr_subject r)
          then Inl (denied ''PROVENANCE_MISMATCH'' ''provenance subject differs from the approval subject'')
          else and_then (check_petal_grants env a terms policy r) (\<lambda>_. Inr r)))))"

definition prepare_approval_with_claim :: "auth_env \<Rightarrow> SealedApprovalTerms \<Rightarrow> Digest32 \<Rightarrow> Digest32 option \<Rightarrow> Digest32 am" where
  "prepare_approval_with_claim env terms review_manifest_digest approved_claim_digest =
     am_bind (am_lift (map_err approval_invalid (validate_terms terms))) (\<lambda>_.
     am_bind (am_read (\<lambda>a. validate_scoped_key_terms env (ba_tables a) terms)) (\<lambda>_.
     am_bind (am_read (\<lambda>a. ensure_key_not_stopped env (ba_tables a) terms)) (\<lambda>_.
     am_bind (am_read (\<lambda>a. current_policy env (ba_tables a) (st_wallet_id terms))) (\<lambda>(snapshot, policy).
     am_bind (am_lift (ensure_policy_signing_enabled policy)) (\<lambda>_.
     am_bind (am_lift (map_err approval_invalid (terms_approval_id env terms))) (\<lambda>approval.
     am_bind (am_read (\<lambda>a. Inr (approval_record (ba_db a) approval))) (\<lambda>found.
     case found of
       Some existing \<Rightarrow>
         am_bind (am_lift (map_err AuthorityStorage (ae_terms_from_str env (ar_terms_jcs existing)))) (\<lambda>existing_terms.
         if existing_terms = terms \<and> ar_review_manifest_digest existing = review_manifest_digest
           \<and> ar_approved_claim_digest existing = approved_claim_digest
         then am_return approval
         else am_lift (Inl (denied ''OPERATION_ID_CONFLICT'' ''approval identity is already bound to different prepared bytes'')))
     | None \<Rightarrow>
         am_bind (am_read (\<lambda>a. check_new_approval env a terms snapshot policy approval)) (\<lambda>r.
         am_bind (am_lift (jcs env (SerRecord r))) (\<lambda>provenance_jcs.
         am_bind (am_read (\<lambda>a. check_renewal env a terms)) (\<lambda>_.
         am_bind (am_lift (jcs env (SerTerms terms))) (\<lambda>terms_jcs.
         am_bind (am_journal (create_approval_record (ae_journal env) approval
           \<lparr>na_terms_jcs = terms_jcs, na_review_manifest_digest = review_manifest_digest, na_approved_claim_digest = approved_claim_digest,
            na_provenance_jcs = Some provenance_jcs, na_renewal_of = st_renewal_of terms\<rparr>)) (\<lambda>_.
         am_return approval))))))))))))"

definition prepare_approval :: "auth_env \<Rightarrow> SealedApprovalTerms \<Rightarrow> Digest32 \<Rightarrow> Digest32 am" where
  "prepare_approval env terms review_manifest_digest = prepare_approval_with_claim env terms review_manifest_digest None"

section \<open>Activating an approval\<close>

definition CEREMONY_GRANT_DOMAIN :: bytes where
  "CEREMONY_GRANT_DOMAIN = str_bytes ''bloom-broker-ceremony-grant/v1''"

definition check_grant :: "auth_env \<Rightarrow> CeremonyApprovalGrant \<Rightarrow> u64 \<Rightarrow> authority \<Rightarrow> AuthorityError + unit" where
  "check_grant env grant now_ms a =
     (if cg_ceremony_key_id grant \<noteq> ba_ceremony_key_id a \<or> now_ms < cg_issued_at_ms grant \<or> cg_expires_at_ms grant < now_ms
      then Inl (denied ''CEREMONY_GRANT_INVALID'' ''ceremony grant key or validity interval is invalid'')
      else and_then (verify_zeroed_signature env (SerGrant (grant\<lparr>cg_ceremony_signature := []\<rparr>)) (cg_ceremony_signature grant)
          CEREMONY_GRANT_DOMAIN (ba_ceremony_key a)) (\<lambda>_.
        and_then (ok_or (approval_record (ba_db a) (cg_approval_id grant)) (denied ''APPROVAL_NOT_FOUND'' ''approval is not prepared'')) (\<lambda>r.
        if is_tombstoned (ba_tables a) (cg_approval_id grant)
        then Inl (denied ''APPROVAL_REVOKED'' ''tombstoned approval cannot be activated'')
        else and_then (map_err AuthorityStorage (ae_terms_from_str env (ar_terms_jcs r))) (\<lambda>terms.
          and_then (ensure_key_not_stopped env (ba_tables a) terms) (\<lambda>_.
          and_then (current_policy env (ba_tables a) (st_wallet_id terms)) (\<lambda>(_, policy).
          and_then (ensure_policy_signing_enabled policy) (\<lambda>_.
          and_then (map_err (denied ''STORAGE_CORRUPTION'') (ce_digest32_new (ae_crypto env) (ar_review_manifest_digest r))) (\<lambda>review_digest.
          and_then (epoch_state env (ba_tables a) (st_wallet_id terms)) (\<lambda>(current_epoch, reconciled).
          if \<not> reconciled \<or> current_epoch \<noteq> st_wallet_revocation_epoch terms
          then Inl (denied ''REVOCATION_EPOCH_UNRECONCILED'' ''ceremony cannot activate authority from an old or unreconciled epoch'')
          else if cg_approval_digest grant \<noteq> cg_approval_id grant
          then Inl (denied ''CEREMONY_GRANT_MISMATCH'' ''ceremony grant changed immutable reviewed authority'')
          else and_then (map_err approval_invalid (terms_approval_id env terms)) (\<lambda>approval.
            if cg_approval_id grant \<noteq> approval \<or> cg_review_manifest_digest grant \<noteq> review_digest
              \<or> cg_replacement_approval_id grant \<noteq> st_renewal_of terms
              \<or> cg_wallet_revocation_epoch grant \<noteq> st_wallet_revocation_epoch terms
            then Inl (denied ''CEREMONY_GRANT_MISMATCH'' ''ceremony grant changed immutable reviewed authority'')
            else Inr ()))))))))))"

definition activate_approval :: "auth_env \<Rightarrow> CeremonyApprovalGrant \<Rightarrow> u64 \<Rightarrow> unit am" where
  "activate_approval env grant now_ms =
     am_bind (am_read (check_grant env grant now_ms)) (\<lambda>_.
     am_bind (am_lift (jcs env (SerGrant grant))) (\<lambda>grant_jcs.
     am_journal (activate_approval_record (ae_journal env) (cg_approval_id grant) (cg_activation_operation_id grant) grant_jcs)))"

section \<open>Claims\<close>

record AuthorizationInput =
  ai_request :: MachineSignRequest
  ai_expected_signer_public_key :: "bytes option"
  ai_reserved_at_ms :: u64
  ai_observed_utc_ms :: "u64 option"
  ai_monotonic_anchor_ns :: u64
  ai_clock_boot_epoch :: BootEpoch

record AuthorizationDecision =
  dn_approval_id :: Digest32
  dn_ordered_payload_digests :: "Digest32 list"
  dn_ordered_hashes :: "Digest32 list"
  dn_reserved_values :: "(string \<times> DecimalU256) list"
  dn_effective_assurance :: "ClaimAssurance option"
  dn_reservation_ids :: "Digest32 list"

definition verifier_missing :: "CanonicalWalletPolicy \<Rightarrow> ClaimAssurance \<Rightarrow> bool" where
  "verifier_missing policy assurance \<longleftrightarrow> wp_required_verifiers policy \<noteq> []
     \<and> \<not> list_ex (assurance_matches assurance) (wp_required_verifiers policy)"

definition evidence_of :: "auth_env \<Rightarrow> MachineSignRequest \<Rightarrow> bytes option" where
  "evidence_of env request = map_option (ce_base64_decode (ae_crypto env)) (ms_claim_assurance_evidence request)"

definition check_destinations :: "auth_env \<Rightarrow> string \<Rightarrow> CanonicalWalletPolicy \<Rightarrow> DeclaredDestination list \<Rightarrow> AuthorityError + unit" where
  "check_destinations env subject policy declared = (case destination_outside_policy (ae_address env) policy declared of
     Some d \<Rightarrow> Inl (denied ''DESTINATION_NOT_ALLOWED''
       (destination_policy_violation (ae_address env) subject d (wp_allowed_destinations policy)))
   | None \<Rightarrow> Inr ())"

definition validate_petal_claim :: "auth_env \<Rightarrow> authority \<Rightarrow> SealedApprovalTerms \<Rightarrow> CanonicalWalletPolicy \<Rightarrow> AuthorizationInput \<Rightarrow> PetalUseClaim
    \<Rightarrow> Digest32 \<Rightarrow> string \<Rightarrow> Token list \<Rightarrow> ClaimAssuranceLevel \<Rightarrow> bytes list \<Rightarrow> Digest32 list \<Rightarrow> AuthorityError + unit" where
  "validate_petal_claim env a terms policy input claim package_hash route classes required payloads hashes =
     (if pc_package_hash claim \<noteq> package_hash \<or> pc_route claim \<noteq> route \<or> pc_operation_class claim \<notin> set classes
        \<or> pc_crypto_suite claim \<noteq> ms_crypto_suite (ai_request input)
        \<or> pc_crypto_suite claim \<notin> set (st_allowed_crypto_suites terms)
        \<or> pc_payload_digest claim \<noteq> petal_payload_batch_digest env payloads \<or> pc_ordered_hashes claim \<noteq> hashes
      then Inl (denied ''PETAL_CLAIM_MISMATCH'' ''claim package, route, class, suite, payload, hashes, or nonce changed'')
      else if assurance_rank (assurance_level (pc_claim_assurance claim)) < assurance_rank required
      then Inl (denied ''ASSURANCE_TOO_WEAK'' ''claim assurance is below the approved minimum'')
      else if verifier_missing policy (pc_claim_assurance claim)
      then Inl (denied ''POLICY_ASSURANCE_REQUIRED'' ''claim does not use a verifier required by wallet policy'')
      else and_then (registry_verify (ba_assurance a) claim (evidence_of env (ai_request input))) (\<lambda>capability.
        if (required \<noteq> CL_MachineAsserted \<or> wp_required_verifiers policy \<noteq> [])
          \<and> (case capability of None \<Rightarrow> True | Some c \<Rightarrow> \<not> establishes_authority_fields c)
        then Inl (denied ''ASSURANCE_CONTRACT_INCOMPLETE'' ''verifier contract does not establish every selector and accounting field'')
        else check_destinations env ''claim'' policy (pc_declared_destinations claim)))"

definition validate_system_claim :: "auth_env \<Rightarrow> authority \<Rightarrow> SealedApprovalTerms \<Rightarrow> CanonicalWalletPolicy \<Rightarrow> AuthorizationInput \<Rightarrow> SystemUseClaim
    \<Rightarrow> Token \<Rightarrow> Token \<Rightarrow> Token list \<Rightarrow> bytes list \<Rightarrow> Digest32 list \<Rightarrow> Digest32 list \<Rightarrow> AuthorityError + unit" where
  "validate_system_claim env a terms policy input claim component_id action_class classes payloads hashes payload_digests =
     (if length payloads \<noteq> 1 \<or> length payload_digests \<noteq> 1 \<or> su_component_id claim \<noteq> component_id \<or> su_action_class claim \<noteq> action_class
        \<or> su_operation_class claim \<notin> set classes \<or> su_crypto_suite claim \<noteq> ms_crypto_suite (ai_request input)
        \<or> su_crypto_suite claim \<notin> set (st_allowed_crypto_suites terms)
        \<or> su_payload_digest claim \<noteq> payload_digests ! 0 \<or> su_ordered_hashes claim \<noteq> hashes
        \<or> sc_chain_family (su_chain_context claim) \<noteq> ''solana'' \<or> sc_genesis_hash (su_chain_context claim) = []
        \<or> sc_recent_blockhash (su_chain_context claim) = []
      then Inl (denied ''SYSTEM_CLAIM_MISMATCH'' ''system claim identity, class, payload, hashes, or chain context changed'')
      else if assurance_rank (assurance_level (su_claim_assurance claim)) < assurance_rank CL_ProofVerified
      then Inl (denied ''ASSURANCE_TOO_WEAK'' ''native Solana system operations require proof-verified assurance'')
      else if verifier_missing policy (su_claim_assurance claim)
      then Inl (denied ''POLICY_ASSURANCE_REQUIRED'' ''system claim does not use a verifier required by wallet policy'')
      else and_then (registry_verify_system (ae_verifier env) (ba_assurance a) claim (evidence_of env (ai_request input))
          (ai_expected_signer_public_key input)) (\<lambda>verified.
        and_then (ok_or verified (denied ''ASSURANCE_CONTRACT_INCOMPLETE'' ''native Solana system operation was not proof verified'')) (\<lambda>capability.
        if \<not> establishes_system_authority_fields capability
        then Inl (denied ''ASSURANCE_CONTRACT_INCOMPLETE'' ''system verifier does not establish every semantic transfer field'')
        else check_destinations env ''system claim'' policy (su_declared_destinations claim))))"

section \<open>Authorizing a request\<close>

definition selector_mismatch :: "string \<Rightarrow> AuthorityError" where
  "selector_mismatch message = denied ''SELECTOR_MISMATCH'' message"

text \<open>What a claim is charged: the values, the assurance that counts, and the asset of the fee.\<close>

type_synonym charge = "(string \<times> DecimalU256) list \<times> ClaimAssurance option \<times> string option"

definition check_exact_claims :: "auth_env \<Rightarrow> authority \<Rightarrow> SealedApprovalTerms \<Rightarrow> CanonicalWalletPolicy \<Rightarrow> AuthorizationInput \<Rightarrow> ProvenanceRecord
    \<Rightarrow> bytes list \<Rightarrow> Digest32 list \<Rightarrow> Digest32 list \<Rightarrow> AuthorityError + charge" where
  "check_exact_claims env a terms policy input provenance payloads hashes payload_digests =
     (let declared_classes = map po_operation_class (pr_operation_classes provenance) in
      case (ms_petal_use_claim (ai_request input), ms_system_use_claim (ai_request input)) of
        (None, None) \<Rightarrow> Inr ([], None, None)
      | (Some claim, None) \<Rightarrow>
          (case st_subject terms of
             SubjectPetal package_hash route _ \<Rightarrow>
               if package_hash \<notin> set (wp_allowed_petal_packages policy)
               then Inl (denied ''PROVENANCE_MISMATCH'' ''wallet policy does not permit this Petal package'')
               else and_then (validate_petal_claim env a terms policy input claim package_hash route declared_classes CL_MachineAsserted payloads hashes) (\<lambda>_.
                 and_then (account_claim_values (ae_values env) terms claim provenance) (\<lambda>reserved.
                 Inr (reserved, Some (pc_claim_assurance claim), declared_fee_asset claim)))
           | _ \<Rightarrow> Inl (selector_mismatch ''only an exact Petal approval may carry a Petal claim''))
      | (None, Some claim) \<Rightarrow>
          (case st_subject terms of
             SubjectSystem component_id operation_class \<Rightarrow>
               and_then (validate_system_claim env a terms policy input claim component_id operation_class declared_classes payloads hashes payload_digests) (\<lambda>_.
               and_then (account_system_claim_values (ae_values env) terms claim provenance) (\<lambda>reserved.
               Inr (reserved, Some (su_claim_assurance claim), declared_system_fee_asset claim)))
           | _ \<Rightarrow> Inl (selector_mismatch ''only an exact System approval may carry a system claim''))
      | (Some _, Some _) \<Rightarrow> Inl (selector_mismatch ''one signing request cannot carry both Petal and system claims''))"

definition check_claims :: "auth_env \<Rightarrow> authority \<Rightarrow> SealedApprovalTerms \<Rightarrow> CanonicalWalletPolicy \<Rightarrow> AuthorizationInput \<Rightarrow> ProvenanceRecord
    \<Rightarrow> bytes list \<Rightarrow> Digest32 list \<Rightarrow> Digest32 list \<Rightarrow> AuthorityError + charge" where
  "check_claims env a terms policy input provenance payloads hashes payload_digests = (case st_selector terms of
     SelectorExact approved_digests approved_hashes \<Rightarrow>
       if approved_digests \<noteq> payload_digests \<or> approved_hashes \<noteq> hashes
       then Inl (selector_mismatch ''payload bytes, digest, hash, order, count, or algorithm changed'')
       else check_exact_claims env a terms policy input provenance payloads hashes payload_digests
   | SelectorPetal package_hash route classes grants required \<Rightarrow>
       (case (ms_petal_use_claim (ai_request input), ms_system_use_claim (ai_request input)) of
          (Some claim, None) \<Rightarrow>
            and_then (if grants = [] then Inr (route, classes)
              else map_ok (\<lambda>grant. (rg_route grant, rg_allowed_operation_classes grant))
                (ok_or (find (\<lambda>grant. rg_route grant = pc_route claim) grants) (denied ''PETAL_CLAIM_MISMATCH'' ''claim route is not granted''))) (\<lambda>(approved_route, approved_classes).
            and_then (validate_petal_claim env a terms policy input claim package_hash approved_route approved_classes required payloads hashes) (\<lambda>_.
            and_then (account_claim_values (ae_values env) terms claim provenance) (\<lambda>reserved.
            Inr (reserved, Some (pc_claim_assurance claim), declared_fee_asset claim))))
        | _ \<Rightarrow> Inl (selector_mismatch ''Petal selectors require a Petal claim'')))"

definition is_multi_route :: "SealedApprovalTerms \<Rightarrow> bool" where
  "is_multi_route terms \<longleftrightarrow> (case st_selector terms of SelectorPetal _ _ _ grants _ \<Rightarrow> grants \<noteq> [] | _ \<Rightarrow> False)"

definition expected_provenance_digest :: "SealedApprovalTerms \<Rightarrow> ProvenanceSubject \<Rightarrow> AuthorityError + Digest32" where
  "expected_provenance_digest terms subject =
     (if \<not> is_multi_route terms then Inr (st_provenance_digest terms)
      else case (subject, st_selector terms) of
        (ProvenancePetal _ route, SelectorPetal _ _ _ grants _) \<Rightarrow>
          map_ok rg_provenance_digest (ok_or (find (\<lambda>grant. rg_route grant = route) grants) (denied ''PROVENANCE_MISMATCH'' ''executing route is not granted''))
      | _ \<Rightarrow> Inl (denied ''PROVENANCE_MISMATCH'' ''multi-route approval requires Petal provenance''))"

definition frozen_provenance_for :: "auth_env \<Rightarrow> authority \<Rightarrow> SealedApprovalTerms \<Rightarrow> AuthorityError + ProvenanceRecord" where
  "frozen_provenance_for env a terms =
     and_then (map_err approval_invalid (terms_approval_id env terms)) (\<lambda>approval.
     and_then (ok_or (approval_record (ba_db a) approval) (denied ''APPROVAL_NOT_FOUND'' ''approval has no durable record'')) (\<lambda>r.
     and_then (ok_or (ar_provenance_jcs r) (denied ''PROVENANCE_REQUIRED'' ''approval has no frozen provenance'')) (\<lambda>s.
     map_err AuthorityStorage (ae_record_from_str env s))))"

definition provenance_mismatch :: "string \<Rightarrow> AuthorityError" where
  "provenance_mismatch message = denied ''PROVENANCE_MISMATCH'' message"

definition check_provenance :: "auth_env \<Rightarrow> authority \<Rightarrow> SealedApprovalTerms \<Rightarrow> ProvenanceSubject \<Rightarrow> AuthorityError + ProvenanceRecord" where
  "check_provenance env a terms subject =
     and_then (catalog_provenance env (ba_tables a) subject) (\<lambda>current.
     and_then (expected_provenance_digest terms subject) (\<lambda>expected.
     and_then (verify_provenance env current (ba_installer_key_id a) (ba_installer_key a) expected) (\<lambda>_.
     and_then (if is_multi_route terms then Inr ()
       else and_then (frozen_provenance_for env a terms) (\<lambda>frozen.
         if current \<noteq> frozen then Inl (provenance_mismatch ''current installer catalog record differs from the approval-frozen record'')
         else Inr ())) (\<lambda>_.
     let subject_matches = (if is_multi_route terms
           then (case (st_subject terms, pr_subject current) of
             (SubjectPetal package_hash _ _, ProvenancePetal current_hash _) \<Rightarrow> package_hash = current_hash | _ \<Rightarrow> False)
           else provenance_subject_matches (st_subject terms) (pr_subject current)) in
     if pr_subject current \<noteq> subject \<or> \<not> subject_matches
     then Inl (provenance_mismatch ''current provenance differs from the frozen approval record'')
     else Inr current))))"

text \<open>The approval of a request: active, not revoked, in its interval, for the key and suite, under the current policy and epoch.\<close>

definition authorized_terms :: "auth_env \<Rightarrow> AuthorizationInput \<Rightarrow> authority \<Rightarrow> AuthorityError + (SealedApprovalTerms \<times> CanonicalWalletPolicy)" where
  "authorized_terms env input a =
     (let request = ai_request input; approval = ms_approval_id request in
      and_then (approval_terms env a approval) (\<lambda>found.
      and_then (ok_or found (denied ''APPROVAL_NOT_FOUND'' ''approval does not exist'')) (\<lambda>terms.
      if is_tombstoned (ba_tables a) approval
      then Inl (denied ''APPROVAL_REVOKED'' ''tombstoned approval cannot authorize signing'')
      else and_then (map_err AuthorityJournal (approval_state (ae_journal env) (ba_db a) approval)) (\<lambda>state.
      if state \<noteq> Some AS_Active then Inl (denied ''APPROVAL_INACTIVE'' ''approval is not active'')
      else if ai_reserved_at_ms input < st_not_before_ms terms \<or> st_expires_at_ms terms < ai_reserved_at_ms input
      then Inl (denied ''APPROVAL_OUTSIDE_VALIDITY'' ''approval is not valid at reservation time'')
      else if ms_key_ref request \<noteq> st_key_ref terms
      then Inl (denied ''KEYREF_MISMATCH'' ''request changed the approved KeyRef'')
      else and_then (validate_scoped_key_terms env (ba_tables a) terms) (\<lambda>_.
      if ms_crypto_suite request \<notin> set (st_allowed_crypto_suites terms)
      then Inl (denied ''SUITE_NOT_ALLOWED'' ''request suite is outside the immutable allowed set'')
      else and_then (current_policy env (ba_tables a) (st_wallet_id terms)) (\<lambda>(snapshot, policy).
      and_then (ensure_policy_signing_enabled policy) (\<lambda>_.
      if sp_version snapshot \<noteq> st_policy_version terms \<or> sp_policy_digest snapshot \<noteq> st_policy_digest terms
      then Inl (denied ''POLICY_SNAPSHOT_MISMATCH'' ''frozen approval policy no longer matches current verified policy'')
      else and_then (epoch_state env (ba_tables a) (st_wallet_id terms)) (\<lambda>(local_epoch, reconciled).
      if \<not> reconciled \<or> local_epoch \<noteq> st_wallet_revocation_epoch terms
      then Inl (denied ''APPROVAL_REVOKED'' ''approval predates the current wallet revocation epoch'')
      else Inr (terms, policy)))))))))"

definition payload_digests_of :: "auth_env \<Rightarrow> MachineSignRequest \<Rightarrow> Digest32 list" where
  "payload_digests_of env request = map (sha256_digest env) (payload_bytes env (ms_payloads request))"

definition ordered_hashes_of :: "auth_env \<Rightarrow> MachineSignRequest \<Rightarrow> Digest32 list" where
  "ordered_hashes_of env request = map (suite_hash env (ms_crypto_suite request)) (payload_bytes env (ms_payloads request))"

fun optional_digest :: "auth_env \<Rightarrow> Serializable option \<Rightarrow> AuthorityError + Digest32 option" where
  "optional_digest env None = Inr None"
| "optional_digest env (Some v) = map_ok Some (jcs_digest env v)"

definition request_claim_digest :: "auth_env \<Rightarrow> MachineSignRequest \<Rightarrow> AuthorityError + Digest32 option" where
  "request_claim_digest env request =
     and_then (optional_digest env (map_option SerPetalClaim (ms_petal_use_claim request))) (\<lambda>petal.
     and_then (optional_digest env (map_option SerSystemClaim (ms_system_use_claim request))) (\<lambda>system.
     Inr (case petal of Some d \<Rightarrow> Some d | None \<Rightarrow> system)))"

definition request_assurance_digest :: "auth_env \<Rightarrow> MachineSignRequest \<Rightarrow> AuthorityError + Digest32 option" where
  "request_assurance_digest env request = (case (ms_petal_use_claim request, ms_system_use_claim request) of
     (Some claim, None) \<Rightarrow> map_ok Some (jcs_digest env (SerAssurance (pc_claim_assurance claim)))
   | (None, Some claim) \<Rightarrow> map_ok Some (jcs_digest env (SerAssurance (su_claim_assurance claim)))
   | (None, None) \<Rightarrow> Inr None
   | (Some _, Some _) \<Rightarrow> Inl (selector_mismatch ''one signing request cannot carry both Petal and system claims''))"

definition SIGN_OPERATION_DOMAIN :: bytes where
  "SIGN_OPERATION_DOMAIN = str_bytes ''bloom-sign-operation/v1''"

text \<open>The error of the printer; the caller puts it into the text of a storage failure.\<close>

definition identity_digest :: "auth_env \<Rightarrow> MachineSignOperationIdentity \<Rightarrow> string + Digest32" where
  "identity_digest env identity = and_then (ae_jcs env (SerIdentity identity)) (\<lambda>s.
     Inr (sha256_digest env (SIGN_OPERATION_DOMAIN @ str_bytes s)))"

definition operation_identity :: "auth_env \<Rightarrow> SealedApprovalTerms \<Rightarrow> MachineSignRequest \<Rightarrow> Digest32 option \<Rightarrow> Digest32 option
    \<Rightarrow> MachineSignOperationIdentity" where
  "operation_identity env terms request claim_digest assurance_digest =
     \<lparr>si_operation_id = ms_operation_id request, si_approval_id = ms_approval_id request, si_key_ref = ms_key_ref request,
      si_crypto_suite = ms_crypto_suite request, si_ordered_payload_digests = payload_digests_of env request,
      si_ordered_hashes = ordered_hashes_of env request, si_petal_use_claim_digest = claim_digest,
      si_claim_assurance_digest = assurance_digest, si_policy_version = st_policy_version terms,
      si_policy_digest = st_policy_digest terms\<rparr>"

text \<open>The claim is the reviewed one and the operation digest is that of the request.\<close>

definition check_identity :: "auth_env \<Rightarrow> authority \<Rightarrow> SealedApprovalTerms \<Rightarrow> MachineSignRequest \<Rightarrow> AuthorityError + Digest32" where
  "check_identity env a terms request =
     and_then (request_claim_digest env request) (\<lambda>claim_digest.
     and_then (request_assurance_digest env request) (\<lambda>assurance_digest.
     and_then (ok_or (approval_record (ba_db a) (ms_approval_id request)) (denied ''APPROVAL_NOT_FOUND'' ''approval metadata is missing'')) (\<lambda>r.
     if (case st_selector terms of SelectorExact _ _ \<Rightarrow> True | _ \<Rightarrow> False) \<and> ar_approved_claim_digest r \<noteq> claim_digest
     then Inl (denied ''SYSTEM_CLAIM_MISMATCH'' ''signing claim differs from the claim committed by the reviewed approval manifest'')
     else and_then (map_err (\<lambda>e. denied ''OPERATION_IDENTITY_INVALID'' (''authority storage failure: '' @ e))
         (identity_digest env (operation_identity env terms request claim_digest assurance_digest))) (\<lambda>operation_digest.
       if ms_operation_digest request \<noteq> operation_digest
       then Inl (denied ''OPERATION_ID_CONFLICT'' ''operation digest does not match the authorized payload and claim identity'')
       else Inr operation_digest))))"

text \<open>All the checks before the reservation: the terms that authorize the request, and what it is charged.\<close>

definition check_request :: "auth_env \<Rightarrow> AuthorizationInput \<Rightarrow> authority \<Rightarrow> AuthorityError + (SealedApprovalTerms \<times> charge \<times> Digest32)" where
  "check_request env input a =
     (let request = ai_request input in
      and_then (authorized_terms env input a) (\<lambda>(terms, policy).
      and_then (check_provenance env a terms (ms_provenance request)) (\<lambda>provenance.
      and_then (check_claims env a terms policy input provenance (payload_bytes env (ms_payloads request))
         (ordered_hashes_of env request) (payload_digests_of env request)) (\<lambda>charge.
      and_then (check_identity env a terms request) (\<lambda>operation_digest.
      Inr (terms, charge, operation_digest))))))"

definition reservation_request :: "auth_env \<Rightarrow> AuthorizationInput \<Rightarrow> Digest32 \<Rightarrow> (string \<times> DecimalU256) list \<Rightarrow> ReservationRequest" where
  "reservation_request env input operation_digest values =
     \<lparr>rr_approval_id = ms_approval_id (ai_request input), rr_operation_id = ms_operation_id (ai_request input),
      rr_operation_digest = operation_digest, rr_signature_count = of_nat (length (ordered_hashes_of env (ai_request input))),
      rr_reserved_at_ms = ai_reserved_at_ms input, rr_observed_utc_ms = ai_observed_utc_ms input,
      rr_monotonic_anchor_ns = ai_monotonic_anchor_ns input, rr_clock_boot_epoch = ai_clock_boot_epoch input, rr_values = values\<rparr>"

fun str_contains :: "string \<Rightarrow> string \<Rightarrow> bool" where
  "str_contains [] pattern \<longleftrightarrow> pattern = []"
| "str_contains (c # s) pattern \<longleftrightarrow> strip_prefix pattern (c # s) \<noteq> None \<or> str_contains s pattern"

fun reservation_error :: "string option \<Rightarrow> JournalError \<Rightarrow> AuthorityError" where
  "reservation_error (Some asset) (Protocol LimitExceededValue message) =
     (if str_contains message asset
      then denied ''FEE_LIMIT_EXCEEDED'' (''declared network fee exhausted its native-asset budget: '' @
        error_display (error_new LimitExceededValue message))
      else AuthorityJournal (Protocol LimitExceededValue message))"
| "reservation_error _ e = AuthorityJournal e"

definition reserve_budget :: "auth_env \<Rightarrow> ReservationRequest \<Rightarrow> BudgetLimits \<Rightarrow> bool \<Rightarrow> string option \<Rightarrow> unit am" where
  "reserve_budget env request limits durable_clock_guard fee_asset a =
     (case reserve_for_clock_profile (ae_journal env) request limits durable_clock_guard (ba_journal a) of
        (j, r) \<Rightarrow> (a\<lparr>ba_journal := j\<rparr>, map_err (reservation_error fee_asset) r))"

definition reservation_id :: "auth_env \<Rightarrow> MachineSignRequest \<Rightarrow> Digest32" where
  "reservation_id env request = sha256_digest env (str_bytes ''bloom-broker-reservation/v1'' @ str_bytes (ms_approval_id request) @
     str_bytes (ms_operation_id request) @ str_bytes (ms_operation_digest request))"

definition authorize_for_clock_profile :: "auth_env \<Rightarrow> AuthorizationInput \<Rightarrow> bool \<Rightarrow> AuthorizationDecision am" where
  "authorize_for_clock_profile env input durable_clock_guard =
     am_bind (am_read (check_request env input)) (\<lambda>(terms, (values, assurance, fee_asset), operation_digest).
     am_bind (reserve_budget env (reservation_request env input operation_digest values) (budget_limits terms) durable_clock_guard fee_asset) (\<lambda>_.
     am_return \<lparr>dn_approval_id = ms_approval_id (ai_request input), dn_ordered_payload_digests = payload_digests_of env (ai_request input),
       dn_ordered_hashes = ordered_hashes_of env (ai_request input), dn_reserved_values = values, dn_effective_assurance = assurance,
       dn_reservation_ids = [reservation_id env (ai_request input)]\<rparr>))"

definition authorize :: "auth_env \<Rightarrow> AuthorizationInput \<Rightarrow> AuthorizationDecision am" where
  "authorize env input = authorize_for_clock_profile env input True"

end
