(* ===== verification/AuthorityCustody.thy ===== *)
theory AuthorityCustody
  imports Authorize
begin

text \<open>
  What the authority adopts from the Signer (\<open>bloom-broker/src/authority.rs\<close>): receipts of custody ceremonies, which install initial policies, delete
  wallets, bind derived keys to their scope and adopt allocated or retired accounts; receipts of activated approvals; the admission of
  the revocation of a key; and the queries of the authority. Allocation, AuthoritySafety and KeyStops state what they promise.
\<close>

section \<open>Paths of accounts\<close>

text \<open>\<open>strip_suffix\<close> of a text.\<close>

definition strip_suffix :: "string \<Rightarrow> string \<Rightarrow> string option" where
  "strip_suffix p s = (if length p \<le> length s \<and> drop (length s - length p) s = p then Some (take (length s - length p) s) else None)"

definition prime :: string where
  "prime = [CHR 0x27]"

definition EVM_PREFIX :: string where
  "EVM_PREFIX = ''m/44'' @ prime @ ''/60'' @ prime @ ''/0'' @ prime @ ''/0/''"

definition SOLANA_PREFIX :: string where
  "SOLANA_PREFIX = ''m/44'' @ prime @ ''/501'' @ prime @ ''/''"

definition SOLANA_SUFFIX :: string where
  "SOLANA_SUFFIX = prime @ ''/0'' @ prime"

definition committed_path_number :: "DerivationProfile \<Rightarrow> string \<Rightarrow> nat option" where
  "committed_path_number profile path =
     Option.bind (case profile of
        Bip44EvmSecp256k1V1 \<Rightarrow> strip_prefix EVM_PREFIX path
      | Bip44SolanaSlip10Ed25519V1 \<Rightarrow> Option.bind (strip_prefix SOLANA_PREFIX path) (strip_suffix SOLANA_SUFFIX))
     (unsigned_from_str 32)"

definition is_canonical_index :: "string \<Rightarrow> bool" where
  "is_canonical_index segment \<longleftrightarrow>
     (if segment = [] \<or> \<not> list_all is_digit segment then False
      else if 1 < length segment \<and> hd segment = CHR ''0'' then False
      else unsigned_from_str 32 segment \<noteq> None)"

definition is_canonical_hardened_index :: "string \<Rightarrow> bool" where
  "is_canonical_hardened_index segment = (case strip_suffix prime segment of
     None \<Rightarrow> False
   | Some index \<Rightarrow> is_canonical_index index \<and> (case unsigned_from_str 32 index of None \<Rightarrow> False | Some n \<Rightarrow> n < 2 ^ 31))"

definition segment_matches :: "u32 option \<Rightarrow> string \<Rightarrow> string \<Rightarrow> bool" where
  "segment_matches account actual expected =
     (if expected = ''<account>'' @ prime
      then (case account of Some n \<Rightarrow> actual = decimal (unat n) @ prime | None \<Rightarrow> is_canonical_hardened_index actual)
      else if expected = ''<index>'' then is_canonical_index actual
      else actual = expected)"

definition path_matches_committed_account :: "DerivationProfile \<Rightarrow> string \<Rightarrow> u32 option \<Rightarrow> bool" where
  "path_matches_committed_account profile path committed_account =
     (let account = (case committed_account of
            Some n \<Rightarrow> Some n
          | None \<Rightarrow> (case profile of Bip44EvmSecp256k1V1 \<Rightarrow> Some 0 | Bip44SolanaSlip10Ed25519V1 \<Rightarrow> None));
          expected = split_on CHR ''/'' (path_template profile);
          segments = split_on CHR ''/'' path in
      length segments = length expected \<and> list_all2 (segment_matches account) segments expected)"

section \<open>Receipts of custody\<close>

definition SIGNER_CEREMONY_RECEIPT_DOMAIN :: bytes where
  "SIGNER_CEREMONY_RECEIPT_DOMAIN = str_bytes ''bloom-signer-ceremony-receipt/v1''"

definition receipt_invalid :: "string \<Rightarrow> AuthorityError" where
  "receipt_invalid message = denied ''CUSTODY_RECEIPT_INVALID'' message"

text \<open>The signature of the ceremony key on the canonical bytes of a receipt, with the code and the subject of the errors.\<close>

definition verify_receipt_signature :: "auth_env \<Rightarrow> authority \<Rightarrow> string \<Rightarrow> string \<Rightarrow> Base64UrlBytes \<Rightarrow> string + bytes \<Rightarrow> AuthorityError + unit" where
  "verify_receipt_signature env a code what signature canonical =
     (let signature_bytes = ce_base64_decode (ae_crypto env) signature in
      if length signature_bytes \<noteq> 64 then Inl (denied code (what @ '' signature is malformed''))
      else and_then (map_err (denied code) canonical) (\<lambda>bytes.
        if ae_ed25519_verify env (ba_ceremony_key a) (SIGNER_CEREMONY_RECEIPT_DOMAIN @ bytes) signature_bytes then Inr ()
        else Inl (denied code (what @ '' signature is invalid''))))"

definition unsigned_canonical_bytes :: "auth_env \<Rightarrow> CustodyResult \<Rightarrow> ProtocolError + bytes" where
  "unsigned_canonical_bytes env receipt =
     map_err canonical_error (map_ok str_bytes (ae_jcs env (SerCustody (UnsignedCustodyResult.truncate receipt))))"

definition check_custody_receipt :: "auth_env \<Rightarrow> CustodyResult \<Rightarrow> authority \<Rightarrow> AuthorityError + unit" where
  "check_custody_receipt env receipt a =
     (if cr_signer_key_id receipt \<noteq> ba_ceremony_key_id a
        \<or> Some (cr_public_status receipt) \<noteq> successful_terminal_state (cr_ceremony_kind receipt)
      then Inl (receipt_invalid ''Signer custody receipt key or completion state is invalid'')
      else verify_receipt_signature env a ''CUSTODY_RECEIPT_INVALID'' ''Signer custody receipt'' (cr_signer_signature receipt)
        (map_err error_display (unsigned_canonical_bytes env receipt)))"

section \<open>Deleting a wallet\<close>

definition delete_plan :: "CustodyResult \<Rightarrow> Token \<Rightarrow> u64 \<Rightarrow> tables \<Rightarrow> bool plan" where
  "delete_plan receipt wallet_id now_ms t =
     (let removed = length (filter (\<lambda>r. pol_wallet_id r = wallet_id) (policies t)) in
      if removed = 0 then Drop False
      else Apply (t\<lparr>policies := filter (\<lambda>r. pol_wallet_id r \<noteq> wallet_id) (policies t)\<rparr>) removed ''wallet.projection_deleted''
        (json_object [(''wallet_id'', JString wallet_id), (''custody_operation_id'', JString (cr_custody_operation_id receipt)),
           (''receipt_digest'', JString (cr_receipt_digest receipt)), (''observed_at_ms'', JString (u64_to_string now_ms))]) True)"

text \<open>A deletion that finds no row commits an empty transaction and checkpoints the head as well.\<close>

definition adopt_wallet_deletion :: "auth_env \<Rightarrow> CustodyResult \<Rightarrow> u64 \<Rightarrow> unit am" where
  "adopt_wallet_deletion env receipt now_ms = (case cr_wallet_id receipt of
     None \<Rightarrow> am_lift (Inl (receipt_invalid ''wallet deletion receipt omitted its wallet identity''))
   | Some wallet_id \<Rightarrow>
       if cr_public_key_refs receipt \<noteq> [] \<or> cr_credential_summaries receipt \<noteq> [] \<or> cr_initial_policy receipt \<noteq> None
       then am_lift (Inl (receipt_invalid ''wallet deletion receipt retained public custody projections''))
       else am_bind (authority_mutate env (delete_plan receipt wallet_id now_ms)) (\<lambda>removed.
         if removed then am_return () else am_journal (checkpoint_committed_head (ae_journal env))))"

section \<open>Terms of accounts\<close>

definition terms_invalid :: "ProtocolError \<Rightarrow> AuthorityError" where
  "terms_invalid e = denied ''ACCOUNT_TERMS_INVALID'' (error_display e)"

definition commit_terms_plan :: "AccountTerms \<Rightarrow> Digest32 \<Rightarrow> string \<Rightarrow> u64 \<Rightarrow> tables \<Rightarrow> unit plan" where
  "commit_terms_plan terms terms_digest terms_jcs now_ms t = (case select ct_custody_operation_id (tt_replay_id terms) (committed_account_terms t) of
     Some row \<Rightarrow>
       if ct_terms_digest row = terms_digest \<and> ct_terms_jcs row = terms_jcs then Drop ()
       else Refuse 0 (denied ''OPERATION_ID_CONFLICT'' ''custody operation is already bound to different account terms'')
   | None \<Rightarrow> Apply (t\<lparr>committed_account_terms := committed_account_terms t @ [\<lparr>ct_custody_operation_id = tt_replay_id terms,
         ct_terms_digest = terms_digest, ct_terms_jcs = terms_jcs, ct_state = ''COMMITTED''\<rparr>]\<rparr>) 1 ''account.terms_committed''
       (json_object [(''custody_operation_id'', JString (tt_replay_id terms)), (''wallet_id'', JString (tt_wallet_id terms)),
          (''terms_digest'', JString terms_digest), (''observed_at_ms'', JString (u64_to_string now_ms))]) ())"

definition record_account_terms :: "auth_env \<Rightarrow> AccountTerms \<Rightarrow> u64 \<Rightarrow> unit am" where
  "record_account_terms env terms now_ms =
     am_bind (am_lift (map_err terms_invalid (validate_account_terms terms))) (\<lambda>_.
     am_bind (am_lift (map_err terms_invalid (account_request_digest (custody_env_of env) terms))) (\<lambda>terms_digest.
     am_bind (am_lift (jcs env (SerAccountTerms terms))) (\<lambda>terms_jcs.
     authority_mutate env (commit_terms_plan terms terms_digest terms_jcs now_ms))))"

definition stored_account_terms :: "auth_env \<Rightarrow> tables \<Rightarrow> OperationId \<Rightarrow> AuthorityError + (AccountTerms \<times> string)" where
  "stored_account_terms env t operation_id = (case select ct_custody_operation_id operation_id (committed_account_terms t) of
     None \<Rightarrow> Inl (receipt_invalid ''account custody completed without Broker-committed terms'')
   | Some row \<Rightarrow>
       and_then (map_err AuthorityStorage (ae_account_terms_from_str env (ct_terms_jcs row))) (\<lambda>terms.
       and_then (map_err terms_invalid (validate_account_terms terms)) (\<lambda>_. Inr (terms, ct_state row))))"

text \<open>The children of a receipt by their profile; a profile must not repeat.\<close>

fun children_by_profile :: "Token \<Rightarrow> KeyRef list \<Rightarrow> (DerivationProfile \<times> KeyRef \<times> string) list \<Rightarrow> AuthorityError + (DerivationProfile \<times> KeyRef \<times> string) list" where
  "children_by_profile wallet_id [] found = Inr found"
| "children_by_profile wallet_id (child # children) found = (case kr_derivation child of
     Some (Bip39Multicurve wallet_seed_ref profile path) \<Rightarrow>
       if wallet_seed_ref \<noteq> wallet_id then Inl (receipt_invalid ''allocated child belongs to a different wallet'')
       else if map_of found profile \<noteq> None then Inl (receipt_invalid ''allocation receipt repeats a derivation profile'')
       else children_by_profile wallet_id children (found @ [(profile, child, path)])
   | _ \<Rightarrow> Inl (receipt_invalid ''allocated child is not a bip39 derived account''))"

fun adopted_children :: "(DerivationProfile \<times> KeyRef \<times> string) list \<Rightarrow> DerivedAccountRequest list \<Rightarrow> AuthorityError + (KeyRef \<times> nat) list" where
  "adopted_children found [] = Inr []"
| "adopted_children found (request # requests) =
     (let profile = dr_derivation_profile request in
      case map_of found profile of
        None \<Rightarrow> Inl (receipt_invalid ''allocation receipt is missing a requested derivation profile'')
      | Some (child, path) \<Rightarrow>
          if kr_key_spec child \<noteq> profile_key_spec profile \<or> \<not> path_matches_committed_account profile path (dr_account request)
          then Inl (receipt_invalid ''allocated child does not match the committed derivation request'')
          else and_then (ok_or (committed_path_number profile path) (receipt_invalid ''allocated child path carries no account number'')) (\<lambda>number.
            and_then (adopted_children found requests) (\<lambda>adopted. Inr ((child, number) # adopted))))"

definition check_allocation :: "CustodyResult \<Rightarrow> AccountTerms \<Rightarrow> AuthorityError + (KeyRef \<times> nat) list" where
  "check_allocation receipt terms =
     (if tt_derivations terms = [] then Inl (receipt_invalid ''committed allocation terms carry no derivation request'')
      else if cr_wallet_id receipt \<noteq> Some (tt_wallet_id terms) \<or> length (cr_public_key_refs receipt) \<noteq> length (tt_derivations terms)
      then Inl (receipt_invalid ''allocation receipt wallet or child count contradicts the committed terms'')
      else and_then (children_by_profile (tt_wallet_id terms) (cr_public_key_refs receipt) []) (\<lambda>found.
        and_then (adopted_children found (tt_derivations terms)) (\<lambda>adopted.
        if 1 < length adopted \<and> \<not> list_all (\<lambda>(_, number). number = snd (adopted ! 0)) adopted
        then Inl (receipt_invalid ''multi-family allocation children disagree on the account number'')
        else Inr adopted)))"

text \<open>The terms are marked as adopted and the adoption is recorded, once for each operation.\<close>

definition adopt_terms_plan :: "auth_env \<Rightarrow> CustodyResult \<Rightarrow> AccountTerms \<Rightarrow> u64 \<Rightarrow> string \<Rightarrow> json \<Rightarrow> tables \<Rightarrow> unit plan" where
  "adopt_terms_plan env receipt terms now_ms event_type payload t =
     (let operation_id = cr_custody_operation_id receipt;
          marked = length (filter (\<lambda>r. ct_custody_operation_id r = operation_id) (committed_account_terms t)) in
      case account_request_digest (custody_env_of env) terms of
        Inl e \<Rightarrow> Refuse marked (storage_of e)
      | Inr terms_digest \<Rightarrow>
          if select ax_custody_operation_id operation_id (adopted_account_terms t) \<noteq> None
          then Refuse marked (AuthorityStorage (e_sqlite_text (ae_journal env) (UniqueConstraint ''adopted_account_terms.custody_operation_id'')))
          else Apply (t\<lparr>committed_account_terms := map (\<lambda>r. if ct_custody_operation_id r = operation_id then r\<lparr>ct_state := ''ADOPTED''\<rparr> else r)
                (committed_account_terms t),
              adopted_account_terms := adopted_account_terms t @ [\<lparr>ax_custody_operation_id = operation_id, ax_terms_digest = terms_digest,
                ax_receipt_digest = cr_receipt_digest receipt, ax_adopted_at_ms = u64_to_string now_ms\<rparr>]\<rparr>)
            (marked + 1) event_type payload ())"

definition allocation_payload :: "CustodyResult \<Rightarrow> AccountTerms \<Rightarrow> (KeyRef \<times> nat) list \<Rightarrow> u64 \<Rightarrow> json" where
  "allocation_payload receipt terms adopted now_ms = json_object
     [(''custody_operation_id'', JString (cr_custody_operation_id receipt)), (''wallet_id'', JString (tt_wallet_id terms)),
      (''children'', JArray (map (\<lambda>(child, number). json_object [(''child_fingerprint'', JString (kr_public_key_fingerprint child)),
         (''account_number'', JNumber number)]) adopted)),
      (''observed_at_ms'', JString (u64_to_string now_ms))]"

definition adopt_account_allocation :: "auth_env \<Rightarrow> CustodyResult \<Rightarrow> u64 \<Rightarrow> unit am" where
  "adopt_account_allocation env receipt now_ms =
     am_bind (am_read (\<lambda>a. stored_account_terms env (ba_tables a) (cr_custody_operation_id receipt))) (\<lambda>(terms, state).
     if state = ''ADOPTED'' then am_return ()
     else am_bind (am_lift (check_allocation receipt terms)) (\<lambda>adopted.
       authority_mutate env (adopt_terms_plan env receipt terms now_ms ''account.allocation_adopted''
         (allocation_payload receipt terms adopted now_ms))))"

definition adopt_account_retirement :: "auth_env \<Rightarrow> CustodyResult \<Rightarrow> u64 \<Rightarrow> unit am" where
  "adopt_account_retirement env receipt now_ms =
     am_bind (am_read (\<lambda>a. stored_account_terms env (ba_tables a) (cr_custody_operation_id receipt))) (\<lambda>(terms, state).
     if state = ''ADOPTED'' then am_return ()
     else case tt_retire_key_fingerprint terms of
       None \<Rightarrow> am_lift (Inl (receipt_invalid ''retirement receipt contradicts the committed terms''))
     | Some retired_fingerprint \<Rightarrow>
         if cr_wallet_id receipt \<noteq> Some (tt_wallet_id terms) \<or> cr_public_key_refs receipt \<noteq> []
         then am_lift (Inl (receipt_invalid ''retirement receipt contradicts the committed terms''))
         else authority_mutate env (adopt_terms_plan env receipt terms now_ms ''account.retirement_adopted''
           (json_object [(''custody_operation_id'', JString (cr_custody_operation_id receipt)), (''wallet_id'', JString (tt_wallet_id terms)),
              (''retired_fingerprint'', JString retired_fingerprint), (''observed_at_ms'', JString (u64_to_string now_ms))])))"

section \<open>Scopes of derived keys\<close>

definition check_scope_lineage :: "PetalKeyScope \<Rightarrow> CanonicalWalletPolicy \<Rightarrow> ProvenanceRecord \<Rightarrow> AuthorityError + unit" where
  "check_scope_lineage scope policy r =
     and_then (ok_or (pr_petal_lineage r)
       (denied ''PROVENANCE_LINEAGE_MISSING'' ''Petal package has no installer-verified lineage membership'')) (\<lambda>lineage.
     if \<not> pl_active lineage \<or> pl_lineage_id lineage \<noteq> ps_lineage_id scope
     then Inl (denied ''PROVENANCE_LINEAGE_MISMATCH'' ''Petal package is not the active member of the requested lineage'')
     else if ps_package_hash scope \<notin> set (wp_allowed_petal_packages policy)
       \<and> \<not> list_ex (\<lambda>predecessor. predecessor \<in> set (wp_allowed_petal_packages policy)) (pl_predecessor_package_hashes lineage)
     then Inl (denied ''PROVENANCE_MISMATCH'' ''wallet policy permits neither this Petal package nor a signed predecessor'')
     else if ps_route scope \<notin> set (ps_allowed_routes scope)
       \<or> list_ex (\<lambda>c. \<not> list_ex (\<lambda>declared. po_operation_class declared = c) (pr_operation_classes r)) (ps_allowed_operation_classes scope)
     then Inl (denied ''PROVENANCE_CLASS_MISMATCH'' ''Petal key routes or operation classes exceed installer-signed provenance'')
     else Inr ())"

definition check_key_scope :: "auth_env \<Rightarrow> PetalKeyScope \<Rightarrow> authority \<Rightarrow> AuthorityError + unit" where
  "check_key_scope env scope a =
     and_then (map_err (\<lambda>e. denied ''PETAL_KEY_SCOPE_INVALID'' (error_display e)) (validate_key_scope scope)) (\<lambda>_.
     and_then (current_policy env (ba_tables a) (ps_wallet_id scope)) (\<lambda>(_, policy).
     and_then (ensure_policy_signing_enabled policy) (\<lambda>_.
     if wp_maximum_approval_lifetime_ms policy < ps_maximum_lifetime_ms scope
     then Inl (denied ''POLICY_LIFETIME_EXCEEDED'' ''Petal key scope exceeds the wallet policy approval lifetime'')
     else and_then (catalog_provenance env (ba_tables a) (ProvenancePetal (ps_package_hash scope) (ps_route scope))) (\<lambda>r.
       and_then (map_err storage_of (record_digest env r)) (\<lambda>digest.
       and_then (verify_provenance env r (ba_installer_key_id a) (ba_installer_key a) digest) (\<lambda>_.
       check_scope_lineage scope policy r))))))"

definition prepare_scope_plan :: "PetalKeyScope \<Rightarrow> Digest32 \<Rightarrow> string \<Rightarrow> tables \<Rightarrow> unit plan" where
  "prepare_scope_plan scope digest scope_jcs t =
     (case select pq_custody_operation_id (ps_custody_operation_id scope) (pending_petal_key_scopes t) of
        Some row \<Rightarrow>
          if pq_scope_digest row = digest \<and> pq_scope_jcs row = scope_jcs then Drop ()
          else Refuse 0 (denied ''OPERATION_ID_CONFLICT'' ''custody operation is already bound to a different Petal key scope'')
      | None \<Rightarrow> Apply (t\<lparr>pending_petal_key_scopes := pending_petal_key_scopes t @ [\<lparr>pq_custody_operation_id = ps_custody_operation_id scope,
            pq_scope_digest = digest, pq_scope_jcs = scope_jcs\<rparr>]\<rparr>) 1 ''petal_key_scope.prepared''
          (json_object [(''custody_operation_id'', JString (ps_custody_operation_id scope)), (''scope_digest'', JString digest)]) ())"

definition prepare_petal_key_scope :: "auth_env \<Rightarrow> PetalKeyScope \<Rightarrow> unit am" where
  "prepare_petal_key_scope env scope =
     am_bind (am_read (check_key_scope env scope)) (\<lambda>_.
     am_bind (am_lift (map_err storage_of (scope_digest (custody_env_of env) scope))) (\<lambda>digest.
     am_bind (am_lift (jcs env (SerScope scope))) (\<lambda>scope_jcs.
     authority_mutate env (prepare_scope_plan scope digest scope_jcs))))"

text \<open>What the receipt of a derived key says of its scope: the time when the scope ends and the text of the key.\<close>

definition check_derived_key :: "auth_env \<Rightarrow> CustodyResult \<Rightarrow> PetalKeyScope \<Rightarrow> u64 \<Rightarrow> AuthorityError + (u64 \<times> string)" where
  "check_derived_key env receipt scope now_ms = (case cr_public_key_refs receipt of
     [child] \<Rightarrow>
       if cr_wallet_id receipt \<noteq> Some (ps_wallet_id scope) \<or> kr_key_spec child \<noteq> kr_key_spec (ps_parent_key_ref scope)
       then Inl (receipt_invalid ''scoped Petal derivation receipt has a different wallet or child key shape'')
       else if 2 ^ 64 \<le> unat now_ms + unat (ps_maximum_lifetime_ms scope)
       then Inl (denied ''PETAL_KEY_SCOPE_INVALID'' ''Petal key scope expiry overflowed'')
       else and_then (jcs env (SerKeyRef child)) (\<lambda>key_ref_jcs. Inr (now_ms + ps_maximum_lifetime_ms scope, key_ref_jcs))
   | _ \<Rightarrow> Inl (receipt_invalid ''scoped Petal derivation receipt has a different wallet or child key shape''))"

definition bind_scope_plan :: "CustodyResult \<Rightarrow> pending_scope_row \<Rightarrow> string \<Rightarrow> u64 \<Rightarrow> u64 \<Rightarrow> tables \<Rightarrow> unit plan" where
  "bind_scope_plan receipt pending key_ref_jcs now_ms expires_at_ms t = (case select pk_key_ref_jcs key_ref_jcs (petal_key_scopes t) of
     Some row \<Rightarrow>
       if pk_scope_digest row = pq_scope_digest pending \<and> pk_scope_jcs row = pq_scope_jcs pending
         \<and> pk_custody_receipt_digest row = cr_receipt_digest receipt
       then Drop ()
       else Refuse 0 (receipt_invalid ''derived KeyRef is already bound to different Petal authority'')
   | None \<Rightarrow> Apply (t\<lparr>petal_key_scopes := petal_key_scopes t @ [\<lparr>pk_key_ref_jcs = key_ref_jcs, pk_scope_digest = pq_scope_digest pending,
         pk_scope_jcs = pq_scope_jcs pending, pk_activated_at_ms = u64_to_string now_ms, pk_expires_at_ms = u64_to_string expires_at_ms,
         pk_custody_receipt_digest = cr_receipt_digest receipt\<rparr>]\<rparr>) 1 ''petal_key_scope.activated''
       (json_object [(''custody_operation_id'', JString (cr_custody_operation_id receipt)), (''scope_digest'', JString (pq_scope_digest pending)),
          (''custody_receipt_digest'', JString (cr_receipt_digest receipt))]) ())"

definition adopt_scope_plan :: "auth_env \<Rightarrow> CustodyResult \<Rightarrow> u64 \<Rightarrow> tables \<Rightarrow> unit plan" where
  "adopt_scope_plan env receipt now_ms t =
     (case select pq_custody_operation_id (cr_custody_operation_id receipt) (pending_petal_key_scopes t) of
        None \<Rightarrow> Drop ()
      | Some pending \<Rightarrow> plan_of
          (and_then (map_err AuthorityStorage (ae_scope_from_str env (pq_scope_jcs pending))) (\<lambda>scope.
           and_then (check_derived_key env receipt scope now_ms) (\<lambda>(expires_at_ms, key_ref_jcs).
           Inr (bind_scope_plan receipt pending key_ref_jcs now_ms expires_at_ms t)))))"

definition adopt_petal_key_scope :: "auth_env \<Rightarrow> CustodyResult \<Rightarrow> u64 \<Rightarrow> unit am" where
  "adopt_petal_key_scope env receipt now_ms = authority_mutate env (adopt_scope_plan env receipt now_ms)"

section \<open>Adopting a receipt of custody\<close>

definition adopt_initial_policy :: "auth_env \<Rightarrow> CustodyResult \<Rightarrow> unit am" where
  "adopt_initial_policy env receipt = (case cr_initial_policy receipt of
     None \<Rightarrow> am_lift (Inl (receipt_invalid ''initial wallet custody omitted its initial signed policy''))
   | Some snapshot \<Rightarrow>
       if cr_wallet_id receipt \<noteq> Some (sp_wallet_id snapshot)
       then am_lift (Inl (receipt_invalid ''registration receipt wallet differs from its initial policy''))
       else install_initial_policy_correlated env snapshot
         \<lparr>ic_operation_id = Some (cr_custody_operation_id receipt), ic_ceremony_receipt_digest = Some (cr_receipt_digest receipt),
          ic_validation_receipt_digest = None, ic_commit_receipt_digest = None\<rparr>)"

definition adopt_custody_receipt :: "auth_env \<Rightarrow> CustodyResult \<Rightarrow> u64 \<Rightarrow> unit am" where
  "adopt_custody_receipt env receipt now_ms =
     am_bind (am_read (check_custody_receipt env receipt)) (\<lambda>_.
     if cr_ceremony_kind receipt = CK_WalletDelete then adopt_wallet_deletion env receipt now_ms
     else if cr_ceremony_kind receipt = CK_WalletRegistration \<or> cr_ceremony_kind receipt = CK_WalletImport then adopt_initial_policy env receipt
     else if cr_initial_policy receipt \<noteq> None
     then am_lift (Inl (receipt_invalid ''only wallet registration or import may carry an initial policy''))
     else (case cr_ceremony_kind receipt of
        CK_KeyDerive \<Rightarrow> adopt_petal_key_scope env receipt now_ms
      | CK_AccountAllocate \<Rightarrow> adopt_account_allocation env receipt now_ms
      | CK_AccountRetire \<Rightarrow> adopt_account_retirement env receipt now_ms
      | _ \<Rightarrow> am_return ()))"

section \<open>Receipts of activated approvals\<close>

definition grant_invalid :: "string \<Rightarrow> AuthorityError" where
  "grant_invalid message = denied ''CEREMONY_GRANT_INVALID'' message"

definition check_receipt_terms :: "auth_env \<Rightarrow> SignerActivationReceipt \<Rightarrow> SealedApprovalTerms \<Rightarrow> Digest32 \<Rightarrow> AuthorityError + unit" where
  "check_receipt_terms env receipt terms review_digest =
     (let signer_terms = validated_terms_to_signer terms;
          mismatch = denied ''CEREMONY_GRANT_MISMATCH'' ''Signer receipt changed immutable reviewed authority'' in
      if sa_approval_digest receipt \<noteq> sa_approval_id receipt then Inl mismatch
      else and_then (map_err approval_invalid (terms_approval_id env terms)) (\<lambda>approval.
        if sa_approval_id receipt \<noteq> approval \<or> sa_review_manifest_digest receipt \<noteq> review_digest
          \<or> sa_replaced_approval_id receipt \<noteq> so_renewal_of signer_terms
          \<or> sa_wallet_revocation_epoch receipt \<noteq> so_wallet_revocation_epoch signer_terms
          \<or> sa_key_ref receipt \<noteq> so_key_ref signer_terms
          \<or> sa_allowed_crypto_suites receipt \<noteq> so_allowed_crypto_suites signer_terms
          \<or> sa_activation_mode receipt \<noteq> so_activation_mode signer_terms
          \<or> sa_expires_at_ms receipt \<noteq> so_expires_at_ms signer_terms
        then Inl mismatch else Inr ()))"

definition check_activation_receipt :: "auth_env \<Rightarrow> SignerActivationReceipt \<Rightarrow> u64 \<Rightarrow> authority \<Rightarrow> AuthorityError + unit" where
  "check_activation_receipt env receipt now_ms a =
     (if sa_signer_key_id receipt \<noteq> ba_ceremony_key_id a \<or> now_ms < sa_activated_at_ms receipt \<or> sa_expires_at_ms receipt < now_ms
      then Inl (grant_invalid ''Signer activation receipt key or validity interval is invalid'')
      else and_then (verify_receipt_signature env a ''CEREMONY_GRANT_INVALID'' ''Signer activation receipt'' (sa_signer_signature receipt)
          (ae_receipt_canonical_bytes env receipt)) (\<lambda>_.
        and_then (ok_or (approval_record (ba_db a) (sa_approval_id receipt)) (denied ''APPROVAL_NOT_FOUND'' ''approval is not prepared'')) (\<lambda>r.
        if is_tombstoned (ba_tables a) (sa_approval_id receipt)
        then Inl (denied ''APPROVAL_REVOKED'' ''tombstoned approval cannot be activated'')
        else and_then (map_err AuthorityStorage (ae_terms_from_str env (ar_terms_jcs r))) (\<lambda>terms.
          and_then (current_policy env (ba_tables a) (st_wallet_id terms)) (\<lambda>(_, policy).
          and_then (ensure_policy_signing_enabled policy) (\<lambda>_.
          and_then (map_err (denied ''STORAGE_CORRUPTION'') (ce_digest32_new (ae_crypto env) (ar_review_manifest_digest r))) (\<lambda>review_digest.
          and_then (epoch_state env (ba_tables a) (st_wallet_id terms)) (\<lambda>(current_epoch, reconciled).
          if \<not> reconciled \<or> current_epoch \<noteq> st_wallet_revocation_epoch terms
          then Inl (denied ''REVOCATION_EPOCH_UNRECONCILED'' ''Signer receipt cannot activate authority at an unreconciled epoch'')
          else check_receipt_terms env receipt terms review_digest))))))))"

definition activate_signer_receipt :: "auth_env \<Rightarrow> SignerActivationReceipt \<Rightarrow> u64 \<Rightarrow> unit am" where
  "activate_signer_receipt env receipt now_ms =
     am_bind (am_read (check_activation_receipt env receipt now_ms)) (\<lambda>_.
     am_bind (am_lift (jcs env (SerReceipt receipt))) (\<lambda>receipt_jcs.
     am_journal (activate_approval_record (ae_journal env) (sa_approval_id receipt) (sa_activation_operation_id receipt) receipt_jcs)))"

section \<open>Admitting the revocation of a key\<close>

record RevokeForKeyRequest =
  rk_operation_id :: OperationId
  rk_wallet_id :: Token
  rk_key_ref :: KeyRef
  rk_reason :: string

definition revocation_parameters :: "auth_env \<Rightarrow> RevokeForKeyRequest \<Rightarrow> AuthorityError + Digest32" where
  "revocation_parameters env request = jcs_digest env (SerJson (json_object
     [(''wallet_id'', JString (rk_wallet_id request)), (''key_ref'', ae_key_ref_json env (rk_key_ref request)),
      (''reason'', JString (rk_reason request))]))"

definition KEY_REVOCATION_DOMAIN :: bytes where
  "KEY_REVOCATION_DOMAIN = str_bytes ''bloom.broker.key-revocation.v1''"

definition targets_of :: "auth_env \<Rightarrow> OperationId \<Rightarrow> (Digest32 \<times> ApprovalLifecycleState) list \<Rightarrow> (Digest32 \<times> OperationId) list" where
  "targets_of env operation_id bound = sort_key fst (map (\<lambda>(i, _). (i, ae_operation_id_from_bytes env (ce_sha256 (ae_crypto env)
     (KEY_REVOCATION_DOMAIN @ ae_operation_id_to_bytes env operation_id @ ve_digest32_to_bytes (ae_verifier env) i)))) bound)"

text \<open>One pending approval of the key is fenced; the others are left to the caller.\<close>

definition fence_approval :: "env \<Rightarrow> AuditSigner \<Rightarrow> Digest32 \<Rightarrow> unit tx" where
  "fence_approval env audit_signer i =
     tx_bind (tx_check (\<lambda>db. ok_or (map_option ap_state (select_approval i db)) (sqlite_error env QueryReturnedNoRows))) (\<lambda>state.
     if state = ''PREPARED'' \<or> state = ''AWAITING_CEREMONY''
     then tx_bind (update_approval_state i ''FAILED'') (\<lambda>_.
       tx_bind (append_audit env ''approval.transition''
         (json_object [(''approval_id'', JString i), (''from'', JString state), (''to'', JString ''FAILED'')]) audit_signer) (\<lambda>_.
       tx_return ()))
     else tx_return ())"

definition stop_effects :: "env \<Rightarrow> RevokeForKeyRequest \<Rightarrow> string \<Rightarrow> u64 \<Rightarrow> Digest32 list \<Rightarrow> AuditSigner \<Rightarrow> unit tx" where
  "stop_effects env request key_ref_jcs stopped_at_ms bound audit_signer =
     tx_bind (tx_changed 1) (\<lambda>_.
     tx_bind (append_audit env ''approval.key_stopped''
       (json_object [(''wallet_id'', JString (rk_wallet_id request)), (''key_ref_jcs'', JString key_ref_jcs),
          (''operation_id'', JString (rk_operation_id request)), (''stopped_at_ms'', JNumber (unat stopped_at_ms))]) audit_signer) (\<lambda>_.
     tx_iter (fence_approval env audit_signer) bound))"

definition stopped_tables :: "RevokeForKeyRequest \<Rightarrow> string \<Rightarrow> u64 \<Rightarrow> tables \<Rightarrow> tables" where
  "stopped_tables request key_ref_jcs stopped_at_ms t = t\<lparr>key_stops := upsert (\<lambda>r. (ks_wallet_id r, ks_key_ref r))
     \<lparr>ks_wallet_id = rk_wallet_id request, ks_key_ref = key_ref_jcs, ks_operation_id = rk_operation_id request,
      ks_stopped_at_ms = int (unat stopped_at_ms)\<rparr> (key_stops t)\<rparr>"

definition admission_body :: "auth_env \<Rightarrow> RevokeForKeyRequest \<Rightarrow> Digest32 \<Rightarrow> string \<Rightarrow> u64 \<Rightarrow> (Digest32 \<times> ApprovalLifecycleState) list
    \<Rightarrow> AuditSigner \<Rightarrow> bool outcome tx" where
  "admission_body env request parameters_digest key_ref_jcs stopped_at_ms bound audit_signer =
     begin_key_revocation_tx (ae_journal env) (rk_operation_id request) parameters_digest (targets_of env (rk_operation_id request) bound)
       (stop_effects (ae_journal env) request key_ref_jcs stopped_at_ms (map fst bound) audit_signer) audit_signer"

text \<open>
  The row of the stopped key is written by the effects, in the transaction that admits the revocation: it is there exactly when
  the transaction of a new revocation committed.
\<close>

definition admit_stop :: "auth_env \<Rightarrow> RevokeForKeyRequest \<Rightarrow> Digest32 \<Rightarrow> string \<Rightarrow> u64 \<Rightarrow> (Digest32 \<times> ApprovalLifecycleState) list \<Rightarrow> bool am" where
  "admit_stop env request parameters_digest key_ref_jcs stopped_at_ms bound a =
     (case commit (ae_journal env) (admission_body env request parameters_digest key_ref_jcs stopped_at_ms bound) (ba_journal a) of
        (j, Inl e) \<Rightarrow> (a\<lparr>ba_journal := j\<rparr>, Inl (AuthorityJournal e))
      | (j, Inr out) \<Rightarrow>
          let t = (case out of Durable _ _ \<Rightarrow> stopped_tables request key_ref_jcs stopped_at_ms (ba_tables a) | _ \<Rightarrow> ba_tables a) in
          case finish (ae_journal env) out j of
            (j', r) \<Rightarrow> (a\<lparr>ba_journal := j', ba_tables := t\<rparr>, map_err AuthorityJournal r))"

definition known_targets :: "auth_env \<Rightarrow> RevokeForKeyRequest \<Rightarrow> Digest32 \<Rightarrow> authority \<Rightarrow> AuthorityError + (Digest32 \<times> OperationId) list option" where
  "known_targets env request parameters_digest a =
     map_err AuthorityJournal (key_revocation_targets (ae_journal env) (ba_db a) (rk_operation_id request) parameters_digest)"

definition admit_key_revocation :: "auth_env \<Rightarrow> RevokeForKeyRequest \<Rightarrow> u64 \<Rightarrow> ((Digest32 \<times> OperationId) list \<times> bool) am" where
  "admit_key_revocation env request stopped_at_ms =
     am_bind (am_lift (revocation_parameters env request)) (\<lambda>parameters_digest.
     am_bind (am_read (known_targets env request parameters_digest)) (\<lambda>known.
     case known of
       Some targets \<Rightarrow> am_return (targets, False)
     | None \<Rightarrow>
         am_bind (am_read (\<lambda>a. approvals_for_key env a (rk_wallet_id request) (rk_key_ref request))) (\<lambda>bound.
         am_bind (am_lift (jcs env (SerKeyRef (rk_key_ref request)))) (\<lambda>key_ref_jcs.
         if 2 ^ 63 \<le> unat stopped_at_ms then am_lift (Inl (AuthorityStorage ''key stop timestamp is out of range''))
         else am_bind (admit_stop env request parameters_digest key_ref_jcs stopped_at_ms bound) (\<lambda>first.
           if first then am_return (targets_of env (rk_operation_id request) bound, True)
           else am_bind (am_read (known_targets env request parameters_digest)) (\<lambda>found.
             am_lift (map_ok (\<lambda>targets. (targets, False)) (ok_or found (AuthorityStorage ''admitted key stop is missing'')))))))))"

section \<open>What callers see\<close>

record ApprovalPublicStatus =
  aps_approval_id :: Digest32
  aps_wallet_id :: Token
  aps_state :: ApprovalLifecycleState
  aps_effective_claim_assurance :: "ClaimAssuranceLevel option"
  aps_ceremony_url :: "string option"
  aps_ceremony_expires_at_ms :: "u64 option"

definition approval_public_status :: "auth_env \<Rightarrow> authority \<Rightarrow> Digest32 \<Rightarrow> AuthorityError + ApprovalPublicStatus" where
  "approval_public_status env a approval =
     and_then (approval_terms env a approval) (\<lambda>found.
     and_then (ok_or found (denied ''APPROVAL_NOT_FOUND'' ''approval does not exist'')) (\<lambda>terms.
     and_then (map_err AuthorityJournal (approval_state (ae_journal env) (ba_db a) approval)) (\<lambda>found.
     and_then (ok_or found (denied ''APPROVAL_NOT_FOUND'' ''approval state does not exist'')) (\<lambda>state.
     Inr \<lparr>aps_approval_id = approval, aps_wallet_id = st_wallet_id terms, aps_state = state,
       aps_effective_claim_assurance = (case st_selector terms of SelectorPetal _ _ _ _ required \<Rightarrow> Some required | SelectorExact _ _ \<Rightarrow> None),
       aps_ceremony_url = None, aps_ceremony_expires_at_ms = None\<rparr>))))"

fun public_statuses :: "auth_env \<Rightarrow> authority \<Rightarrow> Token \<Rightarrow> (Digest32 \<times> ApprovalRecord) list \<Rightarrow> AuthorityError + ApprovalPublicStatus list" where
  "public_statuses env a wallet_id [] = Inr []"
| "public_statuses env a wallet_id ((approval, r) # rest) =
     and_then (map_err AuthorityStorage (ae_terms_from_str env (ar_terms_jcs r))) (\<lambda>terms.
     if st_wallet_id terms \<noteq> wallet_id then public_statuses env a wallet_id rest
     else and_then (approval_public_status env a approval) (\<lambda>status.
       and_then (public_statuses env a wallet_id rest) (\<lambda>statuses. Inr (status # statuses))))"

definition approval_public_list :: "auth_env \<Rightarrow> authority \<Rightarrow> Token \<Rightarrow> AuthorityError + ApprovalPublicStatus list" where
  "approval_public_list env a wallet_id =
     and_then (map_err AuthorityJournal (approval_records (ae_journal env) (ba_db a))) (public_statuses env a wallet_id)"

fun parse_tokens :: "auth_env \<Rightarrow> string list \<Rightarrow> AuthorityError + Token list" where
  "parse_tokens env [] = Inr []"
| "parse_tokens env (s # rest) =
     and_then (map_err AuthorityStorage (ae_token_new env s)) (\<lambda>token.
     and_then (parse_tokens env rest) (\<lambda>tokens. Inr (token # tokens)))"

definition wallet_ids :: "auth_env \<Rightarrow> tables \<Rightarrow> AuthorityError + Token list" where
  "wallet_ids env t = parse_tokens env (sort (map pol_wallet_id (policies t)))"

definition subject_declares_operation_class :: "auth_env \<Rightarrow> tables \<Rightarrow> ApprovalSubject \<Rightarrow> string \<Rightarrow> AuthorityError + bool" where
  "subject_declares_operation_class env t subject c =
     map_ok (\<lambda>r. list_ex (\<lambda>entry. po_operation_class entry = c) (pr_operation_classes r)) (catalog_provenance env t (subject_for subject))"


definition install_initial_policy :: "auth_env \<Rightarrow> SignedPolicySnapshot \<Rightarrow> unit am" where
  "install_initial_policy env snapshot = install_initial_policy_correlated env snapshot no_correlation"

definition wallet_epoch :: "auth_env \<Rightarrow> tables \<Rightarrow> Token \<Rightarrow> AuthorityError + u64" where
  "wallet_epoch env t wallet_id = local_epoch env t wallet_id"

definition policy_verification_key :: "authority \<Rightarrow> Token \<Rightarrow> AuthorityError + (Token \<times> bytes)" where
  "policy_verification_key a wallet_id = ok_or (ba_policy_keys a wallet_id) (denied ''POLICY_KEY_UNKNOWN'' ''wallet policy key is not pinned'')"

text \<open>When the store is opened, the keys of the stored policies are pinned in the order of the wallets.\<close>

fun enroll_stored_keys :: "auth_env \<Rightarrow> policy_row list \<Rightarrow> (string \<rightharpoonup> Token \<times> bytes) \<Rightarrow> AuthorityError + (string \<rightharpoonup> Token \<times> bytes)" where
  "enroll_stored_keys env [] keys = Inr keys"
| "enroll_stored_keys env (row # rest) keys =
     and_then (map_err AuthorityStorage (ae_snapshot_from_str env (pol_snapshot_jcs row))) (\<lambda>snapshot.
     and_then (enroll_policy_key_from_snapshot env snapshot keys) (enroll_stored_keys env rest))"

definition pinned_keys :: "auth_env \<Rightarrow> tables \<Rightarrow> (string \<rightharpoonup> Token \<times> bytes) \<Rightarrow> AuthorityError + (string \<rightharpoonup> Token \<times> bytes)" where
  "pinned_keys env t = enroll_stored_keys env (sort_key pol_wallet_id (policies t))"

end
