(* ===== verification/Allocation.thy ===== *)
theory Allocation
  imports AuthorityCustody
begin

text \<open>
  What the authority adopts as allocated accounts (\<open>adopt_account_allocation\<close> of \<open>bloom-broker/src/authority.rs\<close>): the theorem of the
  theory says that they are the requested accounts, at the one path that each profile has for the allocated number.
\<close>

section \<open>The path of an account\<close>

fun account_path :: "DerivationProfile \<Rightarrow> nat \<Rightarrow> string" where
  "account_path Bip44EvmSecp256k1V1 n = EVM_PREFIX @ decimal n"
| "account_path Bip44SolanaSlip10Ed25519V1 n = SOLANA_PREFIX @ decimal n @ SOLANA_SUFFIX"

lemma strip_suffix_Some: "strip_suffix p s = Some r \<longleftrightarrow> s = r @ p"
  by (auto simp: strip_suffix_def) (metis append_take_drop_id)

lemma canonical_index_decimal:
  assumes "is_canonical_index s" and "unsigned_from_str 32 s = Some n"
  shows "s = decimal n"
proof -
  have digits: "list_all is_digit s" "s \<noteq> []" and zero: "\<not> (1 < length s \<and> hd s = CHR ''0'')"
    using assms(1) by (auto simp: is_canonical_index_def split: if_splits)
  then have "hd s \<noteq> CHR ''+''" by (cases s) (auto simp: is_digit_def)
  then have "digits_value s 0 = Some n" using assms(2) by (auto simp: unsigned_from_str_def Let_def split: option.splits if_splits)
  then show ?thesis using canonical_digits [OF digits(2), of n] zero digits(2) by (cases s) auto
qed

lemma evm_path:
  assumes "path_matches_committed_account Bip44EvmSecp256k1V1 path None" and "committed_path_number Bip44EvmSecp256k1V1 path = Some n"
  shows "path = account_path Bip44EvmSecp256k1V1 n"
proof -
  obtain digits where path: "path = EVM_PREFIX @ digits" and n: "unsigned_from_str 32 digits = Some n"
    using assms(2) by (auto simp: committed_path_number_def strip_prefix_Some bind_eq_Some_conv)
  obtain q qs where q: "split_on CHR ''/'' digits = q # qs" using split_on_Cons by blast
  have segments: "split_on CHR ''/'' path = [''m'', ''44'' @ prime, ''60'' @ prime, ''0'' @ prime, ''0''] @ q # qs"
    using split_on_parts [OF q] by (simp add: split_on_iff path EVM_PREFIX_def prime_def del: split_on.simps)
  have template: "split_on CHR ''/'' (path_template Bip44EvmSecp256k1V1)
      = [''m'', ''44'' @ prime, ''60'' @ prime, ''<account>'' @ prime, ''0'', ''<index>'']"
    by (simp add: split_on_iff prime_def del: split_on.simps)
  have "list_all2 (segment_matches (Some 0)) (split_on CHR ''/'' path) (split_on CHR ''/'' (path_template Bip44EvmSecp256k1V1))"
    using assms(1) unfolding path_matches_committed_account_def Let_def by (simp only: option.case DerivationProfile.case simp_thms)
  then have "list_all2 (segment_matches (Some 0)) (q # qs) [''<index>'']"
    unfolding segments template by (simp only: append.simps list_all2_Cons simp_thms)
  then have "qs = []" and index: "segment_matches (Some 0) q ''<index>''"
    by (simp_all only: list_all2_Cons list_all2_Nil2)
  then have "digits = q" using split_on_parts [OF q] by simp
  moreover have "is_canonical_index q" using index unfolding segment_matches_def by (simp split: if_splits)
  ultimately show ?thesis using n canonical_index_decimal path by simp
qed

lemma solana_path:
  assumes "path_matches_committed_account Bip44SolanaSlip10Ed25519V1 path None" and "committed_path_number Bip44SolanaSlip10Ed25519V1 path = Some n"
  shows "path = account_path Bip44SolanaSlip10Ed25519V1 n"
proof -
  obtain digits where path: "path = SOLANA_PREFIX @ digits @ SOLANA_SUFFIX" and n: "unsigned_from_str 32 digits = Some n"
    using assms(2) by (auto simp: committed_path_number_def strip_prefix_Some strip_suffix_Some bind_eq_Some_conv)
  obtain q qs where q: "split_on CHR ''/'' (digits @ SOLANA_SUFFIX) = q # qs" using split_on_Cons by blast
  have segments: "split_on CHR ''/'' path = [''m'', ''44'' @ prime, ''501'' @ prime] @ q # qs"
    using split_on_parts [OF q] by (simp add: split_on_iff path SOLANA_PREFIX_def prime_def del: split_on.simps)
  have template: "split_on CHR ''/'' (path_template Bip44SolanaSlip10Ed25519V1)
      = [''m'', ''44'' @ prime, ''501'' @ prime, ''<account>'' @ prime, ''0'' @ prime]"
    by (simp add: split_on_iff prime_def del: split_on.simps)
  have "list_all2 (segment_matches None) (split_on CHR ''/'' path) (split_on CHR ''/'' (path_template Bip44SolanaSlip10Ed25519V1))"
    using assms(1) unfolding path_matches_committed_account_def Let_def by (simp only: option.case DerivationProfile.case simp_thms)
  then have "list_all2 (segment_matches None) (q # qs) [''<account>'' @ prime, ''0'' @ prime]"
    unfolding segments template by (simp only: append.simps list_all2_Cons simp_thms)
  then obtain z where account: "segment_matches None q (''<account>'' @ prime)" and z: "segment_matches None z (''0'' @ prime)" "qs = [z]"
    by (auto simp: list_all2_Cons2)
  have hardened: "is_canonical_hardened_index q" using account by (simp add: segment_matches_def)
  have "z = ''0'' @ prime" using z(1) by (simp add: segment_matches_def)
  with z(2) split_on_parts [OF q] have "digits @ SOLANA_SUFFIX = q @ ''/0'' @ prime" by simp
  then have "q = digits @ prime" by (simp add: SOLANA_SUFFIX_def)
  then have "is_canonical_index digits"
    using hardened by (auto simp: is_canonical_hardened_index_def strip_suffix_Some split: option.splits)
  then show ?thesis using n canonical_index_decimal path by simp
qed

lemma committed_path:
  "path_matches_committed_account profile path None \<Longrightarrow> committed_path_number profile path = Some n \<Longrightarrow> path = account_path profile n"
  using evm_path solana_path by (cases profile) blast+

lemma committed_number_bound: "committed_path_number profile path = Some n \<Longrightarrow> n < 2 ^ 32"
  by (auto simp: committed_path_number_def bind_eq_Some_conv unsigned_from_str_def Let_def split: option.splits if_splits)

section \<open>Children\<close>

definition child_of :: "Token \<Rightarrow> DerivationProfile \<times> KeyRef \<times> string \<Rightarrow> bool" where
  "child_of wallet_id = (\<lambda>(profile, child, path). kr_derivation child = Some (Bip39Multicurve wallet_id profile path))"

lemma children_by_profile_Inr:
  assumes "children_by_profile wallet_id children found = Inr found'" and "list_all (child_of wallet_id) found"
  shows "list_all (child_of wallet_id) found' \<and> map (fst \<circ> snd) found' = map (fst \<circ> snd) found @ children"
  using assms
proof (induction children arbitrary: found)
  case (Cons child children)
  obtain profile path where d: "kr_derivation child = Some (Bip39Multicurve wallet_id profile path)"
    and rest: "children_by_profile wallet_id children (found @ [(profile, child, path)]) = Inr found'"
    using Cons.prems(1) by (auto split: option.splits DerivationRef.splits if_splits)
  have "list_all (child_of wallet_id) (found @ [(profile, child, path)])" using Cons.prems(2) d by (simp add: child_of_def)
  from Cons.IH [OF rest this] show ?case by simp
qed simp

text \<open>An adopted child is one of the receipt, for the request, at the path of its number.\<close>

definition adopted_as :: "Token \<Rightarrow> KeyRef list \<Rightarrow> DerivedAccountRequest \<Rightarrow> KeyRef \<times> nat \<Rightarrow> bool" where
  "adopted_as wallet_id children request = (\<lambda>(child, n). child \<in> set children \<and> n < 2 ^ 32
     \<and> kr_key_spec child = profile_key_spec (dr_derivation_profile request)
     \<and> kr_derivation child = Some (Bip39Multicurve wallet_id (dr_derivation_profile request) (account_path (dr_derivation_profile request) n)))"

lemma adopted_children_Inr:
  assumes "adopted_children found requests = Inr adopted" and "list_all (child_of wallet_id) found"
    and "map (fst \<circ> snd) found = children" and "list_all (\<lambda>r. dr_account r = None) requests"
  shows "list_all2 (adopted_as wallet_id children) requests adopted"
  using assms(1,4)
proof (induction requests arbitrary: adopted)
  case (Cons request requests)
  let ?p = "dr_derivation_profile request"
  obtain child path where child: "map_of found ?p = Some (child, path)"
    using Cons.prems(1) by (cases "map_of found ?p") (auto simp: Let_def)
  obtain n rest where shape: "kr_key_spec child = profile_key_spec ?p" "path_matches_committed_account ?p path None"
    and n: "committed_path_number ?p path = Some n" and rest: "adopted_children found requests = Inr rest" and "adopted = (child, n) # rest"
    using Cons.prems child by (auto simp: Let_def and_then_eq_Inr ok_or_def split: if_splits option.splits)
  moreover have "kr_derivation child = Some (Bip39Multicurve wallet_id ?p path)" and "child \<in> set children"
    using map_of_SomeD [OF child] assms(2,3) by (force simp: list_all_iff child_of_def)+
  moreover have "list_all2 (adopted_as wallet_id children) requests rest" using Cons rest by simp
  moreover have "path = account_path ?p n" "n < 2 ^ 32" using committed_path [OF shape(2) n] committed_number_bound [OF n] .
  ultimately have "adopted_as wallet_id children request (child, n)" by (simp add: adopted_as_def)
  with \<open>adopted = (child, n) # rest\<close> \<open>list_all2 (adopted_as wallet_id children) requests rest\<close> show ?case by simp
qed simp

lemma adopted_distinct:
  assumes "list_all2 (adopted_as wallet_id children) requests adopted" and "distinct (map dr_derivation_profile requests)"
  shows "distinct (map fst adopted)"
  using assms
proof (induction rule: list_all2_induct)
  case (Cons request requests entry adopted)
  have "fst entry \<notin> fst ` set adopted"
  proof
    assume "fst entry \<in> fst ` set adopted"
    then obtain other where other: "other \<in> set adopted" "fst other = fst entry" by force
    then obtain r where "r \<in> set requests" "adopted_as wallet_id children r other"
      using Cons.hyps(2) by (metis in_set_conv_nth list_all2_conv_all_nth)
    with other Cons.hyps(1) have "dr_derivation_profile r = dr_derivation_profile request"
      by (auto simp: adopted_as_def split: prod.splits)
    moreover have "dr_derivation_profile request \<notin> dr_derivation_profile ` set requests" using Cons.prems by simp
    ultimately show False using \<open>r \<in> set requests\<close> by (metis imageI)
  qed
  with Cons show ?case by simp
qed simp

lemma adopted_all:
  assumes "distinct (map fst adopted)" and "set (map fst adopted) \<subseteq> set children" and "length children = length adopted"
  shows "set (map fst adopted) = set children"
proof (rule card_subset_eq)
  have "card (set (map fst adopted)) = length adopted" using distinct_card [OF assms(1)] by simp
  moreover have "card (set children) \<le> length adopted" using card_length [of children] assms(3) by simp
  moreover have "card (set (map fst adopted)) \<le> card (set children)" using assms(2) by (rule card_mono [OF finite_set])
  ultimately show "card (set (map fst adopted)) = card (set children)" by simp
qed (use assms in auto)

section \<open>What an allocation adopts\<close>

text \<open>C37. An allocation adopts exactly what was committed: for valid terms of an allocation, a receipt that passes the checks carries
for each committed request one child of the wallet, in the order of the requests and no others, with the key type of the requested profile
and at the one path that the profile has for the account number, and all children have the same number.\<close>

theorem allocations_are_as_committed:
  assumes "validate_account_terms terms = Inr ()" and "check_allocation receipt terms = Inr adopted"
  shows "cr_wallet_id receipt = Some (tt_wallet_id terms) \<and> set (map fst adopted) = set (cr_public_key_refs receipt)
    \<and> length (cr_public_key_refs receipt) = length (tt_derivations terms)
    \<and> (\<exists>number < 2 ^ 32. list_all2 (\<lambda>request (child, n). n = number \<and> kr_key_spec child = profile_key_spec (dr_derivation_profile request)
        \<and> kr_derivation child = Some (Bip39Multicurve (tt_wallet_id terms) (dr_derivation_profile request)
            (account_path (dr_derivation_profile request) number))) (tt_derivations terms) adopted)"
proof -
  let ?w = "tt_wallet_id terms" and ?rs = "tt_derivations terms" and ?cs = "cr_public_key_refs receipt"
  have ne: "?rs \<noteq> []" and wallet: "cr_wallet_id receipt = Some ?w" and len: "length ?cs = length ?rs"
    using assms(2) by (auto simp: check_allocation_def split: if_splits)
  obtain found where found: "children_by_profile ?w ?cs [] = Inr found" and ad: "adopted_children found ?rs = Inr adopted"
    and same: "1 < length adopted \<longrightarrow> list_all (\<lambda>(_, number). number = snd (adopted ! 0)) adopted"
    using assms(2) by (auto simp: check_allocation_def and_then_eq_Inr split: if_splits)
  have requests: "distinct (map dr_derivation_profile ?rs)" "list_all (\<lambda>r. dr_account r = None) ?rs"
    using assms(1) ne by (auto simp: validate_account_terms_def and_then_eq_Inr validate_derivation_requests_Inr split: if_splits)
  have children: "list_all (child_of ?w) found" "map (fst \<circ> snd) found = ?cs" using children_by_profile_Inr [OF found] by simp_all
  have all: "list_all2 (adopted_as ?w ?cs) ?rs adopted" using adopted_children_Inr [OF ad children requests(2)] .
  then have lens: "length adopted = length ?rs" by (simp add: list_all2_lengthD)
  have sub: "set (map fst adopted) \<subseteq> set ?cs"
    using all by (induction rule: list_all2_induct) (auto simp: adopted_as_def)
  have set: "set (map fst adopted) = set ?cs"
    using adopted_all [OF adopted_distinct [OF all requests(1)] sub] len lens by simp
  obtain first rest where a: "adopted = first # rest" using ne lens by (cases adopted) auto
  have "list_all (\<lambda>e. snd e = snd first) adopted"
    using same a by (cases rest) (auto simp: list_all_iff)
  then have "list_all2 (\<lambda>request e. adopted_as ?w ?cs request e \<and> snd e = snd first) ?rs adopted"
    using all by (auto simp: list_all2_conv_all_nth list_all_length)
  then have "list_all2 (\<lambda>request (child, n). n = snd first \<and> kr_key_spec child = profile_key_spec (dr_derivation_profile request)
      \<and> kr_derivation child = Some (Bip39Multicurve ?w (dr_derivation_profile request) (account_path (dr_derivation_profile request) (snd first)))) ?rs adopted"
    by (rule list_all2_mono) (auto simp: adopted_as_def)
  moreover have "snd first < 2 ^ 32" using all a by (cases ?rs) (auto simp: adopted_as_def)
  ultimately show ?thesis using wallet len set by blast
qed

definition sample_child :: KeyRef where
  "sample_child = \<lparr>kr_backend = ''local'', kr_backend_instance = ''local'', kr_locator = ''sol'', kr_key_spec = Ed25519,
     kr_public_key_fingerprint = ''f'',
     kr_derivation = Some (Bip39Multicurve ''wallet'' Bip44SolanaSlip10Ed25519V1 (account_path Bip44SolanaSlip10Ed25519V1 3))\<rparr>"

definition allocation_receipt :: CustodyResult where
  "allocation_receipt = \<lparr>cr_surface = None, cr_credential_authority_generation = None, cr_ceremony_kind = CK_AccountAllocate,
     cr_custody_operation_id = ''op'', cr_public_status = CS_Succeeded, cr_wallet_id = Some ''wallet'', cr_public_key_refs = [sample_child],
     cr_credential_summaries = [], cr_initial_policy = None, cr_receipt_digest = ''r'', cr_encrypted_browser_result = None,
     cr_signer_key_id = ''ceremony'', cr_signer_signature = []\<rparr>"

lemma sample_path:
  "path_matches_committed_account Bip44SolanaSlip10Ed25519V1 (account_path Bip44SolanaSlip10Ed25519V1 3) None"
  "committed_path_number Bip44SolanaSlip10Ed25519V1 (account_path Bip44SolanaSlip10Ed25519V1 3) = Some 3"
proof -
  have three: "decimal 3 = ''3''" by code_simp
  have path: "split_on CHR ''/'' (account_path Bip44SolanaSlip10Ed25519V1 3) = [''m'', ''44'' @ prime, ''501'' @ prime, ''3'' @ prime, ''0'' @ prime]"
    by (simp add: split_on_iff three SOLANA_PREFIX_def SOLANA_SUFFIX_def prime_def del: split_on.simps)
  have template: "split_on CHR ''/'' (path_template Bip44SolanaSlip10Ed25519V1)
      = [''m'', ''44'' @ prime, ''501'' @ prime, ''<account>'' @ prime, ''0'' @ prime]"
    by (simp add: split_on_iff prime_def del: split_on.simps)
  have n: "unsigned_from_str 32 ''3'' = Some 3" by (simp add: unsigned_from_str_def Let_def)
  have "strip_suffix prime (''3'' @ prime) = Some ''3''" by (simp add: strip_suffix_Some)
  then have "is_canonical_hardened_index (''3'' @ prime)"
    using n by (simp add: is_canonical_hardened_index_def is_canonical_index_def is_digit_def)
  then have "segment_matches None (''3'' @ prime) (''<account>'' @ prime)" by (simp add: segment_matches_def)
  then show "path_matches_committed_account Bip44SolanaSlip10Ed25519V1 (account_path Bip44SolanaSlip10Ed25519V1 3) None"
    unfolding path_matches_committed_account_def Let_def path template by (simp add: segment_matches_def prime_def)
  have "strip_prefix SOLANA_PREFIX (account_path Bip44SolanaSlip10Ed25519V1 3) = Some (''3'' @ SOLANA_SUFFIX)"
    "strip_suffix SOLANA_SUFFIX (''3'' @ SOLANA_SUFFIX) = Some ''3''"
    by (simp_all add: strip_prefix_Some strip_suffix_Some three)
  then show "committed_path_number Bip44SolanaSlip10Ed25519V1 (account_path Bip44SolanaSlip10Ed25519V1 3) = Some 3"
    using n by (simp add: committed_path_number_def del: account_path.simps)
qed

theorem allocations_are_as_committed_witness:
  "check_allocation allocation_receipt sample_account_terms = Inr [(sample_child, 3)]
    \<and> set (map fst [(sample_child, 3 :: nat)]) = set (cr_public_key_refs allocation_receipt)"
proof -
  have "validate_account_terms sample_account_terms = Inr ()"
    by (simp add: sample_account_terms_def validate_account_terms_def validate_derivation_requests_def anchor_request_def is_evm_request_def
        frozen_shape_def)
  moreover have "check_allocation allocation_receipt sample_account_terms = Inr [(sample_child, 3)]"
  proof -
    define path where "path = account_path Bip44SolanaSlip10Ed25519V1 3"
    have child: "kr_derivation sample_child = Some (Bip39Multicurve ''wallet'' Bip44SolanaSlip10Ed25519V1 path)"
      "kr_key_spec sample_child = profile_key_spec Bip44SolanaSlip10Ed25519V1"
      by (simp_all only: sample_child_def KeyRef.simps profile_key_spec.simps path_def)
    note path = sample_path [folded path_def]
    show ?thesis
      by (simp add: check_allocation_def allocation_receipt_def sample_account_terms_def child path ok_or_def Let_def)
  qed
  ultimately show ?thesis using allocations_are_as_committed by blast
qed

end
