(* ===== verification/AuthorityOrder.thy ===== *)
theory AuthorityOrder
  imports AuthorityCustody
begin

text \<open>
  What the operations of the authority keep, along every sequence of them: the restrictions it has accepted
  (tombstones, revocation epochs, policy versions, stopped keys) only tighten, the audit chain that it shares with the journal
  stays verified, and no table changes without a new audit entry. A signed receipt of a deletion removes the policy of its wallet, and a use
  of the mutation quota changes the row of its caller: the order on tables has what is kept as a parameter.
\<close>

section \<open>Sequences of calls\<close>

datatype authority_call =
    CallPrepare SealedApprovalTerms Digest32 "Digest32 option"
  | CallActivate CeremonyApprovalGrant u64
  | CallAuthorize AuthorizationInput bool
  | CallQuota string u64 u64 u64
  | CallReconcile RevocationState "ApprovalTombstone list"
  | CallAdvance Token u64 u64
  | CallRevoke Digest32
  | CallInstallPolicy SignedPolicySnapshot PolicyInstallCorrelation
  | CallInitialPolicy SignedPolicySnapshot PolicyInstallCorrelation
  | CallInstallProvenance ProvenanceRecord
  | CallSynchronize ProvenanceCatalog
  | CallStopKey Token KeyRef string u64
  | CallSignerReceipt SignerActivationReceipt u64
  | CallCustody CustodyResult u64
  | CallAccountTerms AccountTerms u64
  | CallKeyScope PetalKeyScope
  | CallAdmitRevocation RevokeForKeyRequest u64
  | CallJournal request

text \<open>The state after a call, whatever it returned.\<close>

fun perform :: "auth_env \<Rightarrow> authority_call \<Rightarrow> authority \<Rightarrow> authority" where
  "perform env (CallPrepare terms digest claim) a = fst (prepare_approval_with_claim env terms digest claim a)"
| "perform env (CallActivate grant now_ms) a = fst (activate_approval env grant now_ms a)"
| "perform env (CallAuthorize input guard) a = fst (authorize_for_clock_profile env input guard a)"
| "perform env (CallQuota caller now_ms window_ms maximum) a = fst (consume_mutation_quota env caller now_ms window_ms maximum a)"
| "perform env (CallReconcile state tombstones) a = fst (reconcile_revocation env state tombstones a)"
| "perform env (CallAdvance wallet_id expected next) a = fst (advance_local_epoch env wallet_id expected next a)"
| "perform env (CallRevoke approval) a = fst (revoke_local_approval env approval a)"
| "perform env (CallInstallPolicy snapshot correlation) a = fst (install_policy_with_correlation env snapshot correlation a)"
| "perform env (CallInitialPolicy snapshot correlation) a = fst (install_initial_policy_correlated env snapshot correlation a)"
| "perform env (CallInstallProvenance r) a = fst (install_provenance env r a)"
| "perform env (CallSynchronize catalog) a = fst (synchronize_provenance_catalog env catalog a)"
| "perform env (CallStopKey wallet_id key_ref operation_id at) a = fst (stop_key env wallet_id key_ref operation_id at a)"
| "perform env (CallSignerReceipt receipt now_ms) a = fst (activate_signer_receipt env receipt now_ms a)"
| "perform env (CallCustody receipt now_ms) a = fst (adopt_custody_receipt env receipt now_ms a)"
| "perform env (CallAccountTerms terms now_ms) a = fst (record_account_terms env terms now_ms a)"
| "perform env (CallKeyScope scope) a = fst (prepare_petal_key_scope env scope a)"
| "perform env (CallAdmitRevocation request at) a = fst (admit_key_revocation env request at a)"
| "perform env (CallJournal r) a = a\<lparr>ba_journal := fst (call (ae_journal env) r (ba_journal a))\<rparr>"

definition run_calls :: "auth_env \<Rightarrow> authority_call list \<Rightarrow> authority \<Rightarrow> authority" where
  "run_calls env calls a = fold (perform env) calls a"

section \<open>Rows\<close>

lemma select_upsert: "select key k (upsert key row rows) = (if key row = k then Some row else select key k rows)"
proof -
  have "find (\<lambda>r. key r = k) (map (\<lambda>r. if key r = key row then row else r) rows)
      = (if key row = k \<and> (\<exists>r \<in> set rows. key r = k) then Some row else find (\<lambda>r. key r = k) rows)"
    by (induction rows) auto
  moreover have "(\<And>r. r \<in> set rows \<Longrightarrow> key r \<noteq> key row) \<Longrightarrow> find (\<lambda>r. key r = key row) rows = None"
    by (simp add: find_None_iff)
  ultimately show ?thesis
    by (auto simp: select_def upsert_def list_ex_iff find_append split: option.split)
qed

lemma select_append: "select key k (xs @ ys) = (case select key k xs of None \<Rightarrow> select key k ys | Some r \<Rightarrow> Some r)"
  unfolding select_def by (rule find_append)

lemma select_single [simp]: "select key k [r] = (if key r = k then Some r else None)" "select key k [] = None"
  by (simp_all add: select_def)

lemma parse_number_text [simp]: "parse_number env (u64_to_string n) = Inr n"
  by (simp add: parse_number_def ok_or_def)

section \<open>Restrictions only tighten\<close>

definition epochs_rise :: "auth_env \<Rightarrow> tables \<Rightarrow> tables \<Rightarrow> bool" where
  "epochs_rise env t t' \<longleftrightarrow> (\<forall>w e. local_epoch env t w = Inr e \<longrightarrow> (\<exists>e'. local_epoch env t' w = Inr e' \<and> e \<le> e'))"

definition versions_rise :: "(Token \<Rightarrow> bool) \<Rightarrow> auth_env \<Rightarrow> tables \<Rightarrow> tables \<Rightarrow> bool" where
  "versions_rise keep env t t' \<longleftrightarrow> (\<forall>w v s. keep w \<longrightarrow> stored_policy env t w = Inr (Some (v, s)) \<longrightarrow>
     (\<exists>v' s'. stored_policy env t' w = Inr (Some (v', s')) \<and> (v < v' \<or> v' = v \<and> s' = s)))"

definition key_stopped :: "tables \<Rightarrow> Token \<Rightarrow> string \<Rightarrow> bool" where
  "key_stopped t wallet_id key_ref_jcs \<longleftrightarrow> select (\<lambda>r. (ks_wallet_id r, ks_key_ref r)) (wallet_id, key_ref_jcs) (key_stops t) \<noteq> None"

text \<open>What a sequence of calls may be required to keep: the policy of a wallet from being deleted, the quota of a caller from being used.\<close>

datatype kept = PolicyOf Token | QuotaOf string

definition tighter :: "(kept \<Rightarrow> bool) \<Rightarrow> auth_env \<Rightarrow> tables \<Rightarrow> tables \<Rightarrow> bool" where
  "tighter keep env t t' \<longleftrightarrow> (\<forall>x. is_tombstoned t x \<longrightarrow> is_tombstoned t' x) \<and> (\<forall>w k. key_stopped t w k \<longrightarrow> key_stopped t' w k)
     \<and> epochs_rise env t t' \<and> versions_rise (\<lambda>w. keep (PolicyOf w)) env t t'
     \<and> (\<forall>c. keep (QuotaOf c) \<longrightarrow> select mq_principal c (mutation_quota t') = select mq_principal c (mutation_quota t))"

lemma tighter_refl [simp]: "tighter keep env t t"
  by (auto simp: tighter_def epochs_rise_def versions_rise_def)

lemma epochs_rise_trans: "epochs_rise env t t' \<Longrightarrow> epochs_rise env t' u \<Longrightarrow> epochs_rise env t u"
  unfolding epochs_rise_def by (meson order_trans)

lemma versions_rise_trans: "versions_rise keep env t t' \<Longrightarrow> versions_rise keep env t' u \<Longrightarrow> versions_rise keep env t u"
proof (unfold versions_rise_def, intro allI impI)
  fix w v s
  assume first: "\<forall>w v s. keep w \<longrightarrow> stored_policy env t w = Inr (Some (v, s)) \<longrightarrow>
      (\<exists>v' s'. stored_policy env t' w = Inr (Some (v', s')) \<and> (v < v' \<or> v' = v \<and> s' = s))"
    and second: "\<forall>w v s. keep w \<longrightarrow> stored_policy env t' w = Inr (Some (v, s)) \<longrightarrow>
      (\<exists>v' s'. stored_policy env u w = Inr (Some (v', s')) \<and> (v < v' \<or> v' = v \<and> s' = s))"
    and "keep w" and "stored_policy env t w = Inr (Some (v, s))"
  then obtain v1 s1 where v1: "stored_policy env t' w = Inr (Some (v1, s1))" "v < v1 \<or> v1 = v \<and> s1 = s" by blast
  with second \<open>keep w\<close> obtain v2 s2 where v2: "stored_policy env u w = Inr (Some (v2, s2))" "v1 < v2 \<or> v2 = v1 \<and> s2 = s1" by blast
  from v1(2) v2(2) have "v < v2 \<or> v2 = v \<and> s2 = s" by (auto intro: order.strict_trans)
  with v2(1) show "\<exists>v' s'. stored_policy env u w = Inr (Some (v', s')) \<and> (v < v' \<or> v' = v \<and> s' = s)" by blast
qed

lemma tighter_trans: "tighter keep env t t' \<Longrightarrow> tighter keep env t' u \<Longrightarrow> tighter keep env t u"
  by (auto simp: tighter_def intro: epochs_rise_trans versions_rise_trans)

text \<open>A plan that leaves the restricting tables alone.\<close>

lemma tighterI:
  assumes "signer_approval_tombstones t' = signer_approval_tombstones t" and "key_stops t' = key_stops t"
    and "epochs_rise env t t'" and "versions_rise (\<lambda>w. keep (PolicyOf w)) env t t'" and "mutation_quota t' = mutation_quota t"
  shows "tighter keep env t t'"
  using assms by (simp add: tighter_def is_tombstoned_def key_stopped_def)

lemma epochs_same: "wallet_epochs t' = wallet_epochs t \<Longrightarrow> epochs_rise env t t'"
  by (simp add: epochs_rise_def local_epoch_def epoch_state_def)

lemma versions_same: "policies t' = policies t \<Longrightarrow> versions_rise keep env t t'"
  by (auto simp: versions_rise_def stored_policy_def)

text \<open>An entry of the audit chain that is not about the keys of the chain and has no correlation data.\<close>

definition plain_entry :: "string \<Rightarrow> json \<Rightarrow> bool" where
  "plain_entry event_type payload \<longleftrightarrow> event_type \<noteq> ''audit.key_rotated'' \<and> event_type \<noteq> ''audit.key_rotation_completed''
     \<and> json_get payload ''correlation_schema'' = None"

lemma plain_entry_object [simp]:
  "plain_entry event_type (json_object entries) \<longleftrightarrow> event_type \<noteq> ''audit.key_rotated'' \<and> event_type \<noteq> ''audit.key_rotation_completed''
     \<and> map_of entries ''correlation_schema'' = None"
  by (simp add: plain_entry_def)

definition plan_tightens :: "(kept \<Rightarrow> bool) \<Rightarrow> auth_env \<Rightarrow> 'a plan \<Rightarrow> tables \<Rightarrow> bool" where
  "plan_tightens keep env p t \<longleftrightarrow> (case p of Apply t' n event_type payload x \<Rightarrow> tighter keep env t t' \<and> plain_entry event_type payload | _ \<Rightarrow> True)"

lemma plan_tightens_simps [simp]:
  "plan_tightens keep env (Refuse n e) t" "plan_tightens keep env (Drop x) t"
  "plan_tightens keep env (Apply t' n event_type payload x) t \<longleftrightarrow> tighter keep env t t' \<and> plain_entry event_type payload"
  by (simp_all add: plan_tightens_def)

lemma plan_of_tightens: "(\<And>p. r = Inr p \<Longrightarrow> plan_tightens keep env p t) \<Longrightarrow> plan_tightens keep env (plan_of r) t"
  by (cases r) simp_all

section \<open>The plans tighten\<close>

lemma quota_plan_tightens: "\<not> keep (QuotaOf caller) \<Longrightarrow> plan_tightens keep env (quota_plan env caller now_ms window_ms maximum t) t"
  unfolding quota_plan_def
  by (rule plan_of_tightens)
     (auto simp: and_then_eq_Inr tighter_def is_tombstoned_def key_stopped_def epochs_same versions_same select_upsert split: if_splits)

lemma local_epoch_upsert:
  "local_epoch env (t\<lparr>wallet_epochs := upsert ep_wallet_id \<lparr>ep_wallet_id = w, ep_epoch = u64_to_string e, ep_reconciled = b\<rparr> (wallet_epochs t)\<rparr>) v
   = (if v = w then Inr e else local_epoch env t v)"
  by (simp add: local_epoch_def epoch_state_def select_upsert map_ok_def)

lemma upsert_epoch_tightens:
  assumes "local_epoch env t w = Inr e0" and "e0 \<le> e"
  shows "tighter keep env t (t\<lparr>wallet_epochs := upsert ep_wallet_id \<lparr>ep_wallet_id = w, ep_epoch = u64_to_string e, ep_reconciled = b\<rparr> (wallet_epochs t)\<rparr>)"
  using assms by (intro tighterI versions_same) (auto simp: epochs_rise_def local_epoch_upsert)

lemma epoch_plan_tightens:
  "local_epoch env t wallet_id = Inr e0 \<Longrightarrow> e0 \<le> epoch \<Longrightarrow> plan_tightens keep env (epoch_plan wallet_id epoch reconciled outcome t) t"
  by (simp add: epoch_plan_def upsert_epoch_tightens)

lemma advance_plan_tightens:
  assumes "expected < next"
  shows "plan_tightens keep env (advance_plan env wallet_id expected next t) t"
  unfolding advance_plan_def
  using assms
  by (intro plan_of_tightens) (auto simp: and_then_eq_Inr ok_or_def local_epoch_def epoch_state_def map_ok_def
      split: if_splits option.splits intro!: upsert_epoch_tightens)

lemma fresh_epoch_rises:
  assumes "select ep_wallet_id w (wallet_epochs t) = None" and "wallet_epochs t' = wallet_epochs t @ [\<lparr>ep_wallet_id = w, ep_epoch = u64_to_string 0, ep_reconciled = b\<rparr>]"
  shows "epochs_rise env t t'"
proof (unfold epochs_rise_def, intro allI impI)
  fix v e assume "local_epoch env t v = Inr e"
  then show "\<exists>e'. local_epoch env t' v = Inr e' \<and> e \<le> e'"
    using assms by (cases "v = w")
      (auto simp: local_epoch_def epoch_state_def map_ok_def select_append split: option.splits)
qed

lemma policy_plan_tightens: "plan_tightens keep env (policy_plan env snapshot snapshot_jcs policy_jcs correlation t) t"
  unfolding policy_plan_def
proof (rule plan_of_tightens)
  fix p
  let ?w = "sp_wallet_id snapshot"
  assume p: "and_then (stored_policy env t ?w) (\<lambda>existing.
      if existing = Some (sp_version snapshot, snapshot_jcs) then Inr (Drop ())
      else if (case existing of Some (version, _) \<Rightarrow> sp_version snapshot \<le> version | None \<Rightarrow> False)
      then Inl (denied ''POLICY_ROLLBACK'' ''policy version must advance monotonically'')
      else
        let fresh = select ep_wallet_id ?w (wallet_epochs t) = None in
        Inr (Apply
          (t\<lparr>policies := upsert pol_wallet_id
               \<lparr>pol_wallet_id = ?w, pol_version = u64_to_string (sp_version snapshot),
                pol_digest = sp_policy_digest snapshot, pol_snapshot_jcs = snapshot_jcs, pol_policy_jcs = policy_jcs\<rparr> (policies t),
             wallet_epochs := wallet_epochs t @ (if fresh then
               [\<lparr>ep_wallet_id = ?w, ep_epoch = ''0'', ep_reconciled = True\<rparr>] else [])\<rparr>)
          (if fresh then 2 else 1) ''policy.installed'' (policy_payload snapshot correlation) ())) = Inr p"
  then obtain existing where ex: "stored_policy env t ?w = Inr existing" by (auto simp: and_then_eq_Inr)
  show "plan_tightens keep env p t"
  proof (cases "existing = Some (sp_version snapshot, snapshot_jcs)")
    case False
    with p ex have rises: "\<And>v s. existing = Some (v, s) \<Longrightarrow> v < sp_version snapshot"
      by (auto split: if_splits)
    define t' where "t' = t\<lparr>policies := upsert pol_wallet_id
               \<lparr>pol_wallet_id = ?w, pol_version = u64_to_string (sp_version snapshot),
                pol_digest = sp_policy_digest snapshot, pol_snapshot_jcs = snapshot_jcs, pol_policy_jcs = policy_jcs\<rparr> (policies t),
             wallet_epochs := wallet_epochs t @ (if select ep_wallet_id ?w (wallet_epochs t) = None then
               [\<lparr>ep_wallet_id = ?w, ep_epoch = ''0'', ep_reconciled = True\<rparr>] else [])\<rparr>"
    have "epochs_rise env t t'"
    proof (cases "select ep_wallet_id ?w (wallet_epochs t) = None")
      case True
      have "''0'' = u64_to_string 0" by code_simp
      with True show ?thesis by (intro fresh_epoch_rises [of ?w _ _ True]) (simp_all add: t'_def)
    qed (simp add: t'_def epochs_same)
    moreover have "versions_rise (\<lambda>w. keep (PolicyOf w)) env t t'"
      using ex rises by (auto simp: versions_rise_def stored_policy_def t'_def select_upsert)
    ultimately have "tighter keep env t t'" by (intro tighterI) (simp_all add: t'_def)
    moreover have "\<exists>n x. p = Apply t' n ''policy.installed'' (policy_payload snapshot correlation) x"
      using p ex False by (auto simp: Let_def t'_def split: if_splits)
    ultimately show ?thesis by (auto simp: policy_payload_def)
  qed (use p ex in auto)
qed

lemma catalog_plan_tightens: "plan_tightens keep env (catalog_plan env catalog rows t) t"
  by (auto simp: catalog_plan_def Let_def split: sum.split intro!: tighterI epochs_same versions_same)

lemma stop_plan_tightens: "plan_tightens keep env (stop_plan wallet_id key_ref_jcs operation_id at t) t"
proof -
  have "epochs_rise env t (t\<lparr>key_stops := rows\<rparr>)" "versions_rise (\<lambda>w. keep (PolicyOf w)) env t (t\<lparr>key_stops := rows\<rparr>)" for rows
    by (simp_all add: epochs_same versions_same)
  then show ?thesis by (auto simp: stop_plan_def tighter_def is_tombstoned_def key_stopped_def select_upsert)
qed

lemma insert_tombstones_keeps:
  assumes "insert_tombstones w incoming tombstones rows n = Inr (rows', n')"
  shows "select tb_approval_id x rows \<noteq> None \<Longrightarrow> select tb_approval_id x rows' \<noteq> None"
    and "x \<in> tm_approval_id ` set tombstones \<Longrightarrow> select tb_approval_id x rows' \<noteq> None"
proof -
  have "(select tb_approval_id x rows \<noteq> None \<longrightarrow> select tb_approval_id x rows' \<noteq> None)
      \<and> (x \<in> tm_approval_id ` set tombstones \<longrightarrow> select tb_approval_id x rows' \<noteq> None)"
    using assms
  proof (induction tombstones arbitrary: rows n)
    case (Cons tombstone rest)
    show ?case
    proof (cases "select tb_approval_id (tm_approval_id tombstone) rows")
      case None
      let ?row = "\<lparr>tb_approval_id = tm_approval_id tombstone, tb_wallet_id = w, tb_tombstone_jcs = the (map_of incoming (tm_approval_id tombstone))\<rparr>"
      have here: "select tb_approval_id (tm_approval_id tombstone) (rows @ [?row]) \<noteq> None"
        using None by (simp add: select_append)
      have keep: "select tb_approval_id x rows \<noteq> None \<Longrightarrow> select tb_approval_id x (rows @ [?row]) \<noteq> None"
        by (auto simp: select_append)
      from Cons.IH [of "rows @ [?row]" "n + 1"] Cons.prems None here keep show ?thesis by (auto simp: Let_def)
    next
      case (Some row)
      with Cons.IH [of rows n] Cons.prems show ?thesis by (auto simp: Let_def split: if_splits)
    qed
  qed simp
  then show "select tb_approval_id x rows \<noteq> None \<Longrightarrow> select tb_approval_id x rows' \<noteq> None"
    "x \<in> tm_approval_id ` set tombstones \<Longrightarrow> select tb_approval_id x rows' \<noteq> None"
    by blast+
qed

lemma tombstones_plan_tightens: "plan_tightens keep env (tombstones_plan env wallet_id tombstones t) t"
proof -
  have "epochs_rise env t (t\<lparr>signer_approval_tombstones := rows\<rparr>)" "versions_rise (\<lambda>w. keep (PolicyOf w)) env t (t\<lparr>signer_approval_tombstones := rows\<rparr>)" for rows
    by (simp_all add: epochs_same versions_same)
  then have "tighter keep env t (t\<lparr>signer_approval_tombstones := rows\<rparr>)"
    if "insert_tombstones wallet_id incoming tombstones (signer_approval_tombstones t) 0 = Inr (rows, n)" for incoming rows n
    using insert_tombstones_keeps(1) [OF that] by (simp add: tighter_def is_tombstoned_def key_stopped_def)
  then show ?thesis
    unfolding tombstones_plan_def
    by (intro plan_of_tightens) (auto simp: and_then_eq_Inr Let_def split: if_splits sum.split)
qed

text \<open>The receipt deletes the projection of a wallet; its policy is the only restriction that goes with it.\<close>

definition deletes :: "CustodyResult \<Rightarrow> Token \<Rightarrow> bool" where
  "deletes receipt w \<longleftrightarrow> cr_ceremony_kind receipt = CK_WalletDelete \<and> cr_wallet_id receipt = Some w"

fun forgets :: "authority_call \<Rightarrow> kept \<Rightarrow> bool" where
  "forgets (CallCustody receipt now_ms) (PolicyOf w) \<longleftrightarrow> deletes receipt w"
| "forgets (CallQuota caller now_ms window_ms maximum) (QuotaOf c) \<longleftrightarrow> c = caller"
| "forgets _ _ \<longleftrightarrow> False"

lemma delete_plan_tightens:
  assumes "\<not> keep (PolicyOf wallet_id)"
  shows "plan_tightens keep env (delete_plan receipt wallet_id now_ms t) t"
proof -
  have rows: "select pol_wallet_id w (filter (\<lambda>r. pol_wallet_id r \<noteq> wallet_id) rows) = select pol_wallet_id w rows" if "w \<noteq> wallet_id" for w rows
    using that by (induction rows) (auto simp: select_def)
  have "stored_policy env (t\<lparr>policies := filter (\<lambda>r. pol_wallet_id r \<noteq> wallet_id) (policies t)\<rparr>) w = stored_policy env t w"
    if "w \<noteq> wallet_id" for w
    using rows [OF that, of "policies t"] by (simp add: stored_policy_def)
  with assms have "versions_rise (\<lambda>w. keep (PolicyOf w)) env t (t\<lparr>policies := filter (\<lambda>r. pol_wallet_id r \<noteq> wallet_id) (policies t)\<rparr>)"
    unfolding versions_rise_def by metis
  then show ?thesis by (auto simp: delete_plan_def Let_def intro!: tighterI epochs_same)
qed

lemma commit_terms_tightens: "plan_tightens keep env (commit_terms_plan terms digest terms_jcs now_ms t) t"
  by (auto simp: commit_terms_plan_def split: option.split intro!: tighterI epochs_same versions_same)

lemma adopt_terms_tightens:
  "plain_entry event_type payload \<Longrightarrow> plan_tightens keep env (adopt_terms_plan env receipt terms now_ms event_type payload t) t"
  by (auto simp: adopt_terms_plan_def Let_def split: sum.split intro!: tighterI epochs_same versions_same)

lemma prepare_scope_tightens: "plan_tightens keep env (prepare_scope_plan scope digest scope_jcs t) t"
  by (auto simp: prepare_scope_plan_def split: option.split intro!: tighterI epochs_same versions_same)

lemma bind_scope_tightens: "plan_tightens keep env (bind_scope_plan receipt pending key_ref_jcs now_ms expires_at_ms t) t"
  by (auto simp: bind_scope_plan_def split: option.split intro!: tighterI epochs_same versions_same)

lemma adopt_scope_tightens: "plan_tightens keep env (adopt_scope_plan env receipt now_ms t) t"
  unfolding adopt_scope_plan_def
  by (auto simp: and_then_eq_Inr bind_scope_tightens split: option.split intro!: plan_of_tightens)

lemma stopped_tables_tighter: "tighter keep env t (stopped_tables request key_ref_jcs stopped_at_ms t)"
  by (auto simp: tighter_def stopped_tables_def is_tombstoned_def key_stopped_def select_upsert epochs_same versions_same)

section \<open>What every call keeps\<close>

definition am_rel :: "(authority \<Rightarrow> authority \<Rightarrow> bool) \<Rightarrow> 'a am \<Rightarrow> authority \<Rightarrow> bool" where
  "am_rel R m a \<longleftrightarrow> R a (fst (m a))"

text \<open>What a plan returns does not matter to the state.\<close>

lemma authority_mutate_unit:
  "fst (authority_mutate env plan a) = fst (authority_mutate env (map_plan (\<lambda>_. ()) \<circ> plan) a)"
  by (auto simp: authority_mutate_def split: prod.split sum.split plan.split)

lemma map_plan_tightens [simp]: "plan_tightens keep env (map_plan f p) t = plan_tightens keep env p t"
  by (cases p) simp_all

text \<open>
  A relation between the states before and after that the elementary steps satisfy: a request that the journal admits, a checkpoint, a
  change of the pinned policy keys, a mutation of the tables whose plan tightens, and the transaction that admits the revocation of
  a key. The policies of the wallets that are kept are not deleted. The requests that the authority sends for
  approvals are admitted, and so is the reservation of a request that passed the checks.
\<close>

locale authority_order =
  fixes keep :: "kept \<Rightarrow> bool" and env :: auth_env and R :: "authority \<Rightarrow> authority \<Rightarrow> bool" and admits :: "authority \<Rightarrow> request \<Rightarrow> bool"
  assumes R_refl: "R a a"
    and R_trans: "R a b \<Longrightarrow> R b c \<Longrightarrow> R a c"
    and R_journal: "admits a r \<Longrightarrow> R a (a\<lparr>ba_journal := fst (call (ae_journal env) r (ba_journal a))\<rparr>)"
    and admits_approvals: "admits a (CreateApprovalRecord approval new)" "admits a (ActivateApprovalRecord approval oid grant)"
      "admits a (TransitionApproval approval state)"
    and admits_authorized: "check_request env input a = Inr (terms, (values, assurance, fee), digest) \<Longrightarrow>
      admits a (Reserve (reservation_request env input digest values) (budget_limits terms) guard)"
    and R_keys: "R a (a\<lparr>ba_policy_keys := keys\<rparr>)"
    and R_mutate: "plan_tightens keep env (plan (ba_tables a)) (ba_tables a) \<Longrightarrow> R a (fst (authority_mutate env (plan :: tables \<Rightarrow> unit plan) a))"
    and R_checkpoint: "R a (a\<lparr>ba_journal := fst (checkpoint_committed_head (ae_journal env) (ba_journal a))\<rparr>)"
    and R_admit: "R a (fst (admit_stop env request digest key_ref_jcs at bound a))"
begin

lemma rel_pure: "am_rel R (am_return x) a" "am_rel R (am_lift res) a" "am_rel R (am_read f) a"
  by (simp_all add: am_rel_def am_return_def am_lift_def am_read_def R_refl)

lemma rel_bind:
  assumes "am_rel R m a" and "\<And>a' x. m a = (a', Inr x) \<Longrightarrow> am_rel R (f x) a'"
  shows "am_rel R (am_bind m f) a"
  using assms by (auto simp: am_rel_def am_bind_def split: prod.split sum.split intro: R_trans)

lemma rel_iter: "(\<And>x a. am_rel R (f x) a) \<Longrightarrow> am_rel R (am_iter f xs) a"
  by (induction xs arbitrary: a) (auto intro: rel_bind rel_pure)

lemma rel_journal:
  assumes "\<And>j. fst (m j) = fst (call (ae_journal env) r j)" and "\<And>a. admits a r"
  shows "am_rel R (am_journal m) a"
  using R_journal [OF assms(2) [of a]] assms(1) [of "ba_journal a"] by (simp add: am_rel_def am_journal_def case_prod_beta)

lemma rel_mutate: "plan_tightens keep env (plan (ba_tables a)) (ba_tables a) \<Longrightarrow> am_rel R (authority_mutate env plan) a"
  using R_mutate [of "map_plan (\<lambda>_. ()) \<circ> plan" a] by (simp add: am_rel_def authority_mutate_unit [of env plan])

lemma rel_transition: "am_rel R (am_journal (transition_approval (ae_journal env) approval state)) a"
  by (rule rel_journal [of _ "TransitionApproval approval state"]) (simp_all add: admits_approvals)

lemma rel_stop_approval: "am_rel R (stop_approval env approval) a"
  unfolding stop_approval_def
  by (intro rel_bind rel_pure) (auto split: option.split ApprovalLifecycleState.split intro: rel_transition rel_pure)

lemma rel_revoke_older: "am_rel R (revoke_older_approvals env wallet_id epoch) a"
  unfolding revoke_older_approvals_def by (intro rel_bind rel_pure rel_iter rel_stop_approval)

lemma rel_advance: "am_rel R (advance_local_epoch env wallet_id expected next) a"
  unfolding advance_local_epoch_def
  by (auto intro!: rel_bind rel_pure rel_mutate rel_revoke_older advance_plan_tightens)

lemma rel_store_epoch:
  "local_epoch env (ba_tables a) wallet_id = Inr e0 \<Longrightarrow> e0 \<le> epoch \<Longrightarrow> am_rel R (store_epoch_reconciliation env wallet_id epoch reconciled outcome) a"
  unfolding store_epoch_reconciliation_def by (rule rel_mutate) (rule epoch_plan_tightens)

lemma rel_settle:
  assumes "local_epoch env (ba_tables a) wallet_id = Inr local"
  shows "am_rel R (if signer < local then
       am_bind (store_epoch_reconciliation env wallet_id local False ''push_local'') (\<lambda>_. am_return PushLocalEpoch)
     else if signer = local then
       am_bind (store_epoch_reconciliation env wallet_id local True ''converged'') (\<lambda>_. am_return Converged)
     else
       am_bind (store_epoch_reconciliation env wallet_id signer True ''adopt_signer'') (\<lambda>_.
       am_bind (revoke_older_approvals env wallet_id signer) (\<lambda>_. am_return AdoptedSignerEpoch))) a"
  using rel_store_epoch [OF assms] by (auto intro!: rel_bind rel_pure rel_revoke_older)

lemma rel_reconcile: "am_rel R (reconcile_revocation env state tombstones) a"
  unfolding reconcile_revocation_def store_signer_tombstones_def Let_def
  by (intro rel_bind rel_pure rel_mutate tombstones_plan_tightens rel_iter rel_stop_approval)
     (rule rel_settle, auto simp: am_read_def)

lemma rel_persist: "am_rel R (persist_verified_policy env snapshot policy correlation) a"
  unfolding persist_verified_policy_def
  by (intro rel_bind rel_pure) (auto intro!: rel_pure rel_mutate policy_plan_tightens)

lemma rel_install: "am_rel R (install_policy_with_correlation env snapshot correlation) a"
  unfolding install_policy_with_correlation_def install_policy_locked_def by (intro rel_bind rel_pure rel_persist)

lemma rel_set_keys: "am_rel R (set_policy_keys keys) a"
  by (simp add: am_rel_def set_policy_keys_def R_keys)

lemma rel_initial: "am_rel R (install_initial_policy_correlated env snapshot correlation) a"
  unfolding install_initial_policy_correlated_def by (auto intro!: rel_bind rel_pure rel_persist rel_set_keys)

lemma rel_provenance: "am_rel R (install_provenance env r) a"
  unfolding install_provenance_def
  by (intro rel_bind rel_pure rel_mutate) (auto intro!: tighterI epochs_same versions_same)

lemma rel_synchronize: "am_rel R (synchronize_provenance_catalog env catalog) a"
  unfolding synchronize_provenance_catalog_def by (intro rel_bind rel_pure rel_mutate catalog_plan_tightens)

lemma rel_stop_key: "am_rel R (stop_key env wallet_id key_ref operation_id at) a"
  unfolding stop_key_def
  by (auto intro!: rel_bind rel_pure rel_mutate stop_plan_tightens rel_iter rel_transition)

lemma rel_quota: "\<not> keep (QuotaOf caller) \<Longrightarrow> am_rel R (consume_mutation_quota env caller now_ms window_ms maximum) a"
  unfolding consume_mutation_quota_def by (auto intro!: rel_pure rel_mutate quota_plan_tightens)

lemma rel_prepare: "am_rel R (prepare_approval_with_claim env terms digest claim) a"
proof -
  have "am_rel R (am_journal (create_approval_record (ae_journal env) approval new)) b" for approval new b
    by (rule rel_journal [of _ "CreateApprovalRecord approval new"]) (simp_all add: admits_approvals)
  then show ?thesis
    unfolding prepare_approval_with_claim_def
    by (auto intro!: rel_bind rel_pure split: option.split)
qed

lemma rel_activate: "am_rel R (activate_approval env grant now_ms) a"
  unfolding activate_approval_def
  by (intro rel_bind rel_pure rel_journal [of _ "ActivateApprovalRecord _ _ _"]) (simp_all add: admits_approvals)

lemma rel_reserve: "admits a (Reserve request limits guard) \<Longrightarrow> am_rel R (reserve_budget env request limits guard fee_asset) a"
  using R_journal [of a "Reserve request limits guard"] by (simp add: am_rel_def reserve_budget_def case_prod_beta)

lemma rel_authorize: "am_rel R (authorize_for_clock_profile env input guard) a"
  unfolding authorize_for_clock_profile_def
  by (intro rel_bind rel_pure) (auto simp: am_read_def intro!: rel_bind rel_pure rel_reserve admits_authorized)

lemma rel_signer_receipt: "am_rel R (activate_signer_receipt env receipt now_ms) a"
  unfolding activate_signer_receipt_def
  by (intro rel_bind rel_pure rel_journal [of _ "ActivateApprovalRecord _ _ _"]) (simp_all add: admits_approvals)

lemma rel_account_terms: "am_rel R (record_account_terms env terms now_ms) a"
  unfolding record_account_terms_def by (intro rel_bind rel_pure rel_mutate commit_terms_tightens)

lemma rel_key_scope: "am_rel R (prepare_petal_key_scope env scope) a"
  unfolding prepare_petal_key_scope_def by (intro rel_bind rel_pure rel_mutate prepare_scope_tightens)

lemma rel_checkpoint: "am_rel R (am_journal (checkpoint_committed_head (ae_journal env))) a"
  by (simp add: am_rel_def am_journal_def R_checkpoint case_prod_beta)

lemma rel_deletion: "(\<And>w. cr_wallet_id receipt = Some w \<Longrightarrow> \<not> keep (PolicyOf w)) \<Longrightarrow> am_rel R (adopt_wallet_deletion env receipt now_ms) a"
  unfolding adopt_wallet_deletion_def
  by (auto split: option.split intro!: rel_bind rel_pure rel_mutate delete_plan_tightens rel_checkpoint)

lemma rel_allocation: "am_rel R (adopt_account_allocation env receipt now_ms) a"
  unfolding adopt_account_allocation_def
  by (intro rel_bind rel_pure) (auto intro!: rel_bind rel_pure rel_mutate adopt_terms_tightens simp: allocation_payload_def)

lemma rel_retirement: "am_rel R (adopt_account_retirement env receipt now_ms) a"
  unfolding adopt_account_retirement_def
  by (intro rel_bind rel_pure) (auto intro!: rel_pure rel_mutate adopt_terms_tightens split: option.split)

lemma rel_custody:
  assumes "\<And>w. deletes receipt w \<Longrightarrow> \<not> keep (PolicyOf w)"
  shows "am_rel R (adopt_custody_receipt env receipt now_ms) a"
proof -
  have "am_rel R (adopt_initial_policy env receipt) b" for b
    unfolding adopt_initial_policy_def by (auto split: option.split intro!: rel_pure rel_initial)
  moreover have "am_rel R (adopt_petal_key_scope env receipt now_ms) b" for b
    unfolding adopt_petal_key_scope_def by (rule rel_mutate) (rule adopt_scope_tightens)
  moreover have "am_rel R (adopt_wallet_deletion env receipt now_ms) b" if "cr_ceremony_kind receipt = CK_WalletDelete" for b
    using assms that by (intro rel_deletion) (auto simp: deletes_def)
  ultimately show ?thesis
    unfolding adopt_custody_receipt_def
    by (intro rel_bind rel_pure) (auto intro!: rel_pure rel_allocation rel_retirement split: CeremonyKind.split)
qed

lemma rel_admit: "am_rel R (admit_key_revocation env request at) a"
proof -
  have "am_rel R (admit_stop env request digest key_ref_jcs at bound) b" for digest key_ref_jcs bound b
    by (simp add: am_rel_def R_admit)
  then show ?thesis
    unfolding admit_key_revocation_def
    by (intro rel_bind rel_pure) (auto intro!: rel_bind rel_pure split: option.split)
qed

lemma perform_rel:
  assumes "\<And>r. c = CallJournal r \<Longrightarrow> admits a r" and "\<And>k. forgets c k \<Longrightarrow> \<not> keep k"
  shows "R a (perform env c a)"
proof (cases c)
  case (CallCustody receipt now_ms)
  with assms(2) show ?thesis using rel_custody [of receipt now_ms a] by (simp add: am_rel_def)
next
  case (CallQuota caller now_ms window_ms maximum)
  with assms(2) show ?thesis using rel_quota [of caller now_ms window_ms maximum a] by (simp add: am_rel_def)
qed (use assms(1) rel_prepare rel_activate rel_authorize rel_reconcile rel_advance rel_stop_approval rel_install rel_initial
    rel_provenance rel_synchronize rel_stop_key rel_signer_receipt rel_account_terms rel_key_scope rel_admit
  in \<open>simp_all add: am_rel_def revoke_local_approval_def R_journal\<close>)

lemma run_rel:
  assumes "\<And>r a. CallJournal r \<in> set calls \<Longrightarrow> admits a r" and "\<And>c k. c \<in> set calls \<Longrightarrow> forgets c k \<Longrightarrow> \<not> keep k"
  shows "R a (run_calls env calls a)"
  using assms
proof (induction calls arbitrary: a)
  case (Cons c calls)
  have "R a (perform env c a)"
    by (rule perform_rel) (use Cons.prems(1) [of _ a] Cons.prems(2) in \<open>metis list.set_intros(1)\<close>)+
  moreover have "R (perform env c a) (run_calls env calls (perform env c a))" 
    by (rule Cons.IH) (use Cons.prems in \<open>metis list.set_intros(2)\<close>)+
  ultimately show ?case by (auto simp: run_calls_def intro: R_trans)
qed (simp add: run_calls_def R_refl)

end

section \<open>The orders\<close>

lemma admit_stop_tables:
  "ba_tables (fst (admit_stop env request digest key_ref_jcs at bound a)) = ba_tables a
   \<or> ba_tables (fst (admit_stop env request digest key_ref_jcs at bound a)) = stopped_tables request key_ref_jcs at (ba_tables a)"
  by (auto simp: admit_stop_def Let_def split: prod.split sum.split outcome.split)

lemma authority_mutate_tables:
  "ba_tables (fst (authority_mutate env plan a)) = ba_tables a
   \<or> (\<exists>n event_type payload x. plan (ba_tables a) = Apply (ba_tables (fst (authority_mutate env plan a))) n event_type payload x)"
  by (auto simp: authority_mutate_def split: prod.split sum.split plan.split)

interpretation tightening: authority_order keep env "\<lambda>a b. tighter keep env (ba_tables a) (ba_tables b)" "\<lambda>_ _. True" for keep env
proof
  fix plan :: "tables \<Rightarrow> unit plan" and a :: authority
  assume "plan_tightens keep env (plan (ba_tables a)) (ba_tables a)"
  then show "tighter keep env (ba_tables a) (ba_tables (fst (authority_mutate env plan a)))"
    using authority_mutate_tables [of env plan a] by auto
next
  show "tighter keep env (ba_tables a) (ba_tables (fst (admit_stop env request digest key_ref_jcs at bound a)))"
    for a request digest key_ref_jcs at bound
    using admit_stop_tables [of env request digest key_ref_jcs at bound a]
      stopped_tables_tighter [of keep env "ba_tables a" request key_ref_jcs at]
    by auto
qed (auto intro: tighter_trans)

lemma tx_changed_laws [counted_intros, append_only_intros]:
  "counted_tx (tx_changed n)" "append_only_tx (tx_changed n)"
  by (auto simp: counted_tx_def append_only_tx_def tx_changed_def counted_def changed_def)

lemma audited_changed [audited_intros]: "env_laws env \<Longrightarrow> audited_tx env s (tx_changed n)"
  using chain_ok_cong [of "changed n db" db env s for db] links_ok_cong [of "changed n db" db for db]
  by (auto simp: audited_tx_def tx_changed_def)

interpretation external: audited_body env "external_tx env n event_type payload" "plain_entry event_type payload"
  for env n event_type payload
  by unfold_locales (auto simp: external_tx_def plain_entry_def intro!: counted_intros append_only_intros audited_intros)

definition refused_tx :: "nat \<Rightarrow> AuditSigner \<Rightarrow> unit outcome tx" where
  "refused_tx n s = tx_bind (tx_changed n) (\<lambda>_. tx_fail QueryDiverges)"

interpretation refused: audited_body env "refused_tx n" True for env n
  by unfold_locales (auto simp: refused_tx_def intro!: counted_intros append_only_intros audited_intros)

text \<open>A mutation is a refused transaction, a lock, or a mutation of the journal by the external transaction.\<close>

lemma authority_mutate_journal:
  "ba_journal (fst (authority_mutate env plan a)) = (case plan (ba_tables a) of
     Refuse n e \<Rightarrow> fst (commit (ae_journal env) (refused_tx n) (ba_journal a))
   | Drop x \<Rightarrow> fst (lock_for_mutation (ae_journal env) (ba_journal a))
   | Apply t n event_type payload x \<Rightarrow> fst (mutate (ae_journal env) (external_tx (ae_journal env) n event_type payload) (ba_journal a)))"
  by (auto simp: authority_mutate_def commit_def mutate_def refused_tx_def external_tx_def run_transaction_def tx_bind_def tx_fail_def tx_return_def
      tx_changed_def changed_def split: prod.split sum.split plan.split)

text \<open>The audit chain stays verified and only grows, and it grows whenever a table changes.\<close>

definition audited_move :: "auth_env \<Rightarrow> authority \<Rightarrow> authority \<Rightarrow> bool" where
  "audited_move env a b \<longleftrightarrow> (env_laws (ae_journal env) \<longrightarrow> journal_ok (ae_journal env) (ba_journal a) \<longrightarrow>
     journal_ok (ae_journal env) (ba_journal b)
     \<and> (\<exists>rows. audit_chain (ba_db b) = audit_chain (ba_db a) @ rows \<and> (ba_tables b \<noteq> ba_tables a \<longrightarrow> rows \<noteq> [])))"

lemma audited_move_same:
  assumes "ba_tables b = ba_tables a"
    and "env_laws (ae_journal env) \<Longrightarrow> journal_ok (ae_journal env) (ba_journal a) \<Longrightarrow> journal_ok (ae_journal env) (ba_journal b)
      \<and> (\<exists>rows. audit_chain (ba_db b) = audit_chain (ba_db a) @ rows)"
  shows "audited_move env a b"
  using assms by (simp add: audited_move_def)

lemma external_entry:
  assumes "external_tx env n event_type payload s db = (db', Inr out)"
  obtains row where "audit_chain db' = audit_chain db @ [row]"
  using assms unfolding external_tx_def
  by (auto simp: tx_bind_Inr tx_changed_def elim!: append_audit_row)

lemma authority_mutate_unchanged:
  assumes "ba_tables (fst (authority_mutate env plan a)) \<noteq> ba_tables a"
  obtains t n event_type payload x j where "plan (ba_tables a) = Apply t n event_type payload x"
    and "commit (ae_journal env) (external_tx (ae_journal env) n event_type payload) (ba_journal a) = (j, Inr (Checkpointed ()))"
  using assms
  by (auto simp: authority_mutate_def commit_def external_tx_def run_transaction_def tx_bind_def tx_return_def
      split: prod.splits sum.splits plan.splits)

lemma authority_mutate_audited:
  assumes "plan_tightens keep env (plan (ba_tables a)) (ba_tables a)"
  shows "audited_move env a (fst (authority_mutate env plan a))"
proof (unfold audited_move_def, intro impI)
  let ?e = "ae_journal env" and ?b = "fst (authority_mutate env plan a)"
  assume laws: "env_laws ?e" and ok: "journal_ok ?e (ba_journal a)"
  show "journal_ok ?e (ba_journal ?b)
     \<and> (\<exists>rows. audit_chain (ba_db ?b) = audit_chain (ba_db a) @ rows \<and> (ba_tables ?b \<noteq> ba_tables a \<longrightarrow> rows \<noteq> []))"
  proof (cases "plan (ba_tables a)")
    case (Refuse n e)
    obtain j r where c: "commit ?e (refused_tx n) (ba_journal a) = (j, r)" by (meson surj_pair)
    have "audit_chain (j_db j) = audit_chain (ba_db a)"
      using c by (cases rule: commit_store) (auto simp: refused_tx_def tx_bind_Inr)
    then show ?thesis
      using refused.commit_ok(1) [OF ok laws c] authority_mutate_journal [of env plan a] authority_mutate_tables [of env plan a] Refuse c
      by simp
  next
    case (Drop x)
    obtain j r where l: "lock_for_mutation ?e (ba_journal a) = (j, r)" by (meson surj_pair)
    show ?thesis
      using lock_for_mutation_ok(1,2) [OF ok l] authority_mutate_journal [of env plan a] authority_mutate_tables [of env plan a] Drop l
      by simp
  next
    case (Apply t n event_type payload x)
    with assms have plain: "plain_entry event_type payload" by simp
    let ?body = "external_tx ?e n event_type payload"
    obtain j res where c: "commit ?e ?body (ba_journal a) = (j, res)" by (meson surj_pair)
    have j: "ba_journal ?b = fst (mutate ?e ?body (ba_journal a))" using authority_mutate_journal [of env plan a] Apply by simp
    obtain j2 r2 where m: "mutate ?e ?body (ba_journal a) = (j2, r2)" by (meson surj_pair)
    have good: "journal_ok ?e (ba_journal ?b)" using external.mutate_ok [OF ok laws m plain] j m by simp
    have db: "j_db j2 = j_db j"
      using m c by (auto simp: mutate_def split: sum.splits dest: finish_store)
    have same: "ba_tables ?b = ba_tables a" if "res = Inl e" for e
    proof (rule ccontr)
      assume "ba_tables ?b \<noteq> ba_tables a"
      then show False by (rule authority_mutate_unchanged) (use that c Apply in simp)
    qed
    have "\<exists>rows. audit_chain (j_db j) = audit_chain (ba_db a) @ rows \<and> (ba_tables ?b \<noteq> ba_tables a \<longrightarrow> rows \<noteq> [])"
      using c
    proof (cases rule: commit_store)
      case (ran out)
      then show ?thesis by (auto elim!: external_entry)
    next
      case kept
      with same show ?thesis by auto
    next
      case (rolled_back m e)
      with same show ?thesis by auto
    qed
    then show ?thesis using good db j m by simp
  qed
qed

lemma audited_move_trans:
  assumes "audited_move env a b" and "audited_move env b c"
  shows "audited_move env a c"
proof (unfold audited_move_def, intro impI)
  assume "env_laws (ae_journal env)" and "journal_ok (ae_journal env) (ba_journal a)"
  then obtain r1 r2 where ok: "journal_ok (ae_journal env) (ba_journal c)"
    and "audit_chain (ba_db b) = audit_chain (ba_db a) @ r1" "ba_tables b \<noteq> ba_tables a \<longrightarrow> r1 \<noteq> []"
    and "audit_chain (ba_db c) = audit_chain (ba_db b) @ r2" "ba_tables c \<noteq> ba_tables b \<longrightarrow> r2 \<noteq> []"
    using assms unfolding audited_move_def by blast
  then show "journal_ok (ae_journal env) (ba_journal c)
      \<and> (\<exists>rows. audit_chain (ba_db c) = audit_chain (ba_db a) @ rows \<and> (ba_tables c \<noteq> ba_tables a \<longrightarrow> rows \<noteq> []))"
    by (intro conjI exI [of _ "r1 @ r2"]) auto
qed

text \<open>The admission of a revocation is a mutation of the journal whose transaction starts with an entry of its own.\<close>

lemma fence_laws [counted_intros, append_only_intros]:
  "counted_tx (fence_approval env s i)" "append_only_tx (fence_approval env s i)"
  unfolding fence_approval_def by (intro counted_intros, intro append_only_intros)

lemma fence_audited [audited_intros]: "env_laws env \<Longrightarrow> signer_laws env s \<Longrightarrow> audited_tx env s (fence_approval env s i)"
  unfolding fence_approval_def by (intro audited_intros) auto

lemma stop_effects_laws:
  "counted_tx (stop_effects env request key_ref_jcs at bound s)" "append_only_tx (stop_effects env request key_ref_jcs at bound s)"
  unfolding stop_effects_def by (intro counted_intros, intro append_only_intros)

lemma stop_effects_audited: "env_laws env \<Longrightarrow> signer_laws env s \<Longrightarrow> audited_tx env s (stop_effects env request key_ref_jcs at bound s)"
  unfolding stop_effects_def by (intro audited_intros) auto

interpretation admission: audited_body "ae_journal env" "admission_body env request digest key_ref_jcs at bound" True
  for env request digest key_ref_jcs at bound
proof -
  let ?effects = "stop_effects (ae_journal env) request key_ref_jcs at (map fst bound)"
  have "audited_body (ae_journal env) (\<lambda>s. begin_key_revocation_tx (ae_journal env) (rk_operation_id request) digest
      (targets_of env (rk_operation_id request) bound) (?effects s) s)
    (\<forall>s. env_laws (ae_journal env) \<longrightarrow> signer_laws (ae_journal env) s \<longrightarrow> audited_tx (ae_journal env) s (?effects s))"
    by (rule begin_key_revocation_audited) (rule stop_effects_laws)+
  moreover have "admission_body env request digest key_ref_jcs at bound = (\<lambda>s. begin_key_revocation_tx (ae_journal env) (rk_operation_id request) digest
      (targets_of env (rk_operation_id request) bound) (?effects s) s)"
    by (rule ext) (simp add: admission_body_def)
  ultimately show "audited_body (ae_journal env) (admission_body env request digest key_ref_jcs at bound) True"
    by (simp add: stop_effects_audited)
qed

lemma admit_stop_journal:
  "ba_journal (fst (admit_stop env request digest key_ref_jcs at bound a))
   = fst (mutate (ae_journal env) (admission_body env request digest key_ref_jcs at bound) (ba_journal a))"
  by (auto simp: admit_stop_def mutate_def Let_def split: prod.split sum.split)

lemma admission_entry:
  assumes "admission_body env request digest key_ref_jcs at bound s db = (db', Inr (Durable point b))"
  obtains row rows where "audit_chain db' = audit_chain db @ row # rows"
proof -
  let ?e = "ae_journal env" and ?effects = "stop_effects (ae_journal env) request key_ref_jcs at (map fst bound) s"
  define opr where "opr = \<lparr>op_operation_id = rk_operation_id request, op_operation_digest = digest, op_retry_binding_digest = digest,
     op_state = ''RECEIVED'', op_is_batch = False, op_result_jcs = None, op_validation_receipt_jcs = None, op_kind = KEY_REVOCATION_KIND\<rparr>"
  define insert_all where "insert_all = tx_iter (\<lambda>(approval_id, revocation_id). insert_attempt ?e
     \<lparr>at_operation_id = rk_operation_id request, at_attempt_id = approval_id, at_attempt_digest = revocation_id\<rparr>)
     (targets_of env (rk_operation_id request) bound)"
  obtain db1 db2 db3 p r where opr: "insert_operation ?e opr db = (db1, Inr ())" and attempts: "insert_all db1 = (db2, Inr ())"
    and entry: "append_audit ?e ''key.revocation.received'' p s db2 = (db3, Inr r)" and effects: "?effects db3 = (db', Inr ())"
    using assms unfolding admission_body_def begin_key_revocation_tx_def opr_def [symmetric] insert_all_def [symmetric]
    by (auto simp: tx_bind_Inr split: option.splits if_splits)
  have "append_only_tx (insert_operation ?e opr)" and "append_only_tx insert_all"
    unfolding insert_all_def by (intro append_only_intros)+
  with opr attempts obtain r1 r2 where "audit_chain db1 = audit_chain db @ r1" "audit_chain db2 = audit_chain db1 @ r2"
    unfolding append_only_tx_def by blast
  moreover obtain row where "audit_chain db3 = audit_chain db2 @ [row]" using entry by (elim append_audit_row) auto
  moreover obtain r3 where "audit_chain db' = audit_chain db3 @ r3" using effects stop_effects_laws(2) unfolding append_only_tx_def by blast
  ultimately have "audit_chain db' = audit_chain db @ hd (r1 @ r2 @ [row]) # tl (r1 @ r2 @ [row]) @ r3" by simp
  then show thesis by (rule that)
qed

lemma admit_stop_audited: "audited_move env a (fst (admit_stop env request digest key_ref_jcs at bound a))"
proof (unfold audited_move_def, intro impI)
  let ?e = "ae_journal env" and ?body = "admission_body env request digest key_ref_jcs at bound"
    and ?b = "fst (admit_stop env request digest key_ref_jcs at bound a)"
  assume laws: "env_laws ?e" and ok: "journal_ok ?e (ba_journal a)"
  obtain j res where c: "commit ?e ?body (ba_journal a) = (j, res)" by (meson surj_pair)
  obtain j2 r2 where m: "mutate ?e ?body (ba_journal a) = (j2, r2)" by (meson surj_pair)
  have good: "journal_ok ?e (ba_journal ?b)" using admission.mutate_ok [OF ok laws m] m by (simp add: admit_stop_journal)
  have db: "ba_db ?b = j_db j"
    using m c by (auto simp: admit_stop_journal mutate_def split: sum.splits dest: finish_store)
  have durable: "\<exists>point b. res = Inr (Durable point b)" if "ba_tables ?b \<noteq> ba_tables a"
    using that c by (auto simp: admit_stop_def Let_def split: prod.splits sum.splits outcome.splits)
  have "\<exists>rows. audit_chain (j_db j) = audit_chain (ba_db a) @ rows \<and> (ba_tables ?b \<noteq> ba_tables a \<longrightarrow> rows \<noteq> [])"
    using c
  proof (cases rule: commit_store)
    case (ran out)
    show ?thesis
    proof (cases "ba_tables ?b = ba_tables a")
      case False
      then obtain point b where "res = Inr (Durable point b)" using durable by blast
      with ran obtain row rows where "audit_chain (j_db j) = audit_chain (ba_db a) @ row # rows" by (auto elim: admission_entry)
      then show ?thesis by auto
    next
      case True
      then show ?thesis using ran admission.body_append_only unfolding append_only_tx_def by blast
    qed
  next
    case kept
    with durable show ?thesis by auto
  next
    case (rolled_back n e)
    with durable show ?thesis by auto
  qed
  with good db show "journal_ok ?e (ba_journal ?b)
     \<and> (\<exists>rows. audit_chain (ba_db ?b) = audit_chain (ba_db a) @ rows \<and> (ba_tables ?b \<noteq> ba_tables a \<longrightarrow> rows \<noteq> []))"
    by simp
qed

interpretation auditing: authority_order "\<lambda>_. False" env "audited_move env" "\<lambda>_. request_admissible (ae_journal env)" for env
proof
  show "audited_move env a a" for a by (simp add: audited_move_def)
  show "audited_move env a (a\<lparr>ba_policy_keys := keys\<rparr>)" for a keys by (simp add: audited_move_def)
  show "audited_move env a (a\<lparr>ba_journal := fst (call (ae_journal env) r (ba_journal a))\<rparr>)"
    if "request_admissible (ae_journal env) r" for a r
    using call_ok [OF _ _ that] by (intro audited_move_same) auto
  show "audited_move env a (a\<lparr>ba_journal := fst (checkpoint_committed_head (ae_journal env) (ba_journal a))\<rparr>)" for a
    by (rule audited_move_same)
       (use checkpoint_ok(1,2) [of "ae_journal env" "ba_journal a" "fst (checkpoint_committed_head (ae_journal env) (ba_journal a))"
          "snd (checkpoint_committed_head (ae_journal env) (ba_journal a))"] in auto)
qed (auto intro: audited_move_trans authority_mutate_audited admit_stop_audited)


text \<open>What is stored after a step either verifies in full, under the same keys, or is what was stored before it.\<close>

definition verified_or_same :: "env \<Rightarrow> journal \<Rightarrow> journal \<Rightarrow> bool" where
  "verified_or_same env j j' \<longleftrightarrow> j_signers j' = j_signers j
     \<and> (chain_ok env (j_signer j') (j_db j') \<or> (\<exists>n. j_db j' = (j_db j)\<lparr>total_changes := n\<rparr>))"

lemma verified_or_same_refl: "j_signers j' = j_signers j \<Longrightarrow> j_db j' = j_db j \<Longrightarrow> verified_or_same env j j'"
proof -
  have "j_db j = (j_db j)\<lparr>total_changes := total_changes (j_db j)\<rparr>" by simp
  then show "j_signers j' = j_signers j \<Longrightarrow> j_db j' = j_db j \<Longrightarrow> verified_or_same env j j'"
    unfolding verified_or_same_def by metis
qed

lemma chain_ok_changes: "env_laws env \<Longrightarrow> chain_ok env s (db\<lparr>total_changes := n\<rparr>) \<longleftrightarrow> chain_ok env s db"
  by (rule chain_ok_cong) simp_all

lemma verified_or_same_trans:
  assumes "env_laws env" and "verified_or_same env i j" and "verified_or_same env j k"
  shows "verified_or_same env i k"
  using assms chain_ok_changes [OF assms(1)] unfolding verified_or_same_def j_signer_def by fastforce

lemma verified_or_same_verifies:
  assumes "env_laws env" and "verified_or_same env j j'" and "chain_ok env (j_signer j) (j_db j) \<or> audit_chain (j_db j') \<noteq> audit_chain (j_db j)"
  shows "chain_ok env (j_signer j') (j_db j')"
  using assms chain_ok_changes [OF assms(1)] unfolding verified_or_same_def j_signer_def by auto

lemma checkpoint_signers: "checkpoint_committed_head env j = (j', r) \<Longrightarrow> j_signers j' = j_signers j"
  by (auto simp: checkpoint_committed_head_def checkpoint_failed_def Let_def cached_audit_head_def refresh_verified_audit_tail_def
      latch_degradation_def split: if_splits option.splits sum.splits prod.splits)

lemma finish_same: "finish env out j = (j', r) \<Longrightarrow> j_signers j' = j_signers j \<and> j_db j' = j_db j"
  by (rule conjI, cases out) (auto split: prod.splits sum.splits dest: checkpoint_signers finish_store)

lemma lock_same: "lock_for_mutation env j = (j', r) \<Longrightarrow> j_signers j' = j_signers j"
  by (auto simp: lock_for_mutation_def cached_audit_head_def refresh_verified_audit_tail_def latch_degradation_def
      split: if_splits option.splits sum.splits prod.splits)

lemma commit_signers: "commit env body j = (j', r) \<Longrightarrow> j_signers j' = j_signers j"
  by (auto simp: commit_def latch_degradation_def refresh_verified_audit_tail_def split: if_splits option.splits sum.splits prod.splits dest: lock_same)

lemma verified_or_same_commit:
  assumes "commit env body j = (j', r)" and "\<And>out. r = Inr out \<Longrightarrow> chain_ok env (j_signer j') (j_db j')"
  shows "verified_or_same env j j'"
  using assms(1)
proof (cases rule: commit_store)
  case kept
  then show ?thesis using verified_or_same_refl [OF commit_signers [OF assms(1)]] by simp
qed (use assms(2) commit_signers [OF assms(1)] in \<open>auto simp: verified_or_same_def\<close>)

lemma verified_or_same_finish: "verified_or_same env j j1 \<Longrightarrow> finish env out j1 = (j', r) \<Longrightarrow> verified_or_same env j j'"
  using finish_same by (fastforce simp: verified_or_same_def j_signer_def)

context audited_body
begin

lemma commit_verified:
  "journal_ok env j \<Longrightarrow> env_laws env \<Longrightarrow> commit env body j = (j', r) \<Longrightarrow> admissible \<Longrightarrow> verified_or_same env j j'"
  using commit_audited(3) by (intro verified_or_same_commit) auto

lemma mutate_verified:
  assumes "journal_ok env j" and "env_laws env" and "mutate env body j = (j', r)" and admissible
  shows "verified_or_same env j j'"
proof -
  obtain j1 r1 where c: "commit env body j = (j1, r1)" by (meson surj_pair)
  with assms(3) commit_verified [OF assms(1,2) c assms(4)] show ?thesis
    by (cases r1) (auto simp: mutate_def intro: verified_or_same_finish)
qed

end

lemma call_verified:
  assumes "journal_ok env j" and "env_laws env" and "request_admissible env r"
  shows "verified_or_same env j (fst (call env r j))"
proof -
  obtain j1 res where c: "commit_request env r j = (j1, res)" by (meson surj_pair)
  have "verified_or_same env j j1"
  proof (cases "request_body env r")
    case (Inl e)
    with c show ?thesis by (auto simp: commit_request_def intro: verified_or_same_refl)
  next
    case (Inr body)
    with c have "commit env body j = (j1, res)" by (simp add: commit_request_def)
    then show ?thesis using audited_body.commit_verified [OF request_audited [OF Inr assms(3)] assms(1,2)] by blast
  qed
  with c show ?thesis
    by (cases res) (auto simp: call_handle handle_def intro: verified_or_same_finish [OF _ surjective_pairing])
qed

definition verified_move :: "auth_env \<Rightarrow> authority \<Rightarrow> authority \<Rightarrow> bool" where
  "verified_move env a b \<longleftrightarrow> (env_laws (ae_journal env) \<longrightarrow> journal_ok (ae_journal env) (ba_journal a) \<longrightarrow>
     journal_ok (ae_journal env) (ba_journal b) \<and> verified_or_same (ae_journal env) (ba_journal a) (ba_journal b))"

lemma verified_moveI:
  assumes "audited_move env a b"
    and "env_laws (ae_journal env) \<Longrightarrow> journal_ok (ae_journal env) (ba_journal a) \<Longrightarrow> verified_or_same (ae_journal env) (ba_journal a) (ba_journal b)"
  shows "verified_move env a b"
  using assms unfolding verified_move_def audited_move_def by blast

lemma authority_mutate_verified:
  assumes "plan_tightens keep env (plan (ba_tables a)) (ba_tables a)"
  shows "verified_move env a (fst (authority_mutate env plan a))"
proof (rule verified_moveI)
  show "audited_move env a (fst (authority_mutate env plan a))" using assms by (rule authority_mutate_audited)
next
  let ?e = "ae_journal env"
  assume laws: "env_laws ?e" and ok: "journal_ok ?e (ba_journal a)"
  show "verified_or_same ?e (ba_journal a) (ba_journal (fst (authority_mutate env plan a)))"
  proof (cases "plan (ba_tables a)")
    case (Refuse n e)
    then show ?thesis using refused.commit_verified [OF ok laws surjective_pairing] by (simp add: authority_mutate_journal)
  next
    case (Drop x)
    then show ?thesis
      using lock_for_mutation_ok(2,3) [OF ok surjective_pairing] by (simp add: authority_mutate_journal verified_or_same_refl)
  next
    case (Apply t n event_type payload x)
    with assms show ?thesis using external.mutate_verified [OF ok laws surjective_pairing] by (simp add: authority_mutate_journal)
  qed
qed

interpretation verifying: authority_order "\<lambda>_. False" env "verified_move env" "\<lambda>_. request_admissible (ae_journal env)" for env
proof
  show "verified_move env a a" for a by (simp add: verified_move_def verified_or_same_refl)
  show "verified_move env a (a\<lparr>ba_policy_keys := keys\<rparr>)" for a keys by (simp add: verified_move_def verified_or_same_refl)
  show "verified_move env a c" if "verified_move env a b" "verified_move env b c" for a b c
    using that verified_or_same_trans unfolding verified_move_def by blast
  show "verified_move env a (a\<lparr>ba_journal := fst (call (ae_journal env) r (ba_journal a))\<rparr>)"
    if "request_admissible (ae_journal env) r" for a r
    using call_verified [OF _ _ that] auditing.R_journal [where a = a and env = env, OF that] by (intro verified_moveI) auto
  show "verified_move env a (a\<lparr>ba_journal := fst (checkpoint_committed_head (ae_journal env) (ba_journal a))\<rparr>)" for a
    using auditing.R_checkpoint checkpoint_ok(2,3) [OF _ surjective_pairing] by (intro verified_moveI verified_or_same_refl) auto
  show "verified_move env a (fst (admit_stop env request digest key_ref_jcs at bound a))" for a request digest key_ref_jcs at bound
    using admission.mutate_verified [OF _ _ surjective_pairing] by (intro verified_moveI [OF admit_stop_audited]) (simp add: admit_stop_journal)
qed (auto intro: authority_mutate_verified)

end
