(* ===== verification/AuthorityBudget.thy ===== *)
theory AuthorityBudget
  imports AuthorityOrder Ledger
begin

text \<open>
  The authority and the ledger of the journal together: what the requests that the authority allows have reserved never
  exceeds the limits in the terms of their approval. The terms of an approval are fixed when its record is created.
\<close>

section \<open>The terms of a recorded approval never change\<close>

definition terms_kept :: "db \<Rightarrow> db \<Rightarrow> bool" where
  "terms_kept db db' \<longleftrightarrow> (\<forall>i m. select_metadata i db = Some m \<longrightarrow>
     (\<exists>m'. select_metadata i db' = Some m' \<and> md_terms_jcs m' = md_terms_jcs m))"

lemma terms_kept_same: "approval_metadata db' = approval_metadata db \<Longrightarrow> terms_kept db db'"
  by (simp add: terms_kept_def select_metadata_def)

lemma terms_kept_trans: "terms_kept a b \<Longrightarrow> terms_kept b c \<Longrightarrow> terms_kept a c"
  unfolding terms_kept_def by metis

interpretation terms_order: store_order terms_kept
  by unfold_locales (auto intro: terms_kept_same terms_kept_trans)

lemma append_audit_metadata: "append_audit env et p s db = (db', r) \<Longrightarrow> approval_metadata db' = approval_metadata db"
  using append_audit_frame by fastforce

lemma terms_statements [follow_intros]:
  "tx_rel terms_kept (insert_approval env i st)" "tx_rel terms_kept (update_approval_state i st)"
  "tx_rel terms_kept (insert_operation env opr)" "tx_rel terms_kept (update_operations P f)"
  "tx_rel terms_kept (insert_attempt env at)" "tx_rel terms_kept (insert_or_ignore_attempt env at)"
  "tx_rel terms_kept (insert_child env ch)" "tx_rel terms_kept (insert_reservation env rs)"
  "tx_rel terms_kept (update_reservation_state a i st)" "tx_rel terms_kept (insert_value env rv)"
  "tx_rel terms_kept (upsert_clock ck)" "tx_rel terms_kept (append_audit env et p s)"
  by (auto simp: tx_rel_def insert_approval_def update_approval_state_def insert_operation_def update_operations_def
      insert_attempt_def insert_or_ignore_attempt_def insert_child_def insert_reservation_def update_reservation_state_def
      insert_value_def upsert_clock_def split: if_splits option.splits
      intro!: terms_kept_same dest: append_audit_metadata)

lemma terms_insert [follow_intros]: "tx_rel terms_kept (insert_metadata env row)"
  by (auto simp: tx_rel_def insert_metadata_def terms_kept_def select_metadata_def find_append split: if_splits)

lemma terms_activate [follow_intros]: "tx_rel terms_kept (update_metadata_activation env a oid g)"
  by (auto simp: tx_rel_def update_metadata_activation_def terms_kept_def select_metadata_def find_update_where split: if_splits)

lemma terms_children [follow_intros]: "tx_rel terms_kept (insert_children env parent n children)"
  by (induction children arbitrary: n) (auto intro: follow_intros)

lemma terms_bodies:
  "tx_rel terms_kept (create_approval_tx env i st s)" "tx_rel terms_kept (create_approval_record_tx env i new s)"
  "tx_rel terms_kept (activate_approval_record_tx env i oid g s)" "tx_rel terms_kept (transition_approval_tx env i anxt s)"
  "tx_rel terms_kept (begin_sign_attempt_tx env req b retry rjcs s)" "tx_rel terms_kept (transition_operation_tx env i nxt s)"
  "tx_rel terms_kept (begin_key_revocation_tx env i d targets (tx_return ()) s)"
  "tx_rel terms_kept (complete_key_revocation_tx env i s)" "tx_rel terms_kept (reserve_tx env rreq limits guard s)"
  "tx_rel terms_kept (finalize_reservation_tx env a i rnxt s)" "tx_rel terms_kept (publish_result_tx env a result s)"
  "tx_rel terms_kept (publish_batch_tx env a result children s)"
  "tx_rel terms_kept (observe_time_tx env reading stp limited s)" "tx_rel terms_kept (repair_clock_tx env accepted s)"
  unfolding request_bodies by (intro follow_intros)+

lemma terms_requests: "request_body env r = Inr body \<Longrightarrow> tx_rel terms_kept (body s)"
  by (cases r) (auto simp: and_then_eq_Inr split: if_splits intro!: discarding_rel terms_bodies)

interpretation terms_order: journal_order terms_kept env "\<lambda>_. True"
  for env
  by unfold_locales (auto intro: terms_requests terms_kept_same)

context journal_order
begin

lemma call_rel:
  assumes "permitted r"
  shows "R (j_db j) (j_db (fst (call env r j)))"
proof -
  obtain j1 res where c: "commit_request env r j = (j1, res)" by (meson surj_pair)
  have "j_db (fst (call env r j)) = j_db j1"
    by (cases res) (auto simp: call_handle handle_def c dest: finish_store split: prod.split intro!: finish_store surjective_pairing)
  then show ?thesis using commit_rel [OF assms c] by simp
qed

end

section \<open>Budgets\<close>

text \<open>A mutation of the authority changes only the audit chain of the journal's store.\<close>

definition chain_only :: "db \<Rightarrow> db \<Rightarrow> bool" where
  "chain_only db db' \<longleftrightarrow> (\<exists>rows n. db' = db\<lparr>audit_chain := rows, total_changes := n\<rparr>)"

lemma chain_only_refl [simp]: "chain_only db db" "chain_only db (db\<lparr>total_changes := n\<rparr>)"
proof -
  have "db = db\<lparr>audit_chain := audit_chain db, total_changes := total_changes db\<rparr>"
    and "db\<lparr>total_changes := n\<rparr> = db\<lparr>audit_chain := audit_chain db, total_changes := n\<rparr>" by simp_all
  then show "chain_only db db" "chain_only db (db\<lparr>total_changes := n\<rparr>)" unfolding chain_only_def by blast+
qed

lemma terms_kept_chain: "chain_only db db' \<Longrightarrow> terms_kept db db'"
  by (auto simp: chain_only_def intro: terms_kept_same)

lemma external_chain_only:
  assumes "external_tx env n event_type payload s db = (db', res)"
  shows "chain_only db db'"
proof -
  obtain db1 q where q: "append_audit env event_type payload s (changed n db) = (db1, q)" by (meson surj_pair)
  obtain rows m where "db1 = (changed n db)\<lparr>audit_chain := audit_chain (changed n db) @ rows, total_changes := m\<rparr>"
    using append_audit_frame [OF q] by blast
  moreover have "db' = db1" using assms q by (cases q) (auto simp: external_tx_def tx_bind_def tx_changed_def tx_return_def)
  ultimately show ?thesis by (auto simp: changed_def chain_only_def)
qed

lemma authority_mutate_db: "chain_only (ba_db a) (ba_db (fst (authority_mutate env plan a)))"
proof -
  have body: "chain_only (j_db j) (j_db j')" if "commit e b j = (j', res)" and "\<And>s db db' r. b s db = (db', r) \<Longrightarrow> chain_only db db'"
    for e j j' res and b :: "AuditSigner \<Rightarrow> unit outcome tx"
    using that(1) by (cases rule: commit_store) (use that(2) in auto)
  have refused: "refused_tx n s db = (db', r) \<Longrightarrow> chain_only db db'" for n s db db' r
    by (auto simp: refused_tx_def tx_bind_def tx_changed_def tx_fail_def changed_def)
  let ?e = "ae_journal env"
  show ?thesis
  proof (cases "plan (ba_tables a)")
    case (Refuse n e)
    obtain j r where "commit ?e (refused_tx n) (ba_journal a) = (j, r)" by (meson surj_pair)
    then show ?thesis using body [OF _ refused] authority_mutate_journal [of env plan a] Refuse by simp
  next
    case (Drop x)
    obtain j r where "lock_for_mutation ?e (ba_journal a) = (j, r)" by (meson surj_pair)
    then show ?thesis using lock_for_mutation_store authority_mutate_journal [of env plan a] Drop by fastforce
  next
    case (Apply t n event_type payload x)
    obtain j r where c: "commit ?e (external_tx ?e n event_type payload) (ba_journal a) = (j, r)" by (meson surj_pair)
    have "j_db (fst (mutate ?e (external_tx ?e n event_type payload) (ba_journal a))) = j_db j"
      using c by (cases r) (auto simp: mutate_def intro: finish_store surjective_pairing)
    then show ?thesis using body [OF c external_chain_only] authority_mutate_journal [of env plan a] Apply by simp
  qed
qed

definition within_budget :: "auth_env \<Rightarrow> Digest32 \<Rightarrow> SealedApprovalTerms \<Rightarrow> db \<Rightarrow> bool" where
  "within_budget env approval terms db \<longleftrightarrow>
     within_lifetime approval (unat (al_max_operations (st_limits terms))) (unat (al_max_signatures (st_limits terms))) db
     \<and> (\<forall>asset limit. map_of (bl_value_limits (budget_limits terms)) asset = Some limit \<longrightarrow>
         within_value (ae_journal env) approval asset (amount_of (ae_journal env) limit) db)"

lemma within_budget_chain: "within_budget env approval terms db \<Longrightarrow> chain_only db db' \<Longrightarrow> within_budget env approval terms db'"
  unfolding within_budget_def chain_only_def using lifetime_budget.chain_indep value_budget.chain_indep by blast

text \<open>The admission of a revocation leaves the ledger and the records of approvals alone.\<close>

definition records_same :: "db \<Rightarrow> db \<Rightarrow> bool" where
  "records_same db db' \<longleftrightarrow> reservations db' = reservations db \<and> reservation_values db' = reservation_values db
     \<and> approval_metadata db' = approval_metadata db"

interpretation same_order: store_order records_same
  by unfold_locales (auto simp: records_same_def)

lemma same_statements [follow_intros]:
  "tx_rel records_same (update_approval_state i st)" "tx_rel records_same (insert_operation env opr)"
  "tx_rel records_same (insert_attempt env at)" "tx_rel records_same (append_audit env et p s)" "tx_rel records_same (tx_changed n)"
  by (auto simp: tx_rel_def update_approval_state_def insert_operation_def insert_attempt_def tx_changed_def records_same_def
      split: if_splits option.splits dest: append_audit_metadata append_audit_ledger)

lemma same_admission: "tx_rel records_same (admission_body env request digest key_ref_jcs at bound s)"
  unfolding admission_body_def begin_key_revocation_tx_def stop_effects_def fence_approval_def by (intro follow_intros)

lemma admit_stop_records: "records_same (ba_db a) (ba_db (fst (admit_stop env request digest key_ref_jcs at bound a)))"
proof -
  let ?e = "ae_journal env" and ?body = "admission_body env request digest key_ref_jcs at bound"
  obtain j r where c: "commit ?e ?body (ba_journal a) = (j, r)" by (meson surj_pair)
  have "ba_db (fst (admit_stop env request digest key_ref_jcs at bound a)) = j_db j"
    using c by (cases r) (auto simp: admit_stop_journal mutate_def intro: finish_store surjective_pairing)
  moreover have "records_same (ba_db a) (j_db j)"
    using c by (cases rule: commit_store) (auto simp: records_same_def dest: tx_relD [OF same_admission])
  ultimately show ?thesis by simp
qed

lemma within_budget_same:
  assumes "within_budget env approval terms db" and "records_same db db'"
  shows "within_budget env approval terms db'"
proof -
  have "live_amount e db' approval asset = live_amount e db approval asset" for e asset
    using assms(2) by (simp add: records_same_def fun_eq_iff live_amount_def select_reservation_def)
  then have "ledger_wf db' = ledger_wf db" "live_reservations db' = live_reservations db"
    "reserved_value e approval asset db' = reserved_value e approval asset db" for e asset
    using assms(2) by (simp_all add: records_same_def ledger_wf_def live_reservations_def [abs_def] reserved_value_sum)
  with assms(1) show ?thesis by (simp add: within_budget_def within_lifetime_def within_value_def)
qed

definition terms_of :: "auth_env \<Rightarrow> db \<Rightarrow> Digest32 \<Rightarrow> AuthorityError + SealedApprovalTerms option" where
  "terms_of env db approval = (case select_metadata approval db of
     None \<Rightarrow> Inr None | Some m \<Rightarrow> map_ok Some (map_err AuthorityStorage (ae_terms_from_str env (md_terms_jcs m))))"

lemma approval_terms_of: "approval_terms env a approval = terms_of env (ba_db a) approval"
  by (auto simp: approval_terms_def terms_of_def approval_record_def record_of_row_def split: option.split)

lemma terms_of_kept:
  assumes "terms_kept db db'" and "terms_of env db approval = Inr (Some terms)"
  shows "terms_of env db' approval = Inr (Some terms)"
proof (cases "select_metadata approval db")
  case (Some m)
  with assms(1) obtain m' where "select_metadata approval db' = Some m'" "md_terms_jcs m' = md_terms_jcs m"
    unfolding terms_kept_def by blast
  with Some assms(2) show ?thesis by (simp add: terms_of_def)
qed (use assms(2) in \<open>simp add: terms_of_def\<close>)

text \<open>An approval with these terms that is within their budget is followed by states where it still is.\<close>

definition budget_move :: "auth_env \<Rightarrow> Digest32 \<Rightarrow> SealedApprovalTerms \<Rightarrow> authority \<Rightarrow> authority \<Rightarrow> bool" where
  "budget_move env approval terms a b \<longleftrightarrow>
     (terms_of env (ba_db a) approval = Inr (Some terms) \<and> within_budget env approval terms (ba_db a) \<longrightarrow>
      terms_of env (ba_db b) approval = Inr (Some terms) \<and> within_budget env approval terms (ba_db b))"

definition budgeted :: "auth_env \<Rightarrow> Digest32 \<Rightarrow> SealedApprovalTerms \<Rightarrow> authority \<Rightarrow> request \<Rightarrow> bool" where
  "budgeted env approval terms a r \<longleftrightarrow> terms_of env (ba_db a) approval = Inr (Some terms) \<longrightarrow>
     permits (\<lambda>request limits guard. rr_approval_id request = approval \<longrightarrow> limits = budget_limits terms) r"

lemma permits_mono: "permits P r \<Longrightarrow> (\<And>request limits guard. P request limits guard \<Longrightarrow> Q request limits guard) \<Longrightarrow> permits Q r"
  by (cases r) simp_all

lemma budget_limits_lifetime:
  "bl_max_operations (budget_limits terms) = al_max_operations (st_limits terms)"
  "bl_max_signatures (budget_limits terms) = al_max_signatures (st_limits terms)"
  by (simp_all add: budget_limits_def Let_def)

lemma within_budget_call:
  assumes "within_budget env approval terms (j_db j)"
    and "permits (\<lambda>request limits guard. rr_approval_id request = approval \<longrightarrow> limits = budget_limits terms) r"
  shows "within_budget env approval terms (j_db (fst (call (ae_journal env) r j)))"
  unfolding within_budget_def
proof (intro conjI allI impI)
  let ?n = "unat (al_max_operations (st_limits terms))" and ?m = "unat (al_max_signatures (st_limits terms))"
  have "permits (\<lambda>request limits guard. rr_approval_id request = approval \<longrightarrow>
      unat (bl_max_operations limits) \<le> ?n \<and> unat (bl_max_signatures limits) \<le> ?m) r"
    using assms(2) by (rule permits_mono) (simp add: budget_limits_lifetime)
  then show "within_lifetime approval ?n ?m (j_db (fst (call (ae_journal env) r j)))"
    using lifetime_budget.call_rel assms(1) unfolding within_budget_def by blast
  fix asset limit
  assume limit: "map_of (bl_value_limits (budget_limits terms)) asset = Some limit"
  let ?max = "amount_of (ae_journal env) limit"
  have "permits (\<lambda>request limits guard. rr_approval_id request = approval \<longrightarrow>
      (\<forall>limit. map_of (bl_value_limits limits) asset = Some limit \<longrightarrow> amount_of (ae_journal env) limit \<le> ?max)) r"
    using assms(2) by (rule permits_mono) (simp add: limit)
  then show "within_value (ae_journal env) approval asset ?max (j_db (fst (call (ae_journal env) r j)))"
    using value_budget.call_rel assms(1) limit unfolding within_budget_def by blast
qed

lemma check_request_terms:
  assumes "check_request env input a = Inr (terms, charge, digest)"
  shows "terms_of env (ba_db a) (ms_approval_id (ai_request input)) = Inr (Some terms)"
  using assms
  by (auto simp: check_request_def authorized_terms_def approval_terms_of Let_def and_then_eq_Inr split: if_splits)

interpretation budgeting: authority_order "\<lambda>_. False" env "budget_move env approval terms" "budgeted env approval terms"
  for env approval terms
proof
  fix a b c r
  show "budget_move env approval terms a a" by (simp add: budget_move_def)
  show "budget_move env approval terms a c" if "budget_move env approval terms a b" "budget_move env approval terms b c"
    using that unfolding budget_move_def by blast
  show "budget_move env approval terms a (a\<lparr>ba_journal := fst (call (ae_journal env) r (ba_journal a))\<rparr>)"
    if "budgeted env approval terms a r"
    using that within_budget_call [of env approval terms "ba_journal a" r]
      terms_of_kept [OF terms_order.call_rel [where r = r and j = "ba_journal a" and env = "ae_journal env"], of env approval terms]
    by (auto simp: budget_move_def budgeted_def)
  show "budget_move env approval terms a (a\<lparr>ba_policy_keys := keys\<rparr>)" for keys
    by (simp add: budget_move_def)
  show "budgeted env approval terms a (CreateApprovalRecord i new)" "budgeted env approval terms a (ActivateApprovalRecord i oid grant)"
    "budgeted env approval terms a (TransitionApproval i state)" for i new oid grant state
    by (simp_all add: budgeted_def)
  show "budgeted env approval terms a (Reserve (reservation_request env input digest values) (budget_limits terms') guard)"
    if "check_request env input a = Inr (terms', (values, assurance, fee), digest)" for input terms' "values" assurance fee digest guard
    using check_request_terms [OF that] by (auto simp: budgeted_def reservation_request_def)
  show "budget_move env approval terms a (a\<lparr>ba_journal := fst (checkpoint_committed_head (ae_journal env) (ba_journal a))\<rparr>)"
    using checkpoint_store(1) [of "ae_journal env" "ba_journal a", OF surjective_pairing] by (simp add: budget_move_def)
  show "budget_move env approval terms a (fst (admit_stop env request digest key_ref_jcs at bound a))" for request digest key_ref_jcs at bound
    using admit_stop_records [of a env request digest key_ref_jcs at bound] within_budget_same terms_of_kept [OF terms_kept_same]
    unfolding budget_move_def records_same_def by blast
  show "budget_move env approval terms a (fst (authority_mutate env plan a))" for plan :: "tables \<Rightarrow> unit plan"
    using authority_mutate_db [of a env plan] within_budget_chain terms_of_kept [OF terms_kept_chain]
    unfolding budget_move_def by blast
qed

end
