(* ===== verification/AuthoritySample.thy ===== *)
theory AuthoritySample
  imports AuthorityBudget Sample
begin

text \<open>
  A concrete authority: its functions of packages return fixed values, its policy allows one wallet, and one approval for one exact
  payload is active. A mutation of it succeeds whenever its plan applies.
\<close>

section \<open>A journal with a short chain\<close>

definition short_chain :: "nat \<Rightarrow> db \<Rightarrow> bool" where
  "short_chain k db \<longleftrightarrow> map au_sequence (audit_chain db) = map int [0..<k] \<and> (\<forall>r \<in> set (audit_chain db). length (au_entry_hash r) = 64)"

definition ready :: "nat \<Rightarrow> journal \<Rightarrow> bool" where
  "ready k j \<longleftrightarrow> short_chain k (j_db j) \<and> \<not> audit_degraded j \<and> j_signers j = new_active_signer sample_signer
     \<and> j_self_checkpoint j = None \<and> (\<exists>t. j_tail j = Some t \<and> tail_matches j t)"

lemma ready_journal: "audit_chain db = [] \<Longrightarrow> ready 0 (sample_journal db)"
  by (simp add: ready_def short_chain_def sample_journal_eval audit_degraded_def tail_matches_def)

lemma short_chain_last:
  assumes "short_chain k db"
  shows "last_audit_row db = (if k = 0 then None else Some (last (audit_chain db)))"
    and "0 < k \<Longrightarrow> au_sequence (last (audit_chain db)) = int (k - 1)" and "0 < k \<Longrightarrow> length (au_entry_hash (last (audit_chain db))) = 64"
proof -
  have len: "length (audit_chain db) = k" using assms by (metis diff_zero length_map length_upt short_chain_def)
  have "sorted (map au_sequence (audit_chain db))" using assms by (simp add: short_chain_def sorted_map)
  then have sort: "sort_key au_sequence (audit_chain db) = audit_chain db" by (simp add: sort_key_id_if_sorted)
  show "last_audit_row db = (if k = 0 then None else Some (last (audit_chain db)))"
    using len by (auto simp: last_audit_row_def sort hd_rev [symmetric] split: list.split)
  assume k: "0 < k"
  then have ne: "audit_chain db \<noteq> []" using len by auto
  then have "au_sequence (last (audit_chain db)) = last (map au_sequence (audit_chain db))" by (simp add: last_map)
  also have "\<dots> = int (k - 1)" using assms k by (simp add: short_chain_def last_map)
  finally show "au_sequence (last (audit_chain db)) = int (k - 1)" .
  show "length (au_entry_hash (last (audit_chain db))) = 64" using assms ne by (simp add: short_chain_def)
qed

lemma short_chain_append:
  assumes "short_chain k db" and "k < 1000"
  shows "\<exists>row h. append_audit sample_env et p (active_signer (new_active_signer sample_signer)) db
      = (changed 1 (db\<lparr>audit_chain := audit_chain db @ [row]\<rparr>), Inr h) \<and> au_sequence row = int k \<and> length (au_entry_hash row) = 64"
proof -
  note last = short_chain_last [OF assms(1)]
  define previous where "previous = (if k = 0 then zero_digest else au_entry_hash (last (audit_chain db)))"
  have "sample_digest32_new zero_digest = Inr zero_digest" using env_lawsD(2) [OF sample_env_laws] by simp
  then have prev: "sample_digest32_new previous = Inr previous" using last(3) by (auto simp: previous_def sample_digest32_new_def split: if_splits)
  have query: "(case last_audit_row db of None \<Rightarrow> (0, zero_digest) | Some row \<Rightarrow> (i64_succ (au_sequence row), au_entry_hash row)) = (int k, previous)"
    using last assms(2) by (auto simp: previous_def i64_succ_def I64_MAX_def)
  define row where "row = \<lparr>au_sequence = int k, au_event_type = et, au_payload_jcs = sample_text p, au_previous_hash = previous,
      au_entry_hash = compute_audit_hash sample_env k et (sample_text p) previous, au_signing_key_id = ''key-1'', au_signature = ''sig''\<rparr>"
  have fresh: "\<not> (\<exists>r \<in> set (audit_chain db). au_sequence r = int k)"
  proof
    assume "\<exists>r \<in> set (audit_chain db). au_sequence r = int k"
    then have "int k \<in> set (map au_sequence (audit_chain db))" by force
    then have "int k \<in> set (map int [0..<k])" using assms(1) unfolding short_chain_def by simp
    then show False by auto
  qed
  have "append_audit sample_env et p (active_signer (new_active_signer sample_signer)) db
      = (changed 1 (db\<lparr>audit_chain := audit_chain db @ [row]\<rparr>), Inr (k + 1, au_entry_hash row))"
    using fresh prev
    by (simp add: append_audit_def tx_bind_def tx_query_def query tx_lift_def tx_return_def u64_try_from_def
        insert_audit_def row_def new_active_signer_def Let_def) (simp add: sample_signer_def)
  moreover have "length (au_entry_hash row) = 64" by (simp add: row_def compute_audit_hash_def)
  ultimately show ?thesis by (auto simp: row_def)
qed

lemma ready_lock: "ready k j \<Longrightarrow> lock_for_mutation sample_env j = (j, Inr ())"
  by (auto simp: ready_def lock_for_mutation_def cached_audit_head_def)

text \<open>The checkpoint after a commit refreshes the tail.\<close>

lemma ready_checkpoint:
  assumes "ready k j" and "short_chain (Suc m) db" and "m < 1000"
  shows "\<exists>j'. checkpoint_committed_head sample_env (j\<lparr>j_db := db\<rparr>) = (j', Inr ()) \<and> ready (Suc m) j' \<and> j_db j' = db"
proof -
  obtain t where t: "j_tail j = Some t" "tl_data_version t = j_data_version j"
    using assms(1) by (auto simp: ready_def tail_matches_def)
  have head: "audit_head sample_env db = Inr (Suc m, au_entry_hash (last (audit_chain db)))"
    using short_chain_last [OF assms(2)] assms(3)
    by (simp add: audit_head_def u64_try_from_def USIZE_LIMIT_def sample_digest32_new_def)
  show ?thesis
    using t head assms(1,2)
    by (simp add: checkpoint_committed_head_def refresh_verified_audit_tail_def ready_def tail_matches_def audit_degraded_def)
qed

section \<open>The authority\<close>

definition auth_crypto :: crypto_env where
  "auth_crypto = \<lparr>ce_sha256 = \<lambda>_. [], ce_hex = \<lambda>_. [], ce_base58 = \<lambda>_. [], ce_digest32_new = Inr, ce_digest32_from_bytes = \<lambda>_. ''a'',
     ce_base64_decode = \<lambda>_. replicate 64 0\<rparr>"

definition auth_terms :: SealedApprovalTerms where
  "auth_terms = sample_terms\<lparr>st_subject := SubjectSystem ''bloom-machine'' ''solana.transfer.confirm'', st_selector := SelectorExact [''a''] [''a''],
     st_provenance_digest := ''a'', st_expires_at_ms := 9\<rparr>"

definition auth_snapshot :: SignedPolicySnapshot where
  "auth_snapshot = \<lparr>sp_wallet_id = ''wallet'', sp_version = 1, sp_canonical_policy = [], sp_policy_digest = ''policy'',
     sp_policy_signing_key_id = ''policy-key'', sp_policy_verifying_key = [], sp_signer_signature = []\<rparr>"

definition auth_sample :: auth_env where
  "auth_sample = \<lparr>ae_journal = sample_env, ae_verifier = sample_verifier\<lparr>ve_crypto := auth_crypto\<rparr>, ae_values = sample_values,
     ae_address = sample_address, ae_keccak256 = \<lambda>_. [], ae_ed25519_verify = \<lambda>_ _ _. True, ae_ed25519_key = \<lambda>_. True,
     ae_jcs = \<lambda>_. Inr [], ae_terms_from_str = \<lambda>_. Inr auth_terms, ae_record_from_str = \<lambda>_. Inr sample_record,
     ae_snapshot_from_str = \<lambda>_. Inr auth_snapshot, ae_policy_from_slice = \<lambda>_. Inr sample_policy, ae_scope_from_str = \<lambda>_. Inl ''scope'',
     ae_account_terms_from_str = \<lambda>_. Inl ''terms'', ae_receipt_canonical_bytes = \<lambda>_. Inr [], ae_key_ref_json = \<lambda>_. JNull,
     ae_operation_id_to_bytes = str_bytes, ae_operation_id_from_bytes = \<lambda>_. ''op'', ae_token_new = Inr\<rparr>"

lemma auth_sample_sel [simp]:
  "ae_journal auth_sample = sample_env" "ae_jcs auth_sample v = Inr []" "ae_ed25519_verify auth_sample k m sig"
  "ae_terms_from_str auth_sample s = Inr auth_terms" "ae_record_from_str auth_sample s = Inr sample_record"
  "ae_snapshot_from_str auth_sample s = Inr auth_snapshot" "ae_policy_from_slice auth_sample b = Inr sample_policy"
  "jcs auth_sample v = Inr []" "sha256_digest auth_sample b = ''a''" "jcs_digest auth_sample v = Inr ''a''"
  "ce_base64_decode (ae_crypto auth_sample) s = replicate 64 0" "ce_digest32_from_bytes (ae_crypto auth_sample) b = ''a''"
  by (simp_all add: auth_sample_def auth_crypto_def jcs_def sha256_digest_def jcs_digest_def)

lemma auth_signature [simp]: "verify_zeroed_signature auth_sample v signature domain key = Inr ()"
  by (simp add: verify_zeroed_signature_def)

definition auth_db :: db where
  "auth_db = active_db\<lparr>approval_metadata := [\<lparr>md_approval_id = ''a'', md_terms_jcs = ''{}'', md_review_manifest_digest = ''d'',
       md_approved_claim_digest = None, md_provenance_jcs = Some [], md_renewal_of = None,
       md_activation_operation_id = None, md_ceremony_grant_jcs = None\<rparr>]\<rparr>"

definition auth_tables :: tables where
  "auth_tables = no_tables\<lparr>policies := [\<lparr>pol_wallet_id = ''wallet'', pol_version = u64_to_string 1, pol_digest = ''policy'', pol_snapshot_jcs = [],
       pol_policy_jcs = []\<rparr>],
     wallet_epochs := [\<lparr>ep_wallet_id = ''wallet'', ep_epoch = u64_to_string 0, ep_reconciled = True\<rparr>],
     provenance_catalog := [\<lparr>pv_subject_jcs = [], pv_record_digest = ''a'', pv_record_jcs = []\<rparr>]\<rparr>"

definition auth_authority :: authority where
  "auth_authority = \<lparr>ba_journal = sample_journal auth_db, ba_tables = auth_tables, ba_policy_keys = Map.empty, ba_installer_key_id = ''installer'',
     ba_installer_key = [], ba_ceremony_key_id = ''ceremony'', ba_ceremony_key = [], ba_revocation_key_id = ''revocation'',
     ba_revocation_key = [], ba_assurance = []\<rparr>"

lemma auth_db_sel [simp]:
  "audit_chain auth_db = []" "links_ok auth_db" "reservations auth_db = []" "reservation_values auth_db = []" "live_reservations auth_db x = []"
  "ledger_wf auth_db" "approvals auth_db = [\<lparr>ap_approval_id = ''a'', ap_state = ''ACTIVE''\<rparr>]"
  by (simp_all add: auth_db_def active_db_def empty_db_def links_ok_def select_children_def live_reservations_def ledger_wf_def)

lemma auth_journal [simp]: "j_db (sample_journal auth_db) = auth_db"
  by (simp add: sample_journal_eval)

lemma auth_authority_sel [simp]:
  "ba_tables auth_authority = auth_tables" "ba_journal auth_authority = sample_journal auth_db"
  "ba_installer_key_id auth_authority = ''installer''" "ba_revocation_key_id auth_authority = ''revocation''"
  by (simp_all add: auth_authority_def)

text \<open>A mutation of a ready authority whose plan applies succeeds and leaves it ready.\<close>

lemma ready_mutate:
  assumes "ready k (ba_journal a)" and "k < 1000" and "plan (ba_tables a) = Apply t n event_type payload x"
  shows "\<exists>a'. authority_mutate auth_sample plan a = (a', Inr x) \<and> ba_tables a' = t \<and> ready (Suc k) (ba_journal a')
    \<and> approvals (ba_db a') = approvals (ba_db a)"
proof -
  let ?db = "changed n (ba_db a)"
  have sc: "short_chain k ?db" using assms(1) by (simp add: ready_def short_chain_def)
  obtain row h where app: "append_audit sample_env event_type payload (active_signer (new_active_signer sample_signer)) ?db
      = (changed 1 (?db\<lparr>audit_chain := audit_chain ?db @ [row]\<rparr>), Inr h)" and row: "au_sequence row = int k" "length (au_entry_hash row) = 64"
    using short_chain_append [OF sc assms(2)] by blast
  define db where "db = changed 1 (?db\<lparr>audit_chain := audit_chain ?db @ [row]\<rparr>)"
  have signer: "j_signer (ba_journal a) = active_signer (new_active_signer sample_signer)"
    using assms(1) by (simp add: ready_def j_signer_def)
  have run: "run_transaction (external_tx sample_env n event_type payload (j_signer (ba_journal a))) (ba_db a) = (db, Inr (Checkpointed ()))"
    by (simp add: run_transaction_def external_tx_def tx_bind_def tx_changed_def tx_return_def signer app db_def)
  have "short_chain (Suc k) db" using sc row by (simp add: short_chain_def db_def)
  then obtain j where j: "checkpoint_committed_head sample_env ((ba_journal a)\<lparr>j_db := db\<rparr>) = (j, Inr ())" "ready (Suc k) j" "j_db j = db"
    using ready_checkpoint [OF assms(1) _ assms(2)] by blast
  have "authority_mutate auth_sample plan a = (a\<lparr>ba_journal := j, ba_tables := t\<rparr>, Inr x)"
    using ready_lock [OF assms(1)] assms(3) run j(1) by (simp add: authority_mutate_def)
  with j show ?thesis by (auto simp: db_def)
qed

section \<open>Requests\<close>

definition auth_input :: "Digest32 \<Rightarrow> AuthorizationInput" where
  "auth_input approval = \<lparr>ai_request = \<lparr>ms_operation_id = ''o'', ms_operation_digest = ''a'', ms_approval_id = approval,
       ms_key_ref = st_key_ref sample_terms, ms_crypto_suite = Ed25519Message, ms_payloads = SinglePayload [],
       ms_petal_use_claim = None, ms_system_use_claim = None, ms_claim_assurance_evidence = None,
       ms_provenance = ProvenanceSystem ''bloom-machine'' ''solana.transfer.confirm''\<rparr>,
     ai_expected_signer_public_key = None, ai_reserved_at_ms = 7, ai_observed_utc_ms = None, ai_monotonic_anchor_ns = 0,
     ai_clock_boot_epoch = ''b''\<rparr>"

definition auth_grant :: "Digest32 \<Rightarrow> CeremonyApprovalGrant" where
  "auth_grant approval = \<lparr>cg_activation_operation_id = ''o'', cg_approval_id = approval, cg_approval_digest = approval,
     cg_review_manifest_digest = ''d'', cg_replacement_approval_id = None, cg_wallet_revocation_epoch = 0, cg_issued_at_ms = 1,
     cg_expires_at_ms = 9, cg_ceremony_key_id = ''ceremony'', cg_ceremony_signature = []\<rparr>"

definition auth_receipt :: "Digest32 \<Rightarrow> SignerActivationReceipt" where
  "auth_receipt approval = \<lparr>sa_activation_operation_id = ''o'', sa_ceremony_id = zero_digest, sa_approval_id = approval, sa_approval_digest = approval,
     sa_review_manifest_digest = ''d'', sa_replaced_approval_id = None, sa_wallet_revocation_epoch = 0,
     sa_key_ref = so_key_ref (validated_terms_to_signer auth_terms),
     sa_allowed_crypto_suites = so_allowed_crypto_suites (validated_terms_to_signer auth_terms), sa_activation_mode = South_BootBound,
     sa_activated_at_ms = 1, sa_expires_at_ms = 9, sa_signer_key_id = ''ceremony'', sa_signer_signature = []\<rparr>"

definition auth_tombstone :: ApprovalTombstone where
  "auth_tombstone = \<lparr>tm_approval_id = ''x'', tm_wallet_id = ''wallet'', tm_wallet_revocation_epoch = 0, tm_reason = [], tm_operation_id = ''o'',
     tm_revoked_at_ms = 5, tm_issuer_service_id = ''bloom-signer'', tm_key_id = ''revocation'', tm_signature = []\<rparr>"

definition auth_state :: RevocationState where
  "auth_state = \<lparr>rv_wallet_id = ''wallet'', rv_wallet_revocation_epoch = 0, rv_wallet_tombstone = None, rv_approval_tombstone_digest = ''a'',
     rv_approval_tombstone_count = 1, rv_observed_at_ms = 5, rv_issuer_service_id = ''bloom-signer'', rv_key_id = ''revocation'',
     rv_signature = []\<rparr>"

lemma auth_state_sel [simp]:
  "rv_wallet_id auth_state = ''wallet''" "rv_wallet_revocation_epoch auth_state = 0" "tm_approval_id auth_tombstone = ''x''"
  by (simp_all add: auth_state_def auth_tombstone_def)

lemma auth_reconcile: "\<exists>a1. reconcile_revocation auth_sample auth_state [auth_tombstone] auth_authority = (a1, Inr Converged)"
proof -
  have check: "check_revocation_state auth_sample auth_authority auth_state [auth_tombstone] = Inr [auth_tombstone]"
    by (simp add: check_revocation_state_def auth_state_def auth_tombstone_def check_wallet_tombstone_def)
  have "ready 0 (ba_journal auth_authority)" by (simp add: ready_journal)
  moreover have "\<exists>n et p. tombstones_plan auth_sample ''wallet'' [auth_tombstone] auth_tables
      = Apply (auth_tables\<lparr>signer_approval_tombstones := [\<lparr>tb_approval_id = ''x'', tb_wallet_id = ''wallet'', tb_tombstone_jcs = []\<rparr>]\<rparr>) n et p ()"
    by (simp add: tombstones_plan_def auth_tombstone_def auth_tables_def no_tables_def select_def bt_collect_def Let_def)
  ultimately obtain a1 where a1: "store_signer_tombstones auth_sample ''wallet'' [auth_tombstone] auth_authority = (a1, Inr ())"
    "ready 1 (ba_journal a1)" "wallet_epochs (ba_tables a1) = wallet_epochs auth_tables" "approvals (ba_db a1) = approvals auth_db"
    using ready_mutate [of 0 auth_authority "tombstones_plan auth_sample ''wallet'' [auth_tombstone]"]
    by (auto simp: store_signer_tombstones_def)
  have stop: "stop_approval auth_sample ''x'' a1 = (a1, Inr ())"
    by (simp add: stop_approval_def am_bind_def am_read_def am_return_def approval_state_def select_approval_def a1(4))
  have epoch: "local_epoch auth_sample (ba_tables a1) ''wallet'' = Inr 0"
    by (simp add: local_epoch_def epoch_state_def select_def a1(3) auth_tables_def map_ok_def)
  obtain a2 where a2: "store_epoch_reconciliation auth_sample ''wallet'' 0 True ''converged'' a1 = (a2, Inr ())"
    using ready_mutate [OF a1(2), of "epoch_plan ''wallet'' 0 True ''converged''"]
    by (auto simp: store_epoch_reconciliation_def epoch_plan_def)
  have "reconcile_revocation auth_sample auth_state [auth_tombstone] auth_authority = (a2, Inr Converged)"
    using check a1(1) stop epoch a2
    by (simp add: reconcile_revocation_def am_bind_def am_read_def am_return_def Let_def)
  then show ?thesis by blast
qed

section \<open>A request that is authorized\<close>

lemma auth_terms_sel [simp]:
  "st_key_ref auth_terms = st_key_ref sample_terms" "st_wallet_id auth_terms = ''wallet''" "st_not_before_ms auth_terms = 1"
  "st_expires_at_ms auth_terms = 9" "st_allowed_crypto_suites auth_terms = [Ed25519Message]" "st_selector auth_terms = SelectorExact [''a''] [''a'']"
  "st_policy_version auth_terms = 1" "st_policy_digest auth_terms = ''policy''" "st_provenance_digest auth_terms = ''a''"
  "st_wallet_revocation_epoch auth_terms = 0" "st_subject auth_terms = SubjectSystem ''bloom-machine'' ''solana.transfer.confirm''"
  "al_max_operations (st_limits auth_terms) = 1" "al_max_signatures (st_limits auth_terms) = 1" "al_value_limits (st_limits auth_terms) = []"
  by (simp_all add: auth_terms_def sample_terms_def)

lemma auth_terms_valid: "validate_terms auth_terms = Inr ()"
  by (simp add: validate_terms_Inr auth_terms_def sample_terms_def validate_key_ref_def KEYREF_LOCATOR_MAX_BYTES_def validate_suites_def
      all_unique_def validate_limits_def selector_consistent_def)

lemma auth_record [simp]: "approval_record auth_db ''a'' = Some \<lparr>ar_terms_jcs = ''{}'', ar_review_manifest_digest = ''d'', ar_approved_claim_digest = None,
    ar_provenance_jcs = Some [], ar_renewal_of = None, ar_activation_operation_id = None, ar_ceremony_grant_jcs = None\<rparr>"
  by (simp add: approval_record_def select_metadata_def auth_db_def record_of_row_def)

lemma auth_authorized_terms: "authorized_terms auth_sample (auth_input ''a'') auth_authority = Inr (auth_terms, sample_policy)"
proof -
  have "approval_state sample_env auth_db ''a'' = Inr (Some AS_Active)"
    by (simp add: approval_state_def select_approval_def) code_simp
  moreover have "current_policy auth_sample auth_tables ''wallet'' = Inr (auth_snapshot, sample_policy)"
    by (simp add: current_policy_def select_def auth_tables_def)
  moreover have "epoch_state auth_sample auth_tables ''wallet'' = Inr (0, True)"
    by (simp add: epoch_state_def select_def auth_tables_def)
  moreover have "validate_scoped_key_terms auth_sample auth_tables auth_terms = Inr ()"
    by (simp add: validate_scoped_key_terms_def scoped_key_record_def select_def auth_tables_def no_tables_def)
  moreover have "ensure_policy_signing_enabled sample_policy = Inr ()"
    by (simp add: ensure_policy_signing_enabled_def sample_policy_def)
  moreover have "approval_terms auth_sample auth_authority ''a'' = Inr (Some auth_terms)"
    by (simp add: approval_terms_def map_ok_def)
  moreover have "\<not> is_tombstoned auth_tables ''a''"
    by (simp add: is_tombstoned_def select_def auth_tables_def no_tables_def)
  ultimately show ?thesis
    by (simp add: authorized_terms_def auth_input_def auth_snapshot_def)
qed

lemma auth_check_request: "check_request auth_sample (auth_input ''a'') auth_authority = Inr (auth_terms, ([], None, None), ''a'')"
proof -
  let ?s = "ProvenanceSystem ''bloom-machine'' ''solana.transfer.confirm''"
  have rec: "catalog_provenance auth_sample auth_tables subject = Inr sample_record" for subject
    by (simp add: catalog_provenance_def select_def auth_tables_def)
  have verified: "verify_provenance auth_sample sample_record ''installer'' key ''a'' = Inr ()" for key
    by (simp add: verify_provenance_def verify_catalog_provenance_def sample_record_def all_unique_def lineage_only_def)
  have "terms_approval_id auth_sample auth_terms = Inr ''a''"
    by (simp add: terms_approval_id_def approval_id_def approval_digest_def canonical_bytes_def auth_terms_valid map_ok_def)
  then have frozen: "frozen_provenance_for auth_sample auth_authority auth_terms = Inr sample_record"
    by (simp add: frozen_provenance_for_def)
  have prov: "check_provenance auth_sample auth_authority auth_terms ?s = Inr sample_record"
    by (simp add: check_provenance_def rec expected_provenance_digest_def is_multi_route_def verified frozen Let_def)
       (simp add: sample_record_def)
  have claims: "check_claims auth_sample auth_authority auth_terms sample_policy (auth_input ''a'') sample_record payloads [''a''] [''a''] = Inr ([], None, None)"
    for payloads by (simp add: check_claims_def check_exact_claims_def auth_input_def)
  have identity: "check_identity auth_sample auth_authority auth_terms (ai_request (auth_input ''a'')) = Inr ''a''"
    by (simp add: check_identity_def request_claim_digest_def request_assurance_digest_def auth_input_def identity_digest_def)
  have "ordered_hashes_of auth_sample (ai_request (auth_input ''a'')) = [''a'']" "payload_digests_of auth_sample (ai_request (auth_input ''a'')) = [''a'']"
    by (simp_all add: ordered_hashes_of_def payload_digests_of_def payload_bytes_def auth_input_def)
  then show ?thesis
    using prov claims identity by (simp add: check_request_def auth_authorized_terms) (simp add: auth_input_def)
qed

definition auth_reservation :: ReservationRequest where
  "auth_reservation = reservation_request auth_sample (auth_input ''a'') ''a'' []"

lemma auth_reserve_checks:
  "map_option (\<lambda>(a, m). ap_state a) (select_approval_record ''a'' auth_db) = Some ''ACTIVE''"
  "validate_reservation_clock auth_db 7 b = Inr ()" "reservation_state auth_db auth_reservation = Inr None"
  "validate_lifetime_limits sample_env auth_db auth_reservation (budget_limits auth_terms) = Inr ()"
  "validate_rate_limits sample_env auth_db auth_reservation (budget_limits auth_terms) = Inr ()"
  "validate_value_limits sample_env auth_db auth_reservation (budget_limits auth_terms) = Inr ()"
  "validate_rolling_value_limits sample_env auth_db auth_reservation (budget_limits auth_terms) = Inr ()"
  by (simp_all add: auth_db_def active_db_def empty_db_def auth_reservation_def reservation_request_def auth_input_def ordered_hashes_of_def
      payload_bytes_def select_approval_record_def budget_limits_def limit_windows_def auth_terms_def sample_terms_def
      select_approval_def select_metadata_def validate_reservation_clock_def reservation_state_def reservation_state_by_id_def
      select_reservation_def validate_lifetime_limits_def live_reservations_def count_u64_def USIZE_LIMIT_def exceeds_def
      checked_add_def validate_rate_limits_def validate_value_limits_def Let_def validate_rolling_value_limits_def)

lemma auth_reservation_sel [simp]:
  "rr_approval_id auth_reservation = ''a''" "rr_operation_id auth_reservation = ''o''" "rr_reserved_at_ms auth_reservation = 7"
  "rr_values auth_reservation = []" "rr_signature_count auth_reservation = 1"
  by (simp_all add: auth_reservation_def reservation_request_def auth_input_def ordered_hashes_of_def payload_bytes_def)

lemma auth_authorizes: "\<exists>a' d. authorize_for_clock_profile auth_sample (auth_input ''a'') True auth_authority = (a', Inr d)"
proof -
  let ?s = "active_signer (new_active_signer sample_signer)"
  define db where "db = changed 1 (auth_db\<lparr>reservations := [reservation_row_of auth_reservation]\<rparr>)"
  have sc: "short_chain 0 db" by (simp add: short_chain_def db_def)
  obtain row h where app: "append_audit sample_env ''reservation.created'' (reserved_payload auth_reservation) ?s db
      = (changed 1 (db\<lparr>audit_chain := audit_chain db @ [row]\<rparr>), Inr h)" and row: "au_sequence row = int 0" "length (au_entry_hash row) = 64"
    using short_chain_append [OF sc, where et = "''reservation.created''" and p = "reserved_payload auth_reservation"] by auto
  define db' where "db' = changed 1 (db\<lparr>audit_chain := audit_chain db @ [row]\<rparr>)"
  have "reserve_tx sample_env auth_reservation (budget_limits auth_terms) True ?s auth_db = (db', Inr (Durable ReservationCreated ()))"
    unfolding reserve_tx_def
    using app by (simp add: run_simps auth_reserve_checks insert_reservation_def select_reservation_def db_def [symmetric] db'_def
        reservation_row_of_def) (simp add: db_def reservation_row_of_def changed_def)
  from sample_commit [where body = "reserve_tx sample_env auth_reservation (budget_limits auth_terms) True", OF auth_db_sel(1) this]
  have commit: "commit sample_env (reserve_tx sample_env auth_reservation (budget_limits auth_terms) True) (sample_journal auth_db)
      = ((sample_journal auth_db)\<lparr>j_db := db'\<rparr>, Inr (Durable ReservationCreated ()))" .
  have "short_chain (Suc 0) db'" using row by (simp add: short_chain_def db'_def db_def)
  then obtain j where "checkpoint_committed_head sample_env ((sample_journal auth_db)\<lparr>j_db := db'\<rparr>) = (j, Inr ())"
    using ready_checkpoint [OF ready_journal, of auth_db 0 db'] by auto
  then have "reserve_for_clock_profile sample_env auth_reservation (budget_limits auth_terms) True (sample_journal auth_db) = (j, Inr ())"
    by (simp add: reserve_for_clock_profile_def mutate_def commit after_durable_def)
  then show ?thesis
    by (simp add: authorize_for_clock_profile_def am_bind_def am_read_def am_return_def auth_check_request reserve_budget_def
        auth_reservation_def [symmetric])
qed

end
