(* ===== verification/AuthoritySafety.thy ===== *)
theory AuthoritySafety
  imports AuthorityBudget AuthoritySample
begin

text \<open>
  What the authority promises: a request that it authorizes is the one that was approved, approvals stay within their
  budgets, revocations are final, and every change of its state is in the audit chain.
\<close>

section \<open>Mutations that succeed\<close>

lemma am_bind_Inr: "am_bind m f a = (a', Inr y) \<longleftrightarrow> (\<exists>a1 x. m a = (a1, Inr x) \<and> f x a1 = (a', Inr y))"
  by (auto simp: am_bind_def split: prod.split sum.split)

lemma am_pure_Inr [simp]:
  "am_return x a = (a', r) \<longleftrightarrow> a' = a \<and> r = Inr x" "am_lift q a = (a', r) \<longleftrightarrow> a' = a \<and> q = r"
  "am_read f a = (a', r) \<longleftrightarrow> a' = a \<and> f a = r"
  by (auto simp: am_return_def am_lift_def am_read_def)

lemma authority_mutate_Inr:
  assumes "authority_mutate env plan a = (a', Inr x)"
  obtains (dropped) "plan (ba_tables a) = Drop x" "ba_tables a' = ba_tables a"
    | (applied) n event_type payload where "plan (ba_tables a) = Apply (ba_tables a') n event_type payload x"
  using assms by (auto simp: authority_mutate_def split: prod.splits sum.splits plan.splits)

section \<open>Revocation\<close>

lemma stored_tombstones:
  assumes "store_signer_tombstones env wallet_id tombstones a = (a', Inr ())" and "tombstone \<in> set tombstones"
  shows "is_tombstoned (ba_tables a') (tm_approval_id tombstone)"
proof -
  from assms(1) have "authority_mutate env (tombstones_plan env wallet_id tombstones) a = (a', Inr ())"
    by (simp add: store_signer_tombstones_def)
  then show ?thesis
  proof (cases rule: authority_mutate_Inr)
    case dropped
    then show ?thesis
      by (cases "incoming_tombstones env tombstones") (auto simp: tombstones_plan_def Let_def split: if_splits sum.splits)
  next
    case (applied n event_type payload)
    then obtain entries where e: "incoming_tombstones env tombstones = Inr entries"
      by (cases "incoming_tombstones env tombstones") (auto simp: tombstones_plan_def)
    have "\<exists>rows m. insert_tombstones wallet_id (bt_collect entries) tombstones (signer_approval_tombstones (ba_tables a)) 0 = Inr (rows, m)
        \<and> ba_tables a' = (ba_tables a)\<lparr>signer_approval_tombstones := rows\<rparr>"
      using applied e by (auto simp: tombstones_plan_def Let_def split: if_splits sum.splits)
    then show ?thesis using insert_tombstones_keeps(2) assms(2) by (auto simp: is_tombstoned_def)
  qed
qed

lemma reconciled_tombstones:
  assumes "reconcile_revocation env state tombstones a = (a', Inr outcome)" and "tombstone \<in> set tombstones"
  shows "is_tombstoned (ba_tables a') (tm_approval_id tombstone)"
proof -
  define rest where "rest sorted =
     am_bind (am_iter (stop_approval env) (map tm_approval_id sorted)) (\<lambda>_.
     am_bind (am_read (\<lambda>a. local_epoch env (ba_tables a) (rv_wallet_id state))) (\<lambda>local.
     if rv_wallet_revocation_epoch state < local then
       am_bind (store_epoch_reconciliation env (rv_wallet_id state) local False ''push_local'') (\<lambda>_. am_return PushLocalEpoch)
     else if rv_wallet_revocation_epoch state = local then
       am_bind (store_epoch_reconciliation env (rv_wallet_id state) local True ''converged'') (\<lambda>_. am_return Converged)
     else
       am_bind (store_epoch_reconciliation env (rv_wallet_id state) (rv_wallet_revocation_epoch state) True ''adopt_signer'') (\<lambda>_.
       am_bind (revoke_older_approvals env (rv_wallet_id state) (rv_wallet_revocation_epoch state)) (\<lambda>_. am_return AdoptedSignerEpoch))))"
    for sorted :: "ApprovalTombstone list"
  have keeps: "am_rel (\<lambda>a b. tighter (\<lambda>_. False) env (ba_tables a) (ba_tables b)) (rest sorted) b" for sorted b
    unfolding rest_def
    by (intro tightening.rel_bind tightening.rel_pure tightening.rel_iter tightening.rel_stop_approval)
       (rule tightening.rel_settle, auto)
  obtain a1 sorted where checked: "check_revocation_state env a state tombstones = Inr sorted"
    and stored: "store_signer_tombstones env (rv_wallet_id state) sorted a = (a1, Inr ())"
    and rest: "rest sorted a1 = (a', Inr outcome)"
    using assms(1) unfolding reconcile_revocation_def Let_def rest_def by (auto simp: am_bind_Inr)
  have "set sorted = set tombstones"
    using checked by (auto simp: check_revocation_state_def Let_def and_then_eq_Inr split: if_splits)
  with stored_tombstones [OF stored] assms(2) have "is_tombstoned (ba_tables a1) (tm_approval_id tombstone)" by blast
  moreover have "tighter (\<lambda>_. False) env (ba_tables a1) (ba_tables a')" using keeps [of sorted a1] rest by (simp add: am_rel_def)
  ultimately show ?thesis by (simp add: tighter_def)
qed

text \<open>The wallets that no receipt among the calls deletes.\<close>

definition undeleted :: "authority_call list \<Rightarrow> Token \<Rightarrow> bool" where
  "undeleted calls w \<longleftrightarrow> list_all (\<lambda>c. case c of CallCustody receipt _ \<Rightarrow> \<not> deletes receipt w | _ \<Rightarrow> True) calls"

definition kept_by :: "authority_call list \<Rightarrow> kept \<Rightarrow> bool" where
  "kept_by calls k \<longleftrightarrow> list_all (\<lambda>c. \<not> forgets c k) calls"

lemma undeleted_kept: "undeleted calls w \<Longrightarrow> kept_by calls (PolicyOf w)"
  by (auto simp: undeleted_def kept_by_def list_all_iff elim!: forgets.elims)

lemma run_tightens: "tighter (kept_by calls) env (ba_tables a) (ba_tables (run_calls env calls a))"
  by (rule tightening.run_rel) (auto simp: kept_by_def list_all_iff)

lemma tombstoned_refused:
  assumes "is_tombstoned (ba_tables a) (ms_approval_id (ai_request input))"
  shows "\<exists>e. authorize_for_clock_profile env input guard a = (a, Inl e)"
proof -
  have "\<exists>e. check_request env input a = Inl e"
  proof (cases "check_request env input a")
    case (Inr r)
    with assms show ?thesis
      by (cases r) (auto simp: check_request_def authorized_terms_def Let_def and_then_eq_Inr)
  qed simp
  then show ?thesis by (auto simp: authorize_for_clock_profile_def am_bind_def am_read_def)
qed

lemma tombstoned_inactive:
  assumes "is_tombstoned (ba_tables a) (cg_approval_id grant)"
  shows "\<exists>e. activate_approval env grant now_ms a = (a, Inl e)"
proof -
  have "\<exists>e. check_grant env grant now_ms a = Inl e"
  proof (cases "check_grant env grant now_ms a")
    case (Inr r)
    with assms show ?thesis by (auto simp: check_grant_def and_then_eq_Inr split: if_splits)
  qed simp
  then show ?thesis by (auto simp: activate_approval_def am_bind_def am_read_def)
qed

lemma tombstoned_no_receipt:
  assumes "is_tombstoned (ba_tables a) (sa_approval_id receipt)"
  shows "\<exists>e. activate_signer_receipt env receipt now_ms a = (a, Inl e)"
proof -
  have "\<exists>e. check_activation_receipt env receipt now_ms a = Inl e"
  proof (cases "check_activation_receipt env receipt now_ms a")
    case (Inr r)
    with assms show ?thesis by (auto simp: check_activation_receipt_def and_then_eq_Inr split: if_splits)
  qed simp
  then show ?thesis by (auto simp: activate_signer_receipt_def am_bind_def am_read_def)
qed

text \<open>C2. Revocations are final: once a revocation state with a tombstone has been reconciled, the approval it names
authorizes no request and is activated neither by a grant nor by a receipt of the Signer, whatever calls of the authority and the
journal come in between.\<close>

theorem revocations_are_final:
  assumes "reconcile_revocation env state tombstones a = (a1, Inr outcome)" and "tombstone \<in> set tombstones"
    and "ms_approval_id (ai_request input) = tm_approval_id tombstone" and "cg_approval_id grant = tm_approval_id tombstone"
    and "sa_approval_id receipt = tm_approval_id tombstone"
  shows "(\<exists>e. authorize_for_clock_profile env input guard (run_calls env calls a1) = (run_calls env calls a1, Inl e))
    \<and> (\<exists>e. activate_approval env grant now_ms (run_calls env calls a1) = (run_calls env calls a1, Inl e))
    \<and> (\<exists>e. activate_signer_receipt env receipt now_ms (run_calls env calls a1) = (run_calls env calls a1, Inl e))"
proof -
  have "is_tombstoned (ba_tables (run_calls env calls a1)) (tm_approval_id tombstone)"
    using reconciled_tombstones [OF assms(1,2)] run_tightens [of calls env a1] by (simp add: tighter_def)
  then show ?thesis using assms(3-5) tombstoned_refused tombstoned_inactive tombstoned_no_receipt by metis
qed

theorem revocations_are_final_witness:
  "\<exists>a1. reconcile_revocation auth_sample auth_state [auth_tombstone] auth_authority = (a1, Inr Converged)
    \<and> (\<exists>e. authorize_for_clock_profile auth_sample (auth_input ''x'') True (run_calls auth_sample [CallAdvance ''wallet'' 0 1, CallRevoke ''x''] a1)
          = (run_calls auth_sample [CallAdvance ''wallet'' 0 1, CallRevoke ''x''] a1, Inl e))"
proof -
  obtain a1 where a1: "reconcile_revocation auth_sample auth_state [auth_tombstone] auth_authority = (a1, Inr Converged)"
    using auth_reconcile by blast
  have "ms_approval_id (ai_request (auth_input ''x'')) = tm_approval_id auth_tombstone" "cg_approval_id (auth_grant ''x'') = tm_approval_id auth_tombstone"
    "sa_approval_id (auth_receipt ''x'') = tm_approval_id auth_tombstone"
    by (simp_all add: auth_input_def auth_grant_def auth_receipt_def)
  then show ?thesis
    using a1 revocations_are_final [OF a1, of auth_tombstone "auth_input ''x''" "auth_grant ''x''" "auth_receipt ''x''"] by auto
qed

lemma advanced_epoch:
  assumes "advance_local_epoch env wallet_id expected next a = (a', Inr ())"
  shows "\<exists>e. local_epoch env (ba_tables a') wallet_id = Inr e \<and> next \<le> e"
proof -
  obtain a1 where m: "authority_mutate env (advance_plan env wallet_id expected next) a = (a1, Inr ())"
    and r: "revoke_older_approvals env wallet_id next a1 = (a', Inr ())"
    using assms by (auto simp: advance_local_epoch_def am_bind_Inr split: if_splits)
  have "local_epoch env (ba_tables a1) wallet_id = Inr next"
    using m
  proof (cases rule: authority_mutate_Inr)
    case dropped
    then show ?thesis
      by (cases "select ep_wallet_id wallet_id (wallet_epochs (ba_tables a))";
          cases "parse_number env (ep_epoch (the (select ep_wallet_id wallet_id (wallet_epochs (ba_tables a)))))")
         (auto simp: advance_plan_def split: if_splits)
  next
    case (applied n event_type payload)
    have "plan_of r = Apply t n et p x \<Longrightarrow> r = Inr (Apply t n et p x)" for r :: "AuthorityError + unit plan" and t n et p x
      by (cases r) auto
    from this [OF applied [unfolded advance_plan_def]] show ?thesis
      by (auto simp: and_then_eq_Inr split: if_splits) (metis local_epoch_upsert)
  qed
  moreover have "tighter (\<lambda>_. False) env (ba_tables a1) (ba_tables a')"
    using tightening.rel_revoke_older [of "\<lambda>_. False" env wallet_id "next" a1] r by (simp add: am_rel_def)
  ultimately show ?thesis by (auto simp: tighter_def epochs_rise_def)
qed

text \<open>A wallet's epoch never goes back: once it has been advanced, no approval of the wallet that was sealed at an earlier
epoch authorizes a request, whatever calls come in between.\<close>

lemma superseded_epochs_are_final:
  assumes "advance_local_epoch env wallet_id expected next a = (a1, Inr ())"
    and "approval_terms env (run_calls env calls a1) (ms_approval_id (ai_request input)) = Inr (Some terms)"
    and "st_wallet_id terms = wallet_id" and "st_wallet_revocation_epoch terms < next"
  shows "\<exists>e. authorize_for_clock_profile env input guard (run_calls env calls a1) = (run_calls env calls a1, Inl e)"
proof -
  let ?b = "run_calls env calls a1"
  obtain e where e: "local_epoch env (ba_tables ?b) wallet_id = Inr e" "next \<le> e"
    using advanced_epoch [OF assms(1)] run_tightens [of calls env a1] unfolding tighter_def epochs_rise_def by (meson order_trans)
  have "\<exists>e. check_request env input ?b = Inl e"
  proof (cases "check_request env input ?b")
    case (Inr r)
    then have "local_epoch env (ba_tables ?b) wallet_id = Inr (st_wallet_revocation_epoch terms)"
      using assms(2,3)
      by (cases r) (auto simp: check_request_def authorized_terms_def Let_def and_then_eq_Inr local_epoch_def map_ok_def split: if_splits)
    with e assms(4) show ?thesis by auto
  qed simp
  then show ?thesis by (auto simp: authorize_for_clock_profile_def am_bind_def am_read_def)
qed

section \<open>What an authorized request satisfies\<close>

text \<open>The approval is alive and covers the time, the key and the suite, under the policy and epoch it was sealed with.\<close>

definition approval_allows :: "auth_env \<Rightarrow> authority \<Rightarrow> AuthorizationInput \<Rightarrow> SealedApprovalTerms \<Rightarrow> CanonicalWalletPolicy \<Rightarrow> bool" where
  "approval_allows env a input terms policy \<longleftrightarrow> (let request = ai_request input; approval = ms_approval_id request in
     approval_terms env a approval = Inr (Some terms) \<and> \<not> is_tombstoned (ba_tables a) approval
     \<and> approval_state (ae_journal env) (ba_db a) approval = Inr (Some AS_Active)
     \<and> st_not_before_ms terms \<le> ai_reserved_at_ms input \<and> ai_reserved_at_ms input \<le> st_expires_at_ms terms
     \<and> ms_key_ref request = st_key_ref terms \<and> ms_crypto_suite request \<in> set (st_allowed_crypto_suites terms)
     \<and> (\<exists>snapshot. current_policy env (ba_tables a) (st_wallet_id terms) = Inr (snapshot, policy)
         \<and> sp_version snapshot = st_policy_version terms \<and> sp_policy_digest snapshot = st_policy_digest terms)
     \<and> epoch_state env (ba_tables a) (st_wallet_id terms) = Inr (st_wallet_revocation_epoch terms, True))"

text \<open>A claim of a Petal that the selector grants: its package, one of its routes with one of that route's classes, these payloads.\<close>

fun granted_by :: "ApprovalSelector \<Rightarrow> PetalUseClaim \<Rightarrow> bool" where
  "granted_by (SelectorPetal package_hash route classes grants required) claim \<longleftrightarrow> pc_package_hash claim = package_hash
     \<and> (if grants = [] then pc_route claim = route \<and> pc_operation_class claim \<in> set classes
        else \<exists>grant \<in> set grants. pc_route claim = rg_route grant \<and> pc_operation_class claim \<in> set (rg_allowed_operation_classes grant))
     \<and> assurance_rank required \<le> assurance_rank (assurance_level (pc_claim_assurance claim))"
| "granted_by (SelectorExact _ _) claim \<longleftrightarrow> True"

text \<open>What is signed: the approved payloads themselves, or payloads that a granted claim is about.\<close>

definition payloads_allowed :: "auth_env \<Rightarrow> AuthorizationInput \<Rightarrow> SealedApprovalTerms \<Rightarrow> CanonicalWalletPolicy \<Rightarrow> bool" where
  "payloads_allowed env input terms policy \<longleftrightarrow> (let request = ai_request input; payloads = payload_bytes env (ms_payloads request) in
     (case st_selector terms of
        SelectorExact digests hashes \<Rightarrow> map (sha256_digest env) payloads = digests
          \<and> map (suite_hash env (ms_crypto_suite request)) payloads = hashes
      | SelectorPetal _ _ _ _ _ \<Rightarrow> ms_petal_use_claim request \<noteq> None)
     \<and> (ms_petal_use_claim request = None \<or> ms_system_use_claim request = None)
     \<and> (\<forall>claim. ms_petal_use_claim request = Some claim \<longrightarrow> granted_by (st_selector terms) claim
         \<and> pc_payload_digest claim = petal_payload_batch_digest env payloads
         \<and> pc_ordered_hashes claim = map (suite_hash env (ms_crypto_suite request)) payloads
         \<and> destination_outside_policy (ae_address env) policy (pc_declared_destinations claim) = None)
     \<and> (\<forall>claim. ms_system_use_claim request = Some claim \<longrightarrow> (\<exists>payload. payloads = [payload] \<and> su_payload_digest claim = sha256_digest env payload)
         \<and> su_ordered_hashes claim = map (suite_hash env (ms_crypto_suite request)) payloads
         \<and> destination_outside_policy (ae_address env) policy (su_declared_destinations claim) = None))"

lemma authorized_terms_Inr:
  assumes "authorized_terms env input a = Inr (terms, policy)"
  shows "approval_allows env a input terms policy"
  using assms unfolding authorized_terms_def approval_allows_def Let_def
  by (auto simp: and_then_eq_Inr map_err_eq_Inr not_less split: if_splits)

lemma validate_petal_Inr:
  assumes "validate_petal_claim env a terms policy input claim package_hash route classes required payloads hashes = Inr ()"
  shows "pc_package_hash claim = package_hash \<and> pc_route claim = route \<and> pc_operation_class claim \<in> set classes
    \<and> assurance_rank required \<le> assurance_rank (assurance_level (pc_claim_assurance claim))
    \<and> pc_payload_digest claim = petal_payload_batch_digest env payloads \<and> pc_ordered_hashes claim = hashes
    \<and> destination_outside_policy (ae_address env) policy (pc_declared_destinations claim) = None"
  using assms
  by (auto simp: validate_petal_claim_def and_then_eq_Inr check_destinations_def split: if_splits option.splits)

lemma validate_system_Inr:
  assumes "validate_system_claim env a terms policy input claim component_id action_class classes payloads hashes (map f payloads) = Inr ()"
  shows "(\<exists>payload. payloads = [payload] \<and> su_payload_digest claim = f payload) \<and> su_ordered_hashes claim = hashes
    \<and> destination_outside_policy (ae_address env) policy (su_declared_destinations claim) = None"
proof (cases payloads)
  case (Cons payload rest)
  with assms show ?thesis
    by (auto simp: validate_system_claim_def and_then_eq_Inr check_destinations_def split: if_splits option.splits)
qed (use assms in \<open>simp add: validate_system_claim_def\<close>)

lemma check_claims_Inr:
  assumes "check_claims env a terms policy input provenance (payload_bytes env (ms_payloads (ai_request input)))
      (ordered_hashes_of env (ai_request input)) (payload_digests_of env (ai_request input)) = Inr charge"
  shows "payloads_allowed env input terms policy"
proof (cases "st_selector terms")
  case (SelectorExact digests hashes)
  show ?thesis
    using assms SelectorExact
    by (cases "ms_petal_use_claim (ai_request input)"; cases "ms_system_use_claim (ai_request input)"; cases "st_subject terms")
       (auto simp: check_claims_def check_exact_claims_def payloads_allowed_def and_then_eq_Inr Let_def
          ordered_hashes_of_def payload_digests_of_def split: if_splits
          dest!: validate_petal_Inr validate_system_Inr)
next
  case (SelectorPetal package_hash route classes grants required)
  show ?thesis
    using assms SelectorPetal
    by (cases "ms_petal_use_claim (ai_request input)"; cases "ms_system_use_claim (ai_request input)")
       (auto simp: check_claims_def payloads_allowed_def and_then_eq_Inr Let_def map_ok_def
          ordered_hashes_of_def split: if_splits dest!: validate_petal_Inr dest: find_SomeD)
qed

lemma reserve_row:
  assumes "reserve_for_clock_profile env request limits guard j = (j', Inr ())"
  shows "\<exists>row. select_reservation (rr_approval_id request) (rr_operation_id request) (j_db j') = Some row \<and> rs_state row = ''RESERVED''
    \<and> rs_operation_digest row = rr_operation_digest request \<and> rs_signature_count row = u64_to_string (rr_signature_count request)"
proof -
  from assms have "mutate env (reserve_tx env request limits guard) j = (j', Inr ())"
    by (simp add: reserve_for_clock_profile_def split: if_splits)
  then obtain j1 out where c: "commit env (reserve_tx env request limits guard) j = (j1, Inr out)" and f: "finish env out j1 = (j', Inr ())"
    by (auto simp: mutate_def split: prod.splits sum.splits)
  have db: "j_db j' = j_db j1" using finish_store [OF f] .
  have "reserve_tx env request limits guard (j_signer j) (j_db j) = (j_db j1, Inr out)"
    using c by (cases rule: commit_store) auto
  then show ?thesis
  proof (cases rule: reserve_cases)
    case (replay row)
    then show ?thesis by (auto simp: db reservation_matches_def split: if_splits)
  next
    case (fresh ap md)
    then have "select_reservation (rr_approval_id request) (rr_operation_id request) (j_db j1) = Some (reservation_row_of request)"
      by (simp add: select_reservation_def find_append)
    then show ?thesis by (simp add: db reservation_row_of_def)
  qed
qed

lemma authorized_reserves:
  assumes "authorize_for_clock_profile env input guard a = (a', Inr decision)"
  shows "\<exists>row. select_reservation (ms_approval_id (ai_request input)) (ms_operation_id (ai_request input)) (ba_db a') = Some row
    \<and> rs_state row = ''RESERVED''"
proof -
  obtain terms "values" assurance fee digest where
    "reserve_budget env (reservation_request env input digest values) (budget_limits terms) guard fee a = (a', Inr ())"
    using assms unfolding authorize_for_clock_profile_def by (auto simp: am_bind_Inr)
  then obtain j where "reserve_for_clock_profile (ae_journal env) (reservation_request env input digest values) (budget_limits terms) guard
      (ba_journal a) = (j, Inr ())" and "ba_journal a' = j"
    by (auto simp: reserve_budget_def split: prod.splits)
  then show ?thesis using reserve_row by (fastforce simp: reservation_request_def)
qed

text \<open>C1. A request that is authorized is the one that was approved: its approval is active, not revoked, valid at the time, and sealed
for this key, this suite, the current policy and the current epoch; the payloads are the approved ones or those of a claim that the
approval grants, with every declared destination allowed by the policy; and the budget of the approval holds a reservation with the digest
of the operation and the number of its signatures.\<close>

theorem authorized_requests_are_approved:
  assumes "authorize_for_clock_profile env input guard a = (a', Inr decision)"
  shows "\<exists>terms policy. approval_allows env a input terms policy \<and> payloads_allowed env input terms policy
    \<and> (\<exists>row. select_reservation (ms_approval_id (ai_request input)) (ms_operation_id (ai_request input)) (ba_db a') = Some row
        \<and> rs_state row = ''RESERVED'' \<and> rs_operation_digest row = ms_operation_digest (ai_request input)
        \<and> rs_signature_count row = u64_to_string (of_nat (length (payload_bytes env (ms_payloads (ai_request input)))))
        \<and> dn_ordered_hashes decision = map (suite_hash env (ms_crypto_suite (ai_request input))) (payload_bytes env (ms_payloads (ai_request input))))"
proof -
  obtain terms "values" assurance fee digest where check: "check_request env input a = Inr (terms, (values, assurance, fee), digest)"
    and reserved: "reserve_budget env (reservation_request env input digest values) (budget_limits terms) guard fee a = (a', Inr ())"
    and decision: "dn_ordered_hashes decision = ordered_hashes_of env (ai_request input)"
    using assms unfolding authorize_for_clock_profile_def by (auto simp: am_bind_Inr)
  obtain policy provenance where terms: "authorized_terms env input a = Inr (terms, policy)"
    and claims: "check_claims env a terms policy input provenance (payload_bytes env (ms_payloads (ai_request input)))
       (ordered_hashes_of env (ai_request input)) (payload_digests_of env (ai_request input)) = Inr (values, assurance, fee)"
    and digest: "check_identity env a terms (ai_request input) = Inr digest"
    using check by (auto simp: check_request_def Let_def and_then_eq_Inr)
  have "digest = ms_operation_digest (ai_request input)"
    using digest by (auto simp: check_identity_def and_then_eq_Inr split: if_splits)
  moreover obtain j where j: "reserve_for_clock_profile (ae_journal env) (reservation_request env input digest values) (budget_limits terms) guard
      (ba_journal a) = (j, Inr ())" and "ba_journal a' = j"
    using reserved by (auto simp: reserve_budget_def split: prod.splits)
  ultimately show ?thesis
    using authorized_terms_Inr [OF terms] check_claims_Inr [OF claims] reserve_row [OF j] decision
    by (intro exI [of _ terms] exI [of _ policy]) (auto simp: reservation_request_def ordered_hashes_of_def)
qed

theorem authorized_requests_are_approved_witness:
  "\<exists>a' d. authorize_for_clock_profile auth_sample (auth_input ''a'') True auth_authority = (a', Inr d)
    \<and> (\<exists>terms policy. approval_allows auth_sample auth_authority (auth_input ''a'') terms policy
        \<and> payloads_allowed auth_sample (auth_input ''a'') terms policy)"
  using auth_authorizes authorized_requests_are_approved by blast

section \<open>Budgets\<close>

lemma reserved_nothing: "live_reservations db approval = [] \<Longrightarrow> reserved_value env approval asset db = 0"
  unfolding reserved_value_sum
  by (auto simp: sum_list_eq_0_iff live_amount_def live_reservations_def filter_empty_conv select_reservation_def
      split: option.split dest!: find_SomeD)

text \<open>The live reservations of an approval, which were not released, against the limits of its terms: their number, their signatures, and in
every asset that has a value limit the amounts they hold, against the last value limit of the terms for the asset.\<close>

definition within_terms :: "auth_env \<Rightarrow> SealedApprovalTerms \<Rightarrow> Digest32 \<Rightarrow> db \<Rightarrow> bool" where
  "within_terms env terms approval db \<longleftrightarrow>
     length (live_reservations db approval) \<le> unat (al_max_operations (st_limits terms))
     \<and> sum_list (map signatures_of (live_reservations db approval)) \<le> unat (al_max_signatures (st_limits terms))
     \<and> (\<forall>asset limit. find (\<lambda>limit. limit_asset limit = asset) (rev (al_value_limits (st_limits terms))) = Some limit \<longrightarrow>
         reserved_value (ae_journal env) approval asset db \<le> amount_of (ae_journal env) (vl_lifetime limit))"

lemma within_budget_terms: "within_budget env approval terms db \<longleftrightarrow> ledger_wf db \<and> within_terms env terms approval db"
  unfolding within_budget_def within_terms_def within_lifetime_def within_value_def value_limits_last map_option_eq_Some by blast

lemma within_terms_nothing: "live_reservations db approval = [] \<Longrightarrow> within_terms env terms approval db"
  by (simp add: within_terms_def reserved_nothing)

text \<open>C3. An approval never authorizes more than its terms. Take a store whose ledger is well formed and where the live reservations of
the approval are within the limits of its recorded terms, as they are when there are none. After any calls of the authority and the
journal, provided that a call that reserves for the approval in the journal directly, not through the authority, passes the limits of
the terms, the ledger is well formed and the live reservations are still within the limits: the number of operations, the number of
signatures, and in every asset with a value limit the amount reserved, against the last value limit that the terms list for it.\<close>

theorem approvals_stay_within_their_limits:
  assumes "approval_terms env a approval = Inr (Some terms)" and "ledger_wf (ba_db a)" and "within_terms env terms approval (ba_db a)"
    and "\<forall>request limits guard. CallJournal (Reserve request limits guard) \<in> set calls \<longrightarrow> rr_approval_id request = approval \<longrightarrow>
      limits = budget_limits terms"
  shows "ledger_wf (ba_db (run_calls env calls a)) \<and> within_terms env terms approval (ba_db (run_calls env calls a))
    \<and> approval_terms env (run_calls env calls a) approval = Inr (Some terms)"
proof -
  have "budgeted env approval terms b r" if "CallJournal r \<in> set calls" for b r
    using that assms(4) by (cases r) (auto simp: budgeted_def)
  then show ?thesis
    using budgeting.run_rel [of calls env approval terms a] assms(1-3)
    unfolding budget_move_def approval_terms_of within_budget_terms by blast
qed

theorem approvals_stay_within_their_limits_witness:
  "\<exists>a' d. authorize_for_clock_profile auth_sample (auth_input ''a'') True auth_authority = (a', Inr d)
    \<and> length (live_reservations (ba_db a') ''a'') = 1
    \<and> length (live_reservations (ba_db (run_calls auth_sample [CallAuthorize (auth_input ''a'') False, CallRevoke ''a''] a')) ''a'') \<le> 1"
proof -
  obtain a' d where run: "authorize_for_clock_profile auth_sample (auth_input ''a'') True auth_authority = (a', Inr d)"
    using auth_authorizes by blast
  have terms: "approval_terms auth_sample auth_authority ''a'' = Inr (Some auth_terms)"
    by (simp add: approval_terms_def map_ok_def)
  have a': "a' = run_calls auth_sample [CallAuthorize (auth_input ''a'') True] auth_authority" using run by (simp add: run_calls_def)
  have within: "ledger_wf (ba_db a') \<and> within_terms auth_sample auth_terms ''a'' (ba_db a')
      \<and> approval_terms auth_sample a' ''a'' = Inr (Some auth_terms)"
    unfolding a' by (rule approvals_stay_within_their_limits [OF terms]) (simp_all add: within_terms_nothing)
  then have most: "length (live_reservations (ba_db a') ''a'') \<le> 1" by (simp add: within_terms_def)
  obtain row where "select_reservation ''a'' (ms_operation_id (ai_request (auth_input ''a''))) (ba_db a') = Some row" and "rs_state row = ''RESERVED''"
    using authorized_reserves [OF run] by (auto simp: auth_input_def)
  then have "row \<in> set (live_reservations (ba_db a') ''a'')"
    by (auto simp: live_reservations_def is_live_def select_reservation_def dest!: find_SomeD)
  with most have "length (live_reservations (ba_db a') ''a'') = 1" by (cases "live_reservations (ba_db a') ''a''") auto
  moreover have "within_terms auth_sample auth_terms ''a''
      (ba_db (run_calls auth_sample [CallAuthorize (auth_input ''a'') False, CallRevoke ''a''] a'))"
    using approvals_stay_within_their_limits [of auth_sample a' "''a''" auth_terms
        "[CallAuthorize (auth_input ''a'') False, CallRevoke ''a'']"] within by simp
  ultimately show ?thesis using run by (auto simp: within_terms_def)
qed

section \<open>Every change is audited\<close>

text \<open>C30. The authority and the journal share one audit chain. Take an opened journal: what it has cached of its chain was verified, and no row refers to
a row that is missing. After any calls the audit chain has only grown, and it has grown whenever a table of the authority has changed; if it
verifies at the start it verifies at the end, and if it has grown it verifies at the end even when nothing was known of it.\<close>

theorem authority_changes_are_audited:
  assumes "env_laws (ae_journal env)" and "journal_ok (ae_journal env) (ba_journal a)"
    and "\<forall>r. CallJournal r \<in> set calls \<longrightarrow> request_admissible (ae_journal env) r"
  shows "let b = run_calls env calls a; verifies = (\<lambda>a. verify_audit_chain_connection (ae_journal env) (j_signer (ba_journal a)) (ba_db a) = Inr ()) in
    journal_ok (ae_journal env) (ba_journal b) \<and> (verifies a \<longrightarrow> verifies b)
    \<and> (\<exists>rows. audit_chain (ba_db b) = audit_chain (ba_db a) @ rows \<and> (ba_tables b \<noteq> ba_tables a \<longrightarrow> rows \<noteq> []) \<and> (rows \<noteq> [] \<longrightarrow> verifies b))"
proof -
  let ?b = "run_calls env calls a"
  have "audited_move env a ?b" using assms(3) by (intro auditing.run_rel) auto
  then obtain rows where rows: "audit_chain (ba_db ?b) = audit_chain (ba_db a) @ rows" "ba_tables ?b \<noteq> ba_tables a \<longrightarrow> rows \<noteq> []"
    using assms(1,2) unfolding audited_move_def by blast
  have "verified_move env a ?b" using assms(3) by (intro verifying.run_rel) auto
  then have ok: "journal_ok (ae_journal env) (ba_journal ?b)" and v: "verified_or_same (ae_journal env) (ba_journal a) (ba_journal ?b)"
    using assms(1,2) unfolding verified_move_def by blast+
  have "rows \<noteq> [] \<Longrightarrow> audit_chain (ba_db ?b) \<noteq> audit_chain (ba_db a)" using rows(1) by simp
  with rows ok verified_or_same_verifies [OF assms(1) v] show ?thesis unfolding Let_def chain_ok_def by blast
qed

lemma ready_quota:
  assumes "ready k (ba_journal a)" and "k < 1000" and "quota_row_of auth_sample (ba_tables a) ''machine'' = Inr current"
    and "next_window now_ms 10 current = Inr (start, n)" and "n \<le> 3"
  shows "\<exists>a'. consume_mutation_quota auth_sample ''machine'' now_ms 10 3 a = (a', Inr ()) \<and> ready (Suc k) (ba_journal a')
    \<and> quota_row_of auth_sample (ba_tables a') ''machine'' = Inr (Some (start, n))"
proof -
  let ?plan = "quota_plan auth_sample ''machine'' now_ms 10 3"
  have "\<exists>t m et p. ?plan (ba_tables a) = Apply t m et p () \<and> quota_row_of auth_sample t ''machine'' = Inr (Some (start, n))"
    using assms(3-5) by (simp add: quota_plan_def quota_row_of_def select_upsert)
  then obtain t m et p where plan: "?plan (ba_tables a) = Apply t m et p ()" and row: "quota_row_of auth_sample t ''machine'' = Inr (Some (start, n))"
    by blast
  from ready_mutate [where plan = ?plan, OF assms(1,2) plan] row show ?thesis by (auto simp: consume_mutation_quota_def)
qed

lemma auth_no_quota: "quota_row_of auth_sample (ba_tables auth_authority) ''machine'' = Inr None"
  by (simp add: quota_row_of_def select_def auth_tables_def no_tables_def)

theorem authority_changes_are_audited_witness:
  "let b = run_calls auth_sample [CallQuota ''machine'' 5 10 3, CallRevoke ''a''] auth_authority in
    audit_chain (ba_db b) \<noteq> [] \<and> verify_audit_chain_connection sample_env (j_signer (ba_journal b)) (ba_db b) = Inr ()"
proof -
  obtain a1 where a1: "consume_mutation_quota auth_sample ''machine'' 5 10 3 auth_authority = (a1, Inr ())"
    and row: "quota_row_of auth_sample (ba_tables a1) ''machine'' = Inr (Some (5, 1))"
    using ready_quota [of 0 auth_authority None 5 5 1] auth_no_quota by (auto simp: next_window_def ready_journal)
  let ?b = "run_calls auth_sample [CallQuota ''machine'' 5 10 3, CallRevoke ''a''] auth_authority"
  have step: "?b = run_calls auth_sample [CallRevoke ''a''] a1" using a1 by (simp add: run_calls_def)
  have "tighter (kept_by [CallRevoke ''a'']) auth_sample (ba_tables a1) (ba_tables ?b)" unfolding step by (rule run_tightens)
  then have "ba_tables ?b \<noteq> ba_tables auth_authority"
    using row auth_no_quota by (auto simp: tighter_def kept_by_def quota_row_of_def)
  with authority_changes_are_audited [of auth_sample auth_authority "[CallQuota ''machine'' 5 10 3, CallRevoke ''a'']"] show ?thesis
    by (auto simp: Let_def sample_env_laws sample_journal_ok)
qed

text \<open>C4. What the authority has accepted against a wallet only tightens, whatever is called: tombstoned approvals and stopped keys stay
so, epochs never go back, and the stored policy of a wallet that no signed receipt deletes keeps its version and text or is replaced by
one with a higher version.\<close>

theorem restrictions_only_tighten:
  "let t = ba_tables a; t' = ba_tables (run_calls env calls a) in
    (\<forall>approval. is_tombstoned t approval \<longrightarrow> is_tombstoned t' approval)
    \<and> (\<forall>wallet_id key_ref_jcs. key_stopped t wallet_id key_ref_jcs \<longrightarrow> key_stopped t' wallet_id key_ref_jcs)
    \<and> (\<forall>wallet_id e. local_epoch env t wallet_id = Inr e \<longrightarrow> (\<exists>e'. local_epoch env t' wallet_id = Inr e' \<and> e \<le> e'))
    \<and> (\<forall>wallet_id v s. undeleted calls wallet_id \<longrightarrow> stored_policy env t wallet_id = Inr (Some (v, s)) \<longrightarrow>
        (\<exists>v' s'. stored_policy env t' wallet_id = Inr (Some (v', s')) \<and> (v < v' \<or> v' = v \<and> s' = s)))"
  using run_tightens [of calls env a] undeleted_kept [of calls] unfolding tighter_def epochs_rise_def versions_rise_def Let_def by metis

theorem restrictions_only_tighten_witness:
  "\<exists>v' s'. stored_policy auth_sample (ba_tables (run_calls auth_sample [CallInstallPolicy auth_snapshot no_correlation, CallAdvance ''wallet'' 0 1] auth_authority)) ''wallet''
      = Inr (Some (v', s')) \<and> (1 < v' \<or> v' = 1 \<and> s' = [])"
proof -
  have "stored_policy auth_sample (ba_tables auth_authority) ''wallet'' = Inr (Some (1, []))"
    by (simp add: stored_policy_def select_def auth_tables_def)
  moreover have "undeleted [CallInstallPolicy auth_snapshot no_correlation, CallAdvance ''wallet'' 0 1] ''wallet''"
    by (simp add: undeleted_def)
  ultimately show ?thesis
    using restrictions_only_tighten [of auth_authority auth_sample "[CallInstallPolicy auth_snapshot no_correlation, CallAdvance ''wallet'' 0 1]"]
    unfolding Let_def by blast
qed

section \<open>Quotas\<close>

lemma quota_row_upsert:
  "quota_row_of env (t\<lparr>mutation_quota := upsert mq_principal
      \<lparr>mq_principal = caller, mq_window_started_ms = u64_to_string start, mq_mutations = u64_to_string n\<rparr> rows\<rparr>) caller = Inr (Some (start, n))"
  by (simp add: quota_row_of_def select_upsert)

lemma quota_plan_cases:
  assumes "quota_row_of env t caller = Inr current"
  obtains (refused) e where "quota_plan env caller now_ms window_ms maximum t = Refuse 0 e"
    | (counted) start n t' m et p where "next_window now_ms window_ms current = Inr (start, n)" and "n \<le> maximum"
      and "quota_plan env caller now_ms window_ms maximum t = Apply t' m et p ()" and "quota_row_of env t' caller = Inr (Some (start, n))"
proof (cases "next_window now_ms window_ms current")
  case (Inr w)
  then show thesis using assms refused counted by (cases w) (fastforce simp: quota_plan_def not_less quota_row_upsert split: if_splits)
qed (use assms refused in \<open>simp add: quota_plan_def\<close>)

lemma consume_cases:
  obtains e where "consume_mutation_quota env caller now_ms window_ms maximum a = (a, Inl e)"
    | "consume_mutation_quota env caller now_ms window_ms maximum a = authority_mutate env (quota_plan env caller now_ms window_ms maximum) a"
  unfolding consume_mutation_quota_def am_lift_def by (cases "window_ms = 0 \<or> maximum = 0") simp_all

lemma refused_mutation:
  assumes "plan (ba_tables a) = Refuse n e"
  shows "ba_tables (fst (authority_mutate env plan a)) = ba_tables a" and "snd (authority_mutate env plan a) \<noteq> Inr x"
  using assms by (auto simp: authority_mutate_def split: prod.splits sum.splits)

text \<open>A use of the quota leaves the row of its caller alone and fails, or counts itself.\<close>

lemma quota_step:
  assumes "quota_row_of env (ba_tables a) caller = Inr current"
  obtains (unused) "quota_row_of env (ba_tables (fst (consume_mutation_quota env caller now_ms window_ms maximum a))) caller = Inr current"
      and "snd (consume_mutation_quota env caller now_ms window_ms maximum a) \<noteq> Inr ()"
    | (used) start n where "next_window now_ms window_ms current = Inr (start, n)" and "n \<le> maximum"
      and "quota_row_of env (ba_tables (fst (consume_mutation_quota env caller now_ms window_ms maximum a))) caller = Inr (Some (start, n))"
proof -
  let ?c = "consume_mutation_quota env caller now_ms window_ms maximum a" and ?plan = "quota_plan env caller now_ms window_ms maximum"
  show thesis
  proof (cases rule: consume_cases [of env caller now_ms window_ms maximum a])
    case (1 e)
    with assms unused show thesis by simp
  next
    case 2
    from assms show thesis
    proof (cases rule: quota_plan_cases [where now_ms = now_ms and window_ms = window_ms and maximum = maximum])
      case (refused e)
      with assms unused refused_mutation [where plan = ?plan and env = env, OF refused] show thesis by (simp add: 2)
    next
      case (counted start n t' m et p)
      then have "ba_tables (fst ?c) = t' \<or> ba_tables (fst ?c) = ba_tables a \<and> snd ?c \<noteq> Inr ()"
        unfolding 2 by (auto simp: authority_mutate_def split: prod.splits sum.splits)
      with counted assms used unused show thesis by metis
    qed
  qed
qed

text \<open>The number of uses of the quota by a caller that succeed.\<close>

fun quota_granted :: "auth_env \<Rightarrow> string \<Rightarrow> authority_call \<Rightarrow> authority \<Rightarrow> bool" where
  "quota_granted env caller (CallQuota c now_ms window_ms maximum) a \<longleftrightarrow>
     c = caller \<and> snd (consume_mutation_quota env c now_ms window_ms maximum a) = Inr ()"
| "quota_granted env caller _ a \<longleftrightarrow> False"

fun granted_uses :: "auth_env \<Rightarrow> string \<Rightarrow> authority_call list \<Rightarrow> authority \<Rightarrow> nat" where
  "granted_uses env caller [] a = 0"
| "granted_uses env caller (c # calls) a = (if quota_granted env caller c a then 1 else 0) + granted_uses env caller calls (perform env c a)"

text \<open>The uses by the caller have these bounds, at times of the interval of a window's length that starts at t.\<close>

definition uses_within :: "string \<Rightarrow> u64 \<Rightarrow> u64 \<Rightarrow> u64 \<Rightarrow> authority_call list \<Rightarrow> bool" where
  "uses_within caller window_ms maximum t calls \<longleftrightarrow> (\<forall>now_ms w m. CallQuota caller now_ms w m \<in> set calls \<longrightarrow>
     w = window_ms \<and> m = maximum \<and> unat t \<le> unat now_ms \<and> unat now_ms < unat t + unat window_ms)"

lemma uses_within_Cons:
  "uses_within caller window_ms maximum t (c # calls) \<longleftrightarrow> uses_within caller window_ms maximum t [c] \<and> uses_within caller window_ms maximum t calls"
  unfolding uses_within_def list.set by blast

text \<open>One call: the row stays and nothing is granted, or the use is counted.\<close>

lemma quota_call_cases:
  assumes "quota_row_of env (ba_tables a) caller = Inr current" and "uses_within caller window_ms maximum t [c]"
  obtains (unused) "quota_row_of env (ba_tables (perform env c a)) caller = Inr current" and "\<not> quota_granted env caller c a"
    | (used) now_ms start n where "next_window now_ms window_ms current = Inr (start, n)" and "n \<le> maximum"
      and "quota_row_of env (ba_tables (perform env c a)) caller = Inr (Some (start, n))"
      and "unat t \<le> unat now_ms" and "unat now_ms < unat t + unat window_ms"
proof (cases "\<exists>now_ms w m. c = CallQuota caller now_ms w m")
  case True
  then obtain now_ms w m where "c = CallQuota caller now_ms w m" by blast
  moreover from this have "w = window_ms \<and> m = maximum \<and> unat t \<le> unat now_ms \<and> unat now_ms < unat t + unat window_ms"
    using assms(2) unfolding uses_within_def list.set by blast
  ultimately have c: "c = CallQuota caller now_ms window_ms maximum"
    and t: "unat t \<le> unat now_ms" "unat now_ms < unat t + unat window_ms" by blast+
  from assms(1) show thesis
  proof (cases rule: quota_step [where now_ms = now_ms and window_ms = window_ms and maximum = maximum])
    case unused
    then show thesis by (intro that(1)) (simp_all add: c)
  next
    case (used start n)
    then show thesis by (intro that(2) [of now_ms start n] t) (simp_all add: c)
  qed
next
  case False
  then have "\<not> forgets c (QuotaOf caller)" by (cases c) auto
  then have "tighter (\<lambda>k. k = QuotaOf caller) env (ba_tables a) (ba_tables (perform env c a))"
    by (intro tightening.perform_rel) auto
  then have "quota_row_of env (ba_tables (perform env c a)) caller = Inr current"
    using assms(1) by (simp add: tighter_def quota_row_of_def)
  moreover have "\<not> quota_granted env caller c a" using False by (cases c) auto
  ultimately show thesis by (rule unused)
qed

lemma next_window_cases:
  assumes "next_window now_ms window_ms current = Inr (start, n)"
  obtains (opened) "start = now_ms" "n = 1" "\<And>s k. current = Some (s, k) \<Longrightarrow> unat window_ms \<le> unat now_ms - unat s"
    | (counts) k where "current = Some (start, k)" "unat n = unat k + 1" "unat now_ms - unat start < unat window_ms"
proof (cases "\<exists>s k. current = Some (s, k) \<and> saturating_sub now_ms s < window_ms")
  case True
  then obtain s k where k: "current = Some (s, k)" "saturating_sub now_ms s < window_ms" by blast
  then have n: "start = s" "n = k + 1" "k \<noteq> - 1" using assms by (auto simp: next_window_def split: if_splits)
  have "1 + k \<noteq> 0" using n(3) by (simp add: eq_neg_iff_add_eq_0 add.commute)
  then have "unat n = unat k + 1" using unatSuc [of k] by (simp add: n(2) add.commute)
  with k n show thesis by (intro counts) (auto simp: word_less_nat_alt unat_saturating_sub)
next
  case False
  then have "start = now_ms" "n = 1" using assms by (auto simp: next_window_def split: if_splits option.splits)
  then show thesis using False by (intro opened) (auto simp: word_less_nat_alt unat_saturating_sub)
qed

lemma uses_in_open_window:
  assumes "quota_row_of env (ba_tables a) caller = Inr (Some (start, n))" and "uses_within caller window_ms maximum t calls"
    and "unat t + unat window_ms \<le> unat start + unat window_ms"
  shows "granted_uses env caller calls a \<le> unat maximum - unat n"
  using assms(1,2)
proof (induction calls arbitrary: a n)
  case (Cons c calls)
  have here: "uses_within caller window_ms maximum t [c]" and rest: "uses_within caller window_ms maximum t calls"
    using Cons.prems(2) uses_within_Cons by blast+
  from Cons.prems(1) here show ?case
  proof (cases rule: quota_call_cases)
    case unused
    with Cons.IH [OF unused(1) rest] show ?thesis by simp
  next
    case (used now_ms start' n')
    from used(1) have "start' = start" "unat n' = unat n + 1"
      by (cases rule: next_window_cases; use used(4,5) assms(3) in auto)+
    with Cons.IH [of "perform env c a" n'] used rest show ?thesis by (auto simp: word_le_nat_alt)
  qed
qed simp

text \<open>No window is open at the time: none is stored, or the stored one has ended.\<close>

definition no_window_at :: "u64 \<Rightarrow> u64 \<Rightarrow> (u64 \<times> u64) option \<Rightarrow> bool" where
  "no_window_at t window_ms current \<longleftrightarrow> (\<forall>start n. current = Some (start, n) \<longrightarrow> unat start + unat window_ms \<le> unat t)"

lemma uses_in_fresh_window:
  assumes "quota_row_of env (ba_tables a) caller = Inr current" and "no_window_at t window_ms current"
    and "uses_within caller window_ms maximum t calls"
  shows "granted_uses env caller calls a \<le> unat maximum"
  using assms(1,3)
proof (induction calls arbitrary: a)
  case (Cons c calls)
  have here: "uses_within caller window_ms maximum t [c]" and rest: "uses_within caller window_ms maximum t calls"
    using Cons.prems(2) uses_within_Cons by blast+
  from Cons.prems(1) here show ?case
  proof (cases rule: quota_call_cases)
    case unused
    with Cons.IH [OF unused(1) rest] show ?thesis by simp
  next
    case (used now_ms start n)
    from used(1) have "start = now_ms" "n = 1"
      by (cases rule: next_window_cases; use used(4,5) assms(2) in \<open>auto simp: no_window_at_def\<close>)+
    with uses_in_open_window [OF used(3) rest] used show ?thesis by (auto simp: word_le_nat_alt)
  qed
qed simp

lemma uses_in_interval:
  assumes "quota_row_of env (ba_tables a) caller = Inr (Some (start, n))" and "uses_within caller window_ms maximum t calls"
  shows "granted_uses env caller calls a \<le> (unat maximum - unat n) + unat maximum"
  using assms
proof (induction calls arbitrary: a n)
  case (Cons c calls)
  have here: "uses_within caller window_ms maximum t [c]" and rest: "uses_within caller window_ms maximum t calls"
    using Cons.prems(2) uses_within_Cons by blast+
  from Cons.prems(1) here show ?case
  proof (cases rule: quota_call_cases)
    case unused
    with Cons.IH [OF unused(1) rest] show ?thesis by simp
  next
    case (used now_ms start' n')
    from used(1) show ?thesis
    proof (cases rule: next_window_cases)
      case opened
      with uses_in_open_window [OF used(3) rest] used show ?thesis by (auto simp: word_le_nat_alt)
    next
      case (counts k)
      with Cons.IH [of "perform env c a" n'] used rest show ?thesis by (auto simp: word_le_nat_alt)
    qed
  qed
qed simp

lemma uses_unreadable:
  assumes "quota_row_of env (ba_tables a) caller = Inl e"
  shows "granted_uses env caller calls a = 0"
  using assms
proof (induction calls arbitrary: a)
  case (Cons c calls)
  have "\<not> quota_granted env caller c a \<and> quota_row_of env (ba_tables (perform env c a)) caller = Inl e"
  proof (cases "\<exists>now_ms w m. c = CallQuota caller now_ms w m")
    case True
    then obtain now_ms w m where c: "c = CallQuota caller now_ms w m" by blast
    have refused: "quota_plan env caller now_ms w m (ba_tables a) = Refuse 0 e" using Cons.prems by (simp add: quota_plan_def)
    show ?thesis
      by (cases rule: consume_cases [of env caller now_ms w m a]) (use Cons.prems refused_mutation [where plan = "quota_plan env caller now_ms w m" and env = env, OF refused] in \<open>simp_all add: c\<close>)
  next
    case False
    then have "\<not> forgets c (QuotaOf caller)" by (cases c) auto
    then have "tighter (\<lambda>k. k = QuotaOf caller) env (ba_tables a) (ba_tables (perform env c a))"
      by (intro tightening.perform_rel) auto
    moreover have "\<not> quota_granted env caller c a" using False by (cases c) auto
    ultimately show ?thesis using Cons.prems by (simp add: tighter_def quota_row_of_def)
  qed
  with Cons.IH show ?case by simp
qed simp

text \<open>C31. A quota bounds every interval of its window's length. Take any state and any calls of the authority and the journal, in which the uses of
the quota by a caller pass this window and this maximum and times within the interval that starts at t, in any order. At most twice the maximum of
them succeed, and at most the maximum when no window of the caller is open at t: no row is stored for the caller, or the stored window has
ended by then.\<close>

theorem quotas_bound_a_window:
  fixes t :: u64
  assumes "\<forall>now_ms w m. CallQuota caller now_ms w m \<in> set calls \<longrightarrow>
      w = window_ms \<and> m = maximum \<and> unat t \<le> unat now_ms \<and> unat now_ms < unat t + unat window_ms"
  shows "granted_uses env caller calls a \<le> 2 * unat maximum
    \<and> ((\<forall>start n. quota_row_of env (ba_tables a) caller = Inr (Some (start, n)) \<longrightarrow> unat start + unat window_ms \<le> unat t) \<longrightarrow>
        granted_uses env caller calls a \<le> unat maximum)"
proof (cases "quota_row_of env (ba_tables a) caller")
  case (Inl e)
  then show ?thesis using uses_unreadable by simp
next
  case (Inr current)
  have within: "uses_within caller window_ms maximum t calls" using assms unfolding uses_within_def .
  have fresh: "granted_uses env caller calls a \<le> unat maximum" if "no_window_at t window_ms current"
    using uses_in_fresh_window [OF Inr that within] .
  moreover have "granted_uses env caller calls a \<le> 2 * unat maximum" if "\<not> no_window_at t window_ms current"
    using that uses_in_interval [where start = "fst (the current)" and n = "snd (the current)", OF _ within] Inr by (fastforce simp: no_window_at_def)
  ultimately have "granted_uses env caller calls a \<le> 2 * unat maximum" by (cases "no_window_at t window_ms current") auto
  with fresh Inr show ?thesis by (auto simp: no_window_at_def)
qed

text \<open>The first window of the caller is opened at 5 and ends at 15; a call at 20 opens the next one.\<close>

theorem quotas_bound_a_window_witness:
  "\<exists>a1 a2. consume_mutation_quota auth_sample ''machine'' 5 10 3 auth_authority = (a1, Inr ())
    \<and> consume_mutation_quota auth_sample ''machine'' 20 10 3 a1 = (a2, Inr ())
    \<and> granted_uses auth_sample ''machine'' [CallQuota ''machine'' 20 10 3] a1 = 1
    \<and> granted_uses auth_sample ''machine'' (CallQuota ''machine'' 20 10 3 # CallRevoke ''a'' # replicate 7 (CallQuota ''machine'' 21 10 3)) a1 \<le> 3"
proof -
  obtain a1 where a1: "consume_mutation_quota auth_sample ''machine'' 5 10 3 auth_authority = (a1, Inr ())" "ready 1 (ba_journal a1)"
    and row: "quota_row_of auth_sample (ba_tables a1) ''machine'' = Inr (Some (5, 1))"
    using ready_quota [of 0 auth_authority None 5 5 1] auth_no_quota by (auto simp: next_window_def ready_journal)
  obtain a2 where a2: "consume_mutation_quota auth_sample ''machine'' 20 10 3 a1 = (a2, Inr ())"
    using ready_quota [of 1 a1 "Some (5, 1)" 20 20 1] a1(2) row by (auto simp: next_window_def saturating_sub_def)
  have "granted_uses auth_sample ''machine'' (CallQuota ''machine'' 20 10 3 # CallRevoke ''a'' # replicate 7 (CallQuota ''machine'' 21 10 3)) a1 \<le> unat (3 :: u64)"
    using quotas_bound_a_window [of "''machine''" "CallQuota ''machine'' 20 10 3 # CallRevoke ''a'' # replicate 7 (CallQuota ''machine'' 21 10 3)"
        10 3 20 auth_sample a1] row
    by (auto simp del: replicate.simps granted_uses.simps)
  then show ?thesis using a1 a2 by (simp del: replicate.simps granted_uses.simps add: granted_uses.simps(1) granted_uses.simps(2) [of _ _ _ "[]"])
qed

end
