(* ===== verification/KeyStops.thy ===== *)
theory KeyStops
  imports AuthoritySafety
begin

text \<open>
  Stopping a key (\<open>admit_key_revocation\<close> of \<open>bloom-broker/src/authority.rs\<close>): the states of approvals only move forward along every
  sequence of calls, so what the admission of a revocation fences never comes back, and the stopped key admits no new
  reusable approval.
\<close>

section \<open>Approvals only move forward\<close>

lemma fence_state:
  assumes "fence_approval env s i db = (db', Inr ())"
  obtains (left) "approvals db' = approvals db" and "stored_approval_state db i \<noteq> Some ''PREPARED''"
      and "stored_approval_state db i \<noteq> Some ''AWAITING_CEREMONY''"
    | (fenced) state db1 where "state \<in> {AS_Prepared, AS_AwaitingCeremony}" and "stored_approval_state db i = Some (approval_state_text state)"
      and "update_approval_state i (approval_state_text AS_Failed) db = (db1, Inr ())" and "approvals db' = approvals db1"
proof -
  obtain state where st: "stored_approval_state db i = Some state"
    using assms by (auto simp: fence_approval_def tx_bind_Inr ok_or_def stored_approval_state_def split: option.splits)
  show thesis
  proof (cases "state = ''PREPARED'' \<or> state = ''AWAITING_CEREMONY''")
    case True
    then obtain p db1 h where up: "update_approval_state i ''FAILED'' db = (db1, Inr ())"
      and app: "append_audit env ''approval.transition'' p s db1 = (db', Inr h)"
      using assms st by (auto simp: fence_approval_def tx_bind_Inr ok_or_def stored_approval_state_def split: option.splits)
    from True st up append_audit_approvals [OF app] show thesis
      by (intro fenced [of "if state = ''PREPARED'' then AS_Prepared else AS_AwaitingCeremony" db1]) auto
  next
    case False
    with assms st show thesis
      by (intro left) (auto simp: fence_approval_def tx_bind_Inr ok_or_def stored_approval_state_def split: option.splits if_splits)
  qed
qed

lemma fence_follows [follow_intros]: "tx_rel approvals_follow (fence_approval env s i)"
  unfolding tx_rel_def
proof (intro allI impI)
  fix db db' and out :: unit
  assume "fence_approval env s i db = (db', Inr out)"
  then have "fence_approval env s i db = (db', Inr ())" by simp
  then show "approvals_follow db db'"
  proof (cases rule: fence_state)
    case (fenced state db1)
    have "valid_approval_transition state AS_Failed" using fenced(1) by auto
    then have "approvals_follow db db1" by (rule update_follows [OF fenced(3,2) r_into_rtranclp])
    then show ?thesis using approvals_follow_same [OF fenced(4)] by (rule approvals_follow_trans)
  qed (rule approvals_follow_same)
qed

lemma changed_follows [follow_intros]: "tx_rel approvals_follow (tx_changed n)"
  by (auto simp: tx_rel_def tx_changed_def intro: approvals_follow_same)

lemma admission_follows: "tx_rel approvals_follow (admission_body env request digest key_ref_jcs at bound s)"
  unfolding admission_body_def begin_key_revocation_tx_def stop_effects_def by (intro follow_intros)

text \<open>The store after an admission is the store after its commit.\<close>

lemma admit_stop_commit:
  assumes "commit (ae_journal env) (admission_body env request digest key_ref_jcs at bound) (ba_journal a) = (j, r)"
  shows "ba_db (fst (admit_stop env request digest key_ref_jcs at bound a)) = j_db j"
  using assms by (cases r) (auto simp: admit_stop_journal mutate_def intro: finish_store surjective_pairing)

lemma admit_stop_follows: "approvals_follow (ba_db a) (ba_db (fst (admit_stop env request digest key_ref_jcs at bound a)))"
proof -
  obtain j r where c: "commit (ae_journal env) (admission_body env request digest key_ref_jcs at bound) (ba_journal a) = (j, r)"
    by (meson surj_pair)
  then have "approvals_follow (ba_db a) (j_db j)"
    by (cases rule: commit_store) (auto intro: approvals_follow_same tx_relD [OF admission_follows])
  with admit_stop_commit [OF c] show ?thesis by simp
qed

interpretation moving: authority_order "\<lambda>_. False" env "\<lambda>a b. approvals_follow (ba_db a) (ba_db b)" "\<lambda>_ _. True" for env
proof
  fix a b c r
  show "approvals_follow (ba_db a) (ba_db a)" by (rule approvals_follow_same) simp
  show "approvals_follow (ba_db a) (ba_db c)" if "approvals_follow (ba_db a) (ba_db b)" "approvals_follow (ba_db b) (ba_db c)"
    using that by (rule approvals_follow_trans)
  show "approvals_follow (ba_db a) (ba_db (a\<lparr>ba_journal := fst (call (ae_journal env) r (ba_journal a))\<rparr>))"
    using approvals_order.call_rel [where env = "ae_journal env" and r = r and j = "ba_journal a"] by simp
  show "approvals_follow (ba_db a) (ba_db (fst (authority_mutate env plan a)))" for plan :: "tables \<Rightarrow> unit plan"
    using authority_mutate_db [of a env plan] by (auto simp: chain_only_def intro: approvals_follow_same)
  show "approvals_follow (ba_db a) (ba_db (a\<lparr>ba_journal := fst (checkpoint_committed_head (ae_journal env) (ba_journal a))\<rparr>))"
    using checkpoint_store(1) [of "ae_journal env" "ba_journal a", OF surjective_pairing] by (intro approvals_follow_same) simp
qed (auto intro: approvals_follow_same admit_stop_follows)

lemma failed_stays:
  assumes "approvals_follow db db'" and "stored_approval_state db i = Some (approval_state_text AS_Failed)"
  shows "stored_approval_state db' i = Some (approval_state_text AS_Failed)"
proof -
  obtain b where "stored_approval_state db' i = Some (approval_state_text b)" "valid_approval_transition\<^sup>*\<^sup>* AS_Failed b"
    using assms unfolding approvals_follow_def by blast
  then show ?thesis by (auto elim: converse_rtranclpE)
qed

section \<open>What an admission fences\<close>

definition fenceable :: "db \<Rightarrow> Digest32 \<Rightarrow> bool" where
  "fenceable db i \<longleftrightarrow> (\<exists>state \<in> {AS_Prepared, AS_AwaitingCeremony, AS_Failed}. stored_approval_state db i = Some (approval_state_text state))"

lemma fenceable_same: "approvals db' = approvals db \<Longrightarrow> fenceable db' i = fenceable db i"
  by (simp add: fenceable_def stored_approval_state_def select_approval_def)

lemma fence_fails:
  assumes "fence_approval env s k db = (db', Inr ())" and "fenceable db i"
  shows "fenceable db' i" and "k = i \<Longrightarrow> stored_approval_state db' i = Some (approval_state_text AS_Failed)"
proof -
  have "fenceable db' i \<and> (k = i \<longrightarrow> stored_approval_state db' i = Some (approval_state_text AS_Failed))"
    using assms(1)
  proof (cases rule: fence_state)
    case left
    then show ?thesis
      using assms(2) fenceable_same [OF left(1)] by (auto simp: fenceable_def stored_approval_state_def select_approval_def)
  next
    case (fenced state db1)
    have "stored_approval_state db' x = stored_approval_state db1 x" for x
      using fenced(4) by (simp add: stored_approval_state_def select_approval_def)
    then show ?thesis
      using stored_after_update [OF fenced(3)] fenced(2) assms(2) by (auto simp: fenceable_def)
  qed
  then show "fenceable db' i" "k = i \<Longrightarrow> stored_approval_state db' i = Some (approval_state_text AS_Failed)" by simp_all
qed

lemma fence_all:
  assumes "tx_iter (fence_approval env s) bound db = (db', Inr ())" and "fenceable db i"
    and "i \<in> set bound \<or> stored_approval_state db i = Some (approval_state_text AS_Failed)"
  shows "stored_approval_state db' i = Some (approval_state_text AS_Failed)"
  using assms
proof (induction bound arbitrary: db)
  case (Cons k bound)
  obtain db1 where run: "fence_approval env s k db = (db1, Inr ())" and rest: "tx_iter (fence_approval env s) bound db1 = (db', Inr ())"
    using Cons.prems(1) by (auto simp: tx_bind_Inr)
  have "approvals_follow db db1" using tx_relD [OF fence_follows run] .
  then have "stored_approval_state db i = Some (approval_state_text AS_Failed) \<Longrightarrow> stored_approval_state db1 i = Some (approval_state_text AS_Failed)"
    by (rule failed_stays)
  with Cons.IH [OF rest fence_fails(1) [OF run Cons.prems(2)]] fence_fails(2) [OF run Cons.prems(2)] Cons.prems(3) show ?case by auto
qed simp

lemma approvals_kept_by:
  "insert_operation env opr db = (db', Inr u) \<Longrightarrow> approvals db' = approvals db"
  "insert_attempt env at db = (db', Inr v) \<Longrightarrow> approvals db' = approvals db"
  by (auto simp: insert_operation_def insert_attempt_def split: if_splits option.splits)

lemma attempts_keep_approvals: "tx_iter (\<lambda>(a, r). insert_attempt env (f a r)) targets db = (db', Inr u) \<Longrightarrow> approvals db' = approvals db"
proof (induction targets arbitrary: db)
  case (Cons t targets)
  obtain db1 v where "insert_attempt env (f (fst t) (snd t)) db = (db1, Inr v)" and "tx_iter (\<lambda>(a, r). insert_attempt env (f a r)) targets db1 = (db', Inr u)"
    using Cons.prems by (cases t) (auto simp: tx_bind_Inr)
  with approvals_kept_by(2) Cons.IH show ?case by metis
qed simp

text \<open>The effects run on a store with the approvals that the transaction started with.\<close>

lemma admission_effects:
  assumes "admission_body env request digest key_ref_jcs at bound s db = (db', Inr (Durable point b))"
  obtains db3 where "stop_effects (ae_journal env) request key_ref_jcs at (map fst bound) s db3 = (db', Inr ())" and "approvals db3 = approvals db"
proof -
  let ?e = "ae_journal env"
  define row where "row = (\<lambda>approval_id revocation_id. \<lparr>at_operation_id = rk_operation_id request, at_attempt_id = approval_id, at_attempt_digest = revocation_id\<rparr>)"
  define insert_all where "insert_all = tx_iter (\<lambda>(approval_id, revocation_id). insert_attempt ?e (row approval_id revocation_id))
     (targets_of env (rk_operation_id request) bound)"
  obtain opr db1 db2 db3 p r where opr: "insert_operation ?e opr db = (db1, Inr ())" and attempts: "insert_all db1 = (db2, Inr ())"
    and entry: "append_audit ?e ''key.revocation.received'' p s db2 = (db3, Inr r)"
    and effects: "stop_effects ?e request key_ref_jcs at (map fst bound) s db3 = (db', Inr ())"
    using assms unfolding admission_body_def begin_key_revocation_tx_def fun_cong [OF fun_cong [OF row_def], symmetric] insert_all_def [symmetric]
    by (auto simp: tx_bind_Inr split: option.splits if_splits)
  have "approvals db1 = approvals db" "approvals db2 = approvals db1" "approvals db3 = approvals db2"
    using approvals_kept_by(1) [OF opr] attempts_keep_approvals [OF attempts [unfolded insert_all_def]] append_audit_approvals [OF entry] .
  then show thesis by (intro that [OF effects]) simp
qed

lemma admission_fences:
  assumes "admission_body env request digest key_ref_jcs at bound s db = (db', Inr (Durable point b))" and "fenceable db i" and "i \<in> fst ` set bound"
  shows "stored_approval_state db' i = Some (approval_state_text AS_Failed)"
proof -
  let ?e = "ae_journal env"
  obtain db3 where effects: "stop_effects ?e request key_ref_jcs at (map fst bound) s db3 = (db', Inr ())" and "approvals db3 = approvals db"
    by (rule admission_effects [OF assms(1)])
  obtain db4 q h where entry: "append_audit ?e ''approval.key_stopped'' q s (changed 1 db3) = (db4, Inr h)"
    and fences: "tx_iter (fence_approval ?e s) (map fst bound) db4 = (db', Inr ())"
    using effects unfolding stop_effects_def by (auto simp: tx_bind_Inr tx_changed_def)
  have "approvals db4 = approvals db" using append_audit_approvals [OF entry] \<open>approvals db3 = approvals db\<close> by simp
  from fenceable_same [OF this] have "fenceable db4 i" using assms(2) by simp
  then show ?thesis by (rule fence_all [OF fences]) (use assms(3) in simp)
qed

lemma admitted:
  assumes "admit_key_revocation env request at a = (a1, Inr (targets, True))"
  obtains digest bound key_ref_jcs point j where "approvals_for_key env a (rk_wallet_id request) (rk_key_ref request) = Inr bound"
    and "jcs env (SerKeyRef (rk_key_ref request)) = Inr key_ref_jcs" and "targets = targets_of env (rk_operation_id request) bound"
    and "commit (ae_journal env) (admission_body env request digest key_ref_jcs at bound) (ba_journal a) = (j, Inr (Durable point True))"
    and "ba_tables a1 = stopped_tables request key_ref_jcs at (ba_tables a)" and "ba_db a1 = j_db j"
proof -
  obtain digest bound key_ref_jcs where bound: "approvals_for_key env a (rk_wallet_id request) (rk_key_ref request) = Inr bound"
    and k: "jcs env (SerKeyRef (rk_key_ref request)) = Inr key_ref_jcs" and targets: "targets = targets_of env (rk_operation_id request) bound"
    and stop: "admit_stop env request digest key_ref_jcs at bound a = (a1, Inr True)"
    using assms unfolding admit_key_revocation_def
    by (auto simp: am_bind_Inr map_ok_def and_then_eq_Inr split: option.splits if_splits)
  obtain j res where c: "commit (ae_journal env) (admission_body env request digest key_ref_jcs at bound) (ba_journal a) = (j, res)" by (meson surj_pair)
  have "\<exists>out. res = Inr out" using stop c by (cases res) (auto simp: admit_stop_def)
  then obtain out where out: "res = Inr out" by blast
  have "\<exists>point b. out = Durable point b"
  proof (cases out)
    case (Checkpointed b)
    with c out show ?thesis
      by (cases rule: commit_store) (auto simp: admission_body_def begin_key_revocation_tx_def tx_bind_Inr split: option.splits if_splits)
  next
    case (Unchanged b)
    with c out have "b = False"
      by (cases rule: commit_store) (auto simp: admission_body_def begin_key_revocation_tx_def tx_bind_Inr split: option.splits if_splits)
    with stop c out Unchanged show ?thesis by (auto simp: admit_stop_def map_err_def)
  qed simp
  then obtain point b where "out = Durable point b" by blast
  with stop c out have "b" and "ba_tables a1 = stopped_tables request key_ref_jcs at (ba_tables a)" 
    by (auto simp: admit_stop_def map_err_eq_Inr and_then_eq_Inr Let_def split: prod.splits sum.splits)
  moreover have "ba_db a1 = j_db j" using admit_stop_commit [OF c] stop by simp
  ultimately show thesis using that [OF bound k targets] c out \<open>out = Durable point b\<close> by auto
qed

section \<open>Stopped keys\<close>

lemma stored_state_read:
  "stored_approval_state db i = Some (approval_state_text state) \<Longrightarrow> approval_state env db i = Inr (Some state)"
  by (auto simp: stored_approval_state_def approval_state_def parse_approval_state_Inr and_then_eq_Inr)

lemma bound_approvals_state:
  "bound_approvals env db wallet_id key_ref records = Inr bound \<Longrightarrow> (i, state) \<in> set bound \<Longrightarrow> approval_state (ae_journal env) db i = Inr (Some state)"
  by (induction records arbitrary: bound)
     (auto simp: and_then_eq_Inr map_err_eq_Inr split: if_splits option.splits)

lemma bound_state:
  assumes "approvals_for_key env a wallet_id key_ref = Inr bound" and "(i, state) \<in> set bound"
  shows "stored_approval_state (ba_db a) i = Some (approval_state_text state)"
proof -
  have "approval_state (ae_journal env) (ba_db a) i = Inr (Some state)"
    using assms by (auto simp: approvals_for_key_def and_then_eq_Inr intro: bound_approvals_state)
  then show ?thesis
    by (auto simp: approval_state_def stored_approval_state_def and_then_eq_Inr parse_approval_state_Inr split: option.splits)
qed

lemma stopped_prepare:
  assumes "is_reusable terms" and "st_wallet_id terms = w" and "st_key_ref terms = key_ref" and "key_stopped (ba_tables b) w k"
    and "jcs env (SerKeyRef key_ref) = Inr k"
  shows "\<exists>e. prepare_approval_with_claim env terms digest claim b = (b, Inl e)"
proof -
  have "\<exists>e. ensure_key_not_stopped env (ba_tables b) terms = Inl e"
    using assms by (simp add: ensure_key_not_stopped_def key_stopped_def)
  then show ?thesis
    by (cases "validate_terms terms"; cases "validate_scoped_key_terms env (ba_tables b) terms")
       (auto simp: prepare_approval_with_claim_def am_bind_def am_lift_def am_read_def)
qed

text \<open>C5. A stopped key stays stopped: once the revocation of a key has been admitted, whatever calls come after, no reusable approval
on the key is prepared, and every approval of the key that was still pending when the revocation was admitted is failed for good.\<close>

theorem stopped_keys_admit_no_automation:
  assumes "admit_key_revocation env request at a = (a1, Inr (targets, True))"
    and "approvals_for_key env a (rk_wallet_id request) (rk_key_ref request) = Inr bound"
    and "b = run_calls env calls a1"
  shows "(\<forall>terms digest claim. is_reusable terms \<and> st_wallet_id terms = rk_wallet_id request \<and> st_key_ref terms = rk_key_ref request \<longrightarrow>
      (\<exists>e. prepare_approval_with_claim env terms digest claim b = (b, Inl e)))
    \<and> (\<forall>approval state. (approval, state) \<in> set bound \<and> (state = AS_Prepared \<or> state = AS_AwaitingCeremony) \<longrightarrow>
      approval_state (ae_journal env) (ba_db b) approval = Inr (Some AS_Failed))"
proof -
  obtain digest key_ref_jcs point j where k: "jcs env (SerKeyRef (rk_key_ref request)) = Inr key_ref_jcs"
    and c: "commit (ae_journal env) (admission_body env request digest key_ref_jcs at bound) (ba_journal a) = (j, Inr (Durable point True))"
    and t: "ba_tables a1 = stopped_tables request key_ref_jcs at (ba_tables a)" and db: "ba_db a1 = j_db j"
    using assms(2) by (auto intro: admitted [OF assms(1)])
  have "key_stopped (ba_tables a1) (rk_wallet_id request) key_ref_jcs"
    by (simp add: t stopped_tables_def key_stopped_def select_upsert)
  then have stopped: "key_stopped (ba_tables b) (rk_wallet_id request) key_ref_jcs"
    using run_tightens [of calls env a1] assms(3) by (simp add: tighter_def)
  have prepare: "\<exists>e. prepare_approval_with_claim env terms digest claim b = (b, Inl e)"
    if "is_reusable terms" "st_wallet_id terms = rk_wallet_id request" "st_key_ref terms = rk_key_ref request" for terms digest claim
    using that stopped k by (rule stopped_prepare)
  have "approval_state (ae_journal env) (ba_db b) approval = Inr (Some AS_Failed)"
    if "(approval, state) \<in> set bound" "state = AS_Prepared \<or> state = AS_AwaitingCeremony" for approval state
  proof -
    have "fenceable (ba_db a) approval"
      using bound_state [OF assms(2) that(1)] that(2) by (auto simp: fenceable_def)
    moreover have "approval \<in> fst ` set bound" using that(1) by force
    moreover have "\<exists>s. admission_body env request digest key_ref_jcs at bound s (ba_db a) = (j_db j, Inr (Durable point True))"
      using c by (cases rule: commit_store) auto
    ultimately have "stored_approval_state (ba_db a1) approval = Some (approval_state_text AS_Failed)"
      unfolding db using admission_fences by blast
    then have "stored_approval_state (ba_db b) approval = Some (approval_state_text AS_Failed)"
      using failed_stays [OF moving.run_rel [where calls = calls and a = a1 and env = env]] assms(3) by simp
    then show ?thesis by (rule stored_state_read)
  qed
  with prepare show ?thesis by blast
qed

section \<open>A key that is stopped\<close>

definition pending_db :: db where
  "pending_db = empty_db\<lparr>approvals := [\<lparr>ap_approval_id = zero_digest, ap_state = ''AWAITING_CEREMONY''\<rparr>],
     approval_metadata := [\<lparr>md_approval_id = zero_digest, md_terms_jcs = ''{}'', md_review_manifest_digest = ''d'',
       md_approved_claim_digest = None, md_provenance_jcs = Some [], md_renewal_of = None,
       md_activation_operation_id = None, md_ceremony_grant_jcs = None\<rparr>]\<rparr>"

definition pending_authority :: authority where
  "pending_authority = auth_authority\<lparr>ba_journal := sample_journal pending_db\<rparr>"

definition stop_request :: RevokeForKeyRequest where
  "stop_request = \<lparr>rk_operation_id = ''k'', rk_wallet_id = ''wallet'', rk_key_ref = st_key_ref sample_terms, rk_reason = ''lost''\<rparr>"

lemma pending_sel [simp]:
  "audit_chain pending_db = []" "ba_db pending_authority = pending_db" "ba_tables pending_authority = auth_tables"
  "select_operation i pending_db = None" "stored_approval_state pending_db zero_digest = Some ''AWAITING_CEREMONY''"
  by (simp_all add: pending_db_def pending_authority_def empty_db_def sample_journal_eval select_operation_def stored_approval_state_def
      select_approval_def)

lemma pending_bound:
  "approvals_for_key auth_sample pending_authority ''wallet'' (st_key_ref sample_terms) = Inr [(zero_digest, AS_AwaitingCeremony)]"
proof -
  have "sample_digest32_new zero_digest = Inr zero_digest" using env_lawsD(2) [OF sample_env_laws] by simp
  moreover have "approval_state sample_env pending_db zero_digest = Inr (Some AS_AwaitingCeremony)" by (rule stored_state_read) simp
  ultimately show ?thesis
    by (simp add: approvals_for_key_def approval_records_def) (simp add: pending_db_def record_of_row_def)
qed

text \<open>One entry after the other on a short chain.\<close>

lemma short_chain_changed [simp]: "short_chain k (changed n db) = short_chain k db"
  by (simp add: short_chain_def)

lemma short_chain_step:
  assumes "short_chain k db" and "k < 1000"
  obtains row h where "append_audit sample_env et p (active_signer (new_active_signer sample_signer)) db
      = (changed 1 (db\<lparr>audit_chain := audit_chain db @ [row]\<rparr>), Inr h)"
    and "short_chain (Suc k) (changed 1 (db\<lparr>audit_chain := audit_chain db @ [row]\<rparr>))"
proof -
  obtain row h where row: "append_audit sample_env et p (active_signer (new_active_signer sample_signer)) db
      = (changed 1 (db\<lparr>audit_chain := audit_chain db @ [row]\<rparr>), Inr h)" "au_sequence row = int k" "length (au_entry_hash row) = 64"
    using short_chain_append [OF assms, where et = et and p = p] by blast
  have "short_chain (Suc k) (changed 1 (db\<lparr>audit_chain := audit_chain db @ [row]\<rparr>))"
    using assms(1) row(2,3) by (simp add: short_chain_def)
  then show thesis by (rule that [OF row(1)])
qed

lemma stop_request_sel:
  "rk_operation_id stop_request = ''k''" "rk_wallet_id stop_request = ''wallet''" "rk_key_ref stop_request = st_key_ref sample_terms"
  by (simp_all add: stop_request_def)

lemma sample_stop_effects:
  assumes "short_chain 1 db" and "stored_approval_state db i = Some ''AWAITING_CEREMONY''"
  obtains db' where "stop_effects sample_env request k at [i] (active_signer (new_active_signer sample_signer)) db = (db', Inr ())"
    and "short_chain 3 db'"
proof -
  let ?s = "active_signer (new_active_signer sample_signer)"
  let ?p = "json_object [(''wallet_id'', JString (rk_wallet_id request)), (''key_ref_jcs'', JString k),
      (''operation_id'', JString (rk_operation_id request)), (''stopped_at_ms'', JNumber (unat at))]"
  let ?q = "json_object [(''approval_id'', JString i), (''from'', JString ''AWAITING_CEREMONY''), (''to'', JString ''FAILED'')]"
  have "short_chain 1 (changed 1 db)" using assms(1) by simp
  then obtain row h where e: "append_audit sample_env ''approval.key_stopped'' ?p ?s (changed 1 db)
      = (changed 1 ((changed 1 db)\<lparr>audit_chain := audit_chain (changed 1 db) @ [row]\<rparr>), Inr h)"
    and c: "short_chain (Suc 1) (changed 1 ((changed 1 db)\<lparr>audit_chain := audit_chain (changed 1 db) @ [row]\<rparr>))"
    by (rule short_chain_step) auto
  define db1 where "db1 = changed 1 ((changed 1 db)\<lparr>audit_chain := audit_chain (changed 1 db) @ [row]\<rparr>)"
  obtain r where r: "select_approval i db1 = Some r" "ap_state r = ''AWAITING_CEREMONY''"
    using assms(2) by (auto simp: db1_def stored_approval_state_def select_approval_def)
  define db2 where "db2 = fst (update_approval_state i ''FAILED'' db1)"
  have up: "update_approval_state i ''FAILED'' db1 = (db2, Inr ())" by (simp add: db2_def update_approval_state_def)
  have "short_chain 2 db1" using c [folded db1_def] by (simp only: numeral_2_eq_2 One_nat_def)
  then have "short_chain 2 db2" by (simp add: db2_def update_approval_state_def short_chain_def)
  then obtain row2 h2 where e2: "append_audit sample_env ''approval.transition'' ?q ?s db2
      = (changed 1 (db2\<lparr>audit_chain := audit_chain db2 @ [row2]\<rparr>), Inr h2)" and c2: "short_chain (Suc 2) (changed 1 (db2\<lparr>audit_chain := audit_chain db2 @ [row2]\<rparr>))"
    by (rule short_chain_step) auto
  have "stop_effects sample_env request k at [i] ?s db = (changed 1 (db2\<lparr>audit_chain := audit_chain db2 @ [row2]\<rparr>), Inr ())"
    using e [folded db1_def] e2 r up
    by (simp add: stop_effects_def fence_approval_def tx_bind_def tx_changed_def tx_check_def tx_return_def ok_or_def)
  moreover have "short_chain 3 (changed 1 (db2\<lparr>audit_chain := audit_chain db2 @ [row2]\<rparr>))" using c2 by simp
  ultimately show thesis by (rule that)
qed

lemma pending_admission:
  "\<exists>db'. admission_body auth_sample stop_request ''a'' [] at [(zero_digest, AS_AwaitingCeremony)]
      (active_signer (new_active_signer sample_signer)) pending_db = (db', Inr (Durable OperationReceived True)) \<and> short_chain 3 db'"
proof -
  let ?s = "active_signer (new_active_signer sample_signer)"
  let ?opr = "\<lparr>op_operation_id = ''k'', op_operation_digest = ''a'', op_retry_binding_digest = ''a'', op_state = ''RECEIVED'', op_is_batch = False,
      op_result_jcs = None, op_validation_receipt_jcs = None, op_kind = KEY_REVOCATION_KIND\<rparr>"
  let ?at = "\<lparr>at_operation_id = ''k'', at_attempt_id = zero_digest, at_attempt_digest = ''op''\<rparr>"
  have targets: "targets_of auth_sample ''k'' [(zero_digest, AS_AwaitingCeremony)] = [(zero_digest, ''op'')]"
    by (simp add: targets_of_def) (simp add: auth_sample_def)
  define db1 where "db1 = changed 1 (pending_db\<lparr>operations := [?opr]\<rparr>)"
  define db2 where "db2 = changed 1 (db1\<lparr>operation_attempts := [?at]\<rparr>)"
  have opr: "insert_operation sample_env ?opr pending_db = (db1, Inr ())"
    by (simp add: insert_operation_def db1_def) (simp add: pending_db_def empty_db_def)
  have attempt: "insert_attempt sample_env ?at db1 = (db2, Inr ())"
    by (simp add: insert_attempt_def db2_def attempt_conflict_def) (simp add: db1_def select_operation_def select_attempt_def pending_db_def empty_db_def)
  have "short_chain 0 db2" by (simp add: short_chain_def db1_def db2_def)
  then obtain row3 h3 where e3: "append_audit sample_env ''key.revocation.received'' (revocation_payload ''k'' ''a'' [(zero_digest, ''op'')]) ?s db2
      = (changed 1 (db2\<lparr>audit_chain := audit_chain db2 @ [row3]\<rparr>), Inr h3)" and c3: "short_chain 1 (changed 1 (db2\<lparr>audit_chain := audit_chain db2 @ [row3]\<rparr>))"
    by (rule short_chain_step) auto
  define db3 where "db3 = changed 1 (db2\<lparr>audit_chain := audit_chain db2 @ [row3]\<rparr>)"
  have chain: "short_chain 1 db3" and state: "stored_approval_state db3 zero_digest = Some ''AWAITING_CEREMONY''"
    using c3 by (simp_all add: db3_def db2_def db1_def stored_approval_state_def select_approval_def pending_db_def)
  obtain db' where "stop_effects sample_env stop_request [] at [zero_digest] ?s db3 = (db', Inr ())" and db': "short_chain 3 db'"
    by (rule sample_stop_effects [OF chain state])
  then have "admission_body auth_sample stop_request ''a'' [] at [(zero_digest, AS_AwaitingCeremony)] ?s pending_db
      = (db', Inr (Durable OperationReceived True))"
    using e3 by (simp add: admission_body_def begin_key_revocation_tx_def stop_request_sel targets tx_bind_def tx_query_def opr attempt db3_def tx_return_def)
  with db' show ?thesis by blast
qed

lemma pending_admit:
  "\<exists>a1. admit_key_revocation auth_sample stop_request 5 pending_authority = (a1, Inr ([(zero_digest, ''op'')], True))"
proof -
  let ?bound = "[(zero_digest, AS_AwaitingCeremony)]"
  let ?body = "admission_body auth_sample stop_request ''a'' [] 5 ?bound"
  obtain db' where run: "?body (active_signer (new_active_signer sample_signer)) pending_db = (db', Inr (Durable OperationReceived True))"
    and sc: "short_chain (Suc 2) db'"
    using pending_admission [of 5] by (auto simp: numeral_3_eq_3 numeral_2_eq_2)
  have commit: "commit sample_env ?body (sample_journal pending_db) = ((sample_journal pending_db)\<lparr>j_db := db'\<rparr>, Inr (Durable OperationReceived True))"
    by (rule sample_commit [where body = ?body, OF _ run]) simp
  have journal: "ba_journal pending_authority = sample_journal pending_db" by (simp add: pending_authority_def)
  obtain j where "checkpoint_committed_head sample_env ((sample_journal pending_db)\<lparr>j_db := db'\<rparr>) = (j, Inr ())"
    using ready_checkpoint [OF ready_journal [OF pending_sel(1)] sc] by auto
  then have "\<exists>a1. admit_stop auth_sample stop_request ''a'' [] 5 ?bound pending_authority = (a1, Inr True)"
    using commit by (simp add: admit_stop_def journal after_durable_def)
  then obtain a1 where stop: "admit_stop auth_sample stop_request ''a'' [] 5 ?bound pending_authority = (a1, Inr True)" by blast
  have known: "known_targets auth_sample stop_request ''a'' pending_authority = Inr None"
    by (simp add: known_targets_def key_revocation_targets_def)
  have targets: "targets_of auth_sample ''k'' ?bound = [(zero_digest, ''op'')]"
    by (simp add: targets_of_def) (simp add: auth_sample_def)
  have "admit_key_revocation auth_sample stop_request 5 pending_authority = (a1, Inr ([(zero_digest, ''op'')], True))"
    using stop
    by (simp add: admit_key_revocation_def am_bind_def am_lift_def am_read_def am_return_def revocation_parameters_def known stop_request_sel
        pending_bound targets)
  then show ?thesis by blast
qed

theorem stopped_keys_admit_no_automation_witness:
  "\<exists>a1. admit_key_revocation auth_sample stop_request 5 pending_authority = (a1, Inr ([(zero_digest, ''op'')], True))
    \<and> approval_state sample_env (ba_db (run_calls auth_sample [CallSignerReceipt (auth_receipt zero_digest) 5, CallAdvance ''wallet'' 0 1] a1)) zero_digest
      = Inr (Some AS_Failed)"
proof -
  obtain a1 where a1: "admit_key_revocation auth_sample stop_request 5 pending_authority = (a1, Inr ([(zero_digest, ''op'')], True))"
    using pending_admit by blast
  have bound: "approvals_for_key auth_sample pending_authority (rk_wallet_id stop_request) (rk_key_ref stop_request) = Inr [(zero_digest, AS_AwaitingCeremony)]"
    by (simp add: stop_request_sel pending_bound)
  show ?thesis
    using a1 stopped_keys_admit_no_automation [OF a1 bound refl, of "[CallSignerReceipt (auth_receipt zero_digest) 5, CallAdvance ''wallet'' 0 1]"]
    by auto
qed

end
