(* ===== verification/AccountProjection.thy ===== *)
theory AccountProjection
  imports CustodyTypes SignerTerms
begin

text \<open>
  How the accounts of the Signer reach the Machine (\<open>bloom-broker/src/translation/wallet_account.rs\<close>). Addresses are computed from the bytes of the
  public key, never taken from outside: the theorem of the theory says that the addresses shown for a wallet are those of its
  keys, and that checking an address accepts exactly what would be constructed. Keccak, SHA-256, hex and base58 are parameters.
\<close>

section \<open>Descriptors of the Signer and targets\<close>

datatype SouthPublicKeyEncoding = South_Secp256k1SpkiDer | South_Ed25519SpkiDer

datatype SouthAccountLifecycleState = South_AccountActive | South_AccountRetired

datatype SouthWalletSeedProfile = South_Bip39MulticurveV1 | South_ImportedSecp256k1Scalar

text \<open>The fields of a descriptor that the translation reads; the profile of the seed is the one of its \<open>wallet_seed_ref\<close>.\<close>

record SouthDerivedAccountDescriptor =
  sd_key_ref :: SouthKeyRef
  sd_seed_profile :: SouthWalletSeedProfile
  sd_derivation_profile :: SouthDerivationProfile
  sd_path :: string
  sd_canonical_public_key :: Base64UrlBytes
  sd_public_key_encoding :: SouthPublicKeyEncoding
  sd_public_key_fingerprint :: Digest32
  sd_supported_crypto_suites :: "SouthCryptoSuite list"
  sd_lifecycle :: SouthAccountLifecycleState

record ChainProjectionTarget =
  ct_chain_family :: Token
  ct_caip2 :: string
  ct_accepted_profile :: SouthDerivationProfile

fun account_lifecycle_to_machine :: "SouthAccountLifecycleState \<Rightarrow> AccountLifecycleState" where
  "account_lifecycle_to_machine South_AccountActive = AccountActive"
| "account_lifecycle_to_machine South_AccountRetired = AccountRetired"

fun wallet_seed_profile_to_machine :: "SouthWalletSeedProfile \<Rightarrow> WalletSeedProfile" where
  "wallet_seed_profile_to_machine South_Bip39MulticurveV1 = Bip39MulticurveV1"
| "wallet_seed_profile_to_machine South_ImportedSecp256k1Scalar = ImportedSecp256k1Scalar"

fun public_key_encoding_to_signer :: "PublicKeyEncoding \<Rightarrow> SouthPublicKeyEncoding" where
  "public_key_encoding_to_signer Secp256k1SpkiDer = South_Secp256k1SpkiDer"
| "public_key_encoding_to_signer Ed25519SpkiDer = South_Ed25519SpkiDer"

fun public_key_encoding_to_machine :: "SouthPublicKeyEncoding \<Rightarrow> PublicKeyEncoding" where
  "public_key_encoding_to_machine South_Secp256k1SpkiDer = Secp256k1SpkiDer"
| "public_key_encoding_to_machine South_Ed25519SpkiDer = Ed25519SpkiDer"

section \<open>Addresses from key bytes\<close>

definition SECP256K1_SPKI_PREFIX :: bytes where
  "SECP256K1_SPKI_PREFIX = [0x30, 0x56, 0x30, 0x10, 0x06, 0x07, 0x2a, 0x86, 0x48, 0xce, 0x3d, 0x02, 0x01, 0x06, 0x05, 0x2b,
     0x81, 0x04, 0x00, 0x0a, 0x03, 0x42, 0x00]"

definition ED25519_SPKI_PREFIX :: bytes where
  "ED25519_SPKI_PREFIX = [0x30, 0x2a, 0x30, 0x05, 0x06, 0x03, 0x2b, 0x65, 0x70, 0x03, 0x21, 0x00]"

definition secp256k1_uncompressed_point :: "bytes \<Rightarrow> ProtocolError + bytes" where
  "secp256k1_uncompressed_point spki =
     (if length spki \<noteq> 88 \<or> take (length SECP256K1_SPKI_PREFIX) spki \<noteq> SECP256K1_SPKI_PREFIX
      then Inl (account_invalid ''public key is not canonical secp256k1 SPKI DER'')
      else let point = take 65 (drop 23 spki) in
        if point ! 0 \<noteq> 0x04 then Inl (account_invalid ''secp256k1 point must be uncompressed 0x04 || x || y'')
        else Inr point)"

definition ed25519_raw_key :: "bytes \<Rightarrow> ProtocolError + bytes" where
  "ed25519_raw_key spki =
     (if length spki \<noteq> 44 \<or> take (length ED25519_SPKI_PREFIX) spki \<noteq> ED25519_SPKI_PREFIX
      then Inl (account_invalid ''public key is not canonical Ed25519 SPKI DER'')
      else Inr (take 32 (drop 12 spki)))"

text \<open>The functions of packages that the translation calls.\<close>

record projection_env =
  pj_crypto :: crypto_env
  pj_keccak256 :: "bytes \<Rightarrow> bytes"

definition derive_evm_address :: "projection_env \<Rightarrow> bytes \<Rightarrow> ProtocolError + string" where
  "derive_evm_address env spki =
     and_then (secp256k1_uncompressed_point spki) (\<lambda>point.
     let digest = pj_keccak256 env (take 32 (drop 1 point) @ take 32 (drop 33 point)) in
     Inr (''0x'' @ ce_hex (pj_crypto env) (take 20 (drop 12 digest))))"

definition derive_solana_address :: "projection_env \<Rightarrow> bytes \<Rightarrow> ProtocolError + string" where
  "derive_solana_address env spki = and_then (ed25519_raw_key spki) (\<lambda>key. Inr (ce_base58 (pj_crypto env) key))"

fun recompute_address :: "projection_env \<Rightarrow> SouthDerivationProfile \<Rightarrow> bytes \<Rightarrow> ProtocolError + (string \<times> AddressEncoding)" where
  "recompute_address env South_Bip44EvmSecp256k1V1 key = and_then (derive_evm_address env key) (\<lambda>address. Inr (address, Hex0x))"
| "recompute_address env South_Bip44SolanaSlip10Ed25519V1 key = and_then (derive_solana_address env key) (\<lambda>address. Inr (address, Base58))"

definition chain_projection_from_key_bytes :: "projection_env \<Rightarrow> SouthDerivationProfile \<Rightarrow> bytes \<Rightarrow> Token \<Rightarrow> string
    \<Rightarrow> ProtocolError + ChainAccountProjection" where
  "chain_projection_from_key_bytes env profile key chain_family caip2 =
     and_then (recompute_address env profile key) (\<lambda>(address, encoding).
     let projection = \<lparr>cj_chain_family = chain_family, cj_caip2 = caip2, cj_caip10 = caip2 @ '':'' @ address,
       cj_address = address, cj_address_encoding = encoding\<rparr> in
     and_then (validate_projection projection) (\<lambda>_. Inr projection))"

definition verify_chain_projection :: "projection_env \<Rightarrow> ChainAccountProjection \<Rightarrow> SouthDerivationProfile \<Rightarrow> bytes \<Rightarrow> ProtocolError + unit" where
  "verify_chain_projection env projection profile key =
     and_then (recompute_address env profile key) (\<lambda>(address, encoding).
     if cj_address projection \<noteq> address
     then Inl (account_invalid ''chain projection address does not match the public key'')
     else if cj_address_encoding projection \<noteq> encoding
     then Inl (account_invalid ''chain projection address encoding is wrong for the profile'')
     else if cj_caip10 projection \<noteq> cj_caip2 projection @ '':'' @ address
     then Inl (account_invalid ''caip10 must embed the exact caip2 and encoded address'')
     else validate_projection projection)"

section \<open>Accounts of a wallet\<close>

fun project_targets :: "projection_env \<Rightarrow> SouthDerivationProfile \<Rightarrow> bytes \<Rightarrow> ChainProjectionTarget list \<Rightarrow> ProtocolError + ChainAccountProjection list" where
  "project_targets env profile key [] = Inr []"
| "project_targets env profile key (target # rest) =
     and_then (chain_projection_from_key_bytes env profile key (ct_chain_family target) (ct_caip2 target)) (\<lambda>projection.
     and_then (project_targets env profile key rest) (\<lambda>projections. Inr (projection # projections)))"

definition derived_account_to_machine :: "projection_env \<Rightarrow> SouthDerivedAccountDescriptor \<Rightarrow> ChainProjectionTarget list
    \<Rightarrow> ProtocolError + DerivedAccountPublic" where
  "derived_account_to_machine env descriptor targets =
     (if list_ex (\<lambda>target. ct_accepted_profile target \<noteq> sd_derivation_profile descriptor) targets
      then Inl (account_invalid ''chain target derivation profile does not match the account'')
      else
        let key = ce_base64_decode (pj_crypto env) (sd_canonical_public_key descriptor) in
        if hash_digest (pj_crypto env) key \<noteq> sd_public_key_fingerprint descriptor
        then Inl (account_invalid ''descriptor public key fingerprint does not match its canonical bytes'')
        else and_then (project_targets env (sd_derivation_profile descriptor) key targets) (\<lambda>projections.
          let account = \<lparr>da_key_ref = key_ref_to_machine (sd_key_ref descriptor),
            da_wallet_seed_profile = wallet_seed_profile_to_machine (sd_seed_profile descriptor),
            da_derivation_profile = derivation_profile_to_machine (sd_derivation_profile descriptor),
            da_path = sd_path descriptor, da_canonical_public_key = sd_canonical_public_key descriptor,
            da_public_key_encoding = public_key_encoding_to_machine (sd_public_key_encoding descriptor),
            da_public_key_fingerprint = sd_public_key_fingerprint descriptor,
            da_supported_crypto_suites = map crypto_suite_to_machine (sd_supported_crypto_suites descriptor),
            da_chain_projections = projections, da_lifecycle = account_lifecycle_to_machine (sd_lifecycle descriptor)\<rparr> in
          and_then (validate_account (ce_base64_decode (pj_crypto env)) account) (\<lambda>_. Inr account)))"

definition matching_targets :: "ChainProjectionTarget list \<Rightarrow> SouthDerivedAccountDescriptor \<Rightarrow> ChainProjectionTarget list" where
  "matching_targets targets descriptor = filter (\<lambda>target. ct_accepted_profile target = sd_derivation_profile descriptor) targets"

fun accounts_to_machine :: "projection_env \<Rightarrow> ChainProjectionTarget list \<Rightarrow> SouthDerivedAccountDescriptor list \<Rightarrow> ProtocolError + DerivedAccountPublic list" where
  "accounts_to_machine env targets [] = Inr []"
| "accounts_to_machine env targets (descriptor # rest) =
     and_then (derived_account_to_machine env descriptor (matching_targets targets descriptor)) (\<lambda>account.
     and_then (accounts_to_machine env targets rest) (\<lambda>accounts. Inr (account # accounts)))"

definition wallet_accounts_to_machine :: "projection_env \<Rightarrow> Token \<Rightarrow> SouthWalletSeedProfile \<Rightarrow> SouthDerivedAccountDescriptor list
    \<Rightarrow> ChainProjectionTarget list \<Rightarrow> ProtocolError + WalletAccountsPublic" where
  "wallet_accounts_to_machine env wallet_id profile descriptors targets =
     and_then (accounts_to_machine env targets descriptors) (\<lambda>accounts.
     let collection = \<lparr>wa_wallet_id = wallet_id, wa_seed_profile = wallet_seed_profile_to_machine profile, wa_accounts = accounts\<rparr> in
     and_then (validate_accounts (ce_base64_decode (pj_crypto env)) collection) (\<lambda>_. Inr collection))"

definition production_chain_targets :: "ChainProjectionTarget list" where
  "production_chain_targets =
     [\<lparr>ct_chain_family = ''evm'', ct_caip2 = ''eip155:1'', ct_accepted_profile = South_Bip44EvmSecp256k1V1\<rparr>,
      \<lparr>ct_chain_family = ''solana'', ct_caip2 = ''solana:5eykt4UsFv8P8NJdTREpY1vzqKqZKvdp'',
        ct_accepted_profile = South_Bip44SolanaSlip10Ed25519V1\<rparr>]"

section \<open>Addresses are those of the keys\<close>

lemma verify_iff_constructed:
  "verify_chain_projection env p profile key = Inr ()
    \<longleftrightarrow> chain_projection_from_key_bytes env profile key (cj_chain_family p) (cj_caip2 p) = Inr p"
  by (cases p) (auto simp: verify_chain_projection_def chain_projection_from_key_bytes_def and_then_eq_Inr Let_def split: if_splits)

lemma constructed_for:
  "chain_projection_from_key_bytes env profile key family caip2 = Inr p \<Longrightarrow> cj_chain_family p = family \<and> cj_caip2 p = caip2"
  by (auto simp: chain_projection_from_key_bytes_def and_then_eq_Inr Let_def)

lemma constructed_again:
  "chain_projection_from_key_bytes env profile key family caip2 = Inr p \<Longrightarrow>
    chain_projection_from_key_bytes env profile key (cj_chain_family p) (cj_caip2 p) = Inr p"
  using constructed_for by fastforce

lemma project_targets_Inr:
  "project_targets env profile key targets = Inr ps \<Longrightarrow>
    map (\<lambda>p. (cj_chain_family p, cj_caip2 p)) ps = map (\<lambda>t. (ct_chain_family t, ct_caip2 t)) targets
    \<and> list_all (\<lambda>p. verify_chain_projection env p profile key = Inr ()) ps"
  by (induction targets arbitrary: ps) (auto simp: and_then_eq_Inr verify_iff_constructed constructed_again dest: constructed_for)

text \<open>What is shown of a descriptor.\<close>

definition shown_account :: "projection_env \<Rightarrow> ChainProjectionTarget list \<Rightarrow> SouthDerivedAccountDescriptor \<Rightarrow> DerivedAccountPublic \<Rightarrow> bool" where
  "shown_account env targets d a \<longleftrightarrow>
     (let key = ce_base64_decode (pj_crypto env) (sd_canonical_public_key d) in
      da_key_ref a = key_ref_to_machine (sd_key_ref d) \<and> da_path a = sd_path d
      \<and> da_lifecycle a = account_lifecycle_to_machine (sd_lifecycle d)
      \<and> da_public_key_fingerprint a = hash_digest (pj_crypto env) key
      \<and> map (\<lambda>p. (cj_chain_family p, cj_caip2 p)) (da_chain_projections a)
          = map (\<lambda>t. (ct_chain_family t, ct_caip2 t)) (matching_targets targets d)
      \<and> list_all (\<lambda>p. verify_chain_projection env p (sd_derivation_profile d) key = Inr ()) (da_chain_projections a))"

lemma derived_account_shown:
  assumes "derived_account_to_machine env d (matching_targets targets d) = Inr a"
  shows "shown_account env targets d a"
  using assms by (auto simp: derived_account_to_machine_def shown_account_def and_then_eq_Inr Let_def dest: project_targets_Inr split: if_splits)

lemma accounts_shown:
  "accounts_to_machine env targets ds = Inr accounts \<Longrightarrow> list_all2 (shown_account env targets) ds accounts"
  by (induction ds arbitrary: accounts) (auto simp: and_then_eq_Inr derived_account_shown)

lemma check_accounts_distinct:
  "check_accounts decode profile locators accounts = Inr () \<Longrightarrow>
    distinct (map (\<lambda>a. kr_locator (da_key_ref a)) accounts) \<and> (\<forall>a \<in> set accounts. kr_locator (da_key_ref a) \<notin> locators)
    \<and> (\<forall>a \<in> set accounts. da_wallet_seed_profile a = profile)"
  by (induction accounts arbitrary: locators) (fastforce simp: and_then_eq_Inr split: if_splits)+

text \<open>C40. The addresses shown for a wallet are those of its keys. Checking a supplied projection accepts exactly the one that would be
constructed from the bytes of the key. When the accounts of a wallet are translated, they stand for the descriptors of the Signer in order, with
their key, path, lifecycle and the SHA-256 fingerprint of their key, one address for each configured chain of their profile and no other, each
of them constructed from the key, and no two accounts have the same locator.\<close>

theorem addresses_come_from_keys:
  "(verify_chain_projection env p profile key = Inr ()
      \<longleftrightarrow> chain_projection_from_key_bytes env profile key (cj_chain_family p) (cj_caip2 p) = Inr p)
    \<and> (wallet_accounts_to_machine env wallet_id seed_profile descriptors targets = Inr w \<longrightarrow>
        wa_wallet_id w = wallet_id \<and> list_all2 (shown_account env targets) descriptors (wa_accounts w)
        \<and> distinct (map (\<lambda>a. kr_locator (da_key_ref a)) (wa_accounts w)))"
  using verify_iff_constructed check_accounts_distinct
  by (auto simp: wallet_accounts_to_machine_def validate_accounts_def and_then_eq_Inr Let_def accounts_shown split: if_splits)

section \<open>A wallet with a Solana account\<close>

definition projection_sample :: projection_env where
  "projection_sample = \<lparr>pj_crypto = \<lparr>ce_sha256 = \<lambda>_. [], ce_hex = \<lambda>_. ''ab'', ce_base58 = \<lambda>_. ''So1'', ce_digest32_new = Inr,
     ce_digest32_from_bytes = \<lambda>_. ''f'', ce_base64_decode = \<lambda>_. ED25519_SPKI_PREFIX @ replicate 32 7\<rparr>, pj_keccak256 = \<lambda>_. replicate 32 1\<rparr>"

definition solana_descriptor :: SouthDerivedAccountDescriptor where
  "solana_descriptor = \<lparr>sd_key_ref = \<lparr>sk_backend = ''local'', sk_backend_instance = ''local'', sk_locator = ''sol'', sk_key_spec = South_Ed25519,
       sk_public_key_fingerprint = ''f'', sk_derivation = None\<rparr>,
     sd_seed_profile = South_Bip39MulticurveV1, sd_derivation_profile = South_Bip44SolanaSlip10Ed25519V1, sd_path = ''m'',
     sd_canonical_public_key = ''k'', sd_public_key_encoding = South_Ed25519SpkiDer, sd_public_key_fingerprint = ''f'',
     sd_supported_crypto_suites = [South_Ed25519Message], sd_lifecycle = South_AccountActive\<rparr>"

lemma descriptor_simps:
  "sd_key_ref solana_descriptor = \<lparr>sk_backend = ''local'', sk_backend_instance = ''local'', sk_locator = ''sol'', sk_key_spec = South_Ed25519,
       sk_public_key_fingerprint = ''f'', sk_derivation = None\<rparr>"
  "sd_seed_profile solana_descriptor = South_Bip39MulticurveV1" "sd_derivation_profile solana_descriptor = South_Bip44SolanaSlip10Ed25519V1"
  "sd_public_key_encoding solana_descriptor = South_Ed25519SpkiDer" "sd_public_key_fingerprint solana_descriptor = ''f''"
  "sd_supported_crypto_suites solana_descriptor = [South_Ed25519Message]"
  by (simp_all add: solana_descriptor_def)

lemma sample_raw_key: "ed25519_raw_key (ED25519_SPKI_PREFIX @ replicate 32 7) = Inr (replicate 32 7)"
  by (simp add: ed25519_raw_key_def ED25519_SPKI_PREFIX_def)

definition solana_projection :: ChainAccountProjection where
  "solana_projection = \<lparr>cj_chain_family = ''solana'', cj_caip2 = ''solana:5eykt4UsFv8P8NJdTREpY1vzqKqZKvdp'',
     cj_caip10 = ''solana:5eykt4UsFv8P8NJdTREpY1vzqKqZKvdp:So1'', cj_address = ''So1'', cj_address_encoding = Base58\<rparr>"

lemma sample_valid: "validate_projection solana_projection = Inr ()"
  by code_simp

lemma sample_projections:
  "project_targets projection_sample South_Bip44SolanaSlip10Ed25519V1 (ED25519_SPKI_PREFIX @ replicate 32 7)
    (matching_targets production_chain_targets solana_descriptor) = Inr [solana_projection]"
  using sample_valid
  by (simp add: matching_targets_def production_chain_targets_def solana_descriptor_def chain_projection_from_key_bytes_def derive_solana_address_def
      sample_raw_key projection_sample_def solana_projection_def)

lemma sample_account:
  "\<exists>a. derived_account_to_machine projection_sample solana_descriptor (matching_targets production_chain_targets solana_descriptor) = Inr a
    \<and> da_chain_projections a = [solana_projection]
    \<and> validate_account (ce_base64_decode (pj_crypto projection_sample)) a = Inr () \<and> da_wallet_seed_profile a = Bip39MulticurveV1"
proof -
  have d: "ce_base64_decode (pj_crypto projection_sample) k = ED25519_SPKI_PREFIX @ replicate 32 7" for k
    by (simp add: projection_sample_def)
  have m: "\<not> list_ex (\<lambda>target. ct_accepted_profile target \<noteq> sd_derivation_profile solana_descriptor) (matching_targets production_chain_targets solana_descriptor)"
    by (auto simp: matching_targets_def list_ex_iff)
  have f: "hash_digest (pj_crypto projection_sample) key = ''f''" for key by (simp add: projection_sample_def hash_digest_def)
  show ?thesis
    unfolding derived_account_to_machine_def if_not_P [OF m]
    by (simp add: d f Let_def descriptor_simps sample_projections validate_account_def validate_key_ref_def key_ref_to_machine_def all_unique_def
        KEYREF_LOCATOR_MAX_BYTES_def sample_valid CHAIN_PROJECTION_MAX_COUNT_def)
qed

theorem addresses_come_from_keys_witness:
  "\<exists>w. wallet_accounts_to_machine projection_sample ''w'' South_Bip39MulticurveV1 [solana_descriptor] production_chain_targets = Inr w
    \<and> list_all2 (shown_account projection_sample production_chain_targets) [solana_descriptor] (wa_accounts w)
    \<and> map cj_address (da_chain_projections (wa_accounts w ! 0)) = [''So1'']"
proof -
  obtain a where a: "derived_account_to_machine projection_sample solana_descriptor (matching_targets production_chain_targets solana_descriptor) = Inr a"
    "da_chain_projections a = [solana_projection]" "validate_account (ce_base64_decode (pj_crypto projection_sample)) a = Inr ()"
    "da_wallet_seed_profile a = Bip39MulticurveV1"
    using sample_account by blast
  let ?w = "\<lparr>wa_wallet_id = ''w'', wa_seed_profile = Bip39MulticurveV1, wa_accounts = [a]\<rparr>"
  have w: "wallet_accounts_to_machine projection_sample ''w'' South_Bip39MulticurveV1 [solana_descriptor] production_chain_targets = Inr ?w"
    using a by (simp add: wallet_accounts_to_machine_def validate_accounts_def ACCOUNT_MAX_COUNT_def)
  have "map cj_address (da_chain_projections (wa_accounts ?w ! 0)) = [''So1'']" by (simp add: a(2) solana_projection_def)
  moreover have "list_all2 (shown_account projection_sample production_chain_targets) [solana_descriptor] (wa_accounts ?w)"
    by (rule addresses_come_from_keys [THEN conjunct2, THEN mp, OF w, THEN conjunct2, THEN conjunct1])
  ultimately show ?thesis using w by (intro exI [of _ ?w] conjI)
qed

end
