(* ===== verification/CeremonyTypes.thy ===== *)
theory CeremonyTypes
  imports AuthorityCustody
begin

text \<open>
  The data of the ceremony service (\<open>bloom-broker/src/ceremony.rs\<close>): its endpoint and admission limits, the browser sessions that it keeps with
  their terminal latch, surfaces, cooldowns and the quota of creations. The theorem of the theory says that the retry hint of an
  exhausted quota is exact.
\<close>

section \<open>Endpoint\<close>

definition protocol :: "ProtocolErrorCode \<Rightarrow> string \<Rightarrow> ProtocolError" where
  "protocol code message = error_new code message"

definition DEFAULT_REMOTE_UPSTREAM_PORT :: u16 where
  "DEFAULT_REMOTE_UPSTREAM_PORT = 18735"

definition DEFAULT_CEREMONY_PORT :: u16 where
  "DEFAULT_CEREMONY_PORT = 18734"

record CeremonyEndpoint =
  en_port :: u16
  en_remote_upstream_port :: u16

definition endpoint_new :: "u16 \<Rightarrow> ProtocolError + CeremonyEndpoint" where
  "endpoint_new port =
     (if port = 0
      then Inl (protocol MalformedFrame ''ceremony_port must be between 1 and 65535; correct it in the Broker configuration file'')
      else Inr \<lparr>en_port = port, en_remote_upstream_port = DEFAULT_REMOTE_UPSTREAM_PORT\<rparr>)"

definition default_endpoint :: CeremonyEndpoint where
  "default_endpoint = \<lparr>en_port = DEFAULT_CEREMONY_PORT, en_remote_upstream_port = DEFAULT_REMOTE_UPSTREAM_PORT\<rparr>"

definition with_remote_upstream_port :: "CeremonyEndpoint \<Rightarrow> u16 \<Rightarrow> ProtocolError + CeremonyEndpoint" where
  "with_remote_upstream_port e port =
     (if port = 0
      then Inl (protocol MalformedFrame ''remote_upstream_port must be between 1 and 65535; correct it in the Broker configuration file'')
      else if port = en_port e
      then Inl (protocol MalformedFrame ''remote_upstream_port must differ from ceremony_port; correct it in the Broker configuration file'')
      else Inr (e\<lparr>en_remote_upstream_port := port\<rparr>))"

definition endpoint_host :: "CeremonyEndpoint \<Rightarrow> string" where
  "endpoint_host e = (if en_port e = 80 then ''localhost'' else ''localhost:'' @ decimal (unat (en_port e)))"

definition endpoint_origin :: "CeremonyEndpoint \<Rightarrow> string" where
  "endpoint_origin e = ''http://'' @ endpoint_host e"

definition endpoint_session_url :: "CeremonyEndpoint \<Rightarrow> Base64UrlBytes \<Rightarrow> string" where
  "endpoint_session_url e token = endpoint_origin e @ ''/ceremony/'' @ token"

section \<open>Admission limits\<close>

definition MAXIMUM_SESSIONS_CEILING :: u64 where
  "MAXIMUM_SESSIONS_CEILING = 1024"

definition MAXIMUM_CREATIONS_CEILING :: u64 where
  "MAXIMUM_CREATIONS_CEILING = 1024"

definition CREATION_WINDOW_CEILING_MS :: u64 where
  "CREATION_WINDOW_CEILING_MS = 24 * 60 * 60 * 1000"

record CeremonyLimits =
  li_maximum_concurrent_sessions :: u64
  li_creation_window_ms :: u64
  li_maximum_creations_per_wallet :: u64
  li_maximum_anonymous_registrations :: u64

definition limits_default :: CeremonyLimits where
  "limits_default = \<lparr>li_maximum_concurrent_sessions = 16, li_creation_window_ms = 5 * 60 * 1000, li_maximum_creations_per_wallet = 12,
     li_maximum_anonymous_registrations = 4\<rparr>"

text \<open>The name of the environment variable is the field in capitals.\<close>

definition capital :: "char \<Rightarrow> char" where
  "capital c = (if is_lowercase c then char_of (of_char c - 32 :: nat) else c)"

definition bounded :: "string \<Rightarrow> u64 \<Rightarrow> u64 \<Rightarrow> ProtocolError + unit" where
  "bounded field v highest =
     (if v = 0 \<or> highest < v
      then Inl (protocol MalformedFrame (''ceremony_limits.'' @ field @ '' must be between 1 and '' @ u64_to_string highest @ '', but is ''
        @ u64_to_string v @ ''; correct it in the Broker configuration file or set BLOOM_BROKER_CEREMONY_LIMITS__'' @ map capital field))
      else Inr ())"

definition limits_new :: "u64 \<Rightarrow> u64 \<Rightarrow> u64 \<Rightarrow> u64 \<Rightarrow> ProtocolError + CeremonyLimits" where
  "limits_new maximum_concurrent_sessions creation_window_ms maximum_creations_per_wallet maximum_anonymous_registrations =
     and_then (bounded ''maximum_concurrent_sessions'' maximum_concurrent_sessions MAXIMUM_SESSIONS_CEILING) (\<lambda>_.
     and_then (bounded ''creation_window_ms'' creation_window_ms CREATION_WINDOW_CEILING_MS) (\<lambda>_.
     and_then (bounded ''maximum_creations_per_wallet'' maximum_creations_per_wallet MAXIMUM_CREATIONS_CEILING) (\<lambda>_.
     and_then (bounded ''maximum_anonymous_registrations'' maximum_anonymous_registrations MAXIMUM_CREATIONS_CEILING) (\<lambda>_.
     Inr \<lparr>li_maximum_concurrent_sessions = maximum_concurrent_sessions, li_creation_window_ms = creation_window_ms,
       li_maximum_creations_per_wallet = maximum_creations_per_wallet,
       li_maximum_anonymous_registrations = maximum_anonymous_registrations\<rparr>))))"

definition effective_summary :: "CeremonyLimits \<Rightarrow> string" where
  "effective_summary l = ''maximum_concurrent_sessions='' @ u64_to_string (li_maximum_concurrent_sessions l) @ '' creation_window_ms=''
     @ u64_to_string (li_creation_window_ms l) @ '' maximum_creations_per_wallet='' @ u64_to_string (li_maximum_creations_per_wallet l)
     @ '' maximum_anonymous_registrations='' @ u64_to_string (li_maximum_anonymous_registrations l)"

section \<open>Surfaces and credentials of the Signer\<close>

text \<open>
  The fields of the descriptions of the Signer that the Broker reads. A surface is active or not, and so is a credential;
  \<open>fd_reference\<close> is what \<open>SurfaceDescriptor::reference\<close> returns and \<open>fd_invalid\<close> the error of \<open>SurfaceDescriptor::validate\<close>, both
  functions of the Signer package.
\<close>

record SurfaceDescriptor =
  fd_surface_id :: Token
  fd_origin :: string
  fd_active :: bool
  fd_reference :: CeremonySurfaceRef
  fd_invalid :: "ProtocolError option"

datatype ExposureMode = RemoteEnabled | LocalhostOnly

record SurfaceStatus =
  us_surfaces :: "SurfaceDescriptor list"
  us_desired_mode :: ExposureMode
  us_effective_mode :: ExposureMode
  us_desired_revision :: u64
  us_effective_revision :: u64
  us_remote_tls_ready :: bool
  us_remote_routing_ready :: bool

record CredentialPublic =
  cx_active :: bool
  cx_surface :: CeremonySurfaceRef

definition surface_validate :: "SurfaceDescriptor \<Rightarrow> ProtocolError + unit" where
  "surface_validate d = (case fd_invalid d of None \<Rightarrow> Inr () | Some e \<Rightarrow> Inl e)"

definition has_active_passkey_on :: "CredentialPublic list \<Rightarrow> SurfaceDescriptor \<Rightarrow> bool" where
  "has_active_passkey_on credentials surface \<longleftrightarrow>
     list_ex (\<lambda>credential. cx_active credential \<and> cx_surface credential = fd_reference surface) credentials"

definition approving_surface :: "CredentialPublic list \<Rightarrow> SurfaceDescriptor \<Rightarrow> SurfaceDescriptor option \<Rightarrow> SurfaceDescriptor option" where
  "approving_surface credentials destination other =
     (if has_active_passkey_on credentials destination then Some destination
      else case other of None \<Rightarrow> None | Some o' \<Rightarrow> if has_active_passkey_on credentials o' then Some o' else None)"

text \<open>The inventory has one local and at most one remote surface and nothing else.\<close>

fun collect_surfaces :: "SurfaceDescriptor list \<Rightarrow> SurfaceDescriptor option \<Rightarrow> SurfaceDescriptor option
    \<Rightarrow> ProtocolError + (SurfaceDescriptor option \<times> SurfaceDescriptor option)" where
  "collect_surfaces [] local remote = Inr (local, remote)"
| "collect_surfaces (d # rest) local remote =
     and_then (surface_validate d) (\<lambda>_.
     if fd_surface_id d = ''local'' \<and> local = None then collect_surfaces rest (Some d) remote
     else if fd_surface_id d = ''remote'' \<and> remote = None then collect_surfaces rest local (Some d)
     else Inl (protocol ServiceUnavailable ''invalid Signer surface inventory''))"

definition chosen_surface :: "CeremonySurfaceSelection \<Rightarrow> bool \<Rightarrow> SurfaceStatus \<Rightarrow> ProtocolError + SurfaceDescriptor" where
  "chosen_surface selection rejected status =
     and_then (collect_surfaces (us_surfaces status) None None) (\<lambda>(local, remote).
     and_then (ok_or local (protocol ServiceUnavailable ''Signer local surface missing'')) (\<lambda>local.
     if \<not> fd_active local then Inl (protocol ServiceUnavailable ''Signer local surface inactive'')
     else if selection = SurfaceLocal then Inr local
     else if selection = SurfaceDefault \<and> us_desired_mode status = LocalhostOnly then Inr local
     else if selection = SurfaceDefault \<and> remote = None then Inr local
     else if rejected
     then Inl (protocol ServiceUnavailable (''hosted ceremony surface is off: the relay refused to renew Broker'' @ prime
       @ ''s credentials; run `sudo bloom-signer admin provision`, or explicitly select local''))
     else if us_desired_mode status \<noteq> RemoteEnabled \<or> us_effective_mode status \<noteq> RemoteEnabled
       \<or> us_desired_revision status \<noteq> us_effective_revision status \<or> \<not> us_remote_tls_ready status \<or> \<not> us_remote_routing_ready status
       \<or> \<not> (case remote of None \<Rightarrow> False | Some r \<Rightarrow> fd_active r)
     then Inl (protocol ServiceUnavailable ''hosted ceremony surface is pending; explicitly select local for a localhost ceremony'')
     else ok_or remote (protocol ServiceUnavailable ''Signer remote surface missing'')))"

section \<open>Sessions\<close>

datatype CrossSurfaceRole = XR_Destination | XR_Source

record CrossSurfacePairing =
  xp_pairing_id :: Digest32
  xp_operation_id :: OperationId
  xp_destination_surface :: CeremonySurfaceRef
  xp_exact_terms_digest :: Digest32
  xp_destination_hpke_public_key :: Base64UrlBytes
  xp_confirmation_code :: string
  xp_expires_at_ms :: u64

record CrossSurfaceSourcePrepared =
  xs_pairing :: CrossSurfacePairing
  xs_source_surface :: CeremonySurfaceRef
  xs_wallet_id :: Token
  xs_value :: json
  xs_carried :: "ProtocolError + json"

record CrossSurfaceHandoff =
  xh_pairing_id :: Digest32
  xh_expires_at_ms :: u64
  xh_encrypted_capability :: json

record CrossSurfaceFlow =
  xf_role :: CrossSurfaceRole
  xf_source_surface :: CeremonySurfaceRef
  xf_destination_surface :: CeremonySurfaceRef
  xf_exact_terms_digest :: Digest32
  xf_destination_ceremony_id :: Digest32
  xf_source_ceremony_id :: "Digest32 option"
  xf_pairing :: "CrossSurfacePairing option"
  xf_source_prepared :: "CrossSurfaceSourcePrepared option"
  xf_handoff :: "CrossSurfaceHandoff option"

record RemoteBrowserAuth =
  ra_cookie_hash :: bytes
  ra_csrf_hash :: bytes
  ra_precommit_expires_at_ms :: u64
  ra_expires_at_ms :: u64

definition remote_allows :: "RemoteBrowserAuth \<Rightarrow> CeremonyState \<Rightarrow> u64 option \<Rightarrow> u64 \<Rightarrow> bool" where
  "remote_allows r state result_until_ms now_ms \<longleftrightarrow>
     now_ms < (if state = CS_WalletCommitted \<or> state = CS_AwaitingRecoveryAck then ra_expires_at_ms r
       else if state = CS_Succeeded then min (case result_until_ms of None \<Rightarrow> 0 | Some t \<Rightarrow> t) (ra_expires_at_ms r)
       else ra_precommit_expires_at_ms r)"

text \<open>
  A session. The kinds and states are those of the Signer package, which \<open>translation/ceremony.rs\<close> maps by name to the ones of the API; the
  model has one type for both. The values that a session only carries for the browser (challenges, options, the contribution of
  the Signer, credentials) are its JSON \<open>bs_carried\<close>; the identifier of the ceremony is the one of its projection.
\<close>

record BrowserSession =
  bs_operation_id :: OperationId
  bs_request_digest :: Digest32
  bs_wallet_id :: "Token option"
  bs_anonymous_registration :: bool
  bs_ceremony_kind :: CeremonyKind
  bs_token :: "Base64UrlBytes option"
  bs_token_hash :: bytes
  bs_remote_auth :: "RemoteBrowserAuth option"
  bs_origin :: string
  bs_expires_at_ms :: u64
  bs_created_at_ms :: u64
  bs_terminal_at_ms :: "u64 option"
  bs_state :: CeremonyState
  bs_terminal_result :: "json option"
  bs_result_retain_until_ms :: "u64 option"
  bs_cross_surface :: "CrossSurfaceFlow option"
  bs_auxiliary :: bool
  bs_ceremony_id :: Digest32
  bs_review_manifest :: "json option"
  bs_signer_contribution :: json
  bs_carried :: json

definition is_terminal :: "CeremonyState \<Rightarrow> bool" where
  "is_terminal state \<longleftrightarrow> state = CS_Completed \<or> state = CS_Succeeded \<or> state = CS_Cancelled \<or> state = CS_Expired \<or> state = CS_Failed
     \<or> state = CS_AlreadyRegistered"

definition latch_terminal :: "u64 \<Rightarrow> BrowserSession \<Rightarrow> BrowserSession" where
  "latch_terminal now_ms session =
     session\<lparr>bs_terminal_at_ms := Some now_ms, bs_token := None, bs_token_hash := replicate 32 0, bs_remote_auth := None\<rparr>"

definition session_url :: "BrowserSession \<Rightarrow> string option" where
  "session_url session = (case bs_token session of
     None \<Rightarrow> None
   | Some token \<Rightarrow> Some (if take 7 (bs_origin session) = ''http://'' then bs_origin session @ ''/ceremony/'' @ token
       else bs_origin session @ ''/ceremony/#cap='' @ token))"

definition new_session_url :: "BrowserSession \<Rightarrow> ProtocolError + string" where
  "new_session_url session =
     ok_or (session_url session) (protocol ServiceUnavailable ''new ceremony session carries no launch capability'')"

fun ceremony_state_name :: "CeremonyState \<Rightarrow> string" where
  "ceremony_state_name CS_Prepared = ''prepared''"
| "ceremony_state_name CS_AwaitingUser = ''awaiting_user''"
| "ceremony_state_name CS_Verifying = ''verifying''"
| "ceremony_state_name CS_WalletCommitted = ''wallet_committed''"
| "ceremony_state_name CS_AwaitingRecoveryAck = ''awaiting_recovery_ack''"
| "ceremony_state_name CS_Completed = ''completed''"
| "ceremony_state_name CS_ApprovingRootChange = ''approving_root_change''"
| "ceremony_state_name CS_CreatingCredential = ''creating_credential''"
| "ceremony_state_name CS_Committing = ''committing''"
| "ceremony_state_name CS_Succeeded = ''succeeded''"
| "ceremony_state_name CS_Cancelled = ''cancelled''"
| "ceremony_state_name CS_Expired = ''expired''"
| "ceremony_state_name CS_Failed = ''failed''"
| "ceremony_state_name CS_AlreadyRegistered = ''already_registered''"

section \<open>Errors\<close>

definition ceremony_not_found :: ProtocolError where
  "ceremony_not_found = protocol ApprovalNotFound ''ceremony not found''"

definition kind_mismatch :: ProtocolError where
  "kind_mismatch = protocol CeremonyKindMismatch ''sealed approval and custody ceremony kinds cannot be interchanged''"

definition operation_conflict :: ProtocolError where
  "operation_conflict = protocol OperationIdConflict ''ceremony operation ID was reused with different stable input''"

definition ceremony_replay :: ProtocolError where
  "ceremony_replay = protocol CeremonyReplay ''ceremony is terminal and its launch URL cannot be revived''"

definition launch_capability_consumed :: ProtocolError where
  "launch_capability_consumed = protocol CeremonyReplay
     ''ceremony launch capability was already exchanged for a browser session; follow the live ceremony by status''"

definition ceremony_malformed :: "string \<Rightarrow> ProtocolError" where
  "ceremony_malformed error = protocol MalformedFrame error"

definition ceremony_storage :: "string \<Rightarrow> ProtocolError" where
  "ceremony_storage error = protocol ServiceUnavailable (''ceremony durability failure: '' @ error)"

section \<open>Quotas and cooldowns\<close>

definition creations_in_window :: "BrowserSession list \<Rightarrow> u64 \<Rightarrow> u64 \<Rightarrow> u64 list" where
  "creations_in_window sessions window_ms now_ms =
     map bs_created_at_ms (filter (\<lambda>session. now_ms < saturating_add (bs_created_at_ms session) window_ms) sessions)"

definition CANCELLATION_BACKOFF_MS :: u64 where
  "CANCELLATION_BACKOFF_MS = 2000"

definition saturating_mul :: "'a::len word \<Rightarrow> 'a word \<Rightarrow> 'a word" where
  "saturating_mul a b = (if unat a * unat b < 2 ^ LENGTH('a) then a * b else - 1)"

text \<open>\<open>checked_shl\<close> by less than the width never fails.\<close>

definition backoff_window_ms :: "u32 \<Rightarrow> u64" where
  "backoff_window_ms strikes = saturating_mul CANCELLATION_BACKOFF_MS (push_bit (min (unat (saturating_sub strikes 1)) 5) 1)"

definition clamp :: "u64 \<Rightarrow> u64 \<Rightarrow> u64 \<Rightarrow> u64" where
  "clamp low high x = (if x < low then low else if high < x then high else x)"

definition rolling_quota_exhausted :: "string \<Rightarrow> u64 list \<Rightarrow> u64 \<Rightarrow> u64 \<Rightarrow> u64 \<Rightarrow> ProtocolError" where
  "rolling_quota_exhausted message created_at_ms limit window_ms now_ms =
     (let sorted = sort created_at_ms in
      case (if unat limit \<le> length sorted then get_at sorted (length sorted - unat limit) else None) of
        None \<Rightarrow> protocol CeremonyRateLimited message
      | Some blocking \<Rightarrow>
          let retry_after_ms = clamp 1 window_ms (saturating_sub (saturating_add blocking window_ms) now_ms) in
          case rate_limit_new retry_after_ms limit window_ms of
            Some details \<Rightarrow> rate_limited message details
          | None \<Rightarrow> protocol CeremonyRateLimited message)"

text \<open>An instant of the monotonic clock is its number of nanoseconds.\<close>

datatype BackoffClock = ClockTrusted | ClockMonotonic

datatype BackoffDeadline = Trusted u64 | Monotonic nat

fun remaining_ms :: "BackoffDeadline \<Rightarrow> u64 \<Rightarrow> nat \<Rightarrow> u64" where
  "remaining_ms (Trusted until_ms) trusted_now_ms instant = saturating_sub until_ms trusted_now_ms"
| "remaining_ms (Monotonic until) trusted_now_ms instant =
     (if until < instant then 0
      else let left = until - instant; ms = left div 1000000 in
        saturating_add (if ms < 2 ^ 64 then of_nat ms else - 1) (if left mod 1000000 \<noteq> 0 then 1 else 0))"

section \<open>Retry hints are exact\<close>

lemma sorted_above: "sorted xs \<Longrightarrow> i < length xs \<Longrightarrow> length (filter (\<lambda>x. xs ! i < x) xs) \<le> length xs - Suc i"
proof -
  assume s: "sorted xs" and i: "i < length xs"
  have "filter (\<lambda>x. xs ! i < x) (take (Suc i) xs) = []"
    using s i by (auto simp: filter_empty_conv in_set_conv_nth sorted_iff_nth_mono less_Suc_eq_le not_less)
  then have "filter (\<lambda>x. xs ! i < x) xs = filter (\<lambda>x. xs ! i < x) (drop (Suc i) xs)"
    by (metis append_Nil append_take_drop_id filter_append)
  then show ?thesis by (metis length_drop length_filter_le)
qed

lemma sorted_from: "sorted xs \<Longrightarrow> i < length xs \<Longrightarrow> length xs - i \<le> length (filter (\<lambda>x. xs ! i \<le> x) xs)"
proof -
  assume s: "sorted xs" and i: "i < length xs"
  have "filter (\<lambda>x. xs ! i \<le> x) (drop i xs) = drop i xs"
    using s i by (auto simp: filter_id_conv in_set_conv_nth sorted_iff_nth_mono)
  then have "length xs - i = length (filter (\<lambda>x. xs ! i \<le> x) (drop i xs))" by simp
  also have "\<dots> \<le> length (filter (\<lambda>x. xs ! i \<le> x) xs)"
    by (metis append_take_drop_id filter_append le_add2 length_append)
  finally show ?thesis .
qed

lemma length_filter_sort: "length (filter P (sort xs)) = length (filter P xs)"
  by (simp add: filter_sort)

lemma length_filter_mono: "(\<And>x. x \<in> set xs \<Longrightarrow> P x \<Longrightarrow> Q x) \<Longrightarrow> length (filter P xs) \<le> length (filter Q xs)"
  by (induction xs) (auto simp: le_SucI)

text \<open>The creations that still count at a later time are among those that count now.\<close>

lemma creations_later:
  assumes "now \<le> later"
  shows "length (creations_in_window sessions window later)
    = length (filter (\<lambda>c. later < saturating_add c window) (creations_in_window sessions window now))"
proof -
  have "filter (\<lambda>s. later < saturating_add (bs_created_at_ms s) window) sessions
      = filter (\<lambda>s. later < saturating_add (bs_created_at_ms s) window) (filter (\<lambda>s. now < saturating_add (bs_created_at_ms s) window) sessions)"
    using assms by (auto intro!: filter_cong)
  then show ?thesis by (simp add: creations_in_window_def filter_map o_def)
qed

lemma counted_at:
  assumes "c \<le> now" and "unat now + unat (window :: u64) < 2 ^ 64"
  shows "t < saturating_add c window \<longleftrightarrow> unat t < unat c + unat window"
  using assms by (simp add: word_less_nat_alt word_le_nat_alt unat_saturating_add)

lemma slot_freed:
  assumes "i < length cs" and "\<forall>c \<in> set cs. c \<le> now" and "unat now + unat (window :: u64) < 2 ^ 64" and "unat t = unat (sort cs ! i) + unat window"
  shows "length (filter (\<lambda>c. t < saturating_add c window) cs) \<le> length cs - Suc i"
proof -
  have "length (filter (\<lambda>c. t < saturating_add c window) cs) \<le> length (filter (\<lambda>c. sort cs ! i < c) cs)"
    by (rule length_filter_mono) (use assms(2-4) counted_at [OF _ assms(3), of _ t] in \<open>simp add: word_less_nat_alt [of "sort cs ! i"]\<close>)
  also have "\<dots> = length (filter (\<lambda>c. sort cs ! i < c) (sort cs))" by (simp add: length_filter_sort)
  also have "\<dots> \<le> length cs - Suc i" using sorted_above [of "sort cs" i] assms(1) by simp
  finally show ?thesis .
qed

lemma slot_taken:
  assumes "i < length cs" and "\<forall>c \<in> set cs. c \<le> now" and "unat now + unat (window :: u64) < 2 ^ 64" and "unat t < unat (sort cs ! i) + unat window"
  shows "length cs - i \<le> length (filter (\<lambda>c. t < saturating_add c window) cs)"
proof -
  have "length cs - i \<le> length (filter (\<lambda>c. sort cs ! i \<le> c) (sort cs))" using sorted_from [of "sort cs" i] assms(1) by simp
  also have "\<dots> = length (filter (\<lambda>c. sort cs ! i \<le> c) cs)" by (simp add: length_filter_sort)
  also have "\<dots> \<le> length (filter (\<lambda>c. t < saturating_add c window) cs)"
    by (rule length_filter_mono) (use assms(2-4) counted_at [OF _ assms(3), of _ t] in \<open>simp add: word_le_nat_alt [of "sort cs ! i"]\<close>)
  finally show ?thesis .
qed

text \<open>C39. The retry hint of an exhausted creation quota is exact: when no counted creation lies in the future, the refusal carries a wait
that is positive and at most the window; after waiting that long the quota has a free slot, and at no earlier millisecond has it one.\<close>

theorem retry_hints_are_exact:
  assumes "0 < limit" and "unat limit \<le> length (creations_in_window sessions window now)"
    and "\<forall>s \<in> set sessions. bs_created_at_ms s \<le> now" and "unat now + unat window < 2 ^ 64"
  shows "\<exists>r. pe_rate_limit (rolling_quota_exhausted message (creations_in_window sessions window now) limit window now)
      = Some \<lparr>rl_retry_after_ms = r, rl_limit = limit, rl_window_ms = window\<rparr> \<and> 0 < r \<and> r \<le> window
    \<and> length (creations_in_window sessions window (now + r)) < unat limit
    \<and> (\<forall>r' < r. unat limit \<le> length (creations_in_window sessions window (now + r')))"
proof -
  let ?cs = "creations_in_window sessions window now" and ?d = "\<lambda>r. \<lparr>rl_retry_after_ms = r, rl_limit = limit, rl_window_ms = window\<rparr>"
  define i where "i = length ?cs - unat limit"
  define b where "b = sort ?cs ! i"
  define r where "r = saturating_sub (saturating_add b window) now"
  have i: "i < length ?cs" and left: "length ?cs - i = unat limit" "length ?cs - Suc i < unat limit"
    using assms(1,2) by (auto simp: i_def word_less_nat_alt)
  have past: "\<forall>c \<in> set ?cs. c \<le> now" and counted: "\<forall>c \<in> set ?cs. now < saturating_add c window"
    using assms(3) by (auto simp: creations_in_window_def)
  have b: "b \<in> set ?cs" unfolding b_def using i by (metis length_sort nth_mem set_sort)
  then have lo: "unat now < unat b + unat window" and hi: "unat b \<le> unat now"
    using past counted counted_at [OF _ assms(4), of b now] by (auto simp: word_le_nat_alt)
  have r: "unat r = unat b + unat window - unat now"
    using hi assms(4) by (simp add: r_def unat_saturating_sub unat_saturating_add)
  have pos: "0 < r" "r \<le> window" using r lo hi by (auto simp: word_less_nat_alt word_le_nat_alt)
  have at: "unat (now + x) = unat now + unat x" if "x \<le> r" for x
    using that pos(2) assms(4) by (intro unat_add_no_wrap) (simp add: word_le_nat_alt)
  then have later: "now \<le> now + x" if "x \<le> r" for x using that by (simp add: word_le_nat_alt)
  have "clamp 1 window r = r" using pos by (auto simp: clamp_def word_less_nat_alt word_le_nat_alt)
  moreover have "is_well_formed (?d r)" using pos assms(1) by (simp add: is_well_formed_def)
  moreover have "get_at (sort ?cs) i = Some b" using i by (simp add: get_at_def b_def)
  ultimately have "pe_rate_limit (rolling_quota_exhausted message ?cs limit window now) = Some (?d r)"
    using assms(2) by (simp add: rolling_quota_exhausted_def rate_limit_new_def Let_def rate_limited_def flip: r_def i_def)
  moreover have "length (creations_in_window sessions window (now + r)) < unat limit"
    using slot_freed [OF i past assms(4), of "now + r"] creations_later [OF later [OF order_refl], of sessions window] at [OF order_refl] r lo left
    by (simp flip: b_def)
  moreover have "unat limit \<le> length (creations_in_window sessions window (now + r'))" if "r' < r" for r'
    using slot_taken [OF i past assms(4), of "now + r'"] creations_later [OF later, of r' sessions window] at [of r'] that r lo left
    by (simp add: word_less_nat_alt [of r'] word_le_nat_alt flip: b_def)
  ultimately show ?thesis using pos by blast
qed

definition sample_session :: "u64 \<Rightarrow> BrowserSession" where
  "sample_session t = \<lparr>bs_operation_id = ''o'', bs_request_digest = ''d'', bs_wallet_id = None, bs_anonymous_registration = True,
     bs_ceremony_kind = CK_WalletRegistration, bs_token = None, bs_token_hash = [], bs_remote_auth = None, bs_origin = [], bs_expires_at_ms = t + 9,
     bs_created_at_ms = t, bs_terminal_at_ms = None, bs_state = CS_AwaitingUser, bs_terminal_result = None, bs_result_retain_until_ms = None,
     bs_cross_surface = None, bs_auxiliary = False, bs_ceremony_id = ''c'', bs_review_manifest = None, bs_signer_contribution = JNull,
     bs_carried = JNull\<rparr>"

theorem retry_hints_are_exact_witness:
  "\<exists>r. pe_rate_limit (rolling_quota_exhausted ''q'' (creations_in_window [sample_session 1, sample_session 3] 10 5) 2 10 5)
      = Some \<lparr>rl_retry_after_ms = r, rl_limit = 2, rl_window_ms = 10\<rparr>
    \<and> length (creations_in_window [sample_session 1, sample_session 3] 10 (5 + r)) < 2"
proof -
  have "unat (2 :: u64) \<le> length (creations_in_window [sample_session 1, sample_session 3] 10 5)"
    by (simp add: creations_in_window_def sample_session_def saturating_add_def)
  moreover have "\<forall>s \<in> set [sample_session 1, sample_session 3]. bs_created_at_ms s \<le> 5" by (simp add: sample_session_def)
  ultimately show ?thesis
    using retry_hints_are_exact [of 2 "[sample_session 1, sample_session 3]" 10 5 "''q''"] by auto
qed

end
