(* ===== verification/CeremonyBroker.thy ===== *)
theory CeremonyBroker
  imports CeremonyTypes "HOL-Library.AList"
begin

text \<open>
  The ceremony broker (\<open>bloom-broker/src/ceremony.rs\<close>): the sessions it keeps, how it persists them in the journal, adopts the receipts of the
  Signer through the authority, expires, cancels and terminates sessions, admits new ones and prepares ceremonies. The Signer
  is a parameter: a record of functions on a state of its own. The hash maps are association lists whose order is
  the order of iteration; the clocks, the random bytes and the readings of the monotonic clock are arguments.
\<close>

section \<open>State and environment\<close>

record session_row =
  sr_ceremony_id :: string
  sr_operation_id :: string
  sr_session_jcs :: string

text \<open>
  \<open>BrokerInner\<close>, as the Broker opens it: the database is the one of the journal, which the authority shares, and the observer of
  completions is the authority once it is installed. Invalid tokens are counted for one source address.
\<close>

record 's BrokerInner =
  bi_signer :: 's
  bi_endpoint :: CeremonyEndpoint
  bi_limits :: CeremonyLimits
  bi_sessions :: "(string \<times> BrowserSession) list"
  bi_operations :: "OperationId \<rightharpoonup> string"
  bi_cancellation_backoff :: "Token \<rightharpoonup> u32 \<times> BackoffDeadline"
  bi_invalid_attempts :: u32
  bi_rows :: "session_row list"
  bi_authority :: authority
  bi_observing :: bool
  bi_remote_credentials_rejected :: bool

datatype SignerCeremonyStatus =
    SS_CompletedApproval SignerActivationReceipt
  | SS_CompletedCustody CustodyResult
  | SS_Pending
  | SS_Terminal CeremonyState
  | SS_Missing

text \<open>What the Signer contributes to a ceremony: the fields that the Broker reads, and the results of the package's functions on them.\<close>

record SignerPrepared =
  sp_ceremony_id :: Digest32
  sp_wallet_id :: "Token option"
  sp_expires_at_ms :: u64
  sp_surface :: CeremonySurfaceRef
  sp_contribution :: json
  sp_digest :: "ProtocolError + Digest32"
  sp_scope_binding :: "ProtocolError + unit"
  sp_carried :: "ProtocolError + json"

type_synonym ('s, 'a) signer_call = "'s \<Rightarrow> 's \<times> (ProtocolError + 'a)"

text \<open>The functions of the Signer (\<open>CeremonySigner\<close>), with their errors as \<open>signer_error_to_machine\<close> translates them.\<close>

record 's ceremony_signer =
  sn_surface_status :: "('s, SurfaceStatus) signer_call"
  sn_credential_list_public :: "Token \<Rightarrow> ('s, CredentialPublic list) signer_call"
  sn_cancel :: "OperationId \<Rightarrow> ('s, unit) signer_call"
  sn_status :: "OperationId \<Rightarrow> ('s, SignerCeremonyStatus) signer_call"
  sn_prepare_custody :: "CustodyPrepareRequest \<Rightarrow> u64 \<Rightarrow> ('s, SignerPrepared) signer_call"
  sn_pair_start :: "CeremonySurfaceRef \<Rightarrow> OperationId \<Rightarrow> Digest32 \<Rightarrow> Base64UrlBytes \<Rightarrow> u64 \<Rightarrow> ('s, CrossSurfacePairing) signer_call"
  sn_prepare_source :: "Digest32 \<Rightarrow> OperationId \<Rightarrow> CeremonySurfaceRef \<Rightarrow> Token \<Rightarrow> Digest32 \<Rightarrow> ('s, CrossSurfaceSourcePrepared) signer_call"
  sn_complete_source :: "Digest32 \<Rightarrow> OperationId \<Rightarrow> json \<Rightarrow> ('s, CrossSurfaceHandoff) signer_call"
  sn_complete_destination :: "Digest32 \<Rightarrow> OperationId \<Rightarrow> json \<Rightarrow> ('s, CustodyResult) signer_call"
  sn_already_registered :: "Digest32 \<Rightarrow> OperationId \<Rightarrow> json \<Rightarrow> ('s, CeremonyState \<times> OperationId \<times> Digest32) signer_call"
  sn_complete :: "CeremonyKind \<Rightarrow> OperationId \<Rightarrow> Digest32 \<Rightarrow> json \<Rightarrow> u64 \<Rightarrow> ('s, json) signer_call"
  sn_bind_output_recipient :: "OperationId \<Rightarrow> Base64UrlBytes \<Rightarrow> u64 \<Rightarrow> ('s, SignerPrepared) signer_call"

text \<open>
  The functions of packages (serde, base64, the functions of the Signer package on the values that it contributed) and the review texts that the
  owner is shown. A digest of a stored value is absent when the value cannot be read.
\<close>

record ceremony_env =
  cy_auth :: auth_env
  cy_activation_to_value :: "SignerActivationReceipt \<Rightarrow> string + json"
  cy_activation_from_value :: "json \<Rightarrow> string + SignerActivationReceipt"
  cy_custody_to_value :: "CustodyResult \<Rightarrow> string + json"
  cy_custody_from_value :: "json \<Rightarrow> string + CustodyResult"
  cy_session_jcs :: "BrowserSession \<Rightarrow> string + string"
  cy_row_auxiliary :: "string \<Rightarrow> bool"
  cy_kind_json :: "CeremonyKind \<Rightarrow> json"
  cy_state_json :: "CeremonyState \<Rightarrow> json"
  cy_base64_encode :: "bytes \<Rightarrow> Base64UrlBytes"
  cy_base64_parse :: "string \<Rightarrow> Base64UrlBytes option"
  cy_request_digest :: "CustodyPrepareRequest \<Rightarrow> string + Digest32"
  cy_cross_digest :: "OperationId \<Rightarrow> Token \<Rightarrow> CeremonySurfaceRef \<Rightarrow> CeremonySurfaceRef \<Rightarrow> string + Digest32"
  cy_custody_review :: "CustodyPrepareRequest \<Rightarrow> Token option \<Rightarrow> bool \<Rightarrow> json option \<Rightarrow> ProtocolError + json option"
  cy_unsupported_text :: "UnsupportedStoreVersion \<Rightarrow> string"
  cy_contribution_digest :: "json \<Rightarrow> (string + Digest32) option"
  cy_manifest_digest :: "json \<Rightarrow> (Digest32 \<times> (string + Digest32)) option"
  cy_projection_json :: "BrowserSession \<Rightarrow> json"
  cy_approval_contribution_valid :: "json \<Rightarrow> bool"
  cy_cross_request_digest :: "OperationId \<Rightarrow> Token \<Rightarrow> CeremonySurfaceSelection \<Rightarrow> string + Digest32"

abbreviation cy_crypto :: "ceremony_env \<Rightarrow> crypto_env" where
  "cy_crypto env \<equiv> ae_crypto (cy_auth env)"

abbreviation cy_journal :: "ceremony_env \<Rightarrow> env" where
  "cy_journal env \<equiv> ae_journal (cy_auth env)"

section \<open>Sequencing\<close>

type_synonym ('s, 'a) cm = "'s BrokerInner \<Rightarrow> 's BrokerInner \<times> (ProtocolError + 'a)"

definition cm_return :: "'a \<Rightarrow> ('s, 'a) cm" where
  "cm_return x b = (b, Inr x)"

definition cm_lift :: "ProtocolError + 'a \<Rightarrow> ('s, 'a) cm" where
  "cm_lift r b = (b, r)"

definition cm_read :: "('s BrokerInner \<Rightarrow> ProtocolError + 'a) \<Rightarrow> ('s, 'a) cm" where
  "cm_read f b = (b, f b)"

definition cm_bind :: "('s, 'a) cm \<Rightarrow> ('a \<Rightarrow> ('s, 'b) cm) \<Rightarrow> ('s, 'b) cm" where
  "cm_bind m f b = (case m b of (b', Inl e) \<Rightarrow> (b', Inl e) | (b', Inr x) \<Rightarrow> f x b')"

fun cm_iter :: "('a \<Rightarrow> ('s, unit) cm) \<Rightarrow> 'a list \<Rightarrow> ('s, unit) cm" where
  "cm_iter f [] = cm_return ()"
| "cm_iter f (x # xs) = cm_bind (f x) (\<lambda>_. cm_iter f xs)"

text \<open>The value or the error of a call, without leaving the function.\<close>

definition cm_try :: "('s, 'a) cm \<Rightarrow> ('s, ProtocolError + 'a) cm" where
  "cm_try m b = (case m b of (b', r) \<Rightarrow> (b', Inr r))"

definition cm_signer :: "('s, 'a) signer_call \<Rightarrow> ('s, 'a) cm" where
  "cm_signer f b = (case f (bi_signer b) of (s, r) \<Rightarrow> (b\<lparr>bi_signer := s\<rparr>, r))"

definition get_session :: "string \<Rightarrow> ('s, BrowserSession) cm" where
  "get_session id' = cm_read (\<lambda>b. ok_or (map_of (bi_sessions b) id') ceremony_not_found)"

definition put_session :: "string \<Rightarrow> BrowserSession \<Rightarrow> ('s, unit) cm" where
  "put_session id' session b = (b\<lparr>bi_sessions := AList.update id' session (bi_sessions b)\<rparr>, Inr ())"

section \<open>Errors of the journal and the authority\<close>

fun durable_point_debug :: "DurablePoint \<Rightarrow> string" where
  "durable_point_debug ApprovalTransition = ''ApprovalTransition''"
| "durable_point_debug OperationReceived = ''OperationReceived''"
| "durable_point_debug OperationTransition = ''OperationTransition''"
| "durable_point_debug ReservationCreated = ''ReservationCreated''"
| "durable_point_debug ReservationFinalized = ''ReservationFinalized''"
| "durable_point_debug BatchPublished = ''BatchPublished''"

fun journal_error_text :: "JournalError \<Rightarrow> string" where
  "journal_error_text (Protocol code message) = code_as_str code @ '': '' @ message"
| "journal_error_text (InjectedCrash point message) =
     ''durable transition completed before injected crash at '' @ durable_point_debug point @ '': '' @ message"
| "journal_error_text (Storage message) = ''journal storage failure: '' @ message"
| "journal_error_text QueryDiverges = []"

text \<open>\<open>journal_error\<close> and \<open>authority_error\<close> of \<open>service.rs\<close>.\<close>

fun journal_error :: "JournalError \<Rightarrow> ProtocolError" where
  "journal_error (Protocol code message) = error_new code message"
| "journal_error (InjectedCrash _ message) = error_new ServiceUnavailable message"
| "journal_error (Storage message) = error_new ServiceUnavailable message"
| "journal_error QueryDiverges = error_new ServiceUnavailable []"

definition denied_code :: "string \<Rightarrow> ProtocolErrorCode" where
  "denied_code code =
     (if code = ''APPROVAL_NOT_FOUND'' then ApprovalNotFound
      else if code = ''APPROVAL_REVOKED'' then ApprovalRevoked
      else if code = ''REVOCATION_EPOCH_UNRECONCILED'' then RevocationEpochUnreconciled
      else if code = ''KEYREF_MISMATCH'' then KeyrefMismatch
      else if code = ''SUITE_NOT_ALLOWED'' then SuiteNotAllowed
      else if code = ''SELECTOR_MISMATCH'' then SelectorMismatch
      else if code = ''PROVENANCE_MISMATCH'' \<or> code = ''PROVENANCE_REQUIRED'' then ProvenanceMismatch
      else if code = ''ASSURANCE_UNAVAILABLE'' then AssuranceUnavailable
      else if code = ''POLICY_BASELINE_STALE'' then PolicyBaselineStale
      else if code = ''OPERATION_ID_CONFLICT'' then OperationIdConflict
      else if code = ''KEY_STOPPED'' then ApprovalRevoked
      else ClaimInvalid)"

fun authority_error :: "ceremony_env \<Rightarrow> AuthorityError \<Rightarrow> ProtocolError" where
  "authority_error env (AuthorityJournal error) = journal_error error"
| "authority_error env (AuthorityStorage message) = error_new ServiceUnavailable message"
| "authority_error env (AuthorityUnsupported version) = error_new ServiceUnavailable (cy_unsupported_text env version)"
| "authority_error env (Denied code message) = error_new (denied_code code) message"

definition cm_authority :: "ceremony_env \<Rightarrow> 'a am \<Rightarrow> ('s, 'a) cm" where
  "cm_authority env m b = (case m (bi_authority b) of (a, r) \<Rightarrow> (b\<lparr>bi_authority := a\<rparr>, map_err (authority_error env) r))"

section \<open>Persistence\<close>

definition session_payload :: "ceremony_env \<Rightarrow> BrowserSession \<Rightarrow> json" where
  "session_payload env session = json_object
     [(''ceremony_id'', JString (bs_ceremony_id session)), (''operation_id'', JString (bs_operation_id session)),
      (''ceremony_kind'', cy_kind_json env (bs_ceremony_kind session)), (''state'', cy_state_json env (bs_state session)),
      (''request_digest'', JString (bs_request_digest session)),
      (''receipt_digest'', json_option (Option.bind (bs_terminal_result session) (\<lambda>receipt. json_get receipt ''receipt_digest'')))]"

text \<open>The unique index on the operations of primary sessions.\<close>

definition operation_taken :: "ceremony_env \<Rightarrow> session_row \<Rightarrow> session_row list \<Rightarrow> bool" where
  "operation_taken env row rows \<longleftrightarrow> \<not> cy_row_auxiliary env (sr_session_jcs row)
     \<and> list_ex (\<lambda>r. sr_ceremony_id r \<noteq> sr_ceremony_id row \<and> sr_operation_id r = sr_operation_id row \<and> \<not> cy_row_auxiliary env (sr_session_jcs r)) rows"

definition set_journal :: "journal \<Rightarrow> 's BrokerInner \<Rightarrow> 's BrokerInner" where
  "set_journal j b = b\<lparr>bi_authority := (bi_authority b)\<lparr>ba_journal := j\<rparr>\<rparr>"

definition write_row :: "ceremony_env \<Rightarrow> session_row \<Rightarrow> json \<Rightarrow> ('s, unit) cm" where
  "write_row env row payload b = (case lock_for_mutation (cy_journal env) (ba_journal (bi_authority b)) of
     (j, Inl e) \<Rightarrow> (set_journal j b, Inl (ceremony_storage (journal_error_text e)))
   | (j, Inr _) \<Rightarrow>
       if operation_taken env row (bi_rows b)
       then (set_journal j b, Inl (ceremony_storage (e_sqlite_text (cy_journal env) (UniqueConstraint ''ceremony_sessions.operation_id''))))
       else (case run_transaction (external_tx (cy_journal env) 1 ''ceremony.session_persisted'' payload (j_signer j)) (j_db j) of
          (db, Inl e) \<Rightarrow> (set_journal (j\<lparr>j_db := db\<rparr>) b, Inl (ceremony_storage (journal_error_text e)))
        | (db, Inr _) \<Rightarrow>
            (let b' = b\<lparr>bi_rows := upsert sr_ceremony_id row (bi_rows b)\<rparr> in
             case checkpoint_committed_head (cy_journal env) (j\<lparr>j_db := db\<rparr>) of
               (j', Inl e) \<Rightarrow> (set_journal j' b', Inl (ceremony_storage (journal_error_text e)))
             | (j', Inr _) \<Rightarrow> (set_journal j' b', Inr ()))))"

definition persist_session :: "ceremony_env \<Rightarrow> BrowserSession \<Rightarrow> ('s, unit) cm" where
  "persist_session env session =
     cm_bind (cm_lift (map_err ceremony_malformed (cy_session_jcs env session))) (\<lambda>encoded.
     write_row env \<lparr>sr_ceremony_id = bs_ceremony_id session, sr_operation_id = bs_operation_id session, sr_session_jcs = encoded\<rparr>
       (session_payload env session))"

text \<open>A session is stored before it replaces the one in memory.\<close>

definition save_session :: "ceremony_env \<Rightarrow> string \<Rightarrow> BrowserSession \<Rightarrow> ('s, unit) cm" where
  "save_session env id' session = cm_bind (persist_session env session) (\<lambda>_. put_session id' session)"

section \<open>Completion\<close>

definition validate_completion_identity :: "ceremony_env \<Rightarrow> CeremonyKind \<Rightarrow> OperationId \<Rightarrow> Digest32 \<Rightarrow> json \<Rightarrow> ProtocolError + unit" where
  "validate_completion_identity env kind operation_id ceremony_id v =
     (if kind = CK_SealedApproval
      then and_then (map_err ceremony_malformed (cy_activation_from_value env v)) (\<lambda>receipt.
        if sa_activation_operation_id receipt \<noteq> operation_id \<or> sa_ceremony_id receipt \<noteq> ceremony_id
        then Inl (protocol OperationIdConflict ''Signer approval receipt changed the prepared ceremony identity'')
        else Inr ())
      else and_then (map_err ceremony_malformed (cy_custody_from_value env v)) (\<lambda>receipt.
        if cr_ceremony_kind receipt \<noteq> kind
        then Inl (protocol CeremonyKindMismatch ''Signer custody receipt changed the prepared ceremony kind'')
        else if cr_custody_operation_id receipt \<noteq> operation_id \<or> Some (cr_public_status receipt) \<noteq> successful_terminal_state kind
        then Inl (protocol OperationIdConflict ''Signer custody receipt changed the prepared operation or completion state'')
        else Inr ()))"

text \<open>The observer of completions is the authority (\<open>AuthorityCompletionObserver\<close> of \<open>service.rs\<close>).\<close>

definition approval_completed :: "ceremony_env \<Rightarrow> SignerActivationReceipt \<Rightarrow> u64 \<Rightarrow> ('s, unit) cm" where
  "approval_completed env receipt now_ms = cm_authority env (activate_signer_receipt (cy_auth env) receipt now_ms)"

definition custody_completed :: "ceremony_env \<Rightarrow> CustodyResult \<Rightarrow> u64 \<Rightarrow> ('s, unit) cm" where
  "custody_completed env receipt now_ms = cm_authority env (adopt_custody_receipt (cy_auth env) receipt now_ms)"

definition notify_completion :: "ceremony_env \<Rightarrow> CeremonyKind \<Rightarrow> json \<Rightarrow> u64 \<Rightarrow> ('s, unit) cm" where
  "notify_completion env kind receipt now_ms =
     cm_bind (cm_read (\<lambda>b. Inr (bi_observing b))) (\<lambda>observing.
     if \<not> observing then cm_return ()
     else if kind = CK_SealedApproval
     then cm_bind (cm_lift (map_err ceremony_malformed (cy_activation_from_value env receipt))) (\<lambda>receipt. approval_completed env receipt now_ms)
     else cm_bind (cm_lift (map_err ceremony_malformed (cy_custody_from_value env receipt))) (\<lambda>receipt. custody_completed env receipt now_ms))"

definition OUTPUT_ACK_TTL_MS :: u64 where
  "OUTPUT_ACK_TTL_MS = 15 * 60 * 1000"

definition successful_state :: "CeremonyKind \<Rightarrow> CeremonyState" where
  "successful_state kind = (case successful_terminal_state kind of Some state \<Rightarrow> state | None \<Rightarrow> CS_Completed)"

definition is_destination :: "BrowserSession \<Rightarrow> bool" where
  "is_destination session \<longleftrightarrow> (case bs_cross_surface session of None \<Rightarrow> False | Some flow \<Rightarrow> xf_role flow = XR_Destination)"

text \<open>The session after the adoption of its receipt.\<close>

definition finalized_session :: "json \<Rightarrow> u64 \<Rightarrow> BrowserSession \<Rightarrow> BrowserSession" where
  "finalized_session receipt now_ms committed =
     (if (case json_get receipt ''encrypted_browser_result'' of None \<Rightarrow> False | Some v \<Rightarrow> v \<noteq> JNull)
      then committed\<lparr>bs_state := CS_AwaitingRecoveryAck, bs_expires_at_ms := saturating_add now_ms OUTPUT_ACK_TTL_MS\<rparr>
      else if is_destination committed
      then committed\<lparr>bs_state := CS_Succeeded, bs_terminal_at_ms := Some now_ms,
        bs_result_retain_until_ms := Some (saturating_add now_ms OUTPUT_ACK_TTL_MS), bs_expires_at_ms := saturating_add now_ms OUTPUT_ACK_TTL_MS\<rparr>
      else latch_terminal now_ms (committed\<lparr>bs_state := successful_state (bs_ceremony_kind committed)\<rparr>))"

definition finalize_committed_session :: "ceremony_env \<Rightarrow> string \<Rightarrow> u64 \<Rightarrow> ('s, json) cm" where
  "finalize_committed_session env ceremony_id now_ms =
     cm_bind (get_session ceremony_id) (\<lambda>committed.
     if bs_state committed \<noteq> CS_WalletCommitted
     then cm_lift (Inl (protocol ServiceUnavailable ''ceremony receipt is not awaiting Broker adoption''))
     else cm_bind (cm_lift (ok_or (bs_terminal_result committed)
         (protocol ServiceUnavailable ''committed ceremony omitted its durable Signer receipt''))) (\<lambda>receipt.
     cm_bind (cm_try (notify_completion env (bs_ceremony_kind committed) receipt now_ms)) (\<lambda>adopted.
     case adopted of
       Inl error \<Rightarrow>
         if pe_retry error = RC_Never
         then cm_bind (save_session env ceremony_id (latch_terminal now_ms (committed\<lparr>bs_state := CS_Failed\<rparr>))) (\<lambda>_. cm_lift (Inl error))
         else cm_lift (Inl error)
     | Inr _ \<Rightarrow>
         cm_bind (save_session env ceremony_id (finalized_session receipt now_ms committed)) (\<lambda>_. cm_return receipt))))"

definition sweep_committed_session :: "ceremony_env \<Rightarrow> string \<Rightarrow> u64 \<Rightarrow> ('s, unit) cm" where
  "sweep_committed_session env ceremony_id now_ms =
     cm_bind (cm_try (finalize_committed_session env ceremony_id now_ms)) (\<lambda>r.
     case r of Inr _ \<Rightarrow> cm_return () | Inl error \<Rightarrow> if pe_retry error = RC_Never then cm_return () else cm_lift (Inl error))"

definition set_observing :: "('s, unit) cm" where
  "set_observing b = (b\<lparr>bi_observing := True\<rparr>, Inr ())"

definition set_completion_observer :: "ceremony_env \<Rightarrow> u64 \<Rightarrow> ('s, unit) cm" where
  "set_completion_observer env now_ms =
     cm_bind set_observing (\<lambda>_.
     cm_bind (cm_read (\<lambda>b. Inr (map (\<lambda>s. (bs_ceremony_id s, case bs_terminal_at_ms s of None \<Rightarrow> now_ms | Some t \<Rightarrow> t))
       (filter (\<lambda>s. bs_state s = CS_WalletCommitted) (map snd (bi_sessions b)))))) (\<lambda>committed.
     cm_iter (\<lambda>(ceremony_id, completed_at_ms). sweep_committed_session env ceremony_id completed_at_ms) committed))"

definition set_completion_observer_read_only :: "('s, unit) cm" where
  "set_completion_observer_read_only = set_observing"

section \<open>Expiry, cancellation and termination\<close>

definition cancel_signer_or_already_released :: "'s ceremony_signer \<Rightarrow> OperationId \<Rightarrow> ('s, unit) cm" where
  "cancel_signer_or_already_released sn operation_id =
     cm_bind (cm_try (cm_signer (sn_cancel sn operation_id))) (\<lambda>r.
     case r of Inr _ \<Rightarrow> cm_return () | Inl error \<Rightarrow> if pe_code error = ApprovalNotFound then cm_return () else cm_lift (Inl error))"

text \<open>The state and result that the Signer reports for an operation; a pending one is cancelled.\<close>

definition signer_outcome :: "ceremony_env \<Rightarrow> 's ceremony_signer \<Rightarrow> OperationId \<Rightarrow> ('s, CeremonyState \<times> json option) cm" where
  "signer_outcome env sn operation_id =
     cm_bind (cm_signer (sn_status sn operation_id)) (\<lambda>status. case status of
       SS_CompletedApproval receipt \<Rightarrow>
         cm_bind (cm_lift (map_err ceremony_malformed (cy_activation_to_value env receipt))) (\<lambda>v. cm_return (CS_WalletCommitted, Some v))
     | SS_CompletedCustody result \<Rightarrow>
         cm_bind (cm_lift (map_err ceremony_malformed (cy_custody_to_value env result))) (\<lambda>v. cm_return (CS_WalletCommitted, Some v))
     | SS_Pending \<Rightarrow> cm_bind (cancel_signer_or_already_released sn operation_id) (\<lambda>_. cm_return (CS_Expired, None))
     | SS_Terminal state \<Rightarrow> cm_return (state, None)
     | SS_Missing \<Rightarrow> cm_return (CS_Expired, None))"

definition settle_session :: "ceremony_env \<Rightarrow> 's ceremony_signer \<Rightarrow> u64 \<Rightarrow> string \<Rightarrow> OperationId \<Rightarrow> ('s, unit) cm" where
  "settle_session env sn now_ms ceremony_id operation_id =
     cm_bind (signer_outcome env sn operation_id) (\<lambda>(state, terminal_result).
     cm_bind (get_session ceremony_id) (\<lambda>session.
     let snapshot = session\<lparr>bs_state := state, bs_terminal_result := terminal_result\<rparr>;
         snapshot = (if is_terminal state then latch_terminal now_ms snapshot else snapshot) in
     cm_bind (if state = CS_WalletCommitted
       then cm_bind (cm_lift (ok_or terminal_result ceremony_not_found)) (\<lambda>v.
         cm_lift (validate_completion_identity env (bs_ceremony_kind snapshot) (bs_operation_id snapshot) (bs_ceremony_id snapshot) v))
       else cm_return ()) (\<lambda>_.
     cm_bind (save_session env ceremony_id snapshot) (\<lambda>_.
     if state = CS_WalletCommitted then sweep_committed_session env ceremony_id now_ms else cm_return ()))))"

definition expire_session :: "ceremony_env \<Rightarrow> 's ceremony_signer \<Rightarrow> u64 \<Rightarrow> string \<times> OperationId \<Rightarrow> ('s, unit) cm" where
  "expire_session env sn now_ms = (\<lambda>(ceremony_id, operation_id).
     cm_bind (cm_read (\<lambda>b. Inr (map_of (bi_sessions b) ceremony_id))) (\<lambda>found.
     case found of
       None \<Rightarrow> settle_session env sn now_ms ceremony_id operation_id
     | Some session \<Rightarrow>
         if bs_result_retain_until_ms session \<noteq> None
         then save_session env ceremony_id (latch_terminal now_ms (session\<lparr>bs_result_retain_until_ms := None\<rparr>))
         else if bs_auxiliary session
         then save_session env ceremony_id (latch_terminal now_ms (session\<lparr>bs_state := CS_Expired\<rparr>))
         else if bs_state session = CS_WalletCommitted then sweep_committed_session env ceremony_id now_ms
         else if bs_state session = CS_AwaitingRecoveryAck
         then save_session env ceremony_id (latch_terminal now_ms (session\<lparr>bs_state := CS_Failed\<rparr>))
         else settle_session env sn now_ms ceremony_id operation_id))"

definition expires :: "u64 \<Rightarrow> BrowserSession \<Rightarrow> bool" where
  "expires now_ms session \<longleftrightarrow> bs_expires_at_ms session \<le> now_ms \<and> (\<not> is_terminal (bs_state session) \<or> bs_result_retain_until_ms session \<noteq> None)"

definition expire_sessions :: "ceremony_env \<Rightarrow> 's ceremony_signer \<Rightarrow> u64 \<Rightarrow> ('s, unit) cm" where
  "expire_sessions env sn now_ms =
     cm_bind (cm_read (\<lambda>b. Inr (map (\<lambda>(id', s). (id', bs_operation_id s)) (filter (\<lambda>(_, s). expires now_ms s) (bi_sessions b))))) (\<lambda>expired.
     cm_iter (expire_session env sn now_ms) expired)"

definition record_backoff :: "Token \<Rightarrow> u64 \<Rightarrow> BackoffClock \<Rightarrow> nat \<Rightarrow> ('s, unit) cm" where
  "record_backoff wallet_id now_ms clock instant b =
     (let count = (case bi_cancellation_backoff b wallet_id of None \<Rightarrow> 0 | Some (strikes, _) \<Rightarrow> strikes);
          next_count = saturating_add count 1;
          window_ms = backoff_window_ms next_count;
          deadline = (case clock of ClockTrusted \<Rightarrow> Trusted (saturating_add now_ms window_ms)
            | ClockMonotonic \<Rightarrow> Monotonic (instant + unat window_ms * 1000000)) in
      (b\<lparr>bi_cancellation_backoff := (bi_cancellation_backoff b)(wallet_id \<mapsto> (next_count, deadline))\<rparr>, Inr ()))"

definition cancel_auxiliary :: "ceremony_env \<Rightarrow> u64 \<Rightarrow> string \<times> BrowserSession \<Rightarrow> ('s, unit) cm" where
  "cancel_auxiliary env now_ms = (\<lambda>(id', source). save_session env id' (latch_terminal now_ms (source\<lparr>bs_state := CS_Cancelled\<rparr>)))"

definition cancel_live :: "ceremony_env \<Rightarrow> 's ceremony_signer \<Rightarrow> OperationId \<Rightarrow> u64 \<Rightarrow> BackoffClock \<Rightarrow> nat \<Rightarrow> string \<Rightarrow> BrowserSession \<Rightarrow> ('s, unit) cm" where
  "cancel_live env sn operation_id now_ms clock instant ceremony_id session =
     cm_bind (cancel_signer_or_already_released sn operation_id) (\<lambda>_.
     cm_bind (cm_read (\<lambda>b. Inr (filter (\<lambda>(_, s). bs_auxiliary s \<and> bs_operation_id s = operation_id \<and> \<not> is_terminal (bs_state s)) (bi_sessions b)))) (\<lambda>auxiliary.
     cm_bind (cm_iter (cancel_auxiliary env now_ms) auxiliary) (\<lambda>_.
     cm_bind (save_session env ceremony_id (latch_terminal now_ms (session\<lparr>bs_state := CS_Cancelled\<rparr>))) (\<lambda>_.
     case bs_wallet_id session of None \<Rightarrow> cm_return () | Some wallet_id \<Rightarrow> record_backoff wallet_id now_ms clock instant))))"

definition cancel_with_backoff :: "ceremony_env \<Rightarrow> 's ceremony_signer \<Rightarrow> OperationId \<Rightarrow> u64 \<Rightarrow> BackoffClock \<Rightarrow> nat \<Rightarrow> ('s, unit) cm" where
  "cancel_with_backoff env sn operation_id now_ms clock instant =
     cm_bind (expire_sessions env sn now_ms) (\<lambda>_.
     cm_bind (cm_read (\<lambda>b. ok_or (bi_operations b operation_id) ceremony_not_found)) (\<lambda>ceremony_id.
     cm_bind (get_session ceremony_id) (\<lambda>session.
     if (bs_state session = CS_Cancelled \<or> bs_state session = CS_Expired \<or> bs_state session = CS_Failed) \<and> bs_terminal_result session = None
     then cm_return ()
     else if bs_state session \<noteq> CS_AwaitingUser
     then cm_lift (Inl (protocol OperationIdConflict ''ceremony is past the point where it can be cancelled''))
     else cancel_live env sn operation_id now_ms clock instant ceremony_id session)))"

definition terminate_session :: "ceremony_env \<Rightarrow> 's ceremony_signer \<Rightarrow> u64 \<Rightarrow> string \<times> OperationId \<times> CeremonyState \<Rightarrow> ('s, unit) cm" where
  "terminate_session env sn now_ms = (\<lambda>(ceremony_id, operation_id, state).
     if state = CS_WalletCommitted then sweep_committed_session env ceremony_id now_ms
     else cm_bind (if state = CS_AwaitingUser then cancel_signer_or_already_released sn operation_id else cm_return ()) (\<lambda>_.
       cm_bind (cm_read (\<lambda>b. Inr (map_of (bi_sessions b) ceremony_id))) (\<lambda>found.
       case found of
         None \<Rightarrow> cm_return ()
       | Some session \<Rightarrow>
           if is_terminal (bs_state session) then cm_return ()
           else save_session env ceremony_id (latch_terminal now_ms
             (session\<lparr>bs_state := (if state = CS_AwaitingUser then CS_Cancelled else CS_Failed)\<rparr>)))))"

definition terminate_live_sessions :: "ceremony_env \<Rightarrow> 's ceremony_signer \<Rightarrow> u64 \<Rightarrow> ('s, unit) cm" where
  "terminate_live_sessions env sn now_ms =
     cm_bind (cm_read (\<lambda>b. Inr (map (\<lambda>(id', s). (id', bs_operation_id s, bs_state s))
       (filter (\<lambda>(_, s). \<not> is_terminal (bs_state s)) (bi_sessions b))))) (\<lambda>live.
     cm_iter (terminate_session env sn now_ms) live)"

section \<open>Admission of sessions\<close>

definition insert_session :: "ceremony_env \<Rightarrow> Digest32 \<Rightarrow> BrowserSession \<Rightarrow> ('s, unit) cm" where
  "insert_session env ceremony_id session =
     cm_bind (cm_read (\<lambda>b.
       if map_of (bi_sessions b) ceremony_id \<noteq> None \<or> bi_operations b (bs_operation_id session) \<noteq> None
       then Inl (protocol OperationIdConflict ''ceremony ID or operation ID is already in use'') else Inr ())) (\<lambda>_.
     cm_bind (persist_session env session) (\<lambda>_ b.
     (b\<lparr>bi_operations := (bi_operations b)(bs_operation_id session \<mapsto> ceremony_id),
        bi_sessions := AList.update ceremony_id session (bi_sessions b)\<rparr>, Inr ())))"

definition is_live :: "u64 \<Rightarrow> BrowserSession \<Rightarrow> bool" where
  "is_live now_ms session \<longleftrightarrow> \<not> is_terminal (bs_state session) \<and> now_ms < bs_expires_at_ms session"

definition live_wallet_error :: "u64 \<Rightarrow> BrowserSession \<Rightarrow> ProtocolError" where
  "live_wallet_error now_ms live =
     (let remaining = saturating_sub (bs_expires_at_ms live) now_ms;
          message = ''wallet already has a live ceremony; retry after '' @ u64_to_string remaining @ '' ms'';
          lifetime_ms = saturating_sub (bs_expires_at_ms live) (bs_created_at_ms live) in
      case rate_limit_new remaining 1 lifetime_ms of
        Some details \<Rightarrow> rate_limited message details
      | None \<Rightarrow> protocol CeremonyRateLimited message)"

definition backoff_error :: "u32 \<Rightarrow> u64 \<Rightarrow> ProtocolError" where
  "backoff_error strikes remaining =
     (let message = ''wallet ceremony is in cancellation backoff; retry after '' @ u64_to_string remaining @ '' ms'' in
      case rate_limit_new remaining 1 (backoff_window_ms strikes) of
        Some details \<Rightarrow> rate_limited message details
      | None \<Rightarrow> protocol CeremonyRateLimited message)"

text \<open>An elapsed cooldown is forgotten; one that has not elapsed refuses. The clock is read for each of the three comparisons.\<close>

definition check_backoff :: "Token \<Rightarrow> u64 \<Rightarrow> (nat \<Rightarrow> nat) \<Rightarrow> ('s, unit) cm" where
  "check_backoff wallet_id now_ms instants b =
     (let backoffs = bi_cancellation_backoff b;
          backoffs = (case backoffs wallet_id of
            Some (_, deadline) \<Rightarrow> if remaining_ms deadline now_ms (instants 0) = 0 then backoffs(wallet_id := None) else backoffs
          | None \<Rightarrow> backoffs) in
      (b\<lparr>bi_cancellation_backoff := backoffs\<rparr>,
       case backoffs wallet_id of
         Some (strikes, deadline) \<Rightarrow>
           if 0 < remaining_ms deadline now_ms (instants 1) then Inl (backoff_error strikes (remaining_ms deadline now_ms (instants 2))) else Inr ()
       | None \<Rightarrow> Inr ()))"

definition check_wallet_bounds :: "Token \<Rightarrow> u64 \<Rightarrow> (nat \<Rightarrow> nat) \<Rightarrow> ('s, unit) cm" where
  "check_wallet_bounds wallet_id now_ms instants =
     cm_bind (cm_read (\<lambda>b.
       let limits = bi_limits b;
           sessions = filter (\<lambda>s. bs_wallet_id s = Some wallet_id) (map snd (bi_sessions b));
           recent = creations_in_window sessions (li_creation_window_ms limits) now_ms in
       if unat (li_maximum_creations_per_wallet limits) \<le> length recent
       then Inl (rolling_quota_exhausted ''wallet ceremony rolling creation quota is exhausted'' recent (li_maximum_creations_per_wallet limits)
         (li_creation_window_ms limits) now_ms)
       else case find (is_live now_ms) sessions of
         Some live \<Rightarrow> Inl (live_wallet_error now_ms live)
       | None \<Rightarrow> Inr ())) (\<lambda>_.
     check_backoff wallet_id now_ms instants)"

definition check_anonymous_bounds :: "u64 \<Rightarrow> 's BrokerInner \<Rightarrow> ProtocolError + unit" where
  "check_anonymous_bounds now_ms b =
     (let limits = bi_limits b;
          recent = creations_in_window (filter bs_anonymous_registration (map snd (bi_sessions b))) (li_creation_window_ms limits) now_ms in
      if unat (li_maximum_anonymous_registrations limits) \<le> length recent
      then Inl (rolling_quota_exhausted ''anonymous registration rolling creation quota is exhausted'' recent
        (li_maximum_anonymous_registrations limits) (li_creation_window_ms limits) now_ms)
      else Inr ())"

definition enforce_creation_bounds :: "Token option \<Rightarrow> bool \<Rightarrow> u64 \<Rightarrow> (nat \<Rightarrow> nat) \<Rightarrow> ('s, unit) cm" where
  "enforce_creation_bounds wallet_id anonymous_registration now_ms instants =
     cm_bind (cm_read (\<lambda>b.
       if now_ms = 0 then Inl (protocol ClockUntrusted ''trusted platform time is required to create a ceremony'')
       else if unat (li_maximum_concurrent_sessions (bi_limits b)) \<le> length (filter (is_live now_ms) (map snd (bi_sessions b)))
       then Inl (protocol QuotaExceeded ''Broker ceremony concurrency quota is exhausted'')
       else Inr ())) (\<lambda>_.
     cm_bind (case wallet_id of None \<Rightarrow> cm_return () | Some w \<Rightarrow> check_wallet_bounds w now_ms instants) (\<lambda>_.
     if anonymous_registration then cm_read (check_anonymous_bounds now_ms) else cm_return ()))"

section \<open>Surfaces\<close>

definition served_origin_for :: "CeremonyEndpoint \<Rightarrow> SurfaceDescriptor \<Rightarrow> string" where
  "served_origin_for endpoint descriptor =
     (if fd_surface_id descriptor = ''local'' then endpoint_origin endpoint else fd_origin descriptor)"

definition origin_for_surface :: "'s ceremony_signer \<Rightarrow> CeremonySurfaceRef \<Rightarrow> ('s, string) cm" where
  "origin_for_surface sn surface =
     cm_bind (cm_signer (sn_surface_status sn)) (\<lambda>status.
     cm_bind (cm_lift (ok_or (find (\<lambda>candidate. fd_reference candidate = surface) (us_surfaces status))
       (protocol ServiceUnavailable ''Signer surface changed''))) (\<lambda>descriptor.
     cm_bind (cm_lift (surface_validate descriptor)) (\<lambda>_.
     if \<not> fd_active descriptor then cm_lift (Inl (protocol ServiceUnavailable ''Signer surface inactive''))
     else cm_read (\<lambda>b. Inr (served_origin_for (bi_endpoint b) descriptor)))))"

definition select_surface :: "'s ceremony_signer \<Rightarrow> CeremonySurfaceSelection \<Rightarrow> ('s, SurfaceDescriptor) cm" where
  "select_surface sn selection =
     cm_bind (cm_signer (sn_surface_status sn)) (\<lambda>status.
     cm_read (\<lambda>b. chosen_surface selection (bi_remote_credentials_rejected b) status))"

definition select_approving_surface :: "'s ceremony_signer \<Rightarrow> Token \<Rightarrow> SurfaceDescriptor \<Rightarrow> ('s, SurfaceDescriptor) cm" where
  "select_approving_surface sn wallet_id destination =
     cm_bind (cm_signer (sn_credential_list_public sn wallet_id)) (\<lambda>credentials.
     cm_bind (cm_try (select_surface sn (if fd_surface_id destination = ''local'' then SurfaceRemote else SurfaceLocal))) (\<lambda>other.
     cm_lift (ok_or (approving_surface credentials destination (case other of Inl _ \<Rightarrow> None | Inr d \<Rightarrow> Some d))
       (protocol ApprovalNotFound (''wallet '' @ wallet_id @ '' has no active passkey that can approve adding another'')))))"

definition select_wallet_surface :: "'s ceremony_signer \<Rightarrow> CeremonySurfaceSelection \<Rightarrow> Token \<Rightarrow> ('s, SurfaceDescriptor) cm" where
  "select_wallet_surface sn selection wallet_id =
     (if selection \<noteq> SurfaceDefault then select_surface sn selection
      else cm_bind (cm_signer (sn_credential_list_public sn wallet_id)) (\<lambda>credentials.
        cm_bind (select_surface sn SurfaceLocal) (\<lambda>local.
        cm_bind (cm_try (select_surface sn SurfaceDefault)) (\<lambda>found.
        let only_local_passkeys = list_all (\<lambda>credential. \<not> cx_active credential \<or> cx_surface credential = fd_reference local) credentials;
            refused = (if has_active_passkey_on credentials local then Inr local
              else Inl (protocol ApprovalNotFound (''wallet '' @ wallet_id @ '' has no active passkey on a usable ceremony surface''))) in
        cm_lift (case found of
            Inr surface \<Rightarrow> if has_active_passkey_on credentials surface then Inr surface else refused
          | Inl error \<Rightarrow> if \<not> only_local_passkeys then Inl error else refused)))))"

section \<open>Preparing ceremonies\<close>

record NewBrowserSession =
  nb_operation_id :: OperationId
  nb_request_digest :: Digest32
  nb_wallet_id :: "Token option"
  nb_anonymous_registration :: bool
  nb_ceremony_kind :: CeremonyKind
  nb_ceremony_id :: Digest32
  nb_review_manifest :: "json option"
  nb_signer_contribution :: json
  nb_carried :: "ProtocolError + json"
  nb_expires_at_ms :: u64
  nb_created_at_ms :: u64
  nb_origin :: string

text \<open>The random bytes of the token are an argument; the challenges are computed by the Signer package.\<close>

definition new_session :: "ceremony_env \<Rightarrow> bytes \<Rightarrow> NewBrowserSession \<Rightarrow> ProtocolError + BrowserSession" where
  "new_session env token_bytes new =
     and_then (nb_carried new) (\<lambda>carried.
     Inr \<lparr>bs_operation_id = nb_operation_id new, bs_request_digest = nb_request_digest new, bs_wallet_id = nb_wallet_id new,
       bs_anonymous_registration = nb_anonymous_registration new, bs_ceremony_kind = nb_ceremony_kind new,
       bs_token = Some (cy_base64_encode env token_bytes), bs_token_hash = ce_sha256 (cy_crypto env) token_bytes, bs_remote_auth = None,
       bs_origin = nb_origin new, bs_expires_at_ms = nb_expires_at_ms new, bs_created_at_ms = nb_created_at_ms new, bs_terminal_at_ms = None,
       bs_state = CS_AwaitingUser, bs_terminal_result = None, bs_result_retain_until_ms = None, bs_cross_surface = None, bs_auxiliary = False,
       bs_ceremony_id = nb_ceremony_id new, bs_review_manifest = nb_review_manifest new, bs_signer_contribution = nb_signer_contribution new,
       bs_carried = carried\<rparr>)"

record CustodyPrepareResponse =
  cz_ceremony_kind :: CeremonyKind
  cz_custody_operation_id :: OperationId
  cz_ceremony_url :: string
  cz_ceremony_expires_at_ms :: u64
  cz_signer_contribution_digest :: Digest32

text \<open>A repeated request gets its stable response; \<open>None\<close> when there is no session for the operation or its contribution cannot be read.\<close>

definition stable_custody_response :: "ceremony_env \<Rightarrow> OperationId \<Rightarrow> Digest32 \<Rightarrow> 's BrokerInner
    \<Rightarrow> (ProtocolError + CustodyPrepareResponse) option" where
  "stable_custody_response env operation_id request_digest b =
     Option.bind (bi_operations b operation_id) (\<lambda>id'.
     Option.bind (map_of (bi_sessions b) id') (\<lambda>session.
     if bs_request_digest session \<noteq> request_digest then Some (Inl operation_conflict)
     else if is_terminal (bs_state session) then Some (Inl ceremony_replay)
     else Option.bind (cy_contribution_digest env (bs_signer_contribution session)) (\<lambda>contribution_digest.
       case session_url session of
         None \<Rightarrow> Some (Inl launch_capability_consumed)
       | Some url \<Rightarrow> (case contribution_digest of
           Inl _ \<Rightarrow> None
         | Inr digest \<Rightarrow> Some (Inr \<lparr>cz_ceremony_kind = bs_ceremony_kind session, cz_custody_operation_id = operation_id, cz_ceremony_url = url,
             cz_ceremony_expires_at_ms = bs_expires_at_ms session, cz_signer_contribution_digest = digest\<rparr>)))))"

definition expected_wallet :: "CustodyPrepareRequest \<Rightarrow> Token option" where
  "expected_wallet request = (case cq_wallet_id request of Some w \<Rightarrow> Some w | None \<Rightarrow> map_option lm_wallet_name (cq_legacy_passkey_migration request))"

definition wallet_changed :: "CustodyPrepareRequest \<Rightarrow> SignerPrepared \<Rightarrow> bool" where
  "wallet_changed request prepared \<longleftrightarrow>
     (cq_ceremony_kind request = CK_WalletRegistration \<or> cq_ceremony_kind request = CK_WalletImport)
     \<and> expected_wallet request \<noteq> None \<and> sp_wallet_id prepared \<noteq> expected_wallet request"

definition create_custody_session :: "ceremony_env \<Rightarrow> 's ceremony_signer \<Rightarrow> CustodyPrepareRequest \<Rightarrow> json option \<Rightarrow> u64 \<Rightarrow> bytes \<Rightarrow> Digest32
    \<Rightarrow> bool \<Rightarrow> ('s, CustodyPrepareResponse) cm" where
  "create_custody_session env sn request account_review now_ms token_bytes request_digest anonymous_registration =
     cm_bind (cm_signer (sn_prepare_custody sn request now_ms)) (\<lambda>prepared.
     if wallet_changed request prepared
     then cm_lift (Inl (protocol OperationIdConflict ''Signer contribution changed the requested wallet ID''))
     else cm_bind (cm_lift (sp_scope_binding prepared)) (\<lambda>_.
     cm_bind (cm_lift (sp_digest prepared)) (\<lambda>contribution_digest.
     cm_bind (origin_for_surface sn (sp_surface prepared)) (\<lambda>origin.
     cm_bind (cm_lift (cy_custody_review env request (sp_wallet_id prepared) anonymous_registration account_review)) (\<lambda>manifest.
     cm_bind (cm_lift (new_session env token_bytes \<lparr>nb_operation_id = cq_custody_operation_id request, nb_request_digest = request_digest,
       nb_wallet_id = sp_wallet_id prepared, nb_anonymous_registration = anonymous_registration, nb_ceremony_kind = cq_ceremony_kind request,
       nb_ceremony_id = sp_ceremony_id prepared, nb_review_manifest = manifest, nb_signer_contribution = sp_contribution prepared,
       nb_carried = sp_carried prepared, nb_expires_at_ms = sp_expires_at_ms prepared, nb_created_at_ms = now_ms, nb_origin = origin\<rparr>)) (\<lambda>session.
     cm_bind (cm_lift (new_session_url session)) (\<lambda>url.
     cm_bind (insert_session env (sp_ceremony_id prepared) session) (\<lambda>_.
     cm_return \<lparr>cz_ceremony_kind = cq_ceremony_kind request, cz_custody_operation_id = cq_custody_operation_id request, cz_ceremony_url = url,
       cz_ceremony_expires_at_ms = sp_expires_at_ms prepared, cz_signer_contribution_digest = contribution_digest\<rparr>))))))))"

text \<open>The two bindings of the request are functions of the Signer package: \<open>bindings\<close> is their result on it.\<close>

definition prepare_custody_reviewed :: "ceremony_env \<Rightarrow> 's ceremony_signer \<Rightarrow> ProtocolError + unit \<Rightarrow> CustodyPrepareRequest
    \<Rightarrow> json option \<Rightarrow> u64 \<Rightarrow> bytes \<Rightarrow> (nat \<Rightarrow> nat) \<Rightarrow> ('s, CustodyPrepareResponse) cm" where
  "prepare_custody_reviewed env sn bindings request account_review now_ms token_bytes instants =
     cm_bind (expire_sessions env sn now_ms) (\<lambda>_.
     cm_bind (cm_lift bindings) (\<lambda>_.
     if cq_ceremony_kind request = CK_SealedApproval \<or> cq_ceremony_kind request = CK_PolicyUpdate then cm_lift (Inl kind_mismatch)
     else cm_bind (cm_lift (map_err ceremony_malformed (cy_request_digest env request))) (\<lambda>request_digest.
     cm_bind (cm_read (\<lambda>b. Inr (stable_custody_response env (cq_custody_operation_id request) request_digest b))) (\<lambda>stable.
     case stable of
       Some response \<Rightarrow> cm_lift response
     | None \<Rightarrow>
         let anonymous_registration = (cq_ceremony_kind request = CK_WalletRegistration) in
         cm_bind (enforce_creation_bounds (cq_wallet_id request) anonymous_registration now_ms instants) (\<lambda>_.
         create_custody_session env sn request account_review now_ms token_bytes request_digest anonymous_registration)))))"

record SealedApprovalPrepareResponse =
  az_approval_id :: Digest32
  az_ceremony_url :: string
  az_ceremony_expires_at_ms :: u64
  az_review_manifest_digest :: Digest32

definition stable_approval_response :: "ceremony_env \<Rightarrow> OperationId \<Rightarrow> Digest32 \<Rightarrow> 's BrokerInner
    \<Rightarrow> (ProtocolError + SealedApprovalPrepareResponse) option" where
  "stable_approval_response env operation_id request_digest b =
     Option.bind (bi_operations b operation_id) (\<lambda>id'.
     Option.bind (map_of (bi_sessions b) id') (\<lambda>session.
     if bs_request_digest session \<noteq> request_digest then Some (Inl operation_conflict)
     else if bs_state session \<noteq> CS_AwaitingUser then Some (Inl ceremony_replay)
     else Option.bind (bs_review_manifest session) (\<lambda>manifest.
       Option.bind (cy_manifest_digest env manifest) (\<lambda>(approval, digest).
       case session_url session of
         None \<Rightarrow> Some (Inl launch_capability_consumed)
       | Some url \<Rightarrow> (case digest of
           Inl _ \<Rightarrow> None
         | Inr review_manifest_digest \<Rightarrow> Some (Inr \<lparr>az_approval_id = approval, az_ceremony_url = url,
             az_ceremony_expires_at_ms = bs_expires_at_ms session, az_review_manifest_digest = review_manifest_digest\<rparr>))))))"

text \<open>
  A ceremony for an approval. The manifest of the review, its digest and the digest of the request (\<open>reviewed\<close>), the call of the
  Signer and the identifier of the approval are computed from values of the Signer package and are arguments.
\<close>

definition prepare_approval_ceremony :: "ceremony_env \<Rightarrow> 's ceremony_signer \<Rightarrow> OperationId \<Rightarrow> Token \<Rightarrow> ProtocolError + json \<times> Digest32 \<times> Digest32
    \<Rightarrow> ('s, SignerPrepared) signer_call \<Rightarrow> ProtocolError + Digest32 \<Rightarrow> u64 \<Rightarrow> bytes \<Rightarrow> (nat \<Rightarrow> nat) \<Rightarrow> ('s, SealedApprovalPrepareResponse) cm" where
  "prepare_approval_ceremony env sn operation_id wallet_id reviewed prepare approval now_ms token_bytes instants =
     cm_bind (expire_sessions env sn now_ms) (\<lambda>_.
     cm_bind (cm_lift reviewed) (\<lambda>(manifest, manifest_digest, request_digest).
     cm_bind (cm_read (\<lambda>b. Inr (stable_approval_response env operation_id request_digest b))) (\<lambda>stable.
     case stable of
       Some response \<Rightarrow> cm_lift response
     | None \<Rightarrow>
         cm_bind (enforce_creation_bounds (Some wallet_id) False now_ms instants) (\<lambda>_.
         cm_bind (cm_signer prepare) (\<lambda>prepared.
         cm_bind (origin_for_surface sn (sp_surface prepared)) (\<lambda>origin.
         cm_bind (cm_lift (new_session env token_bytes \<lparr>nb_operation_id = operation_id, nb_request_digest = request_digest,
           nb_wallet_id = Some wallet_id, nb_anonymous_registration = False, nb_ceremony_kind = CK_SealedApproval,
           nb_ceremony_id = sp_ceremony_id prepared, nb_review_manifest = Some manifest, nb_signer_contribution = sp_contribution prepared,
           nb_carried = sp_carried prepared, nb_expires_at_ms = sp_expires_at_ms prepared, nb_created_at_ms = now_ms, nb_origin = origin\<rparr>)) (\<lambda>session.
         cm_bind (cm_lift (new_session_url session)) (\<lambda>url.
         cm_bind (insert_session env (sp_ceremony_id prepared) session) (\<lambda>_.
         cm_bind (cm_lift approval) (\<lambda>approval.
         cm_return \<lparr>az_approval_id = approval, az_ceremony_url = url, az_ceremony_expires_at_ms = sp_expires_at_ms prepared,
           az_review_manifest_digest = manifest_digest\<rparr>))))))))))"

record PolicyUpdatePrepareResponse =
  pz_operation_id :: OperationId
  pz_ceremony_url :: string
  pz_ceremony_expires_at_ms :: u64
  pz_review_manifest_digest :: Digest32

definition stable_policy_update_response :: "OperationId \<Rightarrow> Digest32 \<Rightarrow> Digest32 \<Rightarrow> 's BrokerInner \<Rightarrow> (ProtocolError + PolicyUpdatePrepareResponse) option" where
  "stable_policy_update_response operation_id request_digest review_manifest_digest b =
     Option.bind (bi_operations b operation_id) (\<lambda>id'.
     Option.bind (map_of (bi_sessions b) id') (\<lambda>session.
     if bs_request_digest session \<noteq> request_digest then Some (Inl operation_conflict)
     else if is_terminal (bs_state session) then Some (Inl ceremony_replay)
     else case session_url session of
       None \<Rightarrow> Some (Inl launch_capability_consumed)
     | Some url \<Rightarrow> Some (Inr \<lparr>pz_operation_id = operation_id, pz_ceremony_url = url, pz_ceremony_expires_at_ms = bs_expires_at_ms session,
         pz_review_manifest_digest = review_manifest_digest\<rparr>)))"

text \<open>A ceremony for a policy update: \<open>checked\<close> is the result of comparing the request with its reviewed manifest, and the digest of both.\<close>

definition prepare_policy_ceremony :: "ceremony_env \<Rightarrow> 's ceremony_signer \<Rightarrow> OperationId \<Rightarrow> Token \<Rightarrow> json \<Rightarrow> Digest32 \<Rightarrow> ProtocolError + Digest32
    \<Rightarrow> ('s, SignerPrepared) signer_call \<Rightarrow> u64 \<Rightarrow> bytes \<Rightarrow> (nat \<Rightarrow> nat) \<Rightarrow> ('s, PolicyUpdatePrepareResponse) cm" where
  "prepare_policy_ceremony env sn operation_id wallet_id manifest manifest_digest checked prepare now_ms token_bytes instants =
     cm_bind (expire_sessions env sn now_ms) (\<lambda>_.
     cm_bind (cm_lift checked) (\<lambda>request_digest.
     cm_bind (cm_read (\<lambda>b. Inr (stable_policy_update_response operation_id request_digest manifest_digest b))) (\<lambda>stable.
     case stable of
       Some response \<Rightarrow> cm_lift response
     | None \<Rightarrow>
         cm_bind (enforce_creation_bounds (Some wallet_id) False now_ms instants) (\<lambda>_.
         cm_bind (cm_signer prepare) (\<lambda>prepared.
         cm_bind (origin_for_surface sn (sp_surface prepared)) (\<lambda>origin.
         cm_bind (cm_lift (new_session env token_bytes \<lparr>nb_operation_id = operation_id, nb_request_digest = request_digest,
           nb_wallet_id = Some wallet_id, nb_anonymous_registration = False, nb_ceremony_kind = CK_PolicyUpdate,
           nb_ceremony_id = sp_ceremony_id prepared, nb_review_manifest = Some manifest, nb_signer_contribution = sp_contribution prepared,
           nb_carried = sp_carried prepared, nb_expires_at_ms = sp_expires_at_ms prepared, nb_created_at_ms = now_ms, nb_origin = origin\<rparr>)) (\<lambda>session.
         cm_bind (cm_lift (new_session_url session)) (\<lambda>url.
         cm_bind (insert_session env (sp_ceremony_id prepared) session) (\<lambda>_.
         cm_return \<lparr>pz_operation_id = operation_id, pz_ceremony_url = url, pz_ceremony_expires_at_ms = sp_expires_at_ms prepared,
           pz_review_manifest_digest = manifest_digest\<rparr>)))))))))"

section \<open>Queries\<close>

definition ceremony_status :: "OperationId \<Rightarrow> 's BrokerInner \<Rightarrow> CeremonyState option" where
  "ceremony_status operation_id b = Option.bind (bi_operations b operation_id) (\<lambda>id'. map_option bs_state (map_of (bi_sessions b) id'))"

text \<open>The approval that a session is for, as its manifest names it.\<close>

definition manifest_approval_id :: "BrowserSession \<Rightarrow> string option" where
  "manifest_approval_id session = Option.bind (bs_review_manifest session) (\<lambda>manifest. Option.bind (json_get manifest ''approval_id'') json_as_str)"

definition pending_url :: "Digest32 \<Rightarrow> BrowserSession \<Rightarrow> (string \<times> u64) option" where
  "pending_url approval session =
     (if bs_ceremony_kind session \<noteq> CK_SealedApproval \<or> bs_state session \<noteq> CS_AwaitingUser \<or> manifest_approval_id session \<noteq> Some approval then None
      else map_option (\<lambda>url. (url, bs_expires_at_ms session)) (session_url session))"

definition pending_approval_ceremony :: "ceremony_env \<Rightarrow> 's ceremony_signer \<Rightarrow> Digest32 \<Rightarrow> u64 \<Rightarrow> ('s, (string \<times> u64) option) cm" where
  "pending_approval_ceremony env sn approval now_ms =
     cm_bind (expire_sessions env sn now_ms) (\<lambda>_.
     cm_read (\<lambda>b. Inr (case List.map_filter (pending_url approval) (map snd (bi_sessions b)) of [] \<Rightarrow> None | found # _ \<Rightarrow> Some found)))"

definition approval_ceremony_unreachable :: "Digest32 \<Rightarrow> 's BrokerInner \<Rightarrow> bool" where
  "approval_ceremony_unreachable approval b \<longleftrightarrow>
     (let minted = filter (\<lambda>s. bs_ceremony_kind s = CK_SealedApproval \<and> manifest_approval_id s = Some approval) (map snd (bi_sessions b)) in
      minted \<noteq> [] \<and> list_all (\<lambda>s. bs_state s = CS_Cancelled \<or> bs_state s = CS_Expired \<or> bs_state s = CS_Failed) minted)"

end
