(* ===== verification/CeremonyPages.thy ===== *)
theory CeremonyPages
  imports CeremonyBroker
begin

text \<open>
  The routes of the ceremony pages (\<open>bloom-broker/src/ceremony.rs\<close>): how a request of a browser is authorized, the handlers that complete,
  acknowledge and cancel a ceremony, and the addition of a passkey across two surfaces. A handler runs without interleaving with another; its
  readings of the wall clock are numbered.
\<close>

section \<open>Headers\<close>

text \<open>The headers in order; the text is absent when the value is not visible ASCII.\<close>

type_synonym headers = "(string \<times> string option) list"

definition header_text :: "headers \<Rightarrow> string \<Rightarrow> string option" where
  "header_text headers name = Option.bind (map_of headers name) (\<lambda>v. v)"

definition unauthenticated :: "string \<Rightarrow> ProtocolError" where
  "unauthenticated message = protocol UnauthenticatedPeer message"

definition require_exact_header :: "headers \<Rightarrow> string \<Rightarrow> string \<Rightarrow> ProtocolError + unit" where
  "require_exact_header headers name expected =
     (if header_text headers name = Some expected then Inr () else Inl (unauthenticated ''ceremony request has an invalid security header''))"

definition check_origin :: "string option \<Rightarrow> string \<Rightarrow> ProtocolError + unit" where
  "check_origin observed expected =
     (if observed = Some expected then Inr ()
      else Inl (unauthenticated (case observed of
          Some found \<Rightarrow> ''ceremony request origin '' @ found @ '' does not match the expected ceremony origin '' @ expected
        | None \<Rightarrow> ''ceremony request is missing the expected ceremony origin '' @ expected)))"

definition serves_local :: "string \<Rightarrow> 's BrokerInner \<Rightarrow> bool" where
  "serves_local served_origin b \<longleftrightarrow> served_origin = endpoint_origin (bi_endpoint b)"

definition validate_served_host :: "string \<Rightarrow> headers \<Rightarrow> 's BrokerInner \<Rightarrow> ProtocolError + unit" where
  "validate_served_host served_origin headers b =
     (if serves_local served_origin b then require_exact_header headers ''host'' (endpoint_host (bi_endpoint b))
      else and_then (ok_or (strip_prefix ''https://'' served_origin) (unauthenticated ''invalid served origin''))
        (require_exact_header headers ''host''))"

definition validate_served_origin :: "string \<Rightarrow> headers \<Rightarrow> ProtocolError + unit" where
  "validate_served_origin served_origin headers = check_origin (header_text headers ''origin'') served_origin"

section \<open>Authorization of a browser\<close>

definition INVALID_ATTEMPT_LIMIT :: u32 where
  "INVALID_ATTEMPT_LIMIT = 8"

definition record_invalid_browser_token :: "('s, bool) cm" where
  "record_invalid_browser_token b =
     (let count = saturating_add (bi_invalid_attempts b) 1 in (b\<lparr>bi_invalid_attempts := count\<rparr>, Inr (INVALID_ATTEMPT_LIMIT < count)))"

definition invalid_token :: "('s, 'a) cm" where
  "invalid_token = cm_bind record_invalid_browser_token (\<lambda>limited.
     cm_lift (Inl (protocol (if limited then CeremonyRateLimited else UnauthenticatedPeer) ''invalid ceremony session token'')))"

text \<open>A secret of 32 bytes in base64.\<close>

definition parse_secret :: "ceremony_env \<Rightarrow> string \<Rightarrow> bytes option" where
  "parse_secret env s = Option.bind (cy_base64_parse env s) (\<lambda>v.
     let bytes = ce_base64_decode (cy_crypto env) v in if length bytes = 32 then Some bytes else None)"

definition trim :: "string \<Rightarrow> string" where
  "trim s = (let blank = (\<lambda>c. c = CHR '' '' \<or> c = CHR 0x09) in rev (dropWhile blank (rev (dropWhile blank s))))"

fun matching_cookie :: "string \<Rightarrow> string list \<Rightarrow> string option \<Rightarrow> ProtocolError + string option" where
  "matching_cookie name [] found = Inr found"
| "matching_cookie name (part # rest) found = (case strip_prefix name part of
     None \<Rightarrow> matching_cookie name rest found
   | Some v \<Rightarrow> if found \<noteq> None then Inl (unauthenticated ''duplicate remote ceremony cookie'') else matching_cookie name rest (Some v))"

fun find_cookie :: "string \<Rightarrow> string option list \<Rightarrow> string option \<Rightarrow> ProtocolError + string option" where
  "find_cookie name [] found = Inr found"
| "find_cookie name (field # rest) found = (case field of
     None \<Rightarrow> Inl (unauthenticated ''invalid remote ceremony cookie header'')
   | Some text' \<Rightarrow> and_then (matching_cookie name (map trim (split_on CHR '';'' text')) found) (find_cookie name rest))"

definition check_csrf :: "ceremony_env \<Rightarrow> headers \<Rightarrow> RemoteBrowserAuth \<Rightarrow> ProtocolError + unit" where
  "check_csrf env headers remote =
     and_then (ok_or (Option.bind (header_text headers ''x-bloom-csrf'') (parse_secret env)) (unauthenticated ''missing CSRF proof'')) (\<lambda>csrf.
     if ce_sha256 (cy_crypto env) csrf \<noteq> ra_csrf_hash remote then Inl (unauthenticated ''invalid CSRF proof'') else Inr ())"

definition authorize_remote_cookie :: "ceremony_env \<Rightarrow> string \<Rightarrow> string \<Rightarrow> headers \<Rightarrow> bool \<Rightarrow> u64 \<Rightarrow> 's BrokerInner \<Rightarrow> ProtocolError + unit" where
  "authorize_remote_cookie env served_origin ceremony_id headers mutation now_ms b =
     and_then (find_cookie (''__Host-bloom-ceremony-'' @ ceremony_id @ ''='') (map snd (filter (\<lambda>(name, _). name = ''cookie'') headers)) None) (\<lambda>cookie.
     and_then (ok_or (Option.bind cookie (parse_secret env)) (unauthenticated ''missing remote ceremony session'')) (\<lambda>secret.
     and_then (ok_or (map_of (bi_sessions b) ceremony_id) (unauthenticated ''unknown remote ceremony session'')) (\<lambda>session.
     and_then (ok_or (bs_remote_auth session) (unauthenticated ''unknown remote ceremony session'')) (\<lambda>remote.
     if ra_cookie_hash remote \<noteq> ce_sha256 (cy_crypto env) secret
       \<or> \<not> remote_allows remote (bs_state session) (bs_result_retain_until_ms session) now_ms
     then Inl (unauthenticated ''remote ceremony session expired'')
     else and_then (if mutation then check_csrf env headers remote else Inr ()) (\<lambda>_.
     if bs_origin session \<noteq> served_origin then Inl (unauthenticated ''ceremony surface mismatch'') else Inr ())))))"

text \<open>The token of a local page must hash to the one of the session.\<close>

definition token_valid :: "ceremony_env \<Rightarrow> string \<Rightarrow> string \<Rightarrow> headers \<Rightarrow> 's BrokerInner \<Rightarrow> bool" where
  "token_valid env served_origin ceremony_id headers b \<longleftrightarrow>
     (case Option.bind (header_text headers ''x-bloom-ceremony-token'') (parse_secret env) of
        None \<Rightarrow> False
      | Some token \<Rightarrow> ce_sha256 (cy_crypto env) token = (case map_of (bi_sessions b) ceremony_id of
            None \<Rightarrow> []
          | Some session \<Rightarrow> if bs_origin session = served_origin then bs_token_hash session else []))"

definition authorize_browser :: "ceremony_env \<Rightarrow> 's ceremony_signer \<Rightarrow> string \<Rightarrow> string \<Rightarrow> headers \<Rightarrow> bool \<Rightarrow> (nat \<Rightarrow> u64) \<Rightarrow> ('s, unit) cm" where
  "authorize_browser env sn served_origin ceremony_id headers mutation clock =
     cm_bind (expire_sessions env sn (clock 0)) (\<lambda>_.
     cm_bind (cm_read (validate_served_host served_origin headers)) (\<lambda>_.
     cm_bind (cm_lift (if mutation
       then and_then (validate_served_origin served_origin headers) (\<lambda>_.
         and_then (require_exact_header headers ''content-type'' ''application/json'') (\<lambda>_.
         require_exact_header headers ''sec-fetch-site'' ''same-origin''))
       else Inr ())) (\<lambda>_ b.
     if \<not> serves_local served_origin b then (b, authorize_remote_cookie env served_origin ceremony_id headers mutation (clock 1) b)
     else if token_valid env served_origin ceremony_id headers b then (b, Inr ())
     else invalid_token b)))"

section \<open>Handlers\<close>

datatype Response = Status nat | JsonBody json | JsonError nat ProtocolError

text \<open>A handler answers 403 when the browser is not authorized.\<close>

definition authorized :: "('s, unit) cm \<Rightarrow> ('s, Response) cm \<Rightarrow> ('s, Response) cm" where
  "authorized check handler = cm_bind (cm_try check) (\<lambda>r. case r of Inl _ \<Rightarrow> cm_return (Status 403) | Inr _ \<Rightarrow> handler)"

definition with_session :: "string \<Rightarrow> nat \<Rightarrow> (BrowserSession \<Rightarrow> ('s, Response) cm) \<Rightarrow> ('s, Response) cm" where
  "with_session ceremony_id missing f =
     cm_bind (cm_read (\<lambda>b. Inr (map_of (bi_sessions b) ceremony_id))) (\<lambda>found.
     case found of None \<Rightarrow> cm_return (Status missing) | Some session \<Rightarrow> f session)"

text \<open>Storing a session or answering 500.\<close>

definition saved :: "ceremony_env \<Rightarrow> string \<Rightarrow> BrowserSession \<Rightarrow> ('s, Response) cm \<Rightarrow> ('s, Response) cm" where
  "saved env ceremony_id session rest =
     cm_bind (cm_try (save_session env ceremony_id session)) (\<lambda>r. case r of Inl _ \<Rightarrow> cm_return (Status 500) | Inr _ \<Rightarrow> rest)"

definition stored_result :: "BrowserSession \<Rightarrow> Response" where
  "stored_result session = (case bs_terminal_result session of None \<Rightarrow> Status 409 | Some result \<Rightarrow> JsonBody result)"

definition read_result :: "ceremony_env \<Rightarrow> 's ceremony_signer \<Rightarrow> string \<Rightarrow> string \<Rightarrow> headers \<Rightarrow> (nat \<Rightarrow> u64) \<Rightarrow> ('s, Response) cm" where
  "read_result env sn served_origin ceremony_id headers clock =
     authorized (cm_bind (cm_read (validate_served_host served_origin headers)) (\<lambda>_.
       authorize_browser env sn served_origin ceremony_id headers False clock))
     (with_session ceremony_id 404 (\<lambda>session.
       let cross_result = is_destination session \<and> bs_state session = CS_Succeeded
         \<and> (case bs_result_retain_until_ms session of None \<Rightarrow> False | Some deadline \<Rightarrow> clock 2 < deadline) in
       cm_return (if \<not> cross_result \<and> bs_state session \<noteq> CS_WalletCommitted \<and> bs_state session \<noteq> CS_AwaitingRecoveryAck then Status 409
         else stored_result session)))"

definition acknowledge_result :: "ceremony_env \<Rightarrow> 's ceremony_signer \<Rightarrow> string \<Rightarrow> string \<Rightarrow> headers \<Rightarrow> (nat \<Rightarrow> u64) \<Rightarrow> ('s, Response) cm" where
  "acknowledge_result env sn served_origin ceremony_id headers clock =
     authorized (authorize_browser env sn served_origin ceremony_id headers True clock)
     (with_session ceremony_id 404 (\<lambda>session.
       if bs_state session \<noteq> CS_AwaitingRecoveryAck then cm_return (Status 409)
       else saved env ceremony_id (latch_terminal (clock 2) (session\<lparr>bs_state := successful_state (bs_ceremony_kind session)\<rparr>))
         (cm_return (Status 204))))"

definition finalized :: "ceremony_env \<Rightarrow> string \<Rightarrow> u64 \<Rightarrow> ('s, Response) cm" where
  "finalized env ceremony_id now_ms =
     cm_bind (cm_try (finalize_committed_session env ceremony_id now_ms)) (\<lambda>r.
     cm_return (case r of Inr receipt \<Rightarrow> JsonBody receipt | Inl error \<Rightarrow> JsonError 500 error))"

text \<open>The second half of a completion: what the Signer answered is committed and adopted, or the session fails.\<close>

definition finish_completion :: "ceremony_env \<Rightarrow> 's ceremony_signer \<Rightarrow> string \<Rightarrow> CeremonyKind \<Rightarrow> OperationId \<Rightarrow> Digest32 \<Rightarrow> (nat \<Rightarrow> u64) \<Rightarrow> ProtocolError + json
    \<Rightarrow> ('s, Response) cm" where
  "finish_completion env sn ceremony_id kind operation_id projected clock result = (case result of
     Inr receipt \<Rightarrow> (case validate_completion_identity env kind operation_id projected receipt of
         Inl error \<Rightarrow> cm_return (JsonError 500 error)
       | Inr _ \<Rightarrow> with_session ceremony_id 500 (\<lambda>session.
           saved env ceremony_id (session\<lparr>bs_state := CS_WalletCommitted, bs_terminal_result := Some receipt\<rparr>) (finalized env ceremony_id (clock 3))))
   | Inl error \<Rightarrow>
       cm_bind (if pe_code error \<noteq> UnauthenticatedPeer then cm_return True
         else cm_bind (cm_try (cm_signer (sn_cancel sn operation_id))) (\<lambda>r. cm_return (is_ok r))) (\<lambda>released.
       let answer = cm_return (if kind = CK_WalletRecovery
           then JsonError 400 (protocol BackendInvalidRequest ''Recovery could not be completed'') else JsonError 400 error) in
       if released
       then with_session ceremony_id 500 (\<lambda>session.
         saved env ceremony_id (latch_terminal (clock 4) (session\<lparr>bs_state := CS_Failed\<rparr>)) answer)
       else answer))"

definition complete_session :: "ceremony_env \<Rightarrow> 's ceremony_signer \<Rightarrow> string \<Rightarrow> string \<Rightarrow> headers \<Rightarrow> json \<Rightarrow> (nat \<Rightarrow> u64) \<Rightarrow> ('s, Response) cm" where
  "complete_session env sn served_origin ceremony_id headers body clock =
     authorized (authorize_browser env sn served_origin ceremony_id headers True clock)
     (with_session ceremony_id 404 (\<lambda>session.
       if bs_state session = CS_AwaitingRecoveryAck then cm_return (stored_result session)
       else if bs_state session = CS_WalletCommitted then finalized env ceremony_id (clock 2)
       else if is_terminal (bs_state session) then cm_return (Status 409)
       else saved env ceremony_id (session\<lparr>bs_state := CS_Verifying\<rparr>)
         (if bs_ceremony_kind session = CK_SealedApproval \<and> \<not> cy_approval_contribution_valid env (bs_signer_contribution session)
          then cm_return (Status 500)
          else cm_bind (cm_try (cm_signer (sn_complete sn (bs_ceremony_kind session) (bs_operation_id session) (bs_ceremony_id session) body (clock 2))))
            (finish_completion env sn ceremony_id (bs_ceremony_kind session) (bs_operation_id session) (bs_ceremony_id session) clock))))"

definition bind_output_key :: "ceremony_env \<Rightarrow> 's ceremony_signer \<Rightarrow> string \<Rightarrow> string \<Rightarrow> headers \<Rightarrow> Base64UrlBytes \<Rightarrow> (nat \<Rightarrow> u64) \<Rightarrow> ('s, Response) cm" where
  "bind_output_key env sn served_origin ceremony_id headers recipient_key clock =
     authorized (authorize_browser env sn served_origin ceremony_id headers True clock)
     (with_session ceremony_id 404 (\<lambda>session.
       if bs_state session \<noteq> CS_AwaitingUser then cm_return (Status 409)
       else cm_bind (cm_try (cm_signer (sn_bind_output_recipient sn (bs_operation_id session) recipient_key (clock 2)))) (\<lambda>r.
         case r of
           Inl error \<Rightarrow> cm_return (JsonError 400 error)
         | Inr prepared \<Rightarrow> with_session ceremony_id 404 (\<lambda>session.
             if sp_ceremony_id prepared \<noteq> bs_ceremony_id session then cm_return (Status 409)
             else case sp_carried prepared of
               Inl _ \<Rightarrow> cm_return (Status 500)
             | Inr carried \<Rightarrow>
                 let snapshot = session\<lparr>bs_signer_contribution := sp_contribution prepared, bs_carried := carried\<rparr> in
                 saved env ceremony_id snapshot (cm_return (JsonBody (cy_projection_json env snapshot)))))))"

definition cancel_session :: "ceremony_env \<Rightarrow> 's ceremony_signer \<Rightarrow> string \<Rightarrow> string \<Rightarrow> headers \<Rightarrow> (nat \<Rightarrow> u64) \<Rightarrow> nat \<Rightarrow> ('s, Response) cm" where
  "cancel_session env sn served_origin ceremony_id headers clock instant =
     authorized (authorize_browser env sn served_origin ceremony_id headers True clock)
     (with_session ceremony_id 404 (\<lambda>session.
       cm_bind (cm_try (cancel_with_backoff env sn (bs_operation_id session) (clock 2) ClockMonotonic instant)) (\<lambda>r.
       cm_return (Status (if is_ok r then 204 else 409)))))"

section \<open>The capability of a hosted page\<close>

definition REMOTE_PRECOMMIT_SESSION_MS :: u64 where
  "REMOTE_PRECOMMIT_SESSION_MS = 5 * 60 * 1000"

definition REMOTE_COOKIE_MAX_MS :: u64 where
  "REMOTE_COOKIE_MAX_MS = 25 * 60 * 1000"

definition fragment_refused :: "ceremony_env \<Rightarrow> string \<Rightarrow> headers \<Rightarrow> Base64UrlBytes \<Rightarrow> 's BrokerInner \<Rightarrow> bool" where
  "fragment_refused env served_origin headers capability b \<longleftrightarrow>
     serves_local served_origin b \<or> \<not> is_ok (validate_served_host served_origin headers b)
     \<or> \<not> is_ok (require_exact_header headers ''origin'' served_origin)
     \<or> \<not> is_ok (require_exact_header headers ''content-type'' ''application/json'')
     \<or> \<not> is_ok (require_exact_header headers ''sec-fetch-site'' ''same-origin'')
     \<or> length (ce_base64_decode (cy_crypto env) capability) \<noteq> 32"

text \<open>The launch capability is exchanged once for a cookie and a proof against forged requests, whose random bytes are arguments.\<close>

definition exchanged_session :: "ceremony_env \<Rightarrow> bytes \<Rightarrow> bytes \<Rightarrow> (nat \<Rightarrow> u64) \<Rightarrow> BrowserSession \<Rightarrow> BrowserSession" where
  "exchanged_session env cookie csrf clock session =
     session\<lparr>bs_token := None, bs_token_hash := replicate 32 0,
       bs_remote_auth := Some \<lparr>ra_cookie_hash = ce_sha256 (cy_crypto env) cookie, ra_csrf_hash = ce_sha256 (cy_crypto env) csrf,
         ra_precommit_expires_at_ms = min (bs_expires_at_ms session) (saturating_add (clock 2) REMOTE_PRECOMMIT_SESSION_MS),
         ra_expires_at_ms = saturating_add (clock 3) REMOTE_COOKIE_MAX_MS\<rparr>\<rparr>"

definition exchange_remote_fragment :: "ceremony_env \<Rightarrow> 's ceremony_signer \<Rightarrow> string \<Rightarrow> headers \<Rightarrow> Base64UrlBytes \<Rightarrow> bytes \<Rightarrow> bytes \<Rightarrow> (nat \<Rightarrow> u64)
    \<Rightarrow> ('s, Response) cm" where
  "exchange_remote_fragment env sn served_origin headers capability cookie csrf clock =
     cm_bind (cm_read (\<lambda>b. Inr (fragment_refused env served_origin headers capability b))) (\<lambda>refused.
     if refused then cm_return (Status 403)
     else cm_bind (cm_try (expire_sessions env sn (clock 0))) (\<lambda>r. case r of
       Inl _ \<Rightarrow> cm_return (Status 503)
     | Inr _ \<Rightarrow>
         let hash = ce_sha256 (cy_crypto env) (ce_base64_decode (cy_crypto env) capability) in
         cm_bind (cm_read (\<lambda>b. Inr (find (\<lambda>(_, session). bs_token_hash session = hash \<and> bs_origin session = served_origin
           \<and> bs_state session = CS_AwaitingUser \<and> clock 1 < bs_expires_at_ms session) (bi_sessions b)))) (\<lambda>found. case found of
           None \<Rightarrow> cm_bind record_invalid_browser_token (\<lambda>_. cm_return (Status 403))
         | Some (ceremony_id, session) \<Rightarrow>
             let snapshot = exchanged_session env cookie csrf clock session in
             saved env ceremony_id snapshot (cm_return (JsonBody (json_object
               [(''ceremony_id'', JString ceremony_id), (''csrf'', JString (cy_base64_encode env csrf)), (''session'', cy_projection_json env snapshot)]))))))"

section \<open>Adding a passkey across surfaces\<close>

definition CROSS_SURFACE_DEADLINE_MS :: u64 where
  "CROSS_SURFACE_DEADLINE_MS = 10 * 60 * 1000"

record CrossSurfacePrepareResponse =
  xz_operation_id :: OperationId
  xz_ceremony_id :: Digest32
  xz_destination_url :: string
  xz_expires_at_ms :: u64

definition stable_cross_response :: "OperationId \<Rightarrow> Digest32 \<Rightarrow> string \<Rightarrow> 's BrokerInner \<Rightarrow> ProtocolError + CrossSurfacePrepareResponse" where
  "stable_cross_response operation_id request_digest ceremony_id b =
     and_then (ok_or (map_of (bi_sessions b) ceremony_id) ceremony_not_found) (\<lambda>session.
     if bs_request_digest session \<noteq> request_digest \<or> bs_cross_surface session = None then Inl operation_conflict
     else if bs_state session \<noteq> CS_AwaitingUser then Inl ceremony_replay
     else and_then (ok_or (session_url session) launch_capability_consumed) (\<lambda>url.
       Inr \<lparr>xz_operation_id = operation_id, xz_ceremony_id = bs_ceremony_id session, xz_destination_url = url,
         xz_expires_at_ms = bs_expires_at_ms session\<rparr>))"

text \<open>The values that a cross-surface session shows are those of its flow; it carries nothing else.\<close>

definition create_cross_session :: "ceremony_env \<Rightarrow> OperationId \<Rightarrow> Token \<Rightarrow> SurfaceDescriptor \<Rightarrow> SurfaceDescriptor \<Rightarrow> Digest32 \<Rightarrow> u64 \<Rightarrow> bytes \<Rightarrow> bytes
    \<Rightarrow> ('s, CrossSurfacePrepareResponse) cm" where
  "create_cross_session env operation_id wallet_id source destination request_digest now_ms id_bytes token_bytes =
     cm_bind (cm_lift (map_err ceremony_malformed (cy_cross_digest env operation_id wallet_id (fd_reference source) (fd_reference destination)))) (\<lambda>terms_digest.
     cm_bind (cm_read (\<lambda>b. Inr (served_origin_for (bi_endpoint b) source, served_origin_for (bi_endpoint b) destination))) (\<lambda>(source_origin, destination_origin).
     let ceremony_id = ce_digest32_from_bytes (cy_crypto env) id_bytes;
         expires_at_ms = saturating_add now_ms CROSS_SURFACE_DEADLINE_MS in
     cm_bind (cm_lift (new_session env token_bytes \<lparr>nb_operation_id = operation_id, nb_request_digest = request_digest,
       nb_wallet_id = Some wallet_id, nb_anonymous_registration = False, nb_ceremony_kind = CK_CredentialAdd, nb_ceremony_id = ceremony_id,
       nb_review_manifest = Some (json_object [(''schema'', JString ''bloom.cross_surface_add_review.v1''), (''title'', JString ''Add a wallet passkey''),
         (''wallet_name'', JString wallet_id), (''source_origin'', JString source_origin), (''destination_origin'', JString destination_origin),
         (''exact_terms_digest'', JString terms_digest)]),
       nb_signer_contribution = JNull, nb_carried = Inr JNull, nb_expires_at_ms = expires_at_ms, nb_created_at_ms = now_ms,
       nb_origin = destination_origin\<rparr>)) (\<lambda>session.
     let session = session\<lparr>bs_cross_surface := Some \<lparr>xf_role = XR_Destination, xf_source_surface = fd_reference source,
       xf_destination_surface = fd_reference destination, xf_exact_terms_digest = terms_digest, xf_destination_ceremony_id = ceremony_id,
       xf_source_ceremony_id = None, xf_pairing = None, xf_source_prepared = None, xf_handoff = None\<rparr>\<rparr> in
     cm_bind (cm_lift (new_session_url session)) (\<lambda>url.
     cm_bind (insert_session env ceremony_id session) (\<lambda>_.
     cm_return \<lparr>xz_operation_id = operation_id, xz_ceremony_id = ceremony_id, xz_destination_url = url, xz_expires_at_ms = expires_at_ms\<rparr>)))))"

definition prepare_cross_surface :: "ceremony_env \<Rightarrow> 's ceremony_signer \<Rightarrow> OperationId \<Rightarrow> Token \<Rightarrow> CeremonySurfaceSelection \<Rightarrow> u64 \<Rightarrow> bytes \<Rightarrow> bytes \<Rightarrow> (nat \<Rightarrow> nat)
    \<Rightarrow> ('s, CrossSurfacePrepareResponse) cm" where
  "prepare_cross_surface env sn operation_id wallet_id selection now_ms id_bytes token_bytes instants =
     cm_bind (expire_sessions env sn now_ms) (\<lambda>_.
     cm_bind (select_surface sn selection) (\<lambda>destination.
     cm_bind (cm_lift (map_err ceremony_malformed (cy_cross_request_digest env operation_id wallet_id selection))) (\<lambda>request_digest.
     cm_bind (cm_read (\<lambda>b. Inr (bi_operations b operation_id))) (\<lambda>existing.
     case existing of
       Some ceremony_id \<Rightarrow> cm_read (stable_cross_response operation_id request_digest ceremony_id)
     | None \<Rightarrow>
         cm_bind (select_approving_surface sn wallet_id destination) (\<lambda>source.
         cm_bind (enforce_creation_bounds (Some wallet_id) False now_ms instants) (\<lambda>_.
         create_cross_session env operation_id wallet_id source destination request_digest now_ms id_bytes token_bytes))))))"

definition get_flow :: "CrossSurfaceRole \<Rightarrow> BrowserSession \<Rightarrow> ProtocolError + CrossSurfaceFlow" where
  "get_flow role session = (case bs_cross_surface session of
     Some flow \<Rightarrow> if xf_role flow = role then Inr flow else Inl kind_mismatch
   | None \<Rightarrow> Inl kind_mismatch)"

definition pairing_json :: "string option \<Rightarrow> CrossSurfacePairing \<Rightarrow> json" where
  "pairing_json source_url pairing = json_object [(''source_url'', json_option (map_option JString source_url)),
     (''confirmation_code'', JString (xp_confirmation_code pairing)), (''pairing_id'', JString (xp_pairing_id pairing)),
     (''expires_at_ms'', JString (u64_to_string (xp_expires_at_ms pairing)))]"

definition repeated_pairing :: "CrossSurfacePairing \<Rightarrow> Digest32 \<Rightarrow> Base64UrlBytes \<Rightarrow> 's BrokerInner \<Rightarrow> ProtocolError + json" where
  "repeated_pairing pairing source_id key b =
     and_then (ok_or (map_of (bi_sessions b) source_id) ceremony_not_found) (\<lambda>source.
     if xp_destination_hpke_public_key pairing \<noteq> key then Inl operation_conflict
     else and_then (ok_or (session_url source) operation_conflict) (\<lambda>url. Inr (pairing_json (Some url) pairing)))"

definition open_source :: "ceremony_env \<Rightarrow> 's ceremony_signer \<Rightarrow> string \<Rightarrow> BrowserSession \<Rightarrow> CrossSurfaceFlow \<Rightarrow> CrossSurfacePairing \<Rightarrow> CrossSurfaceSourcePrepared
    \<Rightarrow> Token \<Rightarrow> u64 \<Rightarrow> bytes \<Rightarrow> bytes \<Rightarrow> ('s, json) cm" where
  "open_source env sn ceremony_id destination flow pairing prepared wallet_id now_ms id_bytes token_bytes =
     (let source_id = ce_digest32_from_bytes (cy_crypto env) id_bytes in
      cm_bind (origin_for_surface sn (xf_source_surface flow)) (\<lambda>source_origin.
      cm_bind (cm_lift (new_session env token_bytes \<lparr>nb_operation_id = bs_operation_id destination, nb_request_digest = bs_request_digest destination,
        nb_wallet_id = Some wallet_id, nb_anonymous_registration = False, nb_ceremony_kind = CK_CredentialAdd, nb_ceremony_id = source_id,
        nb_review_manifest = bs_review_manifest destination, nb_signer_contribution = xs_value prepared, nb_carried = xs_carried prepared,
        nb_expires_at_ms = xp_expires_at_ms pairing, nb_created_at_ms = now_ms, nb_origin = source_origin\<rparr>)) (\<lambda>source.
      let source = source\<lparr>bs_auxiliary := True, bs_cross_surface := Some \<lparr>xf_role = XR_Source, xf_source_surface = xf_source_surface flow,
            xf_destination_surface = xf_destination_surface flow, xf_exact_terms_digest = xf_exact_terms_digest flow,
            xf_destination_ceremony_id = xf_destination_ceremony_id flow, xf_source_ceremony_id = Some source_id, xf_pairing = Some pairing,
            xf_source_prepared = Some prepared, xf_handoff = None\<rparr>\<rparr>;
          next_destination = destination\<lparr>bs_cross_surface := Some (flow\<lparr>xf_pairing := Some pairing, xf_source_prepared := Some prepared,
            xf_source_ceremony_id := Some source_id\<rparr>)\<rparr> in
      cm_bind (persist_session env source) (\<lambda>_.
      cm_bind (persist_session env next_destination) (\<lambda>_.
      cm_bind (put_session source_id source) (\<lambda>_.
      cm_bind (put_session ceremony_id next_destination) (\<lambda>_.
      cm_return (pairing_json (session_url source) pairing))))))))"

definition start_pairing :: "ceremony_env \<Rightarrow> 's ceremony_signer \<Rightarrow> string \<Rightarrow> BrowserSession \<Rightarrow> CrossSurfaceFlow \<Rightarrow> Base64UrlBytes \<Rightarrow> u64 \<Rightarrow> bytes \<Rightarrow> bytes
    \<Rightarrow> ('s, json) cm" where
  "start_pairing env sn ceremony_id destination flow key now_ms id_bytes token_bytes =
     cm_bind (cm_signer (sn_pair_start sn (xf_destination_surface flow) (bs_operation_id destination) (xf_exact_terms_digest flow) key
       (bs_expires_at_ms destination))) (\<lambda>pairing.
     if xp_destination_surface pairing \<noteq> xf_destination_surface flow \<or> xp_operation_id pairing \<noteq> bs_operation_id destination
       \<or> xp_exact_terms_digest pairing \<noteq> xf_exact_terms_digest flow \<or> bs_expires_at_ms destination < xp_expires_at_ms pairing
     then cm_lift (Inl operation_conflict)
     else cm_bind (cm_lift (ok_or (bs_wallet_id destination) ceremony_not_found)) (\<lambda>wallet_id.
     cm_bind (cm_signer (sn_prepare_source sn (xp_pairing_id pairing) (bs_operation_id destination) (xf_source_surface flow) wallet_id
       (xf_exact_terms_digest flow))) (\<lambda>prepared.
     if xs_pairing prepared \<noteq> pairing \<or> xs_source_surface prepared \<noteq> xf_source_surface flow \<or> xs_wallet_id prepared \<noteq> wallet_id
     then cm_lift (Inl operation_conflict)
     else open_source env sn ceremony_id destination flow pairing prepared wallet_id now_ms id_bytes token_bytes)))"

definition pair_cross_surface :: "ceremony_env \<Rightarrow> 's ceremony_signer \<Rightarrow> string \<Rightarrow> Base64UrlBytes \<Rightarrow> u64 \<Rightarrow> bytes \<Rightarrow> bytes \<Rightarrow> ('s, json) cm" where
  "pair_cross_surface env sn ceremony_id key now_ms id_bytes token_bytes =
     cm_bind (get_session ceremony_id) (\<lambda>destination.
     cm_bind (cm_lift (get_flow XR_Destination destination)) (\<lambda>flow.
     if bs_state destination \<noteq> CS_AwaitingUser \<or> bs_expires_at_ms destination \<le> now_ms then cm_lift (Inl ceremony_replay)
     else case (xf_source_ceremony_id flow, xf_pairing flow) of
       (Some source_id, Some pairing) \<Rightarrow> cm_read (repeated_pairing pairing source_id key)
     | _ \<Rightarrow>
         if length (ce_base64_decode (cy_crypto env) key) \<noteq> 32
         then cm_lift (Inl (protocol MalformedFrame ''destination HPKE key must be 32 bytes''))
         else start_pairing env sn ceremony_id destination flow key now_ms id_bytes token_bytes))"

definition authorize_cross_surface :: "ceremony_env \<Rightarrow> 's ceremony_signer \<Rightarrow> string \<Rightarrow> json \<Rightarrow> u64 \<Rightarrow> ('s, json) cm" where
  "authorize_cross_surface env sn ceremony_id body now_ms =
     cm_bind (get_session ceremony_id) (\<lambda>source.
     cm_bind (cm_lift (get_flow XR_Source source)) (\<lambda>flow.
     if bs_state source \<noteq> CS_AwaitingUser \<or> bs_expires_at_ms source \<le> now_ms then cm_lift (Inl ceremony_replay)
     else cm_bind (cm_lift (ok_or (xf_pairing flow) ceremony_not_found)) (\<lambda>pairing.
     cm_bind (cm_signer (sn_complete_source sn (xp_pairing_id pairing) (bs_operation_id source) body)) (\<lambda>handoff.
     if xh_pairing_id handoff \<noteq> xp_pairing_id pairing \<or> xp_expires_at_ms pairing < xh_expires_at_ms handoff then cm_lift (Inl operation_conflict)
     else cm_bind (get_session (xf_destination_ceremony_id flow)) (\<lambda>destination.
     cm_bind (cm_lift (ok_or (bs_cross_surface destination) kind_mismatch)) (\<lambda>destination_flow.
     if xf_role destination_flow \<noteq> XR_Destination \<or> xf_pairing destination_flow \<noteq> Some pairing then cm_lift (Inl operation_conflict)
     else
       let destination = destination\<lparr>bs_cross_surface := Some (destination_flow\<lparr>xf_handoff := Some handoff\<rparr>)\<rparr>;
           source_done = latch_terminal now_ms (source\<lparr>bs_state := CS_Completed\<rparr>) in
       cm_bind (persist_session env destination) (\<lambda>_.
       cm_bind (persist_session env source_done) (\<lambda>_.
       cm_bind (put_session (xf_destination_ceremony_id flow) destination) (\<lambda>_.
       cm_bind (put_session ceremony_id source_done) (\<lambda>_.
       cm_return (json_object [(''destination_origin'', JString (bs_origin destination))]))))))))))) "

definition cross_surface_handoff :: "string \<Rightarrow> u64 \<Rightarrow> ('s, (CrossSurfaceHandoff \<times> CrossSurfaceSourcePrepared) option) cm" where
  "cross_surface_handoff ceremony_id now_ms =
     cm_bind (get_session ceremony_id) (\<lambda>destination.
     cm_bind (cm_lift (get_flow XR_Destination destination)) (\<lambda>flow.
     if bs_expires_at_ms destination \<le> now_ms \<or> is_terminal (bs_state destination) then cm_lift (Inl ceremony_replay)
     else cm_return (case (xf_handoff flow, xf_source_prepared flow) of
         (Some handoff, Some prepared) \<Rightarrow> Some (handoff, prepared)
       | _ \<Rightarrow> None)))"

definition finish_cross_surface :: "ceremony_env \<Rightarrow> 's ceremony_signer \<Rightarrow> string \<Rightarrow> json \<Rightarrow> u64 \<Rightarrow> ('s, json) cm" where
  "finish_cross_surface env sn ceremony_id body now_ms =
     cm_bind (get_session ceremony_id) (\<lambda>destination.
     cm_bind (cm_lift (get_flow XR_Destination destination)) (\<lambda>flow.
     if bs_state destination = CS_WalletCommitted then finalize_committed_session env ceremony_id now_ms
     else if bs_state destination = CS_Succeeded \<and> (case bs_result_retain_until_ms destination of None \<Rightarrow> False | Some deadline \<Rightarrow> now_ms < deadline)
     then cm_lift (ok_or (bs_terminal_result destination) ceremony_not_found)
     else if bs_state destination \<noteq> CS_AwaitingUser \<or> bs_expires_at_ms destination \<le> now_ms \<or> xf_handoff flow = None
     then cm_lift (Inl ceremony_replay)
     else cm_bind (cm_lift (ok_or (xf_pairing flow) ceremony_not_found)) (\<lambda>pairing.
     cm_bind (cm_signer (sn_complete_destination sn (xp_pairing_id pairing) (bs_operation_id destination) body)) (\<lambda>result.
     if cr_surface result \<noteq> Some (xf_destination_surface flow) \<or> cr_credential_authority_generation result = None
       \<or> cr_wallet_id result \<noteq> bs_wallet_id destination
     then cm_lift (Inl operation_conflict)
     else cm_bind (cm_lift (map_err ceremony_malformed (cy_custody_to_value env result))) (\<lambda>receipt.
     cm_bind (cm_lift (validate_completion_identity env CK_CredentialAdd (bs_operation_id destination) (bs_ceremony_id destination) receipt)) (\<lambda>_.
     cm_bind (save_session env ceremony_id (destination\<lparr>bs_state := CS_WalletCommitted, bs_terminal_result := Some receipt\<rparr>)) (\<lambda>_.
     finalize_committed_session env ceremony_id now_ms)))))))"

definition already_registered_cross_surface :: "ceremony_env \<Rightarrow> 's ceremony_signer \<Rightarrow> string \<Rightarrow> json \<Rightarrow> u64 \<Rightarrow> ('s, json) cm" where
  "already_registered_cross_surface env sn ceremony_id body now_ms =
     cm_bind (get_session ceremony_id) (\<lambda>destination.
     cm_bind (cm_lift (get_flow XR_Destination destination)) (\<lambda>flow.
     if bs_state destination \<noteq> CS_AwaitingUser \<or> bs_expires_at_ms destination \<le> now_ms \<or> xf_handoff flow = None
     then cm_lift (Inl ceremony_replay)
     else cm_bind (cm_lift (ok_or (xf_pairing flow) ceremony_not_found)) (\<lambda>pairing.
     cm_bind (cm_signer (sn_already_registered sn (xp_pairing_id pairing) (bs_operation_id destination) body)) (\<lambda>(state, operation_id, reported_id).
     if state \<noteq> CS_AlreadyRegistered \<or> operation_id \<noteq> bs_operation_id destination \<or> reported_id \<noteq> xp_pairing_id pairing
     then cm_lift (Inl operation_conflict)
     else cm_bind (save_session env ceremony_id (latch_terminal now_ms (destination\<lparr>bs_state := CS_AlreadyRegistered\<rparr>))) (\<lambda>_.
       cm_return (json_object [(''state'', JString ''already_registered'')]))))))"

end
