(* ===== verification/CeremonyOrder.thy ===== *)
theory CeremonyOrder
  imports CeremonyPages
begin

text \<open>
  The steps that a session of the ceremony broker may take, and the functions that leave the sessions as they are.
\<close>

named_theorems quiet_intros \<open>functions that leave the sessions as they are\<close>

section \<open>Steps of a session\<close>

text \<open>A session whose launch token and browser session are destroyed.\<close>

definition burnt :: "BrowserSession \<Rightarrow> bool" where
  "burnt s \<longleftrightarrow> bs_token s = None \<and> bs_token_hash s = replicate 32 0 \<and> bs_remote_auth s = None"

text \<open>A terminal session is burnt, unless its result is retained.\<close>

definition settled :: "BrowserSession \<Rightarrow> bool" where
  "settled s \<longleftrightarrow> (is_terminal (bs_state s) \<and> bs_result_retain_until_ms s = None \<longrightarrow> burnt s)"

definition same_identity :: "BrowserSession \<Rightarrow> BrowserSession \<Rightarrow> bool" where
  "same_identity s s' \<longleftrightarrow> bs_operation_id s' = bs_operation_id s \<and> bs_request_digest s' = bs_request_digest s \<and> bs_wallet_id s' = bs_wallet_id s
     \<and> bs_anonymous_registration s' = bs_anonymous_registration s \<and> bs_ceremony_kind s' = bs_ceremony_kind s
     \<and> bs_created_at_ms s' = bs_created_at_ms s \<and> bs_ceremony_id s' = bs_ceremony_id s \<and> bs_auxiliary s' = bs_auxiliary s \<and> bs_origin s' = bs_origin s"

definition session_step :: "BrowserSession \<Rightarrow> BrowserSession \<Rightarrow> bool" where
  "session_step s s' \<longleftrightarrow> same_identity s s'
     \<and> (is_terminal (bs_state s) \<longrightarrow> bs_state s' = bs_state s \<and> bs_terminal_result s' = bs_terminal_result s \<and> (burnt s \<longrightarrow> burnt s'))
     \<and> (bs_token s = None \<longrightarrow> bs_token s' = None) \<and> (settled s \<longrightarrow> settled s')"

lemmas step_defs = session_step_def same_identity_def settled_def burnt_def latch_terminal_def

lemma step_refl: "session_step s s"
  by (simp add: step_defs)

lemma step_trans: "session_step s s' \<Longrightarrow> session_step s' s'' \<Longrightarrow> session_step s s''"
  by (auto simp: session_step_def same_identity_def)

text \<open>Latching a session that is not terminal, and changing one without leaving the states that are not terminal.\<close>

lemma step_latch: "\<not> is_terminal (bs_state s) \<Longrightarrow> session_step s (latch_terminal now_ms (s\<lparr>bs_state := state\<rparr>))"
  by (auto simp: step_defs)

lemma step_settle:
  "\<not> is_terminal (bs_state s) \<Longrightarrow> session_step s (latch_terminal now_ms (s\<lparr>bs_state := state, bs_terminal_result := r\<rparr>))"
  by (auto simp: step_defs)

lemma step_unlatched:
  "\<not> is_terminal (bs_state s) \<Longrightarrow> \<not> is_terminal (bs_state s') \<Longrightarrow> same_identity s s'
    \<Longrightarrow> (bs_token s = None \<Longrightarrow> bs_token s' = None) \<Longrightarrow> session_step s s'"
  by (auto simp: session_step_def settled_def)

lemma step_released: "session_step s (latch_terminal now_ms (s\<lparr>bs_result_retain_until_ms := None\<rparr>))"
  by (auto simp: step_defs)

lemma terminal_states [simp]:
  "is_terminal CS_Completed" "is_terminal CS_Succeeded" "is_terminal CS_Cancelled" "is_terminal CS_Expired" "is_terminal CS_Failed"
  "is_terminal CS_AlreadyRegistered" "\<not> is_terminal CS_AwaitingUser" "\<not> is_terminal CS_Verifying" "\<not> is_terminal CS_WalletCommitted"
  "\<not> is_terminal CS_AwaitingRecoveryAck"
  by (simp_all add: is_terminal_def)

lemma step_finalized:
  assumes "bs_state s = CS_WalletCommitted"
  shows "session_step s (finalized_session receipt now_ms s)"
  using assms by (auto simp: finalized_session_def step_defs split: option.split)

section \<open>Functions that leave the sessions as they are\<close>

definition quiet :: "('s, 'a) cm \<Rightarrow> bool" where
  "quiet m \<longleftrightarrow> (\<forall>b. bi_sessions (fst (m b)) = bi_sessions b \<and> bi_limits (fst (m b)) = bi_limits b)"

lemma quiet_pure [quiet_intros]: "quiet (cm_return x)" "quiet (cm_lift r)" "quiet (cm_read f)"
  by (simp_all add: quiet_def cm_return_def cm_lift_def cm_read_def)

lemma quiet_bind [quiet_intros]:
  assumes "quiet m" and "\<And>x. quiet (f x)"
  shows "quiet (cm_bind m f)"
  unfolding quiet_def
proof
  fix b
  show "bi_sessions (fst (cm_bind m f b)) = bi_sessions b \<and> bi_limits (fst (cm_bind m f b)) = bi_limits b"
    using assms unfolding quiet_def cm_bind_def by (cases "m b"; cases "snd (m b)") (simp; metis fst_conv)+
qed

lemma quiet_try [quiet_intros]: "quiet m \<Longrightarrow> quiet (cm_try m)"
  unfolding quiet_def cm_try_def by (metis (mono_tags, lifting) case_prod_conv fst_conv surj_pair)

lemma quiet_calls [quiet_intros]: "quiet (cm_signer f)" "quiet (cm_authority env m)"
  by (auto simp: quiet_def cm_signer_def cm_authority_def split: prod.split)

lemma quiet_write [quiet_intros]: "quiet (write_row env row payload)"
  by (auto simp: quiet_def write_row_def set_journal_def Let_def split: prod.split sum.split)

lemma quiet_persist [quiet_intros]: "quiet (persist_session env session)"
  unfolding persist_session_def by (intro quiet_intros)

lemma quiet_if [quiet_intros]: "quiet m \<Longrightarrow> quiet m' \<Longrightarrow> quiet (if c then m else m')"
  by simp

lemma quiet_get [quiet_intros]: "quiet (get_session i)"
  unfolding get_session_def by (intro quiet_intros)

lemma quiet_notify [quiet_intros]: "quiet (notify_completion env kind receipt now_ms)"
  unfolding notify_completion_def approval_completed_def custody_completed_def by (intro quiet_intros)

lemma quiet_cancel [quiet_intros]: "quiet (cancel_signer_or_already_released sn operation_id)"
  unfolding cancel_signer_or_already_released_def by (intro quiet_intros) (auto intro: quiet_intros split: sum.split)

lemma quiet_outcome [quiet_intros]: "quiet (signer_outcome env sn operation_id)"
  unfolding signer_outcome_def by (intro quiet_intros) (auto intro!: quiet_intros split: SignerCeremonyStatus.split)

lemma quiet_backoff [quiet_intros]: "quiet (record_backoff w now_ms clock instant)" "quiet (check_backoff w now_ms instants)"
  by (auto simp: quiet_def record_backoff_def check_backoff_def Let_def)

lemma quiet_bounds [quiet_intros]: "quiet (enforce_creation_bounds w anonymous now_ms instants)"
  unfolding enforce_creation_bounds_def check_wallet_bounds_def
  by (intro quiet_intros) (auto intro!: quiet_intros split: option.split)

lemma quiet_surfaces [quiet_intros]:
  "quiet (origin_for_surface sn surface)" "quiet (select_surface sn selection)" "quiet (select_approving_surface sn w destination)"
  "quiet (select_wallet_surface sn selection w)"
  unfolding origin_for_surface_def select_surface_def select_approving_surface_def select_wallet_surface_def Let_def by (intro quiet_intros)+

lemma quiet_tokens [quiet_intros]: "quiet record_invalid_browser_token" "quiet invalid_token"
  unfolding invalid_token_def
  by (auto simp: quiet_def record_invalid_browser_token_def Let_def cm_bind_def cm_lift_def)

lemma quiet_observing [quiet_intros]: "quiet set_observing"
  by (simp add: quiet_def set_observing_def)

lemma quiet_sessions: "quiet m \<Longrightarrow> m b = (b', r) \<Longrightarrow> bi_sessions b' = bi_sessions b"
  by (metis fst_conv quiet_def)

end
