(* ===== verification/CeremonySteps.thy ===== *)
theory CeremonySteps
  imports CeremonyOrder
begin

text \<open>
  How the sessions of the ceremony broker evolve: by the steps that a session may take and by new sessions. A function is safe when it lets the
  sessions evolve and changes only those it names; the rules here follow the combinators of the model.
\<close>

section \<open>How sessions evolve\<close>

type_synonym sessions = "(string \<times> BrowserSession) list"

inductive evolves :: "(BrowserSession \<Rightarrow> bool) \<Rightarrow> string set \<Rightarrow> sessions \<Rightarrow> sessions \<Rightarrow> bool"
  for F :: "BrowserSession \<Rightarrow> bool" and A :: "string set" and xs :: sessions where
  same: "evolves F A xs xs"
| change: "\<lbrakk>evolves F A xs ys; i \<in> A; map_of ys i = Some s; session_step s s'\<rbrakk> \<Longrightarrow> evolves F A xs (AList.update i s' ys)"
| fresh: "\<lbrakk>evolves F A xs ys; i \<in> A; map_of ys i = None; bs_state s = CS_AwaitingUser; F s\<rbrakk> \<Longrightarrow> evolves F A xs (AList.update i s ys)"

lemma evolves_trans: "evolves F A ys zs \<Longrightarrow> evolves F A xs ys \<Longrightarrow> evolves F A xs zs"
  by (induction rule: evolves.induct) (auto intro: evolves.intros)

lemma evolves_mono: "evolves F A xs ys \<Longrightarrow> A \<subseteq> B \<Longrightarrow> (\<And>s. F s \<Longrightarrow> G s) \<Longrightarrow> evolves G B xs ys"
  by (induction rule: evolves.induct) (auto intro: evolves.intros)

lemma evolves_distinct: "evolves F A xs ys \<Longrightarrow> distinct (map fst xs) \<Longrightarrow> distinct (map fst ys)"
  by (induction rule: evolves.induct) (auto simp: distinct_update)

lemma evolves_outside: "evolves F A xs ys \<Longrightarrow> i \<notin> A \<Longrightarrow> map_of ys i = map_of xs i"
  by (induction rule: evolves.induct) (auto simp: update_conv')

lemma evolves_follows: "evolves F A xs ys \<Longrightarrow> map_of xs i = Some s \<Longrightarrow> \<exists>s'. map_of ys i = Some s' \<and> session_step s s'"
proof (induction rule: evolves.induct)
  case (change ys j t t')
  then obtain u where "map_of ys i = Some u" "session_step s u" by blast
  then show ?case using change.hyps step_trans by (cases "i = j") (auto simp: update_conv')
next
  case (fresh ys j t)
  then show ?case by (cases "i = j") (auto simp: update_conv')
qed (auto intro: step_refl)

definition all_settled :: "sessions \<Rightarrow> bool" where
  "all_settled xs \<longleftrightarrow> (\<forall>i s. map_of xs i = Some s \<longrightarrow> settled s)"

lemma evolves_settled: "evolves F A xs ys \<Longrightarrow> all_settled xs \<Longrightarrow> all_settled ys"
  by (induction rule: evolves.induct) (auto simp: all_settled_def update_conv' session_step_def settled_def)

text \<open>The times of the anonymous registrations change only by new sessions.\<close>

definition anonymous_times :: "sessions \<Rightarrow> u64 list" where
  "anonymous_times xs = map bs_created_at_ms (filter bs_anonymous_registration (map snd xs))"

lemma anonymous_change:
  "map_of ys i = Some s \<Longrightarrow> session_step s s' \<Longrightarrow> anonymous_times (AList.update i s' ys) = anonymous_times ys"
  by (induction ys) (auto simp: anonymous_times_def session_step_def same_identity_def split: if_splits)

lemma update_fresh: "map_of ys i = None \<Longrightarrow> AList.update i s ys = ys @ [(i, s)]"
  by (induction ys) (auto split: if_splits)

lemma evolves_anonymous:
  "evolves F A xs ys \<Longrightarrow> (\<And>s. F s \<Longrightarrow> \<not> bs_anonymous_registration s) \<Longrightarrow> anonymous_times ys = anonymous_times xs"
proof (induction rule: evolves.induct)
  case (change ys i s s')
  then show ?case by (simp add: anonymous_change)
next
  case (fresh ys i s)
  then show ?case by (simp add: update_fresh anonymous_times_def)
qed simp

section \<open>Functions that let the sessions evolve\<close>

definition safe :: "(BrowserSession \<Rightarrow> bool) \<Rightarrow> string set \<Rightarrow> (sessions \<Rightarrow> bool) \<Rightarrow> ('s, 'a) cm \<Rightarrow> bool" where
  "safe F A P m \<longleftrightarrow> (\<forall>b b' r. distinct (map fst (bi_sessions b)) \<longrightarrow> P (bi_sessions b) \<longrightarrow> m b = (b', r) \<longrightarrow>
     evolves F A (bi_sessions b) (bi_sessions b') \<and> bi_limits b' = bi_limits b)"

lemma safeI:
  assumes "\<And>b b' r. distinct (map fst (bi_sessions b)) \<Longrightarrow> P (bi_sessions b) \<Longrightarrow> m b = (b', r) \<Longrightarrow>
    evolves F A (bi_sessions b) (bi_sessions b') \<and> bi_limits b' = bi_limits b"
  shows "safe F A P m"
  using assms by (auto simp: safe_def)

lemma safeD:
  assumes "safe F A P m" and "distinct (map fst (bi_sessions b))" and "P (bi_sessions b)" and "m b = (b', r)"
  shows "evolves F A (bi_sessions b) (bi_sessions b')" "bi_limits b' = bi_limits b" "distinct (map fst (bi_sessions b'))"
proof -
  show e: "evolves F A (bi_sessions b) (bi_sessions b')" "bi_limits b' = bi_limits b" using assms by (auto simp: safe_def)
  show "distinct (map fst (bi_sessions b'))" by (rule evolves_distinct [OF e(1) assms(2)])
qed

lemma quietD: "quiet m \<Longrightarrow> m b = (b', r) \<Longrightarrow> bi_sessions b' = bi_sessions b \<and> bi_limits b' = bi_limits b"
  by (metis fst_conv quiet_def)

lemma safe_quiet: "quiet m \<Longrightarrow> safe F A P m"
  by (intro safeI) (metis evolves.same quietD)

lemma safe_mono: "safe F A Q m \<Longrightarrow> (\<And>xs. P xs \<Longrightarrow> Q xs) \<Longrightarrow> A \<subseteq> B \<Longrightarrow> (\<And>s. F s \<Longrightarrow> G s) \<Longrightarrow> safe G B P m"
  unfolding safe_def using evolves_mono by meson

lemma bind_cases:
  assumes "cm_bind m f b = (b', r)"
  obtains e where "m b = (b', Inl e)" "r = Inl e" | b1 x where "m b = (b1, Inr x)" "f x b1 = (b', r)"
  using assms by (cases "m b"; cases "snd (m b)") (auto simp: cm_bind_def)

lemma safe_bind: "safe F A P m \<Longrightarrow> (\<And>x. safe F A (\<lambda>_. True) (f x)) \<Longrightarrow> safe F A P (cm_bind m f)"
  by (intro safeI, erule bind_cases) (metis safeD evolves_trans)+

lemma safe_quiet_bind: "quiet m \<Longrightarrow> (\<And>x. safe F A P (f x)) \<Longrightarrow> safe F A P (cm_bind m f)"
  by (intro safeI, erule bind_cases) (metis safeD quietD evolves.same)+

lemma safe_read_bind:
  assumes "\<And>b x. g b = Inr x \<Longrightarrow> safe F A (\<lambda>xs. P xs \<and> xs = bi_sessions b) (f x)"
  shows "safe F A P (cm_bind (cm_read g) f)"
proof (intro safeI)
  fix b b' r
  assume d: "distinct (map fst (bi_sessions b))" and P: "P (bi_sessions b)" and r: "cm_bind (cm_read g) f b = (b', r)"
  show "evolves F A (bi_sessions b) (bi_sessions b') \<and> bi_limits b' = bi_limits b"
  proof (cases "g b")
    case (Inl e)
    then show ?thesis using r by (auto simp: cm_bind_def cm_read_def intro: evolves.same)
  next
    case (Inr x)
    then show ?thesis using r d P safeD [OF assms [OF Inr], of b b' r] by (simp add: cm_bind_def cm_read_def)
  qed
qed

lemma safe_get:
  assumes "\<And>s. safe F A (\<lambda>xs. P xs \<and> map_of xs i = Some s) (f s)"
  shows "safe F A P (cm_bind (get_session i) f)"
  unfolding get_session_def
  by (rule safe_read_bind) (use assms in \<open>auto simp: ok_or_def intro: safe_mono split: option.splits\<close>)

lemma safe_found:
  assumes "\<And>found. safe F A (\<lambda>xs. P xs \<and> map_of xs i = found) (f found)"
  shows "safe F A P (cm_bind (cm_read (\<lambda>b. Inr (map_of (bi_sessions b) i))) f)"
  by (rule safe_read_bind) (use assms in \<open>auto intro: safe_mono\<close>)

lemma safe_put:
  assumes "i \<in> A" and "\<And>xs. P xs \<Longrightarrow> \<exists>s. map_of xs i = Some s \<and> session_step s s'"
  shows "safe F A P (put_session i s')"
proof (intro safeI)
  fix b b' r
  assume "P (bi_sessions b)" and r: "put_session i s' b = (b', r)"
  then obtain s where "map_of (bi_sessions b) i = Some s" "session_step s s'" using assms(2) by blast
  then show "evolves F A (bi_sessions b) (bi_sessions b') \<and> bi_limits b' = bi_limits b"
    using r evolves.change [OF evolves.same assms(1)] by (auto simp: put_session_def)
qed

lemma safe_save:
  assumes "i \<in> A" and "\<And>xs. P xs \<Longrightarrow> \<exists>s. map_of xs i = Some s \<and> session_step s s'"
  shows "safe F A P (save_session env i s')"
  unfolding save_session_def by (intro safe_quiet_bind quiet_persist safe_put assms)

lemma safe_try: "safe F A P m \<Longrightarrow> safe F A P (cm_try m)"
  unfolding safe_def cm_try_def by (metis (mono_tags, lifting) case_prod_conv fst_conv surj_pair)

lemma safe_if: "(c \<Longrightarrow> safe F A P m) \<Longrightarrow> (\<not> c \<Longrightarrow> safe F A P m') \<Longrightarrow> safe F A P (if c then m else m')"
  by simp


lemma safe_pure: "safe F A P (cm_return x)" "safe F A P (cm_lift r)" "safe F A P (cm_read f)"
  by (intro safe_quiet quiet_intros)+

lemma safe_save_found: "i \<in> A \<Longrightarrow> session_step s s' \<Longrightarrow> safe F A (\<lambda>xs. map_of xs i = Some s) (save_session env i s')"
  by (rule safe_save) auto

section \<open>Completion\<close>

lemma safe_finalize: "safe F {i} (\<lambda>_. True) (finalize_committed_session env i now_ms)"
  unfolding finalize_committed_session_def
proof (rule safe_get, rule safe_if, goal_cases)
  case (1 s)
  show ?case by (rule safe_pure)
next
  case (2 s)
  then have "\<not> is_terminal (bs_state s)" by simp
  then show ?case using 2 step_latch step_finalized
    by (intro safe_quiet_bind quiet_intros) (auto split: sum.split intro!: safe_bind safe_save_found safe_pure)
qed

lemma safe_sweep: "safe F {i} (\<lambda>_. True) (sweep_committed_session env i now_ms)"
  unfolding sweep_committed_session_def
  by (rule safe_bind [OF safe_try [OF safe_finalize]]) (auto split: sum.split intro!: safe_pure)

lemma safe_iter: "(\<And>x. safe F A (\<lambda>_. True) (f x)) \<Longrightarrow> safe F A (\<lambda>_. True) (cm_iter f xs)"
  by (induction xs) (auto intro: safe_bind safe_pure)

lemma safe_widen: "safe F {i} P m \<Longrightarrow> safe F UNIV P m"
  by (rule safe_mono [of F "{i}" P]) auto

lemma safe_observer: "safe F UNIV (\<lambda>_. True) (set_completion_observer env now_ms)"
  unfolding set_completion_observer_def
  by (intro safe_quiet_bind quiet_intros safe_iter) (auto intro: safe_widen [OF safe_sweep])

section \<open>Expiry and termination\<close>

text \<open>A loop over distinct sessions, where each turn needs of its session what held before the loop.\<close>

lemma safe_loop:
  assumes "\<And>i x. (i, x) \<in> set xs \<Longrightarrow> safe F {i} (\<lambda>ys. map_of ys i = Some (g i)) (f (i, x))"
    and "distinct (map fst xs)"
  shows "safe F UNIV (\<lambda>ys. \<forall>i \<in> fst ` set xs. map_of ys i = Some (g i)) (cm_iter f xs)"
  using assms
proof (induction xs)
  case Nil
  show ?case by (simp add: safe_pure)
next
  case (Cons p xs)
  obtain i x where p: "p = (i, x)" by (cases p)
  have head: "safe F {i} (\<lambda>ys. map_of ys i = Some (g i)) (f p)" using Cons.prems(1) p by simp
  have tail: "safe F UNIV (\<lambda>ys. \<forall>i \<in> fst ` set xs. map_of ys i = Some (g i)) (cm_iter f xs)" using Cons by simp
  have i: "i \<notin> fst ` set xs" using Cons.prems(2) p by simp
  show ?case
  proof (intro safeI)
    fix b b' r
    assume d: "distinct (map fst (bi_sessions b))" and P: "\<forall>i \<in> fst ` set (p # xs). map_of (bi_sessions b) i = Some (g i)"
      and r: "cm_iter f (p # xs) b = (b', r)"
    from r have "cm_bind (f p) (\<lambda>_. cm_iter f xs) b = (b', r)" by simp
    then show "evolves F UNIV (bi_sessions b) (bi_sessions b') \<and> bi_limits b' = bi_limits b"
    proof (rule bind_cases)
      fix e assume "f p b = (b', Inl e)"
      then show ?thesis using safeD [OF safe_widen [OF head] d] P p by simp
    next
      fix c u assume c: "f p b = (c, Inr u)" and t: "cm_iter f xs c = (b', r)"
      note h = safeD [OF head d _ c] and w = safeD [OF safe_widen [OF head] d _ c]
      have "map_of (bi_sessions b) i = Some (g i)" using P p by simp
      note h = h [OF this] and w = w [OF this]
      have "\<forall>j \<in> fst ` set xs. map_of (bi_sessions c) j = Some (g j)"
      proof
        fix j assume j: "j \<in> fst ` set xs"
        then have "map_of (bi_sessions c) j = map_of (bi_sessions b) j" using i by (intro evolves_outside [OF h(1)]) auto
        then show "map_of (bi_sessions c) j = Some (g j)" using P j by auto
      qed
      note t = safeD [OF tail h(3) this t]
      show ?thesis using evolves_trans [OF t(1) w(1)] t(2) w(2) by simp
    qed
  qed
qed


lemma safe_get_same:
  assumes "safe F A (\<lambda>xs. map_of xs i = Some s) (f s)"
  shows "safe F A (\<lambda>xs. map_of xs i = Some s) (cm_bind (get_session i) f)"
  using assms by (auto simp: safe_def get_session_def cm_bind_def cm_read_def ok_or_def)

lemma safe_found_same:
  assumes "safe F A (\<lambda>xs. map_of xs i = Some s) (f (Some s))"
  shows "safe F A (\<lambda>xs. map_of xs i = Some s) (cm_bind (cm_read (\<lambda>b. Inr (map_of (bi_sessions b) i))) f)"
  using assms by (auto simp: safe_def cm_bind_def cm_read_def)

lemma safe_settle:
  assumes "\<not> is_terminal (bs_state s)"
  shows "safe F {i} (\<lambda>xs. map_of xs i = Some s) (settle_session env sn now_ms i operation_id)"
  unfolding settle_session_def
proof (rule safe_quiet_bind [OF quiet_outcome], clarify, rule safe_get_same, unfold Let_def, rule safe_quiet_bind, goal_cases)
  case (1 state terminal_result)
  show ?case by (auto intro!: quiet_intros)
next
  case (2 state terminal_result u)
  have "session_step s (if is_terminal state then latch_terminal now_ms (s\<lparr>bs_state := state, bs_terminal_result := terminal_result\<rparr>)
      else s\<lparr>bs_state := state, bs_terminal_result := terminal_result\<rparr>)"
    using assms step_settle by (auto intro!: step_unlatched simp: same_identity_def)
  then show ?case by (intro safe_bind safe_save_found) (auto intro: safe_sweep safe_pure)
qed

lemma safe_expire_session:
  assumes "expires now_ms s"
  shows "safe F {i} (\<lambda>xs. map_of xs i = Some s) (expire_session env sn now_ms (i, operation_id))"
  unfolding expire_session_def prod.case
proof (rule safe_found_same, simp only: option.case, intro safe_if, goal_cases)
  case 1
  show ?case by (intro safe_save_found step_released) simp
next
  case 2
  then show ?case using assms by (intro safe_save_found step_latch) (auto simp: expires_def)
next
  case 3
  show ?case by (rule safe_mono [OF safe_sweep]) auto
next
  case 4
  then show ?case by (intro safe_save_found step_latch) auto
next
  case 5
  then show ?case using assms by (intro safe_settle) (auto simp: expires_def)
qed

text \<open>A loop over the sessions that a filter selects.\<close>

lemma safe_selected:
  assumes "\<And>i s. Q s \<Longrightarrow> safe F {i} (\<lambda>ys. map_of ys i = Some s) (f (i, h s))"
  shows "safe F UNIV P (cm_bind (cm_read (\<lambda>b. Inr (map (\<lambda>(i, s). (i, h s)) (filter (\<lambda>(_, s). Q s) (bi_sessions b))))) (cm_iter f))"
proof (rule safe_read_bind)
  fix b :: "'a BrokerInner" and todo
  assume "Inr (map (\<lambda>(i, s). (i, h s)) (filter (\<lambda>(_, s). Q s) (bi_sessions b))) = (Inr todo :: ProtocolError + (string \<times> 'b) list)"
  then have todo: "todo = map (\<lambda>(i, s). (i, h s)) (filter (\<lambda>(_, s). Q s) (bi_sessions b))" by simp
  show "safe F UNIV (\<lambda>xs. P xs \<and> xs = bi_sessions b) (cm_iter f todo)"
  proof (cases "distinct (map fst (bi_sessions b))")
    case False
    then show ?thesis by (auto simp: safe_def)
  next
    case True
    have ids: "map fst todo = map fst (filter (\<lambda>(_, s). Q s) (bi_sessions b))"
      by (simp add: todo split_def o_def)
    have each: "map_of (bi_sessions b) i = Some s" if "(i, s) \<in> set (bi_sessions b)" for i s using True that by simp
    let ?g = "\<lambda>i. the (map_of (bi_sessions b) i)"
    have "safe F {i} (\<lambda>ys. map_of ys i = Some (?g i)) (f (i, x))" if "(i, x) \<in> set todo" for i x
      using that each assms by (auto simp: todo)
    then have "safe F UNIV (\<lambda>ys. \<forall>i \<in> fst ` set todo. map_of ys i = Some (?g i)) (cm_iter f todo)"
      by (rule safe_loop) (use True ids in \<open>auto simp: distinct_map intro: inj_on_subset\<close>)
    then show ?thesis by (rule safe_mono) (auto simp: todo each)
  qed
qed

lemma safe_expire: "safe F UNIV P (expire_sessions env sn now_ms)"
  unfolding expire_sessions_def by (rule safe_selected) (rule safe_expire_session)

lemma safe_terminate_session:
  assumes "\<not> is_terminal (bs_state s)"
  shows "safe F {i} (\<lambda>xs. map_of xs i = Some s) (terminate_session env sn now_ms (i, bs_operation_id s, bs_state s))"
  unfolding terminate_session_def prod.case
proof (rule safe_if, goal_cases)
  case 1
  show ?case by (rule safe_mono [OF safe_sweep]) auto
next
  case 2
  then show ?case using assms by (intro safe_quiet_bind quiet_intros safe_found_same) (auto intro!: safe_save_found step_latch)
qed

lemma safe_terminate: "safe F UNIV P (terminate_live_sessions env sn now_ms)"
  unfolding terminate_live_sessions_def
  using safe_selected [where h = "\<lambda>s. (bs_operation_id s, bs_state s)" and Q = "\<lambda>s. \<not> is_terminal (bs_state s)", OF safe_terminate_session] by simp


section \<open>Cancellation\<close>

lemma safe_bind_post:
  assumes "safe F A P m" and "\<And>b c u. distinct (map fst (bi_sessions b)) \<Longrightarrow> P (bi_sessions b) \<Longrightarrow> m b = (c, Inr u) \<Longrightarrow> Q u (bi_sessions c)"
    and "\<And>u. safe F A (Q u) (f u)"
  shows "safe F A P (cm_bind m f)"
proof (intro safeI, erule bind_cases)
  fix b b' e
  assume "distinct (map fst (bi_sessions b))" "P (bi_sessions b)" "m b = (b', Inl e)"
  then show "evolves F A (bi_sessions b) (bi_sessions b') \<and> bi_limits b' = bi_limits b" using safeD [OF assms(1)] by blast
next
  fix b b' r c u
  assume b: "distinct (map fst (bi_sessions b))" "P (bi_sessions b)" "m b = (c, Inr u)" and f: "f u c = (b', r)"
  note m = safeD [OF assms(1) b]
  note t = safeD [OF assms(3) m(3) assms(2) [OF b] f]
  show "evolves F A (bi_sessions b) (bi_sessions b') \<and> bi_limits b' = bi_limits b" using evolves_trans [OF t(1) m(1)] t(2) m(2) by simp
qed

lemma save_session_puts: "save_session env i s b = (b', Inr u) \<Longrightarrow> bi_sessions b' = AList.update i s (bi_sessions b)"
  unfolding save_session_def by (erule bind_cases) (auto simp: put_session_def dest: quietD [OF quiet_persist])

text \<open>After the loop over the auxiliary sessions, the one to cancel is as before or already cancelled.\<close>

lemma auxiliary_cancelled:
  assumes "cm_iter (cancel_auxiliary env now_ms) aux b = (b', Inr u)" and "\<And>s'. (i, s') \<in> set aux \<Longrightarrow> s' = s"
    and "map_of (bi_sessions b) i \<in> {Some s, Some (latch_terminal now_ms (s\<lparr>bs_state := CS_Cancelled\<rparr>))}"
  shows "map_of (bi_sessions b') i \<in> {Some s, Some (latch_terminal now_ms (s\<lparr>bs_state := CS_Cancelled\<rparr>))}"
  using assms
proof (induction aux arbitrary: b)
  case Nil
  then show ?case by (simp add: cm_return_def)
next
  case (Cons p aux)
  obtain j t where p: "p = (j, t)" by (cases p)
  from Cons.prems(1) have "cm_bind (cancel_auxiliary env now_ms p) (\<lambda>_. cm_iter (cancel_auxiliary env now_ms) aux) b = (b', Inr u)" by simp
  then obtain c v where c: "cancel_auxiliary env now_ms p b = (c, Inr v)" and t: "cm_iter (cancel_auxiliary env now_ms) aux c = (b', Inr u)"
    by (rule bind_cases) auto
  have "bi_sessions c = AList.update j (latch_terminal now_ms (t\<lparr>bs_state := CS_Cancelled\<rparr>)) (bi_sessions b)"
    using c p by (auto simp: cancel_auxiliary_def dest: save_session_puts)
  then have "map_of (bi_sessions c) i \<in> {Some s, Some (latch_terminal now_ms (s\<lparr>bs_state := CS_Cancelled\<rparr>))}"
    using Cons.prems(2,3) p by (auto simp: update_conv')
  then show ?case using Cons.IH [OF t] Cons.prems(2) by auto
qed

lemma safe_auxiliary:
  assumes "\<And>i s. (i, s) \<in> set aux \<Longrightarrow> map_of xs i = Some s \<and> \<not> is_terminal (bs_state s)" and "distinct (map fst aux)"
  shows "safe F UNIV (\<lambda>ys. ys = xs) (cm_iter (cancel_auxiliary env now_ms) aux)"
proof -
  have "safe F {i} (\<lambda>ys. map_of ys i = Some (the (map_of xs i))) (cancel_auxiliary env now_ms (i, s))" if "(i, s) \<in> set aux" for i s
    using assms(1) [OF that] by (auto simp: cancel_auxiliary_def intro!: safe_save_found step_latch)
  then have "safe F UNIV (\<lambda>ys. \<forall>i \<in> fst ` set aux. map_of ys i = Some (the (map_of xs i))) (cm_iter (cancel_auxiliary env now_ms) aux)"
    by (rule safe_loop [OF _ assms(2)])
  then show ?thesis by (rule safe_mono) (use assms(1) in force)+
qed

lemma safe_cancel_live:
  assumes "bs_state s = CS_AwaitingUser"
  shows "safe F UNIV (\<lambda>xs. map_of xs i = Some s) (cancel_live env sn operation_id now_ms clock instant i s)"
  unfolding cancel_live_def
proof (rule safe_quiet_bind [OF quiet_cancel], rule safe_read_bind, goal_cases)
  case (1 _ b aux)
  then have aux: "aux = filter (\<lambda>(_, s). bs_auxiliary s \<and> bs_operation_id s = operation_id \<and> \<not> is_terminal (bs_state s)) (bi_sessions b)" by simp
  let ?s = "latch_terminal now_ms (s\<lparr>bs_state := CS_Cancelled\<rparr>)"
  have step: "session_step s ?s" using assms by (intro step_latch) simp
  show ?case
  proof (cases "distinct (map fst (bi_sessions b)) \<and> map_of (bi_sessions b) i = Some s")
    case False
    then show ?thesis by (auto simp: safe_def)
  next
    case True
    then have each: "map_of (bi_sessions b) j = Some t \<and> \<not> is_terminal (bs_state t)" if "(j, t) \<in> set aux" for j t
      using that by (auto simp: aux)
    have "safe F UNIV (\<lambda>xs. xs = bi_sessions b) (cm_iter (cancel_auxiliary env now_ms) aux)"
      by (rule safe_auxiliary [OF each]) (use True in \<open>auto simp: aux distinct_map intro: inj_on_subset\<close>)
    then have loop: "safe F UNIV (\<lambda>xs. map_of xs i = Some s \<and> xs = bi_sessions b) (cm_iter (cancel_auxiliary env now_ms) aux)"
      by (rule safe_mono) auto
    have only: "t = s" if "(i, t) \<in> set aux" for t using each [OF that] True by simp
    show ?thesis
    proof (rule safe_bind_post [OF loop, where Q = "\<lambda>_ xs. map_of xs i \<in> {Some s, Some ?s}"], goal_cases)
      case (1 c d u)
      show ?case by (rule auxiliary_cancelled [OF 1(3) only]) (use 1(2) in auto)
    next
      case (2 u)
      have "safe F UNIV (\<lambda>xs. map_of xs i \<in> {Some s, Some ?s}) (save_session env i ?s)"
        using step step_refl by (intro safe_save) auto
      then show ?case by (rule safe_bind) (auto split: option.split intro!: safe_quiet quiet_intros)
    qed
  qed
qed

lemma safe_cancel: "safe F UNIV P (cancel_with_backoff env sn operation_id now_ms clock instant)"
  unfolding cancel_with_backoff_def
proof (rule safe_bind [OF safe_expire], rule safe_quiet_bind [OF quiet_pure(3)], rule safe_get, intro safe_if safe_pure, goal_cases)
  case (1 _ i s)
  then show ?case by (auto intro!: safe_cancel_live)
qed


section \<open>New ceremonies\<close>

lemma safe_insert:
  assumes "bs_state s = CS_AwaitingUser" and "F s"
  shows "safe F UNIV P (insert_session env i s)"
proof (intro safeI)
  fix b b' :: "'a BrokerInner" and r
  assume r: "insert_session env i s b = (b', r)"
  show "evolves F UNIV (bi_sessions b) (bi_sessions b') \<and> bi_limits b' = bi_limits b"
  proof (cases "map_of (bi_sessions b) i")
    case None
    show ?thesis
      using r quiet_persist [of env s] evolves.fresh [OF evolves.same [of F UNIV] UNIV_I None assms] evolves.same
      unfolding insert_session_def
      by (elim bind_cases) (auto simp: cm_read_def dest: quietD split: if_splits)
  next
    case (Some t)
    then show ?thesis using r by (auto simp: insert_session_def cm_bind_def cm_read_def intro: evolves.same)
  qed
qed

lemma new_session_fields:
  "new_session env token_bytes new = Inr s \<Longrightarrow> bs_state s = CS_AwaitingUser \<and> bs_anonymous_registration s = nb_anonymous_registration new
     \<and> bs_created_at_ms s = nb_created_at_ms new"
  by (auto simp: new_session_def and_then_def split: sum.splits)

text \<open>Sessions that are not anonymous registrations.\<close>

definition known :: "BrowserSession \<Rightarrow> bool" where
  "known s \<longleftrightarrow> \<not> bs_anonymous_registration s"

lemma safe_lift_bind: "(\<And>x. r = Inr x \<Longrightarrow> safe F A P (f x)) \<Longrightarrow> safe F A P (cm_bind (cm_lift r) f)"
  by (cases r) (auto simp: safe_def cm_bind_def cm_lift_def intro: evolves.same)

lemma safe_new_session:
  "new_session env token_bytes new = Inr s \<Longrightarrow> \<not> nb_anonymous_registration new \<Longrightarrow> (\<And>u. safe known UNIV (\<lambda>_. True) (g u))
    \<Longrightarrow> safe known UNIV P (cm_bind (insert_session env i s) g)"
  using new_session_fields by (intro safe_bind [OF safe_insert]) (auto simp: known_def)

lemmas safe_binds = safe_lift_bind safe_quiet_bind [OF quiet_pure(3)] safe_quiet_bind [OF quiet_calls(1)] safe_quiet_bind [OF quiet_bounds]
  safe_quiet_bind [OF quiet_surfaces(1)] safe_quiet_bind [OF quiet_surfaces(2)] safe_quiet_bind [OF quiet_surfaces(3)]

lemma safe_prepare_approval: "safe known UNIV P (prepare_approval_ceremony env sn operation_id w reviewed prepare approval now_ms token_bytes instants)"
  unfolding prepare_approval_ceremony_def
  by (rule safe_bind [OF safe_expire])
    (auto intro!: safe_binds safe_new_session safe_pure split: option.split)

lemma safe_prepare_policy: "safe known UNIV P (prepare_policy_ceremony env sn operation_id w manifest manifest_digest checked prepare now_ms token_bytes instants)"
  unfolding prepare_policy_ceremony_def
  by (rule safe_bind [OF safe_expire])
    (auto intro!: safe_binds safe_new_session safe_pure split: option.split)

lemma safe_cross_session: "safe known UNIV P (create_cross_session env operation_id w source destination request_digest now_ms id_bytes token_bytes)"
  unfolding create_cross_session_def Let_def
proof (intro safe_binds, clarify, intro safe_lift_bind, goal_cases)
  case (1 _ a b s url)
  then show ?case using new_session_fields [OF 1(2)] by (intro safe_bind [OF safe_insert] safe_pure) (auto simp: known_def)
qed

lemma safe_prepare_cross: "safe known UNIV P (prepare_cross_surface env sn operation_id w selection now_ms id_bytes token_bytes instants)"
  unfolding prepare_cross_surface_def
  by (rule safe_bind [OF safe_expire]) (auto intro!: safe_binds safe_cross_session safe_pure split: option.split)

end
