(* ===== verification/CeremonySafety.thy ===== *)
theory CeremonySafety
  imports CeremonySteps AuthoritySample
begin

text \<open>
  What holds of the ceremony broker along every sequence of its calls: a ceremony that has ended stays as it ended and its capabilities stay
  destroyed, and the quota of anonymous registrations is never exceeded.
\<close>

section \<open>The pages let the sessions evolve\<close>

lemma safe_with_session:
  assumes "\<And>s. safe F A (\<lambda>xs. P xs \<and> map_of xs i = Some s) (f s)"
  shows "safe F A P (with_session i missing f)"
  unfolding with_session_def
proof (rule safe_found)
  fix found
  show "safe F A (\<lambda>xs. P xs \<and> map_of xs i = found) (case found of None \<Rightarrow> cm_return (Status missing) | Some session \<Rightarrow> f session)"
    using assms by (cases found) (auto intro: safe_pure)
qed

lemma safe_with_same:
  assumes "safe F A (\<lambda>xs. map_of xs i = Some s) (f s)"
  shows "safe F A (\<lambda>xs. map_of xs i = Some s) (with_session i missing f)"
  unfolding with_session_def by (rule safe_found_same) (simp add: assms)

lemma safe_exactly: "(distinct (map fst xs) \<Longrightarrow> safe F A (\<lambda>ys. P ys \<and> ys = xs) m) \<Longrightarrow> safe F A (\<lambda>ys. P ys \<and> ys = xs) m"
  by (auto simp: safe_def)

text \<open>What follows a stored session finds it.\<close>

lemma safe_saved:
  assumes "i \<in> A" and "session_step s s'" and "safe F A (\<lambda>xs. map_of xs i = Some s') rest"
  shows "safe F A (\<lambda>xs. map_of xs i = Some s) (saved env i s' rest)"
  unfolding saved_def
proof (rule safe_bind_post [OF safe_try [OF safe_save_found [OF assms(1,2)]], where Q = "\<lambda>r xs. is_ok r \<longrightarrow> map_of xs i = Some s'"], goal_cases)
  case (1 b c r)
  then show ?case by (cases r) (auto simp: cm_try_def update_conv' dest!: save_session_puts split: prod.splits)
next
  case (2 r)
  then show ?case using assms(3) by (cases r) (auto intro: safe_pure)
qed

lemma quiet_else [quiet_intros]: "(\<And>b. c b \<Longrightarrow> fst (m b) = b) \<Longrightarrow> quiet m' \<Longrightarrow> quiet (\<lambda>b. if c b then m b else m' b)"
  by (auto simp: quiet_def)

lemma safe_authorize: "safe F UNIV P (authorize_browser env sn served_origin i headers mutation clock)"
  unfolding authorize_browser_def
  by (rule safe_bind [OF safe_expire], intro safe_binds, rule safe_quiet) (intro quiet_intros; simp)

lemma safe_authorized:
  assumes "safe F A P check" and "safe F A (\<lambda>_. True) handler"
  shows "safe F A P (authorized check handler)"
  unfolding authorized_def by (rule safe_bind [OF safe_try [OF assms(1)]]) (auto intro: safe_pure assms(2) split: sum.split)

lemma safe_finalized: "safe F UNIV P (finalized env i now_ms)"
  unfolding finalized_def
  by (rule safe_bind [OF safe_try [OF safe_mono [OF safe_finalize]]]) (auto intro: safe_pure)

lemma safe_read_result: "safe F UNIV P (read_result env sn served_origin i headers clock)"
  unfolding read_result_def
  by (intro safe_authorized safe_binds safe_authorize safe_with_session) (auto simp: Let_def intro: safe_pure)

lemma safe_acknowledge: "safe F UNIV P (acknowledge_result env sn served_origin i headers clock)"
  unfolding acknowledge_result_def
  by (intro safe_authorized safe_authorize safe_with_session) (auto intro!: safe_saved safe_pure step_latch)

lemma safe_finish:
  assumes "\<not> is_terminal (bs_state s)"
  shows "safe F UNIV (\<lambda>xs. map_of xs i = Some s) (finish_completion env sn i kind operation_id projected clock result)"
proof (cases result)
  case (Inl e)
  show ?thesis
    unfolding finish_completion_def Inl sum.case Let_def
    by (rule safe_quiet_bind) (auto intro!: quiet_intros safe_with_same safe_saved step_latch assms safe_pure)
next
  case (Inr receipt)
  have "session_step s (s\<lparr>bs_state := CS_WalletCommitted, bs_terminal_result := Some receipt\<rparr>)"
    using assms by (intro step_unlatched) (auto simp: same_identity_def)
  then show ?thesis
    unfolding finish_completion_def Inr sum.case by (auto split: sum.split intro!: safe_with_same safe_saved safe_finalized safe_pure)
qed

lemma safe_complete: "safe F UNIV P (complete_session env sn served_origin i headers body clock)"
  unfolding complete_session_def
proof (intro safe_authorized safe_authorize safe_with_session, goal_cases)
  case (1 s)
  have "session_step s (s\<lparr>bs_state := CS_Verifying\<rparr>)" if "\<not> is_terminal (bs_state s)"
    using that by (intro step_unlatched) (auto simp: same_identity_def)
  then show ?case
    by (auto intro!: safe_finalized safe_saved safe_pure safe_quiet_bind quiet_try quiet_calls safe_finish)
qed

lemma safe_bind_output: "safe F UNIV P (bind_output_key env sn served_origin i headers key clock)"
  unfolding bind_output_key_def
proof (intro safe_authorized safe_authorize safe_with_session, goal_cases)
  case (1 s)
  have "session_step s (s\<lparr>bs_signer_contribution := v, bs_carried := c\<rparr>)" if "bs_state s = CS_AwaitingUser" for v c
    using that by (intro step_unlatched) (auto simp: same_identity_def)
  then show ?case
    by (auto intro!: safe_pure safe_quiet_bind [OF quiet_try [OF quiet_calls(1)]] safe_with_same safe_saved simp: Let_def split: sum.split)
qed

lemma safe_cancel_page: "safe F UNIV P (cancel_session env sn served_origin i headers clock instant)"
  unfolding cancel_session_def
  by (intro safe_authorized safe_authorize safe_with_session safe_bind [OF safe_try [OF safe_cancel]] safe_pure)

lemma safe_exchange: "safe F UNIV P (exchange_remote_fragment env sn served_origin headers capability cookie csrf clock)"
  unfolding exchange_remote_fragment_def
proof (rule safe_quiet_bind [OF quiet_pure(3)], intro safe_if safe_pure, rule safe_bind [OF safe_try [OF safe_expire]], goal_cases)
  case (1 _ r)
  show ?case
  proof (cases r)
    case (Inl e)
    then show ?thesis by (simp add: safe_pure)
  next
    case (Inr u)
    show ?thesis
      unfolding Inr sum.case Let_def
    proof (rule safe_read_bind, goal_cases)
      case (1 b found)
      show ?case
      proof (cases found)
        case None
        then show ?thesis by (auto intro!: safe_quiet quiet_intros)
      next
        case (Some p)
        obtain i s where p: "p = (i, s)" by (cases p)
        have found: "p \<in> set (bi_sessions b)" "bs_state s = CS_AwaitingUser"
          using 1 Some p by (auto simp: find_Some_iff in_set_conv_nth)
        have "session_step s (exchanged_session env cookie csrf clock s)"
          using found(2) by (intro step_unlatched) (auto simp: exchanged_session_def same_identity_def)
        note saved = safe_saved [OF UNIV_I this safe_pure(1)]
        show ?thesis
          unfolding Some p option.case prod.case
          by (rule safe_exactly, rule safe_mono [OF saved]) (use found(1) p in auto)
      qed
    qed
  qed
qed

section \<open>Adding a passkey across surfaces\<close>

lemma get_flow_role: "get_flow role s = Inr flow \<Longrightarrow> bs_cross_surface s = Some flow \<and> xf_role flow = role"
  by (auto simp: get_flow_def split: option.splits if_splits)

lemma step_flow: "session_step s (s\<lparr>bs_cross_surface := flow\<rparr>)"
  by (simp add: step_defs)

text \<open>The source session is new: its identifier, drawn at random, is not in use.\<close>

lemma safe_open_source:
  assumes "bs_state s = CS_AwaitingUser"
  shows "safe known UNIV (\<lambda>xs. map_of xs i = Some s \<and> map_of xs (ce_digest32_from_bytes (cy_crypto env) id_bytes) = None)
    (open_source env sn i s flow pairing prepared w now_ms id_bytes token_bytes)"
  unfolding open_source_def Let_def
proof (intro safe_binds safe_quiet_bind [OF quiet_persist], goal_cases)
  case (1 origin source)
  let ?id = "ce_digest32_from_bytes (cy_crypto env) id_bytes"
  show ?case (is "safe _ _ ?P (cm_bind (put_session _ ?source) ?rest)")
  proof (rule safe_bind_post [where Q = "\<lambda>_ xs. map_of xs i = Some s"], goal_cases)
    case 1
    have new: "bs_state ?source = CS_AwaitingUser" "known ?source"
      using new_session_fields [OF \<open>new_session env token_bytes _ = Inr source\<close>] by (auto simp: known_def)
    show ?case
      by (rule safeI) (auto simp: put_session_def intro!: evolves.fresh [OF evolves.same] new)
  next
    case (2 b c u)
    then show ?case by (auto simp: put_session_def update_conv')
  next
    case (3 u)
    show ?case by (intro safe_bind safe_put safe_pure) (auto intro: step_flow)
  qed
qed

lemma safe_pair:
  "safe known UNIV (\<lambda>xs. map_of xs (ce_digest32_from_bytes (cy_crypto env) id_bytes) = None)
    (pair_cross_surface env sn i key now_ms id_bytes token_bytes)"
  unfolding pair_cross_surface_def start_pairing_def
  by (rule safe_get, intro safe_binds)
    (auto intro!: safe_pure safe_binds safe_mono [OF safe_open_source] split: option.split)

lemma safe_authorize_cross: "safe F UNIV P (authorize_cross_surface env sn i body now_ms)"
  unfolding authorize_cross_surface_def
proof (rule safe_get, intro safe_binds safe_if safe_pure, rule safe_get, intro safe_binds safe_if safe_pure, goal_cases)
  case (1 source flow pairing handoff destination destination_flow)
  let ?d = "xf_destination_ceremony_id flow"
  have live: "\<not> is_terminal (bs_state source)" using 1 by auto
  have roles: "xf_role flow = XR_Source" "bs_cross_surface source = Some flow" "bs_cross_surface destination = Some destination_flow"
    using 1 get_flow_role [of XR_Source source flow] by (auto simp: ok_or_def split: option.splits)
  have "source \<noteq> destination" using roles 1 by auto
  then have other: "?d \<noteq> i" if "map_of xs i = Some source" "map_of xs ?d = Some destination" for xs using that by auto
  show ?case
    unfolding Let_def
  proof (intro safe_quiet_bind [OF quiet_persist], rule safe_bind_post [where Q = "\<lambda>_ xs. map_of xs i = Some source"], goal_cases)
    case (1 u v)
    show ?case by (rule safe_put) (auto intro: step_flow)
  next
    case (2 u v b c w)
    then show ?case using other [of "bi_sessions b"] by (auto simp: put_session_def update_conv')
  next
    case (3 u v w)
    show ?case using step_latch [OF live] by (intro safe_bind safe_put safe_pure) auto
  qed
qed

lemma safe_handoff: "safe F UNIV P (cross_surface_handoff i now_ms)"
  unfolding cross_surface_handoff_def by (rule safe_get, intro safe_binds safe_if safe_pure)

lemma safe_finish_cross: "safe F UNIV P (finish_cross_surface env sn i body now_ms)"
  unfolding finish_cross_surface_def
proof (rule safe_get, intro safe_binds safe_if safe_pure, goal_cases)
  case (1 s flow)
  show ?case by (rule safe_mono [OF safe_finalize]) auto
next
  case (2 s flow pairing result receipt u)
  then have "session_step s (s\<lparr>bs_state := CS_WalletCommitted, bs_terminal_result := Some receipt\<rparr>)"
    by (intro step_unlatched) (auto simp: same_identity_def)
  then show ?case by (intro safe_bind [OF safe_save] safe_mono [OF safe_finalize]) auto
qed

lemma safe_already: "safe F UNIV P (already_registered_cross_surface env sn i body now_ms)"
  unfolding already_registered_cross_surface_def
proof (rule safe_get, intro safe_binds safe_if safe_pure, goal_cases)
  case (1 s flow pairing answer)
  then have "session_step s (latch_terminal now_ms (s\<lparr>bs_state := CS_AlreadyRegistered\<rparr>))" by (intro step_latch) auto
  then show ?case by (cases answer) (auto intro!: safe_pure safe_bind [OF safe_save])
qed

section \<open>Custody ceremonies and the quota of anonymous registrations\<close>

lemma safe_new_any:
  "new_session env token_bytes new = Inr s \<Longrightarrow> (\<And>u. safe (\<lambda>_. True) UNIV (\<lambda>_. True) (g u))
    \<Longrightarrow> safe (\<lambda>_. True) UNIV P (cm_bind (insert_session env i s) g)"
  using new_session_fields by (intro safe_bind [OF safe_insert]) auto

lemma safe_prepare_custody: "safe (\<lambda>_. True) UNIV P (prepare_custody_reviewed env sn bindings request account_review now_ms token_bytes instants)"
  unfolding prepare_custody_reviewed_def create_custody_session_def Let_def
  by (rule safe_bind [OF safe_expire]) (auto intro!: safe_binds safe_new_any safe_pure split: option.split)

text \<open>No window of the configured length holds more anonymous registrations than the limit; the last instant of the clock is left out, since
the end of a window saturates there.\<close>

definition anonymous_within :: "CeremonyLimits \<Rightarrow> sessions \<Rightarrow> bool" where
  "anonymous_within limits xs \<longleftrightarrow> (\<forall>t. t \<noteq> - 1 \<longrightarrow>
     length (filter (\<lambda>c. c \<le> t \<and> unat t < unat c + unat (li_creation_window_ms limits)) (anonymous_times xs))
       \<le> unat (li_maximum_anonymous_registrations limits))"

definition room :: "u64 \<Rightarrow> CeremonyLimits \<Rightarrow> sessions \<Rightarrow> bool" where
  "room now_ms limits xs \<longleftrightarrow> length (filter (\<lambda>c. now_ms < saturating_add c (li_creation_window_ms limits)) (anonymous_times xs))
     < unat (li_maximum_anonymous_registrations limits)"

lemma within_registered:
  assumes "anonymous_within limits xs" and "bs_anonymous_registration s \<Longrightarrow> room (bs_created_at_ms s) limits xs" and "map_of xs i = None"
  shows "anonymous_within limits (AList.update i s xs)"
proof (cases "bs_anonymous_registration s")
  case False
  then show ?thesis using assms(1,3) by (simp add: update_fresh anonymous_times_def anonymous_within_def)
next
  case True
  let ?now = "bs_created_at_ms s" and ?w = "li_creation_window_ms limits" and ?cs = "anonymous_times xs"
  have cs: "anonymous_times (AList.update i s xs) = ?cs @ [?now]" using True assms(3) by (simp add: update_fresh anonymous_times_def)
  have "length (filter (\<lambda>c. c \<le> t \<and> unat t < unat c + unat ?w) (?cs @ [?now])) \<le> unat (li_maximum_anonymous_registrations limits)"
    if t: "t \<noteq> - 1" for t
  proof (cases "?now \<le> t")
    case False
    then show ?thesis using assms(1) t by (simp add: anonymous_within_def)
  next
    case le: True
    have top: "unat t < 2 ^ 64 - 1"
    proof -
      have "unat t \<noteq> unat (- 1 :: u64)" using t by (metis word_unat_eq_iff)
      moreover have "unat (- 1 :: u64) = 2 ^ 64 - 1" by (simp add: unsigned_minus_1_eq_mask mask_eq_exp_minus_1)
      ultimately show ?thesis using unsigned_less [of t, where ?'a = nat] by simp
    qed
    have "?now < saturating_add c ?w" if "unat t < unat c + unat ?w" for c
      using that le top by (simp add: word_less_nat_alt word_le_nat_alt unat_saturating_add)
    then have "length (filter (\<lambda>c. c \<le> t \<and> unat t < unat c + unat ?w) ?cs) \<le> length (filter (\<lambda>c. ?now < saturating_add c ?w) ?cs)"
      by (intro length_filter_mono) auto
    also have "\<dots> < unat (li_maximum_anonymous_registrations limits)" using assms(2) [OF True] by (simp add: room_def)
    finally show ?thesis by simp
  qed
  then show ?thesis using cs by (simp add: anonymous_within_def)
qed

text \<open>A function that keeps the quota, given something of the sessions and limits it starts with.\<close>

definition quota :: "(CeremonyLimits \<Rightarrow> sessions \<Rightarrow> bool) \<Rightarrow> ('s, 'a) cm \<Rightarrow> bool" where
  "quota G m \<longleftrightarrow> (\<forall>b b' r. distinct (map fst (bi_sessions b)) \<longrightarrow> G (bi_limits b) (bi_sessions b) \<longrightarrow> anonymous_within (bi_limits b) (bi_sessions b)
     \<longrightarrow> m b = (b', r) \<longrightarrow> anonymous_within (bi_limits b') (bi_sessions b'))"

lemma quotaI:
  assumes "\<And>b b' r. distinct (map fst (bi_sessions b)) \<Longrightarrow> G (bi_limits b) (bi_sessions b) \<Longrightarrow> anonymous_within (bi_limits b) (bi_sessions b)
     \<Longrightarrow> m b = (b', r) \<Longrightarrow> anonymous_within (bi_limits b') (bi_sessions b')"
  shows "quota G m"
  using assms by (auto simp: quota_def)

lemma quotaD:
  "quota G m \<Longrightarrow> distinct (map fst (bi_sessions b)) \<Longrightarrow> G (bi_limits b) (bi_sessions b) \<Longrightarrow> anonymous_within (bi_limits b) (bi_sessions b)
     \<Longrightarrow> m b = (b', r) \<Longrightarrow> anonymous_within (bi_limits b') (bi_sessions b')"
  by (auto simp: quota_def)

lemma safe_within:
  assumes "safe known UNIV P m" and "distinct (map fst (bi_sessions b))" and "P (bi_sessions b)" and "m b = (b', r)"
  shows "anonymous_within (bi_limits b') (bi_sessions b') = anonymous_within (bi_limits b) (bi_sessions b)"
proof -
  note e = safeD [OF assms]
  have "anonymous_times (bi_sessions b') = anonymous_times (bi_sessions b)"
    by (rule evolves_anonymous [OF e(1)]) (simp add: known_def)
  then show ?thesis using e(2) by (simp add: anonymous_within_def)
qed

lemma quota_safe: "safe known UNIV (\<lambda>_. True) m \<Longrightarrow> quota G m"
  by (rule quotaI) (simp add: safe_within)

lemma quota_pure: "quota G (cm_return x)" "quota G (cm_lift r)"
  by (intro quota_safe safe_pure)+

lemma quota_quiet_bind: "quiet m \<Longrightarrow> (\<And>x. quota G (f x)) \<Longrightarrow> quota G (cm_bind m f)"
  by (rule quotaI, erule bind_cases) (metis quietD, metis quietD quotaD)

lemma quota_lift_bind: "(\<And>x. r = Inr x \<Longrightarrow> quota G (f x)) \<Longrightarrow> quota G (cm_bind (cm_lift r) f)"
  by (cases r) (auto simp: quota_def cm_bind_def cm_lift_def)

lemma quota_expire_bind: "(\<And>x. quota (\<lambda>_ _. True) (f x)) \<Longrightarrow> quota (\<lambda>_ _. True) (cm_bind (expire_sessions env sn now_ms) f)"
  by (rule quotaI, erule bind_cases)
    (metis safe_expire safe_within, metis safe_expire safe_within safeD(3) quotaD)

lemma quota_insert: "quota (\<lambda>limits xs. bs_anonymous_registration s \<longrightarrow> room (bs_created_at_ms s) limits xs) (insert_session env i s)"
proof (rule quotaI)
  fix b b' :: "'a BrokerInner" and r
  assume G: "bs_anonymous_registration s \<longrightarrow> room (bs_created_at_ms s) (bi_limits b) (bi_sessions b)"
    and w: "anonymous_within (bi_limits b) (bi_sessions b)" and r: "insert_session env i s b = (b', r)"
  show "anonymous_within (bi_limits b') (bi_sessions b')"
  proof (cases "map_of (bi_sessions b) i")
    case None
    have "anonymous_within (bi_limits b) (AList.update i s (bi_sessions b))" using within_registered [OF w _ None] G by blast
    then show ?thesis
      using r quiet_persist [of env s] w unfolding insert_session_def
      by (elim bind_cases) (auto simp: cm_read_def dest: quietD split: if_splits)
  next
    case (Some t)
    then show ?thesis using r w by (auto simp: insert_session_def cm_bind_def cm_read_def)
  qed
qed

lemma quota_bind_last: "quota G m \<Longrightarrow> (\<And>x. quiet (f x)) \<Longrightarrow> quota G (cm_bind m f)"
  by (rule quotaI, erule bind_cases) (metis quotaD, metis quotaD quietD)

text \<open>The bounds that admit an anonymous registration leave room for it.\<close>

lemma bounds_room:
  assumes "enforce_creation_bounds w True now_ms instants b = (b', Inr u)"
  shows "room now_ms (bi_limits b') (bi_sessions b')"
proof -
  have "check_anonymous_bounds now_ms b' = Inr ()"
    using assms unfolding enforce_creation_bounds_def by (elim bind_cases) (auto simp: cm_read_def)
  moreover have "length (creations_in_window (filter bs_anonymous_registration (map snd xs)) v now_ms)
      = length (filter (\<lambda>c. now_ms < saturating_add c v) (anonymous_times xs))" for v and xs :: sessions
    by (simp add: creations_in_window_def anonymous_times_def filter_map o_def)
  ultimately show ?thesis by (simp add: check_anonymous_bounds_def room_def Let_def split: if_splits)
qed

lemma quota_bounds_bind:
  assumes "\<And>x. quota (\<lambda>limits xs. anonymous \<longrightarrow> room now_ms limits xs) (f x)"
  shows "quota G (cm_bind (enforce_creation_bounds w anonymous now_ms instants) f)"
proof (rule quotaI, erule bind_cases)
  fix b b' :: "'a BrokerInner" and e
  assume "anonymous_within (bi_limits b) (bi_sessions b)" "enforce_creation_bounds w anonymous now_ms instants b = (b', Inl e)"
  then show "anonymous_within (bi_limits b') (bi_sessions b')" using quietD [OF quiet_bounds] by metis
next
  fix b b' c :: "'a BrokerInner" and r x
  assume b: "distinct (map fst (bi_sessions b))" "anonymous_within (bi_limits b) (bi_sessions b)"
    and c: "enforce_creation_bounds w anonymous now_ms instants b = (c, Inr x)" and f: "f x c = (b', r)"
  have "bi_sessions c = bi_sessions b" "bi_limits c = bi_limits b" using quietD [OF quiet_bounds c] by auto
  moreover have "anonymous \<longrightarrow> room now_ms (bi_limits c) (bi_sessions c)" using c bounds_room by (cases anonymous) auto
  ultimately show "anonymous_within (bi_limits b') (bi_sessions b')" using quotaD [OF assms] b f by metis
qed

lemma quota_create:
  "quota (\<lambda>limits xs. anonymous \<longrightarrow> room now_ms limits xs)
    (create_custody_session env sn request account_review now_ms token_bytes request_digest anonymous)"
proof -
  let ?G = "\<lambda>limits xs. anonymous \<longrightarrow> room now_ms limits xs"
  have insert: "quota ?G (cm_bind (insert_session env i s) (\<lambda>_. cm_return x))"
    if "new_session env token_bytes new = Inr s" "nb_anonymous_registration new = anonymous" "nb_created_at_ms new = now_ms" for i s x new
    using quota_insert [of s env i] new_session_fields [OF that(1)] that(2,3) by (intro quota_bind_last quiet_intros) simp
  show ?thesis
    unfolding create_custody_session_def
    by (auto intro!: quota_lift_bind quota_quiet_bind [OF quiet_calls(1)] quota_quiet_bind [OF quiet_surfaces(1)] quota_pure insert)
qed

lemma quota_prepare_custody: "quota (\<lambda>_ _. True) (prepare_custody_reviewed env sn bindings request account_review now_ms token_bytes instants)"
  unfolding prepare_custody_reviewed_def Let_def
  by (auto intro!: quota_expire_bind quota_lift_bind quota_quiet_bind [OF quiet_pure(3)] quota_bounds_bind quota_create quota_pure split: option.split)

section \<open>Every sequence of calls\<close>

text \<open>
  One call of the broker, with any arguments, whether it succeeds or fails. The identifier of the source session of a pairing is 32
  random bytes; that it is not in use is assumed of them.
\<close>

inductive ceremony_call :: "ceremony_env \<Rightarrow> 's ceremony_signer \<Rightarrow> 's BrokerInner \<Rightarrow> 's BrokerInner \<Rightarrow> bool"
  for env :: ceremony_env and sn :: "'s ceremony_signer" and b :: "'s BrokerInner" where
  observe: "ceremony_call env sn b (fst (set_completion_observer env now_ms b))"
| observe_read_only: "ceremony_call env sn b (fst (set_completion_observer_read_only b))"
| expire: "ceremony_call env sn b (fst (expire_sessions env sn now_ms b))"
| cancel: "ceremony_call env sn b (fst (cancel_with_backoff env sn operation_id now_ms clock instant b))"
| terminate: "ceremony_call env sn b (fst (terminate_live_sessions env sn now_ms b))"
| approval: "ceremony_call env sn b (fst (prepare_approval_ceremony env sn operation_id w reviewed prepare approval now_ms token_bytes instants b))"
| custody: "ceremony_call env sn b (fst (prepare_custody_reviewed env sn bindings request account_review now_ms token_bytes instants b))"
| policy: "ceremony_call env sn b (fst (prepare_policy_ceremony env sn operation_id w manifest manifest_digest checked prepare now_ms token_bytes instants b))"
| pending: "ceremony_call env sn b (fst (pending_approval_ceremony env sn approval now_ms b))"
| read_page: "ceremony_call env sn b (fst (read_result env sn served_origin i headers pages b))"
| acknowledge_page: "ceremony_call env sn b (fst (acknowledge_result env sn served_origin i headers pages b))"
| complete_page: "ceremony_call env sn b (fst (complete_session env sn served_origin i headers body pages b))"
| bind_page: "ceremony_call env sn b (fst (bind_output_key env sn served_origin i headers key pages b))"
| cancel_page: "ceremony_call env sn b (fst (cancel_session env sn served_origin i headers pages instant b))"
| exchange_page: "ceremony_call env sn b (fst (exchange_remote_fragment env sn served_origin headers capability cookie csrf pages b))"
| cross: "ceremony_call env sn b (fst (prepare_cross_surface env sn operation_id w selection now_ms id_bytes token_bytes instants b))"
| pair: "map_of (bi_sessions b) (ce_digest32_from_bytes (cy_crypto env) id_bytes) = None
    \<Longrightarrow> ceremony_call env sn b (fst (pair_cross_surface env sn i key now_ms id_bytes token_bytes b))"
| authorize_cross: "ceremony_call env sn b (fst (authorize_cross_surface env sn i body now_ms b))"
| handoff: "ceremony_call env sn b (fst (cross_surface_handoff i now_ms b))"
| finish_cross: "ceremony_call env sn b (fst (finish_cross_surface env sn i body now_ms b))"
| already: "ceremony_call env sn b (fst (already_registered_cross_surface env sn i body now_ms b))"

lemma safe_pending: "safe F UNIV P (pending_approval_ceremony env sn approval now_ms)"
  unfolding pending_approval_ceremony_def by (rule safe_bind [OF safe_expire]) (rule safe_pure)

lemma safe_read_only: "safe F UNIV P set_completion_observer_read_only"
  unfolding set_completion_observer_read_only_def by (intro safe_quiet quiet_intros)

text \<open>The calls that register no anonymous session; only a custody ceremony may.\<close>

lemma safe_any: "safe known UNIV P m \<Longrightarrow> safe (\<lambda>_. True) UNIV P m"
  by (rule safe_mono [of known UNIV P]) auto

lemmas safe_calls = safe_observer safe_read_only safe_expire safe_cancel safe_terminate safe_pending safe_read_result safe_acknowledge safe_complete
  safe_bind_output safe_cancel_page safe_exchange safe_authorize_cross safe_handoff safe_finish_cross safe_already

lemmas safe_creations = safe_prepare_approval safe_prepare_policy safe_prepare_cross safe_pair

lemma safe_after:
  assumes "safe F A P m" and "distinct (map fst (bi_sessions b))" and "P (bi_sessions b)"
  shows "evolves F A (bi_sessions b) (bi_sessions (fst (m b))) \<and> bi_limits (fst (m b)) = bi_limits b"
  using safeD [OF assms, of "fst (m b)" "snd (m b)"] by simp

lemma call_evolves:
  assumes "ceremony_call env sn b b'" and "distinct (map fst (bi_sessions b))"
  shows "evolves (\<lambda>_. True) UNIV (bi_sessions b) (bi_sessions b') \<and> bi_limits b' = bi_limits b"
  using assms(1)
  by cases (simp only:, rule safe_after, rule safe_calls safe_creations [THEN safe_any] safe_prepare_custody, rule assms(2), simp)+

lemma within_after:
  assumes "safe known UNIV P m" and "distinct (map fst (bi_sessions b))" and "P (bi_sessions b)" and "anonymous_within (bi_limits b) (bi_sessions b)"
  shows "anonymous_within (bi_limits (fst (m b))) (bi_sessions (fst (m b)))"
  using safe_within [OF assms(1-3), of "fst (m b)" "snd (m b)"] assms(4) by simp

lemma call_within:
  assumes "ceremony_call env sn b b'" and "distinct (map fst (bi_sessions b))" and "anonymous_within (bi_limits b) (bi_sessions b)"
  shows "anonymous_within (bi_limits b') (bi_sessions b')"
proof (cases "\<exists>bindings request account_review now_ms token_bytes instants.
    b' = fst (prepare_custody_reviewed env sn bindings request account_review now_ms token_bytes instants b)")
  case True
  then obtain bindings request account_review now_ms token_bytes instants
    where b': "b' = fst (prepare_custody_reviewed env sn bindings request account_review now_ms token_bytes instants b)" by blast
  show ?thesis unfolding b' by (rule quotaD [OF quota_prepare_custody assms(2) _ assms(3) prod.collapse [symmetric]]) simp
next
  case False
  show ?thesis
    using assms(1)
  proof cases
    case custody
    then show ?thesis using False by blast
  qed (simp only:, rule within_after, rule safe_calls safe_creations, rule assms(2), simp, rule assms(3))+
qed

text \<open>Sequences of calls.\<close>

lemma calls_evolve:
  assumes "(ceremony_call env sn)\<^sup>*\<^sup>* b b'" and "distinct (map fst (bi_sessions b))"
  shows "evolves (\<lambda>_. True) UNIV (bi_sessions b) (bi_sessions b') \<and> bi_limits b' = bi_limits b"
  using assms(1)
proof (induction rule: rtranclp_induct)
  case base
  show ?case by (simp add: evolves.same)
next
  case (step c d)
  then have "distinct (map fst (bi_sessions c))" using evolves_distinct assms(2) by blast
  then show ?case using call_evolves [OF step.hyps(2)] step.IH evolves_trans by fastforce
qed

lemma calls_within:
  assumes "(ceremony_call env sn)\<^sup>*\<^sup>* b b'" and "distinct (map fst (bi_sessions b))" and "anonymous_within (bi_limits b) (bi_sessions b)"
  shows "anonymous_within (bi_limits b') (bi_sessions b')"
  using assms(1)
proof (induction rule: rtranclp_induct)
  case base
  show ?case by (rule assms(3))
next
  case (step c d)
  have "distinct (map fst (bi_sessions c))" using calls_evolve [OF step.hyps(1) assms(2)] evolves_distinct assms(2) by blast
  then show ?case by (rule call_within [OF step.hyps(2) _ step.IH])
qed

section \<open>Ended ceremonies are final\<close>

text \<open>C7. A ceremony that has ended is final: along every sequence of calls of the broker, successful or not, a session keeps its operation,
request, wallet, kind, creation time and origin; once it is terminal its state and result never change; once its launch URL is gone it never
comes back; and a terminal session whose result is no longer retained has neither launch token nor browser session.\<close>

theorem ended_ceremonies_are_final:
  assumes "(ceremony_call env sn)\<^sup>*\<^sup>* b b'" and "distinct (map fst (bi_sessions b))" and "all_settled (bi_sessions b)"
    and "map_of (bi_sessions b) i = Some s"
  shows "\<exists>s'. map_of (bi_sessions b') i = Some s' \<and> same_identity s s'
    \<and> (is_terminal (bs_state s) \<longrightarrow> bs_state s' = bs_state s \<and> bs_terminal_result s' = bs_terminal_result s)
    \<and> (session_url s = None \<longrightarrow> session_url s' = None)
    \<and> (is_terminal (bs_state s') \<and> bs_result_retain_until_ms s' = None \<longrightarrow> session_url s' = None \<and> burnt s')"
proof -
  note e = calls_evolve [OF assms(1,2), THEN conjunct1]
  obtain s' where s': "map_of (bi_sessions b') i = Some s'" "session_step s s'" using evolves_follows [OF e assms(4)] by blast
  moreover have "settled s'" using evolves_settled [OF e assms(3)] s'(1) by (auto simp: all_settled_def)
  ultimately show ?thesis by (auto simp: session_step_def settled_def burnt_def session_url_def split: option.splits)
qed

section \<open>The quota of anonymous registrations\<close>

text \<open>C8. The anonymous registration quota is never exceeded: along every sequence of calls, whatever clock readings they are given, no window of
the configured length contains more anonymous registrations than the configured maximum.\<close>

theorem anonymous_quota_is_kept:
  assumes "(ceremony_call env sn)\<^sup>*\<^sup>* b b'" and "bi_sessions b = []" and "t \<noteq> - 1"
  shows "length (filter (\<lambda>s. bs_anonymous_registration s \<and> bs_created_at_ms s \<le> t
      \<and> unat t < unat (bs_created_at_ms s) + unat (li_creation_window_ms (bi_limits b))) (map snd (bi_sessions b')))
    \<le> unat (li_maximum_anonymous_registrations (bi_limits b))"
proof -
  have "anonymous_within (bi_limits b) (bi_sessions b)" by (simp add: assms(2) anonymous_within_def anonymous_times_def)
  then have "anonymous_within (bi_limits b') (bi_sessions b')" using calls_within [OF assms(1)] assms(2) by simp
  moreover have "bi_limits b' = bi_limits b" using calls_evolve [OF assms(1)] assms(2) by simp
  ultimately show ?thesis
    using assms(3) by (simp add: anonymous_within_def anonymous_times_def filter_map o_def conj_commute conj_left_commute)
qed

section \<open>A concrete broker\<close>

text \<open>A signer that prepares wallet registrations on the local surface, and a broker that has the authority of the sample.\<close>

definition sample_surface :: SurfaceDescriptor where
  "sample_surface = \<lparr>fd_surface_id = ''local'', fd_origin = ''http://localhost'', fd_active = True,
     fd_reference = \<lparr>sf_surface_id = ''local'', sf_identity_digest = ''s''\<rparr>, fd_invalid = None\<rparr>"

definition sample_prepared :: SignerPrepared where
  "sample_prepared = \<lparr>sp_ceremony_id = ''c'', sp_wallet_id = Some ''wallet'', sp_expires_at_ms = 90, sp_surface = fd_reference sample_surface,
     sp_contribution = JNull, sp_digest = Inr ''d'', sp_scope_binding = Inr (), sp_carried = Inr JNull\<rparr>"

definition refused :: "('s, 'a) signer_call" where
  "refused s = (s, Inl (protocol ServiceUnavailable ''refused''))"

definition sample_ceremony_signer :: "unit ceremony_signer" where
  "sample_ceremony_signer = \<lparr>
     sn_surface_status = \<lambda>s. (s, Inr \<lparr>us_surfaces = [sample_surface], us_desired_mode = LocalhostOnly, us_effective_mode = LocalhostOnly,
       us_desired_revision = 1, us_effective_revision = 1, us_remote_tls_ready = False, us_remote_routing_ready = False\<rparr>),
     sn_credential_list_public = \<lambda>_ s. (s, Inr []), sn_cancel = \<lambda>_ s. (s, Inr ()), sn_status = \<lambda>_ s. (s, Inr SS_Pending),
     sn_prepare_custody = \<lambda>_ _ s. (s, Inr sample_prepared), sn_pair_start = \<lambda>_ _ _ _ _. refused, sn_prepare_source = \<lambda>_ _ _ _ _. refused,
     sn_complete_source = \<lambda>_ _ _. refused, sn_complete_destination = \<lambda>_ _ _. refused, sn_already_registered = \<lambda>_ _ _. refused,
     sn_complete = \<lambda>_ _ _ _ _. refused, sn_bind_output_recipient = \<lambda>_ _ _. refused\<rparr>"

definition sample_ceremony_env :: ceremony_env where
  "sample_ceremony_env = \<lparr>cy_auth = auth_sample, cy_activation_to_value = \<lambda>_. Inr JNull, cy_activation_from_value = \<lambda>_. Inl ''value'',
     cy_custody_to_value = \<lambda>_. Inr JNull, cy_custody_from_value = \<lambda>_. Inl ''value'', cy_session_jcs = \<lambda>_. Inr ''{}'', cy_row_auxiliary = \<lambda>_. False,
     cy_kind_json = \<lambda>_. JNull, cy_state_json = \<lambda>state. JString (ceremony_state_name state), cy_base64_encode = \<lambda>_. ''token'',
     cy_base64_parse = Some, cy_request_digest = \<lambda>_. Inr ''r'', cy_cross_digest = \<lambda>_ _ _ _. Inr ''x'', cy_custody_review = \<lambda>_ _ _ _. Inr None,
     cy_unsupported_text = \<lambda>_. [], cy_contribution_digest = \<lambda>_. None, cy_manifest_digest = \<lambda>_. None, cy_projection_json = \<lambda>_. JNull,
     cy_approval_contribution_valid = \<lambda>_. True, cy_cross_request_digest = \<lambda>_ _ _. Inr ''x''\<rparr>"

definition sample_broker :: "sessions \<Rightarrow> unit BrokerInner" where
  "sample_broker xs = \<lparr>bi_signer = (), bi_endpoint = default_endpoint, bi_limits = limits_default, bi_sessions = xs, bi_operations = Map.empty,
     bi_cancellation_backoff = Map.empty, bi_invalid_attempts = 0, bi_rows = [], bi_authority = auth_authority, bi_observing = False,
     bi_remote_credentials_rejected = False\<rparr>"

lemma sample_broker_sel [simp]:
  "bi_sessions (sample_broker xs) = xs" "bi_limits (sample_broker xs) = limits_default" "bi_rows (sample_broker xs) = []"
  "bi_authority (sample_broker xs) = auth_authority" "bi_operations (sample_broker xs) = Map.empty" "bi_endpoint (sample_broker xs) = default_endpoint"
  by (simp_all add: sample_broker_def)

lemma signer_state [simp]: "(b :: unit BrokerInner)\<lparr>bi_signer := u\<rparr> = b"
  by (cases b) simp

lemma ceremony_env_sel [simp]:
  "cy_auth sample_ceremony_env = auth_sample" "cy_session_jcs sample_ceremony_env s = Inr ''{}''" "cy_request_digest sample_ceremony_env r = Inr ''r''"
  "cy_custody_review sample_ceremony_env r w a v = Inr None" "cy_base64_encode sample_ceremony_env bs = ''token''"
  by (simp_all add: sample_ceremony_env_def)

text \<open>A row is written when the journal is ready and the operation is free.\<close>

lemma ready_write:
  assumes "ready k (ba_journal (bi_authority b))" and "k < 1000" and "\<not> operation_taken sample_ceremony_env row (bi_rows b)"
  shows "\<exists>j. write_row sample_ceremony_env row payload b = (set_journal j (b\<lparr>bi_rows := upsert sr_ceremony_id row (bi_rows b)\<rparr>), Inr ())"
proof -
  let ?a = "bi_authority b" and ?e = "''ceremony.session_persisted''"
  let ?db = "changed 1 (ba_db ?a)"
  have sc: "short_chain k ?db" using assms(1) by (simp add: ready_def short_chain_def)
  obtain r h where app: "append_audit sample_env ?e payload (active_signer (new_active_signer sample_signer)) ?db
      = (changed 1 (?db\<lparr>audit_chain := audit_chain ?db @ [r]\<rparr>), Inr h)" and r: "au_sequence r = int k" "length (au_entry_hash r) = 64"
    using short_chain_append [OF sc assms(2)] by blast
  define db where "db = changed 1 (?db\<lparr>audit_chain := audit_chain ?db @ [r]\<rparr>)"
  have signer: "j_signer (ba_journal ?a) = active_signer (new_active_signer sample_signer)"
    using assms(1) by (simp add: ready_def j_signer_def)
  have run: "run_transaction (external_tx sample_env 1 ?e payload (j_signer (ba_journal ?a))) (ba_db ?a) = (db, Inr (Checkpointed ()))"
    by (simp add: run_transaction_def external_tx_def tx_bind_def tx_changed_def tx_return_def signer app db_def del: One_nat_def)
  have "short_chain (Suc k) db" using sc r by (simp add: short_chain_def db_def)
  then obtain j where "checkpoint_committed_head sample_env ((ba_journal ?a)\<lparr>j_db := db\<rparr>) = (j, Inr ())"
    using ready_checkpoint [OF assms(1) _ assms(2)] by blast
  then show ?thesis using ready_lock [OF assms(1)] assms(3) run by (auto simp: write_row_def Let_def)
qed

lemma sample_persists:
  "\<exists>b. persist_session sample_ceremony_env s (sample_broker xs) = (b, Inr ()) \<and> bi_sessions b = xs \<and> bi_operations b = Map.empty
     \<and> bi_limits b = limits_default"
proof -
  have "ready 0 (ba_journal (bi_authority (sample_broker xs)))" by (simp add: ready_journal)
  from ready_write [OF this] obtain j where
    "write_row sample_ceremony_env \<lparr>sr_ceremony_id = bs_ceremony_id s, sr_operation_id = bs_operation_id s, sr_session_jcs = ''{}''\<rparr>
       (session_payload sample_ceremony_env s) (sample_broker xs)
     = (set_journal j (sample_broker xs\<lparr>bi_rows := upsert sr_ceremony_id \<lparr>sr_ceremony_id = bs_ceremony_id s, sr_operation_id = bs_operation_id s,
         sr_session_jcs = ''{}''\<rparr> []\<rparr>), Inr ())"
    by (fastforce simp: operation_taken_def)
  then show ?thesis by (simp add: persist_session_def cm_bind_def cm_lift_def set_journal_def map_err_def)
qed

section \<open>The properties on it\<close>

text \<open>Terminating the one live session of a broker destroys its capabilities.\<close>

lemma sample_terminated:
  "\<exists>b. terminate_live_sessions sample_ceremony_env sample_ceremony_signer 50 (sample_broker [(''c'', sample_session 1)]) = (b, Inr ())
     \<and> bi_sessions b = [(''c'', latch_terminal 50 ((sample_session 1)\<lparr>bs_state := CS_Cancelled\<rparr>))]"
proof -
  let ?xs = "[(''c'', sample_session 1)]" and ?s = "latch_terminal 50 ((sample_session 1)\<lparr>bs_state := CS_Cancelled\<rparr>)"
  obtain b where b: "persist_session sample_ceremony_env ?s (sample_broker ?xs) = (b, Inr ())" "bi_sessions b = ?xs" using sample_persists by blast
  have "bs_state (sample_session 1) = CS_AwaitingUser" by (simp add: sample_session_def)
  then show ?thesis
    using b by (simp add: terminate_live_sessions_def terminate_session_def cm_bind_def cm_read_def cm_return_def cm_try_def cm_signer_def
      cancel_signer_or_already_released_def sample_ceremony_signer_def save_session_def put_session_def)
qed

theorem ended_ceremonies_are_final_witness:
  "\<exists>b s. (ceremony_call sample_ceremony_env sample_ceremony_signer)\<^sup>*\<^sup>* (sample_broker [(''c'', sample_session 1)]) b
     \<and> map_of (bi_sessions b) ''c'' = Some s \<and> bs_state s = CS_Cancelled \<and> session_url s = None \<and> burnt s"
proof -
  let ?b = "sample_broker [(''c'', sample_session 1)]" and ?s = "latch_terminal 50 ((sample_session 1)\<lparr>bs_state := CS_Cancelled\<rparr>)"
  obtain b where b: "terminate_live_sessions sample_ceremony_env sample_ceremony_signer 50 ?b = (b, Inr ())" "bi_sessions b = [(''c'', ?s)]"
    using sample_terminated by blast
  have run: "(ceremony_call sample_ceremony_env sample_ceremony_signer)\<^sup>*\<^sup>* ?b b"
    using ceremony_call.terminate [of sample_ceremony_env sample_ceremony_signer ?b 50] b(1) by auto
  have "all_settled (bi_sessions ?b)" by (simp add: all_settled_def settled_def sample_session_def)
  from ended_ceremonies_are_final [OF run _ this, of "''c''" "sample_session 1"]
  obtain s where "map_of (bi_sessions b) ''c'' = Some s"
    and s: "is_terminal (bs_state s) \<and> bs_result_retain_until_ms s = None \<longrightarrow> session_url s = None \<and> burnt s" by auto
  moreover from this(1) have "s = ?s" using b(2) by simp
  ultimately show ?thesis using run s by (auto simp: latch_terminal_def sample_session_def)
qed

definition sample_registration :: CustodyPrepareRequest where
  "sample_registration = \<lparr>cq_ceremony_kind = CK_WalletRegistration, cq_surface_selection = SurfaceLocal, cq_custody_operation_id = ''o'',
     cq_wallet_id = None, cq_key_ref = None, cq_exact_terms_digest = ''t'', cq_expected_input_class = ''passkey'',
     cq_browser_output_recipient_key = None, cq_petal_key_scope = None, cq_legacy_passkey_migration = None, cq_wallet_seed_profile = None,
     cq_derivation_requests = [], cq_account_terms = None\<rparr>"

text \<open>The first anonymous registration of a broker is admitted.\<close>

lemma sample_registered:
  "\<exists>b r s. prepare_custody_reviewed sample_ceremony_env sample_ceremony_signer (Inr ()) sample_registration None 5 [] (\<lambda>_. 0) (sample_broker [])
       = (b, Inr r) \<and> bi_sessions b = [(''c'', s)] \<and> bs_anonymous_registration s \<and> bs_created_at_ms s = 5"
proof -
  let ?b = "sample_broker []"
  have expire: "expire_sessions sample_ceremony_env sample_ceremony_signer 5 ?b = (?b, Inr ())"
    by (simp add: expire_sessions_def cm_bind_def cm_read_def cm_return_def)
  have bounds: "enforce_creation_bounds None True 5 (\<lambda>_. 0) ?b = (?b, Inr ())"
    by (simp add: enforce_creation_bounds_def check_anonymous_bounds_def creations_in_window_def cm_bind_def cm_read_def cm_return_def limits_default_def)
  have origin: "\<exists>origin. origin_for_surface sample_ceremony_signer (fd_reference sample_surface) ?b = (?b, Inr origin)"
    by (simp add: origin_for_surface_def cm_bind_def cm_signer_def sample_ceremony_signer_def cm_lift_def cm_read_def
      ok_or_def surface_validate_def sample_surface_def)
  then obtain origin where origin: "origin_for_surface sample_ceremony_signer (fd_reference sample_surface) ?b = (?b, Inr origin)" by blast
  have "\<exists>b. insert_session sample_ceremony_env ''c'' s ?b = (b, Inr ()) \<and> bi_sessions b = [(''c'', s)]" for s
    using sample_persists [of s "[]"] by (auto simp: insert_session_def cm_bind_def cm_read_def)
  then obtain f where insert: "insert_session sample_ceremony_env ''c'' s ?b = (f s, Inr ())" "bi_sessions (f s) = [(''c'', s)]" for s by metis
  have prepared: "sn_prepare_custody sample_ceremony_signer r n u = (u, Inr sample_prepared)" for r n u by (simp add: sample_ceremony_signer_def)
  have "\<exists>b r s. create_custody_session sample_ceremony_env sample_ceremony_signer sample_registration None 5 [] ''r'' True ?b = (b, Inr r)
      \<and> bi_sessions b = [(''c'', s)] \<and> bs_anonymous_registration s \<and> bs_created_at_ms s = 5"
    using origin insert
    by (simp add: create_custody_session_def cm_bind_def cm_signer_def prepared cm_lift_def cm_return_def wallet_changed_def expected_wallet_def
      sample_registration_def sample_prepared_def new_session_def and_then_def new_session_url_def session_url_def ok_or_def)
  then show ?thesis
    using expire bounds
    by (simp add: prepare_custody_reviewed_def cm_bind_def cm_lift_def cm_read_def stable_custody_response_def sample_registration_def Let_def map_err_def)
qed

theorem anonymous_quota_is_kept_witness:
  "\<exists>b. (ceremony_call sample_ceremony_env sample_ceremony_signer)\<^sup>*\<^sup>* (sample_broker []) b
     \<and> length (filter (\<lambda>s. bs_anonymous_registration s \<and> bs_created_at_ms s \<le> 7
         \<and> unat (7 :: u64) < unat (bs_created_at_ms s) + unat (li_creation_window_ms limits_default)) (map snd (bi_sessions b))) \<in> {1..4}"
proof -
  obtain b r s where b: "prepare_custody_reviewed sample_ceremony_env sample_ceremony_signer (Inr ()) sample_registration None 5 [] (\<lambda>_. 0) (sample_broker [])
      = (b, Inr r)" "bi_sessions b = [(''c'', s)]" "bs_anonymous_registration s" "bs_created_at_ms s = 5"
    using sample_registered by blast
  have run: "(ceremony_call sample_ceremony_env sample_ceremony_signer)\<^sup>*\<^sup>* (sample_broker []) b"
    using ceremony_call.custody [of sample_ceremony_env sample_ceremony_signer "sample_broker []" "Inr ()" sample_registration None 5 "[]" "\<lambda>_. 0"] b(1) by auto
  have "(7 :: u64) \<noteq> - 1" by simp
  from anonymous_quota_is_kept [OF run _ this] b(2-4) show ?thesis
    by (intro exI [of _ b] conjI run) (simp add: limits_default_def)
qed

end
