(* ===== verification/Spec2Isabelle.thy ===== *)
theory Spec2Isabelle
  imports NativeTransfer Admission Limits ClockService ReadingSafety ApprovalTerms SolanaReview Allocation KeyStops AccountProjection
    CeremonySafety
begin

text \<open>
  The Bloom Broker (\<open>src/crates\<close>) stands between a Machine that asks for signatures and a Signer that holds the keys. An
  owner approves terms in a ceremony; the Broker then decides for each signing request whether an approval covers it, charges the
  budget of the approval, and records every decision in an append-only audit chain. This development models the parts that
  carry those decisions and proves what they promise.

  \<^bold>\<open>The parts and how they interact.\<close> The \<^emph>\<open>journal\<close> (\<open>bloom-broker/src/journal.rs\<close>) owns the SQLite store: approvals, operations,
  reservations, the durable clock and the audit chain. Every mutation takes the lock, verifies the head of the chain, runs one
  transaction that appends an audit entry, and checkpoints the committed head; a failure of verification latches the
  journal into a degraded state. The \<^emph>\<open>authority\<close> (\<open>authority.rs\<close>) keeps policies, revocation epochs, tombstones,
  provenance records, key scopes and quotas in the same store. It prepares and activates approvals, and authorizes a request by
  checking terms, policy, epoch, provenance and claims before it reserves budget in the journal. The
  \<^emph>\<open>assurance registry\<close> (\<open>authority.rs\<close>, \<open>assurance_verifiers.rs\<close>) proves claims about native Solana transfers with the verifier
  of \<open>bloom-solana-verify\<close>. The \<^emph>\<open>Solana review\<close> (\<open>solana_review.rs\<close>, \<open>bloom-solana-clear-signing\<close>) shows a message to the owner and
  binds later uses to what was shown. The \<^emph>\<open>ceremony service\<close> (\<open>ceremony.rs\<close>) keeps the sessions in which an owner approves: it admits and prepares a ceremony
  with the Signer, hands the browser a launch capability, and when the Signer has committed hands the signed receipt to the
  authority, which adopts it; every session is persisted in the journal. The wire types of \<open>bloom-broker-api\<close> carry the terms, claims, policies and errors.

  \<^bold>\<open>How the code is modelled.\<close> A struct is a record with a prefix per type, an enum a datatype, a text the list of its UTF-8
  bytes as characters, an integer a word of its width (\<open>u8\<close>, \<open>u16\<close>, \<open>u32\<close>, \<open>u64\<close>) or a natural number with its bound written out. A fallible
  function returns a sum with the error on the left; where the code can panic the error is \<open>Panic\<close> of the type \<open>fault\<close>. A table is
  the list of its rows in insertion order, and each SQL statement is the function on that list with its number of changed rows. A
  transaction body is a function of the signer and the store (\<open>'a tx\<close>, JournalStore), a journal function one on the journal
  (\<open>'a jm\<close>, JournalGuard), an authority function one on the authority (\<open>'a am\<close>, AuthorityStore); mutexes are the steps of these
  functions, one call at a time, and writes of other connections are explicit events (JournalSystem). Functions of packages that are not in
  the repository are fields of environment records: SHA-256, signatures, canonical JSON and the evaluation of clock readings in
  \<open>env\<close>, the codecs of addresses in \<open>address_env\<close>, base58 and digests in \<open>crypto_env\<close> and \<open>verifier_env\<close>, decimal parsing in
  \<open>value_env\<close>, and the printers and parsers of stored values in \<open>auth_env\<close>. What a theorem needs of them is a named hypothesis (\<open>env_laws\<close>,
  \<open>signer_laws\<close>, \<open>clock_law\<close>, \<open>json_texts_law\<close>, \<open>address_laws\<close>), and Sample and AuthoritySample give instances that satisfy them.

  \<^bold>\<open>The theories.\<close>
  \<^item> Prelude, Codec, Texts, Utf8, OrderedMaps: result types, checked arithmetic, byte buffers and the interface of wire formats
    (locale \<open>prefix_codec\<close>), string functions of the standard library, UTF-8, and the ordered maps and sets of the standard library.
  \<^item> ShortVec, SolanaMessage, NativeTransfer: \<open>short_vec.rs\<close>, \<open>message.rs\<close>, \<open>system_transfer.rs\<close> and \<open>verifier.rs\<close> of \<open>bloom-solana-verify\<close>.
    Readers are inverse to writers, and the verifier accepts exactly the canonical transfer messages.
  \<^item> ClearMessage, PumpCatalog, ClearReading, ReadingSafety: \<open>bloom-solana-clear-signing\<close> with its catalog. Parsing is inverse
    to serialization, a reading never panics and resolves accounts as the message has them, transfers are read as the verifier
    accepts them, and texts shown contain no control characters.
  \<^item> SolanaBinding, SolanaReview: the retry identity of \<open>bloom-broker-api/src/solana_review.rs\<close> and the owner review of
    \<open>bloom-broker/src/solana_review.rs\<close>.
  \<^item> JournalTypes, JournalStore, AuditChain, JournalGuard, Approvals, Operations, Reservations, Clock: the journal and \<open>clock.rs\<close>, in the order
    of the code. The locale \<open>audited_body\<close> is the contract of a transaction body; it is interpreted on every one of them. The lineage query of
    Reservations runs with one step of fuel more than there are rows: a chain of renewals that is longer repeats a row, and
    the query of the code does not end on it.
  \<^item> StoreOrder, JournalSystem, Ledger: orders on stores (locale \<open>store_order\<close>), the journal as a step relation over requests, checkpoints,
    rotations and foreign writes (locale \<open>journal_order\<close>), and invariants of the ledger (locale \<open>ledger_invariant\<close>).
  \<^item> Publication, Admission, Limits, ClockService: what publication, admission, the limits and the clock service promise.
  \<^item> ProtocolErrors, ApprovalTerms, AuthorityTypes, Destinations: the API types with their validations (\<open>error.rs\<close>, \<open>approval.rs\<close>, \<open>crypto.rs\<close>,
    \<open>claims.rs\<close>, \<open>codec.rs\<close>, \<open>provenance.rs\<close>, \<open>policy.rs\<close>, \<open>petal_key.rs\<close>, \<open>address.rs\<close>).
  \<^item> Assurance, AuthorityValues, AuthorityStore, AuthorityRecords, Authorize: the authority, from the registry and the accounting to the
    decisions.
  \<^item> CustodyTypes, SignerTerms, AuthorityCustody, Allocation, KeyStops: the custody types of the API (\<open>ceremony.rs\<close>, \<open>wallet_account.rs\<close>,
    \<open>petal_key.rs\<close>), the translation of keys and terms to the Signer (\<open>translation/key.rs\<close>, \<open>translation/approval.rs\<close>), and the functions
    of the authority that adopt the signed receipts of the Signer, with what is proved of them: digests bind requests, an adopted allocation is the
    committed one, and a stopped key admits no automation.
  \<^item> AccountProjection: \<open>translation/wallet_account.rs\<close>. The addresses shown to the Machine are those of the keys.
  \<^item> CeremonyTypes, CeremonyBroker, CeremonyPages: \<open>bloom-broker/src/ceremony.rs\<close>. A function of the broker is one on its state (\<open>('s, 'a) cm\<close>); the Signer is
    the record \<open>ceremony_signer\<close> of functions on a state \<open>'s\<close> of its own, without any assumption on what they answer; hash maps of sessions are
    association lists in the order of iteration; random bytes and clock readings are arguments, also those of the monotonic clock.
  \<^item> CeremonyOrder, CeremonySteps, CeremonySafety: the steps a session may take, rules in the style of Hoare logic for the functions of the broker, and what holds
    along every sequence of calls: ended ceremonies are final and the quota of anonymous registrations is kept.
  \<^item> AuthorityOrder, AuthorityBudget, AuthoritySafety: sequences of authority calls (locale \<open>authority_order\<close>) and what they keep: restrictions
    only tighten, the shared chain stays verified and grows with every change, approvals stay within the limits of their terms, quotas bound every interval of
    their window's length, and revocations are final.
  \<^item> Sample, AuthoritySample: concrete instances for the witnesses.
  \<^item> This theory: what the journal promises along every trace of events.

  \<^bold>\<open>Not modelled.\<close> The request dispatcher (\<open>service.rs\<close>, except its errors and its observer of completions) and the process (\<open>main.rs\<close>, \<open>config.rs\<close>,
  \<open>signer_client.rs\<close>) are asynchronous I/O around sockets and files and call the functions modelled here. Of the ceremony service the HTTP server, TLS, static
  pages, the texts of the review manifests, the reload of stored sessions at startup and the migration of old stores are left out. Its handlers are modelled
  one at a time: \<open>complete_session\<close> and \<open>bind_output_key\<close> release the lock on the sessions while the Signer works and do not compare the state of the session after it, so
  the theorems on sequences of calls say nothing of a sweep that ends the session in between. \<open>remote_material.rs\<close> renews certificates and relay credentials over the
  network, \<open>token_artwork.rs\<close> is a table of images. The reviews of EVM, Safe, Hyperliquid, Polymarket and Tempo payloads and
  \<open>bloom-evm-clear-signing\<close> rest on the ABI and typed-data codecs of packages outside the repository. The other files of \<open>translation\<close> copy fields between the API types and
  those of the Signer package, which is not in the repository. Migration of legacy stores, file permissions and SQLite pragmas are I/O. Of serde only
  the wire form of errors is modelled; the debug driver is a test tool.
\<close>

section \<open>Every commit is audited\<close>

text \<open>C9. Open a journal on a store, let any requests, checkpoints, verifications, key rotations and writes of other connections interleave: a
mutation that commits starts from a store whose audit chain verifies in full under the current keys, ends in a store whose chain verifies
again, and has only appended entries. The store that is opened and every store that another connection writes may be anything, with an audit chain
that fails too, but must keep two references between tables (links_ok): no rows of batch children under an operation without a published
result, and no ceremony grant in the record of an approval without activation. The requests are admissible, and the keys
that are opened with or rotated to are lawful signers.\<close>

theorem commits_are_audited:
  assumes "env_laws env" and "signer_laws env s" and "links_ok db"
    and "trace env es (from_connection env db v s, []) (j, P)"
    and "\<forall>r. Request r \<in> set es \<longrightarrow> request_admissible env r" and "\<forall>replacement. Rotate replacement \<in> set es \<longrightarrow> signer_laws env replacement"
    and "\<forall>db v. OtherWriter db v \<in> set es \<longrightarrow> links_ok db"
    and "request_admissible env r" and "commit_request env r j = (j', Inr out)"
  shows "verify_audit_chain_connection env (j_signer j) (j_db j) = Inr ()
    \<and> verify_audit_chain_connection env (j_signer j') (j_db j') = Inr ()
    \<and> (\<exists>rows. audit_chain (j_db j') = audit_chain (j_db j) @ rows)"
proof -
  have "event_ok env e" if "e \<in> set es" for e by (cases e) (use that assms(5-7) in auto)
  then have "journal_ok env j"
    using trace_ok [OF assms(4,1)] from_connection_ok(1) [OF assms(2,3)] by simp
  from commit_request_ok(3) [OF this assms(1,8,9)] show ?thesis by (simp add: chain_ok_def)
qed

text \<open>The journal is opened on an empty store, another connection replaces it, and the next request commits.\<close>

theorem commits_are_audited_witness:
  "let j = external_write active_db 2 (sample_journal empty_db); j' = fst (commit_request sample_env (CreateApproval ''b'' AS_Prepared) j) in
   trace sample_env [OtherWriter active_db 2] (from_connection sample_env empty_db 1 sample_signer, []) (j, [])
   \<and> length (audit_chain (j_db j')) = 1 \<and> verify_audit_chain_connection sample_env (j_signer j') (j_db j') = Inr ()"
proof -
  let ?j = "external_write active_db 2 (sample_journal empty_db)"
  have e: "audit_chain empty_db = []" "links_ok empty_db" by (auto simp: empty_db_def intro: links_ok_empty)
  have t: "trace sample_env [OtherWriter active_db 2] (from_connection sample_env empty_db 1 sample_signer, []) (?j, [])"
    unfolding sample_journal_def [symmetric]
    by (rule trace.more [OF step.written]) (simp_all add: sample_journal_eval e)
  obtain j' row where c: "commit_request sample_env (CreateApproval ''b'' AS_Prepared) ?j = (j', Inr (Durable ApprovalTransition ()))"
    and row: "audit_chain (j_db j') = [row]"
  proof -
    have "\<exists>j' row. commit_request sample_env (CreateApproval ''b'' AS_Prepared) ?j = (j', Inr (Durable ApprovalTransition ())) \<and> audit_chain (j_db j') = [row]"
      by (simp add: commit_request_def commit_def lock_for_mutation_def audit_degraded_def sample_journal_eval e external_write_def cached_audit_head_def
          tail_matches_def verify_audit_chain_connection_def initial_verify_state_def refresh_verified_audit_tail_def audit_head_def last_audit_row_def
          run_transaction_def run_simps create_approval_tx_def insert_approval_def j_signer_def sample_append)
         (simp add: select_approval_def active_db_def)
    then show thesis using that by blast
  qed
  have "links_ok active_db" by simp
  then show ?thesis
    using commits_are_audited [OF sample_env_laws sample_signer_laws e(2) t _ _ _ _ c] t c row by simp
qed

text \<open>C10. After a write of another connection that leaves an audit chain that does not verify,
the next mutation is refused, whatever it is, and the journal is degraded; its tables are
left as the other connection wrote them.\<close>

theorem tampering_is_refused:
  assumes "verify_audit_chain_connection env (j_signer j) db \<noteq> Inr ()" and "\<forall>t. j_tail j = Some t \<longrightarrow> tl_data_version t \<noteq> v"
    and "request_body env r = Inr body"
  shows "\<exists>j' e. commit_request env r (external_write db v j) = (j', Inl e) \<and> audit_degraded j'
    \<and> (\<exists>n. j_db j' = db\<lparr>total_changes := n\<rparr>)"
proof -
  let ?j = "external_write db v j"
  have "verify_audit_chain_connection env (j_signer ?j) (j_db ?j) \<noteq> Inr ()"
    using assms(1) by (simp add: external_write_def j_signer_def verify_audit_chain_connection_def verify_rows_changes)
  then obtain x where x: "verify_audit_chain_connection env (j_signer ?j) (j_db ?j) = Inl x"
    by (cases "verify_audit_chain_connection env (j_signer ?j) (j_db ?j)") auto
  have cached: "cached_audit_head env ?j = (?j, Inl x)"
    using assms(2) x by (cases "j_tail j") (auto simp: cached_audit_head_def tail_matches_def external_write_def)
  show ?thesis
  proof (cases "audit_degraded ?j")
    case True
    then show ?thesis
      using assms(3) by (auto simp: commit_request_def commit_degraded external_write_def)
  next
    case False
    then have "commit_request env r ?j = (latch_degradation (journal_cause ''journal_head_verification_failed'') ?j, Inl x)"
      using cached assms(3) by (simp add: commit_request_def commit_def lock_for_mutation_def)
    then show ?thesis by (auto simp: external_write_def)
  qed
qed

definition forged_db :: db where
  "forged_db = empty_db\<lparr>audit_chain := [\<lparr>au_sequence = 7, au_event_type = ''approval.created'', au_payload_jcs = ''{}'',
     au_previous_hash = zero_digest, au_entry_hash = zero_digest, au_signing_key_id = ''key-1'', au_signature = ''sig''\<rparr>]\<rparr>"

lemma forged_db_fails: "verify_audit_chain_connection sample_env s forged_db \<noteq> Inr ()"
proof
  assume "verify_audit_chain_connection sample_env s forged_db = Inr ()"
  then have "map au_sequence (ordered_chain forged_db) = map int [0 ..< length (audit_chain forged_db)]"
    by (intro ordered_chain_sequences(1) [OF _ sample_env_laws, of s]) (simp add: chain_ok_def)
  then show False by (simp add: forged_db_def ordered_chain_def)
qed

theorem tampering_is_refused_witness:
  "\<exists>j' e. commit_request sample_env (CompleteKeyRevocation ''op'') (external_write forged_db 2 (sample_journal empty_db)) = (j', Inl e)
    \<and> audit_degraded j' \<and> (\<exists>n. j_db j' = forged_db\<lparr>total_changes := n\<rparr>)"
proof (rule tampering_is_refused [OF forged_db_fails])
  show "\<forall>t. j_tail (sample_journal empty_db) = Some t \<longrightarrow> tl_data_version t \<noteq> 2"
    by (simp add: sample_journal_eval empty_db_def)
  show "request_body sample_env (CompleteKeyRevocation ''op'') = Inr (discarding (complete_key_revocation_tx sample_env ''op''))"
    by simp
qed

text \<open>C11. The latch is final: from a degraded journal no sequence of events clears or changes the
cause, and as long as no other connection writes, no table changes.\<close>

theorem degradation_is_final:
  assumes "trace env es (j, P) (j', P')" and "j_degradation j = Some cause"
  shows "j_degradation j' = Some cause \<and> ((\<forall>e \<in> set es. own_event e) \<longrightarrow> j_db j' = j_db j)
    \<and> (\<forall>r body. request_body env r = Inr body \<longrightarrow> commit_request env r j' = (j', Inl audit_degraded_error))"
proof -
  have "j_degradation j' = Some cause" using degraded_trace(1) [OF assms(1)] assms(2) by simp
  then have "audit_degraded j'" by (simp add: audit_degraded_def)
  with degraded_trace [OF assms(1)] assms(2) show ?thesis by (auto simp: commit_request_def commit_degraded)
qed

theorem degradation_is_final_witness:
  "\<exists>s'. trace sample_env [Request (CompleteKeyRevocation ''op'')]
      (latch_degradation (journal_cause ''x'') (sample_journal empty_db), []) s'
    \<and> j_degradation (fst s') = Some (journal_cause ''x'') \<and> j_db (fst s') = empty_db"
proof -
  let ?j = "latch_degradation (journal_cause ''x'') (sample_journal empty_db)"
  have d: "j_degradation ?j = Some (journal_cause ''x'')" "j_db ?j = empty_db"
    by (simp_all add: latch_degradation_def sample_journal_eval empty_db_def)
  then have "commit_request sample_env (CompleteKeyRevocation ''op'') ?j = (?j, Inl audit_degraded_error)"
    by (simp add: commit_request_def commit_degraded)
  then have t: "trace sample_env [Request (CompleteKeyRevocation ''op'')] (?j, []) (?j, [])"
    by (rule trace.more [OF step.refused trace.none])
  from degradation_is_final [OF t d(1)] d t show ?thesis by (intro exI [of _ "(?j, [])"]) simp
qed

text \<open>C12. What was checkpointed is never rewritten: along every trace in which only this
connection writes, the heads offered to the checkpoint sink come in the order of their sequence, and each
is the head of a prefix of the audit chain as it stands now.\<close>

theorem checkpoints_are_prefixes:
  assumes "env_laws env" and "signer_laws env s" and "links_ok db"
    and "trace env es (from_connection env db v s, []) (j, P)" and "\<forall>e \<in> set es. event_ok env e \<and> own_event e"
  shows "sorted (map fst (j_checkpointed j)) \<and> (\<forall>(n, h) \<in> set (j_checkpointed j).
    n \<le> length (audit_chain (j_db j)) \<and> head_of (take n (ordered_chain (j_db j))) = (n, h))"
proof -
  have "checkpoints_ok (from_connection env db v s)"
    by (simp add: checkpoints_ok_def from_connection_checkpointed)
  then have "checkpoints_ok j"
    using checkpoints_trace [OF assms(4,1,5)] from_connection_ok(1) [OF assms(2,3)] by simp
  then show ?thesis by (auto simp: checkpoints_ok_def ordered_chain_def)
qed

theorem checkpoints_are_prefixes_witness:
  "\<exists>j P. trace sample_env [Install (\<lambda>_ _. None), Request (CreateApproval ''a'' AS_Prepared), Finish 0]
      (from_connection sample_env empty_db 1 sample_signer, []) (j, P)
    \<and> map fst (j_checkpointed j) = [1] \<and> (\<forall>(n, h) \<in> set (j_checkpointed j). head_of (take n (ordered_chain (j_db j))) = (n, h))"
proof -
  let ?sink = "\<lambda>_ _. None" and ?db = "j_db (fst (commit_request sample_env (CreateApproval ''a'' AS_Prepared) (sample_journal empty_db)))"
  have e: "audit_chain empty_db = []" "select_approval ''a'' empty_db = None" "links_ok empty_db"
    by (auto simp: empty_db_def select_approval_def intro: links_ok_empty)
  let ?j1 = "(sample_journal empty_db)\<lparr>j_self_checkpoint := Some ?sink\<rparr>"
  let ?j2 = "(sample_journal empty_db)\<lparr>j_db := ?db, j_self_checkpoint := Some ?sink\<rparr>"
  have c: "commit_request sample_env (CreateApproval ''a'' AS_Prepared) ?j1 = (?j2, Inr (Durable ApprovalTransition ()))"
    by (simp add: sample_create_with [OF e(1,2)] sample_create [OF e(1,2)])
  obtain et p where "audit_chain ?db = [sample_entry et p]" by (simp add: sample_create [OF e(1,2)])
  from sample_finish [OF e(1) this, of ApprovalTransition] obtain j3 where
    f: "finish sample_env (Durable ApprovalTransition ()) ?j2 = (j3, Inr ())" "map fst (j_checkpointed j3) = [1]"
    by auto
  have "step sample_env (Install ?sink) (sample_journal empty_db, []) (?j1, [])"
    using step.installed [of sample_env ?sink] by (simp add: install_self_checkpoint_def)
  moreover have "step sample_env (Request (CreateApproval ''a'' AS_Prepared)) (?j1, []) (?j2, [Durable ApprovalTransition ()])"
    using step.committed [OF c, of "[]"] by simp
  moreover have "step sample_env (Finish 0) (?j2, [Durable ApprovalTransition ()]) (j3, [])"
    using step.finished [of 0 "[Durable ApprovalTransition ()]"] f(1) by simp
  ultimately have t: "trace sample_env [Install ?sink, Request (CreateApproval ''a'' AS_Prepared), Finish 0]
      (from_connection sample_env empty_db 1 sample_signer, []) (j3, [])"
    unfolding sample_journal_def by (meson trace.intros)
  from checkpoints_are_prefixes [OF sample_env_laws sample_signer_laws e(3) t] t f(2) show ?thesis by auto
qed

section \<open>Budgets hold along every trace\<close>

text \<open>The lifetime budget of an approval is never exceeded: when every reservation for the
approval carries limits of at most n operations and m signatures, then whatever other requests,
releases, publications and rotations happen, and in whatever order, the reservations of
the approval that were not released stay within n operations and m signatures.\<close>

theorem lifetime_budget_is_kept:
  assumes "trace env es (j, P) (j', P')" and "\<forall>e \<in> set es. own_event e" and "ledger_wf (j_db j)"
    and "length (live_reservations (j_db j) a) \<le> n" and "sum_list (map signatures_of (live_reservations (j_db j) a)) \<le> m"
    and "\<forall>request limits guard. Request (Reserve request limits guard) \<in> set es \<longrightarrow> rr_approval_id request = a \<longrightarrow>
      unat (bl_max_operations limits) \<le> n \<and> unat (bl_max_signatures limits) \<le> m"
  shows "length (live_reservations (j_db j') a) \<le> n \<and> sum_list (map signatures_of (live_reservations (j_db j') a)) \<le> m"
proof -
  have "within_lifetime a n m (j_db (fst (j, P)))" using assms(3-5) by (simp add: within_lifetime_def)
  from lifetime_budget.trace_invariant [OF assms(1,2) _ this] assms(6) show ?thesis by (simp add: within_lifetime_def)
qed

lemma sample_reserve_trace:
  "trace sample_env [Request (Reserve sample_reservation sample_limits True)] (sample_journal active_db, [])
     ((sample_journal active_db)\<lparr>j_db := reserved_db\<rparr>, [Durable ReservationCreated ()])"
proof (rule sample_trace)
  show "request_body sample_env (Reserve sample_reservation sample_limits True)
      = Inr (discarding (reserve_tx sample_env sample_reservation sample_limits True))"
    by (simp add: sample_reservation_def)
qed (simp_all add: discarding_def tx_bind_def tx_return_def sample_reserve)

lemma reserved_live: "live_reservations reserved_db ''a'' = [reservation_row_of sample_reservation]"
  by (simp add: reserved_db_def live_reservations_def)

theorem lifetime_budget_is_kept_witness:
  "length (live_reservations reserved_db ''a'') = 1 \<and> length (live_reservations reserved_db ''a'') \<le> 1
    \<and> sum_list (map signatures_of (live_reservations reserved_db ''a'')) \<le> 2"
  using lifetime_budget_is_kept [OF sample_reserve_trace, of "''a''" 1 2]
  by (simp add: reserved_live sample_limits_def)

text \<open>C13. Sliding windows are exact on the continuous time line under the durable clock. Take a trace of the journal's own events, without writes of other
connections, in which every reservation for the approval is guarded by the durable clock (the host profile of the clock does not guard) and
carries a window of d milliseconds with at most n operations and m signatures. When the store at the start has a well-formed ledger, no reservation of the
approval later than its clock, and no such interval above the limits, and evaluated times never go back behind the stored one (clock_law), then at the end no interval of d milliseconds, wherever it starts, holds more than that of
live reservations.\<close>

theorem sliding_windows_are_kept:
  assumes "trace env es (j, P) (j', P')" and "\<forall>e \<in> set es. own_event e" and "clock_law env"
    and "within_windows a n m d (j_db j)"
    and "\<forall>request limits guard. Request (Reserve request limits guard) \<in> set es \<longrightarrow> rr_approval_id request = a \<longrightarrow>
      guard \<and> (\<exists>limit \<in> set (bl_rate_limits limits). unat (sb_duration_ms limit) = d
        \<and> unat (sb_max_operations limit) \<le> n \<and> unat (sb_max_signatures limit) \<le> m)"
  shows "length (window_rows a start d (j_db j')) \<le> n \<and> sum_list (map signatures_of (window_rows a start d (j_db j'))) \<le> m"
proof -
  have "clock_law env \<and> within_windows a n m d (j_db (fst (j, P)))" using assms(3,4) by simp
  from window_budget.trace_invariant [OF assms(1,2) _ this] assms(5) show ?thesis by (auto simp: within_windows_def)
qed

theorem sliding_windows_are_kept_witness:
  "length (window_rows ''a'' 3 4 reserved_db) = 1 \<and> length (window_rows ''a'' 3 4 reserved_db) \<le> 1
    \<and> sum_list (map signatures_of (window_rows ''a'' 3 4 reserved_db)) \<le> 2"
proof -
  have "within_windows ''a'' 1 2 4 (j_db (sample_journal active_db))"
    by (simp add: within_windows_def window_rows_def)
  from sliding_windows_are_kept [OF sample_reserve_trace _ sample_clock_law this, of 3] show ?thesis
    by (simp add: sample_limits_def) (simp add: window_rows_def reserved_db_def in_window_def)
qed

text \<open>The value budget of an approval in an asset is never exceeded: when every reservation
for the approval carries at most the maximum for the asset, the amounts of its reservations that were
not released add up to at most the maximum after every trace.\<close>

theorem value_budget_is_kept:
  assumes "trace env es (j, P) (j', P')" and "\<forall>e \<in> set es. own_event e" and "ledger_wf (j_db j)"
    and "reserved_value env a asset (j_db j) \<le> maximum"
    and "\<forall>request limits guard. Request (Reserve request limits guard) \<in> set es \<longrightarrow> rr_approval_id request = a \<longrightarrow>
      (\<forall>limit. map_of (bl_value_limits limits) asset = Some limit \<longrightarrow> amount_of env limit \<le> maximum)"
  shows "reserved_value env a asset (j_db j') \<le> maximum"
  using value_budget.trace_invariant [OF assms(1,2), of a asset maximum] assms(3-5) by (simp add: within_value_def)

theorem value_budget_is_kept_witness:
  "reserved_value sample_env ''a'' ''usd'' reserved_db = 5 \<and> reserved_value sample_env ''a'' ''usd'' reserved_db \<le> 9"
proof -
  have "reserved_value sample_env ''a'' ''usd'' (j_db (sample_journal active_db)) \<le> 9"
    by (simp add: reserved_value_def live_values_def List.map_filter_def)
  from value_budget_is_kept [OF sample_reserve_trace _ _ this] show ?thesis
    by (simp add: sample_limits_def amount_of_def sample_env_def Let_def)
       (simp add: reserved_value_def live_values_def reserved_db_def List.map_filter_def select_reservation_def,
        simp add: amount_of_def Let_def)
qed

section \<open>Lifecycles along every trace\<close>

text \<open>C14. Approvals move only along the lifecycle: along every trace of own events an approval stays
in the store, and its state is reached from its earlier state by valid transitions, so that an
approval that expired, was revoked, cancelled, exhausted or failed stays so, and one that is active now
was never in such a state.\<close>

theorem approvals_keep_lifecycle:
  assumes "trace env es (j, P) (j', P')" and "\<forall>e \<in> set es. own_event e"
    and "stored_approval_state (j_db j) i = Some (approval_state_text a)"
  shows "\<exists>b. stored_approval_state (j_db j') i = Some (approval_state_text b) \<and> valid_approval_transition\<^sup>*\<^sup>* a b
    \<and> (a \<in> {AS_Exhausted, AS_Expired, AS_Revoked, AS_Cancelled, AS_Failed} \<longrightarrow> b = a)
    \<and> (b = AS_Active \<longrightarrow> a \<in> {AS_Prepared, AS_AwaitingCeremony, AS_Orphaned, AS_Active})"
proof -
  from approvals_order.trace_rel [OF assms(1,2)] assms(3) obtain b where
    b: "stored_approval_state (j_db j') i = Some (approval_state_text b)" "valid_approval_transition\<^sup>*\<^sup>* a b"
    by (auto simp: approvals_follow_def)
  have "b = a" if "a \<in> {AS_Exhausted, AS_Expired, AS_Revoked, AS_Cancelled, AS_Failed}"
    using approval_cycle.terminal_stays [OF _ b(2)] that by auto
  with b show ?thesis by (cases a) auto
qed

definition sample_transition_db :: db where
  "sample_transition_db = active_db\<lparr>approvals := [\<lparr>ap_approval_id = ''a'', ap_state = ''REVOKED''\<rparr>],
     audit_chain := [sample_entry ''approval.transition'' (json_object
       [(''approval_id'', JString ''a''), (''from'', JString ''ACTIVE''), (''to'', JString ''REVOKED'')])], total_changes := 2\<rparr>"

lemma sample_transition_trace:
  "trace sample_env [Request (TransitionApproval ''a'' AS_Revoked)] (sample_journal active_db, [])
     ((sample_journal active_db)\<lparr>j_db := sample_transition_db\<rparr>, [Durable ApprovalTransition ()])"
proof (rule sample_trace)
  have "parse_approval_state sample_env ''ACTIVE'' = Inr AS_Active" by (simp add: parse_approval_state_def all_approval_states_def)
  then show "discarding (transition_approval_tx sample_env ''a'' AS_Revoked) (active_signer (new_active_signer sample_signer)) active_db
      = (sample_transition_db, Inr (Durable ApprovalTransition ()))"
    by (simp add: transition_approval_tx_def run_simps select_approval_def update_approval_state_def sample_append
        sample_transition_db_def)
       (simp add: active_db_def empty_db_def run_simps update_approval_state_def sample_append update_where_def count_where_def)
qed simp_all

theorem approvals_keep_lifecycle_witness:
  "stored_approval_state active_db ''a'' = Some (approval_state_text AS_Active)
   \<and> (\<exists>b. stored_approval_state sample_transition_db ''a'' = Some (approval_state_text b) \<and> valid_approval_transition\<^sup>*\<^sup>* AS_Active b)"
proof -
  have a: "stored_approval_state active_db ''a'' = Some (approval_state_text AS_Active)"
    by (simp add: stored_approval_state_def select_approval_def active_db_def)
  from approvals_keep_lifecycle [OF sample_transition_trace, of "''a''" AS_Active] a show ?thesis by auto
qed

text \<open>C15. Operations keep what they committed to: along every trace of own events an operation keeps
its identity, digests, kind and retained receipt, a published result is never changed or removed, its
state only moves forward, and a key revocation can only become succeeded.\<close>

theorem operations_keep_results:
  assumes "trace env es (j, P) (j', P')" and "\<forall>e \<in> set es. own_event e" and "select_operation i (j_db j) = Some r"
  shows "\<exists>r'. select_operation i (j_db j') = Some r' \<and> op_operation_digest r' = op_operation_digest r
    \<and> op_retry_binding_digest r' = op_retry_binding_digest r \<and> op_kind r' = op_kind r \<and> op_is_batch r' = op_is_batch r
    \<and> op_validation_receipt_jcs r' = op_validation_receipt_jcs r
    \<and> (op_result_jcs r \<noteq> None \<longrightarrow> op_result_jcs r' = op_result_jcs r)
    \<and> (\<forall>a. op_state r = operation_state_text a \<longrightarrow> (\<exists>b. op_state r' = operation_state_text b
         \<and> (b = a \<or> operation_rank a < operation_rank b)
         \<and> (op_kind r = KEY_REVOCATION_KIND \<longrightarrow> b = a \<or> b = OS_Succeeded)))"
proof -
  from operations_order.trace_rel [OF assms(1,2)] assms(3) obtain r' where
    r': "select_operation i (j_db j') = Some r'" "operation_follows r r'"
    by (auto simp: operations_follow_def)
  have "\<exists>b. op_state r' = operation_state_text b \<and> (b = a \<or> operation_rank a < operation_rank b)
         \<and> (op_kind r = KEY_REVOCATION_KIND \<longrightarrow> b = a \<or> b = OS_Succeeded)"
    if "op_state r = operation_state_text a" for a
  proof -
    from that r'(2) obtain b where b: "op_state r' = operation_state_text b" "(operation_moves (op_kind r))\<^sup>*\<^sup>* a b"
      by (auto simp: operation_follows_def)
    have "op_kind r = KEY_REVOCATION_KIND \<longrightarrow> b = a \<or> b = OS_Succeeded"
      using b(2) by (induction rule: rtranclp_induct) (auto simp: operation_moves_def)
    with b operation_moves.star_rank [OF b(2)] show ?thesis by auto
  qed
  with r' show ?thesis by (auto simp: operation_follows_def)
qed

definition revocation_db :: db where
  "revocation_db = active_db\<lparr>operations := [\<lparr>op_operation_id = ''k'', op_operation_digest = ''d'', op_retry_binding_digest = ''d'',
     op_state = ''RECEIVED'', op_is_batch = False, op_result_jcs = None, op_validation_receipt_jcs = None,
     op_kind = KEY_REVOCATION_KIND\<rparr>]\<rparr>"

theorem operations_keep_results_witness:
  "\<exists>j' P' r r'. trace sample_env [Request (CompleteKeyRevocation ''k'')] (sample_journal revocation_db, []) (j', P')
    \<and> select_operation ''k'' revocation_db = Some r \<and> select_operation ''k'' (j_db j') = Some r'
    \<and> op_operation_digest r' = op_operation_digest r \<and> op_kind r' = KEY_REVOCATION_KIND"
proof -
  let ?s = "active_signer (new_active_signer sample_signer)"
  have c: "audit_chain revocation_db = []" by (simp add: revocation_db_def)
  obtain db' where run: "discarding (complete_key_revocation_tx sample_env ''k'') ?s revocation_db
      = (db', Inr (Durable OperationTransition ()))"
    by (simp add: complete_key_revocation_tx_def run_simps update_operations_def revocation_db_def update_where_def
        count_where_def sample_append)
  have t: "trace sample_env [Request (CompleteKeyRevocation ''k'')] (sample_journal revocation_db, [])
      ((sample_journal revocation_db)\<lparr>j_db := db'\<rparr>, [Durable OperationTransition ()])"
    by (rule sample_trace [where body = "discarding (complete_key_revocation_tx sample_env ''k'')", OF c _ run]) simp
  obtain r where r: "select_operation ''k'' revocation_db = Some r" "op_kind r = KEY_REVOCATION_KIND"
    by (simp add: revocation_db_def select_operation_def)
  moreover have "j_db (sample_journal revocation_db) = revocation_db" by (simp add: sample_journal_eval [OF c])
  ultimately have "select_operation ''k'' (j_db (sample_journal revocation_db)) = Some r" by simp
  from operations_keep_results [OF t _ this] t r show ?thesis by fastforce
qed

text \<open>Reservations are final: along every trace of own events no reservation disappears, its
accounting fields never change, and once committed, released or in another terminal state it stays so.\<close>

theorem reservations_are_final:
  assumes "trace env es (j, P) (j', P')" and "\<forall>e \<in> set es. own_event e" and "ledger_wf (j_db j)"
    and "select_reservation a i (j_db j) = Some r"
  shows "ledger_wf (j_db j') \<and> (\<exists>st. select_reservation a i (j_db j') = Some (r\<lparr>rs_state := st\<rparr>)
    \<and> (rs_state r \<noteq> ''RESERVED'' \<longrightarrow> st = rs_state r))"
proof -
  from ledger_order.trace_rel [OF assms(1,2)] assms(3) have wf: "ledger_wf (j_db j')"
    and f: "rows_follow (reservations (j_db j)) (reservations (j_db j'))"
    by (auto simp: ledger_follow_def)
  from f obtain old new where rows: "reservations (j_db j') = old @ new" "list_all2 reservation_follows (reservations (j_db j)) old"
    by (auto simp: rows_follow_def)
  have r: "r \<in> set (reservations (j_db j))" "rs_approval_id r = a" "rs_operation_id r = i"
    using assms(4) by (auto simp: select_reservation_def dest: find_SomeD)
  then obtain r' where r': "r' \<in> set old" "reservation_follows r r'"
    using rows(2) by (metis in_set_conv_nth list_all2_conv_all_nth)
  then have k: "rs_approval_id r' = a" "rs_operation_id r' = i" using r by (auto simp: reservation_follows_def)
  obtain r'' where s: "select_reservation a i (j_db j') = Some r''"
    using r'(1) k rows(1) by (cases "select_reservation a i (j_db j')") (auto simp: select_reservation_None reservation_key_def image_iff)
  have "r'' = r'" using select_reservation_unique [OF wf s] r'(1) k rows(1) by fastforce
  then show ?thesis using wf s r'(2) by (cases r) (auto simp: reservation_follows_def)
qed

theorem reservations_are_final_witness:
  "\<exists>j' P' st. trace sample_env [Request (FinalizeReservation ''a'' ''o'' RS_Released)]
      (sample_journal (active_db\<lparr>reservations := [reservation_row_of sample_reservation]\<rparr>), []) (j', P')
    \<and> select_reservation ''a'' ''o'' (j_db j') = Some ((reservation_row_of sample_reservation)\<lparr>rs_state := st\<rparr>)"
proof -
  let ?db = "active_db\<lparr>reservations := [reservation_row_of sample_reservation]\<rparr>" and ?s = "active_signer (new_active_signer sample_signer)"
  have row: "rs_state (reservation_row_of sample_reservation) = ''RESERVED''"
    by (simp add: reservation_row_of_def)
  obtain db' where run: "discarding (finalize_reservation_tx sample_env ''a'' ''o'' RS_Released) ?s ?db
      = (db', Inr (Durable ReservationFinalized ()))"
    by (simp add: finalize_reservation_tx_def run_simps select_reservation_def row update_reservation_state_def sample_append)
  have t: "trace sample_env [Request (FinalizeReservation ''a'' ''o'' RS_Released)] (sample_journal ?db, [])
      ((sample_journal ?db)\<lparr>j_db := db'\<rparr>, [Durable ReservationFinalized ()])"
    by (rule sample_trace [where body = "discarding (finalize_reservation_tx sample_env ''a'' ''o'' RS_Released)", OF _ _ run]) simp_all
  have "ledger_wf (j_db (sample_journal ?db))" "select_reservation ''a'' ''o'' (j_db (sample_journal ?db)) = Some (reservation_row_of sample_reservation)"
    by (simp_all add: sample_journal_eval ledger_wf_def select_reservation_def row)
  from reservations_are_final [OF t _ this] t show ?thesis by fastforce
qed

text \<open>Effective time never goes back: along every trace of own events (observations with any
readings, repairs with any accepted time) the durable effective time only grows.\<close>

theorem clock_is_monotone:
  assumes "trace env es (j, P) (j', P')" and "\<forall>e \<in> set es. own_event e" and "clock_law env"
    and "effective_time (j_db j) = Some t"
  shows "\<exists>t'. effective_time (j_db j') = Some t' \<and> t \<le> t'"
  using clock_order.trace_rel [OF assms(1,2)] assms(3,4) by (auto simp: clock_follow_def)

definition sample_reading :: TimeReading where
  "sample_reading = \<lparr>tr_utc_ms = Some 9, tr_monotonic_elapsed_ms = 0, tr_monotonic_anchor_ns = 0, tr_boot_epoch = ''b''\<rparr>"

theorem clock_is_monotone_witness:
  "\<exists>j' P' t'. trace sample_env [Request (ObserveTime sample_reading 5 True)] (sample_journal active_db, []) (j', P')
    \<and> effective_time (j_db j') = Some t' \<and> 7 \<le> t'"
proof -
  let ?s = "active_signer (new_active_signer sample_signer)"
  have p: "\<exists>anchor epoch. persisted_clock sample_env (clock_state active_db)
      = Inr (Some \<lparr>pc_last_effective_ms = 7, pc_monotonic_anchor_ns = anchor, pc_boot_epoch = epoch\<rparr>)"
    by (simp add: persisted_clock_def active_db_def parse_u64_def)
       (simp add: u64_from_str_def Let_def USIZE_LIMIT_def sample_env_def)
  obtain db' where run: "discarding (observe_time_tx sample_env sample_reading 5 True) ?s active_db = (db', Inr (Checkpointed ()))"
    using p by (auto simp: observe_time_tx_def run_simps sample_reading_def write_clock_state_def upsert_clock_def append_when_def
        Let_def sample_evaluate_durable_clock_def) (auto simp: active_db_def run_simps)
  have t: "trace sample_env [Request (ObserveTime sample_reading 5 True)] (sample_journal active_db, [])
      ((sample_journal active_db)\<lparr>j_db := db'\<rparr>, [Checkpointed ()])"
    by (rule sample_trace [where body = "discarding (observe_time_tx sample_env sample_reading 5 True)", OF _ _ run]) simp_all
  from clock_is_monotone [OF t _ sample_clock_law, of 7] t show ?thesis by fastforce
qed

section \<open>The functions of the journal\<close>

text \<open>Mutations are atomic: one that reports an error before its commit leaves every table as it
was; only SQLite's counter of changed rows may have advanced.\<close>

theorem failed_commits_change_nothing:
  assumes "commit_request env r j = (j', Inl e)"
  shows "\<exists>n. j_db j' = (j_db j)\<lparr>total_changes := n\<rparr>"
proof (cases "request_body env r")
  case (Inl x)
  with assms show ?thesis by (intro exI [of _ "total_changes (j_db j)"]) (simp add: commit_request_def)
next
  case (Inr body)
  with assms have "commit env body j = (j', Inl e)" by (simp add: commit_request_def)
  then show ?thesis
  proof (cases rule: commit_store)
    case kept
    then show ?thesis by (intro exI [of _ "total_changes (j_db j)"]) simp
  qed auto
qed

theorem failed_commits_change_nothing_witness:
  "\<exists>j' e n. commit_request sample_env (CreateApproval ''a'' AS_Prepared) (sample_journal active_db) = (j', Inl e)
    \<and> j_db j' = active_db\<lparr>total_changes := n\<rparr>"
proof -
  obtain j' e where f: "commit_request sample_env (CreateApproval ''a'' AS_Prepared) (sample_journal active_db) = (j', Inl e)"
    by (simp add: commit_request_def commit_def lock_for_mutation_def audit_degraded_def sample_journal_eval cached_audit_head_def
        tail_matches_def run_transaction_def discarding_def tx_bind_def create_approval_tx_def insert_approval_def)
       (simp add: active_db_def select_approval_def)
  from failed_commits_change_nothing [OF f] f show ?thesis by auto
qed

lemma commit_request_sink:
  "commit_request env r j = (j', res) \<Longrightarrow> j_self_checkpoint j' = j_self_checkpoint j"
  by (auto simp: commit_request_def commit_def lock_for_mutation_def cached_audit_head_def refresh_verified_audit_tail_def
      latch_degradation_def split: if_splits option.splits sum.splits prod.splits)

lemma checkpoint_accepted:
  assumes "checkpoint_committed_head env j = (j', Inr ())" and "j_self_checkpoint j = Some sink"
  obtains head where "sink (j_checkpointed j) head = None" and "j_checkpointed j' = j_checkpointed j @ [head]"
  using assms
  by (auto simp: checkpoint_committed_head_def Let_def cached_audit_head_def refresh_verified_audit_tail_def
      checkpoint_failed_def split: if_splits option.splits sum.splits prod.splits)

text \<open>C17. A mutation that reports success was checkpointed first: when a checkpoint sink is installed
and a function that changed the store or replayed an earlier change succeeds, the sink
accepted the head of the audit chain as it is after the commit.\<close>

theorem success_is_checkpointed:
  assumes "env_laws env" and "journal_ok env j" and "request_admissible env r" and "j_self_checkpoint j = Some sink"
    and "commit_request env r j = (j1, Inr out)" and "out \<noteq> Unchanged ()" and "handle env r j = (j', Inr ())"
  shows "j_checkpointed j' = j_checkpointed j @ [head_of (ordered_chain (j_db j'))]
    \<and> sink (j_checkpointed j) (head_of (ordered_chain (j_db j'))) = None"
proof -
  have ok: "journal_ok env j1" and old: "j_checkpointed j1 = j_checkpointed j"
    using commit_request_ok(1,2) [OF assms(2,1,3,5)] by simp_all
  have fin: "finish env out j1 = (j', Inr ())" using assms(5,7) by (simp add: handle_def)
  then obtain j2 where c: "checkpoint_committed_head env j1 = (j2, Inr ())" "j_db j' = j_db j2" "j_checkpointed j' = j_checkpointed j2"
    using assms(6) by (cases out) (auto split: prod.splits sum.splits)
  have sink: "j_self_checkpoint j1 = Some sink" using commit_request_sink [OF assms(5)] assms(4) by simp
  obtain head where h: "sink (j_checkpointed j1) head = None" "j_checkpointed j2 = j_checkpointed j1 @ [head]"
    using checkpoint_accepted [OF c(1) sink] by blast
  with checkpoint_ok(5) [OF ok c(1)] have "audit_head env (j_db j1) = Inr head" "chain_ok env (j_signer j1) (j_db j1)" by auto
  then have "head = head_of (ordered_chain (j_db j1))" using ordered_chain_sequences(2) assms(1) by blast
  with h c old checkpoint_store(1) [OF c(1)] show ?thesis by simp
qed

theorem success_is_checkpointed_witness:
  "\<exists>j' h. handle sample_env (CreateApproval ''a'' AS_Prepared) ((sample_journal empty_db)\<lparr>j_self_checkpoint := Some (\<lambda>_ _. None)\<rparr>) = (j', Inr ())
    \<and> j_checkpointed j' = [h] \<and> h = head_of (ordered_chain (j_db j')) \<and> length (audit_chain (j_db j')) = 1"
proof -
  let ?j = "(sample_journal empty_db)\<lparr>j_self_checkpoint := Some (\<lambda>_ _. None)\<rparr>"
  have e: "audit_chain empty_db = []" "select_approval ''a'' empty_db = None" "links_ok empty_db"
    by (simp_all add: empty_db_def select_approval_def links_ok_def select_children_def)
  obtain db' et p where c: "commit_request sample_env (CreateApproval ''a'' AS_Prepared) ?j
      = ((sample_journal empty_db)\<lparr>j_db := db', j_self_checkpoint := Some (\<lambda>_ _. None)\<rparr>, Inr (Durable ApprovalTransition ()))"
    and ch: "audit_chain db' = [sample_entry et p]"
    using sample_create_with [OF e(1,2), of AS_Prepared "Some (\<lambda>_ _. None)"] by fastforce
  have ok: "journal_ok sample_env ?j"
    using sample_journal_ok [OF e(3)] install_sel(4) [of sample_env "\<lambda>_ _. None"] by (simp add: install_self_checkpoint_def)
  obtain j' where h: "handle sample_env (CreateApproval ''a'' AS_Prepared) ?j = (j', Inr ())"
    using sample_finish [OF e(1) ch, of ApprovalTransition] c by (auto simp: handle_def)
  from success_is_checkpointed [OF sample_env_laws ok _ _ c _ h]
  have k: "j_checkpointed j' = [head_of (ordered_chain (j_db j'))]" by (simp add: sample_journal_eval [OF e(1)])
  have "length (audit_chain (j_db j')) = 1"
    using h c ch by (auto simp: handle_def dest!: finish_store simp del: finish.simps)
  with h k show ?thesis by blast
qed

section \<open>The chain as evidence\<close>

text \<open>C18. A head commits to the whole history: when the chains of two stores verify, under whatever keys, and have the same head, and
the entries of the first are as the code writes them (an event type without white space, the text of an object as payload), then the chains hold entry by entry the same
sequence numbers, previous hashes, entry hashes, event types and payloads, or the texts that are hashed for an entry of each at the same place differ and
are a collision of SHA-256. The second chain may be anything that verifies. Nothing separates event type and payload in the text that is hashed: they
are kept apart because verification reads every payload as JSON (json_texts_law). Signatures are not part of what the head commits to.\<close>

theorem equal_heads_equal_history:
  assumes "env_laws env" and "\<forall>t d. e_digest32_new env t = Inr d \<longrightarrow> length t = 64" and "json_texts_law env"
    and "verify_audit_chain_connection env s db = Inr ()" and "verify_audit_chain_connection env s' db' = Inr ()"
    and "audit_head env db = Inr head" and "audit_head env db' = Inr head" and "list_all object_entry (audit_chain db)"
  shows "list_all2 same_entry (ordered_chain db) (ordered_chain db')
    \<or> (\<exists>i < length (audit_chain db). audit_preimage (ordered_chain db ! i) \<noteq> audit_preimage (ordered_chain db' ! i)
        \<and> e_sha256 env (audit_preimage (ordered_chain db ! i)) = e_sha256 env (audit_preimage (ordered_chain db' ! i)))"
proof -
  let ?xs = "ordered_chain db" and ?ys = "ordered_chain db'"
  have ok: "chain_ok env s db" "chain_ok env s' db'" using assms(4,5) by (simp_all add: chain_ok_def)
  have heads: "head = head_of ?xs" "head = head_of ?ys" using ordered_chain_sequences(2) ok assms(1,6,7) by blast+
  then have len: "length ?xs = length ?ys" by (simp add: head_of_def)
  have objects: "list_all object_entry ?xs" using assms(8) by (simp add: ordered_chain_def list_all_iff)
  obtain st st' where st: "verify_rows env db s ?xs initial_verify_state = Inr st" "verify_rows env db' s' ?ys initial_verify_state = Inr st'"
    using chain_ok_rows [OF ok(1)] chain_ok_rows [OF ok(2)] unfolding ordered_chain_def by metis
  have "vs_expected_previous st = vs_expected_previous st'"
    using verify_rows_facts [OF assms(1) st(1)] verify_rows_facts [OF assms(1) st(2)] heads len
    by (auto simp: head_of_def initial_verify_state_def)
  from verified_rows_agree [OF assms(1,3) _ len objects st this] assms(2) len show ?thesis
    by (auto simp: list_all2_conv_all_nth ordered_chain_def)
qed

text \<open>The same entry in two stores, signed differently and verified under different keys.\<close>

definition other_signer :: AuditSigner where
  "other_signer = \<lparr>as_key_id = ''key-3'', as_sign = (\<lambda>m. Inr ''other''), as_verify = (\<lambda>k m s. k = ''key-3'' \<and> s = ''other'')\<rparr>"

definition one_entry_db :: "AuditSigner \<Rightarrow> string \<Rightarrow> db" where
  "one_entry_db s signature = empty_db\<lparr>audit_chain := [(sample_entry ''approval.created'' JNull)\<lparr>au_signing_key_id := as_key_id s, au_signature := signature\<rparr>]\<rparr>"

lemma one_entry_verifies:
  assumes "as_verify s = (\<lambda>k m t. k = as_key_id s \<and> t = signature)"
  shows "verify_audit_chain_connection sample_env s (one_entry_db s signature) = Inr ()"
    and "audit_head sample_env (one_entry_db s signature) = Inr (1, au_entry_hash (sample_entry ''approval.created'' JNull))"
    and "list_all object_entry (audit_chain (one_entry_db s signature))"
proof -
  have z: "sample_digest32_new zero_digest = Inr zero_digest" using env_lawsD(2) [OF sample_env_laws] by simp
  have h: "sample_digest32_new (compute_audit_hash sample_env n et p d) = Inr (compute_audit_hash sample_env n et p d)" for n et p d
    by (simp add: compute_audit_hash_def sample_digest32_new_def)
  have t: "e_token_new sample_env k = Inr k" "e_base64url_parse sample_env k = Inr k" for k by (simp_all add: sample_env_def)
  show "verify_audit_chain_connection sample_env s (one_entry_db s signature) = Inr ()"
    by (simp add: verify_audit_chain_connection_def one_entry_db_def verify_row_def sample_entry_def Let_def u64_try_from_def z h t assms
        initial_verify_state_def verify_audit_correlation_def verify_rotation_def USIZE_LIMIT_def is_ok_def)
  show "audit_head sample_env (one_entry_db s signature) = Inr (1, au_entry_hash (sample_entry ''approval.created'' JNull))"
    by (simp add: audit_head_def one_entry_db_def last_audit_row_def u64_try_from_def sample_entry_def Let_def h USIZE_LIMIT_def)
  show "list_all object_entry (audit_chain (one_entry_db s signature))"
    by (simp add: one_entry_db_def object_entry_def sample_entry_def Let_def sample_text_def blank_def)
qed

theorem equal_heads_equal_history_witness:
  "let db = one_entry_db sample_signer ''sig''; db' = one_entry_db other_signer ''other'' in
   audit_chain db \<noteq> audit_chain db' \<and> list_all2 same_entry (ordered_chain db) (ordered_chain db') \<and> length (ordered_chain db) = 1"
proof -
  let ?db = "one_entry_db sample_signer ''sig''" and ?db' = "one_entry_db other_signer ''other''"
  have v: "as_verify sample_signer = (\<lambda>k m t. k = as_key_id sample_signer \<and> t = ''sig'')"
    "as_verify other_signer = (\<lambda>k m t. k = as_key_id other_signer \<and> t = ''other'')"
    by (simp_all add: sample_signer_def other_signer_def)
  have "audit_preimage (ordered_chain ?db ! 0) = audit_preimage (ordered_chain ?db' ! 0)"
    by (simp add: one_entry_db_def ordered_chain_def audit_preimage_def)
  moreover have "length (audit_chain ?db) = 1" "\<forall>t d. e_digest32_new sample_env t = Inr d \<longrightarrow> length t = 64"
    by (auto simp: one_entry_db_def sample_digest32_new_def split: if_splits)
  ultimately have "list_all2 same_entry (ordered_chain ?db) (ordered_chain ?db')"
    using equal_heads_equal_history [OF sample_env_laws _ sample_json_texts_law one_entry_verifies(1) [OF v(1)] one_entry_verifies(1) [OF v(2)]
        one_entry_verifies(2) [OF v(1)] one_entry_verifies(2) [OF v(2)] one_entry_verifies(3) [OF v(1)]]
    by auto
  moreover have "audit_chain ?db \<noteq> audit_chain ?db'" by (simp add: one_entry_db_def sample_entry_def Let_def)
  ultimately show ?thesis by (simp add: one_entry_db_def ordered_chain_def)
qed

text \<open>C16. In an opened journal, where what is cached of the chain was verified and the references between tables hold, rotating the audit key to a lawful
signer succeeds only over a chain that verifies, and leaves a chain that verifies under the new registry, extended by exactly two entries: the
rotation, signed with the old key, and its completion, signed with the new one, which signs from then on.\<close>

theorem rotation_keeps_the_chain:
  assumes "env_laws env" and "journal_ok env j" and "signer_laws env replacement"
    and "rotate_audit_key env replacement j = (j', Inr ())"
  shows "verify_audit_chain_connection env (j_signer j) (j_db j) = Inr ()
    \<and> verify_audit_chain_connection env (j_signer j') (j_db j') = Inr () \<and> as_key_id (j_signer j') = as_key_id replacement
    \<and> (\<exists>a b. audit_chain (j_db j') = audit_chain (j_db j) @ [a, b]
         \<and> au_event_type a = ''audit.key_rotated'' \<and> au_signing_key_id a = as_key_id (j_signer j)
         \<and> au_event_type b = ''audit.key_rotation_completed'' \<and> au_signing_key_id b = as_key_id replacement)"
  using assms(2,1,3,4)
proof (cases rule: rotate_cases)
  case (ran j2 rows)
  note c = checkpoint_ok(2,3) [OF ran(1,7)]
  have "j_signer j' = j_signer j2" using c(2) by (simp add: j_signer_def)
  moreover have "as_key_id (j_signer j2) = as_key_id replacement" using ran(6) by (simp add: j_signer_def install_signer_def)
  ultimately show ?thesis using ran(2,3) c(1) rotate_tx_rows [OF ran(8)] by (simp add: chain_ok_def)
qed simp

definition sample_replacement :: AuditSigner where
  "sample_replacement = \<lparr>as_key_id = ''key-2'', as_sign = (\<lambda>m. Inr ''sig''), as_verify = (\<lambda>k m s. k = ''key-2'' \<and> s = ''sig'')\<rparr>"

theorem rotation_keeps_the_chain_witness:
  "\<exists>j'. rotate_audit_key sample_env sample_replacement (sample_journal empty_db) = (j', Inr ())
    \<and> verify_audit_chain_connection sample_env (j_signer j') (j_db j') = Inr () \<and> length (audit_chain (j_db j')) = 2"
proof -
  have e: "audit_chain empty_db = []" "links_ok empty_db"
    by (simp_all add: empty_db_def links_ok_def select_children_def)
  have z: "sample_digest32_new zero_digest = Inr zero_digest" using env_lawsD(2) [OF sample_env_laws] by simp
  have h: "sample_digest32_new (compute_audit_hash sample_env n et p d) = Inr (compute_audit_hash sample_env n et p d)" for n et p d
    by (simp add: compute_audit_hash_def sample_digest32_new_def)
  have "snd (rotate_audit_key sample_env sample_replacement (sample_journal empty_db)) = Inr ()"
    using e z h
    by (simp add: rotate_audit_key_def sample_journal_eval j_signer_def new_active_signer_def sample_replacement_def sample_signer_def
        lock_for_mutation_def audit_degraded_def cached_audit_head_def tail_matches_def run_transaction_def rotate_audit_key_tx_def
        Let_def append_audit_def tx_bind_def tx_query_def tx_lift_def tx_check_def tx_return_def last_audit_row_def u64_try_from_def
        i64_succ_def insert_audit_def changed_def checkpoint_committed_head_def refresh_verified_audit_tail_def audit_head_def
        USIZE_LIMIT_def I64_MAX_def)
  then obtain j' where r: "rotate_audit_key sample_env sample_replacement (sample_journal empty_db) = (j', Inr ())"
    by (metis prod.collapse)
  have "signer_laws sample_env sample_replacement"
    by (simp add: signer_laws_def sample_replacement_def) (simp add: sample_env_def)
  from rotation_keeps_the_chain [OF sample_env_laws sample_journal_ok [OF e(2)] this r] r e show ?thesis
    by (auto simp: sample_journal_eval)
qed

end
